(* ===== verification/Netsim_Prelude.thy ===== *)
theory Netsim_Prelude
  imports Complex_Main "HOL-Library.Word" "HOL-Library.Monad_Syntax"
begin

text \<open>
  Shared vocabulary of the development: the machine types of the C sources, the list
  traversals the sources write again and again (first match, unlinking one cell), and
  the two locales that state the contracts the components share.

  The option monad is the execution model of every handler that touches memory through a
  pointer: \<open>None\<close> is undefined behaviour of the C program (a null pointer that is
  followed, a freed packet that is used, an array index out of range), \<open>Some\<close> carries the
  state after the call.  Times are C \<open>double\<close>s counted in microseconds; they are modelled
  as \<open>real\<close>, so rounding is not modelled.
\<close>

section \<open>Machine types\<close>

type_synonym u8 = "8 word"
type_synonym u32 = "32 word"
type_synonym NETSIM_ID = nat
type_synonym simtime = real

text \<open>
  Conversion of a \<open>double\<close> to \<open>unsigned int\<close>: truncation towards zero.  In C the
  conversion is defined for values in the range of the target type only; outside of it
  this function reduces modulo \<open>2 ^ 32\<close>, and no theorem below relies on that.
\<close>

definition double_to_uint :: "real \<Rightarrow> u32" where
  "double_to_uint x = word_of_int (if 0 \<le> x then \<lfloor>x\<rfloor> else \<lceil>x\<rceil>)"

text \<open>
  Results of type \<open>int\<close> outside 32 bits are undefined; division truncates toward zero; a
  conversion from \<open>double\<close> drops the fraction and is undefined out of range.
\<close>

definition c_int :: "int \<Rightarrow> int option" where
  "c_int i = (if - (2 ^ 31) \<le> i \<and> i < 2 ^ 31 then Some i else None)"

definition c_quot :: "int \<Rightarrow> int \<Rightarrow> int option" where
  "c_quot a b = (if b = 0 then None else c_int (sgn a * sgn b * (\<bar>a\<bar> div \<bar>b\<bar>)))"

definition double_to_int :: "real \<Rightarrow> int option" where
  "double_to_int x = c_int (if 0 \<le> x then \<lfloor>x\<rfloor> else \<lceil>x\<rceil>)"

definition assert_c :: "bool \<Rightarrow> unit option" where
  "assert_c b = (if b then Some () else None)"

lemma assert_c_simps [simp]:
  "assert_c b = Some u \<longleftrightarrow> b"
  "assert_c b = None \<longleftrightarrow> \<not> b"
  "assert_c True = Some ()"
  "assert_c False = None"
  by (simp_all add: assert_c_def)

named_theorems aodv_defs \<open>the handlers' definitions\<close>
named_theorems aodv_keeps \<open>what an operation keeps of an invariant\<close>

section \<open>Facts on the option monad\<close>

lemma bind_SomeE:
  assumes "Option.bind m f = Some y"
  obtains x where "m = Some x" and "f x = Some y"
  using assms by (cases m) auto

lemma option_bind_cong_Some:
  "m = Some x \<Longrightarrow> Option.bind m f = f x"
  by simp

section \<open>List traversals\<close>

text \<open>The position of the first element that satisfies \<open>P\<close>: a \<open>while(table)\<close> search.\<close>

fun first_idx :: "('a \<Rightarrow> bool) \<Rightarrow> 'a list \<Rightarrow> nat option" where
  "first_idx P [] = None"
| "first_idx P (x # xs) = (if P x then Some 0 else map_option Suc (first_idx P xs))"

text \<open>Unlinking the cell at position \<open>i\<close>.\<close>

definition remove_nth :: "nat \<Rightarrow> 'a list \<Rightarrow> 'a list" where
  "remove_nth i xs = take i xs @ drop (Suc i) xs"

lemma first_idx_None_iff: "first_idx P xs = None \<longleftrightarrow> (\<forall>x \<in> set xs. \<not> P x)"
  by (induction xs) auto

lemma first_idx_SomeD:
  "first_idx P xs = Some i \<Longrightarrow> i < length xs \<and> P (xs ! i) \<and> (\<forall>j < i. \<not> P (xs ! j))"
proof (induction xs arbitrary: i)
  case Nil
  then show ?case by simp
next
  case (Cons x xs)
  show ?case
  proof (cases "P x")
    case True
    with Cons.prems show ?thesis by simp
  next
    case False
    with Cons.prems obtain k where k: "first_idx P xs = Some k" and i: "i = Suc k"
      by auto
    from Cons.IH [OF k] False i show ?thesis
      by (auto simp: nth_Cons split: nat.splits)
  qed
qed

lemma first_idx_find: "map_option (\<lambda>i. xs ! i) (first_idx P xs) = find P xs"
  by (induction xs) (auto simp: option.map_comp o_def)

lemma first_idx_find_Some: "first_idx P xs = Some i \<Longrightarrow> find P xs = Some (xs ! i)"
  using first_idx_find [of xs P] by simp

lemma first_idx_find_None: "first_idx P xs = None \<longleftrightarrow> find P xs = None"
  by (simp flip: first_idx_find)

lemma first_idx_list_update: "first_idx P xs = Some i \<Longrightarrow> P y \<Longrightarrow> first_idx P (xs[i := y]) = Some i"
  by (induction xs arbitrary: i) (auto split: if_splits)

lemma remove_nth_Cons_0 [simp]: "remove_nth 0 (x # xs) = xs"
  by (simp add: remove_nth_def)

lemma remove_nth_Cons_Suc [simp]: "remove_nth (Suc i) (x # xs) = x # remove_nth i xs"
  by (simp add: remove_nth_def)

lemma set_remove_nth: "set (remove_nth i xs) \<subseteq> set xs"
  by (auto simp: remove_nth_def dest: in_set_takeD in_set_dropD)

lemma length_remove_nth: "i < length xs \<Longrightarrow> length (remove_nth i xs) = length xs - 1"
  by (simp add: remove_nth_def)

lemma map_remove_nth: "map f (remove_nth i xs) = remove_nth i (map f xs)"
  by (simp add: remove_nth_def take_map drop_map)

lemma distinct_remove_nth: "distinct xs \<Longrightarrow> distinct (remove_nth i xs)"
  by (auto simp: remove_nth_def dest: set_take_disj_set_drop_if_distinct [of xs i "Suc i"])

lemma remove_nth_filter:
  "distinct (map f xs) \<Longrightarrow> i < length xs \<Longrightarrow>
     remove_nth i xs = filter (\<lambda>x. f x \<noteq> f (xs ! i)) xs"
proof (induction xs arbitrary: i)
  case Nil
  then show ?case by simp
next
  case (Cons x xs)
  show ?case
  proof (cases i)
    case 0
    have "filter (\<lambda>y. f y \<noteq> f x) xs = xs"
      using Cons.prems by (metis (mono_tags, lifting) distinct.simps(2) filter_True image_eqI
          list.set_map list.simps(9))
    with 0 show ?thesis by simp
  next
    case (Suc k)
    then have "f x \<noteq> f (xs ! k)" and "k < length xs"
      using Cons.prems by (auto simp: image_iff)
    with Cons Suc show ?thesis by simp
  qed
qed

lemma distinct_map_update:
  "f y = f (xs ! i) \<Longrightarrow> distinct (map f (xs[i := y])) = distinct (map f xs)"
  by (cases "i < length xs") (simp_all add: map_update list_update_beyond,
      metis list_update_id nth_map)

lemma map_of_map_key_find:
  "map_of (map (\<lambda>e. (f e, e)) xs) k = find (\<lambda>e. f e = k) xs"
  by (induction xs) auto

lemma find_key_update:
  assumes "distinct (map f xs)" and "i < length xs" and "f y = f (xs ! i)"
  shows "find (\<lambda>e. f e = k) (xs[i := y])
           = (if k = f (xs ! i) then Some y else find (\<lambda>e. f e = k) xs)"
  using assms
proof (induction xs arbitrary: i)
  case Nil
  then show ?case by simp
next
  case (Cons x xs)
  show ?case
  proof (cases i)
    case 0
    with Cons.prems show ?thesis by auto
  next
    case (Suc j)
    with Cons.prems have "f x \<noteq> f (xs ! j)" by (auto simp: image_iff)
    with Cons Suc show ?thesis by auto
  qed
qed

lemma find_append: "find P (xs @ ys) = (case find P xs of None \<Rightarrow> find P ys | Some x \<Rightarrow> Some x)"
  by (induction xs) auto

lemma find_filter_key:
  "find (\<lambda>e. f e = k) (filter (\<lambda>e. f e \<noteq> k') xs)
     = (if k = k' then None else find (\<lambda>e. f e = k) xs)"
  by (induction xs) auto

lemma find_map_same_key:
  "(\<And>e. f (g e) = f e) \<Longrightarrow> find (\<lambda>e. f e = k) (map g xs) = map_option g (find (\<lambda>e. f e = k) xs)"
  by (induction xs) auto

lemma list_all_update: "list_all P xs \<Longrightarrow> P y \<Longrightarrow> list_all P (xs[i := y])"
  by (auto simp: list_all_iff dest!: set_update_subset_insert [THEN subsetD])

section \<open>Interfaces shared by the components\<close>

text \<open>
  A protocol table: a list of cells searched front to back for the first cell whose
  address has the same canonical form as the address looked up.  The provider promises
  that its search function is that first match; what a client may rely on (the table read
  as a finite map, and what appending, updating and unlinking do to that map) is proved
  here once.
\<close>

locale addressed_table =
  fixes canon :: "'a \<Rightarrow> 'k"
    and addr :: "'e \<Rightarrow> 'a"
    and search :: "'e list \<Rightarrow> 'a \<Rightarrow> 'e option"
  assumes search_first: "search xs a = find (\<lambda>e. canon (addr e) = canon a) xs"
begin

abbreviation key :: "'e \<Rightarrow> 'k" where
  "key e \<equiv> canon (addr e)"

definition table_map :: "'e list \<Rightarrow> 'k \<Rightarrow> 'e option" where
  "table_map xs = map_of (map (\<lambda>e. (key e, e)) xs)"

definition unique_cells :: "'e list \<Rightarrow> bool" where
  "unique_cells xs \<longleftrightarrow> distinct (map key xs)"

lemma table_map_find: "table_map xs k = find (\<lambda>e. key e = k) xs"
  by (simp add: table_map_def map_of_map_key_find)

lemma search_table_map: "search xs a = table_map xs (canon a)"
  by (simp add: search_first table_map_find)

lemma table_map_append:
  "search xs (addr e) = None \<Longrightarrow> table_map (xs @ [e]) = (table_map xs)(key e \<mapsto> e)"
  by (rule ext) (auto simp: table_map_find search_first find_append split: option.splits)

lemma table_map_update:
  assumes "unique_cells xs" and "i < length xs" and "key y = key (xs ! i)"
  shows "table_map (xs[i := y]) = (table_map xs)(key (xs ! i) \<mapsto> y)"
  using assms
  by (intro ext)
     (simp add: unique_cells_def table_map_find find_key_update [of key])

lemma table_map_remove:
  assumes "unique_cells xs" and "i < length xs"
  shows "table_map (remove_nth i xs) = (table_map xs)(key (xs ! i) := None)"
  using assms
  by (intro ext)
     (simp add: unique_cells_def remove_nth_filter [of key] table_map_find find_filter_key [of key])

lemma table_map_map:
  "(\<And>e. key (g e) = key e) \<Longrightarrow> table_map (map g xs) = map_option g \<circ> table_map xs"
  by (rule ext) (simp add: table_map_find find_map_same_key)

lemma unique_Nil [simp]: "unique_cells []"
  by (simp add: unique_cells_def)

lemma unique_append:
  "unique_cells xs \<Longrightarrow> search xs (addr e) = None \<Longrightarrow> unique_cells (xs @ [e])"
  by (auto simp: unique_cells_def search_first find_None_iff)

lemma unique_update:
  "unique_cells xs \<Longrightarrow> key y = key (xs ! i) \<Longrightarrow> unique_cells (xs[i := y])"
  by (simp add: unique_cells_def distinct_map_update [of key])

lemma unique_remove: "unique_cells xs \<Longrightarrow> unique_cells (remove_nth i xs)"
  by (simp add: unique_cells_def map_remove_nth distinct_remove_nth)

lemma unique_map: "(\<And>e. key (g e) = key e) \<Longrightarrow> unique_cells (map g xs) = unique_cells xs"
  by (simp add: unique_cells_def o_def)

lemma unique_filter: "unique_cells xs \<Longrightarrow> unique_cells (filter P xs)"
  by (simp add: unique_cells_def distinct_map_filter)

end

text \<open>
  A reactive system: entry points called in any order from an initial state.  A provider
  promises that the invariant holds at the start and that every entry point that returns
  keeps it.
\<close>

inductive runs_to :: "('l \<Rightarrow> 's \<Rightarrow> 's option) \<Rightarrow> 's \<Rightarrow> 'l list \<Rightarrow> 's \<Rightarrow> bool"
  for step :: "'l \<Rightarrow> 's \<Rightarrow> 's option" where
  runs_refl: "runs_to step s [] s"
| runs_step: "runs_to step s ls t \<Longrightarrow> step l t = Some u \<Longrightarrow> runs_to step s (ls @ [l]) u"

lemma runs_one: "step l s = Some t \<Longrightarrow> runs_to step s [l] t"
  using runs_step [OF runs_refl, of step l s t] by simp

locale reactive_system =
  fixes start :: "'s \<Rightarrow> bool"
    and step :: "'l \<Rightarrow> 's \<Rightarrow> 's option"
    and inv :: "'s \<Rightarrow> bool"
  assumes start_inv: "start s \<Longrightarrow> inv s"
    and step_inv: "inv s \<Longrightarrow> step l s = Some t \<Longrightarrow> inv t"
begin

lemma runs_inv: "runs_to step s ls t \<Longrightarrow> inv s \<Longrightarrow> inv t"
  by (induction rule: runs_to.induct) (auto intro: step_inv)

lemma reached_inv: "start s \<Longrightarrow> runs_to step s ls t \<Longrightarrow> inv t"
  by (blast intro: runs_inv start_inv)

end

end
