(* ===== verification/Netsim_IP.thy ===== *)
theory Netsim_IP
  imports Netsim_Prelude "HOL-Library.List_Lexorder"
begin

text \<open>
  Network addresses (\<open>Include/IP_Addressing.h\<close>).  An address is a C structure; the
  protocols compare addresses only through the macros \<open>IP_COMPARE4\<close>, \<open>IP_COMPARE6\<close> and
  \<open>IP_COMPARE\<close>, which look at the type and at the packed integer form \<open>int_ip\<close>.  The
  other members (octets, text, binary text, trie and MAC back pointers) are caches for
  printing and lookup and are left out.  \<open>IP_COPY\<close> gives an address with the same
  contents, so copying is the identity on values.
\<close>

record NETSIM_IPAddress =
  ip_type :: int
  int_ip0 :: u32
  int_ip1 :: u32
  int_ip2 :: u32
  int_ip3 :: u32

definition IP_COMPARE6 :: "NETSIM_IPAddress \<Rightarrow> NETSIM_IPAddress \<Rightarrow> int" where
  "IP_COMPARE6 ip1 ip2 =
     (if int_ip0 ip1 = int_ip0 ip2
      then (if int_ip1 ip1 = int_ip1 ip2
            then (if int_ip2 ip1 = int_ip2 ip2
                  then (if int_ip3 ip1 = int_ip3 ip2 then 0 else 1) else 1) else 1) else 1)"

definition IP_COMPARE4 :: "NETSIM_IPAddress \<Rightarrow> NETSIM_IPAddress \<Rightarrow> int" where
  "IP_COMPARE4 ip1 ip2 = (if int_ip0 ip1 = int_ip0 ip2 then 0 else 1)"

definition IP_COMPARE :: "NETSIM_IPAddress \<Rightarrow> NETSIM_IPAddress \<Rightarrow> int" where
  "IP_COMPARE ip1 ip2 =
     (if ip_type ip1 = ip_type ip2
      then (if ip_type ip1 = 4 then IP_COMPARE4 ip1 ip2 else IP_COMPARE6 ip1 ip2)
      else 1)"

text \<open>
  \<open>!IP_COMPARE(a,b)\<close> is the test of every table search.  It is equality of the part of
  the address the macro looks at.
\<close>

type_synonym ip_canon = "int \<times> u32 \<times> u32 \<times> u32 \<times> u32"

definition ip_canon :: "NETSIM_IPAddress \<Rightarrow> ip_canon" where
  "ip_canon ip =
     (if ip_type ip = 4 then (4, int_ip0 ip, 0, 0, 0)
      else (ip_type ip, int_ip0 ip, int_ip1 ip, int_ip2 ip, int_ip3 ip))"

abbreviation same_ip :: "NETSIM_IPAddress \<Rightarrow> NETSIM_IPAddress \<Rightarrow> bool" where
  "same_ip a b \<equiv> IP_COMPARE a b = 0"

lemma IP_COMPARE_range: "IP_COMPARE a b \<in> {0, 1}"
  by (simp add: IP_COMPARE_def IP_COMPARE4_def IP_COMPARE6_def)

lemma same_ip_canon: "same_ip a b \<longleftrightarrow> ip_canon a = ip_canon b"
  by (auto simp: IP_COMPARE_def IP_COMPARE4_def IP_COMPARE6_def ip_canon_def)

lemma same_ip_refl [simp]: "IP_COMPARE a a = 0"
  by (simp add: same_ip_canon)

lemma same_ip_sym: "same_ip a b \<Longrightarrow> same_ip b a"
  by (simp add: same_ip_canon)

lemma same_ip_trans: "same_ip a b \<Longrightarrow> same_ip b c \<Longrightarrow> same_ip a c"
  by (simp add: same_ip_canon)

text \<open>An IPv4 address with a packed value, for concrete runs.\<close>

definition mk_ip4 :: "u32 \<Rightarrow> NETSIM_IPAddress" where
  "mk_ip4 n = \<lparr>ip_type = 4, int_ip0 = n, int_ip1 = 0, int_ip2 = 0, int_ip3 = 0\<rparr>"

lemma mk_ip4_type [simp]: "ip_type (mk_ip4 n) = 4"
  by (simp add: mk_ip4_def)

lemma mk_ip4_compare [simp]: "IP_COMPARE (mk_ip4 a) (mk_ip4 b) = (if a = b then 0 else 1)"
  by (simp add: IP_COMPARE_def IP_COMPARE4_def mk_ip4_def)

lemma mk_ip4_inject [simp]: "mk_ip4 a = mk_ip4 b \<longleftrightarrow> a = b"
  by (simp add: mk_ip4_def)

text \<open>
  Text as the C library treats it: comparison without regard to case and the decimal form of an
  integer.
\<close>

section \<open>Comparison without regard to case\<close>

text \<open>\<open>_stricmp\<close> on the letters of the C locale.\<close>

definition to_lower :: "char \<Rightarrow> char" where
  "to_lower c = (let n = of_char c :: nat in if 65 \<le> n \<and> n \<le> 90 then char_of (n + 32) else c)"

definition stricmp_eq :: "string \<Rightarrow> string \<Rightarrow> bool" where
  "stricmp_eq a b \<longleftrightarrow> map to_lower a = map to_lower b"

definition lower_code :: "char \<Rightarrow> nat" where
  "lower_code c = of_char (to_lower c)"

fun stricmp :: "string \<Rightarrow> string \<Rightarrow> int" where
  "stricmp [] [] = 0"
| "stricmp [] (y # ys) = - 1"
| "stricmp (x # xs) [] = 1"
| "stricmp (x # xs) (y # ys) =
     (if lower_code x < lower_code y then - 1
      else if lower_code y < lower_code x then 1 else stricmp xs ys)"

text \<open>The comparison is that of the lists of lower case codes.\<close>

definition text_key :: "string \<Rightarrow> nat list" where
  "text_key s = map lower_code s"

lemma text_key_simps [simp]: "text_key [] = []" "text_key (c # s) = lower_code c # text_key s"
  by (simp_all add: text_key_def)

lemma stricmp_less: "stricmp a b < 0 \<longleftrightarrow> text_key a < text_key b"
  by (induction a b rule: stricmp.induct) auto

lemma stricmp_zero: "stricmp a b = 0 \<longleftrightarrow> text_key a = text_key b"
  by (induction a b rule: stricmp.induct) auto

lemma stricmp_greater: "0 < stricmp a b \<longleftrightarrow> text_key b < text_key a"
  using stricmp_less [of a b] stricmp_zero [of a b] by (metis linorder_less_linear linorder_not_less order_less_le)

section \<open>Decimal numbers\<close>

fun dec_nat :: "nat \<Rightarrow> string" where
  "dec_nat n = (if n < 10 then [char_of (48 + n)] else dec_nat (n div 10) @ [char_of (48 + n mod 10)])"

declare dec_nat.simps [simp del]

text \<open>\<open>%d\<close> of a value of type \<open>int\<close>.\<close>

definition dec_int :: "int \<Rightarrow> string" where
  "dec_int i = (if i < 0 then CHR ''-'' # dec_nat (nat (- i)) else dec_nat (nat i))"

end
