(* ===== verification/Aodv_Types.thy ===== *)
theory Aodv_Types
  imports Netsim_IP
begin

text \<open>
  The data of the AODV protocol, as \<open>AODV/AODV.h\<close> declares it: the timing constants, the
  three control messages, the route table, the packet buffer, the RREQ tables and the
  per-device variable.  A field is named as in C with a prefix for its structure
  (\<open>rq\<close> RREQ, \<open>rp\<close> RREP, \<open>re\<close> RERR, \<open>rt\<close> route table, \<open>ff\<close> FIFO, \<open>sn\<close> seen table,
  \<open>st\<close> sent table), because several structures share field names.  Bit fields keep their
  width.  An intrusive linked list (\<open>struct element* ele\<close>) is the list of its cells in
  link order: \<open>LIST_ADD_LAST\<close> appends, \<open>LIST_FREE\<close> unlinks, \<open>LIST_NEXT\<close> walks.
\<close>

section \<open>Constants\<close>

definition MILLISECOND :: simtime where "MILLISECOND = 1000"

definition AODV_ACTIVE_ROUTE_TIMEOUT :: simtime where
  "AODV_ACTIVE_ROUTE_TIMEOUT = 3000 * MILLISECOND"
definition AODV_ALLOWED_HELLO_LOSS :: real where "AODV_ALLOWED_HELLO_LOSS = 2"
definition AODV_HELLO_INTERVAL :: simtime where "AODV_HELLO_INTERVAL = 1000 * MILLISECOND"
definition AODV_DELETE_PERIOD :: simtime where
  "AODV_DELETE_PERIOD = 5 * max AODV_ACTIVE_ROUTE_TIMEOUT AODV_HELLO_INTERVAL"
definition AODV_MY_ROUTE_TIMEOUT :: simtime where
  "AODV_MY_ROUTE_TIMEOUT = 2 * AODV_ACTIVE_ROUTE_TIMEOUT"
definition AODV_NET_DIAMETER :: int where "AODV_NET_DIAMETER = 35"
definition AODV_NODE_TRAVERSAL_TIME :: simtime where
  "AODV_NODE_TRAVERSAL_TIME = 40 * MILLISECOND"
definition AODV_NET_TRAVERSAL_TIME :: simtime where
  "AODV_NET_TRAVERSAL_TIME = 2 * AODV_NODE_TRAVERSAL_TIME * of_int AODV_NET_DIAMETER"
definition AODV_PATH_DISCOVERY_TIME :: simtime where
  "AODV_PATH_DISCOVERY_TIME = 2 * AODV_NET_TRAVERSAL_TIME"
definition AODV_TIMEOUT_BUFFER :: int where "AODV_TIMEOUT_BUFFER = 2"
definition AODV_RING_TRAVERSAL_TIME :: "int \<Rightarrow> simtime" where
  "AODV_RING_TRAVERSAL_TIME ttl =
     2 * AODV_NODE_TRAVERSAL_TIME * of_int (ttl + AODV_TIMEOUT_BUFFER)"
definition AODV_RREQ_RETRIES :: int where "AODV_RREQ_RETRIES = 2"
definition AODV_TTL_START :: int where "AODV_TTL_START = 1"
definition AODV_TTL_INCREMENT :: int where "AODV_TTL_INCREMENT = 2"
definition AODV_TTL_THRESHOLD :: int where "AODV_TTL_THRESHOLD = 7"

lemmas aodv_consts =
  MILLISECOND_def AODV_ACTIVE_ROUTE_TIMEOUT_def AODV_ALLOWED_HELLO_LOSS_def
  AODV_HELLO_INTERVAL_def AODV_DELETE_PERIOD_def AODV_MY_ROUTE_TIMEOUT_def
  AODV_NET_DIAMETER_def AODV_NODE_TRAVERSAL_TIME_def AODV_NET_TRAVERSAL_TIME_def
  AODV_PATH_DISCOVERY_TIME_def AODV_TIMEOUT_BUFFER_def AODV_RING_TRAVERSAL_TIME_def
  AODV_RREQ_RETRIES_def AODV_TTL_START_def AODV_TTL_INCREMENT_def AODV_TTL_THRESHOLD_def

text \<open>Protocol, control packet and sub-event numbers (\<open>Include/Stack.h\<close>, \<open>AODV.h\<close>).\<close>

definition NW_PROTOCOL_IPV4 :: nat where "NW_PROTOCOL_IPV4 = 301"
definition NW_PROTOCOL_AODV :: nat where "NW_PROTOCOL_AODV = 307"
definition AODVctrlPacket_RREQ :: nat where "AODVctrlPacket_RREQ = NW_PROTOCOL_AODV * 100 + 1"
definition AODVctrlPacket_RREP :: nat where "AODVctrlPacket_RREP = AODVctrlPacket_RREQ + 1"
definition AODVctrlPacket_RERR :: nat where "AODVctrlPacket_RERR = AODVctrlPacket_RREQ + 2"
definition AODVsubevent_RREQ_TIMEOUT :: nat where
  "AODVsubevent_RREQ_TIMEOUT = NW_PROTOCOL_AODV * 100 + 1"
definition AODVsubevent_TRANSMIT_HELLO :: nat where
  "AODVsubevent_TRANSMIT_HELLO = AODVsubevent_RREQ_TIMEOUT + 1"
definition AODVsubevent_ACTIVE_ROUTE_TIMEOUT :: nat where
  "AODVsubevent_ACTIVE_ROUTE_TIMEOUT = AODVsubevent_RREQ_TIMEOUT + 2"

lemmas aodv_numbers =
  NW_PROTOCOL_IPV4_def NW_PROTOCOL_AODV_def AODVctrlPacket_RREQ_def AODVctrlPacket_RREP_def
  AODVctrlPacket_RERR_def AODVsubevent_RREQ_TIMEOUT_def AODVsubevent_TRANSMIT_HELLO_def
  AODVsubevent_ACTIVE_ROUTE_TIMEOUT_def

section \<open>Control messages\<close>

record AODV_RREQ =
  rq_Type :: u8
  rq_JRGDU :: "char list"
  rq_Reserved :: "11 word"
  rq_HopCount :: u8
  rq_RREQID :: u32
  rq_DestinationIPAddress :: NETSIM_IPAddress
  rq_DestinationSequenceNumber :: u32
  rq_OriginatorIPAddress :: NETSIM_IPAddress
  rq_OriginatorSequenceNumber :: u32
  rq_LastAddress :: NETSIM_IPAddress

record AODV_RREP =
  rp_Type :: u8
  rp_RA :: "char list"
  rp_Reserved :: "9 word"
  rp_PrefixSz :: "5 word"
  rp_HopCount :: u8
  rp_DestinationIPaddress :: NETSIM_IPAddress
  rp_DestinationSequenceNumber :: u32
  rp_OriginatorIPaddress :: NETSIM_IPAddress
  rp_Lifetime :: u32
  rp_LastAddress :: NETSIM_IPAddress
  rp_congestionflag :: bool

record AODV_RERR =
  re_Type :: u8
  re_N :: char
  re_Reserved :: "15 word"
  re_DestCount :: u8
  re_UnreachableDestinationIPAddress :: "NETSIM_IPAddress list"
  re_UnreachableDestinationSequenceNumber :: "u32 list"

section \<open>Tables\<close>

datatype AODV_RoutingFlag =
    AODV_RoutingFlag_Valid
  | AODV_RoutingFlag_InValid
  | AODV_RoutingFlag_Repairable
  | AODV_RoutingFlag_beingRepaired

text \<open>
  The precursor list is an array with the number of entries in use; the array may be
  longer than the count.
\<close>

record AODV_PRECURSORS_LIST =
  pl_list :: "NETSIM_IPAddress list"
  pl_count :: nat

text \<open>
  \<open>ListofPrecursors\<close> is only ever set to the device's own list and never read; the model
  keeps whether the pointer is set.
\<close>

record AODV_ROUTETABLE =
  rt_DestinationIPAddress :: NETSIM_IPAddress
  rt_DestinationSequenceNumber :: u32
  rt_ValidDestinationSequenceNumberflag :: bool
  rt_routingFlags :: AODV_RoutingFlag
  rt_NetworkInterface :: NETSIM_ID
  rt_HopCount :: u32
  rt_NextHop :: NETSIM_IPAddress
  rt_ListofPrecursors :: bool
  rt_Lifetime :: simtime

text \<open>A packet is referred to by its handle, the model of a \<open>NetSim_PACKET*\<close>.\<close>

type_synonym pid = nat

record AODV_FIFO =
  ff_destination :: NETSIM_IPAddress
  ff_packetList :: "pid list"
  ff_time :: simtime

record AODV_RREQ_SEEN_TABLE =
  sn_OrginatingNode :: NETSIM_IPAddress
  sn_nRREQId :: u32
  sn_time :: simtime

record AODV_RREQ_SENT_TABLE =
  st_DestAddress :: NETSIM_IPAddress
  st_ttl :: int
  st_times :: int
  st_dTimeoutTime :: simtime

record AODV_METRICS =
  rreqSent :: u32
  rreqForwarded :: u32
  rrepSent :: u32
  rrepForwarded :: u32
  rerrSent :: u32
  rerrForwarded :: u32
  routeBreak :: u32
  packetTransmitted :: u32
  packetOrginated :: u32
  packetReceived :: u32
  packetDropped :: u32

record AODV_DEVICE_VAR =
  nSequenceNumber :: u32
  fifo :: "AODV_FIFO list"
  routeTable :: "AODV_ROUTETABLE list"
  rreqSeenTable :: "AODV_RREQ_SEEN_TABLE list"
  rreqSentTable :: "AODV_RREQ_SENT_TABLE list"
  precursorsList :: "AODV_PRECURSORS_LIST option"
  dLastBroadcastTime :: simtime
  nRerrCount :: u32
  dFirstRerrTime :: simtime
  aodvMetrics :: AODV_METRICS
  ncounter :: u32

text \<open>What \<open>calloc\<close> gives.\<close>

definition zero_metrics :: AODV_METRICS where
  "zero_metrics = \<lparr>rreqSent = 0, rreqForwarded = 0, rrepSent = 0, rrepForwarded = 0,
     rerrSent = 0, rerrForwarded = 0, routeBreak = 0, packetTransmitted = 0,
     packetOrginated = 0, packetReceived = 0, packetDropped = 0\<rparr>"

definition zero_device_var :: AODV_DEVICE_VAR where
  "zero_device_var = \<lparr>nSequenceNumber = 0, fifo = [], routeTable = [], rreqSeenTable = [],
     rreqSentTable = [], precursorsList = None, dLastBroadcastTime = 0, nRerrCount = 0,
     dFirstRerrTime = 0, aodvMetrics = zero_metrics, ncounter = 0\<rparr>"

end
