(* ===== verification/Netsim_World.thy ===== *)
theory Netsim_World
  imports Aodv_Types
begin

text \<open>
  The simulator around the protocol: packets (\<open>Include/Packet.h\<close>), events
  (\<open>Include/Stack.h\<close>), and the stack services the protocol calls.  The stack is a set of
  libraries whose sources are not in the repository, so its functions are the fields of
  the record \<open>NETSIM_STACK\<close>, an argument of every definition that calls them.

  Packets are shared: an event, the current event record and the packet buffer refer to
  the same packet through its handle, and a handler that rewrites a packet rewrites it for
  every holder.  The world therefore keeps a store from handles to packets;
  \<open>fn_NetSim_Packet_FreePacket\<close> takes a packet out of the store, and reading a freed packet
  is undefined behaviour.
\<close>

section \<open>Packets and events\<close>

datatype PACKET_TYPE =
    PacketType_Voice | PacketType_CBR | PacketType_Custom | PacketType_DataBase
  | PacketType_Video | PacketType_FTP | PacketType_HTTP | PacketType_EMAIL
  | PacketType_Peer_to_Peer | PacketType_Erlang_Call | PacketType_Emulation
  | PacketType_Sensing | PacketType_BSM | PacketType_COAP | PacketType_Control

datatype PACKET_PRIORITY = Priority_Low | Priority_Normal | Priority_Medium | Priority_High

datatype PACKET_QOS = QOS_UGS | QOS_rtPS | QOS_ertPS | QOS_nrtPS | QOS_BE

text \<open>The header behind \<open>Packet_RoutingProtocol\<close>.\<close>

datatype ROUTING_HDR =
    HdrNone
  | HdrRREQ AODV_RREQ
  | HdrRREP AODV_RREP
  | HdrRERR AODV_RERR

text \<open>The value of the function pointer \<open>DropNotification\<close>.\<close>

datatype DROP_NOTIFICATION = DropNull | DropAODV

record NetSim_PACKET =
  nPacketId :: int
  nPacketType :: PACKET_TYPE
  nControlDataType :: nat
  nPacketPriority :: PACKET_PRIORITY
  nQOS :: PACKET_QOS
  pk_dEventTime :: simtime
  nSourceId :: NETSIM_ID
  destInfo :: "NETSIM_ID list"
  nTransmitterId :: NETSIM_ID
  nReceiverId :: NETSIM_ID
  pstruAppData :: "(NETSIM_ID \<times> int) option"
  dArrivalTime :: simtime
  dStartTime :: simtime
  dEndTime :: simtime
  nw_dPacketSize :: real
  nw_dOverhead :: real
  szSourceIP :: NETSIM_IPAddress
  szDestIP :: NETSIM_IPAddress
  szGatewayIP :: "NETSIM_IPAddress option"
  szNextHopIp :: "NETSIM_IPAddress option"
  nTTL :: u8
  nRoutingProtocol :: nat
  Packet_RoutingProtocol :: ROUTING_HDR
  DropNotification :: DROP_NOTIFICATION

datatype EVENT_TYPE =
    PHYSICAL_OUT_EVENT | PHYSICAL_IN_EVENT | MAC_OUT_EVENT | MAC_IN_EVENT
  | NETWORK_OUT_EVENT | NETWORK_IN_EVENT | TRANSPORT_OUT_EVENT | TRANSPORT_IN_EVENT
  | APPLICATION_OUT_EVENT | APPLICATION_IN_EVENT | TIMER_EVENT | INTERNAL_NETSIM_EVENT

record NetSim_EVENTDETAILS =
  dEventTime :: simtime
  nEventType :: EVENT_TYPE
  nProtocolId :: nat
  nDeviceType :: nat
  nDeviceId :: NETSIM_ID
  nInterfaceId :: NETSIM_ID
  nApplicationId :: NETSIM_ID
  dPacketSize :: real
  pPacket :: "pid option"
  ev_nPacketId :: int
  nSegmentId :: int
  nSubEventType :: nat
  szOtherDetails :: "NETSIM_IPAddress option"

text \<open>The numbers of the priorities and of the classes of service.\<close>

definition priority_value :: "PACKET_PRIORITY \<Rightarrow> int" where
  "priority_value p = (case p of PACKET_PRIORITY.Priority_Low \<Rightarrow> 2 | PACKET_PRIORITY.Priority_Normal \<Rightarrow> 4
     | PACKET_PRIORITY.Priority_Medium \<Rightarrow> 6 | PACKET_PRIORITY.Priority_High \<Rightarrow> 8)"

definition qos_value :: "PACKET_QOS \<Rightarrow> int" where
  "qos_value q = (case q of QOS_UGS \<Rightarrow> 1 | QOS_rtPS \<Rightarrow> 2 | QOS_ertPS \<Rightarrow> 3 | QOS_nrtPS \<Rightarrow> 4 | QOS_BE \<Rightarrow> 5)"

section \<open>The stack the protocol runs on\<close>

text \<open>
  \<open>nwRouting d\<close> is \<open>DEVICE_NWLAYER(d)\<close>: \<open>None\<close> for a null pointer, else
  \<open>nRoutingProtocolId\<close>.  \<open>ip_same_pointer\<close> stands for the comparison of two address
  pointers, which the code makes in one place.  \<open>blankPacket\<close> is what
  \<open>fn_NetSim_Packet_CreatePacket\<close> returns.
\<close>

record NETSIM_STACK =
  nDeviceCount :: nat
  nwRouting :: "NETSIM_ID \<Rightarrow> nat option"
  nNumOfInterface :: "NETSIM_ID \<Rightarrow> nat"
  deviceType :: "NETSIM_ID \<Rightarrow> nat"
  DEVICE_NWADDRESS :: "NETSIM_ID \<Rightarrow> NETSIM_ID \<Rightarrow> NETSIM_IPAddress"
  DEVICE_NWPROTOCOL :: "NETSIM_ID \<Rightarrow> NETSIM_ID \<Rightarrow> nat"
  szSubnetMask :: "NETSIM_ID \<Rightarrow> NETSIM_ID \<Rightarrow> NETSIM_IPAddress option"
  prefix_len :: "NETSIM_ID \<Rightarrow> NETSIM_ID \<Rightarrow> u32"
  szDefaultGateWay :: "NETSIM_ID \<Rightarrow> NETSIM_ID \<Rightarrow> NETSIM_IPAddress option"
  IP_NETWORK_ADDRESS :: "NETSIM_IPAddress \<Rightarrow> NETSIM_IPAddress option \<Rightarrow> u32 \<Rightarrow> NETSIM_IPAddress"
  IP_IS_IN_SAME_NETWORK ::
    "NETSIM_IPAddress \<Rightarrow> NETSIM_IPAddress \<Rightarrow> NETSIM_IPAddress option \<Rightarrow> u32 \<Rightarrow> bool"
  isBroadcastIP :: "NETSIM_IPAddress \<Rightarrow> bool"
  isMulticastIP :: "NETSIM_IPAddress \<Rightarrow> bool"
  GET_BROADCAST_IP :: "int \<Rightarrow> NETSIM_IPAddress"
  ip_same_pointer :: "NETSIM_IPAddress \<Rightarrow> NETSIM_IPAddress \<Rightarrow> bool"
  GetDeviceId_asIP :: "NETSIM_IPAddress \<Rightarrow> NETSIM_ID"
  GetConnectedInterface :: "NETSIM_ID \<Rightarrow> NETSIM_ID \<Rightarrow> NETSIM_ID \<Rightarrow> NETSIM_ID"
  GetFirstConnectedDevice :: "NETSIM_ID \<Rightarrow> NETSIM_ID \<Rightarrow> NETSIM_ID"
  GetNWProtocol :: "NETSIM_ID \<Rightarrow> nat"
  blankPacket :: NetSim_PACKET
  add_dest_to_packet :: "NetSim_PACKET \<Rightarrow> NETSIM_ID \<Rightarrow> NetSim_PACKET"
  isDestFoundinPacket :: "NetSim_PACKET \<Rightarrow> NETSIM_ID \<Rightarrow> bool"
  isBroadcastPacket :: "NetSim_PACKET \<Rightarrow> bool"
  fnGetPacketSize :: "NetSim_PACKET \<Rightarrow> real"

section \<open>The world of a run\<close>

record AODV_CURR =
  devId :: NETSIM_ID
  ifId :: NETSIM_ID
  ifIP :: NETSIM_IPAddress

text \<open>
  \<open>devs d\<close> is \<open>AODV_DEV_VAR(d)\<close>; \<open>pkts\<close> the packet store; \<open>added\<close> the events handed to
  \<open>fnpAddEvent\<close>, in call order; \<open>ev\<close> is \<open>*pstruEventDetails\<close>; \<open>nRREQId\<close>, \<open>aodvCurr\<close> and
  \<open>aodvState\<close> are the module's static variables; \<open>errlog\<close> the messages given to
  \<open>fnNetSimError\<close>.
\<close>

record AODV_WORLD =
  devs :: "NETSIM_ID \<Rightarrow> AODV_DEVICE_VAR option"
  pkts :: "pid \<Rightarrow> NetSim_PACKET option"
  next_pid :: pid
  added :: "NetSim_EVENTDETAILS list"
  ev :: NetSim_EVENTDETAILS
  nRREQId :: u32
  aodvCurr :: "AODV_CURR option"
  aodvState :: "(NETSIM_ID \<times> NETSIM_ID) list"
  errlog :: "string list"

definition AODV_DEV_VAR :: "NETSIM_ID \<Rightarrow> AODV_WORLD \<Rightarrow> AODV_DEVICE_VAR option" where
  "AODV_DEV_VAR d w = devs w d"

definition upd_dev ::
    "NETSIM_ID \<Rightarrow> (AODV_DEVICE_VAR \<Rightarrow> AODV_DEVICE_VAR) \<Rightarrow> AODV_WORLD \<Rightarrow> AODV_WORLD option" where
  "upd_dev d f w =
     (case devs w d of
        None \<Rightarrow> None
      | Some v \<Rightarrow> Some (w\<lparr>devs := (devs w)(d \<mapsto> f v)\<rparr>))"

definition upd_metrics ::
    "NETSIM_ID \<Rightarrow> (AODV_METRICS \<Rightarrow> AODV_METRICS) \<Rightarrow> AODV_WORLD \<Rightarrow> AODV_WORLD option" where
  "upd_metrics d f = upd_dev d (aodvMetrics_update f)"

definition get_pkt :: "pid \<Rightarrow> AODV_WORLD \<Rightarrow> NetSim_PACKET option" where
  "get_pkt p w = pkts w p"

definition upd_pkt ::
    "pid \<Rightarrow> (NetSim_PACKET \<Rightarrow> NetSim_PACKET) \<Rightarrow> AODV_WORLD \<Rightarrow> AODV_WORLD option" where
  "upd_pkt p f w =
     (case pkts w p of
        None \<Rightarrow> None
      | Some k \<Rightarrow> Some (w\<lparr>pkts := (pkts w)(p \<mapsto> f k)\<rparr>))"

definition new_pkt :: "NetSim_PACKET \<Rightarrow> AODV_WORLD \<Rightarrow> pid \<times> AODV_WORLD" where
  "new_pkt k w =
     (next_pid w, w\<lparr>pkts := (pkts w)(next_pid w \<mapsto> k), next_pid := Suc (next_pid w)\<rparr>)"

definition fn_NetSim_Packet_FreePacket :: "pid \<Rightarrow> AODV_WORLD \<Rightarrow> AODV_WORLD option" where
  "fn_NetSim_Packet_FreePacket p w =
     (case pkts w p of
        None \<Rightarrow> None
      | Some k \<Rightarrow> Some (w\<lparr>pkts := (pkts w)(p := None)\<rparr>))"

definition fnpAddEvent :: "NetSim_EVENTDETAILS \<Rightarrow> AODV_WORLD \<Rightarrow> AODV_WORLD" where
  "fnpAddEvent e w = w\<lparr>added := added w @ [e]\<rparr>"

definition upd_ev ::
    "(NetSim_EVENTDETAILS \<Rightarrow> NetSim_EVENTDETAILS) \<Rightarrow> AODV_WORLD \<Rightarrow> AODV_WORLD" where
  "upd_ev f w = w\<lparr>ev := f (ev w)\<rparr>"

definition fnNetSimError :: "string \<Rightarrow> AODV_WORLD \<Rightarrow> AODV_WORLD" where
  "fnNetSimError m w = w\<lparr>errlog := errlog w @ [m]\<rparr>"

definition hdr_rreq :: "NetSim_PACKET \<Rightarrow> AODV_RREQ option" where
  "hdr_rreq k = (case Packet_RoutingProtocol k of HdrRREQ r \<Rightarrow> Some r | _ \<Rightarrow> None)"

definition hdr_rrep :: "NetSim_PACKET \<Rightarrow> AODV_RREP option" where
  "hdr_rrep k = (case Packet_RoutingProtocol k of HdrRREP r \<Rightarrow> Some r | _ \<Rightarrow> None)"

definition hdr_rerr :: "NetSim_PACKET \<Rightarrow> AODV_RERR option" where
  "hdr_rerr k = (case Packet_RoutingProtocol k of HdrRERR r \<Rightarrow> Some r | _ \<Rightarrow> None)"

lemmas world_ops =
  AODV_DEV_VAR_def upd_dev_def upd_metrics_def get_pkt_def upd_pkt_def new_pkt_def
  fn_NetSim_Packet_FreePacket_def fnpAddEvent_def upd_ev_def fnNetSimError_def
  hdr_rreq_def hdr_rrep_def hdr_rerr_def

end
