(* ===== verification/Aodv_RouteTable.thy ===== *)
theory Aodv_RouteTable
  imports Netsim_World
begin

text \<open>
  The route table (\<open>AODV/RouteTable.c\<close>, \<open>AODV/AODV_CheckRouteFound.c\<close> and
  \<open>fnFindSequenceNumber\<close> of \<open>AODV/AODVlib.c\<close>).  The searches are the loops of the source
  over the list of entries; the operations that change the table are first given on the
  list and then as the handler on the world, with the events they schedule.  The lemmas
  show that the list implements a finite map from addresses to entries, and what each
  operation does to that map.
\<close>

section \<open>Searches\<close>

fun fnFindRouteTable :: "AODV_ROUTETABLE list \<Rightarrow> NETSIM_IPAddress \<Rightarrow> AODV_ROUTETABLE option" where
  "fnFindRouteTable [] dest = None"
| "fnFindRouteTable (t # ts) dest =
     (if IP_COMPARE (rt_DestinationIPAddress t) dest = 0 then Some t
      else fnFindRouteTable ts dest)"

fun FindNextHop_loop :: "AODV_ROUTETABLE list \<Rightarrow> NETSIM_IPAddress \<Rightarrow> NETSIM_IPAddress option" where
  "FindNextHop_loop [] dest = None"
| "FindNextHop_loop (t # ts) dest =
     (if IP_COMPARE (rt_DestinationIPAddress t) dest = 0 then Some (rt_NextHop t)
      else FindNextHop_loop ts dest)"

definition fn_NetSim_AODV_FindNextHop ::
    "AODV_DEVICE_VAR \<Rightarrow> NETSIM_IPAddress \<Rightarrow> NETSIM_IPAddress option" where
  "fn_NetSim_AODV_FindNextHop devVar dest = FindNextHop_loop (routeTable devVar) dest"

fun FindSequenceNumber_loop :: "AODV_ROUTETABLE list \<Rightarrow> NETSIM_IPAddress \<Rightarrow> u32" where
  "FindSequenceNumber_loop [] ip = 0"
| "FindSequenceNumber_loop (t # ts) ip =
     (if IP_COMPARE (rt_DestinationIPAddress t) ip = 0 then rt_DestinationSequenceNumber t
      else FindSequenceNumber_loop ts ip)"

definition fnFindSequenceNumber :: "AODV_DEVICE_VAR \<Rightarrow> NETSIM_IPAddress \<Rightarrow> u32" where
  "fnFindSequenceNumber devVar ip = FindSequenceNumber_loop (routeTable devVar) ip"

fun CheckRouteFound_loop :: "AODV_ROUTETABLE list \<Rightarrow> NETSIM_IPAddress \<Rightarrow> simtime \<Rightarrow> bool" where
  "CheckRouteFound_loop [] ip now = False"
| "CheckRouteFound_loop (t # ts) ip now =
     (if IP_COMPARE (rt_DestinationIPAddress t) ip = 0 \<and> rt_Lifetime t > now then True
      else CheckRouteFound_loop ts ip now)"

definition fn_NetSim_AODV_CheckRouteFound ::
    "NETSIM_IPAddress \<Rightarrow> AODV_DEVICE_VAR \<Rightarrow> simtime \<Rightarrow> bool" where
  "fn_NetSim_AODV_CheckRouteFound ip devVar now = CheckRouteFound_loop (routeTable devVar) ip now"

section \<open>Inserting a route\<close>

text \<open>
  How the search loop of \<open>fn_NetSim_AODV_InsertInRouteTable\<close> ends: it returns from the
  function, it breaks at an entry, or it runs off the list.
\<close>

datatype insert_scan = ScanReturn | ScanBreak nat | ScanEnd

fun InsertInRouteTable_scan ::
    "NETSIM_IPAddress \<Rightarrow> u32 \<Rightarrow> u32 \<Rightarrow> nat \<Rightarrow> AODV_ROUTETABLE list \<Rightarrow> insert_scan" where
  "InsertInRouteTable_scan ip seqNumber hopCount i [] = ScanEnd"
| "InsertInRouteTable_scan ip seqNumber hopCount i (t # ts) =
     (if IP_COMPARE (rt_DestinationIPAddress t) ip = 0
      then (if rt_ValidDestinationSequenceNumberflag t = False then ScanBreak i
            else if rt_DestinationSequenceNumber t < seqNumber then ScanBreak i
            else if rt_DestinationSequenceNumber t > seqNumber then ScanReturn
            else if hopCount + 1 < rt_HopCount t
                    \<or> rt_routingFlags t = AODV_RoutingFlag_InValid then ScanBreak i
            else ScanReturn)
      else InsertInRouteTable_scan ip seqNumber hopCount (Suc i) ts)"

text \<open>
  The assignments after the search.  They set the destination and the next hop only where
  the pointer is still null, that is, in an entry that has just been allocated.
\<close>

definition fill_entry ::
    "u32 \<Rightarrow> u32 \<Rightarrow> simtime \<Rightarrow> bool \<Rightarrow> AODV_ROUTETABLE \<Rightarrow> AODV_ROUTETABLE" where
  "fill_entry seqNumber hopCount lifeTime precursors t =
     t\<lparr>rt_DestinationSequenceNumber := seqNumber,
       rt_HopCount := hopCount,
       rt_Lifetime := max (rt_Lifetime t) lifeTime,
       rt_ListofPrecursors := precursors,
       rt_NetworkInterface := 1,
       rt_routingFlags := AODV_RoutingFlag_Valid,
       rt_ValidDestinationSequenceNumberflag :=
         (if seqNumber \<noteq> 0 then True else rt_ValidDestinationSequenceNumberflag t)\<rparr>"

definition alloc_entry :: "NETSIM_IPAddress \<Rightarrow> NETSIM_IPAddress \<Rightarrow> simtime \<Rightarrow> AODV_ROUTETABLE" where
  "alloc_entry ip nextHop now =
     \<lparr>rt_DestinationIPAddress = ip, rt_DestinationSequenceNumber = 0,
      rt_ValidDestinationSequenceNumberflag = False,
      rt_routingFlags = AODV_RoutingFlag_Valid, rt_NetworkInterface = 0, rt_HopCount = 0,
      rt_NextHop = nextHop, rt_ListofPrecursors = False,
      rt_Lifetime = now + AODV_ACTIVE_ROUTE_TIMEOUT\<rparr>"

definition insert_route ::
    "NETSIM_IPAddress \<Rightarrow> u32 \<Rightarrow> u32 \<Rightarrow> NETSIM_IPAddress \<Rightarrow> simtime \<Rightarrow> simtime \<Rightarrow> bool
       \<Rightarrow> AODV_ROUTETABLE list \<Rightarrow> AODV_ROUTETABLE list" where
  "insert_route ip seqNumber hopCount nextHop lifeTime now precursors ts =
     (case InsertInRouteTable_scan ip seqNumber hopCount 0 ts of
        ScanReturn \<Rightarrow> ts
      | ScanBreak i \<Rightarrow> ts[i := fill_entry seqNumber hopCount lifeTime precursors (ts ! i)]
      | ScanEnd \<Rightarrow>
          ts @ [fill_entry seqNumber hopCount lifeTime precursors (alloc_entry ip nextHop now)])"

definition route_timer :: "NETSIM_IPAddress \<Rightarrow> NetSim_EVENTDETAILS \<Rightarrow> NetSim_EVENTDETAILS" where
  "route_timer ip e =
     \<lparr>dEventTime = dEventTime e + AODV_ACTIVE_ROUTE_TIMEOUT, nEventType = TIMER_EVENT,
      nProtocolId = NW_PROTOCOL_AODV, nDeviceType = nDeviceType e, nDeviceId = nDeviceId e,
      nInterfaceId = nInterfaceId e, nApplicationId = 0, dPacketSize = 0, pPacket = None,
      ev_nPacketId = 0, nSegmentId = 0, nSubEventType = AODVsubevent_ACTIVE_ROUTE_TIMEOUT,
      szOtherDetails = Some ip\<rparr>"

definition fn_NetSim_AODV_InsertInRouteTable ::
    "NETSIM_IPAddress \<Rightarrow> u32 \<Rightarrow> u32 \<Rightarrow> NETSIM_IPAddress \<Rightarrow> simtime
       \<Rightarrow> AODV_WORLD \<Rightarrow> AODV_WORLD option" where
  "fn_NetSim_AODV_InsertInRouteTable ip seqNumber hopCount nextHop lifeTime w = do {
     devVar \<leftarrow> AODV_DEV_VAR (nDeviceId (ev w)) w;
     w1 \<leftarrow> upd_dev (nDeviceId (ev w))
            (routeTable_update
              (insert_route ip seqNumber hopCount nextHop lifeTime (dEventTime (ev w))
                (precursorsList devVar \<noteq> None))) w;
     Some (if InsertInRouteTable_scan ip seqNumber hopCount 0 (routeTable devVar) = ScanEnd
           then fnpAddEvent (route_timer ip (ev w)) w1 else w1)
   }"

section \<open>Precursors, lifetimes and expiry\<close>

definition insert_precursor ::
    "NETSIM_IPAddress \<Rightarrow> AODV_PRECURSORS_LIST option \<Rightarrow> AODV_PRECURSORS_LIST" where
  "insert_precursor ip pl =
     (let p = (case pl of None \<Rightarrow> \<lparr>pl_list = [], pl_count = 0\<rparr> | Some p \<Rightarrow> p)
      in if list_ex (\<lambda>a. IP_COMPARE a ip = 0) (take (pl_count p) (pl_list p)) then p
         else \<lparr>pl_list = take (pl_count p) (pl_list p) @ [ip], pl_count = pl_count p + 1\<rparr>)"

definition fn_NetSim_AODV_InsertInPrecursorsList ::
    "NETSIM_IPAddress \<Rightarrow> AODV_WORLD \<Rightarrow> AODV_WORLD option" where
  "fn_NetSim_AODV_InsertInPrecursorsList ip w =
     upd_dev (nDeviceId (ev w)) (precursorsList_update (\<lambda>pl. Some (insert_precursor ip pl))) w"

definition touch_entry :: "NETSIM_IPAddress \<Rightarrow> simtime \<Rightarrow> AODV_ROUTETABLE \<Rightarrow> AODV_ROUTETABLE" where
  "touch_entry ip lifetime t =
     (if IP_COMPARE (rt_NextHop t) ip = 0 \<or> IP_COMPARE (rt_DestinationIPAddress t) ip = 0
      then t\<lparr>rt_Lifetime := max (rt_Lifetime t) lifetime\<rparr> else t)"

definition fn_NetSim_AODV_UpdateRouteTable ::
    "NETSIM_IPAddress \<Rightarrow> simtime \<Rightarrow> AODV_WORLD \<Rightarrow> AODV_WORLD option" where
  "fn_NetSim_AODV_UpdateRouteTable ip lifetime w =
     upd_dev (nDeviceId (ev w)) (routeTable_update (map (touch_entry ip lifetime))) w"

text \<open>
  The expiry loop: the entries that stay, how many were unlinked, the event time at the
  end (the loop overwrites it) and the times of the events it schedules.
\<close>

fun ActiveRouteTimeout_loop ::
    "NETSIM_IPAddress \<Rightarrow> simtime \<Rightarrow> AODV_ROUTETABLE list
       \<Rightarrow> AODV_ROUTETABLE list \<times> nat \<times> simtime \<times> simtime list" where
  "ActiveRouteTimeout_loop dest now [] = ([], 0, now, [])"
| "ActiveRouteTimeout_loop dest now (t # ts) =
     (if IP_COMPARE (rt_DestinationIPAddress t) dest = 0
      then (if rt_Lifetime t \<le> now
            then (let (ks, n, now', es) = ActiveRouteTimeout_loop dest now ts
                  in (ks, Suc n, now', es))
            else (let (ks, n, now', es) = ActiveRouteTimeout_loop dest (rt_Lifetime t) ts
                  in (t # ks, n, now', rt_Lifetime t # es)))
      else (let (ks, n, now', es) = ActiveRouteTimeout_loop dest now ts
            in (t # ks, n, now', es)))"

definition fn_NetSim_AODV_ActiveRouteTimeout :: "AODV_WORLD \<Rightarrow> AODV_WORLD option" where
  "fn_NetSim_AODV_ActiveRouteTimeout w = do {
     dest \<leftarrow> szOtherDetails (ev w);
     devVar \<leftarrow> AODV_DEV_VAR (nDeviceId (ev w)) w;
     let (ks, n, now', es) =
           ActiveRouteTimeout_loop dest (dEventTime (ev w)) (routeTable devVar);
     w1 \<leftarrow> upd_dev (nDeviceId (ev w))
            (\<lambda>v. v\<lparr>routeTable := ks, ncounter := ncounter v - of_nat n\<rparr>) w;
     Some (w1\<lparr>ev := (ev w)\<lparr>dEventTime := now'\<rparr>,
              added := added w1 @ map (\<lambda>t. (ev w)\<lparr>dEventTime := t\<rparr>) es\<rparr>)
   }"

section \<open>The table as a map\<close>

lemma fnFindRouteTable_find:
  "fnFindRouteTable ts dest = find (\<lambda>t. ip_canon (rt_DestinationIPAddress t) = ip_canon dest) ts"
  by (induction ts) (auto simp: same_ip_canon)

interpretation rt: addressed_table ip_canon rt_DestinationIPAddress fnFindRouteTable
  by unfold_locales (rule fnFindRouteTable_find)

lemma FindNextHop_find: "FindNextHop_loop ts d = map_option rt_NextHop (fnFindRouteTable ts d)"
  by (induction ts) auto

lemma FindSequenceNumber_find:
  "FindSequenceNumber_loop ts d =
     (case fnFindRouteTable ts d of None \<Rightarrow> 0 | Some t \<Rightarrow> rt_DestinationSequenceNumber t)"
  by (induction ts) auto

lemma CheckRouteFound_ex:
  "CheckRouteFound_loop ts d now \<longleftrightarrow>
     (\<exists>t \<in> set ts. same_ip (rt_DestinationIPAddress t) d \<and> now < rt_Lifetime t)"
  by (induction ts) auto

lemma fnFindRouteTable_SomeD:
  "fnFindRouteTable ts d = Some t \<Longrightarrow> t \<in> set ts \<and> same_ip (rt_DestinationIPAddress t) d"
  by (induction ts) (auto split: if_splits)

lemma fnFindRouteTable_None_iff:
  "fnFindRouteTable ts d = None \<longleftrightarrow> (\<forall>t \<in> set ts. \<not> same_ip (rt_DestinationIPAddress t) d)"
  by (induction ts) auto

lemma fnFindRouteTable_unique:
  assumes "rt.unique_cells ts" and "t \<in> set ts" and "same_ip (rt_DestinationIPAddress t) d"
  shows "fnFindRouteTable ts d = Some t"
  using assms
  by (induction ts) (auto simp: rt.unique_cells_def same_ip_canon image_iff)

lemma CheckRouteFound_unique:
  assumes "rt.unique_cells ts"
  shows "CheckRouteFound_loop ts d now \<longleftrightarrow>
           (\<exists>t. fnFindRouteTable ts d = Some t \<and> now < rt_Lifetime t)"
  using assms
  by (auto simp: CheckRouteFound_ex dest: fnFindRouteTable_unique fnFindRouteTable_SomeD)

lemma CheckRouteFound_next_hop:
  assumes "CheckRouteFound_loop ts d now"
  obtains h where "FindNextHop_loop ts d = Some h"
proof -
  from assms have "fnFindRouteTable ts d \<noteq> None"
    by (auto simp: CheckRouteFound_ex fnFindRouteTable_None_iff)
  then show thesis
    using that by (auto simp: FindNextHop_find)
qed

section \<open>What the operations do\<close>

text \<open>When the search loop replaces an existing entry.\<close>

definition route_accepts :: "AODV_ROUTETABLE \<Rightarrow> u32 \<Rightarrow> u32 \<Rightarrow> bool" where
  "route_accepts t seqNumber hopCount \<longleftrightarrow>
     \<not> rt_ValidDestinationSequenceNumberflag t
     \<or> rt_DestinationSequenceNumber t < seqNumber
     \<or> (rt_DestinationSequenceNumber t = seqNumber
         \<and> (hopCount + 1 < rt_HopCount t \<or> rt_routingFlags t = AODV_RoutingFlag_InValid))"

lemma scan_first_idx:
  "InsertInRouteTable_scan ip s h i ts =
     (case first_idx (\<lambda>t. same_ip (rt_DestinationIPAddress t) ip) ts of
        None \<Rightarrow> ScanEnd
      | Some j \<Rightarrow> if route_accepts (ts ! j) s h then ScanBreak (i + j) else ScanReturn)"
  by (induction ip s h i ts rule: InsertInRouteTable_scan.induct)
     (auto simp: route_accepts_def split: option.splits)

lemma fill_entry_simps [simp]:
  "rt_DestinationIPAddress (fill_entry s h l p t) = rt_DestinationIPAddress t"
  "rt_NextHop (fill_entry s h l p t) = rt_NextHop t"
  "rt_DestinationSequenceNumber (fill_entry s h l p t) = s"
  "rt_HopCount (fill_entry s h l p t) = h"
  "rt_routingFlags (fill_entry s h l p t) = AODV_RoutingFlag_Valid"
  "rt_Lifetime (fill_entry s h l p t) = max (rt_Lifetime t) l"
  "rt_ValidDestinationSequenceNumberflag (fill_entry s h l p t)
     = (s \<noteq> 0 \<or> rt_ValidDestinationSequenceNumberflag t)"
  by (simp_all add: fill_entry_def)

lemma alloc_entry_simps [simp]:
  "rt_DestinationIPAddress (alloc_entry ip n now) = ip"
  "rt_NextHop (alloc_entry ip n now) = n"
  "rt_Lifetime (alloc_entry ip n now) = now + AODV_ACTIVE_ROUTE_TIMEOUT"
  "\<not> rt_ValidDestinationSequenceNumberflag (alloc_entry ip n now)"
  by (simp_all add: alloc_entry_def)

lemma touch_entry_simps [simp]:
  "rt_DestinationIPAddress (touch_entry ip l t) = rt_DestinationIPAddress t"
  "rt_NextHop (touch_entry ip l t) = rt_NextHop t"
  "rt_DestinationSequenceNumber (touch_entry ip l t) = rt_DestinationSequenceNumber t"
  "rt_HopCount (touch_entry ip l t) = rt_HopCount t"
  "rt_routingFlags (touch_entry ip l t) = rt_routingFlags t"
  "rt_ValidDestinationSequenceNumberflag (touch_entry ip l t)
     = rt_ValidDestinationSequenceNumberflag t"
  by (simp_all add: touch_entry_def)

text \<open>The specification of an insertion, on the table read as a map.\<close>

definition spec_insert ::
    "NETSIM_IPAddress \<Rightarrow> u32 \<Rightarrow> u32 \<Rightarrow> NETSIM_IPAddress \<Rightarrow> simtime \<Rightarrow> simtime \<Rightarrow> bool
       \<Rightarrow> (ip_canon \<rightharpoonup> AODV_ROUTETABLE) \<Rightarrow> (ip_canon \<rightharpoonup> AODV_ROUTETABLE)" where
  "spec_insert ip s h nh l now p m =
     (case m (ip_canon ip) of
        None \<Rightarrow> m(ip_canon ip \<mapsto> fill_entry s h l p (alloc_entry ip nh now))
      | Some t \<Rightarrow> if route_accepts t s h then m(ip_canon ip \<mapsto> fill_entry s h l p t) else m)"

definition route_map :: "AODV_ROUTETABLE list \<Rightarrow> ip_canon \<rightharpoonup> AODV_ROUTETABLE" where
  "route_map ts = map_of (map (\<lambda>t. (ip_canon (rt_DestinationIPAddress t), t)) ts)"

definition routes_unique :: "AODV_ROUTETABLE list \<Rightarrow> bool" where
  "routes_unique ts \<longleftrightarrow> distinct (map (\<lambda>t. ip_canon (rt_DestinationIPAddress t)) ts)"

lemma route_map_table_map: "route_map = rt.table_map"
  by (rule ext) (simp add: route_map_def rt.table_map_def)

lemma routes_unique_cells: "routes_unique = rt.unique_cells"
  by (rule ext) (simp add: routes_unique_def rt.unique_cells_def)

lemma fnFindRouteTable_route_map: "fnFindRouteTable ts d = route_map ts (ip_canon d)"
  by (simp add: route_map_table_map rt.search_table_map)

lemma insert_route_unique:
  "routes_unique ts \<Longrightarrow> routes_unique (insert_route ip s h nh l now p ts)"
  unfolding routes_unique_cells insert_route_def scan_first_idx
  by (auto simp: fnFindRouteTable_None_iff first_idx_None_iff
      intro: rt.unique_update intro!: rt.unique_append split: option.splits)

lemma insert_route_map:
  assumes "routes_unique ts"
  shows "route_map (insert_route ip s h nh l now p ts) = spec_insert ip s h nh l now p (route_map ts)"
proof (cases "first_idx (\<lambda>t. same_ip (rt_DestinationIPAddress t) ip) ts")
  case None
  then have n: "fnFindRouteTable ts ip = None"
    by (simp add: first_idx_None_iff fnFindRouteTable_None_iff)
  then show ?thesis
    using None rt.table_map_append [of ts "fill_entry s h l p (alloc_entry ip nh now)"]
    by (simp add: insert_route_def scan_first_idx spec_insert_def route_map_table_map
        rt.search_table_map)
next
  case (Some i)
  from first_idx_SomeD [OF Some]
  have i: "i < length ts" and s: "ip_canon (rt_DestinationIPAddress (ts ! i)) = ip_canon ip"
    by (auto simp: same_ip_canon)
  have f: "route_map ts (ip_canon ip) = Some (ts ! i)"
    using first_idx_find_Some [OF Some]
    by (simp add: route_map_table_map rt.table_map_find same_ip_canon)
  show ?thesis
    using assms Some i s f
    by (simp add: insert_route_def scan_first_idx spec_insert_def route_map_table_map
        routes_unique_cells rt.table_map_update)
qed

lemma touch_unique: "routes_unique (map (touch_entry ip l) ts) = routes_unique ts"
  by (simp add: routes_unique_def o_def)

lemma touch_map: "route_map (map (touch_entry ip l) ts) = map_option (touch_entry ip l) \<circ> route_map ts"
  by (simp add: route_map_table_map rt.table_map_map)

text \<open>The expiry loop, where the destinations are distinct.\<close>

lemma timeout_loop_other:
  "\<forall>t \<in> set ts. \<not> same_ip (rt_DestinationIPAddress t) d \<Longrightarrow>
     ActiveRouteTimeout_loop d now ts = (ts, 0, now, [])"
  by (induction ts) auto

lemma timeout_loop_unique:
  assumes "routes_unique ts"
  shows "ActiveRouteTimeout_loop d now ts =
     (case fnFindRouteTable ts d of
        None \<Rightarrow> (ts, 0, now, [])
      | Some t \<Rightarrow>
          if rt_Lifetime t \<le> now
          then (filter (\<lambda>u. \<not> same_ip (rt_DestinationIPAddress u) d) ts, 1, now, [])
          else (ts, 0, rt_Lifetime t, [rt_Lifetime t]))"
  using assms
proof (induction ts arbitrary: now)
  case Nil
  then show ?case by simp
next
  case (Cons t ts)
  then have u: "routes_unique ts" by (simp add: routes_unique_def)
  show ?case
  proof (cases "same_ip (rt_DestinationIPAddress t) d")
    case True
    with Cons.prems have o: "\<forall>u \<in> set ts. \<not> same_ip (rt_DestinationIPAddress u) d"
      by (auto simp: routes_unique_def same_ip_canon image_iff)
    have "filter (\<lambda>u. \<not> same_ip (rt_DestinationIPAddress u) d) ts = ts"
      using o by (simp add: filter_id_conv)
    with True timeout_loop_other [OF o] show ?thesis by simp
  next
    case False
    with Cons.IH [OF u] show ?thesis by (auto split: option.splits)
  qed
qed

lemma timeout_loop_keeps_unique:
  "routes_unique ts \<Longrightarrow> routes_unique (fst (ActiveRouteTimeout_loop d now ts))"
  by (simp add: timeout_loop_unique routes_unique_def distinct_map_filter split: option.splits)

end
