(* ===== verification/Aodv_Fifo.thy ===== *)
theory Aodv_Fifo
  imports Aodv_RouteTable
begin

text \<open>
  The packet buffer (\<open>AODV/FIFOBuffer.c\<close>): one queue of data packets per destination that
  has no route yet.  \<open>packetList\<close>, a chain of packets linked by \<open>pstruNextPacket\<close>, is the
  list of their handles.
\<close>

section \<open>Operations\<close>

fun AddToFIFO_loop ::
    "NETSIM_IPAddress \<Rightarrow> pid \<Rightarrow> simtime \<Rightarrow> AODV_FIFO list \<Rightarrow> bool \<times> AODV_FIFO list" where
  "AddToFIFO_loop dest p time [] =
     (False, [\<lparr>ff_destination = dest, ff_packetList = [p], ff_time = time\<rparr>])"
| "AddToFIFO_loop dest p time (f # fs) =
     (if IP_COMPARE (ff_destination f) dest = 0
      then (if ff_packetList f = []
            then (False, f\<lparr>ff_packetList := [p], ff_time := time\<rparr> # fs)
            else (True, f\<lparr>ff_packetList := ff_packetList f @ [p]\<rparr> # fs))
      else (let (b, fs') = AddToFIFO_loop dest p time fs in (b, f # fs')))"

text \<open>
  \<open>fifoBuffer\<close> is the \<open>fifo\<close> member of a device variable at the only call site, so the
  operation takes the device.
\<close>

definition fn_NetSim_AODV_AddToFIFOBuffer ::
    "pid \<Rightarrow> NETSIM_ID \<Rightarrow> simtime \<Rightarrow> AODV_WORLD \<Rightarrow> (bool \<times> AODV_WORLD) option" where
  "fn_NetSim_AODV_AddToFIFOBuffer p d time w = do {
     packet \<leftarrow> get_pkt p w;
     devVar \<leftarrow> AODV_DEV_VAR d w;
     let (b, fs) = AddToFIFO_loop (szDestIP packet) p time (fifo devVar);
     w1 \<leftarrow> upd_dev d (fifo_update (\<lambda>_. fs)) w;
     Some (b, w1)
   }"

text \<open>The inner loop of \<open>fnEmptyFIFOBuffer\<close>: free each packet and count it as dropped.\<close>

fun EmptyFIFO_packets :: "pid list \<Rightarrow> AODV_WORLD \<Rightarrow> AODV_WORLD option" where
  "EmptyFIFO_packets [] w = Some w"
| "EmptyFIFO_packets (p # ps) w = do {
     w1 \<leftarrow> fn_NetSim_Packet_FreePacket p w;
     w2 \<leftarrow> upd_metrics (nDeviceId (ev w)) (packetDropped_update (\<lambda>n. n + 1)) w1;
     EmptyFIFO_packets ps w2
   }"

definition fnEmptyFIFOBuffer :: "NETSIM_ID \<Rightarrow> NETSIM_IPAddress \<Rightarrow> AODV_WORLD \<Rightarrow> AODV_WORLD option" where
  "fnEmptyFIFOBuffer d dest w = do {
     devVar \<leftarrow> AODV_DEV_VAR d w;
     (case first_idx (\<lambda>f. IP_COMPARE (ff_destination f) dest = 0) (fifo devVar) of
        None \<Rightarrow> Some w
      | Some i \<Rightarrow> do {
          w1 \<leftarrow> EmptyFIFO_packets (ff_packetList (fifo devVar ! i)) w;
          upd_dev d (fifo_update (remove_nth i)) w1
        })
   }"

text \<open>
  One packet handed back to the network layer.  \<open>pevent\<close> is a local of the caller that is
  reused from packet to packet.
\<close>

definition transmit_event ::
    "NETSIM_STACK \<Rightarrow> NETSIM_ID \<Rightarrow> pid \<Rightarrow> NetSim_PACKET \<Rightarrow> NetSim_EVENTDETAILS \<Rightarrow> NetSim_EVENTDETAILS" where
  "transmit_event E d p packet pevent =
     pevent\<lparr>dPacketSize := fnGetPacketSize E packet,
       nApplicationId :=
         (case pstruAppData packet of None \<Rightarrow> nApplicationId pevent | Some (a, s) \<Rightarrow> a),
       nSegmentId :=
         (case pstruAppData packet of None \<Rightarrow> nSegmentId pevent | Some (a, s) \<Rightarrow> s),
       nInterfaceId := 0,
       nEventType := NETWORK_OUT_EVENT,
       ev_nPacketId := nPacketId packet,
       nProtocolId := GetNWProtocol E d,
       nSubEventType := 0,
       pPacket := Some p,
       szOtherDetails := None\<rparr>"

fun TransmitFIFO_packets ::
    "NETSIM_STACK \<Rightarrow> NETSIM_ID \<Rightarrow> pid list \<Rightarrow> NetSim_EVENTDETAILS \<Rightarrow> AODV_WORLD
       \<Rightarrow> (NetSim_EVENTDETAILS \<times> AODV_WORLD) option" where
  "TransmitFIFO_packets E d [] pevent w = Some (pevent, w)"
| "TransmitFIFO_packets E d (p # ps) pevent w = do {
     packet \<leftarrow> get_pkt p w;
     let pevent' = transmit_event E d p packet pevent;
     TransmitFIFO_packets E d ps pevent' (fnpAddEvent pevent' w)
   }"

fun TransmitFIFO_loop ::
    "NETSIM_STACK \<Rightarrow> NETSIM_ID \<Rightarrow> AODV_DEVICE_VAR \<Rightarrow> AODV_FIFO list \<Rightarrow> NetSim_EVENTDETAILS
       \<Rightarrow> AODV_WORLD \<Rightarrow> (AODV_FIFO list \<times> AODV_WORLD) option" where
  "TransmitFIFO_loop E d devVar [] pevent w = Some ([], w)"
| "TransmitFIFO_loop E d devVar (f # fs) pevent w =
     (if fn_NetSim_AODV_CheckRouteFound (ff_destination f) devVar (dEventTime (ev w))
      then do {
        (pevent', w1) \<leftarrow> TransmitFIFO_packets E d (ff_packetList f) pevent w;
        (fs', w2) \<leftarrow> TransmitFIFO_loop E d devVar fs pevent' w1;
        Some (f\<lparr>ff_packetList := []\<rparr> # fs', w2)
      }
      else do {
        (fs', w1) \<leftarrow> TransmitFIFO_loop E d devVar fs pevent w;
        Some (f # fs', w1)
      })"

definition fn_NetSim_AODV_TransmitFIFOBuffer ::
    "NETSIM_STACK \<Rightarrow> AODV_WORLD \<Rightarrow> AODV_WORLD option" where
  "fn_NetSim_AODV_TransmitFIFOBuffer E w = do {
     let d = nDeviceId (ev w);
     devVar \<leftarrow> AODV_DEV_VAR d w;
     (fs, w1) \<leftarrow> TransmitFIFO_loop E d devVar (fifo devVar) (ev w) w;
     upd_dev d (fifo_update (\<lambda>_. fs)) w1
   }"

section \<open>The buffer as a map from destinations to queues\<close>

fun find_fifo :: "AODV_FIFO list \<Rightarrow> NETSIM_IPAddress \<Rightarrow> AODV_FIFO option" where
  "find_fifo [] d = None"
| "find_fifo (f # fs) d = (if IP_COMPARE (ff_destination f) d = 0 then Some f else find_fifo fs d)"

lemma find_fifo_find:
  "find_fifo fs d = find (\<lambda>f. ip_canon (ff_destination f) = ip_canon d) fs"
  by (induction fs) (auto simp: same_ip_canon)

interpretation ff: addressed_table ip_canon ff_destination find_fifo
  by unfold_locales (rule find_fifo_find)

definition fifo_unique :: "AODV_FIFO list \<Rightarrow> bool" where
  "fifo_unique fs \<longleftrightarrow> distinct (map (\<lambda>f. ip_canon (ff_destination f)) fs)"

text \<open>The packets buffered for an address, oldest first.\<close>

definition buffered :: "AODV_FIFO list \<Rightarrow> NETSIM_IPAddress \<Rightarrow> pid list" where
  "buffered fs d = (case find_fifo fs d of None \<Rightarrow> [] | Some f \<Rightarrow> ff_packetList f)"

definition all_buffered :: "AODV_FIFO list \<Rightarrow> pid list" where
  "all_buffered fs = concat (map ff_packetList fs)"

lemma fifo_unique_cells: "fifo_unique = ff.unique_cells"
  by (rule ext) (simp add: fifo_unique_def ff.unique_cells_def)

lemma add_loop_dests:
  "set (map (\<lambda>f. ip_canon (ff_destination f)) (snd (AddToFIFO_loop d p t fs)))
     = insert (ip_canon d) (set (map (\<lambda>f. ip_canon (ff_destination f)) fs))"
  by (induction fs) (auto simp: same_ip_canon split: prod.splits)

lemma add_loop_unique:
  "fifo_unique fs \<Longrightarrow> fifo_unique (snd (AddToFIFO_loop d p t fs))"
proof (induction fs)
  case Nil
  then show ?case by (simp add: fifo_unique_def)
next
  case (Cons f fs)
  then show ?case
    using add_loop_dests [of d p t fs]
    by (auto simp: fifo_unique_def same_ip_canon split: prod.splits)
qed

lemma add_loop_result: "fst (AddToFIFO_loop d p t fs) \<longleftrightarrow> buffered fs d \<noteq> []"
  by (induction fs) (auto simp: buffered_def split: prod.splits)

lemma add_loop_buffered:
  "buffered (snd (AddToFIFO_loop d p t fs)) d'
     = (if same_ip d' d then buffered fs d @ [p] else buffered fs d')"
proof (induction fs)
  case Nil
  then show ?case by (simp add: buffered_def same_ip_canon)
next
  case (Cons f fs)
  then show ?case
    by (auto simp: buffered_def same_ip_canon split: prod.splits option.splits)
qed

end
