(* ===== verification/Aodv_Lib.thy ===== *)
theory Aodv_Lib
  imports Aodv_Fifo
begin

text \<open>
  The protocol's support library (\<open>AODV/AODVlib.c\<close>) and the entry points of
  \<open>AODV/AODV.c\<close> that only call it: start and end of a simulation, packet copies, the
  choice of the interface an event is processed on, and the construction of control
  packets.  Writing the log file of \<open>fn_NetSim_AODV_Init\<close> and releasing addresses with
  \<open>IP_FREE\<close> have no effect on the modelled state.
\<close>

section \<open>The interface an event is processed on\<close>

fun processing_interface_loop ::
    "NETSIM_STACK \<Rightarrow> NETSIM_ID \<Rightarrow> NETSIM_IPAddress \<Rightarrow> nat list \<Rightarrow> NETSIM_ID" where
  "processing_interface_loop E d ip [] = 1"
| "processing_interface_loop E d ip (i # is) =
     (if IP_IS_IN_SAME_NETWORK E ip (DEVICE_NWADDRESS E d (i + 1))
           (szSubnetMask E d (i + 1)) (prefix_len E d (i + 1))
      then i + 1 else processing_interface_loop E d ip is)"

definition aodv_get_processing_interface ::
    "NETSIM_STACK \<Rightarrow> NETSIM_ID \<Rightarrow> pid option \<Rightarrow> AODV_WORLD \<Rightarrow> NETSIM_ID option" where
  "aodv_get_processing_interface E d packet w =
     (case packet of
        None \<Rightarrow> Some (if nInterfaceId (ev w) \<noteq> 0 then nInterfaceId (ev w) else 1)
      | Some p \<Rightarrow>
          if nNumOfInterface E d = 1 then Some 1
          else do {
            k \<leftarrow> get_pkt p w;
            let dest = szDestIP k;
            let ip = (if isBroadcastIP E dest \<or> isMulticastIP E dest then szSourceIP k
                      else szDestIP k);
            Some (processing_interface_loop E d ip [0..<nNumOfInterface E d])
          })"

definition set_aodv_curr :: "NETSIM_STACK \<Rightarrow> AODV_WORLD \<Rightarrow> AODV_WORLD option" where
  "set_aodv_curr E w = do {
     let d = nDeviceId (ev w);
     i \<leftarrow> aodv_get_processing_interface E d (pPacket (ev w)) w;
     Some (w\<lparr>aodvCurr := Some \<lparr>devId = d, ifId = i, ifIP = DEVICE_NWADDRESS E d i\<rparr>\<rparr>)
   }"

definition aodv_get_curr_ip :: "AODV_WORLD \<Rightarrow> NETSIM_IPAddress option" where
  "aodv_get_curr_ip w = map_option ifIP (aodvCurr w)"

definition aodv_get_curr_if :: "AODV_WORLD \<Rightarrow> NETSIM_ID option" where
  "aodv_get_curr_if w = map_option ifId (aodvCurr w)"

definition aodv_get_dev_ip ::
    "NETSIM_STACK \<Rightarrow> NETSIM_ID \<Rightarrow> AODV_WORLD \<Rightarrow> NETSIM_IPAddress option" where
  "aodv_get_dev_ip E d w = do {
     c \<leftarrow> aodvCurr w;
     if d = devId c then Some (ifIP c)
     else if d = 0 then Some (GET_BROADCAST_IP E (ip_type (ifIP c)))
     else Some (DEVICE_NWADDRESS E d (GetConnectedInterface E (devId c) (ifId c) d))
   }"

text \<open>The destination to look for, or the default gateway for another network.\<close>

definition aodvGetdestIP ::
    "NETSIM_STACK \<Rightarrow> NetSim_PACKET \<Rightarrow> NETSIM_ID \<Rightarrow> AODV_WORLD
       \<Rightarrow> (NETSIM_IPAddress option \<times> AODV_WORLD) option" where
  "aodvGetdestIP E packet dev w = do {
     src \<leftarrow> aodv_get_dev_ip E dev w;
     let dest = szDestIP packet;
     let gateway = szDefaultGateWay E dev 1;
     let no_gateway = ''Configure default gateway to communicate with external network for device %d'';
     let other = (gateway, if gateway = None then fnNetSimError no_gateway w else w);
     if ip_type src = ip_type dest then do {
       let n1 = IP_NETWORK_ADDRESS E src (szSubnetMask E dev 1) (prefix_len E dev 1);
       let n2 = IP_NETWORK_ADDRESS E dest (szSubnetMask E dev 1) (prefix_len E dev 1);
       if IP_COMPARE n1 n2 = 0 then Some (Some dest, w) else Some other
     }
     else Some other
   }"

section \<open>Control packets\<close>

definition fn_NetSim_AODV_GenerateCtrlPacket ::
    "NETSIM_STACK \<Rightarrow> NETSIM_ID \<Rightarrow> NETSIM_ID \<Rightarrow> NETSIM_ID \<Rightarrow> simtime \<Rightarrow> nat \<Rightarrow> AODV_WORLD
       \<Rightarrow> (pid \<times> AODV_WORLD) option" where
  "fn_NetSim_AODV_GenerateCtrlPacket E src dest recv dTime type w = do {
     srcIP \<leftarrow> aodv_get_dev_ip E src w;
     destIP \<leftarrow> aodv_get_dev_ip E dest w;
     currIP \<leftarrow> aodv_get_curr_ip w;
     recvIP \<leftarrow> aodv_get_dev_ip E recv w;
     let k0 = (blankPacket E)\<lparr>pk_dEventTime := dTime, nControlDataType := type\<rparr>;
     let k = (add_dest_to_packet E k0 dest)
           \<lparr>nPacketPriority := Priority_High, nPacketType := PacketType_Control,
            nQOS := QOS_BE, nReceiverId := recv, nSourceId := src, nTransmitterId := src,
            dArrivalTime := dTime, dStartTime := dTime, dEndTime := dTime,
            nRoutingProtocol := NW_PROTOCOL_AODV,
            szSourceIP := srcIP, szDestIP := destIP,
            szGatewayIP := Some currIP, szNextHopIp := Some recvIP\<rparr>;
     Some (new_pkt k w)
   }"

definition AODV_RREQ_SIZE :: "NETSIM_STACK \<Rightarrow> NETSIM_ID \<Rightarrow> real" where
  "AODV_RREQ_SIZE E d = (if DEVICE_NWPROTOCOL E d 1 = NW_PROTOCOL_IPV4 then 24 else 72)"

definition AODV_RREP_SIZE :: "NETSIM_STACK \<Rightarrow> NETSIM_ID \<Rightarrow> real" where
  "AODV_RREP_SIZE E d = (if DEVICE_NWPROTOCOL E d 1 = NW_PROTOCOL_IPV4 then 20 else 56)"

text \<open>
  \<open>strcpy\<close> into a buffer: the characters up to the terminator and the terminator; reading
  past an unterminated source or writing past the destination is undefined.
\<close>

definition NUL :: char where "NUL = CHR 0x00"

definition c_strcpy :: "char list \<Rightarrow> char list \<Rightarrow> char list option" where
  "c_strcpy dst src =
     (let n = length (takeWhile (\<lambda>c. c \<noteq> NUL) src)
      in if n < length src \<and> n < length dst
         then Some (take n src @ [NUL] @ drop (Suc n) dst) else None)"

definition copy_rreq :: "AODV_RREQ \<Rightarrow> AODV_RREQ option" where
  "copy_rreq src = do {
     j \<leftarrow> c_strcpy (replicate 6 NUL) (rq_JRGDU src);
     Some \<lparr>rq_Type = rq_Type src, rq_JRGDU = j, rq_Reserved = rq_Reserved src,
       rq_HopCount = rq_HopCount src, rq_RREQID = rq_RREQID src,
       rq_DestinationIPAddress = rq_DestinationIPAddress src,
       rq_DestinationSequenceNumber = rq_DestinationSequenceNumber src,
       rq_OriginatorIPAddress = rq_OriginatorIPAddress src,
       rq_OriginatorSequenceNumber = rq_OriginatorSequenceNumber src,
       rq_LastAddress = rq_LastAddress src\<rparr>
   }"

definition copy_rrep :: "AODV_RREP \<Rightarrow> AODV_RREP option" where
  "copy_rrep src = do {
     r \<leftarrow> c_strcpy (replicate 3 NUL) (rp_RA src);
     Some \<lparr>rp_Type = rp_Type src, rp_RA = r, rp_Reserved = rp_Reserved src,
       rp_PrefixSz = rp_PrefixSz src, rp_HopCount = rp_HopCount src,
       rp_DestinationIPaddress = rp_DestinationIPaddress src,
       rp_DestinationSequenceNumber = rp_DestinationSequenceNumber src,
       rp_OriginatorIPaddress = rp_OriginatorIPaddress src,
       rp_Lifetime = rp_Lifetime src, rp_LastAddress = rp_LastAddress src,
       rp_congestionflag = False\<rparr>
   }"

definition copy_rerr :: "AODV_RERR \<Rightarrow> AODV_RERR option" where
  "copy_rerr src =
     (let n = unat (re_DestCount src)
      in if n \<le> length (re_UnreachableDestinationIPAddress src)
            \<and> n \<le> length (re_UnreachableDestinationSequenceNumber src)
         then Some (src\<lparr>re_UnreachableDestinationIPAddress :=
                          take n (re_UnreachableDestinationIPAddress src),
                        re_UnreachableDestinationSequenceNumber :=
                          take n (re_UnreachableDestinationSequenceNumber src)\<rparr>)
         else None)"

definition fn_NetSim_AODV_CopyPacket_F ::
    "NetSim_PACKET \<Rightarrow> NetSim_PACKET \<Rightarrow> AODV_WORLD \<Rightarrow> (NetSim_PACKET \<times> AODV_WORLD) option" where
  "fn_NetSim_AODV_CopyPacket_F destPacket srcPacket w =
     (if nControlDataType srcPacket = AODVctrlPacket_RREQ then do {
        src \<leftarrow> hdr_rreq srcPacket;
        dest \<leftarrow> copy_rreq src;
        Some (destPacket\<lparr>Packet_RoutingProtocol := HdrRREQ dest\<rparr>, w)
      }
      else if nControlDataType srcPacket = AODVctrlPacket_RREP then do {
        src \<leftarrow> hdr_rrep srcPacket;
        dest \<leftarrow> copy_rrep src;
        Some (destPacket\<lparr>Packet_RoutingProtocol := HdrRREP dest\<rparr>, w)
      }
      else if nControlDataType srcPacket = AODVctrlPacket_RERR then do {
        src \<leftarrow> hdr_rerr srcPacket;
        dest \<leftarrow> copy_rerr src;
        Some (destPacket\<lparr>Packet_RoutingProtocol := HdrRERR dest\<rparr>, w)
      }
      else Some (destPacket, fnNetSimError ''Unknown control packet for AODV copy packet'' w))"

text \<open>The addresses \<open>fn_NetSim_AODV_FreePacket_F\<close> gives back, in order.\<close>

definition fn_NetSim_AODV_FreePacket_F :: "NetSim_PACKET \<Rightarrow> NETSIM_IPAddress list option" where
  "fn_NetSim_AODV_FreePacket_F packet =
     (if nControlDataType packet = AODVctrlPacket_RREQ then
        map_option (\<lambda>r. [rq_DestinationIPAddress r, rq_LastAddress r, rq_OriginatorIPAddress r])
          (hdr_rreq packet)
      else if nControlDataType packet = AODVctrlPacket_RREP then
        map_option (\<lambda>r. [rp_DestinationIPaddress r, rp_LastAddress r, rp_OriginatorIPaddress r])
          (hdr_rrep packet)
      else if nControlDataType packet = AODVctrlPacket_RERR then do {
        r \<leftarrow> hdr_rerr packet;
        if unat (re_DestCount r) \<le> length (re_UnreachableDestinationIPAddress r)
        then Some (take (unat (re_DestCount r)) (re_UnreachableDestinationIPAddress r))
        else None
      }
      else Some [])"

section \<open>Start and end of a simulation\<close>

definition is_aodv_device :: "NETSIM_STACK \<Rightarrow> NETSIM_ID \<Rightarrow> bool" where
  "is_aodv_device E d \<longleftrightarrow> nwRouting E d = Some NW_PROTOCOL_AODV"

text \<open>The device and interface pairs on which AODV runs, in the order of the two loops.\<close>

definition init_aodv_state :: "NETSIM_STACK \<Rightarrow> (NETSIM_ID \<times> NETSIM_ID) list" where
  "init_aodv_state E =
     concat (map (\<lambda>i.
       if \<not> is_aodv_device E (i + 1) then []
       else concat (map (\<lambda>j.
              if is_aodv_device E (GetFirstConnectedDevice E (i + 1) (j + 1))
              then [(i + 1, j + 1)] else [])
            [0..<nNumOfInterface E (i + 1)]))
       [0..<nDeviceCount E])"

fun isAodvConfigured_loop ::
    "(NETSIM_ID \<times> NETSIM_ID) list \<Rightarrow> NETSIM_ID \<Rightarrow> NETSIM_ID \<Rightarrow> bool" where
  "isAodvConfigured_loop [] d i = False"
| "isAodvConfigured_loop (s # ss) d i =
     (if fst s = d \<and> snd s = i then True else isAodvConfigured_loop ss d i)"

definition isAodvConfigured :: "NETSIM_ID \<Rightarrow> NETSIM_ID \<Rightarrow> AODV_WORLD \<Rightarrow> bool" where
  "isAodvConfigured d i w = isAodvConfigured_loop (aodvState w) d i"

definition hello_timer :: "NETSIM_STACK \<Rightarrow> NETSIM_ID \<Rightarrow> NetSim_EVENTDETAILS" where
  "hello_timer E d =
     \<lparr>dEventTime = AODV_HELLO_INTERVAL, nEventType = TIMER_EVENT,
      nProtocolId = NW_PROTOCOL_AODV, nDeviceType = deviceType E d, nDeviceId = d,
      nInterfaceId = 0, nApplicationId = 0, dPacketSize = 0, pPacket = None,
      ev_nPacketId = 0, nSegmentId = 0, nSubEventType = AODVsubevent_TRANSMIT_HELLO,
      szOtherDetails = None\<rparr>"

definition fn_NetSim_AODV_Init_F :: "NETSIM_STACK \<Rightarrow> AODV_WORLD \<Rightarrow> AODV_WORLD" where
  "fn_NetSim_AODV_Init_F E w =
     fold (\<lambda>loop w. if is_aodv_device E (loop + 1) then fnpAddEvent (hello_timer E (loop + 1)) w else w)
       [0..<nDeviceCount E] (w\<lparr>aodvState := init_aodv_state E\<rparr>)"

definition fn_NetSim_AODV_Configure_F :: "NETSIM_ID \<Rightarrow> AODV_WORLD \<Rightarrow> AODV_WORLD" where
  "fn_NetSim_AODV_Configure_F d w =
     (case AODV_DEV_VAR d w of
        None \<Rightarrow> w\<lparr>devs := (devs w)(d \<mapsto> zero_device_var)\<rparr>
      | Some v \<Rightarrow> w)"

fun free_packets :: "pid list \<Rightarrow> AODV_WORLD \<Rightarrow> AODV_WORLD option" where
  "free_packets [] w = Some w"
| "free_packets (p # ps) w = do {
     w1 \<leftarrow> fn_NetSim_Packet_FreePacket p w;
     free_packets ps w1
   }"

fun Finish_loop :: "NETSIM_STACK \<Rightarrow> nat list \<Rightarrow> AODV_WORLD \<Rightarrow> AODV_WORLD option" where
  "Finish_loop E [] w = Some w"
| "Finish_loop E (i # is) w =
     (if is_aodv_device E (i + 1) then do {
        devVar \<leftarrow> AODV_DEV_VAR (i + 1) w;
        w1 \<leftarrow> free_packets (all_buffered (fifo devVar)) w;
        Finish_loop E is (w1\<lparr>devs := (devs w1)(i + 1 := None)\<rparr>)
      }
      else Finish_loop E is w)"

definition fn_NetSim_AODV_Finish_F :: "NETSIM_STACK \<Rightarrow> AODV_WORLD \<Rightarrow> AODV_WORLD option" where
  "fn_NetSim_AODV_Finish_F E w = Finish_loop E [0..<nDeviceCount E] w"

text \<open>The rows of the metrics table: the device and its nine printed counters.\<close>

definition metrics_row :: "NETSIM_ID \<Rightarrow> AODV_METRICS \<Rightarrow> NETSIM_ID \<times> u32 list" where
  "metrics_row d m =
     (d, [rreqSent m, rreqForwarded m, rrepSent m, rrepForwarded m, rerrSent m,
          rerrForwarded m, packetOrginated m, packetTransmitted m, packetDropped m])"

fun Metrics_loop ::
    "NETSIM_STACK \<Rightarrow> nat list \<Rightarrow> AODV_WORLD \<Rightarrow> (NETSIM_ID \<times> u32 list) list option" where
  "Metrics_loop E [] w = Some []"
| "Metrics_loop E (i # is) w =
     (if is_aodv_device E (i + 1) then do {
        devVar \<leftarrow> AODV_DEV_VAR (i + 1) w;
        rows \<leftarrow> Metrics_loop E is w;
        Some (metrics_row (i + 1) (aodvMetrics devVar) # rows)
      }
      else Metrics_loop E is w)"

definition fn_NetSim_AODV_Metrics_F ::
    "NETSIM_STACK \<Rightarrow> AODV_WORLD \<Rightarrow> (NETSIM_ID \<times> u32 list) list option" where
  "fn_NetSim_AODV_Metrics_F E w = Metrics_loop E [0..<nDeviceCount E] w"

definition fn_NetSim_AODV_Trace_F :: "nat \<Rightarrow> string" where
  "fn_NetSim_AODV_Trace_F n =
     (if n = AODVsubevent_RREQ_TIMEOUT then ''AODV_RREQ_TIME_OUT''
      else if n = AODVsubevent_TRANSMIT_HELLO then ''AODV_TRANSMIT_HELLO''
      else if n = AODVsubevent_ACTIVE_ROUTE_TIMEOUT then ''AODV_ACTIVE_ROUTE_TIMEOUT''
      else ''AODV_UNKNOWN'')"

section \<open>Facts\<close>

lemma isAodvConfigured_iff: "isAodvConfigured d i w \<longleftrightarrow> (d, i) \<in> set (aodvState w)"
proof -
  have "isAodvConfigured_loop ss d i \<longleftrightarrow> (d, i) \<in> set ss" for ss
    by (induction ss) auto
  then show ?thesis by (simp add: isAodvConfigured_def)
qed

lemma init_aodv_state_iff:
  "(d, i) \<in> set (init_aodv_state E) \<longleftrightarrow>
     d \<in> {1..nDeviceCount E} \<and> i \<in> {1..nNumOfInterface E d} \<and> is_aodv_device E d
     \<and> is_aodv_device E (GetFirstConnectedDevice E d i)"
proof -
  have "(d, i) \<in> set (init_aodv_state E) \<longleftrightarrow>
      (\<exists>k < nDeviceCount E. d = k + 1 \<and> (is_aodv_device E (k + 1) \<and>
        (\<exists>j < nNumOfInterface E (k + 1). i = j + 1 \<and>
           is_aodv_device E (GetFirstConnectedDevice E (k + 1) (j + 1)))))"
    by (auto simp: init_aodv_state_def split: if_splits)
  then show ?thesis
    by (cases d; cases i) auto
qed

end
