(* ===== verification/Aodv_Rreq.thy ===== *)
theory Aodv_Rreq
  imports Aodv_Lib
begin

text \<open>
  Route requests (\<open>AODV/RREQ.c\<close>): the table of requests seen, the table of requests sent
  with its expanding ring of TTLs, generating a request, retrying it when its timer fires,
  and forwarding a request of another node.  Processing a received request needs the route
  replies and follows in \<open>Aodv_Rrep\<close>.
\<close>

section \<open>Tables\<close>

definition fnFindSentTable :: "AODV_DEVICE_VAR \<Rightarrow> NETSIM_IPAddress \<Rightarrow> nat option" where
  "fnFindSentTable devVar ip =
     first_idx (\<lambda>t. IP_COMPARE (st_DestAddress t) ip = 0) (rreqSentTable devVar)"

definition insert_sent ::
    "NETSIM_IPAddress \<Rightarrow> int \<Rightarrow> simtime \<Rightarrow> AODV_DEVICE_VAR \<Rightarrow> AODV_DEVICE_VAR" where
  "insert_sent dest ttl dTimout devVar =
     (let (i, ts) =
        (case fnFindSentTable devVar dest of
           Some i \<Rightarrow> (i, rreqSentTable devVar)
         | None \<Rightarrow>
             (length (rreqSentTable devVar),
              rreqSentTable devVar
                @ [\<lparr>st_DestAddress = dest, st_ttl = 0, st_times = 1, st_dTimeoutTime = 0\<rparr>]))
      in devVar\<lparr>rreqSentTable :=
           ts[i := (ts ! i)
                \<lparr>st_times := (if ttl = AODV_NET_DIAMETER then st_times (ts ! i) + 1
                              else st_times (ts ! i)),
                 st_ttl := ttl,
                 st_dTimeoutTime := dTimout\<rparr>]\<rparr>)"

definition fn_NetSim_AODV_InterstInRREQSentTable ::
    "NETSIM_ID \<Rightarrow> NETSIM_IPAddress \<Rightarrow> int \<Rightarrow> simtime \<Rightarrow> AODV_WORLD \<Rightarrow> AODV_WORLD option" where
  "fn_NetSim_AODV_InterstInRREQSentTable d dest ttl dTimout w =
     upd_dev d (insert_sent dest ttl dTimout) w"

definition fnIncreaseTTL :: "AODV_DEVICE_VAR \<Rightarrow> NETSIM_IPAddress \<Rightarrow> int" where
  "fnIncreaseTTL devVar ip =
     (case fnFindSentTable devVar ip of
        None \<Rightarrow> AODV_TTL_START
      | Some i \<Rightarrow>
          (let table = rreqSentTable devVar ! i
           in if st_ttl table \<ge> AODV_TTL_THRESHOLD then AODV_NET_DIAMETER
              else if st_ttl table + AODV_TTL_INCREMENT > AODV_TTL_THRESHOLD
                   then AODV_TTL_THRESHOLD
              else st_ttl table + AODV_TTL_INCREMENT))"

definition insert_seen ::
    "NETSIM_IPAddress \<Rightarrow> u32 \<Rightarrow> simtime \<Rightarrow> AODV_RREQ_SEEN_TABLE list \<Rightarrow> AODV_RREQ_SEEN_TABLE list" where
  "insert_seen orginator rreqid dTime ts =
     ts @ [\<lparr>sn_OrginatingNode = orginator, sn_nRREQId = rreqid,
            sn_time = dTime + AODV_PATH_DISCOVERY_TIME\<rparr>]"

definition fn_NetSim_AODV_InsertInRREQSeenTable ::
    "NETSIM_ID \<Rightarrow> NETSIM_IPAddress \<Rightarrow> u32 \<Rightarrow> simtime \<Rightarrow> AODV_WORLD \<Rightarrow> AODV_WORLD option" where
  "fn_NetSim_AODV_InsertInRREQSeenTable d orginator rreqid dTime w =
     upd_dev d (rreqSeenTable_update (insert_seen orginator rreqid dTime)) w"

fun CheckRREQSeenTable_loop :: "AODV_RREQ_SEEN_TABLE list \<Rightarrow> AODV_RREQ \<Rightarrow> bool" where
  "CheckRREQSeenTable_loop [] rreq = False"
| "CheckRREQSeenTable_loop (t # ts) rreq =
     (if IP_COMPARE (sn_OrginatingNode t) (rq_OriginatorIPAddress rreq) = 0
         \<and> sn_nRREQId t = rq_RREQID rreq then True
      else CheckRREQSeenTable_loop ts rreq)"

definition fnCheckRREQSeenTable :: "AODV_DEVICE_VAR \<Rightarrow> AODV_RREQ \<Rightarrow> bool" where
  "fnCheckRREQSeenTable devVar rreq = CheckRREQSeenTable_loop (rreqSeenTable devVar) rreq"

definition fnDeleteRREQSentTable :: "nat \<Rightarrow> AODV_DEVICE_VAR \<Rightarrow> AODV_DEVICE_VAR" where
  "fnDeleteRREQSentTable i devVar =
     devVar\<lparr>rreqSentTable := remove_nth i (rreqSentTable devVar)\<rparr>"

section \<open>Timers\<close>

definition fnGetTimeoutTime :: "int \<Rightarrow> int \<Rightarrow> simtime" where
  "fnGetTimeoutTime ttl count =
     (if ttl \<noteq> AODV_NET_DIAMETER then AODV_RING_TRAVERSAL_TIME ttl
      else of_int count * AODV_NET_TRAVERSAL_TIME)"

definition rreq_timer ::
    "NETSIM_IPAddress \<Rightarrow> simtime \<Rightarrow> NETSIM_ID \<Rightarrow> NetSim_EVENTDETAILS \<Rightarrow> NetSim_EVENTDETAILS" where
  "rreq_timer dest time i e =
     \<lparr>dEventTime = dEventTime e + time, nEventType = TIMER_EVENT,
      nProtocolId = NW_PROTOCOL_AODV, nDeviceType = nDeviceType e, nDeviceId = nDeviceId e,
      nInterfaceId = i, nApplicationId = 0, dPacketSize = 0, pPacket = None,
      ev_nPacketId = 0, nSegmentId = 0, nSubEventType = AODVsubevent_RREQ_TIMEOUT,
      szOtherDetails = Some dest\<rparr>"

definition fn_NetSim_AODV_AddTimeOut ::
    "NETSIM_IPAddress \<Rightarrow> simtime \<Rightarrow> AODV_WORLD \<Rightarrow> (simtime \<times> AODV_WORLD) option" where
  "fn_NetSim_AODV_AddTimeOut dest time w = do {
     i \<leftarrow> aodv_get_curr_if w;
     let pevent = rreq_timer dest time i (ev w);
     Some (dEventTime pevent, fnpAddEvent pevent w)
   }"

section \<open>Generating, retrying and forwarding a request\<close>

text \<open>The header \<open>calloc\<close> allocates and the assignments fill in.\<close>

definition make_rreq ::
    "NETSIM_IPAddress \<Rightarrow> u32 \<Rightarrow> NETSIM_IPAddress \<Rightarrow> u32 \<Rightarrow> u32 \<Rightarrow> AODV_RREQ" where
  "make_rreq dest destSeq orig origSeq rreqid =
     \<lparr>rq_Type = 1,
      rq_JRGDU = (if destSeq = 0 then (replicate 6 NUL)[4 := CHR ''1''] else replicate 6 NUL),
      rq_Reserved = 0, rq_HopCount = 0, rq_RREQID = rreqid,
      rq_DestinationIPAddress = dest, rq_DestinationSequenceNumber = destSeq,
      rq_OriginatorIPAddress = orig, rq_OriginatorSequenceNumber = origSeq,
      rq_LastAddress = orig\<rparr>"

text \<open>
  The part \<open>fn_NetSim_AODV_GenerateRREQ\<close> and \<open>fn_NetSim_AODV_RetryRREQ\<close> have in common, up
  to the TTL: a control packet, the next sequence number and the next request number, and
  the entry in the seen table.
\<close>

definition start_rreq ::
    "NETSIM_STACK \<Rightarrow> NETSIM_IPAddress \<Rightarrow> AODV_WORLD \<Rightarrow> (pid \<times> AODV_WORLD) option" where
  "start_rreq E dest w = do {
     let d = nDeviceId (ev w);
     devVar \<leftarrow> AODV_DEV_VAR d w;
     let nDestSeq = fnFindSequenceNumber devVar dest;
     (p, w1) \<leftarrow> fn_NetSim_AODV_GenerateCtrlPacket E d 0 0 (dEventTime (ev w)) AODVctrlPacket_RREQ w;
     currIP \<leftarrow> aodv_get_curr_ip w1;
     w2 \<leftarrow> upd_dev d (nSequenceNumber_update (\<lambda>n. n + 1)) w1;
     let w3 = w2\<lparr>nRREQId := nRREQId w2 + 1\<rparr>;
     let rreq = make_rreq dest nDestSeq currIP (nSequenceNumber devVar + 1) (nRREQId w3);
     w4 \<leftarrow> upd_pkt p (\<lambda>k. k\<lparr>nw_dPacketSize := AODV_RREQ_SIZE E d,
                             nw_dOverhead := AODV_RREQ_SIZE E d,
                             Packet_RoutingProtocol := HdrRREQ rreq\<rparr>) w3;
     w5 \<leftarrow> fn_NetSim_AODV_InsertInRREQSeenTable d currIP (nRREQId w3) (dEventTime (ev w)) w4;
     Some (p, w5)
   }"

definition fn_NetSim_AODV_GenerateRREQ ::
    "NETSIM_STACK \<Rightarrow> AODV_WORLD \<Rightarrow> (pid \<times> AODV_WORLD) option" where
  "fn_NetSim_AODV_GenerateRREQ E w = do {
     let d = nDeviceId (ev w);
     p0 \<leftarrow> pPacket (ev w);
     k0 \<leftarrow> get_pkt p0 w;
     let Dest = szDestIP k0;
     (p, w1) \<leftarrow> start_rreq E Dest w;
     v1 \<leftarrow> AODV_DEV_VAR d w1;
     let ttl = word_of_int (fnIncreaseTTL v1 Dest + 1) + (1::u8);
     w2 \<leftarrow> upd_pkt p (nTTL_update (\<lambda>_. ttl)) w1;
     let time = fnGetTimeoutTime (uint ttl - 1) 1;
     (t, w3) \<leftarrow> fn_NetSim_AODV_AddTimeOut Dest time w2;
     w4 \<leftarrow> fn_NetSim_AODV_InterstInRREQSentTable d Dest (uint ttl - 1) t w3;
     w5 \<leftarrow> upd_metrics d (rreqSent_update (\<lambda>n. n + 1)) w4;
     Some (p, w5)
   }"

text \<open>
  What a retry does once its three early returns are behind it: a new request with the next
  TTL, its timer, the sent table, and the event that transmits it.  \<open>n\<close> is
  \<open>table->times\<close>.
\<close>

definition resend_rreq ::
    "NETSIM_STACK \<Rightarrow> NETSIM_IPAddress \<Rightarrow> int \<Rightarrow> AODV_WORLD \<Rightarrow> AODV_WORLD option" where
  "resend_rreq E Dest n w = do {
     let d = nDeviceId (ev w);
     (p, w1) \<leftarrow> start_rreq E Dest w;
     v1 \<leftarrow> AODV_DEV_VAR d w1;
     let ttl = (word_of_int (fnIncreaseTTL v1 Dest + 1) :: u8);
     let time = fnGetTimeoutTime (uint ttl) n;
     (t, w2) \<leftarrow> fn_NetSim_AODV_AddTimeOut Dest time w1;
     w3 \<leftarrow> fn_NetSim_AODV_InterstInRREQSentTable d Dest (uint ttl - 1) t w2;
     w4 \<leftarrow> upd_pkt p (\<lambda>k. k\<lparr>nTTL := ttl, szNextHopIp := None\<rparr>) w3;
     let w5 = upd_ev (\<lambda>e. e\<lparr>dPacketSize := 0, nApplicationId := 0,
                nEventType := NETWORK_OUT_EVENT, ev_nPacketId := 0,
                nProtocolId := GetNWProtocol E d, nSegmentId := 0,
                nSubEventType := 0, pPacket := Some p,
                szOtherDetails := None\<rparr>) w4;
     let w6 = fnpAddEvent (ev w5) w5;
     upd_metrics d (rreqSent_update (\<lambda>n. n + 1)) w6
   }"

definition fn_NetSim_AODV_RetryRREQ :: "NETSIM_STACK \<Rightarrow> AODV_WORLD \<Rightarrow> (int \<times> AODV_WORLD) option" where
  "fn_NetSim_AODV_RetryRREQ E w = do {
     let d = nDeviceId (ev w);
     Dest \<leftarrow> szOtherDetails (ev w);
     devVar \<leftarrow> AODV_DEV_VAR d w;
     (case fnFindSentTable devVar Dest of
        None \<Rightarrow> Some (0, w)
      | Some i \<Rightarrow>
          let table = rreqSentTable devVar ! i
          in if st_dTimeoutTime table > dEventTime (ev w) then Some (0, w)
             else if st_times table > AODV_RREQ_RETRIES then do {
               w1 \<leftarrow> upd_dev d (fnDeleteRREQSentTable i) w;
               w2 \<leftarrow> fnEmptyFIFOBuffer d Dest w1;
               Some (1, w2)
             }
             else do {
               w1 \<leftarrow> resend_rreq E Dest (st_times table) w;
               Some (1, w1)
             })
   }"

definition fn_NetSim_AODV_ForwardRREQ :: "AODV_WORLD \<Rightarrow> AODV_WORLD option" where
  "fn_NetSim_AODV_ForwardRREQ w = do {
     let d = nDeviceId (ev w);
     p \<leftarrow> pPacket (ev w);
     k \<leftarrow> get_pkt p w;
     rreq \<leftarrow> hdr_rreq k;
     if nTTL k = 1 then fn_NetSim_Packet_FreePacket p w
     else do {
       devVar \<leftarrow> AODV_DEV_VAR d w;
       currIP \<leftarrow> aodv_get_curr_ip w;
       let nSeq = fnFindSequenceNumber devVar (rq_DestinationIPAddress rreq);
       let dsn = (if nSeq > rq_DestinationSequenceNumber rreq then nSeq
                  else rq_DestinationSequenceNumber rreq);
       let rreq' = rreq\<lparr>rq_HopCount := rq_HopCount rreq + 1,
                        rq_DestinationSequenceNumber := dsn,
                        rq_JRGDU := (if dsn \<noteq> 0 then (rq_JRGDU rreq)[4 := CHR ''1'']
                                     else rq_JRGDU rreq),
                        rq_LastAddress := currIP\<rparr>;
       w1 \<leftarrow> upd_pkt p (\<lambda>k. k\<lparr>Packet_RoutingProtocol := HdrRREQ rreq',
                                nTransmitterId := d, nReceiverId := 0,
                                szNextHopIp := None\<rparr>) w;
       let w2 = fnpAddEvent ((ev w)\<lparr>nEventType := NETWORK_OUT_EVENT, nSubEventType := 0\<rparr>) w1;
       upd_metrics d (rreqForwarded_update (\<lambda>n. n + 1)) w2
     }
   }"

end
