(* ===== verification/Aodv_Rrep.thy ===== *)
theory Aodv_Rrep
  imports Aodv_Rreq
begin

text \<open>
  Route replies (\<open>AODV/RREP.c\<close>): a reply by the destination, a reply by a node on the way
  that has a route, processing a received reply, and passing it on to the originator.
\<close>

definition make_rrep ::
    "NETSIM_IPAddress \<Rightarrow> u32 \<Rightarrow> u8 \<Rightarrow> u32 \<Rightarrow> NETSIM_IPAddress \<Rightarrow> NETSIM_IPAddress \<Rightarrow> AODV_RREP" where
  "make_rrep dest destSeq hopCount lifetime orig lastAddr =
     \<lparr>rp_Type = 2, rp_RA = replicate 3 NUL, rp_Reserved = 0, rp_PrefixSz = 0,
      rp_HopCount = hopCount, rp_DestinationIPaddress = dest,
      rp_DestinationSequenceNumber = destSeq, rp_OriginatorIPaddress = orig,
      rp_Lifetime = lifetime, rp_LastAddress = lastAddr, rp_congestionflag = False\<rparr>"

definition fn_NetSim_AODV_GenerateRREP :: "NETSIM_STACK \<Rightarrow> AODV_WORLD \<Rightarrow> AODV_WORLD option" where
  "fn_NetSim_AODV_GenerateRREP E w = do {
     let d = nDeviceId (ev w);
     p0 \<leftarrow> pPacket (ev w);
     k0 \<leftarrow> get_pkt p0 w;
     rreq \<leftarrow> hdr_rreq k0;
     (p, w1) \<leftarrow> fn_NetSim_AODV_GenerateCtrlPacket E d
                 (GetDeviceId_asIP E (rq_OriginatorIPAddress rreq))
                 (GetDeviceId_asIP E (rq_LastAddress rreq))
                 (dEventTime (ev w)) AODVctrlPacket_RREP w;
     devVar \<leftarrow> AODV_DEV_VAR d w1;
     currIP \<leftarrow> aodv_get_curr_ip w1;
     w2 \<leftarrow> upd_dev d (nSequenceNumber_update (\<lambda>n. n + 1)) w1;
     let rrep = make_rrep (rq_DestinationIPAddress rreq) (nSequenceNumber devVar + 1) 1
                  (double_to_uint AODV_MY_ROUTE_TIMEOUT) (rq_OriginatorIPAddress rreq) currIP;
     w3 \<leftarrow> upd_pkt p (\<lambda>k. k\<lparr>nw_dPacketSize := AODV_RREP_SIZE E d,
                             nw_dOverhead := AODV_RREP_SIZE E d,
                             nTTL := rq_HopCount rreq + 2,
                             Packet_RoutingProtocol := HdrRREP rrep\<rparr>) w2;
     w4 \<leftarrow> upd_pkt p0 (szNextHopIp_update (\<lambda>_. None)) w3;
     let w5 = fnpAddEvent ((ev w)\<lparr>dPacketSize := AODV_RREP_SIZE E d,
                nEventType := NETWORK_OUT_EVENT, nSubEventType := 0, pPacket := Some p\<rparr>) w4;
     upd_metrics d (rrepSent_update (\<lambda>n. n + 1)) w5
   }"

definition fn_NetSim_AODV_ForwardRREP :: "NETSIM_STACK \<Rightarrow> AODV_WORLD \<Rightarrow> AODV_WORLD option" where
  "fn_NetSim_AODV_ForwardRREP E w = do {
     let d = nDeviceId (ev w);
     p \<leftarrow> pPacket (ev w);
     k \<leftarrow> get_pkt p w;
     rrep \<leftarrow> hdr_rrep k;
     devVar \<leftarrow> AODV_DEV_VAR d w;
     if fn_NetSim_AODV_CheckRouteFound (rp_OriginatorIPaddress rrep) devVar (dEventTime (ev w))
        \<and> \<not> isBroadcastPacket E k
     then do {
       nextHop \<leftarrow> fn_NetSim_AODV_FindNextHop devVar (rp_OriginatorIPaddress rrep);
       currIP \<leftarrow> aodv_get_curr_ip w;
       w1 \<leftarrow> upd_pkt p (\<lambda>k. k\<lparr>Packet_RoutingProtocol :=
                                 HdrRREP (rrep\<lparr>rp_HopCount := rp_HopCount rrep + 1,
                                               rp_LastAddress := currIP\<rparr>),
                               nReceiverId := GetDeviceId_asIP E nextHop,
                               nTransmitterId := d,
                               szNextHopIp := None\<rparr>) w;
       let w2 = fnpAddEvent ((ev w)\<lparr>nEventType := NETWORK_OUT_EVENT\<rparr>) w1;
       if nTTL k > 1 then upd_metrics d (rrepForwarded_update (\<lambda>n. n + 1)) w2
       else Some w2
     }
     else fn_NetSim_Packet_FreePacket p w
   }"

text \<open>The loop of \<open>fn_NetSim_AODV_ProcessRREP\<close> that deletes the request answered.\<close>

definition delete_sent :: "NETSIM_IPAddress \<Rightarrow> AODV_DEVICE_VAR \<Rightarrow> AODV_DEVICE_VAR" where
  "delete_sent dest devVar =
     (case first_idx (\<lambda>t. IP_COMPARE (st_DestAddress t) dest = 0) (rreqSentTable devVar) of
        None \<Rightarrow> devVar
      | Some i \<Rightarrow> devVar\<lparr>rreqSentTable := remove_nth i (rreqSentTable devVar)\<rparr>)"

definition fn_NetSim_AODV_ProcessRREP :: "NETSIM_STACK \<Rightarrow> AODV_WORLD \<Rightarrow> (int \<times> AODV_WORLD) option" where
  "fn_NetSim_AODV_ProcessRREP E w = do {
     let d = nDeviceId (ev w);
     p \<leftarrow> pPacket (ev w);
     k \<leftarrow> get_pkt p w;
     rrep \<leftarrow> hdr_rrep k;
     currIP \<leftarrow> aodv_get_curr_ip w;
     if ip_same_pointer E (rp_DestinationIPaddress rrep) currIP then Some (0, w)
     else do {
       w1 \<leftarrow> (if rp_congestionflag rrep = True
              then upd_dev d (ncounter_update (\<lambda>n. n + 1)) w else Some w);
       w2 \<leftarrow> fn_NetSim_AODV_InsertInRouteTable (rp_DestinationIPaddress rrep)
              (rp_DestinationSequenceNumber rrep) (ucast (rp_HopCount rrep))
              (rp_LastAddress rrep) (dEventTime (ev w) + AODV_ACTIVE_ROUTE_TIMEOUT) w1;
       w3 \<leftarrow> fn_NetSim_AODV_TransmitFIFOBuffer E w2;
       w4 \<leftarrow> fn_NetSim_AODV_InsertInPrecursorsList (rp_LastAddress rrep) w3;
       w5 \<leftarrow> fn_NetSim_AODV_UpdateRouteTable (rp_LastAddress rrep)
              (of_int (uint (rp_Lifetime rrep))) w4;
       if IP_COMPARE currIP (rp_OriginatorIPaddress rrep) = 0 then do {
         w6 \<leftarrow> upd_dev d (delete_sent (rp_DestinationIPaddress rrep)) w5;
         w7 \<leftarrow> fn_NetSim_Packet_FreePacket p w6;
         Some (1, w7)
       }
       else do {
         w6 \<leftarrow> fn_NetSim_AODV_ForwardRREP E w5;
         Some (1, w6)
       }
     }
   }"

definition fn_NetSim_AODV_GenerateRREPByIntermediate ::
    "NETSIM_STACK \<Rightarrow> AODV_WORLD \<Rightarrow> (int \<times> AODV_WORLD) option" where
  "fn_NetSim_AODV_GenerateRREPByIntermediate E w = do {
     let d = nDeviceId (ev w);
     p0 \<leftarrow> pPacket (ev w);
     k0 \<leftarrow> get_pkt p0 w;
     rreq \<leftarrow> hdr_rreq k0;
     devVar \<leftarrow> AODV_DEV_VAR d w;
     (p, w1) \<leftarrow> fn_NetSim_AODV_GenerateCtrlPacket E d
                 (GetDeviceId_asIP E (rq_OriginatorIPAddress rreq))
                 (GetDeviceId_asIP E (rq_LastAddress rreq))
                 (dEventTime (ev w)) AODVctrlPacket_RREP w;
     table \<leftarrow> fnFindRouteTable (routeTable devVar) (rq_DestinationIPAddress rreq);
     if IP_COMPARE (rt_NextHop table) (rq_LastAddress rreq) = 0 then do {
       w2 \<leftarrow> fn_NetSim_AODV_ForwardRREQ w1;
       Some (0, w2)
     }
     else do {
       currIP \<leftarrow> aodv_get_curr_ip w1;
       let rrep = make_rrep (rq_DestinationIPAddress rreq)
                    (fnFindSequenceNumber devVar (rq_DestinationIPAddress rreq))
                    (ucast (rt_HopCount table))
                    (double_to_uint (rt_Lifetime table - dEventTime (ev w)))
                    (rq_OriginatorIPAddress rreq) currIP;
       w2 \<leftarrow> upd_pkt p (\<lambda>k. k\<lparr>nw_dPacketSize := AODV_RREP_SIZE E d,
                               nw_dOverhead := AODV_RREP_SIZE E d,
                               nTTL := word_of_int AODV_NET_DIAMETER,
                               Packet_RoutingProtocol := HdrRREP rrep\<rparr>) w1;
       w3 \<leftarrow> upd_pkt p0 (szNextHopIp_update (\<lambda>_. None)) w2;
       let w4 = fnpAddEvent ((ev w)\<lparr>dPacketSize := AODV_RREP_SIZE E d,
                  nEventType := NETWORK_OUT_EVENT, nSubEventType := 0, pPacket := Some p\<rparr>) w3;
       w5 \<leftarrow> upd_metrics d (rrepSent_update (\<lambda>n. n + 1)) w4;
       Some (1, w5)
     }
   }"

section \<open>Processing a request\<close>

text \<open>
  Processing a received route request (\<open>fn_NetSim_AODV_ProcessRREQ\<close> of \<open>AODV/RREQ.c\<close>), with
  the congestion test of the CC-AODV variant.  \<open>dev_counter\<close> is an \<open>int\<close> initialised from an
  \<open>unsigned int\<close>, hence \<open>sint\<close>.
\<close>

text \<open>What is done with a new request once it is recorded: answer, drop, pass on or nothing.\<close>

definition answer_rreq ::
    "NETSIM_STACK \<Rightarrow> pid \<Rightarrow> AODV_RREQ \<Rightarrow> AODV_WORLD \<Rightarrow> (int \<times> AODV_WORLD) option" where
  "answer_rreq E packet rreq w = do {
     currIP \<leftarrow> aodv_get_curr_ip w;
     if IP_COMPARE currIP (rq_DestinationIPAddress rreq) = 0 then do {
       w1 \<leftarrow> fn_NetSim_AODV_GenerateRREP E w;
       w2 \<leftarrow> fn_NetSim_Packet_FreePacket packet w1;
       Some (1, upd_ev (pPacket_update (\<lambda>_. None)) w2)
     }
     else do {
       devVar \<leftarrow> AODV_DEV_VAR (nDeviceId (ev w)) w;
       if sint (ncounter devVar) > 25 then do {
         w1 \<leftarrow> fn_NetSim_Packet_FreePacket packet w;
         Some (1, upd_ev (pPacket_update (\<lambda>_. None)) w1)
       }
       else if fn_NetSim_AODV_CheckRouteFound (rq_DestinationIPAddress rreq) devVar (dEventTime (ev w))
               \<and> rq_JRGDU rreq ! 3 \<noteq> CHR ''1'' then do {
         (r, w1) \<leftarrow> fn_NetSim_AODV_GenerateRREPByIntermediate E w;
         if r \<noteq> 0 then do {
           w2 \<leftarrow> fn_NetSim_Packet_FreePacket packet w1;
           Some (1, upd_ev (pPacket_update (\<lambda>_. None)) w2)
         }
         else do {
           w2 \<leftarrow> fn_NetSim_AODV_ForwardRREQ w1;
           Some (1, w2)
         }
       }
       else Some (1, w)
     }
   }"

definition fn_NetSim_AODV_ProcessRREQ :: "NETSIM_STACK \<Rightarrow> AODV_WORLD \<Rightarrow> (int \<times> AODV_WORLD) option" where
  "fn_NetSim_AODV_ProcessRREQ E w = do {
     let d = nDeviceId (ev w);
     let now = dEventTime (ev w);
     packet \<leftarrow> pPacket (ev w);
     k \<leftarrow> get_pkt packet w;
     rreq \<leftarrow> hdr_rreq k;
     v \<leftarrow> AODV_DEV_VAR d w;
     if fnCheckRREQSeenTable v rreq then do {
       w1 \<leftarrow> fn_NetSim_Packet_FreePacket packet w;
       Some (0, upd_ev (pPacket_update (\<lambda>_. None)) w1)
     }
     else do {
       w1 \<leftarrow> fn_NetSim_AODV_InsertInRREQSeenTable d (rq_OriginatorIPAddress rreq)
              (rq_RREQID rreq) now w;
       w2 \<leftarrow> fn_NetSim_AODV_InsertInPrecursorsList (rq_LastAddress rreq) w1;
       w3 \<leftarrow> fn_NetSim_AODV_InsertInRouteTable (rq_OriginatorIPAddress rreq)
              (rq_OriginatorSequenceNumber rreq) (ucast (rq_HopCount rreq))
              (rq_LastAddress rreq)
              (now + 2 * AODV_NET_TRAVERSAL_TIME
                 - 2 * of_int (uint (rq_HopCount rreq)) * AODV_NODE_TRAVERSAL_TIME) w2;
       answer_rreq E packet rreq w3
     }
   }"

end
