(* ===== verification/Aodv_Rerr.thy ===== *)
theory Aodv_Rerr
  imports Aodv_Rrep
begin

text \<open>
  Route errors (\<open>AODV/AODV_RouteError.c\<close>, \<open>AODV/RouteMaint.c\<close>): a broken link invalidates
  the routes through it, the unreachable neighbour leaves the precursor list, and the
  destinations lost are announced.
\<close>

section \<open>Generating a route error\<close>

definition invalidate_entry :: "simtime \<Rightarrow> AODV_ROUTETABLE \<Rightarrow> AODV_ROUTETABLE" where
  "invalidate_entry now t =
     t\<lparr>rt_routingFlags := AODV_RoutingFlag_InValid, rt_Lifetime := now + AODV_DELETE_PERIOD\<rparr>"

text \<open>The first loop: the new table and the two arrays it collects.\<close>

fun GenerateRERR_loop ::
    "NETSIM_IPAddress \<Rightarrow> simtime \<Rightarrow> AODV_ROUTETABLE list
       \<Rightarrow> AODV_ROUTETABLE list \<times> NETSIM_IPAddress list \<times> u32 list" where
  "GenerateRERR_loop UnreachableIP now [] = ([], [], [])"
| "GenerateRERR_loop UnreachableIP now (t # ts) =
     (let (ts', ds, ss) = GenerateRERR_loop UnreachableIP now ts
      in if IP_COMPARE (rt_NextHop t) UnreachableIP = 0
         then (invalidate_entry now t # ts', rt_DestinationIPAddress t # ds,
               rt_DestinationSequenceNumber t # ss)
         else (t # ts', ds, ss))"

text \<open>
  The second loop, over the array of precursors: \<open>loop\<close>, \<open>flag\<close>, the array and the count
  are its variables.  Reading \<open>list[loop+1]\<close> past the end of the array is undefined.
\<close>

function precursor_loop ::
    "NETSIM_IPAddress \<Rightarrow> nat \<Rightarrow> bool \<Rightarrow> NETSIM_IPAddress list \<Rightarrow> nat
       \<Rightarrow> (NETSIM_IPAddress list \<times> nat) option" where
  "precursor_loop ip loop flag xs count =
     (if loop < count then
        (if loop < length xs then
           (let hit = (IP_COMPARE (xs ! loop) ip = 0);
                count' = (if hit then count - 1 else count);
                flag' = (flag \<or> hit)
            in if flag'
               then (if loop + 1 < length xs
                     then precursor_loop ip (loop + 1) flag' (xs[loop := xs ! (loop + 1)]) count'
                     else None)
               else precursor_loop ip (loop + 1) flag' xs count')
         else None)
      else Some (xs, count))"
  by pat_completeness auto
termination
  by (relation "measure (\<lambda>(ip, loop, flag, xs, count). count - loop)") auto

declare precursor_loop.simps [simp del]

definition remove_precursor ::
    "NETSIM_IPAddress \<Rightarrow> AODV_PRECURSORS_LIST \<Rightarrow> AODV_PRECURSORS_LIST option" where
  "remove_precursor ip pl =
     (if pl_count pl \<noteq> 0 then do {
        (xs, n) \<leftarrow> precursor_loop ip 0 False (pl_list pl) (pl_count pl);
        Some \<lparr>pl_list = xs, pl_count = n\<rparr>
      }
      else Some pl)"

definition make_rerr :: "NETSIM_IPAddress list \<Rightarrow> u32 list \<Rightarrow> AODV_RERR" where
  "make_rerr ds ss =
     \<lparr>re_Type = 3, re_N = NUL, re_Reserved = 0, re_DestCount = of_nat (length ds),
      re_UnreachableDestinationIPAddress = ds, re_UnreachableDestinationSequenceNumber = ss\<rparr>"

definition AODV_RERR_SIZE :: "NETSIM_STACK \<Rightarrow> NETSIM_ID \<Rightarrow> nat \<Rightarrow> real" where
  "AODV_RERR_SIZE E d n =
     4 + (if DEVICE_NWPROTOCOL E d 1 = NW_PROTOCOL_IPV4 then 8 else 20) * real n"

text \<open>
  The two loops on the device's tables.  \<open>UnreachableIP\<close> is the next hop recorded in a
  dropped packet; the first thing done with it is to follow the pointer, so a null pointer
  is undefined as soon as there is a route or a precursor.
\<close>

definition break_link ::
    "NETSIM_ID \<Rightarrow> NETSIM_IPAddress option \<Rightarrow> AODV_WORLD
       \<Rightarrow> (NETSIM_IPAddress list \<times> u32 list \<times> AODV_WORLD) option" where
  "break_link d UnreachableIP w = do {
     w1 \<leftarrow> upd_dev d (ncounter_update (\<lambda>n. n - 1)) w;
     v \<leftarrow> AODV_DEV_VAR d w1;
     pl \<leftarrow> precursorsList v;
     (ts, ds, ss) \<leftarrow> (case UnreachableIP of
         Some ip \<Rightarrow> Some (GenerateRERR_loop ip (dEventTime (ev w)) (routeTable v))
       | None \<Rightarrow> if routeTable v = [] then Some ([], [], []) else None);
     pl' \<leftarrow> (case UnreachableIP of
         Some ip \<Rightarrow> remove_precursor ip pl
       | None \<Rightarrow> if pl_count pl = 0 then Some pl else None);
     w2 \<leftarrow> upd_dev d (\<lambda>v. v\<lparr>routeTable := ts, precursorsList := Some pl'\<rparr>) w1;
     Some (ds, ss, w2)
   }"

text \<open>The broadcast of the destinations collected.\<close>

definition send_rerr ::
    "NETSIM_STACK \<Rightarrow> NETSIM_ID \<Rightarrow> NETSIM_IPAddress list \<Rightarrow> u32 list \<Rightarrow> AODV_WORLD
       \<Rightarrow> AODV_WORLD option" where
  "send_rerr E d ds ss w = do {
     (p, w1) \<leftarrow> fn_NetSim_AODV_GenerateCtrlPacket E d 0 0 (dEventTime (ev w))
                 AODVctrlPacket_RERR w;
     let size = AODV_RERR_SIZE E (nDeviceId (ev w)) (length ds);
     w2 \<leftarrow> upd_pkt p (\<lambda>k. k\<lparr>nw_dOverhead := size, nw_dPacketSize := size,
                             nTTL := word_of_int AODV_NET_DIAMETER,
                             Packet_RoutingProtocol := HdrRERR (make_rerr ds ss),
                             szNextHopIp := None\<rparr>) w1;
     let w3 = fnpAddEvent ((ev w)\<lparr>dPacketSize := size, nApplicationId := 0,
                nEventType := NETWORK_OUT_EVENT, ev_nPacketId := 0,
                nProtocolId := NW_PROTOCOL_AODV, nSegmentId := 0, nSubEventType := 0,
                pPacket := Some p, szOtherDetails := None\<rparr>) w2;
     upd_metrics (nDeviceId (ev w))
       (\<lambda>m. m\<lparr>rerrSent := rerrSent m + 1, routeBreak := routeBreak m + 1\<rparr>) w3
   }"

definition fn_NetSim_AODV_GenerateRERR ::
    "NETSIM_STACK \<Rightarrow> NETSIM_ID \<Rightarrow> NETSIM_IPAddress option \<Rightarrow> AODV_WORLD \<Rightarrow> AODV_WORLD option" where
  "fn_NetSim_AODV_GenerateRERR E d UnreachableIP w = do {
     (ds, ss, w1) \<leftarrow> break_link d UnreachableIP w;
     if ds \<noteq> [] then send_rerr E d ds ss w1 else Some w1
   }"

section \<open>Processing a route error\<close>

definition rerr_hits :: "AODV_RERR \<Rightarrow> NETSIM_IPAddress \<Rightarrow> AODV_ROUTETABLE \<Rightarrow> bool" where
  "rerr_hits rerr nextHop t \<longleftrightarrow>
     list_ex (\<lambda>a. IP_COMPARE a (rt_DestinationIPAddress t) = 0
                   \<and> IP_COMPARE nextHop (rt_NextHop t) = 0)
       (take (unat (re_DestCount rerr)) (re_UnreachableDestinationIPAddress rerr))"

definition fn_NetSim_AODV_ProcessRERR :: "AODV_WORLD \<Rightarrow> AODV_WORLD option" where
  "fn_NetSim_AODV_ProcessRERR w = do {
     let d = nDeviceId (ev w);
     p \<leftarrow> pPacket (ev w);
     k \<leftarrow> get_pkt p w;
     rerr \<leftarrow> hdr_rerr k;
     v \<leftarrow> AODV_DEV_VAR d w;
     let nextHop = szSourceIP k;
     if unat (re_DestCount rerr) \<le> length (re_UnreachableDestinationIPAddress rerr) then do {
       let flag = list_ex (rerr_hits rerr nextHop) (routeTable v);
       w1 \<leftarrow> upd_dev d (routeTable_update (map (\<lambda>t.
               if rerr_hits rerr nextHop t then invalidate_entry (dEventTime (ev w)) t else t))) w;
       if flag then do {
         currIP \<leftarrow> aodv_get_curr_ip w1;
         w2 \<leftarrow> upd_pkt p (szSourceIP_update (\<lambda>_. currIP)) w1;
         let w3 = upd_ev (nEventType_update (\<lambda>_. NETWORK_OUT_EVENT)) w2;
         let w4 = fnpAddEvent (ev w3) w3;
         upd_metrics d (rerrForwarded_update (\<lambda>n. n + 1)) w4
       }
       else Some w1
     }
     else None
   }"

section \<open>Drop notification\<close>

definition fn_NetSim_AODV_PacketDropNotification ::
    "NETSIM_STACK \<Rightarrow> pid \<Rightarrow> AODV_WORLD \<Rightarrow> AODV_WORLD option" where
  "fn_NetSim_AODV_PacketDropNotification E packet w = do {
     w1 \<leftarrow> set_aodv_curr E w;
     let d = nDeviceId (ev w1);
     v \<leftarrow> AODV_DEV_VAR d w1;
     w3 \<leftarrow> (if nRerrCount v > 10 then do {
              k \<leftarrow> get_pkt packet w1;
              w2 \<leftarrow> fn_NetSim_AODV_GenerateRERR E d (szNextHopIp k) w1;
              upd_dev d (nRerrCount_update (\<lambda>_. 1)) w2
            }
            else Some w1);
     upd_dev d (nRerrCount_update (\<lambda>n. n + 1)) w3
   }"

end
