(* ===== verification/Aodv_Run.thy ===== *)
theory Aodv_Run
  imports Aodv_Rerr
begin

text \<open>
  The data path and the dispatcher (\<open>AODV/GeneralPacketProcessing.c\<close>,
  \<open>AODV/HelloMessage.c\<close>, \<open>fn_NetSim_AODV_Run\<close> of \<open>AODV/AODV.c\<close>).
\<close>

section \<open>Handlers\<close>

definition fn_NetSim_AODV_GeneralPacketProcessing ::
    "NETSIM_STACK \<Rightarrow> AODV_WORLD \<Rightarrow> AODV_WORLD option" where
  "fn_NetSim_AODV_GeneralPacketProcessing E w = do {
     let d = nDeviceId (ev w);
     p \<leftarrow> pPacket (ev w);
     k \<leftarrow> get_pkt p w;
     let destIP = szDestIP k;
     currIP \<leftarrow> aodv_get_curr_ip w;
     w1 \<leftarrow> upd_pkt p (szGatewayIP_update (\<lambda>_. Some currIP)) w;
     devVar \<leftarrow> AODV_DEV_VAR d w1;
     if fn_NetSim_AODV_CheckRouteFound destIP devVar (dEventTime (ev w)) then do {
       nextHop \<leftarrow> fn_NetSim_AODV_FindNextHop devVar destIP;
       w2 \<leftarrow> upd_pkt p (\<lambda>k. k\<lparr>nTransmitterId := d,
                               nReceiverId := GetDeviceId_asIP E nextHop,
                               szNextHopIp := Some nextHop,
                               nTTL := word_of_int AODV_NET_DIAMETER,
                               DropNotification := DropAODV\<rparr>) w1;
       w3 \<leftarrow> fn_NetSim_AODV_UpdateRouteTable destIP
              (dEventTime (ev w) + AODV_ACTIVE_ROUTE_TIMEOUT) w2;
       w4 \<leftarrow> (if d = nSourceId k
              then upd_metrics d (packetOrginated_update (\<lambda>n. n + 1)) w3 else Some w3);
       upd_metrics d (packetTransmitted_update (\<lambda>n. n + 1)) w4
     }
     else do {
       (already, w2) \<leftarrow> fn_NetSim_AODV_AddToFIFOBuffer p d (dEventTime (ev w)) w1;
       if already then Some (upd_ev (pPacket_update (\<lambda>_. None)) w2)
       else do {
         (q, w3) \<leftarrow> fn_NetSim_AODV_GenerateRREQ E w2;
         Some (upd_ev (pPacket_update (\<lambda>_. Some q)) w3)
       }
     }
   }"

text \<open>The lifetime of a hello is computed in \<open>double\<close> from the truncated event time.\<close>

definition make_hello :: "NETSIM_IPAddress \<Rightarrow> u32 \<Rightarrow> simtime \<Rightarrow> AODV_RREP" where
  "make_hello currIP seqNumber now =
     (make_rrep currIP seqNumber 0
        (double_to_uint (of_int (uint (double_to_uint now))
           + AODV_ALLOWED_HELLO_LOSS * AODV_HELLO_INTERVAL)) currIP currIP)\<lparr>rp_Type := 0\<rparr>"

definition fn_NetSim_AODV_TransmitHelloMessage ::
    "NETSIM_STACK \<Rightarrow> AODV_WORLD \<Rightarrow> (int \<times> AODV_WORLD) option" where
  "fn_NetSim_AODV_TransmitHelloMessage E w = do {
     let d = nDeviceId (ev w);
     let pevent = (ev w)\<lparr>dEventTime := dEventTime (ev w) + AODV_HELLO_INTERVAL\<rparr>;
     let w1 = fnpAddEvent pevent w;
     v \<leftarrow> AODV_DEV_VAR d w1;
     if dLastBroadcastTime v + AODV_HELLO_INTERVAL > dEventTime (ev w) then Some (0, w1)
     else if routeTable v \<noteq> [] then do {
       (p, w2) \<leftarrow> fn_NetSim_AODV_GenerateCtrlPacket E d 0 0 (dEventTime (ev w))
                   AODVctrlPacket_RREP w1;
       currIP \<leftarrow> aodv_get_curr_ip w2;
       w3 \<leftarrow> upd_pkt p (\<lambda>k. k\<lparr>Packet_RoutingProtocol :=
                                 HdrRREP (make_hello currIP (nSequenceNumber v) (dEventTime (ev w))),
                               nTTL := 2\<rparr>) w2;
       k \<leftarrow> get_pkt p w3;
       let w4 = fnpAddEvent (pevent\<lparr>dEventTime := dEventTime (ev w),
                  dPacketSize := fnGetPacketSize E k, nApplicationId := 0,
                  nEventType := NETWORK_OUT_EVENT, nProtocolId := GetNWProtocol E d,
                  nSubEventType := 0, pPacket := Some p, szOtherDetails := None\<rparr>) w3;
       w5 \<leftarrow> upd_pkt p (szNextHopIp_update (\<lambda>_. None)) w4;
       Some (1, w5)
     }
     else Some (1, w1)
   }"

section \<open>The dispatcher\<close>

text \<open>The end of the \<open>NETWORK_OUT_EVENT\<close> case, for the packet the event carries then.\<close>

definition network_out_tail :: "NETSIM_ID \<Rightarrow> AODV_WORLD \<Rightarrow> AODV_WORLD option" where
  "network_out_tail i w =
     (case pPacket (ev w) of
        None \<Rightarrow> Some (upd_ev (nInterfaceId_update (\<lambda>_. 0)) w)
      | Some p \<Rightarrow> do {
          k \<leftarrow> get_pkt p w;
          if nTTL k > 1 then do {
            let w1 = upd_ev (nInterfaceId_update (\<lambda>_. i)) w;
            if nReceiverId k = 0
            then upd_dev (nDeviceId (ev w1))
                   (dLastBroadcastTime_update (\<lambda>_. dEventTime (ev w1))) w1
            else Some w1
          }
          else do {
            w1 \<leftarrow> fn_NetSim_Packet_FreePacket p w;
            Some (upd_ev (\<lambda>e. e\<lparr>pPacket := None, nInterfaceId := 0\<rparr>) w1)
          }
        })"

definition run_network_out :: "NETSIM_STACK \<Rightarrow> NETSIM_ID \<Rightarrow> AODV_WORLD \<Rightarrow> (int \<times> AODV_WORLD) option" where
  "run_network_out E i w = do {
     let d = nDeviceId (ev w);
     p \<leftarrow> pPacket (ev w);
     k \<leftarrow> get_pkt p w;
     if nPacketType k \<noteq> PacketType_Control \<or> nControlDataType k div 100 \<noteq> NW_PROTOCOL_AODV
     then do {
       let dest = szDestIP k;
       ip \<leftarrow> aodv_get_curr_ip w;
       if ip_type ip \<noteq> ip_type dest then Some (0, w)
       else do {
         let n1 = IP_NETWORK_ADDRESS E ip (szSubnetMask E d i) (prefix_len E d i);
         let n2 = IP_NETWORK_ADDRESS E dest (szSubnetMask E d i) (prefix_len E d i);
         if IP_COMPARE n1 n2 = 0 then do {
           w1 \<leftarrow> fn_NetSim_AODV_GeneralPacketProcessing E w;
           w2 \<leftarrow> network_out_tail i w1;
           Some (1, w2)
         }
         else Some (0, w)
       }
     }
     else do {
       nh \<leftarrow> aodv_get_dev_ip E (nReceiverId k) w;
       w1 \<leftarrow> upd_pkt p (szNextHopIp_update (\<lambda>_. Some nh)) w;
       w2 \<leftarrow> network_out_tail i w1;
       Some (1, w2)
     }
   }"

definition run_network_in :: "NETSIM_STACK \<Rightarrow> AODV_WORLD \<Rightarrow> AODV_WORLD option" where
  "run_network_in E w = do {
     let d = nDeviceId (ev w);
     let life = dEventTime (ev w) + AODV_ACTIVE_ROUTE_TIMEOUT;
     p \<leftarrow> pPacket (ev w);
     k \<leftarrow> get_pkt p w;
     if nControlDataType k = AODVctrlPacket_RREQ then do {
       (r, w1) \<leftarrow> fn_NetSim_AODV_ProcessRREQ E w;
       Some (upd_ev (pPacket_update (\<lambda>_. None)) w1)
     }
     else if nControlDataType k = AODVctrlPacket_RREP then do {
       (r, w1) \<leftarrow> fn_NetSim_AODV_ProcessRREP E w;
       Some (upd_ev (pPacket_update (\<lambda>_. None)) w1)
     }
     else if nControlDataType k = AODVctrlPacket_RERR then do {
       w1 \<leftarrow> fn_NetSim_AODV_ProcessRERR w;
       Some (upd_ev (pPacket_update (\<lambda>_. None)) w1)
     }
     else if isDestFoundinPacket E k d then
       fn_NetSim_AODV_UpdateRouteTable (szSourceIP k) life w
     else do {
       w1 \<leftarrow> upd_pkt p (\<lambda>k. k\<lparr>szNextHopIp := None, DropNotification := DropNull\<rparr>) w;
       w2 \<leftarrow> fn_NetSim_AODV_UpdateRouteTable (szDestIP k) life w1;
       fn_NetSim_AODV_UpdateRouteTable (szSourceIP k) life w2
     }
   }"

definition run_timer :: "NETSIM_STACK \<Rightarrow> AODV_WORLD \<Rightarrow> AODV_WORLD option" where
  "run_timer E w =
     (if nSubEventType (ev w) = AODVsubevent_RREQ_TIMEOUT
      then map_option snd (fn_NetSim_AODV_RetryRREQ E w)
      else if nSubEventType (ev w) = AODVsubevent_TRANSMIT_HELLO
      then map_option snd (fn_NetSim_AODV_TransmitHelloMessage E w)
      else if nSubEventType (ev w) = AODVsubevent_ACTIVE_ROUTE_TIMEOUT
      then fn_NetSim_AODV_ActiveRouteTimeout w
      else Some (fnNetSimError ''Unknown subevent for AODV'' w))"

definition fn_NetSim_AODV_Run :: "NETSIM_STACK \<Rightarrow> AODV_WORLD \<Rightarrow> (int \<times> AODV_WORLD) option" where
  "fn_NetSim_AODV_Run E w0 = do {
     w \<leftarrow> set_aodv_curr E w0;
     i \<leftarrow> aodv_get_curr_if w;
     if \<not> isAodvConfigured (nDeviceId (ev w)) i w then Some (-1, w)
     else (case nEventType (ev w) of
        NETWORK_OUT_EVENT \<Rightarrow> run_network_out E i w
      | NETWORK_IN_EVENT \<Rightarrow> map_option (Pair 1) (run_network_in E w)
      | TIMER_EVENT \<Rightarrow> map_option (Pair 1) (run_timer E w)
      | _ \<Rightarrow> Some (1, fnNetSimError ''Unknown event type for AODV'' w))
   }"

end
