(* ===== verification/Aodv_Invariant.thy ===== *)
theory Aodv_Invariant
  imports Aodv_Run
begin

text \<open>
  Invariants of the protocol's state.  The frame lemmas say which parts of the world an
  operation leaves alone.  The locale \<open>device_invariant\<close> is the contract between the table
  operations and the handlers: a property of a device variable that each single assignment
  keeps is kept by every handler and by the two entry points.  It is interpreted on the
  tables' well-formedness and on two facts that, once true, stay true.
\<close>

section \<open>Frames\<close>

definition all_devs ::
    "(NETSIM_ID \<Rightarrow> AODV_DEVICE_VAR \<Rightarrow> bool) \<Rightarrow> (NETSIM_ID \<Rightarrow> AODV_DEVICE_VAR option) \<Rightarrow> bool" where
  "all_devs P D \<longleftrightarrow> (\<forall>d v. D d = Some v \<longrightarrow> P d v)"

abbreviation devs_ok :: "(NETSIM_ID \<Rightarrow> AODV_DEVICE_VAR \<Rightarrow> bool) \<Rightarrow> AODV_WORLD \<Rightarrow> bool" where
  "devs_ok P w \<equiv> all_devs P (devs w)"

lemma devs_ok_upd_dev:
  assumes "upd_dev d f w = Some w'" and "devs_ok P w"
    and "\<And>v. devs w d = Some v \<Longrightarrow> P d v \<Longrightarrow> P d (f v)"
  shows "devs_ok P w'"
  using assms by (auto simp: upd_dev_def all_devs_def split: option.splits if_splits)

lemma devs_frame [simp]:
  "devs (fnpAddEvent e w) = devs w"
  "devs (upd_ev f w) = devs w"
  "devs (fnNetSimError m w) = devs w"
  "devs (snd (new_pkt k w)) = devs w"
  by (simp_all add: world_ops)

lemma ev_frame [simp]:
  "ev (fnpAddEvent e w) = ev w"
  "ev (fnNetSimError m w) = ev w"
  "ev (snd (new_pkt k w)) = ev w"
  "ev (upd_ev f w) = f (ev w)"
  by (simp_all add: world_ops)

lemma upd_pkt_frame:
  "upd_pkt p f w = Some w' \<Longrightarrow> devs w' = devs w \<and> ev w' = ev w"
  by (auto simp: upd_pkt_def split: option.splits)

lemma free_frame:
  "fn_NetSim_Packet_FreePacket p w = Some w' \<Longrightarrow> devs w' = devs w \<and> ev w' = ev w"
  by (auto simp: fn_NetSim_Packet_FreePacket_def split: option.splits)

lemma upd_dev_ev: "upd_dev d f w = Some w' \<Longrightarrow> ev w' = ev w"
  by (auto simp: upd_dev_def split: option.splits)

lemma ctrl_frame:
  "fn_NetSim_AODV_GenerateCtrlPacket E s t r tm ty w = Some (p, w') \<Longrightarrow> devs w' = devs w \<and> ev w' = ev w"
  by (auto simp: fn_NetSim_AODV_GenerateCtrlPacket_def Let_def new_pkt_def elim!: bind_SomeE)

lemma set_curr_frame:
  "set_aodv_curr E w = Some w' \<Longrightarrow> devs w' = devs w \<and> ev w' = ev w \<and> pkts w' = pkts w"
  by (auto simp: set_aodv_curr_def Let_def elim!: bind_SomeE)

lemma timeout_frame:
  "fn_NetSim_AODV_AddTimeOut dest t w = Some (t', w') \<Longrightarrow> devs w' = devs w \<and> ev w' = ev w"
  by (auto simp: fn_NetSim_AODV_AddTimeOut_def Let_def elim!: bind_SomeE)

lemma transmit_packets_frame:
  "TransmitFIFO_packets E d ps pe w = Some (pe', w') \<Longrightarrow> devs w' = devs w \<and> ev w' = ev w"
  by (induction ps arbitrary: pe w) (auto simp: Let_def elim!: bind_SomeE)

lemma transmit_loop_frame:
  "TransmitFIFO_loop E d v fs pe w = Some (fs', w') \<Longrightarrow> devs w' = devs w \<and> ev w' = ev w"
  by (induction fs arbitrary: pe w fs' w')
     (auto simp: Let_def elim!: bind_SomeE split: if_splits dest!: transmit_packets_frame)

lemma transmit_loop_result:
  "TransmitFIFO_loop E d v fs pe w = Some (fs', w') \<Longrightarrow>
     fs' = map (\<lambda>f. if fn_NetSim_AODV_CheckRouteFound (ff_destination f) v (dEventTime (ev w))
                     then f\<lparr>ff_packetList := []\<rparr> else f) fs"
proof (induction fs arbitrary: pe w fs' w')
  case Nil
  then show ?case by simp
next
  case (Cons f fs)
  then show ?case
    by (fastforce elim!: bind_SomeE split: if_splits dest!: transmit_packets_frame)
qed

lemma rerr_loop_map:
  "fst (GenerateRERR_loop ip now ts)
     = map (\<lambda>t. if same_ip (rt_NextHop t) ip then invalidate_entry now t else t) ts"
  by (induction ts) (auto split: prod.splits)

lemma empty_packets_ev: "EmptyFIFO_packets ps w = Some w' \<Longrightarrow> ev w' = ev w"
  by (induction ps arbitrary: w)
     (auto simp: upd_metrics_def elim!: bind_SomeE dest!: free_frame upd_dev_ev)

lemma start_rreq_sent:
  assumes "start_rreq E dest w = Some (p, w1)" and "devs w (nDeviceId (ev w)) = Some v"
  shows "ev w1 = ev w \<and>
    (\<exists>v1. devs w1 (nDeviceId (ev w)) = Some v1 \<and> rreqSentTable v1 = rreqSentTable v)"
  using assms
  by (auto simp: start_rreq_def Let_def AODV_DEV_VAR_def upd_dev_def
      fn_NetSim_AODV_InsertInRREQSeenTable_def elim!: bind_SomeE
      dest!: ctrl_frame upd_pkt_frame split: option.splits)

text \<open>
  A reply without the congestion flag leaves the congestion counter alone, so it keeps a
  property that says something about the counter.
\<close>

definition unflagged :: "AODV_WORLD \<Rightarrow> bool" where
  "unflagged w \<longleftrightarrow> (\<forall>p k rrep. pPacket (ev w) = Some p \<longrightarrow> pkts w p = Some k \<longrightarrow>
     hdr_rrep k = Some rrep \<longrightarrow> \<not> rp_congestionflag rrep)"

section \<open>A property of device variables that every assignment keeps\<close>

text \<open>
  A property of one device variable that every assignment of the handlers keeps: the
  contract between the table operations and the handlers.
\<close>

locale device_quiet =
  fixes P :: "NETSIM_ID \<Rightarrow> AODV_DEVICE_VAR \<Rightarrow> bool"
  assumes keeps_insert_route:
      "P d v \<Longrightarrow> P d (routeTable_update (insert_route ip s h nh l now b) v)"
    and keeps_touch: "P d v \<Longrightarrow> P d (routeTable_update (map (touch_entry ip l)) v)"
    and keeps_expire:
      "P d v \<Longrightarrow> P d (routeTable_update (\<lambda>_. fst (ActiveRouteTimeout_loop ip now (routeTable v))) v)"
    and keeps_invalidate:
      "P d v \<Longrightarrow> P d (routeTable_update (map (\<lambda>t. if B t then invalidate_entry now t else t)) v)"
    and keeps_precursor:
      "P d v \<Longrightarrow> P d (precursorsList_update (\<lambda>pl. Some (insert_precursor ip pl)) v)"
    and keeps_remove_precursor:
      "P d v \<Longrightarrow> precursorsList v = Some pl \<Longrightarrow> remove_precursor ip pl = Some pl'
         \<Longrightarrow> P d (precursorsList_update (\<lambda>_. Some pl') v)"
    and keeps_seen: "P d v \<Longrightarrow> P d (rreqSeenTable_update (insert_seen ip i now) v)"
    and keeps_generate:
      "P d v \<Longrightarrow> P d (insert_sent ip (uint (word_of_int (fnIncreaseTTL v ip + 1) + 1 :: u8) - 1) t v)"
    and keeps_retry:
      "P d v \<Longrightarrow> fnFindSentTable v ip = Some j
         \<Longrightarrow> st_times (rreqSentTable v ! j) \<le> AODV_RREQ_RETRIES
         \<Longrightarrow> P d (insert_sent ip (uint (word_of_int (fnIncreaseTTL v ip + 1) :: u8) - 1) t v)"
    and keeps_delete: "P d v \<Longrightarrow> P d (fnDeleteRREQSentTable j v)"
    and keeps_fifo_add: "P d v \<Longrightarrow> P d (fifo_update (\<lambda>_. snd (AddToFIFO_loop ip p t (fifo v))) v)"
    and keeps_fifo_remove: "P d v \<Longrightarrow> P d (fifo_update (remove_nth j) v)"
    and keeps_fifo_sent: "P d v \<Longrightarrow> P d (fifo_update (map (\<lambda>f. if C f then f\<lparr>ff_packetList := []\<rparr> else f)) v)"
    and keeps_sequence: "P d v \<Longrightarrow> P d (nSequenceNumber_update (\<lambda>n. n + 1) v)"
    and keeps_metrics: "P d v \<Longrightarrow> P d (aodvMetrics_update mf v)"
    and keeps_broadcast: "P d v \<Longrightarrow> P d (dLastBroadcastTime_update tf v)"
    and keeps_rerr_count: "P d v \<Longrightarrow> P d (nRerrCount_update cf v)"
begin

lemmas kept =
  keeps_insert_route keeps_touch keeps_expire keeps_invalidate keeps_precursor
  keeps_remove_precursor keeps_seen keeps_delete keeps_fifo_add keeps_fifo_remove
  keeps_fifo_sent keeps_sequence keeps_metrics keeps_broadcast keeps_rerr_count

lemma upd_metrics_ok: "upd_metrics d m w = Some w' \<Longrightarrow> devs_ok P w \<Longrightarrow> devs_ok P w'"
  unfolding upd_metrics_def by (erule devs_ok_upd_dev) (auto intro!: kept)

lemma upd_dev_ok:
  "upd_dev d f w = Some w' \<Longrightarrow> (\<And>v. P d v \<Longrightarrow> P d (f v)) \<Longrightarrow> devs_ok P w \<Longrightarrow> devs_ok P w'"
  by (erule devs_ok_upd_dev) auto

lemma insert_route_ok:
  "fn_NetSim_AODV_InsertInRouteTable ip s h nh l w = Some w' \<Longrightarrow> devs_ok P w \<Longrightarrow> devs_ok P w'"
  by (auto simp: fn_NetSim_AODV_InsertInRouteTable_def elim!: bind_SomeE upd_dev_ok
      intro!: kept split: if_splits)

lemma insert_precursor_ok:
  "fn_NetSim_AODV_InsertInPrecursorsList ip w = Some w' \<Longrightarrow> devs_ok P w \<Longrightarrow> devs_ok P w'"
  unfolding fn_NetSim_AODV_InsertInPrecursorsList_def by (erule upd_dev_ok) (rule kept)

lemma update_route_ok:
  "fn_NetSim_AODV_UpdateRouteTable ip l w = Some w' \<Longrightarrow> devs_ok P w \<Longrightarrow> devs_ok P w'"
  unfolding fn_NetSim_AODV_UpdateRouteTable_def by (erule upd_dev_ok) (rule kept)

lemma insert_seen_ok:
  "fn_NetSim_AODV_InsertInRREQSeenTable d ip i t w = Some w' \<Longrightarrow> devs_ok P w \<Longrightarrow> devs_ok P w'"
  unfolding fn_NetSim_AODV_InsertInRREQSeenTable_def by (erule upd_dev_ok) (rule kept)

lemma start_rreq_ok:
  "start_rreq E dest w = Some (p, w') \<Longrightarrow> devs_ok P w \<Longrightarrow> devs_ok P w'"
  by (auto simp: start_rreq_def Let_def elim!: bind_SomeE dest!: ctrl_frame upd_pkt_frame
      elim!: insert_seen_ok upd_dev_ok intro!: kept)


lemma generate_rreq_ok:
  assumes "fn_NetSim_AODV_GenerateRREQ E w = Some (p, w')" and "devs_ok P w"
  shows "devs_ok P w'"
proof -
  from assms(1) obtain dest w1 v1 w2 w3 w4 t tm where
      s: "start_rreq E dest w = Some (p, w1)" and v: "devs w1 (nDeviceId (ev w)) = Some v1"
    and u: "upd_pkt p (nTTL_update (\<lambda>_. word_of_int (fnIncreaseTTL v1 dest + 1) + 1)) w1 = Some w2"
    and a: "fn_NetSim_AODV_AddTimeOut dest tm w2 = Some (t, w3)"
    and i: "upd_dev (nDeviceId (ev w))
              (insert_sent dest (uint (word_of_int (fnIncreaseTTL v1 dest + 1) + 1 :: u8) - 1) t) w3
            = Some w4"
    and m: "upd_metrics (nDeviceId (ev w)) (rreqSent_update (\<lambda>n. n + 1)) w4 = Some w'"
    by (auto simp: fn_NetSim_AODV_GenerateRREQ_def fn_NetSim_AODV_InterstInRREQSentTable_def
        Let_def AODV_DEV_VAR_def elim!: bind_SomeE)
  have d3: "devs w3 = devs w1"
    using upd_pkt_frame [OF u] timeout_frame [OF a] by simp
  have "devs_ok P w3"
    using start_rreq_ok [OF s assms(2)] d3 by auto
  then have "devs_ok P w4"
    using devs_ok_upd_dev [OF i] keeps_generate v d3 by auto
  then show ?thesis by (rule upd_metrics_ok [OF m])
qed

lemma empty_packets_ok:
  "EmptyFIFO_packets ps w = Some w' \<Longrightarrow> devs_ok P w \<Longrightarrow> devs_ok P w'"
proof (induction ps arbitrary: w)
  case Nil
  then show ?case by simp
next
  case (Cons p ps)
  then show ?case
    by (auto elim!: bind_SomeE intro!: Cons.IH dest!: free_frame elim: upd_metrics_ok)
qed

lemma empty_fifo_ok: "fnEmptyFIFOBuffer d dest w = Some w' \<Longrightarrow> devs_ok P w \<Longrightarrow> devs_ok P w'"
  by (auto simp: fnEmptyFIFOBuffer_def elim!: bind_SomeE upd_dev_ok empty_packets_ok
      split: option.splits intro!: kept)

lemma resend_sent_ok:
  assumes "start_rreq E dest w = Some (p, w1)" and "devs_ok P w"
    and "devs w (nDeviceId (ev w)) = Some v" and "fnFindSentTable v dest = Some j"
    and "st_times (rreqSentTable v ! j) \<le> AODV_RREQ_RETRIES"
    and "devs w1 (nDeviceId (ev w)) = Some v1"
    and "fn_NetSim_AODV_AddTimeOut dest tm w1 = Some (t, w2)"
    and "upd_dev (nDeviceId (ev w))
           (insert_sent dest (uint (word_of_int (fnIncreaseTTL v1 dest + 1) :: u8) - 1) t) w2 = Some w3"
  shows "devs_ok P w3"
proof -
  have same: "rreqSentTable v1 = rreqSentTable v"
    using start_rreq_sent [OF assms(1,3)] assms(6) by auto
  then have f1: "fnFindSentTable v1 dest = Some j"
    using assms(4) by (simp add: fnFindSentTable_def)
  have d2: "devs w2 = devs w1" using timeout_frame [OF assms(7)] by simp
  then have "devs_ok P w2" using start_rreq_ok [OF assms(1,2)] by simp
  then show ?thesis
    using devs_ok_upd_dev [OF assms(8)] keeps_retry [OF _ f1] assms(5,6) d2 same by auto
qed

lemma resend_rreq_ok:
  "resend_rreq E dest n w = Some w' \<Longrightarrow> devs_ok P w \<Longrightarrow> devs w (nDeviceId (ev w)) = Some v
     \<Longrightarrow> fnFindSentTable v dest = Some j \<Longrightarrow> st_times (rreqSentTable v ! j) \<le> AODV_RREQ_RETRIES
     \<Longrightarrow> devs_ok P w'"
  unfolding resend_rreq_def Let_def AODV_DEV_VAR_def fn_NetSim_AODV_InterstInRREQSentTable_def
  apply (elim bind_SomeE)
  apply (clarsimp simp del: of_int_add wi_hom_add elim!: bind_SomeE upd_metrics_ok)
  apply (drule upd_pkt_frame)
  apply (simp del: of_int_add wi_hom_add)
  apply (erule (7) resend_sent_ok)
  done

lemma retry_rreq_ok:
  "fn_NetSim_AODV_RetryRREQ E w = Some (r, w') \<Longrightarrow> devs_ok P w \<Longrightarrow> devs_ok P w'"
  by (auto simp: fn_NetSim_AODV_RetryRREQ_def Let_def AODV_DEV_VAR_def
      split: option.splits if_splits
      elim!: bind_SomeE empty_fifo_ok upd_dev_ok resend_rreq_ok intro!: kept)

lemma forward_rreq_ok: "fn_NetSim_AODV_ForwardRREQ w = Some w' \<Longrightarrow> devs_ok P w \<Longrightarrow> devs_ok P w'"
  by (auto simp: fn_NetSim_AODV_ForwardRREQ_def Let_def elim!: bind_SomeE upd_metrics_ok
      dest!: free_frame upd_pkt_frame split: if_splits)

lemma generate_rrep_ok: "fn_NetSim_AODV_GenerateRREP E w = Some w' \<Longrightarrow> devs_ok P w \<Longrightarrow> devs_ok P w'"
  by (auto simp: fn_NetSim_AODV_GenerateRREP_def Let_def elim!: bind_SomeE upd_metrics_ok
      dest!: ctrl_frame upd_pkt_frame elim!: upd_dev_ok intro!: kept)

lemma forward_rrep_ok: "fn_NetSim_AODV_ForwardRREP E w = Some w' \<Longrightarrow> devs_ok P w \<Longrightarrow> devs_ok P w'"
  by (auto simp: fn_NetSim_AODV_ForwardRREP_def Let_def elim!: bind_SomeE upd_metrics_ok
      dest!: free_frame upd_pkt_frame split: if_splits)

lemma transmit_fifo_ok:
  "fn_NetSim_AODV_TransmitFIFOBuffer E w = Some w' \<Longrightarrow> devs_ok P w \<Longrightarrow> devs_ok P w'"
proof -
  assume h: "fn_NetSim_AODV_TransmitFIFOBuffer E w = Some w'" and ok: "devs_ok P w"
  from h obtain v fs w1 where v: "devs w (nDeviceId (ev w)) = Some v"
    and t: "TransmitFIFO_loop E (nDeviceId (ev w)) v (fifo v) (ev w) w = Some (fs, w1)"
    and u: "upd_dev (nDeviceId (ev w)) (fifo_update (\<lambda>_. fs)) w1 = Some w'"
    by (auto simp: fn_NetSim_AODV_TransmitFIFOBuffer_def Let_def AODV_DEV_VAR_def elim!: bind_SomeE)
  have d: "devs w1 = devs w" using transmit_loop_frame [OF t] by simp
  let ?g = "map (\<lambda>f. if fn_NetSim_AODV_CheckRouteFound (ff_destination f) v (dEventTime (ev w))
                     then f\<lparr>ff_packetList := []\<rparr> else f)"
  have "fifo_update (\<lambda>_. fs) v = fifo_update ?g v"
    using transmit_loop_result [OF t] by (cases v) simp
  then have e: "P (nDeviceId (ev w)) (fifo_update (\<lambda>_. fs) v)" if "P (nDeviceId (ev w)) v"
    using keeps_fifo_sent [OF that] by simp
  show ?thesis
    using devs_ok_upd_dev [OF u] ok v d e by auto
qed

lemma delete_sent_kept: "P d v \<Longrightarrow> P d (delete_sent dest v)"
  using keeps_delete by (auto simp: delete_sent_def fnDeleteRREQSentTable_def split: option.splits)

lemma rrep_by_intermediate_ok:
  "fn_NetSim_AODV_GenerateRREPByIntermediate E w = Some (r, w') \<Longrightarrow> devs_ok P w \<Longrightarrow> devs_ok P w'"
  by (auto simp: fn_NetSim_AODV_GenerateRREPByIntermediate_def Let_def split: if_splits
      elim!: bind_SomeE forward_rreq_ok upd_metrics_ok
      dest!: ctrl_frame upd_pkt_frame)

lemma answer_rreq_ok:
  "answer_rreq E p rreq w = Some (r, w') \<Longrightarrow> devs_ok P w \<Longrightarrow> devs_ok P w'"
  by (auto simp: answer_rreq_def Let_def split: if_splits
      elim!: bind_SomeE forward_rreq_ok rrep_by_intermediate_ok generate_rrep_ok
      dest!: free_frame)

lemma process_rreq_ok:
  "fn_NetSim_AODV_ProcessRREQ E w = Some (r, w') \<Longrightarrow> devs_ok P w \<Longrightarrow> devs_ok P w'"
  by (auto simp: fn_NetSim_AODV_ProcessRREQ_def Let_def split: if_splits
      elim!: bind_SomeE answer_rreq_ok insert_route_ok insert_precursor_ok insert_seen_ok
      dest!: free_frame)

lemma process_rerr_ok: "fn_NetSim_AODV_ProcessRERR w = Some w' \<Longrightarrow> devs_ok P w \<Longrightarrow> devs_ok P w'"
  by (auto simp: fn_NetSim_AODV_ProcessRERR_def Let_def split: if_splits
      elim!: bind_SomeE upd_metrics_ok upd_dev_ok dest!: upd_pkt_frame intro!: kept)

lemma add_to_fifo_ok:
  assumes "fn_NetSim_AODV_AddToFIFOBuffer p d t w = Some (b, w')" and "devs_ok P w"
  shows "devs_ok P w'"
proof -
  from assms(1) obtain a v fs where v: "devs w d = Some v"
    and l: "AddToFIFO_loop a p t (fifo v) = (b, fs)"
    and u: "upd_dev d (fifo_update (\<lambda>_. fs)) w = Some w'"
    by (auto simp: fn_NetSim_AODV_AddToFIFOBuffer_def AODV_DEV_VAR_def Let_def
        elim!: bind_SomeE split: prod.splits)
  have "P d (fifo_update (\<lambda>_. fs) v)" if "P d v"
    using keeps_fifo_add [OF that, of a p t] l by simp
  then show ?thesis
    using devs_ok_upd_dev [OF u assms(2)] v by auto
qed

lemma general_packet_ok:
  "fn_NetSim_AODV_GeneralPacketProcessing E w = Some w' \<Longrightarrow> devs_ok P w \<Longrightarrow> devs_ok P w'"
  by (auto simp: fn_NetSim_AODV_GeneralPacketProcessing_def Let_def split: if_splits
      elim!: bind_SomeE upd_metrics_ok update_route_ok generate_rreq_ok add_to_fifo_ok
      dest!: upd_pkt_frame)

lemma hello_ok:
  "fn_NetSim_AODV_TransmitHelloMessage E w = Some (r, w') \<Longrightarrow> devs_ok P w \<Longrightarrow> devs_ok P w'"
  by (auto simp: fn_NetSim_AODV_TransmitHelloMessage_def Let_def split: if_splits
      elim!: bind_SomeE dest!: upd_pkt_frame ctrl_frame)

lemma network_out_tail_ok: "network_out_tail i w = Some w' \<Longrightarrow> devs_ok P w \<Longrightarrow> devs_ok P w'"
  by (auto simp: network_out_tail_def Let_def split: if_splits option.splits
      elim!: bind_SomeE upd_dev_ok dest!: free_frame intro!: kept)

lemma run_network_out_ok: "run_network_out E i w = Some (r, w') \<Longrightarrow> devs_ok P w \<Longrightarrow> devs_ok P w'"
  by (auto simp: run_network_out_def Let_def split: if_splits
      elim!: bind_SomeE network_out_tail_ok general_packet_ok dest!: upd_pkt_frame)

lemma process_rrep_unflagged_ok:
  "fn_NetSim_AODV_ProcessRREP E w = Some (r, w') \<Longrightarrow> unflagged w \<Longrightarrow> devs_ok P w \<Longrightarrow> devs_ok P w'"
  by (auto simp: fn_NetSim_AODV_ProcessRREP_def Let_def unflagged_def get_pkt_def split: if_splits
      elim!: bind_SomeE forward_rrep_ok update_route_ok insert_precursor_ok transmit_fifo_ok
        insert_route_ok upd_dev_ok
      dest!: free_frame intro!: kept delete_sent_kept)

lemma run_network_in_unflagged_ok:
  "run_network_in E w = Some w' \<Longrightarrow> unflagged w \<Longrightarrow> devs_ok P w \<Longrightarrow> devs_ok P w'"
  by (auto simp: run_network_in_def Let_def split: if_splits
      elim!: bind_SomeE process_rreq_ok process_rrep_unflagged_ok process_rerr_ok update_route_ok
      dest!: upd_pkt_frame)

lemma run_timer_quiet_ok:
  "run_timer E w = Some w' \<Longrightarrow> nSubEventType (ev w) \<noteq> AODVsubevent_ACTIVE_ROUTE_TIMEOUT
     \<Longrightarrow> devs_ok P w \<Longrightarrow> devs_ok P w'"
  by (auto simp: run_timer_def split: if_splits elim!: retry_rreq_ok hello_ok)

lemma aodv_run_quiet_ok:
  "fn_NetSim_AODV_Run E w = Some (r, w') \<Longrightarrow> unflagged w
     \<Longrightarrow> \<not> (nEventType (ev w) = TIMER_EVENT \<and> nSubEventType (ev w) = AODVsubevent_ACTIVE_ROUTE_TIMEOUT)
     \<Longrightarrow> devs_ok P w \<Longrightarrow> devs_ok P w'"
  by (auto simp: fn_NetSim_AODV_Run_def unflagged_def split: if_splits EVENT_TYPE.splits
      elim!: bind_SomeE run_network_out_ok run_network_in_unflagged_ok run_timer_quiet_ok
      dest!: set_curr_frame)

end

text \<open>
  A property that also survives any change of the congestion counter is kept by every
  handler.
\<close>

locale device_invariant = device_quiet +
  assumes keeps_counter: "P d v \<Longrightarrow> P d (ncounter_update cf v)"
begin

lemma process_rrep_ok:
  "fn_NetSim_AODV_ProcessRREP E w = Some (r, w') \<Longrightarrow> devs_ok P w \<Longrightarrow> devs_ok P w'"
  by (auto simp: fn_NetSim_AODV_ProcessRREP_def Let_def split: if_splits
      elim!: bind_SomeE forward_rrep_ok update_route_ok insert_precursor_ok transmit_fifo_ok
        insert_route_ok upd_dev_ok
      dest!: free_frame intro!: kept keeps_counter delete_sent_kept)

lemma active_route_timeout_ok:
  assumes "fn_NetSim_AODV_ActiveRouteTimeout w = Some w'" and "devs_ok P w"
  shows "devs_ok P w'"
proof -
  from assms(1) obtain dest v n now' es ks where v: "devs w (nDeviceId (ev w)) = Some v"
    and l: "ActiveRouteTimeout_loop dest (dEventTime (ev w)) (routeTable v) = (ks, n, now', es)"
    and d: "devs w' = (devs w)(nDeviceId (ev w) \<mapsto>
              v\<lparr>routeTable := ks, ncounter := ncounter v - of_nat n\<rparr>)"
    by (auto simp: fn_NetSim_AODV_ActiveRouteTimeout_def AODV_DEV_VAR_def upd_dev_def Let_def
        elim!: bind_SomeE split: prod.splits option.splits)
  have "P (nDeviceId (ev w)) (ncounter_update (\<lambda>_. ncounter v - of_nat n)
         (routeTable_update (\<lambda>_. fst (ActiveRouteTimeout_loop dest (dEventTime (ev w)) (routeTable v))) v))"
    using assms(2) v by (auto simp: all_devs_def intro: kept keeps_counter)
  with l d assms(2) show ?thesis by (auto simp: all_devs_def)
qed

lemma break_link_ok:
  assumes "break_link d ip w = Some (ds, ss, w')" and "devs_ok P w"
  shows "devs_ok P w'"
proof -
  from assms(1) obtain w1 v pl pl' ts where
      1: "upd_dev d (ncounter_update (\<lambda>n. n - 1)) w = Some w1"
    and v: "devs w1 d = Some v" and pl: "precursorsList v = Some pl"
    and ts: "(case ip of Some a \<Rightarrow> Some (GenerateRERR_loop a (dEventTime (ev w)) (routeTable v))
              | None \<Rightarrow> if routeTable v = [] then Some ([], [], []) else None) = Some (ts, ds, ss)"
    and pl': "(case ip of Some a \<Rightarrow> remove_precursor a pl
               | None \<Rightarrow> if pl_count pl = 0 then Some pl else None) = Some pl'"
    and 2: "upd_dev d (\<lambda>v. v\<lparr>routeTable := ts, precursorsList := Some pl'\<rparr>) w1 = Some w'"
    by (auto simp: break_link_def AODV_DEV_VAR_def elim!: bind_SomeE)
  have ok1: "devs_ok P w1" by (rule upd_dev_ok [OF 1 _ assms(2)]) (rule keeps_counter)
  then have Pv: "P d v" using v by (auto simp: all_devs_def)
  have "P d (v\<lparr>routeTable := ts, precursorsList := Some pl'\<rparr>)"
  proof (cases ip)
    case None
    with ts pl' pl Pv show ?thesis by (cases v) (auto split: if_splits)
  next
    case (Some a)
    have t: "ts = map (\<lambda>t. if same_ip (rt_NextHop t) a then invalidate_entry (dEventTime (ev w)) t else t)
                    (routeTable v)"
      using ts Some rerr_loop_map [of a "dEventTime (ev w)" "routeTable v"] by simp
    have "P d (routeTable_update (map (\<lambda>t. if same_ip (rt_NextHop t) a
             then invalidate_entry (dEventTime (ev w)) t else t)) (precursorsList_update (\<lambda>_. Some pl') v))"
      using keeps_invalidate keeps_remove_precursor [OF Pv pl] pl' Some by simp
    then show ?thesis using t by (cases v) simp
  qed
  then show ?thesis using devs_ok_upd_dev [OF 2 ok1] v by auto
qed

lemma generate_rerr_ok:
  "fn_NetSim_AODV_GenerateRERR E d ip w = Some w' \<Longrightarrow> devs_ok P w \<Longrightarrow> devs_ok P w'"
  by (auto simp: fn_NetSim_AODV_GenerateRERR_def send_rerr_def Let_def split: if_splits
      elim!: bind_SomeE upd_metrics_ok break_link_ok dest!: ctrl_frame upd_pkt_frame)

lemma drop_notification_ok:
  "fn_NetSim_AODV_PacketDropNotification E p w = Some w' \<Longrightarrow> devs_ok P w \<Longrightarrow> devs_ok P w'"
  by (auto simp: fn_NetSim_AODV_PacketDropNotification_def Let_def split: if_splits
      elim!: bind_SomeE upd_dev_ok generate_rerr_ok dest!: set_curr_frame intro!: kept keeps_counter)

lemma run_network_in_ok: "run_network_in E w = Some w' \<Longrightarrow> devs_ok P w \<Longrightarrow> devs_ok P w'"
  by (auto simp: run_network_in_def Let_def split: if_splits
      elim!: bind_SomeE process_rreq_ok process_rrep_ok process_rerr_ok update_route_ok
      dest!: upd_pkt_frame)

lemma run_timer_ok: "run_timer E w = Some w' \<Longrightarrow> devs_ok P w \<Longrightarrow> devs_ok P w'"
  by (auto simp: run_timer_def split: if_splits
      elim!: retry_rreq_ok hello_ok active_route_timeout_ok)

lemma aodv_run_ok: "fn_NetSim_AODV_Run E w = Some (r, w') \<Longrightarrow> devs_ok P w \<Longrightarrow> devs_ok P w'"
  by (auto simp: fn_NetSim_AODV_Run_def split: if_splits EVENT_TYPE.splits
      elim!: bind_SomeE run_network_out_ok run_network_in_ok run_timer_ok dest!: set_curr_frame)

end

end
