(* ===== verification/Aodv_Tables.thy ===== *)
theory Aodv_Tables
  imports Aodv_Invariant
begin

text \<open>
  The invariant of a device's tables: one entry per destination in the route table, the
  packet buffer and the table of requests sent; the TTL and the number of attempts of a
  request stay on the expanding ring; the precursor array has no duplicates within its
  count.  The interpretations of \<open>device_invariant\<close> carry it to every handler, together
  with two facts that, once true, stay true: a request seen, a precursor list allocated.
\<close>

section \<open>The invariant of the tables\<close>

fun find_sent :: "AODV_RREQ_SENT_TABLE list \<Rightarrow> NETSIM_IPAddress \<Rightarrow> AODV_RREQ_SENT_TABLE option" where
  "find_sent [] ip = None"
| "find_sent (t # ts) ip = (if IP_COMPARE (st_DestAddress t) ip = 0 then Some t else find_sent ts ip)"

lemma find_sent_find: "find_sent ts ip = find (\<lambda>t. ip_canon (st_DestAddress t) = ip_canon ip) ts"
  by (induction ts) (auto simp: same_ip_canon)

interpretation st: addressed_table ip_canon st_DestAddress find_sent
  by unfold_locales (rule find_sent_find)

lemma fnFindSentTable_find_sent:
  "map_option (\<lambda>i. rreqSentTable v ! i) (fnFindSentTable v ip) = find_sent (rreqSentTable v) ip"
  by (simp add: fnFindSentTable_def first_idx_find find_sent_find same_ip_canon)

definition sent_unique :: "AODV_RREQ_SENT_TABLE list \<Rightarrow> bool" where
  "sent_unique ts \<longleftrightarrow> distinct (map (\<lambda>t. ip_canon (st_DestAddress t)) ts)"

lemma sent_unique_cells: "sent_unique = st.unique_cells"
  by (rule ext) (simp add: sent_unique_def st.unique_cells_def)

definition sent_entry_ok :: "AODV_RREQ_SENT_TABLE \<Rightarrow> bool" where
  "sent_entry_ok t \<longleftrightarrow> st_ttl t \<in> {2, 4, 5, 6, 7, 8, 35, 36} \<and> st_times t \<in> {1, 2, 3}
     \<and> (st_times t > 1 \<longrightarrow> st_ttl t \<ge> AODV_NET_DIAMETER)"

definition precursors_ok :: "AODV_PRECURSORS_LIST option \<Rightarrow> bool" where
  "precursors_ok p = (case p of None \<Rightarrow> True | Some pl \<Rightarrow>
     pl_count pl \<le> length (pl_list pl)
     \<and> distinct (map ip_canon (take (pl_count pl) (pl_list pl))))"

definition dev_inv :: "AODV_DEVICE_VAR \<Rightarrow> bool" where
  "dev_inv v \<longleftrightarrow> routes_unique (routeTable v) \<and> fifo_unique (fifo v)
     \<and> sent_unique (rreqSentTable v) \<and> list_all sent_entry_ok (rreqSentTable v)
     \<and> precursors_ok (precursorsList v)"

text \<open>The sent table after an insertion, in terms of what was found.\<close>

lemma insert_sent_found:
  "fnFindSentTable v ip = Some i \<Longrightarrow>
     rreqSentTable (insert_sent ip ttl t v) =
       (rreqSentTable v)[i := (rreqSentTable v ! i)
          \<lparr>st_times := (if ttl = AODV_NET_DIAMETER then st_times (rreqSentTable v ! i) + 1
                        else st_times (rreqSentTable v ! i)),
           st_ttl := ttl, st_dTimeoutTime := t\<rparr>]"
  by (simp add: insert_sent_def)

lemma insert_sent_new:
  "fnFindSentTable v ip = None \<Longrightarrow>
     rreqSentTable (insert_sent ip ttl t v) = rreqSentTable v @
       [\<lparr>st_DestAddress = ip, st_ttl = ttl, st_times = (if ttl = AODV_NET_DIAMETER then 2 else 1),
         st_dTimeoutTime = t\<rparr>]"
  by (simp add: insert_sent_def)

lemma insert_sent_others [simp]:
  "routeTable (insert_sent ip ttl t v) = routeTable v"
  "fifo (insert_sent ip ttl t v) = fifo v"
  "precursorsList (insert_sent ip ttl t v) = precursorsList v"
  "rreqSeenTable (insert_sent ip ttl t v) = rreqSeenTable v"
  "ncounter (insert_sent ip ttl t v) = ncounter v"
  by (simp_all add: insert_sent_def split: option.splits)

lemma insert_sent_unique:
  "sent_unique (rreqSentTable v) \<Longrightarrow> sent_unique (rreqSentTable (insert_sent ip ttl t v))"
proof (cases "fnFindSentTable v ip")
  case None
  then have "find_sent (rreqSentTable v) ip = None"
    using fnFindSentTable_find_sent [of v ip] by simp
  then show "sent_unique (rreqSentTable v) \<Longrightarrow> ?thesis"
    by (simp add: insert_sent_new [OF None] sent_unique_cells st.unique_append)
next
  case (Some i)
  then show "sent_unique (rreqSentTable v) \<Longrightarrow> ?thesis"
    by (simp add: insert_sent_found sent_unique_cells st.unique_update)
qed

text \<open>The TTLs the expanding ring goes through.\<close>

lemma next_ttl_cases:
  "st_ttl t \<in> {2, 4, 5, 6, 7, 8, 35, 36} \<Longrightarrow> fnFindSentTable v ip = Some i \<Longrightarrow>
     rreqSentTable v ! i = t \<Longrightarrow>
     fnIncreaseTTL v ip = (if st_ttl t \<ge> 7 then 35 else if st_ttl t = 2 then 4
                           else if st_ttl t = 4 then 6 else 7)"
  by (auto simp: fnIncreaseTTL_def aodv_consts Let_def)

lemma sent_list_insert:
  assumes "list_all sent_entry_ok (rreqSentTable v)"
    and "fnFindSentTable v ip = None \<Longrightarrow> ttl = 2"
    and "\<And>i. fnFindSentTable v ip = Some i \<Longrightarrow> sent_entry_ok (rreqSentTable v ! i) \<Longrightarrow>
            sent_entry_ok ((rreqSentTable v ! i)
              \<lparr>st_times := (if ttl = AODV_NET_DIAMETER then st_times (rreqSentTable v ! i) + 1
                           else st_times (rreqSentTable v ! i)),
               st_ttl := ttl, st_dTimeoutTime := t\<rparr>)"
  shows "list_all sent_entry_ok (rreqSentTable (insert_sent ip ttl t v))"
proof (cases "fnFindSentTable v ip")
  case None
  with assms(1) assms(2) [OF None] show ?thesis
    by (simp add: insert_sent_new) (simp add: sent_entry_ok_def aodv_consts)
next
  case (Some i)
  have i: "i < length (rreqSentTable v)"
    using Some first_idx_SomeD by (force simp: fnFindSentTable_def)
  with assms(1) have "sent_entry_ok (rreqSentTable v ! i)"
    by (simp add: list_all_length)
  with Some assms(1) assms(3) [OF Some] show ?thesis
    unfolding insert_sent_found [OF Some] by (blast intro: list_all_update)
qed

lemma generate_sent_ok:
  assumes "list_all sent_entry_ok (rreqSentTable v)"
  shows "list_all sent_entry_ok (rreqSentTable
           (insert_sent ip (uint (word_of_int (fnIncreaseTTL v ip + 1) + 1 :: u8) - 1) t v))"
proof (rule sent_list_insert [OF assms])
  assume "fnFindSentTable v ip = None"
  then show "uint (word_of_int (fnIncreaseTTL v ip + 1) + 1 :: u8) - 1 = 2"
    by (simp add: fnIncreaseTTL_def aodv_consts)
next
  fix i
  let ?e = "rreqSentTable v ! i"
  assume f: "fnFindSentTable v ip = Some i" and e: "sent_entry_ok ?e"
  have ttl: "fnIncreaseTTL v ip = (if st_ttl ?e \<ge> 7 then 35 else if st_ttl ?e = 2 then 4
                           else if st_ttl ?e = 4 then 6 else 7)"
    using e by (intro next_ttl_cases [OF _ f]) (auto simp: sent_entry_ok_def)
  show "sent_entry_ok (?e
          \<lparr>st_times := (if uint (word_of_int (fnIncreaseTTL v ip + 1) + 1 :: u8) - 1 = AODV_NET_DIAMETER
                       then st_times ?e + 1 else st_times ?e),
           st_ttl := uint (word_of_int (fnIncreaseTTL v ip + 1) + 1 :: u8) - 1, st_dTimeoutTime := t\<rparr>)"
    using e unfolding ttl by (auto simp: sent_entry_ok_def aodv_consts)
qed

lemma retry_sent_ok:
  assumes "list_all sent_entry_ok (rreqSentTable v)" and f0: "fnFindSentTable v ip = Some j"
    and times: "st_times (rreqSentTable v ! j) \<le> AODV_RREQ_RETRIES"
  shows "list_all sent_entry_ok (rreqSentTable
           (insert_sent ip (uint (word_of_int (fnIncreaseTTL v ip + 1) :: u8) - 1) t v))"
proof (rule sent_list_insert [OF assms(1)])
  assume "fnFindSentTable v ip = None"
  with f0 show "uint (word_of_int (fnIncreaseTTL v ip + 1) :: u8) - 1 = 2" by simp
next
  fix i
  let ?e = "rreqSentTable v ! i"
  assume f: "fnFindSentTable v ip = Some i" and e: "sent_entry_ok ?e"
  have ttl: "fnIncreaseTTL v ip = (if st_ttl ?e \<ge> 7 then 35 else if st_ttl ?e = 2 then 4
                           else if st_ttl ?e = 4 then 6 else 7)"
    using e by (intro next_ttl_cases [OF _ f]) (auto simp: sent_entry_ok_def)
  have "st_times ?e \<le> 2" using times f f0 by (simp add: aodv_consts)
  then show "sent_entry_ok (?e
          \<lparr>st_times := (if uint (word_of_int (fnIncreaseTTL v ip + 1) :: u8) - 1 = AODV_NET_DIAMETER
                       then st_times ?e + 1 else st_times ?e),
           st_ttl := uint (word_of_int (fnIncreaseTTL v ip + 1) :: u8) - 1, st_dTimeoutTime := t\<rparr>)"
    using e unfolding ttl by (auto simp: sent_entry_ok_def aodv_consts)
qed

section \<open>The array of precursors\<close>

lemma precursor_loop_shift:
  "count < length xs \<Longrightarrow> loop \<le> count \<Longrightarrow>
   \<forall>i. loop \<le> i \<and> i < count \<longrightarrow> \<not> same_ip (xs ! i) ip \<Longrightarrow>
     precursor_loop ip loop True xs count
       = Some (take loop xs @ take (count - loop) (drop (Suc loop) xs) @ drop count xs, count)"
proof (induction "count - loop" arbitrary: loop xs)
  case 0
  then show ?case by (subst precursor_loop.simps) simp
next
  case (Suc n)
  let ?ys = "xs[loop := xs ! Suc loop]"
  have l: "loop < count" and no: "\<not> same_ip (xs ! loop) ip" using Suc by auto
  have "precursor_loop ip loop True xs count = precursor_loop ip (Suc loop) True ?ys count"
    using Suc.prems l no by (subst precursor_loop.simps) (simp add: Let_def)
  also have "\<dots> = Some (take (Suc loop) ?ys @ take (count - Suc loop) (drop (Suc (Suc loop)) ?ys)
                        @ drop count ?ys, count)"
    using Suc l by (intro Suc.hyps(1)) auto
  also have "take (Suc loop) ?ys = take loop xs @ [xs ! Suc loop]"
    using Suc.prems l by (simp add: take_Suc_conv_app_nth)
  also have "drop (Suc (Suc loop)) ?ys = drop (Suc (Suc loop)) xs" by simp
  also have "drop count ?ys = drop count xs" using l by simp
  also have "(take loop xs @ [xs ! Suc loop]) @ take (count - Suc loop) (drop (Suc (Suc loop)) xs)
               @ drop count xs
             = take loop xs @ take (count - loop) (drop (Suc loop) xs) @ drop count xs"
  proof -
    have "drop (Suc loop) xs = xs ! Suc loop # drop (Suc (Suc loop)) xs"
      using Suc.prems l by (simp add: Cons_nth_drop_Suc)
    moreover have "count - loop = Suc (count - Suc loop)" using l by simp
    ultimately show ?thesis by simp
  qed
  finally show ?case .
qed

lemma precursor_loop_miss:
  "count \<le> length xs \<Longrightarrow> \<forall>i. loop \<le> i \<and> i < count \<longrightarrow> \<not> same_ip (xs ! i) ip \<Longrightarrow>
     precursor_loop ip loop False xs count = Some (xs, count)"
proof (induction "count - loop" arbitrary: loop)
  case 0
  then show ?case by (subst precursor_loop.simps) simp
next
  case (Suc n)
  then have "precursor_loop ip loop False xs count = precursor_loop ip (Suc loop) False xs count"
    by (subst precursor_loop.simps) (simp add: Let_def)
  with Suc show ?case by simp
qed

lemma precursor_loop_skip:
  "count \<le> length xs \<Longrightarrow> k < count \<Longrightarrow> loop \<le> k \<Longrightarrow>
   \<forall>i. loop \<le> i \<and> i < k \<longrightarrow> \<not> same_ip (xs ! i) ip \<Longrightarrow>
     precursor_loop ip loop False xs count = precursor_loop ip k False xs count"
proof (induction "k - loop" arbitrary: loop)
  case 0
  then show ?case by simp
next
  case (Suc n)
  then have "precursor_loop ip loop False xs count = precursor_loop ip (Suc loop) False xs count"
    by (subst precursor_loop.simps) (simp add: Let_def)
  with Suc show ?case by simp
qed

lemma precursor_loop_hit:
  assumes d: "distinct (map ip_canon (take count xs))" and c: "count \<le> length xs" and k: "k < count"
    and hit: "same_ip (xs ! k) ip" and room: "Suc k < length xs"
  shows "\<exists>ys. precursor_loop ip k False xs count = Some (ys, count - 1) \<and> length ys = length xs
           \<and> take (count - 1) ys = remove_nth k (take count xs)"
proof -
  let ?zs = "xs[k := xs ! Suc k]"
  have step: "precursor_loop ip k False xs count = precursor_loop ip (Suc k) True ?zs (count - 1)"
    using c k hit room by (subst precursor_loop.simps) (simp add: Let_def)
  show ?thesis
  proof (cases "Suc k \<le> count - 1")
    case True
    have no: "\<not> same_ip (xs ! i) ip" if "k < i" "i < count" for i
    proof -
      have "ip_canon (xs ! k) \<noteq> ip_canon (xs ! i)"
        using d that c nth_eq_iff_index_eq [OF d, of k i] by simp
      then show ?thesis using hit by (simp add: same_ip_canon)
    qed
    have "precursor_loop ip (Suc k) True ?zs (count - 1)
            = Some (take (Suc k) ?zs @ take (count - 1 - Suc k) (drop (Suc (Suc k)) ?zs)
                      @ drop (count - 1) ?zs, count - 1)"
      using True c k no by (intro precursor_loop_shift) auto
    moreover have "take (Suc k) ?zs = take k xs @ [xs ! Suc k]"
      using room by (simp add: take_Suc_conv_app_nth)
    moreover have "take k xs @ [xs ! Suc k] @ take (count - 1 - Suc k) (drop (Suc (Suc k)) xs)
                     = remove_nth k (take count xs)"
    proof -
      have "drop (Suc k) xs = xs ! Suc k # drop (Suc (Suc k)) xs"
        using room by (simp add: Cons_nth_drop_Suc)
      moreover have "count - Suc k = Suc (count - 1 - Suc k)" using True by simp
      ultimately show ?thesis using k by (simp add: remove_nth_def drop_take)
    qed
    ultimately have "precursor_loop ip k False xs count
        = Some (remove_nth k (take count xs) @ drop (count - 1) ?zs, count - 1)"
      using step by simp
    moreover have "length (remove_nth k (take count xs)) = count - 1"
      using c k by (simp add: length_remove_nth)
    ultimately show ?thesis using c k by (intro exI [of _ "remove_nth k (take count xs) @ drop (count - 1) ?zs"]) simp
  next
    case False
    then have kc: "k = count - 1" using k by simp
    have "precursor_loop ip (Suc k) True ?zs (count - 1) = Some (?zs, count - 1)"
      using False by (subst precursor_loop.simps) simp
    moreover have "take (count - 1) ?zs = remove_nth k (take count xs)"
      using kc k by (simp add: remove_nth_def)
    ultimately show ?thesis using step by auto
  qed
qed

text \<open>
  What the second loop of \<open>fn_NetSim_AODV_GenerateRERR\<close> does: nothing if the neighbour is not a
  precursor, else it takes it out, unless it stands in the last cell of the array, where
  the loop reads past the end.
\<close>

definition precursor_addrs :: "AODV_PRECURSORS_LIST \<Rightarrow> NETSIM_IPAddress list" where
  "precursor_addrs pl = take (pl_count pl) (pl_list pl)"

lemma remove_precursor_miss:
  assumes "pl_count pl \<le> length (pl_list pl)"
    and "first_idx (\<lambda>a. same_ip a ip) (precursor_addrs pl) = None"
  shows "remove_precursor ip pl = Some pl"
proof -
  have "\<forall>i. i < pl_count pl \<longrightarrow> \<not> same_ip (pl_list pl ! i) ip"
    using assms by (simp add: first_idx_None_iff precursor_addrs_def all_set_conv_all_nth)
  then show ?thesis
    using assms(1) precursor_loop_miss [of "pl_count pl" "pl_list pl" 0 ip]
    by (simp add: remove_precursor_def)
qed

lemma remove_precursor_hit:
  assumes ok: "precursors_ok (Some pl)"
    and f: "first_idx (\<lambda>a. same_ip a ip) (precursor_addrs pl) = Some k"
  shows "\<not> Suc k < length (pl_list pl) \<Longrightarrow> remove_precursor ip pl = None"
    and "Suc k < length (pl_list pl) \<Longrightarrow>
       \<exists>pl'. remove_precursor ip pl = Some pl' \<and> precursor_addrs pl' = remove_nth k (precursor_addrs pl)
         \<and> pl_count pl' = pl_count pl - 1 \<and> length (pl_list pl') = length (pl_list pl)"
proof -
  let ?c = "pl_count pl" and ?xs = "pl_list pl"
  have c: "?c \<le> length ?xs" and d: "distinct (map ip_canon (take ?c ?xs))"
    using ok by (auto simp: precursors_ok_def)
  have k: "k < ?c" and hit: "same_ip (?xs ! k) ip" and before: "\<forall>j < k. \<not> same_ip (?xs ! j) ip"
    using first_idx_SomeD [OF f] c by (auto simp: precursor_addrs_def)
  have skip: "precursor_loop ip 0 False ?xs ?c = precursor_loop ip k False ?xs ?c"
    using c k before by (intro precursor_loop_skip) auto
  have "precursor_loop ip k False ?xs ?c = None" if "\<not> Suc k < length ?xs"
    using c k hit that by (subst precursor_loop.simps) (simp add: Let_def)
  then show "remove_precursor ip pl = None" if "\<not> Suc k < length ?xs"
    using that skip k by (auto simp: remove_precursor_def)
  assume "Suc k < length ?xs"
  with precursor_loop_hit [OF d c k hit] obtain ys where
    ys: "precursor_loop ip k False ?xs ?c = Some (ys, ?c - 1)" "length ys = length ?xs"
      "take (?c - 1) ys = remove_nth k (take ?c ?xs)" by blast
  then show "\<exists>pl'. remove_precursor ip pl = Some pl' \<and> precursor_addrs pl' = remove_nth k (precursor_addrs pl)
         \<and> pl_count pl' = pl_count pl - 1 \<and> length (pl_list pl') = length (pl_list pl)"
    using skip k by (auto simp: remove_precursor_def precursor_addrs_def)
qed

lemma remove_precursor_ok:
  assumes "precursors_ok (Some pl)" and "remove_precursor ip pl = Some pl'"
  shows "precursors_ok (Some pl')"
proof (cases "first_idx (\<lambda>a. same_ip a ip) (precursor_addrs pl)")
  case None
  with assms show ?thesis by (simp add: remove_precursor_miss precursors_ok_def)
next
  case (Some k)
  have room: "Suc k < length (pl_list pl)"
    using remove_precursor_hit(1) [OF assms(1) Some] assms(2) by auto
  from remove_precursor_hit(2) [OF assms(1) Some room] assms(2)
  have p: "precursor_addrs pl' = remove_nth k (precursor_addrs pl)" "pl_count pl' = pl_count pl - 1"
    "length (pl_list pl') = length (pl_list pl)" by auto
  then show ?thesis
    using assms(1) by (auto simp: precursors_ok_def precursor_addrs_def map_remove_nth
        simp flip: take_map intro: distinct_remove_nth)
qed

lemma insert_precursor_ok_list: "precursors_ok pl \<Longrightarrow> precursors_ok (Some (insert_precursor ip pl))"
  by (auto simp: precursors_ok_def insert_precursor_def Let_def list_ex_iff same_ip_canon
      split: option.splits)

section \<open>Interpretations\<close>

lemma fifo_sent_unique:
  "fifo_unique (map (\<lambda>f. if C f then f\<lparr>ff_packetList := []\<rparr> else f) fs) = fifo_unique fs"
  unfolding fifo_unique_cells by (rule ff.unique_map) simp

lemma invalidate_unique:
  "routes_unique (map (\<lambda>t. if B t then invalidate_entry now t else t) ts) = routes_unique ts"
  unfolding routes_unique_cells by (rule rt.unique_map) (simp add: invalidate_entry_def)

lemma fifo_remove_unique: "fifo_unique fs \<Longrightarrow> fifo_unique (remove_nth j fs)"
  unfolding fifo_unique_cells by (rule ff.unique_remove)

lemma sent_remove_ok:
  "sent_unique ts \<Longrightarrow> list_all sent_entry_ok ts \<Longrightarrow>
     sent_unique (remove_nth j ts) \<and> list_all sent_entry_ok (remove_nth j ts)"
  using set_remove_nth [of j ts] by (auto simp: sent_unique_cells st.unique_remove list_all_iff)

interpretation tables: device_invariant "\<lambda>d. dev_inv"
proof
qed (auto simp: dev_inv_def insert_route_unique touch_unique timeout_loop_keeps_unique
      invalidate_unique insert_precursor_ok_list insert_sent_unique
      fifo_sent_unique fifo_remove_unique add_loop_unique sent_remove_ok fnDeleteRREQSentTable_def
      intro: remove_precursor_ok generate_sent_ok [simplified] retry_sent_ok [simplified])

text \<open>A request recorded as seen, and a precursor list that exists, stay.\<close>

lemma check_seen_ex:
  "fnCheckRREQSeenTable v rreq \<longleftrightarrow>
     (\<exists>t \<in> set (rreqSeenTable v). same_ip (sn_OrginatingNode t) (rq_OriginatorIPAddress rreq)
        \<and> sn_nRREQId t = rq_RREQID rreq)"
proof -
  have "CheckRREQSeenTable_loop ts rreq \<longleftrightarrow>
     (\<exists>t \<in> set ts. same_ip (sn_OrginatingNode t) (rq_OriginatorIPAddress rreq)
        \<and> sn_nRREQId t = rq_RREQID rreq)" for ts
    by (induction ts) auto
  then show ?thesis by (simp add: fnCheckRREQSeenTable_def)
qed

interpretation seen: device_invariant "\<lambda>d v. d = d0 \<longrightarrow> fnCheckRREQSeenTable v rreq"
  for d0 :: NETSIM_ID and rreq :: AODV_RREQ
  by unfold_locales (auto simp: check_seen_ex insert_seen_def fnDeleteRREQSentTable_def)

interpretation precursors: device_invariant "\<lambda>d v. d = d0 \<longrightarrow> precursorsList v \<noteq> None"
  for d0 :: NETSIM_ID
  by unfold_locales (auto simp: fnDeleteRREQSentTable_def)

end
