(* ===== verification/Aodv_Example.thy ===== *)
theory Aodv_Example
  imports Aodv_Tables
begin

text \<open>
  A small concrete network on which the properties are instantiated: three nodes on one
  IPv4 network, node \<open>d\<close> with the address \<open>10.0.0.d\<close>, every node running AODV on its only
  interface.  The stack functions are the simplest ones that behave as the library's do on
  such a network.
\<close>

definition demo_ip :: "nat \<Rightarrow> NETSIM_IPAddress" where
  "demo_ip d = mk_ip4 (0x0A000000 + of_nat d)"

definition demo_pkt :: NetSim_PACKET where
  "demo_pkt = \<lparr>nPacketId = 1, nPacketType = PacketType_CBR, nControlDataType = 0,
     nPacketPriority = Priority_Low, nQOS = QOS_BE, pk_dEventTime = 0, nSourceId = 1,
     destInfo = [3], nTransmitterId = 0, nReceiverId = 0, pstruAppData = Some (1, 0),
     dArrivalTime = 0, dStartTime = 0, dEndTime = 0, nw_dPacketSize = 1480, nw_dOverhead = 20,
     szSourceIP = demo_ip 1, szDestIP = demo_ip 3, szGatewayIP = None, szNextHopIp = None,
     nTTL = 0, nRoutingProtocol = 0, Packet_RoutingProtocol = HdrNone,
     DropNotification = DropNull\<rparr>"

definition demo_stack :: NETSIM_STACK where
  "demo_stack = \<lparr>nDeviceCount = 3, nwRouting = (\<lambda>d. if d \<in> {1, 2, 3} then Some NW_PROTOCOL_AODV else None),
     nNumOfInterface = (\<lambda>d. 1), deviceType = (\<lambda>d. 0), DEVICE_NWADDRESS = (\<lambda>d i. demo_ip d),
     DEVICE_NWPROTOCOL = (\<lambda>d i. NW_PROTOCOL_IPV4), szSubnetMask = (\<lambda>d i. None),
     prefix_len = (\<lambda>d i. 0), szDefaultGateWay = (\<lambda>d i. None),
     IP_NETWORK_ADDRESS = (\<lambda>ip m p. mk_ip4 0x0A000000), IP_IS_IN_SAME_NETWORK = (\<lambda>a b m p. True),
     isBroadcastIP = (\<lambda>ip. int_ip0 ip = 0xFFFFFFFF), isMulticastIP = (\<lambda>ip. False),
     GET_BROADCAST_IP = (\<lambda>t. mk_ip4 0xFFFFFFFF), ip_same_pointer = (\<lambda>a b. False),
     GetDeviceId_asIP = (\<lambda>ip. unat (int_ip0 ip - 0x0A000000)),
     GetConnectedInterface = (\<lambda>d i c. 1), GetFirstConnectedDevice = (\<lambda>d i. if d = 1 then 2 else 1),
     GetNWProtocol = (\<lambda>d. NW_PROTOCOL_IPV4), blankPacket = demo_pkt,
     add_dest_to_packet = (\<lambda>k d. k\<lparr>destInfo := [d]\<rparr>),
     isDestFoundinPacket = (\<lambda>k d. d \<in> set (destInfo k)),
     isBroadcastPacket = (\<lambda>k. 0 \<in> set (destInfo k)), fnGetPacketSize = nw_dPacketSize\<rparr>"

definition demo_ev :: "EVENT_TYPE \<Rightarrow> NETSIM_ID \<Rightarrow> pid option \<Rightarrow> NetSim_EVENTDETAILS" where
  "demo_ev ty d p = \<lparr>dEventTime = 1000, nEventType = ty, nProtocolId = NW_PROTOCOL_AODV,
     nDeviceType = 0, nDeviceId = d, nInterfaceId = 1, nApplicationId = 1, dPacketSize = 1480,
     pPacket = p, ev_nPacketId = 1, nSegmentId = 0, nSubEventType = 0, szOtherDetails = None\<rparr>"

definition demo_world :: "(pid \<rightharpoonup> NetSim_PACKET) \<Rightarrow> NetSim_EVENTDETAILS \<Rightarrow> AODV_WORLD" where
  "demo_world ks e = \<lparr>devs = (\<lambda>d. if d \<in> {1, 2, 3} then Some zero_device_var else None),
     pkts = ks, next_pid = 100, added = [], ev = e, nRREQId = 0,
     aodvCurr = Some \<lparr>devId = nDeviceId e, ifId = 1, ifIP = demo_ip (nDeviceId e)\<rparr>,
     aodvState = [(1, 1), (2, 1), (3, 1)], errlog = []\<rparr>"

definition demo_ctrl :: "nat \<Rightarrow> ROUTING_HDR \<Rightarrow> NetSim_PACKET" where
  "demo_ctrl ty h = demo_pkt\<lparr>nPacketType := PacketType_Control, nControlDataType := ty,
     Packet_RoutingProtocol := h, nTTL := 3, destInfo := [0]\<rparr>"

text \<open>A request of node 1 for node \<open>d\<close>, as its neighbours receive it.\<close>

definition demo_rreq :: "nat \<Rightarrow> AODV_RREQ" where
  "demo_rreq d = make_rreq (demo_ip d) 0 (demo_ip 1) 1 1"

lemma demo_ip_type [simp]: "ip_type (demo_ip d) = 4"
  by (simp add: demo_ip_def)

lemma demo_ip_compare [simp]:
  "IP_COMPARE (demo_ip a) (demo_ip b) = (if (of_nat a :: u32) = of_nat b then 0 else 1)"
  by (simp add: demo_ip_def)

lemma demo_stack_sel [simp]:
  "nDeviceCount demo_stack = 3"
  "nwRouting demo_stack d = (if d \<in> {1, 2, 3} then Some NW_PROTOCOL_AODV else None)"
  "nNumOfInterface demo_stack d = 1"
  "deviceType demo_stack d = 0"
  "DEVICE_NWADDRESS demo_stack d i = demo_ip d"
  "DEVICE_NWPROTOCOL demo_stack d i = NW_PROTOCOL_IPV4"
  "IP_NETWORK_ADDRESS demo_stack ip m p = mk_ip4 0x0A000000"
  "GET_BROADCAST_IP demo_stack t = mk_ip4 0xFFFFFFFF"
  "ip_same_pointer demo_stack a b = False"
  "GetDeviceId_asIP demo_stack a = unat (int_ip0 a - 0x0A000000)"
  "GetConnectedInterface demo_stack d i c = 1"
  "GetFirstConnectedDevice demo_stack d i = (if d = 1 then 2 else 1)"
  "GetNWProtocol demo_stack d = NW_PROTOCOL_IPV4"
  "blankPacket demo_stack = demo_pkt"
  "add_dest_to_packet demo_stack k d = k\<lparr>destInfo := [d]\<rparr>"
  "isDestFoundinPacket demo_stack k d = (d \<in> set (destInfo k))"
  "isBroadcastPacket demo_stack k = (0 \<in> set (destInfo k))"
  "fnGetPacketSize demo_stack k = nw_dPacketSize k"
  by (simp_all add: demo_stack_def)

lemma demo_world_sel [simp]:
  "devs (demo_world ks e) d = (if d \<in> {1, 2, 3} then Some zero_device_var else None)"
  "pkts (demo_world ks e) = ks"
  "next_pid (demo_world ks e) = 100"
  "added (demo_world ks e) = []"
  "ev (demo_world ks e) = e"
  "aodvCurr (demo_world ks e) = Some \<lparr>devId = nDeviceId e, ifId = 1, ifIP = demo_ip (nDeviceId e)\<rparr>"
  "aodvState (demo_world ks e) = [(1, 1), (2, 1), (3, 1)]"
  by (simp_all add: demo_world_def)

lemma demo_ev_sel [simp]:
  "dEventTime (demo_ev ty d p) = 1000" "nEventType (demo_ev ty d p) = ty"
  "nDeviceId (demo_ev ty d p) = d" "nInterfaceId (demo_ev ty d p) = 1"
  "pPacket (demo_ev ty d p) = p" "nSubEventType (demo_ev ty d p) = 0"
  "szOtherDetails (demo_ev ty d p) = None"
  by (simp_all add: demo_ev_def)

lemma demo_ctrl_sel [simp]:
  "Packet_RoutingProtocol (demo_ctrl ty h) = h" "nTTL (demo_ctrl ty h) = 3"
  "nControlDataType (demo_ctrl ty h) = ty" "szDestIP (demo_ctrl ty h) = demo_ip 3"
  "destInfo (demo_ctrl ty h) = [0]"
  by (simp_all add: demo_ctrl_def demo_pkt_def)

lemma demo_rreq_sel [simp]:
  "rq_DestinationIPAddress (demo_rreq d) = demo_ip d" "rq_OriginatorIPAddress (demo_rreq d) = demo_ip 1"
  "rq_LastAddress (demo_rreq d) = demo_ip 1" "rq_RREQID (demo_rreq d) = 1" "rq_HopCount (demo_rreq d) = 0"
  "rq_OriginatorSequenceNumber (demo_rreq d) = 1"
  "rq_JRGDU (demo_rreq d) = [NUL, NUL, NUL, NUL, CHR ''1'', NUL]"
  by (simp_all add: demo_rreq_def make_rreq_def numeral_eq_Suc)

lemma zero_device_var_sel [simp]:
  "routeTable zero_device_var = []" "fifo zero_device_var = []" "rreqSeenTable zero_device_var = []"
  "rreqSentTable zero_device_var = []" "precursorsList zero_device_var = None"
  "ncounter zero_device_var = 0" "nSequenceNumber zero_device_var = 0" "nRerrCount zero_device_var = 0"
  by (simp_all add: zero_device_var_def)

text \<open>The definitions a concrete run unfolds.\<close>

lemmas run_defs =
  fn_NetSim_AODV_Run_def run_network_out_def run_network_in_def run_timer_def network_out_tail_def
  set_aodv_curr_def aodv_get_processing_interface_def aodv_get_curr_if_def aodv_get_curr_ip_def
  aodv_get_dev_ip_def isAodvConfigured_def fn_NetSim_AODV_GeneralPacketProcessing_def
  fn_NetSim_AODV_CheckRouteFound_def fn_NetSim_AODV_AddToFIFOBuffer_def
  fn_NetSim_AODV_GenerateRREQ_def start_rreq_def fn_NetSim_AODV_GenerateCtrlPacket_def
  fnFindSequenceNumber_def fn_NetSim_AODV_InsertInRREQSeenTable_def fnIncreaseTTL_def
  fnFindSentTable_def fnGetTimeoutTime_def fn_NetSim_AODV_AddTimeOut_def
  fn_NetSim_AODV_InterstInRREQSentTable_def insert_sent_def insert_seen_def
  zero_device_var_def zero_metrics_def

lemmas process_defs =
  fn_NetSim_AODV_ProcessRREQ_def answer_rreq_def fnCheckRREQSeenTable_def fn_NetSim_AODV_InsertInPrecursorsList_def
  insert_precursor_def fn_NetSim_AODV_InsertInRouteTable_def insert_route_def fill_entry_def
  alloc_entry_def fn_NetSim_AODV_GenerateRREP_def fn_NetSim_AODV_GenerateRREPByIntermediate_def
  fn_NetSim_AODV_ForwardRREQ_def fn_NetSim_AODV_ProcessRREP_def fn_NetSim_AODV_ForwardRREP_def
  fn_NetSim_AODV_TransmitFIFOBuffer_def fn_NetSim_AODV_UpdateRouteTable_def
  fn_NetSim_AODV_FindNextHop_def demo_rreq_def make_rreq_def demo_ctrl_def demo_pkt_def

end
