(* ===== verification/Aodv_Reach.thy ===== *)
theory Aodv_Reach
  imports Aodv_Example
begin

text \<open>
The protocol as a reactive system: \<open>fn_NetSim_AODV_Run\<close> and
  \<open>fn_NetSim_AODV_PacketDropNotification\<close> called in any order by the stack.  The
  interpretations of \<open>reactive_system\<close> carry the invariants of \<open>Aodv_Tables\<close> over whole
  runs.
\<close>

section \<open>The entry points as steps\<close>

text \<open>
  Between two calls the other layers of the stack may rewrite, create and free packets and
  always set the event record; a step therefore starts by taking them from its label.
\<close>

datatype aodv_call = Call_Run | Call_DropNotification pid

type_synonym aodv_label =
  "NetSim_EVENTDETAILS \<times> (pid \<Rightarrow> NetSim_PACKET option) \<times> pid \<times> aodv_call"

definition deliver ::
    "NetSim_EVENTDETAILS \<Rightarrow> (pid \<Rightarrow> NetSim_PACKET option) \<Rightarrow> pid \<Rightarrow> AODV_WORLD \<Rightarrow> AODV_WORLD" where
  "deliver e ks n w = w\<lparr>ev := e, pkts := ks, next_pid := n\<rparr>"

fun aodv_step :: "NETSIM_STACK \<Rightarrow> aodv_label \<Rightarrow> AODV_WORLD \<Rightarrow> AODV_WORLD option" where
  "aodv_step E (e, ks, n, Call_Run) w = map_option snd (fn_NetSim_AODV_Run E (deliver e ks n w))"
| "aodv_step E (e, ks, n, Call_DropNotification p) w =
     fn_NetSim_AODV_PacketDropNotification E p (deliver e ks n w)"

text \<open>What \<open>fn_NetSim_AODV_Configure\<close> and \<open>fn_NetSim_AODV_Init\<close> leave behind.\<close>

definition aodv_started :: "AODV_WORLD \<Rightarrow> bool" where
  "aodv_started w \<longleftrightarrow> (\<forall>d v. devs w d = Some v \<longrightarrow> v = zero_device_var)"

lemma zero_dev_inv: "dev_inv zero_device_var"
  by (simp add: dev_inv_def zero_device_var_def routes_unique_def fifo_unique_def sent_unique_def
      precursors_ok_def)

lemma devs_deliver [simp]: "devs (deliver e ks n w) = devs w"
  by (simp add: deliver_def)

interpretation aodv: reactive_system aodv_started "aodv_step E" "devs_ok (\<lambda>d. dev_inv)"
  for E :: NETSIM_STACK
proof
  show "aodv_started s \<Longrightarrow> devs_ok (\<lambda>d. dev_inv) s" for s
    using zero_dev_inv by (auto simp: aodv_started_def all_devs_def)
  show "devs_ok (\<lambda>d. dev_inv) s \<Longrightarrow> aodv_step E l s = Some t \<Longrightarrow> devs_ok (\<lambda>d. dev_inv) t" for s l t
    by (cases "(E, l, s)" rule: aodv_step.cases)
       (auto dest: tables.aodv_run_ok tables.drop_notification_ok)
qed

interpretation seen_run: reactive_system
    "\<lambda>w. devs_ok (\<lambda>d v. d = d0 \<longrightarrow> fnCheckRREQSeenTable v rreq) w" "aodv_step E"
    "\<lambda>w. devs_ok (\<lambda>d v. d = d0 \<longrightarrow> fnCheckRREQSeenTable v rreq) w"
  for E :: NETSIM_STACK and d0 :: NETSIM_ID and rreq :: AODV_RREQ
proof
  let ?P = "\<lambda>d v. d = d0 \<longrightarrow> fnCheckRREQSeenTable v rreq"
  show "devs_ok ?P s \<Longrightarrow> devs_ok ?P s" for s .
  show "devs_ok ?P s \<Longrightarrow> aodv_step E l s = Some t \<Longrightarrow> devs_ok ?P t" for s l t
    by (cases "(E, l, s)" rule: aodv_step.cases)
       (auto dest: seen.aodv_run_ok seen.drop_notification_ok)
qed

text \<open>
  C1: in every run of the protocol from its configured start, whatever the other layers do
  to packets between calls, the tables of every device are well formed: one entry per
  destination, requests on the expanding ring, no duplicate precursor.
\<close>

theorem aodv_tables_invariant:
  assumes "aodv_started w" and "runs_to (aodv_step E) w ls w'" and "devs w' d = Some v"
  shows "routes_unique (routeTable v) \<and> fifo_unique (fifo v)
    \<and> sent_unique (rreqSentTable v) \<and> list_all sent_entry_ok (rreqSentTable v)
    \<and> precursors_ok (precursorsList v)"
  using aodv.reached_inv [OF assms(1,2)] assms(3) by (auto simp: all_devs_def dev_inv_def)

theorem aodv_tables_invariant_witness:
  "\<exists>w'. runs_to (aodv_step demo_stack)
          (demo_world [1 \<mapsto> demo_pkt] (demo_ev NETWORK_OUT_EVENT 1 (Some 1)))
          [(demo_ev NETWORK_OUT_EVENT 1 (Some 1), [1 \<mapsto> demo_pkt], 100, Call_Run)] w'
        \<and> (\<exists>v. devs w' 1 = Some v \<and> rreqSentTable v \<noteq> [] \<and> list_all sent_entry_ok (rreqSentTable v))"
proof -
  let ?w = "demo_world [1 \<mapsto> demo_pkt] (demo_ev NETWORK_OUT_EVENT 1 (Some 1))"
  let ?l = "(demo_ev NETWORK_OUT_EVENT 1 (Some 1), [1 \<mapsto> demo_pkt], 100, Call_Run)"
  obtain w' v where s: "aodv_step demo_stack ?l ?w = Some w'"
    and v: "devs w' 1 = Some v" "rreqSentTable v \<noteq> []"
    by (simp add: run_defs world_ops aodv_consts aodv_numbers demo_pkt_def deliver_def Let_def)
  have r: "runs_to (aodv_step demo_stack) ?w [?l] w'"
    using s by (rule runs_one)
  have "aodv_started ?w" by (simp add: aodv_started_def)
  from aodv_tables_invariant [OF this r v(1)] r v show ?thesis by blast
qed


lemma process_rreq_marks_seen:
  assumes "fn_NetSim_AODV_ProcessRREQ E w = Some (r, w1)"
    and "pPacket (ev w) = Some p" and "pkts w p = Some k" and "hdr_rreq k = Some rreq"
  shows "devs_ok (\<lambda>d v. d = nDeviceId (ev w) \<longrightarrow> fnCheckRREQSeenTable v rreq) w1"
proof -
  let ?d = "nDeviceId (ev w)"
  from assms obtain v where v: "devs w ?d = Some v"
    by (auto simp: fn_NetSim_AODV_ProcessRREQ_def Let_def AODV_DEV_VAR_def get_pkt_def elim!: bind_SomeE)
  show ?thesis
  proof (cases "fnCheckRREQSeenTable v rreq")
    case True
    then have "devs_ok (\<lambda>d v. d = ?d \<longrightarrow> fnCheckRREQSeenTable v rreq) w"
      using v by (auto simp: all_devs_def)
    then show ?thesis using seen.process_rreq_ok [OF assms(1)] by blast
  next
    case False
    let ?w = "w\<lparr>devs := (devs w)(?d \<mapsto> rreqSeenTable_update
                 (insert_seen (rq_OriginatorIPAddress rreq) (rq_RREQID rreq) (dEventTime (ev w))) v)\<rparr>"
    have m: "devs_ok (\<lambda>d v. d = ?d \<longrightarrow> fnCheckRREQSeenTable v rreq) ?w"
      by (auto simp: all_devs_def check_seen_ex insert_seen_def)
    have i: "fn_NetSim_AODV_InsertInRREQSeenTable ?d (rq_OriginatorIPAddress rreq) (rq_RREQID rreq)
               (dEventTime (ev w)) w = Some ?w"
      using v by (simp add: fn_NetSim_AODV_InsertInRREQSeenTable_def upd_dev_def)
    show ?thesis
      using assms False v i m
      by (auto simp: fn_NetSim_AODV_ProcessRREQ_def Let_def AODV_DEV_VAR_def get_pkt_def
          split: if_splits
          elim!: bind_SomeE seen.answer_rreq_ok seen.insert_route_ok seen.insert_precursor_ok
          dest!: free_frame)
  qed
qed

text \<open>
  C2: a route request is processed once.  After a device has processed a request, in every
  continuation of the run a request with the same originator and the same number that
  arrives there is freed, returns 0, changes no table and schedules nothing.
\<close>

theorem rreq_duplicate_suppressed:
  assumes "fn_NetSim_AODV_ProcessRREQ E w = Some (r, w1)"
    and "pPacket (ev w) = Some p" and "pkts w p = Some k" and "hdr_rreq k = Some rreq"
    and "runs_to (aodv_step E) w1 ls w2" and "devs w2 (nDeviceId (ev w)) = Some v2"
    and "nDeviceId e = nDeviceId (ev w)" and "pPacket e = Some q" and "ks q = Some k'"
    and "hdr_rreq k' = Some rreq'"
    and "same_ip (rq_OriginatorIPAddress rreq') (rq_OriginatorIPAddress rreq)"
    and "rq_RREQID rreq' = rq_RREQID rreq"
  shows "fn_NetSim_AODV_ProcessRREQ E (deliver e ks n w2)
           = Some (0, deliver (e\<lparr>pPacket := None\<rparr>) (ks(q := None)) n w2)"
proof -
  have "devs_ok (\<lambda>d v. d = nDeviceId (ev w) \<longrightarrow> fnCheckRREQSeenTable v rreq) w2"
    using seen_run.runs_inv [OF assms(5) process_rreq_marks_seen [OF assms(1-4)]] .
  then have "fnCheckRREQSeenTable v2 rreq" using assms(6) by (auto simp: all_devs_def)
  then have "fnCheckRREQSeenTable v2 rreq'"
    using assms(11,12) by (auto simp: check_seen_ex same_ip_canon)
  with assms(6-10) show ?thesis
    by (simp add: fn_NetSim_AODV_ProcessRREQ_def Let_def world_ops deliver_def)
qed

theorem rreq_duplicate_suppressed_witness:
  "\<exists>r w1. fn_NetSim_AODV_ProcessRREQ demo_stack
            (demo_world [1 \<mapsto> demo_ctrl AODVctrlPacket_RREQ (HdrRREQ (demo_rreq 3))]
              (demo_ev NETWORK_IN_EVENT 2 (Some 1))) = Some (r, w1)
     \<and> fn_NetSim_AODV_ProcessRREQ demo_stack
         (deliver (demo_ev NETWORK_IN_EVENT 2 (Some 7))
           [7 \<mapsto> demo_ctrl AODVctrlPacket_RREQ (HdrRREQ (demo_rreq 3))] 100 w1)
       = Some (0, deliver ((demo_ev NETWORK_IN_EVENT 2 (Some 7))\<lparr>pPacket := None\<rparr>) Map.empty 100 w1)"
proof -
  let ?k = "demo_ctrl AODVctrlPacket_RREQ (HdrRREQ (demo_rreq 3))"
  let ?w = "demo_world [1 \<mapsto> ?k] (demo_ev NETWORK_IN_EVENT 2 (Some 1))"
  have h: "hdr_rreq ?k = Some (demo_rreq 3)" by (simp add: hdr_rreq_def demo_ctrl_def)
  obtain r w1 v where 1: "fn_NetSim_AODV_ProcessRREQ demo_stack ?w = Some (r, w1)"
    and v: "devs w1 2 = Some v"
    by (simp add: process_defs run_defs world_ops aodv_consts aodv_numbers Let_def)
  have "fn_NetSim_AODV_ProcessRREQ demo_stack
         (deliver (demo_ev NETWORK_IN_EVENT 2 (Some 7)) [7 \<mapsto> ?k] 100 w1)
       = Some (0, deliver ((demo_ev NETWORK_IN_EVENT 2 (Some 7))\<lparr>pPacket := None\<rparr>)
                    ([7 \<mapsto> ?k](7 := None)) 100 w1)"
    by (rule rreq_duplicate_suppressed [where ?v2.0 = v and k' = ?k and rreq' = "demo_rreq 3", OF 1 _ _ h runs_refl])
       (simp_all add: v h)
  with 1 show ?thesis by (auto simp: fun_upd_upd)
qed
end
