(* ===== verification/Aodv_Routes.thy ===== *)
theory Aodv_Routes
  imports Aodv_Example
begin

text \<open>
What the route table and the precursor list promise: insertion refines a map update, the
  recorded sequence numbers do not decrease, expiry, and the effect of a broken link and of
  a received route error on the tables.
\<close>

section \<open>Inserting a route\<close>

text \<open>
  C3: \<open>fn_NetSim_AODV_InsertInRouteTable\<close> implements an update of a finite map from
  addresses to routes: an unknown destination gets a new route and an expiry timer, a known
  one is replaced if and only if the new information is accepted, and every other
  destination is left alone.
\<close>

theorem insert_route_refines:
  assumes "devs w (nDeviceId (ev w)) = Some v" and "routes_unique (routeTable v)"
  shows "\<exists>w' v'. fn_NetSim_AODV_InsertInRouteTable ip s h nh l w = Some w'
     \<and> devs w' = (devs w)(nDeviceId (ev w) \<mapsto> v')
     \<and> route_map (routeTable v') = spec_insert ip s h nh l (dEventTime (ev w))
                                    (precursorsList v \<noteq> None) (route_map (routeTable v))
     \<and> routes_unique (routeTable v')
     \<and> added w' = added w @ (if route_map (routeTable v) (ip_canon ip) = None
                             then [route_timer ip (ev w)] else [])"
proof -
  have "InsertInRouteTable_scan ip s h 0 (routeTable v) = ScanEnd
      \<longleftrightarrow> route_map (routeTable v) (ip_canon ip) = None"
    by (auto simp: scan_first_idx first_idx_None_iff simp flip: fnFindRouteTable_route_map
        simp: fnFindRouteTable_None_iff split: option.splits if_splits dest!: first_idx_SomeD)
  then show ?thesis
    using assms insert_route_map [OF assms(2)] insert_route_unique [OF assms(2)]
    by (auto simp: fn_NetSim_AODV_InsertInRouteTable_def world_ops)
qed

theorem insert_route_refines_witness:
  "\<exists>w' v'. fn_NetSim_AODV_InsertInRouteTable (demo_ip 3) 5 2 (demo_ip 2) 0
            (demo_world Map.empty (demo_ev NETWORK_IN_EVENT 1 None)) = Some w'
     \<and> devs w' 1 = Some v'
     \<and> map_option rt_NextHop (route_map (routeTable v') (ip_canon (demo_ip 3))) = Some (demo_ip 2)
     \<and> length (added w') = 1"
  using insert_route_refines
          [of "demo_world Map.empty (demo_ev NETWORK_IN_EVENT 1 None)" zero_device_var
              "demo_ip 3" 5 2 "demo_ip 2" 0]
  by (auto simp: zero_device_var_def routes_unique_def route_map_def spec_insert_def)

text \<open>
  the sequence number recorded for a destination never decreases while its entry is
  valid, and an entry whose number stays the same is only replaced by a route at least two
  hops shorter, or after it was invalidated.
\<close>

theorem insert_route_fresh:
  assumes "routes_unique ts" and "fnFindRouteTable ts ip = Some t"
    and "rt_ValidDestinationSequenceNumberflag t"
  shows "\<exists>t'. fnFindRouteTable (insert_route ip s h nh l now b ts) ip = Some t'
     \<and> rt_DestinationSequenceNumber t \<le> rt_DestinationSequenceNumber t'
     \<and> (t' = t \<or> rt_DestinationSequenceNumber t < rt_DestinationSequenceNumber t'
         \<or> h + 1 < rt_HopCount t \<or> rt_routingFlags t = AODV_RoutingFlag_InValid)
     \<and> rt_Lifetime t \<le> rt_Lifetime t'"
proof -
  have "fnFindRouteTable (insert_route ip s h nh l now b ts) ip
          = (if route_accepts t s h then Some (fill_entry s h l b t) else Some t)"
    using assms insert_route_map [OF assms(1), of ip s h nh l now b]
    by (simp add: fnFindRouteTable_route_map spec_insert_def)
  then show ?thesis using assms(3) by (auto simp: route_accepts_def)
qed

theorem insert_route_fresh_witness:
  "\<exists>t'. fnFindRouteTable
          (insert_route (demo_ip 3) 4 1 (demo_ip 2) 0 0 False
            [fill_entry 5 3 0 False (alloc_entry (demo_ip 3) (demo_ip 2) 0)]) (demo_ip 3) = Some t'
      \<and> (5 :: u32) \<le> rt_DestinationSequenceNumber t'"
  using insert_route_fresh
    [of "[fill_entry 5 3 0 False (alloc_entry (demo_ip 3) (demo_ip 2) 0)]" "demo_ip 3"
        "fill_entry 5 3 0 False (alloc_entry (demo_ip 3) (demo_ip 2) 0)" 4 1 "demo_ip 2" 0 0 False]
  by (auto simp: routes_unique_def)

text \<open>
  A route that is replaced keeps the next hop it was created with.  The hop count, the
  sequence number and the lifetime become those of the new path, but packets still go to the
  neighbour of the old one, because the assignment of \<open>NextHop\<close> is guarded by a null test.
\<close>

theorem insert_route_keeps_next_hop:
  assumes "routes_unique ts" and "fnFindRouteTable ts ip = Some t" and "route_accepts t s h"
  shows "\<exists>t'. fnFindRouteTable (insert_route ip s h nh l now b ts) ip = Some t'
     \<and> rt_DestinationSequenceNumber t' = s \<and> rt_HopCount t' = h \<and> rt_NextHop t' = rt_NextHop t"
  using assms insert_route_map [OF assms(1), of ip s h nh l now b]
  by (simp add: fnFindRouteTable_route_map spec_insert_def)

theorem insert_route_keeps_next_hop_witness:
  "\<exists>t'. fnFindRouteTable
          (insert_route (demo_ip 3) 9 1 (demo_ip 3) 0 0 False
            [fill_entry 5 3 0 False (alloc_entry (demo_ip 3) (demo_ip 2) 0)]) (demo_ip 3) = Some t'
      \<and> rt_HopCount t' = 1 \<and> rt_NextHop t' = demo_ip 2"
  using insert_route_keeps_next_hop
    [of "[fill_entry 5 3 0 False (alloc_entry (demo_ip 3) (demo_ip 2) 0)]" "demo_ip 3"
        "fill_entry 5 3 0 False (alloc_entry (demo_ip 3) (demo_ip 2) 0)" 9 1 "demo_ip 3" 0 0 False]
  by (auto simp: routes_unique_def route_accepts_def)

section \<open>Expiry\<close>

text \<open>
  the expiry timer of a destination removes its route exactly if its lifetime is over,
  takes one from the congestion counter then, and otherwise schedules the timer again for
  the end of the lifetime; without a route it does nothing.
\<close>

theorem route_expiry:
  assumes "szOtherDetails (ev w) = Some dest" and "devs w (nDeviceId (ev w)) = Some v"
    and "routes_unique (routeTable v)"
  shows "\<exists>w' v'. fn_NetSim_AODV_ActiveRouteTimeout w = Some w' \<and> devs w' (nDeviceId (ev w)) = Some v'
     \<and> (case fnFindRouteTable (routeTable v) dest of
          None \<Rightarrow> v' = v \<and> added w' = added w
        | Some t \<Rightarrow>
            if rt_Lifetime t \<le> dEventTime (ev w)
            then route_map (routeTable v') = (route_map (routeTable v))(ip_canon dest := None)
               \<and> ncounter v' = ncounter v - 1 \<and> added w' = added w
            else v' = v \<and> added w' = added w @ [(ev w)\<lparr>dEventTime := rt_Lifetime t\<rparr>])"
proof (cases "fnFindRouteTable (routeTable v) dest")
  case None
  with assms show ?thesis
    by (simp add: fn_NetSim_AODV_ActiveRouteTimeout_def timeout_loop_unique world_ops)
next
  case (Some t)
  have "route_map (filter (\<lambda>u. \<not> same_ip (rt_DestinationIPAddress u) dest) (routeTable v))
          = (route_map (routeTable v))(ip_canon dest := None)"
    by (rule ext) (simp add: route_map_table_map rt.table_map_find same_ip_canon find_filter_key)
  with Some assms show ?thesis
    by (simp add: fn_NetSim_AODV_ActiveRouteTimeout_def timeout_loop_unique world_ops)
qed

theorem route_expiry_witness:
  "\<exists>w' v'. fn_NetSim_AODV_ActiveRouteTimeout
      ((demo_world Map.empty ((demo_ev TIMER_EVENT 1 None)\<lparr>szOtherDetails := Some (demo_ip 3)\<rparr>))
        \<lparr>devs := [1 \<mapsto> zero_device_var\<lparr>routeTable := [(alloc_entry (demo_ip 3) (demo_ip 2) 0)\<lparr>rt_Lifetime := 1000\<rparr>]\<rparr>]\<rparr>)
        = Some w'
     \<and> devs w' 1 = Some v' \<and> route_map (routeTable v') (ip_canon (demo_ip 3)) = None"
  using route_expiry
    [of "(demo_world Map.empty ((demo_ev TIMER_EVENT 1 None)\<lparr>szOtherDetails := Some (demo_ip 3)\<rparr>))
          \<lparr>devs := [1 \<mapsto> zero_device_var\<lparr>routeTable := [(alloc_entry (demo_ip 3) (demo_ip 2) 0)\<lparr>rt_Lifetime := 1000\<rparr>]\<rparr>]\<rparr>"
        "demo_ip 3"
        "zero_device_var\<lparr>routeTable := [(alloc_entry (demo_ip 3) (demo_ip 2) 0)\<lparr>rt_Lifetime := 1000\<rparr>]\<rparr>"]
  by (auto simp: routes_unique_def)

section \<open>A broken link\<close>

lemma rerr_loop_lists:
  "GenerateRERR_loop ip now ts =
     (map (\<lambda>t. if same_ip (rt_NextHop t) ip then invalidate_entry now t else t) ts,
      map rt_DestinationIPAddress (filter (\<lambda>t. same_ip (rt_NextHop t) ip) ts),
      map rt_DestinationSequenceNumber (filter (\<lambda>t. same_ip (rt_NextHop t) ip) ts))"
  by (induction ts) auto

text \<open>
  when a link breaks, exactly the routes through the lost neighbour are marked invalid
  and given the delete period, their destinations and sequence numbers are what the route
  error announces, and every one of those routes still counts as found afterwards: the test
  \<open>AODV_CHECK_ROUTE_FOUND\<close> looks at the lifetime, which the invalidation extends, and never
  at the flag.
\<close>

theorem broken_link_tables:
  assumes "break_link d (Some ip) w = Some (ds, ss, w')" and "devs w d = Some v"
  shows "\<exists>v'. devs w' d = Some v'
     \<and> routeTable v' = map (\<lambda>t. if same_ip (rt_NextHop t) ip
                                then invalidate_entry (dEventTime (ev w)) t else t) (routeTable v)
     \<and> ds = map rt_DestinationIPAddress (filter (\<lambda>t. same_ip (rt_NextHop t) ip) (routeTable v))
     \<and> ss = map rt_DestinationSequenceNumber (filter (\<lambda>t. same_ip (rt_NextHop t) ip) (routeTable v))
     \<and> ncounter v' = ncounter v - 1
     \<and> list_all (\<lambda>a. fn_NetSim_AODV_CheckRouteFound a v' (dEventTime (ev w))) ds"
proof -
  from assms obtain pl' where w': "devs w' d = Some ((ncounter_update (\<lambda>n. n - 1) v)
      \<lparr>routeTable := fst (GenerateRERR_loop ip (dEventTime (ev w)) (routeTable v)),
      precursorsList := Some pl'\<rparr>)"
    and l: "(ds, ss) = snd (GenerateRERR_loop ip (dEventTime (ev w)) (routeTable v))"
    by (auto simp: break_link_def world_ops elim!: bind_SomeE split: option.splits prod.splits)
  have "CheckRouteFound_loop (map (\<lambda>t. if same_ip (rt_NextHop t) ip
          then invalidate_entry (dEventTime (ev w)) t else t) (routeTable v))
          (rt_DestinationIPAddress t) (dEventTime (ev w))"
    if "t \<in> set (routeTable v)" "same_ip (rt_NextHop t) ip" for t
    unfolding CheckRouteFound_ex using that
    by (intro bexI [of _ "invalidate_entry (dEventTime (ev w)) t"])
       (auto simp: invalidate_entry_def aodv_consts intro!: rev_image_eqI)
  then show ?thesis
    using w' l by (auto simp: rerr_loop_lists fn_NetSim_AODV_CheckRouteFound_def list_all_iff)
qed

theorem broken_link_tables_witness:
  "\<exists>ds ss w' v'. break_link 1 (Some (demo_ip 2))
     ((demo_world Map.empty (demo_ev TIMER_EVENT 1 None))
       \<lparr>devs := [1 \<mapsto> zero_device_var\<lparr>routeTable := [alloc_entry (demo_ip 3) (demo_ip 2) 0],
                      precursorsList := Some \<lparr>pl_list = [], pl_count = 0\<rparr>\<rparr>]\<rparr>) = Some (ds, ss, w')
     \<and> devs w' 1 = Some v' \<and> ds = [demo_ip 3]
     \<and> fn_NetSim_AODV_CheckRouteFound (demo_ip 3) v' 1000"
proof -
  let ?v = "zero_device_var\<lparr>routeTable := [alloc_entry (demo_ip 3) (demo_ip 2) 0],
                      precursorsList := Some \<lparr>pl_list = [], pl_count = 0\<rparr>\<rparr>"
  let ?w = "(demo_world Map.empty (demo_ev TIMER_EVENT 1 None))\<lparr>devs := [1 \<mapsto> ?v]\<rparr>"
  obtain ds ss w' where b: "break_link 1 (Some (demo_ip 2)) ?w = Some (ds, ss, w')"
    by (simp add: break_link_def world_ops remove_precursor_def)
  show ?thesis using b broken_link_tables [OF b, of ?v] by auto
qed

section \<open>Precursors\<close>

text \<open>
  removing a neighbour from the precursors.  If it is not there the list is unchanged;
  if it is there and not in the last cell of the array, exactly it goes and the order of the
  others stays; if it is in the last cell the loop reads one element past the array.
\<close>

theorem remove_precursor_spec:
  assumes "precursors_ok (Some pl)"
  shows "case first_idx (\<lambda>a. same_ip a ip) (precursor_addrs pl) of
      None \<Rightarrow> remove_precursor ip pl = Some pl
    | Some k \<Rightarrow>
        if Suc k = length (pl_list pl) then remove_precursor ip pl = None
        else \<exists>pl'. remove_precursor ip pl = Some pl'
               \<and> precursor_addrs pl' = filter (\<lambda>a. \<not> same_ip a ip) (precursor_addrs pl)"
proof (cases "first_idx (\<lambda>a. same_ip a ip) (precursor_addrs pl)")
  case None
  then show ?thesis using assms by (simp add: remove_precursor_miss precursors_ok_def)
next
  case (Some k)
  have k: "k < length (precursor_addrs pl)" and hit: "ip_canon (precursor_addrs pl ! k) = ip_canon ip"
    using first_idx_SomeD [OF Some] by (auto simp: same_ip_canon)
  have "remove_nth k (precursor_addrs pl) = filter (\<lambda>a. \<not> same_ip a ip) (precursor_addrs pl)"
    using remove_nth_filter [of ip_canon "precursor_addrs pl" k] assms k hit
    by (simp add: precursors_ok_def precursor_addrs_def same_ip_canon)
  moreover have "k < length (pl_list pl)" using k by (simp add: precursor_addrs_def)
  ultimately show ?thesis
    using Some remove_precursor_hit [OF assms Some] by force
qed

theorem remove_precursor_spec_witness:
  "(\<exists>pl'. remove_precursor (demo_ip 1) \<lparr>pl_list = [demo_ip 1, demo_ip 2], pl_count = 2\<rparr> = Some pl'
       \<and> precursor_addrs pl' = [demo_ip 2])
   \<and> remove_precursor (demo_ip 2) \<lparr>pl_list = [demo_ip 1, demo_ip 2], pl_count = 2\<rparr> = None"
  using remove_precursor_spec [of "\<lparr>pl_list = [demo_ip 1, demo_ip 2], pl_count = 2\<rparr>" "demo_ip 1"]
    remove_precursor_spec [of "\<lparr>pl_list = [demo_ip 1, demo_ip 2], pl_count = 2\<rparr>" "demo_ip 2"]
  by (simp add: precursors_ok_def precursor_addrs_def same_ip_canon [symmetric])

text \<open>
  After \<open>fn_NetSim_AODV_InsertInPrecursorsList\<close> the address is a precursor, the others
  are the same as before in the same order, and there is still no duplicate.
\<close>

theorem insert_precursor_spec:
  assumes "precursors_ok pl"
  shows "precursors_ok (Some (insert_precursor ip pl))
     \<and> (\<exists>a \<in> set (precursor_addrs (insert_precursor ip pl)). same_ip a ip)
     \<and> (let old = (case pl of None \<Rightarrow> [] | Some p \<Rightarrow> precursor_addrs p)
        in precursor_addrs (insert_precursor ip pl)
             = (if \<exists>a \<in> set old. same_ip a ip then old else old @ [ip]))"
  using assms
  by (auto simp: precursors_ok_def precursor_addrs_def insert_precursor_def Let_def list_ex_iff
      same_ip_canon split: option.splits)

theorem insert_precursor_spec_witness:
  "precursor_addrs (insert_precursor (demo_ip 2) (Some \<lparr>pl_list = [demo_ip 1], pl_count = 1\<rparr>))
     = [demo_ip 1, demo_ip 2]"
  using insert_precursor_spec [of "Some \<lparr>pl_list = [demo_ip 1], pl_count = 1\<rparr>" "demo_ip 2"]
  by (simp add: precursors_ok_def precursor_addrs_def Let_def)

section \<open>A received route error\<close>

text \<open>
  a received route error invalidates exactly the routes to an announced destination
  whose next hop is the sender, and the packet is sent on, with the device's own address as
  its source, if and only if there is such a route.
\<close>

theorem process_rerr_spec:
  assumes "pPacket (ev w) = Some p" and "pkts w p = Some k" and "hdr_rerr k = Some rerr"
    and "devs w (nDeviceId (ev w)) = Some v" and "aodvCurr w = Some c"
    and "length (re_UnreachableDestinationIPAddress rerr) = unat (re_DestCount rerr)"
  shows "\<exists>w' v'. fn_NetSim_AODV_ProcessRERR w = Some w' \<and> devs w' (nDeviceId (ev w)) = Some v'
     \<and> routeTable v' = map (\<lambda>t.
          if same_ip (szSourceIP k) (rt_NextHop t)
             \<and> (\<exists>a \<in> set (re_UnreachableDestinationIPAddress rerr). same_ip a (rt_DestinationIPAddress t))
          then t\<lparr>rt_routingFlags := AODV_RoutingFlag_InValid,
                 rt_Lifetime := dEventTime (ev w) + AODV_DELETE_PERIOD\<rparr>
          else t) (routeTable v)
     \<and> (if \<exists>t \<in> set (routeTable v). same_ip (szSourceIP k) (rt_NextHop t)
             \<and> (\<exists>a \<in> set (re_UnreachableDestinationIPAddress rerr). same_ip a (rt_DestinationIPAddress t))
        then added w' = added w @ [(ev w)\<lparr>nEventType := NETWORK_OUT_EVENT\<rparr>]
           \<and> pkts w' p = Some (k\<lparr>szSourceIP := ifIP c\<rparr>)
        else added w' = added w \<and> pkts w' = pkts w)"
proof -
  have hits: "rerr_hits rerr (szSourceIP k) t \<longleftrightarrow> same_ip (szSourceIP k) (rt_NextHop t)
      \<and> (\<exists>a \<in> set (re_UnreachableDestinationIPAddress rerr). same_ip a (rt_DestinationIPAddress t))" for t
    using assms(6) by (auto simp: rerr_hits_def list_ex_iff)
  show ?thesis
    using assms
    by (auto simp: fn_NetSim_AODV_ProcessRERR_def world_ops aodv_get_curr_ip_def Let_def hits
        list_ex_iff invalidate_entry_def)
qed

theorem process_rerr_spec_witness:
  "\<exists>w'. fn_NetSim_AODV_ProcessRERR
      ((demo_world [1 \<mapsto> (demo_ctrl AODVctrlPacket_RERR (HdrRERR (make_rerr [demo_ip 3] [5])))\<lparr>szSourceIP := demo_ip 2\<rparr>]
         (demo_ev NETWORK_IN_EVENT 1 (Some 1)))
        \<lparr>devs := [1 \<mapsto> zero_device_var\<lparr>routeTable := [alloc_entry (demo_ip 3) (demo_ip 2) 0]\<rparr>]\<rparr>) = Some w'
      \<and> length (added w') = 1"
proof -
  let ?k = "(demo_ctrl AODVctrlPacket_RERR (HdrRERR (make_rerr [demo_ip 3] [5])))\<lparr>szSourceIP := demo_ip 2\<rparr>"
  let ?v = "zero_device_var\<lparr>routeTable := [alloc_entry (demo_ip 3) (demo_ip 2) 0]\<rparr>"
  let ?w = "(demo_world [1 \<mapsto> ?k] (demo_ev NETWORK_IN_EVENT 1 (Some 1)))\<lparr>devs := [1 \<mapsto> ?v]\<rparr>"
  show ?thesis
    using process_rerr_spec [of ?w 1 ?k "make_rerr [demo_ip 3] [5]" ?v
        "\<lparr>devId = 1, ifId = 1, ifIP = demo_ip 1\<rparr>"]
    by (auto simp: hdr_rerr_def demo_ctrl_def make_rerr_def)
qed
end
