(* ===== verification/Aodv_Discovery.thy ===== *)
theory Aodv_Discovery
  imports Aodv_Example
begin

text \<open>
Route discovery: what the timer of a route request does.  A retry that is due moves the
  destination's entry along the expanding ring and sends a new request; one that has used up
  its retries abandons the discovery and the packets that wait for it; a stale one does
  nothing.  Together they bound the number of requests a discovery sends.
\<close>

section \<open>Starting a request\<close>

lemma start_rreq_total:
  assumes "aodvCurr w = Some c" and "devs w (nDeviceId (ev w)) = Some v"
  shows "\<exists>k. start_rreq E dest w = Some (next_pid w,
      w\<lparr>next_pid := Suc (next_pid w), nRREQId := nRREQId w + 1,
        pkts := (pkts w)(next_pid w \<mapsto> k),
        devs := (devs w)(nDeviceId (ev w) \<mapsto>
          rreqSeenTable_update (insert_seen (ifIP c) (nRREQId w + 1) (dEventTime (ev w)))
            (nSequenceNumber_update (\<lambda>n. n + 1) v))\<rparr>)
    \<and> Packet_RoutingProtocol k = HdrRREQ (make_rreq dest (fnFindSequenceNumber v dest) (ifIP c)
          (nSequenceNumber v + 1) (nRREQId w + 1))
    \<and> nReceiverId k = 0"
proof -
  have "\<exists>a. aodv_get_dev_ip E d' w = Some a" for d'
    using assms(1) by (simp add: aodv_get_dev_ip_def)
  then obtain a b where "aodv_get_dev_ip E (nDeviceId (ev w)) w = Some a"
    and "aodv_get_dev_ip E 0 w = Some b" by metis
  then show ?thesis
    using assms
    by (simp add: start_rreq_def fn_NetSim_AODV_GenerateCtrlPacket_def Let_def world_ops
        aodv_get_curr_ip_def fn_NetSim_AODV_InsertInRREQSeenTable_def)
       (rule exI, rule conjI [OF refl], simp)
qed

section \<open>The expanding ring\<close>

text \<open>What a retry at time \<open>now\<close> makes of the entry of its destination.\<close>

definition ring_next :: "simtime \<Rightarrow> AODV_RREQ_SENT_TABLE \<Rightarrow> AODV_RREQ_SENT_TABLE" where
  "ring_next now e =
     (let ttl = (if st_ttl e \<ge> 7 then 35 else min 7 (st_ttl e + 2))
      in e\<lparr>st_times := (if ttl = 35 then st_times e + 1 else st_times e), st_ttl := ttl,
           st_dTimeoutTime := now + 80000 * real_of_int (ttl + 3)\<rparr>)"

lemma sent_entry_found:
  assumes "dev_inv v" and "fnFindSentTable v dest = Some i"
  shows "i < length (rreqSentTable v)" and "sent_entry_ok (rreqSentTable v ! i)"
    and "same_ip (st_DestAddress (rreqSentTable v ! i)) dest"
  using assms first_idx_SomeD [of _ "rreqSentTable v" i]
  by (force simp: fnFindSentTable_def dev_inv_def list_all_length)+

lemma retry_entry:
  assumes "dev_inv v" and f: "fnFindSentTable v dest = Some i" and "rreqSentTable v ! i = e"
  shows "rreqSentTable (insert_sent dest (uint (word_of_int (fnIncreaseTTL v dest + 1) :: u8) - 1)
           (now + fnGetTimeoutTime (uint (word_of_int (fnIncreaseTTL v dest + 1) :: u8)) n) v)
         = (rreqSentTable v)[i := ring_next now e]"
    and "uint (word_of_int (fnIncreaseTTL v dest + 1) :: u8) = st_ttl (ring_next now e) + 1"
    and "now + fnGetTimeoutTime (st_ttl (ring_next now e) + 1) n = st_dTimeoutTime (ring_next now e)"
proof -
  have e: "sent_entry_ok e" using sent_entry_found(2) [OF assms(1) f] assms(3) by simp
  have ttl: "fnIncreaseTTL v dest = (if st_ttl e \<ge> 7 then 35 else if st_ttl e = 2 then 4
                           else if st_ttl e = 4 then 6 else 7)"
    using e by (intro next_ttl_cases [OF _ f assms(3)]) (auto simp: sent_entry_ok_def)
  show "uint (word_of_int (fnIncreaseTTL v dest + 1) :: u8) = st_ttl (ring_next now e) + 1"
    using e unfolding ttl by (auto simp: sent_entry_ok_def ring_next_def Let_def)
  show "now + fnGetTimeoutTime (st_ttl (ring_next now e) + 1) n = st_dTimeoutTime (ring_next now e)"
    using e by (auto simp: sent_entry_ok_def ring_next_def Let_def fnGetTimeoutTime_def aodv_consts)
  show "rreqSentTable (insert_sent dest (uint (word_of_int (fnIncreaseTTL v dest + 1) :: u8) - 1)
           (now + fnGetTimeoutTime (uint (word_of_int (fnIncreaseTTL v dest + 1) :: u8)) n) v)
         = (rreqSentTable v)[i := ring_next now e]"
    unfolding insert_sent_found [OF f] assms(3) using e unfolding ttl
    by (auto simp: sent_entry_ok_def ring_next_def Let_def fnGetTimeoutTime_def aodv_consts)
qed

lemma retry_rreq_due:
  assumes "szOtherDetails (ev w) = Some dest" and "devs w (nDeviceId (ev w)) = Some v"
    and "fnFindSentTable v dest = Some i" and "rreqSentTable v ! i = e"
    and "st_dTimeoutTime e \<le> dEventTime (ev w)" and "st_times e \<le> AODV_RREQ_RETRIES"
  shows "fn_NetSim_AODV_RetryRREQ E w = map_option (Pair 1) (resend_rreq E dest (st_times e) w)"
  using assms
  by (cases "resend_rreq E dest (st_times e) w")
     (simp_all add: fn_NetSim_AODV_RetryRREQ_def AODV_DEV_VAR_def Let_def)

lemma retry_step:
  assumes "szOtherDetails (ev w) = Some dest" and "aodvCurr w = Some c"
    and "devs w (nDeviceId (ev w)) = Some v" and "dev_inv v"
    and "fnFindSentTable v dest = Some i" and "rreqSentTable v ! i = e"
    and "st_dTimeoutTime e \<le> dEventTime (ev w)" and "st_times e \<le> AODV_RREQ_RETRIES"
  shows "\<exists>w' k v' e1 e2. fn_NetSim_AODV_RetryRREQ E w = Some (1, w')
     \<and> devs w' = (devs w)(nDeviceId (ev w) \<mapsto> v') \<and> pkts w' = (pkts w)(next_pid w \<mapsto> k)
     \<and> added w' = added w @ [e1, e2] \<and> aodvCurr w' = aodvCurr w
     \<and> nDeviceId (ev w') = nDeviceId (ev w)
     \<and> rreqSentTable v' = (rreqSentTable v)[i := ring_next (dEventTime (ev w)) e]
     \<and> fifo v' = fifo v \<and> packetDropped (aodvMetrics v') = packetDropped (aodvMetrics v)
     \<and> uint (nTTL k) = st_ttl (ring_next (dEventTime (ev w)) e) + 1
     \<and> Packet_RoutingProtocol k = HdrRREQ (make_rreq dest (fnFindSequenceNumber v dest) (ifIP c)
          (nSequenceNumber v + 1) (nRREQId w + 1))
     \<and> nSubEventType e1 = AODVsubevent_RREQ_TIMEOUT \<and> szOtherDetails e1 = Some dest
     \<and> dEventTime e1 = st_dTimeoutTime (ring_next (dEventTime (ev w)) e)
     \<and> nEventType e2 = NETWORK_OUT_EVENT \<and> pPacket e2 = Some (next_pid w)"
proof -
  let ?d = "nDeviceId (ev w)" and ?now = "dEventTime (ev w)"
  let ?v1 = "rreqSeenTable_update (insert_seen (ifIP c) (nRREQId w + 1) ?now)
               (nSequenceNumber_update (\<lambda>n. n + 1) v)"
  obtain k where s: "start_rreq E dest w = Some (next_pid w,
      w\<lparr>next_pid := Suc (next_pid w), nRREQId := nRREQId w + 1,
        pkts := (pkts w)(next_pid w \<mapsto> k), devs := (devs w)(?d \<mapsto> ?v1)\<rparr>)"
    and k: "Packet_RoutingProtocol k = HdrRREQ (make_rreq dest (fnFindSequenceNumber v dest) (ifIP c)
          (nSequenceNumber v + 1) (nRREQId w + 1))"
    using start_rreq_total [OF assms(2,3)] by metis
  have f1: "fnFindSentTable ?v1 dest = Some i" and inv1: "dev_inv ?v1"
    using assms(4,5) by (simp_all add: fnFindSentTable_def dev_inv_def)
  have e1: "rreqSentTable ?v1 ! i = e" using assms(6) by simp
  note entry = retry_entry(1) [OF inv1 f1 e1, of ?now "st_times e"] retry_entry(2) [OF inv1 f1 e1, of ?now]
    retry_entry(3) [OF inv1 f1 e1, of ?now "st_times e"]
  have keep: "fifo (insert_sent a t x u) = fifo u" "aodvMetrics (insert_sent a t x u) = aodvMetrics u"
    for a t x u by (simp_all add: insert_sent_def Let_def split: option.splits)
  show ?thesis
    unfolding retry_rreq_due [OF assms(1,3,5,6,7,8)] resend_rreq_def s
    using entry assms(2) k
    by (simp add: Let_def world_ops fn_NetSim_AODV_AddTimeOut_def aodv_get_curr_if_def
        fn_NetSim_AODV_InterstInRREQSentTable_def rreq_timer_def add.assoc keep
        del: of_int_add)
       (rule exI, rule exI, rule conjI [OF refl], rule conjI [OF refl], simp add: keep)
qed

text \<open>
  a retry that is due and within the limit always goes through.  The entry of the
  destination moves to the next radius of the expanding ring and no other entry changes; a
  fresh request with that radius is handed to the network layer; and a timer is set for the
  moment recorded in the entry, two time units per hop beyond the radius.
\<close>

theorem retry_rreq_resends:
  assumes "szOtherDetails (ev w) = Some dest" and "aodvCurr w = Some c"
    and "devs w (nDeviceId (ev w)) = Some v" and "dev_inv v"
    and "fnFindSentTable v dest = Some i" and "rreqSentTable v ! i = e"
    and "st_dTimeoutTime e \<le> dEventTime (ev w)" and "st_times e \<le> AODV_RREQ_RETRIES"
  shows "\<exists>w' v' k. fn_NetSim_AODV_RetryRREQ E w = Some (1, w')
     \<and> devs w' (nDeviceId (ev w)) = Some v'
     \<and> rreqSentTable v' = (rreqSentTable v)[i := ring_next (dEventTime (ev w)) e]
     \<and> pkts w' (next_pid w) = Some k
     \<and> uint (nTTL k) = st_ttl (ring_next (dEventTime (ev w)) e) + 1
     \<and> (\<exists>rreq. Packet_RoutingProtocol k = HdrRREQ rreq \<and> rq_DestinationIPAddress rreq = dest
          \<and> rq_RREQID rreq = nRREQId w + 1 \<and> rq_OriginatorSequenceNumber rreq = nSequenceNumber v + 1)
     \<and> (\<exists>e1 e2. added w' = added w @ [e1, e2]
          \<and> nSubEventType e1 = AODVsubevent_RREQ_TIMEOUT \<and> szOtherDetails e1 = Some dest
          \<and> dEventTime e1 = st_dTimeoutTime (ring_next (dEventTime (ev w)) e)
          \<and> nEventType e2 = NETWORK_OUT_EVENT \<and> pPacket e2 = Some (next_pid w))"
  using retry_step [OF assms, of E] by (force simp: make_rreq_def)

definition demo_sent :: AODV_RREQ_SENT_TABLE where
  "demo_sent = \<lparr>st_DestAddress = demo_ip 3, st_ttl = 2, st_times = 1, st_dTimeoutTime = 1000\<rparr>"

theorem retry_rreq_resends_witness:
  "\<exists>w' v'. fn_NetSim_AODV_RetryRREQ demo_stack
       ((demo_world Map.empty ((demo_ev TIMER_EVENT 1 None)\<lparr>szOtherDetails := Some (demo_ip 3)\<rparr>))
         \<lparr>devs := [1 \<mapsto> zero_device_var\<lparr>rreqSentTable := [demo_sent]\<rparr>]\<rparr>) = Some (1, w')
     \<and> devs w' 1 = Some v' \<and> map st_ttl (rreqSentTable v') = [4]"
proof -
  let ?v = "zero_device_var\<lparr>rreqSentTable := [demo_sent]\<rparr>"
  let ?w = "(demo_world Map.empty ((demo_ev TIMER_EVENT 1 None)\<lparr>szOtherDetails := Some (demo_ip 3)\<rparr>))
              \<lparr>devs := [1 \<mapsto> ?v]\<rparr>"
  have inv: "dev_inv ?v"
    by (simp add: dev_inv_def zero_device_var_def demo_sent_def sent_unique_def sent_entry_ok_def
        routes_unique_def fifo_unique_def precursors_ok_def)
  have f: "fnFindSentTable ?v (demo_ip 3) = Some 0"
    by (simp add: fnFindSentTable_def demo_sent_def)
  show ?thesis
    using retry_rreq_resends [of ?w "demo_ip 3" "\<lparr>devId = 1, ifId = 1, ifIP = demo_ip 1\<rparr>" ?v 0
        demo_sent demo_stack, OF _ _ _ inv f]
    by (auto simp: demo_sent_def aodv_consts ring_next_def)
qed

lemma ring_next_ttl:
  "st_ttl (ring_next now e) = (if st_ttl e \<ge> 7 then 35 else min 7 (st_ttl e + 2))"
  by (auto simp: ring_next_def Let_def)

lemma ring_next_times: "st_times (ring_next now e) = st_times e + (if st_ttl e \<ge> 7 then 1 else 0)"
  by (auto simp: ring_next_def Let_def)

section \<open>Giving up\<close>

lemma empty_packets_total:
  assumes "distinct ps" and "set ps \<subseteq> dom (pkts w)" and "devs w (nDeviceId (ev w)) = Some v"
  shows "EmptyFIFO_packets ps w = Some (w\<lparr>pkts := (\<lambda>q. if q \<in> set ps then None else pkts w q),
     devs := (devs w)(nDeviceId (ev w) \<mapsto>
       aodvMetrics_update (packetDropped_update (\<lambda>n. n + of_nat (length ps))) v)\<rparr>)"
  using assms
proof (induction ps arbitrary: w v)
  case Nil
  have "aodvMetrics_update (packetDropped_update (\<lambda>n. n)) v = v" by (cases v) simp
  with Nil show ?case by (simp add: fun_upd_idem)
next
  case (Cons p ps)
  let ?d = "nDeviceId (ev w)"
  let ?w = "w\<lparr>pkts := (pkts w)(p := None),
      devs := (devs w)(?d \<mapsto> aodvMetrics_update (packetDropped_update (\<lambda>n. n + 1)) v)\<rparr>"
  obtain k where k: "pkts w p = Some k" using Cons.prems by auto
  have "EmptyFIFO_packets (p # ps) w = EmptyFIFO_packets ps ?w"
    using k Cons.prems by (simp add: world_ops)
  also have "\<dots> = Some (?w\<lparr>pkts := (\<lambda>q. if q \<in> set ps then None else pkts ?w q),
     devs := (devs ?w)(nDeviceId (ev ?w) \<mapsto>
       aodvMetrics_update (packetDropped_update (\<lambda>n. n + of_nat (length ps)))
         (aodvMetrics_update (packetDropped_update (\<lambda>n. n + 1)) v))\<rparr>)"
    by (rule Cons.IH) (use Cons.prems in auto)
  also have "\<dots> = Some (w\<lparr>pkts := (\<lambda>q. if q \<in> set (p # ps) then None else pkts w q),
     devs := (devs w)(?d \<mapsto>
       aodvMetrics_update (packetDropped_update (\<lambda>n. n + of_nat (length (p # ps)))) v)\<rparr>)"
    by (cases w, cases v) (auto simp: fun_eq_iff add.assoc o_def)
  finally show ?case .
qed

lemma find_fifo_first:
  "find_fifo fs dest = map_option (\<lambda>i. fs ! i) (first_idx (\<lambda>f. same_ip (ff_destination f) dest) fs)"
  by (simp add: first_idx_find find_fifo_find same_ip_canon)

text \<open>
  A discovery that has used up its retries is abandoned as a whole.
\<close>

lemma give_up_step:
  assumes "szOtherDetails (ev w) = Some dest" and "devs w (nDeviceId (ev w)) = Some v"
    and "dev_inv v" and "fnFindSentTable v dest = Some i" and "rreqSentTable v ! i = e"
    and "st_dTimeoutTime e \<le> dEventTime (ev w)" and "st_times e > AODV_RREQ_RETRIES"
    and "distinct (buffered (fifo v) dest)" and "set (buffered (fifo v) dest) \<subseteq> dom (pkts w)"
  shows "\<exists>w' v'. fn_NetSim_AODV_RetryRREQ E w = Some (1, w')
     \<and> devs w' (nDeviceId (ev w)) = Some v'
     \<and> (\<forall>a. find_sent (rreqSentTable v') a = (if same_ip a dest then None else find_sent (rreqSentTable v) a))
     \<and> (\<forall>a. buffered (fifo v') a = (if same_ip a dest then [] else buffered (fifo v) a))
     \<and> pkts w' = (\<lambda>q. if q \<in> set (buffered (fifo v) dest) then None else pkts w q)
     \<and> packetDropped (aodvMetrics v')
         = packetDropped (aodvMetrics v) + of_nat (length (buffered (fifo v) dest))
     \<and> added w' = added w \<and> ev w' = ev w"
proof -
  let ?d = "nDeviceId (ev w)" and ?b = "buffered (fifo v) dest"
  let ?v1 = "fnDeleteRREQSentTable i v"
  let ?w1 = "w\<lparr>devs := (devs w)(?d \<mapsto> ?v1)\<rparr>"
  have i: "i < length (rreqSentTable v)" and dest: "same_ip (st_DestAddress (rreqSentTable v ! i)) dest"
    using sent_entry_found [OF assms(3,4)] by auto
  have sent: "find_sent (rreqSentTable ?v1) a = (if same_ip a dest then None else find_sent (rreqSentTable v) a)"
    for a
    using st.table_map_remove [of "rreqSentTable v" i] i dest assms(3)
    by (simp add: fnDeleteRREQSentTable_def st.search_table_map dev_inv_def sent_unique_cells same_ip_canon)
  have run: "fn_NetSim_AODV_RetryRREQ E w = map_option (Pair 1) (fnEmptyFIFOBuffer ?d dest ?w1)"
    using assms(1,2,4-7)
    by (cases "fnEmptyFIFOBuffer ?d dest ?w1")
       (simp_all add: fn_NetSim_AODV_RetryRREQ_def Let_def world_ops)
  show ?thesis
  proof (cases "first_idx (\<lambda>f. same_ip (ff_destination f) dest) (fifo v)")
    case None
    then have "find_fifo (fifo v) dest = None" by (simp add: find_fifo_first)
    moreover have "find_fifo (fifo v) a = None" if "same_ip a dest" for a
      using calculation that by (simp add: find_fifo_find same_ip_canon)
    ultimately have "buffered (fifo v) dest = []"
      and "buffered (fifo v) a = (if same_ip a dest then [] else buffered (fifo v) a)" for a
      by (simp_all add: buffered_def)
    with None run sent show ?thesis
      by (simp add: fnEmptyFIFOBuffer_def world_ops fnDeleteRREQSentTable_def)
  next
    case (Some j)
    from first_idx_SomeD [OF Some] have j: "j < length (fifo v)"
      and jd: "same_ip (ff_destination (fifo v ! j)) dest" by auto
    have b: "ff_packetList (fifo v ! j) = ?b" by (simp add: buffered_def find_fifo_first Some)
    have fifo: "buffered (remove_nth j (fifo v)) a = (if same_ip a dest then [] else buffered (fifo v) a)" for a
      using ff.table_map_remove [of "fifo v" j] j jd assms(3)
      by (simp add: buffered_def ff.search_table_map dev_inv_def fifo_unique_cells same_ip_canon)
    have e: "EmptyFIFO_packets ?b ?w1 = Some (?w1\<lparr>pkts := (\<lambda>q. if q \<in> set ?b then None else pkts ?w1 q),
        devs := (devs ?w1)(?d \<mapsto>
          aodvMetrics_update (packetDropped_update (\<lambda>n. n + of_nat (length ?b))) ?v1)\<rparr>)"
      using empty_packets_total [of ?b ?w1 ?v1] assms(8,9) by simp
    show ?thesis
      using Some run sent fifo e b
      by (simp add: fnEmptyFIFOBuffer_def world_ops fnDeleteRREQSentTable_def fun_eq_iff)
  qed
qed

section \<open>A discovery ends\<close>

text \<open>
  The kernel fires the timer of the request for \<open>dest\<close> at the time recorded in its entry; \<open>n\<close>
  such timers in a row, as long as there is an entry.
\<close>

definition fire_timer :: "NETSIM_STACK \<Rightarrow> NETSIM_IPAddress \<Rightarrow> AODV_WORLD \<Rightarrow> AODV_WORLD option" where
  "fire_timer E dest w = do {
     v \<leftarrow> devs w (nDeviceId (ev w));
     e \<leftarrow> find_sent (rreqSentTable v) dest;
     map_option snd (fn_NetSim_AODV_RetryRREQ E
       (w\<lparr>ev := (ev w)\<lparr>dEventTime := st_dTimeoutTime e, szOtherDetails := Some dest\<rparr>\<rparr>)) }"

fun fire_timers :: "NETSIM_STACK \<Rightarrow> NETSIM_IPAddress \<Rightarrow> nat \<Rightarrow> AODV_WORLD \<Rightarrow> AODV_WORLD option" where
  "fire_timers E dest 0 w = Some w"
| "fire_timers E dest (Suc n) w = Option.bind (fire_timer E dest w) (fire_timers E dest n)"

text \<open>How many retries an entry has left.\<close>

definition retries_left :: "AODV_RREQ_SENT_TABLE \<Rightarrow> nat" where
  "retries_left e = nat (3 - st_times e) + (if st_ttl e \<ge> 7 then 0 else nat ((8 - st_ttl e) div 2))"

lemma retries_left_next:
  "sent_entry_ok e \<Longrightarrow> st_times e \<le> 2 \<Longrightarrow> retries_left e = Suc (retries_left (ring_next t e))"
  by (auto simp: sent_entry_ok_def retries_left_def ring_next_def Let_def aodv_consts)

lemma retries_left_bound: "sent_entry_ok e \<Longrightarrow> retries_left e \<le> 5"
  by (auto simp: sent_entry_ok_def retries_left_def aodv_consts)

lemma find_sent_update:
  assumes "dev_inv v" and "fnFindSentTable v dest = Some i" and "rreqSentTable v ! i = e"
  shows "find_sent ((rreqSentTable v)[i := ring_next t e]) dest = Some (ring_next t e)"
proof -
  have i: "i < length (rreqSentTable v)" "same_ip (st_DestAddress e) dest"
    using sent_entry_found [OF assms(1,2)] assms(3) by auto
  have f: "first_idx (\<lambda>t. same_ip (st_DestAddress t) dest) (rreqSentTable v) = Some i"
    using assms(2) by (simp add: fnFindSentTable_def)
  have "st_DestAddress (ring_next t e) = st_DestAddress e" by (simp add: ring_next_def Let_def)
  then have "first_idx (\<lambda>t. same_ip (st_DestAddress t) dest) ((rreqSentTable v)[i := ring_next t e]) = Some i"
    using first_idx_list_update [OF f] i by simp
  then show ?thesis
    using i(1) by (auto dest!: first_idx_find_Some simp: find_sent_find same_ip_canon)
qed

lemma fire_timers_give_up:
  assumes "devs_ok (\<lambda>d. dev_inv) w" and "devs w (nDeviceId (ev w)) = Some v" and "aodvCurr w = Some c"
    and "find_sent (rreqSentTable v) dest = Some e" and "retries_left e = n"
    and "distinct (buffered (fifo v) dest)" and "set (buffered (fifo v) dest) \<subseteq> dom (pkts w)"
  shows "\<exists>w' v'. fire_timers E dest (Suc n) w = Some w' \<and> devs w' (nDeviceId (ev w)) = Some v'
     \<and> find_sent (rreqSentTable v') dest = None \<and> buffered (fifo v') dest = []
     \<and> (\<forall>p \<in> set (buffered (fifo v) dest). pkts w' p = None)
     \<and> packetDropped (aodvMetrics v')
         = packetDropped (aodvMetrics v) + of_nat (length (buffered (fifo v) dest))"
  using assms
proof (induction n arbitrary: w v e)
  case 0
  let ?w = "w\<lparr>ev := (ev w)\<lparr>dEventTime := st_dTimeoutTime e, szOtherDetails := Some dest\<rparr>\<rparr>"
  obtain i where i: "fnFindSentTable v dest = Some i" "rreqSentTable v ! i = e"
    using 0(4) fnFindSentTable_find_sent [of v dest] by auto
  have inv: "dev_inv v" using 0(1,2) by (auto simp: all_devs_def)
  have "st_times e > AODV_RREQ_RETRIES"
    using 0(5) by (simp add: retries_left_def aodv_consts)
  then show ?case
    using give_up_step [of ?w dest v i e E] 0 i inv by (auto simp: fire_timer_def)
next
  case (Suc n)
  let ?w = "w\<lparr>ev := (ev w)\<lparr>dEventTime := st_dTimeoutTime e, szOtherDetails := Some dest\<rparr>\<rparr>"
  obtain i where i: "fnFindSentTable v dest = Some i" "rreqSentTable v ! i = e"
    using Suc.prems(4) fnFindSentTable_find_sent [of v dest] by auto
  have inv: "dev_inv v" using Suc.prems(1,2) by (auto simp: all_devs_def)
  have e: "sent_entry_ok e" using sent_entry_found(2) [OF inv i(1)] i(2) by simp
  with Suc.prems(5) have t: "st_times e \<le> AODV_RREQ_RETRIES"
    by (auto simp: sent_entry_ok_def retries_left_def aodv_consts)
  obtain w' k v' where r: "fn_NetSim_AODV_RetryRREQ E ?w = Some (1, w')"
    and w': "devs w' = (devs w)(nDeviceId (ev w) \<mapsto> v')" "pkts w' = (pkts w)(next_pid w \<mapsto> k)"
      "aodvCurr w' = Some c" "nDeviceId (ev w') = nDeviceId (ev w)"
    and v': "rreqSentTable v' = (rreqSentTable v)[i := ring_next (st_dTimeoutTime e) e]" "fifo v' = fifo v"
      "packetDropped (aodvMetrics v') = packetDropped (aodvMetrics v)"
    using retry_step [of ?w dest c v i e E] Suc.prems i inv t by auto
  have "devs_ok (\<lambda>d. dev_inv) ?w" using Suc.prems(1) by (simp add: all_devs_def)
  then have inv': "devs_ok (\<lambda>d. dev_inv) w'" using tables.retry_rreq_ok [OF r] by blast
  have "\<exists>u u'. fire_timers E dest (Suc n) w' = Some u \<and> devs u (nDeviceId (ev w')) = Some u'
     \<and> find_sent (rreqSentTable u') dest = None \<and> buffered (fifo u') dest = []
     \<and> (\<forall>p \<in> set (buffered (fifo v') dest). pkts u p = None)
     \<and> packetDropped (aodvMetrics u')
         = packetDropped (aodvMetrics v') + of_nat (length (buffered (fifo v') dest))"
  proof (rule Suc.IH [OF inv' _ w'(3)])
    show "find_sent (rreqSentTable v') dest = Some (ring_next (st_dTimeoutTime e) e)"
      using find_sent_update [OF inv i] v' by simp
    show "retries_left (ring_next (st_dTimeoutTime e) e) = n"
      using retries_left_next [OF e, of "st_dTimeoutTime e"] t Suc.prems(5) by (simp add: aodv_consts)
  qed (use w' v' Suc.prems in auto)
  moreover have "fire_timer E dest w = Some w'"
    using r Suc.prems(2,4) by (simp add: fire_timer_def)
  ultimately show ?case
    using w' v' by (simp del: fire_timers.simps add: fire_timers.simps(2) [of _ _ "Suc n"])
qed

text \<open>
  C31: a discovery that is never answered ends.  From any state the protocol can reach, at most
  six expiries of the request's timer, each at the time the code has set, remove the entry of
  the destination: the radius runs through the expanding ring, the retries are used up, and then
  the queue of packets waiting for the destination is gone, each of them freed and counted as
  dropped.
\<close>

theorem discovery_ends:
  assumes "devs_ok (\<lambda>d. dev_inv) w" and "devs w (nDeviceId (ev w)) = Some v" and "aodvCurr w = Some c"
    and "find_sent (rreqSentTable v) dest = Some e"
    and "distinct (buffered (fifo v) dest)" and "set (buffered (fifo v) dest) \<subseteq> dom (pkts w)"
  shows "\<exists>n w' v'. n \<le> 6 \<and> fire_timers E dest n w = Some w' \<and> devs w' (nDeviceId (ev w)) = Some v'
     \<and> find_sent (rreqSentTable v') dest = None \<and> buffered (fifo v') dest = []
     \<and> (\<forall>p \<in> set (buffered (fifo v) dest). pkts w' p = None)
     \<and> packetDropped (aodvMetrics v')
         = packetDropped (aodvMetrics v) + of_nat (length (buffered (fifo v) dest))"
proof -
  obtain i where i: "fnFindSentTable v dest = Some i" "rreqSentTable v ! i = e"
    using assms(4) fnFindSentTable_find_sent [of v dest] by auto
  have "dev_inv v" using assms(1,2) by (auto simp: all_devs_def)
  then have "retries_left e \<le> 5" using sent_entry_found(2) i retries_left_bound by blast
  with fire_timers_give_up [OF assms(1-4) refl assms(5,6), of E] show ?thesis
    by (intro exI [of _ "Suc (retries_left e)"]) auto
qed

theorem discovery_ends_witness:
  "\<exists>n w' v'. n \<le> 6 \<and> fire_timers demo_stack (demo_ip 3) n
       ((demo_world [5 \<mapsto> demo_pkt] (demo_ev TIMER_EVENT 1 None))
         \<lparr>devs := [1 \<mapsto> zero_device_var
            \<lparr>fifo := [\<lparr>ff_destination = demo_ip 3, ff_packetList = [5], ff_time = 0\<rparr>],
             rreqSentTable := [demo_sent]\<rparr>]\<rparr>) = Some w'
     \<and> devs w' 1 = Some v' \<and> find_sent (rreqSentTable v') (demo_ip 3) = None \<and> pkts w' 5 = None"
proof -
  let ?f = "\<lparr>ff_destination = demo_ip 3, ff_packetList = [5], ff_time = 0\<rparr>"
  let ?v = "zero_device_var\<lparr>fifo := [?f], rreqSentTable := [demo_sent]\<rparr>"
  let ?w = "(demo_world [5 \<mapsto> demo_pkt] (demo_ev TIMER_EVENT 1 None))\<lparr>devs := [1 \<mapsto> ?v]\<rparr>"
  have "dev_inv ?v"
    by (simp add: dev_inv_def zero_device_var_def demo_sent_def sent_unique_def sent_entry_ok_def
        routes_unique_def fifo_unique_def precursors_ok_def)
  then have inv: "devs_ok (\<lambda>d. dev_inv) ?w" by (simp add: all_devs_def)
  have b: "buffered [?f] (demo_ip 3) = [5]" by (simp add: buffered_def)
  have f: "find_sent [demo_sent] (demo_ip 3) = Some demo_sent"
    by (simp add: find_sent_find demo_sent_def)
  show ?thesis
    using discovery_ends [OF inv, of ?v "\<lparr>devId = 1, ifId = 1, ifIP = demo_ip 1\<rparr>" "demo_ip 3"
        demo_sent demo_stack] f b by auto
qed

text \<open>
  A timer whose discovery has been answered, or that a newer request has overtaken, has
  no effect at all.
\<close>

theorem retry_rreq_stale:
  assumes "szOtherDetails (ev w) = Some dest" and "devs w (nDeviceId (ev w)) = Some v"
    and "case find_sent (rreqSentTable v) dest of None \<Rightarrow> True
         | Some e \<Rightarrow> dEventTime (ev w) < st_dTimeoutTime e"
  shows "fn_NetSim_AODV_RetryRREQ E w = Some (0, w)"
  using assms fnFindSentTable_find_sent [of v dest]
  by (auto simp: fn_NetSim_AODV_RetryRREQ_def AODV_DEV_VAR_def Let_def split: option.splits)

theorem retry_rreq_stale_witness:
  "\<exists>w. szOtherDetails (ev w) = Some (demo_ip 3) \<and> fn_NetSim_AODV_RetryRREQ demo_stack w = Some (0, w)"
  using retry_rreq_stale
    [of "demo_world Map.empty ((demo_ev TIMER_EVENT 1 None)\<lparr>szOtherDetails := Some (demo_ip 3)\<rparr>)"
        "demo_ip 3" zero_device_var demo_stack]
  by (intro exI [of _ "demo_world Map.empty ((demo_ev TIMER_EVENT 1 None)\<lparr>szOtherDetails := Some (demo_ip 3)\<rparr>)"])
     (simp add: zero_device_var_def)

end
