(* ===== verification/Aodv_Data.thy ===== *)
theory Aodv_Data
  imports Aodv_Discovery
begin

text \<open>
The data path: the packet buffer keeps one first-in first-out queue per destination and
  hands over exactly the packets whose destination has become reachable; a data packet
  leaves at once if there is a live route and is buffered otherwise.
\<close>

section \<open>The packet buffer\<close>

text \<open>
  Buffering a packet appends it to the queue of its destination and of no other, keeps
  one queue per destination, and reports whether a packet was already waiting, which is
  what decides that no second discovery is started.
\<close>

theorem add_to_fifo_spec:
  assumes "pkts w p = Some k" and "devs w d = Some v" and "fifo_unique (fifo v)"
  shows "\<exists>w' v'. fn_NetSim_AODV_AddToFIFOBuffer p d t w
             = Some (buffered (fifo v) (szDestIP k) \<noteq> [], w')
     \<and> devs w' = (devs w)(d \<mapsto> v') \<and> fifo_unique (fifo v')
     \<and> (\<forall>a. buffered (fifo v') a
            = (if same_ip a (szDestIP k) then buffered (fifo v) (szDestIP k) @ [p] else buffered (fifo v) a))
     \<and> pkts w' = pkts w \<and> added w' = added w"
proof -
  obtain b fs where l: "AddToFIFO_loop (szDestIP k) p t (fifo v) = (b, fs)" by fastforce
  show ?thesis
    using assms l add_loop_unique [OF assms(3), of "szDestIP k" p t] add_loop_result [of "szDestIP k" p t "fifo v"]
      add_loop_buffered [of "szDestIP k" p t "fifo v"]
    by (intro exI [of _ "w\<lparr>devs := (devs w)(d \<mapsto> v\<lparr>fifo := fs\<rparr>)\<rparr>"] exI [of _ "v\<lparr>fifo := fs\<rparr>"])
       (simp add: fn_NetSim_AODV_AddToFIFOBuffer_def world_ops)
qed

theorem add_to_fifo_spec_witness:
  "\<exists>w' v'. fn_NetSim_AODV_AddToFIFOBuffer 1 1 0
        (demo_world [1 \<mapsto> demo_pkt] (demo_ev NETWORK_OUT_EVENT 1 (Some 1))) = Some (False, w')
     \<and> devs w' 1 = Some v' \<and> buffered (fifo v') (demo_ip 3) = [1]"
proof -
  let ?w = "demo_world [1 \<mapsto> demo_pkt] (demo_ev NETWORK_OUT_EVENT 1 (Some 1))"
  have "szDestIP demo_pkt = demo_ip 3" by (simp add: demo_pkt_def)
  then show ?thesis
    using add_to_fifo_spec [of ?w 1 demo_pkt 1 zero_device_var 0]
    by (auto simp: zero_device_var_def fifo_unique_def buffered_def)
qed

lemma transmit_packets_events:
  "set ps \<subseteq> dom (pkts w) \<Longrightarrow>
     \<exists>pe' es. TransmitFIFO_packets E d ps pe w = Some (pe', w\<lparr>added := added w @ es\<rparr>)
       \<and> map pPacket es = map Some ps
       \<and> (\<forall>e \<in> set es. nEventType e = NETWORK_OUT_EVENT \<and> dEventTime e = dEventTime pe
            \<and> nDeviceId e = nDeviceId pe)
       \<and> dEventTime pe' = dEventTime pe \<and> nDeviceId pe' = nDeviceId pe"
proof (induction ps arbitrary: pe w)
  case Nil
  then show ?case by simp
next
  case (Cons p ps)
  obtain k where k: "pkts w p = Some k" using Cons.prems by auto
  let ?pe = "transmit_event E d p k pe"
  have s: "set ps \<subseteq> dom (pkts (fnpAddEvent ?pe w))" using Cons.prems by (simp add: fnpAddEvent_def)
  from Cons.IH [OF s, of ?pe] obtain pe' es where
    r: "TransmitFIFO_packets E d ps ?pe (fnpAddEvent ?pe w)
          = Some (pe', (fnpAddEvent ?pe w)\<lparr>added := added (fnpAddEvent ?pe w) @ es\<rparr>)"
      "map pPacket es = map Some ps"
      "\<forall>e \<in> set es. nEventType e = NETWORK_OUT_EVENT \<and> dEventTime e = dEventTime ?pe
            \<and> nDeviceId e = nDeviceId ?pe"
      "dEventTime pe' = dEventTime ?pe" "nDeviceId pe' = nDeviceId ?pe" by blast
  then show ?case
    using k by (intro exI [of _ pe'] exI [of _ "?pe # es"])
      (simp add: get_pkt_def Let_def fnpAddEvent_def transmit_event_def)
qed

text \<open>The queues that are flushed, in buffer order.\<close>

definition routed_packets :: "AODV_DEVICE_VAR \<Rightarrow> simtime \<Rightarrow> pid list" where
  "routed_packets v now =
     concat (map ff_packetList
       (filter (\<lambda>f. fn_NetSim_AODV_CheckRouteFound (ff_destination f) v now) (fifo v)))"

lemma transmit_loop_events:
  "set (concat (map ff_packetList fs)) \<subseteq> dom (pkts w) \<Longrightarrow>
     \<exists>es. TransmitFIFO_loop E d v fs pe w =
         Some (map (\<lambda>f. if fn_NetSim_AODV_CheckRouteFound (ff_destination f) v (dEventTime (ev w))
                        then f\<lparr>ff_packetList := []\<rparr> else f) fs, w\<lparr>added := added w @ es\<rparr>)
       \<and> map pPacket es = map Some (concat (map ff_packetList
           (filter (\<lambda>f. fn_NetSim_AODV_CheckRouteFound (ff_destination f) v (dEventTime (ev w))) fs)))
       \<and> (\<forall>e \<in> set es. nEventType e = NETWORK_OUT_EVENT \<and> dEventTime e = dEventTime pe
            \<and> nDeviceId e = nDeviceId pe)"
proof (induction fs arbitrary: pe w)
  case Nil
  then show ?case by simp
next
  case (Cons f fs)
  show ?case
  proof (cases "fn_NetSim_AODV_CheckRouteFound (ff_destination f) v (dEventTime (ev w))")
    case False
    have s: "set (concat (map ff_packetList fs)) \<subseteq> dom (pkts w)" using Cons.prems by simp
    from Cons.IH [OF s, of pe] False show ?thesis by auto
  next
    case True
    from transmit_packets_events [of "ff_packetList f" w E d pe] Cons.prems
    obtain pe' es where 1: "TransmitFIFO_packets E d (ff_packetList f) pe w
           = Some (pe', w\<lparr>added := added w @ es\<rparr>)"
       "map pPacket es = map Some (ff_packetList f)"
       "\<forall>e \<in> set es. nEventType e = NETWORK_OUT_EVENT \<and> dEventTime e = dEventTime pe
            \<and> nDeviceId e = nDeviceId pe"
       "dEventTime pe' = dEventTime pe" "nDeviceId pe' = nDeviceId pe" by auto
    have s: "set (concat (map ff_packetList fs)) \<subseteq> dom (pkts (w\<lparr>added := added w @ es\<rparr>))"
      using Cons.prems by simp
    from Cons.IH [OF s, of pe'] 1 True show ?thesis
      by (fastforce simp: ball_Un)
  qed
qed

text \<open>
  when routes appear, every buffered packet whose destination has a route is handed to
  the network layer exactly once, in buffer order, as an event of this device at the
  current time; those queues become empty and the packets without a route stay where they
  are.
\<close>

theorem transmit_fifo_spec:
  assumes "devs w (nDeviceId (ev w)) = Some v" and "set (all_buffered (fifo v)) \<subseteq> dom (pkts w)"
  shows "\<exists>w' es v'. fn_NetSim_AODV_TransmitFIFOBuffer E w = Some w'
     \<and> added w' = added w @ es \<and> map pPacket es = map Some (routed_packets v (dEventTime (ev w)))
     \<and> (\<forall>e \<in> set es. nEventType e = NETWORK_OUT_EVENT \<and> dEventTime e = dEventTime (ev w)
          \<and> nDeviceId e = nDeviceId (ev w))
     \<and> devs w' (nDeviceId (ev w)) = Some v' \<and> pkts w' = pkts w
     \<and> fifo v' = map (\<lambda>f. if fn_NetSim_AODV_CheckRouteFound (ff_destination f) v (dEventTime (ev w))
                          then f\<lparr>ff_packetList := []\<rparr> else f) (fifo v)"
proof -
  have s: "set (concat (map ff_packetList (fifo v))) \<subseteq> dom (pkts w)"
    using assms(2) by (simp add: all_buffered_def)
  from transmit_loop_events [OF s, of E "nDeviceId (ev w)" v "ev w"] show ?thesis
    using assms(1)
    by (auto simp: fn_NetSim_AODV_TransmitFIFOBuffer_def Let_def AODV_DEV_VAR_def upd_dev_def
        routed_packets_def)
qed

theorem transmit_fifo_spec_witness:
  "\<exists>w'. fn_NetSim_AODV_TransmitFIFOBuffer demo_stack
     ((demo_world [5 \<mapsto> demo_pkt, 6 \<mapsto> demo_pkt] (demo_ev NETWORK_IN_EVENT 1 None))
       \<lparr>devs := [1 \<mapsto> zero_device_var
          \<lparr>fifo := [\<lparr>ff_destination = demo_ip 3, ff_packetList = [6, 5], ff_time = 0\<rparr>],
           routeTable := [alloc_entry (demo_ip 3) (demo_ip 2) 0]\<rparr>]\<rparr>) = Some w'
     \<and> map pPacket (added w') = [Some 6, Some 5]"
proof -
  let ?v = "zero_device_var
          \<lparr>fifo := [\<lparr>ff_destination = demo_ip 3, ff_packetList = [6, 5], ff_time = 0\<rparr>],
           routeTable := [alloc_entry (demo_ip 3) (demo_ip 2) 0]\<rparr>"
  let ?w = "(demo_world [5 \<mapsto> demo_pkt, 6 \<mapsto> demo_pkt] (demo_ev NETWORK_IN_EVENT 1 None))
       \<lparr>devs := [1 \<mapsto> ?v]\<rparr>"
  have r: "routed_packets ?v 1000 = [6, 5]"
    by (simp add: routed_packets_def fn_NetSim_AODV_CheckRouteFound_def aodv_consts)
  show ?thesis
    using transmit_fifo_spec [of ?w ?v demo_stack] r
    by (auto simp: all_buffered_def)
qed

section \<open>The data path\<close>

lemma CheckRouteFound_find:
  "routes_unique ts \<Longrightarrow> CheckRouteFound_loop ts a now \<longleftrightarrow>
     (\<exists>t. fnFindRouteTable ts a = Some t \<and> now < rt_Lifetime t)"
  by (induction ts) (auto simp: routes_unique_def CheckRouteFound_ex same_ip_canon image_iff)

text \<open>
  a data packet for a destination with a live route leaves at once: it is addressed to
  the recorded next hop with the full TTL, it is marked for drop notification, the routes
  through and to its destination live at least for another active-route timeout, and the
  counters advance; nothing is buffered and no request is sent.
\<close>

theorem data_with_route:
  assumes "pPacket (ev w) = Some p" and "pkts w p = Some k" and "aodvCurr w = Some c"
    and "devs w (nDeviceId (ev w)) = Some v" and "routes_unique (routeTable v)"
    and "fnFindRouteTable (routeTable v) (szDestIP k) = Some t" and "dEventTime (ev w) < rt_Lifetime t"
  shows "\<exists>w' v'. fn_NetSim_AODV_GeneralPacketProcessing E w = Some w'
     \<and> devs w' (nDeviceId (ev w)) = Some v'
     \<and> pkts w' = (pkts w)(p \<mapsto>
          k\<lparr>szGatewayIP := Some (ifIP c), nTransmitterId := nDeviceId (ev w),
            nReceiverId := GetDeviceId_asIP E (rt_NextHop t), szNextHopIp := Some (rt_NextHop t),
            nTTL := 35, DropNotification := DropAODV\<rparr>)
     \<and> routeTable v' = map (\<lambda>r. if same_ip (rt_NextHop r) (szDestIP k)
            \<or> same_ip (rt_DestinationIPAddress r) (szDestIP k)
          then r\<lparr>rt_Lifetime := max (rt_Lifetime r) (dEventTime (ev w) + AODV_ACTIVE_ROUTE_TIMEOUT)\<rparr>
          else r) (routeTable v)
     \<and> fifo v' = fifo v \<and> rreqSentTable v' = rreqSentTable v
     \<and> packetTransmitted (aodvMetrics v') = packetTransmitted (aodvMetrics v) + 1
     \<and> packetOrginated (aodvMetrics v') = packetOrginated (aodvMetrics v)
          + (if nSourceId k = nDeviceId (ev w) then 1 else 0)
     \<and> added w' = added w \<and> ev w' = ev w"
proof -
  have "fn_NetSim_AODV_CheckRouteFound (szDestIP k) v (dEventTime (ev w))"
    using assms(5-7) by (auto simp: fn_NetSim_AODV_CheckRouteFound_def CheckRouteFound_find)
  moreover have "fn_NetSim_AODV_FindNextHop v (szDestIP k) = Some (rt_NextHop t)"
    using assms(6) by (simp add: fn_NetSim_AODV_FindNextHop_def FindNextHop_find)
  ultimately show ?thesis
    using assms(1-4)
    by (simp add: fn_NetSim_AODV_GeneralPacketProcessing_def world_ops Let_def aodv_get_curr_ip_def
        fn_NetSim_AODV_UpdateRouteTable_def AODV_NET_DIAMETER_def touch_entry_def)
qed

theorem data_with_route_witness:
  "\<exists>w' k'. fn_NetSim_AODV_GeneralPacketProcessing demo_stack
     ((demo_world [1 \<mapsto> demo_pkt] (demo_ev NETWORK_OUT_EVENT 1 (Some 1)))
       \<lparr>devs := [1 \<mapsto> zero_device_var\<lparr>routeTable := [alloc_entry (demo_ip 3) (demo_ip 2) 0]\<rparr>]\<rparr>) = Some w'
     \<and> pkts w' 1 = Some k' \<and> szNextHopIp k' = Some (demo_ip 2) \<and> added w' = []"
proof -
  let ?t = "alloc_entry (demo_ip 3) (demo_ip 2) 0"
  let ?v = "zero_device_var\<lparr>routeTable := [?t]\<rparr>"
  let ?w = "(demo_world [1 \<mapsto> demo_pkt] (demo_ev NETWORK_OUT_EVENT 1 (Some 1)))\<lparr>devs := [1 \<mapsto> ?v]\<rparr>"
  have "szDestIP demo_pkt = demo_ip 3" by (simp add: demo_pkt_def)
  then show ?thesis
    using data_with_route [of ?w 1 demo_pkt "\<lparr>devId = 1, ifId = 1, ifIP = demo_ip 1\<rparr>" ?v ?t demo_stack]
    by (auto simp: routes_unique_def aodv_consts)
qed

lemma timeout_positive: "0 \<le> ttl + 1 \<Longrightarrow> 0 < fnGetTimeoutTime ttl 1"
proof -
  assume "0 \<le> ttl + 1"
  then have "(0 :: real) < of_int (ttl + 2)" by linarith
  then show ?thesis by (simp add: fnGetTimeoutTime_def aodv_consts)
qed

lemma generate_rreq_total:
  assumes "aodvCurr w = Some c" and "devs w (nDeviceId (ev w)) = Some v"
    and "pPacket (ev w) = Some p0" and "pkts w p0 = Some k0"
  shows "\<exists>k v' time. fn_NetSim_AODV_GenerateRREQ E w = Some (next_pid w,
       w\<lparr>next_pid := Suc (next_pid w), nRREQId := nRREQId w + 1,
         pkts := (pkts w)(next_pid w \<mapsto> k), devs := (devs w)(nDeviceId (ev w) \<mapsto> v'),
         added := added w @ [rreq_timer (szDestIP k0) time (ifId c) (ev w)]\<rparr>)
     \<and> (\<exists>rreq. Packet_RoutingProtocol k = HdrRREQ rreq \<and> rq_DestinationIPAddress rreq = szDestIP k0
          \<and> rq_RREQID rreq = nRREQId w + 1)
     \<and> routeTable v' = routeTable v \<and> fifo v' = fifo v \<and> 0 < time"
proof -
  let ?d = "nDeviceId (ev w)" and ?dest = "szDestIP k0"
  let ?v1 = "rreqSeenTable_update (insert_seen (ifIP c) (nRREQId w + 1) (dEventTime (ev w)))
               (nSequenceNumber_update (\<lambda>n. n + 1) v)"
  let ?ttl = "word_of_int (fnIncreaseTTL ?v1 ?dest + 1) + 1 :: u8"
  let ?time = "fnGetTimeoutTime (uint ?ttl - 1) 1"
  let ?v2 = "aodvMetrics_update (rreqSent_update (\<lambda>n. n + 1))
               (insert_sent ?dest (uint ?ttl - 1) (dEventTime (ev w) + ?time) ?v1)"
  obtain k where s: "start_rreq E ?dest w = Some (next_pid w,
      w\<lparr>next_pid := Suc (next_pid w), nRREQId := nRREQId w + 1,
        pkts := (pkts w)(next_pid w \<mapsto> k), devs := (devs w)(?d \<mapsto> ?v1)\<rparr>)"
    and k: "Packet_RoutingProtocol k = HdrRREQ (make_rreq ?dest (fnFindSequenceNumber v ?dest) (ifIP c)
          (nSequenceNumber v + 1) (nRREQId w + 1))"
    using start_rreq_total [OF assms(1,2)] by metis
  have "fn_NetSim_AODV_GenerateRREQ E w = Some (next_pid w,
       w\<lparr>next_pid := Suc (next_pid w), nRREQId := nRREQId w + 1,
         pkts := (pkts w)(next_pid w \<mapsto> k\<lparr>nTTL := ?ttl\<rparr>), devs := (devs w)(?d \<mapsto> ?v2),
         added := added w @ [rreq_timer ?dest ?time (ifId c) (ev w)]\<rparr>)"
    using assms s
    by (simp add: fn_NetSim_AODV_GenerateRREQ_def Let_def world_ops fn_NetSim_AODV_AddTimeOut_def
        aodv_get_curr_if_def fn_NetSim_AODV_InterstInRREQSentTable_def rreq_timer_def)
  moreover have "0 < ?time" by (rule timeout_positive) simp
  ultimately show ?thesis
    using k by (intro exI [of _ "k\<lparr>nTTL := ?ttl\<rparr>"] exI [of _ ?v2] exI [of _ ?time])
      (simp add: make_rreq_def)
qed

text \<open>
  a data packet without a live route is never lost at the network layer: it joins the
  queue of its destination, and the event goes on with no packet if others were waiting
  already, else with a new route request whose timer is running.
\<close>

theorem data_without_route:
  assumes "pPacket (ev w) = Some p" and "pkts w p = Some k" and "aodvCurr w = Some c"
    and "devs w (nDeviceId (ev w)) = Some v" and "fifo_unique (fifo v)"
    and "\<not> fn_NetSim_AODV_CheckRouteFound (szDestIP k) v (dEventTime (ev w))"
    and "p \<noteq> next_pid w"
  shows "\<exists>w' v'. fn_NetSim_AODV_GeneralPacketProcessing E w = Some w'
     \<and> devs w' (nDeviceId (ev w)) = Some v' \<and> routeTable v' = routeTable v
     \<and> (\<forall>a. buffered (fifo v') a
            = (if same_ip a (szDestIP k) then buffered (fifo v) (szDestIP k) @ [p] else buffered (fifo v) a))
     \<and> pkts w' p = Some (k\<lparr>szGatewayIP := Some (ifIP c)\<rparr>)
     \<and> (if buffered (fifo v) (szDestIP k) \<noteq> []
        then pPacket (ev w') = None \<and> added w' = added w \<and> next_pid w' = next_pid w
        else pPacket (ev w') = Some (next_pid w)
          \<and> (\<exists>rreq e. map_option Packet_RoutingProtocol (pkts w' (next_pid w)) = Some (HdrRREQ rreq)
               \<and> rq_DestinationIPAddress rreq = szDestIP k \<and> rq_RREQID rreq = nRREQId w + 1
               \<and> added w' = added w @ [e] \<and> nSubEventType e = AODVsubevent_RREQ_TIMEOUT
               \<and> szOtherDetails e = Some (szDestIP k) \<and> dEventTime (ev w) < dEventTime e))"
proof -
  let ?d = "nDeviceId (ev w)"
  let ?w1 = "w\<lparr>pkts := (pkts w)(p \<mapsto> k\<lparr>szGatewayIP := Some (ifIP c)\<rparr>)\<rparr>"
  let ?r = "buffered (fifo v) (szDestIP k) \<noteq> []"
  obtain b fs where l: "AddToFIFO_loop (szDestIP k) p (dEventTime (ev w)) (fifo v) = (b, fs)" by fastforce
  let ?v2 = "v\<lparr>fifo := fs\<rparr>"
  let ?w2 = "?w1\<lparr>devs := (devs w)(?d \<mapsto> ?v2)\<rparr>"
  have b: "b = ?r"
    using l add_loop_result [of "szDestIP k" p "dEventTime (ev w)" "fifo v"] by simp
  have fs: "buffered fs a = (if same_ip a (szDestIP k) then buffered (fifo v) (szDestIP k) @ [p]
              else buffered (fifo v) a)" for a
    using l add_loop_buffered [of "szDestIP k" p "dEventTime (ev w)" "fifo v" a] by simp
  have add: "fn_NetSim_AODV_AddToFIFOBuffer p ?d (dEventTime (ev w)) ?w1 = Some (?r, ?w2)"
    using assms(4) l b by (simp add: fn_NetSim_AODV_AddToFIFOBuffer_def world_ops)
  have run: "fn_NetSim_AODV_GeneralPacketProcessing E w =
      (if ?r then Some (upd_ev (pPacket_update (\<lambda>_. None)) ?w2)
       else map_option (\<lambda>(q, w3). upd_ev (pPacket_update (\<lambda>_. Some q)) w3) (fn_NetSim_AODV_GenerateRREQ E ?w2))"
    using assms(1-4,6) add
    by (cases "fn_NetSim_AODV_GenerateRREQ E ?w2")
       (auto simp: fn_NetSim_AODV_GeneralPacketProcessing_def world_ops Let_def aodv_get_curr_ip_def
        split: if_splits)
  show ?thesis
  proof (cases ?r)
    case True
    then show ?thesis using run fs assms(4) by (simp add: upd_ev_def)
  next
    case False
    from generate_rreq_total [of ?w2 c ?v2 p "k\<lparr>szGatewayIP := Some (ifIP c)\<rparr>" E] assms(1,3)
    obtain k' v' time where
      g: "fn_NetSim_AODV_GenerateRREQ E ?w2 = Some (next_pid w,
         ?w2\<lparr>next_pid := Suc (next_pid w), nRREQId := nRREQId w + 1,
           pkts := (pkts ?w2)(next_pid w \<mapsto> k'), devs := (devs ?w2)(?d \<mapsto> v'),
           added := added w @ [rreq_timer (szDestIP k) time (ifId c) (ev w)]\<rparr>)"
      and k': "\<exists>rreq. Packet_RoutingProtocol k' = HdrRREQ rreq \<and> rq_DestinationIPAddress rreq = szDestIP k
          \<and> rq_RREQID rreq = nRREQId w + 1"
      and v': "routeTable v' = routeTable v" "fifo v' = fs" and "0 < time"
      by auto
    then show ?thesis
      using False run fs assms(7) by (auto simp: upd_ev_def rreq_timer_def)
  qed
qed

theorem data_without_route_witness:
  "\<exists>w' v'. fn_NetSim_AODV_GeneralPacketProcessing demo_stack
        (demo_world [1 \<mapsto> demo_pkt] (demo_ev NETWORK_OUT_EVENT 1 (Some 1))) = Some w'
     \<and> devs w' 1 = Some v' \<and> buffered (fifo v') (demo_ip 3) = [1]
     \<and> pPacket (ev w') = Some 100 \<and> length (added w') = 1"
proof -
  let ?w = "demo_world [1 \<mapsto> demo_pkt] (demo_ev NETWORK_OUT_EVENT 1 (Some 1))"
  have "szDestIP demo_pkt = demo_ip 3" by (simp add: demo_pkt_def)
  then show ?thesis
    using data_without_route [of ?w 1 demo_pkt "\<lparr>devId = 1, ifId = 1, ifIP = demo_ip 1\<rparr>"
        zero_device_var demo_stack]
    by (auto simp: zero_device_var_def fifo_unique_def buffered_def
        fn_NetSim_AODV_CheckRouteFound_def)
qed
end
