(* ===== verification/Aodv_Answer.thy ===== *)
theory Aodv_Answer
  imports Aodv_Data
begin

text \<open>
What a node does with a route request it receives for the first time, branch by branch:
  the destination answers, a congested node drops, a node with a route answers in its place
  or passes the request on, and a node without a route keeps it.
\<close>

section \<open>Recording a request\<close>

text \<open>The device variable after the three insertions that record a new request.\<close>

definition note_rreq :: "AODV_RREQ \<Rightarrow> simtime \<Rightarrow> AODV_DEVICE_VAR \<Rightarrow> AODV_DEVICE_VAR" where
  "note_rreq rreq now v =
     routeTable_update
       (insert_route (rq_OriginatorIPAddress rreq) (rq_OriginatorSequenceNumber rreq)
          (ucast (rq_HopCount rreq)) (rq_LastAddress rreq)
          (now + 2 * AODV_NET_TRAVERSAL_TIME
             - 2 * of_int (uint (rq_HopCount rreq)) * AODV_NODE_TRAVERSAL_TIME) now True)
       (precursorsList_update (\<lambda>pl. Some (insert_precursor (rq_LastAddress rreq) pl))
         (rreqSeenTable_update (insert_seen (rq_OriginatorIPAddress rreq) (rq_RREQID rreq) now) v))"

definition noted_world :: "AODV_RREQ \<Rightarrow> AODV_DEVICE_VAR \<Rightarrow> AODV_WORLD \<Rightarrow> AODV_WORLD" where
  "noted_world rreq v w = w\<lparr>
     devs := (devs w)(nDeviceId (ev w) \<mapsto> note_rreq rreq (dEventTime (ev w)) v),
     added := added w @ (if fnFindRouteTable (routeTable v) (rq_OriginatorIPAddress rreq) = None
                         then [route_timer (rq_OriginatorIPAddress rreq) (ev w)] else [])\<rparr>"

lemma noted_world_sel [simp]:
  "devs (noted_world rreq v w) = (devs w)(nDeviceId (ev w) \<mapsto> note_rreq rreq (dEventTime (ev w)) v)"
  "pkts (noted_world rreq v w) = pkts w"
  "ev (noted_world rreq v w) = ev w"
  "next_pid (noted_world rreq v w) = next_pid w"
  "aodvCurr (noted_world rreq v w) = aodvCurr w"
  by (simp_all add: noted_world_def)

lemma note_rreq_sel [simp]:
  "ncounter (note_rreq rreq now v) = ncounter v"
  "fifo (note_rreq rreq now v) = fifo v"
  "nSequenceNumber (note_rreq rreq now v) = nSequenceNumber v"
  "aodvMetrics (note_rreq rreq now v) = aodvMetrics v"
  by (simp_all add: note_rreq_def)

lemma scan_end_iff: "InsertInRouteTable_scan ip s h 0 ts = ScanEnd \<longleftrightarrow> fnFindRouteTable ts ip = None"
  by (auto simp: scan_first_idx first_idx_None_iff fnFindRouteTable_None_iff
      split: option.splits if_splits dest!: first_idx_SomeD)

lemma process_rreq_fresh:
  assumes "pPacket (ev w) = Some p" and "pkts w p = Some k" and "hdr_rreq k = Some rreq"
    and "devs w (nDeviceId (ev w)) = Some v" and "\<not> fnCheckRREQSeenTable v rreq"
  shows "fn_NetSim_AODV_ProcessRREQ E w = answer_rreq E p rreq (noted_world rreq v w)"
  using assms
  by (simp add: fn_NetSim_AODV_ProcessRREQ_def Let_def AODV_DEV_VAR_def get_pkt_def upd_dev_def
      fn_NetSim_AODV_InsertInRREQSeenTable_def fn_NetSim_AODV_InsertInPrecursorsList_def
      fn_NetSim_AODV_InsertInRouteTable_def noted_world_def note_rreq_def scan_end_iff fnpAddEvent_def)

text \<open>
  The reverse route: after a request is recorded its originator can be reached through the
  neighbour it came from, unless a different neighbour was recorded before.
\<close>

lemma note_rreq_route:
  assumes "routes_unique (routeTable v)" and "fnFindRouteTable (routeTable v) (rq_OriginatorIPAddress rreq) = None"
  shows "fn_NetSim_AODV_CheckRouteFound (rq_OriginatorIPAddress rreq) (note_rreq rreq now v) now"
    and "fn_NetSim_AODV_FindNextHop (note_rreq rreq now v) (rq_OriginatorIPAddress rreq)
           = Some (rq_LastAddress rreq)"
proof -
  let ?ip = "rq_OriginatorIPAddress rreq" and ?ts = "routeTable (note_rreq rreq now v)"
  have "\<exists>t. fnFindRouteTable ?ts ?ip = Some t \<and> rt_NextHop t = rq_LastAddress rreq \<and> now < rt_Lifetime t"
    using insert_route_map [OF assms(1)] assms(2)
    by (simp add: note_rreq_def fnFindRouteTable_route_map spec_insert_def aodv_consts)
  then show "fn_NetSim_AODV_CheckRouteFound ?ip (note_rreq rreq now v) now"
    and "fn_NetSim_AODV_FindNextHop (note_rreq rreq now v) ?ip = Some (rq_LastAddress rreq)"
    by (auto simp: fn_NetSim_AODV_CheckRouteFound_def CheckRouteFound_ex
        fn_NetSim_AODV_FindNextHop_def FindNextHop_find dest: fnFindRouteTable_SomeD)
qed

lemma ctrl_packet_total:
  assumes "aodvCurr w = Some c"
  shows "\<exists>k. fn_NetSim_AODV_GenerateCtrlPacket E s d r t ty w = Some (next_pid w,
      w\<lparr>pkts := (pkts w)(next_pid w \<mapsto> k), next_pid := Suc (next_pid w)\<rparr>)
    \<and> nSourceId k = s \<and> nReceiverId k = r \<and> nPacketType k = PacketType_Control"
proof -
  have "\<exists>a. aodv_get_dev_ip E d' w = Some a" for d'
    using assms(1) by (simp add: aodv_get_dev_ip_def)
  then obtain a where "\<And>d'. aodv_get_dev_ip E d' w = Some (a d')" by metis
  then show ?thesis
    using assms by (simp add: fn_NetSim_AODV_GenerateCtrlPacket_def new_pkt_def aodv_get_curr_ip_def Let_def)
       (rule exI, rule conjI [OF refl], simp)
qed

section \<open>The destination answers\<close>



section \<open>Intermediate nodes\<close>

text \<open>
  a new request at a node that is neither its destination nor has a route to it, and
  that is not congested, ends there: it is recorded, but it is neither passed on nor freed,
  and the only event scheduled is the expiry timer of the reverse route.  The comment of
  the function says that the request is forwarded in this case.
\<close>

theorem rreq_without_route_not_forwarded:
  assumes "pPacket (ev w) = Some p" and "pkts w p = Some k" and "hdr_rreq k = Some rreq"
    and "devs w (nDeviceId (ev w)) = Some v" and "\<not> fnCheckRREQSeenTable v rreq"
    and "aodvCurr w = Some c" and "\<not> same_ip (ifIP c) (rq_DestinationIPAddress rreq)"
    and "sint (ncounter v) \<le> 25"
    and "\<not> fn_NetSim_AODV_CheckRouteFound (rq_DestinationIPAddress rreq)
            (note_rreq rreq (dEventTime (ev w)) v) (dEventTime (ev w))"
  shows "fn_NetSim_AODV_ProcessRREQ E w = Some (1, noted_world rreq v w)
     \<and> pkts (noted_world rreq v w) = pkts w
     \<and> (\<forall>e \<in> set (drop (length (added w)) (added (noted_world rreq v w))). nEventType e = TIMER_EVENT)"
proof -
  have "fn_NetSim_AODV_ProcessRREQ E w = Some (1, noted_world rreq v w)"
    unfolding process_rreq_fresh [OF assms(1-5)]
    using assms(6-9) by (simp add: answer_rreq_def aodv_get_curr_ip_def AODV_DEV_VAR_def)
  then show ?thesis by (simp add: noted_world_def route_timer_def)
qed

theorem rreq_without_route_not_forwarded_witness:
  "\<exists>w'. fn_NetSim_AODV_ProcessRREQ demo_stack
        (demo_world [1 \<mapsto> demo_ctrl AODVctrlPacket_RREQ (HdrRREQ (demo_rreq 3))]
          (demo_ev NETWORK_IN_EVENT 2 (Some 1))) = Some (1, w')
     \<and> pkts w' 1 \<noteq> None \<and> list_all (\<lambda>e. nEventType e = TIMER_EVENT) (added w')"
proof -
  let ?k = "demo_ctrl AODVctrlPacket_RREQ (HdrRREQ (demo_rreq 3))"
  let ?w = "demo_world [1 \<mapsto> ?k] (demo_ev NETWORK_IN_EVENT 2 (Some 1))"
  have "\<not> fn_NetSim_AODV_CheckRouteFound (demo_ip 3) (note_rreq (demo_rreq 3) 1000 zero_device_var) 1000"
    by (simp add: fn_NetSim_AODV_CheckRouteFound_def note_rreq_def insert_route_def)
  then show ?thesis
    using rreq_without_route_not_forwarded [of ?w 1 ?k "demo_rreq 3" zero_device_var
        "\<lparr>devId = 2, ifId = 1, ifIP = demo_ip 2\<rparr>" demo_stack]
    by (auto simp: hdr_rreq_def fnCheckRREQSeenTable_def list_all_iff)
qed

text \<open>
  a node whose congestion counter exceeds 25 drops every new request for another node:
  the request is freed, nothing is answered or passed on.
\<close>

theorem congested_node_drops_rreq:
  assumes "pPacket (ev w) = Some p" and "pkts w p = Some k" and "hdr_rreq k = Some rreq"
    and "devs w (nDeviceId (ev w)) = Some v" and "\<not> fnCheckRREQSeenTable v rreq"
    and "aodvCurr w = Some c" and "\<not> same_ip (ifIP c) (rq_DestinationIPAddress rreq)"
    and "sint (ncounter v) > 25"
  shows "\<exists>w'. fn_NetSim_AODV_ProcessRREQ E w = Some (1, w')
     \<and> pkts w' = (pkts w)(p := None) \<and> pPacket (ev w') = None
     \<and> added w' = added (noted_world rreq v w) \<and> devs w' = devs (noted_world rreq v w)"
  unfolding process_rreq_fresh [OF assms(1-5)]
  using assms(2,6-8) by (simp add: answer_rreq_def aodv_get_curr_ip_def world_ops)

theorem congested_node_drops_rreq_witness:
  "\<exists>w'. fn_NetSim_AODV_ProcessRREQ demo_stack
        ((demo_world [1 \<mapsto> demo_ctrl AODVctrlPacket_RREQ (HdrRREQ (demo_rreq 3))]
          (demo_ev NETWORK_IN_EVENT 2 (Some 1)))\<lparr>devs := [2 \<mapsto> zero_device_var\<lparr>ncounter := 26\<rparr>]\<rparr>) = Some (1, w')
     \<and> pkts w' 1 = None"
proof -
  let ?k = "demo_ctrl AODVctrlPacket_RREQ (HdrRREQ (demo_rreq 3))"
  let ?v = "zero_device_var\<lparr>ncounter := 26\<rparr>"
  let ?w = "(demo_world [1 \<mapsto> ?k] (demo_ev NETWORK_IN_EVENT 2 (Some 1)))\<lparr>devs := [2 \<mapsto> ?v]\<rparr>"
  show ?thesis
    using congested_node_drops_rreq [of ?w 1 ?k "demo_rreq 3" ?v
        "\<lparr>devId = 2, ifId = 1, ifIP = demo_ip 2\<rparr>" demo_stack]
    by (auto simp: hdr_rreq_def fnCheckRREQSeenTable_def)
qed

text \<open>
  a node with a live route to the destination answers in its place, unless the route
  goes back through the neighbour the request came from: the reply carries the recorded
  sequence number and hop count and the remaining lifetime, and the request is freed.
\<close>

theorem intermediate_replies:
  assumes "pPacket (ev w) = Some p" and "pkts w p = Some k" and "hdr_rreq k = Some rreq"
    and "devs w (nDeviceId (ev w)) = Some v" and "\<not> fnCheckRREQSeenTable v rreq"
    and "aodvCurr w = Some c" and "\<not> same_ip (ifIP c) (rq_DestinationIPAddress rreq)"
    and "sint (ncounter v) \<le> 25" and "rq_JRGDU rreq ! 3 \<noteq> CHR ''1''" and "p \<noteq> next_pid w"
    and "fn_NetSim_AODV_CheckRouteFound (rq_DestinationIPAddress rreq)
            (note_rreq rreq (dEventTime (ev w)) v) (dEventTime (ev w))"
    and "fnFindRouteTable (routeTable (note_rreq rreq (dEventTime (ev w)) v)) (rq_DestinationIPAddress rreq) = Some t"
    and "\<not> same_ip (rt_NextHop t) (rq_LastAddress rreq)"
  shows "\<exists>w' k' rrep e. fn_NetSim_AODV_ProcessRREQ E w = Some (1, w')
     \<and> pkts w' p = None \<and> pPacket (ev w') = None
     \<and> pkts w' (next_pid w) = Some k' \<and> Packet_RoutingProtocol k' = HdrRREP rrep
     \<and> nReceiverId k' = GetDeviceId_asIP E (rq_LastAddress rreq)
     \<and> rp_DestinationIPaddress rrep = rq_DestinationIPAddress rreq
     \<and> rp_OriginatorIPaddress rrep = rq_OriginatorIPAddress rreq
     \<and> rp_DestinationSequenceNumber rrep = rt_DestinationSequenceNumber t
     \<and> rp_HopCount rrep = ucast (rt_HopCount t)
     \<and> rp_Lifetime rrep = double_to_uint (rt_Lifetime t - dEventTime (ev w))
     \<and> added w' = added (noted_world rreq v w) @ [e]
     \<and> nEventType e = NETWORK_OUT_EVENT \<and> pPacket e = Some (next_pid w)"
proof -
  let ?w = "noted_world rreq v w"
  have curr: "aodvCurr ?w = Some c" using assms(6) by simp
  have seq: "fnFindSequenceNumber (note_rreq rreq (dEventTime (ev w)) v) (rq_DestinationIPAddress rreq)
      = rt_DestinationSequenceNumber t"
    using assms(12) by (simp add: fnFindSequenceNumber_def FindSequenceNumber_find)
  from ctrl_packet_total [OF curr, of E "nDeviceId (ev w)"
      "GetDeviceId_asIP E (rq_OriginatorIPAddress rreq)" "GetDeviceId_asIP E (rq_LastAddress rreq)"
      "dEventTime (ev w)" AODVctrlPacket_RREP]
  obtain k0 where g: "fn_NetSim_AODV_GenerateCtrlPacket E (nDeviceId (ev w))
      (GetDeviceId_asIP E (rq_OriginatorIPAddress rreq)) (GetDeviceId_asIP E (rq_LastAddress rreq))
      (dEventTime (ev w)) AODVctrlPacket_RREP ?w
        = Some (next_pid w, ?w\<lparr>pkts := (pkts w)(next_pid w \<mapsto> k0), next_pid := Suc (next_pid w)\<rparr>)"
    and k0: "nReceiverId k0 = GetDeviceId_asIP E (rq_LastAddress rreq)" by auto
  show ?thesis
    unfolding process_rreq_fresh [OF assms(1-5)]
    using assms(1-4,6-13) g k0 seq
    by (simp add: answer_rreq_def fn_NetSim_AODV_GenerateRREPByIntermediate_def aodv_get_curr_ip_def
        Let_def world_ops make_rrep_def noted_world_def)
qed

theorem intermediate_replies_witness:
  "\<exists>w' k' rrep. fn_NetSim_AODV_ProcessRREQ demo_stack
        ((demo_world [1 \<mapsto> demo_ctrl AODVctrlPacket_RREQ (HdrRREQ (demo_rreq 3))]
          (demo_ev NETWORK_IN_EVENT 2 (Some 1)))
          \<lparr>devs := [2 \<mapsto> zero_device_var\<lparr>routeTable := [fill_entry 5 1 0 False (alloc_entry (demo_ip 3) (demo_ip 3) 0)]\<rparr>]\<rparr>)
        = Some (1, w')
     \<and> pkts w' 100 = Some k' \<and> Packet_RoutingProtocol k' = HdrRREP rrep
     \<and> rp_DestinationSequenceNumber rrep = 5"
proof -
  let ?k = "demo_ctrl AODVctrlPacket_RREQ (HdrRREQ (demo_rreq 3))"
  let ?t = "fill_entry 5 1 0 False (alloc_entry (demo_ip 3) (demo_ip 3) 0)"
  let ?v = "zero_device_var\<lparr>routeTable := [?t]\<rparr>"
  let ?w = "(demo_world [1 \<mapsto> ?k] (demo_ev NETWORK_IN_EVENT 2 (Some 1)))\<lparr>devs := [2 \<mapsto> ?v]\<rparr>"
  have c: "fn_NetSim_AODV_CheckRouteFound (demo_ip 3) (note_rreq (demo_rreq 3) 1000 ?v) 1000"
    and f: "fnFindRouteTable (routeTable (note_rreq (demo_rreq 3) 1000 ?v)) (demo_ip 3) = Some ?t"
    by (simp_all add: fn_NetSim_AODV_CheckRouteFound_def note_rreq_def insert_route_def aodv_consts)
  show ?thesis
    using intermediate_replies [of ?w 1 ?k "demo_rreq 3" ?v
        "\<lparr>devId = 2, ifId = 1, ifIP = demo_ip 2\<rparr>" ?t demo_stack] c f
    by (auto simp: hdr_rreq_def fnCheckRREQSeenTable_def NUL_def)
qed

section \<open>Passing a request on\<close>

definition forwarded_rreq :: "AODV_DEVICE_VAR \<Rightarrow> NETSIM_IPAddress \<Rightarrow> AODV_RREQ \<Rightarrow> AODV_RREQ" where
  "forwarded_rreq v currIP rreq =
     (let dsn = max (fnFindSequenceNumber v (rq_DestinationIPAddress rreq)) (rq_DestinationSequenceNumber rreq)
      in rreq\<lparr>rq_HopCount := rq_HopCount rreq + 1, rq_DestinationSequenceNumber := dsn,
              rq_JRGDU := (if dsn \<noteq> 0 then (rq_JRGDU rreq)[4 := CHR ''1''] else rq_JRGDU rreq),
              rq_LastAddress := currIP\<rparr>)"

lemma forward_rreq_live:
  assumes "pPacket (ev w) = Some p" and "pkts w p = Some k" and "hdr_rreq k = Some rreq"
    and "devs w (nDeviceId (ev w)) = Some v" and "aodvCurr w = Some c" and "nTTL k \<noteq> 1"
  shows "fn_NetSim_AODV_ForwardRREQ w = Some (w\<lparr>
       pkts := (pkts w)(p \<mapsto> k\<lparr>Packet_RoutingProtocol := HdrRREQ (forwarded_rreq v (ifIP c) rreq),
                              nTransmitterId := nDeviceId (ev w), nReceiverId := 0, szNextHopIp := None\<rparr>),
       added := added w @ [(ev w)\<lparr>nEventType := NETWORK_OUT_EVENT, nSubEventType := 0\<rparr>],
       devs := (devs w)(nDeviceId (ev w) \<mapsto>
         aodvMetrics_update (rreqForwarded_update (\<lambda>n. n + 1)) v)\<rparr>)"
proof -
  have m: "(if b < a then a else b) = max a b" for a b :: u32 by (auto simp: max_def)
  show ?thesis
    using assms unfolding fn_NetSim_AODV_ForwardRREQ_def forwarded_rreq_def Let_def m
    by (simp add: world_ops aodv_get_curr_ip_def)
qed

text \<open>
  passing on a request with a TTL other than 1 increments its hop count, raises its
  destination sequence number to the one known here, sets the flag \<open>JRGDU[4]\<close> exactly if
  that number is known (the request was created with this flag set exactly if it is
  \<^emph>\<open>not\<close> known), puts this node's address in it, and schedules one broadcast; with TTL 1 the
  request is freed.
\<close>

theorem forward_rreq_spec:
  assumes "pPacket (ev w) = Some p" and "pkts w p = Some k" and "hdr_rreq k = Some rreq"
    and "devs w (nDeviceId (ev w)) = Some v" and "aodvCurr w = Some c"
    and "length (rq_JRGDU rreq) = 6"
  shows "\<exists>w'. fn_NetSim_AODV_ForwardRREQ w = Some w'
     \<and> (if nTTL k = 1 then w' = w\<lparr>pkts := (pkts w)(p := None)\<rparr>
        else \<exists>k' rreq'. pkts w' p = Some k' \<and> hdr_rreq k' = Some rreq'
          \<and> nReceiverId k' = 0 \<and> nTTL k' = nTTL k
          \<and> rq_HopCount rreq' = rq_HopCount rreq + 1
          \<and> rq_LastAddress rreq' = ifIP c \<and> rq_RREQID rreq' = rq_RREQID rreq
          \<and> rq_DestinationSequenceNumber rreq'
              = max (fnFindSequenceNumber v (rq_DestinationIPAddress rreq)) (rq_DestinationSequenceNumber rreq)
          \<and> rq_JRGDU rreq' ! 4 = (if rq_DestinationSequenceNumber rreq' = 0 then rq_JRGDU rreq ! 4 else CHR ''1'')
          \<and> added w' = added w @ [(ev w)\<lparr>nEventType := NETWORK_OUT_EVENT, nSubEventType := 0\<rparr>])"
proof (cases "nTTL k = 1")
  case True
  then show ?thesis
    using assms by (simp add: fn_NetSim_AODV_ForwardRREQ_def world_ops Let_def)
next
  case False
  then show ?thesis
    unfolding forward_rreq_live [OF assms(1-5) False]
    using assms(6) by (simp add: hdr_rreq_def forwarded_rreq_def Let_def)
qed

theorem forward_rreq_spec_witness:
  "\<exists>w' k' rreq'. fn_NetSim_AODV_ForwardRREQ
        (demo_world [1 \<mapsto> demo_ctrl AODVctrlPacket_RREQ (HdrRREQ (demo_rreq 3))]
          (demo_ev NETWORK_IN_EVENT 2 (Some 1))) = Some w'
     \<and> pkts w' 1 = Some k' \<and> hdr_rreq k' = Some rreq' \<and> rq_HopCount rreq' = 1"
proof -
  let ?k = "demo_ctrl AODVctrlPacket_RREQ (HdrRREQ (demo_rreq 3))"
  let ?w = "demo_world [1 \<mapsto> ?k] (demo_ev NETWORK_IN_EVENT 2 (Some 1))"
  show ?thesis
    using forward_rreq_spec [of ?w 1 ?k "demo_rreq 3" zero_device_var
        "\<lparr>devId = 2, ifId = 1, ifIP = demo_ip 2\<rparr>"]
    by (auto simp: hdr_rreq_def)
qed

text \<open>
  a request at a node whose route to the destination leads back to the neighbour the
  request came from is passed on twice: \<open>fn_NetSim_AODV_GenerateRREPByIntermediate\<close> forwards it
  and reports failure, and its caller forwards it again.  The same packet is scheduled by two
  events and its hop count grows by two; with TTL 1 the second call uses the packet the first
  one has freed.
\<close>

theorem rreq_forwarded_twice:
  assumes "pPacket (ev w) = Some p" and "pkts w p = Some k" and "hdr_rreq k = Some rreq"
    and "devs w (nDeviceId (ev w)) = Some v" and "\<not> fnCheckRREQSeenTable v rreq"
    and "aodvCurr w = Some c" and "\<not> same_ip (ifIP c) (rq_DestinationIPAddress rreq)"
    and "sint (ncounter v) \<le> 25" and "rq_JRGDU rreq ! 3 \<noteq> CHR ''1''" and "p \<noteq> next_pid w"
    and "fn_NetSim_AODV_CheckRouteFound (rq_DestinationIPAddress rreq)
            (note_rreq rreq (dEventTime (ev w)) v) (dEventTime (ev w))"
    and "fnFindRouteTable (routeTable (note_rreq rreq (dEventTime (ev w)) v)) (rq_DestinationIPAddress rreq) = Some t"
    and "same_ip (rt_NextHop t) (rq_LastAddress rreq)"
  shows "if nTTL k = 1 then fn_NetSim_AODV_ProcessRREQ E w = None
     else \<exists>w' k' rreq' e. fn_NetSim_AODV_ProcessRREQ E w = Some (1, w')
       \<and> pkts w' p = Some k' \<and> hdr_rreq k' = Some rreq' \<and> rq_HopCount rreq' = rq_HopCount rreq + 2
       \<and> added w' = added (noted_world rreq v w) @ [e, e]
       \<and> nEventType e = NETWORK_OUT_EVENT \<and> pPacket e = Some p"
proof -
  let ?w = "noted_world rreq v w" and ?v = "note_rreq rreq (dEventTime (ev w)) v"
  have curr: "aodvCurr ?w = Some c" using assms(6) by simp
  from ctrl_packet_total [OF curr] obtain k0 where
    g: "fn_NetSim_AODV_GenerateCtrlPacket E (nDeviceId (ev w))
      (GetDeviceId_asIP E (rq_OriginatorIPAddress rreq)) (GetDeviceId_asIP E (rq_LastAddress rreq))
      (dEventTime (ev w)) AODVctrlPacket_RREP ?w
        = Some (next_pid w, ?w\<lparr>pkts := (pkts w)(next_pid w \<mapsto> k0), next_pid := Suc (next_pid w)\<rparr>)"
    by force
  let ?w1 = "?w\<lparr>pkts := (pkts w)(next_pid w \<mapsto> k0), next_pid := Suc (next_pid w)\<rparr>"
  have run: "fn_NetSim_AODV_ProcessRREQ E w =
      (do { w2 \<leftarrow> fn_NetSim_AODV_ForwardRREQ ?w1; w3 \<leftarrow> fn_NetSim_AODV_ForwardRREQ w2; Some (1, w3) })"
    unfolding process_rreq_fresh [OF assms(1-5)]
    using assms(1-4,6-13) g
    by (cases "fn_NetSim_AODV_ForwardRREQ ?w1")
       (simp_all add: answer_rreq_def fn_NetSim_AODV_GenerateRREPByIntermediate_def aodv_get_curr_ip_def
        Let_def get_pkt_def AODV_DEV_VAR_def)
  show ?thesis
  proof (cases "nTTL k = 1")
    case True
    then show ?thesis
      using run assms(1-3,10) by (simp add: fn_NetSim_AODV_ForwardRREQ_def world_ops Let_def)
  next
    case False
    let ?r = "forwarded_rreq ?v (ifIP c) rreq"
    let ?k = "k\<lparr>Packet_RoutingProtocol := HdrRREQ ?r,
                nTransmitterId := nDeviceId (ev w), nReceiverId := 0, szNextHopIp := None\<rparr>"
    let ?v2 = "aodvMetrics_update (rreqForwarded_update (\<lambda>n. n + 1)) ?v"
    let ?e = "(ev w)\<lparr>nEventType := NETWORK_OUT_EVENT, nSubEventType := 0\<rparr>"
    have 1: "fn_NetSim_AODV_ForwardRREQ ?w1 = Some (?w1\<lparr>pkts := (pkts ?w1)(p \<mapsto> ?k),
        added := added ?w1 @ [?e], devs := (devs ?w1)(nDeviceId (ev w) \<mapsto> ?v2)\<rparr>)" (is "_ = Some ?w2")
      using forward_rreq_live [of ?w1 p k rreq ?v c] assms(1-4,6,10) False by simp
    have 2: "fn_NetSim_AODV_ForwardRREQ ?w2 = Some (?w2\<lparr>
        pkts := (pkts ?w2)(p \<mapsto> ?k\<lparr>Packet_RoutingProtocol := HdrRREQ (forwarded_rreq ?v2 (ifIP c) ?r),
                              nTransmitterId := nDeviceId (ev w), nReceiverId := 0, szNextHopIp := None\<rparr>),
        added := added ?w2 @ [?e],
        devs := (devs ?w2)(nDeviceId (ev w) \<mapsto> aodvMetrics_update (rreqForwarded_update (\<lambda>n. n + 1)) ?v2)\<rparr>)"
      using forward_rreq_live [of ?w2 p ?k ?r ?v2 c] assms(1,6) False by (simp add: hdr_rreq_def)
    show ?thesis
      using run 1 2 False assms(1) by (simp add: hdr_rreq_def forwarded_rreq_def Let_def)
  qed
qed

theorem rreq_forwarded_twice_witness:
  "\<exists>w' k' rreq'. fn_NetSim_AODV_ProcessRREQ demo_stack
        ((demo_world [1 \<mapsto> demo_ctrl AODVctrlPacket_RREQ (HdrRREQ (demo_rreq 3))]
          (demo_ev NETWORK_IN_EVENT 2 (Some 1)))
          \<lparr>devs := [2 \<mapsto> zero_device_var\<lparr>routeTable := [fill_entry 5 2 0 False (alloc_entry (demo_ip 3) (demo_ip 1) 0)]\<rparr>]\<rparr>)
        = Some (1, w')
     \<and> pkts w' 1 = Some k' \<and> hdr_rreq k' = Some rreq' \<and> rq_HopCount rreq' = 2"
proof -
  let ?k = "demo_ctrl AODVctrlPacket_RREQ (HdrRREQ (demo_rreq 3))"
  let ?t = "fill_entry 5 2 0 False (alloc_entry (demo_ip 3) (demo_ip 1) 0)"
  let ?v = "zero_device_var\<lparr>routeTable := [?t]\<rparr>"
  let ?w = "(demo_world [1 \<mapsto> ?k] (demo_ev NETWORK_IN_EVENT 2 (Some 1)))\<lparr>devs := [2 \<mapsto> ?v]\<rparr>"
  have c: "fn_NetSim_AODV_CheckRouteFound (demo_ip 3) (note_rreq (demo_rreq 3) 1000 ?v) 1000"
    and f: "fnFindRouteTable (routeTable (note_rreq (demo_rreq 3) 1000 ?v)) (demo_ip 3) = Some ?t"
    by (simp_all add: fn_NetSim_AODV_CheckRouteFound_def note_rreq_def insert_route_def aodv_consts)
  show ?thesis
    using rreq_forwarded_twice [of ?w 1 ?k "demo_rreq 3" ?v
        "\<lparr>devId = 2, ifId = 1, ifIP = demo_ip 2\<rparr>" ?t demo_stack] c f
    by (auto simp: hdr_rreq_def fnCheckRREQSeenTable_def NUL_def)
qed
end
