(* ===== verification/Tcp_Types.thy ===== *)
theory Tcp_Types
  imports Netsim_IP
begin

text \<open>
  The data of the TCP protocol: the segment header and its options (\<open>TCP/TCP_Header.h\<close>), the
  queues and the transmission control block (\<open>TCP/TCB.h\<close>), the congestion variables
  (\<open>TCP/Congestion.c\<close>), the metrics, the socket and the device variable (\<open>TCP/TCP.h\<close>).
  Integers keep their width.  A member of a nested structure is named with the structure
  first (\<open>SND_UNA\<close> is \<open>tcb->SND.UNA\<close>); a field whose C name another structure of the
  development uses has a prefix for its structure (\<open>th\<close> segment header, \<open>tp\<close> packet,
  \<open>te\<close> event, \<open>cv\<close> congestion variable, \<open>bc\<close> BIC, \<open>tv\<close> device variable).

  As in the other components, \<open>None\<close> is undefined behaviour of the C program; a failing
  \<open>assert\<close>, which stops the program, is \<open>None\<close> as well, and so is a loop that does not end.
\<close>

type_synonym u16 = "16 word"
type_synonym u64 = "64 word"

named_theorems tcp_defs \<open>the operations' definitions\<close>

section \<open>C arithmetic with undefined cases\<close>

definition SECOND :: simtime where "SECOND = 1000000"

text \<open>Division by zero and shifts by the width or more are undefined.\<close>

definition div32 :: "u32 \<Rightarrow> u32 \<Rightarrow> u32 option" where
  "div32 a b = (if b = 0 then None else Some (a div b))"

definition shl32 :: "u32 \<Rightarrow> u8 \<Rightarrow> u32 option" where
  "shl32 a n = (if unat n < 32 then Some (push_bit (unat n) a) else None)"

definition shr32 :: "u32 \<Rightarrow> u8 \<Rightarrow> u32 option" where
  "shr32 a n = (if unat n < 32 then Some (drop_bit (unat n) a) else None)"

section \<open>Segment header and options\<close>

datatype TCP_OPTION =
    TCP_OPTION_END | TCP_OPTION_NOOPERATION | TCP_OPTION_MSS | TCP_OPTION_WINDOW_SCALE
  | TCP_OPTION_SACK_PERMITTED | TCP_OPTION_SACK | TCP_OPTION_ECHO | TCP_OPTION_ECHOREPLY
  | TCP_OPTION_TIMESTAMP

text \<open>The numbers the option bodies carry in their \<open>type\<close> byte.\<close>

fun TCP_OPTION_num :: "TCP_OPTION \<Rightarrow> u8" where
  "TCP_OPTION_num TCP_OPTION_END = 0"
| "TCP_OPTION_num TCP_OPTION_NOOPERATION = 1"
| "TCP_OPTION_num TCP_OPTION_MSS = 2"
| "TCP_OPTION_num TCP_OPTION_WINDOW_SCALE = 3"
| "TCP_OPTION_num TCP_OPTION_SACK_PERMITTED = 4"
| "TCP_OPTION_num TCP_OPTION_SACK = 5"
| "TCP_OPTION_num TCP_OPTION_ECHO = 6"
| "TCP_OPTION_num TCP_OPTION_ECHOREPLY = 7"
| "TCP_OPTION_num TCP_OPTION_TIMESTAMP = 8"

record MSS_OPTION =
  mss_type :: u8
  mss_len :: u8
  MSSData :: u16

record SACKPERMITTED_OPTION =
  sp_type :: u8
  sp_len :: u8

record SACKDATA =
  sd_leftEdge :: u32
  sd_rightEdge :: u32

record SACK_OPTION =
  sack_type :: u8
  sack_len :: u8
  sackData :: "SACKDATA list"

record EXTRA_OPTION =
  ex_type :: u8

record Wsopt =
  ws_type :: u8
  ws_len :: u8
  Shift_cnt :: u8

record TSopt =
  ts_type :: u8
  ts_len :: u8
  TSval :: u32
  TSecr :: u32

text \<open>What the \<open>void*\<close> of an option cell points to.\<close>

datatype OPTION_BODY =
    BodyExtra EXTRA_OPTION
  | BodyMss MSS_OPTION
  | BodySackPermitted SACKPERMITTED_OPTION
  | BodySack SACK_OPTION
  | BodyWs Wsopt
  | BodyTs TSopt

record TCPOPTION =
  to_type :: TCP_OPTION
  to_option :: OPTION_BODY
  to_size :: u32

record TCP_SEGMENT_HDR =
  SrcPort :: u16
  DstPort :: u16
  SeqNum :: u32
  AckNum :: u32
  HdrLength :: u8
  Fin :: bool
  Syn :: bool
  Rst :: bool
  Psh :: bool
  Ack :: bool
  Urg :: bool
  th_Reserved :: "2 word"
  Window :: u16
  Checksum :: u16
  UrgPtr :: u16
  th_option :: "TCPOPTION list"

definition zero_hdr :: TCP_SEGMENT_HDR where
  "zero_hdr = \<lparr>SrcPort = 0, DstPort = 0, SeqNum = 0, AckNum = 0, HdrLength = 0, Fin = False,
     Syn = False, Rst = False, Psh = False, Ack = False, Urg = False, th_Reserved = 0,
     Window = 0, Checksum = 0, UrgPtr = 0, th_option = []\<rparr>"

definition TCP_HDR_SIZE :: nat where "TCP_HDR_SIZE = 20"
definition MAX_TCP_OPT_LEN :: nat where "MAX_TCP_OPT_LEN = 40"
definition MAX_TCP_HDR_SIZE :: nat where "MAX_TCP_HDR_SIZE = TCP_HDR_SIZE + MAX_TCP_OPT_LEN"
definition MSS_OPTION_LEN :: nat where "MSS_OPTION_LEN = 4"
definition SACKPERMITTED_OPTION_LEN :: nat where "SACKPERMITTED_OPTION_LEN = 2"
definition SACKDATA_LEN :: nat where "SACKDATA_LEN = 8"
definition SACK_OPTION_FIX_LEN :: nat where "SACK_OPTION_FIX_LEN = 2"
definition EXTRA_OPTION_LEN :: nat where "EXTRA_OPTION_LEN = 1"
definition WSOPT_LEN :: nat where "WSOPT_LEN = 3"
definition TSOPT_LEN :: nat where "TSOPT_LEN = 10"

lemmas tcp_lens =
  TCP_HDR_SIZE_def MAX_TCP_OPT_LEN_def MAX_TCP_HDR_SIZE_def MSS_OPTION_LEN_def
  SACKPERMITTED_OPTION_LEN_def SACKDATA_LEN_def SACK_OPTION_FIX_LEN_def EXTRA_OPTION_LEN_def
  WSOPT_LEN_def TSOPT_LEN_def

definition SACK_OPTION_LEN :: "u32 \<Rightarrow> u8" where
  "SACK_OPTION_LEN n = ucast (of_nat SACK_OPTION_FIX_LEN + n * of_nat SACKDATA_LEN)"

text \<open>\<open>(len - 2) / 8\<close> on \<open>int\<close>, then converted to \<open>UINT\<close>; C division truncates to zero.\<close>

definition get_sack_data_count :: "SACK_OPTION \<Rightarrow> u32" where
  "get_sack_data_count sack = word_of_int
     (let d = int (unat (sack_len sack)) - int SACK_OPTION_FIX_LEN
      in if d < 0 then - ((- d) div int SACKDATA_LEN) else d div int SACKDATA_LEN)"

section \<open>Packets and events\<close>

record TCP_APPDATA =
  app_dPacketSize :: real
  app_nApplicationId :: NETSIM_ID
  app_nSegmentId :: int
  app_nAppEndFlag :: bool

text \<open>
  A packet as TCP uses it.  Packets are values here: every queue and every event of this
  protocol holds a copy of its own (\<open>fn_NetSim_Packet_CopyPacket\<close>) or the only reference.
  \<open>tp_hdr\<close> is what \<open>TCP_GET_SEGMENT_HDR\<close> returns; a packet that comes from the application
  has no header before \<open>add_tcp_hdr\<close>, and nothing reads the field before that.
\<close>

record TCP_PACKET =
  tp_nPacketId :: int
  tp_nControlDataType :: nat
  tp_isControl :: bool
  tp_nSourceId :: NETSIM_ID
  tp_destList :: "NETSIM_ID list"
  tp_appData :: "TCP_APPDATA option"
  tp_dArrivalTime :: simtime
  tp_dStartTime :: simtime
  tp_dEndTime :: simtime
  tp_dPayload :: real
  tp_dOverhead :: real
  tp_dPacketSize :: real
  tp_nSourcePort :: u16
  tp_nDestinationPort :: u16
  tp_hdr :: TCP_SEGMENT_HDR
  tp_szSourceIP :: NETSIM_IPAddress
  tp_szDestIP :: NETSIM_IPAddress
  tp_nTTL :: u8
  tp_isIpTcp :: bool

abbreviation TCP_GET_SEGMENT_HDR :: "TCP_PACKET \<Rightarrow> TCP_SEGMENT_HDR" where
  "TCP_GET_SEGMENT_HDR p \<equiv> tp_hdr p"

definition PROTOCOL_APPLICATION :: nat where "PROTOCOL_APPLICATION = 4"
definition TX_PROTOCOL_TCP :: nat where "TX_PROTOCOL_TCP = 401"
definition TCPPACKET_SYN :: nat where "TCPPACKET_SYN = TX_PROTOCOL_TCP * 100 + 1"
definition TCPPACKET_SYNACK :: nat where "TCPPACKET_SYNACK = TCPPACKET_SYN + 1"
definition TCPPACKET_FIN :: nat where "TCPPACKET_FIN = TCPPACKET_SYN + 2"
definition TCPPACKET_RST :: nat where "TCPPACKET_RST = TCPPACKET_SYN + 3"
definition TCPPACKET_ACK :: nat where "TCPPACKET_ACK = TCPPACKET_SYN + 4"
definition TCP_RTO_TIMEOUT :: nat where "TCP_RTO_TIMEOUT = TX_PROTOCOL_TCP * 100"
definition TCP_TIME_WAIT_TIMEOUT :: nat where "TCP_TIME_WAIT_TIMEOUT = TCP_RTO_TIMEOUT + 1"

lemmas tcp_numbers =
  TX_PROTOCOL_TCP_def TCPPACKET_SYN_def TCPPACKET_SYNACK_def TCPPACKET_FIN_def
  TCPPACKET_RST_def TCPPACKET_ACK_def TCP_RTO_TIMEOUT_def TCP_TIME_WAIT_TIMEOUT_def

definition isTCPControl :: "TCP_PACKET \<Rightarrow> bool" where
  "isTCPControl p \<longleftrightarrow> tp_nControlDataType p div 100 = TX_PROTOCOL_TCP"

datatype TCP_EVENT_TYPE =
  TCP_NETWORK_OUT | TCP_TIMER | TCP_APPLICATION_IN | TCP_TRANSPORT_OUT | TCP_TRANSPORT_IN

record TCP_EVENT =
  te_dEventTime :: simtime
  te_nEventType :: TCP_EVENT_TYPE
  te_nProtocolId :: nat
  te_nDeviceId :: NETSIM_ID
  te_nApplicationId :: NETSIM_ID
  te_dPacketSize :: real
  te_nPacketId :: int
  te_nSegmentId :: int
  te_nSubEventType :: nat
  te_pPacket :: "TCP_PACKET option"
  te_ofSocket :: bool

section \<open>Queues, congestion variables, transmission control block\<close>

datatype TCP_CONNECTION_STATE =
    TCPCONNECTION_CLOSED | TCPCONNECTION_LISTEN | TCPCONNECTION_SYN_SENT
  | TCPCONNECTION_SYN_RECEIVED | TCPCONNECTION_ESTABLISHED | TCPCONNECTION_FIN_WAIT_1
  | TCPCONNECTION_FIN_WAIT_2 | TCPCONNECTION_CLOSE_WAIT | TCPCONNECTION_CLOSING
  | TCPCONNECTION_LAST_ACK | TCPCONNECTION_TIME_WAIT

datatype TCPVARIANT =
    TCPVariant_OLDTAHOE | TCPVariant_TAHOE | TCPVariant_RENO | TCPVariant_NEWRENO
  | TCPVariant_BIC | TCPVariant_CUBIC

datatype TCPACKTYPE = TCPACKTYPE_UNDELAYED | TCPACKTYPE_DELAYED

record Queueinfo =
  qi_packet :: TCP_PACKET
  qi_time :: simtime
  qi_isSacked :: bool

text \<open>
  \<open>tq_queue\<close> is the chain of cells the head pointer leads to; \<open>None\<close> when the head pointer
  still points at cells that \<open>free_queue\<close> has freed.
\<close>

record TCP_QUEUE =
  tq_size :: u32
  tq_queue :: "Queueinfo list option"

definition zero_queue :: TCP_QUEUE where
  "zero_queue = \<lparr>tq_size = 0, tq_queue = Some []\<rparr>"

record BIC =
  bc_low_window :: u32
  bc_max_increment :: u32
  bc_fast_convergence :: bool
  bc_beta :: real
  bc_smooth_part :: u32
  bc_cnt :: u32
  bc_last_max_cwnd :: u32
  bc_loss_cwnd :: u32
  bc_last_cwnd :: u32
  bc_last_time :: u32
  bc_epoch_start :: u32
  bc_delayed_ack :: u32
  bc_cwndcnt :: u32

definition zero_bic :: BIC where
  "zero_bic = \<lparr>bc_low_window = 0, bc_max_increment = 0, bc_fast_convergence = False,
     bc_beta = 0, bc_smooth_part = 0, bc_cnt = 0, bc_last_max_cwnd = 0, bc_loss_cwnd = 0,
     bc_last_cwnd = 0, bc_last_time = 0, bc_epoch_start = 0, bc_delayed_ack = 0,
     bc_cwndcnt = 0\<rparr>"

text \<open>
  CUBIC (\<open>TCP/CUBIC.c\<close>).  Members of type \<open>int\<close> are integers here; the operations check that
  a result fits 32 bits.
\<close>

record CUBIC =
  cu_hystart_low_window :: u32
  cu_hystart_ack_delta :: int
  cu_bic_scale :: int
  cu_beta :: int
  cu_initial_ssthresh :: u32
  cu_cnt :: u32
  cu_last_max_cwnd :: u32
  cu_loss_cwnd :: u32
  cu_last_cwnd :: u32
  cu_last_time :: u32
  cu_bic_origin_point :: u32
  cu_bic_K :: u32
  cu_delay_min :: u32
  cu_epoch_start :: u32
  cu_ack_cnt :: u32
  cu_tcp_cwnd :: u32
  cu_sample_cnt :: u8
  cu_found :: u8
  cu_round_start :: u32
  cu_end_seq :: u32
  cu_last_ack :: u32
  cu_curr_rtt :: u32
  cu_cwndcnt :: u32

definition zero_cubic :: CUBIC where
  "zero_cubic = \<lparr>cu_hystart_low_window = 0, cu_hystart_ack_delta = 0, cu_bic_scale = 0,
     cu_beta = 0, cu_initial_ssthresh = 0, cu_cnt = 0, cu_last_max_cwnd = 0, cu_loss_cwnd = 0,
     cu_last_cwnd = 0, cu_last_time = 0, cu_bic_origin_point = 0, cu_bic_K = 0,
     cu_delay_min = 0, cu_epoch_start = 0, cu_ack_cnt = 0, cu_tcp_cwnd = 0, cu_sample_cnt = 0,
     cu_found = 0, cu_round_start = 0, cu_end_seq = 0, cu_last_ack = 0, cu_curr_rtt = 0,
     cu_cwndcnt = 0\<rparr>"

text \<open>
  \<open>Congestion.c\<close> and \<open>CUBIC.c\<close> declare structures of the same name with a common beginning
  and a variant's own data at the end; a socket only uses the part of its variant.
\<close>

record CONGESTIONVAR =
  SMSS :: u16
  RMSS :: u16
  IW :: u16
  LW :: u16
  ssthresh :: u16
  cwnd :: u16
  rwnd :: u16
  lastWinUpdateTime :: simtime
  cv_isFastRetransmit :: bool
  dupAckCount :: u32
  cv_isFastRecovery :: bool
  recover :: u32
  isLossRecoveryPhase :: bool
  bic :: BIC
  cubic :: CUBIC

definition zero_congestionvar :: CONGESTIONVAR where
  "zero_congestionvar = \<lparr>SMSS = 0, RMSS = 0, IW = 0, LW = 0, ssthresh = 0, cwnd = 0, rwnd = 0,
     lastWinUpdateTime = 0, cv_isFastRetransmit = False, dupAckCount = 0,
     cv_isFastRecovery = False, recover = 0, isLossRecoveryPhase = False, bic = zero_bic,
     cubic = zero_cubic\<rparr>"

record SCOREBOARD =
  leftEdge :: "u32 list"
  rightEdge :: "u32 list"

definition zero_scoreboard :: SCOREBOARD where
  "zero_scoreboard = \<lparr>leftEdge = [0, 0, 0, 0], rightEdge = [0, 0, 0, 0]\<rparr>"

text \<open>
  The congestion callbacks of the control block are set in one place,
  \<open>congestion_setcallback\<close>, from \<open>variant\<close>; the model dispatches on \<open>variant\<close>.  A
  congestion variable that is not allocated yet is \<open>zero_congestionvar\<close>, what \<open>calloc\<close> gives.
\<close>

record TCB =
  tcp_state :: TCP_CONNECTION_STATE
  tcp_prev_state :: TCP_CONNECTION_STATE
  variant :: TCPVARIANT
  SND_UNA :: u32
  SND_NXT :: u32
  SND_WND :: u32
  SND_WL1 :: u32
  SND_WL2 :: u32
  ISS :: u32
  RCV_NXT :: u32
  RCV_WND :: u32
  IRS :: u32
  SEG_SEQ :: u32
  SEG_ACK :: u32
  SEG_LEN :: u32
  SEG_WND :: u32
  retransmissionQueue :: TCP_QUEUE
  outOfOrderSegment :: TCP_QUEUE
  TCP_RTO :: simtime
  TCP_SRTT :: simtime
  TCP_RTTVAR :: simtime
  synRetries :: u32
  congestionData :: CONGESTIONVAR
  ackType :: TCPACKTYPE
  delayedAckTime :: simtime
  lastAckSendTime :: simtime
  isAckSentLastTime :: bool
  timeWaitTimer :: simtime
  istimewaittimerrestarted :: bool
  isOtherTimerCancel :: bool
  isSackPermitted :: bool
  scoreboard :: SCOREBOARD
  prevScoreboard :: SCOREBOARD
  pipe :: u32
  HighRxt :: u32
  RescueRxt :: u32
  isSackOption :: bool
  recoveryPoint :: u32
  Snd_Wind_Shift :: u8
  Rcv_Wind_Shift :: u8
  isWindowScaling :: bool
  isTSopt :: bool
  TSVal :: u32

definition zero_tcb :: TCB where
  "zero_tcb = \<lparr>tcp_state = TCPCONNECTION_CLOSED, tcp_prev_state = TCPCONNECTION_CLOSED,
     variant = TCPVariant_OLDTAHOE, SND_UNA = 0, SND_NXT = 0, SND_WND = 0, SND_WL1 = 0,
     SND_WL2 = 0, ISS = 0, RCV_NXT = 0, RCV_WND = 0, IRS = 0, SEG_SEQ = 0, SEG_ACK = 0,
     SEG_LEN = 0, SEG_WND = 0, retransmissionQueue = zero_queue,
     outOfOrderSegment = zero_queue, TCP_RTO = 0, TCP_SRTT = 0, TCP_RTTVAR = 0,
     synRetries = 0, congestionData = zero_congestionvar, ackType = TCPACKTYPE_UNDELAYED,
     delayedAckTime = 0, lastAckSendTime = 0, isAckSentLastTime = False, timeWaitTimer = 0,
     istimewaittimerrestarted = False, isOtherTimerCancel = False, isSackPermitted = False,
     scoreboard = zero_scoreboard, prevScoreboard = zero_scoreboard, pipe = 0, HighRxt = 0,
     RescueRxt = 0, isSackOption = False, recoveryPoint = 0, Snd_Wind_Shift = 0,
     Rcv_Wind_Shift = 0, isWindowScaling = False, isTSopt = False, TSVal = 0\<rparr>"

section \<open>Sockets and devices\<close>

record TCP_METRICS =
  synSent :: u32
  synAckSent :: u32
  segmentSent :: u32
  segmentReceived :: u32
  segmentRetransmitted :: u32
  ackSent :: u32
  ackReceived :: u32
  dupAckReceived :: u32
  timesRTOExpired :: u32
  dupSegmentReceived :: u32
  outOfOrderSegmentReceived :: u32

definition zero_tcp_metrics :: TCP_METRICS where
  "zero_tcp_metrics = \<lparr>synSent = 0, synAckSent = 0, segmentSent = 0, segmentReceived = 0,
     segmentRetransmitted = 0, ackSent = 0, ackReceived = 0, dupAckReceived = 0,
     timesRTOExpired = 0, dupSegmentReceived = 0, outOfOrderSegmentReceived = 0\<rparr>"

record SOCKETADDRESS =
  sa_ip :: NETSIM_IPAddress
  sa_port :: u16

text \<open>
  The file-level variables of \<open>CUBIC.c\<close>, which all sockets share.
\<close>

record CUBIC_STATICS =
  cube_rtt_scale :: u32
  beta_scale :: u32
  cube_factor :: u32

text \<open>
  A socket whose \<open>tcb\<close> pointer is not null.  The last four fields are the world around it as a
  call finds and leaves it: \<open>iface\<close> is the state of the socket's interface to the application,
  \<open>posted\<close> the events handed to \<open>fnpAddEvent\<close> in call order, \<open>tcpErrors\<close> the number of
  \<open>fnNetSimError\<close> calls, \<open>cubicStatics\<close> the shared variables of CUBIC.
  \<open>listen_callback\<close> says whether the callback pointer is set; \<open>fnListenCallback\<close> is the only
  function it is ever set to.
\<close>

record NETSIM_SOCKET =
  SocketId :: u32
  localAddr :: "SOCKETADDRESS option"
  remoteAddr :: "SOCKETADDRESS option"
  localDeviceId :: NETSIM_ID
  remoteDeviceId :: NETSIM_ID
  sId :: "nat option"
  waitFromApp :: bool
  isAPPClose :: bool
  listen_callback :: bool
  tcb :: TCB
  tcpMetrics :: TCP_METRICS
  iface :: "TCP_PACKET list"
  posted :: "TCP_EVENT list"
  tcpErrors :: nat
  cubicStatics :: CUBIC_STATICS

text \<open>
  What a socket pointer leads to after a call: a socket with its control block, a socket
  whose control block is gone (\<open>tcb == NULL\<close>), or memory that \<open>tcp_close_socket\<close> has freed,
  with the device whose list the socket was taken from and the last contents.
\<close>

datatype SOCKET_REF = Live NETSIM_SOCKET | NoTcb NETSIM_SOCKET | Freed NETSIM_ID NETSIM_SOCKET

text \<open>The socket a reference leads to, or led to before it was freed.\<close>

fun sock_of :: "SOCKET_REF \<Rightarrow> NETSIM_SOCKET" where
  "sock_of (Live s) = s"
| "sock_of (NoTcb s) = s"
| "sock_of (Freed d s) = s"

record TCP_DEV_VAR =
  tv_tcpVariant :: TCPVARIANT
  tv_initSSThresh :: u16
  tv_MSS :: u16
  tv_MaxSynRetries :: u32
  tv_ackType :: TCPACKTYPE
  tv_timeWaitTimer :: simtime
  tv_dDelayedAckTime :: simtime
  tv_isSackPermitted :: bool
  tv_isWindowScaling :: bool
  tv_shiftCount :: u8
  tv_isTimestampOpt :: bool
  tv_beta :: real
  tv_low_window :: u32
  tv_max_increment :: u32
  tv_smooth_part :: u32
  tv_bic_scale :: u32
  tv_hystart_low_window :: u32
  tv_hystart_ack_delta :: u32

text \<open>
  The surroundings of a call: the current event, the device variables
  (\<open>GET_TCP_DEV_VAR\<close>, \<open>None\<close> for the null pointer), and the stack functions whose sources
  are not in the repository.  \<open>GetPacketFromInterface sId isRemove iface\<close> returns the packet
  and the interface after the call; \<open>blankTcpPacket\<close> is what
  \<open>fn_NetSim_Packet_CreatePacket(TRANSPORT_LAYER)\<close> returns.  \<open>GET_PACKET_FROM_APP\<close> is declared
  in \<open>TCP.h\<close> and reads the interface of the current event; its argument and result are all the
  interfaces.
\<close>

record TCP_ENV =
  tev :: TCP_EVENT
  GET_TCP_DEV_VAR :: "NETSIM_ID \<Rightarrow> TCP_DEV_VAR option"
  GetPacketFromInterface ::
    "nat option \<Rightarrow> bool \<Rightarrow> TCP_PACKET list \<Rightarrow> TCP_PACKET option \<times> TCP_PACKET list"
  GetNWProtocolId :: "NETSIM_ID \<Rightarrow> nat"
  blankTcpPacket :: TCP_PACKET
  add_dest_to_tcp_packet :: "TCP_PACKET \<Rightarrow> NETSIM_ID \<Rightarrow> TCP_PACKET"
  get_first_dest_from_packet :: "TCP_PACKET \<Rightarrow> NETSIM_ID"
  GetSocketInterface :: "NETSIM_ID \<Rightarrow> u16 \<Rightarrow> u16 \<Rightarrow> nat option"
  GET_PACKET_FROM_APP ::
    "nat option \<Rightarrow> bool \<Rightarrow> (nat \<Rightarrow> TCP_PACKET list) \<Rightarrow> TCP_PACKET option \<times> (nat \<Rightarrow> TCP_PACKET list)"
  DEVICE_NWADDRESS :: "NETSIM_ID \<Rightarrow> nat \<Rightarrow> NETSIM_IPAddress"
  STR_TO_IP :: "string \<Rightarrow> int \<Rightarrow> NETSIM_IPAddress"

abbreviation now :: "TCP_ENV \<Rightarrow> simtime" where
  "now E \<equiv> te_dEventTime (tev E)"

definition on_tcb :: "(TCB \<Rightarrow> TCB) \<Rightarrow> NETSIM_SOCKET \<Rightarrow> NETSIM_SOCKET" where
  "on_tcb f s = s\<lparr>tcb := f (tcb s)\<rparr>"

definition on_cv :: "(CONGESTIONVAR \<Rightarrow> CONGESTIONVAR) \<Rightarrow> NETSIM_SOCKET \<Rightarrow> NETSIM_SOCKET" where
  "on_cv f = on_tcb (\<lambda>t. t\<lparr>congestionData := f (congestionData t)\<rparr>)"

definition on_metrics :: "(TCP_METRICS \<Rightarrow> TCP_METRICS) \<Rightarrow> NETSIM_SOCKET \<Rightarrow> NETSIM_SOCKET" where
  "on_metrics f s = s\<lparr>tcpMetrics := f (tcpMetrics s)\<rparr>"

definition tcp_error :: "NETSIM_SOCKET \<Rightarrow> NETSIM_SOCKET" where
  "tcp_error s = s\<lparr>tcpErrors := Suc (tcpErrors s)\<rparr>"

abbreviation get_congestionvar :: "NETSIM_SOCKET \<Rightarrow> CONGESTIONVAR" where
  "get_congestionvar s \<equiv> congestionData (tcb s)"

text \<open>The callbacks \<open>get_MSS\<close> and \<open>get_WND\<close> of the control block.\<close>

definition congestion_get_MSS :: "NETSIM_SOCKET \<Rightarrow> u16" where
  "congestion_get_MSS s = SMSS (get_congestionvar s)"

definition congestion_get_WND :: "NETSIM_SOCKET \<Rightarrow> u16" where
  "congestion_get_WND s = cwnd (get_congestionvar s)"

lemmas tcp_upd_defs = on_tcb_def on_cv_def on_metrics_def tcp_error_def

section \<open>Words of 16 and 32 bits\<close>

lemma unat_u16_less: "unat (c :: u16) < 65536"
  by (rule less_le_trans [OF unsigned_less]) simp

lemma unat_ucast_u32 [simp]: "unat (ucast (c :: u16) :: u32) = unat c"
  using unat_u16_less [of c] by (simp add: unsigned_ucast_eq take_bit_nat_eq_self)

lemma unat_push_u16:
  assumes "n \<le> 16"
  shows "unat (push_bit n (ucast (c :: u16) :: u32)) = unat c * 2 ^ n"
    and "unat (push_bit n (ucast c :: u32) + ucast (i :: u16)) = unat c * 2 ^ n + unat i"
proof -
  have c: "unat c \<le> 65535" and i: "unat i \<le> 65535"
    using unat_u16_less [of c] unat_u16_less [of i] by simp_all
  have p: "(2::nat) ^ n \<le> 65536" using power_increasing [OF assms, of "2::nat"] by simp
  have b: "unat c * 2 ^ n + unat i < 4294967296"
    using mult_le_mono [OF c p] i by simp
  then show 1: "unat (push_bit n (ucast c :: u32)) = unat c * 2 ^ n"
    by (simp add: unsigned_push_bit_eq take_bit_nat_eq_self push_bit_nat_def mult.commute)
  show "unat (push_bit n (ucast c :: u32) + ucast i) = unat c * 2 ^ n + unat i"
    using b by (subst unat_add_lem [THEN iffD1]) (simp_all add: 1)
qed

lemma unat_u32_less: "unat (x :: u32) < 4294967296"
  by (rule less_le_trans [OF unsigned_less]) simp

lemma unat_drop_u32: "unat (drop_bit n (x :: u32)) = unat x div 2 ^ n"
  using unat_u32_less [of x]
  by (simp add: unsigned_drop_bit_eq drop_bit_nat_def take_bit_nat_eq_self)

lemma word_of_min:
  assumes "unat (x :: u32) = m"
  shows "(if x \<ge> 65535 then 65535 else ucast x) = (of_nat (min 65535 m) :: u16)"
proof (cases "x \<ge> 65535")
  case True
  with assms show ?thesis by (simp add: word_le_nat_alt)
next
  case False
  then have "m < 65535" using assms by (simp add: word_le_nat_alt)
  with False show ?thesis by (simp flip: assms)
qed

lemma ucast_u16_eq_0 [simp]: "(ucast (c :: u16) :: u32) = 0 \<longleftrightarrow> c = 0"
  by (metis unat_ucast_u32 unat_eq_zero)

lemma ucast_add_down: "(ucast (x + y :: u32) :: u16) = ucast x + ucast y"
proof transfer
  fix x y :: int
  have "take_bit 16 (take_bit 32 x + take_bit 32 y) = take_bit 16 (x + y)"
    by (subst take_bit_add [symmetric]) (simp add: take_bit_take_bit, simp add: take_bit_add)
  then show "take_bit LENGTH(16) (take_bit LENGTH(32) (x + y))
     = take_bit LENGTH(16) (take_bit LENGTH(32) x + take_bit LENGTH(32) y)"
    by simp
qed

lemma ucast_mult_down: "(ucast (x * y :: u32) :: u16) = ucast x * ucast y"
proof transfer
  fix x y :: int
  have "take_bit 16 (take_bit 32 x * take_bit 32 y) = take_bit 16 (x * y)"
    by (subst take_bit_mult [symmetric]) (simp add: take_bit_take_bit, simp add: take_bit_mult)
  then show "take_bit LENGTH(16) (take_bit LENGTH(32) (x * y))
     = take_bit LENGTH(16) (take_bit LENGTH(32) x * take_bit LENGTH(32) y)"
    by simp
qed

lemma ucast_up_down [simp]: "(ucast (ucast (a :: u16) :: u32) :: u16) = a"
  by transfer (simp add: take_bit_take_bit)

lemma ucast_add_u16: "(ucast (ucast a + k * ucast b :: u32) :: u16) = a + ucast k * b"
  by (simp add: ucast_add_down ucast_mult_down)

end
