(* ===== verification/Tcp_Queue.thy ===== *)
theory Tcp_Queue
  imports Tcp_Types
begin

text \<open>
  The segment queues of a control block (\<open>TCP/TCB.c\<close>): the retransmission queue and the
  queue of segments that arrived out of order.  A queue is a chain of cells kept in the
  order of sequence numbers with the sum of the packet sizes beside it.

  The interface \<open>ordered_chain\<close> states what an insertion promises; the invariant \<open>queue_ok\<close>
  (sorted, size equal to the sum of the packet sizes modulo \<open>2 ^ 32\<close>, head pointer valid) is
  kept by every operation but \<open>free_queue\<close>, which leaves the head pointer on freed cells.
\<close>

section \<open>Operations\<close>

definition cell_seq :: "Queueinfo \<Rightarrow> u32" where
  "cell_seq c = SeqNum (TCP_GET_SEGMENT_HDR (qi_packet c))"

definition cell_size :: "Queueinfo \<Rightarrow> u32" where
  "cell_size c = double_to_uint (tp_dPacketSize (qi_packet c))"

definition get_seg_len :: "TCP_PACKET \<Rightarrow> u32" where
  "get_seg_len p =
     (if Syn (TCP_GET_SEGMENT_HDR p) then 1 else double_to_uint (tp_dPayload p))"

definition cell_end :: "Queueinfo \<Rightarrow> u32" where
  "cell_end c = cell_seq c + get_seg_len (qi_packet c)"

text \<open>\<open>free_queue\<close> frees every cell and leaves \<open>queue->queue\<close> and \<open>queue->size\<close> as they are.\<close>

definition free_queue :: "TCP_QUEUE \<Rightarrow> TCP_QUEUE option" where
  "free_queue Q = (case tq_queue Q of
       None \<Rightarrow> None
     | Some [] \<Rightarrow> Some Q
     | Some (_ # _) \<Rightarrow> Some (Q\<lparr>tq_queue := None\<rparr>))"

definition delete_all_segment_from_queue :: "TCP_QUEUE \<Rightarrow> TCP_QUEUE option" where
  "delete_all_segment_from_queue Q = free_queue Q"

text \<open>The search loop of \<open>add_packet_to_queue\<close> and the linking at its end.\<close>

fun insert_cell :: "Queueinfo \<Rightarrow> Queueinfo list \<Rightarrow> Queueinfo list" where
  "insert_cell ninfo [] = [ninfo]"
| "insert_cell ninfo (info # rest) =
     (if cell_seq info < cell_seq ninfo then info # insert_cell ninfo rest
      else ninfo # info # rest)"

definition add_packet_to_queue :: "TCP_QUEUE \<Rightarrow> TCP_PACKET \<Rightarrow> simtime \<Rightarrow> TCP_QUEUE option" where
  "add_packet_to_queue Q p time = do {
     cs \<leftarrow> tq_queue Q;
     Some (Q\<lparr>tq_size := tq_size Q + double_to_uint (tp_dPacketSize p),
             tq_queue := Some (insert_cell
               \<lparr>qi_packet = p, qi_time = time, qi_isSacked = False\<rparr> cs)\<rparr>) }"

definition isSegmentInQueue :: "TCP_QUEUE \<Rightarrow> TCP_PACKET \<Rightarrow> bool option" where
  "isSegmentInQueue Q p = do {
     cs \<leftarrow> tq_queue Q;
     Some (list_ex (\<lambda>c. SeqNum (TCP_GET_SEGMENT_HDR p) = cell_seq c) cs) }"

definition get_segment_from_queue ::
  "TCP_QUEUE \<Rightarrow> u32 \<Rightarrow> (TCP_PACKET option \<times> TCP_QUEUE) option" where
  "get_segment_from_queue Q seqNo = do {
     cs \<leftarrow> tq_queue Q;
     Some (case first_idx (\<lambda>c. cell_seq c = seqNo) cs of
         None \<Rightarrow> (None, Q)
       | Some i \<Rightarrow> (Some (qi_packet (cs ! i)),
           Q\<lparr>tq_size := tq_size Q - cell_size (cs ! i),
             tq_queue := Some (remove_nth i cs)\<rparr>)) }"

text \<open>The copy and the cell's \<open>isSacked\<close>; \<open>None\<close> inside is the null pointer.\<close>

definition get_copy_segment_from_queue ::
  "TCP_QUEUE \<Rightarrow> u32 \<Rightarrow> (TCP_PACKET \<times> bool) option option" where
  "get_copy_segment_from_queue Q seqNo = do {
     cs \<leftarrow> tq_queue Q;
     Some (map_option (\<lambda>c. (qi_packet c, qi_isSacked c)) (find (\<lambda>c. cell_seq c = seqNo) cs)) }"

text \<open>The loop of \<open>delete_segment_from_queue\<close> on the size and the remaining cells.\<close>

fun delete_cells :: "u32 \<Rightarrow> u32 \<Rightarrow> Queueinfo list \<Rightarrow> u32 \<times> Queueinfo list" where
  "delete_cells ackNo sz [] = (sz, [])"
| "delete_cells ackNo sz (info # rest) =
     (if cell_end info \<le> ackNo then delete_cells ackNo (sz - cell_size info) rest
      else (let (sz', rest') = delete_cells ackNo sz rest in (sz', info # rest')))"

definition delete_segment_from_queue :: "TCP_QUEUE \<Rightarrow> u32 \<Rightarrow> TCP_QUEUE option" where
  "delete_segment_from_queue Q ackNo = do {
     cs \<leftarrow> tq_queue Q;
     let (sz, cs') = delete_cells ackNo (tq_size Q) cs;
     Some (Q\<lparr>tq_size := sz, tq_queue := Some cs'\<rparr>) }"

definition isAnySegmentInQueue :: "TCP_QUEUE \<Rightarrow> bool" where
  "isAnySegmentInQueue Q \<longleftrightarrow> tq_size Q > 0"

definition get_RTT :: "TCP_ENV \<Rightarrow> TCB \<Rightarrow> u32 \<Rightarrow> simtime option" where
  "get_RTT E t ackNo = do {
     cs \<leftarrow> tq_queue (retransmissionQueue t);
     Some (case find (\<lambda>c. cell_end c = ackNo) cs of
         Some c \<Rightarrow> now E - qi_time c
       | None \<Rightarrow> 0) }"

definition check_for_other_segment_to_send_from_queue ::
  "NETSIM_SOCKET \<Rightarrow> (TCP_PACKET option \<times> NETSIM_SOCKET) option" where
  "check_for_other_segment_to_send_from_queue s = do {
     let Q = outOfOrderSegment (tcb s);
     cs \<leftarrow> tq_queue Q;
     Some (case cs of
         [] \<Rightarrow> (None, s)
       | info # rest \<Rightarrow>
           if cell_seq info < RCV_NXT (tcb s)
           then (Some (qi_packet info),
                 on_tcb (\<lambda>t. t\<lparr>outOfOrderSegment :=
                   Q\<lparr>tq_size := tq_size Q - cell_size info, tq_queue := Some rest\<rparr>\<rparr>) s)
           else (None, s)) }"

text \<open>The loop of \<open>check_segment_in_queue\<close>: \<open>RCV.NXT\<close> moves over the cells that continue it.\<close>

fun advance_rcv_nxt :: "u32 \<Rightarrow> Queueinfo list \<Rightarrow> u32" where
  "advance_rcv_nxt nxt [] = nxt"
| "advance_rcv_nxt nxt (info # rest) =
     advance_rcv_nxt (if cell_seq info = nxt then nxt + get_seg_len (qi_packet info) else nxt) rest"

definition check_segment_in_queue :: "NETSIM_SOCKET \<Rightarrow> NETSIM_SOCKET option" where
  "check_segment_in_queue s = do {
     cs \<leftarrow> tq_queue (outOfOrderSegment (tcb s));
     Some (on_tcb (\<lambda>t. t\<lparr>RCV_NXT := advance_rcv_nxt (RCV_NXT t) cs\<rparr>) s) }"

definition update_seq_num_on_receiving :: "NETSIM_SOCKET \<Rightarrow> TCP_PACKET \<Rightarrow> NETSIM_SOCKET" where
  "update_seq_num_on_receiving s p =
     (let hdr = TCP_GET_SEGMENT_HDR p in
      on_tcb (\<lambda>t. t\<lparr>SEG_ACK := AckNum hdr, SEG_LEN := get_seg_len p, SEG_SEQ := SeqNum hdr,
                    SEG_WND := ucast (Window hdr)\<rparr>) s)"

section \<open>The insertion as an ordered chain\<close>

locale ordered_chain =
  fixes key :: "'c \<Rightarrow> 'k :: linorder"
    and insert_at :: "'c \<Rightarrow> 'c list \<Rightarrow> 'c list"
  assumes insert_split:
    "\<exists>ys zs. xs = ys @ zs \<and> insert_at c xs = ys @ c # zs \<and> (\<forall>y \<in> set ys. key y < key c)
       \<and> (sorted (map key xs) \<longrightarrow> (\<forall>z \<in> set zs. key c \<le> key z))"
begin

lemma insert_sorted:
  assumes "sorted (map key xs)"
  shows "sorted (map key (insert_at c xs))"
proof -
  from insert_split obtain ys zs where "xs = ys @ zs" "insert_at c xs = ys @ c # zs"
    "\<forall>y \<in> set ys. key y < key c" "sorted (map key xs) \<longrightarrow> (\<forall>z \<in> set zs. key c \<le> key z)"
    by blast
  with assms show ?thesis by (force simp: sorted_append)
qed

lemma insert_set: "set (insert_at c xs) = insert c (set xs)"
  using insert_split [of xs c] by force

lemma insert_sum: "sum_list (map f (insert_at c xs)) = f c + (sum_list (map f xs) :: 'm :: comm_monoid_add)"
proof -
  from insert_split obtain ys zs where "xs = ys @ zs" "insert_at c xs = ys @ c # zs"
    by blast
  then show ?thesis by (simp add: ac_simps)
qed

text \<open>The inserted cell is the first one with its key, at the place the search reports.\<close>

lemma insert_first:
  obtains i where "first_idx (\<lambda>x. key x = key c) (insert_at c xs) = Some i"
    and "insert_at c xs ! i = c" and "remove_nth i (insert_at c xs) = xs"
proof -
  from insert_split obtain ys zs where *: "xs = ys @ zs" "insert_at c xs = ys @ c # zs"
    "\<forall>y \<in> set ys. key y < key c" by blast
  have "first_idx (\<lambda>x. key x = key c) (ys @ c # zs) = Some (length ys)"
    using *(3) by (induction ys) auto
  then show thesis
    by (intro that [of "length ys"]; simp only: *(2)) (simp_all add: *(1) remove_nth_def)
qed

end

lemma insert_cell_split:
  "\<exists>ys zs. xs = ys @ zs \<and> insert_cell c xs = ys @ c # zs \<and> (\<forall>y \<in> set ys. cell_seq y < cell_seq c)
     \<and> (sorted (map cell_seq xs) \<longrightarrow> (\<forall>z \<in> set zs. cell_seq c \<le> cell_seq z))"
proof (induction xs)
  case Nil
  then show ?case by simp
next
  case (Cons x xs)
  show ?case
  proof (cases "cell_seq x < cell_seq c")
    case True
    from Cons obtain ys zs where "xs = ys @ zs" "insert_cell c xs = ys @ c # zs"
      "\<forall>y \<in> set ys. cell_seq y < cell_seq c"
      "sorted (map cell_seq xs) \<longrightarrow> (\<forall>z \<in> set zs. cell_seq c \<le> cell_seq z)" by blast
    with True show ?thesis
      by (intro exI [of _ "x # ys"] exI [of _ zs]) auto
  next
    case False
    then show ?thesis
      by (intro exI [of _ "[]"] exI [of _ "x # xs"]) (auto simp: not_less)
  qed
qed

interpretation chain: ordered_chain cell_seq insert_cell
  by unfold_locales (rule insert_cell_split)

section \<open>Invariant\<close>

definition queue_ok :: "TCP_QUEUE \<Rightarrow> bool" where
  "queue_ok Q \<longleftrightarrow> (case tq_queue Q of
       None \<Rightarrow> False
     | Some cs \<Rightarrow> sorted (map cell_seq cs) \<and> tq_size Q = sum_list (map cell_size cs))"

lemma queue_okE:
  assumes "queue_ok Q"
  obtains cs where "tq_queue Q = Some cs" "sorted (map cell_seq cs)"
    "tq_size Q = sum_list (map cell_size cs)"
  using assms by (auto simp: queue_ok_def split: option.splits)

lemma queue_okI:
  "tq_queue Q = Some cs \<Longrightarrow> sorted (map cell_seq cs) \<Longrightarrow> tq_size Q = sum_list (map cell_size cs) \<Longrightarrow>
     queue_ok Q"
  by (simp add: queue_ok_def)

lemma zero_queue_ok [simp]: "queue_ok zero_queue"
  by (simp add: queue_ok_def zero_queue_def)

lemma sorted_remove_nth: "sorted xs \<Longrightarrow> sorted (remove_nth i xs)"
proof (induction xs arbitrary: i)
  case Nil
  then show ?case by (simp add: remove_nth_def)
next
  case (Cons x xs)
  then show ?case using set_remove_nth by (cases i) fastforce+
qed

lemma sum_remove_nth:
  "i < length xs \<Longrightarrow> sum_list (map f (remove_nth i xs)) = sum_list (map f xs) - (f (xs ! i) :: 'g :: ab_group_add)"
proof (induction xs arbitrary: i)
  case Nil
  then show ?case by simp
next
  case (Cons x xs)
  then show ?case by (cases i) (auto simp: algebra_simps)
qed

lemma delete_cells_filter:
  "delete_cells a sz cs =
     (sz - sum_list (map cell_size (filter (\<lambda>c. cell_end c \<le> a) cs)),
      filter (\<lambda>c. \<not> cell_end c \<le> a) cs)"
  by (induction cs arbitrary: sz) (auto simp: algebra_simps)

lemma sum_list_filter_split:
  "sum_list (map f (filter P xs)) + sum_list (map f (filter (\<lambda>x. \<not> P x) xs))
     = (sum_list (map f xs) :: 'm :: comm_monoid_add)"
  by (induction xs) (auto simp: ac_simps)

lemma sorted_map_filter_cells: "sorted (map cell_seq cs) \<Longrightarrow> sorted (map cell_seq (filter P cs))"
  by (simp add: sorted_filter)

lemma add_packet_to_queue_total:
  "queue_ok Q \<Longrightarrow> \<exists>Q'. add_packet_to_queue Q p t = Some Q' \<and> queue_ok Q'"
  by (erule queue_okE)
     (auto simp: add_packet_to_queue_def queue_ok_def chain.insert_sorted chain.insert_sum
        cell_size_def)

lemma get_segment_from_queue_ok:
  assumes "queue_ok Q"
  obtains r Q' where "get_segment_from_queue Q n = Some (r, Q')" and "queue_ok Q'"
proof -
  from assms obtain cs where cs: "tq_queue Q = Some cs" "sorted (map cell_seq cs)"
    "tq_size Q = sum_list (map cell_size cs)" by (rule queue_okE)
  show thesis
  proof (cases "first_idx (\<lambda>c. cell_seq c = n) cs")
    case None
    with assms cs that show thesis by (simp add: get_segment_from_queue_def)
  next
    case (Some i)
    then have "i < length cs" by (simp add: first_idx_SomeD)
    with Some cs that show thesis
      by (simp add: get_segment_from_queue_def queue_ok_def sorted_remove_nth sum_remove_nth
          map_remove_nth [of cell_seq])
  qed
qed

lemma sum_cells_diff:
  "sum_list (map f xs) - sum_list (map f (filter P xs))
     = (sum_list (map f (filter (\<lambda>x. \<not> P x) xs)) :: 'g :: ab_group_add)"
  by (simp add: diff_eq_eq add.commute sum_list_filter_split)

lemma delete_segment_from_queue_ok:
  "queue_ok Q \<Longrightarrow> \<exists>Q'. delete_segment_from_queue Q a = Some Q' \<and> queue_ok Q'"
  by (erule queue_okE)
     (simp add: delete_segment_from_queue_def delete_cells_filter queue_ok_def
          sorted_map_filter_cells sum_cells_diff del: not_le)

text \<open>
  The small components of a connection: the retransmission timeout (\<open>TCP/RTO.c\<close>), the window
  scale option (\<open>TCP/WindowScale.c\<close>), delayed acknowledgements (\<open>TCP/DelayedAck.c\<close>) and the
  timestamp option (\<open>TCP/TCB.c\<close>).
\<close>

section \<open>Retransmission timeout\<close>

definition RTO_alpha :: real where "RTO_alpha = 1 / 8"
definition RTO_beta :: real where "RTO_beta = 1 / 4"
definition RTO_G :: simtime where "RTO_G = 0.5 * SECOND"
definition RTO_K :: real where "RTO_K = 4"

text \<open>The timeout and the new \<open>srtt\<close> and \<open>rtt_var\<close>.\<close>

definition calculate_RTO ::
  "simtime \<Rightarrow> simtime \<Rightarrow> simtime \<Rightarrow> simtime \<times> simtime \<times> simtime" where
  "calculate_RTO R srtt rtt_var =
     (let (rto, srtt', rtt_var') =
        (if R = 0 then (1 * SECOND, srtt, rtt_var)
         else if srtt = 0 then
           (let srtt' = R; rtt_var' = R / 2
            in (srtt' + max RTO_G (RTO_K * rtt_var'), srtt', rtt_var'))
         else
           (let rtt_var' = (1 - RTO_beta) * rtt_var + RTO_beta * \<bar>srtt - R\<bar>;
                srtt' = (1 - RTO_alpha) * srtt + RTO_alpha * R
            in (srtt' + max RTO_G (RTO_K * rtt_var'), srtt', rtt_var')))
      in (min (max rto RTO_G) (60 * SECOND), srtt', rtt_var'))"

definition Backoff_RTO :: "simtime \<Rightarrow> simtime" where
  "Backoff_RTO rto = min (max (rto * 2) RTO_G) (60 * SECOND)"

lemmas rto_consts = RTO_alpha_def RTO_beta_def RTO_G_def RTO_K_def SECOND_def

section \<open>Window scaling\<close>

definition set_window_scaling :: "Wsopt option \<Rightarrow> TCB \<Rightarrow> TCB" where
  "set_window_scaling opt t = (case opt of
       Some o' \<Rightarrow>
         if isWindowScaling t
         then t\<lparr>Snd_Wind_Shift := min (Snd_Wind_Shift t) (Shift_cnt o'),
                Rcv_Wind_Shift := min (Rcv_Wind_Shift t) (Shift_cnt o')\<rparr>
         else t\<lparr>isWindowScaling := False, Snd_Wind_Shift := 0, Rcv_Wind_Shift := 0\<rparr>
     | None \<Rightarrow> t\<lparr>isWindowScaling := False, Snd_Wind_Shift := 0, Rcv_Wind_Shift := 0\<rparr>)"

definition get_shift_count :: "TCB \<Rightarrow> u8" where
  "get_shift_count t = (if isWindowScaling t then Snd_Wind_Shift t else 0)"

definition set_window_scaling_option :: "TCP_DEV_VAR \<Rightarrow> TCB \<Rightarrow> TCB" where
  "set_window_scaling_option tcp t =
     (if tv_isWindowScaling tcp
      then t\<lparr>isWindowScaling := True, Snd_Wind_Shift := tv_shiftCount tcp,
             Rcv_Wind_Shift := tv_shiftCount tcp\<rparr>
      else t)"

definition window_scale_get_cwnd :: "NETSIM_SOCKET \<Rightarrow> u32 option" where
  "window_scale_get_cwnd s =
     (let c = ucast (congestion_get_WND s) in
      if isWindowScaling (tcb s) then shl32 c (Snd_Wind_Shift (tcb s)) else Some c)"

definition window_scale_get_wnd :: "NETSIM_SOCKET \<Rightarrow> u16 option" where
  "window_scale_get_wnd s =
     (if isWindowScaling (tcb s)
      then map_option ucast (shr32 (SND_WND (tcb s)) (Snd_Wind_Shift (tcb s)))
      else Some (ucast (SND_WND (tcb s))))"

section \<open>Delayed acknowledgement\<close>

definition set_ack_type :: "TCP_DEV_VAR \<Rightarrow> TCB \<Rightarrow> TCB" where
  "set_ack_type tcp t =
     t\<lparr>ackType := tv_ackType tcp, delayedAckTime := tv_dDelayedAckTime tcp,
       isAckSentLastTime := False\<rparr>"

definition send_ack_or_not :: "TCP_ENV \<Rightarrow> TCB \<Rightarrow> bool \<times> TCB" where
  "send_ack_or_not E t =
     (if ackType t = TCPACKTYPE_UNDELAYED then (True, t)
      else if lastAckSendTime t + delayedAckTime t \<le> now E
      then (True, t\<lparr>lastAckSendTime := now E, isAckSentLastTime := True\<rparr>)
      else if isAckSentLastTime t then (False, t\<lparr>isAckSentLastTime := False\<rparr>)
      else (True, t\<lparr>lastAckSendTime := now E, isAckSentLastTime := True\<rparr>))"

section \<open>Timestamp option\<close>

definition set_timestamp_option :: "TCP_DEV_VAR \<Rightarrow> TCB \<Rightarrow> TCB" where
  "set_timestamp_option tcp t = t\<lparr>isTSopt := tv_isTimestampOpt tcp\<rparr>"

definition set_timestamp_value :: "TCP_SEGMENT_HDR \<Rightarrow> TSopt option \<Rightarrow> TCB \<Rightarrow> TCB" where
  "set_timestamp_value hdr opt t =
     (let t = (if Syn hdr then t\<lparr>isTSopt := (opt \<noteq> None \<and> isTSopt t)\<rparr> else t) in
      case opt of
        Some o' \<Rightarrow> if isTSopt t then t\<lparr>TSVal := TSval o'\<rparr> else t
      | None \<Rightarrow> t)"

end
