(* ===== verification/Tcp_Packet.thy ===== *)
theory Tcp_Packet
  imports Tcp_Queue
begin

text \<open>
  Building and copying segments (\<open>TCP/TCP_Packet.c\<close>) and the SACK option of an
  acknowledgement (\<open>set_sack_option\<close> in \<open>TCP/SACK.c\<close>).  The \<open>free_...\<close> functions of the file
  only release memory and have no counterpart on values.
\<close>

section \<open>Options\<close>

definition isSynPacket :: "TCP_PACKET \<Rightarrow> bool" where
  "isSynPacket p \<longleftrightarrow> Syn (TCP_GET_SEGMENT_HDR p) \<and> \<not> Ack (TCP_GET_SEGMENT_HDR p)"

definition isSynbitSet :: "TCP_PACKET \<Rightarrow> bool" where
  "isSynbitSet p \<longleftrightarrow> Syn (TCP_GET_SEGMENT_HDR p)"

text \<open>\<open>HdrLength\<close> is an 8 bit field: the sum wraps.\<close>

definition set_tcp_option ::
  "OPTION_BODY \<Rightarrow> TCP_OPTION \<Rightarrow> u32 \<Rightarrow> TCP_SEGMENT_HDR \<Rightarrow> TCP_SEGMENT_HDR" where
  "set_tcp_option body type sz hdr =
     hdr\<lparr>HdrLength := ucast (ucast (HdrLength hdr) + sz),
         th_option := th_option hdr @
           [\<lparr>to_type = type, to_option = body, to_size = sz\<rparr>]\<rparr>"

definition get_tcp_option :: "TCP_SEGMENT_HDR \<Rightarrow> TCP_OPTION \<Rightarrow> OPTION_BODY option" where
  "get_tcp_option hdr type =
     map_option to_option (find (\<lambda>o'. to_type o' = type) (th_option hdr))"

text \<open>
  The casts the callers make on the \<open>void*\<close>: the inner \<open>None\<close> is the null pointer, the outer
  one a body of another type.
\<close>

fun as_mss :: "OPTION_BODY option \<Rightarrow> MSS_OPTION option option" where
  "as_mss None = Some None"
| "as_mss (Some (BodyMss m)) = Some (Some m)"
| "as_mss _ = None"

fun as_ws :: "OPTION_BODY option \<Rightarrow> Wsopt option option" where
  "as_ws None = Some None"
| "as_ws (Some (BodyWs m)) = Some (Some m)"
| "as_ws _ = None"

fun as_ts :: "OPTION_BODY option \<Rightarrow> TSopt option option" where
  "as_ts None = Some None"
| "as_ts (Some (BodyTs m)) = Some (Some m)"
| "as_ts _ = None"

fun as_sack :: "OPTION_BODY option \<Rightarrow> SACK_OPTION option option" where
  "as_sack None = Some None"
| "as_sack (Some (BodySack m)) = Some (Some m)"
| "as_sack _ = None"

definition extra_option :: "TCP_OPTION \<Rightarrow> TCP_SEGMENT_HDR \<Rightarrow> TCP_SEGMENT_HDR" where
  "extra_option type =
     set_tcp_option (BodyExtra \<lparr>ex_type = TCP_OPTION_num type\<rparr>) type (of_nat EXTRA_OPTION_LEN)"

text \<open>The loop of \<open>add_tcp_extra_option\<close> with \<open>k = 4 - l - i\<close> rounds left.\<close>

fun add_tcp_extra_loop :: "nat \<Rightarrow> TCP_SEGMENT_HDR \<Rightarrow> TCP_SEGMENT_HDR" where
  "add_tcp_extra_loop 0 hdr = hdr"
| "add_tcp_extra_loop (Suc k) hdr =
     add_tcp_extra_loop k
       (if k = 0 then extra_option TCP_OPTION_END hdr
        else extra_option TCP_OPTION_NOOPERATION hdr)"

definition add_tcp_extra_option :: "u32 \<Rightarrow> TCP_SEGMENT_HDR \<Rightarrow> TCP_SEGMENT_HDR" where
  "add_tcp_extra_option l hdr = add_tcp_extra_loop (unat (4 - l)) hdr"

definition set_tcp_packet_size :: "TCP_PACKET \<Rightarrow> TCP_PACKET" where
  "set_tcp_packet_size p =
     (let hdr = TCP_GET_SEGMENT_HDR p;
          l = ucast (HdrLength hdr) mod 4;
          hdr = (if l \<noteq> 0 then add_tcp_extra_option l hdr else hdr);
          ovh = real (unat (HdrLength hdr))
      in p\<lparr>tp_hdr := hdr, tp_dOverhead := ovh, tp_dPacketSize := tp_dPayload p + ovh\<rparr>)"

definition add_tcp_mss_option :: "NETSIM_SOCKET \<Rightarrow> TCP_SEGMENT_HDR \<Rightarrow> TCP_SEGMENT_HDR" where
  "add_tcp_mss_option s =
     set_tcp_option (BodyMss \<lparr>mss_type = TCP_OPTION_num TCP_OPTION_MSS,
         mss_len = of_nat MSS_OPTION_LEN, MSSData = congestion_get_MSS s\<rparr>)
       TCP_OPTION_MSS (of_nat MSS_OPTION_LEN)"

definition add_tcp_sack_permitted_option :: "TCP_SEGMENT_HDR \<Rightarrow> TCP_SEGMENT_HDR" where
  "add_tcp_sack_permitted_option =
     set_tcp_option (BodySackPermitted \<lparr>sp_type = TCP_OPTION_num TCP_OPTION_SACK_PERMITTED,
         sp_len = of_nat SACKPERMITTED_OPTION_LEN\<rparr>)
       TCP_OPTION_SACK_PERMITTED (of_nat SACKPERMITTED_OPTION_LEN)"

definition add_tcp_window_scale_option ::
  "NETSIM_SOCKET \<Rightarrow> TCP_SEGMENT_HDR \<Rightarrow> TCP_SEGMENT_HDR" where
  "add_tcp_window_scale_option s hdr =
     extra_option TCP_OPTION_NOOPERATION
       (set_tcp_option (BodyWs \<lparr>ws_type = TCP_OPTION_num TCP_OPTION_WINDOW_SCALE,
           ws_len = of_nat WSOPT_LEN, Shift_cnt = Snd_Wind_Shift (tcb s)\<rparr>)
         TCP_OPTION_WINDOW_SCALE (of_nat WSOPT_LEN) hdr)"

definition add_tcp_timestamp_option ::
  "TCP_ENV \<Rightarrow> NETSIM_SOCKET \<Rightarrow> TCP_SEGMENT_HDR \<Rightarrow> TCP_SEGMENT_HDR" where
  "add_tcp_timestamp_option E s hdr =
     extra_option TCP_OPTION_NOOPERATION
       (set_tcp_option (BodyTs \<lparr>ts_type = TCP_OPTION_num TCP_OPTION_TIMESTAMP,
           ts_len = of_nat TSOPT_LEN, TSval = double_to_uint (now E),
           TSecr = (if \<not> Ack hdr then 0 else TSVal (tcb s))\<rparr>)
         TCP_OPTION_TIMESTAMP (of_nat TSOPT_LEN) hdr)"

section \<open>The SACK option of an acknowledgement\<close>

definition get_max_sack_data :: "TCP_SEGMENT_HDR \<Rightarrow> u32" where
  "get_max_sack_data hdr = word_of_int
     (let d = int MAX_TCP_HDR_SIZE - int (unat (HdrLength hdr)) - int SACK_OPTION_FIX_LEN
      in if d < 0 then - ((- d) div int SACKDATA_LEN) else d div int SACKDATA_LEN)"

text \<open>\<open>sackData[i] = d\<close> on an array that has room for index \<open>i\<close>.\<close>

definition put_sack :: "u32 \<Rightarrow> SACKDATA \<Rightarrow> SACKDATA list \<Rightarrow> SACKDATA list" where
  "put_sack i d xs = (if unat i < length xs then xs[unat i := d] else xs @ [d])"

fun sack_loop ::
  "u32 \<Rightarrow> u32 \<Rightarrow> SACKDATA list \<Rightarrow> u32 \<Rightarrow> u32 \<Rightarrow> Queueinfo list \<Rightarrow> u32 \<times> SACKDATA list" where
  "sack_loop maxData i sd len lastSeq [] = (i, sd)"
| "sack_loop maxData i sd len lastSeq (q # rest) =
     (let h = TCP_GET_SEGMENT_HDR (qi_packet q);
          l = get_seg_len (qi_packet q);
          block = \<lparr>sd_leftEdge = SeqNum h, sd_rightEdge = SeqNum h + l\<rparr> in
      if lastSeq \<noteq> 0 then
        if SeqNum h = lastSeq + len
        then sack_loop maxData i
               (sd[unat i := (sd ! unat i)\<lparr>sd_rightEdge := SeqNum h + l\<rparr>]) l (SeqNum h) rest
        else if i < maxData - 1
        then sack_loop maxData (i + 1) (put_sack (i + 1) block sd) l (SeqNum h) rest
        else (i, sd)
      else if i < maxData
      then sack_loop maxData i (put_sack i block sd) l (SeqNum h) rest
      else (i, sd))"

definition set_sack_option :: "NETSIM_SOCKET \<Rightarrow> TCP_SEGMENT_HDR \<Rightarrow> TCP_SEGMENT_HDR option" where
  "set_sack_option s hdr =
     (if \<not> isSackPermitted (tcb s) then Some hdr
      else if tq_size (outOfOrderSegment (tcb s)) = 0 then Some hdr
      else let maxData = get_max_sack_data hdr in
        if maxData = 0 then Some hdr
        else do {
          cs \<leftarrow> tq_queue (outOfOrderSegment (tcb s));
          let (i, sd) = sack_loop maxData 0 [] 0 0 cs;
          let len = SACK_OPTION_LEN (i + 1);
          Some (set_tcp_option (BodySack \<lparr>sack_type = TCP_OPTION_num TCP_OPTION_SACK,
              sack_len = len, sackData = sd\<rparr>) TCP_OPTION_SACK (ucast len) hdr) })"

section \<open>Control packets\<close>

definition MAX_TTL :: u8 where "MAX_TTL = 255"

text \<open>
  \<open>create_tcp_ctrl_packet\<close> reads the addresses and device ids of the socket only;
  \<open>create_rst\<close> calls it with a socket on its stack that has only these set.
\<close>

definition create_tcp_ctrl_packet ::
  "TCP_ENV \<Rightarrow> SOCKETADDRESS option \<Rightarrow> SOCKETADDRESS option \<Rightarrow> NETSIM_ID \<Rightarrow> NETSIM_ID \<Rightarrow> nat
     \<Rightarrow> simtime \<Rightarrow> TCP_PACKET option" where
  "create_tcp_ctrl_packet E la ra ld rd type time = do {
     l \<leftarrow> la;
     r \<leftarrow> ra;
     let hdr = zero_hdr\<lparr>HdrLength := of_nat TCP_HDR_SIZE, SrcPort := sa_port l,
                        DstPort := sa_port r\<rparr>;
     let p = (blankTcpPacket E)\<lparr>tp_nControlDataType := type\<rparr>;
     let p = add_dest_to_tcp_packet E p rd;
     Some (p\<lparr>tp_isControl := True, tp_nSourceId := ld, tp_dArrivalTime := time,
             tp_dOverhead := real TCP_HDR_SIZE, tp_dPayload := 0,
             tp_dPacketSize := real TCP_HDR_SIZE, tp_nDestinationPort := sa_port r,
             tp_nSourcePort := sa_port l, tp_hdr := hdr, tp_szSourceIP := sa_ip l,
             tp_szDestIP := sa_ip r, tp_nTTL := MAX_TTL, tp_isIpTcp := True\<rparr>) }"

definition ctrl_packet :: "TCP_ENV \<Rightarrow> NETSIM_SOCKET \<Rightarrow> nat \<Rightarrow> simtime \<Rightarrow> TCP_PACKET option" where
  "ctrl_packet E s type time =
     create_tcp_ctrl_packet E (localAddr s) (remoteAddr s) (localDeviceId s) (remoteDeviceId s)
       type time"

definition on_hdr :: "(TCP_SEGMENT_HDR \<Rightarrow> TCP_SEGMENT_HDR) \<Rightarrow> TCP_PACKET \<Rightarrow> TCP_PACKET" where
  "on_hdr f p = p\<lparr>tp_hdr := f (tp_hdr p)\<rparr>"

definition create_syn :: "TCP_ENV \<Rightarrow> NETSIM_SOCKET \<Rightarrow> simtime \<Rightarrow> TCP_PACKET option" where
  "create_syn E s time = do {
     p \<leftarrow> ctrl_packet E s TCPPACKET_SYN time;
     let hdr = (tp_hdr p)\<lparr>Syn := True, SeqNum := ISS (tcb s), Window := congestion_get_WND s\<rparr>;
     let hdr = add_tcp_mss_option s hdr;
     let hdr = (if isSackPermitted (tcb s) then add_tcp_sack_permitted_option hdr else hdr);
     let hdr = (if isTSopt (tcb s) then add_tcp_timestamp_option E s hdr else hdr);
     let hdr = (if isWindowScaling (tcb s) then add_tcp_window_scale_option s hdr else hdr);
     Some (set_tcp_packet_size (p\<lparr>tp_hdr := hdr\<rparr>)) }"

definition create_synAck :: "TCP_ENV \<Rightarrow> NETSIM_SOCKET \<Rightarrow> simtime \<Rightarrow> TCP_PACKET option" where
  "create_synAck E s time = do {
     p \<leftarrow> ctrl_packet E s TCPPACKET_SYNACK time;
     let hdr = (tp_hdr p)\<lparr>Syn := True, Ack := True, SeqNum := ISS (tcb s),
                 AckNum := RCV_NXT (tcb s), Window := congestion_get_WND s\<rparr>;
     let hdr = add_tcp_mss_option s hdr;
     let hdr = (if isWindowScaling (tcb s) then add_tcp_window_scale_option s hdr else hdr);
     let hdr = (if isSackPermitted (tcb s) then add_tcp_sack_permitted_option hdr else hdr);
     let hdr = (if isTSopt (tcb s) then add_tcp_timestamp_option E s hdr else hdr);
     Some (set_tcp_packet_size (p\<lparr>tp_hdr := hdr\<rparr>)) }"

text \<open>
  The last statement of \<open>create_rst\<close> is \<open>set_tcp_packet_size(p)\<close> on the segment received, not
  on the packet built; the received segment is freed by every caller right after.
\<close>

definition create_rst :: "TCP_ENV \<Rightarrow> TCP_PACKET \<Rightarrow> simtime \<Rightarrow> u32 \<Rightarrow> TCP_PACKET option" where
  "create_rst E p time c = do {
     packet \<leftarrow> create_tcp_ctrl_packet E
       (Some \<lparr>sa_ip = tp_szDestIP p, sa_port = tp_nDestinationPort p\<rparr>)
       (Some \<lparr>sa_ip = tp_szSourceIP p, sa_port = tp_nSourcePort p\<rparr>)
       (get_first_dest_from_packet E p) (tp_nSourceId p) TCPPACKET_RST time;
     let seg = TCP_GET_SEGMENT_HDR p;
     Some (on_hdr (\<lambda>hdr.
       if Ack seg \<or> c = 1
       then hdr\<lparr>SeqNum := AckNum seg, Rst := True\<rparr>
       else hdr\<lparr>SeqNum := 0, AckNum := SeqNum seg + ucast (HdrLength seg), Rst := True,
                Ack := True\<rparr>) packet) }"

definition create_ack ::
  "TCP_ENV \<Rightarrow> NETSIM_SOCKET \<Rightarrow> simtime \<Rightarrow> u32 \<Rightarrow> u32 \<Rightarrow> TCP_PACKET option" where
  "create_ack E s time seqno ackno = do {
     p \<leftarrow> ctrl_packet E s TCPPACKET_ACK time;
     let hdr = (tp_hdr p)\<lparr>Ack := True, SeqNum := seqno, AckNum := ackno,
                 Window := congestion_get_WND s\<rparr>;
     let hdr = (if isTSopt (tcb s) then add_tcp_timestamp_option E s hdr else hdr);
     hdr \<leftarrow> set_sack_option s hdr;
     Some (set_tcp_packet_size (p\<lparr>tp_hdr := hdr\<rparr>)) }"

definition create_fin :: "TCP_ENV \<Rightarrow> NETSIM_SOCKET \<Rightarrow> simtime \<Rightarrow> TCP_PACKET option" where
  "create_fin E s time = do {
     p \<leftarrow> ctrl_packet E s TCPPACKET_FIN time;
     w \<leftarrow> window_scale_get_wnd s;
     let hdr = (tp_hdr p)\<lparr>Fin := True,
                 SeqNum := (if ISS (tcb s) + 1 = SND_NXT (tcb s) then SND_NXT (tcb s) + 1
                            else SND_NXT (tcb s)),
                 Window := w\<rparr>;
     Some (set_tcp_packet_size (p\<lparr>tp_hdr := hdr\<rparr>)) }"

definition add_tcp_hdr :: "TCP_ENV \<Rightarrow> TCP_PACKET \<Rightarrow> NETSIM_SOCKET \<Rightarrow> TCP_PACKET option" where
  "add_tcp_hdr E p s = do {
     l \<leftarrow> localAddr s;
     r \<leftarrow> remoteAddr s;
     w \<leftarrow> window_scale_get_wnd s;
     a \<leftarrow> tp_appData p;
     let hdr = zero_hdr\<lparr>DstPort := sa_port r, HdrLength := of_nat TCP_HDR_SIZE,
                 SeqNum := SND_NXT (tcb s), SrcPort := sa_port l, Window := w\<rparr>;
     let hdr = (if isTSopt (tcb s) then add_tcp_timestamp_option E s hdr else hdr);
     Some (set_tcp_packet_size
       (p\<lparr>tp_dEndTime := now E, tp_dOverhead := real TCP_HDR_SIZE,
          tp_dPayload := app_dPacketSize a, tp_dStartTime := now E, tp_hdr := hdr,
          tp_isIpTcp := True\<rparr>)) }"

section \<open>Copying a header\<close>

definition copy_tcp_mss_option :: "TCPOPTION \<Rightarrow> TCPOPTION option" where
  "copy_tcp_mss_option opt = (case to_option opt of BodyMss m \<Rightarrow> Some opt | _ \<Rightarrow> None)"

definition copy_tcp_sack_permitted_option :: "TCPOPTION \<Rightarrow> TCPOPTION option" where
  "copy_tcp_sack_permitted_option opt =
     (case to_option opt of BodySackPermitted m \<Rightarrow> Some opt | _ \<Rightarrow> None)"

definition copy_tcp_extra_option :: "TCPOPTION \<Rightarrow> TCPOPTION option" where
  "copy_tcp_extra_option opt = (case to_option opt of BodyExtra m \<Rightarrow> Some opt | _ \<Rightarrow> None)"

text \<open>\<open>copy_sack_option\<close> copies as many blocks as the length byte says.\<close>

definition copy_sack_option :: "TCPOPTION \<Rightarrow> TCPOPTION option" where
  "copy_sack_option opt = (case to_option opt of
       BodySack sack \<Rightarrow>
         (let c = unat (get_sack_data_count sack) in
          if c \<le> length (sackData sack)
          then Some (opt\<lparr>to_option := BodySack (sack\<lparr>sackData := take c (sackData sack)\<rparr>)\<rparr>)
          else None)
     | _ \<Rightarrow> None)"

definition copy_window_scale_option :: "TCPOPTION \<Rightarrow> TCPOPTION option" where
  "copy_window_scale_option opt = (case to_option opt of BodyWs m \<Rightarrow> Some opt | _ \<Rightarrow> None)"

definition copy_timestamp_option :: "TCPOPTION \<Rightarrow> TCPOPTION option" where
  "copy_timestamp_option opt = (case to_option opt of BodyTs m \<Rightarrow> Some opt | _ \<Rightarrow> None)"

text \<open>The loop of \<open>copy_tcp_option\<close>; an option of unknown type is left out of the copy.\<close>

fun copy_tcp_option :: "TCPOPTION list \<Rightarrow> TCPOPTION list \<Rightarrow> TCPOPTION list option" where
  "copy_tcp_option d [] = Some d"
| "copy_tcp_option d (opt # rest) = do {
     dopt \<leftarrow> (case to_type opt of
         TCP_OPTION_END \<Rightarrow> map_option Some (copy_tcp_extra_option opt)
       | TCP_OPTION_NOOPERATION \<Rightarrow> map_option Some (copy_tcp_extra_option opt)
       | TCP_OPTION_MSS \<Rightarrow> map_option Some (copy_tcp_mss_option opt)
       | TCP_OPTION_SACK_PERMITTED \<Rightarrow> map_option Some (copy_tcp_sack_permitted_option opt)
       | TCP_OPTION_SACK \<Rightarrow> map_option Some (copy_sack_option opt)
       | TCP_OPTION_WINDOW_SCALE \<Rightarrow> map_option Some (copy_window_scale_option opt)
       | TCP_OPTION_TIMESTAMP \<Rightarrow> map_option Some (copy_timestamp_option opt)
       | _ \<Rightarrow> Some None);
     copy_tcp_option (case dopt of Some o' \<Rightarrow> d @ [o'] | None \<Rightarrow> d) rest }"

definition copy_tcp_hdr :: "TCP_SEGMENT_HDR option \<Rightarrow> TCP_SEGMENT_HDR option option" where
  "copy_tcp_hdr h = (case h of
       None \<Rightarrow> Some None
     | Some hdr \<Rightarrow> do {
         opts \<leftarrow> copy_tcp_option [] (th_option hdr);
         Some (Some (hdr\<lparr>th_option := opts\<rparr>)) })"

end
