(* ===== verification/Tcp_Send.thy ===== *)
theory Tcp_Send
  imports Tcp_Packet
begin

text \<open>
  The sending side: handing a segment to the network layer (\<open>TCP/TCP_NetworkInterface.c\<close>),
  the retransmission timer of a segment (\<open>TCP/RTO.c\<close>), sending and resending segments
  (\<open>TCP/TCP_Outgoing.c\<close>), the control segments (\<open>TCP/TCP_Connection.c\<close>) and closing
  (\<open>TCP/TCP_Socket.c\<close>).

  \<open>fn_NetSim_Packet_CopyPacket\<close> is a stack function; it returns a packet with the contents of
  its argument, so on values it is the identity.  Printing to the TCP log and to the
  congestion plot is left out.
\<close>

definition tcp_change_state :: "TCP_CONNECTION_STATE \<Rightarrow> TCB \<Rightarrow> TCB" where
  "tcp_change_state st t =
     (if tcp_state t \<noteq> st then t\<lparr>tcp_prev_state := tcp_state t, tcp_state := st\<rparr> else t)"

definition fnpAddTcpEvent :: "TCP_EVENT \<Rightarrow> NETSIM_SOCKET \<Rightarrow> NETSIM_SOCKET" where
  "fnpAddTcpEvent e s = s\<lparr>posted := posted s @ [e]\<rparr>"

text \<open>The application and segment ids of an event for packet \<open>p\<close>.\<close>

definition event_ids :: "TCP_PACKET \<Rightarrow> TCP_EVENT \<Rightarrow> TCP_EVENT" where
  "event_ids p e = (case tp_appData p of
       Some a \<Rightarrow> e\<lparr>te_nApplicationId := app_nApplicationId a, te_nSegmentId := app_nSegmentId a\<rparr>
     | None \<Rightarrow> e\<lparr>te_nSegmentId := 0\<rparr>)"

definition send_to_network :: "TCP_ENV \<Rightarrow> TCP_PACKET \<Rightarrow> NETSIM_SOCKET \<Rightarrow> NETSIM_SOCKET" where
  "send_to_network E p s =
     (let p = p\<lparr>tp_dStartTime := now E, tp_dEndTime := now E\<rparr>;
          e = event_ids p ((tev E)\<lparr>te_dPacketSize := tp_dPacketSize p\<rparr>) in
      fnpAddTcpEvent
        (e\<lparr>te_nEventType := TCP_NETWORK_OUT, te_nPacketId := tp_nPacketId p,
           te_nProtocolId := GetNWProtocolId E (te_nDeviceId (tev E)), te_nSubEventType := 0,
           te_pPacket := Some p, te_ofSocket := False\<rparr>) s)"

definition add_timeout_event ::
  "TCP_ENV \<Rightarrow> TCP_PACKET \<Rightarrow> NETSIM_SOCKET \<Rightarrow> NETSIM_SOCKET option" where
  "add_timeout_event E p s = do {
     Q \<leftarrow> add_packet_to_queue (retransmissionQueue (tcb s)) p (now E);
     let s = on_tcb (\<lambda>t. t\<lparr>retransmissionQueue := Q\<rparr>) s;
     let e = (tev E)\<lparr>te_dEventTime := now E + TCP_RTO (tcb s),
               te_dPacketSize := tp_dPacketSize p, te_nEventType := TCP_TIMER,
               te_nPacketId := tp_nPacketId p\<rparr>;
     let e = event_ids p e;
     Some (fnpAddTcpEvent
       (e\<lparr>te_nProtocolId := TX_PROTOCOL_TCP, te_pPacket := Some p, te_ofSocket := False,
          te_nSubEventType := TCP_RTO_TIMEOUT\<rparr>) s) }"

text \<open>
  A packet that is handed to the network and queued in one go: \<open>send_to_network\<close> stamps the
  packet, and \<open>add_timeout_event\<close> copies the stamped packet.
\<close>

definition stamped :: "TCP_ENV \<Rightarrow> TCP_PACKET \<Rightarrow> TCP_PACKET" where
  "stamped E p = p\<lparr>tp_dStartTime := now E, tp_dEndTime := now E\<rparr>"

definition send_with_timeout ::
  "TCP_ENV \<Rightarrow> TCP_PACKET \<Rightarrow> NETSIM_SOCKET \<Rightarrow> NETSIM_SOCKET option" where
  "send_with_timeout E p s = add_timeout_event E (stamped E p) (send_to_network E p s)"

section \<open>Control segments\<close>

definition send_rst :: "TCP_ENV \<Rightarrow> TCP_PACKET \<Rightarrow> u32 \<Rightarrow> NETSIM_SOCKET \<Rightarrow> NETSIM_SOCKET option" where
  "send_rst E p c s = do {
     rst \<leftarrow> create_rst E p (now E) c;
     Some (send_to_network E rst s) }"

definition send_ack ::
  "TCP_ENV \<Rightarrow> u32 \<Rightarrow> u32 \<Rightarrow> NETSIM_SOCKET \<Rightarrow> NETSIM_SOCKET option" where
  "send_ack E seqNo ackNo s = do {
     ack \<leftarrow> create_ack E s (now E) seqNo ackNo;
     let s = on_metrics (\<lambda>m. m\<lparr>ackSent := ackSent m + 1\<rparr>) s;
     Some (send_to_network E ack s) }"

definition send_fin_ack ::
  "TCP_ENV \<Rightarrow> u32 \<Rightarrow> u32 \<Rightarrow> NETSIM_SOCKET \<Rightarrow> NETSIM_SOCKET option" where
  "send_fin_ack E seqNo ackNo s = do {
     ack \<leftarrow> create_ack E s (now E) seqNo ackNo;
     let ack = on_hdr (\<lambda>h. h\<lparr>Fin := True\<rparr>) ack;
     let s = on_metrics (\<lambda>m. m\<lparr>ackSent := ackSent m + 1\<rparr>) s;
     Some (send_to_network E ack s) }"

definition send_fin :: "TCP_ENV \<Rightarrow> NETSIM_SOCKET \<Rightarrow> NETSIM_SOCKET option" where
  "send_fin E s = do {
     fin \<leftarrow> create_fin E s (now E);
     Some (send_to_network E fin s) }"

definition tcp_close :: "TCP_ENV \<Rightarrow> NETSIM_SOCKET \<Rightarrow> NETSIM_SOCKET option" where
  "tcp_close E s =
     (if \<not> isAnySegmentInQueue (retransmissionQueue (tcb s))
      then do {
        s \<leftarrow> send_fin E s;
        Some (on_tcb (tcp_change_state TCPCONNECTION_FIN_WAIT_1) s) }
      else Some s)"

section \<open>Sending segments\<close>

definition get_from_app ::
  "TCP_ENV \<Rightarrow> bool \<Rightarrow> NETSIM_SOCKET \<Rightarrow> TCP_PACKET option \<times> NETSIM_SOCKET" where
  "get_from_app E isRemove s =
     (let r = GetPacketFromInterface E (sId s) isRemove (iface s) in (fst r, s\<lparr>iface := snd r\<rparr>))"

text \<open>The body of the loop of \<open>send_segment\<close> once the segment of \<open>l\<close> bytes fits the window.\<close>

definition send_one :: "TCP_ENV \<Rightarrow> u32 \<Rightarrow> NETSIM_SOCKET \<Rightarrow> NETSIM_SOCKET option" where
  "send_one E l s = do {
     let (r, s) = get_from_app E True s;
     pt \<leftarrow> r;
     a \<leftarrow> tp_appData pt;
     let s = (if app_nAppEndFlag a then s\<lparr>isAPPClose := True\<rparr> else s);
     pt \<leftarrow> add_tcp_hdr E pt s;
     let s = on_tcb (\<lambda>t. t\<lparr>SND_NXT := SND_NXT t + l\<rparr>) s;
     let s = on_metrics (\<lambda>m. m\<lparr>segmentSent := segmentSent m + 1\<rparr>) s;
     send_with_timeout E pt s }"

partial_function (option) send_loop ::
  "TCP_ENV \<Rightarrow> u32 \<Rightarrow> TCP_PACKET option \<Rightarrow> NETSIM_SOCKET \<Rightarrow> NETSIM_SOCKET option" where
  "send_loop E seq p s = (case p of
       None \<Rightarrow> Some s
     | Some q \<Rightarrow> Option.bind (tp_appData q) (\<lambda>a.
         let l = double_to_uint (app_dPacketSize a) in
         if seq + l \<le> SND_WND (tcb s) + SND_UNA (tcb s)
         then Option.bind (send_one E l s) (\<lambda>s'.
           let r = get_from_app E False s' in send_loop E (seq + l) (fst r) (snd r))
         else Some s))"

definition send_segment :: "TCP_ENV \<Rightarrow> NETSIM_SOCKET \<Rightarrow> NETSIM_SOCKET option" where
  "send_segment E s = do {
     let seq = SND_NXT (tcb s);
     s \<leftarrow> (if sId s = None
           then do { l \<leftarrow> localAddr s; r \<leftarrow> remoteAddr s; Some (tcp_error s) } else Some s);
     let (p, s) = get_from_app E False s;
     let s = (if p = None then s\<lparr>waitFromApp := True\<rparr> else s);
     w \<leftarrow> window_scale_get_cwnd s;
     let s = on_tcb (\<lambda>t. t\<lparr>SND_WND := w\<rparr>) s;
     _ \<leftarrow> assert_c (SND_WND (tcb s) \<ge> ucast (congestion_get_MSS s));
     s \<leftarrow> send_loop E seq p s;
     if isAPPClose s then tcp_close E s else Some s }"

definition resend_segment ::
  "TCP_ENV \<Rightarrow> TCP_PACKET \<Rightarrow> NETSIM_SOCKET \<Rightarrow> NETSIM_SOCKET option" where
  "resend_segment E expired s = do {
     let hdr = TCP_GET_SEGMENT_HDR expired;
     (r, Q) \<leftarrow> get_segment_from_queue (retransmissionQueue (tcb s)) (SeqNum hdr);
     let s = on_tcb (\<lambda>t. t\<lparr>retransmissionQueue := Q\<rparr>) s;
     (case r of
        None \<Rightarrow> Some s
      | Some p \<Rightarrow> send_with_timeout E p
          (on_metrics (\<lambda>m. m\<lparr>segmentRetransmitted := segmentRetransmitted m + 1\<rparr>) s)) }"

definition set_highRxt :: "u32 \<Rightarrow> TCB \<Rightarrow> TCB" where
  "set_highRxt seq t = t\<lparr>HighRxt := max (HighRxt t) seq\<rparr>"

definition set_rescueRxt :: "u32 \<Rightarrow> TCB \<Rightarrow> TCB" where
  "set_rescueRxt seq t = t\<lparr>RescueRxt := max (RescueRxt t) seq\<rparr>"

definition resend_segment_without_timeout ::
  "TCP_ENV \<Rightarrow> u32 \<Rightarrow> NETSIM_SOCKET \<Rightarrow> NETSIM_SOCKET option" where
  "resend_segment_without_timeout E seq s = do {
     r \<leftarrow> get_copy_segment_from_queue (retransmissionQueue (tcb s)) seq;
     (case r of
        None \<Rightarrow> Some s
      | Some (p, isSacked) \<Rightarrow>
          if isSackPermitted (tcb s) \<and> isSacked then Some s
          else
            let s = on_tcb (set_rescueRxt seq \<circ> set_highRxt seq) s;
                s = on_metrics (\<lambda>m. m\<lparr>segmentRetransmitted := segmentRetransmitted m + 1\<rparr>) s
            in Some (send_to_network E p s)) }"

text \<open>
  Selective acknowledgement on the sending side (\<open>TCP/SACK.c\<close>): the scoreboard, the loss
  estimate, the pipe and the choice of the next segment to send in loss recovery.
\<close>

definition get_highAck :: "NETSIM_SOCKET \<Rightarrow> u32" where "get_highAck s = SND_UNA (tcb s)"
definition get_highData :: "NETSIM_SOCKET \<Rightarrow> u32" where "get_highData s = SND_NXT (tcb s)"
definition get_highRxt :: "NETSIM_SOCKET \<Rightarrow> u32" where "get_highRxt s = HighRxt (tcb s)"
definition get_pipe :: "NETSIM_SOCKET \<Rightarrow> u32" where "get_pipe s = pipe (tcb s)"
definition set_recoveryPoint :: "u32 \<Rightarrow> TCB \<Rightarrow> TCB" where
  "set_recoveryPoint v t = t\<lparr>recoveryPoint := v\<rparr>"

definition TCP_DupThresh :: u32 where "TCP_DupThresh = 3"

section \<open>Receiving a SACK option\<close>

definition update_sack_flag :: "u32 \<Rightarrow> u32 \<Rightarrow> NETSIM_SOCKET \<Rightarrow> NETSIM_SOCKET option" where
  "update_sack_flag left right s = do {
     cs \<leftarrow> tq_queue (retransmissionQueue (tcb s));
     let cs' = map (\<lambda>c. if left \<le> cell_seq c \<and> cell_seq c \<le> right
                        then c\<lparr>qi_isSacked := True\<rparr> else c) cs;
     Some (on_tcb (\<lambda>t. t\<lparr>retransmissionQueue :=
       (retransmissionQueue t)\<lparr>tq_queue := Some cs'\<rparr>\<rparr>) s) }"

definition update_scoreboard :: "u32 \<Rightarrow> u32 \<Rightarrow> nat \<Rightarrow> NETSIM_SOCKET \<Rightarrow> NETSIM_SOCKET option" where
  "update_scoreboard left right index s =
     (if index < 4 then Some (on_tcb (\<lambda>t.
        let t = (if index = 0 then t\<lparr>prevScoreboard := scoreboard t\<rparr> else t) in
        t\<lparr>scoreboard := \<lparr>leftEdge = (leftEdge (scoreboard t))[index := left],
                         rightEdge = (rightEdge (scoreboard t))[index := right]\<rparr>\<rparr>) s)
      else None)"

text \<open>The first loop of \<open>receive_sack_option\<close>, from block \<open>i\<close> on.\<close>

fun sack_blocks :: "nat \<Rightarrow> SACKDATA list \<Rightarrow> NETSIM_SOCKET \<Rightarrow> NETSIM_SOCKET option" where
  "sack_blocks i [] s = Some s"
| "sack_blocks i (d # ds) s = do {
     s \<leftarrow> update_sack_flag (sd_leftEdge d) (sd_rightEdge d) s;
     s \<leftarrow> update_scoreboard (sd_leftEdge d) (sd_rightEdge d) i s;
     sack_blocks (Suc i) ds s }"

text \<open>The second loop: the rest of the scoreboard is cleared.\<close>

fun clear_blocks :: "nat \<Rightarrow> nat \<Rightarrow> NETSIM_SOCKET \<Rightarrow> NETSIM_SOCKET option" where
  "clear_blocks 0 i s = Some s"
| "clear_blocks (Suc k) i s = do {
     s \<leftarrow> update_scoreboard 0 0 i s;
     clear_blocks k (Suc i) s }"

definition receive_sack_option :: "TCP_SEGMENT_HDR \<Rightarrow> NETSIM_SOCKET \<Rightarrow> NETSIM_SOCKET option" where
  "receive_sack_option hdr s = do {
     let s = on_tcb (\<lambda>t. t\<lparr>isSackOption := False\<rparr>) s;
     if \<not> isSackPermitted (tcb s) then Some s
     else do {
       r \<leftarrow> as_sack (get_tcp_option hdr TCP_OPTION_SACK);
       (case r of
          None \<Rightarrow> Some s
        | Some sack \<Rightarrow>
            let c = unat (get_sack_data_count sack) in
            if c = 0 then Some s
            else if length (sackData sack) < c then None
            else do {
              let s = on_tcb (\<lambda>t. t\<lparr>isSackOption := True\<rparr>) s;
              s \<leftarrow> sack_blocks 0 (take c (sackData sack)) s;
              clear_blocks (4 - c) c s }) } }"

section \<open>Loss estimate and pipe\<close>

fun isLost_loop :: "u32 \<Rightarrow> u32 \<Rightarrow> u32 \<Rightarrow> (u32 \<times> u32) list \<Rightarrow> bool option" where
  "isLost_loop smss seqNum c [] = Some False"
| "isLost_loop smss seqNum c ((l, r) # rest) = do {
     d \<leftarrow> div32 (r - l) smss;
     let c = c + d;
     if c \<ge> TCP_DupThresh then Some True
     else if r > (TCP_DupThresh - 1) * smss + seqNum then Some True
     else isLost_loop smss seqNum c rest }"

definition tcp_sack_isLost :: "NETSIM_SOCKET \<Rightarrow> u32 \<Rightarrow> bool option" where
  "tcp_sack_isLost s seqNum =
     (let smss = ucast (congestion_get_MSS s);
          check = seqNum + smss;
          sb = scoreboard (tcb s) in
      if leftEdge sb ! 0 \<ge> check
      then isLost_loop smss seqNum 0 (take 4 (zip (leftEdge sb) (rightEdge sb)))
      else Some False)"

text \<open>The loop of \<open>tcp_sack_setPipe\<close>; \<open>acc\<close> is \<open>tcb->pipe\<close>.\<close>

partial_function (option) pipe_loop ::
  "NETSIM_SOCKET \<Rightarrow> u32 \<Rightarrow> u32 \<Rightarrow> u32 \<Rightarrow> u32 \<Rightarrow> u32 \<Rightarrow> u32 option" where
  "pipe_loop s smss highData highRxt s1 acc =
     (if s1 < highData
      then Option.bind (tcp_sack_isLost s s1) (\<lambda>lost.
        pipe_loop s smss highData highRxt (s1 + smss)
          (acc + (if \<not> lost then smss else 0) + (if s1 \<le> highRxt then smss else 0)))
      else Some acc)"

definition tcp_sack_setPipe :: "NETSIM_SOCKET \<Rightarrow> NETSIM_SOCKET option" where
  "tcp_sack_setPipe s = do {
     n \<leftarrow> pipe_loop s (ucast (congestion_get_MSS s)) (get_highData s) (get_highRxt s)
            (get_highAck s) 0;
     Some (on_tcb (\<lambda>t. t\<lparr>pipe := n\<rparr>) s) }"

section \<open>The next segment in loss recovery\<close>

text \<open>
  The search of rules 1 and 3: the first segment above \<open>highRxt\<close> that is not SACKed, passes
  \<open>test\<close>, and has a SACKed segment behind it.
\<close>

fun next_seg_scan ::
  "(u32 \<Rightarrow> bool option) \<Rightarrow> u32 \<Rightarrow> Queueinfo list \<Rightarrow> u32 option option" where
  "next_seg_scan test highRxt [] = Some None"
| "next_seg_scan test highRxt (c # rest) =
     (if \<not> qi_isSacked c \<and> cell_seq c > highRxt
      then do {
        b \<leftarrow> test (cell_seq c);
        if b \<and> list_ex qi_isSacked rest then Some (Some (cell_seq c))
        else next_seg_scan test highRxt rest }
      else next_seg_scan test highRxt rest)"

text \<open>Rules 2 and 3 of \<open>tcp_sack_nextSeg\<close>, reached when rule 1 finds nothing.\<close>

definition next_seg_rest ::
  "TCP_ENV \<Rightarrow> Queueinfo list \<Rightarrow> NETSIM_SOCKET \<Rightarrow> (u32 \<times> NETSIM_SOCKET) option" where
  "next_seg_rest E cs s = do {
     let highRxt = get_highRxt s;
     let seq = SND_NXT (tcb s);
     let (p, s) = get_from_app E False s;
     let s = on_tcb (\<lambda>t. t\<lparr>SND_WND := ucast (congestion_get_WND s)\<rparr>) s;
     fits \<leftarrow> (case p of
         None \<Rightarrow> Some False
       | Some q \<Rightarrow> do {
           a \<leftarrow> tp_appData q;
           Some (seq + double_to_uint (app_dPacketSize a) \<le> SND_WND (tcb s) + SND_UNA (tcb s)) });
     if fits then Some (SND_NXT (tcb s), s)
     else do {
       r \<leftarrow> next_seg_scan (\<lambda>_. Some True) highRxt cs;
       (case r of Some n \<Rightarrow> Some (n, s) | None \<Rightarrow> Some (0, s)) } }"

definition tcp_sack_nextSeg :: "TCP_ENV \<Rightarrow> NETSIM_SOCKET \<Rightarrow> (u32 \<times> NETSIM_SOCKET) option" where
  "tcp_sack_nextSeg E s = do {
     cs \<leftarrow> tq_queue (retransmissionQueue (tcb s));
     r1 \<leftarrow> next_seg_scan (tcp_sack_isLost s) (get_highRxt s) cs;
     (case r1 of
        Some n \<Rightarrow> Some (n, s)
      | None \<Rightarrow> next_seg_rest E cs s) }"

definition tcp_sack_fastRetransmit :: "NETSIM_SOCKET \<Rightarrow> NETSIM_SOCKET option" where
  "tcp_sack_fastRetransmit s =
     (if isSackOption (tcb s)
      then tcp_sack_setPipe (on_tcb (set_recoveryPoint (get_highData s)) s)
      else Some s)"

partial_function (option) loss_loop ::
  "TCP_ENV \<Rightarrow> u32 \<Rightarrow> u32 \<Rightarrow> u32 \<Rightarrow> NETSIM_SOCKET \<Rightarrow> NETSIM_SOCKET option" where
  "loss_loop E wnd mss pp s =
     (if wnd \<ge> mss + pp
      then Option.bind (tcp_sack_nextSeg E s) (\<lambda>r.
        let nextSeg = fst r; s1 = snd r in
        if nextSeg \<noteq> 0
        then if nextSeg < get_highData s1
             then Option.bind (resend_segment_without_timeout E nextSeg s1) (\<lambda>s2.
                    loss_loop E wnd mss pp (on_tcb (set_highRxt nextSeg) s2))
             else Option.bind (send_segment E s1) (\<lambda>s2.
                    let len = SND_NXT (tcb s2) - SND_NXT (tcb s1) in
                    loss_loop E wnd mss (pp + len) (on_tcb (\<lambda>t. t\<lparr>pipe := pipe t + len\<rparr>) s2))
        else Some s1)
      else Some s)"

definition tcp_sack_lossRecoveryPhase ::
  "TCP_ENV \<Rightarrow> NETSIM_SOCKET \<Rightarrow> (bool \<times> NETSIM_SOCKET) option" where
  "tcp_sack_lossRecoveryPhase E s =
     (if SEG_ACK (tcb s) > recoveryPoint (tcb s) then Some (False, s)
      else do {
        s \<leftarrow> tcp_sack_setPipe s;
        s \<leftarrow> loss_loop E (ucast (congestion_get_WND s)) (ucast (congestion_get_MSS s))
               (get_pipe s) s;
        Some (True, s) })"

end
