(* ===== verification/Tcp_Congestion.thy ===== *)
theory Tcp_Congestion
  imports Tcp_Send
begin

text \<open>
  Congestion control (\<open>TCP/Congestion.c\<close>): Old Tahoe, Tahoe, Reno, New Reno and BIC.  The
  window and the threshold are 16 bit numbers; with window scaling they count units of
  \<open>2 ^ Snd.Wind_Shift\<close> bytes.  CUBIC is in \<open>Tcp_Cubic\<close>.
\<close>

section \<open>Variants, window and threshold\<close>

definition isReno :: "NETSIM_SOCKET \<Rightarrow> bool" where
  "isReno s \<longleftrightarrow> variant (tcb s) = TCPVariant_RENO \<or> variant (tcb s) = TCPVariant_NEWRENO"

definition isBIC :: "NETSIM_SOCKET \<Rightarrow> bool" where
  "isBIC s \<longleftrightarrow> variant (tcb s) = TCPVariant_BIC"

definition isNewReno :: "NETSIM_SOCKET \<Rightarrow> bool" where
  "isNewReno s \<longleftrightarrow> variant (tcb s) = TCPVariant_NEWRENO"

definition isFastRetransmit :: "NETSIM_SOCKET \<Rightarrow> bool" where
  "isFastRetransmit s \<longleftrightarrow> variant (tcb s) = TCPVariant_TAHOE \<or> variant (tcb s) = TCPVariant_RENO
     \<or> variant (tcb s) = TCPVariant_NEWRENO"

definition isFastRecovery :: "NETSIM_SOCKET \<Rightarrow> bool" where
  "isFastRecovery s \<longleftrightarrow> variant (tcb s) = TCPVariant_RENO \<or> variant (tcb s) = TCPVariant_NEWRENO
     \<or> variant (tcb s) = TCPVariant_BIC"

definition set_ssthres :: "u32 \<Rightarrow> NETSIM_SOCKET \<Rightarrow> NETSIM_SOCKET option" where
  "set_ssthres newssthres s =
     (if isWindowScaling (tcb s)
      then do {
        c \<leftarrow> shr32 newssthres (Snd_Wind_Shift (tcb s));
        Some (on_cv (\<lambda>v. v\<lparr>ssthresh := ucast c\<rparr>) s) }
      else Some (on_cv (\<lambda>v. v\<lparr>ssthresh := ucast newssthres\<rparr>) s))"

definition get_ssthres :: "NETSIM_SOCKET \<Rightarrow> u32 option" where
  "get_ssthres s =
     (let c = ucast (ssthresh (get_congestionvar s)) in
      if isWindowScaling (tcb s) then shl32 c (Snd_Wind_Shift (tcb s)) else Some c)"

definition set_cwnd :: "u32 \<Rightarrow> NETSIM_SOCKET \<Rightarrow> NETSIM_SOCKET option" where
  "set_cwnd newcwnd s =
     (if isWindowScaling (tcb s)
      then do {
        c \<leftarrow> shr32 newcwnd (Snd_Wind_Shift (tcb s));
        let w = (ucast c :: u16);
        _ \<leftarrow> assert_c (w < 65535);
        Some (on_cv (\<lambda>v. v\<lparr>cwnd := (if w = 0 then 1 else w)\<rparr>) s) }
      else Some (on_cv (\<lambda>v. v\<lparr>cwnd := ucast newcwnd\<rparr>) s))"

definition get_cwnd :: "NETSIM_SOCKET \<Rightarrow> u32 option" where
  "get_cwnd s =
     (let c = ucast (cwnd (get_congestionvar s)) in
      if isWindowScaling (tcb s) then shl32 c (Snd_Wind_Shift (tcb s)) else Some c)"

definition get_cwnd_print :: "NETSIM_SOCKET \<Rightarrow> u32 option" where
  "get_cwnd_print s =
     (if isWindowScaling (tcb s)
      then shl32 (ucast (cwnd (get_congestionvar s))) (Snd_Wind_Shift (tcb s))
      else Some (ucast (cwnd (get_congestionvar s))))"

definition tcp_in_slow_start :: "NETSIM_SOCKET \<Rightarrow> bool option" where
  "tcp_in_slow_start s = do {
     c \<leftarrow> get_cwnd s;
     t \<leftarrow> get_ssthres s;
     Some (c \<le> t) }"

definition increase_cwnd :: "u16 \<Rightarrow> NETSIM_SOCKET \<Rightarrow> NETSIM_SOCKET option" where
  "increase_cwnd increase s =
     (if isWindowScaling (tcb s)
      then do {
        c \<leftarrow> window_scale_get_cwnd s;
        let c = c + ucast increase;
        w \<leftarrow> shr32 c (Snd_Wind_Shift (tcb s));
        Some (on_cv (\<lambda>v. v\<lparr>cwnd := (if w \<ge> 65535 then 65535 else ucast w)\<rparr>) s) }
      else
        let c = ucast (cwnd (get_congestionvar s)) + ucast increase :: u32 in
        Some (on_cv (\<lambda>v. v\<lparr>cwnd := (if c \<ge> 65535 then 65535 else cwnd v + increase)\<rparr>) s))"

section \<open>BIC state\<close>

definition ACK_RATIO_SHIFT :: nat where "ACK_RATIO_SHIFT = 4"
definition BICTCP_B :: u32 where "BICTCP_B = 4"

definition bictcp_reset :: "BIC \<Rightarrow> BIC" where
  "bictcp_reset ca =
     ca\<lparr>bc_cnt := 0, bc_last_max_cwnd := 0, bc_last_cwnd := 0, bc_last_time := 0,
        bc_epoch_start := 0, bc_delayed_ack := push_bit ACK_RATIO_SHIFT 2\<rparr>"

definition bictcp_init :: "TCP_DEV_VAR \<Rightarrow> BIC \<Rightarrow> BIC" where
  "bictcp_init tcp b =
     (bictcp_reset b)\<lparr>bc_loss_cwnd := 0, bc_low_window := tv_low_window tcp,
        bc_max_increment := tv_max_increment tcp, bc_fast_convergence := True,
        bc_beta := tv_beta tcp, bc_smooth_part := tv_smooth_part tcp\<rparr>"

definition init_congestion :: "TCP_ENV \<Rightarrow> NETSIM_SOCKET \<Rightarrow> NETSIM_SOCKET option" where
  "init_congestion E s = do {
     tcp \<leftarrow> GET_TCP_DEV_VAR E (localDeviceId s);
     let s = on_cv (\<lambda>v. v\<lparr>SMSS := tv_MSS tcp, RMSS := tv_MSS tcp\<rparr>) s;
     s \<leftarrow> set_ssthres (ucast (tv_initSSThresh tcp)) s;
     let s = on_cv (\<lambda>v. v\<lparr>cwnd := ssthresh v, rwnd := ssthresh v,
               cv_isFastRetransmit := isFastRetransmit s\<rparr>) s;
     let s = (if isNewReno s then on_cv (\<lambda>v. v\<lparr>recover := ISS (tcb s)\<rparr>) s else s);
     Some (if isBIC s then on_cv (\<lambda>v. v\<lparr>bic := bictcp_init tcp (bic v)\<rparr>) s else s) }"

text \<open>The products are computed in \<open>int\<close> and cut to 16 bits by the assignment.\<close>

definition congestion_set_IW :: "TCP_ENV \<Rightarrow> NETSIM_SOCKET \<Rightarrow> NETSIM_SOCKET option" where
  "congestion_set_IW E s = do {
     t \<leftarrow> GET_TCP_DEV_VAR E (localDeviceId s);
     let smss = SMSS (get_congestionvar s);
     let k = (if smss > 2190 then 2 else if smss > 1095 then 3 else 4 :: u32);
     Some (on_cv (\<lambda>v. v\<lparr>IW := ucast (max (k * ucast smss) (k * ucast (tv_MSS t)))\<rparr>) s) }"

definition congestion_set_MSS :: "TCP_ENV \<Rightarrow> u16 \<Rightarrow> NETSIM_SOCKET \<Rightarrow> NETSIM_SOCKET option" where
  "congestion_set_MSS E mss s = do {
     let s = on_cv (\<lambda>v. v\<lparr>SMSS := min (SMSS v) mss, RMSS := min (RMSS v) mss\<rparr>) s;
     s \<leftarrow> congestion_set_IW E s;
     let s = on_cv (\<lambda>v. v\<lparr>LW := SMSS v\<rparr>) s;
     s \<leftarrow> set_cwnd (ucast (IW (get_congestionvar s))) s;
     Some (on_cv (\<lambda>v. v\<lparr>rwnd := IW v\<rparr>) s) }"

section \<open>Slow start, congestion avoidance, fast retransmit and recovery\<close>

definition isDupAck :: "NETSIM_SOCKET \<Rightarrow> bool" where
  "isDupAck s \<longleftrightarrow> SEG_ACK (tcb s) \<le> SND_UNA (tcb s)"

definition isFullAck :: "NETSIM_SOCKET \<Rightarrow> bool" where
  "isFullAck s \<longleftrightarrow> SEG_ACK (tcb s) \<ge> recover (get_congestionvar s)"

definition ackedBytes :: "NETSIM_SOCKET \<Rightarrow> u16" where
  "ackedBytes s = ucast (SEG_ACK (tcb s) - SND_UNA (tcb s))"

definition FlightSize :: "NETSIM_SOCKET \<Rightarrow> u16" where
  "FlightSize s = ucast (SND_NXT (tcb s) - SND_UNA (tcb s))"

definition slowStart :: "NETSIM_SOCKET \<Rightarrow> NETSIM_SOCKET option" where
  "slowStart s = increase_cwnd (min (ackedBytes s) (SMSS (get_congestionvar s))) s"

definition CongestionAvoidance :: "TCP_ENV \<Rightarrow> NETSIM_SOCKET \<Rightarrow> NETSIM_SOCKET option" where
  "CongestionAvoidance E s = do {
     rtt \<leftarrow> get_RTT E (tcb s) (SEG_ACK (tcb s));
     if lastWinUpdateTime (get_congestionvar s) + rtt < now E
     then do {
       let s = on_cv (\<lambda>v. v\<lparr>lastWinUpdateTime := now E\<rparr>) s;
       increase_cwnd (min (ackedBytes s) (SMSS (get_congestionvar s))) s }
     else Some s }"

text \<open>\<open>max(FlightSize / 2, 2 * SMSS)\<close>, an \<open>int\<close> that fits.\<close>

definition half_flight :: "NETSIM_SOCKET \<Rightarrow> u32" where
  "half_flight s = max (ucast (FlightSize s) div 2) (2 * ucast (SMSS (get_congestionvar s)))"

text \<open>
  What \<open>FastRetransmit\<close> and \<open>bictcp_fastretransmit\<close> do on the third duplicate once the
  threshold is set, and on every later duplicate.
\<close>

definition enter_recovery :: "TCP_ENV \<Rightarrow> NETSIM_SOCKET \<Rightarrow> NETSIM_SOCKET option" where
  "enter_recovery E s = do {
     t \<leftarrow> get_ssthres s;
     s \<leftarrow> set_cwnd (t + TCP_DupThresh * ucast (SMSS (get_congestionvar s))) s;
     s \<leftarrow> resend_segment_without_timeout E (SEG_ACK (tcb s)) s;
     let s = on_cv (\<lambda>v. v\<lparr>cv_isFastRecovery := isFastRecovery s\<rparr>) s;
     if isSackOption (tcb s)
     then do {
       s \<leftarrow> tcp_sack_fastRetransmit s;
       Some (on_cv (\<lambda>v. v\<lparr>isLossRecoveryPhase := True\<rparr>) s) }
     else Some s }"

definition inflate_window :: "TCP_ENV \<Rightarrow> NETSIM_SOCKET \<Rightarrow> NETSIM_SOCKET option" where
  "inflate_window E s = do {
     s \<leftarrow> increase_cwnd (SMSS (get_congestionvar s)) s;
     if isSackOption (tcb s) \<and> isLossRecoveryPhase (get_congestionvar s)
     then do {
       (b, s) \<leftarrow> tcp_sack_lossRecoveryPhase E s;
       Some (on_cv (\<lambda>v. v\<lparr>isLossRecoveryPhase := b\<rparr>) s) }
     else Some s }"

definition FastRetransmit :: "TCP_ENV \<Rightarrow> NETSIM_SOCKET \<Rightarrow> NETSIM_SOCKET option" where
  "FastRetransmit E s =
     (if dupAckCount (get_congestionvar s) = TCP_DupThresh
      then do {
        s \<leftarrow> set_ssthres (half_flight s) s;
        enter_recovery E s }
      else inflate_window E s)"

definition FastRecovery :: "NETSIM_SOCKET \<Rightarrow> NETSIM_SOCKET option" where
  "FastRecovery s = do {
     let s = on_cv (\<lambda>v. v\<lparr>cv_isFastRecovery := False, dupAckCount := 0\<rparr>) s;
     t \<leftarrow> get_ssthres s;
     set_cwnd t s }"

definition newReno_FastRecovery :: "TCP_ENV \<Rightarrow> NETSIM_SOCKET \<Rightarrow> NETSIM_SOCKET option" where
  "newReno_FastRecovery E s = do {
     let s = on_cv (\<lambda>v. v\<lparr>dupAckCount := 0\<rparr>) s;
     if isFullAck s
     then do {
       t \<leftarrow> get_ssthres s;
       let smss = (ucast (SMSS (get_congestionvar s)) :: u32);
       s \<leftarrow> set_cwnd (min (ucast (ucast t :: u16)) (max (ucast (FlightSize s)) smss + smss)) s;
       Some (on_cv (\<lambda>v. v\<lparr>cv_isFastRecovery := False\<rparr>) s) }
     else do {
       s \<leftarrow> increase_cwnd (ucast (SEG_ACK (tcb s) - recover (get_congestionvar s))) s;
       resend_segment_without_timeout E (SEG_ACK (tcb s)) s } }"

section \<open>BIC\<close>

definition on_bic :: "(BIC \<Rightarrow> BIC) \<Rightarrow> NETSIM_SOCKET \<Rightarrow> NETSIM_SOCKET" where
  "on_bic f = on_cv (\<lambda>v. v\<lparr>bic := f (bic v)\<rparr>)"

text \<open>The window counted in segments.\<close>

definition seg_cwnd :: "NETSIM_SOCKET \<Rightarrow> u32 option" where
  "seg_cwnd s = do {
     c \<leftarrow> get_cwnd s;
     div32 c (ucast (congestion_get_MSS s)) }"

definition bictcp_recalc_ssthresh :: "NETSIM_SOCKET \<Rightarrow> (u32 \<times> NETSIM_SOCKET) option" where
  "bictcp_recalc_ssthresh s = do {
     segCwnd \<leftarrow> seg_cwnd s;
     let ca = bic (get_congestionvar s);
     let s = on_bic (\<lambda>b. b\<lparr>bc_epoch_start := 0,
               bc_last_max_cwnd :=
                 (if segCwnd < bc_last_max_cwnd ca \<and> bc_fast_convergence ca
                  then double_to_uint (real (unat segCwnd) * bc_beta ca) else segCwnd),
               bc_loss_cwnd := segCwnd\<rparr>) s;
     Some ((if segCwnd \<le> bc_low_window ca
            then max (2 * ucast (congestion_get_MSS s)) (ucast (FlightSize s) div 2)
            else double_to_uint (max (real (unat segCwnd) * bc_beta ca) 2
                   * real (unat (congestion_get_MSS s)))), s) }"

text \<open>The part of \<open>bictcp_update\<close> that chooses \<open>cnt\<close> for a window above \<open>low_window\<close>.\<close>

definition bic_cnt_choice :: "BIC \<Rightarrow> u32 \<Rightarrow> u32 option" where
  "bic_cnt_choice ca cw =
     (if cw < bc_last_max_cwnd ca then
        (let dist = (bc_last_max_cwnd ca - cw) div BICTCP_B in
         if dist > bc_max_increment ca then div32 cw (bc_max_increment ca)
         else if dist \<le> 1 then Some ((cw * bc_smooth_part ca) div BICTCP_B)
         else div32 cw dist)
      else if cw < bc_last_max_cwnd ca + BICTCP_B then Some ((cw * bc_smooth_part ca) div BICTCP_B)
      else if cw < bc_last_max_cwnd ca + bc_max_increment ca * (BICTCP_B - 1)
      then div32 (cw * (BICTCP_B - 1)) (cw - bc_last_max_cwnd ca)
      else div32 cw (bc_max_increment ca))"

definition bictcp_update :: "TCP_ENV \<Rightarrow> NETSIM_SOCKET \<Rightarrow> NETSIM_SOCKET option" where
  "bictcp_update E s = do {
     cw \<leftarrow> seg_cwnd s;
     let s = on_bic (\<lambda>b. b\<lparr>bc_last_cwnd := cw, bc_last_time := double_to_uint (now E),
               bc_epoch_start := (if bc_epoch_start b = 0 then double_to_uint (now E)
                                  else bc_epoch_start b)\<rparr>) s;
     let ca = bic (get_congestionvar s);
     if cw \<le> bc_low_window ca then Some (on_bic (\<lambda>b. b\<lparr>bc_cnt := cw\<rparr>) s)
     else do {
       cnt \<leftarrow> bic_cnt_choice ca cw;
       let cnt = (if bc_last_max_cwnd ca = 0 \<and> cnt > 20 then 20 else cnt);
       cnt \<leftarrow> div32 (push_bit ACK_RATIO_SHIFT cnt) (bc_delayed_ack ca);
       Some (on_bic (\<lambda>b. b\<lparr>bc_cnt := (if cnt = 0 then 1 else cnt)\<rparr>) s) } }"

definition bictcp_cong_avoid :: "TCP_ENV \<Rightarrow> u32 \<Rightarrow> NETSIM_SOCKET \<Rightarrow> NETSIM_SOCKET option" where
  "bictcp_cong_avoid E segmentAcked s = do {
     b \<leftarrow> tcp_in_slow_start s;
     (s, segmentAcked) \<leftarrow> (if b
        then do { s \<leftarrow> slowStart s; Some (s, segmentAcked - 1) }
        else Some (s, segmentAcked));
     b \<leftarrow> tcp_in_slow_start s;
     if \<not> b \<and> segmentAcked > 0
     then do {
       let s = on_bic (\<lambda>b. b\<lparr>bc_cwndcnt := bc_cwndcnt b + segmentAcked\<rparr>) s;
       s \<leftarrow> bictcp_update E s;
       let ca = bic (get_congestionvar s);
       if bc_cwndcnt ca > bc_cnt ca
       then do {
         s \<leftarrow> increase_cwnd (SMSS (get_congestionvar s)) s;
         Some (on_bic (\<lambda>b. b\<lparr>bc_cwndcnt := 0\<rparr>) s) }
       else Some s }
     else Some s }"

definition bictcp_fastretransmit :: "TCP_ENV \<Rightarrow> NETSIM_SOCKET \<Rightarrow> NETSIM_SOCKET option" where
  "bictcp_fastretransmit E s =
     (if dupAckCount (get_congestionvar s) = TCP_DupThresh
      then do {
        (ssThresh, s) \<leftarrow> bictcp_recalc_ssthresh s;
        s \<leftarrow> set_ssthres (ucast (ucast ssThresh :: u16)) s;
        enter_recovery E s }
      else inflate_window E s)"

text \<open>
  \<open>bictcp_acked\<close> works on a copy of the BIC structure, so it changes nothing; it divides by
  the segment size.
\<close>

definition bictcp_acked :: "NETSIM_SOCKET \<Rightarrow> NETSIM_SOCKET option" where
  "bictcp_acked s = do {
     pkts_acked \<leftarrow> div32 (SEG_ACK (tcb s) - SND_UNA (tcb s)) (ucast (congestion_get_MSS s));
     Some s }"

section \<open>Acknowledgements\<close>

text \<open>The common part of the handlers: counting a duplicate and testing the loss estimate.\<close>

definition count_dup :: "NETSIM_SOCKET \<Rightarrow> NETSIM_SOCKET" where
  "count_dup s = on_cv (\<lambda>v. v\<lparr>dupAckCount := dupAckCount v + 1\<rparr>) s"

definition early_loss :: "NETSIM_SOCKET \<Rightarrow> bool option" where
  "early_loss s =
     (if isSackOption (tcb s) then tcp_sack_isLost s (get_highAck s + 1) else Some False)"

definition window_growth :: "TCP_ENV \<Rightarrow> NETSIM_SOCKET \<Rightarrow> NETSIM_SOCKET option" where
  "window_growth E s = do {
     b \<leftarrow> tcp_in_slow_start s;
     if b then slowStart s else CongestionAvoidance E s }"

definition oldtahoe_ack_received :: "TCP_ENV \<Rightarrow> NETSIM_SOCKET \<Rightarrow> NETSIM_SOCKET option" where
  "oldtahoe_ack_received E s = window_growth E s"

definition tahoe_ack_received :: "TCP_ENV \<Rightarrow> NETSIM_SOCKET \<Rightarrow> NETSIM_SOCKET option" where
  "tahoe_ack_received E s =
     (if isDupAck s
      then do {
        let s = count_dup s;
        if dupAckCount (get_congestionvar s) < TCP_DupThresh
        then do { b \<leftarrow> early_loss s; if b then FastRetransmit E s else Some s }
        else FastRetransmit E s }
      else if dupAckCount (get_congestionvar s) \<noteq> 0
      then set_cwnd (ucast (LW (get_congestionvar s))) (on_cv (\<lambda>v. v\<lparr>dupAckCount := 0\<rparr>) s)
      else window_growth E s)"

definition reno_ack_received :: "TCP_ENV \<Rightarrow> NETSIM_SOCKET \<Rightarrow> NETSIM_SOCKET option" where
  "reno_ack_received E s =
     (if isDupAck s
      then do {
        let s = count_dup s;
        if dupAckCount (get_congestionvar s) < TCP_DupThresh
        then do { b \<leftarrow> early_loss s; if b then FastRetransmit E s else Some s }
        else FastRetransmit E s }
      else if cv_isFastRecovery (get_congestionvar s) then FastRecovery s
      else window_growth E s)"

definition newreno_ack_received :: "TCP_ENV \<Rightarrow> NETSIM_SOCKET \<Rightarrow> NETSIM_SOCKET option" where
  "newreno_ack_received E s =
     (if isDupAck s
      then do {
        let s = count_dup s;
        if dupAckCount (get_congestionvar s) < TCP_DupThresh
        then do { b \<leftarrow> early_loss s; if b then FastRetransmit E s else Some s }
        else if recover (get_congestionvar s) < SEG_ACK (tcb s) - 1
        then FastRetransmit E (on_cv (\<lambda>v. v\<lparr>recover := SND_NXT (tcb s)\<rparr>) s)
        else Some s }
      else if cv_isFastRecovery (get_congestionvar s) then newReno_FastRecovery E s
      else window_growth E s)"

definition bic_ack_received :: "TCP_ENV \<Rightarrow> NETSIM_SOCKET \<Rightarrow> NETSIM_SOCKET option" where
  "bic_ack_received E s = do {
     segmentAcked \<leftarrow> div32 (SEG_ACK (tcb s) - SND_UNA (tcb s)) (ucast (congestion_get_MSS s));
     if isDupAck s
     then do {
       let s = count_dup s;
       if dupAckCount (get_congestionvar s) < TCP_DupThresh
       then do { b \<leftarrow> early_loss s; if b then bictcp_fastretransmit E s else Some s }
       else bictcp_fastretransmit E s }
     else if cv_isFastRecovery (get_congestionvar s) then FastRecovery s
     else do {
       s \<leftarrow> bictcp_acked s;
       bictcp_cong_avoid E segmentAcked s } }"

definition congestion_rto_timeout :: "NETSIM_SOCKET \<Rightarrow> NETSIM_SOCKET option" where
  "congestion_rto_timeout s = do {
     s \<leftarrow> set_ssthres (half_flight s) s;
     s \<leftarrow> set_cwnd (ucast (LW (get_congestionvar s))) s;
     Some (if isNewReno s
           then on_cv (\<lambda>v. v\<lparr>recover := SND_NXT (tcb s), cv_isFastRecovery := False\<rparr>) s
           else s) }"

end
