(* ===== verification/Tcp_Cubic.thy ===== *)
theory Tcp_Cubic
  imports Tcp_Congestion
begin

text \<open>
  CUBIC congestion control (\<open>TCP/CUBIC.c\<close>) and the choice of the congestion callbacks by
  variant (\<open>congestion_setcallback\<close> of \<open>TCP/Congestion.c\<close>).  The file repeats \<open>get_cwnd\<close>,
  \<open>set_ssthres\<close>, \<open>get_ssthres\<close>, \<open>tcp_in_slow_start\<close> and \<open>isDupAck\<close> of \<open>Congestion.c\<close> word for
  word, so those definitions are used again; the functions of the same name that differ have
  the prefix \<open>cubic\<close> here.  The switches \<open>fast_convergence\<close>, \<open>tcp_friendliness\<close> and \<open>hystart\<close>
  are 1 and \<open>hystart_detect\<close> is 3; nothing assigns them.
\<close>

unbundle bit_operations_syntax

definition on_cubic :: "(CUBIC \<Rightarrow> CUBIC) \<Rightarrow> NETSIM_SOCKET \<Rightarrow> NETSIM_SOCKET" where
  "on_cubic f = on_cv (\<lambda>v. v\<lparr>cubic := f (cubic v)\<rparr>)"

abbreviation cubic_of :: "NETSIM_SOCKET \<Rightarrow> CUBIC" where
  "cubic_of s \<equiv> cubic (get_congestionvar s)"

definition HZ :: nat where "HZ = 1024"
definition BICTCP_BETA_SCALE :: nat where "BICTCP_BETA_SCALE = 1024"
definition BICTCP_HZ :: nat where "BICTCP_HZ = 10"
definition HYSTART_ACK_TRAIN :: u8 where "HYSTART_ACK_TRAIN = 1"
definition HYSTART_DELAY :: u8 where "HYSTART_DELAY = 2"
definition HYSTART_MIN_SAMPLES :: u8 where "HYSTART_MIN_SAMPLES = 8"
definition HYSTART_DELAY_MIN :: u32 where "HYSTART_DELAY_MIN = push_bit 3 4"
definition HYSTART_DELAY_MAX :: u32 where "HYSTART_DELAY_MAX = push_bit 3 16"
definition hystart_detect :: u8 where "hystart_detect = HYSTART_ACK_TRAIN OR HYSTART_DELAY"

definition HYSTART_DELAY_THRESH :: "u32 \<Rightarrow> u32" where
  "HYSTART_DELAY_THRESH x = min (max x HYSTART_DELAY_MIN) HYSTART_DELAY_MAX"

lemmas cubic_consts = HZ_def BICTCP_BETA_SCALE_def BICTCP_HZ_def HYSTART_ACK_TRAIN_def
  HYSTART_DELAY_def HYSTART_MIN_SAMPLES_def HYSTART_DELAY_MIN_def HYSTART_DELAY_MAX_def
  hystart_detect_def HYSTART_DELAY_THRESH_def

definition tcp_time_stamp :: "TCP_ENV \<Rightarrow> u32" where
  "tcp_time_stamp E = double_to_uint (now E / 1000)"

section \<open>Window and slow start\<close>

definition cubic_set_cwnd :: "u32 \<Rightarrow> NETSIM_SOCKET \<Rightarrow> NETSIM_SOCKET option" where
  "cubic_set_cwnd newcwnd s =
     (if isWindowScaling (tcb s)
      then do {
        c \<leftarrow> shr32 newcwnd (Snd_Wind_Shift (tcb s));
        let w = (ucast c :: u16);
        _ \<leftarrow> assert_c (w < 65535);
        Some (on_cv (\<lambda>v. v\<lparr>cwnd := w\<rparr>) s) }
      else Some (on_cv (\<lambda>v. v\<lparr>cwnd := ucast newcwnd\<rparr>) s))"

definition cubic_increase_cwnd :: "u16 \<Rightarrow> NETSIM_SOCKET \<Rightarrow> NETSIM_SOCKET option" where
  "cubic_increase_cwnd increase s =
     (if isWindowScaling (tcb s)
      then do {
        c \<leftarrow> window_scale_get_cwnd s;
        let c = c + ucast increase;
        w \<leftarrow> shr32 c (Snd_Wind_Shift (tcb s));
        let w = (ucast w :: u16);
        _ \<leftarrow> assert_c (w < 65535);
        Some (on_cv (\<lambda>v. v\<lparr>cwnd := w\<rparr>) s) }
      else
        let c = ucast (cwnd (get_congestionvar s)) + ucast increase :: u32 in
        Some (on_cv (\<lambda>v. v\<lparr>cwnd := (if c \<ge> 65535 then 65535 else cwnd v + increase)\<rparr>) s))"

definition div64_u64 :: "u64 \<Rightarrow> u64 \<Rightarrow> u64 option" where
  "div64_u64 dividend divisor = (if divisor = 0 then None else Some (dividend div divisor))"

definition before :: "u32 \<Rightarrow> u32 \<Rightarrow> bool" where
  "before seq1 seq2 \<longleftrightarrow> sint (seq1 - seq2) < 0"

definition after :: "u32 \<Rightarrow> u32 \<Rightarrow> bool" where
  "after seq2 seq1 \<longleftrightarrow> before seq1 seq2"

text \<open>The digits \<open>_i64toa\<close> writes in base 2, the most significant first, without leading zeros.\<close>

fun i64toa2 :: "nat \<Rightarrow> string" where
  "i64toa2 n = (if n < 2 then [if n = 0 then CHR ''0'' else CHR ''1'']
     else i64toa2 (n div 2) @ [if n mod 2 = 0 then CHR ''0'' else CHR ''1''])"

declare i64toa2.simps [simp del]

definition count_bit :: "u64 \<Rightarrow> u32" where
  "count_bit n = (case first_idx (\<lambda>c. c = CHR ''1'') (i64toa2 (unat n)) of
       Some i \<Rightarrow> of_nat i
     | None \<Rightarrow> 0)"

definition cubic_slowStart :: "NETSIM_SOCKET \<Rightarrow> NETSIM_SOCKET option" where
  "cubic_slowStart s = cubic_increase_cwnd (min (ackedBytes s) (SMSS (get_congestionvar s))) s"

section \<open>Initialisation\<close>

definition cubictcp_reset :: "CUBIC \<Rightarrow> CUBIC" where
  "cubictcp_reset ca =
     ca\<lparr>cu_cnt := 0, cu_last_max_cwnd := 0, cu_last_cwnd := 0, cu_last_time := 0,
        cu_bic_origin_point := 0, cu_bic_K := 0, cu_delay_min := 0, cu_epoch_start := 0,
        cu_ack_cnt := 0, cu_tcp_cwnd := 0, cu_found := 0\<rparr>"

definition cubictcp_clock :: "TCP_ENV \<Rightarrow> u32" where
  "cubictcp_clock E = double_to_uint (now E / 1000)"

definition cubictcp_hystart_reset :: "TCP_ENV \<Rightarrow> NETSIM_SOCKET \<Rightarrow> NETSIM_SOCKET" where
  "cubictcp_hystart_reset E s =
     on_cubic (\<lambda>ca. ca\<lparr>cu_round_start := cubictcp_clock E, cu_last_ack := cubictcp_clock E,
       cu_end_seq := SND_NXT (tcb s), cu_curr_rtt := 0, cu_sample_cnt := 0\<rparr>) s"

definition cubictcp_init :: "TCP_ENV \<Rightarrow> TCP_DEV_VAR \<Rightarrow> NETSIM_SOCKET \<Rightarrow> NETSIM_SOCKET option" where
  "cubictcp_init E tcp s = do {
     b \<leftarrow> double_to_int (tv_beta tcp);
     let s = on_cubic (\<lambda>ca. (cubictcp_reset ca)\<lparr>cu_loss_cwnd := 0,
               cu_hystart_ack_delta := sint (tv_hystart_ack_delta tcp),
               cu_hystart_low_window := tv_hystart_low_window tcp, cu_beta := b,
               cu_bic_scale := sint (tv_bic_scale tcp),
               cu_initial_ssthresh := ucast (tv_initSSThresh tcp)\<rparr>) s;
     Some (cubictcp_hystart_reset E s) }"

text \<open>
  The three shared variables.  \<open>do_div(x,y)\<close> expands to \<open>x=x/y\<close> without parentheses, so its use
  divides by \<open>bic_scale\<close> and multiplies by 10; \<open>2 ^ 40\<close> is cut to 32 bits before.
\<close>

definition cubic_statics :: "CUBIC \<Rightarrow> CUBIC_STATICS option" where
  "cubic_statics ca = do {
     a \<leftarrow> c_int (int BICTCP_BETA_SCALE + cu_beta ca);
     a \<leftarrow> c_int (8 * a);
     a \<leftarrow> c_quot a 3;
     b \<leftarrow> c_int (int BICTCP_BETA_SCALE - cu_beta ca);
     bs \<leftarrow> c_quot a b;
     rs \<leftarrow> c_int (cu_bic_scale ca * 10);
     q \<leftarrow> div32 (ucast (push_bit (10 + 3 * BICTCP_HZ) (1 :: u64))) (word_of_int (cu_bic_scale ca));
     Some \<lparr>cube_rtt_scale = word_of_int rs, beta_scale = word_of_int bs, cube_factor = q * 10\<rparr> }"

definition init_cubic :: "TCP_ENV \<Rightarrow> NETSIM_SOCKET \<Rightarrow> NETSIM_SOCKET option" where
  "init_cubic E s = do {
     tcp \<leftarrow> GET_TCP_DEV_VAR E (localDeviceId s);
     let s = on_cv (\<lambda>v. v\<lparr>SMSS := tv_MSS tcp, RMSS := tv_MSS tcp\<rparr>) s;
     s \<leftarrow> set_ssthres (ucast (tv_initSSThresh tcp)) s;
     let s = on_cv (\<lambda>v. v\<lparr>cwnd := ssthresh v, rwnd := ssthresh v, cv_isFastRetransmit := True\<rparr>) s;
     s \<leftarrow> cubictcp_init E tcp s;
     g \<leftarrow> cubic_statics (cubic_of s);
     Some (s\<lparr>cubicStatics := g\<rparr>) }"

section \<open>The cubic root\<close>

definition cubic_root_v :: "u32 list" where
  "cubic_root_v =
     [  0,  54,  54,  54, 118, 118, 118, 118, 123, 129, 134, 138, 143, 147, 151, 156,
      157, 161, 164, 168, 170, 173, 176, 179, 181, 185, 187, 190, 192, 194, 197, 199,
      200, 202, 204, 206, 209, 211, 213, 215, 217, 219, 221, 222, 224, 225, 227, 229,
      231, 232, 234, 236, 237, 239, 240, 242, 244, 245, 246, 248, 250, 251, 252, 254]"

definition cubic_root_at :: "u32 \<Rightarrow> u32 option" where
  "cubic_root_at i =
     (if unat i < length cubic_root_v then Some (cubic_root_v ! unat i) else None)"

definition cubic_root :: "u64 \<Rightarrow> u32 option" where
  "cubic_root a = do {
     let b = count_bit a;
     if b < 7
     then do {
       v \<leftarrow> cubic_root_at (ucast a);
       Some (drop_bit 6 (v + 35)) }
     else do {
       let b = drop_bit 8 (b * 84) - 1;
       _ \<leftarrow> assert_c (unat (b * 3) < 64);
       let shift = (ucast (drop_bit (unat (b * 3)) a) :: u32);
       v \<leftarrow> cubic_root_at shift;
       _ \<leftarrow> assert_c (unat b < 32);
       let x = drop_bit 6 (push_bit (unat b) (v + 10));
       q \<leftarrow> div64_u64 a (ucast x * ucast (x - 1));
       let x = 2 * x + ucast q;
       Some (drop_bit 10 (x * 341)) } }"

section \<open>The window growth function\<close>

definition cubictcp_recalc_ssthresh :: "NETSIM_SOCKET \<Rightarrow> (u32 \<times> NETSIM_SOCKET) option" where
  "cubictcp_recalc_ssthresh s = do {
     segCwnd \<leftarrow> seg_cwnd s;
     let ca = cubic_of s;
     wmax \<leftarrow> (if segCwnd < cu_last_max_cwnd ca
              then do {
                f \<leftarrow> c_int (int BICTCP_BETA_SCALE + cu_beta ca);
                Some ((segCwnd * word_of_int f) div of_nat (2 * BICTCP_BETA_SCALE)) }
              else Some segCwnd);
     let s = on_cubic (\<lambda>ca. ca\<lparr>cu_epoch_start := 0, cu_last_max_cwnd := wmax,
               cu_loss_cwnd := segCwnd\<rparr>) s;
     Some (max ((segCwnd * word_of_int (cu_beta ca)) div of_nat BICTCP_BETA_SCALE) 2, s) }"

text \<open>The start of an epoch.\<close>

definition cubic_new_epoch :: "u32 \<Rightarrow> u32 \<Rightarrow> u32 \<Rightarrow> u32 \<Rightarrow> CUBIC \<Rightarrow> CUBIC option" where
  "cubic_new_epoch factor ts acked cw ca = do {
     let ca = ca\<lparr>cu_epoch_start := ts, cu_ack_cnt := acked, cu_tcp_cwnd := cw\<rparr>;
     if cu_last_max_cwnd ca \<le> cw
     then Some (ca\<lparr>cu_bic_K := 0, cu_bic_origin_point := cw\<rparr>)
     else do {
       k \<leftarrow> cubic_root (ucast (factor * (cu_last_max_cwnd ca - cw)));
       Some (ca\<lparr>cu_bic_K := k, cu_bic_origin_point := cu_last_max_cwnd ca\<rparr>) } }"

text \<open>
  The target window of the cubic function at time \<open>ts\<close>.  The elapsed time is an \<open>int\<close> that is
  extended to 64 bits with its sign.
\<close>

definition cubic_target :: "u32 \<Rightarrow> u32 \<Rightarrow> CUBIC \<Rightarrow> u32" where
  "cubic_target rtt_scale ts ca =
     (let t = (scast (ts - cu_epoch_start ca) :: u64);
          t = t + ucast (drop_bit 3 (cu_delay_min ca));
          t = push_bit BICTCP_HZ t div of_nat HZ;
          k = (ucast (cu_bic_K ca) :: u64);
          offs = (if t < k then k - t else t - k);
          delta = (ucast (drop_bit (10 + 3 * BICTCP_HZ) (ucast rtt_scale * offs * offs * offs)) :: u32)
      in if t < k then cu_bic_origin_point ca - delta else cu_bic_origin_point ca + delta)"

definition cubic_cnt :: "u32 \<Rightarrow> u32 \<Rightarrow> CUBIC \<Rightarrow> CUBIC" where
  "cubic_cnt bic_target cw ca =
     (let cnt = (if bic_target > cw then cw div (bic_target - cw) else 100 * cw);
          cnt = (if cu_last_max_cwnd ca = 0 \<and> cnt > 20 then 20 else cnt)
      in ca\<lparr>cu_cnt := cnt\<rparr>)"

text \<open>The loop that lets the estimated TCP window catch up.\<close>

function friendly_loop :: "u32 \<Rightarrow> u32 \<times> u32 \<Rightarrow> u32 \<times> u32" where
  "friendly_loop delta (ack_cnt, tcp_cwnd) =
     (if delta \<noteq> 0 \<and> ack_cnt > delta then friendly_loop delta (ack_cnt - delta, tcp_cwnd + 1)
      else (ack_cnt, tcp_cwnd))"
  by pat_completeness auto

termination
  by (relation "measure (\<lambda>(d, a, w). unat a)")
     (auto simp: word_less_nat_alt unat_sub_if' unat_gt_0 intro!: diff_less)

declare friendly_loop.simps [simp del]

definition cubic_friendly :: "u32 \<Rightarrow> u32 \<Rightarrow> CUBIC \<Rightarrow> CUBIC" where
  "cubic_friendly scale cw ca =
     (let (a, w) = friendly_loop (drop_bit 3 (cw * scale)) (cu_ack_cnt ca, cu_tcp_cwnd ca);
          ca = ca\<lparr>cu_ack_cnt := a, cu_tcp_cwnd := w\<rparr>
      in if w > cw then ca\<lparr>cu_cnt := min (cu_cnt ca) (cw div (w - cw))\<rparr> else ca)"

definition cubictcp_update :: "TCP_ENV \<Rightarrow> u32 \<Rightarrow> NETSIM_SOCKET \<Rightarrow> NETSIM_SOCKET option" where
  "cubictcp_update E acked s = do {
     cw \<leftarrow> seg_cwnd s;
     let g = cubicStatics s;
     let ts = tcp_time_stamp E;
     let s = on_cubic (\<lambda>ca. ca\<lparr>cu_ack_cnt := cu_ack_cnt ca + acked\<rparr>) s;
     let ca = cubic_of s;
     if cu_last_cwnd ca = cw \<and> sint (ts - cu_last_time ca) \<le> int (HZ div 32) then Some s
     else do {
       ca \<leftarrow> (if cu_epoch_start ca \<noteq> 0 \<and> ts = cu_last_time ca then Some ca
              else do {
                let ca = ca\<lparr>cu_last_cwnd := cw, cu_last_time := ts\<rparr>;
                ca \<leftarrow> (if cu_epoch_start ca = 0 then cubic_new_epoch (cube_factor g) ts acked cw ca
                       else Some ca);
                Some (cubic_cnt (cubic_target (cube_rtt_scale g) ts ca) cw ca) });
       let ca = cubic_friendly (beta_scale g) cw ca;
       Some (on_cubic (\<lambda>_. ca\<lparr>cu_cnt := max (cu_cnt ca) 2\<rparr>) s) } }"

definition cubictcp_cong_avoid :: "TCP_ENV \<Rightarrow> u32 \<Rightarrow> NETSIM_SOCKET \<Rightarrow> NETSIM_SOCKET option" where
  "cubictcp_cong_avoid E segmentAcked s = do {
     b \<leftarrow> tcp_in_slow_start s;
     (s, segmentAcked) \<leftarrow> (if b
        then do {
          let s = (if after (SEG_ACK (tcb s)) (cu_end_seq (cubic_of s))
                   then cubictcp_hystart_reset E s else s);
          s \<leftarrow> cubic_slowStart s;
          Some (s, segmentAcked - 1) }
        else Some (s, segmentAcked));
     b \<leftarrow> tcp_in_slow_start s;
     if \<not> b \<and> segmentAcked > 0
     then do {
       let s = on_cubic (\<lambda>ca. ca\<lparr>cu_cwndcnt := cu_cwndcnt ca + segmentAcked\<rparr>) s;
       s \<leftarrow> cubictcp_update E segmentAcked s;
       if cu_cwndcnt (cubic_of s) > cu_cnt (cubic_of s)
       then do {
         s \<leftarrow> cubic_increase_cwnd (SMSS (get_congestionvar s)) s;
         Some (on_cubic (\<lambda>ca. ca\<lparr>cu_cwndcnt := 0\<rparr>) s) }
       else Some s }
     else Some s }"

section \<open>Hybrid slow start\<close>

text \<open>
  The first test compares two \<open>int\<close>s, the second an \<open>int\<close> with an unsigned number, which makes
  it unsigned.
\<close>

definition hystart_ack_train :: "TCP_ENV \<Rightarrow> NETSIM_SOCKET \<Rightarrow> NETSIM_SOCKET option" where
  "hystart_ack_train E s = do {
     let t = cubictcp_clock E;
     let ca = cubic_of s;
     if sint (t - cu_last_ack ca) \<le> cu_hystart_ack_delta ca
     then do {
       let s = on_cubic (\<lambda>ca. ca\<lparr>cu_last_ack := t\<rparr>) s;
       if t - cu_round_start ca > drop_bit 4 (cu_delay_min ca)
       then do {
         let s = on_cubic (\<lambda>ca. ca\<lparr>cu_found := cu_found ca OR HYSTART_ACK_TRAIN\<rparr>) s;
         th \<leftarrow> get_ssthres s;
         if th \<noteq> cu_initial_ssthresh ca then cubic_set_cwnd th s else Some s }
       else Some s }
     else Some s }"

definition hystart_delay :: "u32 \<Rightarrow> NETSIM_SOCKET \<Rightarrow> NETSIM_SOCKET option" where
  "hystart_delay delay s =
     (let ca = cubic_of s in
      if cu_sample_cnt ca < HYSTART_MIN_SAMPLES
      then Some (on_cubic (\<lambda>ca. ca\<lparr>
             cu_curr_rtt := (if cu_curr_rtt ca = 0 \<or> cu_curr_rtt ca > delay then delay
                             else cu_curr_rtt ca),
             cu_sample_cnt := cu_sample_cnt ca + 1\<rparr>) s)
      else if cu_curr_rtt ca > cu_delay_min ca + HYSTART_DELAY_THRESH (drop_bit 3 (cu_delay_min ca))
      then do {
        let s = on_cubic (\<lambda>ca. ca\<lparr>cu_found := cu_found ca OR HYSTART_DELAY\<rparr>) s;
        c \<leftarrow> get_cwnd s;
        set_ssthres c s }
      else Some s)"

definition hystart_update :: "TCP_ENV \<Rightarrow> u32 \<Rightarrow> NETSIM_SOCKET \<Rightarrow> NETSIM_SOCKET option" where
  "hystart_update E delay s =
     (if cu_found (cubic_of s) AND hystart_detect \<noteq> 0 then Some s
      else do {
        s \<leftarrow> (if hystart_detect AND HYSTART_ACK_TRAIN \<noteq> 0 then hystart_ack_train E s else Some s);
        if hystart_detect AND HYSTART_DELAY \<noteq> 0 then hystart_delay delay s else Some s })"

definition cubictcp_acked :: "TCP_ENV \<Rightarrow> NETSIM_SOCKET \<Rightarrow> NETSIM_SOCKET option" where
  "cubictcp_acked E s = do {
     cw \<leftarrow> seg_cwnd s;
     rtt \<leftarrow> get_RTT E (tcb s) (SEG_ACK (tcb s));
     let delay = double_to_uint (real (unat (push_bit 3 (double_to_uint rtt))) / 1000);
     let delay = (if delay = 0 then 1 else delay);
     b \<leftarrow> tcp_in_slow_start s;
     if b \<and> cw \<ge> cu_hystart_low_window (cubic_of s) then hystart_update E delay s else Some s }"

section \<open>Acknowledgements\<close>

definition cubictcp_fastretransmit :: "TCP_ENV \<Rightarrow> NETSIM_SOCKET \<Rightarrow> NETSIM_SOCKET option" where
  "cubictcp_fastretransmit E s =
     (if dupAckCount (get_congestionvar s) = TCP_DupThresh
      then do {
        (ssThresh, s) \<leftarrow> cubictcp_recalc_ssthresh s;
        s \<leftarrow> set_ssthres (ssThresh * ucast (congestion_get_MSS s)) s;
        th \<leftarrow> get_ssthres s;
        s \<leftarrow> cubic_set_cwnd (th + TCP_DupThresh * ucast (SMSS (get_congestionvar s))) s;
        s \<leftarrow> resend_segment_without_timeout E (SEG_ACK (tcb s)) s;
        let s = on_cv (\<lambda>v. v\<lparr>cv_isFastRecovery := True\<rparr>) s;
        if isSackOption (tcb s)
        then do {
          s \<leftarrow> tcp_sack_fastRetransmit s;
          Some (on_cv (\<lambda>v. v\<lparr>isLossRecoveryPhase := True\<rparr>) s) }
        else Some s }
      else do {
        s \<leftarrow> cubic_increase_cwnd (SMSS (get_congestionvar s)) s;
        if isSackOption (tcb s) \<and> isLossRecoveryPhase (get_congestionvar s)
        then do {
          (b, s) \<leftarrow> tcp_sack_lossRecoveryPhase E s;
          Some (on_cv (\<lambda>v. v\<lparr>isLossRecoveryPhase := b\<rparr>) s) }
        else Some s })"

definition cubic_FastRecovery :: "NETSIM_SOCKET \<Rightarrow> NETSIM_SOCKET option" where
  "cubic_FastRecovery s = do {
     let s = on_cv (\<lambda>v. v\<lparr>cv_isFastRecovery := False, dupAckCount := 0\<rparr>) s;
     t \<leftarrow> get_ssthres s;
     cubic_set_cwnd t s }"

definition cubic_ack_received :: "TCP_ENV \<Rightarrow> NETSIM_SOCKET \<Rightarrow> NETSIM_SOCKET option" where
  "cubic_ack_received E s = do {
     segmentAcked \<leftarrow> div32 (SEG_ACK (tcb s) - SND_UNA (tcb s)) (ucast (congestion_get_MSS s));
     if isDupAck s
     then do {
       let s = count_dup s;
       if dupAckCount (get_congestionvar s) < TCP_DupThresh
       then do { b \<leftarrow> early_loss s; if b then cubictcp_fastretransmit E s else Some s }
       else cubictcp_fastretransmit E s }
     else if cv_isFastRecovery (get_congestionvar s) then cubic_FastRecovery s
     else do {
       s \<leftarrow> cubictcp_acked E s;
       cubictcp_cong_avoid E segmentAcked s } }"

section \<open>The callbacks of a variant\<close>

text \<open>
  The callbacks \<open>congestion_setcallback\<close> installs, by variant.  The others (\<open>rto_expired\<close>,
  \<open>get_MSS\<close>, \<open>get_WND\<close>, \<open>set_MSS\<close>) are those of \<open>Congestion.c\<close> for every variant.
\<close>

type_synonym callback = "TCP_ENV \<Rightarrow> NETSIM_SOCKET \<Rightarrow> NETSIM_SOCKET option"

definition ack_received :: callback where
  "ack_received E s = (case variant (tcb s) of
       TCPVariant_OLDTAHOE \<Rightarrow> oldtahoe_ack_received E s
     | TCPVariant_TAHOE \<Rightarrow> tahoe_ack_received E s
     | TCPVariant_RENO \<Rightarrow> reno_ack_received E s
     | TCPVariant_NEWRENO \<Rightarrow> newreno_ack_received E s
     | TCPVariant_BIC \<Rightarrow> bic_ack_received E s
     | TCPVariant_CUBIC \<Rightarrow> cubic_ack_received E s)"

definition init_congestionalgo :: callback where
  "init_congestionalgo E s =
     (if variant (tcb s) = TCPVariant_CUBIC then init_cubic E s else init_congestion E s)"

section \<open>Facts on the cubic root\<close>

lemma i64toa2_first: "0 < n \<Longrightarrow> \<exists>ds. i64toa2 n = CHR ''1'' # ds"
proof (induction n rule: i64toa2.induct)
  case (1 n)
  show ?case
  proof (cases "n < 2")
    case True
    with 1(2) show ?thesis by (subst i64toa2.simps) auto
  next
    case False
    with 1(1) obtain ds where "i64toa2 (n div 2) = CHR ''1'' # ds" by fastforce
    with False show ?thesis by (subst i64toa2.simps) simp
  qed
qed

text \<open>The first digit of a number is 1, so \<open>count_bit\<close> is always 0.\<close>

lemma count_bit_0 [simp]: "count_bit n = 0"
proof (cases "n = 0")
  case True
  then show ?thesis by (simp add: count_bit_def i64toa2.simps [of 0])
next
  case False
  then obtain ds where "i64toa2 (unat n) = CHR ''1'' # ds"
    using i64toa2_first [of "unat n"] by (auto simp: unat_gt_0)
  then show ?thesis by (simp add: count_bit_def)
qed

lemma cubic_root_small:
  "cubic_root a = (if unat (ucast a :: u32) < 64
     then Some (drop_bit 6 (cubic_root_v ! unat (ucast a :: u32) + 35)) else None)"
  by (simp add: cubic_root_def cubic_root_at_def cubic_root_v_def)

end
