(* ===== verification/Tcp_Connection.thy ===== *)
theory Tcp_Connection
  imports Tcp_Cubic
begin

text \<open>
  Opening, resetting and closing a connection: the control block (\<open>create_TCB\<close> and
  \<open>free_tcb\<close> of \<open>TCP/TCB.c\<close>), the handshake (\<open>TCP/TCP_Connection.c\<close>), accepting and closing
  sockets (\<open>TCP/TCP_Socket.c\<close>) and the two timers (\<open>TCP/RTO.c\<close>, \<open>TCP/TCP.c\<close>).

  The handlers are about one socket.  The list of a device's sockets only serves to find
  the socket of a packet; it is in \<open>Tcp_World\<close>.
\<close>

section \<open>The control block\<close>

definition calculate_initial_seq_num :: "simtime \<Rightarrow> u32" where
  "calculate_initial_seq_num time = max 1 (double_to_uint (time / 4))"

text \<open>
  \<open>congestion_setcallback\<close> installs the callbacks of the variant, which the model reads off
  \<open>variant\<close>, and runs the initialisation.
\<close>

definition congestion_setcallback :: callback where
  "congestion_setcallback E s = init_congestionalgo E s"

definition set_tcp_variant ::
  "TCP_ENV \<Rightarrow> TCP_DEV_VAR \<Rightarrow> NETSIM_SOCKET \<Rightarrow> NETSIM_SOCKET option" where
  "set_tcp_variant E tcp s =
     congestion_setcallback E (on_tcb (\<lambda>t. t\<lparr>variant := tv_tcpVariant tcp\<rparr>) s)"

definition setSackPermitted :: "TCP_DEV_VAR \<Rightarrow> TCB \<Rightarrow> TCB" where
  "setSackPermitted tcp t = t\<lparr>isSackPermitted := tv_isSackPermitted tcp\<rparr>"

definition create_TCB :: callback where
  "create_TCB E s = do {
     tcp \<leftarrow> GET_TCP_DEV_VAR E (localDeviceId s);
     s \<leftarrow> set_tcp_variant E tcp (s\<lparr>tcb := zero_tcb\<rparr>);
     let s = on_tcb (set_timestamp_option tcp \<circ> set_window_scaling_option tcp
               \<circ> setSackPermitted tcp \<circ> set_ack_type tcp) s;
     let (rto, srtt, rttvar) = calculate_RTO 0 (TCP_SRTT (tcb s)) (TCP_RTTVAR (tcb s));
     let s = on_tcb (\<lambda>t. t\<lparr>TCP_RTO := rto, TCP_SRTT := srtt, TCP_RTTVAR := rttvar,
               timeWaitTimer := tv_timeWaitTimer tcp,
               ISS := calculate_initial_seq_num (now E),
               SND_WND := ucast (congestion_get_WND s), RCV_WND := ucast (congestion_get_WND s),
               tcp_state := TCPCONNECTION_CLOSED, tcp_prev_state := TCPCONNECTION_CLOSED\<rparr>) s;
     init_congestionalgo E s }"

definition free_tcb :: "TCB \<Rightarrow> unit option" where
  "free_tcb t = map_option (\<lambda>_. ()) (free_queue (retransmissionQueue t))"

definition delete_tcb :: "NETSIM_SOCKET \<Rightarrow> SOCKET_REF option" where
  "delete_tcb s = do {
     _ \<leftarrow> free_tcb (tcb s);
     Some (NoTcb s) }"

text \<open>
  The log line of \<open>tcp_close_socket\<close> reads both addresses, and so does its last test.  The
  list of the device \<open>devId\<close> is changed by the caller in \<open>Tcp_World\<close>.
\<close>

definition tcp_close_socket :: "NETSIM_ID \<Rightarrow> NETSIM_SOCKET \<Rightarrow> SOCKET_REF option" where
  "tcp_close_socket devId s = do {
     _ \<leftarrow> assert_c (localAddr s \<noteq> None \<and> remoteAddr s \<noteq> None);
     let s = on_tcb (tcp_change_state TCPCONNECTION_CLOSED) s;
     _ \<leftarrow> free_tcb (tcb s);
     Some (Freed devId s) }"

section \<open>Opening\<close>

definition send_syn :: callback where
  "send_syn E s = do {
     syn \<leftarrow> create_syn E s (now E);
     let s = on_tcb (\<lambda>t. t\<lparr>SND_UNA := ISS t, SND_NXT := ISS t + 1\<rparr>) s;
     let s = on_tcb (tcp_change_state TCPCONNECTION_SYN_SENT) s;
     let s = on_tcb (\<lambda>t. t\<lparr>synRetries := synRetries t + 1\<rparr>) s;
     let s = on_metrics (\<lambda>m. m\<lparr>synSent := synSent m + 1\<rparr>) s;
     send_with_timeout E syn s }"

definition tcp_active_open :: callback where
  "tcp_active_open E s = do {
     s \<leftarrow> create_TCB E s;
     send_syn E s }"

definition tcp_passive_open ::
  "TCP_ENV \<Rightarrow> NETSIM_SOCKET \<Rightarrow> NETSIM_SOCKET \<Rightarrow> NETSIM_SOCKET option" where
  "tcp_passive_open E ls s = do {
     s \<leftarrow> create_TCB E s;
     let s = on_tcb (\<lambda>t. t\<lparr>SEG_SEQ := SEG_SEQ (tcb ls), SEG_ACK := SEG_ACK (tcb ls),
               SEG_LEN := SEG_LEN (tcb ls), SEG_WND := SEG_WND (tcb ls)\<rparr>) s;
     Some (on_tcb (tcp_change_state TCPCONNECTION_LISTEN) s) }"

definition tcp_connect ::
  "TCP_ENV \<Rightarrow> SOCKETADDRESS \<Rightarrow> SOCKETADDRESS \<Rightarrow> NETSIM_SOCKET
     \<Rightarrow> NETSIM_SOCKET option" where
  "tcp_connect E la ra s =
     tcp_active_open E
       (s\<lparr>localAddr := Some la, remoteAddr := Some ra, tcpMetrics := zero_tcp_metrics\<rparr>)"

definition rcv_SYN :: "TCP_ENV \<Rightarrow> TCP_PACKET \<Rightarrow> NETSIM_SOCKET \<Rightarrow> NETSIM_SOCKET option" where
  "rcv_SYN E syn s = do {
     let hdr = TCP_GET_SEGMENT_HDR syn;
     let s = on_tcb (\<lambda>t. t\<lparr>RCV_NXT := SEG_SEQ t + 1, IRS := SEG_SEQ t\<rparr>) s;
     wsopt \<leftarrow> as_ws (get_tcp_option hdr TCP_OPTION_WINDOW_SCALE);
     let s = on_tcb (set_window_scaling wsopt) s;
     opt \<leftarrow> as_mss (get_tcp_option hdr TCP_OPTION_MSS);
     s \<leftarrow> (case opt of Some m \<Rightarrow> congestion_set_MSS E (MSSData m) s | None \<Rightarrow> Some s);
     tsopt \<leftarrow> as_ts (get_tcp_option hdr TCP_OPTION_TIMESTAMP);
     let s = on_tcb (set_timestamp_value hdr tsopt) s;
     let s = (if isSackPermitted (tcb s)
              then on_tcb (\<lambda>t. t\<lparr>isSackPermitted :=
                     (get_tcp_option hdr TCP_OPTION_SACK_PERMITTED \<noteq> None)\<rparr>) s
              else s);
     synAck \<leftarrow> create_synAck E s (now E);
     let s = on_tcb (tcp_change_state TCPCONNECTION_SYN_RECEIVED) s;
     let s = on_tcb (\<lambda>t. t\<lparr>SND_UNA := ISS t, SND_NXT := ISS t + 1,
               synRetries := synRetries t + 1\<rparr>) s;
     let s = on_metrics (\<lambda>m. m\<lparr>synAckSent := synAckSent m + 1\<rparr>) s;
     send_with_timeout E synAck s }"

text \<open>What \<open>tcp_create_socket\<close> returns, with the next socket number.\<close>

definition tcp_create_socket :: "u32 \<Rightarrow> NETSIM_SOCKET" where
  "tcp_create_socket sid = \<lparr>SocketId = sid, localAddr = None, remoteAddr = None,
     localDeviceId = 0, remoteDeviceId = 0, sId = None, waitFromApp = False,
     isAPPClose = False, listen_callback = False, tcb = zero_tcb,
     tcpMetrics = zero_tcp_metrics, iface = [], posted = [], tcpErrors = 0,
     cubicStatics = \<lparr>cube_rtt_scale = 0, beta_scale = 0, cube_factor = 0\<rparr>\<rparr>"

definition tcp_accept ::
  "TCP_ENV \<Rightarrow> u32 \<Rightarrow> TCP_PACKET \<Rightarrow> NETSIM_SOCKET \<Rightarrow> NETSIM_SOCKET option" where
  "tcp_accept E sid p s = do {
     let n = (tcp_create_socket sid)\<lparr>cubicStatics := cubicStatics s\<rparr>;
     let n = n\<lparr>localDeviceId := get_first_dest_from_packet E p,
               remoteDeviceId := tp_nSourceId p,
               localAddr := Some \<lparr>sa_ip = tp_szDestIP p, sa_port = tp_nDestinationPort p\<rparr>,
               remoteAddr := Some \<lparr>sa_ip = tp_szSourceIP p, sa_port = tp_nSourcePort p\<rparr>\<rparr>;
     let n = n\<lparr>sId := GetSocketInterface E (localDeviceId n) (tp_nDestinationPort p)
                 (tp_nSourcePort p)\<rparr>;
     n \<leftarrow> tcp_passive_open E s n;
     rcv_SYN E p n }"

definition fnListenCallback ::
  "TCP_ENV \<Rightarrow> u32 \<Rightarrow> TCP_PACKET \<Rightarrow> NETSIM_SOCKET \<Rightarrow> NETSIM_SOCKET option" where
  "fnListenCallback E sid p s = tcp_accept E sid p s"

text \<open>The socket after the call and the socket that was accepted, if any.\<close>

definition process_syn ::
  "TCP_ENV \<Rightarrow> u32 \<Rightarrow> TCP_PACKET \<Rightarrow> NETSIM_SOCKET
     \<Rightarrow> (NETSIM_SOCKET \<times> NETSIM_SOCKET option) option" where
  "process_syn E sid p s =
     (let callback = (if listen_callback s
                      then map_option (\<lambda>n. (s, Some n)) (fnListenCallback E sid p s)
                      else None);
          t = tcb s in
      if localAddr s = None then callback
      else if (IRS t \<noteq> 0 \<and> IRS t \<noteq> SEG_SEQ t) \<or> (RCV_NXT t \<noteq> 0 \<and> RCV_NXT t \<noteq> SEG_SEQ t + 1)
      then map_option (\<lambda>s. (s, None)) (send_rst E p 2 s)
      else callback)"

definition tcp_bind ::
  "TCP_ENV \<Rightarrow> SOCKETADDRESS \<Rightarrow> NETSIM_SOCKET \<Rightarrow> NETSIM_SOCKET option" where
  "tcp_bind E addr s = create_TCB E (s\<lparr>remoteAddr := Some addr\<rparr>)"

definition tcp_listen :: "NETSIM_SOCKET \<Rightarrow> NETSIM_SOCKET" where
  "tcp_listen s = on_tcb (tcp_change_state TCPCONNECTION_LISTEN) (s\<lparr>listen_callback := True\<rparr>)"

section \<open>Segments in the states before the connection is established\<close>

definition packet_arrive_at_closed_state ::
  "TCP_ENV \<Rightarrow> TCP_PACKET \<Rightarrow> NETSIM_SOCKET \<Rightarrow> NETSIM_SOCKET option" where
  "packet_arrive_at_closed_state E p s =
     (if isTCPControl p \<and> \<not> Rst (TCP_GET_SEGMENT_HDR p) then send_rst E p 0 s else Some s)"

definition packet_arrives_at_listen_state ::
  "TCP_ENV \<Rightarrow> u32 \<Rightarrow> TCP_PACKET \<Rightarrow> NETSIM_SOCKET
     \<Rightarrow> (NETSIM_SOCKET \<times> NETSIM_SOCKET option) option" where
  "packet_arrives_at_listen_state E sid p s =
     (let hdr = TCP_GET_SEGMENT_HDR p in
      if Rst hdr then Some (s, None)
      else if Ack hdr then map_option (\<lambda>s. (s, None)) (send_rst E p 0 s)
      else if Syn hdr then process_syn E sid p s
      else Some (tcp_error s, None))"

text \<open>
  In the state SYN-SENT a reset with an acceptable acknowledgement makes the code call
  \<open>delete_tcb\<close>, which sets \<open>s->tcb\<close> to null, and then \<open>tcp_change_state\<close>, which follows it.
\<close>

definition synsent_established ::
  "TCP_ENV \<Rightarrow> TCP_SEGMENT_HDR \<Rightarrow> NETSIM_SOCKET \<Rightarrow> NETSIM_SOCKET option" where
  "synsent_established E hdr s = do {
     let s = on_tcb (\<lambda>t. t\<lparr>RCV_NXT := SEG_SEQ t + 1, IRS := SEG_SEQ t, SND_UNA := SEG_ACK t\<rparr>) s;
     opt \<leftarrow> as_mss (get_tcp_option hdr TCP_OPTION_MSS);
     s \<leftarrow> (case opt of Some m \<Rightarrow> congestion_set_MSS E (MSSData m) s | None \<Rightarrow> Some s);
     s \<leftarrow> (if isTSopt (tcb s)
           then do {
             tsopt \<leftarrow> as_ts (get_tcp_option hdr TCP_OPTION_TIMESTAMP);
             Some (on_tcb (set_timestamp_value hdr tsopt) s) }
           else Some s);
     Q \<leftarrow> delete_segment_from_queue (retransmissionQueue (tcb s)) (SEG_ACK (tcb s));
     let s = on_tcb (\<lambda>t. t\<lparr>retransmissionQueue := Q\<rparr>) s;
     if SND_UNA (tcb s) > ISS (tcb s)
     then do {
       let s = on_tcb (\<lambda>t. t\<lparr>SND_WND := SEG_WND t, SND_WL1 := SEG_SEQ t,
                 SND_WL2 := SEG_ACK t\<rparr>) s;
       s \<leftarrow> send_ack E (SND_NXT (tcb s)) (RCV_NXT (tcb s)) s;
       let s = on_tcb (tcp_change_state TCPCONNECTION_ESTABLISHED) s;
       send_segment E s }
     else Some s }"

definition packet_arrives_at_synsent_state ::
  "TCP_ENV \<Rightarrow> TCP_PACKET \<Rightarrow> NETSIM_SOCKET \<Rightarrow> NETSIM_SOCKET option" where
  "packet_arrives_at_synsent_state E p s =
     (let hdr = TCP_GET_SEGMENT_HDR p; t = tcb s in
      if Ack hdr \<and> (SEG_ACK t \<le> ISS t \<or> SEG_ACK t > SND_NXT t) then send_rst E p 0 s
      else
        let isAckAcceptable = (Ack hdr \<and> SND_UNA t \<le> SEG_ACK t \<and> SEG_ACK t \<le> SND_NXT t) in
        if Rst hdr then (if isAckAcceptable then None else Some s)
        else if isAckAcceptable \<and> Syn hdr then synsent_established E hdr s
        else Some s)"

section \<open>Timers\<close>

definition resend_syn :: "TCP_ENV \<Rightarrow> TCP_PACKET \<Rightarrow> NETSIM_SOCKET \<Rightarrow> SOCKET_REF option" where
  "resend_syn E expired s = do {
     tcp \<leftarrow> GET_TCP_DEV_VAR E (te_nDeviceId (tev E));
     _ \<leftarrow> assert_c (tcp_state (tcb s) = TCPCONNECTION_SYN_SENT
                   \<or> tcp_state (tcb s) = TCPCONNECTION_SYN_RECEIVED);
     (r, Q) \<leftarrow> get_segment_from_queue (retransmissionQueue (tcb s))
                 (SeqNum (TCP_GET_SEGMENT_HDR expired));
     let s = on_tcb (\<lambda>t. t\<lparr>retransmissionQueue := Q\<rparr>) s;
     if synRetries (tcb s) < tv_MaxSynRetries tcp
     then do {
       syn \<leftarrow> r;
       let s = on_tcb (\<lambda>t. t\<lparr>SND_UNA := ISS t, SND_NXT := ISS t + 1\<rparr>) s;
       s \<leftarrow> send_with_timeout E syn s;
       let s = on_metrics (\<lambda>m. if tp_nControlDataType syn = TCPPACKET_SYN
                 then m\<lparr>synSent := synSent m + 1\<rparr> else m\<lparr>synAckSent := synAckSent m + 1\<rparr>) s;
       Some (Live (on_tcb (\<lambda>t. t\<lparr>synRetries := synRetries t + 1\<rparr>) s)) }
     else tcp_close_socket (te_nDeviceId (tev E)) s }"

definition handle_rto_timer_for_ctrl ::
  "TCP_ENV \<Rightarrow> TCP_PACKET \<Rightarrow> NETSIM_SOCKET \<Rightarrow> SOCKET_REF option" where
  "handle_rto_timer_for_ctrl E p s =
     (if isSynbitSet p then resend_syn E p s else Some (Live (tcp_error s)))"

text \<open>\<open>p\<close> is the packet of the timer event, \<open>r\<close> the socket found for it.\<close>

definition handle_rto_timer :: "TCP_ENV \<Rightarrow> TCP_PACKET \<Rightarrow> SOCKET_REF \<Rightarrow> SOCKET_REF option" where
  "handle_rto_timer E p r = (case r of
       Freed d s \<Rightarrow> Some r
     | NoTcb s \<Rightarrow> Some r
     | Live s \<Rightarrow>
         if isOtherTimerCancel (tcb s) then Some r
         else do {
           isPresent \<leftarrow> isSegmentInQueue (retransmissionQueue (tcb s)) p;
           if isPresent
           then do {
             let s = on_metrics (\<lambda>m. m\<lparr>timesRTOExpired := timesRTOExpired m + 1\<rparr>) s;
             let s = on_tcb (\<lambda>t. t\<lparr>TCP_RTO := Backoff_RTO (TCP_RTO t)\<rparr>) s;
             if isTCPControl p then handle_rto_timer_for_ctrl E p s
             else do {
               s \<leftarrow> congestion_rto_timeout s;
               s \<leftarrow> resend_segment E p s;
               Some (Live s) } }
           else Some r })"

definition start_timewait_timer :: "TCP_ENV \<Rightarrow> NETSIM_SOCKET \<Rightarrow> NETSIM_SOCKET" where
  "start_timewait_timer E s =
     (let e = (tev E)\<lparr>te_dEventTime := now E + timeWaitTimer (tcb s), te_dPacketSize := 0,
                te_nEventType := TCP_TIMER, te_nPacketId := 0,
                te_nProtocolId := TX_PROTOCOL_TCP, te_nSegmentId := 0,
                te_nSubEventType := TCP_TIME_WAIT_TIMEOUT, te_pPacket := None,
                te_ofSocket := True\<rparr>
      in on_tcb (\<lambda>t. t\<lparr>isOtherTimerCancel := True\<rparr>) (fnpAddTcpEvent e s))"

definition handle_time_wait_timeout :: "SOCKET_REF \<Rightarrow> SOCKET_REF option" where
  "handle_time_wait_timeout r = (case r of
       Live s \<Rightarrow>
         if istimewaittimerrestarted (tcb s)
         then Some (Live (on_tcb (\<lambda>t. t\<lparr>istimewaittimerrestarted := False\<rparr>) s))
         else delete_tcb (on_tcb (tcp_change_state TCPCONNECTION_CLOSED) s)
     | _ \<Rightarrow> None)"

end
