(* ===== verification/Tcp_Incoming.thy ===== *)
theory Tcp_Incoming
  imports Tcp_Connection
begin

text \<open>
  Segments of an established connection (\<open>TCP/TCP_Incoming.c\<close>), delivery to the application
  (\<open>TCP/TCP_ApplicationInterface.c\<close>) and the entry point for segments from the network layer
  (\<open>TCP/TCP_NetworkInterface.c\<close>).

  Freeing the packet of the event at the end of a handler has no counterpart on values.  (A
  FIN segment that arrives out of order is put into the out-of-order queue and freed by
  \<open>process_fin_packet\<close> while it is there; this one sharing is not visible in the model.)
\<close>

section \<open>Acceptability\<close>

definition Validate_segment :: "TCB \<Rightarrow> bool" where
  "Validate_segment t =
     (if SEG_LEN t = 0 \<and> RCV_WND t = 0 then SEG_SEQ t = RCV_NXT t
      else if SEG_LEN t = 0 \<and> RCV_WND t > 0
      then RCV_NXT t \<le> SEG_SEQ t \<and> SEG_SEQ t < RCV_NXT t + RCV_WND t
      else if SEG_LEN t > 0 \<and> RCV_WND t = 0 then False
      else (RCV_NXT t \<le> SEG_SEQ t \<and> SEG_SEQ t < RCV_NXT t + RCV_WND t)
           \<or> (RCV_NXT t \<le> SEG_SEQ t + SEG_LEN t - 1
              \<and> SEG_SEQ t + SEG_LEN t - 1 < RCV_NXT t + RCV_WND t))"

section \<open>RST and SYN\<close>

definition process_rst_packet :: "NETSIM_SOCKET \<Rightarrow> SOCKET_REF option" where
  "process_rst_packet s = (case tcp_state (tcb s) of
       TCPCONNECTION_SYN_RECEIVED \<Rightarrow> do {
         Q \<leftarrow> delete_all_segment_from_queue (retransmissionQueue (tcb s));
         let s = on_tcb (\<lambda>t. t\<lparr>retransmissionQueue := Q\<rparr>) s;
         if tcp_prev_state (tcb s) = TCPCONNECTION_LISTEN
         then Some (Live (on_tcb (tcp_change_state TCPCONNECTION_LISTEN) s))
         else tcp_close_socket (localDeviceId s) s }
     | TCPCONNECTION_ESTABLISHED \<Rightarrow> tcp_close_socket (localDeviceId s) s
     | TCPCONNECTION_FIN_WAIT_1 \<Rightarrow> tcp_close_socket (localDeviceId s) s
     | TCPCONNECTION_FIN_WAIT_2 \<Rightarrow> tcp_close_socket (localDeviceId s) s
     | TCPCONNECTION_CLOSE_WAIT \<Rightarrow> tcp_close_socket (localDeviceId s) s
     | TCPCONNECTION_CLOSING \<Rightarrow> tcp_close_socket (localDeviceId s) s
     | TCPCONNECTION_LAST_ACK \<Rightarrow> tcp_close_socket (localDeviceId s) s
     | TCPCONNECTION_TIME_WAIT \<Rightarrow> tcp_close_socket (localDeviceId s) s
     | _ \<Rightarrow> Some (Live s))"

definition process_syn_packet :: "NETSIM_SOCKET \<Rightarrow> SOCKET_REF option" where
  "process_syn_packet s = (case tcp_state (tcb s) of
       TCPCONNECTION_SYN_RECEIVED \<Rightarrow>
         Some (Live (on_tcb (tcp_change_state TCPCONNECTION_LISTEN) s))
     | TCPCONNECTION_ESTABLISHED \<Rightarrow> tcp_close_socket (localDeviceId s) s
     | TCPCONNECTION_FIN_WAIT_1 \<Rightarrow> tcp_close_socket (localDeviceId s) s
     | TCPCONNECTION_FIN_WAIT_2 \<Rightarrow> tcp_close_socket (localDeviceId s) s
     | TCPCONNECTION_CLOSE_WAIT \<Rightarrow> tcp_close_socket (localDeviceId s) s
     | TCPCONNECTION_CLOSING \<Rightarrow> tcp_close_socket (localDeviceId s) s
     | TCPCONNECTION_LAST_ACK \<Rightarrow> tcp_close_socket (localDeviceId s) s
     | TCPCONNECTION_TIME_WAIT \<Rightarrow> tcp_close_socket (localDeviceId s) s
     | _ \<Rightarrow> Some (Live s))"

section \<open>ACK\<close>

text \<open>The part of \<open>process_ack_in_establishedState\<close> for an acknowledgement of new data.\<close>

definition accept_ack :: "TCP_ENV \<Rightarrow> NETSIM_SOCKET \<Rightarrow> NETSIM_SOCKET option" where
  "accept_ack E s = do {
     rtt \<leftarrow> get_RTT E (tcb s) (SEG_ACK (tcb s));
     let (rto, srtt, rttvar) = calculate_RTO rtt (TCP_SRTT (tcb s)) (TCP_RTTVAR (tcb s));
     let s = on_tcb (\<lambda>t. t\<lparr>TCP_RTO := rto, TCP_SRTT := srtt, TCP_RTTVAR := rttvar,
               SND_UNA := SEG_ACK t\<rparr>) s;
     Q \<leftarrow> delete_segment_from_queue (retransmissionQueue (tcb s)) (SEG_ACK (tcb s));
     let s = on_tcb (\<lambda>t. t\<lparr>retransmissionQueue := Q\<rparr>) s;
     Some (on_tcb (\<lambda>t.
       if SND_WL1 t < SEG_SEQ t \<or> (SND_WL1 t = SEG_SEQ t \<and> SND_WL2 t \<le> SEG_ACK t)
       then t\<lparr>SND_WND := SEG_WND t, SND_WL1 := SEG_SEQ t, SND_WL2 := SEG_ACK t\<rparr>
       else t) s) }"

definition process_ack_in_establishedState ::
  "TCP_ENV \<Rightarrow> TCP_SEGMENT_HDR \<Rightarrow> NETSIM_SOCKET
     \<Rightarrow> (bool \<times> NETSIM_SOCKET) option" where
  "process_ack_in_establishedState E hdr s = do {
     s \<leftarrow> receive_sack_option hdr s;
     s \<leftarrow> (if isTSopt (tcb s)
           then do {
             tsopt \<leftarrow> as_ts (get_tcp_option hdr TCP_OPTION_TIMESTAMP);
             Some (on_tcb (set_timestamp_value hdr tsopt) s) }
           else Some s);
     s \<leftarrow> ack_received E s;
     let s = on_metrics (\<lambda>m. m\<lparr>ackReceived := ackReceived m + 1\<rparr>) s;
     let t = tcb s;
     if SND_UNA t < SEG_ACK t \<and> SEG_ACK t \<le> SND_NXT t
     then do { s \<leftarrow> accept_ack E s; Some (True, s) }
     else if SEG_ACK t \<le> SND_UNA t
     then Some (False, on_metrics (\<lambda>m. m\<lparr>dupAckReceived := dupAckReceived m + 1\<rparr>) s)
     else if SEG_ACK t > SND_NXT t
     then do { s \<leftarrow> send_ack E (SEG_SEQ t) (SEG_ACK t) s; Some (False, s) }
     else Some (False, s) }"

text \<open>\<open>process_ack_in_establishedState\<close> and, when it says so, \<open>send_segment\<close>.\<close>

definition ack_and_send ::
  "TCP_ENV \<Rightarrow> TCP_SEGMENT_HDR \<Rightarrow> NETSIM_SOCKET \<Rightarrow> NETSIM_SOCKET option" where
  "ack_and_send E hdr s = do {
     (isContinue, s) \<leftarrow> process_ack_in_establishedState E hdr s;
     if isContinue then send_segment E s else Some s }"

definition process_ack_packet ::
  "TCP_ENV \<Rightarrow> TCP_PACKET \<Rightarrow> NETSIM_SOCKET \<Rightarrow> SOCKET_REF option" where
  "process_ack_packet E p s =
     (let hdr = TCP_GET_SEGMENT_HDR p; t = tcb s in
      case tcp_state t of
        TCPCONNECTION_SYN_RECEIVED \<Rightarrow>
          if \<not> (SND_UNA t \<le> SEG_ACK t \<and> SEG_ACK t \<le> SND_NXT t)
          then map_option Live (send_rst E p 1 s)
          else
            let s = on_tcb (\<lambda>t. t\<lparr>SND_WND := SEG_WND t, SND_WL1 := SEG_SEQ t,
                      SND_WL2 := SEG_ACK t\<rparr>) s;
                s = on_tcb (tcp_change_state TCPCONNECTION_ESTABLISHED) s
            in map_option Live (ack_and_send E hdr s)
      | TCPCONNECTION_ESTABLISHED \<Rightarrow> map_option Live (ack_and_send E hdr s)
      | TCPCONNECTION_FIN_WAIT_1 \<Rightarrow> do {
          s \<leftarrow> ack_and_send E hdr s;
          Some (Live (if Fin hdr then on_tcb (tcp_change_state TCPCONNECTION_FIN_WAIT_2) s
                      else s)) }
      | TCPCONNECTION_FIN_WAIT_2 \<Rightarrow> map_option Live (ack_and_send E hdr s)
      | TCPCONNECTION_CLOSE_WAIT \<Rightarrow> map_option Live (ack_and_send E hdr s)
      | TCPCONNECTION_CLOSING \<Rightarrow> do {
          s \<leftarrow> ack_and_send E hdr s;
          Some (Live (if Fin hdr
            then on_tcb (tcp_change_state TCPCONNECTION_TIME_WAIT) (start_timewait_timer E s)
            else s)) }
      | TCPCONNECTION_LAST_ACK \<Rightarrow>
          delete_tcb (on_tcb (tcp_change_state TCPCONNECTION_CLOSED) s)
      | TCPCONNECTION_TIME_WAIT \<Rightarrow> do {
          s \<leftarrow> send_fin_ack E (SEG_SEQ t) (SEG_ACK t) s;
          Some (Live (on_tcb (\<lambda>t. t\<lparr>istimewaittimerrestarted := True\<rparr>)
            (start_timewait_timer E s))) }
      | _ \<Rightarrow> Some (Live (tcp_error s)))"

section \<open>FIN and data\<close>

definition process_fin_packet :: "TCP_ENV \<Rightarrow> NETSIM_SOCKET \<Rightarrow> NETSIM_SOCKET option" where
  "process_fin_packet E s =
     (let passive_close = do {
            s \<leftarrow> send_fin_ack E (SND_NXT (tcb s)) (RCV_NXT (tcb s)) s;
            let s = on_tcb (tcp_change_state TCPCONNECTION_CLOSE_WAIT) s;
            s \<leftarrow> send_fin E s;
            Some (on_tcb (\<lambda>t. (tcp_change_state TCPCONNECTION_LAST_ACK t)
                    \<lparr>isOtherTimerCancel := True\<rparr>) s) } in
      case tcp_state (tcb s) of
        TCPCONNECTION_CLOSED \<Rightarrow> Some s
      | TCPCONNECTION_LISTEN \<Rightarrow> Some s
      | TCPCONNECTION_SYN_SENT \<Rightarrow> Some s
      | TCPCONNECTION_SYN_RECEIVED \<Rightarrow> passive_close
      | TCPCONNECTION_ESTABLISHED \<Rightarrow> passive_close
      | TCPCONNECTION_FIN_WAIT_1 \<Rightarrow>
          (let s = on_tcb (tcp_change_state TCPCONNECTION_CLOSING) s
           in send_fin_ack E (SND_NXT (tcb s)) (RCV_NXT (tcb s)) s)
      | TCPCONNECTION_FIN_WAIT_2 \<Rightarrow>
          (let s = start_timewait_timer E (on_tcb (tcp_change_state TCPCONNECTION_TIME_WAIT) s)
           in send_ack E (SND_NXT (tcb s) + 1) (SEG_SEQ (tcb s) + 1) s)
      | TCPCONNECTION_CLOSE_WAIT \<Rightarrow> Some s
      | TCPCONNECTION_CLOSING \<Rightarrow> Some s
      | TCPCONNECTION_LAST_ACK \<Rightarrow> Some s
      | TCPCONNECTION_TIME_WAIT \<Rightarrow>
          Some (start_timewait_timer E
            (on_tcb (\<lambda>t. t\<lparr>istimewaittimerrestarted := True\<rparr>) s)))"

definition check_segment ::
  "TCP_ENV \<Rightarrow> TCP_PACKET \<Rightarrow> NETSIM_SOCKET \<Rightarrow> (bool \<times> NETSIM_SOCKET) option" where
  "check_segment E p s =
     (let hdr = TCP_GET_SEGMENT_HDR p in
      if RCV_NXT (tcb s) = SeqNum hdr
      then do {
        s \<leftarrow> check_segment_in_queue (on_tcb (\<lambda>t. t\<lparr>RCV_NXT := RCV_NXT t + SEG_LEN t\<rparr>) s);
        Some (True, s) }
      else if RCV_NXT (tcb s) > SeqNum hdr
      then Some (False, on_metrics (\<lambda>m. m\<lparr>dupSegmentReceived := dupSegmentReceived m + 1\<rparr>) s)
      else do {
        let s = on_metrics (\<lambda>m. m\<lparr>outOfOrderSegmentReceived := outOfOrderSegmentReceived m + 1\<rparr>) s;
        inQ \<leftarrow> isSegmentInQueue (outOfOrderSegment (tcb s)) p;
        if inQ
        then Some (False, on_metrics (\<lambda>m. m\<lparr>dupSegmentReceived := dupSegmentReceived m + 1\<rparr>) s)
        else do {
          Q \<leftarrow> add_packet_to_queue (outOfOrderSegment (tcb s)) p (now E);
          Some (False, on_tcb (\<lambda>t. t\<lparr>outOfOrderSegment := Q\<rparr>) s) } })"

definition post_to_application ::
  "TCP_ENV \<Rightarrow> TCP_PACKET \<Rightarrow> NETSIM_SOCKET \<Rightarrow> NETSIM_SOCKET" where
  "post_to_application E p s = (case tp_appData p of
       None \<Rightarrow> s
     | Some a \<Rightarrow> fnpAddTcpEvent ((tev E)\<lparr>te_dPacketSize := app_dPacketSize a,
         te_nApplicationId := app_nApplicationId a, te_nEventType := TCP_APPLICATION_IN,
         te_nPacketId := tp_nPacketId p, te_nProtocolId := PROTOCOL_APPLICATION,
         te_nSegmentId := app_nSegmentId a, te_nSubEventType := 0, te_pPacket := Some p,
         te_ofSocket := False\<rparr>) s)"

partial_function (option) drain_loop :: "TCP_ENV \<Rightarrow> NETSIM_SOCKET \<Rightarrow> NETSIM_SOCKET option" where
  "drain_loop E s =
     Option.bind (check_for_other_segment_to_send_from_queue s) (\<lambda>r.
       case fst r of
         None \<Rightarrow> Some (snd r)
       | Some pr \<Rightarrow> drain_loop E (post_to_application E pr (snd r)))"

definition send_to_application ::
  "TCP_ENV \<Rightarrow> TCP_PACKET \<Rightarrow> NETSIM_SOCKET \<Rightarrow> NETSIM_SOCKET option" where
  "send_to_application E p s = drain_loop E (post_to_application E p s)"

definition process_segment_text ::
  "TCP_ENV \<Rightarrow> TCP_PACKET \<Rightarrow> NETSIM_SOCKET \<Rightarrow> (bool \<times> NETSIM_SOCKET) option" where
  "process_segment_text E p s = do {
     let hdr = TCP_GET_SEGMENT_HDR p;
     let s = on_metrics (\<lambda>m. m\<lparr>segmentReceived := segmentReceived m + 1\<rparr>) s;
     s \<leftarrow> (if isTSopt (tcb s)
           then do {
             tsopt \<leftarrow> as_ts (get_tcp_option hdr TCP_OPTION_TIMESTAMP);
             Some (on_tcb (set_timestamp_value hdr tsopt) s) }
           else Some s);
     let st = tcp_state (tcb s);
     if st \<in> {TCPCONNECTION_ESTABLISHED, TCPCONNECTION_FIN_WAIT_1, TCPCONNECTION_FIN_WAIT_2}
     then do {
       (isinorder, s) \<leftarrow> check_segment E p s;
       let (toAck, t) = (if \<not> isinorder then (True, tcb s) else send_ack_or_not E (tcb s));
       let s = s\<lparr>tcb := t\<rparr>;
       s \<leftarrow> (if toAck \<and> \<not> Fin hdr
             then send_ack E (SND_NXT (tcb s)) (RCV_NXT (tcb s)) s else Some s);
       s \<leftarrow> (if isinorder then send_to_application E p s else Some s);
       Some (True, s) }
     else if Fin hdr then Some (True, s)
     else if st \<in> {TCPCONNECTION_CLOSE_WAIT, TCPCONNECTION_CLOSING, TCPCONNECTION_LAST_ACK,
                   TCPCONNECTION_TIME_WAIT, TCPCONNECTION_SYN_RECEIVED}
     then Some (False, s)
     else Some (False, tcp_error s) }"

section \<open>Entry points\<close>

definition packet_arrives_at_incoming_tcp ::
  "TCP_ENV \<Rightarrow> TCP_PACKET \<Rightarrow> NETSIM_SOCKET \<Rightarrow> SOCKET_REF option" where
  "packet_arrives_at_incoming_tcp E p s =
     (let hdr = TCP_GET_SEGMENT_HDR p in
      if Validate_segment (tcb s)
      then
        if Rst hdr then process_rst_packet s
        else if Syn hdr then process_syn_packet s
        else if Ack hdr then process_ack_packet E p s
        else do {
          (isContinue, s) \<leftarrow> process_segment_text E p s;
          map_option Live (if isContinue \<and> Fin hdr then process_fin_packet E s else Some s) }
      else
        map_option Live
          (if \<not> Rst hdr then send_ack E (SND_NXT (tcb s)) (RCV_NXT (tcb s)) s else Some s))"

text \<open>The socket found for the packet, and the socket that was accepted, if any.\<close>

definition packet_arrive_from_network_layer ::
  "TCP_ENV \<Rightarrow> u32 \<Rightarrow> TCP_PACKET \<Rightarrow> SOCKET_REF
     \<Rightarrow> (SOCKET_REF \<times> NETSIM_SOCKET option) option" where
  "packet_arrive_from_network_layer E sid p r = (case r of
       Live s \<Rightarrow>
         (let s = update_seq_num_on_receiving s p in
          case tcp_state (tcb s) of
            TCPCONNECTION_CLOSED \<Rightarrow>
              map_option (\<lambda>s. (Live s, None)) (packet_arrive_at_closed_state E p s)
          | TCPCONNECTION_LISTEN \<Rightarrow>
              map_option (\<lambda>x. (Live (fst x), snd x))
                (packet_arrives_at_listen_state E sid p s)
          | TCPCONNECTION_SYN_SENT \<Rightarrow>
              map_option (\<lambda>s. (Live s, None)) (packet_arrives_at_synsent_state E p s)
          | _ \<Rightarrow> map_option (\<lambda>r. (r, None)) (packet_arrives_at_incoming_tcp E p s))
     | _ \<Rightarrow> Some (r, None))"

end
