(* ===== verification/Tcp_Example.thy ===== *)
theory Tcp_Example
  imports Tcp_Incoming
begin

text \<open>
  Concrete values of the TCP model: a device configured for Reno, a socket with a connection,
  data segments, and a surrounding in which the socket interface is a plain queue.  The
  examples that accompany the theorems are built from them.  The theory also collects the
  selector equations of the update functions that every proof about a handler uses.
\<close>

lemma on_tcb_on_tcb [simp]: "on_tcb f (on_tcb g s) = on_tcb (f \<circ> g) s"
  by (simp add: on_tcb_def)

lemma tcb_on_tcb [simp]: "tcb (on_tcb f s) = f (tcb s)"
  by (simp add: on_tcb_def)

lemma tcb_on_cv [simp]: "tcb (on_cv f s) = (tcb s)\<lparr>congestionData := f (congestionData (tcb s))\<rparr>"
  by (simp add: on_cv_def)

lemma tcb_on_metrics [simp]: "tcb (on_metrics f s) = tcb s"
  by (simp add: on_metrics_def)

lemma on_tcb_cong: "f (tcb s) = g (tcb s) \<Longrightarrow> on_tcb f s = on_tcb g s"
  by (simp add: on_tcb_def)

lemma on_upd_sel [simp]:
  "posted (on_tcb f s) = posted s" "iface (on_tcb f s) = iface s" "sId (on_tcb f s) = sId s"
  "localAddr (on_tcb f s) = localAddr s" "remoteAddr (on_tcb f s) = remoteAddr s"
  "isAPPClose (on_tcb f s) = isAPPClose s" "localDeviceId (on_tcb f s) = localDeviceId s"
  "posted (on_cv g s) = posted s" "iface (on_cv g s) = iface s" "sId (on_cv g s) = sId s"
  "localAddr (on_cv g s) = localAddr s" "remoteAddr (on_cv g s) = remoteAddr s"
  "isAPPClose (on_cv g s) = isAPPClose s" "localDeviceId (on_cv g s) = localDeviceId s"
  "posted (on_metrics h s) = posted s" "iface (on_metrics h s) = iface s"
  "sId (on_metrics h s) = sId s" "localAddr (on_metrics h s) = localAddr s"
  "remoteAddr (on_metrics h s) = remoteAddr s" "isAPPClose (on_metrics h s) = isAPPClose s"
  by (simp_all add: tcp_upd_defs)

lemma send_to_network_frame [simp]:
  "tcb (send_to_network E p s) = tcb s" "iface (send_to_network E p s) = iface s"
  "localAddr (send_to_network E p s) = localAddr s"
  "remoteAddr (send_to_network E p s) = remoteAddr s" "sId (send_to_network E p s) = sId s"
  "isAPPClose (send_to_network E p s) = isAPPClose s"
  "tcpMetrics (send_to_network E p s) = tcpMetrics s"
  by (simp_all add: send_to_network_def fnpAddTcpEvent_def Let_def)

lemma post_to_application_frame [simp]: "tcb (post_to_application E p s) = tcb s"
  by (simp add: post_to_application_def fnpAddTcpEvent_def split: option.splits)

section \<open>A device, a connection, segments\<close>

definition demo_addr :: SOCKETADDRESS where
  "demo_addr = \<lparr>sa_ip = \<lparr>ip_type = 4, int_ip0 = 1, int_ip1 = 0, int_ip2 = 0, int_ip3 = 0\<rparr>,
     sa_port = 80\<rparr>"

definition demo_hdr :: "u32 \<Rightarrow> TCP_SEGMENT_HDR" where
  "demo_hdr seq = zero_hdr\<lparr>SeqNum := seq, HdrLength := 20\<rparr>"

definition demo_app :: "nat \<Rightarrow> TCP_APPDATA" where
  "demo_app len = \<lparr>app_dPacketSize = real len, app_nApplicationId = 1, app_nSegmentId = 1,
     app_nAppEndFlag = False\<rparr>"

definition demo_segment :: "u32 \<Rightarrow> nat \<Rightarrow> TCP_PACKET" where
  "demo_segment seq len = \<lparr>tp_nPacketId = 1, tp_nControlDataType = 0, tp_isControl = False,
     tp_nSourceId = 1, tp_destList = [2], tp_appData = Some (demo_app len), tp_dArrivalTime = 0,
     tp_dStartTime = 0, tp_dEndTime = 0, tp_dPayload = real len, tp_dOverhead = 20,
     tp_dPacketSize = real len + 20, tp_nSourcePort = 80, tp_nDestinationPort = 80,
     tp_hdr = demo_hdr seq, tp_szSourceIP = sa_ip demo_addr, tp_szDestIP = sa_ip demo_addr,
     tp_nTTL = 255, tp_isIpTcp = True\<rparr>"

definition demo_cell :: "u32 \<Rightarrow> nat \<Rightarrow> bool \<Rightarrow> Queueinfo" where
  "demo_cell seq len b = \<lparr>qi_packet = demo_segment seq len, qi_time = 0, qi_isSacked = b\<rparr>"

definition demo_queue :: "Queueinfo list \<Rightarrow> TCP_QUEUE" where
  "demo_queue cs = \<lparr>tq_size = sum_list (map cell_size cs), tq_queue = Some cs\<rparr>"

definition demo_tev :: TCP_EVENT where
  "demo_tev = \<lparr>te_dEventTime = 100, te_nEventType = TCP_TRANSPORT_IN, te_nProtocolId = 401,
     te_nDeviceId = 1, te_nApplicationId = 1, te_dPacketSize = 0, te_nPacketId = 0,
     te_nSegmentId = 0, te_nSubEventType = 0, te_pPacket = None, te_ofSocket = False\<rparr>"

definition demo_dev_var :: TCP_DEV_VAR where
  "demo_dev_var = \<lparr>tv_tcpVariant = TCPVariant_RENO, tv_initSSThresh = 65535, tv_MSS = 1460,
     tv_MaxSynRetries = 5, tv_ackType = TCPACKTYPE_UNDELAYED, tv_timeWaitTimer = 120 * SECOND,
     tv_dDelayedAckTime = 0, tv_isSackPermitted = False, tv_isWindowScaling = False,
     tv_shiftCount = 0, tv_isTimestampOpt = False, tv_beta = 0, tv_low_window = 14,
     tv_max_increment = 16, tv_smooth_part = 20,
     tv_bic_scale = 41, tv_hystart_low_window = 16, tv_hystart_ack_delta = 2\<rparr>"

text \<open>A queue: reading looks at its head, and reading with removal takes the head off.\<close>

definition queue_interface ::
  "nat option \<Rightarrow> bool \<Rightarrow> TCP_PACKET list \<Rightarrow> TCP_PACKET option \<times> TCP_PACKET list" where
  "queue_interface i isRemove ps = (case ps of
       [] \<Rightarrow> (None, [])
     | p # rest \<Rightarrow> (Some p, if isRemove then rest else ps))"

definition demo_env :: TCP_ENV where
  "demo_env = \<lparr>tev = demo_tev, GET_TCP_DEV_VAR = (\<lambda>_. Some demo_dev_var),
     GetPacketFromInterface = queue_interface, GetNWProtocolId = (\<lambda>_. 301),
     blankTcpPacket = demo_segment 0 0, add_dest_to_tcp_packet = (\<lambda>p d. p\<lparr>tp_destList := [d]\<rparr>),
     get_first_dest_from_packet = (\<lambda>p. hd (tp_destList p)),
     GetSocketInterface = (\<lambda>_ _ _. Some 1),
     GET_PACKET_FROM_APP = (\<lambda>i isRemove ps. case i of None \<Rightarrow> (None, ps)
       | Some k \<Rightarrow> (let (r, q) = queue_interface i isRemove (ps k) in (r, ps(k := q)))),
     DEVICE_NWADDRESS = (\<lambda>d _. mk_ip4 (of_nat d)), STR_TO_IP = (\<lambda>_ _. mk_ip4 0)\<rparr>"

definition demo_cv :: CONGESTIONVAR where
  "demo_cv = zero_congestionvar\<lparr>SMSS := 1000, RMSS := 1000, IW := 4000, LW := 1000,
     ssthresh := 8000, cwnd := 4000, rwnd := 4000\<rparr>"

definition demo_tcb :: TCB where
  "demo_tcb = zero_tcb\<lparr>tcp_state := TCPCONNECTION_ESTABLISHED, variant := TCPVariant_RENO,
     ISS := 1, SND_UNA := 1001, SND_NXT := 5001, SND_WND := 4000, RCV_NXT := 1, RCV_WND := 65535,
     TCP_RTO := SECOND, congestionData := demo_cv\<rparr>"

definition demo_socket :: NETSIM_SOCKET where
  "demo_socket = (tcp_create_socket 1)\<lparr>localAddr := Some demo_addr,
     remoteAddr := Some demo_addr, localDeviceId := 1, remoteDeviceId := 2, sId := Some 1,
     tcb := demo_tcb\<rparr>"

lemma demo_cell_sel [simp]:
  "cell_seq (demo_cell n l b) = n"
  "qi_packet (demo_cell n l b) = demo_segment n l"
  "qi_isSacked (demo_cell n l b) = b"
  "qi_time (demo_cell n l b) = 0"
  by (simp_all add: cell_seq_def demo_cell_def demo_segment_def demo_hdr_def)

lemma demo_segment_sel [simp]:
  "SeqNum (tp_hdr (demo_segment n l)) = n"
  "Syn (tp_hdr (demo_segment n l)) = False"
  "tp_appData (demo_segment n l) = Some (demo_app l)"
  "tp_dPayload (demo_segment n l) = real l"
  "tp_dPacketSize (demo_segment n l) = real l + 20"
  by (simp_all add: demo_segment_def demo_hdr_def zero_hdr_def)

lemma double_to_uint_nat [simp]: "double_to_uint (real n) = of_nat n"
  by (simp add: double_to_uint_def)

lemma double_to_uint_numeral [simp]:
  "double_to_uint (numeral k) = numeral k" "double_to_uint 0 = 0" "double_to_uint 1 = 1"
  by (simp_all add: double_to_uint_def)

lemma double_to_uint_nat_add [simp]: "double_to_uint (real n + 20) = of_nat n + 20"
  using double_to_uint_nat [of "n + 20"] by (simp del: double_to_uint_nat)

lemma demo_cell_len [simp]:
  "get_seg_len (demo_segment n l) = of_nat l"
  "cell_end (demo_cell n l b) = n + of_nat l"
  "cell_size (demo_cell n l b) = of_nat l + 20"
  by (simp_all add: get_seg_len_def cell_end_def cell_size_def)

lemma demo_queue_sel [simp]:
  "tq_queue (demo_queue cs) = Some cs" "tq_size (demo_queue cs) = sum_list (map cell_size cs)"
  by (simp_all add: demo_queue_def)

lemma demo_queue_ok: "sorted (map cell_seq cs) \<Longrightarrow> queue_ok (demo_queue cs)"
  by (simp add: queue_ok_def)

end
