(* ===== verification/Tcp_Delivery.thy ===== *)
theory Tcp_Delivery
  imports Tcp_Example
begin

text \<open>
What the queues of a connection promise: a segment put into a queue is found again, a cumulative
  acknowledgement removes the covered segments and no others, and the receiving side hands its
  stream to the application in order and without gaps.
\<close>

section \<open>Queues\<close>

text \<open>a segment put into a queue comes back: looking its sequence number up right after the
  insertion returns that very segment and leaves the queue as it was, cells and size.\<close>

theorem queue_roundtrip:
  assumes "add_packet_to_queue Q p t = Some Q'"
  shows "isSegmentInQueue Q' p = Some True
    \<and> get_segment_from_queue Q' (SeqNum (TCP_GET_SEGMENT_HDR p)) = Some (Some p, Q)"
proof -
  let ?c = "\<lparr>qi_packet = p, qi_time = t, qi_isSacked = False\<rparr>"
  from assms obtain cs where cs: "tq_queue Q = Some cs"
    and Q': "Q' = Q\<lparr>tq_size := tq_size Q + double_to_uint (tp_dPacketSize p),
               tq_queue := Some (insert_cell ?c cs)\<rparr>"
    by (auto simp: add_packet_to_queue_def elim!: bind_SomeE)
  obtain i where i: "first_idx (\<lambda>x. cell_seq x = cell_seq ?c) (insert_cell ?c cs) = Some i"
    "insert_cell ?c cs ! i = ?c" "remove_nth i (insert_cell ?c cs) = cs"
    by (rule chain.insert_first [of ?c cs])
  have "?c \<in> set (insert_cell ?c cs)" by (simp add: chain.insert_set)
  with i cs show ?thesis
    by (auto simp: Q' get_segment_from_queue_def isSegmentInQueue_def cell_seq_def cell_size_def
        list_ex_iff intro!: bexI [of _ ?c])
qed

theorem queue_roundtrip_witness:
  "\<exists>Q'. add_packet_to_queue (demo_queue [demo_cell 1 10 True]) (demo_segment 5 20) 0 = Some Q'
    \<and> isSegmentInQueue Q' (demo_segment 5 20) = Some True
    \<and> get_segment_from_queue Q' 5
        = Some (Some (demo_segment 5 20), demo_queue [demo_cell 1 10 True])"
proof -
  let ?Q = "demo_queue [demo_cell 1 10 True]"
  obtain Q' where "add_packet_to_queue ?Q (demo_segment 5 20) 0 = Some Q'"
    using add_packet_to_queue_total [OF demo_queue_ok, of "[demo_cell 1 10 True]"] by auto
  with queue_roundtrip [OF this] show ?thesis by simp
qed

text \<open>an acknowledgement deletes exactly the segments that end at or below it, keeps the
  others in order with their marks, and keeps the queue well formed.\<close>

theorem ack_deletes_covered_segments:
  assumes "queue_ok Q"
  shows "\<exists>Q' cs. tq_queue Q = Some cs \<and> delete_segment_from_queue Q a = Some Q' \<and> queue_ok Q'
    \<and> tq_queue Q' = Some (filter (\<lambda>c. a < cell_end c) cs)"
proof -
  from assms obtain cs where cs: "tq_queue Q = Some cs" by (rule queue_okE)
  from delete_segment_from_queue_ok [OF assms, of a] obtain Q' where
    Q': "delete_segment_from_queue Q a = Some Q'" "queue_ok Q'" by blast
  then have "tq_queue Q' = Some (filter (\<lambda>c. a < cell_end c) cs)"
    using cs by (auto simp: delete_segment_from_queue_def delete_cells_filter not_le)
  with cs Q' show ?thesis by blast
qed

theorem ack_deletes_covered_segments_witness:
  "queue_ok (demo_queue [demo_cell 1 10 True, demo_cell 11 10 False])
   \<and> (\<exists>Q' cs. tq_queue (demo_queue [demo_cell 1 10 True, demo_cell 11 10 False]) = Some cs
        \<and> delete_segment_from_queue (demo_queue [demo_cell 1 10 True, demo_cell 11 10 False]) 11
          = Some Q' \<and> queue_ok Q' \<and> tq_queue Q' = Some (filter (\<lambda>c. 11 < cell_end c) cs))"
proof -
  have "queue_ok (demo_queue [demo_cell 1 10 True, demo_cell 11 10 False])"
    by (rule demo_queue_ok) simp
  with ack_deletes_covered_segments [OF this, of 11] show ?thesis by blast
qed

section \<open>Delivery in order\<close>

lemma check_for_other_cases:
  assumes "tq_queue (outOfOrderSegment (tcb s)) = Some cs"
  shows "check_for_other_segment_to_send_from_queue s =
    (case cs of [] \<Rightarrow> Some (None, s)
     | c # rest \<Rightarrow> if cell_seq c < RCV_NXT (tcb s)
         then Some (Some (qi_packet c), on_tcb (\<lambda>t. t\<lparr>outOfOrderSegment :=
           (outOfOrderSegment t)\<lparr>tq_size := tq_size (outOfOrderSegment t) - cell_size c,
             tq_queue := Some rest\<rparr>\<rparr>) s)
         else Some (None, s))"
  using assms
  by (auto simp: check_for_other_segment_to_send_from_queue_def on_tcb_def Let_def
      split: list.splits)

text \<open>The event that delivers packet \<open>p\<close>, and all those that deliver \<open>ps\<close>.\<close>

definition app_event :: "TCP_ENV \<Rightarrow> TCP_PACKET \<Rightarrow> TCP_EVENT list" where
  "app_event E p = posted (post_to_application E p (tcp_create_socket 0))"

definition deliver_all :: "TCP_ENV \<Rightarrow> TCP_PACKET list \<Rightarrow> NETSIM_SOCKET \<Rightarrow> NETSIM_SOCKET" where
  "deliver_all E ps s = s\<lparr>posted := posted s @ concat (map (app_event E) ps)\<rparr>"

lemma post_to_application_deliver: "post_to_application E p s = deliver_all E [p] s"
  by (simp add: deliver_all_def app_event_def post_to_application_def fnpAddTcpEvent_def
      tcp_create_socket_def split: option.splits)

lemma deliver_all_simps [simp]:
  "tcb (deliver_all E ps s) = tcb s"
  "deliver_all E ps (deliver_all E qs s) = deliver_all E (qs @ ps) s"
  "deliver_all E [] s = s"
  "deliver_all E ps (on_tcb f s) = on_tcb f (deliver_all E ps s)"
  by (simp_all add: deliver_all_def on_tcb_def)

text \<open>The out-of-order queue without the cells below \<open>RCV.NXT\<close>.\<close>

definition drained :: "Queueinfo list \<Rightarrow> TCB \<Rightarrow> TCB" where
  "drained cs t = t\<lparr>outOfOrderSegment :=
      (outOfOrderSegment t)\<lparr>tq_size := tq_size (outOfOrderSegment t)
          - sum_list (map cell_size (takeWhile (\<lambda>c. cell_seq c < RCV_NXT t) cs)),
        tq_queue := Some (dropWhile (\<lambda>c. cell_seq c < RCV_NXT t) cs)\<rparr>\<rparr>"

lemma drain_loop_returns:
  assumes "tq_queue (outOfOrderSegment (tcb s)) = Some cs"
  shows "drain_loop E s = Some (on_tcb (drained cs)
    (deliver_all E (map qi_packet (takeWhile (\<lambda>c. cell_seq c < RCV_NXT (tcb s)) cs)) s))"
  using assms
proof (induction cs arbitrary: s)
  case Nil
  then show ?case
    by (subst drain_loop.simps) (simp add: check_for_other_cases on_tcb_def drained_def)
next
  case (Cons c cs)
  show ?case
  proof (cases "cell_seq c < RCV_NXT (tcb s)")
    case True
    let ?s = "on_tcb (\<lambda>t. t\<lparr>outOfOrderSegment :=
           (outOfOrderSegment t)\<lparr>tq_size := tq_size (outOfOrderSegment t) - cell_size c,
             tq_queue := Some cs\<rparr>\<rparr>) s"
    have "drain_loop E s = drain_loop E (post_to_application E (qi_packet c) ?s)"
      using Cons.prems True by (subst drain_loop.simps) (simp add: check_for_other_cases)
    also have "\<dots> = Some (on_tcb (drained cs)
      (deliver_all E (map qi_packet (takeWhile (\<lambda>c. cell_seq c < RCV_NXT (tcb s)) cs))
        (post_to_application E (qi_packet c) ?s)))"
      by (subst Cons.IH) (simp_all add: post_to_application_deliver)
    finally show ?thesis
      using True
      by (simp add: post_to_application_deliver)
         (rule on_tcb_cong, simp add: drained_def algebra_simps)
  next
    case False
    with Cons.prems show ?thesis
      by (subst drain_loop.simps) (simp add: check_for_other_cases on_tcb_def drained_def)
  qed
qed

lemma takeWhile_sorted_filter:
  "sorted (map f xs) \<Longrightarrow> takeWhile (\<lambda>c. f c < n) xs = filter (\<lambda>c. f c < n) xs
     \<and> dropWhile (\<lambda>c. f c < n) xs = filter (\<lambda>c. \<not> f c < n) xs"
  for f :: "'c \<Rightarrow> 'k :: linorder"
proof (induction xs)
  case Nil
  then show ?case by simp
next
  case (Cons x xs)
  show ?case
  proof (cases "f x < n")
    case True
    with Cons show ?thesis by simp
  next
    case False
    with Cons.prems have "\<forall>y \<in> set xs. \<not> f y < n" by fastforce
    with False show ?thesis by (simp add: filter_empty_conv)
  qed
qed

text \<open>C28: a segment that continues the stream is delivered to the application, followed by the
  waiting out-of-order segments it brings below \<open>RCV.NXT\<close>, in the order of their sequence
  numbers; these leave the out-of-order queue and no other segment does.  The delivery loop
  returns.\<close>

theorem in_order_delivery:
  assumes "queue_ok (outOfOrderSegment (tcb s))"
    and "tq_queue (outOfOrderSegment (tcb s)) = Some cs"
    and "RCV_NXT (tcb s) = SeqNum (TCP_GET_SEGMENT_HDR p)"
  shows "\<exists>s1 s2. check_segment E p s = Some (True, s1)
    \<and> RCV_NXT (tcb s1) = advance_rcv_nxt (RCV_NXT (tcb s) + SEG_LEN (tcb s)) cs
    \<and> send_to_application E p s1 = Some s2
    \<and> posted s2 = posted s @ app_event E p
        @ concat (map (app_event E \<circ> qi_packet) (filter (\<lambda>c. cell_seq c < RCV_NXT (tcb s1)) cs))
    \<and> tq_queue (outOfOrderSegment (tcb s2))
        = Some (filter (\<lambda>c. \<not> cell_seq c < RCV_NXT (tcb s1)) cs)
    \<and> queue_ok (outOfOrderSegment (tcb s2))"
proof -
  let ?n = "advance_rcv_nxt (RCV_NXT (tcb s) + SEG_LEN (tcb s)) cs"
  let ?s1 = "on_tcb (\<lambda>t. t\<lparr>RCV_NXT := ?n\<rparr>) s"
  have srt: "sorted (map cell_seq cs)" "tq_size (outOfOrderSegment (tcb s)) = sum_list (map cell_size cs)"
    using assms(1,2) by (auto simp: queue_ok_def)
  have "check_segment E p s = Some (True, ?s1)"
    using assms(2,3) by (simp add: check_segment_def check_segment_in_queue_def on_tcb_def)
  moreover have "send_to_application E p ?s1 = Some (on_tcb (drained cs)
     (deliver_all E (p # map qi_packet (takeWhile (\<lambda>c. cell_seq c < ?n) cs)) ?s1))"
    using assms(2) by (simp add: send_to_application_def post_to_application_deliver
        drain_loop_returns)
  moreover have "queue_ok (outOfOrderSegment (drained cs (tcb ?s1)))"
    using srt sum_cells_diff [of cell_size cs "\<lambda>c. cell_seq c < ?n"]
    by (simp add: queue_ok_def drained_def takeWhile_sorted_filter sorted_map_filter_cells)
  ultimately show ?thesis
    using srt takeWhile_sorted_filter [of cell_seq cs ?n]
    by (intro exI conjI) (assumption | simp add: deliver_all_def drained_def on_tcb_def)+
qed

definition demo_receiver :: NETSIM_SOCKET where
  "demo_receiver = on_tcb (\<lambda>t. t\<lparr>RCV_NXT := 1, SEG_LEN := 10,
     outOfOrderSegment := demo_queue [demo_cell 11 10 False, demo_cell 31 10 False]\<rparr>) demo_socket"

theorem in_order_delivery_witness:
  "let s = demo_receiver; p = demo_segment 1 10; E = demo_env;
       cs = [demo_cell 11 10 False, demo_cell 31 10 False] in
   \<exists>s1 s2. check_segment E p s = Some (True, s1) \<and> RCV_NXT (tcb s1) = 21
    \<and> send_to_application E p s1 = Some s2
    \<and> posted s2 = posted s @ app_event E p @ app_event E (demo_segment 11 10)
    \<and> tq_queue (outOfOrderSegment (tcb s2)) = Some [demo_cell 31 10 False]"
proof -
  let ?cs = "[demo_cell 11 10 False, demo_cell 31 10 False]"
  have "queue_ok (outOfOrderSegment (tcb demo_receiver))"
    by (simp add: demo_receiver_def demo_queue_ok)
  moreover have "tq_queue (outOfOrderSegment (tcb demo_receiver)) = Some ?cs"
    "RCV_NXT (tcb demo_receiver) = SeqNum (tp_hdr (demo_segment 1 10))"
    by (simp_all add: demo_receiver_def)
  ultimately obtain s1 s2 where "check_segment demo_env (demo_segment 1 10) demo_receiver = Some (True, s1)"
    and n: "RCV_NXT (tcb s1) = advance_rcv_nxt (RCV_NXT (tcb demo_receiver) + SEG_LEN (tcb demo_receiver)) ?cs"
    and "send_to_application demo_env (demo_segment 1 10) s1 = Some s2"
    "posted s2 = posted demo_receiver @ app_event demo_env (demo_segment 1 10)
        @ concat (map (app_event demo_env \<circ> qi_packet) (filter (\<lambda>c. cell_seq c < RCV_NXT (tcb s1)) ?cs))"
    "tq_queue (outOfOrderSegment (tcb s2))
        = Some (filter (\<lambda>c. \<not> cell_seq c < RCV_NXT (tcb s1)) ?cs)"
    using in_order_delivery by blast
  moreover from n have "RCV_NXT (tcb s1) = 21" by (simp add: demo_receiver_def)
  ultimately show ?thesis by (auto simp: Let_def)
qed

end
