(* ===== verification/Tcp_Window.thy ===== *)
theory Tcp_Window
  imports Tcp_Example
begin

text \<open>
The timer and the two windows: the range of the retransmission timeout (\<open>RTO.c\<close>), the sending
  loop that fills the window and stops there (\<open>TCP_Outgoing.c\<close>), the delayed acknowledgement
  (\<open>DelayedAck.c\<close>) and the 16-bit and 32-bit arithmetic of \<open>increase_cwnd\<close> (\<open>Congestion.c\<close>).
\<close>

section \<open>Retransmission timeout\<close>

lemma Backoff_doubles: "RTO_G \<le> y \<Longrightarrow> Backoff_RTO y = min (2 * y) (60 * SECOND)"
  by (simp add: Backoff_RTO_def rto_consts)

lemma Backoff_iterate:
  assumes "RTO_G \<le> x" and "x \<le> 60 * SECOND"
  shows "(Backoff_RTO ^^ n) x = min (2 ^ n * x) (60 * SECOND)"
proof (induction n)
  case 0
  with assms show ?case by simp
next
  case (Suc n)
  have "1 * x \<le> 2 ^ n * x"
    using assms by (intro mult_right_mono) (simp_all add: rto_consts)
  then have "RTO_G \<le> 2 ^ n * x"
    using assms(1) by (simp only: mult_1_left)
  then have "RTO_G \<le> min (2 ^ n * x) (60 * SECOND)"
    using order_trans [OF assms] by (rule min.boundedI)
  with Suc show ?case by (auto simp: Backoff_doubles min_def rto_consts mult.commute)
qed

text \<open>Whatever round trip time is measured, the timeout lies between half a second and
  sixty seconds, and \<open>n\<close> expiries in a row multiply it by \<open>2 ^ n\<close> up to that bound.\<close>

theorem rto_in_range:
  "RTO_G \<le> fst (calculate_RTO R srtt var) \<and> fst (calculate_RTO R srtt var) \<le> 60 * SECOND
   \<and> (Backoff_RTO ^^ n) (fst (calculate_RTO R srtt var))
       = min (2 ^ n * fst (calculate_RTO R srtt var)) (60 * SECOND)"
proof -
  have "RTO_G \<le> fst (calculate_RTO R srtt var) \<and> fst (calculate_RTO R srtt var) \<le> 60 * SECOND"
    by (auto simp: calculate_RTO_def rto_consts Let_def)
  then show ?thesis by (simp add: Backoff_iterate)
qed

section \<open>Sending within the window\<close>

text \<open>How many of the segments of lengths \<open>ls\<close> fit below \<open>limit\<close>, starting at \<open>seq\<close>.\<close>

fun fitting :: "u32 \<Rightarrow> u32 \<Rightarrow> u32 list \<Rightarrow> nat" where
  "fitting limit seq [] = 0"
| "fitting limit seq (l # ls) = (if seq + l \<le> limit then Suc (fitting limit (seq + l) ls) else 0)"

lemma fitting_bound:
  "0 < fitting limit seq ls \<Longrightarrow> seq + sum_list (take (fitting limit seq ls) ls) \<le> limit"
proof (induction ls arbitrary: seq)
  case Nil
  then show ?case by simp
next
  case (Cons l ls)
  then have "seq + l \<le> limit" by (simp split: if_splits)
  with Cons.IH [of "seq + l"] show ?case
    by (cases "fitting limit (seq + l) ls") (simp_all add: add.assoc)
qed

definition app_len :: "TCP_PACKET \<Rightarrow> u32" where
  "app_len p = (case tp_appData p of Some a \<Rightarrow> double_to_uint (app_dPacketSize a) | None \<Rightarrow> 0)"

text \<open>A socket that can send: both addresses, a valid queue, a shift below the word size.\<close>

definition can_send :: "NETSIM_SOCKET \<Rightarrow> bool" where
  "can_send s \<longleftrightarrow> localAddr s \<noteq> None \<and> remoteAddr s \<noteq> None
     \<and> queue_ok (retransmissionQueue (tcb s))
     \<and> (isWindowScaling (tcb s) \<longrightarrow> unat (Snd_Wind_Shift (tcb s)) < 32)
     \<and> (\<forall>p \<in> set (iface s). tp_appData p \<noteq> None)"

definition is_queue_interface :: "TCP_ENV \<Rightarrow> bool" where
  "is_queue_interface E \<longleftrightarrow> GetPacketFromInterface E = queue_interface"

lemma window_scale_get_wnd_total:
  "can_send s \<Longrightarrow> \<exists>w. window_scale_get_wnd s = Some w"
  by (auto simp: can_send_def window_scale_get_wnd_def shr32_def)

lemma window_scale_get_cwnd_total:
  "can_send s \<Longrightarrow> \<exists>w. window_scale_get_cwnd s = Some w"
  by (auto simp: can_send_def window_scale_get_cwnd_def shl32_def Let_def)

lemma add_timeout_event_total:
  assumes "queue_ok (retransmissionQueue (tcb s))"
  shows "\<exists>Q s'. add_timeout_event E p s = Some s' \<and> queue_ok Q
    \<and> tcb s' = (tcb s)\<lparr>retransmissionQueue := Q\<rparr> \<and> iface s' = iface s \<and> sId s' = sId s
    \<and> localAddr s' = localAddr s \<and> remoteAddr s' = remoteAddr s \<and> isAPPClose s' = isAPPClose s"
  using add_packet_to_queue_total [OF assms, of p "now E"]
  by (auto simp: add_timeout_event_def fnpAddTcpEvent_def Let_def)

lemma send_one_total:
  assumes "can_send s" and "iface s = p # ps" and "is_queue_interface E"
  shows "\<exists>s'. send_one E l s = Some s' \<and> can_send s' \<and> iface s' = ps
    \<and> SND_NXT (tcb s') = SND_NXT (tcb s) + l \<and> SND_WND (tcb s') = SND_WND (tcb s)
    \<and> SND_UNA (tcb s') = SND_UNA (tcb s) \<and> congestionData (tcb s') = congestionData (tcb s)"
proof -
  from assms obtain a where a: "tp_appData p = Some a" by (auto simp: can_send_def)
  define u where "u = (if app_nAppEndFlag a then s\<lparr>iface := ps, isAPPClose := True\<rparr>
    else s\<lparr>iface := ps\<rparr>)"
  have u: "tcb u = tcb s" "iface u = ps" "localAddr u = localAddr s" "remoteAddr u = remoteAddr s"
    by (simp_all add: u_def)
  have "can_send u" using assms u by (simp add: can_send_def)
  then obtain w where w: "window_scale_get_wnd u = Some w"
    using window_scale_get_wnd_total by blast
  obtain q where q: "add_tcp_hdr E p u = Some q"
    using assms(1) a w u by (auto simp: add_tcp_hdr_def can_send_def Let_def)
  let ?u = "on_metrics (\<lambda>m. m\<lparr>segmentSent := segmentSent m + 1\<rparr>)
     (on_tcb (\<lambda>t. t\<lparr>SND_NXT := SND_NXT t + l\<rparr>) u)"
  have "send_one E l s = send_with_timeout E q ?u"
    using assms(2,3) a q
    by (simp add: send_one_def get_from_app_def is_queue_interface_def queue_interface_def Let_def
        u_def)
  moreover have "queue_ok (retransmissionQueue (tcb (send_to_network E q ?u)))"
    using assms(1) u by (simp add: can_send_def)
  note add_timeout_event_total [OF this, of E "stamped E q"]
  ultimately show ?thesis
    using assms(1,2) u by (auto simp: send_with_timeout_def can_send_def)
qed

lemma iface_same: "iface s = x \<Longrightarrow> s\<lparr>iface := x\<rparr> = s"
  by (cases s) simp

abbreviation head_packet :: "TCP_PACKET list \<Rightarrow> TCP_PACKET option" where
  "head_packet ps \<equiv> (case ps of [] \<Rightarrow> None | p # _ \<Rightarrow> Some p)"

lemma peek_app: "is_queue_interface E \<Longrightarrow> get_from_app E False s = (head_packet (iface s), s)"
  by (auto simp: get_from_app_def is_queue_interface_def queue_interface_def Let_def iface_same
      split: list.splits)

lemma send_loop_spec:
  assumes "can_send s" and "is_queue_interface E" and "SND_NXT (tcb s) = seq"
  shows "\<exists>s'. send_loop E seq (head_packet (iface s)) s = Some s'
    \<and> (let k = fitting (SND_WND (tcb s) + SND_UNA (tcb s)) seq (map app_len (iface s)) in
       iface s' = drop k (iface s)
       \<and> SND_NXT (tcb s') = seq + sum_list (map app_len (take k (iface s))))
    \<and> SND_WND (tcb s') = SND_WND (tcb s) \<and> SND_UNA (tcb s') = SND_UNA (tcb s)
    \<and> congestionData (tcb s') = congestionData (tcb s) \<and> can_send s'"
  using assms
proof (induction "iface s" arbitrary: s seq)
  case Nil
  then show ?case by (subst send_loop.simps) (simp flip: Nil(1))
next
  case (Cons p ps)
  have "p \<in> set (iface s)" by (simp flip: Cons.hyps(2))
  with Cons.prems(1) obtain a where a: "tp_appData p = Some a"
    unfolding can_send_def by blast
  show ?case
  proof (cases "seq + app_len p \<le> SND_WND (tcb s) + SND_UNA (tcb s)")
    case True
    from send_one_total [OF Cons.prems(1) Cons.hyps(2) [symmetric] Cons.prems(2), of "app_len p"]
    obtain s' where s': "send_one E (app_len p) s = Some s'" "can_send s'" "iface s' = ps"
      "SND_NXT (tcb s') = SND_NXT (tcb s) + app_len p" "SND_WND (tcb s') = SND_WND (tcb s)"
      "SND_UNA (tcb s') = SND_UNA (tcb s)" "congestionData (tcb s') = congestionData (tcb s)"
      by blast
    have "send_loop E seq (Some p) s
        = send_loop E (seq + app_len p) (head_packet ps) s'"
      using a True s'(1,3) Cons.prems(2)
      by (subst send_loop.simps)
         (simp add: app_len_def peek_app Let_def)
    moreover obtain s2 where s2: "send_loop E (seq + app_len p) (head_packet ps) s' = Some s2"
      "let k = fitting (SND_WND (tcb s) + SND_UNA (tcb s)) (seq + app_len p) (map app_len ps) in
         iface s2 = drop k ps \<and> SND_NXT (tcb s2) = seq + app_len p + sum_list (map app_len (take k ps))"
      "SND_WND (tcb s2) = SND_WND (tcb s)" "SND_UNA (tcb s2) = SND_UNA (tcb s)"
      "congestionData (tcb s2) = congestionData (tcb s)" "can_send s2"
      using Cons.hyps(1) [OF s'(3) [symmetric] s'(2) Cons.prems(2) refl] s' Cons.prems(3) by auto
    ultimately show ?thesis
      using True by (intro exI [of _ s2]) (simp add: Let_def add.assoc flip: Cons.hyps(2))
  next
    case False
    with a Cons.prems show ?thesis
      by (subst send_loop.simps) (simp add: app_len_def Let_def flip: Cons.hyps(2))
  qed
qed

lemma tcp_close_total:
  assumes "can_send s"
  shows "\<exists>s'. tcp_close E s = Some s' \<and> iface s' = iface s \<and> SND_NXT (tcb s') = SND_NXT (tcb s)
    \<and> SND_WND (tcb s') = SND_WND (tcb s) \<and> SND_UNA (tcb s') = SND_UNA (tcb s)"
proof -
  obtain p w where "create_tcp_ctrl_packet E (localAddr s) (remoteAddr s) (localDeviceId s)
      (remoteDeviceId s) TCPPACKET_FIN (now E) = Some p" "window_scale_get_wnd s = Some w"
    using assms window_scale_get_wnd_total [OF assms]
    by (auto simp: can_send_def create_tcp_ctrl_packet_def Let_def)
  then show ?thesis
    by (simp add: tcp_close_def send_fin_def create_fin_def ctrl_packet_def tcp_change_state_def
        Let_def)
qed


definition demo_sender :: NETSIM_SOCKET where
  "demo_sender = (on_tcb (\<lambda>t. t\<lparr>SND_NXT := 2001\<rparr>) demo_socket)
     \<lparr>iface := [demo_segment 0 1000, demo_segment 0 1000, demo_segment 0 1500]\<rparr>"

lemma demo_sender_sel [simp]:
  "iface demo_sender = [demo_segment 0 1000, demo_segment 0 1000, demo_segment 0 1500]"
  "SND_NXT (tcb demo_sender) = 2001" "SND_UNA (tcb demo_sender) = 1001"
  "sId demo_sender = Some 1" "congestion_get_MSS demo_sender = 1000"
  "window_scale_get_cwnd demo_sender = Some 4000"
  by (simp_all add: demo_sender_def demo_socket_def demo_tcb_def demo_cv_def zero_tcb_def
      congestion_get_MSS_def congestion_get_WND_def window_scale_get_cwnd_def on_tcb_def)

lemma demo_sender_can_send: "can_send demo_sender"
  by (simp add: can_send_def demo_sender_def demo_socket_def demo_tcb_def zero_tcb_def on_tcb_def)


section \<open>Delayed acknowledgements\<close>

text \<open>An acknowledgement is held back only when the last one is more recent than the delay,
  and never twice in a row: whatever the time of the next segment, it is acknowledged.\<close>

theorem delayed_ack_never_twice:
  assumes "\<not> fst (send_ack_or_not E t)"
  shows "ackType t = TCPACKTYPE_DELAYED \<and> now E < lastAckSendTime t + delayedAckTime t
    \<and> fst (send_ack_or_not E' (snd (send_ack_or_not E t)))"
  using assms by (cases "ackType t") (auto simp: send_ack_or_not_def split: if_splits)

theorem delayed_ack_never_twice_witness:
  "let t = demo_tcb\<lparr>ackType := TCPACKTYPE_DELAYED, delayedAckTime := 200, isAckSentLastTime := True\<rparr>
   in \<not> fst (send_ack_or_not demo_env t)
      \<and> fst (send_ack_or_not demo_env (snd (send_ack_or_not demo_env t)))"
proof -
  let ?t = "demo_tcb\<lparr>ackType := TCPACKTYPE_DELAYED, delayedAckTime := 200, isAckSentLastTime := True\<rparr>"
  have "\<not> fst (send_ack_or_not demo_env ?t)"
    by (simp add: send_ack_or_not_def demo_tcb_def zero_tcb_def demo_env_def demo_tev_def)
  with delayed_ack_never_twice [OF this, of demo_env] show ?thesis by (simp add: Let_def)
qed

section \<open>Growth of the congestion window\<close>

lemma increase_cwnd_saturates_aux:
  assumes "unat (get_shift_count (tcb s)) \<le> 16"
  shows "increase_cwnd i s = Some (on_cv (\<lambda>v. v\<lparr>cwnd := of_nat (min 65535
    (unat (cwnd v) + unat i div 2 ^ unat (get_shift_count (tcb s))))\<rparr>) s)"
proof (cases "isWindowScaling (tcb s)")
  case True
  define n where "n = unat (Snd_Wind_Shift (tcb s))"
  have n: "n \<le> 16" using assms True by (simp add: n_def get_shift_count_def)
  let ?c = "cwnd (congestionData (tcb s))"
  have "unat (drop_bit n (push_bit n (ucast ?c :: u32) + ucast i)) = unat ?c + unat i div 2 ^ n"
    using n by (simp add: unat_drop_u32 unat_push_u16)
  from word_of_min [OF this] True n show ?thesis
    by (simp add: increase_cwnd_def window_scale_get_cwnd_def congestion_get_WND_def shl32_def
        shr32_def get_shift_count_def on_cv_def on_tcb_def Let_def flip: n_def)
next
  case False
  let ?c = "cwnd (congestionData (tcb s))"
  have *: "unat (ucast ?c + ucast i :: u32) = unat ?c + unat i"
    using unat_push_u16(2) [of 0 ?c i] by simp
  have "(if (ucast ?c + ucast i :: u32) \<ge> 65535 then 65535 else ?c + i)
      = of_nat (min 65535 (unat ?c + unat i))"
    using * by (auto simp: word_le_nat_alt min_def)
  with False show ?thesis
    by (simp add: increase_cwnd_def get_shift_count_def on_cv_def on_tcb_def Let_def
        split del: if_split)
qed

text \<open>an increase never wraps the 16 bit window: the new window is the sum, in units of
  \<open>2 ^ shift\<close> bytes, cut at 65535; nothing else of the socket changes.\<close>

theorem increase_cwnd_saturates:
  assumes "unat (get_shift_count (tcb s)) \<le> 16"
  shows "increase_cwnd i s = Some (on_cv (\<lambda>v. v\<lparr>cwnd := of_nat (min 65535
    (unat (cwnd v) + unat i div 2 ^ unat (get_shift_count (tcb s))))\<rparr>) s)"
  using assms by (rule increase_cwnd_saturates_aux)

theorem increase_cwnd_saturates_witness:
  "unat (get_shift_count (tcb demo_socket)) \<le> 16
   \<and> increase_cwnd 65000 demo_socket = Some (on_cv (\<lambda>v. v\<lparr>cwnd := 65535\<rparr>) demo_socket)"
proof -
  have s: "get_shift_count (tcb demo_socket) = 0" "cwnd (congestionData (tcb demo_socket)) = 4000"
    by (simp_all add: demo_socket_def demo_tcb_def zero_tcb_def get_shift_count_def demo_cv_def)
  then show ?thesis
    using increase_cwnd_saturates [of demo_socket 65000] by (simp add: on_cv_def on_tcb_def)
qed

text \<open>with window scaling by \<open>2 ^ shift\<close> bytes, an acknowledgement in slow start leaves the
  window as it is whenever the segment size is smaller than \<open>2 ^ shift\<close>: the increase of at
  most one segment is cut to zero units.  Slow start then never opens the window.\<close>

theorem scaled_slow_start_is_stuck:
  assumes "isWindowScaling (tcb s)" and "unat (Snd_Wind_Shift (tcb s)) \<le> 16"
    and "unat (SMSS (get_congestionvar s)) < 2 ^ unat (Snd_Wind_Shift (tcb s))"
  shows "slowStart s = Some s"
proof -
  let ?i = "min (ackedBytes s) (SMSS (get_congestionvar s))"
  have "unat ?i \<le> unat (SMSS (get_congestionvar s))" by (simp add: word_le_nat_alt [symmetric])
  with assms(3) have "unat ?i div 2 ^ unat (Snd_Wind_Shift (tcb s)) = 0" by simp
  moreover have "(of_nat (min 65535 (unat (cwnd (get_congestionvar s)))) :: u16)
      = cwnd (get_congestionvar s)"
    using unat_u16_less [of "cwnd (get_congestionvar s)"] by (simp add: min_absorb2)
  ultimately show ?thesis
    using assms(1,2) increase_cwnd_saturates_aux [of s ?i]
    by (simp add: slowStart_def get_shift_count_def on_cv_def on_tcb_def)
qed

theorem scaled_slow_start_is_stuck_witness:
  "slowStart (on_tcb (\<lambda>t. t\<lparr>isWindowScaling := True, Snd_Wind_Shift := 14, SEG_ACK := 2001\<rparr>)
     demo_socket)
   = Some (on_tcb (\<lambda>t. t\<lparr>isWindowScaling := True, Snd_Wind_Shift := 14, SEG_ACK := 2001\<rparr>)
       demo_socket)"
  by (rule scaled_slow_start_is_stuck)
     (simp_all add: demo_socket_def demo_tcb_def zero_tcb_def demo_cv_def)

end
