(* ===== verification/Tcp_Recovery.thy ===== *)
theory Tcp_Recovery
  imports Tcp_Example
begin

text \<open>
Loss recovery: the third duplicate acknowledgement of Reno (\<open>Congestion.c\<close>), the expiry of the
  retransmission timer (\<open>RTO.c\<close>), and the pipe and the choice of the next segment of the selective
  acknowledgement (\<open>SACK.c\<close>).
\<close>

section \<open>Resending\<close>

text \<open>The event that hands packet \<open>p\<close> to the network layer.\<close>

definition net_event :: "TCP_ENV \<Rightarrow> TCP_PACKET \<Rightarrow> TCP_EVENT list" where
  "net_event E p = posted (send_to_network E p (tcp_create_socket 0))"

lemma send_to_network_posted: "posted (send_to_network E p s) = posted s @ net_event E p"
  by (simp add: net_event_def send_to_network_def fnpAddTcpEvent_def tcp_create_socket_def Let_def)

lemma resend_without_timeout_spec:
  assumes "tq_queue (retransmissionQueue (tcb s)) = Some cs" and "\<not> isSackPermitted (tcb s)"
  shows "\<exists>s'. resend_segment_without_timeout E n s = Some s'
    \<and> posted s' = posted s @ (case find (\<lambda>c. cell_seq c = n) cs of
        None \<Rightarrow> [] | Some c \<Rightarrow> net_event E (qi_packet c))
    \<and> (\<exists>h r. tcb s' = (tcb s)\<lparr>HighRxt := h, RescueRxt := r\<rparr>)"
proof (cases "find (\<lambda>c. cell_seq c = n) cs")
  case None
  with assms show ?thesis
    by (simp add: resend_segment_without_timeout_def get_copy_segment_from_queue_def)
       (intro exI [of _ "HighRxt (tcb s)"] exI [of _ "RescueRxt (tcb s)"], simp)
next
  case (Some c)
  with assms show ?thesis
    by (auto simp: resend_segment_without_timeout_def get_copy_segment_from_queue_def Let_def
        send_to_network_posted set_highRxt_def set_rescueRxt_def)
qed

section \<open>The third duplicate acknowledgement\<close>

text \<open>Reno, third duplicate acknowledgement, without window scaling and SACK: the threshold
  becomes \<open>max(FlightSize / 2, 2 * SMSS)\<close>, the window the threshold plus three segments, the
  segment the receiver waits for is sent again at once, and fast recovery begins.\<close>

theorem reno_third_duplicate:
  assumes "variant (tcb s) = TCPVariant_RENO" and "isDupAck s"
    and "dupAckCount (get_congestionvar s) = 2"
    and "\<not> isWindowScaling (tcb s)" and "\<not> isSackOption (tcb s)" and "\<not> isSackPermitted (tcb s)"
    and "tq_queue (retransmissionQueue (tcb s)) = Some cs"
  shows "\<exists>s'. ack_received E s = Some s'
    \<and> posted s' = posted s @ (case find (\<lambda>c. cell_seq c = SEG_ACK (tcb s)) cs of
        None \<Rightarrow> [] | Some c \<Rightarrow> net_event E (qi_packet c))
    \<and> get_congestionvar s' = (get_congestionvar s)\<lparr>dupAckCount := 3,
        ssthresh := ucast (half_flight s),
        cwnd := ucast (half_flight s) + 3 * SMSS (get_congestionvar s), cv_isFastRecovery := True\<rparr>
    \<and> retransmissionQueue (tcb s') = retransmissionQueue (tcb s)
    \<and> SND_UNA (tcb s') = SND_UNA (tcb s) \<and> SND_NXT (tcb s') = SND_NXT (tcb s)"
proof -
  let ?h = "half_flight s"
  define u where "u = on_cv (\<lambda>v. v\<lparr>dupAckCount := 3, ssthresh := ucast ?h,
    cwnd := ucast ?h + 3 * SMSS (get_congestionvar s)\<rparr>) s"
  have u: "posted u = posted s" "tcb u = (tcb s)\<lparr>congestionData := (get_congestionvar s)\<lparr>dupAckCount := 3,
    ssthresh := ucast ?h, cwnd := ucast ?h + 3 * SMSS (get_congestionvar s)\<rparr>\<rparr>"
    by (simp_all add: u_def)
  have h: "half_flight (count_dup s) = ?h"
    by (simp add: half_flight_def count_dup_def FlightSize_def)
  have d: "count_dup s = on_cv (\<lambda>v. v\<lparr>dupAckCount := 3\<rparr>) s"
    using assms(3) by (simp add: count_dup_def on_cv_def on_tcb_def)
  have "ack_received E s = FastRetransmit E (count_dup s)"
    using assms(1-3) by (simp add: ack_received_def reno_ack_received_def d TCP_DupThresh_def)
  also have "\<dots> = enter_recovery E (on_cv (\<lambda>v. v\<lparr>dupAckCount := 3, ssthresh := ucast ?h\<rparr>) s)"
    using assms(4) h by (simp add: FastRetransmit_def d TCP_DupThresh_def set_ssthres_def on_cv_def o_def)
  also have "\<dots> = (do { s \<leftarrow> resend_segment_without_timeout E (SEG_ACK (tcb u)) u;
      let s = on_cv (\<lambda>v. v\<lparr>cv_isFastRecovery := isFastRecovery s\<rparr>) s;
      if isSackOption (tcb s) then do {
         s \<leftarrow> tcp_sack_fastRetransmit s;
         Some (on_cv (\<lambda>v. v\<lparr>isLossRecoveryPhase := True\<rparr>) s) }
      else Some s })"
    using assms(4) by (simp add: enter_recovery_def get_ssthres_def set_cwnd_def TCP_DupThresh_def
        ucast_add_u16 u_def on_cv_def o_def)
  finally have r: "ack_received E s = \<dots>" .
  from resend_without_timeout_spec [of u cs E "SEG_ACK (tcb u)"] obtain s' h' r' where
    "resend_segment_without_timeout E (SEG_ACK (tcb u)) u = Some s'"
    "posted s' = posted s @ (case find (\<lambda>c. cell_seq c = SEG_ACK (tcb s)) cs of
        None \<Rightarrow> [] | Some c \<Rightarrow> net_event E (qi_packet c))"
    "tcb s' = (tcb u)\<lparr>HighRxt := h', RescueRxt := r'\<rparr>"
    using assms(6,7) u by auto
  then show ?thesis
    using assms(1,5) u by (simp add: r isFastRecovery_def)
qed

definition demo_dup :: NETSIM_SOCKET where
  "demo_dup = on_tcb (\<lambda>t. t\<lparr>SEG_ACK := 1001,
     congestionData := (congestionData t)\<lparr>dupAckCount := 2\<rparr>,
     retransmissionQueue := demo_queue [demo_cell 1001 1000 False, demo_cell 2001 1000 False]\<rparr>)
     demo_socket"

lemma demo_dup_tcb:
  "tcb demo_dup = demo_tcb\<lparr>SEG_ACK := 1001,
     congestionData := (congestionData demo_tcb)\<lparr>dupAckCount := 2\<rparr>,
     retransmissionQueue := demo_queue [demo_cell 1001 1000 False, demo_cell 2001 1000 False]\<rparr>"
  "posted demo_dup = []"
  by (simp_all add: demo_dup_def demo_socket_def tcp_create_socket_def)

theorem reno_third_duplicate_witness:
  "\<exists>s'. ack_received demo_env demo_dup = Some s'
    \<and> posted s' = net_event demo_env (demo_segment 1001 1000)
    \<and> ssthresh (get_congestionvar s') = 2000 \<and> cwnd (get_congestionvar s') = 5000"
proof -
  let ?cs = "[demo_cell 1001 1000 False, demo_cell 2001 1000 False]"
  have "half_flight demo_dup = 2000"
    by (simp add: half_flight_def FlightSize_def demo_dup_tcb demo_tcb_def zero_tcb_def demo_cv_def)
  moreover note reno_third_duplicate [of demo_dup ?cs demo_env]
  ultimately show ?thesis
    by (force simp: demo_dup_tcb demo_tcb_def zero_tcb_def isDupAck_def demo_cv_def)
qed

section \<open>Expiry of the retransmission timer\<close>

lemma add_timeout_event_spec:
  assumes "queue_ok (retransmissionQueue (tcb s))"
  shows "\<exists>Q s' e. add_timeout_event E p s = Some s' \<and> add_packet_to_queue (retransmissionQueue (tcb s)) p (now E) = Some Q
    \<and> queue_ok Q \<and> tcb s' = (tcb s)\<lparr>retransmissionQueue := Q\<rparr> \<and> posted s' = posted s @ [e]
    \<and> te_dEventTime e = now E + TCP_RTO (tcb s) \<and> te_nEventType e = TCP_TIMER
    \<and> te_nSubEventType e = TCP_RTO_TIMEOUT \<and> te_pPacket e = Some p"
  using add_packet_to_queue_total [OF assms, of p "now E"]
  by (auto simp: add_timeout_event_def fnpAddTcpEvent_def event_ids_def Let_def split: option.splits)

lemma added_segment_in_queue:
  assumes "add_packet_to_queue Q p t = Some Q'" and "SeqNum (tp_hdr q) = SeqNum (tp_hdr p)"
  shows "isSegmentInQueue Q' q = Some True"
  using assms
  by (auto simp: add_packet_to_queue_def isSegmentInQueue_def list_ex_iff chain.insert_set
      cell_seq_def elim!: bind_SomeE)

lemma option_bind_Live: "Option.bind m (\<lambda>s. Some (Live s)) = map_option Live m"
  by (cases m) simp_all

lemma congestion_rto_timeout_spec:
  assumes "\<not> isWindowScaling (tcb s)"
  shows "congestion_rto_timeout s = Some (on_cv (\<lambda>v.
    let v = v\<lparr>ssthresh := ucast (half_flight s), cwnd := LW v\<rparr> in
    if isNewReno s then v\<lparr>recover := SND_NXT (tcb s), cv_isFastRecovery := False\<rparr> else v) s)"
  using assms by (simp add: congestion_rto_timeout_def set_ssthres_def set_cwnd_def isNewReno_def
      on_cv_def o_def Let_def on_tcb_def)

text \<open>when the timer of a data segment that is still unacknowledged expires, the timeout is
  backed off, the threshold becomes \<open>max(FlightSize / 2, 2 * SMSS)\<close> and the window one loss
  window, the segment is sent again and stays queued, and a new timer with the doubled timeout
  is set for it.\<close>

theorem rto_expiry_resends:
  assumes "queue_ok (retransmissionQueue (tcb s))"
    and "tq_queue (retransmissionQueue (tcb s)) = Some cs"
    and "first_idx (\<lambda>c. cell_seq c = SeqNum (tp_hdr p)) cs = Some i"
    and "\<not> isTCPControl p" and "\<not> isOtherTimerCancel (tcb s)" and "\<not> isWindowScaling (tcb s)"
  shows "\<exists>s' e. handle_rto_timer E p (Live s) = Some (Live s')
    \<and> TCP_RTO (tcb s') = Backoff_RTO (TCP_RTO (tcb s))
    \<and> ssthresh (get_congestionvar s') = ucast (half_flight s)
    \<and> cwnd (get_congestionvar s') = LW (get_congestionvar s)
    \<and> posted s' = posted s @ net_event E (qi_packet (cs ! i)) @ [e]
    \<and> te_dEventTime e = now E + TCP_RTO (tcb s') \<and> te_nSubEventType e = TCP_RTO_TIMEOUT
    \<and> te_pPacket e = Some (stamped E (qi_packet (cs ! i)))
    \<and> queue_ok (retransmissionQueue (tcb s'))
    \<and> isSegmentInQueue (retransmissionQueue (tcb s')) p = Some True"
proof -
  let ?n = "SeqNum (tp_hdr p)" and ?q = "qi_packet (cs ! i)"
  from first_idx_SomeD [OF assms(3)] have i: "i < length cs" "cell_seq (cs ! i) = ?n" by auto
  define u where "u = on_tcb (\<lambda>t. t\<lparr>TCP_RTO := Backoff_RTO (TCP_RTO t)\<rparr>)
    (on_metrics (\<lambda>m. m\<lparr>timesRTOExpired := timesRTOExpired m + 1\<rparr>) s)"
  obtain v where v: "congestion_rto_timeout u = Some v" "posted v = posted s"
    "ssthresh (get_congestionvar v) = ucast (half_flight s)"
    "cwnd (get_congestionvar v) = LW (get_congestionvar s)"
    "TCP_RTO (tcb v) = Backoff_RTO (TCP_RTO (tcb s))"
    "retransmissionQueue (tcb v) = retransmissionQueue (tcb s)"
    using assms(6) congestion_rto_timeout_spec [of u]
    by (auto simp: u_def half_flight_def FlightSize_def Let_def)
  from get_segment_from_queue_ok [OF assms(1), of ?n] obtain r Q where
    Q: "get_segment_from_queue (retransmissionQueue (tcb s)) ?n = Some (r, Q)" "queue_ok Q" .
  have r: "r = Some ?q" using Q(1) assms(2,3) by (simp add: get_segment_from_queue_def)
  have hd: "isSegmentInQueue (retransmissionQueue (tcb s)) p = Some True"
    using assms(2) i by (auto simp: isSegmentInQueue_def list_ex_iff intro!: bexI [of _ "cs ! i"])
  let ?w = "on_metrics (\<lambda>m. m\<lparr>segmentRetransmitted := segmentRetransmitted m + 1\<rparr>)
     (on_tcb (\<lambda>t. t\<lparr>retransmissionQueue := Q\<rparr>) v)"
  have run: "handle_rto_timer E p (Live s)
      = map_option Live (add_timeout_event E (stamped E ?q) (send_to_network E ?q ?w))"
    using assms(4,5) hd v(1,6) Q r
    by (simp add: handle_rto_timer_def resend_segment_def send_with_timeout_def Let_def u_def
        option_bind_Live)
  have "queue_ok (retransmissionQueue (tcb (send_to_network E ?q ?w)))" using Q(2) by simp
  from add_timeout_event_spec [OF this, of E "stamped E ?q"] obtain Q' s' e where
    e: "add_timeout_event E (stamped E ?q) (send_to_network E ?q ?w) = Some s'"
      "add_packet_to_queue Q (stamped E ?q) (now E) = Some Q'" "queue_ok Q'"
      "tcb s' = (tcb v)\<lparr>retransmissionQueue := Q'\<rparr>"
      "posted s' = posted s @ net_event E ?q @ [e]" "te_dEventTime e = now E + TCP_RTO (tcb v)"
      "te_nSubEventType e = TCP_RTO_TIMEOUT" "te_pPacket e = Some (stamped E ?q)"
    using v(2) by (auto simp: send_to_network_posted)
  have "isSegmentInQueue Q' p = Some True"
    using e(2) i(2) by (auto intro: added_segment_in_queue simp: stamped_def cell_seq_def)
  with e v show ?thesis by (simp add: run)
qed

theorem rto_expiry_resends_witness:
  "\<exists>s' e. handle_rto_timer demo_env (demo_segment 2001 1000) (Live demo_dup) = Some (Live s')
    \<and> TCP_RTO (tcb s') = 2 * SECOND \<and> ssthresh (get_congestionvar s') = 2000
    \<and> cwnd (get_congestionvar s') = 1000
    \<and> posted s' = net_event demo_env (demo_segment 2001 1000) @ [e]
    \<and> te_dEventTime e = 100 + 2 * SECOND"
proof -
  let ?cs = "[demo_cell 1001 1000 False, demo_cell 2001 1000 False]"
  have "queue_ok (retransmissionQueue (tcb demo_dup))"
    by (simp add: demo_dup_tcb demo_queue_ok)
  moreover have "first_idx (\<lambda>c. cell_seq c = SeqNum (tp_hdr (demo_segment 2001 1000))) ?cs = Some 1"
    by simp
  moreover have "\<not> isTCPControl (demo_segment 2001 1000)"
    by (simp add: isTCPControl_def demo_segment_def TX_PROTOCOL_TCP_def)
  moreover have "tq_queue (retransmissionQueue (tcb demo_dup)) = Some ?cs"
    "\<not> isOtherTimerCancel (tcb demo_dup)" "\<not> isWindowScaling (tcb demo_dup)"
    "half_flight demo_dup = 2000" "Backoff_RTO (TCP_RTO (tcb demo_dup)) = 2 * SECOND"
    "LW (get_congestionvar demo_dup) = 1000" "now demo_env = 100" "posted demo_dup = []"
    by (simp_all add: demo_dup_tcb demo_tcb_def zero_tcb_def demo_cv_def half_flight_def
        FlightSize_def Backoff_RTO_def rto_consts demo_env_def demo_tev_def)
  moreover note rto_expiry_resends [of demo_dup ?cs "demo_segment 2001 1000" 1 demo_env]
  ultimately show ?thesis by auto
qed

section \<open>The pipe\<close>

lemma isLost_loop_total: "m \<noteq> 0 \<Longrightarrow> \<exists>b. isLost_loop m q c xs = Some b"
  by (induction xs arbitrary: c) (auto simp: div32_def Let_def)

lemma tcp_sack_isLost_total: "congestion_get_MSS s \<noteq> 0 \<Longrightarrow> \<exists>b. tcp_sack_isLost s q = Some b"
  by (auto simp: tcp_sack_isLost_def Let_def intro!: isLost_loop_total)

text \<open>What one segment start \<open>n\<close> adds to the pipe, and the number of segment starts.\<close>

definition pipe_weight :: "NETSIM_SOCKET \<Rightarrow> u32 \<Rightarrow> u32" where
  "pipe_weight s n = (let m = ucast (congestion_get_MSS s) in
     (if tcp_sack_isLost s n = Some False then m else 0) + (if n \<le> HighRxt (tcb s) then m else 0))"

definition ceil_div :: "nat \<Rightarrow> nat \<Rightarrow> nat" where
  "ceil_div a b = (a + b - 1) div b"

lemma ceil_div_step: "0 < a \<Longrightarrow> 0 < b \<Longrightarrow> ceil_div a b = Suc (ceil_div (a - b) b)"
  by (cases "b \<le> a") (auto simp: ceil_div_def le_div_geq div_less not_le)

lemma pipe_loop_spec:
  assumes m: "congestion_get_MSS s \<noteq> 0" "m = ucast (congestion_get_MSS s)"
    and nowrap: "unat h + unat m \<le> 2 ^ 32"
  shows "pipe_loop s m h (HighRxt (tcb s)) q acc = Some (acc +
    sum_list (map (\<lambda>i. pipe_weight s (q + of_nat i * m)) [0..<ceil_div (unat h - unat q) (unat m)]))"
proof (induction "unat h - unat q" arbitrary: q acc rule: less_induct)
  case less
  have m0: "0 < unat m" using m by (simp add: unat_gt_0)
  show ?case
  proof (cases "q < h")
    case True
    then have lt: "unat q < unat h" by (simp add: word_less_nat_alt)
    have q: "unat (q + m) = unat q + unat m"
      using nowrap lt by (subst unat_add_lem [THEN iffD1]) simp_all
    obtain b where b: "tcp_sack_isLost s q = Some b" using tcp_sack_isLost_total [OF m(1)] ..
    let ?n = "ceil_div (unat h - unat (q + m)) (unat m)"
    have n: "ceil_div (unat h - unat q) (unat m) = Suc ?n"
      using ceil_div_step [of "unat h - unat q" "unat m"] lt m0 q by (simp add: diff_diff_left)
    have "pipe_loop s m h (HighRxt (tcb s)) q acc
        = pipe_loop s m h (HighRxt (tcb s)) (q + m) (acc + pipe_weight s q)"
      using True b m(2)
      by (subst pipe_loop.simps) (simp add: pipe_weight_def Let_def add.assoc)
    also have "\<dots> = Some (acc + pipe_weight s q +
        sum_list (map (\<lambda>i. pipe_weight s (q + m + of_nat i * m)) [0..<?n]))"
      using less.hyps [of "q + m"] lt m0 q by simp
    also have "sum_list (map (\<lambda>i. pipe_weight s (q + of_nat i * m)) [0..<Suc ?n])
        = pipe_weight s q + sum_list (map (\<lambda>i. pipe_weight s (q + m + of_nat i * m)) [0..<?n])"
      by (simp add: upt_conv_Cons map_Suc_upt [symmetric] o_def algebra_simps del: upt_Suc map_Suc_upt)
    ultimately show ?thesis by (simp add: n add.assoc del: upt_Suc)
  next
    case False
    then have "unat h - unat q = 0" by (simp add: word_less_nat_alt)
    then show ?thesis
      using False m0 by (subst pipe_loop.simps) (simp add: ceil_div_def)
  qed
qed

text \<open>the pipe computation returns when the segment size is not zero and the numbers do not
  wrap, and the pipe is then the sum over the segment starts between \<open>SND.UNA\<close> and
  \<open>SND.NXT\<close>: one segment for a start that is not considered lost, one more for a start that
  was retransmitted.\<close>

theorem set_pipe_counts:
  assumes "congestion_get_MSS s \<noteq> 0"
    and "unat (SND_NXT (tcb s)) + unat (congestion_get_MSS s) \<le> 2 ^ 32"
  shows "tcp_sack_setPipe s = Some (on_tcb (\<lambda>t. t\<lparr>pipe := sum_list (map
    (\<lambda>i. pipe_weight s (SND_UNA t + of_nat i * ucast (congestion_get_MSS s)))
    [0..<ceil_div (unat (SND_NXT t) - unat (SND_UNA t)) (unat (congestion_get_MSS s))])\<rparr>) s)"
  using assms
  by (simp add: tcp_sack_setPipe_def get_highData_def get_highRxt_def get_highAck_def
      pipe_loop_spec on_tcb_def)

theorem set_pipe_counts_witness:
  "tcp_sack_setPipe demo_socket = Some (on_tcb (\<lambda>t. t\<lparr>pipe := 4000\<rparr>) demo_socket)"
proof -
  have s: "congestion_get_MSS demo_socket = 1000" "SND_NXT (tcb demo_socket) = 5001"
    "SND_UNA (tcb demo_socket) = 1001"
    by (simp_all add: demo_socket_def congestion_get_MSS_def demo_tcb_def demo_cv_def)
  have w: "pipe_weight demo_socket n = 1000" if "n \<in> {1001, 2001, 3001, 4001}" for n
    using that s by (auto simp: pipe_weight_def tcp_sack_isLost_def demo_socket_def demo_tcb_def
        zero_tcb_def zero_scoreboard_def Let_def)
  have "[0..<ceil_div (5001 - 1001) 1000] = [0, 1, 2, 3]"
    by (simp add: ceil_div_def upt_conv_Cons)
  with s w set_pipe_counts [of demo_socket] show ?thesis by (simp add: on_tcb_def)
qed

section \<open>The next segment to send again\<close>

lemma next_seg_scan_sound:
  "next_seg_scan test h cs = Some (Some n) \<Longrightarrow>
     \<exists>xs c ys. cs = xs @ c # ys \<and> cell_seq c = n \<and> \<not> qi_isSacked c \<and> h < n \<and> list_ex qi_isSacked ys"
proof (induction cs)
  case Nil
  then show ?case by simp
next
  case (Cons c cs)
  show ?case
  proof (cases "next_seg_scan test h cs = Some (Some n)")
    case True
    with Cons.IH obtain xs d ys where "cs = xs @ d # ys" "cell_seq d = n" "\<not> qi_isSacked d" "h < n"
      "list_ex qi_isSacked ys" by blast
    then show ?thesis by (intro exI [of _ "c # xs"]) auto
  next
    case False
    with Cons.prems have "cell_seq c = n" "\<not> qi_isSacked c" "h < n" "list_ex qi_isSacked cs"
      by (auto split: if_splits elim!: bind_SomeE)
    then show ?thesis by (intro exI [of _ "[]"]) auto
  qed
qed

text \<open>C32: when loss recovery picks a segment to send again (not new data), that segment is in
  the retransmission queue, above the highest one sent again so far, not acknowledged
  selectively, and followed by a segment that is: it is a hole.\<close>

theorem next_segment_is_a_hole:
  assumes "tcp_sack_nextSeg E s = Some (n, s')" and "n \<noteq> 0" and "n \<noteq> SND_NXT (tcb s)"
  shows "\<exists>xs c ys. tq_queue (retransmissionQueue (tcb s)) = Some (xs @ c # ys) \<and> cell_seq c = n
    \<and> \<not> qi_isSacked c \<and> HighRxt (tcb s) < n \<and> list_ex qi_isSacked ys"
proof -
  from assms(1) obtain cs r where cs: "tq_queue (retransmissionQueue (tcb s)) = Some cs"
    and r: "next_seg_scan (tcp_sack_isLost s) (HighRxt (tcb s)) cs = Some r"
    and rest: "(case r of Some n \<Rightarrow> Some (n, s) | None \<Rightarrow> next_seg_rest E cs s) = Some (n, s')"
    by (auto simp: tcp_sack_nextSeg_def get_highRxt_def elim!: bind_SomeE)
  have "\<exists>test. next_seg_scan test (HighRxt (tcb s)) cs = Some (Some n)"
  proof (cases r)
    case None
    with rest have "next_seg_rest E cs s = Some (n, s')" by simp
    with assms(2,3) show ?thesis
      by (intro exI [of _ "\<lambda>_. Some True"])
         (auto simp: next_seg_rest_def get_from_app_def get_highRxt_def Let_def
          elim!: bind_SomeE split: if_splits option.splits)
  next
    case (Some k)
    with rest r show ?thesis by auto
  qed
  with cs next_seg_scan_sound show ?thesis by metis
qed

definition demo_hole :: NETSIM_SOCKET where
  "demo_hole = on_tcb (\<lambda>t. t\<lparr>retransmissionQueue :=
     demo_queue [demo_cell 1001 1000 False, demo_cell 2001 1000 True]\<rparr>) demo_socket"

theorem next_segment_is_a_hole_witness:
  "\<exists>s'. tcp_sack_nextSeg demo_env demo_hole = Some (1001, s')
    \<and> (\<exists>xs c ys. tq_queue (retransmissionQueue (tcb demo_hole)) = Some (xs @ c # ys)
        \<and> cell_seq c = 1001 \<and> \<not> qi_isSacked c \<and> HighRxt (tcb demo_hole) < 1001
        \<and> list_ex qi_isSacked ys)"
proof -
  have t: "tcb demo_hole = demo_tcb\<lparr>retransmissionQueue :=
      demo_queue [demo_cell 1001 1000 False, demo_cell 2001 1000 True]\<rparr>" "iface demo_hole = []"
    by (simp_all add: demo_hole_def demo_socket_def tcp_create_socket_def)
  then have "\<exists>s'. tcp_sack_nextSeg demo_env demo_hole = Some (1001, s')"
    by (simp add: tcp_sack_nextSeg_def tcp_sack_isLost_def congestion_get_MSS_def get_highRxt_def
        next_seg_rest_def get_from_app_def demo_env_def queue_interface_def demo_tcb_def
        zero_tcb_def zero_scoreboard_def demo_cv_def Let_def)
  then obtain s' where s': "tcp_sack_nextSeg demo_env demo_hole = Some (1001, s')" ..
  moreover have "(1001 :: u32) \<noteq> SND_NXT (tcb demo_hole)" by (simp add: t demo_tcb_def)
  ultimately show ?thesis
    using next_segment_is_a_hole [OF s'] by auto
qed

end
