(* ===== verification/Tcp_Header.thy ===== *)
theory Tcp_Header
  imports Tcp_Example
begin

text \<open>
The 4-bit header length field: the options of an acknowledgement (time stamp and SACK blocks) fit
  the 60 bytes a TCP header may have (\<open>TCP_Packet.c\<close>, \<open>SACK.c\<close>).
\<close>

section \<open>Header length and options\<close>

text \<open>
  A header as the code builds it: the length field is 20 plus the sizes of the options,
  without wrap-around, and every option has the body of its type.
\<close>

fun option_ok :: "TCPOPTION \<Rightarrow> bool" where
  "option_ok opt = (case to_option opt of
       BodyExtra e \<Rightarrow> to_type opt = TCP_OPTION_END \<or> to_type opt = TCP_OPTION_NOOPERATION
     | BodyMss m \<Rightarrow> to_type opt = TCP_OPTION_MSS
     | BodySackPermitted m \<Rightarrow> to_type opt = TCP_OPTION_SACK_PERMITTED
     | BodySack sk \<Rightarrow> to_type opt = TCP_OPTION_SACK
         \<and> length (sackData sk) = unat (get_sack_data_count sk)
     | BodyWs w \<Rightarrow> to_type opt = TCP_OPTION_WINDOW_SCALE
     | BodyTs t \<Rightarrow> to_type opt = TCP_OPTION_TIMESTAMP)"

definition options_size :: "TCP_SEGMENT_HDR \<Rightarrow> nat" where
  "options_size hdr = sum_list (map (unat \<circ> to_size) (th_option hdr))"

text \<open>\<open>n\<close> is the length of the header.\<close>

definition hdr_ok :: "nat \<Rightarrow> TCP_SEGMENT_HDR \<Rightarrow> bool" where
  "hdr_ok n hdr \<longleftrightarrow> list_all option_ok (th_option hdr)
     \<and> unat (HdrLength hdr) = n \<and> n = TCP_HDR_SIZE + options_size hdr"

lemma option_same: "to_option opt = b \<Longrightarrow> opt\<lparr>to_option := b\<rparr> = opt"
  by (cases opt) simp

lemma copy_tcp_option_ok:
  "list_all option_ok opts \<Longrightarrow> copy_tcp_option d opts = Some (d @ opts)"
proof (induction opts arbitrary: d)
  case Nil
  then show ?case by simp
next
  case (Cons opt opts)
  then have "option_ok opt" by simp
  then have "copy_tcp_option d (opt # opts) = copy_tcp_option (d @ [opt]) opts"
    by (cases "to_option opt")
       (auto simp: copy_tcp_extra_option_def copy_tcp_mss_option_def copy_sack_option_def
         copy_tcp_sack_permitted_option_def copy_window_scale_option_def copy_timestamp_option_def
         option_same)
  with Cons show ?case by simp
qed

lemma copy_tcp_hdr_ok: "hdr_ok n hdr \<Longrightarrow> copy_tcp_hdr (Some hdr) = Some (Some hdr)"
  by (cases hdr) (simp add: copy_tcp_hdr_def hdr_ok_def copy_tcp_option_ok)

lemma unat_u8_less: "unat (c :: u8) < 256"
  by (rule less_le_trans [OF unsigned_less]) simp

lemma unat_ucast_u8 [simp]: "unat (ucast (c :: u8) :: u32) = unat c"
  using unat_u8_less [of c] by (simp add: unsigned_ucast_eq take_bit_nat_eq_self)

lemma unat_hdr_sum:
  assumes "unat h + unat n < 256"
  shows "unat (ucast (ucast (h :: u8) + n :: u32) :: u8) = unat h + unat n"
proof -
  have "unat (ucast h + n :: u32) = unat h + unat n"
    using assms by (subst unat_add_lem [THEN iffD1]) simp_all
  with assms show ?thesis by (simp add: unsigned_ucast_eq take_bit_nat_eq_self)
qed

lemma set_tcp_option_ok:
  assumes "hdr_ok n hdr" and "option_ok \<lparr>to_type = ty, to_option = b, to_size = k\<rparr>"
    and "m = n + unat k" and "m < 256"
  shows "hdr_ok m (set_tcp_option b ty k hdr)"
  using assms unat_hdr_sum [of "HdrLength hdr" k]
  by (simp add: hdr_ok_def set_tcp_option_def options_size_def del: option_ok.simps)

lemma extra_option_ok:
  "hdr_ok n hdr \<Longrightarrow> n < 255 \<Longrightarrow> ty = TCP_OPTION_END \<or> ty = TCP_OPTION_NOOPERATION \<Longrightarrow>
     hdr_ok (Suc n) (extra_option ty hdr)"
  by (auto simp: extra_option_def EXTRA_OPTION_LEN_def intro!: set_tcp_option_ok)

lemma add_tcp_extra_loop_ok:
  "hdr_ok n hdr \<Longrightarrow> n + k < 256 \<Longrightarrow> hdr_ok (n + k) (add_tcp_extra_loop k hdr)"
proof (induction k arbitrary: n hdr)
  case 0
  then show ?case by simp
next
  case (Suc k)
  have "hdr_ok (Suc n) (if k = 0 then extra_option TCP_OPTION_END hdr
      else extra_option TCP_OPTION_NOOPERATION hdr)"
    using Suc.prems by (auto intro: extra_option_ok)
  from Suc.IH [OF this] Suc.prems show ?case by simp
qed

lemma packet_size_fields:
  "tp_dOverhead (set_tcp_packet_size p)
     = real (unat (HdrLength (tp_hdr (set_tcp_packet_size p))))"
  "tp_dPacketSize (set_tcp_packet_size p)
     = tp_dPayload p + real (unat (HdrLength (tp_hdr (set_tcp_packet_size p))))"
  by (simp_all add: set_tcp_packet_size_def Let_def)

lemma set_tcp_packet_size_ok:
  assumes "hdr_ok n (tp_hdr p)" and "n \<le> 60"
  shows "\<exists>m. hdr_ok m (tp_hdr (set_tcp_packet_size p)) \<and> m \<le> 60 \<and> 4 dvd m
    \<and> tp_dOverhead (set_tcp_packet_size p) = real m
    \<and> tp_dPacketSize (set_tcp_packet_size p) = tp_dPayload p + real m"
proof -
  let ?l = "ucast (HdrLength (tp_hdr p)) mod 4 :: u32"
  have n: "unat (HdrLength (tp_hdr p)) = n" using assms by (simp add: hdr_ok_def)
  have l: "unat ?l = n mod 4" by (simp add: unat_mod n)
  define k where "k = (if n mod 4 = 0 then 0 else 4 - n mod 4)"
  have "?l \<le> 4" using l by (simp add: word_le_nat_alt)
  then have "unat (4 - ?l) = 4 - n mod 4" by (simp add: unat_sub l)
  moreover have "?l = 0 \<longleftrightarrow> n mod 4 = 0" using l by (metis unat_eq_zero)
  ultimately have h: "tp_hdr (set_tcp_packet_size p) = add_tcp_extra_loop k (tp_hdr p)"
    by (simp add: set_tcp_packet_size_def add_tcp_extra_option_def k_def Let_def)
  have k: "n + k \<le> 60" "4 dvd n + k"
    using assms(2) unfolding k_def by presburger+
  from add_tcp_extra_loop_ok [OF assms(1), of k] k(1)
  have ok: "hdr_ok (n + k) (tp_hdr (set_tcp_packet_size p))" by (simp add: h)
  then have "unat (HdrLength (tp_hdr (set_tcp_packet_size p))) = n + k"
    by (simp only: hdr_ok_def)
  with packet_size_fields [of p] ok k show ?thesis by metis
qed

section \<open>The SACK option\<close>

lemma sack_loop_ok:
  assumes "sack_loop maxData i sd len lastSeq cs = (i', sd')" and "i < maxData"
    and "length sd = Suc (unat i) \<or> (sd = [] \<and> i = 0 \<and> lastSeq = 0 \<and> cs \<noteq> [])"
  shows "i' < maxData \<and> length sd' = Suc (unat i')"
  using assms
proof (induction cs arbitrary: i sd len lastSeq)
  case Nil
  then show ?case by auto
next
  case (Cons q cs)
  let ?h = "tp_hdr (qi_packet q)" and ?l = "get_seg_len (qi_packet q)"
  have next_i: "unat (i + 1) = Suc (unat i) \<and> i + 1 < maxData" if "i < maxData - 1"
  proof -
    have "maxData \<noteq> 0" using Cons.prems(2) by auto
    then have "unat i < unat maxData - 1"
      using that by (simp add: word_less_nat_alt unat_minus_one)
    moreover have "unat (i + 1) = Suc (unat i)"
      using calculation unat_u32_less [of maxData] by (subst unat_add_lem [THEN iffD1]) auto
    ultimately show ?thesis by (simp add: word_less_nat_alt)
  qed
  show ?case
  proof (cases "lastSeq = 0")
    case True
    show ?thesis
      by (rule Cons.IH [of i _ ?l "SeqNum ?h"])
         (use Cons.prems True in \<open>auto simp: Let_def put_sack_def\<close>)
  next
    case False
    with Cons.prems have len: "length sd = Suc (unat i)" by auto
    consider "SeqNum ?h = lastSeq + len" | "SeqNum ?h \<noteq> lastSeq + len" "i < maxData - 1"
      | "SeqNum ?h \<noteq> lastSeq + len" "\<not> i < maxData - 1" by blast
    then show ?thesis
    proof cases
      case 1
      show ?thesis
        by (rule Cons.IH [of i _ ?l "SeqNum ?h"])
           (use Cons.prems False len 1 in \<open>auto simp: Let_def\<close>)
    next
      case 2
      show ?thesis
        by (rule Cons.IH [of "i + 1" _ ?l "SeqNum ?h"])
           (use Cons.prems False len 2 next_i in \<open>auto simp: Let_def put_sack_def\<close>)
    next
      case 3
      with Cons.prems False len show ?thesis by (auto simp: Let_def)
    qed
  qed
qed

lemma unat_of_nat_small: "n < 256 \<Longrightarrow> unat (of_nat n :: u32) = n" "n < 256 \<Longrightarrow> unat (of_nat n :: u8) = n"
  by (simp_all add: unsigned_of_nat take_bit_nat_eq_self)

lemma get_max_sack_data_nat:
  assumes "unat (HdrLength hdr) \<le> 58"
  shows "unat (get_max_sack_data hdr) = (58 - unat (HdrLength hdr)) div 8"
proof -
  let ?h = "unat (HdrLength hdr)"
  have "int MAX_TCP_HDR_SIZE - int ?h - int SACK_OPTION_FIX_LEN = int (58 - ?h)"
    using assms by (simp add: tcp_lens)
  then have "get_max_sack_data hdr = word_of_int (int (58 - ?h) div int 8)"
    by (simp add: get_max_sack_data_def SACKDATA_LEN_def Let_def)
  also have "\<dots> = of_nat ((58 - ?h) div 8)"
    by (simp only: zdiv_int [symmetric] of_int_of_nat_eq)
  finally have "get_max_sack_data hdr = of_nat ((58 - ?h) div 8)" .
  moreover have "(58 - ?h) div 8 < 256" by linarith
  ultimately show ?thesis by (simp add: unat_of_nat_small)
qed

lemma sack_len_nat:
  assumes "unat k \<le> 7"
  shows "unat (SACK_OPTION_LEN k) = 2 + 8 * unat k"
    and "unat (get_sack_data_count \<lparr>sack_type = t, sack_len = SACK_OPTION_LEN k, sackData = sd\<rparr>) = unat k"
proof -
  have "unat (2 + k * 8 :: u32) = 2 + 8 * unat k"
    using assms by (simp add: unat_word_ariths)
  then show 1: "unat (SACK_OPTION_LEN k) = 2 + 8 * unat k"
    using assms by (simp add: SACK_OPTION_LEN_def tcp_lens unsigned_ucast_eq take_bit_nat_eq_self)
  show "unat (get_sack_data_count \<lparr>sack_type = t, sack_len = SACK_OPTION_LEN k, sackData = sd\<rparr>) = unat k"
    using assms by (simp add: get_sack_data_count_def 1 tcp_lens Let_def unat_of_nat_small)
qed

lemma set_sack_option_ok:
  assumes "hdr_ok n hdr" and "n \<le> 58" and "queue_ok (outOfOrderSegment (tcb s))"
  shows "\<exists>hdr' m. set_sack_option s hdr = Some hdr' \<and> hdr_ok m hdr' \<and> m \<le> 60"
proof (cases "isSackPermitted (tcb s) \<and> tq_size (outOfOrderSegment (tcb s)) \<noteq> 0 \<and> get_max_sack_data hdr \<noteq> 0")
  case False
  with assms show ?thesis by (auto simp: set_sack_option_def Let_def intro!: exI [of _ n])
next
  case True
  let ?max = "get_max_sack_data hdr"
  from assms(3) obtain cs where cs: "tq_queue (outOfOrderSegment (tcb s)) = Some cs"
    and "tq_size (outOfOrderSegment (tcb s)) = sum_list (map cell_size cs)" by (rule queue_okE)
  with True have ne: "cs \<noteq> []" by auto
  obtain i sd where run: "sack_loop ?max 0 [] 0 0 cs = (i, sd)" by force
  have i: "i < ?max" "length sd = Suc (unat i)"
    using sack_loop_ok [OF run] True ne by (auto simp: word_neq_0_conv)
  have max: "unat ?max = (58 - n) div 8"
    using assms(1,2) by (simp add: hdr_ok_def get_max_sack_data_nat)
  then have "unat ?max \<le> 7" by linarith
  with i(1) have k: "unat (i + 1) = Suc (unat i)" "Suc (unat i) \<le> unat ?max"
    by (simp_all add: word_less_nat_alt unat_plus_simple unat_add_lem [THEN iffD1])
  let ?len = "SACK_OPTION_LEN (i + 1)"
  let ?b = "BodySack \<lparr>sack_type = TCP_OPTION_num TCP_OPTION_SACK, sack_len = ?len, sackData = sd\<rparr>"
  have len: "unat ?len = 10 + 8 * unat i"
    using sack_len_nat(1) [of "i + 1"] k \<open>unat ?max \<le> 7\<close> by simp
  have "hdr_ok (n + unat ?len) (set_tcp_option ?b TCP_OPTION_SACK (ucast ?len) hdr)"
    using assms(1) len k max i(2) sack_len_nat(2) [of "i + 1"]
    by (intro set_tcp_option_ok) auto
  moreover have "n + unat ?len \<le> 60" using len k(2) max assms(2) by linarith
  ultimately show ?thesis
    using True cs run by (auto simp: set_sack_option_def Let_def)
qed

section \<open>Acknowledgements\<close>

lemma add_tcp_timestamp_option_ok:
  assumes "hdr_ok n hdr" and "n < 240"
  shows "hdr_ok (n + 11) (add_tcp_timestamp_option E s hdr)"
proof -
  have "hdr_ok (n + 10) (set_tcp_option (BodyTs b) TCP_OPTION_TIMESTAMP 10 hdr)" for b
    using assms by (intro set_tcp_option_ok) simp_all
  from extra_option_ok [OF this, of TCP_OPTION_NOOPERATION] assms(2) show ?thesis
    by (simp add: add_tcp_timestamp_option_def TSOPT_LEN_def add.commute)
qed

lemma ctrl_packet_hdr:
  assumes "ctrl_packet E s ty t = Some p"
  shows "hdr_ok 20 (tp_hdr p) \<and> tp_dPayload p = 0"
  using assms
  by (auto simp: ctrl_packet_def create_tcp_ctrl_packet_def hdr_ok_def options_size_def
      zero_hdr_def TCP_HDR_SIZE_def Let_def elim!: bind_SomeE)

lemma hdr_ok_fields:
  "hdr_ok n (h\<lparr>Ack := a, SeqNum := b, AckNum := c, Window := d\<rparr>) = hdr_ok n h"
  by (simp add: hdr_ok_def options_size_def)

text \<open>C34: an acknowledgement can always be built for a socket with both addresses, whatever
  waits out of order: its header is at most 60 bytes and a multiple of four, its length field is
  20 plus the sizes of its options, the packet size is the header size, and copying the header
  gives the same header.\<close>

theorem ack_header_fits:
  assumes "localAddr s \<noteq> None" and "remoteAddr s \<noteq> None"
    and "queue_ok (outOfOrderSegment (tcb s))"
  shows "\<exists>p m. create_ack E s t n a = Some p \<and> hdr_ok m (tp_hdr p) \<and> m \<le> MAX_TCP_HDR_SIZE \<and> 4 dvd m
    \<and> tp_dPacketSize p = real m \<and> copy_tcp_hdr (Some (tp_hdr p)) = Some (Some (tp_hdr p))"
proof -
  from assms(1,2) obtain p where p: "ctrl_packet E s TCPPACKET_ACK t = Some p"
    by (auto simp: ctrl_packet_def create_tcp_ctrl_packet_def Let_def)
  let ?h = "(tp_hdr p)\<lparr>Ack := True, SeqNum := n, AckNum := a, Window := congestion_get_WND s\<rparr>"
  let ?h2 = "if isTSopt (tcb s) then add_tcp_timestamp_option E s ?h else ?h"
  have "hdr_ok 20 ?h" using ctrl_packet_hdr [OF p] by (simp add: hdr_ok_fields)
  then have "hdr_ok (if isTSopt (tcb s) then 31 else 20) ?h2"
    using add_tcp_timestamp_option_ok [of 20 ?h E s] by simp
  moreover have "(if isTSopt (tcb s) then 31 else 20) \<le> (58 :: nat)" by simp
  ultimately obtain hdr' m where
    h': "set_sack_option s ?h2 = Some hdr'" "hdr_ok m hdr'" "m \<le> 60"
    using set_sack_option_ok [OF _ _ assms(3)] by blast
  let ?q = "set_tcp_packet_size (p\<lparr>tp_hdr := hdr'\<rparr>)"
  from set_tcp_packet_size_ok [of m "p\<lparr>tp_hdr := hdr'\<rparr>"] h' obtain k where
    "hdr_ok k (tp_hdr ?q)" "k \<le> 60" "4 dvd k" "tp_dPacketSize ?q = tp_dPayload p + real k"
    by auto
  moreover have "create_ack E s t n a = Some ?q"
    using p h'(1) by (simp add: create_ack_def Let_def cong: if_cong)
  ultimately show ?thesis
    using ctrl_packet_hdr [OF p] copy_tcp_hdr_ok by (auto simp: tcp_lens)
qed

theorem ack_header_fits_witness:
  "let s = on_tcb (\<lambda>t. t\<lparr>isSackPermitted := True, isTSopt := True, outOfOrderSegment :=
       demo_queue [demo_cell 11 10 False, demo_cell 31 10 False]\<rparr>) demo_socket in
   \<exists>p m. create_ack demo_env s 0 1 1 = Some p \<and> hdr_ok m (tp_hdr p) \<and> m \<le> 60 \<and> 4 dvd m
    \<and> tp_dPacketSize p = real m"
proof -
  let ?s = "on_tcb (\<lambda>t. t\<lparr>isSackPermitted := True, isTSopt := True, outOfOrderSegment :=
       demo_queue [demo_cell 11 10 False, demo_cell 31 10 False]\<rparr>) demo_socket"
  have "localAddr ?s \<noteq> None" "remoteAddr ?s \<noteq> None" "queue_ok (outOfOrderSegment (tcb ?s))"
    by (simp_all add: demo_socket_def demo_queue_ok)
  from ack_header_fits [OF this, of demo_env 0 1 1] show ?thesis by (auto simp: tcp_lens Let_def)
qed

end
