(* ===== verification/Tcp_Cubic_Growth.thy ===== *)
theory Tcp_Cubic_Growth
  imports Tcp_Example
begin

text \<open>
What CUBIC (\<open>TCP/CUBIC.c\<close>) guarantees on an acknowledgement of new data, and the closed form
  of its estimate of the TCP window.
\<close>

section \<open>The estimate of the TCP window\<close>

lemma unat_div_mod_step:
  fixes a d :: nat
  assumes "0 < d" and "d < a"
  shows "(a - 1) div d = Suc ((a - d - 1) div d)" and "(a - 1) mod d = (a - d - 1) mod d"
proof -
  have "a - 1 = d + (a - d - 1)" using assms by simp
  then show "(a - 1) div d = Suc ((a - d - 1) div d)" "(a - 1) mod d = (a - d - 1) mod d"
    using assms(1) by (metis div_add_self1 less_numeral_extra(3) plus_1_eq_Suc add.commute)
      (metis mod_add_self1 \<open>a - 1 = d + (a - d - 1)\<close>)
qed

text \<open>the loop that lets the estimate of the TCP window catch up, one unit of \<open>delta\<close> at a
  time, ends and computes a quotient and a remainder: the estimate grows by
  \<open>(ack_cnt - 1) div delta\<close>, and between 1 and \<open>delta\<close> acknowledgements remain counted.\<close>

theorem friendly_loop_is_division:
  "friendly_loop delta (ack_cnt, tcp_cwnd) =
     (if delta = 0 \<or> ack_cnt = 0 then (ack_cnt, tcp_cwnd)
      else (of_nat ((unat ack_cnt - 1) mod unat delta + 1),
            tcp_cwnd + of_nat ((unat ack_cnt - 1) div unat delta)))"
proof (induction delta "(ack_cnt, tcp_cwnd)" arbitrary: ack_cnt tcp_cwnd rule: friendly_loop.induct)
  case (1 delta ack_cnt tcp_cwnd)
  show ?case
  proof (cases "delta \<noteq> 0 \<and> delta < ack_cnt")
    case True
    then have d: "0 < unat delta" "unat delta < unat ack_cnt" and a: "ack_cnt - delta \<noteq> 0" "ack_cnt \<noteq> 0"
      by (auto simp: unat_gt_0 word_less_nat_alt)
    have u: "unat (ack_cnt - delta) = unat ack_cnt - unat delta"
      using d by (simp add: unat_sub_if')
    have "friendly_loop delta (ack_cnt, tcp_cwnd) = friendly_loop delta (ack_cnt - delta, tcp_cwnd + 1)"
      using True by (subst friendly_loop.simps) simp
    also have "\<dots> = (of_nat ((unat ack_cnt - unat delta - 1) mod unat delta + 1),
        tcp_cwnd + 1 + of_nat ((unat ack_cnt - unat delta - 1) div unat delta))"
      using 1 True a by (simp add: u)
    finally show ?thesis
      using True a unat_div_mod_step [OF d] by simp
  next
    case False
    then have "friendly_loop delta (ack_cnt, tcp_cwnd) = (ack_cnt, tcp_cwnd)"
      by (subst friendly_loop.simps) auto
    moreover have "(unat ack_cnt - 1) div unat delta = 0 \<and> (unat ack_cnt - 1) mod unat delta = unat ack_cnt - 1"
      if "delta \<noteq> 0" "ack_cnt \<noteq> 0"
    proof -
      have "unat ack_cnt \<le> unat delta" "0 < unat ack_cnt" using False that
        by (auto simp: word_le_nat_alt not_less unat_gt_0)
      then show ?thesis by simp
    qed
    moreover have "1 + of_nat (unat ack_cnt - 1) = ack_cnt" if "ack_cnt \<noteq> 0"
      using that by (simp add: of_nat_diff Suc_le_eq unat_gt_0)
    ultimately show ?thesis by auto
  qed
qed

section \<open>Acknowledgements of new data\<close>

text \<open>
  What an operation of CUBIC may do to a socket: it changes the congestion variables only, the
  window and the threshold stay below \<open>b\<close> segments above their old maximum, and a \<open>bic_K\<close> that
  is 0 stays 0.
\<close>

definition wnd_max :: "NETSIM_SOCKET \<Rightarrow> nat" where
  "wnd_max s = max (unat (cwnd (get_congestionvar s))) (unat (ssthresh (get_congestionvar s)))"

definition grown :: "nat \<Rightarrow> NETSIM_SOCKET \<Rightarrow> NETSIM_SOCKET \<Rightarrow> bool" where
  "grown b s s' \<longleftrightarrow> (\<exists>v. s' = on_cv (\<lambda>_. v) s \<and> SMSS v = SMSS (get_congestionvar s)
     \<and> wnd_max s' \<le> wnd_max s + b * unat (SMSS v)
     \<and> (cu_bic_K (cubic_of s) = 0 \<longrightarrow> cu_bic_K (cubic v) = 0))"

lemma on_cv_on_cv [simp]: "on_cv f (on_cv g s) = on_cv (f \<circ> g) s"
  by (simp add: on_cv_def on_tcb_def)

lemma on_cv_const: "on_cv f s = on_cv (\<lambda>_. f (get_congestionvar s)) s"
  by (simp add: on_cv_def on_tcb_def)

lemma on_cv_self [simp]: "on_cv (\<lambda>_. get_congestionvar s) s = s"
  by (simp add: on_cv_def on_tcb_def)

lemma on_cubic_on_cubic [simp]: "on_cubic f (on_cubic g s) = on_cubic (f \<circ> g) s"
  by (simp add: on_cubic_def o_def)

lemma grown_refl [simp]: "grown b s s"
  unfolding grown_def by (rule exI [of _ "get_congestionvar s"]) simp

lemma grown_trans: "grown a s t \<Longrightarrow> grown b t u \<Longrightarrow> grown (a + b) s u"
  unfolding grown_def
  by (fastforce simp: o_def algebra_simps)

lemma grown_on_cv:
  assumes "SMSS (f (get_congestionvar s)) = SMSS (get_congestionvar s)"
    and "unat (cwnd (f (get_congestionvar s))) \<le> wnd_max s + b * unat (SMSS (get_congestionvar s))"
    and "unat (ssthresh (f (get_congestionvar s))) \<le> wnd_max s + b * unat (SMSS (get_congestionvar s))"
    and "cu_bic_K (cubic_of s) = 0 \<Longrightarrow> cu_bic_K (cubic (f (get_congestionvar s))) = 0"
  shows "grown b s (on_cv f s)"
  unfolding grown_def using assms
  by (intro exI [of _ "f (get_congestionvar s)"]) (simp add: wnd_max_def on_cv_const [of f])

lemma grown_on_cubic:
  "(cu_bic_K (cubic_of s) = 0 \<Longrightarrow> cu_bic_K (f (cubic_of s)) = 0) \<Longrightarrow> grown 0 s (on_cubic f s)"
  unfolding on_cubic_def by (rule grown_on_cv) (simp_all add: wnd_max_def)

lemma unscaled [simp]:
  "\<not> isWindowScaling (tcb s) \<Longrightarrow> get_cwnd s = Some (ucast (cwnd (get_congestionvar s)))"
  "\<not> isWindowScaling (tcb s) \<Longrightarrow> get_ssthres s = Some (ucast (ssthresh (get_congestionvar s)))"
  "\<not> isWindowScaling (tcb s) \<Longrightarrow> set_ssthres n s = Some (on_cv (\<lambda>v. v\<lparr>ssthresh := ucast n\<rparr>) s)"
  "\<not> isWindowScaling (tcb s) \<Longrightarrow> cubic_set_cwnd n s = Some (on_cv (\<lambda>v. v\<lparr>cwnd := ucast n\<rparr>) s)"
  "\<not> isWindowScaling (tcb s) \<Longrightarrow>
     tcp_in_slow_start s = Some (cwnd (get_congestionvar s) \<le> ssthresh (get_congestionvar s))"
  by (simp_all add: get_cwnd_def get_ssthres_def set_ssthres_def cubic_set_cwnd_def
      tcp_in_slow_start_def word_le_nat_alt)

lemma seg_cwnd_unscaled:
  "\<not> isWindowScaling (tcb s) \<Longrightarrow> SMSS (get_congestionvar s) \<noteq> 0 \<Longrightarrow> \<exists>c. seg_cwnd s = Some c"
  by (simp add: seg_cwnd_def div32_def congestion_get_MSS_def flip: unat_eq_0)

lemma unat_increase: "unat (c + i :: u16) \<le> unat c + unat i"
  by (simp add: unat_word_ariths)

lemma cubic_increase_grown:
  assumes "\<not> isWindowScaling (tcb s)" and "unat i \<le> unat (SMSS (get_congestionvar s))"
  shows "\<exists>s'. cubic_increase_cwnd i s = Some s' \<and> grown 1 s s'"
proof -
  let ?c = "cwnd (get_congestionvar s)"
  let ?n = "if ucast ?c + ucast i \<ge> (65535 :: u32) then 65535 else ?c + i"
  have "unat ?n \<le> unat ?c + unat i"
  proof (cases "ucast ?c + ucast i \<ge> (65535 :: u32)")
    case True
    then have "65535 \<le> unat (ucast ?c + ucast i :: u32)" by (simp add: word_le_nat_alt)
    also have "\<dots> \<le> unat ?c + unat i" by (simp add: unat_word_ariths)
    finally show ?thesis using True by simp
  qed (simp add: unat_increase)
  with assms(2) have "unat ?n \<le> wnd_max s + 1 * unat (SMSS (get_congestionvar s))"
    by (simp add: wnd_max_def)
  then have "grown 1 s (on_cv (\<lambda>v. v\<lparr>cwnd := ?n\<rparr>) s)"
    by (intro grown_on_cv) (simp_all add: wnd_max_def)
  then show ?thesis
    using assms(1) by (simp add: cubic_increase_cwnd_def Let_def on_cv_const [of "\<lambda>v. v\<lparr>cwnd := _ v\<rparr>"])
qed

lemma grown_tcb:
  assumes "grown b s s'"
  shows "isWindowScaling (tcb s') = isWindowScaling (tcb s)"
    and "SMSS (get_congestionvar s') = SMSS (get_congestionvar s)"
    and "cubicStatics s' = cubicStatics s" and "SEG_ACK (tcb s') = SEG_ACK (tcb s)"
    and "SND_UNA (tcb s') = SND_UNA (tcb s)" and "posted s' = posted s"
    and "retransmissionQueue (tcb s') = retransmissionQueue (tcb s)"
  using assms by (auto simp: grown_def on_cv_def on_tcb_def)

lemma cubic_root_0 [simp]: "cubic_root 0 = Some 0"
  by (simp add: cubic_root_small cubic_root_v_def drop_bit_eq_div)

lemma cubictcp_update_grown:
  assumes "\<not> isWindowScaling (tcb s)" and "SMSS (get_congestionvar s) \<noteq> 0"
    and "cube_factor (cubicStatics s) = 0"
  shows "\<exists>s'. cubictcp_update E n s = Some s' \<and> grown 0 s s'"
proof -
  obtain c where c: "seg_cwnd s = Some c" using seg_cwnd_unscaled assms by blast
  have K: "cu_bic_K (cubic_cnt x c' ca) = cu_bic_K ca" "cu_bic_K (cubic_friendly y c' ca) = cu_bic_K ca"
    for x y c' ca
    by (simp_all add: cubic_cnt_def cubic_friendly_def Let_def split: prod.splits)
  have e: "\<exists>ca'. cubic_new_epoch 0 ts n c ca = Some ca' \<and> cu_bic_K ca' = 0" for ts ca
    by (simp add: cubic_new_epoch_def Let_def)
  show ?thesis
    using e [of "tcp_time_stamp E" "(cubic_of s)\<lparr>cu_ack_cnt := cu_ack_cnt (cubic_of s) + n,
      cu_last_cwnd := c, cu_last_time := tcp_time_stamp E\<rparr>"]
    by (auto simp: cubictcp_update_def c assms(3) Let_def K on_cubic_def intro!: grown_on_cv
        simp: wnd_max_def)
qed

lemma hystart_update_grown:
  assumes "\<not> isWindowScaling (tcb s)"
  shows "\<exists>s'. hystart_update E n s = Some s' \<and> grown 0 s s'"
proof -
  have d: "\<exists>s'. hystart_delay n s = Some s' \<and> grown 0 s s'" if "\<not> isWindowScaling (tcb s)" for s
    using that by (auto simp: hystart_delay_def Let_def on_cubic_def wnd_max_def intro!: grown_on_cv)
  have "\<exists>s'. hystart_ack_train E s = Some s' \<and> grown 0 s s'"
    using assms
    by (auto simp: hystart_ack_train_def Let_def on_cubic_def wnd_max_def intro!: grown_on_cv)
  then obtain t where t: "hystart_ack_train E s = Some t" "grown 0 s t" by blast
  moreover from d [of t] grown_tcb(1) [OF t(2)] assms obtain u
    where "hystart_delay n t = Some u" "grown 0 t u" by auto
  ultimately show ?thesis
    using grown_trans [of 0 s t 0 u] by (auto simp: hystart_update_def cubic_consts)
qed

lemma cubictcp_acked_grown:
  assumes "\<not> isWindowScaling (tcb s)" and "SMSS (get_congestionvar s) \<noteq> 0"
    and "tq_queue (retransmissionQueue (tcb s)) = Some cs"
  shows "\<exists>s'. cubictcp_acked E s = Some s' \<and> grown 0 s s'"
proof -
  obtain c where "seg_cwnd s = Some c" using seg_cwnd_unscaled assms by blast
  moreover obtain r where "get_RTT E (tcb s) (SEG_ACK (tcb s)) = Some r"
    using assms(3) by (simp add: get_RTT_def)
  ultimately show ?thesis
    using assms(1) hystart_update_grown [OF assms(1)] by (auto simp: cubictcp_acked_def Let_def)
qed

lemma cubictcp_cong_avoid_grown:
  assumes "\<not> isWindowScaling (tcb s)" and "SMSS (get_congestionvar s) \<noteq> 0"
    and "cube_factor (cubicStatics s) = 0"
  shows "\<exists>s'. cubictcp_cong_avoid E n s = Some s' \<and> grown 2 s s'"
proof -
  define r where "r = (if after (SEG_ACK (tcb s)) (cu_end_seq (cubic_of s))
    then cubictcp_hystart_reset E s else s)"
  have r: "grown 0 s r"
    by (auto simp: r_def cubictcp_hystart_reset_def intro: grown_on_cubic)
  obtain t where t: "cubic_slowStart r = Some t" "grown 1 r t"
    using cubic_increase_grown [of r "min (ackedBytes r) (SMSS (get_congestionvar r))"]
      grown_tcb(1) [OF r] assms(1)
    by (auto simp: cubic_slowStart_def simp flip: word_le_nat_alt)
  have rest: "\<exists>u. (do {
       b \<leftarrow> tcp_in_slow_start x;
       if \<not> b \<and> k > 0
       then do {
         let s = on_cubic (\<lambda>ca. ca\<lparr>cu_cwndcnt := cu_cwndcnt ca + k\<rparr>) x;
         s \<leftarrow> cubictcp_update E k s;
         if cu_cwndcnt (cubic_of s) > cu_cnt (cubic_of s)
         then do {
           s \<leftarrow> cubic_increase_cwnd (SMSS (get_congestionvar s)) s;
           Some (on_cubic (\<lambda>ca. ca\<lparr>cu_cwndcnt := 0\<rparr>) s) }
         else Some s }
       else Some x }) = Some u \<and> grown 1 x u" if x: "grown b s x" for b x k
  proof -
    let ?x = "on_cubic (\<lambda>ca. ca\<lparr>cu_cwndcnt := cu_cwndcnt ca + k\<rparr>) x"
    have x1: "grown 0 x ?x" by (rule grown_on_cubic) simp
    note f = grown_tcb [OF x] grown_tcb [OF x1]
    obtain y where y: "cubictcp_update E k ?x = Some y" "grown 0 ?x y"
      using cubictcp_update_grown [of ?x E k] f assms by auto
    obtain z where z: "cubic_increase_cwnd (SMSS (get_congestionvar y)) y = Some z" "grown 1 y z"
      using cubic_increase_grown [of y] grown_tcb(1) [OF y(2)] f assms(1) by auto
    have z1: "grown 0 z (on_cubic (\<lambda>ca. ca\<lparr>cu_cwndcnt := 0\<rparr>) z)" by (rule grown_on_cubic) simp
    have xy: "grown 0 x y" using grown_trans [OF x1 y(2)] by simp
    show ?thesis
      using f(1) assms(1) y z grown_trans [OF grown_trans [OF xy z(2)] z1] grown_trans [OF xy, of 1 y]
      by (auto simp: Let_def)
  qed
  show ?thesis
  proof (cases "cwnd (get_congestionvar s) \<le> ssthresh (get_congestionvar s)")
    case True
    have "grown 1 s t" using grown_trans [OF r t(2)] by simp
    with rest [of 1 t "n - 1"] True assms(1) t(1) r_def show ?thesis
      using grown_trans [of 1 s t 1] by (fastforce simp: cubictcp_cong_avoid_def Let_def numeral_2_eq_2)
  next
    case False
    with rest [of 0 s n] assms(1) show ?thesis
      using grown_trans [of 1 s _ 1] by (fastforce simp: cubictcp_cong_avoid_def Let_def numeral_2_eq_2)
  qed
qed

lemma two_to_40 [simp]: "(1099511627776 :: u32) = 0"
  unfolding unat_eq_0 [symmetric] by simp

lemma init_cubic_factor:
  assumes "init_cubic E s = Some s'"
  shows "cube_factor (cubicStatics s') = 0"
  using assms
  by (auto simp: init_cubic_def cubic_statics_def div32_def cubic_consts Let_def
      push_bit_eq_mult elim!: bind_SomeE split: if_splits)


definition demo_cubic :: NETSIM_SOCKET where
  "demo_cubic = on_tcb (\<lambda>t. t\<lparr>variant := TCPVariant_CUBIC, SEG_ACK := 2001,
     retransmissionQueue := demo_queue [demo_cell 1001 1000 False]\<rparr>) demo_socket"

lemma demo_init_cubic:
  "\<exists>s1. init_cubic demo_env demo_cubic = Some s1"
  by (simp add: init_cubic_def cubictcp_init_def cubic_statics_def demo_env_def demo_dev_var_def
      demo_cubic_def demo_socket_def demo_tcb_def zero_tcb_def double_to_int_def c_int_def c_quot_def
      div32_def cubic_consts cubictcp_hystart_reset_def on_cubic_def cubictcp_reset_def Let_def
      tcp_create_socket_def)


end
