(* ===== verification/Tcp_Keeps.thy ===== *)
theory Tcp_Keeps
  imports Tcp_Example
begin

text \<open>
  What the operations on a connection leave alone.  The core of a socket is its connection state,
  its two queues, its addresses, its device and whether it listens.  Most operations keep the core; the locale
  \<open>socket_invariant\<close> carries a property of the core through every operation that does not, and
  \<open>stateless_invariant\<close> through segment arrival and the timers.  The interpretations: the
  addresses never change (\<open>frame\<close>), the queues stay well formed (\<open>queues\<close>), and the send and
  receive paths change the connection state to FIN-WAIT-1 at most (\<open>state\<close>).
\<close>

section \<open>The core of a socket\<close>

text \<open>
  The part of a socket that most operations leave alone: the connection state, the two queues,
  and what tells whose socket it is: the addresses, the device, whether it listens.
\<close>

type_synonym socket_id_part = "SOCKETADDRESS option \<times> SOCKETADDRESS option \<times> NETSIM_ID \<times> bool"
type_synonym socket_core = "TCP_CONNECTION_STATE \<times> TCP_QUEUE \<times> TCP_QUEUE \<times> socket_id_part"

definition addrs :: "NETSIM_SOCKET \<Rightarrow> socket_id_part" where
  "addrs s = (localAddr s, remoteAddr s, localDeviceId s, listen_callback s)"

definition core :: "NETSIM_SOCKET \<Rightarrow> socket_core" where
  "core s = (tcp_state (tcb s), retransmissionQueue (tcb s), outOfOrderSegment (tcb s), addrs s)"

lemma addrs_simps [simp]:
  "addrs (on_tcb f s) = addrs s" "addrs (on_cv g s) = addrs s" "addrs (on_metrics h s) = addrs s"
  "addrs (s\<lparr>tcb := t\<rparr>) = addrs s" "addrs (s\<lparr>iface := i\<rparr>) = addrs s"
  "addrs (s\<lparr>waitFromApp := b\<rparr>) = addrs s" "addrs (s\<lparr>isAPPClose := b\<rparr>) = addrs s"
  "addrs (s\<lparr>cubicStatics := g'\<rparr>) = addrs s" "addrs (tcp_error s) = addrs s"
  "addrs (fnpAddTcpEvent e s) = addrs s" "addrs (send_to_network E p s) = addrs s"
  "addrs (post_to_application E p s) = addrs s" "addrs (snd (get_from_app E b s)) = addrs s"
  by (simp_all add: addrs_def tcp_upd_defs fnpAddTcpEvent_def send_to_network_def
      post_to_application_def get_from_app_def Let_def split: option.splits)

lemma tcb_keeps [simp]:
  "tcb (tcp_error s) = tcb s" "tcb (fnpAddTcpEvent e s) = tcb s"
  "tcb (snd (get_from_app E b s)) = tcb s"
  by (simp_all add: tcp_error_def fnpAddTcpEvent_def get_from_app_def Let_def)

lemma core_simps [simp]:
  "core (on_cv g s) = core s" "core (on_metrics h s) = core s" "core (s\<lparr>iface := i\<rparr>) = core s"
  "core (s\<lparr>waitFromApp := b\<rparr>) = core s" "core (s\<lparr>isAPPClose := b\<rparr>) = core s"
  "core (s\<lparr>cubicStatics := g'\<rparr>) = core s" "core (tcp_error s) = core s"
  "core (fnpAddTcpEvent e s) = core s" "core (send_to_network E p s) = core s"
  "core (post_to_application E p s) = core s" "core (snd (get_from_app E b s)) = core s"
  "core (on_cubic f s) = core s" "core (on_bic f' s) = core s"
  by (simp_all add: core_def on_cubic_def on_bic_def)

lemma core_on_tcb:
  "core (on_tcb f s) =
     (tcp_state (f (tcb s)), retransmissionQueue (f (tcb s)), outOfOrderSegment (f (tcb s)), addrs s)"
  by (simp add: core_def)

lemma core_on_tcb_same [simp]:
  assumes "tcp_state (f (tcb s)) = tcp_state (tcb s)"
    and "retransmissionQueue (f (tcb s)) = retransmissionQueue (tcb s)"
    and "outOfOrderSegment (f (tcb s)) = outOfOrderSegment (tcb s)"
  shows "core (on_tcb f s) = core s"
  using assms by (simp add: core_def)

lemma tcb_update_core [simp]:
  "tcp_state (set_timestamp_value h x t) = tcp_state t"
  "retransmissionQueue (set_timestamp_value h x t) = retransmissionQueue t"
  "outOfOrderSegment (set_timestamp_value h x t) = outOfOrderSegment t"
  "tcp_state (set_window_scaling w t) = tcp_state t"
  "retransmissionQueue (set_window_scaling w t) = retransmissionQueue t"
  "outOfOrderSegment (set_window_scaling w t) = outOfOrderSegment t"
  "retransmissionQueue (tcp_change_state st t) = retransmissionQueue t"
  "outOfOrderSegment (tcp_change_state st t) = outOfOrderSegment t"
  "tcp_state (tcp_change_state st t) = st"
  by (simp_all add: set_timestamp_value_def set_window_scaling_def tcp_change_state_def Let_def
      split: option.splits)

section \<open>Operations that leave the core alone\<close>

named_theorems tcp_calm \<open>operations that keep the core of a socket\<close>

lemma send_calm [tcp_calm]:
  "send_ack E n a s = Some s' \<Longrightarrow> core s' = core s"
  "send_fin_ack E n a s = Some s' \<Longrightarrow> core s' = core s"
  "send_rst E p c s = Some s' \<Longrightarrow> core s' = core s"
  "send_fin E s = Some s' \<Longrightarrow> core s' = core s"
  by (auto simp: send_ack_def send_fin_ack_def send_rst_def send_fin_def elim!: bind_SomeE)

lemma resend_without_timeout_calm [tcp_calm]:
  "resend_segment_without_timeout E n s = Some s' \<Longrightarrow> core s' = core s"
  by (auto simp: resend_segment_without_timeout_def set_rescueRxt_def set_highRxt_def Let_def
      elim!: bind_SomeE split: option.splits if_splits)

lemma sack_calm [tcp_calm]:
  "tcp_sack_setPipe s = Some s' \<Longrightarrow> core s' = core s"
  "tcp_sack_fastRetransmit s = Some s' \<Longrightarrow> core s' = core s"
  "tcp_sack_nextSeg E s = Some (n, s') \<Longrightarrow> core s' = core s"
  "update_scoreboard l r i s = Some s' \<Longrightarrow> core s' = core s"
  "check_segment_in_queue s = Some s' \<Longrightarrow> core s' = core s"
  by (auto simp: tcp_sack_setPipe_def tcp_sack_fastRetransmit_def tcp_sack_nextSeg_def
      next_seg_rest_def get_from_app_def set_recoveryPoint_def update_scoreboard_def
      check_segment_in_queue_def Let_def elim!: bind_SomeE split: option.splits if_splits)

lemma window_calm [tcp_calm]:
  "set_ssthres n s = Some s' \<Longrightarrow> core s' = core s"
  "set_cwnd n s = Some s' \<Longrightarrow> core s' = core s"
  "increase_cwnd i s = Some s' \<Longrightarrow> core s' = core s"
  "cubic_set_cwnd n s = Some s' \<Longrightarrow> core s' = core s"
  "cubic_increase_cwnd i s = Some s' \<Longrightarrow> core s' = core s"
  by (auto simp: set_ssthres_def set_cwnd_def increase_cwnd_def cubic_set_cwnd_def
      cubic_increase_cwnd_def Let_def elim!: bind_SomeE split: if_splits)

lemma congestion_set_MSS_calm [tcp_calm]: "congestion_set_MSS E m s = Some s' \<Longrightarrow> core s' = core s"
  by (auto simp: congestion_set_MSS_def congestion_set_IW_def Let_def elim!: bind_SomeE
      dest!: tcp_calm)

lemma init_calm [tcp_calm]:
  "init_congestion E s = Some s' \<Longrightarrow> core s' = core s"
  "init_cubic E s = Some s' \<Longrightarrow> core s' = core s"
  by (auto simp: init_congestion_def init_cubic_def cubictcp_init_def cubictcp_hystart_reset_def
      Let_def elim!: bind_SomeE split: if_splits dest!: tcp_calm)

lemma growth_calm [tcp_calm]:
  "window_growth E s = Some s' \<Longrightarrow> core s' = core s"
  "enter_recovery E s = Some s' \<Longrightarrow> core s' = core s"
  "FastRecovery s = Some s' \<Longrightarrow> core s' = core s"
  "newReno_FastRecovery E s = Some s' \<Longrightarrow> core s' = core s"
  "congestion_rto_timeout s = Some s' \<Longrightarrow> core s' = core s"
  by (auto simp: window_growth_def slowStart_def CongestionAvoidance_def enter_recovery_def
      FastRecovery_def newReno_FastRecovery_def congestion_rto_timeout_def Let_def
      elim!: bind_SomeE split: if_splits dest!: tcp_calm)

lemma bic_calm [tcp_calm]:
  "bictcp_cong_avoid E n s = Some s' \<Longrightarrow> core s' = core s"
  "bictcp_recalc_ssthresh s = Some (m, s') \<Longrightarrow> core s' = core s"
  "bictcp_acked s = Some s' \<Longrightarrow> core s' = core s"
  by (auto simp: bictcp_cong_avoid_def bictcp_update_def slowStart_def bictcp_recalc_ssthresh_def
      bictcp_acked_def Let_def elim!: bind_SomeE split: if_splits dest!: tcp_calm)

lemma cubic_calm [tcp_calm]:
  "cubictcp_recalc_ssthresh s = Some (m, s') \<Longrightarrow> core s' = core s"
  "cubictcp_update E n s = Some s' \<Longrightarrow> core s' = core s"
  "cubic_slowStart s = Some s' \<Longrightarrow> core s' = core s"
  "cubic_FastRecovery s = Some s' \<Longrightarrow> core s' = core s"
  "hystart_update E n s = Some s' \<Longrightarrow> core s' = core s"
  by (auto simp: cubictcp_recalc_ssthresh_def cubictcp_update_def cubic_slowStart_def
      cubic_FastRecovery_def hystart_update_def hystart_ack_train_def hystart_delay_def Let_def
      elim!: bind_SomeE split: if_splits dest!: tcp_calm)

lemma cubic_ack_calm [tcp_calm]:
  "cubictcp_acked E s = Some s' \<Longrightarrow> core s' = core s"
  "cubictcp_cong_avoid E n s = Some s' \<Longrightarrow> core s' = core s"
  by (auto simp: cubictcp_acked_def cubictcp_cong_avoid_def cubictcp_hystart_reset_def Let_def
      elim!: bind_SomeE split: if_splits dest!: tcp_calm)

lemma clear_blocks_calm [tcp_calm]: "clear_blocks k i s = Some s' \<Longrightarrow> core s' = core s"
  by (induction k arbitrary: i s) (auto elim!: bind_SomeE dest!: tcp_calm)

section \<open>What every operation keeps\<close>

text \<open>
  A property \<open>Q\<close> of the core that the queue operations and the move to FIN-WAIT-1 keep is kept
  by every operation on a connection.
\<close>

locale socket_invariant =
  fixes Q :: "socket_core \<Rightarrow> bool"
  assumes keep_add: "Q (st, R, W, a) \<Longrightarrow> add_packet_to_queue R p x = Some R' \<Longrightarrow> Q (st, R', W, a)"
    and keep_get: "Q (st, R, W, a) \<Longrightarrow> get_segment_from_queue R n = Some (r, R') \<Longrightarrow> Q (st, R', W, a)"
    and keep_delete: "Q (st, R, W, a) \<Longrightarrow> delete_segment_from_queue R n = Some R' \<Longrightarrow> Q (st, R', W, a)"
    and keep_mark: "Q (st, R, W, a) \<Longrightarrow> tq_queue R = Some cs \<Longrightarrow>
      Q (st, R\<lparr>tq_queue := Some (map (\<lambda>c. if f c then c\<lparr>qi_isSacked := True\<rparr> else c) cs)\<rparr>, W, a)"
    and keep_wait: "Q (st, R, W, a) \<Longrightarrow> add_packet_to_queue W p x = Some W' \<Longrightarrow> Q (st, R, W', a)"
    and keep_pop: "Q (st, R, W, a) \<Longrightarrow> tq_queue W = Some (c # cs) \<Longrightarrow>
      Q (st, R, W\<lparr>tq_size := tq_size W - cell_size c, tq_queue := Some cs\<rparr>, a)"
    and keep_close: "Q (st, R, W, a) \<Longrightarrow> Q (TCPCONNECTION_FIN_WAIT_1, R, W, a)"
begin

abbreviation kept :: "NETSIM_SOCKET \<Rightarrow> bool" where
  "kept s \<equiv> Q (core s)"

lemma add_timeout_event_kept: "add_timeout_event E p s = Some s' \<Longrightarrow> kept s \<Longrightarrow> kept s'"
  by (auto simp: add_timeout_event_def core_on_tcb Let_def elim!: bind_SomeE)
     (auto simp: core_def intro: keep_add)

lemma send_with_timeout_kept: "send_with_timeout E p s = Some s' \<Longrightarrow> kept s \<Longrightarrow> kept s'"
  by (auto simp: send_with_timeout_def dest!: add_timeout_event_kept)

lemma tcp_close_kept: "tcp_close E s = Some s' \<Longrightarrow> kept s \<Longrightarrow> kept s'"
  by (auto simp: tcp_close_def core_on_tcb elim!: bind_SomeE split: if_splits dest!: tcp_calm)
     (auto simp: core_def intro: keep_close)

lemma send_one_kept: "send_one E l s = Some s' \<Longrightarrow> kept s \<Longrightarrow> kept s'"
  by (auto simp: send_one_def get_from_app_def Let_def elim!: bind_SomeE split: if_splits
      dest!: send_with_timeout_kept)

lemma send_loop_kept:
  assumes "send_loop E n p s = Some s'" and "kept s"
  shows "kept s'"
proof -
  have "kept s \<longrightarrow> kept s'"
  proof (rule send_loop.raw_induct [where P = "\<lambda>E n p s s'. kept s \<longrightarrow> kept s'", OF _ assms(1)], goal_cases)
    case (1 f E n p s s')
    from 1(2) show ?case
      by (auto simp: Let_def elim!: bind_SomeE split: option.splits if_splits
          dest!: 1(1) [rule_format] send_one_kept)
  qed
  with assms(2) show ?thesis by blast
qed

lemma send_segment_kept: "send_segment E s = Some s' \<Longrightarrow> kept s \<Longrightarrow> kept s'"
  by (auto simp: send_segment_def get_from_app_def Let_def elim!: bind_SomeE split: if_splits
      dest!: send_loop_kept tcp_close_kept)

lemma resend_segment_kept: "resend_segment E p s = Some s' \<Longrightarrow> kept s \<Longrightarrow> kept s'"
proof -
  assume a: "resend_segment E p s = Some s'" and k: "kept s"
  then obtain r R where g: "get_segment_from_queue (retransmissionQueue (tcb s)) (SeqNum (tp_hdr p)) = Some (r, R)"
    by (auto simp: resend_segment_def elim!: bind_SomeE)
  then have "kept (on_tcb (\<lambda>t. t\<lparr>retransmissionQueue := R\<rparr>) s)"
    using k by (auto simp: core_on_tcb core_def intro: keep_get)
  with a g show ?thesis
    by (auto simp: resend_segment_def Let_def split: option.splits dest!: send_with_timeout_kept)
qed

lemma loss_loop_kept:
  assumes "loss_loop E w m pp s = Some s'" and "kept s"
  shows "kept s'"
proof -
  have "kept s \<longrightarrow> kept s'"
  proof (rule loss_loop.raw_induct [where P = "\<lambda>E w m pp s s'. kept s \<longrightarrow> kept s'", OF _ assms(1)], goal_cases)
    case (1 f E w m pp s s')
    from 1(2) show ?case
      by (auto simp: Let_def set_highRxt_def elim!: bind_SomeE split: if_splits
          dest!: 1(1) [rule_format] tcp_calm send_segment_kept)
  qed
  with assms(2) show ?thesis by blast
qed

lemma lossRecovery_kept: "tcp_sack_lossRecoveryPhase E s = Some (b, s') \<Longrightarrow> kept s \<Longrightarrow> kept s'"
  by (auto simp: tcp_sack_lossRecoveryPhase_def elim!: bind_SomeE split: if_splits
      dest!: loss_loop_kept tcp_calm)

lemma fast_retransmit_kept:
  "inflate_window E s = Some s' \<Longrightarrow> kept s \<Longrightarrow> kept s'"
  "FastRetransmit E s = Some s' \<Longrightarrow> kept s \<Longrightarrow> kept s'"
  "bictcp_fastretransmit E s = Some s' \<Longrightarrow> kept s \<Longrightarrow> kept s'"
  "cubictcp_fastretransmit E s = Some s' \<Longrightarrow> kept s \<Longrightarrow> kept s'"
  by (auto simp: FastRetransmit_def bictcp_fastretransmit_def cubictcp_fastretransmit_def
      inflate_window_def Let_def elim!: bind_SomeE split: if_splits
      dest!: lossRecovery_kept tcp_calm)

lemma ack_received_kept:
  assumes "ack_received E s = Some s'" and "kept s"
  shows "kept s'"
  using assms
  by (cases "variant (tcb s)")
     (auto simp: ack_received_def oldtahoe_ack_received_def tahoe_ack_received_def
       reno_ack_received_def newreno_ack_received_def bic_ack_received_def cubic_ack_received_def
       count_dup_def Let_def elim!: bind_SomeE split: if_splits
       dest!: fast_retransmit_kept tcp_calm)

lemma update_sack_flag_kept: "update_sack_flag l r s = Some s' \<Longrightarrow> kept s \<Longrightarrow> kept s'"
  by (auto simp: update_sack_flag_def core_on_tcb Let_def elim!: bind_SomeE)
     (auto simp: core_def intro: keep_mark)

lemma sack_blocks_kept: "sack_blocks i ds s = Some s' \<Longrightarrow> kept s \<Longrightarrow> kept s'"
  by (induction ds arbitrary: i s)
     (auto elim!: bind_SomeE dest!: update_sack_flag_kept tcp_calm)

lemma receive_sack_option_kept: "receive_sack_option h s = Some s' \<Longrightarrow> kept s \<Longrightarrow> kept s'"
  by (auto simp: receive_sack_option_def Let_def elim!: bind_SomeE split: if_splits option.splits
      dest!: sack_blocks_kept tcp_calm)

lemma kept_delete:
  assumes "delete_segment_from_queue (retransmissionQueue (tcb s)) n = Some R" and "kept s"
  shows "kept (on_tcb (\<lambda>t. t\<lparr>retransmissionQueue := R\<rparr>) s)"
  using assms by (auto simp: core_on_tcb core_def intro: keep_delete)

lemma accept_ack_kept: "accept_ack E s = Some s' \<Longrightarrow> kept s \<Longrightarrow> kept s'"
  by (auto simp: accept_ack_def core_on_tcb Let_def elim!: bind_SomeE split: prod.splits)
     (auto simp: core_def intro: keep_delete)

lemma process_ack_kept:
  "process_ack_in_establishedState E h s = Some (b, s') \<Longrightarrow> kept s \<Longrightarrow> kept s'"
  by (auto simp: process_ack_in_establishedState_def Let_def elim!: bind_SomeE split: if_splits
      dest!: receive_sack_option_kept ack_received_kept accept_ack_kept tcp_calm)

lemma ack_and_send_kept: "ack_and_send E h s = Some s' \<Longrightarrow> kept s \<Longrightarrow> kept s'"
  by (auto simp: ack_and_send_def elim!: bind_SomeE split: if_splits
      dest!: process_ack_kept send_segment_kept)

lemma check_segment_kept: "check_segment E p s = Some (b, s') \<Longrightarrow> kept s \<Longrightarrow> kept s'"
  by (auto simp: check_segment_def core_on_tcb Let_def elim!: bind_SomeE split: if_splits
      dest!: tcp_calm) (auto simp: core_def intro: keep_wait)

lemma check_for_other_kept:
  "check_for_other_segment_to_send_from_queue s = Some (r, s') \<Longrightarrow> kept s \<Longrightarrow> kept s'"
  by (auto simp: check_for_other_segment_to_send_from_queue_def core_on_tcb Let_def
      elim!: bind_SomeE split: list.splits if_splits)
     (auto simp: core_def intro: keep_pop)

lemma drain_loop_kept:
  assumes "drain_loop E s = Some s'" and "kept s"
  shows "kept s'"
proof -
  have "kept s \<longrightarrow> kept s'"
  proof (rule drain_loop.raw_induct [where P = "\<lambda>E s s'. kept s \<longrightarrow> kept s'", OF _ assms(1)], goal_cases)
    case (1 f E s s')
    from 1(2) show ?case
      by (auto elim!: bind_SomeE split: option.splits
          dest!: 1(1) [rule_format] check_for_other_kept)
  qed
  with assms(2) show ?thesis by blast
qed

lemma send_ack_or_not_core:
  "send_ack_or_not E (tcb s) = (b, t) \<Longrightarrow> core (s\<lparr>tcb := t\<rparr>) = core s"
  by (auto simp: send_ack_or_not_def core_def split: if_splits)

lemma process_segment_text_kept: "process_segment_text E p s = Some (b, s') \<Longrightarrow> kept s \<Longrightarrow> kept s'"
  by (auto simp: process_segment_text_def send_to_application_def Let_def elim!: bind_SomeE
      split: if_splits prod.splits
      dest!: check_segment_kept drain_loop_kept send_ack_or_not_core tcp_calm)

end

section \<open>Operations that change the state\<close>

lemma start_timewait_timer_calm [simp]: "core (start_timewait_timer E s) = core s"
  by (simp add: start_timewait_timer_def)

text \<open>A property of the core that does not depend on the connection state.\<close>

locale stateless_invariant = socket_invariant +
  assumes keep_state: "Q (st, R, W, a) \<Longrightarrow> Q (st', R, W, a)"
begin

lemma kept_on_tcb [simp]:
  assumes "retransmissionQueue (f (tcb s)) = retransmissionQueue (tcb s)"
    and "outOfOrderSegment (f (tcb s)) = outOfOrderSegment (tcb s)"
  shows "kept (on_tcb f s) = kept s"
  using assms by (auto simp: core_on_tcb) (auto simp: core_def intro: keep_state)

lemma kept_on_tcb_queue [intro]:
  assumes "kept s"
    and "delete_segment_from_queue (retransmissionQueue (tcb s)) n = Some R
      \<or> get_segment_from_queue (retransmissionQueue (tcb s)) n = Some (q, R)"
    and "retransmissionQueue (f (tcb s)) = R" and "outOfOrderSegment (f (tcb s)) = outOfOrderSegment (tcb s)"
  shows "kept (on_tcb f s)"
proof -
  have "Q (tcp_state (tcb s), R, outOfOrderSegment (tcb s), addrs s)"
    using assms(1,2) by (auto simp: core_def intro: keep_delete keep_get)
  then show ?thesis using assms(3,4) by (auto simp: core_on_tcb intro: keep_state)
qed

lemma close_kept:
  "delete_tcb s = Some r \<Longrightarrow> kept s \<Longrightarrow> kept (sock_of r)"
  "tcp_close_socket d s = Some r \<Longrightarrow> kept s \<Longrightarrow> kept (sock_of r)"
  by (auto simp: delete_tcb_def tcp_close_socket_def Let_def elim!: bind_SomeE)

lemma process_fin_packet_kept: "process_fin_packet E s = Some s' \<Longrightarrow> kept s \<Longrightarrow> kept s'"
proof -
  have *: "core (on_tcb (\<lambda>t. tcp_change_state st t\<lparr>isOtherTimerCancel := b\<rparr>) u)
    = core (on_tcb (tcp_change_state st) u)" for st b u by (simp add: core_on_tcb)
  assume "process_fin_packet E s = Some s'" and "kept s"
  then show ?thesis
    by (cases "tcp_state (tcb s)")
       (auto simp: process_fin_packet_def Let_def * elim!: bind_SomeE dest!: tcp_calm)
qed

lemma process_ack_packet_kept: "process_ack_packet E p s = Some r \<Longrightarrow> kept s \<Longrightarrow> kept (sock_of r)"
  by (cases "tcp_state (tcb s)")
     (auto simp: process_ack_packet_def Let_def elim!: bind_SomeE split: if_splits
       dest!: ack_and_send_kept close_kept tcp_calm)

lemma process_syn_packet_kept: "process_syn_packet s = Some r \<Longrightarrow> kept s \<Longrightarrow> kept (sock_of r)"
  by (cases "tcp_state (tcb s)") (auto simp: process_syn_packet_def dest!: close_kept)

text \<open>
  A reset in SYN-RECEIVED empties the retransmission queue in a way that not every property
  survives.
\<close>

definition clears :: bool where
  "clears \<longleftrightarrow> (\<forall>st R W a R'. Q (st, R, W, a) \<longrightarrow> delete_all_segment_from_queue R = Some R' \<longrightarrow> Q (st, R', W, a))"

lemma process_rst_packet_kept:
  assumes "process_rst_packet s = Some r" and "kept s"
    and "tcp_state (tcb s) = TCPCONNECTION_SYN_RECEIVED \<Longrightarrow> clears"
  shows "kept (sock_of r)"
proof (cases "tcp_state (tcb s) = TCPCONNECTION_SYN_RECEIVED")
  case True
  then obtain R where R: "delete_all_segment_from_queue (retransmissionQueue (tcb s)) = Some R"
    using assms(1) by (auto simp: process_rst_packet_def elim!: bind_SomeE)
  have "kept (on_tcb (\<lambda>t. t\<lparr>retransmissionQueue := R\<rparr>) s)"
    using assms(2) assms(3) [OF True, unfolded clears_def, rule_format, OF _ R]
    by (simp add: core_on_tcb, simp add: core_def)
  with assms(1) True R show ?thesis
    by (auto simp: process_rst_packet_def Let_def core_on_tcb split: if_splits dest!: close_kept
        intro: keep_state)
next
  case False
  with assms(1,2) show ?thesis
    by (cases "tcp_state (tcb s)") (auto simp: process_rst_packet_def dest!: close_kept)
qed

abbreviation resettable :: "TCP_PACKET \<Rightarrow> NETSIM_SOCKET \<Rightarrow> bool" where
  "resettable p s \<equiv> Rst (TCP_GET_SEGMENT_HDR p) \<and> tcp_state (tcb s) = TCPCONNECTION_SYN_RECEIVED \<longrightarrow> clears"

lemma incoming_kept:
  assumes "packet_arrives_at_incoming_tcp E p s = Some r" and "kept s" and "resettable p s"
  shows "kept (sock_of r)"
  using assms
  by (auto simp: packet_arrives_at_incoming_tcp_def Let_def elim!: bind_SomeE split: if_splits
      dest!: process_syn_packet_kept process_ack_packet_kept
        process_segment_text_kept process_fin_packet_kept tcp_calm intro: process_rst_packet_kept)

lemma synsent_kept: "packet_arrives_at_synsent_state E p s = Some s' \<Longrightarrow> kept s \<Longrightarrow> kept s'"
  by (auto simp: packet_arrives_at_synsent_state_def synsent_established_def Let_def
      elim!: bind_SomeE split: if_splits option.splits
      dest!: kept_delete send_segment_kept tcp_calm) (auto simp: core_on_tcb intro: keep_state)

lemma listen_kept:
  "packet_arrives_at_listen_state E i p s = Some (s', n) \<Longrightarrow> kept s \<Longrightarrow> kept s'"
  by (auto simp: packet_arrives_at_listen_state_def process_syn_def Let_def split: if_splits
      dest!: tcp_calm)

lemma arrive_kept:
  assumes "packet_arrive_from_network_layer E i p (Live s) = Some (r, n)" and "kept s"
    and "resettable p s"
  shows "kept (sock_of r)"
proof -
  let ?u = "update_seq_num_on_receiving s p"
  have c: "core ?u = core s" by (simp add: update_seq_num_on_receiving_def Let_def)
  then have st: "tcp_state (tcb ?u) = tcp_state (tcb s)" by (simp add: core_def)
  have "kept ?u" using c assms(2) by simp
  with assms(1,3) st show ?thesis
    by (cases "tcp_state (tcb s)")
       (auto simp: packet_arrive_from_network_layer_def packet_arrive_at_closed_state_def Let_def
         split: if_splits dest!: listen_kept synsent_kept incoming_kept tcp_calm)
qed

lemma resend_syn_kept: "resend_syn E p s = Some r \<Longrightarrow> kept s \<Longrightarrow> kept (sock_of r)"
proof -
  assume a: "resend_syn E p s = Some r" and k: "kept s"
  then obtain q R where g: "get_segment_from_queue (retransmissionQueue (tcb s)) (SeqNum (tp_hdr p)) = Some (q, R)"
    by (auto simp: resend_syn_def elim!: bind_SomeE)
  then have "kept (on_tcb (\<lambda>t. t\<lparr>retransmissionQueue := R\<rparr>) s)"
    using k by (auto simp: core_on_tcb core_def intro: keep_get)
  with a g show ?thesis
    by (auto simp: resend_syn_def Let_def elim!: bind_SomeE split: if_splits
        dest!: send_with_timeout_kept close_kept) (auto simp: core_on_tcb intro: keep_state)
qed

lemma rto_timer_kept: "handle_rto_timer E p (Live s) = Some r \<Longrightarrow> kept s \<Longrightarrow> kept (sock_of r)"
  by (auto simp: handle_rto_timer_def handle_rto_timer_for_ctrl_def Let_def elim!: bind_SomeE
      split: if_splits dest!: resend_syn_kept resend_segment_kept tcp_calm)

lemma send_syn_kept: "send_syn E s = Some s' \<Longrightarrow> kept s \<Longrightarrow> kept s'"
  by (auto simp: send_syn_def Let_def elim!: bind_SomeE dest!: send_with_timeout_kept)

lemma rcv_SYN_kept: "rcv_SYN E p s = Some s' \<Longrightarrow> kept s \<Longrightarrow> kept s'"
  by (auto simp: rcv_SYN_def Let_def elim!: bind_SomeE split: option.splits if_splits
      dest!: send_with_timeout_kept tcp_calm)

lemma time_wait_kept: "handle_time_wait_timeout (Live s) = Some r \<Longrightarrow> kept s \<Longrightarrow> kept (sock_of r)"
  by (auto simp: handle_time_wait_timeout_def split: if_splits dest!: close_kept)

end

text \<open>A new control block starts with empty queues.\<close>

lemma init_congestionalgo_calm [tcp_calm]:
  "init_congestionalgo E s = Some s' \<Longrightarrow> core s' = core s"
  "set_tcp_variant E tcp s = Some s' \<Longrightarrow> core s' = core s"
  by (auto simp: init_congestionalgo_def set_tcp_variant_def congestion_setcallback_def
      split: if_splits dest!: init_calm)

lemma zero_tcb_core [simp]: "core (s\<lparr>tcb := zero_tcb\<rparr>) = (TCPCONNECTION_CLOSED, zero_queue, zero_queue, addrs s)"
  by (simp add: core_def zero_tcb_def)

lemma create_TCB_core:
  assumes "create_TCB E s = Some s'"
  shows "core s' = (TCPCONNECTION_CLOSED, zero_queue, zero_queue, addrs s)"
proof -
  obtain tcp s1 where s1: "set_tcp_variant E tcp (s\<lparr>tcb := zero_tcb\<rparr>) = Some s1"
    and "GET_TCP_DEV_VAR E (localDeviceId s) = Some tcp"
    using assms by (auto simp: create_TCB_def elim!: bind_SomeE)
  with assms have "core s' = (TCPCONNECTION_CLOSED, retransmissionQueue (tcb s1),
      outOfOrderSegment (tcb s1), addrs s1)"
    by (auto simp: create_TCB_def set_timestamp_option_def set_window_scaling_option_def
        setSackPermitted_def set_ack_type_def core_on_tcb Let_def
        elim!: bind_SomeE split: prod.splits dest!: init_congestionalgo_calm(1))
  moreover have "core s1 = (TCPCONNECTION_CLOSED, zero_queue, zero_queue, addrs s)"
    using s1 by (auto dest!: init_congestionalgo_calm(2))
  ultimately show ?thesis by (simp add: core_def)
qed

section \<open>Interpretations\<close>

interpretation frame: stateless_invariant "\<lambda>(st, R, W, a). a = a0" for a0
  by unfold_locales auto

interpretation queues: stateless_invariant "\<lambda>(st, R, W, a). queue_ok R \<and> queue_ok W"
proof (unfold_locales, goal_cases)
  case (1 st R W a p x R')
  then show ?case using add_packet_to_queue_total [of R p x] by auto
next
  case (2 st R W a n r R')
  then show ?case by (auto elim: get_segment_from_queue_ok [where n = n])
next
  case (3 st R W a n R')
  then show ?case using delete_segment_from_queue_ok [of R n] by auto
next
  case (4 st R W a cs f)
  have "cell_seq \<circ> (\<lambda>c. if f c then c\<lparr>qi_isSacked := True\<rparr> else c) = cell_seq"
    and "cell_size \<circ> (\<lambda>c. if f c then c\<lparr>qi_isSacked := True\<rparr> else c) = cell_size"
    by (auto simp: fun_eq_iff cell_seq_def cell_size_def)
  with 4 show ?case by (auto simp: queue_ok_def)
next
  case (5 st R W a p x W')
  then show ?case using add_packet_to_queue_total [of W p x] by auto
next
  case (6 st R W a c cs)
  then show ?case by (auto simp: queue_ok_def)
qed auto

interpretation state: socket_invariant "\<lambda>(st, R, W, a). st = st0 \<or> st = TCPCONNECTION_FIN_WAIT_1" for st0
  by unfold_locales auto

end
