(* ===== verification/Tcp_States.thy ===== *)
theory Tcp_States
  imports Tcp_Keeps
begin

text \<open>
The connection state over a whole segment arrival (\<open>TCP_NetworkInterface.c\<close>,
  \<open>TCP_Incoming.c\<close>, \<open>TCP_Connection.c\<close>): how a connection becomes established, and what a reset
  leaves behind in a half-open one.
\<close>

section \<open>What the operations do to the connection state\<close>

text \<open>
  The state stays as it is, or the application has closed and \<open>tcp_close\<close> moves the connection
  to FIN-WAIT-1.
\<close>

definition quiet :: "NETSIM_SOCKET \<Rightarrow> NETSIM_SOCKET \<Rightarrow> bool" where
  "quiet s s' \<longleftrightarrow> tcp_state (tcb s') = tcp_state (tcb s)
     \<or> tcp_state (tcb s') = TCPCONNECTION_FIN_WAIT_1"

lemma quiet_core: "core s' = core s \<Longrightarrow> quiet s s'"
  by (simp add: quiet_def core_def)

text \<open>What an operation keeps of the core, read off for the connection state.\<close>

lemma quiet_kept:
  "(case core s' of (st, R, W, a) \<Rightarrow> st = tcp_state (tcb s) \<or> st = TCPCONNECTION_FIN_WAIT_1) \<Longrightarrow> quiet s s'"
  by (simp add: quiet_def core_def)

lemma kept_self: "case core s of (st, R, W, a) \<Rightarrow> st = tcp_state (tcb s) \<or> st = TCPCONNECTION_FIN_WAIT_1"
  by (simp add: core_def)

named_theorems tcp_quiet \<open>what an operation does to the connection state\<close>

lemma send_quiet [tcp_quiet]:
  "send_ack E n a s = Some s' \<Longrightarrow> quiet s s'"
  "send_fin_ack E n a s = Some s' \<Longrightarrow> quiet s s'"
  "send_rst E p c s = Some s' \<Longrightarrow> quiet s s'"
  "send_fin E s = Some s' \<Longrightarrow> quiet s s'"
  by (auto dest!: tcp_calm intro: quiet_core)

lemma ack_and_send_quiet [tcp_quiet]: "ack_and_send E h s = Some s' \<Longrightarrow> quiet s s'"
  by (rule quiet_kept, erule state.ack_and_send_kept, rule kept_self)

lemma process_segment_text_quiet [tcp_quiet]:
  "process_segment_text E p s = Some (b, s') \<Longrightarrow> quiet s s'"
  by (rule quiet_kept, erule state.process_segment_text_kept, rule kept_self)

section \<open>The handshake\<close>

text \<open>The state a handler leaves is ESTABLISHED only if the state it met was.\<close>

lemma quiet_established:
  "quiet s s' \<Longrightarrow> tcp_state (tcb s') = TCPCONNECTION_ESTABLISHED \<Longrightarrow>
     tcp_state (tcb s) = TCPCONNECTION_ESTABLISHED"
  by (auto simp: quiet_def)

lemma process_fin_established:
  "process_fin_packet E s = Some s' \<Longrightarrow> tcp_state (tcb s') = TCPCONNECTION_ESTABLISHED \<Longrightarrow> False"
  if "tcp_state (tcb s) \<noteq> TCPCONNECTION_ESTABLISHED"
  using that
  by (auto simp: process_fin_packet_def start_timewait_timer_def fnpAddTcpEvent_def Let_def
      elim!: bind_SomeE split: TCP_CONNECTION_STATE.splits dest!: tcp_quiet quiet_established)

lemma process_ack_established:
  assumes "process_ack_packet E p s = Some (Live s')"
    and "tcp_state (tcb s') = TCPCONNECTION_ESTABLISHED"
    and "tcp_state (tcb s) \<noteq> TCPCONNECTION_ESTABLISHED"
  shows "tcp_state (tcb s) = TCPCONNECTION_SYN_RECEIVED \<and> SND_UNA (tcb s) \<le> SEG_ACK (tcb s)
    \<and> SEG_ACK (tcb s) \<le> SND_NXT (tcb s)"
  using assms
  by (cases "tcp_state (tcb s)")
     (auto simp: process_ack_packet_def start_timewait_timer_def fnpAddTcpEvent_def delete_tcb_def
       tcp_error_def Let_def elim!: bind_SomeE split: if_splits
       dest!: tcp_quiet quiet_established)

lemma process_rst_syn_established:
  "process_rst_packet s = Some (Live s') \<or> process_syn_packet s = Some (Live s') \<Longrightarrow>
     tcp_state (tcb s') = TCPCONNECTION_ESTABLISHED \<Longrightarrow> False"
  by (cases "tcp_state (tcb s)")
     (auto simp: process_rst_packet_def process_syn_packet_def tcp_close_socket_def Let_def
       elim!: bind_SomeE split: if_splits)

lemma incoming_established:
  assumes "packet_arrives_at_incoming_tcp E p s = Some (Live s')"
    and "tcp_state (tcb s') = TCPCONNECTION_ESTABLISHED"
    and "tcp_state (tcb s) \<noteq> TCPCONNECTION_ESTABLISHED"
  shows "tcp_state (tcb s) = TCPCONNECTION_SYN_RECEIVED \<and> SND_UNA (tcb s) \<le> SEG_ACK (tcb s)
    \<and> SEG_ACK (tcb s) \<le> SND_NXT (tcb s) \<and> Ack (tp_hdr p) \<and> \<not> Syn (tp_hdr p) \<and> \<not> Rst (tp_hdr p)"
proof -
  have seg: False if "process_segment_text E p s = Some (b, u)"
    "(if b \<and> Fin (tp_hdr p) then process_fin_packet E u else Some u) = Some s'" for b u
  proof -
    have "tcp_state (tcb u) \<noteq> TCPCONNECTION_ESTABLISHED"
      using assms(3) that(1) process_segment_text_quiet quiet_established by blast
    with that(2) assms(2) process_fin_established show False by (auto split: if_splits)
  qed
  show ?thesis
    using assms process_rst_syn_established [of s s']
    by (auto simp: packet_arrives_at_incoming_tcp_def Let_def elim!: bind_SomeE split: if_splits
        dest!: send_quiet quiet_established process_ack_established
        dest: seg)
qed

lemma update_seq_tcb:
  "tcb (update_seq_num_on_receiving s p) = (tcb s)\<lparr>SEG_ACK := AckNum (tp_hdr p),
     SEG_LEN := get_seg_len p, SEG_SEQ := SeqNum (tp_hdr p), SEG_WND := ucast (Window (tp_hdr p))\<rparr>"
  by (simp add: update_seq_num_on_receiving_def Let_def)

lemma synsent_state_established:
  assumes "packet_arrives_at_synsent_state E p s = Some s'"
    and "tcp_state (tcb s') = TCPCONNECTION_ESTABLISHED"
    and "tcp_state (tcb s) = TCPCONNECTION_SYN_SENT"
  shows "Syn (tp_hdr p) \<and> Ack (tp_hdr p) \<and> ISS (tcb s) < SEG_ACK (tcb s)
    \<and> SEG_ACK (tcb s) \<le> SND_NXT (tcb s)"
  using assms
  by (auto simp: packet_arrives_at_synsent_state_def Let_def split: if_splits
      dest!: send_quiet quiet_established)


definition demo_half_open :: NETSIM_SOCKET where
  "demo_half_open = on_tcb (\<lambda>t. t\<lparr>tcp_state := TCPCONNECTION_SYN_RECEIVED,
     tcp_prev_state := TCPCONNECTION_LISTEN,
     retransmissionQueue := demo_queue [demo_cell 1001 1 False]\<rparr>) demo_socket"

definition demo_ack :: TCP_PACKET where
  "demo_ack = (demo_segment 1 0)\<lparr>tp_hdr := (demo_hdr 1)\<lparr>Ack := True, AckNum := 1001\<rparr>\<rparr>"

lemma demo_half_open_step:
  "\<exists>s'. packet_arrive_from_network_layer demo_env 2 demo_ack (Live demo_half_open)
     = Some (Live s', None) \<and> tcp_state (tcb s') = TCPCONNECTION_ESTABLISHED"
  by (simp add: packet_arrive_from_network_layer_def update_seq_num_on_receiving_def
      packet_arrives_at_incoming_tcp_def demo_half_open_def demo_socket_def demo_tcb_def zero_tcb_def
      demo_ack_def demo_hdr_def zero_hdr_def get_seg_len_def demo_segment_def Validate_segment_def
      process_ack_packet_def ack_and_send_def process_ack_in_establishedState_def
      receive_sack_option_def ack_received_def reno_ack_received_def isDupAck_def count_dup_def
      early_loss_def demo_cv_def zero_congestionvar_def TCP_DupThresh_def tcp_change_state_def Let_def)


section \<open>A reset of a half-open connection\<close>

text \<open>a reset that reaches a passively opened connection in SYN-RECEIVED frees the cells of
  the retransmission queue and leaves the head pointer on them; the timer of the SYN-ACK, which
  is still pending, then reads freed memory.\<close>

theorem reset_leaves_freed_queue:
  assumes "tcp_state (tcb s) = TCPCONNECTION_SYN_RECEIVED"
    and "tcp_prev_state (tcb s) = TCPCONNECTION_LISTEN"
    and "tq_queue (retransmissionQueue (tcb s)) = Some (c # cs)"
    and "\<not> isOtherTimerCancel (tcb s)"
  shows "\<exists>s'. process_rst_packet s = Some (Live s') \<and> tcp_state (tcb s') = TCPCONNECTION_LISTEN
    \<and> handle_rto_timer E (qi_packet c) (Live s') = None"
  using assms
  by (simp add: process_rst_packet_def delete_all_segment_from_queue_def free_queue_def
      handle_rto_timer_def isSegmentInQueue_def tcp_change_state_def)

theorem reset_leaves_freed_queue_witness:
  "\<exists>s'. process_rst_packet demo_half_open = Some (Live s')
    \<and> handle_rto_timer demo_env (demo_segment 1001 1) (Live s') = None"
proof -
  have "tcp_state (tcb demo_half_open) = TCPCONNECTION_SYN_RECEIVED"
    "tcp_prev_state (tcb demo_half_open) = TCPCONNECTION_LISTEN"
    "tq_queue (retransmissionQueue (tcb demo_half_open)) = Some [demo_cell 1001 1 False]"
    "\<not> isOtherTimerCancel (tcb demo_half_open)"
    by (simp_all add: demo_half_open_def demo_socket_def demo_tcb_def zero_tcb_def)
  from reset_leaves_freed_queue [OF this, of demo_env] show ?thesis by auto
qed

end
