(* ===== verification/Tcp_World.thy ===== *)
theory Tcp_World
  imports Tcp_Incoming Netsim_IP
begin

text \<open>
  The sockets of all devices (\<open>TCP/TCP_Socket.c\<close>), the interface to the application layer
  (\<open>TCP/TCP_ApplicationInterface.c\<close>) and the entry points of the library (\<open>TCP/TCP.c\<close>).

  A socket pointer is a number; \<open>tw_heap\<close> says what it leads to.  A call on one socket takes the
  shared state into the socket's own fields (\<open>checkout\<close>) and puts it back afterwards (\<open>settle\<close>).
\<close>

section \<open>The state\<close>

text \<open>What \<open>szOtherDetails\<close> of an event points to.\<close>

datatype SZ_OTHER = NoDetails | OfInterface nat | OfSocket nat

record TCP_WORLD =
  tw_heap :: "nat \<Rightarrow> SOCKET_REF option"
  tw_next :: nat
  tw_socket_list :: "NETSIM_ID \<Rightarrow> nat list"
  tw_socket_id :: u32
  tw_interfaces :: "nat \<Rightarrow> TCP_PACKET list"
  tw_cubic :: CUBIC_STATICS
  tw_events :: "(SZ_OTHER \<times> TCP_EVENT) list"
  tw_errors :: nat
  tw_anySocketAddr :: "SOCKETADDRESS option"

definition world_error :: "TCP_WORLD \<Rightarrow> TCP_WORLD" where
  "world_error w = w\<lparr>tw_errors := Suc (tw_errors w)\<rparr>"

text \<open>Following a pointer: freed memory has no contents.\<close>

definition deref :: "TCP_WORLD \<Rightarrow> nat \<Rightarrow> NETSIM_SOCKET option" where
  "deref w h = (case tw_heap w h of
       Some (Live s) \<Rightarrow> Some s
     | Some (NoTcb s) \<Rightarrow> Some s
     | _ \<Rightarrow> None)"

section \<open>The list of sockets\<close>

definition compare_socketaddr :: "SOCKETADDRESS \<Rightarrow> SOCKETADDRESS \<Rightarrow> bool" where
  "compare_socketaddr sa1 sa2 \<longleftrightarrow>
     IP_COMPARE (sa_ip sa1) (sa_ip sa2) = 0 \<and> sa_port sa1 = sa_port sa2"

text \<open>One half of \<open>compare_socket\<close>: two addresses that are both null are equal.\<close>

fun compare_addr :: "SOCKETADDRESS option \<Rightarrow> SOCKETADDRESS option \<Rightarrow> bool" where
  "compare_addr (Some a) (Some b) = compare_socketaddr a b"
| "compare_addr None None = True"
| "compare_addr _ _ = False"

definition compare_socket :: "NETSIM_SOCKET \<Rightarrow> NETSIM_SOCKET \<Rightarrow> bool" where
  "compare_socket s1 s2 \<longleftrightarrow> compare_addr (localAddr s1) (localAddr s2)
     \<and> compare_addr (remoteAddr s1) (remoteAddr s2)"

text \<open>The walk over the list; \<open>None\<close> outside is a freed socket in it, \<open>None\<close> inside the end.\<close>

fun find_socket_walk :: "TCP_WORLD \<Rightarrow> NETSIM_SOCKET \<Rightarrow> nat list \<Rightarrow> nat option option" where
  "find_socket_walk w s [] = Some None"
| "find_socket_walk w s (h # hs) = do {
     x \<leftarrow> deref w h;
     if compare_socket x s then Some (Some h) else find_socket_walk w s hs }"

definition find_socket_list ::
  "TCP_ENV \<Rightarrow> NETSIM_ID \<Rightarrow> NETSIM_SOCKET \<Rightarrow> TCP_WORLD \<Rightarrow> nat option option" where
  "find_socket_list E devid s w = do {
     _ \<leftarrow> GET_TCP_DEV_VAR E devid;
     find_socket_walk w s (tw_socket_list w devid) }"

definition add_to_socket_list :: "TCP_ENV \<Rightarrow> NETSIM_ID \<Rightarrow> nat \<Rightarrow> TCP_WORLD \<Rightarrow> TCP_WORLD option" where
  "add_to_socket_list E devId h w = do {
     s \<leftarrow> deref w h;
     sl \<leftarrow> find_socket_list E devId s w;
     Some (if sl = None
           then w\<lparr>tw_socket_list := (tw_socket_list w)(devId := tw_socket_list w devId @ [h])\<rparr>
           else w) }"

definition remove_from_socket_list ::
  "TCP_ENV \<Rightarrow> NETSIM_ID \<Rightarrow> nat \<Rightarrow> TCP_WORLD \<Rightarrow> TCP_WORLD option" where
  "remove_from_socket_list E devId h w = do {
     s \<leftarrow> deref w h;
     sl \<leftarrow> find_socket_list E devId s w;
     Some (case sl of
             Some h' \<Rightarrow> w\<lparr>tw_socket_list := (tw_socket_list w)
                          (devId := remove1 h' (tw_socket_list w devId))\<rparr>
           | None \<Rightarrow> w) }"

text \<open>
  The socket on the stack that the searches compare with; its other members are not read.
\<close>

definition tcp_create_socket_key :: "SOCKETADDRESS \<Rightarrow> SOCKETADDRESS \<Rightarrow> NETSIM_SOCKET" where
  "tcp_create_socket_key l r = (tcp_create_socket 0)\<lparr>localAddr := Some l, remoteAddr := Some r\<rparr>"

definition find_socket ::
  "TCP_ENV \<Rightarrow> NETSIM_ID \<Rightarrow> NETSIM_IPAddress \<Rightarrow> NETSIM_IPAddress \<Rightarrow> u16 \<Rightarrow> u16 \<Rightarrow> TCP_WORLD
     \<Rightarrow> nat option option" where
  "find_socket E devId srcIP destIP srcPort destPort w =
     find_socket_list E devId
       (tcp_create_socket_key \<lparr>sa_ip = srcIP, sa_port = srcPort\<rparr> \<lparr>sa_ip = destIP, sa_port = destPort\<rparr>) w"

definition get_Remotesocket ::
  "TCP_ENV \<Rightarrow> NETSIM_ID \<Rightarrow> SOCKETADDRESS option \<Rightarrow> TCP_WORLD \<Rightarrow> nat option option" where
  "get_Remotesocket E d addr w =
     find_socket_list E d ((tcp_create_socket 0)\<lparr>
       localAddr := Some \<lparr>sa_ip = DEVICE_NWADDRESS E d 1, sa_port = 0\<rparr>, remoteAddr := addr\<rparr>) w"

definition find_socket_at_source :: "TCP_ENV \<Rightarrow> TCP_PACKET \<Rightarrow> TCP_WORLD \<Rightarrow> nat option option" where
  "find_socket_at_source E p w =
     find_socket E (tp_nSourceId p) (tp_szSourceIP p) (tp_szDestIP p) (tp_nSourcePort p)
       (tp_nDestinationPort p) w"

definition find_socket_at_dest :: "TCP_ENV \<Rightarrow> TCP_PACKET \<Rightarrow> TCP_WORLD \<Rightarrow> nat option option" where
  "find_socket_at_dest E p w = do {
     s \<leftarrow> find_socket E (get_first_dest_from_packet E p) (tp_szDestIP p) (tp_szSourceIP p)
            (tp_nDestinationPort p) (tp_nSourcePort p) w;
     if s = None \<and> isSynPacket p
     then get_Remotesocket E (get_first_dest_from_packet E p) (tw_anySocketAddr w) w
     else Some s }"

section \<open>A call on one socket\<close>

definition load_iface :: "TCP_WORLD \<Rightarrow> NETSIM_SOCKET \<Rightarrow> NETSIM_SOCKET" where
  "load_iface w s = s\<lparr>iface := (case sId s of Some i \<Rightarrow> tw_interfaces w i | None \<Rightarrow> [])\<rparr>"

definition checkout :: "TCP_WORLD \<Rightarrow> NETSIM_SOCKET \<Rightarrow> NETSIM_SOCKET" where
  "checkout w s = load_iface w (s\<lparr>posted := [], tcpErrors := 0, cubicStatics := tw_cubic w\<rparr>)"

definition settle_shared :: "nat \<Rightarrow> NETSIM_SOCKET \<Rightarrow> TCP_WORLD \<Rightarrow> TCP_WORLD" where
  "settle_shared h s w = w\<lparr>
     tw_interfaces := (case sId s of Some i \<Rightarrow> (tw_interfaces w)(i := iface s) | None \<Rightarrow> tw_interfaces w),
     tw_cubic := cubicStatics s,
     tw_events := tw_events w
       @ map (\<lambda>e. (if te_ofSocket e then OfSocket h else NoDetails, e)) (posted s),
     tw_errors := tw_errors w + tcpErrors s\<rparr>"

definition settle :: "TCP_ENV \<Rightarrow> nat \<Rightarrow> SOCKET_REF \<Rightarrow> TCP_WORLD \<Rightarrow> TCP_WORLD option" where
  "settle E h r w =
     (let w = settle_shared h (sock_of r) w in
      case r of
        Freed d s \<Rightarrow> do {
          w \<leftarrow> remove_from_socket_list E d h (w\<lparr>tw_heap := (tw_heap w)(h \<mapsto> NoTcb s)\<rparr>);
          Some (w\<lparr>tw_heap := (tw_heap w)(h \<mapsto> r)\<rparr>) }
      | _ \<Rightarrow> Some (w\<lparr>tw_heap := (tw_heap w)(h \<mapsto> r)\<rparr>))"

text \<open>\<open>tcp_create_socket\<close> and the \<open>add_to_socket_list\<close> that follows it at each of its uses.\<close>

definition new_socket :: "TCP_ENV \<Rightarrow> NETSIM_ID \<Rightarrow> TCP_WORLD \<Rightarrow> (nat \<times> NETSIM_SOCKET \<times> TCP_WORLD) option" where
  "new_socket E devId w = do {
     let h = tw_next w;
     let s = tcp_create_socket (tw_socket_id w + 1);
     let w = w\<lparr>tw_heap := (tw_heap w)(h \<mapsto> NoTcb s), tw_next := Suc h,
               tw_socket_id := tw_socket_id w + 1\<rparr>;
     w \<leftarrow> add_to_socket_list E devId h w;
     Some (h, s, w) }"

text \<open>\<open>tcp_close_socket\<close> on a pointer; without a control block only the socket is freed.\<close>

definition close_socket_ptr :: "TCP_ENV \<Rightarrow> NETSIM_ID \<Rightarrow> nat \<Rightarrow> TCP_WORLD \<Rightarrow> TCP_WORLD option" where
  "close_socket_ptr E devId h w = do {
     r \<leftarrow> tw_heap w h;
     (case r of
        Live s \<Rightarrow> do { r \<leftarrow> tcp_close_socket devId (checkout w s); settle E h r w }
      | NoTcb s \<Rightarrow> do {
          _ \<leftarrow> assert_c (remoteAddr s \<noteq> None);
          settle E h (Freed devId (checkout w s)) w }
      | Freed d s \<Rightarrow> None) }"

partial_function (option) close_all_socket ::
  "TCP_ENV \<Rightarrow> NETSIM_ID \<Rightarrow> TCP_WORLD \<Rightarrow> TCP_WORLD option" where
  "close_all_socket E devId w =
     Option.bind (GET_TCP_DEV_VAR E devId) (\<lambda>_.
       case tw_socket_list w devId of
         [] \<Rightarrow> Some w
       | h # hs \<Rightarrow> Option.bind (close_socket_ptr E devId h w) (close_all_socket E devId))"

section \<open>The application layer\<close>

definition init_anysockaddr :: "TCP_ENV \<Rightarrow> TCP_WORLD \<Rightarrow> TCP_WORLD" where
  "init_anysockaddr E w =
     w\<lparr>tw_anySocketAddr := Some \<lparr>sa_ip = STR_TO_IP E ''0.0.0.0'' 4, sa_port = 0\<rparr>\<rparr>"

definition get_anysockaddr :: "TCP_WORLD \<Rightarrow> SOCKETADDRESS option" where
  "get_anysockaddr w = tw_anySocketAddr w"

definition tcp_init :: "TCP_ENV \<Rightarrow> NETSIM_ID \<Rightarrow> TCP_WORLD \<Rightarrow> TCP_WORLD option" where
  "tcp_init E d w = do {
     let w = (if get_anysockaddr w = None then init_anysockaddr E w else w);
     (h, s, w) \<leftarrow> new_socket E d w;
     let s = s\<lparr>localAddr := Some \<lparr>sa_ip = DEVICE_NWADDRESS E d 1, sa_port = 0\<rparr>, localDeviceId := d\<rparr>;
     addr \<leftarrow> get_anysockaddr w;
     s \<leftarrow> tcp_bind E addr (checkout w s);
     let s = tcp_listen s;
     settle E h (Live (s\<lparr>tcpMetrics := zero_tcp_metrics\<rparr>)) w }"

text \<open>The socket number of an event's interface (\<open>szOtherDetails\<close>), a null pointer as \<open>None\<close>.\<close>

definition iface_of :: "SZ_OTHER \<Rightarrow> nat option" where
  "iface_of od = (case od of OfInterface i \<Rightarrow> Some i | _ \<Rightarrow> None)"

definition connect_new_socket :: "TCP_ENV \<Rightarrow> nat option \<Rightarrow> TCP_PACKET \<Rightarrow> TCP_WORLD \<Rightarrow> TCP_WORLD option" where
  "connect_new_socket E i p w = do {
     (h, s, w) \<leftarrow> new_socket E (te_nDeviceId (tev E)) w;
     let s = s\<lparr>localDeviceId := tp_nSourceId p,
               remoteDeviceId := get_first_dest_from_packet E p, sId := i\<rparr>;
     s \<leftarrow> tcp_connect E \<lparr>sa_ip = tp_szSourceIP p, sa_port = tp_nSourcePort p\<rparr>
            \<lparr>sa_ip = tp_szDestIP p, sa_port = tp_nDestinationPort p\<rparr> (checkout w s);
     settle E h (Live s) w }"

text \<open>The application has data for a socket that waits for it.\<close>

definition send_waiting :: "TCP_ENV \<Rightarrow> nat option \<Rightarrow> nat \<Rightarrow> TCP_WORLD \<Rightarrow> TCP_WORLD option" where
  "send_waiting E i h w = do {
     r \<leftarrow> tw_heap w h;
     (case r of
        Live s \<Rightarrow> do {
          let s' = (if sId s = None then s\<lparr>sId := i\<rparr> else s);
          let s' = checkout w s';
          let s' = (if sId s \<noteq> None \<and> sId s \<noteq> i then tcp_error s' else s');
          s' \<leftarrow> send_segment E s';
          settle E h (Live (s'\<lparr>waitFromApp := False\<rparr>)) w }
      | _ \<Rightarrow> None) }"

definition packet_arrive_from_application_layer ::
  "TCP_ENV \<Rightarrow> SZ_OTHER \<Rightarrow> TCP_WORLD \<Rightarrow> (int \<times> TCP_WORLD) option" where
  "packet_arrive_from_application_layer E od w = do {
     let (r, is) = GET_PACKET_FROM_APP E (iface_of od) False (tw_interfaces w);
     let w = w\<lparr>tw_interfaces := is\<rparr>;
     packet \<leftarrow> r;
     s \<leftarrow> find_socket_at_source E packet w;
     w \<leftarrow> (case s of
            None \<Rightarrow> connect_new_socket E (iface_of od) packet w
          | Some h \<Rightarrow> do {
              x \<leftarrow> deref w h;
              if waitFromApp x then send_waiting E (iface_of od) h w else Some w });
     Some (0, w) }"

section \<open>The network layer and the timers\<close>

text \<open>
  The accepted socket enters the list before its addresses are known.  Accepting does not read
  the interface of the new socket.
\<close>

definition enter_accepted :: "TCP_ENV \<Rightarrow> NETSIM_SOCKET option \<Rightarrow> TCP_WORLD \<Rightarrow> TCP_WORLD option" where
  "enter_accepted E n w = (case n of
       None \<Rightarrow> Some w
     | Some s \<Rightarrow> do {
         (h, _, w) \<leftarrow> new_socket E (te_nDeviceId (tev E)) w;
         settle E h (Live (load_iface w s)) w })"

definition segment_from_network :: "TCP_ENV \<Rightarrow> TCP_WORLD \<Rightarrow> TCP_WORLD option" where
  "segment_from_network E w = do {
     packet \<leftarrow> te_pPacket (tev E);
     s \<leftarrow> find_socket_at_dest E packet w;
     (case s of
        None \<Rightarrow> Some w
      | Some h \<Rightarrow> do {
          r \<leftarrow> tw_heap w h;
          (case r of
             Live s \<Rightarrow> do {
               (r, n) \<leftarrow> packet_arrive_from_network_layer E (tw_socket_id w + 1) packet
                           (Live (checkout w s));
               w \<leftarrow> settle E h r w;
               enter_accepted E n w }
           | NoTcb s \<Rightarrow> Some w
           | Freed d s \<Rightarrow> None) }) }"

definition rto_timer_event :: "TCP_ENV \<Rightarrow> TCP_WORLD \<Rightarrow> TCP_WORLD option" where
  "rto_timer_event E w = do {
     packet \<leftarrow> te_pPacket (tev E);
     s \<leftarrow> find_socket_at_source E packet w;
     (case s of
        None \<Rightarrow> Some (world_error w)
      | Some h \<Rightarrow> do {
          r \<leftarrow> tw_heap w h;
          (case r of
             Live s \<Rightarrow> do {
               r \<leftarrow> handle_rto_timer E packet (Live (checkout w s));
               settle E h r w }
           | NoTcb s \<Rightarrow> Some w
           | Freed d s \<Rightarrow> None) }) }"

definition time_wait_event :: "TCP_ENV \<Rightarrow> SZ_OTHER \<Rightarrow> TCP_WORLD \<Rightarrow> TCP_WORLD option" where
  "time_wait_event E od w = (case od of
       OfSocket h \<Rightarrow> do {
         r \<leftarrow> tw_heap w h;
         (case r of
            Live s \<Rightarrow> do {
              r \<leftarrow> handle_time_wait_timeout (Live (checkout w s));
              settle E h r w }
          | _ \<Rightarrow> None) }
     | _ \<Rightarrow> None)"

section \<open>The library interface\<close>

definition fn_NetSim_TCP_HandleTransportOut ::
  "TCP_ENV \<Rightarrow> SZ_OTHER \<Rightarrow> TCP_WORLD \<Rightarrow> (int \<times> TCP_WORLD) option" where
  "fn_NetSim_TCP_HandleTransportOut E od w =
     (if te_nSubEventType (tev E) = 0 then packet_arrive_from_application_layer E od w
      else Some (- 1, world_error w))"

definition fn_NetSim_TCP_HandleTransportIn :: "TCP_ENV \<Rightarrow> TCP_WORLD \<Rightarrow> (int \<times> TCP_WORLD) option" where
  "fn_NetSim_TCP_HandleTransportIn E w =
     map_option (Pair 0)
       (if te_nSubEventType (tev E) = 0 then segment_from_network E w else Some (world_error w))"

definition fn_NetSim_TCP_HandleTimer ::
  "TCP_ENV \<Rightarrow> SZ_OTHER \<Rightarrow> TCP_WORLD \<Rightarrow> (int \<times> TCP_WORLD) option" where
  "fn_NetSim_TCP_HandleTimer E od w =
     map_option (Pair 0)
       (if te_nSubEventType (tev E) = TCP_RTO_TIMEOUT then rto_timer_event E w
        else if te_nSubEventType (tev E) = TCP_TIME_WAIT_TIMEOUT then time_wait_event E od w
        else Some (world_error w))"

definition fn_NetSim_TCP_Run :: "TCP_ENV \<Rightarrow> SZ_OTHER \<Rightarrow> TCP_WORLD \<Rightarrow> (int \<times> TCP_WORLD) option" where
  "fn_NetSim_TCP_Run E od w = (case te_nEventType (tev E) of
       TCP_TRANSPORT_OUT \<Rightarrow> fn_NetSim_TCP_HandleTransportOut E od w
     | TCP_TRANSPORT_IN \<Rightarrow> fn_NetSim_TCP_HandleTransportIn E w
     | TCP_TIMER \<Rightarrow> fn_NetSim_TCP_HandleTimer E od w
     | _ \<Rightarrow> Some (- 1, world_error w))"

text \<open>The configuration strings, with the error flag.\<close>

definition get_tcp_variant_from_str :: "string \<Rightarrow> TCPVARIANT \<times> bool" where
  "get_tcp_variant_from_str szVal =
     (if stricmp_eq szVal ''OLD_TAHOE'' then (TCPVariant_OLDTAHOE, False)
      else if stricmp_eq szVal ''TAHOE'' then (TCPVariant_TAHOE, False)
      else if stricmp_eq szVal ''RENO'' then (TCPVariant_RENO, False)
      else if stricmp_eq szVal ''NEW_RENO'' then (TCPVariant_NEWRENO, False)
      else if stricmp_eq szVal ''BIC'' then (TCPVariant_BIC, False)
      else if stricmp_eq szVal ''CUBIC'' then (TCPVariant_CUBIC, False)
      else (TCPVariant_TAHOE, True))"

definition get_tcp_ack_type_from_str :: "string \<Rightarrow> TCPACKTYPE \<times> bool" where
  "get_tcp_ack_type_from_str szVal =
     (if stricmp_eq szVal ''Delayed'' then (TCPACKTYPE_DELAYED, False)
      else if stricmp_eq szVal ''Undelayed'' then (TCPACKTYPE_UNDELAYED, False)
      else (TCPACKTYPE_UNDELAYED, True))"

end
