(* ===== verification/Tcp_Sockets.thy ===== *)
theory Tcp_Sockets
  imports Tcp_World Tcp_Keeps
begin

text \<open>
  The socket lists stay well formed: every socket on the list of a device is allocated, belongs to
  the device and has both addresses, and no two sockets of a list have the same addresses.  Every
  event keeps this (\<open>run_ok\<close>), because no call changes the name of a socket (the interpretation
  \<open>frame\<close> of \<open>Tcp_Keeps\<close>), a closed socket leaves the list of its device, and a new one is
  entered under a name that the search has not found.
\<close>

section \<open>Keys\<close>

text \<open>What \<open>compare_socket\<close> looks at.\<close>

type_synonym addr_key = "(ip_canon \<times> u16) option"

definition addr_key :: "SOCKETADDRESS \<Rightarrow> ip_canon \<times> u16" where
  "addr_key a = (ip_canon (sa_ip a), sa_port a)"

definition skey :: "NETSIM_SOCKET \<Rightarrow> addr_key \<times> addr_key" where
  "skey s = (map_option addr_key (localAddr s), map_option addr_key (remoteAddr s))"

lemma compare_addr_key: "compare_addr a b \<longleftrightarrow> map_option addr_key a = map_option addr_key b"
  by (cases a; cases b) (simp_all add: compare_socketaddr_def addr_key_def same_ip_canon)

lemma compare_socket_key: "compare_socket s t \<longleftrightarrow> skey s = skey t"
  by (simp add: compare_socket_def compare_addr_key skey_def)

definition ptr_key :: "TCP_WORLD \<Rightarrow> nat \<Rightarrow> (addr_key \<times> addr_key) option" where
  "ptr_key w h = map_option skey (deref w h)"

lemma find_socket_walk_eq:
  "\<forall>h \<in> set hs. deref w h \<noteq> None \<Longrightarrow>
     find_socket_walk w s hs = Some (find (\<lambda>h. ptr_key w h = Some (skey s)) hs)"
  by (induction hs) (auto simp: compare_socket_key ptr_key_def)

section \<open>Well-formed lists\<close>

definition named_socket :: "NETSIM_ID \<Rightarrow> NETSIM_SOCKET \<Rightarrow> bool" where
  "named_socket d s \<longleftrightarrow> localAddr s \<noteq> None \<and> localDeviceId s = d
     \<and> (\<exists>a. remoteAddr s = Some a \<and> (listen_callback s \<longrightarrow> sa_port a = 0))"

definition list_ok :: "TCP_WORLD \<Rightarrow> NETSIM_ID \<Rightarrow> bool" where
  "list_ok w d \<longleftrightarrow> distinct (map (ptr_key w) (tw_socket_list w d))
     \<and> (\<forall>h \<in> set (tw_socket_list w d). \<exists>s. deref w h = Some s \<and> named_socket d s)"

definition sockets_ok :: "TCP_WORLD \<Rightarrow> bool" where
  "sockets_ok w \<longleftrightarrow> (\<forall>d. list_ok w d) \<and> (\<forall>h \<ge> tw_next w. tw_heap w h = None)
     \<and> (\<forall>a. tw_anySocketAddr w = Some a \<longrightarrow> sa_port a = 0)"

lemma named_socket_addrs: "named_socket d s = (case addrs s of (l, r, e, c) \<Rightarrow>
    l \<noteq> None \<and> e = d \<and> (\<exists>a. r = Some a \<and> (c \<longrightarrow> sa_port a = 0)))"
  by (simp add: addrs_def named_socket_def)

lemma skey_addrs:
  "skey s = (case addrs s of (l, r, _) \<Rightarrow> (map_option addr_key l, map_option addr_key r))"
  by (simp add: addrs_def skey_def)

lemma list_ok_deref: "list_ok w d \<Longrightarrow> h \<in> set (tw_socket_list w d) \<Longrightarrow> \<exists>s. deref w h = Some s \<and> named_socket d s"
  by (auto simp: list_ok_def)

lemma list_ok_distinct: "list_ok w d \<Longrightarrow> distinct (tw_socket_list w d)"
  by (auto simp: list_ok_def distinct_map)

text \<open>A list that its sockets' names survive.\<close>

lemma list_ok_frame:
  assumes "list_ok w d" and "tw_socket_list w' d = tw_socket_list w d"
    and "\<And>h. h \<in> set (tw_socket_list w d) \<Longrightarrow> map_option addrs (deref w' h) = map_option addrs (deref w h)"
  shows "list_ok w' d"
proof -
  have k: "ptr_key w' h = ptr_key w h \<and> (\<exists>s. deref w' h = Some s \<and> named_socket d s)"
    if h: "h \<in> set (tw_socket_list w d)" for h
  proof -
    obtain s where s: "deref w h = Some s" "named_socket d s" using list_ok_deref [OF assms(1) h] by blast
    with assms(3) [OF h] obtain s' where "deref w' h = Some s'" "addrs s' = addrs s" by auto
    with s show ?thesis by (simp add: ptr_key_def skey_addrs [of s] skey_addrs [of s']
        named_socket_addrs [of d s] named_socket_addrs [of d s'])
  qed
  then have m: "map (ptr_key w') (tw_socket_list w d) = map (ptr_key w) (tw_socket_list w d)" by simp
  show ?thesis unfolding list_ok_def assms(2) m using assms(1) k by (simp add: list_ok_def)
qed

lemma find_socket_list_eq:
  assumes "list_ok w d" and "GET_TCP_DEV_VAR E d \<noteq> None"
  shows "find_socket_list E d s w = Some (find (\<lambda>h. ptr_key w h = Some (skey s)) (tw_socket_list w d))"
proof -
  have "\<forall>h \<in> set (tw_socket_list w d). deref w h \<noteq> None" using list_ok_deref [OF assms(1)] by fastforce
  from find_socket_walk_eq [OF this] assms(2) show ?thesis by (auto simp: find_socket_list_def)
qed

lemma find_socket_listD:
  assumes "find_socket_list E d s w = Some r" and "list_ok w d"
  shows "r = find (\<lambda>h. ptr_key w h = Some (skey s)) (tw_socket_list w d)" and "GET_TCP_DEV_VAR E d \<noteq> None"
  using assms find_socket_list_eq [OF assms(2), of E s] by (auto simp: find_socket_list_def elim!: bind_SomeE)

section \<open>Changing a socket, adding one, removing one\<close>

lemma settle_shared_sel [simp]:
  "tw_heap (settle_shared h s w) = tw_heap w" "tw_next (settle_shared h s w) = tw_next w"
  "tw_socket_list (settle_shared h s w) = tw_socket_list w"
  "tw_anySocketAddr (settle_shared h s w) = tw_anySocketAddr w"
  "tw_socket_id (settle_shared h s w) = tw_socket_id w"
  by (simp_all add: settle_shared_def)

lemma deref_heap: "tw_heap w = tw_heap w' \<Longrightarrow> deref w h = deref w' h"
  by (simp add: deref_def)

lemma deref_settle_shared [simp]: "deref (settle_shared h s w) k = deref w k"
  by (simp add: deref_def)

lemma deref_upd [simp]:
  "deref (w\<lparr>tw_heap := (tw_heap w')(h \<mapsto> Live s)\<rparr>) k = (if k = h then Some s else deref w' k)"
  "deref (w\<lparr>tw_heap := (tw_heap w')(h \<mapsto> NoTcb s)\<rparr>) k = (if k = h then Some s else deref w' k)"
  "deref (w\<lparr>tw_heap := (tw_heap w')(h \<mapsto> Freed d s)\<rparr>) k = (if k = h then None else deref w' k)"
  by (simp_all add: deref_def)

lemma deref_list [simp]: "deref (w\<lparr>tw_socket_list := l\<rparr>) k = deref w k"
  by (simp add: deref_def)

lemma deref_less: "sockets_ok w \<Longrightarrow> deref w h = Some s \<Longrightarrow> h < tw_next w"
  by (metis deref_def leI option.distinct(1) option.simps(4) sockets_ok_def)

lemma sockets_okI:
  assumes "\<And>d. list_ok w d" and "\<And>h. h \<ge> tw_next w \<Longrightarrow> tw_heap w h = None"
    and "\<And>a. tw_anySocketAddr w = Some a \<Longrightarrow> sa_port a = 0"
  shows "sockets_ok w"
  using assms by (simp add: sockets_ok_def)

text \<open>A socket that stays allocated keeps its name.\<close>

lemma settle_ok:
  assumes "sockets_ok w" and "deref w h = Some s" and "settle E h r w = Some w'"
    and "addrs (sock_of r) = addrs s" and "\<And>d t. r \<noteq> Freed d t"
  shows "sockets_ok w'"
proof (rule sockets_okI)
  have *: "tw_heap w' = (tw_heap w)(h \<mapsto> r)" "tw_socket_list w' = tw_socket_list w"
    "tw_next w' = tw_next w" "tw_anySocketAddr w' = tw_anySocketAddr w"
    using assms(3,5) by (auto simp: settle_def Let_def split: SOCKET_REF.splits)
  have d: "deref w' k = (if k = h then Some (sock_of r) else deref w k)" for k
    using assms(5) by (cases r) (auto simp: deref_def *)
  show "list_ok w' e" for e
    by (rule list_ok_frame [of w]) (use assms(1,2,4) in \<open>simp_all add: sockets_ok_def d *\<close>)
  show "tw_heap w' k = None" if "k \<ge> tw_next w'" for k
    using assms(1) deref_less [OF assms(1,2)] that * by (auto simp: sockets_ok_def)
  show "sa_port a = 0" if "tw_anySocketAddr w' = Some a" for a
    using assms(1) that * by (simp add: sockets_ok_def)
qed

text \<open>A socket is found under its own name.\<close>

lemma find_own:
  assumes "list_ok w d" and "h \<in> set (tw_socket_list w d)" and "ptr_key w h = Some k"
  shows "find (\<lambda>h. ptr_key w h = Some k) (tw_socket_list w d) = Some h"
proof -
  obtain h' where f: "find (\<lambda>h. ptr_key w h = Some k) (tw_socket_list w d) = Some h'"
    using assms(2,3) by (cases "find (\<lambda>h. ptr_key w h = Some k) (tw_socket_list w d)") (auto simp: find_None_iff)
  then have "h' \<in> set (tw_socket_list w d)" "ptr_key w h' = Some k" by (auto simp: find_Some_iff)
  with assms f show ?thesis by (auto simp: list_ok_def distinct_map inj_on_def)
qed

lemma list_ok_remove: "list_ok w d \<Longrightarrow> list_ok (w\<lparr>tw_socket_list := (tw_socket_list w)(d := remove1 h (tw_socket_list w d))\<rparr>) d"
proof -
  assume a: "list_ok w d"
  have "ptr_key (w\<lparr>tw_socket_list := l\<rparr>) = ptr_key w" for l by (simp add: fun_eq_iff ptr_key_def)
  moreover have "distinct (map f (remove1 h xs))" if "distinct (map f xs)" for f :: "nat \<Rightarrow> (addr_key \<times> addr_key) option" and xs
    using that by (auto simp: distinct_map distinct_remove1 intro: inj_on_subset dest: notin_set_remove1)
  ultimately show ?thesis using a by (auto simp: list_ok_def dest: notin_set_remove1)
qed

text \<open>Closing a socket takes it off the list of its device.\<close>

lemma settle_freed:
  assumes "sockets_ok w" and h: "h \<in> set (tw_socket_list w d)" and "deref w h = Some s"
    and "addrs t = addrs s" and c: "GET_TCP_DEV_VAR E d \<noteq> None"
  shows "settle E h (Freed d t) w = Some ((settle_shared h t w)\<lparr>tw_heap := (tw_heap w)(h \<mapsto> Freed d t),
     tw_socket_list := (tw_socket_list w)(d := remove1 h (tw_socket_list w d))\<rparr>)"
proof -
  let ?w = "(settle_shared h t w)\<lparr>tw_heap := (tw_heap w)(h \<mapsto> NoTcb t)\<rparr>"
  have l: "list_ok ?w d"
    by (rule list_ok_frame [of w]) (use assms in \<open>simp_all add: sockets_ok_def\<close>)
  have "find_socket_list E d t ?w = Some (Some h)"
    unfolding find_socket_list_eq [OF l c] using find_own [OF l, of h "skey t"] h by (simp add: ptr_key_def)
  then show ?thesis
    by (simp add: settle_def remove_from_socket_list_def Let_def)
qed

lemma settle_freed_ok:
  assumes "sockets_ok w" and h: "h \<in> set (tw_socket_list w d)" and "deref w h = Some s"
    and "addrs t = addrs s" and "settle E h (Freed d t) w = Some w'"
  shows "sockets_ok w'"
proof -
  have "GET_TCP_DEV_VAR E d \<noteq> None"
    using assms(5) by (auto simp: settle_def remove_from_socket_list_def find_socket_list_def Let_def
        elim!: bind_SomeE)
  from settle_freed [OF assms(1-4) this] assms(5)
  have w': "w' = (settle_shared h t w)\<lparr>tw_heap := (tw_heap w)(h \<mapsto> Freed d t),
     tw_socket_list := (tw_socket_list w)(d := remove1 h (tw_socket_list w d))\<rparr>" by simp
  have n: "h \<notin> set (tw_socket_list w' e)" for e
  proof (cases "e = d")
    case True
    then show ?thesis using assms(1) list_ok_distinct [of w d] by (simp add: w' sockets_ok_def)
  next
    case False
    then show ?thesis
      using assms(1,3) h list_ok_deref [of w d h] list_ok_deref [of w e h]
      by (auto simp: w' sockets_ok_def named_socket_def)
  qed
  show ?thesis
  proof (rule sockets_okI)
    show "list_ok w' e" for e
    proof (rule list_ok_frame [of "w\<lparr>tw_socket_list := (tw_socket_list w)(d := remove1 h (tw_socket_list w d))\<rparr>"])
      show "list_ok (w\<lparr>tw_socket_list := (tw_socket_list w)(d := remove1 h (tw_socket_list w d))\<rparr>) e"
      proof (cases "e = d")
        case True
        then show ?thesis using list_ok_remove assms(1) by (simp add: sockets_ok_def)
      next
        case False
        show ?thesis
          by (rule list_ok_frame [of w]) (use assms(1) False in \<open>simp_all add: sockets_ok_def\<close>)
      qed
    qed (use n [of e] in \<open>auto simp: w' deref_def\<close>)
    show "tw_heap w' k = None" if "k \<ge> tw_next w'" for k
      using assms(1) deref_less [OF assms(1,3)] that by (auto simp: sockets_ok_def w')
    show "sa_port a = 0" if "tw_anySocketAddr w' = Some a" for a
      using assms(1) that by (simp add: sockets_ok_def w')
  qed
qed

text \<open>A new socket goes to the end of the list.\<close>

lemma new_socket_eq:
  assumes "sockets_ok w" and "GET_TCP_DEV_VAR E d \<noteq> None"
  shows "new_socket E d w = Some (tw_next w, tcp_create_socket (tw_socket_id w + 1),
    w\<lparr>tw_heap := (tw_heap w)(tw_next w \<mapsto> NoTcb (tcp_create_socket (tw_socket_id w + 1))),
      tw_next := Suc (tw_next w), tw_socket_id := tw_socket_id w + 1,
      tw_socket_list := (tw_socket_list w)(d := tw_socket_list w d @ [tw_next w])\<rparr>)"
proof -
  let ?s = "tcp_create_socket (tw_socket_id w + 1)"
  let ?w = "w\<lparr>tw_heap := (tw_heap w)(tw_next w \<mapsto> NoTcb ?s),
      tw_next := Suc (tw_next w), tw_socket_id := tw_socket_id w + 1\<rparr>"
  have n: "tw_next w \<notin> set (tw_socket_list w d)"
    using assms(1) list_ok_deref [of w d "tw_next w"] by (auto simp: sockets_ok_def deref_def)
  have dr: "deref ?w k = (if k = tw_next w then Some ?s else deref w k)" for k by (simp add: deref_def)
  have l: "list_ok ?w d"
    by (rule list_ok_frame [of w]) (use assms n dr in \<open>auto simp: sockets_ok_def\<close>)
  have "find (\<lambda>h. ptr_key ?w h = Some (skey ?s)) (tw_socket_list w d) = None"
  proof -
    have "ptr_key ?w h \<noteq> Some (skey ?s)" if "h \<in> set (tw_socket_list w d)" for h
      using list_ok_deref [OF l, of h] that
      by (auto simp: ptr_key_def skey_def tcp_create_socket_def named_socket_def)
    then show ?thesis by (auto simp: find_None_iff)
  qed
  then show ?thesis using find_socket_list_eq [OF l assms(2), of ?s] dr
    by (simp add: new_socket_def add_to_socket_list_def Let_def)
qed

text \<open>
  The new socket gets its name: the list stays well formed when no socket of the list has it.
\<close>

lemma settle_new:
  assumes "sockets_ok w" and "new_socket E d w = Some (h, s0, w1)" and "settle E h (Live s) w2 = Some w'"
    and "tw_heap w2 = tw_heap w1" "tw_next w2 = tw_next w1" "tw_socket_list w2 = tw_socket_list w1"
    and any: "\<And>a. tw_anySocketAddr w2 = Some a \<Longrightarrow> sa_port a = 0"
    and "named_socket d s" and fresh: "\<And>k. k \<in> set (tw_socket_list w d) \<Longrightarrow> ptr_key w k \<noteq> Some (skey s)"
  shows "sockets_ok w'"
proof (rule sockets_okI)
  have "GET_TCP_DEV_VAR E d \<noteq> None"
    using assms(2) by (auto simp: new_socket_def add_to_socket_list_def find_socket_list_def Let_def
        elim!: bind_SomeE)
  from new_socket_eq [OF assms(1) this] assms(2)
  have h: "h = tw_next w" and w1: "tw_next w1 = Suc (tw_next w)"
    "tw_heap w1 = (tw_heap w)(h \<mapsto> NoTcb s0)"
    "tw_socket_list w1 = (tw_socket_list w)(d := tw_socket_list w d @ [h])" by auto
  have w': "tw_heap w' = (tw_heap w)(h \<mapsto> Live s)" "tw_next w' = Suc (tw_next w)"
    "tw_socket_list w' = (tw_socket_list w)(d := tw_socket_list w d @ [h])"
    "tw_anySocketAddr w' = tw_anySocketAddr w2"
    using assms(3-6) w1 by (auto simp: settle_def Let_def)
  have dr: "deref w' k = (if k = h then Some s else deref w k)" for k by (simp add: deref_def w')
  have n: "h \<notin> set (tw_socket_list w e)" for e
    using assms(1) list_ok_deref [of w e h] h by (auto simp: sockets_ok_def deref_def)
  have pk: "ptr_key w' k = ptr_key w k" if "k \<in> set (tw_socket_list w e)" for k e
    using n [of e] that by (auto simp: ptr_key_def dr)
  show "list_ok w' e" for e
  proof (cases "e = d")
    case True
    have l: "list_ok w d" using assms(1) by (simp add: sockets_ok_def)
    have "ptr_key w' h = Some (skey s)" by (simp add: ptr_key_def dr)
    with pk have m: "map (ptr_key w') (tw_socket_list w' d) = map (ptr_key w) (tw_socket_list w d) @ [Some (skey s)]"
      by (simp add: w')
    have "Some (skey s) \<notin> set (map (ptr_key w) (tw_socket_list w d))" using fresh by force
    then have "distinct (map (ptr_key w') (tw_socket_list w' d))" using l unfolding m by (simp add: list_ok_def)
    moreover have "\<exists>s. deref w' k = Some s \<and> named_socket d s" if "k \<in> set (tw_socket_list w' d)" for k
      using list_ok_deref [OF l, of k] that assms(8) by (auto simp: w' dr)
    ultimately show ?thesis by (simp add: list_ok_def True)
  next
    case False
    show ?thesis
      by (rule list_ok_frame [of w]) (use assms(1) False n [of e] in \<open>auto simp: sockets_ok_def w' dr\<close>)
  qed
  show "tw_heap w' k = None" if "k \<ge> tw_next w'" for k
    using assms(1) that h by (auto simp: sockets_ok_def w')
  show "sa_port a = 0" if "tw_anySocketAddr w' = Some a" for a
    using any that w' by simp
qed

section \<open>What the calls do to the name of a socket\<close>

lemma core_addrs: "(case core s of (st, R, W, a) \<Rightarrow> a = a0) \<longleftrightarrow> addrs s = a0"
  by (simp add: core_def)

lemmas frame_kept =
  frame.arrive_kept [unfolded core_addrs] frame.rto_timer_kept [unfolded core_addrs]
  frame.time_wait_kept [unfolded core_addrs] frame.send_segment_kept [unfolded core_addrs]
  frame.send_syn_kept [unfolded core_addrs] frame.rcv_SYN_kept [unfolded core_addrs]

lemma frame_clears [simp]: "frame.clears a0"
  by (simp add: frame.clears_def)

lemma addrs_load [simp]: "addrs (load_iface w s) = addrs s" "addrs (checkout w s) = addrs s"
  by (simp_all add: load_iface_def checkout_def addrs_def)

lemma arrive_addrs:
  "packet_arrive_from_network_layer E i p (Live s) = Some (r, n) \<Longrightarrow> addrs (sock_of r) = addrs s"
  by (rule frame_kept(1)) simp_all

lemma rto_addrs: "handle_rto_timer E p (Live s) = Some r \<Longrightarrow> addrs (sock_of r) = addrs s"
  by (rule frame_kept(2)) simp_all

lemma time_wait_addrs: "handle_time_wait_timeout (Live s) = Some r \<Longrightarrow> addrs (sock_of r) = addrs s"
  by (rule frame_kept(3)) simp_all

lemma send_segment_addrs: "send_segment E s = Some s' \<Longrightarrow> addrs s' = addrs s"
  by (rule frame_kept(4)) simp_all

lemma create_TCB_addrs: "create_TCB E s = Some s' \<Longrightarrow> addrs s' = addrs s"
  by (drule create_TCB_core) (simp add: core_def)

lemma tcp_connect_addrs:
  "tcp_connect E la ra s = Some s' \<Longrightarrow> addrs s' = (Some la, Some ra, localDeviceId s, listen_callback s)"
  by (auto simp: tcp_connect_def tcp_active_open_def elim!: bind_SomeE dest!: create_TCB_addrs)
     (auto dest!: frame_kept(5) [OF _ refl] simp: addrs_def)

lemma tcp_accept_addrs:
  assumes "tcp_accept E sid p s = Some n"
  shows "addrs n = (Some \<lparr>sa_ip = tp_szDestIP p, sa_port = tp_nDestinationPort p\<rparr>,
    Some \<lparr>sa_ip = tp_szSourceIP p, sa_port = tp_nSourcePort p\<rparr>, get_first_dest_from_packet E p, False)"
proof -
  obtain m l where m: "create_TCB E m = Some l" "rcv_SYN E p (on_tcb (tcp_change_state TCPCONNECTION_LISTEN)
      (on_tcb (\<lambda>t. t\<lparr>SEG_SEQ := SEG_SEQ (tcb s), SEG_ACK := SEG_ACK (tcb s), SEG_LEN := SEG_LEN (tcb s),
        SEG_WND := SEG_WND (tcb s)\<rparr>) l)) = Some n"
    and "addrs m = (Some \<lparr>sa_ip = tp_szDestIP p, sa_port = tp_nDestinationPort p\<rparr>,
      Some \<lparr>sa_ip = tp_szSourceIP p, sa_port = tp_nSourcePort p\<rparr>, get_first_dest_from_packet E p, False)"
    using assms by (auto simp: tcp_accept_def tcp_passive_open_def tcp_create_socket_def addrs_def Let_def
        elim!: bind_SomeE)
  with create_TCB_addrs [OF m(1)] frame_kept(6) [OF m(2) refl] show ?thesis by simp
qed

section \<open>Which calls free a socket, which accept one\<close>

lemma close_freed:
  "tcp_close_socket e s = Some (Freed d t) \<Longrightarrow> d = e"
  "delete_tcb s \<noteq> Some (Freed d t)"
  by (auto simp: tcp_close_socket_def delete_tcb_def Let_def elim!: bind_SomeE)

lemma reset_freed:
  "process_rst_packet s = Some (Freed d t) \<Longrightarrow> d = localDeviceId s"
  "process_syn_packet s = Some (Freed d t) \<Longrightarrow> d = localDeviceId s"
  by (cases "tcp_state (tcb s)";
      auto simp: process_rst_packet_def process_syn_packet_def Let_def elim!: bind_SomeE
        split: if_splits dest!: close_freed(1))+

lemma process_ack_packet_freed: "process_ack_packet E p s \<noteq> Some (Freed d t)"
  by (cases "tcp_state (tcb s)")
     (auto simp: process_ack_packet_def close_freed Let_def elim!: bind_SomeE split: if_splits)

lemma arrive_freed:
  assumes "packet_arrive_from_network_layer E i p (Live s) = Some (Freed d t, n)"
  shows "d = localDeviceId s"
proof -
  let ?u = "update_seq_num_on_receiving s p"
  have "packet_arrives_at_incoming_tcp E p ?u = Some (Freed d t)"
    using assms by (cases "tcp_state (tcb ?u)") (auto simp: packet_arrive_from_network_layer_def Let_def)
  then have "d = localDeviceId ?u"
    by (auto simp: packet_arrives_at_incoming_tcp_def process_ack_packet_freed Let_def elim!: bind_SomeE
        split: if_splits dest!: reset_freed)
  then show ?thesis by (simp add: update_seq_num_on_receiving_def Let_def)
qed

lemma rto_freed: "handle_rto_timer E p (Live s) = Some (Freed d t) \<Longrightarrow> d = te_nDeviceId (tev E)"
  by (auto simp: handle_rto_timer_def handle_rto_timer_for_ctrl_def resend_syn_def Let_def
      elim!: bind_SomeE split: if_splits dest!: close_freed(1))

lemma time_wait_freed: "handle_time_wait_timeout (Live s) \<noteq> Some (Freed d t)"
  by (simp add: handle_time_wait_timeout_def close_freed)

lemma arrive_accepts:
  assumes "packet_arrive_from_network_layer E i p (Live s) = Some (r, Some n)"
  obtains u where "listen_callback s" and "r = Live u" and "tcp_accept E i p u = Some n"
    and "u = update_seq_num_on_receiving s p"
    and "Syn (TCP_GET_SEGMENT_HDR p)"
proof -
  let ?u = "update_seq_num_on_receiving s p"
  have l: "listen_callback ?u = listen_callback s" by (simp add: update_seq_num_on_receiving_def Let_def on_tcb_def)
  have "packet_arrives_at_listen_state E i p ?u = Some (sock_of r, Some n)" "r = Live (sock_of r)"
    using assms by (cases "tcp_state (tcb ?u)"; auto simp: packet_arrive_from_network_layer_def Let_def)+
  then show thesis
    using that l by (auto simp: packet_arrives_at_listen_state_def process_syn_def fnListenCallback_def Let_def
        split: if_splits)
qed

section \<open>Every event keeps the lists well formed\<close>

text \<open>
  Where the stack delivers an event: data of the application at the source of the packet, a
  segment at its first destination, a retransmission timer at the sender of the segment.  Source
  ports of segments are not 0, the port of the listening sockets.
\<close>

definition event_placed :: "TCP_ENV \<Rightarrow> SZ_OTHER \<Rightarrow> TCP_WORLD \<Rightarrow> bool" where
  "event_placed E od w \<longleftrightarrow> (case te_nEventType (tev E) of
       TCP_TRANSPORT_OUT \<Rightarrow>
         (case fst (GET_PACKET_FROM_APP E (iface_of od) False (tw_interfaces w)) of
            Some p \<Rightarrow> tp_nSourceId p = te_nDeviceId (tev E)
          | None \<Rightarrow> True)
     | TCP_TRANSPORT_IN \<Rightarrow>
         (case te_pPacket (tev E) of
            Some p \<Rightarrow> get_first_dest_from_packet E p = te_nDeviceId (tev E) \<and> tp_nSourcePort p \<noteq> 0
          | None \<Rightarrow> True)
     | TCP_TIMER \<Rightarrow>
         (case te_pPacket (tev E) of
            Some p \<Rightarrow> tp_nSourceId p = te_nDeviceId (tev E)
          | None \<Rightarrow> True)
     | _ \<Rightarrow> True)"

lemma find_SomeD: "find P xs = Some x \<Longrightarrow> x \<in> set xs \<and> P x"
  by (auto simp: find_Some_iff)

lemma heap_deref:
  "tw_heap w h = Some (Live s) \<Longrightarrow> deref w h = Some s" "tw_heap w h = Some (NoTcb s) \<Longrightarrow> deref w h = Some s"
  by (simp_all add: deref_def)

lemma sockets_ok_list: "sockets_ok w \<Longrightarrow> list_ok w d"
  by (simp add: sockets_ok_def)

lemma sockets_ok_cong:
  assumes "tw_heap w' = tw_heap w" "tw_socket_list w' = tw_socket_list w" "tw_next w' = tw_next w"
    "tw_anySocketAddr w' = tw_anySocketAddr w"
  shows "sockets_ok w' = sockets_ok w"
proof -
  have "deref w' = deref w" using assms(1) by (simp add: deref_def fun_eq_iff)
  moreover from this have "ptr_key w' = ptr_key w" by (intro ext) (simp add: ptr_key_def)
  ultimately have "list_ok w' d = list_ok w d" for d using assms(2) by (simp add: list_ok_def)
  with assms show ?thesis by (simp add: sockets_ok_def)
qed

lemma sockets_ok_other [simp]:
  "sockets_ok (w\<lparr>tw_interfaces := i\<rparr>) = sockets_ok w" "sockets_ok (world_error w) = sockets_ok w"
  by (rule sockets_ok_cong; simp add: world_error_def)+

text \<open>A call on a socket of the list of \<open>d\<close> that keeps its name and frees it on \<open>d\<close> only.\<close>

lemma settle_call:
  assumes "sockets_ok w" and "h \<in> set (tw_socket_list w d)" and "deref w h = Some s"
    and "settle E h r w = Some w'" and "addrs (sock_of r) = addrs s" and "\<And>e t. r = Freed e t \<Longrightarrow> e = d"
  shows "sockets_ok w'"
proof (cases "\<exists>e t. r = Freed e t")
  case True
  then obtain t where "r = Freed d t" using assms(6) by blast
  with settle_freed_ok [OF assms(1-3)] assms(4,5) show ?thesis by auto
next
  case False
  with settle_ok [OF assms(1,3,4,5)] show ?thesis by blast
qed

lemma member_device:
  "sockets_ok w \<Longrightarrow> h \<in> set (tw_socket_list w d) \<Longrightarrow> deref w h = Some s \<Longrightarrow> localDeviceId s = d"
  using list_ok_deref [OF sockets_ok_list, of w h d] by (auto simp: named_socket_def)

lemma rto_timer_ok:
  assumes "sockets_ok w" and "rto_timer_event E w = Some w'" and "te_pPacket (tev E) = Some p"
    and "tp_nSourceId p = te_nDeviceId (tev E)"
  shows "sockets_ok w'"
proof -
  note l = sockets_ok_list [OF assms(1)]
  let ?d = "te_nDeviceId (tev E)"
  consider "w' = world_error w \<or> w' = w"
    | h s r where "h \<in> set (tw_socket_list w ?d)" "tw_heap w h = Some (Live s)"
        "handle_rto_timer E p (Live (checkout w s)) = Some r" "settle E h r w = Some w'"
    using assms(2-4)
    by (auto simp: rto_timer_event_def find_socket_at_source_def find_socket_def elim!: bind_SomeE
        split: option.splits SOCKET_REF.splits dest!: find_socket_listD(1) [OF _ l] find_SomeD)
  then show ?thesis
  proof cases
    case 1
    with assms(1) show ?thesis by auto
  next
    case 2
    show ?thesis
      by (rule settle_call [OF assms(1) 2(1) heap_deref(1) [OF 2(2)] 2(4)])
         (simp add: rto_addrs [OF 2(3)], use 2(3) rto_freed in blast)
  qed
qed

lemma time_wait_event_ok:
  assumes "sockets_ok w" and "time_wait_event E od w = Some w'"
  shows "sockets_ok w'"
proof -
  obtain h s r where *: "tw_heap w h = Some (Live s)"
      "handle_time_wait_timeout (Live (checkout w s)) = Some r" "settle E h r w = Some w'"
    using assms(2)
    by (auto simp: time_wait_event_def elim!: bind_SomeE split: SZ_OTHER.splits SOCKET_REF.splits)
  show ?thesis
    by (rule settle_ok [OF assms(1) heap_deref(1) [OF *(1)] *(3)])
       (simp add: time_wait_addrs [OF *(2)], use *(2) time_wait_freed in blast)
qed

text \<open>A name that the search does not find is new.\<close>

lemma not_found_fresh:
  assumes "find_socket_list E d x w = Some None" and "list_ok w d" and "k \<in> set (tw_socket_list w d)"
  shows "ptr_key w k \<noteq> Some (skey x)"
  using find_socket_listD(1) [OF assms(1,2)] assms(3) find_None_iff [of "\<lambda>h. ptr_key w h = Some (skey x)"]
  by metis

lemma skey_of_addrs: "addrs s = (Some l, Some r, d, c) \<Longrightarrow> skey s = skey (tcp_create_socket_key l r)"
  by (simp add: addrs_def skey_def tcp_create_socket_key_def)

lemma named_of_addrs: "addrs s = (Some l, Some r, d, False) \<Longrightarrow> named_socket d s"
  by (simp add: named_socket_addrs)

lemma connect_new_ok:
  assumes "sockets_ok w" and "find_socket_at_source E p w = Some None"
    and "tp_nSourceId p = te_nDeviceId (tev E)" and "connect_new_socket E i p w = Some w'"
  shows "sockets_ok w'"
proof -
  let ?d = "te_nDeviceId (tev E)" and ?l = "\<lparr>sa_ip = tp_szSourceIP p, sa_port = tp_nSourcePort p\<rparr>"
    and ?r = "\<lparr>sa_ip = tp_szDestIP p, sa_port = tp_nDestinationPort p\<rparr>"
  obtain h s0 w1 s1 s where *: "new_socket E ?d w = Some (h, s0, w1)"
      "tcp_connect E ?l ?r s1 = Some s" "settle E h (Live s) w1 = Some w'"
      and s1: "localDeviceId s1 = ?d" "listen_callback s1 = listen_callback s0"
    using assms(3,4) by (auto simp: connect_new_socket_def checkout_def load_iface_def elim!: bind_SomeE)
  have "GET_TCP_DEV_VAR E ?d \<noteq> None"
    using assms(2,3) by (auto simp: find_socket_at_source_def find_socket_def find_socket_list_def elim!: bind_SomeE)
  from new_socket_eq [OF assms(1) this] *(1)
  have "tw_anySocketAddr w1 = tw_anySocketAddr w" "s0 = tcp_create_socket (tw_socket_id w + 1)" by auto
  with s1 tcp_connect_addrs [OF *(2)] have a: "addrs s = (Some ?l, Some ?r, ?d, False)"
    by (simp add: tcp_create_socket_def)
  show ?thesis
  proof (rule settle_new [OF assms(1) *(1) *(3) refl refl refl])
    show "sa_port a = 0" if "tw_anySocketAddr w1 = Some a" for a
      using assms(1) that \<open>tw_anySocketAddr w1 = tw_anySocketAddr w\<close> by (simp add: sockets_ok_def)
    show "named_socket ?d s" using named_of_addrs [OF a] .
    show "ptr_key w k \<noteq> Some (skey s)" if "k \<in> set (tw_socket_list w ?d)" for k
      unfolding skey_of_addrs [OF a]
      using assms(2,3) that
      by (intro not_found_fresh [OF _ sockets_ok_list [OF assms(1)]])
         (auto simp: find_socket_at_source_def find_socket_def)
  qed
qed

lemma send_waiting_ok:
  assumes "sockets_ok w" and "send_waiting E i h w = Some w'"
  shows "sockets_ok w'"
proof -
  obtain s t u where *: "tw_heap w h = Some (Live s)" "send_segment E t = Some u"
      "settle E h (Live (u\<lparr>waitFromApp := False\<rparr>)) w = Some w'" and t: "addrs t = addrs s"
    using assms(2)
    by (auto simp: send_waiting_def addrs_def checkout_def load_iface_def tcp_error_def Let_def
        elim!: bind_SomeE split: SOCKET_REF.splits if_splits)
  show ?thesis
    by (rule settle_ok [OF assms(1) heap_deref(1) [OF *(1)] *(3)])
       (simp_all add: send_segment_addrs [OF *(2)] t)
qed

lemma application_ok:
  assumes "sockets_ok w" and "packet_arrive_from_application_layer E od w = Some (i, w')"
    and "event_placed E od w" and "te_nEventType (tev E) = TCP_TRANSPORT_OUT"
  shows "sockets_ok w'"
proof -
  obtain p "is" where g: "GET_PACKET_FROM_APP E (iface_of od) False (tw_interfaces w) = (Some p, is)"
    using assms(2) by (auto simp: packet_arrive_from_application_layer_def Let_def elim!: bind_SomeE
        split: prod.splits)
  let ?w = "w\<lparr>tw_interfaces := is\<rparr>"
  have ok: "sockets_ok ?w" and d: "tp_nSourceId p = te_nDeviceId (tev E)"
    using assms(1,3,4) g by (simp_all add: event_placed_def)
  obtain q where q: "find_socket_at_source E p ?w = Some q"
      "(case q of None \<Rightarrow> connect_new_socket E (iface_of od) p ?w
        | Some h \<Rightarrow> deref ?w h \<bind> (\<lambda>x. if waitFromApp x then send_waiting E (iface_of od) h ?w else Some ?w))
       = Some w'"
    using assms(2) g by (auto simp: packet_arrive_from_application_layer_def Let_def elim!: bind_SomeE)
  show ?thesis
  proof (cases q)
    case None
    with q connect_new_ok [OF ok _ d] show ?thesis by simp
  next
    case (Some h)
    with q(2) ok send_waiting_ok [OF ok] show ?thesis by (auto elim!: bind_SomeE split: if_splits)
  qed
qed

lemma enter_accepted_ok:
  assumes "sockets_ok w" and "enter_accepted E (Some s) w = Some w'" and "named_socket (te_nDeviceId (tev E)) s"
    and "\<And>k. k \<in> set (tw_socket_list w (te_nDeviceId (tev E))) \<Longrightarrow> ptr_key w k \<noteq> Some (skey s)"
  shows "sockets_ok w'"
proof -
  obtain h s0 w1 where *: "new_socket E (te_nDeviceId (tev E)) w = Some (h, s0, w1)"
      "settle E h (Live (load_iface w1 s)) w1 = Some w'"
    using assms(2) by (auto simp: enter_accepted_def elim!: bind_SomeE)
  then have "tw_anySocketAddr w1 = tw_anySocketAddr w"
    by (auto simp: new_socket_def add_to_socket_list_def Let_def elim!: bind_SomeE)
  with assms(1) show ?thesis
    by (intro settle_new [OF assms(1) *(1) *(2) refl refl refl])
       (use assms(3,4) in \<open>simp_all add: sockets_ok_def named_socket_addrs skey_addrs\<close>)
qed

lemma settle_live_keys:
  assumes "settle E h (Live u) w = Some w1" and "deref w h = Some s" and "addrs u = addrs s"
  shows "tw_socket_list w1 = tw_socket_list w" and "ptr_key w1 k = ptr_key w k"
proof -
  have w1: "tw_heap w1 = (tw_heap w)(h \<mapsto> Live u)" "tw_socket_list w1 = tw_socket_list w"
    using assms(1) by (auto simp: settle_def Let_def)
  have "deref w1 k = (if k = h then Some u else deref w k)" for k by (simp add: deref_def w1)
  then show "ptr_key w1 k = ptr_key w k" using assms(2,3) by (simp add: ptr_key_def skey_addrs)
  show "tw_socket_list w1 = tw_socket_list w" by (rule w1)
qed

text \<open>The socket of a segment: found under its addresses, or the listening one.\<close>

lemma find_at_dest_cases:
  assumes "find_socket_at_dest E p w = Some (Some h)" and "sockets_ok w" and "deref w h = Some s"
    and "get_first_dest_from_packet E p = d"
  shows "h \<in> set (tw_socket_list w d)"
    and "(\<exists>a. remoteAddr s = Some a \<and> sa_port a = tp_nSourcePort p)
      \<or> find_socket_list E d (tcp_create_socket_key \<lparr>sa_ip = tp_szDestIP p, sa_port = tp_nDestinationPort p\<rparr>
          \<lparr>sa_ip = tp_szSourceIP p, sa_port = tp_nSourcePort p\<rparr>) w = Some None"
proof -
  note l = sockets_ok_list [OF assms(2), of d]
  let ?k = "tcp_create_socket_key \<lparr>sa_ip = tp_szDestIP p, sa_port = tp_nDestinationPort p\<rparr>
          \<lparr>sa_ip = tp_szSourceIP p, sa_port = tp_nSourcePort p\<rparr>"
  consider "find_socket_list E d ?k w = Some (Some h)"
    | x where "find_socket_list E d ?k w = Some None" "find_socket_list E d x w = Some (Some h)"
    using assms(1,4)
    by (auto simp: find_socket_at_dest_def find_socket_def get_Remotesocket_def elim!: bind_SomeE split: if_splits)
  note c = this
  from c show "h \<in> set (tw_socket_list w d)"
    by cases (auto dest!: find_socket_listD(1) [OF _ l] find_SomeD [OF sym])
  have "\<exists>a. remoteAddr s = Some a \<and> sa_port a = tp_nSourcePort p" if "find_socket_list E d ?k w = Some (Some h)"
    using find_SomeD [OF find_socket_listD(1) [OF that l, symmetric]] assms(3)
    by (auto simp: ptr_key_def skey_def tcp_create_socket_key_def addr_key_def)
  then show "(\<exists>a. remoteAddr s = Some a \<and> sa_port a = tp_nSourcePort p)
      \<or> find_socket_list E d ?k w = Some None"
    using c by blast
qed

lemma network_in_ok:
  assumes "sockets_ok w" and "segment_from_network E w = Some w'" and "te_pPacket (tev E) = Some p"
    and d: "get_first_dest_from_packet E p = te_nDeviceId (tev E)" and "tp_nSourcePort p \<noteq> 0"
  shows "sockets_ok w'"
proof -
  let ?d = "te_nDeviceId (tev E)"
  consider "w' = w" | h s r n w1 where "find_socket_at_dest E p w = Some (Some h)"
      "tw_heap w h = Some (Live s)"
      "packet_arrive_from_network_layer E (tw_socket_id w + 1) p (Live (checkout w s)) = Some (r, n)"
      "settle E h r w = Some w1" "enter_accepted E n w1 = Some w'"
    using assms(2,3) by (auto simp: segment_from_network_def elim!: bind_SomeE
        split: option.splits SOCKET_REF.splits)
  then show ?thesis
  proof cases
    case 1
    with assms(1) show ?thesis by simp
  next
    case 2
    have dr: "deref w h = Some s" using heap_deref(1) [OF 2(2)] .
    note h = find_at_dest_cases [OF 2(1) assms(1) dr d]
    have a: "addrs (sock_of r) = addrs s" using arrive_addrs [OF 2(3)] by simp
    have w1: "sockets_ok w1"
    proof (rule settle_call [OF assms(1) h(1) dr 2(4) a])
      fix e t assume "r = Freed e t"
      with 2(3) have "e = localDeviceId (checkout w s)" using arrive_freed by blast
      with member_device [OF assms(1) h(1) dr] show "e = ?d" by (simp add: checkout_def load_iface_def)
    qed
    show ?thesis
    proof (cases n)
      case None
      with 2(5) w1 show ?thesis by (simp add: enter_accepted_def)
    next
      case (Some m)
      obtain u where u: "listen_callback (checkout w s)" "r = Live u"
        "tcp_accept E (tw_socket_id w + 1) p u = Some m"
        using arrive_accepts [OF 2(3) [unfolded Some]] by blast
      note m = tcp_accept_addrs [OF u(3), unfolded d]
      have "named_socket ?d s" using list_ok_deref [OF sockets_ok_list [OF assms(1)] h(1)] dr by simp
      with u(1) h(2) assms(5)
      have f: "find_socket_list E ?d (tcp_create_socket_key \<lparr>sa_ip = tp_szDestIP p, sa_port = tp_nDestinationPort p\<rparr>
          \<lparr>sa_ip = tp_szSourceIP p, sa_port = tp_nSourcePort p\<rparr>) w = Some None"
        by (auto simp: named_socket_def checkout_def load_iface_def)
      note k = settle_live_keys [OF 2(4) [unfolded u(2)] dr] 
      show ?thesis
      proof (rule enter_accepted_ok [OF w1 2(5) [unfolded Some] named_of_addrs [OF m]])
        fix x assume "x \<in> set (tw_socket_list w1 ?d)"
        with k a u(2) not_found_fresh [OF f sockets_ok_list [OF assms(1)]]
        show "ptr_key w1 x \<noteq> Some (skey m)" by (simp add: skey_of_addrs [OF m])
      qed
    qed
  qed
qed

lemma run_ok:
  assumes "sockets_ok w" and "fn_NetSim_TCP_Run E od w = Some (i, w')" and "event_placed E od w"
  shows "sockets_ok w'"
proof (cases "te_nEventType (tev E)")
  case TCP_TRANSPORT_OUT
  with assms application_ok [OF assms(1) _ assms(3)] show ?thesis
    by (auto simp: fn_NetSim_TCP_Run_def fn_NetSim_TCP_HandleTransportOut_def split: if_splits)
next
  case TCP_TRANSPORT_IN
  then have "w' = world_error w \<or> segment_from_network E w = Some w'"
    using assms(2) by (auto simp: fn_NetSim_TCP_Run_def fn_NetSim_TCP_HandleTransportIn_def split: if_splits)
  then consider "w' = world_error w" | "segment_from_network E w = Some w'" by blast
  then show ?thesis
  proof cases
    case 2
    then obtain p where "te_pPacket (tev E) = Some p" by (auto simp: segment_from_network_def elim!: bind_SomeE)
    with network_in_ok [OF assms(1) 2] assms(3) TCP_TRANSPORT_IN show ?thesis by (simp add: event_placed_def)
  qed (use assms(1) in simp)
next
  case TCP_TIMER
  then have "w' = world_error w \<or> rto_timer_event E w = Some w' \<or> time_wait_event E od w = Some w'"
    using assms(2) by (auto simp: fn_NetSim_TCP_Run_def fn_NetSim_TCP_HandleTimer_def split: if_splits)
  then consider "w' = world_error w" | "rto_timer_event E w = Some w'" | "time_wait_event E od w = Some w'" by blast
  then show ?thesis
  proof cases
    case 2
    then obtain p where "te_pPacket (tev E) = Some p" by (auto simp: rto_timer_event_def elim!: bind_SomeE)
    with rto_timer_ok [OF assms(1) 2] assms(3) TCP_TIMER show ?thesis by (simp add: event_placed_def)
  qed (use assms(1) time_wait_event_ok in auto)
qed (use assms(1,2) in \<open>auto simp: fn_NetSim_TCP_Run_def\<close>)

text \<open>Initialising a device whose list is empty.\<close>

lemma tcp_init_ok:
  assumes "sockets_ok w" and "tw_socket_list w d = []" and "tcp_init E d w = Some w'"
  shows "sockets_ok w'"
proof -
  let ?w = "if get_anysockaddr w = None then init_anysockaddr E w else w"
  have ok: "sockets_ok ?w"
  proof (cases "get_anysockaddr w")
    case None
    let ?i = "init_anysockaddr E w"
    have "list_ok ?i e" for e
      by (rule list_ok_frame [of w]) (use assms(1) in \<open>simp_all add: sockets_ok_def init_anysockaddr_def deref_def\<close>)
    with assms(1) None show ?thesis by (simp add: sockets_ok_def init_anysockaddr_def)
  qed (use assms(1) in simp)
  obtain h s0 w1 s1 s addr where *: "new_socket E d ?w = Some (h, s0, w1)" "get_anysockaddr w1 = Some addr"
      "tcp_bind E addr (checkout w1 s1) = Some s"
      "settle E h (Live ((tcp_listen s)\<lparr>tcpMetrics := zero_tcp_metrics\<rparr>)) w1 = Some w'"
      and s1: "localAddr s1 \<noteq> None" "localDeviceId s1 = d"
    using assms(3) unfolding tcp_init_def Let_def by (auto elim!: bind_SomeE)
  have any: "tw_anySocketAddr w1 = tw_anySocketAddr ?w"
    using *(1) by (auto simp: new_socket_def add_to_socket_list_def Let_def elim!: bind_SomeE)
  have "sa_port addr = 0" using ok *(2) any by (simp add: sockets_ok_def get_anysockaddr_def)
  moreover have "addrs s = addrs ((checkout w1 s1)\<lparr>remoteAddr := Some addr\<rparr>)"
    using *(3) create_TCB_addrs by (simp add: tcp_bind_def)
  ultimately have "named_socket d ((tcp_listen s)\<lparr>tcpMetrics := zero_tcp_metrics\<rparr>)"
    using s1 by (simp add: named_socket_def addrs_def tcp_listen_def on_tcb_def checkout_def load_iface_def)
  moreover have "tw_socket_list ?w d = []" using assms(2) by (simp add: init_anysockaddr_def)
  ultimately show ?thesis
    using ok any by (intro settle_new [OF ok *(1) *(4) refl refl refl]) (simp_all add: sockets_ok_def)
qed

end
