(* ===== verification/Tcp_Demux.thy ===== *)
theory Tcp_Demux
  imports Tcp_Sockets
begin

text \<open>
  The sockets of a device over all reachable states (\<open>TCP/TCP_Socket.c\<close>,
  \<open>TCP/TCP_ApplicationInterface.c\<close>, \<open>TCP/TCP.c\<close>): which socket a segment finds, how a connection
  is accepted, how all sockets are closed, and what a closed or reset connection leaves behind.
\<close>

section \<open>Reachable states\<close>

definition start_world :: TCP_WORLD where
  "start_world = \<lparr>tw_heap = (\<lambda>_. None), tw_next = 0, tw_socket_list = (\<lambda>_. []), tw_socket_id = 0,
     tw_interfaces = (\<lambda>_. []), tw_cubic = \<lparr>cube_rtt_scale = 0, beta_scale = 0, cube_factor = 0\<rparr>,
     tw_events = [], tw_errors = 0, tw_anySocketAddr = None\<rparr>"

text \<open>
  Devices are initialised once, the application puts packets into its interfaces, and the stack
  delivers events where they belong.
\<close>

inductive tcp_reach :: "TCP_WORLD \<Rightarrow> bool" where
  start: "tcp_reach start_world"
| init: "tcp_reach w \<Longrightarrow> tw_socket_list w d = [] \<Longrightarrow> tcp_init E d w = Some w' \<Longrightarrow> tcp_reach w'"
| data: "tcp_reach w \<Longrightarrow> tcp_reach (w\<lparr>tw_interfaces := ps\<rparr>)"
| run: "tcp_reach w \<Longrightarrow> event_placed E od w \<Longrightarrow> fn_NetSim_TCP_Run E od w = Some (i, w') \<Longrightarrow> tcp_reach w'"

lemma reach_ok: "tcp_reach w \<Longrightarrow> sockets_ok w"
proof (induction rule: tcp_reach.induct)
  case start
  show ?case by (simp add: sockets_ok_def list_ok_def start_world_def)
next
  case (init w d E w')
  from tcp_init_ok [OF init.IH init.hyps(2,3)] show ?case .
next
  case (data w ps)
  then show ?case by simp
next
  case (run w E od i w')
  from run_ok [OF run.IH run.hyps(3,2)] show ?case .
qed

section \<open>Finding the socket of a segment\<close>

text \<open>A socket with a local and a remote address.\<close>

definition has_addresses ::
  "NETSIM_SOCKET \<Rightarrow> NETSIM_IPAddress \<Rightarrow> u16 \<Rightarrow> NETSIM_IPAddress \<Rightarrow> u16 \<Rightarrow> bool" where
  "has_addresses s lip lport rip rport \<longleftrightarrow>
     (\<exists>l r. localAddr s = Some l \<and> remoteAddr s = Some r \<and> same_ip (sa_ip l) lip \<and> sa_port l = lport
       \<and> same_ip (sa_ip r) rip \<and> sa_port r = rport)"

lemma has_addresses_key:
  "has_addresses s lip lport rip rport \<longleftrightarrow>
     skey s = skey (tcp_create_socket_key \<lparr>sa_ip = lip, sa_port = lport\<rparr> \<lparr>sa_ip = rip, sa_port = rport\<rparr>)"
  by (auto simp: has_addresses_def skey_def tcp_create_socket_key_def addr_key_def same_ip_canon)

lemma find_socket_iff:
  assumes "sockets_ok w" and "GET_TCP_DEV_VAR E d \<noteq> None"
  obtains r where "find_socket E d lip rip lport rport w = Some r"
    and "\<And>h. r = Some h \<longleftrightarrow> h \<in> set (tw_socket_list w d) \<and> (\<exists>s. deref w h = Some s \<and> has_addresses s lip lport rip rport)"
proof -
  let ?k = "tcp_create_socket_key \<lparr>sa_ip = lip, sa_port = lport\<rparr> \<lparr>sa_ip = rip, sa_port = rport\<rparr>"
  note l = sockets_ok_list [OF assms(1), of d]
  let ?r = "find (\<lambda>h. ptr_key w h = Some (skey ?k)) (tw_socket_list w d)"
  have "?r = Some h \<longleftrightarrow> h \<in> set (tw_socket_list w d) \<and> ptr_key w h = Some (skey ?k)" for h
    using find_own [OF l] find_SomeD by fast
  then show thesis
    using that [of ?r] by (simp add: find_socket_def find_socket_list_eq [OF l assms(2)] ptr_key_def has_addresses_key)
qed

text \<open>C22: the sockets of a device are told apart by their addresses: in every reachable state the
  search for a pair of addresses on the list of a device returns a socket exactly when the socket is
  on the list and has these addresses; so no two sockets of a list have the same addresses.  Every
  socket on the list is allocated, belongs to the device and has both addresses.\<close>

theorem socket_search_exact:
  assumes "tcp_reach w" and "GET_TCP_DEV_VAR E d \<noteq> None"
  shows "(\<forall>h \<in> set (tw_socket_list w d). \<exists>s. deref w h = Some s \<and> localDeviceId s = d
        \<and> localAddr s \<noteq> None \<and> remoteAddr s \<noteq> None)
    \<and> (\<exists>r. find_socket E d lip rip lport rport w = Some r
        \<and> (\<forall>h. r = Some h \<longleftrightarrow> h \<in> set (tw_socket_list w d)
              \<and> (\<exists>s. deref w h = Some s \<and> has_addresses s lip lport rip rport)))"
proof (rule conjI)
  note ok = reach_ok [OF assms(1)]
  show "\<forall>h \<in> set (tw_socket_list w d). \<exists>s. deref w h = Some s \<and> localDeviceId s = d
        \<and> localAddr s \<noteq> None \<and> remoteAddr s \<noteq> None"
    using list_ok_deref [OF sockets_ok_list [OF ok], of _ d] by (fastforce simp: named_socket_def)
  from find_socket_iff [OF ok assms(2), of lip rip lport rport]
  show "\<exists>r. find_socket E d lip rip lport rport w = Some r
        \<and> (\<forall>h. r = Some h \<longleftrightarrow> h \<in> set (tw_socket_list w d)
              \<and> (\<exists>s. deref w h = Some s \<and> has_addresses s lip lport rip rport))" by metis
qed

section \<open>Closing all sockets of a device\<close>

definition closable :: "TCP_WORLD \<Rightarrow> NETSIM_ID \<Rightarrow> bool" where
  "closable w d \<longleftrightarrow> (\<forall>h \<in> set (tw_socket_list w d). \<forall>s. tw_heap w h = Some (Live s) \<longrightarrow>
     tq_queue (retransmissionQueue (tcb s)) \<noteq> None)"

lemma close_one:
  assumes "sockets_ok w" and "h \<in> set (tw_socket_list w d)" and "GET_TCP_DEV_VAR E d \<noteq> None"
    and "\<And>s. tw_heap w h = Some (Live s) \<Longrightarrow> tq_queue (retransmissionQueue (tcb s)) \<noteq> None"
  shows "\<exists>w' t. close_socket_ptr E d h w = Some w' \<and> sockets_ok w'
    \<and> tw_heap w' = (tw_heap w)(h \<mapsto> Freed d t)
    \<and> tw_socket_list w' = (tw_socket_list w)(d := remove1 h (tw_socket_list w d))"
proof -
  obtain s where s: "deref w h = Some s" "named_socket d s"
    using list_ok_deref [OF sockets_ok_list [OF assms(1)] assms(2)] by blast
  have *: "\<exists>w'. settle E h (Freed d t) w = Some w' \<and> sockets_ok w'
    \<and> tw_heap w' = (tw_heap w)(h \<mapsto> Freed d t)
    \<and> tw_socket_list w' = (tw_socket_list w)(d := remove1 h (tw_socket_list w d))" if "addrs t = addrs s" for t
    using settle_freed [OF assms(1,2) s(1) that assms(3)] settle_freed_ok [OF assms(1,2) s(1) that] by simp
  show ?thesis
  proof (cases "tw_heap w h")
    case (Some r)
    then show ?thesis
    proof (cases r)
      case (Live x)
      with Some s have x: "x = s" by (simp add: deref_def)
      from assms(4) Some Live x obtain cs where "tq_queue (retransmissionQueue (tcb s)) = Some cs" by auto
      moreover have "localAddr (checkout w s) = localAddr s" "remoteAddr (checkout w s) = remoteAddr s"
        "tcb (checkout w s) = tcb s"
        by (simp_all add: checkout_def load_iface_def)
      ultimately have "tcp_close_socket d (checkout w s)
          = Some (Freed d (on_tcb (tcp_change_state TCPCONNECTION_CLOSED) (checkout w s)))"
        using s(2) by (auto simp: tcp_close_socket_def free_tcb_def free_queue_def named_socket_def
            tcp_change_state_def Let_def split: list.splits)
      with Some Live x * [of "on_tcb (tcp_change_state TCPCONNECTION_CLOSED) (checkout w s)"]
      show ?thesis by (auto simp: close_socket_ptr_def)
    next
      case (NoTcb x)
      with Some s have "x = s" by (simp add: deref_def)
      with Some NoTcb s(2) * [of "checkout w s"] show ?thesis
        by (auto simp: close_socket_ptr_def named_socket_def)
    qed (use Some s in \<open>simp add: deref_def\<close>)
  qed (use s in \<open>simp add: deref_def\<close>)
qed


section \<open>A connection that is over\<close>

text \<open>once the control block of a connection is deleted, its socket stays on the list and
  blocks the addresses: every segment for them is dropped, a SYN for a new connection included,
  and data from the application is either left where it is or, if the socket was waiting for data,
  sent through the null control block.\<close>

theorem closed_socket_blocks_addresses:
  assumes "sockets_ok w" and "h \<in> set (tw_socket_list w d)" and "tw_heap w h = Some (NoTcb s)"
    and "GET_TCP_DEV_VAR E d \<noteq> None"
  shows "(te_pPacket (tev E) = Some p \<and> get_first_dest_from_packet E p = d
        \<and> has_addresses s (tp_szDestIP p) (tp_nDestinationPort p) (tp_szSourceIP p) (tp_nSourcePort p)
      \<longrightarrow> segment_from_network E w = Some w)
    \<and> (GET_PACKET_FROM_APP E (iface_of od) False (tw_interfaces w) = (Some q, tw_interfaces w)
        \<and> tp_nSourceId q = d
        \<and> has_addresses s (tp_szSourceIP q) (tp_nSourcePort q) (tp_szDestIP q) (tp_nDestinationPort q)
      \<longrightarrow> packet_arrive_from_application_layer E od w = (if waitFromApp s then None else Some (0, w)))"
proof -
  note ok = assms(1)
  have "find_socket E d lip rip lport rport w = Some (Some h)" if "has_addresses s lip lport rip rport" for lip rip lport rport
    using that heap_deref(2) [OF assms(3)] assms(2) by (metis find_socket_iff [OF ok assms(4)])
  with assms(3) show ?thesis
    by (auto simp: segment_from_network_def find_socket_at_dest_def packet_arrive_from_application_layer_def
        find_socket_at_source_def deref_def send_waiting_def Let_def)
qed

section \<open>Accepting a connection\<close>

lemma rcv_SYN_tcb:
  assumes "rcv_SYN E p s = Some n"
  shows "tcp_state (tcb n) = TCPCONNECTION_SYN_RECEIVED \<and> RCV_NXT (tcb n) = SEG_SEQ (tcb s) + 1"
proof -
  have m: "RCV_NXT (tcb u') = RCV_NXT (tcb u)" if "congestion_set_MSS E k u = Some u'" for k u u'
    using that by (auto simp: congestion_set_MSS_def congestion_set_IW_def set_cwnd_def Let_def
        elim!: bind_SomeE split: if_splits)
  have t: "tcp_state (tcb u') = tcp_state (tcb u) \<and> RCV_NXT (tcb u') = RCV_NXT (tcb u)"
    if "send_with_timeout E q u = Some u'" for q u u'
    using that by (auto simp: send_with_timeout_def add_timeout_event_def Let_def elim!: bind_SomeE)
  have w: "RCV_NXT (set_window_scaling x v) = RCV_NXT v" "RCV_NXT (set_timestamp_value h y v) = RCV_NXT v" for x v h y
    by (simp_all add: set_window_scaling_def set_timestamp_value_def Let_def split: option.splits)
  show ?thesis
    using assms
    by (auto simp: rcv_SYN_def tcp_change_state_def w Let_def elim!: bind_SomeE
        split: option.splits if_splits dest!: t m)
qed

lemma tcp_accept_tcb:
  assumes "tcp_accept E sid p s = Some n"
  shows "tcp_state (tcb n) = TCPCONNECTION_SYN_RECEIVED \<and> RCV_NXT (tcb n) = SEG_SEQ (tcb s) + 1"
  using assms by (auto simp: tcp_accept_def tcp_passive_open_def tcp_change_state_def Let_def elim!: bind_SomeE
      dest!: rcv_SYN_tcb)

text \<open>A SYN at a listening socket.\<close>

lemma listen_accepts:
  assumes "packet_arrive_from_network_layer E i p (Live s) = Some (r, n)"
    and "tcp_state (tcb s) = TCPCONNECTION_LISTEN" and "listen_callback s"
    and "IRS (tcb s) = 0" and "RCV_NXT (tcb s) = 0"
    and "Syn (TCP_GET_SEGMENT_HDR p)" and "\<not> Ack (TCP_GET_SEGMENT_HDR p)" and "\<not> Rst (TCP_GET_SEGMENT_HDR p)"
  shows "\<exists>m. r = Live (update_seq_num_on_receiving s p) \<and> n = Some m
    \<and> tcp_accept E i p (update_seq_num_on_receiving s p) = Some m"
proof -
  let ?u = "update_seq_num_on_receiving s p"
  have "tcp_state (tcb ?u) = TCPCONNECTION_LISTEN" "listen_callback ?u" "IRS (tcb ?u) = 0" "RCV_NXT (tcb ?u) = 0"
    using assms(2-5) by (simp_all add: update_seq_num_on_receiving_def on_tcb_def Let_def)
  with assms(1,6-8) show ?thesis
    by (auto simp: packet_arrive_from_network_layer_def packet_arrives_at_listen_state_def process_syn_def
        fnListenCallback_def Let_def split: if_splits)
qed

lemma enter_accepted_world:
  assumes "sockets_ok w" and "enter_accepted E (Some n) w = Some w'" and "te_nDeviceId (tev E) = d"
  obtains m where "tw_heap w' = (tw_heap w)(tw_next w \<mapsto> Live m)"
    and "tw_socket_list w' = (tw_socket_list w)(d := tw_socket_list w d @ [tw_next w])"
    and "addrs m = addrs n" and "tcb m = tcb n"
proof -
  obtain h s0 w1 where *: "new_socket E d w = Some (h, s0, w1)"
      "settle E h (Live (load_iface w1 n)) w1 = Some w'"
    using assms(2,3) by (auto simp: enter_accepted_def elim!: bind_SomeE)
  then have "GET_TCP_DEV_VAR E d \<noteq> None"
    by (auto simp: new_socket_def add_to_socket_list_def find_socket_list_def Let_def elim!: bind_SomeE)
  from new_socket_eq [OF assms(1) this] * that [of "load_iface w1 n"] show thesis
    by (auto simp: settle_def load_iface_def Let_def)
qed

text \<open>C24: a SYN for a listening device opens a connection of its own: a new socket enters the end of
  the device's list in the state SYN-RECEIVED, expecting the byte after the SYN; from then on
  segments with these addresses find the new socket, and the listening socket goes on listening.\<close>

theorem accepted_socket_is_found:
  assumes "tcp_reach w" and "segment_from_network E w = Some w'"
    and "te_pPacket (tev E) = Some p" and "get_first_dest_from_packet E p = d" and "te_nDeviceId (tev E) = d"
    and "tp_nSourcePort p \<noteq> 0"
    and "find_socket_at_dest E p w = Some (Some h)" and "tw_heap w h = Some (Live s)"
    and "tcp_state (tcb s) = TCPCONNECTION_LISTEN" and "listen_callback s"
    and "IRS (tcb s) = 0" and "RCV_NXT (tcb s) = 0"
    and "Syn (tp_hdr p)" and "\<not> Ack (tp_hdr p)" and "\<not> Rst (tp_hdr p)"
  shows "\<exists>n s'. tw_heap w' (tw_next w) = Some (Live n)
    \<and> tw_socket_list w' = (tw_socket_list w)(d := tw_socket_list w d @ [tw_next w])
    \<and> find_socket_at_dest E p w' = Some (Some (tw_next w))
    \<and> tcp_state (tcb n) = TCPCONNECTION_SYN_RECEIVED \<and> RCV_NXT (tcb n) = SeqNum (tp_hdr p) + 1
    \<and> tw_heap w' h = Some (Live s') \<and> tcp_state (tcb s') = TCPCONNECTION_LISTEN"
proof -
  note ok = reach_ok [OF assms(1)]
  let ?s = "checkout w s"
  let ?u = "update_seq_num_on_receiving ?s p"
  have c: "tcb ?s = tcb s" "listen_callback ?s = listen_callback s" by (simp_all add: checkout_def load_iface_def)
  obtain r n0 w1 where r: "packet_arrive_from_network_layer E (tw_socket_id w + 1) p (Live ?s) = Some (r, n0)"
      "settle E h r w = Some w1" "enter_accepted E n0 w1 = Some w'"
    using assms(2,3,7,8) by (auto simp: segment_from_network_def elim!: bind_SomeE)
  obtain n where n: "r = Live ?u" "n0 = Some n" "tcp_accept E (tw_socket_id w + 1) p ?u = Some n"
    using listen_accepts [OF r(1)] assms(9-15) c by auto
  have dr: "deref w h = Some s" using heap_deref(1) [OF assms(8)] .
  have a: "addrs ?u = addrs s" using arrive_addrs [OF r(1)] n(1) by simp
  have w1: "sockets_ok w1"
    using settle_ok [OF ok dr r(2)] n(1) a by simp
  have h1: "tw_heap w1 = (tw_heap w)(h \<mapsto> Live ?u)" "tw_next w1 = tw_next w" "tw_socket_list w1 = tw_socket_list w"
    using r(2) n(1) by (auto simp: settle_def Let_def)
  obtain m where m: "tw_heap w' = (tw_heap w1)(tw_next w \<mapsto> Live m)"
      "tw_socket_list w' = (tw_socket_list w)(d := tw_socket_list w d @ [tw_next w])" "addrs m = addrs n" "tcb m = tcb n"
    using enter_accepted_world [OF w1 r(3) [unfolded n(2)] assms(5)] h1 by metis
  have hn: "h \<noteq> tw_next w" using deref_less [OF ok dr] by simp
  have tc: "tcp_state (tcb ?u) = TCPCONNECTION_LISTEN" "SEG_SEQ (tcb ?u) = SeqNum (tp_hdr p)"
    using assms(9) c by (simp_all add: update_seq_num_on_receiving_def Let_def)
  have w': "sockets_ok w'"
    using network_in_ok [OF ok assms(2,3)] assms(4-6) by simp
  have "GET_TCP_DEV_VAR E d \<noteq> None"
    using assms(4,7) by (auto simp: find_socket_at_dest_def find_socket_def find_socket_list_def elim!: bind_SomeE)
  moreover have "has_addresses m (tp_szDestIP p) (tp_nDestinationPort p) (tp_szSourceIP p) (tp_nSourcePort p)"
    using tcp_accept_addrs [OF n(3)] m(3) by (simp add: addrs_def has_addresses_def compare_socketaddr_def)
  moreover have "deref w' (tw_next w) = Some m" by (simp add: deref_def m(1))
  ultimately have "find_socket E d (tp_szDestIP p) (tp_szSourceIP p) (tp_nDestinationPort p) (tp_nSourcePort p) w'
      = Some (Some (tw_next w))"
    using find_socket_iff [OF w', of E d "tp_szDestIP p" "tp_szSourceIP p" "tp_nDestinationPort p" "tp_nSourcePort p"] m(2)
    by (metis fun_upd_same in_set_conv_decomp)
  with assms(4) have "find_socket_at_dest E p w' = Some (Some (tw_next w))" by (simp add: find_socket_at_dest_def)
  then show ?thesis
    using m h1 hn tc tcp_accept_tcb [OF n(3)] by auto
qed

section \<open>A listening device\<close>

definition demo_syn :: TCP_PACKET where
  "demo_syn = (demo_segment 7 0)\<lparr>tp_hdr := (demo_hdr 7)\<lparr>Syn := True\<rparr>, tp_appData := None, tp_nSourceId := 2,
     tp_destList := [1], tp_szSourceIP := mk_ip4 2, tp_szDestIP := mk_ip4 1, tp_nSourcePort := 5000\<rparr>"

definition demo_syn_env :: TCP_ENV where
  "demo_syn_env = demo_env\<lparr>tev := demo_tev\<lparr>te_pPacket := Some demo_syn\<rparr>\<rparr>"

lemma demo_env_sel [simp]:
  "GET_TCP_DEV_VAR demo_env d = Some demo_dev_var" "DEVICE_NWADDRESS demo_env d i = mk_ip4 (of_nat d)"
  "STR_TO_IP demo_env x k = mk_ip4 0" "get_first_dest_from_packet demo_env p = hd (tp_destList p)"
  "GET_TCP_DEV_VAR demo_syn_env d = Some demo_dev_var"
  "DEVICE_NWADDRESS demo_syn_env d i = mk_ip4 (of_nat d)"
  "get_first_dest_from_packet demo_syn_env p = hd (tp_destList p)"
  "te_pPacket (tev demo_syn_env) = Some demo_syn" "te_nDeviceId (tev demo_syn_env) = 1"
  by (simp_all add: demo_env_def demo_syn_env_def demo_tev_def)

lemma demo_create:
  assumes "GET_TCP_DEV_VAR E (localDeviceId s) = Some demo_dev_var"
  shows "\<exists>s'. create_TCB E s = Some s' \<and> IRS (tcb s') = 0 \<and> RCV_NXT (tcb s') = 0"
  using assms
  by (simp add: create_TCB_def set_tcp_variant_def congestion_setcallback_def init_congestionalgo_def
      init_congestion_def set_ssthres_def isNewReno_def isBIC_def isFastRetransmit_def demo_dev_var_def
      set_timestamp_option_def set_window_scaling_option_def setSackPermitted_def set_ack_type_def
      calculate_RTO_def zero_tcb_def on_tcb_def on_cv_def Let_def)

lemma demo_init:
  obtains w s where "tcp_init demo_env 1 start_world = Some w" and "tw_next w = 1"
    and "tw_socket_list w = (\<lambda>_. [])(1 := [0])" and "tw_heap w 0 = Some (Live s)"
    and "tw_anySocketAddr w = Some \<lparr>sa_ip = mk_ip4 0, sa_port = 0\<rparr>"
    and "localAddr s = Some \<lparr>sa_ip = mk_ip4 1, sa_port = 0\<rparr>"
    and "remoteAddr s = Some \<lparr>sa_ip = mk_ip4 0, sa_port = 0\<rparr>" and "listen_callback s"
    and "tcp_state (tcb s) = TCPCONNECTION_LISTEN" and "IRS (tcb s) = 0" and "RCV_NXT (tcb s) = 0"
    and "tq_queue (retransmissionQueue (tcb s)) = Some []"
proof -
  let ?w = "init_anysockaddr demo_env start_world"
  have "sockets_ok ?w" by (simp add: sockets_ok_def list_ok_def start_world_def init_anysockaddr_def)
  from new_socket_eq [OF this, of demo_env 1]
  obtain w1 where w1: "new_socket demo_env 1 ?w = Some (0, tcp_create_socket 1, w1)" "tw_next w1 = 1"
      "tw_socket_list w1 = (\<lambda>_. [])(1 := [0])" "tw_anySocketAddr w1 = Some \<lparr>sa_ip = mk_ip4 0, sa_port = 0\<rparr>"
    by (auto simp: start_world_def init_anysockaddr_def)
  let ?s = "(tcp_create_socket 1)\<lparr>localAddr := Some \<lparr>sa_ip = mk_ip4 1, sa_port = 0\<rparr>, localDeviceId := 1\<rparr>"
  let ?b = "(checkout w1 ?s)\<lparr>remoteAddr := Some \<lparr>sa_ip = mk_ip4 0, sa_port = 0\<rparr>\<rparr>"
  obtain s where s: "create_TCB demo_env ?b = Some s" "IRS (tcb s) = 0" "RCV_NXT (tcb s) = 0"
    using demo_create [of demo_env ?b] by auto
  have c: "core s = (TCPCONNECTION_CLOSED, zero_queue, zero_queue, addrs ?b)" using create_TCB_core [OF s(1)] .
  let ?l = "(tcp_listen s)\<lparr>tcpMetrics := zero_tcp_metrics\<rparr>"
  have "tcp_init demo_env 1 start_world = settle demo_env 0 (Live ?l) w1"
    using w1 s(1) unfolding tcp_init_def
    by (simp add: get_anysockaddr_def start_world_def init_anysockaddr_def tcp_bind_def)
  then obtain w where "tcp_init demo_env 1 start_world = Some w" "tw_heap w 0 = Some (Live ?l)" "tw_next w = 1"
    "tw_socket_list w = (\<lambda>_. [])(1 := [0])" "tw_anySocketAddr w = Some \<lparr>sa_ip = mk_ip4 0, sa_port = 0\<rparr>"
    using w1 by (auto simp: settle_def Let_def)
  then show thesis
    using c s(2,3)
    by (intro that [of w ?l]) (auto simp: core_def addrs_def tcp_listen_def on_tcb_def tcp_change_state_def
        checkout_def load_iface_def zero_queue_def)
qed

lemma rcv_SYN_total:
  assumes "th_option (tp_hdr p) = []" and "localAddr s \<noteq> None" and "remoteAddr s \<noteq> None"
    and "queue_ok (retransmissionQueue (tcb s))"
  shows "\<exists>n. rcv_SYN E p s = Some n"
proof -
  have t: "\<exists>u'. send_with_timeout E q u = Some u'" if "queue_ok (retransmissionQueue (tcb u))" for q u
    using add_packet_to_queue_total [OF that, of "stamped E q" "now E"]
    by (auto simp: send_with_timeout_def add_timeout_event_def Let_def)
  have o: "get_tcp_option (tp_hdr p) ty = None" for ty using assms(1) by (simp add: get_tcp_option_def)
  have q: "\<exists>q. create_synAck E u x = Some q" if "addrs u = addrs s" for u x
    using that assms(2,3) by (auto simp: create_synAck_def ctrl_packet_def create_tcp_ctrl_packet_def addrs_def Let_def)
  have b: "\<exists>n. Option.bind m f = Some n" if "\<exists>q. m = Some q" "\<And>q. \<exists>n. f q = Some n"
    for m :: "TCP_PACKET option" and f :: "TCP_PACKET \<Rightarrow> NETSIM_SOCKET option"
    using that by auto
  show ?thesis
    unfolding rcv_SYN_def Let_def o by (auto intro!: b q t simp: assms(4))
qed

lemma demo_syn_sel [simp]:
  "th_option (tp_hdr demo_syn) = []" "Syn (tp_hdr demo_syn)" "\<not> Ack (tp_hdr demo_syn)" "\<not> Rst (tp_hdr demo_syn)"
  "tp_destList demo_syn = [1]" "tp_nSourceId demo_syn = 2" "tp_nSourcePort demo_syn = 5000"
  "tp_nDestinationPort demo_syn = 80" "tp_szSourceIP demo_syn = mk_ip4 2" "tp_szDestIP demo_syn = mk_ip4 1"
  "SeqNum (tp_hdr demo_syn) = 7"
  by (simp_all add: demo_syn_def demo_hdr_def zero_hdr_def demo_segment_def)

lemma demo_accept: "\<exists>n. tcp_accept demo_syn_env i demo_syn u = Some n"
proof -
  let ?n = "(tcp_create_socket i)\<lparr>cubicStatics := cubicStatics u, localDeviceId := 1, remoteDeviceId := 2,
    localAddr := Some \<lparr>sa_ip = mk_ip4 1, sa_port = 80\<rparr>, remoteAddr := Some \<lparr>sa_ip = mk_ip4 2, sa_port = 5000\<rparr>,
    sId := GetSocketInterface demo_syn_env 1 80 5000\<rparr>"
  obtain n where n: "create_TCB demo_syn_env ?n = Some n" using demo_create [of demo_syn_env ?n] by auto
  then have "core n = (TCPCONNECTION_CLOSED, zero_queue, zero_queue, addrs ?n)" by (rule create_TCB_core)
  with n show ?thesis
    by (auto simp: tcp_accept_def tcp_passive_open_def core_def addrs_def tcp_change_state_def Let_def
        intro!: rcv_SYN_total)
qed

lemma demo_run:
  assumes "tw_socket_list w = (\<lambda>_. [])(1 := [0])" and "tw_heap w 0 = Some (Live s)"
    and "tw_anySocketAddr w = Some \<lparr>sa_ip = mk_ip4 0, sa_port = 0\<rparr>"
    and "localAddr s = Some \<lparr>sa_ip = mk_ip4 1, sa_port = 0\<rparr>"
    and "remoteAddr s = Some \<lparr>sa_ip = mk_ip4 0, sa_port = 0\<rparr>" and "listen_callback s"
    and "tcp_state (tcb s) = TCPCONNECTION_LISTEN" and "IRS (tcb s) = 0" and "RCV_NXT (tcb s) = 0"
    and "sockets_ok w"
  shows "find_socket_at_dest demo_syn_env demo_syn w = Some (Some 0) \<and> (\<exists>w'. segment_from_network demo_syn_env w = Some w')"
proof -
  have f: "find_socket_at_dest demo_syn_env demo_syn w = Some (Some 0)"
    using assms by (simp add: find_socket_at_dest_def find_socket_def find_socket_list_def get_Remotesocket_def
        deref_def compare_socket_def compare_socketaddr_def tcp_create_socket_key_def isSynPacket_def)
  let ?u = "update_seq_num_on_receiving (checkout w s) demo_syn"
  obtain n where n: "tcp_accept demo_syn_env (tw_socket_id w + 1) demo_syn ?u = Some n"
    using demo_accept by blast
  have "packet_arrive_from_network_layer demo_syn_env (tw_socket_id w + 1) demo_syn (Live (checkout w s))
      = Some (Live ?u, Some n)"
    using assms(4-9) n
    by (simp add: packet_arrive_from_network_layer_def packet_arrives_at_listen_state_def process_syn_def
        fnListenCallback_def update_seq_num_on_receiving_def checkout_def load_iface_def on_tcb_def Let_def)
  moreover obtain w1 where w1: "settle demo_syn_env 0 (Live ?u) w = Some w1" by (auto simp: settle_def Let_def)
  moreover have "sockets_ok w1"
    using settle_ok [OF assms(10) heap_deref(1) [OF assms(2)] w1] arrive_addrs [OF calculation(1)] by simp
  then have "\<exists>w'. enter_accepted demo_syn_env (Some n) w1 = Some w'"
    using new_socket_eq [of w1 demo_syn_env 1] by (simp add: enter_accepted_def settle_def Let_def)
  ultimately show ?thesis using f assms(2) by (simp add: segment_from_network_def)
qed


theorem socket_search_exact_witness:
  "\<exists>w. tcp_init demo_env 1 start_world = Some w
    \<and> find_socket demo_env 1 (mk_ip4 1) (mk_ip4 0) 0 0 w = Some (Some 0)"
proof -
  obtain w s where w: "tcp_init demo_env 1 start_world = Some w" "tw_socket_list w = (\<lambda>_. [])(1 := [0])"
      "tw_heap w 0 = Some (Live s)" "localAddr s = Some \<lparr>sa_ip = mk_ip4 1, sa_port = 0\<rparr>"
      "remoteAddr s = Some \<lparr>sa_ip = mk_ip4 0, sa_port = 0\<rparr>"
    by (rule demo_init)
  have "tcp_reach w" by (rule tcp_reach.init [OF tcp_reach.start _ w(1)]) (simp add: start_world_def)
  from socket_search_exact [OF this, of demo_env 1 "mk_ip4 1" "mk_ip4 0" 0 0]
  obtain r where r: "find_socket demo_env 1 (mk_ip4 1) (mk_ip4 0) 0 0 w = Some r"
      "\<And>h. r = Some h \<longleftrightarrow> h \<in> set (tw_socket_list w 1)
        \<and> (\<exists>s. deref w h = Some s \<and> has_addresses s (mk_ip4 1) 0 (mk_ip4 0) 0)"
    by auto
  have "r = Some 0"
    using w(2-5) by (simp add: r(2) deref_def has_addresses_def compare_socketaddr_def)
  with r(1) w(1) show ?thesis by blast
qed


theorem accepted_socket_is_found_witness:
  "\<exists>w w' n. tcp_init demo_env 1 start_world = Some w \<and> segment_from_network demo_syn_env w = Some w'
    \<and> tw_heap w' 1 = Some (Live n) \<and> RCV_NXT (tcb n) = 8
    \<and> find_socket_at_dest demo_syn_env demo_syn w' = Some (Some 1)"
proof -
  obtain w s where w: "tcp_init demo_env 1 start_world = Some w" "tw_next w = 1"
      "tw_socket_list w = (\<lambda>_. [])(1 := [0])" "tw_heap w 0 = Some (Live s)"
      "tw_anySocketAddr w = Some \<lparr>sa_ip = mk_ip4 0, sa_port = 0\<rparr>"
      "localAddr s = Some \<lparr>sa_ip = mk_ip4 1, sa_port = 0\<rparr>"
      "remoteAddr s = Some \<lparr>sa_ip = mk_ip4 0, sa_port = 0\<rparr>" "listen_callback s"
      "tcp_state (tcb s) = TCPCONNECTION_LISTEN" "IRS (tcb s) = 0" "RCV_NXT (tcb s) = 0"
    by (rule demo_init)
  have reach: "tcp_reach w" by (rule tcp_reach.init [OF tcp_reach.start _ w(1)]) (simp add: start_world_def)
  obtain w' where w': "segment_from_network demo_syn_env w = Some w'"
    and f: "find_socket_at_dest demo_syn_env demo_syn w = Some (Some 0)"
    using demo_run [OF w(3-11) reach_ok [OF reach]] by blast
  show ?thesis
    using accepted_socket_is_found [OF reach w' _ _ _ _ f w(4,9,8,10,11), of 1] w(1,2) w' by auto
qed

section \<open>A reset in TIME-WAIT\<close>

text \<open>A device with one socket.\<close>

definition demo_tcp_world :: "SOCKET_REF \<Rightarrow> TCP_WORLD" where
  "demo_tcp_world r = start_world\<lparr>tw_heap := (\<lambda>_. None)(0 \<mapsto> r), tw_next := 1, tw_socket_list := (\<lambda>_. [])(1 := [0])\<rparr>"

lemma demo_tcp_world_ok: "named_socket 1 s \<Longrightarrow> r = Live s \<or> r = NoTcb s \<Longrightarrow> sockets_ok (demo_tcp_world r)"
  by (auto simp: sockets_ok_def list_ok_def demo_tcp_world_def start_world_def deref_def)

text \<open>C35: a reset that is acceptable in TIME-WAIT frees the socket, although the time-wait timer
  holds a pointer to it: when the timer expires it follows the pointer into freed memory.\<close>

theorem reset_in_time_wait_dangles:
  assumes "sockets_ok w" and "te_pPacket (tev E) = Some p"
    and "find_socket_at_dest E p w = Some (Some h)" and "tw_heap w h = Some (Live s)"
    and "tcp_state (tcb s) = TCPCONNECTION_TIME_WAIT" and "Rst (tp_hdr p)"
    and "Validate_segment (tcb (update_seq_num_on_receiving s p))"
    and "tq_queue (retransmissionQueue (tcb s)) \<noteq> None"
  shows "\<exists>w'. segment_from_network E w = Some w' \<and> (\<forall>E'. time_wait_event E' (OfSocket h) w' = None)"
proof -
  let ?d = "get_first_dest_from_packet E p" and ?s = "checkout w s"
  let ?u = "update_seq_num_on_receiving ?s p"
  let ?t = "on_tcb (tcp_change_state TCPCONNECTION_CLOSED) ?u"
  have dr: "deref w h = Some s" using heap_deref(1) [OF assms(4)] .
  have h: "h \<in> set (tw_socket_list w ?d)" by (rule find_at_dest_cases(1) [OF assms(3,1) dr refl])
  have n: "named_socket ?d s" using list_ok_deref [OF sockets_ok_list [OF assms(1)] h] dr by simp
  have t: "tcb ?s = tcb s" "tcb ?u = tcb (update_seq_num_on_receiving s p)"
    by (simp_all add: checkout_def load_iface_def update_seq_num_on_receiving_def Let_def)
  have a: "addrs ?u = addrs s" "localDeviceId ?u = ?d"
    using n by (simp_all add: update_seq_num_on_receiving_def addrs_def named_socket_def checkout_def load_iface_def
        on_tcb_def Let_def)
  have q: "tcp_state (tcb ?u) = TCPCONNECTION_TIME_WAIT" "retransmissionQueue (tcb ?u) = retransmissionQueue (tcb s)"
    using assms(5) t by (simp_all add: update_seq_num_on_receiving_def Let_def)
  have "localAddr ?u = localAddr s" "remoteAddr ?u = remoteAddr s" using a(1) by (simp_all add: addrs_def)
  then have "tcp_close_socket ?d ?u = Some (Freed ?d ?t)"
    using n assms(8) q
    by (auto simp: tcp_close_socket_def free_tcb_def free_queue_def named_socket_def tcp_change_state_def Let_def
        split: list.splits)
  then have r: "packet_arrive_from_network_layer E i p (Live ?s) = Some (Freed ?d ?t, None)" for i
    using assms(6,7) q(1) a(2)
    by (simp add: packet_arrive_from_network_layer_def packet_arrives_at_incoming_tcp_def process_rst_packet_def t Let_def)
  have "GET_TCP_DEV_VAR E ?d \<noteq> None"
    using assms(3) by (auto simp: find_socket_at_dest_def find_socket_def find_socket_list_def elim!: bind_SomeE)
  from settle_freed [OF assms(1) h dr _ this, of ?t] a(1)
  obtain w' where "settle E h (Freed ?d ?t) w = Some w'" "tw_heap w' h = Some (Freed ?d ?t)" by simp
  then show ?thesis
    using assms(2-4) r by (simp add: segment_from_network_def enter_accepted_def time_wait_event_def)
qed


definition demo_rst :: TCP_PACKET where
  "demo_rst = (demo_segment 1 0)\<lparr>tp_hdr := (demo_hdr 1)\<lparr>Rst := True\<rparr>, tp_destList := [1]\<rparr>"

definition demo_time_wait :: NETSIM_SOCKET where
  "demo_time_wait = on_tcb (\<lambda>t. t\<lparr>tcp_state := TCPCONNECTION_TIME_WAIT\<rparr>) demo_socket"

definition demo_rst_env :: TCP_ENV where
  "demo_rst_env = demo_env\<lparr>tev := demo_tev\<lparr>te_pPacket := Some demo_rst\<rparr>\<rparr>"

lemma demo_rst_sel [simp]:
  "Rst (tp_hdr demo_rst)" "\<not> Syn (tp_hdr demo_rst)" "tp_destList demo_rst = [1]"
  "tp_szDestIP demo_rst = sa_ip demo_addr" "tp_szSourceIP demo_rst = sa_ip demo_addr"
  "tp_nSourcePort demo_rst = 80" "tp_nDestinationPort demo_rst = 80"
  "te_pPacket (tev demo_rst_env) = Some demo_rst" "GET_TCP_DEV_VAR demo_rst_env d = Some demo_dev_var"
  "get_first_dest_from_packet demo_rst_env p = hd (tp_destList p)"
  by (simp_all add: demo_rst_def demo_rst_env_def demo_env_def demo_hdr_def zero_hdr_def demo_segment_def)

lemma demo_rst_found:
  assumes "r = Live s \<or> r = NoTcb s" and "localAddr s = Some demo_addr" and "remoteAddr s = Some demo_addr"
  shows "find_socket_at_dest demo_rst_env demo_rst (demo_tcp_world r) = Some (Some 0)"
  using assms by (auto simp: find_socket_at_dest_def find_socket_def find_socket_list_def demo_tcp_world_def deref_def
      compare_socket_def compare_socketaddr_def tcp_create_socket_key_def) (simp_all add: demo_addr_def)

theorem reset_in_time_wait_dangles_witness:
  "\<exists>w'. segment_from_network demo_rst_env (demo_tcp_world (Live demo_time_wait)) = Some w'
    \<and> time_wait_event demo_env (OfSocket 0) w' = None"
proof -
  have "sockets_ok (demo_tcp_world (Live demo_time_wait))"
    by (rule demo_tcp_world_ok) (simp_all add: named_socket_def demo_time_wait_def demo_socket_def
        tcp_create_socket_def on_tcb_def)
  moreover have "find_socket_at_dest demo_rst_env demo_rst (demo_tcp_world (Live demo_time_wait)) = Some (Some 0)"
    by (rule demo_rst_found [of _ demo_time_wait]) (simp_all add: demo_time_wait_def demo_socket_def tcp_create_socket_def on_tcb_def)
  moreover have "Validate_segment (tcb (update_seq_num_on_receiving demo_time_wait demo_rst))"
    by (simp add: Validate_segment_def update_seq_num_on_receiving_def demo_time_wait_def demo_socket_def
        demo_tcb_def zero_tcb_def demo_rst_def demo_hdr_def zero_hdr_def get_seg_len_def demo_segment_def on_tcb_def Let_def)
  ultimately show ?thesis
    using reset_in_time_wait_dangles [of "demo_tcp_world (Live demo_time_wait)" demo_rst_env demo_rst 0 demo_time_wait]
    by (auto simp: demo_tcp_world_def demo_time_wait_def demo_socket_def demo_tcb_def zero_tcb_def zero_queue_def on_tcb_def)
qed


theorem closed_socket_blocks_addresses_witness:
  "segment_from_network demo_rst_env (demo_tcp_world (NoTcb demo_time_wait)) = Some (demo_tcp_world (NoTcb demo_time_wait))"
proof -
  let ?w = "demo_tcp_world (NoTcb demo_time_wait)"
  have "sockets_ok ?w"
    by (rule demo_tcp_world_ok) (simp_all add: named_socket_def demo_time_wait_def demo_socket_def
        tcp_create_socket_def on_tcb_def)
  moreover have "0 \<in> set (tw_socket_list ?w 1)" "tw_heap ?w 0 = Some (NoTcb demo_time_wait)"
    by (simp_all add: demo_tcp_world_def)
  moreover have "has_addresses demo_time_wait (sa_ip demo_addr) 80 (sa_ip demo_addr) 80"
    by (simp add: has_addresses_def compare_socketaddr_def demo_time_wait_def demo_socket_def tcp_create_socket_def
        on_tcb_def) (simp add: demo_addr_def)
  ultimately show ?thesis
    using closed_socket_blocks_addresses [of ?w 0 1 demo_time_wait demo_rst_env demo_rst] by simp
qed

end
