(* ===== verification/Tcp_World_Queues.thy ===== *)
theory Tcp_World_Queues
  imports Tcp_Demux
begin

text \<open>
  The retransmission queue and the out-of-order queue of every connection over all events
  (\<open>TCP/TCP.c\<close>): the interpretation \<open>queues\<close> of \<open>Tcp_Keeps\<close> for each call on a socket, and
  freshly made control blocks for the new sockets.
\<close>

section \<open>The queues of all connections\<close>

definition queues_ok :: "TCP_WORLD \<Rightarrow> bool" where
  "queues_ok w \<longleftrightarrow> (\<forall>h s. tw_heap w h = Some (Live s) \<longrightarrow>
     queue_ok (retransmissionQueue (tcb s)) \<and> queue_ok (outOfOrderSegment (tcb s)))"

abbreviation sock_queues :: "NETSIM_SOCKET \<Rightarrow> bool" where
  "sock_queues s \<equiv> queue_ok (retransmissionQueue (tcb s)) \<and> queue_ok (outOfOrderSegment (tcb s))"

lemma core_queues: "(case core s of (st, R, W, a) \<Rightarrow> queue_ok R \<and> queue_ok W) \<longleftrightarrow> sock_queues s"
  by (simp add: core_def)

lemmas queues_kept =
  queues.arrive_kept [unfolded core_queues] queues.rto_timer_kept [unfolded core_queues]
  queues.time_wait_kept [unfolded core_queues] queues.send_segment_kept [unfolded core_queues]
  queues.send_syn_kept [unfolded core_queues] queues.rcv_SYN_kept [unfolded core_queues]

lemma checkout_queues [simp]: "tcb (checkout w s) = tcb s" "tcb (load_iface w s) = tcb s"
  by (simp_all add: checkout_def load_iface_def)

lemma create_TCB_queues: "create_TCB E s = Some s' \<Longrightarrow> sock_queues s'"
  by (drule create_TCB_core) (simp add: core_def)

lemma accept_queues: "tcp_accept E i p s = Some n \<Longrightarrow> sock_queues n"
  by (auto simp: tcp_accept_def tcp_passive_open_def tcp_change_state_def Let_def elim!: bind_SomeE
      dest!: create_TCB_queues queues_kept(6))

lemma connect_queues: "tcp_connect E l r s = Some n \<Longrightarrow> sock_queues n"
  by (auto simp: tcp_connect_def tcp_active_open_def elim!: bind_SomeE dest!: create_TCB_queues queues_kept(5))

lemma settle_heap: "settle E h r w = Some w' \<Longrightarrow> tw_heap w' = (tw_heap w)(h \<mapsto> r)"
  by (auto simp: settle_def remove_from_socket_list_def Let_def elim!: bind_SomeE
      split: SOCKET_REF.splits option.splits)

lemma settle_queues:
  "queues_ok w \<Longrightarrow> settle E h r w = Some w' \<Longrightarrow> sock_queues (sock_of r) \<Longrightarrow> queues_ok w'"
  by (auto simp: queues_ok_def settle_heap)

lemma new_socket_queues: "queues_ok w \<Longrightarrow> new_socket E d w = Some (h, s, w') \<Longrightarrow> queues_ok w'"
  by (auto simp: queues_ok_def new_socket_def add_to_socket_list_def Let_def elim!: bind_SomeE split: if_splits)

text \<open>The event is a reset that reaches a half-open connection.\<close>

definition half_open_reset :: "TCP_ENV \<Rightarrow> TCP_WORLD \<Rightarrow> bool" where
  "half_open_reset E w \<longleftrightarrow> (\<exists>p h s. te_pPacket (tev E) = Some p \<and> Rst (tp_hdr p)
     \<and> find_socket_at_dest E p w = Some (Some h) \<and> tw_heap w h = Some (Live s)
     \<and> tcp_state (tcb s) = TCPCONNECTION_SYN_RECEIVED)"


lemma enter_accepted_queues:
  "queues_ok w \<Longrightarrow> enter_accepted E n w = Some w' \<Longrightarrow> (\<And>s. n = Some s \<Longrightarrow> sock_queues s) \<Longrightarrow> queues_ok w'"
  by (auto simp: enter_accepted_def elim!: bind_SomeE split: option.splits
      intro: settle_queues new_socket_queues)

lemma network_in_queues:
  assumes "queues_ok w" and "segment_from_network E w = Some w'" and "\<not> half_open_reset E w"
  shows "queues_ok w'"
proof -
  consider "w' = w" | p h s r n w1 where "te_pPacket (tev E) = Some p"
      "find_socket_at_dest E p w = Some (Some h)" "tw_heap w h = Some (Live s)"
      "packet_arrive_from_network_layer E (tw_socket_id w + 1) p (Live (checkout w s)) = Some (r, n)"
      "settle E h r w = Some w1" "enter_accepted E n w1 = Some w'"
    using assms(2) by (auto simp: segment_from_network_def elim!: bind_SomeE split: option.splits SOCKET_REF.splits)
  then show ?thesis
  proof cases
    case 1
    with assms(1) show ?thesis by simp
  next
    case 2
    have "sock_queues (sock_of r)"
      by (rule queues_kept(1) [OF 2(4)])
         (use assms(1,3) 2(1-3) in \<open>auto simp: queues_ok_def half_open_reset_def\<close>)
    then have "queues_ok w1" by (rule settle_queues [OF assms(1) 2(5)])
    moreover have "sock_queues m" if "n = Some m" for m
      using arrive_accepts [OF 2(4) [unfolded that]] accept_queues by metis
    ultimately show ?thesis using enter_accepted_queues 2(6) by blast
  qed
qed

lemma connect_new_queues: "queues_ok w \<Longrightarrow> connect_new_socket E i p w = Some w' \<Longrightarrow> queues_ok w'"
  by (auto simp: connect_new_socket_def elim!: bind_SomeE)
     (metis connect_queues new_socket_queues settle_queues sock_of.simps(1))

lemma send_waiting_queues:
  assumes "queues_ok w" and "send_waiting E i h w = Some w'"
  shows "queues_ok w'"
proof -
  obtain s t u where *: "tw_heap w h = Some (Live s)" "send_segment E t = Some u"
      "settle E h (Live (u\<lparr>waitFromApp := False\<rparr>)) w = Some w'" and t: "tcb t = tcb s"
    using assms(2)
    by (auto simp: send_waiting_def checkout_def load_iface_def tcp_error_def Let_def
        elim!: bind_SomeE split: SOCKET_REF.splits if_splits)
  have "sock_queues u" using queues_kept(4) [OF *(2)] assms(1) *(1) t by (simp add: queues_ok_def)
  then show ?thesis using settle_queues [OF assms(1) *(3)] by simp
qed

lemma queues_ok_other [simp]:
  "queues_ok (w\<lparr>tw_interfaces := i\<rparr>) = queues_ok w" "queues_ok (world_error w) = queues_ok w"
  by (simp_all add: queues_ok_def world_error_def)

lemma application_queues:
  "queues_ok w \<Longrightarrow> packet_arrive_from_application_layer E od w = Some (i, w') \<Longrightarrow> queues_ok w'"
  by (auto simp: packet_arrive_from_application_layer_def Let_def elim!: bind_SomeE
      split: prod.splits option.splits if_splits
      dest!: connect_new_queues [rotated] send_waiting_queues [rotated])

lemma timer_queues:
  "queues_ok w \<Longrightarrow> rto_timer_event E w = Some w' \<Longrightarrow> queues_ok w'"
  "queues_ok w \<Longrightarrow> time_wait_event E od w = Some w' \<Longrightarrow> queues_ok w'"
  by (auto simp: rto_timer_event_def time_wait_event_def elim!: bind_SomeE
      split: option.splits SOCKET_REF.splits SZ_OTHER.splits)
     (auto simp: queues_ok_def settle_heap split: if_splits dest!: queues_kept(2,3))



end
