(* ===== verification/Netsim_Buffer.thy ===== *)
theory Netsim_Buffer
  imports Netsim_Prelude
begin

text \<open>
  The packet buffer between the network layer and the link (\<open>SupportFunction/Scheduling.c\<close>,
  \<open>SupportFunction/Scheduling.h\<close>, the buffer of \<open>Include/Stack.h\<close>): what is admitted (drop tail,
  RED, WRED) and which packet leaves next (FIFO, priority, round robin, weighted fair queuing,
  earliest deadline first).

  A packet is a record with its address; the chain through \<open>pstruNextPacket\<close> is a list.  Under
  round robin and fair queuing \<open>pstruPacketlist\<close> points to an array of five cells, whose cell 0
  holds the class served last and whose cells 1 to 4 head the lists of the classes.  Plot files
  and the packet trace are left out.
\<close>

section \<open>Data\<close>

record BUF_PACKET =
  bp_ptr :: nat
  bp_nPacketPriority :: int
  bp_nQOS :: int
  bp_dEventTime :: simtime
  bp_networkSize :: "real option"
  bp_macSize :: real

datatype SCHEDULING_TYPE =
    SCHEDULING_NONE | SCHEDULING_FIFO | SCHEDULING_PRIORITY | SCHEDULING_ROUNDROBIN | SCHEDULING_WFQ
  | SCHEDULING_EDF | SCHEDULING_CLASSBASED

datatype QUEUINGTECHNIQUE = QUEUING_NULL | QUEUING_DROPTAIL | QUEUING_RED | QUEUING_WRED

datatype enum_BUFFER = Buffer_Underflow | Buffer_Overflow

datatype enum_Buffer_Manipulation_Type = ADD | GET

definition Priority_Low :: int where "Priority_Low = 2"
definition Priority_Normal :: int where "Priority_Normal = 4"
definition Priority_Medium :: int where "Priority_Medium = 6"
definition Priority_High :: int where "Priority_High = 8"

lemmas priority_defs = Priority_Low_def Priority_Normal_def Priority_Medium_def Priority_High_def

record QUEUING_RED_VAR =
  red_min_th :: real
  red_max_th :: real
  red_max_p :: real
  red_avg_queue_size :: real
  red_count :: int
  red_random_value :: real
  red_wq :: real
  red_q_time :: simtime

record QUEUING_WRED_VAR =
  wred_min_th :: "real list"
  wred_max_th :: "real list"
  wred_max_p :: "real list"
  wred_avg_queue_size :: real
  wred_count :: "int list"
  wred_random_value :: "real list"
  wred_wq :: real
  wred_q_time :: simtime

text \<open>What \<open>queuingParam\<close> points to.\<close>

datatype QUEUING_PARAM = NoParam | RedParam QUEUING_RED_VAR | WredParam QUEUING_WRED_VAR

text \<open>A cell of the array: \<open>nPacketPriority\<close> and \<open>nPacketId\<close> of the cell, and the list it heads.\<close>

record SCHED_CELL =
  cell_priority :: int
  cell_count :: int
  cell_list :: "BUF_PACKET list"

text \<open>What \<open>pstruPacketlist\<close> points to; the null pointer is the empty chain.\<close>

datatype PACKETLIST = Chain "BUF_PACKET list" | Lists "SCHED_CELL list"

text \<open>
  The buffer.  \<open>buf_last\<close> is the address in \<open>last\<close>; \<open>max_latency\<close> is the array of
  \<open>schedulingParam\<close> under EDF; \<open>buf_drawn\<close> counts the random numbers drawn.
\<close>

record NetSim_BUFFER =
  dMaxBufferSize :: real
  dCurrentBufferSize :: real
  nSchedulingType :: SCHEDULING_TYPE
  queuingTechnique :: QUEUINGTECHNIQUE
  max_latency :: "real list"
  queuingParam :: QUEUING_PARAM
  nQueuedPacket :: u32
  nDequeuedPacket :: u32
  nDroppedPacket :: u32
  pstruPacketlist :: PACKETLIST
  buf_last :: "nat option"
  buf_drawn :: nat

record BUFFER_ENV =
  be_dEventTime :: simtime
  NETSIM_RAND_01 :: "nat \<Rightarrow> real"

definition packet_size :: "BUF_PACKET \<Rightarrow> real" where
  "packet_size p = (case bp_networkSize p of Some s \<Rightarrow> s | None \<Rightarrow> bp_macSize p)"

section \<open>Admission\<close>

text \<open>
  \<open>fn_NetSim_CheckBuffer\<close> adds the size of the first packet once for every packet of the chain.
  A chain is a list, \<open>[]\<close> the null pointer.
\<close>

definition fn_NetSim_CheckBuffer ::
  "BUF_PACKET list \<Rightarrow> NetSim_BUFFER \<Rightarrow> (enum_BUFFER \<times> NetSim_BUFFER) option" where
  "fn_NetSim_CheckBuffer ps b = do {
     let size = (case ps of [] \<Rightarrow> 0 | p # _ \<Rightarrow> real (length ps) * packet_size p);
     let b = (if dMaxBufferSize b = 0 then b\<lparr>dMaxBufferSize := 18446744073709551615\<rparr> else b);
     let ldMaximumBufferSize = dMaxBufferSize b * 1024 * 1024;
     let ldCurrentBufferSize = dCurrentBufferSize b + size;
     if ldCurrentBufferSize \<le> ldMaximumBufferSize
     then do {
       n \<leftarrow> double_to_int ldCurrentBufferSize;
       Some (Buffer_Underflow, b\<lparr>dCurrentBufferSize := of_int n\<rparr>) }
     else Some (Buffer_Overflow, b) }"

definition fn_NetSim_DropTail ::
  "BUF_PACKET list \<Rightarrow> NetSim_BUFFER \<Rightarrow> (enum_BUFFER \<times> NetSim_BUFFER) option" where
  "fn_NetSim_DropTail ps b = fn_NetSim_CheckBuffer ps b"

definition add_current_size_buffer :: "BUF_PACKET list \<Rightarrow> NetSim_BUFFER \<Rightarrow> NetSim_BUFFER option" where
  "add_current_size_buffer ps b = do {
     let size = (case ps of [] \<Rightarrow> 0 | p # _ \<Rightarrow> real (length ps) * packet_size p);
     n \<leftarrow> double_to_int (dCurrentBufferSize b + size);
     Some (b\<lparr>dCurrentBufferSize := of_int n\<rparr>) }"

definition reduce_current_size_buffer :: "BUF_PACKET list \<Rightarrow> NetSim_BUFFER \<Rightarrow> NetSim_BUFFER option" where
  "reduce_current_size_buffer ps b = (case ps of
       [] \<Rightarrow> None
     | p # _ \<Rightarrow> do {
         n \<leftarrow> double_to_int (packet_size p);
         let c = dCurrentBufferSize b - of_int n;
         _ \<leftarrow> assert_c (\<not> c < 0);
         Some (b\<lparr>dCurrentBufferSize := c\<rparr>) })"

text \<open>\<open>count > random / pb\<close>, where a division by zero gives an infinity or no number.\<close>

definition exceeds_quotient :: "int \<Rightarrow> real \<Rightarrow> real \<Rightarrow> bool" where
  "exceeds_quotient c r pb = (if pb = 0 then r < 0 else real_of_int c > r / pb)"

text \<open>The result, the new \<open>count\<close>, and whether a new random number is drawn.\<close>

definition red_step ::
  "real \<Rightarrow> real \<Rightarrow> real \<Rightarrow> real \<Rightarrow> int \<Rightarrow> real \<Rightarrow> (enum_BUFFER \<times> int \<times> bool) option" where
  "red_step min_th max_th max_p avg count rnd =
     (if min_th \<le> avg \<and> avg < max_th
      then do {
        count \<leftarrow> c_int (count + 1);
        let pb = max_p * (avg - min_th) / (max_th - min_th);
        Some (if count > 0 \<and> exceeds_quotient count rnd pb
              then (Buffer_Overflow, 0, True) else (Buffer_Underflow, count, False)) }
      else if max_th \<le> avg then Some (Buffer_Overflow, - 1, False)
      else Some (Buffer_Underflow, - 1, False))"

definition red_algorithm ::
  "BUFFER_ENV \<Rightarrow> QUEUING_RED_VAR \<Rightarrow> NetSim_BUFFER \<Rightarrow> (enum_BUFFER \<times> NetSim_BUFFER) option" where
  "red_algorithm E v b = do {
     (r, count, draw) \<leftarrow> red_step (red_min_th v) (red_max_th v) (red_max_p v) (red_avg_queue_size v)
       (red_count v) (red_random_value v);
     let v = v\<lparr>red_count := count\<rparr>;
     let v = (if draw then v\<lparr>red_random_value := NETSIM_RAND_01 E (buf_drawn b)\<rparr> else v);
     Some (r, b\<lparr>queuingParam := RedParam v, buf_drawn := (if draw then Suc (buf_drawn b) else buf_drawn b)\<rparr>) }"

text \<open>\<open>pow\<close> of a base that is not negative.\<close>

definition c_pow :: "real \<Rightarrow> real \<Rightarrow> real option" where
  "c_pow x y = (if x < 0 then None else if y = 0 then Some 1 else Some (x powr y))"

definition average_queue :: "BUFFER_ENV \<Rightarrow> real \<Rightarrow> simtime \<Rightarrow> real \<Rightarrow> real \<Rightarrow> real option" where
  "average_queue E wq q_time avg current =
     (let mb = current / 1048576 in
      if mb = 0 then map_option (\<lambda>x. x * avg) (c_pow (1 - wq) (be_dEventTime E - q_time))
      else Some (avg + wq * (mb - avg)))"

definition fn_NetSim_RED ::
  "BUFFER_ENV \<Rightarrow> BUF_PACKET list \<Rightarrow> NetSim_BUFFER \<Rightarrow> (enum_BUFFER \<times> NetSim_BUFFER) option" where
  "fn_NetSim_RED E ps b = do {
     (r, b) \<leftarrow> fn_NetSim_CheckBuffer ps b;
     if r = Buffer_Underflow
     then do {
       b \<leftarrow> reduce_current_size_buffer ps b;
       (case queuingParam b of
          RedParam v \<Rightarrow> do {
            avg \<leftarrow> average_queue E (red_wq v) (red_q_time v) (red_avg_queue_size v) (dCurrentBufferSize b);
            (r, b) \<leftarrow> red_algorithm E (v\<lparr>red_avg_queue_size := avg\<rparr>) b;
            b \<leftarrow> (if r = Buffer_Underflow then add_current_size_buffer ps b else Some b);
            Some (r, b) }
        | _ \<Rightarrow> None) }
     else Some (Buffer_Overflow, b) }"

definition wred_algorithm ::
  "BUFFER_ENV \<Rightarrow> nat \<Rightarrow> QUEUING_WRED_VAR \<Rightarrow> NetSim_BUFFER \<Rightarrow> (enum_BUFFER \<times> NetSim_BUFFER) option" where
  "wred_algorithm E i v b = do {
     _ \<leftarrow> assert_c (i < length (wred_min_th v) \<and> i < length (wred_max_th v) \<and> i < length (wred_max_p v)
            \<and> i < length (wred_count v) \<and> i < length (wred_random_value v));
     (r, count, draw) \<leftarrow> red_step (wred_min_th v ! i) (wred_max_th v ! i) (wred_max_p v ! i)
       (wred_avg_queue_size v) (wred_count v ! i) (wred_random_value v ! i);
     let v = v\<lparr>wred_count := (wred_count v)[i := count]\<rparr>;
     let v = (if draw
              then v\<lparr>wred_random_value := (wred_random_value v)[i := NETSIM_RAND_01 E (buf_drawn b)]\<rparr>
              else v);
     Some (r, b\<lparr>queuingParam := WredParam v, buf_drawn := (if draw then Suc (buf_drawn b) else buf_drawn b)\<rparr>) }"

definition fn_NetSim_WRED ::
  "BUFFER_ENV \<Rightarrow> BUF_PACKET list \<Rightarrow> NetSim_BUFFER \<Rightarrow> (enum_BUFFER \<times> NetSim_BUFFER) option" where
  "fn_NetSim_WRED E ps b = do {
     (r, b) \<leftarrow> fn_NetSim_CheckBuffer ps b;
     if r = Buffer_Underflow
     then do {
       b \<leftarrow> reduce_current_size_buffer ps b;
       (case (queuingParam b, ps) of
          (WredParam v, p # _) \<Rightarrow> do {
            avg \<leftarrow> average_queue E (wred_wq v) (wred_q_time v) (wred_avg_queue_size v) (dCurrentBufferSize b);
            let v = v\<lparr>wred_avg_queue_size := avg\<rparr>;
            q \<leftarrow> c_quot (bp_nPacketPriority p) 2;
            let index = q - 1;
            (r, b) \<leftarrow> (if index = - 1 then Some (Buffer_Underflow, b\<lparr>queuingParam := WredParam v\<rparr>)
                       else do { _ \<leftarrow> assert_c (0 \<le> index); wred_algorithm E (nat index) v b });
            b \<leftarrow> (if r = Buffer_Underflow then add_current_size_buffer ps b else Some b);
            Some (r, b) }
        | _ \<Rightarrow> None) }
     else Some (Buffer_Overflow, b) }"

definition fn_NetSim_Queuing ::
  "BUFFER_ENV \<Rightarrow> BUF_PACKET list \<Rightarrow> NetSim_BUFFER \<Rightarrow> (enum_BUFFER \<times> NetSim_BUFFER) option" where
  "fn_NetSim_Queuing E ps b = (case queuingTechnique b of
       QUEUING_DROPTAIL \<Rightarrow> fn_NetSim_DropTail ps b
     | QUEUING_RED \<Rightarrow> fn_NetSim_RED E ps b
     | QUEUING_WRED \<Rightarrow> fn_NetSim_WRED E ps b
     | _ \<Rightarrow> fn_NetSim_DropTail ps b)"

section \<open>Priority and FIFO\<close>

text \<open>
  The walk that finds the place of the first packet of a chain.  Before a packet of lower
  priority the rest of the chain is cut off (\<open>pstruData->pstruNextPacket\<close> is overwritten); at the
  end it stays.
\<close>

fun priority_walk :: "BUF_PACKET \<Rightarrow> BUF_PACKET list \<Rightarrow> BUF_PACKET list \<Rightarrow> BUF_PACKET list" where
  "priority_walk p ps [] = p # ps"
| "priority_walk p ps (x # xs) =
     (if bp_nPacketPriority x < bp_nPacketPriority p then p # x # xs
      else x # priority_walk p ps xs)"

text \<open>The result of a scheduler: the packet, null for \<open>ADD\<close>, and the buffer.\<close>

type_synonym sched_result = "(BUF_PACKET option \<times> NetSim_BUFFER) option"

definition fn_NetSim_Priority ::
  "NetSim_BUFFER \<Rightarrow> BUF_PACKET list \<Rightarrow> enum_Buffer_Manipulation_Type \<Rightarrow> bool \<Rightarrow> sched_result" where
  "fn_NetSim_Priority b ps nType nFlag = (case pstruPacketlist b of
       Lists cs \<Rightarrow> None
     | Chain xs \<Rightarrow> (case nType of
         ADD \<Rightarrow> (if xs = [] then Some (None, b\<lparr>pstruPacketlist := Chain ps\<rparr>)
           else (case ps of
               [] \<Rightarrow> None
             | p # rest \<Rightarrow> Some (None, b\<lparr>pstruPacketlist := Chain (priority_walk p rest xs)\<rparr>)))
       | GET \<Rightarrow> (case xs of
             [] \<Rightarrow> if nFlag then None else Some (None, b)
           | x # rest \<Rightarrow>
               Some (Some x, if nFlag then b\<lparr>pstruPacketlist := Chain rest\<rparr> else b))))"

text \<open>\<open>last->pstruNextPacket = pstruData\<close>: what follows the last packet is replaced.\<close>

definition link_after :: "nat \<Rightarrow> BUF_PACKET list \<Rightarrow> BUF_PACKET list \<Rightarrow> BUF_PACKET list option" where
  "link_after a ps xs = (case first_idx (\<lambda>x. bp_ptr x = a) xs of
       Some i \<Rightarrow> Some (take (Suc i) xs @ ps)
     | None \<Rightarrow> None)"

definition chain_last :: "BUF_PACKET list \<Rightarrow> nat option" where
  "chain_last ps = (if ps = [] then None else Some (bp_ptr (last ps)))"

text \<open>The \<open>ADD\<close> that FIFO and EDF have in common.\<close>

definition append_chain :: "NetSim_BUFFER \<Rightarrow> BUF_PACKET list \<Rightarrow> BUF_PACKET list \<Rightarrow> sched_result" where
  "append_chain b ps xs =
     (if xs = [] then Some (None, b\<lparr>pstruPacketlist := Chain ps, buf_last := chain_last ps\<rparr>)
      else do {
        a \<leftarrow> buf_last b;
        ys \<leftarrow> link_after a ps xs;
        Some (None, b\<lparr>pstruPacketlist := Chain ys, buf_last := chain_last ps\<rparr>) })"

definition fn_NetSim_FIFO ::
  "NetSim_BUFFER \<Rightarrow> BUF_PACKET list \<Rightarrow> enum_Buffer_Manipulation_Type \<Rightarrow> bool \<Rightarrow> sched_result" where
  "fn_NetSim_FIFO b ps nType nFlag = (case pstruPacketlist b of
       Lists cs \<Rightarrow> None
     | Chain xs \<Rightarrow> (case nType of
         ADD \<Rightarrow> append_chain b ps xs
       | GET \<Rightarrow> (case xs of
             [] \<Rightarrow> if nFlag then None else Some (None, b)
           | x # rest \<Rightarrow>
               Some (Some x,
                 if nFlag
                 then b\<lparr>pstruPacketlist := Chain rest, buf_last := (if rest = [] then None else buf_last b)\<rparr>
                 else b))))"

section \<open>Round robin and fair queuing\<close>

definition zero_cell :: SCHED_CELL where
  "zero_cell = \<lparr>cell_priority = 0, cell_count = 0, cell_list = []\<rparr>"

text \<open>The index of \<open>fnGetList\<close>; outside the array of five cells the access is undefined.\<close>

definition fnGetList :: "int \<Rightarrow> nat option" where
  "fnGetList prio = do {
     q \<leftarrow> c_quot prio (Priority_High - Priority_Medium);
     if 0 \<le> q \<and> q < 5 then Some (nat q) else None }"

text \<open>The array, allocated on first use; a chain that is not empty is not an array.\<close>

definition sched_cells :: "PACKETLIST \<Rightarrow> SCHED_CELL list option" where
  "sched_cells l = (case l of
       Lists cs \<Rightarrow> (if length cs = 5 then Some cs else None)
     | Chain xs \<Rightarrow> (if xs = [] then Some (replicate 5 zero_cell) else None))"

text \<open>Appending to the list of a priority; fair queuing also counts (\<open>nPacketId++\<close>).\<close>

definition add_to_class :: "bool \<Rightarrow> NetSim_BUFFER \<Rightarrow> BUF_PACKET list \<Rightarrow> sched_result" where
  "add_to_class counting b ps = do {
     cs \<leftarrow> sched_cells (pstruPacketlist b);
     p \<leftarrow> (case ps of [] \<Rightarrow> None | p # _ \<Rightarrow> Some p);
     i \<leftarrow> fnGetList (if bp_nPacketPriority p \<noteq> 0 then bp_nPacketPriority p else Priority_Low);
     let c = cs ! i;
     let c = c\<lparr>cell_count := (if counting then cell_count c + 1 else cell_count c), cell_list := cell_list c @ ps\<rparr>;
     Some (None, b\<lparr>pstruPacketlist := Lists (cs[i := c])\<rparr>) }"

text \<open>
  The loop \<open>Retry\<close>, with the number of tries left: the class after the one served last, from
  high to low, whose list is not empty.
\<close>

fun rr_scan :: "nat \<Rightarrow> SCHED_CELL list \<Rightarrow> (nat option \<times> SCHED_CELL list) option" where
  "rr_scan 0 cs = Some (None, cs)"
| "rr_scan (Suc k) cs = do {
     let pr = cell_priority (cs ! 0) - (Priority_High - Priority_Medium);
     let pr = (if pr \<le> 0 then Priority_High else pr);
     let cs = cs[0 := (cs ! 0)\<lparr>cell_priority := pr\<rparr>];
     i \<leftarrow> fnGetList pr;
     if cell_list (cs ! i) \<noteq> [] then Some (Some i, cs) else rr_scan k cs }"

definition fn_NetSim_RoundRobin ::
  "NetSim_BUFFER \<Rightarrow> BUF_PACKET list \<Rightarrow> enum_Buffer_Manipulation_Type \<Rightarrow> bool \<Rightarrow> sched_result" where
  "fn_NetSim_RoundRobin b ps nType nFlag = (case nType of
       ADD \<Rightarrow> add_to_class False b ps
     | GET \<Rightarrow>
         if pstruPacketlist b = Chain [] then Some (None, b)
         else do {
           cs \<leftarrow> sched_cells (pstruPacketlist b);
           let prio = cell_priority (cs ! 0);
           (r, cs) \<leftarrow> rr_scan 4 cs;
           (case r of
              None \<Rightarrow> Some (None, b\<lparr>pstruPacketlist := Lists cs\<rparr>)
            | Some i \<Rightarrow>
                (let x = hd (cell_list (cs ! i));
                     cs = (if nFlag then cs[i := (cs ! i)\<lparr>cell_list := tl (cell_list (cs ! i))\<rparr>]
                           else cs[0 := (cs ! 0)\<lparr>cell_priority := prio\<rparr>])
                 in Some (Some x, b\<lparr>pstruPacketlist := Lists cs\<rparr>))) })"

text \<open>The position of the last maximum, counted from 1.\<close>

fun position_walk :: "nat \<Rightarrow> 64 word \<Rightarrow> nat \<Rightarrow> 64 word list \<Rightarrow> nat" where
  "position_walk i nMax nFlag [] = nFlag"
| "position_walk i nMax nFlag (c # cs) =
     (if c \<ge> nMax then position_walk (Suc i) c i cs else position_walk (Suc i) nMax nFlag cs)"

definition fn_NetSim_GetPosition_MaximumNumber :: "64 word list \<Rightarrow> nat" where
  "fn_NetSim_GetPosition_MaximumNumber nCount =
     position_walk 1 (hd nCount) 0 (take 3 (tl nCount)) + 1"

text \<open>The weighted counts, low to high.\<close>

definition wfq_counts :: "SCHED_CELL list \<Rightarrow> 64 word list" where
  "wfq_counts cs = map (\<lambda>k. of_int (cell_count (cs ! k)) * of_nat k) [1, 2, 3, 4]"

definition fn_NetSim_WFQ ::
  "NetSim_BUFFER \<Rightarrow> BUF_PACKET list \<Rightarrow> enum_Buffer_Manipulation_Type \<Rightarrow> bool \<Rightarrow> sched_result" where
  "fn_NetSim_WFQ b ps nType nFlag = (case nType of
       ADD \<Rightarrow> add_to_class True b ps
     | GET \<Rightarrow>
         if pstruPacketlist b = Chain [] then None
         else do {
           cs \<leftarrow> sched_cells (pstruPacketlist b);
           let i = fn_NetSim_GetPosition_MaximumNumber (wfq_counts cs);
           (case cell_list (cs ! i) of
              [] \<Rightarrow> Some (None, b)
            | x # rest \<Rightarrow>
                Some (Some x,
                  if nFlag
                  then b\<lparr>pstruPacketlist := Lists (cs[i := (cs ! i)
                         \<lparr>cell_count := cell_count (cs ! i) - 1, cell_list := rest\<rparr>])\<rparr>
                  else b)) })"

section \<open>Earliest deadline first\<close>

text \<open>The time left until the deadline of a packet of a class \<open>index\<close>.\<close>

definition edf_deadline :: "BUFFER_ENV \<Rightarrow> real list \<Rightarrow> BUF_PACKET \<Rightarrow> real option" where
  "edf_deadline E lat x =
     (let index = bp_nQOS x - 1 in
      if 0 \<le> index \<and> nat index < length lat
      then Some (lat ! nat index * 1000 - (be_dEventTime E - bp_dEventTime x))
      else None)"

text \<open>The packets that stay and the number of packets that are dropped.\<close>

fun edf_expire :: "BUFFER_ENV \<Rightarrow> real list \<Rightarrow> BUF_PACKET list \<Rightarrow> (BUF_PACKET list \<times> nat) option" where
  "edf_expire E lat [] = Some ([], 0)"
| "edf_expire E lat (x # xs) = do {
     keep \<leftarrow> (if bp_nQOS x - 1 \<noteq> - 1 then map_option (\<lambda>dl. \<not> dl < 0) (edf_deadline E lat x) else Some True);
     (ys, n) \<leftarrow> edf_expire E lat xs;
     Some (if keep then (x # ys, n) else (ys, Suc n)) }"

text \<open>
  \<open>last\<close> is moved only when the packet at the end is dropped; it then becomes the packet before
  it, or null.  \<open>dCurrentBufferSize\<close> is not touched.
\<close>

definition edf_algorithm_drop_expired_packets :: "BUFFER_ENV \<Rightarrow> BUF_PACKET list \<Rightarrow> NetSim_BUFFER \<Rightarrow> NetSim_BUFFER option" where
  "edf_algorithm_drop_expired_packets E xs b = do {
     (ys, n) \<leftarrow> edf_expire E (max_latency b) xs;
     let dropped_last = (xs \<noteq> [] \<and> \<not> (ys \<noteq> [] \<and> bp_ptr (last ys) = bp_ptr (last xs)));
     Some (b\<lparr>pstruPacketlist := Chain ys, nDroppedPacket := nDroppedPacket b + of_nat n,
             buf_last := (if dropped_last then chain_last ys else buf_last b)\<rparr>) }"

text \<open>The search, with the earliest deadline and its packet so far.\<close>

fun edf_search ::
  "BUFFER_ENV \<Rightarrow> real list \<Rightarrow> real \<Rightarrow> BUF_PACKET option \<Rightarrow> BUF_PACKET list \<Rightarrow> BUF_PACKET option option" where
  "edf_search E lat e r [] = Some r"
| "edf_search E lat e r (x # xs) =
     (if bp_nQOS x - 1 = - 1 then Some (Some x)
      else do {
        dl \<leftarrow> edf_deadline E lat x;
        if dl < e then edf_search E lat dl (Some x) xs else edf_search E lat e r xs })"

definition edf_algorithm_get_earliest_deadline_packet ::
  "BUFFER_ENV \<Rightarrow> BUF_PACKET list \<Rightarrow> NetSim_BUFFER \<Rightarrow> BUF_PACKET option option" where
  "edf_algorithm_get_earliest_deadline_packet E xs b =
     edf_search E (max_latency b) 18446744073709551615 None xs"

text \<open>Unlinking the packet with address \<open>a\<close>.\<close>

definition unlink_packet :: "nat \<Rightarrow> BUF_PACKET list \<Rightarrow> NetSim_BUFFER \<Rightarrow> NetSim_BUFFER option" where
  "unlink_packet a xs b = (case first_idx (\<lambda>x. bp_ptr x = a) xs of
       None \<Rightarrow> None
     | Some i \<Rightarrow>
         (let ys = remove_nth i xs in
          Some (b\<lparr>pstruPacketlist := Chain ys,
             buf_last := (if Suc i = length xs then chain_last ys else buf_last b)\<rparr>)))"

definition fn_NetSim_EDF ::
  "BUFFER_ENV \<Rightarrow> NetSim_BUFFER \<Rightarrow> BUF_PACKET list \<Rightarrow> enum_Buffer_Manipulation_Type \<Rightarrow> bool \<Rightarrow> sched_result" where
  "fn_NetSim_EDF E b ps nType nFlag = (case pstruPacketlist b of
       Lists cs \<Rightarrow> None
     | Chain xs \<Rightarrow> (case nType of
         ADD \<Rightarrow> append_chain b ps xs
       | GET \<Rightarrow> do {
           b \<leftarrow> edf_algorithm_drop_expired_packets E xs b;
           ys \<leftarrow> (case pstruPacketlist b of Chain ys \<Rightarrow> Some ys | _ \<Rightarrow> None);
           r \<leftarrow> edf_algorithm_get_earliest_deadline_packet E ys b;
           (case r of
              None \<Rightarrow> Some (None, b)
            | Some x \<Rightarrow>
                if nFlag then do { b \<leftarrow> unlink_packet (bp_ptr x) ys b; Some (Some x, b) }
                else Some (Some x, b)) }))"

section \<open>The operations of the buffer\<close>

definition schedule ::
  "BUFFER_ENV \<Rightarrow> NetSim_BUFFER \<Rightarrow> BUF_PACKET list \<Rightarrow> enum_Buffer_Manipulation_Type \<Rightarrow> bool \<Rightarrow> sched_result" where
  "schedule E b ps nType nFlag = (case nSchedulingType b of
       SCHEDULING_PRIORITY \<Rightarrow> fn_NetSim_Priority b ps nType nFlag
     | SCHEDULING_FIFO \<Rightarrow> fn_NetSim_FIFO b ps nType nFlag
     | SCHEDULING_ROUNDROBIN \<Rightarrow> fn_NetSim_RoundRobin b ps nType nFlag
     | SCHEDULING_WFQ \<Rightarrow> fn_NetSim_WFQ b ps nType nFlag
     | SCHEDULING_EDF \<Rightarrow> fn_NetSim_EDF E b ps nType nFlag
     | _ \<Rightarrow> fn_NetSim_FIFO b ps nType nFlag)"

text \<open>Whether there is a packet, and the buffer: the question moves the round robin class on.\<close>

definition fn_NetSim_GetBufferStatus :: "NetSim_BUFFER \<Rightarrow> (bool \<times> NetSim_BUFFER) option" where
  "fn_NetSim_GetBufferStatus b =
     (if nSchedulingType b \<in> {SCHEDULING_NONE, SCHEDULING_PRIORITY, SCHEDULING_EDF, SCHEDULING_FIFO}
      then Some (pstruPacketlist b \<noteq> Chain [], b)
      else if nSchedulingType b \<in> {SCHEDULING_ROUNDROBIN, SCHEDULING_WFQ}
      then (if pstruPacketlist b = Chain [] then Some (False, b)
            else do {
              cs \<leftarrow> sched_cells (pstruPacketlist b);
              (r, cs) \<leftarrow> rr_scan 4 cs;
              Some (r \<noteq> None, b\<lparr>pstruPacketlist := Lists cs\<rparr>) })
      else Some (False, b))"

definition fn_NetSim_Packet_AddPacketToBuffer ::
  "BUFFER_ENV \<Rightarrow> NetSim_BUFFER \<Rightarrow> BUF_PACKET list \<Rightarrow> NetSim_BUFFER option" where
  "fn_NetSim_Packet_AddPacketToBuffer E b ps = do {
     (r, b) \<leftarrow> fn_NetSim_Queuing E ps b;
     (case r of
        Buffer_Underflow \<Rightarrow> map_option snd
          (schedule E (b\<lparr>nQueuedPacket := nQueuedPacket b + 1\<rparr>) ps ADD True)
      | Buffer_Overflow \<Rightarrow> Some (b\<lparr>nDroppedPacket := nDroppedPacket b + 1\<rparr>)) }"

text \<open>The time at which the buffer became empty.\<close>

definition note_idle :: "BUFFER_ENV \<Rightarrow> NetSim_BUFFER \<Rightarrow> NetSim_BUFFER option" where
  "note_idle E b =
     (if queuingTechnique b = QUEUING_RED \<and> dCurrentBufferSize b = 0
      then (case queuingParam b of
          RedParam v \<Rightarrow> Some (b\<lparr>queuingParam := RedParam (v\<lparr>red_q_time := be_dEventTime E\<rparr>)\<rparr>)
        | _ \<Rightarrow> None)
      else if queuingTechnique b = QUEUING_WRED \<and> dCurrentBufferSize b = 0
      then (case queuingParam b of
          WredParam v \<Rightarrow> Some (b\<lparr>queuingParam := WredParam (v\<lparr>wred_q_time := be_dEventTime E\<rparr>)\<rparr>)
        | _ \<Rightarrow> None)
      else Some b)"

definition fn_NetSim_GetPacketFromBuffer :: "BUFFER_ENV \<Rightarrow> NetSim_BUFFER \<Rightarrow> bool \<Rightarrow> sched_result" where
  "fn_NetSim_GetPacketFromBuffer E b nFlag =
     (if pstruPacketlist b = Chain [] then Some (None, b)
      else do {
        let b = (if nFlag then b\<lparr>nDequeuedPacket := nDequeuedPacket b + 1\<rparr> else b);
        (r, b) \<leftarrow> schedule E b [] GET nFlag;
        (case r of
           None \<Rightarrow> Some (None, b)
         | Some p \<Rightarrow> do {
             b \<leftarrow> (if nFlag \<and> dMaxBufferSize b \<noteq> 0 then reduce_current_size_buffer [p] b else Some b);
             b \<leftarrow> note_idle E b;
             Some (Some p, b) }) })"

end
