(* ===== verification/Netsim_Schedulers.thy ===== *)
theory Netsim_Schedulers
  imports Netsim_Buffer "HOL-Library.Multiset"
begin

text \<open>
  What a scheduler of the packet buffer promises, as the locale \<open>packet_scheduler\<close>: a packet put
  into the buffer is held until a \<open>GET\<close> hands it out, nothing is lost and nothing is handed out
  twice.  FIFO, priority, round robin and fair queuing are its interpretations.  Earliest deadline
  first is not: it throws packets away (theory \<open>Netsim_Edf\<close>).
\<close>

section \<open>The contract\<close>

text \<open>The packets a buffer holds.\<close>

definition held :: "PACKETLIST \<Rightarrow> BUF_PACKET multiset" where
  "held l = (case l of Chain xs \<Rightarrow> mset xs | Lists cs \<Rightarrow> mset (concat (map cell_list cs)))"

lemma held_simps [simp]:
  "held (Chain xs) = mset xs"
  "held (Lists cs) = mset (concat (map cell_list cs))"
  by (simp_all add: held_def)

text \<open>A packet with a size and one of the priorities of the source; a control packet has none (0).\<close>

definition packet_ok :: "BUF_PACKET \<Rightarrow> bool" where
  "packet_ok p \<longleftrightarrow> 1 \<le> packet_size p \<and> bp_nPacketPriority p \<in> {0, Priority_Low, Priority_Normal, Priority_Medium, Priority_High}"

text \<open>The packet is not yet in the buffer.\<close>

definition fresh_packet :: "PACKETLIST \<Rightarrow> BUF_PACKET \<Rightarrow> bool" where
  "fresh_packet l p \<longleftrightarrow> bp_ptr p \<notin> bp_ptr ` set_mset (held l)"

locale packet_scheduler =
  fixes sched :: "NetSim_BUFFER \<Rightarrow> BUF_PACKET list \<Rightarrow> enum_Buffer_Manipulation_Type \<Rightarrow> bool \<Rightarrow> sched_result"
    and list_ok :: "PACKETLIST \<Rightarrow> nat option \<Rightarrow> bool"
  assumes empty_ok: "list_ok (Chain []) None"
    and add_one: "\<lbrakk>list_ok (pstruPacketlist b) (buf_last b); packet_ok p; fresh_packet (pstruPacketlist b) p\<rbrakk>
      \<Longrightarrow> \<exists>l a. sched b [p] ADD f = Some (None, b\<lparr>pstruPacketlist := l, buf_last := a\<rparr>)
            \<and> list_ok l a \<and> held l = add_mset p (held (pstruPacketlist b))"
    and get_one: "\<lbrakk>list_ok (pstruPacketlist b) (buf_last b); held (pstruPacketlist b) \<noteq> {#};
        size (held (pstruPacketlist b)) < 2 ^ 31\<rbrakk>
      \<Longrightarrow> \<exists>p l a. sched b ps GET True = Some (Some p, b\<lparr>pstruPacketlist := l, buf_last := a\<rparr>)
            \<and> list_ok l a \<and> held (pstruPacketlist b) = add_mset p (held l)"
    and get_none: "\<lbrakk>list_ok (pstruPacketlist b) (buf_last b); held (pstruPacketlist b) = {#};
        pstruPacketlist b \<noteq> Chain []\<rbrakk>
      \<Longrightarrow> \<exists>l. sched b ps GET True = Some (None, b\<lparr>pstruPacketlist := l\<rparr>)
            \<and> list_ok l (buf_last b) \<and> held l = {#}"
    and peek: "\<lbrakk>list_ok (pstruPacketlist b) (buf_last b); pstruPacketlist b \<noteq> Chain [];
        size (held (pstruPacketlist b)) < 2 ^ 31\<rbrakk>
      \<Longrightarrow> \<exists>r l. sched b ps GET False = Some (r, b\<lparr>pstruPacketlist := l\<rparr>)
            \<and> list_ok l (buf_last b) \<and> held l = held (pstruPacketlist b)"

section \<open>FIFO\<close>

text \<open>\<open>last\<close> is the address of the packet at the end, and no packet is linked twice.\<close>

definition fifo_ok :: "PACKETLIST \<Rightarrow> nat option \<Rightarrow> bool" where
  "fifo_ok l a = (case l of
       Chain xs \<Rightarrow> distinct (map bp_ptr xs) \<and> a = chain_last xs
     | Lists cs \<Rightarrow> False)"

lemma fifo_okE:
  assumes "fifo_ok l a"
  obtains xs where "l = Chain xs" "distinct (map bp_ptr xs)" "a = chain_last xs"
  using assms by (auto simp: fifo_ok_def split: PACKETLIST.splits)

text \<open>With \<open>last\<close> in place, linking after it is appending.\<close>

lemma link_after_last:
  assumes "distinct (map bp_ptr xs)" "xs \<noteq> []"
  shows "link_after (bp_ptr (last xs)) ps xs = Some (xs @ ps)"
proof -
  from assms(2) obtain ys y where xs: "xs = ys @ [y]"
    by (metis append_butlast_last_id)
  have "first_idx (\<lambda>x. bp_ptr x = bp_ptr y) (ys @ [y]) = Some (length ys)"
    if "bp_ptr y \<notin> bp_ptr ` set ys" for ys
    using that by (induction ys) auto
  with assms xs show ?thesis
    by (simp add: link_after_def)
qed

lemma append_chain_ok:
  assumes "distinct (map bp_ptr xs)" "buf_last b = chain_last xs" "ps \<noteq> []"
  shows "append_chain b ps xs =
    Some (None, b\<lparr>pstruPacketlist := Chain (xs @ ps), buf_last := chain_last (xs @ ps)\<rparr>)"
proof (cases "xs = []")
  case True
  then show ?thesis by (simp add: append_chain_def)
next
  case False
  then have "buf_last b = Some (bp_ptr (last xs))"
    using assms(2) by (simp add: chain_last_def)
  with False assms link_after_last [OF assms(1) False, of ps] show ?thesis
    by (simp add: append_chain_def chain_last_def)
qed

lemma chain_last_tl: "rest \<noteq> [] \<Longrightarrow> chain_last (x # rest) = chain_last rest"
  by (simp add: chain_last_def)

interpretation fifo: packet_scheduler fn_NetSim_FIFO fifo_ok
proof unfold_locales
  show "fifo_ok (Chain []) None"
    by (simp add: fifo_ok_def chain_last_def)
next
  fix b :: NetSim_BUFFER and p f
  assume ok: "fifo_ok (pstruPacketlist b) (buf_last b)" and fresh: "fresh_packet (pstruPacketlist b) p"
  from ok obtain xs where xs: "pstruPacketlist b = Chain xs" "distinct (map bp_ptr xs)"
      "buf_last b = chain_last xs"
    by (rule fifo_okE)
  with fresh have "fifo_ok (Chain (xs @ [p])) (chain_last (xs @ [p]))"
    by (auto simp: fifo_ok_def fresh_packet_def)
  with xs append_chain_ok [of xs b "[p]"]
  show "\<exists>l a. fn_NetSim_FIFO b [p] ADD f = Some (None, b\<lparr>pstruPacketlist := l, buf_last := a\<rparr>) \<and>
      fifo_ok l a \<and> held l = add_mset p (held (pstruPacketlist b))"
    by (intro exI [of _ "Chain (xs @ [p])"] exI [of _ "chain_last (xs @ [p])"])
       (simp add: fn_NetSim_FIFO_def)
next
  fix b :: NetSim_BUFFER and ps
  assume ok: "fifo_ok (pstruPacketlist b) (buf_last b)" and "held (pstruPacketlist b) \<noteq> {#}"
  then obtain x rest where xs: "pstruPacketlist b = Chain (x # rest)" "distinct (map bp_ptr (x # rest))"
      "buf_last b = chain_last (x # rest)"
    by (elim fifo_okE) (auto simp: neq_Nil_conv)
  define a where "a = (if rest = [] then None else buf_last b)"
  have "fifo_ok (Chain rest) a"
    using xs by (auto simp: fifo_ok_def a_def chain_last_def)
  with xs show "\<exists>p l a. fn_NetSim_FIFO b ps GET True = Some (Some p, b\<lparr>pstruPacketlist := l, buf_last := a\<rparr>) \<and>
      fifo_ok l a \<and> held (pstruPacketlist b) = add_mset p (held l)"
    by (intro exI [of _ x] exI [of _ "Chain rest"] exI [of _ a]) (simp add: fn_NetSim_FIFO_def a_def)
next
  fix b :: NetSim_BUFFER and ps
  assume "fifo_ok (pstruPacketlist b) (buf_last b)" "held (pstruPacketlist b) = {#}"
    "pstruPacketlist b \<noteq> Chain []"
  then show "\<exists>l. fn_NetSim_FIFO b ps GET True = Some (None, b\<lparr>pstruPacketlist := l\<rparr>) \<and>
      fifo_ok l (buf_last b) \<and> held l = {#}"
    by (auto elim: fifo_okE)
next
  fix b :: NetSim_BUFFER and ps
  assume ok: "fifo_ok (pstruPacketlist b) (buf_last b)" and ne: "pstruPacketlist b \<noteq> Chain []"
  then show "\<exists>r l. fn_NetSim_FIFO b ps GET False = Some (r, b\<lparr>pstruPacketlist := l\<rparr>) \<and>
      fifo_ok l (buf_last b) \<and> held l = held (pstruPacketlist b)"
    by (intro exI [of _ "case pstruPacketlist b of Chain xs \<Rightarrow> Some (hd xs)"] exI [of _ "pstruPacketlist b"])
       (auto elim!: fifo_okE simp: fn_NetSim_FIFO_def neq_Nil_conv)
qed

section \<open>Priority\<close>

text \<open>Descending priorities.  \<open>last\<close> is not used.\<close>

definition priority_ok :: "PACKETLIST \<Rightarrow> nat option \<Rightarrow> bool" where
  "priority_ok l a = (case l of
       Chain xs \<Rightarrow> sorted (map (\<lambda>x. - bp_nPacketPriority x) xs)
     | Lists cs \<Rightarrow> False)"

text \<open>The walk with one packet is an insertion behind the packets of the same priority.\<close>

lemma mset_priority_walk: "mset (priority_walk p [] xs) = add_mset p (mset xs)"
  by (induction xs) auto

lemma sorted_priority_walk:
  "sorted (map (\<lambda>x. - bp_nPacketPriority x) xs) \<Longrightarrow>
   sorted (map (\<lambda>x. - bp_nPacketPriority x) (priority_walk p [] xs))"
proof (induction xs)
  case (Cons x xs)
  have "set (priority_walk p [] xs) = insert p (set xs)"
    using mset_priority_walk [of p xs] by (metis set_mset_add_mset_insert set_mset_mset)
  with Cons show ?case by fastforce
qed simp

interpretation prio: packet_scheduler fn_NetSim_Priority priority_ok
proof unfold_locales
  show "priority_ok (Chain []) None"
    by (simp add: priority_ok_def)
next
  fix b :: NetSim_BUFFER and p f
  assume ok: "priority_ok (pstruPacketlist b) (buf_last b)"
  then obtain xs where xs: "pstruPacketlist b = Chain xs" "sorted (map (\<lambda>x. - bp_nPacketPriority x) xs)"
    by (auto simp: priority_ok_def split: PACKETLIST.splits)
  then show "\<exists>l a. fn_NetSim_Priority b [p] ADD f = Some (None, b\<lparr>pstruPacketlist := l, buf_last := a\<rparr>) \<and>
      priority_ok l a \<and> held l = add_mset p (held (pstruPacketlist b))"
    by (intro exI [of _ "Chain (priority_walk p [] xs)"] exI [of _ "buf_last b"])
       (auto simp: fn_NetSim_Priority_def priority_ok_def mset_priority_walk sorted_priority_walk)
next
  fix b :: NetSim_BUFFER and ps
  assume "priority_ok (pstruPacketlist b) (buf_last b)" "held (pstruPacketlist b) \<noteq> {#}"
  then obtain x rest where xs: "pstruPacketlist b = Chain (x # rest)"
      "sorted (map (\<lambda>x. - bp_nPacketPriority x) (x # rest))"
    by (auto simp: priority_ok_def neq_Nil_conv split: PACKETLIST.splits)
  then show "\<exists>p l a. fn_NetSim_Priority b ps GET True = Some (Some p, b\<lparr>pstruPacketlist := l, buf_last := a\<rparr>) \<and>
      priority_ok l a \<and> held (pstruPacketlist b) = add_mset p (held l)"
    by (intro exI [of _ x] exI [of _ "Chain rest"] exI [of _ "buf_last b"])
       (auto simp: fn_NetSim_Priority_def priority_ok_def)
next
  fix b :: NetSim_BUFFER and ps
  assume "priority_ok (pstruPacketlist b) (buf_last b)" "held (pstruPacketlist b) = {#}"
    "pstruPacketlist b \<noteq> Chain []"
  then show "\<exists>l. fn_NetSim_Priority b ps GET True = Some (None, b\<lparr>pstruPacketlist := l\<rparr>) \<and>
      priority_ok l (buf_last b) \<and> held l = {#}"
    by (auto simp: priority_ok_def split: PACKETLIST.splits)
next
  fix b :: NetSim_BUFFER and ps
  assume ok: "priority_ok (pstruPacketlist b) (buf_last b)" and ne: "pstruPacketlist b \<noteq> Chain []"
  then obtain x rest where xs: "pstruPacketlist b = Chain (x # rest)"
    by (auto simp: priority_ok_def neq_Nil_conv split: PACKETLIST.splits)
  with ok show "\<exists>r l. fn_NetSim_Priority b ps GET False = Some (r, b\<lparr>pstruPacketlist := l\<rparr>) \<and>
      priority_ok l (buf_last b) \<and> held l = held (pstruPacketlist b)"
    by (intro exI [of _ "Some x"] exI [of _ "Chain (x # rest)"]) (simp add: fn_NetSim_Priority_def)
qed

end
