(* ===== verification/Netsim_Classes.thy ===== *)
theory Netsim_Classes
  imports Netsim_Schedulers
begin

text \<open>
  The two schedulers that keep a list for each class of priority, round robin and weighted fair
  queuing, as instances of \<open>packet_scheduler\<close>.
\<close>

section \<open>The array of classes\<close>

text \<open>Cell 0 heads no list; its priority is that of a class, or 0 before the first packet.\<close>

definition class_ok :: "SCHED_CELL list \<Rightarrow> bool" where
  "class_ok cs \<longleftrightarrow> length cs = 5 \<and> cell_list (cs ! 0) = [] \<and> (\<exists>c \<le> 4. cell_priority (cs ! 0) = 2 * int c)"

text \<open>The class served last, 0 before the first packet.\<close>

definition served_class :: "SCHED_CELL list \<Rightarrow> nat" where
  "served_class cs = nat (cell_priority (cs ! 0)) div 2"

definition set_served :: "nat \<Rightarrow> SCHED_CELL list \<Rightarrow> SCHED_CELL list" where
  "set_served i cs = cs[0 := (cs ! 0)\<lparr>cell_priority := 2 * int i\<rparr>]"

text \<open>The classes in the order in which round robin asks them, and the first that has a packet.\<close>

definition rr_order :: "nat \<Rightarrow> nat list" where
  "rr_order c = rev [1..<c] @ rev [max c 1..<5]"

definition rr_choice :: "SCHED_CELL list \<Rightarrow> nat option" where
  "rr_choice cs = find (\<lambda>i. cell_list (cs ! i) \<noteq> []) (rr_order (served_class cs))"

lemma fnGetList_class: "fnGetList 2 = Some 1" "fnGetList 4 = Some 2" "fnGetList 6 = Some 3" "fnGetList 8 = Some 4"
  by (simp_all add: fnGetList_def c_quot_def c_int_def priority_defs)

lemma rr_order_simps:
  "rr_order 0 = [4, 3, 2, 1]" "rr_order (Suc 0) = [4, 3, 2, 1]" "rr_order 2 = [1, 4, 3, 2]"
  "rr_order 3 = [2, 1, 4, 3]" "rr_order 4 = [3, 2, 1, 4]"
  by (simp_all add: rr_order_def upt_rec eval_nat_numeral)

lemma rr_scan_spec:
  assumes "class_ok cs"
  shows "rr_scan 4 cs = Some (case rr_choice cs of
      Some i \<Rightarrow> (Some i, set_served i cs)
    | None \<Rightarrow> (None, set_served (max 1 (served_class cs)) cs))"
proof -
  from assms obtain c where c: "c \<le> 4" "cell_priority (cs ! 0) = 2 * int c" and len: "length cs = 5"
    by (auto simp: class_ok_def)
  have four: "rr_scan 4 cs = rr_scan (Suc (Suc (Suc (Suc 0)))) cs"
    by (simp add: eval_nat_numeral del: rr_scan.simps)
  have "c = 0 \<or> c = 1 \<or> c = 2 \<or> c = 3 \<or> c = 4"
    using c by auto
  then show ?thesis
    using len c(2)
    by (elim disjE)
       (simp_all add: four rr_choice_def served_class_def rr_order_simps set_served_def Let_def fnGetList_class priority_defs)
qed

lemma class_ok_set_served: "class_ok cs \<Longrightarrow> i \<le> 4 \<Longrightarrow> class_ok (set_served i cs)"
  by (auto simp: class_ok_def set_served_def)

lemma set_served_nth [simp]: "0 < i \<Longrightarrow> set_served k cs ! i = cs ! i"
  by (simp add: set_served_def)

lemma class_ok_length: "class_ok cs \<Longrightarrow> length cs = 5"
  by (simp add: class_ok_def)

lemma mset_concat_update:
  "i < length cs \<Longrightarrow>
   mset (concat (map f (cs[i := c]))) + mset (f (cs ! i)) = mset (concat (map f cs)) + mset (f c)"
proof (induction cs arbitrary: i)
  case (Cons x cs)
  then show ?case by (cases i) (auto simp: ac_simps)
qed simp

lemma held_set_served [simp]: "class_ok cs \<Longrightarrow> held (Lists (set_served i cs)) = held (Lists cs)"
  using mset_concat_update [of 0 cs cell_list "(cs ! 0)\<lparr>cell_priority := 2 * int i\<rparr>"]
  by (simp add: set_served_def class_ok_def)

lemma rr_order_set: "c \<le> 4 \<Longrightarrow> set (rr_order c) = {1, 2, 3, 4}"
  by (auto simp: rr_order_def)

lemma served_class_le: "class_ok cs \<Longrightarrow> served_class cs \<le> 4"
  by (auto simp: class_ok_def served_class_def)

lemma served_set_served [simp]: "class_ok cs \<Longrightarrow> served_class (set_served i cs) = i"
  by (simp add: class_ok_def set_served_def served_class_def)

text \<open>There is a choice when there is a packet.\<close>

lemma held_Lists_empty:
  assumes "class_ok cs"
  shows "held (Lists cs) = {#} \<longleftrightarrow> (\<forall>i \<in> {1, 2, 3, 4}. cell_list (cs ! i) = [])"
proof -
  have "cs = map (\<lambda>i. cs ! i) [0, 1, 2, 3, 4]"
    using class_ok_length [OF assms] by (intro nth_equalityI) (auto simp: nth_Cons less_Suc_eq eval_nat_numeral)
  then have "held (Lists cs) = mset (concat (map cell_list (map (\<lambda>i. cs ! i) [0, 1, 2, 3, 4])))"
    by (metis held_simps(2))
  with assms show ?thesis by (auto simp: class_ok_def)
qed

lemma rr_choice_None:
  assumes "class_ok cs"
  shows "rr_choice cs = None \<longleftrightarrow> held (Lists cs) = {#}"
  unfolding held_Lists_empty [OF assms] rr_choice_def find_None_iff
    rr_order_set [OF served_class_le [OF assms]] by auto

lemma rr_choice_Some:
  assumes "class_ok cs" "rr_choice cs = Some i"
  shows "i \<in> {1, 2, 3, 4} \<and> cell_list (cs ! i) \<noteq> []"
proof -
  from assms(2) have "i \<in> set (rr_order (served_class cs)) \<and> cell_list (cs ! i) \<noteq> []"
    by (auto simp: rr_choice_def find_Some_iff)
  then show ?thesis
    using rr_order_set [OF served_class_le [OF assms(1)]] by simp
qed

text \<open>The list of a packet.\<close>

definition class_of :: "BUF_PACKET \<Rightarrow> nat" where
  "class_of p = (if bp_nPacketPriority p = 0 then 1 else nat (bp_nPacketPriority p) div 2)"

lemma packet_class:
  assumes "packet_ok p"
  shows "fnGetList (if bp_nPacketPriority p \<noteq> 0 then bp_nPacketPriority p else Priority_Low) = Some (class_of p)
    \<and> class_of p \<in> {1, 2, 3, 4}"
  using assms by (auto simp: packet_ok_def class_of_def fnGetList_class priority_defs)

text \<open>What \<open>ADD\<close> makes of the cells, and what \<open>GET\<close> makes of them.\<close>

definition add_cells :: "bool \<Rightarrow> BUF_PACKET \<Rightarrow> SCHED_CELL list \<Rightarrow> SCHED_CELL list" where
  "add_cells counting p cs = (let c = cs ! class_of p in
     cs[class_of p := c\<lparr>cell_count := (if counting then cell_count c + 1 else cell_count c),
       cell_list := cell_list c @ [p]\<rparr>])"

definition take_cells :: "bool \<Rightarrow> nat \<Rightarrow> SCHED_CELL list \<Rightarrow> SCHED_CELL list" where
  "take_cells counting i cs = (let c = cs ! i in
     cs[i := c\<lparr>cell_count := (if counting then cell_count c - 1 else cell_count c),
       cell_list := tl (cell_list c)\<rparr>])"

lemma add_to_class_one:
  assumes "sched_cells (pstruPacketlist b) = Some cs" "packet_ok p"
  shows "add_to_class counting b [p] = Some (None, b\<lparr>pstruPacketlist := Lists (add_cells counting p cs)\<rparr>)"
  using assms packet_class [OF assms(2)] by (simp add: add_to_class_def add_cells_def Let_def)

lemma add_cells_ok:
  assumes "class_ok cs" "packet_ok p"
  shows "class_ok (add_cells counting p cs)"
    and "held (Lists (add_cells counting p cs)) = add_mset p (held (Lists cs))"
proof -
  from packet_class [OF assms(2)] have i: "class_of p \<in> {1, 2, 3, 4}" by simp
  then show "class_ok (add_cells counting p cs)"
    using assms(1) by (auto simp: class_ok_def add_cells_def Let_def)
  from i have "class_of p < length cs"
    using assms(1) by (auto simp: class_ok_def)
  from mset_concat_update [OF this, of cell_list "(cs ! class_of p)
      \<lparr>cell_count := (if counting then cell_count (cs ! class_of p) + 1 else cell_count (cs ! class_of p)),
       cell_list := cell_list (cs ! class_of p) @ [p]\<rparr>"]
  show "held (Lists (add_cells counting p cs)) = add_mset p (held (Lists cs))"
    by (simp add: add_cells_def Let_def)
qed

lemma take_cells_ok:
  assumes "class_ok cs" "i \<in> {1, 2, 3, 4}" "cell_list (cs ! i) \<noteq> []"
  shows "class_ok (take_cells counting i cs)"
    and "held (Lists cs) = add_mset (hd (cell_list (cs ! i))) (held (Lists (take_cells counting i cs)))"
proof -
  show "class_ok (take_cells counting i cs)"
    using assms by (auto simp: class_ok_def take_cells_def Let_def)
  have len: "i < length cs"
    using assms by (auto simp: class_ok_def)
  define c where "c = (cs ! i)\<lparr>cell_count := (if counting then cell_count (cs ! i) - 1 else cell_count (cs ! i)),
    cell_list := tl (cell_list (cs ! i))\<rparr>"
  from mset_concat_update [OF len, of cell_list c] assms(3)
  show "held (Lists cs) = add_mset (hd (cell_list (cs ! i))) (held (Lists (take_cells counting i cs)))"
    by (cases "cell_list (cs ! i)") (cases counting; simp add: take_cells_def Let_def c_def)+
qed

section \<open>Round robin\<close>

definition rr_ok :: "PACKETLIST \<Rightarrow> nat option \<Rightarrow> bool" where
  "rr_ok l a = (case l of Chain xs \<Rightarrow> xs = [] | Lists cs \<Rightarrow> class_ok cs)"

lemma class_ok_zero: "class_ok (replicate 5 zero_cell)"
  by (auto simp: class_ok_def zero_cell_def)

lemma held_zero: "held (Lists (replicate 5 zero_cell)) = {#}"
  by (simp add: zero_cell_def)

lemma rr_ok_cells:
  assumes "rr_ok l a"
  obtains cs where "sched_cells l = Some cs" "class_ok cs" "held (Lists cs) = held l" "l \<noteq> Chain [] \<Longrightarrow> l = Lists cs"
  using assms class_ok_zero held_zero class_ok_length
  by (cases l) (auto simp: rr_ok_def sched_cells_def)

text \<open>\<open>GET\<close> in terms of the choice.\<close>

lemma round_robin_get:
  assumes "pstruPacketlist b = Lists cs" "class_ok cs"
  shows "fn_NetSim_RoundRobin b ps GET f = Some (case rr_choice cs of
      None \<Rightarrow> (None, b\<lparr>pstruPacketlist := Lists (set_served (max 1 (served_class cs)) cs)\<rparr>)
    | Some i \<Rightarrow> (Some (hd (cell_list (cs ! i))),
        b\<lparr>pstruPacketlist := Lists (if f then take_cells False i (set_served i cs) else cs)\<rparr>))"
proof (cases "rr_choice cs")
  case None
  with assms show ?thesis
    by (simp add: fn_NetSim_RoundRobin_def sched_cells_def class_ok_length rr_scan_spec)
next
  case (Some i)
  with assms rr_choice_Some [OF assms(2) Some] have "0 < i" by auto
  have restore: "(set_served i cs)[0 := (set_served i cs ! 0)\<lparr>cell_priority := cell_priority (cs ! 0)\<rparr>] = cs"
    using class_ok_length [OF assms(2)] by (simp add: set_served_def list_update_same_conv)
  with assms Some \<open>0 < i\<close> restore show ?thesis
    by (simp add: fn_NetSim_RoundRobin_def sched_cells_def class_ok_length rr_scan_spec take_cells_def Let_def)
qed

interpretation rr: packet_scheduler fn_NetSim_RoundRobin rr_ok
proof unfold_locales
  show "rr_ok (Chain []) None"
    by (simp add: rr_ok_def)
next
  fix b :: NetSim_BUFFER and p f
  assume "rr_ok (pstruPacketlist b) (buf_last b)" and p: "packet_ok p"
  then obtain cs where cs: "sched_cells (pstruPacketlist b) = Some cs" "class_ok cs"
      "held (Lists cs) = held (pstruPacketlist b)"
    by (elim rr_ok_cells)
  with p add_to_class_one [OF cs(1) p] add_cells_ok [OF cs(2) p]
  show "\<exists>l a. fn_NetSim_RoundRobin b [p] ADD f = Some (None, b\<lparr>pstruPacketlist := l, buf_last := a\<rparr>) \<and>
      rr_ok l a \<and> held l = add_mset p (held (pstruPacketlist b))"
    by (intro exI [of _ "Lists (add_cells False p cs)"] exI [of _ "buf_last b"])
       (simp add: fn_NetSim_RoundRobin_def rr_ok_def)
next
  fix b :: NetSim_BUFFER and ps
  assume "rr_ok (pstruPacketlist b) (buf_last b)" "held (pstruPacketlist b) \<noteq> {#}"
  then obtain cs where cs: "pstruPacketlist b = Lists cs" "class_ok cs" "held (Lists cs) \<noteq> {#}"
    by (auto simp: rr_ok_def split: PACKETLIST.splits)
  then obtain i where i: "rr_choice cs = Some i"
    using rr_choice_None by auto
  from rr_choice_Some [OF cs(2) i] have "i \<in> {1, 2, 3, 4}" "i \<le> 4" "0 < i" "cell_list (cs ! i) \<noteq> []"
    by auto
  with take_cells_ok [OF class_ok_set_served [OF cs(2), of i], of i False] i cs round_robin_get [OF cs(1,2), of ps True]
  show "\<exists>p l a. fn_NetSim_RoundRobin b ps GET True = Some (Some p, b\<lparr>pstruPacketlist := l, buf_last := a\<rparr>) \<and>
      rr_ok l a \<and> held (pstruPacketlist b) = add_mset p (held l)"
    by (intro exI [of _ "hd (cell_list (cs ! i))"] exI [of _ "Lists (take_cells False i (set_served i cs))"]
          exI [of _ "buf_last b"])
       (simp add: rr_ok_def del: held_simps)
next
  fix b :: NetSim_BUFFER and ps
  assume "rr_ok (pstruPacketlist b) (buf_last b)" "held (pstruPacketlist b) = {#}"
    "pstruPacketlist b \<noteq> Chain []"
  then obtain cs where cs: "pstruPacketlist b = Lists cs" "class_ok cs" "held (Lists cs) = {#}"
    by (auto simp: rr_ok_def split: PACKETLIST.splits)
  then have "rr_choice cs = None" "max 1 (served_class cs) \<le> 4"
    using rr_choice_None served_class_le by auto
  with cs round_robin_get [OF cs(1,2), of ps True]
  show "\<exists>l. fn_NetSim_RoundRobin b ps GET True = Some (None, b\<lparr>pstruPacketlist := l\<rparr>) \<and>
      rr_ok l (buf_last b) \<and> held l = {#}"
    by (intro exI [of _ "Lists (set_served (max 1 (served_class cs)) cs)"])
       (simp add: rr_ok_def class_ok_set_served del: held_simps)
next
  fix b :: NetSim_BUFFER and ps
  assume "rr_ok (pstruPacketlist b) (buf_last b)" "pstruPacketlist b \<noteq> Chain []"
  then obtain cs where cs: "pstruPacketlist b = Lists cs" "class_ok cs"
    by (auto simp: rr_ok_def split: PACKETLIST.splits)
  then have le: "max 1 (served_class cs) \<le> 4"
    using served_class_le by auto
  show "\<exists>r l. fn_NetSim_RoundRobin b ps GET False = Some (r, b\<lparr>pstruPacketlist := l\<rparr>) \<and>
      rr_ok l (buf_last b) \<and> held l = held (pstruPacketlist b)"
  proof (cases "rr_choice cs")
    case None
    with cs le round_robin_get [OF cs, of ps False] show ?thesis
      by (intro exI [of _ None] exI [of _ "Lists (set_served (max 1 (served_class cs)) cs)"])
         (simp add: rr_ok_def class_ok_set_served del: held_simps)
  next
    case (Some i)
    with cs round_robin_get [OF cs, of ps False] show ?thesis
      by (intro exI [of _ "Some (hd (cell_list (cs ! i)))"] exI [of _ "Lists cs"]) (simp add: rr_ok_def)
  qed
qed

section \<open>Weighted fair queuing\<close>

text \<open>The counters are the lengths of the lists.\<close>

definition counts_ok :: "SCHED_CELL list \<Rightarrow> bool" where
  "counts_ok cs \<longleftrightarrow> (\<forall>i \<in> {1, 2, 3, 4}. cell_count (cs ! i) = int (length (cell_list (cs ! i))))"

definition wfq_ok :: "PACKETLIST \<Rightarrow> nat option \<Rightarrow> bool" where
  "wfq_ok l a = (case l of Chain xs \<Rightarrow> xs = [] | Lists cs \<Rightarrow> class_ok cs \<and> counts_ok cs)"

definition wfq_weight :: "SCHED_CELL list \<Rightarrow> nat \<Rightarrow> nat" where
  "wfq_weight cs i = i * length (cell_list (cs ! i))"

definition wfq_choice :: "SCHED_CELL list \<Rightarrow> nat" where
  "wfq_choice cs = fn_NetSim_GetPosition_MaximumNumber (wfq_counts cs)"

lemma position_of_maximum:
  "fn_NetSim_GetPosition_MaximumNumber [a, b, c, d] =
     (if d \<ge> a \<and> d \<ge> b \<and> d \<ge> c then 4
      else if c \<ge> a \<and> c \<ge> b then 3 else if b \<ge> a then 2 else 1)"
  by (auto simp: fn_NetSim_GetPosition_MaximumNumber_def)

lemma class_length_le:
  assumes "class_ok cs" "i \<in> {1, 2, 3, 4}"
  shows "length (cell_list (cs ! i)) \<le> size (held (Lists cs))"
proof -
  from assms have "cs ! i \<in> set cs"
    by (auto simp: class_ok_def)
  then have "length (cell_list (cs ! i)) \<le> sum_list (map (length \<circ> cell_list) cs)"
    by (intro member_le_sum_list) auto
  then show ?thesis
    by (simp add: length_concat comp_def)
qed

lemma wfq_choice_max:
  assumes ok: "class_ok cs" "counts_ok cs" and few: "size (held (Lists cs)) < 2 ^ 31"
  shows "wfq_choice cs \<in> {1, 2, 3, 4}"
    and "\<forall>i \<in> {1, 2, 3, 4}. wfq_weight cs i \<le> wfq_weight cs (wfq_choice cs)"
proof -
  define n where "n i = length (cell_list (cs ! i))" for i
  have n: "n i < 2 ^ 31" if "i \<in> {1, 2, 3, 4}" for i
    using class_length_le [OF ok(1) that] few by (simp add: n_def)
  have cnt: "wfq_counts cs = [of_nat (n 1), of_nat (2 * n 2), of_nat (3 * n 3), of_nat (4 * n 4)]"
    using ok(2) by (simp add: wfq_counts_def counts_ok_def n_def mult.commute)
  have le: "(of_nat x :: 64 word) \<le> of_nat y \<longleftrightarrow> x \<le> y" if "x < 2 ^ 33" "y < 2 ^ 33" for x y
    using that by (simp add: word_le_nat_alt unat_of_nat)
  have b: "n 1 < 2 ^ 33" "2 * n 2 < 2 ^ 33" "3 * n 3 < 2 ^ 33" "4 * n 4 < 2 ^ 33"
    using n [of 1] n [of 2] n [of 3] n [of 4] by simp_all
  have "wfq_choice cs =
     (if 4 * n 4 \<ge> n 1 \<and> 4 * n 4 \<ge> 2 * n 2 \<and> 4 * n 4 \<ge> 3 * n 3 then 4
      else if 3 * n 3 \<ge> n 1 \<and> 3 * n 3 \<ge> 2 * n 2 then 3 else if 2 * n 2 \<ge> n 1 then 2 else 1)"
    unfolding wfq_choice_def cnt position_of_maximum
    by (simp only: le [OF b(1) b(4)] le [OF b(2) b(4)] le [OF b(3) b(4)] le [OF b(1) b(3)]
        le [OF b(2) b(3)] le [OF b(1) b(2)])
  then show "wfq_choice cs \<in> {1, 2, 3, 4}"
    "\<forall>i \<in> {1, 2, 3, 4}. wfq_weight cs i \<le> wfq_weight cs (wfq_choice cs)"
    by (auto simp: wfq_weight_def simp flip: n_def)
qed

lemma wfq_get:
  assumes "pstruPacketlist b = Lists cs" "class_ok cs"
  shows "fn_NetSim_WFQ b ps GET f = Some (if cell_list (cs ! wfq_choice cs) = [] then (None, b)
    else (Some (hd (cell_list (cs ! wfq_choice cs))),
      if f then b\<lparr>pstruPacketlist := Lists (take_cells True (wfq_choice cs) cs)\<rparr> else b))"
  using assms
  by (cases "cell_list (cs ! wfq_choice cs)")
     (simp_all add: fn_NetSim_WFQ_def sched_cells_def class_ok_length Let_def take_cells_def flip: wfq_choice_def)

text \<open>There is a packet in the class with the greatest weight when there is one at all.\<close>

lemma wfq_choice_served:
  assumes "class_ok cs" "counts_ok cs" "size (held (Lists cs)) < 2 ^ 31" "held (Lists cs) \<noteq> {#}"
  shows "cell_list (cs ! wfq_choice cs) \<noteq> []"
proof -
  from assms(4) obtain i where i: "i \<in> {1, 2, 3, 4}" "cell_list (cs ! i) \<noteq> []"
    unfolding held_Lists_empty [OF assms(1)] by blast
  then have "0 < wfq_weight cs i"
    by (auto simp: wfq_weight_def)
  then have "0 < wfq_weight cs (wfq_choice cs)"
    using wfq_choice_max(2) [OF assms(1-3)] i(1) by fastforce
  then show ?thesis
    by (auto simp: wfq_weight_def)
qed

lemma add_cells_counts:
  assumes "class_ok cs" "counts_ok cs" "packet_ok p"
  shows "counts_ok (add_cells True p cs)"
proof -
  from packet_class [OF assms(3)] have "class_of p \<in> {1, 2, 3, 4}" by simp
  with assms class_ok_length [OF assms(1)] show ?thesis
    by (auto simp: counts_ok_def add_cells_def Let_def nth_list_update)
qed

lemma take_cells_counts:
  assumes "class_ok cs" "counts_ok cs" "i \<in> {1, 2, 3, 4}" "cell_list (cs ! i) \<noteq> []"
  shows "counts_ok (take_cells True i cs)"
proof -
  have "int (length xs) - 1 = int (length (tl xs))" if "xs \<noteq> []" for xs :: "BUF_PACKET list"
    using that by (cases xs) auto
  with assms class_ok_length [OF assms(1)] show ?thesis
    by (auto simp: counts_ok_def take_cells_def Let_def nth_list_update)
qed

lemma counts_ok_zero: "counts_ok (replicate 5 zero_cell)"
  by (auto simp: counts_ok_def zero_cell_def)

lemma wfq_ok_cells:
  assumes "wfq_ok l a"
  obtains cs where "sched_cells l = Some cs" "class_ok cs" "counts_ok cs" "held (Lists cs) = held l"
  using assms class_ok_zero counts_ok_zero held_zero class_ok_length
  by (cases l) (auto simp: wfq_ok_def sched_cells_def)

lemma wfq_ok_Lists:
  "wfq_ok l a \<Longrightarrow> l \<noteq> Chain [] \<Longrightarrow> \<exists>cs. l = Lists cs \<and> class_ok cs \<and> counts_ok cs"
  by (auto simp: wfq_ok_def split: PACKETLIST.splits)

interpretation wfq: packet_scheduler fn_NetSim_WFQ wfq_ok
proof unfold_locales
  show "wfq_ok (Chain []) None"
    by (simp add: wfq_ok_def)
next
  fix b :: NetSim_BUFFER and p f
  assume "wfq_ok (pstruPacketlist b) (buf_last b)" and p: "packet_ok p"
  then obtain cs where cs: "sched_cells (pstruPacketlist b) = Some cs" "class_ok cs" "counts_ok cs"
      "held (Lists cs) = held (pstruPacketlist b)"
    by (elim wfq_ok_cells)
  with p add_to_class_one [OF cs(1) p] add_cells_ok [OF cs(2) p] add_cells_counts
  show "\<exists>l a. fn_NetSim_WFQ b [p] ADD f = Some (None, b\<lparr>pstruPacketlist := l, buf_last := a\<rparr>) \<and>
      wfq_ok l a \<and> held l = add_mset p (held (pstruPacketlist b))"
    by (intro exI [of _ "Lists (add_cells True p cs)"] exI [of _ "buf_last b"])
       (simp add: fn_NetSim_WFQ_def wfq_ok_def)
next
  fix b :: NetSim_BUFFER and ps
  assume few: "size (held (pstruPacketlist b)) < 2 ^ 31"
    and "wfq_ok (pstruPacketlist b) (buf_last b)" "held (pstruPacketlist b) \<noteq> {#}"
  then obtain cs where cs: "pstruPacketlist b = Lists cs" "class_ok cs" "counts_ok cs" "held (Lists cs) \<noteq> {#}"
    using wfq_ok_Lists [of "pstruPacketlist b" "buf_last b"] by (cases "pstruPacketlist b = Chain []") auto
  define i where "i = wfq_choice cs"
  from wfq_choice_max [OF cs(2,3)] wfq_choice_served [OF cs(2,3)] few cs
  have i: "i \<in> {1, 2, 3, 4}" "cell_list (cs ! i) \<noteq> []"
    unfolding i_def by metis+
  with take_cells_ok [OF cs(2) i, of True] take_cells_counts [OF cs(2,3) i] cs wfq_get [OF cs(1,2), of ps True]
  show "\<exists>p l a. fn_NetSim_WFQ b ps GET True = Some (Some p, b\<lparr>pstruPacketlist := l, buf_last := a\<rparr>) \<and>
      wfq_ok l a \<and> held (pstruPacketlist b) = add_mset p (held l)"
    by (intro exI [of _ "hd (cell_list (cs ! i))"] exI [of _ "Lists (take_cells True i cs)"]
          exI [of _ "buf_last b"])
       (simp add: wfq_ok_def i_def del: held_simps)
next
  fix b :: NetSim_BUFFER and ps
  assume "wfq_ok (pstruPacketlist b) (buf_last b)" "held (pstruPacketlist b) = {#}"
    "pstruPacketlist b \<noteq> Chain []"
  then obtain cs where cs: "pstruPacketlist b = Lists cs" "class_ok cs" "counts_ok cs" "held (Lists cs) = {#}"
    using wfq_ok_Lists [of "pstruPacketlist b" "buf_last b"] by auto
  then have "wfq_choice cs \<in> {1, 2, 3, 4}"
    using wfq_choice_max(1) [OF cs(2,3)] by (simp del: held_simps)
  then have "cell_list (cs ! wfq_choice cs) = []"
    using cs(4) unfolding held_Lists_empty [OF cs(2)] by blast
  with cs wfq_get [OF cs(1,2), of ps True]
  show "\<exists>l. fn_NetSim_WFQ b ps GET True = Some (None, b\<lparr>pstruPacketlist := l\<rparr>) \<and>
      wfq_ok l (buf_last b) \<and> held l = {#}"
    by (intro exI [of _ "Lists cs"]) (simp add: wfq_ok_def del: held_simps)
next
  fix b :: NetSim_BUFFER and ps
  assume "wfq_ok (pstruPacketlist b) (buf_last b)" "pstruPacketlist b \<noteq> Chain []"
  then obtain cs where cs: "pstruPacketlist b = Lists cs" "class_ok cs" "counts_ok cs"
    using wfq_ok_Lists [of "pstruPacketlist b" "buf_last b"] by auto
  with wfq_get [OF cs(1,2), of ps False]
  show "\<exists>r l. fn_NetSim_WFQ b ps GET False = Some (r, b\<lparr>pstruPacketlist := l\<rparr>) \<and>
      wfq_ok l (buf_last b) \<and> held l = held (pstruPacketlist b)"
    by (intro exI [of _ "if cell_list (cs ! wfq_choice cs) = [] then None
          else Some (hd (cell_list (cs ! wfq_choice cs)))"] exI [of _ "Lists cs"])
       (simp add: wfq_ok_def del: held_simps)
qed

end
