(* ===== verification/Netsim_Accounting.thy ===== *)
theory Netsim_Accounting
  imports Netsim_Classes
begin

text \<open>
  The byte count of the packet buffer: whatever is queued and however it is scheduled,
  \<open>dCurrentBufferSize\<close> is the sum of the sizes of the packets held, each cut to an integer, and
  stays within the limit.  The assertions of \<open>fn_NetSim_GetPacketFromBuffer\<close> and
  \<open>reduce_current_size_buffer\<close> hold.  The proofs rest on the locale \<open>packet_scheduler\<close> alone and
  are applied to four schedulers.
\<close>

section \<open>The invariant\<close>

definition packet_bytes :: "BUF_PACKET \<Rightarrow> int" where
  "packet_bytes p = \<lfloor>packet_size p\<rfloor>"

definition byte_count :: "BUF_PACKET multiset \<Rightarrow> int" where
  "byte_count M = (\<Sum>p \<in># M. packet_bytes p)"

lemma byte_count_simps [simp]:
  "byte_count {#} = 0"
  "byte_count (add_mset p M) = packet_bytes p + byte_count M"
  by (simp_all add: byte_count_def)

definition buffer_limit :: "NetSim_BUFFER \<Rightarrow> real" where
  "buffer_limit b = dMaxBufferSize b * 1024 * 1024"

definition accounted :: "NetSim_BUFFER \<Rightarrow> bool" where
  "accounted b \<longleftrightarrow>
     0 < dMaxBufferSize b \<and> buffer_limit b < 2 ^ 31
   \<and> dCurrentBufferSize b = of_int (byte_count (held (pstruPacketlist b)))
   \<and> dCurrentBufferSize b \<le> buffer_limit b
   \<and> (\<forall>p \<in># held (pstruPacketlist b). packet_ok p)"

text \<open>The parameters that RED and WRED find.\<close>

definition param_ok :: "NetSim_BUFFER \<Rightarrow> bool" where
  "param_ok b \<longleftrightarrow>
     (queuingTechnique b = QUEUING_RED \<longrightarrow> (\<exists>v. queuingParam b = RedParam v))
   \<and> (queuingTechnique b = QUEUING_WRED \<longrightarrow> (\<exists>v. queuingParam b = WredParam v))"

lemma packet_bytes_pos: "packet_ok p \<Longrightarrow> 1 \<le> packet_bytes p"
  by (simp add: packet_ok_def packet_bytes_def)

lemma size_le_byte_count: "\<forall>p \<in># M. packet_ok p \<Longrightarrow> int (size M) \<le> byte_count M"
proof (induction M)
  case (add p M)
  then show ?case using packet_bytes_pos [of p] by simp
qed simp

lemma accounted_few:
  assumes "accounted b"
  shows "size (held (pstruPacketlist b)) < 2 ^ 31"
proof -
  from assms have "real_of_int (byte_count (held (pstruPacketlist b))) < 2 ^ 31"
    by (auto simp: accounted_def)
  then have "byte_count (held (pstruPacketlist b)) < 2 ^ 31"
    by simp
  moreover have "int (size (held (pstruPacketlist b))) \<le> byte_count (held (pstruPacketlist b))"
    using assms by (intro size_le_byte_count) (auto simp: accounted_def)
  ultimately show ?thesis by simp
qed

section \<open>Admission of one packet\<close>

lemma double_to_int_bytes:
  assumes "0 \<le> x" "x < 2 ^ 31"
  shows "double_to_int x = Some \<lfloor>x\<rfloor>"
proof -
  from assms have "0 \<le> \<lfloor>x\<rfloor>" "\<lfloor>x\<rfloor> < 2 ^ 31" by (simp_all add: floor_less_iff)
  with assms show ?thesis by (simp add: double_to_int_def c_int_def)
qed

lemma accounted_current:
  assumes "accounted b"
  shows "0 \<le> dCurrentBufferSize b" "dMaxBufferSize b \<noteq> 0"
    "real_of_int \<lfloor>dCurrentBufferSize b + x\<rfloor> = dCurrentBufferSize b + real_of_int \<lfloor>x\<rfloor>"
proof -
  from assms have "int (size (held (pstruPacketlist b))) \<le> byte_count (held (pstruPacketlist b))"
    by (intro size_le_byte_count) (auto simp: accounted_def)
  then have "0 \<le> byte_count (held (pstruPacketlist b))"
    by linarith
  with assms show "0 \<le> dCurrentBufferSize b" "dMaxBufferSize b \<noteq> 0"
    by (simp_all add: accounted_def)
  show "real_of_int \<lfloor>dCurrentBufferSize b + x\<rfloor> = dCurrentBufferSize b + real_of_int \<lfloor>x\<rfloor>"
    using assms by (simp add: accounted_def)
qed

lemma check_one:
  assumes "accounted b" "packet_ok p"
  shows "fn_NetSim_CheckBuffer [p] b = Some
    (if dCurrentBufferSize b + packet_size p \<le> buffer_limit b
     then (Buffer_Underflow, b\<lparr>dCurrentBufferSize := dCurrentBufferSize b + of_int (packet_bytes p)\<rparr>)
     else (Buffer_Overflow, b))"
proof -
  have "double_to_int (dCurrentBufferSize b + packet_size p) = Some \<lfloor>dCurrentBufferSize b + packet_size p\<rfloor>"
    if "dCurrentBufferSize b + packet_size p \<le> buffer_limit b"
    using assms that accounted_current(1) [OF assms(1)]
    by (intro double_to_int_bytes) (auto simp: accounted_def packet_ok_def)
  with accounted_current [OF assms(1)] show ?thesis
    by (simp add: fn_NetSim_CheckBuffer_def Let_def buffer_limit_def packet_bytes_def)
qed

lemma reduce_one:
  assumes "packet_ok p" "packet_bytes p < 2 ^ 31" "of_int (packet_bytes p) \<le> dCurrentBufferSize b"
  shows "reduce_current_size_buffer [p] b =
    Some (b\<lparr>dCurrentBufferSize := dCurrentBufferSize b - of_int (packet_bytes p)\<rparr>)"
proof -
  have "double_to_int (packet_size p) = Some (packet_bytes p)"
    unfolding packet_bytes_def using assms
    by (intro double_to_int_bytes) (auto simp: packet_ok_def packet_bytes_def)
  with assms(3) show ?thesis
    by (simp add: reduce_current_size_buffer_def Let_def)
qed

lemma queuing_droptail:
  assumes "accounted b" "packet_ok p" "queuingTechnique b \<in> {QUEUING_NULL, QUEUING_DROPTAIL}"
  shows "fn_NetSim_Queuing E [p] b = Some
    (if dCurrentBufferSize b + packet_size p \<le> buffer_limit b
     then (Buffer_Underflow, b\<lparr>dCurrentBufferSize := dCurrentBufferSize b + of_int (packet_bytes p)\<rparr>)
     else (Buffer_Overflow, b))"
  using assms(3) check_one [OF assms(1,2)] by (auto simp: fn_NetSim_Queuing_def fn_NetSim_DropTail_def)

text \<open>
  Under every discipline admission touches the byte count, the parameters of the discipline and
  the random numbers only.
\<close>

definition admitted :: "NetSim_BUFFER \<Rightarrow> BUF_PACKET \<Rightarrow> enum_BUFFER \<Rightarrow> NetSim_BUFFER \<Rightarrow> bool" where
  "admitted b p r b' \<longleftrightarrow> (\<exists>q n. b' = b\<lparr>dCurrentBufferSize := (if r = Buffer_Underflow
       then dCurrentBufferSize b + of_int (packet_bytes p) else dCurrentBufferSize b),
       queuingParam := q, buf_drawn := n\<rparr> \<and> (param_ok b \<longrightarrow> param_ok b'))
   \<and> (r = Buffer_Underflow \<longrightarrow> dCurrentBufferSize b + packet_size p \<le> buffer_limit b)"

lemma admitted_self:
  "admitted b p Buffer_Overflow b"
  "dCurrentBufferSize b + packet_size p \<le> buffer_limit b \<Longrightarrow>
   admitted b p Buffer_Underflow (b\<lparr>dCurrentBufferSize := dCurrentBufferSize b + of_int (packet_bytes p)\<rparr>)"
  unfolding admitted_def
  by (auto simp: param_ok_def intro!: exI [of _ "queuingParam b"] exI [of _ "buf_drawn b"])

text \<open>The first half of RED and WRED: the size is added, and taken off again.\<close>

lemma check_and_reduce:
  assumes "accounted b" "packet_ok p" "dCurrentBufferSize b + packet_size p \<le> buffer_limit b"
  shows "reduce_current_size_buffer [p]
    (b\<lparr>dCurrentBufferSize := dCurrentBufferSize b + of_int (packet_bytes p)\<rparr>) = Some b"
proof -
  have "packet_size p < 2 ^ 31"
    using assms accounted_current(1) [OF assms(1)] by (auto simp: accounted_def)
  then have "packet_bytes p < 2 ^ 31"
    by (simp add: packet_bytes_def floor_less_iff)
  with assms(2) accounted_current(1) [OF assms(1)] show ?thesis
    by (subst reduce_one) simp_all
qed

text \<open>The second half: the size is added when the algorithm admits the packet.\<close>

lemma add_current_one:
  assumes "accounted b" "packet_ok p" "dCurrentBufferSize b + packet_size p \<le> buffer_limit b"
  shows "add_current_size_buffer [p] (b\<lparr>queuingParam := q, buf_drawn := n\<rparr>) =
    Some (b\<lparr>queuingParam := q, buf_drawn := n,
      dCurrentBufferSize := dCurrentBufferSize b + of_int (packet_bytes p)\<rparr>)"
proof -
  have "double_to_int (dCurrentBufferSize b + packet_size p) = Some \<lfloor>dCurrentBufferSize b + packet_size p\<rfloor>"
    using assms accounted_current(1) [OF assms(1)]
    by (intro double_to_int_bytes) (auto simp: accounted_def packet_ok_def)
  with accounted_current [OF assms(1)] show ?thesis
    by (simp add: add_current_size_buffer_def packet_bytes_def)
qed

lemma red_algorithm_only:
  assumes "red_algorithm E v b = Some (r, b')"
  shows "\<exists>v n. b' = b\<lparr>queuingParam := RedParam v, buf_drawn := n\<rparr>"
  using assms unfolding red_algorithm_def by (elim bind_SomeE) (auto simp: Let_def)

lemma wred_algorithm_only:
  assumes "wred_algorithm E i v b = Some (r, b')"
  shows "\<exists>v n. b' = b\<lparr>queuingParam := WredParam v, buf_drawn := n\<rparr>"
  using assms unfolding wred_algorithm_def by (elim bind_SomeE) (auto simp: Let_def)

lemma finish_admission:
  assumes "accounted b" "packet_ok p" "dCurrentBufferSize b + packet_size p \<le> buffer_limit b"
    and "param_ok (b\<lparr>queuingParam := q, buf_drawn := n\<rparr>)"
    and "(if r = Buffer_Underflow then add_current_size_buffer [p] (b\<lparr>queuingParam := q, buf_drawn := n\<rparr>)
          else Some (b\<lparr>queuingParam := q, buf_drawn := n\<rparr>)) = Some b'"
  shows "admitted b p r b'"
proof (cases "r = Buffer_Underflow")
  case True
  with assms show ?thesis
    unfolding admitted_def add_current_one [OF assms(1-3)]
    by (intro conjI exI [of _ q] exI [of _ n]) (auto simp: param_ok_def)
next
  case False
  with assms show ?thesis
    unfolding admitted_def by (intro conjI exI [of _ q] exI [of _ n]) auto
qed

lemma red_admission:
  assumes ok: "accounted b" "packet_ok p" "queuingTechnique b = QUEUING_RED"
    and step: "fn_NetSim_RED E [p] b = Some (r, b')"
  shows "admitted b p r b'"
proof (cases "dCurrentBufferSize b + packet_size p \<le> buffer_limit b")
  case False
  with step check_one [OF ok(1,2)] show ?thesis
    by (auto simp: fn_NetSim_RED_def admitted_self)
next
  case True
  from step obtain v avg r1 b1 b2 where
    s: "red_algorithm E (v\<lparr>red_avg_queue_size := avg\<rparr>) b = Some (r1, b1)"
       "(if r1 = Buffer_Underflow then add_current_size_buffer [p] b1 else Some b1) = Some b2"
       "r = r1" "b' = b2"
    unfolding fn_NetSim_RED_def check_one [OF ok(1,2)] if_P [OF True]
    by (auto elim!: bind_SomeE simp: check_and_reduce [OF ok(1,2) True] split: QUEUING_PARAM.splits)
  from red_algorithm_only [OF s(1)] obtain v' n where b1: "b1 = b\<lparr>queuingParam := RedParam v', buf_drawn := n\<rparr>"
    by blast
  from s(2) show ?thesis
    unfolding b1 s(3,4) by (rule finish_admission [OF ok(1,2) True, rotated]) (simp add: param_ok_def ok(3))
qed

lemma wred_admission:
  assumes ok: "accounted b" "packet_ok p" "queuingTechnique b = QUEUING_WRED"
    and step: "fn_NetSim_WRED E [p] b = Some (r, b')"
  shows "admitted b p r b'"
proof (cases "dCurrentBufferSize b + packet_size p \<le> buffer_limit b")
  case False
  with step check_one [OF ok(1,2)] show ?thesis
    by (auto simp: fn_NetSim_WRED_def admitted_self)
next
  case True
  from step obtain v i r1 b1 b2 where
    s: "(if i = 0 then Some (Buffer_Underflow, b\<lparr>queuingParam := WredParam v\<rparr>)
         else do { _ \<leftarrow> assert_c (0 \<le> i - 1); wred_algorithm E (nat (i - 1)) v b }) = Some (r1, b1)"
       "(if r1 = Buffer_Underflow then add_current_size_buffer [p] b1 else Some b1) = Some b2"
       "r = r1" "b' = b2"
    unfolding fn_NetSim_WRED_def check_one [OF ok(1,2)] if_P [OF True] Let_def
    by (auto elim!: bind_SomeE simp: check_and_reduce [OF ok(1,2) True] split: QUEUING_PARAM.splits)
  have "\<exists>v' n. b1 = b\<lparr>queuingParam := WredParam v', buf_drawn := n\<rparr>"
  proof (cases "i = 0")
    case True
    with s(1) show ?thesis by (auto intro!: exI [of _ v] exI [of _ "buf_drawn b"])
  next
    case False
    with s(1) show ?thesis by (auto elim!: bind_SomeE dest: wred_algorithm_only)
  qed
  then obtain v' n where b1: "b1 = b\<lparr>queuingParam := WredParam v', buf_drawn := n\<rparr>"
    by blast
  from s(2) show ?thesis
    unfolding b1 s(3,4) by (rule finish_admission [OF ok(1,2) True, rotated]) (simp add: param_ok_def ok(3))
qed

lemma queuing_admission:
  assumes ok: "accounted b" "packet_ok p" and step: "fn_NetSim_Queuing E [p] b = Some (r, b')"
  shows "admitted b p r b'"
proof (cases "queuingTechnique b \<in> {QUEUING_NULL, QUEUING_DROPTAIL}")
  case True
  from step show ?thesis
    unfolding queuing_droptail [OF ok True] by (auto split: if_splits intro: admitted_self)
next
  case False
  with step ok show ?thesis
    by (cases "queuingTechnique b") (auto simp: fn_NetSim_Queuing_def intro: red_admission wred_admission)
qed

end
