(* ===== verification/Netsim_Buffer_Spec.thy ===== *)
theory Netsim_Buffer_Spec
  imports Netsim_Accounting
begin

text \<open>
  The packet buffer as its users see it: adding, looking, taking out and asking for the status in
  any order, under FIFO, priority, round robin or fair queuing and any of the disciplines of
  admission.
\<close>

text \<open>Noting the time only touches the parameters.\<close>

lemma note_idle_ok:
  assumes "param_ok b"
  shows "\<exists>q. note_idle E b = Some (b\<lparr>queuingParam := q\<rparr>) \<and> param_ok (b\<lparr>queuingParam := q\<rparr>)"
proof (cases "dCurrentBufferSize b = 0 \<and> queuingTechnique b \<in> {QUEUING_RED, QUEUING_WRED}")
  case True
  with assms show ?thesis
    by (auto simp: note_idle_def param_ok_def)
next
  case False
  with assms show ?thesis
    by (intro exI [of _ "queuingParam b"]) (auto simp: note_idle_def param_ok_def)
qed

text \<open>Calling \<open>GET\<close> \<open>n\<close> times, and the packets handed out.\<close>

fun take_packets :: "BUFFER_ENV \<Rightarrow> nat \<Rightarrow> NetSim_BUFFER \<Rightarrow> (BUF_PACKET list \<times> NetSim_BUFFER) option" where
  "take_packets E 0 b = Some ([], b)"
| "take_packets E (Suc n) b = do {
     (r, b) \<leftarrow> fn_NetSim_GetPacketFromBuffer E b True;
     (ps, b) \<leftarrow> take_packets E n b;
     Some (case r of Some p \<Rightarrow> p # ps | None \<Rightarrow> ps, b) }"

section \<open>A buffer with a scheduler that keeps the contract\<close>

locale buffer_scheduler = packet_scheduler sched list_ok
  for sched :: "NetSim_BUFFER \<Rightarrow> BUF_PACKET list \<Rightarrow> enum_Buffer_Manipulation_Type \<Rightarrow> bool \<Rightarrow> sched_result"
    and list_ok :: "PACKETLIST \<Rightarrow> nat option \<Rightarrow> bool" +
  fixes types :: "SCHEDULING_TYPE set"
  assumes dispatch: "nSchedulingType b \<in> types \<Longrightarrow> schedule E b ps t f = sched b ps t f"
    and status: "\<lbrakk>nSchedulingType b \<in> types; list_ok (pstruPacketlist b) (buf_last b);
        fn_NetSim_GetBufferStatus b = Some (r, b')\<rbrakk>
      \<Longrightarrow> \<exists>l. b' = b\<lparr>pstruPacketlist := l\<rparr> \<and> list_ok l (buf_last b) \<and> held l = held (pstruPacketlist b)"
begin

definition buf_ok :: "NetSim_BUFFER \<Rightarrow> bool" where
  "buf_ok b \<longleftrightarrow> nSchedulingType b \<in> types \<and> list_ok (pstruPacketlist b) (buf_last b)
     \<and> accounted b \<and> param_ok b"

lemma buf_okD:
  assumes "buf_ok b"
  shows "nSchedulingType b \<in> types" "list_ok (pstruPacketlist b) (buf_last b)" "accounted b" "param_ok b"
  using assms by (simp_all add: buf_ok_def)

text \<open>\<open>ADD\<close> after admission.\<close>

lemma enqueue:
  assumes ok: "buf_ok b" and p: "packet_ok p" "fresh_packet (pstruPacketlist b) p"
    and adm: "admitted b p Buffer_Underflow b1"
  shows "\<exists>b'. schedule E (b1\<lparr>nQueuedPacket := nQueuedPacket b1 + 1\<rparr>) [p] ADD True = Some (None, b')
    \<and> buf_ok b' \<and> held (pstruPacketlist b') = add_mset p (held (pstruPacketlist b))
    \<and> nQueuedPacket b' = nQueuedPacket b + 1 \<and> nDroppedPacket b' = nDroppedPacket b"
proof -
  from adm obtain q n where b1: "b1 = b\<lparr>dCurrentBufferSize := dCurrentBufferSize b + of_int (packet_bytes p),
      queuingParam := q, buf_drawn := n\<rparr>" and par: "param_ok b1"
      and fits: "dCurrentBufferSize b + packet_size p \<le> buffer_limit b"
    using buf_okD(4) [OF ok] by (auto simp: admitted_def)
  define b2 where "b2 = b1\<lparr>nQueuedPacket := nQueuedPacket b1 + 1\<rparr>"
  have same: "pstruPacketlist b2 = pstruPacketlist b" "buf_last b2 = buf_last b"
      "nSchedulingType b2 = nSchedulingType b"
    by (simp_all add: b2_def b1)
  from add_one [of b2 p True] buf_okD(2) [OF ok] p obtain l a where
    r: "sched b2 [p] ADD True = Some (None, b2\<lparr>pstruPacketlist := l, buf_last := a\<rparr>)"
       "list_ok l a" "held l = add_mset p (held (pstruPacketlist b))"
    unfolding same by blast
  have "accounted (b2\<lparr>pstruPacketlist := l, buf_last := a\<rparr>)"
  proof -
    have "real_of_int (packet_bytes p) \<le> packet_size p"
      by (simp add: packet_bytes_def)
    then have "dCurrentBufferSize b + real_of_int (packet_bytes p) \<le> buffer_limit b"
      using fits by linarith
    with buf_okD(3) [OF ok] p(1) show ?thesis
      by (auto simp: accounted_def buffer_limit_def b2_def b1 r(3))
  qed
  moreover have "param_ok (b2\<lparr>pstruPacketlist := l, buf_last := a\<rparr>)"
    using par by (simp add: param_ok_def b2_def)
  ultimately have "buf_ok (b2\<lparr>pstruPacketlist := l, buf_last := a\<rparr>)"
    using r(2) buf_okD(1) [OF ok] by (simp add: buf_ok_def same)
  with r dispatch [of b2 E "[p]" ADD True] buf_okD(1) [OF ok] show ?thesis
    by (intro exI [of _ "b2\<lparr>pstruPacketlist := l, buf_last := a\<rparr>"]) (simp add: same, simp add: b2_def b1)
qed

text \<open>Adding a packet keeps the invariant, whether it is admitted or dropped.\<close>

lemma add_keeps:
  assumes ok: "buf_ok b" and p: "packet_ok p" "fresh_packet (pstruPacketlist b) p"
    and step: "fn_NetSim_Packet_AddPacketToBuffer E b [p] = Some b'"
  shows "buf_ok b'"
proof -
  from step obtain r b1 where q: "fn_NetSim_Queuing E [p] b = Some (r, b1)"
    and s: "(case r of Buffer_Underflow \<Rightarrow> map_option snd
          (schedule E (b1\<lparr>nQueuedPacket := nQueuedPacket b1 + 1\<rparr>) [p] ADD True)
      | Buffer_Overflow \<Rightarrow> Some (b1\<lparr>nDroppedPacket := nDroppedPacket b1 + 1\<rparr>)) = Some b'"
    unfolding fn_NetSim_Packet_AddPacketToBuffer_def by (auto elim!: bind_SomeE)
  from queuing_admission [OF buf_okD(3) [OF ok] p(1) q] have adm: "admitted b p r b1" .
  show ?thesis
  proof (cases r)
    case Buffer_Underflow
    with s enqueue [OF ok p, of b1 E] adm show ?thesis by auto
  next
    case Buffer_Overflow
    with adm obtain qp n where "b1 = b\<lparr>queuingParam := qp, buf_drawn := n\<rparr>" "param_ok b1"
      using buf_okD(4) [OF ok] by (auto simp: admitted_def)
    with ok s Buffer_Overflow show ?thesis
      by (auto simp: buf_ok_def accounted_def buffer_limit_def param_ok_def)
  qed
qed

text \<open>Under drop tail it is admitted exactly when it fits.\<close>

lemma add_droptail:
  assumes ok: "buf_ok b" and p: "packet_ok p" "fresh_packet (pstruPacketlist b) p"
    and dt: "queuingTechnique b \<in> {QUEUING_NULL, QUEUING_DROPTAIL}"
  shows "\<exists>b'. fn_NetSim_Packet_AddPacketToBuffer E b [p] = Some b' \<and> buf_ok b'
    \<and> (if dCurrentBufferSize b + packet_size p \<le> buffer_limit b
       then held (pstruPacketlist b') = add_mset p (held (pstruPacketlist b))
            \<and> nQueuedPacket b' = nQueuedPacket b + 1 \<and> nDroppedPacket b' = nDroppedPacket b
       else b' = b\<lparr>nDroppedPacket := nDroppedPacket b + 1\<rparr>)"
proof (cases "dCurrentBufferSize b + packet_size p \<le> buffer_limit b")
  case True
  from enqueue [OF ok p admitted_self(2) [OF True], of E] True show ?thesis
    by (auto simp: fn_NetSim_Packet_AddPacketToBuffer_def queuing_droptail [OF buf_okD(3) [OF ok] p(1) dt])
next
  case False
  with ok show ?thesis
    by (auto simp: fn_NetSim_Packet_AddPacketToBuffer_def queuing_droptail [OF buf_okD(3) [OF ok] p(1) dt]
        buf_ok_def accounted_def buffer_limit_def param_ok_def)
qed

text \<open>Taking a packet out.\<close>

lemma get_takes:
  assumes ok: "buf_ok b" and ne: "held (pstruPacketlist b) \<noteq> {#}"
  shows "\<exists>p b'. fn_NetSim_GetPacketFromBuffer E b True = Some (Some p, b') \<and> buf_ok b'
    \<and> held (pstruPacketlist b) = add_mset p (held (pstruPacketlist b'))"
proof -
  define b0 where "b0 = b\<lparr>nDequeuedPacket := nDequeuedPacket b + 1\<rparr>"
  have same: "pstruPacketlist b0 = pstruPacketlist b" "buf_last b0 = buf_last b"
      "nSchedulingType b0 = nSchedulingType b"
    by (simp_all add: b0_def)
  from get_one [of b0 "[]"] buf_okD(2) [OF ok] ne accounted_few [OF buf_okD(3) [OF ok]] obtain p l a where
    r: "sched b0 [] GET True = Some (Some p, b0\<lparr>pstruPacketlist := l, buf_last := a\<rparr>)"
       "list_ok l a" "held (pstruPacketlist b) = add_mset p (held l)"
    unfolding same by blast
  define b1 where "b1 = b0\<lparr>pstruPacketlist := l, buf_last := a\<rparr>"
  from buf_okD(3) [OF ok] r(3) have p: "packet_ok p"
    by (auto simp: accounted_def)
  have bytes: "dCurrentBufferSize b = of_int (packet_bytes p) + of_int (byte_count (held l))"
    using buf_okD(3) [OF ok] r(3) by (simp add: accounted_def)
  have rest: "0 \<le> byte_count (held l)"
  proof -
    have "int (size (held l)) \<le> byte_count (held l)"
      using buf_okD(3) [OF ok] r(3) by (intro size_le_byte_count) (auto simp: accounted_def)
    then show ?thesis by linarith
  qed
  have "dCurrentBufferSize b < 2 ^ 31"
    using buf_okD(3) [OF ok] unfolding accounted_def by linarith
  then have lt: "packet_bytes p < 2 ^ 31"
    using bytes rest by simp
  have red: "reduce_current_size_buffer [p] b1 =
      Some (b1\<lparr>dCurrentBufferSize := of_int (byte_count (held l))\<rparr>)"
    using bytes rest by (subst reduce_one [OF p lt]) (simp_all add: b1_def b0_def)
  define b2 where "b2 = b1\<lparr>dCurrentBufferSize := of_int (byte_count (held l))\<rparr>"
  have "param_ok b2"
    using buf_okD(4) [OF ok] by (simp add: param_ok_def b2_def b1_def b0_def)
  from note_idle_ok [OF this, of E] obtain q where
    q: "note_idle E b2 = Some (b2\<lparr>queuingParam := q\<rparr>)" "param_ok (b2\<lparr>queuingParam := q\<rparr>)"
    by blast
  have "accounted (b2\<lparr>queuingParam := q\<rparr>)"
    using buf_okD(3) [OF ok] r(3) bytes packet_bytes_pos [OF p]
    by (auto simp: accounted_def buffer_limit_def b2_def b1_def b0_def)
  with q(2) r(2) buf_okD(1) [OF ok] have "buf_ok (b2\<lparr>queuingParam := q\<rparr>)"
    by (simp add: buf_ok_def b2_def b1_def same)
  moreover have "fn_NetSim_GetPacketFromBuffer E b True = Some (Some p, b2\<lparr>queuingParam := q\<rparr>)"
  proof -
    have "pstruPacketlist b \<noteq> Chain []"
      using ne by auto
    moreover have "schedule E b0 [] GET True = Some (Some p, b1)"
      using dispatch [of b0 E "[]" GET True] buf_okD(1) [OF ok] r(1) by (simp add: same b1_def)
    moreover have "dMaxBufferSize b1 \<noteq> 0"
      using accounted_current(2) [OF buf_okD(3) [OF ok]] by (simp add: b1_def b0_def)
    ultimately show ?thesis
      using red q(1) by (simp add: fn_NetSim_GetPacketFromBuffer_def b0_def b2_def)
  qed
  ultimately show ?thesis
    using r(3) by (intro exI [of _ p] exI [of _ "b2\<lparr>queuingParam := q\<rparr>"]) (simp add: b2_def b1_def)
qed

text \<open>Taking from an empty buffer, and looking.\<close>

lemma get_empty:
  assumes ok: "buf_ok b" and e: "held (pstruPacketlist b) = {#}"
  shows "\<exists>b'. fn_NetSim_GetPacketFromBuffer E b True = Some (None, b') \<and> buf_ok b'
    \<and> held (pstruPacketlist b') = {#}"
proof (cases "pstruPacketlist b = Chain []")
  case True
  with ok e show ?thesis by (simp add: fn_NetSim_GetPacketFromBuffer_def)
next
  case False
  define b0 where "b0 = b\<lparr>nDequeuedPacket := nDequeuedPacket b + 1\<rparr>"
  have same: "pstruPacketlist b0 = pstruPacketlist b" "buf_last b0 = buf_last b"
      "nSchedulingType b0 = nSchedulingType b"
    by (simp_all add: b0_def)
  from get_none [of b0 "[]"] buf_okD(2) [OF ok] e False obtain l where
    r: "sched b0 [] GET True = Some (None, b0\<lparr>pstruPacketlist := l\<rparr>)"
       "list_ok l (buf_last b)" "held l = {#}"
    unfolding same by blast
  have "schedule E b0 [] GET True = Some (None, b0\<lparr>pstruPacketlist := l\<rparr>)"
    using dispatch [of b0 E "[]" GET True] buf_okD(1) [OF ok] r(1) by (simp add: same)
  moreover have "buf_ok (b0\<lparr>pstruPacketlist := l\<rparr>)"
    using r ok e by (simp add: buf_ok_def accounted_def buffer_limit_def param_ok_def b0_def)
  ultimately show ?thesis
    using False r(3) by (simp add: fn_NetSim_GetPacketFromBuffer_def b0_def)
qed

lemma get_looks:
  assumes ok: "buf_ok b"
  shows "\<exists>r b'. fn_NetSim_GetPacketFromBuffer E b False = Some (r, b') \<and> buf_ok b'
    \<and> held (pstruPacketlist b') = held (pstruPacketlist b)"
proof (cases "pstruPacketlist b = Chain []")
  case True
  with ok show ?thesis by (simp add: fn_NetSim_GetPacketFromBuffer_def)
next
  case False
  from peek [of b "[]"] buf_okD(2) [OF ok] False accounted_few [OF buf_okD(3) [OF ok]] obtain r l where
    r: "sched b [] GET False = Some (r, b\<lparr>pstruPacketlist := l\<rparr>)"
       "list_ok l (buf_last b)" "held l = held (pstruPacketlist b)"
    by blast
  define b1 where "b1 = b\<lparr>pstruPacketlist := l\<rparr>"
  have ok1: "buf_ok b1"
    using r ok by (simp add: buf_ok_def accounted_def buffer_limit_def param_ok_def b1_def)
  have s: "schedule E b [] GET False = Some (r, b1)"
    using dispatch [of b E "[]" GET False] buf_okD(1) [OF ok] r(1) by (simp add: b1_def)
  show ?thesis
  proof (cases r)
    case None
    with s False ok1 r(3) show ?thesis
      by (simp add: fn_NetSim_GetPacketFromBuffer_def b1_def)
  next
    case (Some p)
    from note_idle_ok [OF buf_okD(4) [OF ok1], of E] obtain q where
      q: "note_idle E b1 = Some (b1\<lparr>queuingParam := q\<rparr>)" "param_ok (b1\<lparr>queuingParam := q\<rparr>)"
      by blast
    have "buf_ok (b1\<lparr>queuingParam := q\<rparr>)"
      using ok1 q(2) by (simp add: buf_ok_def accounted_def buffer_limit_def)
    with s False q(1) Some r(3) show ?thesis
      by (simp add: fn_NetSim_GetPacketFromBuffer_def b1_def)
  qed
qed

lemma get_keeps:
  assumes ok: "buf_ok b" and step: "fn_NetSim_GetPacketFromBuffer E b f = Some (r, b')"
  shows "buf_ok b'"
proof (cases f)
  case True
  with step get_takes [OF ok, of E] get_empty [OF ok, of E] show ?thesis
    by (cases "held (pstruPacketlist b) = {#}") auto
next
  case False
  with step get_looks [OF ok, of E] show ?thesis by auto
qed

lemma status_keeps:
  assumes ok: "buf_ok b" and step: "fn_NetSim_GetBufferStatus b = Some (r, b')"
  shows "buf_ok b'"
  using status [OF buf_okD(1,2) [OF ok] step] ok
  by (auto simp: buf_ok_def accounted_def buffer_limit_def param_ok_def)

text \<open>As many \<open>GET\<close>s as there are packets hand out every packet once.\<close>

lemma drain_all:
  "buf_ok b \<Longrightarrow> n = size (held (pstruPacketlist b)) \<Longrightarrow>
   \<exists>ps b'. take_packets E n b = Some (ps, b') \<and> mset ps = held (pstruPacketlist b)
     \<and> buf_ok b' \<and> held (pstruPacketlist b') = {#}"
proof (induction n arbitrary: b)
  case 0
  then show ?case by simp
next
  case (Suc n)
  then have "held (pstruPacketlist b) \<noteq> {#}" by auto
  from get_takes [OF Suc.prems(1) this, of E] obtain p b1 where
    g: "fn_NetSim_GetPacketFromBuffer E b True = Some (Some p, b1)" "buf_ok b1"
       "held (pstruPacketlist b) = add_mset p (held (pstruPacketlist b1))"
    by blast
  with Suc.prems(2) have "n = size (held (pstruPacketlist b1))" by simp
  from Suc.IH [OF g(2) this] g show ?case by auto
qed

end

section \<open>The four schedulers\<close>

lemma chain_status:
  "nSchedulingType b \<in> {SCHEDULING_NONE, SCHEDULING_PRIORITY, SCHEDULING_EDF, SCHEDULING_FIFO} \<Longrightarrow>
   fn_NetSim_GetBufferStatus b = Some (pstruPacketlist b \<noteq> Chain [], b)"
  by (simp add: fn_NetSim_GetBufferStatus_def)

text \<open>The class that a status query leaves in cell 0.\<close>

definition next_served :: "SCHED_CELL list \<Rightarrow> nat" where
  "next_served cs = (case rr_choice cs of Some i \<Rightarrow> i | None \<Rightarrow> max 1 (served_class cs))"

lemma next_served_le: "class_ok cs \<Longrightarrow> next_served cs \<le> 4"
  using rr_choice_Some [of cs] served_class_le [of cs]
  by (auto simp: next_served_def split: option.splits)

lemma class_status:
  assumes "nSchedulingType b \<in> {SCHEDULING_ROUNDROBIN, SCHEDULING_WFQ}"
    and "pstruPacketlist b = Lists cs" "class_ok cs"
  shows "fn_NetSim_GetBufferStatus b =
    Some (rr_choice cs \<noteq> None, b\<lparr>pstruPacketlist := Lists (set_served (next_served cs) cs)\<rparr>)"
  using assms class_ok_length [OF assms(3)]
  by (cases "rr_choice cs")
     (auto simp: fn_NetSim_GetBufferStatus_def sched_cells_def rr_scan_spec next_served_def)

lemma empty_status:
  "nSchedulingType b \<in> {SCHEDULING_ROUNDROBIN, SCHEDULING_WFQ} \<Longrightarrow> pstruPacketlist b = Chain [] \<Longrightarrow>
   fn_NetSim_GetBufferStatus b = Some (False, b)"
  by (auto simp: fn_NetSim_GetBufferStatus_def)

lemma same_packetlist: "b = b\<lparr>pstruPacketlist := pstruPacketlist (b :: NetSim_BUFFER)\<rparr>"
  by simp

lemma chain_status_keeps:
  assumes "nSchedulingType b \<in> {SCHEDULING_NONE, SCHEDULING_FIFO, SCHEDULING_CLASSBASED, SCHEDULING_PRIORITY}"
    and "fn_NetSim_GetBufferStatus b = Some (r, b')"
  shows "b' = b"
  using assms by (auto simp: fn_NetSim_GetBufferStatus_def)

interpretation fifo_buffer: buffer_scheduler fn_NetSim_FIFO fifo_ok
  "{SCHEDULING_NONE, SCHEDULING_FIFO, SCHEDULING_CLASSBASED}"
proof unfold_locales
  fix b :: NetSim_BUFFER and E ps t f
  assume "nSchedulingType b \<in> {SCHEDULING_NONE, SCHEDULING_FIFO, SCHEDULING_CLASSBASED}"
  then show "schedule E b ps t f = fn_NetSim_FIFO b ps t f"
    by (auto simp: schedule_def)
next
  fix b b' :: NetSim_BUFFER and r
  assume "nSchedulingType b \<in> {SCHEDULING_NONE, SCHEDULING_FIFO, SCHEDULING_CLASSBASED}"
    and ok: "fifo_ok (pstruPacketlist b) (buf_last b)"
    and "fn_NetSim_GetBufferStatus b = Some (r, b')"
  then have "b' = b" by (auto intro!: chain_status_keeps)
  with ok same_packetlist show "\<exists>l. b' = b\<lparr>pstruPacketlist := l\<rparr> \<and> fifo_ok l (buf_last b) \<and>
      held l = held (pstruPacketlist b)"
    by blast
qed

interpretation prio_buffer: buffer_scheduler fn_NetSim_Priority priority_ok "{SCHEDULING_PRIORITY}"
proof unfold_locales
  fix b :: NetSim_BUFFER and E ps t f
  assume "nSchedulingType b \<in> {SCHEDULING_PRIORITY}"
  then show "schedule E b ps t f = fn_NetSim_Priority b ps t f"
    by (simp add: schedule_def)
next
  fix b b' :: NetSim_BUFFER and r
  assume "nSchedulingType b \<in> {SCHEDULING_PRIORITY}"
    and ok: "priority_ok (pstruPacketlist b) (buf_last b)"
    and "fn_NetSim_GetBufferStatus b = Some (r, b')"
  then have "b' = b" by (auto intro!: chain_status_keeps)
  with ok same_packetlist show "\<exists>l. b' = b\<lparr>pstruPacketlist := l\<rparr> \<and> priority_ok l (buf_last b) \<and>
      held l = held (pstruPacketlist b)"
    by blast
qed

interpretation rr_buffer: buffer_scheduler fn_NetSim_RoundRobin rr_ok "{SCHEDULING_ROUNDROBIN}"
proof unfold_locales
  fix b :: NetSim_BUFFER and E ps t f
  assume "nSchedulingType b \<in> {SCHEDULING_ROUNDROBIN}"
  then show "schedule E b ps t f = fn_NetSim_RoundRobin b ps t f"
    by (simp add: schedule_def)
next
  fix b b' :: NetSim_BUFFER and r
  assume t: "nSchedulingType b \<in> {SCHEDULING_ROUNDROBIN}"
    and ok: "rr_ok (pstruPacketlist b) (buf_last b)"
    and st: "fn_NetSim_GetBufferStatus b = Some (r, b')"
  show "\<exists>l. b' = b\<lparr>pstruPacketlist := l\<rparr> \<and> rr_ok l (buf_last b) \<and> held l = held (pstruPacketlist b)"
  proof (cases "pstruPacketlist b")
    case (Chain xs)
    with t ok st empty_status [of b] show ?thesis
      by (intro exI [of _ "Chain []"]) (simp add: rr_ok_def)
  next
    case (Lists cs)
    with t ok st class_status [of b cs] next_served_le [of cs] show ?thesis
      by (intro exI [of _ "Lists (set_served (next_served cs) cs)"])
         (simp add: rr_ok_def class_ok_set_served del: held_simps)
  qed
qed

lemma counts_set_served [simp]: "counts_ok (set_served i cs) = counts_ok cs"
  by (simp add: counts_ok_def)

interpretation wfq_buffer: buffer_scheduler fn_NetSim_WFQ wfq_ok "{SCHEDULING_WFQ}"
proof unfold_locales
  fix b :: NetSim_BUFFER and E ps t f
  assume "nSchedulingType b \<in> {SCHEDULING_WFQ}"
  then show "schedule E b ps t f = fn_NetSim_WFQ b ps t f"
    by (simp add: schedule_def)
next
  fix b b' :: NetSim_BUFFER and r
  assume t: "nSchedulingType b \<in> {SCHEDULING_WFQ}"
    and ok: "wfq_ok (pstruPacketlist b) (buf_last b)"
    and st: "fn_NetSim_GetBufferStatus b = Some (r, b')"
  show "\<exists>l. b' = b\<lparr>pstruPacketlist := l\<rparr> \<and> wfq_ok l (buf_last b) \<and> held l = held (pstruPacketlist b)"
  proof (cases "pstruPacketlist b")
    case (Chain xs)
    with t ok st empty_status [of b] show ?thesis
      by (intro exI [of _ "Chain []"]) (simp add: wfq_ok_def)
  next
    case (Lists cs)
    with t ok st class_status [of b cs] next_served_le [of cs] show ?thesis
      by (intro exI [of _ "Lists (set_served (next_served cs) cs)"])
         (simp add: wfq_ok_def class_ok_set_served del: held_simps)
  qed
qed

end
