(* ===== verification/Netsim_Buffer_Reach.thy ===== *)
theory Netsim_Buffer_Reach
  imports Netsim_Buffer_Spec
begin

text \<open>
  The states a buffer reaches, and what holds in all of them: the byte count is right, drop tail
  admits exactly what fits, and every packet admitted can be taken out again.  FIFO hands packets
  out in the order of arrival; priority in the order of a stable sort.
\<close>

section \<open>Reachable buffers\<close>

text \<open>An empty buffer with a limit that an \<open>int\<close> can count.\<close>

definition buffer_initial :: "NetSim_BUFFER \<Rightarrow> bool" where
  "buffer_initial b \<longleftrightarrow> pstruPacketlist b = Chain [] \<and> buf_last b = None \<and> dCurrentBufferSize b = 0
     \<and> 0 < dMaxBufferSize b \<and> buffer_limit b < 2 ^ 31 \<and> param_ok b"

definition buffer_ok :: "NetSim_BUFFER \<Rightarrow> bool" where
  "buffer_ok b \<longleftrightarrow> fifo_buffer.buf_ok b \<or> prio_buffer.buf_ok b \<or> rr_buffer.buf_ok b \<or> wfq_buffer.buf_ok b"

lemmas buf_ok_defs = fifo_buffer.buf_ok_def prio_buffer.buf_ok_def rr_buffer.buf_ok_def wfq_buffer.buf_ok_def

inductive buffer_reach :: "NetSim_BUFFER \<Rightarrow> bool" where
  initial: "buffer_initial b \<Longrightarrow> nSchedulingType b \<noteq> SCHEDULING_EDF \<Longrightarrow> buffer_reach b"
| add: "buffer_reach b \<Longrightarrow> packet_ok p \<Longrightarrow> fresh_packet (pstruPacketlist b) p \<Longrightarrow>
    fn_NetSim_Packet_AddPacketToBuffer E b [p] = Some b' \<Longrightarrow> buffer_reach b'"
| get: "buffer_reach b \<Longrightarrow> fn_NetSim_GetPacketFromBuffer E b f = Some (r, b') \<Longrightarrow> buffer_reach b'"
| status: "buffer_reach b \<Longrightarrow> fn_NetSim_GetBufferStatus b = Some (s, b') \<Longrightarrow> buffer_reach b'"

lemma buffer_initial_ok:
  assumes "buffer_initial b" "nSchedulingType b \<noteq> SCHEDULING_EDF"
  shows "buffer_ok b"
proof -
  have "0 \<le> buffer_limit b"
    using assms(1) by (simp add: buffer_initial_def buffer_limit_def)
  with assms fifo.empty_ok prio.empty_ok rr.empty_ok wfq.empty_ok show ?thesis
    by (cases "nSchedulingType b")
       (simp_all add: buffer_initial_def buffer_ok_def buf_ok_defs accounted_def)
qed

lemma buffer_reach_ok: "buffer_reach b \<Longrightarrow> buffer_ok b"
proof (induction rule: buffer_reach.induct)
  case (initial b)
  then show ?case by (rule buffer_initial_ok)
next
  case (add b p E b')
  then show ?case
    unfolding buffer_ok_def
    using fifo_buffer.add_keeps prio_buffer.add_keeps rr_buffer.add_keeps wfq_buffer.add_keeps by blast
next
  case (get b E f r b')
  then show ?case
    unfolding buffer_ok_def
    using fifo_buffer.get_keeps prio_buffer.get_keeps rr_buffer.get_keeps wfq_buffer.get_keeps by blast
next
  case (status b s b')
  then show ?case
    unfolding buffer_ok_def
    using fifo_buffer.status_keeps prio_buffer.status_keeps rr_buffer.status_keeps wfq_buffer.status_keeps
    by blast
qed

text \<open>What the four invariants share.\<close>

lemma buffer_ok_accounted: "buffer_ok b \<Longrightarrow> accounted b"
  by (auto simp: buffer_ok_def buf_ok_defs)

lemma buffer_ok_drain:
  assumes "buffer_ok b" "n = size (held (pstruPacketlist b))"
  shows "\<exists>ps b'. take_packets E n b = Some (ps, b') \<and> mset ps = held (pstruPacketlist b)
     \<and> buffer_ok b' \<and> held (pstruPacketlist b') = {#}"
  using assms unfolding buffer_ok_def
  using fifo_buffer.drain_all [of b n E] prio_buffer.drain_all [of b n E]
    rr_buffer.drain_all [of b n E] wfq_buffer.drain_all [of b n E]
  by blast

lemma buffer_ok_droptail:
  assumes "buffer_ok b" "packet_ok p" "fresh_packet (pstruPacketlist b) p"
    and "queuingTechnique b \<in> {QUEUING_NULL, QUEUING_DROPTAIL}"
  shows "\<exists>b'. fn_NetSim_Packet_AddPacketToBuffer E b [p] = Some b' \<and> buffer_ok b'
    \<and> (if dCurrentBufferSize b + packet_size p \<le> buffer_limit b
       then held (pstruPacketlist b') = add_mset p (held (pstruPacketlist b))
            \<and> nQueuedPacket b' = nQueuedPacket b + 1 \<and> nDroppedPacket b' = nDroppedPacket b
       else b' = b\<lparr>nDroppedPacket := nDroppedPacket b + 1\<rparr>)"
  using assms unfolding buffer_ok_def
  using fifo_buffer.add_droptail [of b p E] prio_buffer.add_droptail [of b p E]
    rr_buffer.add_droptail [of b p E] wfq_buffer.add_droptail [of b p E]
  by blast

section \<open>The byte count\<close>


text \<open>
  C8: Every packet admitted comes out: from a reachable buffer of \<open>n\<close> packets, \<open>n\<close> calls of
  \<open>fn_NetSim_GetPacketFromBuffer\<close> return, none of their assertions fails, they hand out each
  packet of the buffer once, and the buffer is then empty with a byte count of zero.
\<close>

theorem buffer_drains:
  assumes "buffer_reach b"
  shows "\<exists>ps b'. take_packets E (size (held (pstruPacketlist b))) b = Some (ps, b')
    \<and> mset ps = held (pstruPacketlist b)
    \<and> held (pstruPacketlist b') = {#} \<and> dCurrentBufferSize b' = 0"
proof -
  from buffer_ok_drain [OF buffer_reach_ok [OF assms] refl] obtain ps b' where
    d: "take_packets E (size (held (pstruPacketlist b))) b = Some (ps, b')"
       "mset ps = held (pstruPacketlist b)" "buffer_ok b'" "held (pstruPacketlist b') = {#}"
    by blast
  from buffer_ok_accounted [OF d(3)] d(4) have "dCurrentBufferSize b' = 0"
    by (simp add: accounted_def)
  with d show ?thesis by blast
qed

text \<open>
  Drop tail admits a packet exactly when the byte count plus its size is within the limit:
  then it is in the buffer and counted as queued; otherwise the buffer changes in nothing but
  \<open>nDroppedPacket\<close>.  The call never fails.
\<close>

theorem droptail_admits_what_fits:
  assumes "buffer_reach b" "packet_ok p" "fresh_packet (pstruPacketlist b) p"
    and "queuingTechnique b = QUEUING_DROPTAIL"
  shows "\<exists>b'. fn_NetSim_Packet_AddPacketToBuffer E b [p] = Some b'
    \<and> (if dCurrentBufferSize b + packet_size p \<le> dMaxBufferSize b * 1024 * 1024
       then held (pstruPacketlist b') = add_mset p (held (pstruPacketlist b))
            \<and> nQueuedPacket b' = nQueuedPacket b + 1 \<and> nDroppedPacket b' = nDroppedPacket b
       else b' = b\<lparr>nDroppedPacket := nDroppedPacket b + 1\<rparr>)"
  using buffer_ok_droptail [OF buffer_reach_ok [OF assms(1)] assms(2,3), of E] assms(4)
  by (auto simp: buffer_limit_def)

section \<open>The order of a chain\<close>

text \<open>Adding packets one after the other.\<close>

fun add_packets :: "BUFFER_ENV \<Rightarrow> BUF_PACKET list \<Rightarrow> NetSim_BUFFER \<Rightarrow> NetSim_BUFFER option" where
  "add_packets E [] b = Some b"
| "add_packets E (p # ps) b = do { b \<leftarrow> fn_NetSim_Packet_AddPacketToBuffer E b [p]; add_packets E ps b }"

text \<open>A scheduler that keeps one chain and puts a packet into it by \<open>insert\<close>.\<close>

locale chain_scheduler = buffer_scheduler sched list_ok types
  for sched :: "NetSim_BUFFER \<Rightarrow> BUF_PACKET list \<Rightarrow> enum_Buffer_Manipulation_Type \<Rightarrow> bool \<Rightarrow> sched_result"
    and list_ok :: "PACKETLIST \<Rightarrow> nat option \<Rightarrow> bool"
    and types :: "SCHEDULING_TYPE set" +
  fixes put_in :: "BUF_PACKET \<Rightarrow> BUF_PACKET list \<Rightarrow> BUF_PACKET list"
  assumes add_chain: "\<lbrakk>list_ok (pstruPacketlist b) (buf_last b); pstruPacketlist b = Chain xs;
        sched b [p] ADD f = Some (r, b')\<rbrakk> \<Longrightarrow> pstruPacketlist b' = Chain (put_in p xs)"
    and get_chain: "\<lbrakk>list_ok (pstruPacketlist b) (buf_last b); pstruPacketlist b = Chain (x # xs);
        sched b ps GET True = Some (r, b')\<rbrakk> \<Longrightarrow> r = Some x \<and> pstruPacketlist b' = Chain xs"
begin

lemma add_chain_buffer:
  assumes ok: "buf_ok b" and p: "packet_ok p" "fresh_packet (pstruPacketlist b) p"
    and dt: "queuingTechnique b \<in> {QUEUING_NULL, QUEUING_DROPTAIL}"
    and fits: "dCurrentBufferSize b + packet_size p \<le> buffer_limit b"
    and xs: "pstruPacketlist b = Chain xs"
  shows "\<exists>b'. fn_NetSim_Packet_AddPacketToBuffer E b [p] = Some b' \<and> buf_ok b'
    \<and> pstruPacketlist b' = Chain (put_in p xs) \<and> buffer_limit b' = buffer_limit b
    \<and> queuingTechnique b' = queuingTechnique b
    \<and> dCurrentBufferSize b' = dCurrentBufferSize b + of_int (packet_bytes p)"
proof -
  define b2 where "b2 = b\<lparr>dCurrentBufferSize := dCurrentBufferSize b + of_int (packet_bytes p),
    nQueuedPacket := nQueuedPacket b + 1\<rparr>"
  have same: "pstruPacketlist b2 = pstruPacketlist b" "buf_last b2 = buf_last b"
      "nSchedulingType b2 = nSchedulingType b"
    by (simp_all add: b2_def)
  from add_one [of b2 p True] buf_okD(2) [OF ok] p obtain l a where
    r: "sched b2 [p] ADD True = Some (None, b2\<lparr>pstruPacketlist := l, buf_last := a\<rparr>)"
    unfolding same by blast
  have l: "l = Chain (put_in p xs)"
    using add_chain [of b2 xs p True] buf_okD(2) [OF ok] xs r by (simp add: same)
  have e: "fn_NetSim_Packet_AddPacketToBuffer E b [p] = Some (b2\<lparr>pstruPacketlist := l, buf_last := a\<rparr>)"
    using dispatch [of b2 E "[p]" ADD True] buf_okD(1) [OF ok] r fits
    by (simp add: fn_NetSim_Packet_AddPacketToBuffer_def queuing_droptail [OF buf_okD(3) [OF ok] p(1) dt]
        b2_def)
  from add_keeps [OF ok p e] e l show ?thesis
    by (simp add: b2_def buffer_limit_def)
qed

lemma get_chain_buffer:
  assumes ok: "buf_ok b" and xs: "pstruPacketlist b = Chain (x # xs)"
  shows "\<exists>b'. fn_NetSim_GetPacketFromBuffer E b True = Some (Some x, b') \<and> buf_ok b'
    \<and> pstruPacketlist b' = Chain xs"
proof -
  from get_takes [OF ok, of E] xs obtain p b' where
    g: "fn_NetSim_GetPacketFromBuffer E b True = Some (Some p, b')" "buf_ok b'"
    by auto
  define b0 where "b0 = b\<lparr>nDequeuedPacket := nDequeuedPacket b + 1\<rparr>"
  from g(1) xs obtain r b1 where s: "schedule E b0 [] GET True = Some (r, b1)"
    and t: "(case r of None \<Rightarrow> Some (None, b1) | Some p \<Rightarrow> do {
         b \<leftarrow> (if True \<and> dMaxBufferSize b1 \<noteq> 0 then reduce_current_size_buffer [p] b1 else Some b1);
         b \<leftarrow> note_idle E b; Some (Some p, b) }) = Some (Some p, b')"
    by (auto simp: fn_NetSim_GetPacketFromBuffer_def b0_def elim!: bind_SomeE)
  from s have "sched b0 [] GET True = Some (r, b1)"
    using dispatch [of b0 E "[]" GET True] buf_okD(1) [OF ok] by (simp add: b0_def)
  from get_chain [OF _ _ this, of x xs] buf_okD(2) [OF ok] xs
  have rx: "r = Some x" "pstruPacketlist b1 = Chain xs"
    by (simp_all add: b0_def)
  with t have "p = x" "pstruPacketlist b' = Chain xs"
    by (auto simp: note_idle_def reduce_current_size_buffer_def Let_def elim!: bind_SomeE
        split: if_splits QUEUING_PARAM.splits)
  with g show ?thesis by blast
qed

lemma take_chain:
  "buf_ok b \<Longrightarrow> pstruPacketlist b = Chain xs \<Longrightarrow>
   \<exists>b'. take_packets E (length xs) b = Some (xs, b') \<and> pstruPacketlist b' = Chain []"
proof (induction xs arbitrary: b)
  case (Cons x xs)
  from get_chain_buffer [OF Cons.prems, of E] obtain b1 where
    "fn_NetSim_GetPacketFromBuffer E b True = Some (Some x, b1)" "buf_ok b1" "pstruPacketlist b1 = Chain xs"
    by blast
  with Cons.IH [of b1] show ?case by auto
qed simp

lemma add_all:
  assumes "\<And>p xs. mset (put_in p xs) = add_mset p (mset xs)"
  shows "buf_ok b \<Longrightarrow> pstruPacketlist b = Chain xs \<Longrightarrow> \<forall>p \<in> set ps. packet_ok p \<Longrightarrow>
    distinct (map bp_ptr (xs @ ps)) \<Longrightarrow> queuingTechnique b \<in> {QUEUING_NULL, QUEUING_DROPTAIL} \<Longrightarrow>
    dCurrentBufferSize b + sum_list (map packet_size ps) \<le> buffer_limit b \<Longrightarrow>
    \<exists>b'. add_packets E ps b = Some b' \<and> buf_ok b' \<and> pstruPacketlist b' = Chain (fold put_in ps xs)"
proof (induction ps arbitrary: b xs)
  case (Cons p ps)
  have "0 \<le> sum_list (map packet_size ps)"
    using Cons.prems(3) by (intro sum_list_nonneg) (auto simp: packet_ok_def)
  then have fits: "dCurrentBufferSize b + packet_size p \<le> buffer_limit b"
    using Cons.prems(6) by simp
  have p: "packet_ok p" "fresh_packet (pstruPacketlist b) p"
    using Cons.prems by (auto simp: fresh_packet_def)
  from add_chain_buffer [OF Cons.prems(1) p Cons.prems(5) fits Cons.prems(2), of E] obtain b1 where
    b1: "fn_NetSim_Packet_AddPacketToBuffer E b [p] = Some b1" "buf_ok b1"
      "pstruPacketlist b1 = Chain (put_in p xs)" "buffer_limit b1 = buffer_limit b"
      "queuingTechnique b1 = queuingTechnique b"
      "dCurrentBufferSize b1 = dCurrentBufferSize b + of_int (packet_bytes p)"
    by blast
  have "distinct (map bp_ptr (put_in p xs @ ps))"
  proof -
    have "mset (map bp_ptr (put_in p xs @ ps)) = mset (map bp_ptr (xs @ p # ps))"
      by (simp add: assms)
    then show ?thesis
      using Cons.prems(4) by (metis mset_eq_imp_distinct_iff)
  qed
  moreover have "dCurrentBufferSize b1 + sum_list (map packet_size ps) \<le> buffer_limit b1"
  proof -
    have "real_of_int (packet_bytes p) \<le> packet_size p" by (simp add: packet_bytes_def)
    with Cons.prems(6) b1(4,6) show ?thesis by simp
  qed
  ultimately show ?case
    using Cons.IH [OF b1(2,3)] Cons.prems(3,5) b1(1,5) by auto
qed simp

end

interpretation fifo_chain: chain_scheduler fn_NetSim_FIFO fifo_ok
  "{SCHEDULING_NONE, SCHEDULING_FIFO, SCHEDULING_CLASSBASED}" "\<lambda>p xs. xs @ [p]"
proof unfold_locales
  fix b b' :: NetSim_BUFFER and xs p f r
  assume "fifo_ok (pstruPacketlist b) (buf_last b)" "pstruPacketlist b = Chain xs"
    "fn_NetSim_FIFO b [p] ADD f = Some (r, b')"
  then show "pstruPacketlist b' = Chain (xs @ [p])"
    using append_chain_ok [of xs b "[p]"] by (auto simp: fifo_ok_def fn_NetSim_FIFO_def)
next
  fix b b' :: NetSim_BUFFER and x xs ps r
  assume "pstruPacketlist b = Chain (x # xs)" "fn_NetSim_FIFO b ps GET True = Some (r, b')"
  then show "r = Some x \<and> pstruPacketlist b' = Chain xs"
    by (auto simp: fn_NetSim_FIFO_def)
qed

interpretation prio_chain: chain_scheduler fn_NetSim_Priority priority_ok "{SCHEDULING_PRIORITY}"
  "\<lambda>p xs. priority_walk p [] xs"
proof unfold_locales
  fix b b' :: NetSim_BUFFER and xs p f r
  assume "pstruPacketlist b = Chain xs" "fn_NetSim_Priority b [p] ADD f = Some (r, b')"
  then show "pstruPacketlist b' = Chain (priority_walk p [] xs)"
    by (cases xs) (auto simp: fn_NetSim_Priority_def)
next
  fix b b' :: NetSim_BUFFER and x xs ps r
  assume "pstruPacketlist b = Chain (x # xs)" "fn_NetSim_Priority b ps GET True = Some (r, b')"
  then show "r = Some x \<and> pstruPacketlist b' = Chain xs"
    by (auto simp: fn_NetSim_Priority_def)
qed

text \<open>Inserting one packet after the other sorts, and keeps the order among equals.\<close>

lemma filter_priority_walk:
  assumes "sorted (map (\<lambda>x. - bp_nPacketPriority x) xs)"
  shows "filter (\<lambda>x. k = - bp_nPacketPriority x) (priority_walk p [] xs) =
    filter (\<lambda>x. k = - bp_nPacketPriority x) xs @ filter (\<lambda>x. k = - bp_nPacketPriority x) [p]"
  using assms
proof (induction xs)
  case (Cons x xs)
  show ?case
  proof (cases "bp_nPacketPriority x < bp_nPacketPriority p \<and> - bp_nPacketPriority p = k")
    case True
    then have "\<forall>y \<in> set (x # xs). k \<noteq> - bp_nPacketPriority y"
      using Cons.prems by fastforce
    then have "filter (\<lambda>y. k = - bp_nPacketPriority y) (x # xs) = []"
      by (simp only: filter_empty_conv not_False_eq_True)
    with True show ?thesis by simp
  next
    case False
    with Cons show ?thesis by auto
  qed
qed simp

lemma fold_priority_walk_inv:
  assumes "sorted (map (\<lambda>x. - bp_nPacketPriority x) xs)"
  shows "sorted (map (\<lambda>x. - bp_nPacketPriority x) (fold (\<lambda>p xs. priority_walk p [] xs) ps xs))
    \<and> mset (fold (\<lambda>p xs. priority_walk p [] xs) ps xs) = mset xs + mset ps
    \<and> filter (\<lambda>x. k = - bp_nPacketPriority x) (fold (\<lambda>p xs. priority_walk p [] xs) ps xs) =
        filter (\<lambda>x. k = - bp_nPacketPriority x) (xs @ ps)"
  using assms
proof (induction ps arbitrary: xs)
  case (Cons p ps)
  have "sorted (map (\<lambda>x. - bp_nPacketPriority x) (priority_walk p [] xs))"
    using Cons.prems by (rule sorted_priority_walk)
  from Cons.IH [OF this] show ?case
    using filter_priority_walk [OF Cons.prems, of k p] by (simp add: mset_priority_walk)
qed simp

lemma fold_priority_walk:
  "fold (\<lambda>p xs. priority_walk p [] xs) ps [] = sort_key (\<lambda>x. - bp_nPacketPriority x) ps"
proof (rule properties_for_sort_key [symmetric])
  show "mset (fold (\<lambda>p xs. priority_walk p [] xs) ps []) = mset ps"
    using fold_priority_walk_inv [of "[]" ps] by simp
  show "sorted (map (\<lambda>x. - bp_nPacketPriority x) (fold (\<lambda>p xs. priority_walk p [] xs) ps []))"
    using fold_priority_walk_inv [of "[]" ps] by simp
  show "filter (\<lambda>x. - bp_nPacketPriority k = - bp_nPacketPriority x) (fold (\<lambda>p xs. priority_walk p [] xs) ps []) =
      filter (\<lambda>x. - bp_nPacketPriority k = - bp_nPacketPriority x) ps" for k
    using fold_priority_walk_inv [of "[]" ps "- bp_nPacketPriority k"] by simp
qed

lemma fold_append: "fold (\<lambda>p xs. xs @ [p]) ps xs = xs @ ps"
  by (induction ps arbitrary: xs) simp_all

text \<open>
  C26: FIFO is a queue: into an empty buffer with drop tail, packets whose sizes sum up to at most
  the limit are all admitted, and come out in the order in which they were added.
\<close>

theorem fifo_serves_in_order:
  assumes "buffer_initial b" "nSchedulingType b = SCHEDULING_FIFO" "queuingTechnique b = QUEUING_DROPTAIL"
    and "\<forall>p \<in> set ps. packet_ok p" "distinct (map bp_ptr ps)"
    and "sum_list (map packet_size ps) \<le> dMaxBufferSize b * 1024 * 1024"
  shows "\<exists>b1 b2. add_packets E ps b = Some b1 \<and> take_packets E' (length ps) b1 = Some (ps, b2)
    \<and> pstruPacketlist b2 = Chain []"
proof -
  have "buffer_ok b"
    using assms(1,2) by (auto intro: buffer_initial_ok)
  then have "fifo_buffer.buf_ok b"
    using assms(2) by (simp add: buffer_ok_def buf_ok_defs)
  from fifo_chain.add_all [OF _ this, of "[]" ps E] assms obtain b1 where
    "add_packets E ps b = Some b1" "fifo_buffer.buf_ok b1" "pstruPacketlist b1 = Chain ps"
    by (auto simp: buffer_initial_def buffer_limit_def fold_append)
  with fifo_chain.take_chain [of b1 ps E'] show ?thesis by auto
qed

text \<open>
  C20: Priority scheduling is a stable sort: into an empty buffer with drop tail, packets whose
  sizes sum up to at most the limit come out by falling priority, and in the order of arrival
  among equal priorities.
\<close>

theorem priority_serves_sorted:
  assumes "buffer_initial b" "nSchedulingType b = SCHEDULING_PRIORITY" "queuingTechnique b = QUEUING_DROPTAIL"
    and "\<forall>p \<in> set ps. packet_ok p" "distinct (map bp_ptr ps)"
    and "sum_list (map packet_size ps) \<le> dMaxBufferSize b * 1024 * 1024"
  shows "\<exists>b1 b2. add_packets E ps b = Some b1
    \<and> take_packets E' (length ps) b1 = Some (sort_key (\<lambda>p. - bp_nPacketPriority p) ps, b2)"
proof -
  have "buffer_ok b"
    using assms(1,2) by (auto intro: buffer_initial_ok)
  then have "prio_buffer.buf_ok b"
    using assms(2) by (simp add: buffer_ok_def buf_ok_defs)
  from prio_chain.add_all [OF _ this, of "[]" ps E] assms obtain b1 where
    "add_packets E ps b = Some b1" "prio_buffer.buf_ok b1"
    "pstruPacketlist b1 = Chain (sort_key (\<lambda>p. - bp_nPacketPriority p) ps)"
    by (auto simp: buffer_initial_def buffer_limit_def fold_priority_walk mset_priority_walk)
  with prio_chain.take_chain [of b1 "sort_key (\<lambda>p. - bp_nPacketPriority p) ps" E'] show ?thesis
    by auto
qed

section \<open>An example\<close>

definition demo_packet :: "nat \<Rightarrow> int \<Rightarrow> BUF_PACKET" where
  "demo_packet a prio = \<lparr>bp_ptr = a, bp_nPacketPriority = prio, bp_nQOS = 1, bp_dEventTime = 0,
     bp_networkSize = Some 1500, bp_macSize = 0\<rparr>"

definition demo_buffer :: "SCHEDULING_TYPE \<Rightarrow> NetSim_BUFFER" where
  "demo_buffer t = \<lparr>dMaxBufferSize = 1, dCurrentBufferSize = 0, nSchedulingType = t,
     queuingTechnique = QUEUING_DROPTAIL, max_latency = [1], queuingParam = NoParam,
     nQueuedPacket = 0, nDequeuedPacket = 0, nDroppedPacket = 0, pstruPacketlist = Chain [],
     buf_last = None, buf_drawn = 0\<rparr>"

definition demo_buf_env :: "simtime \<Rightarrow> BUFFER_ENV" where
  "demo_buf_env t = \<lparr>be_dEventTime = t, NETSIM_RAND_01 = (\<lambda>_. 0)\<rparr>"

lemmas demo_buffer_defs = demo_packet_def demo_buffer_def demo_buf_env_def

lemma demo_packet_ok: "prio \<in> {0, 2, 4, 6, 8} \<Longrightarrow> packet_ok (demo_packet a prio)"
  by (auto simp: packet_ok_def demo_packet_def packet_size_def priority_defs)

lemma demo_buffer_initial: "buffer_initial (demo_buffer t)"
  by (simp add: buffer_initial_def demo_buffer_def buffer_limit_def param_ok_def)

text \<open>The buffer with one packet.\<close>

definition demo_buffer_one :: NetSim_BUFFER where
  "demo_buffer_one = (demo_buffer SCHEDULING_FIFO)\<lparr>dCurrentBufferSize := 1500, nQueuedPacket := 1,
     pstruPacketlist := Chain [demo_packet 7 4], buf_last := Some 7\<rparr>"

lemma demo_buffer_one_reach: "buffer_reach demo_buffer_one"
proof (rule buffer_reach.add)
  show "buffer_reach (demo_buffer SCHEDULING_FIFO)"
    by (rule buffer_reach.initial [OF demo_buffer_initial]) (simp add: demo_buffer_def)
  show "packet_ok (demo_packet 7 4)"
    by (rule demo_packet_ok) simp
  show "fresh_packet (pstruPacketlist (demo_buffer SCHEDULING_FIFO)) (demo_packet 7 4)"
    by (simp add: fresh_packet_def demo_buffer_def)
  show "fn_NetSim_Packet_AddPacketToBuffer (demo_buf_env 0) (demo_buffer SCHEDULING_FIFO) [demo_packet 7 4] =
      Some demo_buffer_one"
    by (simp add: fn_NetSim_Packet_AddPacketToBuffer_def fn_NetSim_Queuing_def fn_NetSim_DropTail_def
        fn_NetSim_CheckBuffer_def demo_buffer_defs demo_buffer_one_def packet_size_def double_to_int_def
        c_int_def schedule_def fn_NetSim_FIFO_def append_chain_def chain_last_def)
qed


theorem buffer_drains_witness:
  "\<exists>ps b'. take_packets (demo_buf_env 0) 1 demo_buffer_one = Some (ps, b') \<and> mset ps = {#demo_packet 7 4#}"
  using buffer_drains [OF demo_buffer_one_reach, of "demo_buf_env 0"] by (auto simp: demo_buffer_one_def)

theorem droptail_admits_what_fits_witness:
  "\<exists>b'. fn_NetSim_Packet_AddPacketToBuffer (demo_buf_env 0) demo_buffer_one [demo_packet 8 2] = Some b'
    \<and> held (pstruPacketlist b') = {#demo_packet 8 2, demo_packet 7 4#}"
proof -
  have "fresh_packet (pstruPacketlist demo_buffer_one) (demo_packet 8 2)"
    by (simp add: fresh_packet_def demo_buffer_one_def demo_packet_def)
  from droptail_admits_what_fits [OF demo_buffer_one_reach demo_packet_ok this, of "demo_buf_env 0"] show ?thesis
    by (auto simp: demo_buffer_one_def demo_buffer_def demo_packet_def packet_size_def)
qed

theorem fifo_serves_in_order_witness:
  "\<exists>b1 b2. add_packets (demo_buf_env 0) [demo_packet 1 2, demo_packet 2 8] (demo_buffer SCHEDULING_FIFO) = Some b1
    \<and> take_packets (demo_buf_env 0) 2 b1 = Some ([demo_packet 1 2, demo_packet 2 8], b2)"
  using fifo_serves_in_order [OF demo_buffer_initial, of SCHEDULING_FIFO
      "[demo_packet 1 2, demo_packet 2 8]" "demo_buf_env 0" "demo_buf_env 0"] demo_packet_ok [of 2 1] demo_packet_ok [of 8 2]
  by (auto simp: demo_buffer_defs packet_size_def numeral_2_eq_2)

theorem priority_serves_sorted_witness:
  "\<exists>b1 b2. add_packets (demo_buf_env 0) [demo_packet 1 2, demo_packet 2 8] (demo_buffer SCHEDULING_PRIORITY) = Some b1
    \<and> take_packets (demo_buf_env 0) 2 b1 = Some ([demo_packet 2 8, demo_packet 1 2], b2)"
  using priority_serves_sorted [OF demo_buffer_initial, of SCHEDULING_PRIORITY
      "[demo_packet 1 2, demo_packet 2 8]" "demo_buf_env 0" "demo_buf_env 0"] demo_packet_ok [of 2 1] demo_packet_ok [of 8 2]
  by (auto simp: demo_buffer_defs packet_size_def numeral_2_eq_2)

end
