(* ===== verification/Netsim_Fairness.thy ===== *)
theory Netsim_Fairness
  imports Netsim_Buffer_Reach
begin

text \<open>
  Which class is served: round robin serves every class within four turns, whatever arrives in
  between, but not when the status of the buffer is asked for before each turn; fair queuing
  serves the class with the greatest weighted length.
\<close>

section \<open>Turns of round robin\<close>

text \<open>The number of classes asked before class \<open>i\<close>.\<close>

definition rr_wait :: "nat \<Rightarrow> nat \<Rightarrow> nat" where
  "rr_wait c i = length (takeWhile (\<lambda>j. j \<noteq> i) (rr_order c))"

lemma find_before:
  "find P xs = Some j \<Longrightarrow> P i \<Longrightarrow>
   length (takeWhile (\<lambda>k. k \<noteq> j) xs) \<le> length (takeWhile (\<lambda>k. k \<noteq> i) xs)"
  by (induction xs) (auto split: if_splits)

lemma upto_four: "c \<le> (4::nat) \<Longrightarrow> c = 0 \<or> c = Suc 0 \<or> c = 2 \<or> c = 3 \<or> c = 4"
  by auto

lemma rr_wait_simps:
  "rr_wait 0 i = (if i = 4 then 0 else if i = 3 then 1 else if i = 2 then 2 else if i = Suc 0 then 3 else 4)"
  "rr_wait (Suc 0) i = (if i = 4 then 0 else if i = 3 then 1 else if i = 2 then 2 else if i = Suc 0 then 3 else 4)"
  "rr_wait 2 i = (if i = Suc 0 then 0 else if i = 4 then 1 else if i = 3 then 2 else if i = 2 then 3 else 4)"
  "rr_wait 3 i = (if i = 2 then 0 else if i = Suc 0 then 1 else if i = 4 then 2 else if i = 3 then 3 else 4)"
  "rr_wait 4 i = (if i = 3 then 0 else if i = 2 then 1 else if i = Suc 0 then 2 else if i = 4 then 3 else 4)"
  by (auto simp: rr_wait_def rr_order_simps)

lemma rr_wait_decreases:
  assumes "c \<le> 4" "i \<in> {1, 2, 3, 4}" "j \<in> {1, 2, 3, 4}" "i \<noteq> j" "rr_wait c j \<le> rr_wait c i"
  shows "rr_wait j i < rr_wait c i"
  using upto_four [OF assms(1)] assms(2-)
  by (elim disjE insertE emptyE; simp add: rr_wait_simps)

lemma rr_wait_bound:
  assumes "c \<le> 4" "i \<in> {1, 2, 3, 4}"
  shows "rr_wait c i < 4"
  using upto_four [OF assms(1)] assms(2) by (elim disjE insertE emptyE; simp add: rr_wait_simps)

text \<open>One turn: class \<open>i\<close> is served, or it is nearer to its turn and its list is as before.\<close>

lemma rr_turn:
  assumes b: "pstruPacketlist b = Lists cs" and ok: "class_ok cs"
    and i: "i \<in> {1, 2, 3, 4}" "cell_list (cs ! i) = x # rest"
  shows "\<exists>y cs'. fn_NetSim_RoundRobin b ps GET True = Some (Some y, b\<lparr>pstruPacketlist := Lists cs'\<rparr>)
    \<and> class_ok cs'
    \<and> (y = x \<or> cell_list (cs' ! i) = x # rest \<and> rr_wait (served_class cs') i < rr_wait (served_class cs) i)"
proof -
  have "held (Lists cs) \<noteq> {#}"
    using i unfolding held_Lists_empty [OF ok] by auto
  then obtain j where j: "rr_choice cs = Some j"
    using rr_choice_None [OF ok] by auto
  from rr_choice_Some [OF ok j] have j': "j \<in> {1, 2, 3, 4}" "cell_list (cs ! j) \<noteq> []" "j \<le> 4" "0 < j"
    by auto
  define cs' where "cs' = take_cells False j (set_served j cs)"
  have get: "fn_NetSim_RoundRobin b ps GET True =
      Some (Some (hd (cell_list (cs ! j))), b\<lparr>pstruPacketlist := Lists cs'\<rparr>)"
    using round_robin_get [OF b ok, of ps True] j by (simp add: cs'_def)
  have ok': "class_ok cs'"
    unfolding cs'_def using take_cells_ok(1) [OF class_ok_set_served [OF ok j'(3)] j'(1), of False] j' by simp
  show ?thesis
  proof (cases "j = i")
    case True
    with get ok' i show ?thesis by auto
  next
    case False
    have "rr_wait (served_class cs) j \<le> rr_wait (served_class cs) i"
      using j i(2) find_before [of "\<lambda>i. cell_list (cs ! i) \<noteq> []" "rr_order (served_class cs)" j i]
      by (simp add: rr_choice_def rr_wait_def)
    with False have "rr_wait j i < rr_wait (served_class cs) i"
      by (intro rr_wait_decreases [OF served_class_le [OF ok] i(1) j'(1)]) auto
    moreover have "served_class cs' = j"
      using served_set_served [OF ok, of j] j'(4) class_ok_length [OF ok]
      by (simp add: cs'_def take_cells_def Let_def served_class_def)
    moreover have "cell_list (cs' ! i) = x # rest"
      using i False j'(4) by (auto simp: cs'_def take_cells_def Let_def)
    ultimately show ?thesis
      using get ok' by auto
  qed
qed

text \<open>A run of the scheduler: \<open>Some p\<close> adds a packet, \<open>None\<close> takes one.\<close>

fun rr_run :: "BUF_PACKET option list \<Rightarrow> NetSim_BUFFER \<Rightarrow> (BUF_PACKET list \<times> NetSim_BUFFER) option" where
  "rr_run [] b = Some ([], b)"
| "rr_run (Some p # ops) b = do {
     (r, b) \<leftarrow> fn_NetSim_RoundRobin b [p] ADD True;
     rr_run ops b }"
| "rr_run (None # ops) b = do {
     (r, b) \<leftarrow> fn_NetSim_RoundRobin b [] GET True;
     (ps, b) \<leftarrow> rr_run ops b;
     Some (case r of Some p \<Rightarrow> p # ps | None \<Rightarrow> ps, b) }"

lemma rr_run_returns:
  "rr_ok (pstruPacketlist b) (buf_last b) \<Longrightarrow> pstruPacketlist b \<noteq> Chain [] \<Longrightarrow>
   \<forall>p. Some p \<in> set ops \<longrightarrow> packet_ok p \<Longrightarrow> \<exists>ps b'. rr_run ops b = Some (ps, b')"
proof (induction ops arbitrary: b)
  case (Cons op ops)
  from Cons.prems obtain cs where cs: "pstruPacketlist b = Lists cs" "class_ok cs"
    by (auto simp: rr_ok_def split: PACKETLIST.splits)
  have step: "\<exists>r cs'. (case op of Some p \<Rightarrow> fn_NetSim_RoundRobin b [p] ADD True
        | None \<Rightarrow> fn_NetSim_RoundRobin b [] GET True) = Some (r, b\<lparr>pstruPacketlist := Lists cs'\<rparr>) \<and> class_ok cs'"
  proof (cases op)
    case None
    show ?thesis
    proof (cases "rr_choice cs")
      case choice: None
      with None round_robin_get [OF cs, of "[]" True] class_ok_set_served [OF cs(2)] served_class_le [OF cs(2)]
      show ?thesis by auto
    next
      case (Some i)
      from rr_choice_Some [OF cs(2) Some] have i: "i \<in> {1, 2, 3, 4}" "cell_list (cs ! i) \<noteq> []" "i \<le> 4" "0 < i"
        by auto
      have "class_ok (take_cells False i (set_served i cs))"
        using i by (intro take_cells_ok(1) class_ok_set_served [OF cs(2)]) auto
      with None Some round_robin_get [OF cs, of "[]" True] show ?thesis by auto
    qed
  next
    case (Some p)
    with Cons.prems(3) have p: "packet_ok p" by simp
    from cs(2) have "sched_cells (pstruPacketlist b) = Some cs"
      using class_ok_length [OF cs(2)] by (simp add: cs(1) sched_cells_def)
    from add_to_class_one [OF this p, of False] add_cells_ok(1) [OF cs(2) p, of False] Some show ?thesis
      by (auto simp: fn_NetSim_RoundRobin_def)
  qed
  then obtain r cs' where s: "(case op of Some p \<Rightarrow> fn_NetSim_RoundRobin b [p] ADD True
        | None \<Rightarrow> fn_NetSim_RoundRobin b [] GET True) = Some (r, b\<lparr>pstruPacketlist := Lists cs'\<rparr>)" "class_ok cs'"
    by blast
  have "\<exists>ps b'. rr_run ops (b\<lparr>pstruPacketlist := Lists cs'\<rparr>) = Some (ps, b')"
    using Cons.prems(3) s(2) by (intro Cons.IH) (auto simp: rr_ok_def)
  with s(1) show ?case by (cases op) auto
qed simp

lemma rr_run_serves:
  "pstruPacketlist b = Lists cs \<Longrightarrow> class_ok cs \<Longrightarrow> cell_list (cs ! i) = x # rest \<Longrightarrow>
   \<forall>p. Some p \<in> set ops \<longrightarrow> packet_ok p \<Longrightarrow> rr_wait (served_class cs) i < count_list ops None \<Longrightarrow>
   i \<in> {1, 2, 3, 4} \<Longrightarrow> \<exists>ps b'. rr_run ops b = Some (ps, b') \<and> x \<in> set ps"
proof (induction ops arbitrary: b cs rest)
  case Nil
  then show ?case by simp
next
  case (Cons op ops)
  show ?case
  proof (cases op)
    case (Some p)
    with Cons.prems have p: "packet_ok p" by simp
    define cs' where "cs' = add_cells False p cs"
    have c: "class_of p \<in> {1, 2, 3, 4}"
      using packet_class [OF p] by simp
    have "sched_cells (pstruPacketlist b) = Some cs"
      using Cons.prems(1,2) class_ok_length by (simp add: sched_cells_def)
    from add_to_class_one [OF this p, of False]
    have s: "fn_NetSim_RoundRobin b [p] ADD True = Some (None, b\<lparr>pstruPacketlist := Lists cs'\<rparr>)"
      by (simp add: fn_NetSim_RoundRobin_def cs'_def)
    have "served_class cs' = served_class cs"
      using c by (auto simp: served_class_def cs'_def add_cells_def Let_def)
    moreover have "\<exists>rest'. cell_list (cs' ! i) = x # rest'"
      using Cons.prems(3) c class_ok_length [OF Cons.prems(2)]
      by (cases "class_of p = i") (auto simp: cs'_def add_cells_def Let_def nth_list_update)
    moreover have "class_ok cs'"
      unfolding cs'_def using Cons.prems(2) p by (rule add_cells_ok)
    ultimately show ?thesis
      using Cons.IH [of "b\<lparr>pstruPacketlist := Lists cs'\<rparr>" cs'] Cons.prems Some s by auto
  next
    case None
    from rr_turn [OF Cons.prems(1,2,6,3), of "[]"] obtain y cs' where
      t: "fn_NetSim_RoundRobin b [] GET True = Some (Some y, b\<lparr>pstruPacketlist := Lists cs'\<rparr>)" "class_ok cs'"
        "y = x \<or> cell_list (cs' ! i) = x # rest \<and> rr_wait (served_class cs') i < rr_wait (served_class cs) i"
      by blast
    from rr_run_returns [of "b\<lparr>pstruPacketlist := Lists cs'\<rparr>" ops] t(2) Cons.prems(4) obtain ps b' where
      r: "rr_run ops (b\<lparr>pstruPacketlist := Lists cs'\<rparr>) = Some (ps, b')"
      by (auto simp: rr_ok_def)
    show ?thesis
    proof (cases "y = x")
      case True
      with r t(1) None show ?thesis by simp
    next
      case False
      with t(3) Cons.prems(5) None have "cell_list (cs' ! i) = x # rest"
        "rr_wait (served_class cs') i < count_list ops None" by auto
      with Cons.IH [of "b\<lparr>pstruPacketlist := Lists cs'\<rparr>" cs' rest] t(2) Cons.prems(4,6) r have "x \<in> set ps"
        by auto
      with r t(1) None show ?thesis by simp
    qed
  qed
qed

text \<open>
  C21: Round robin starves nobody: the packet at the head of any class is handed out within the next
  four calls of \<open>GET\<close>, however many packets of whatever priority are added between these calls;
  all the calls return.
\<close>

theorem round_robin_serves_within_four:
  assumes "pstruPacketlist b = Lists cs" "class_ok cs"
    and "i \<in> {1, 2, 3, 4}" "cell_list (cs ! i) = x # rest"
    and "\<forall>p. Some p \<in> set ops \<longrightarrow> packet_ok p" "4 \<le> count_list ops None"
  shows "\<exists>ps b'. rr_run ops b = Some (ps, b') \<and> x \<in> set ps"
proof -
  have "rr_wait (served_class cs) i < count_list ops None"
    using rr_wait_bound [OF served_class_le [OF assms(2)] assms(3)] assms(6) by simp
  from rr_run_serves [OF assms(1,2,4,5) this assms(3)] show ?thesis .
qed

section \<open>Asking for the status before each turn\<close>

text \<open>
  The loop of the MAC layers, \<open>while (fn_NetSim_GetBufferStatus(buffer)) { ... GET ... }\<close>, \<open>n\<close>
  times around.
\<close>

fun ask_and_take :: "nat \<Rightarrow> NetSim_BUFFER \<Rightarrow> (BUF_PACKET list \<times> NetSim_BUFFER) option" where
  "ask_and_take 0 b = Some ([], b)"
| "ask_and_take (Suc n) b = do {
     (any, b) \<leftarrow> fn_NetSim_GetBufferStatus b;
     if any
     then do {
       (r, b) \<leftarrow> fn_NetSim_RoundRobin b [] GET True;
       (ps, b) \<leftarrow> ask_and_take n b;
       Some (case r of Some p \<Rightarrow> p # ps | None \<Rightarrow> ps, b) }
     else Some ([], b) }"

text \<open>With packets in two classes only, each question moves on to the other class.\<close>

definition two_classes :: "nat \<Rightarrow> nat \<Rightarrow> SCHED_CELL list \<Rightarrow> bool" where
  "two_classes i j cs \<longleftrightarrow> (\<forall>k \<in> {1, 2, 3, 4}. cell_list (cs ! k) \<noteq> [] \<longleftrightarrow> k = i \<or> k = j)"

lemma two_classes_choice:
  assumes "class_ok cs" "two_classes i j cs" "i \<in> {1, 2, 3, 4}" "j \<in> {1, 2, 3, 4}" "i \<noteq> j"
    and "served_class cs = i"
  shows "rr_choice cs = Some j"
  using assms(2-5) unfolding rr_choice_def assms(6)
  by (elim insertE emptyE; simp add: rr_order_simps two_classes_def)

lemma ask_and_take_step:
  assumes b: "nSchedulingType b = SCHEDULING_ROUNDROBIN" "pstruPacketlist b = Lists cs" "class_ok cs"
    and two: "two_classes i j cs" "i \<in> {1, 2, 3, 4}" "j \<in> {1, 2, 3, 4}" "i \<noteq> j"
    and served: "served_class cs = i"
  shows "\<exists>b1 cs'. fn_NetSim_GetBufferStatus b = Some (True, b1)
    \<and> fn_NetSim_RoundRobin b1 [] GET True =
        Some (Some (hd (cell_list (cs ! i))), b\<lparr>pstruPacketlist := Lists cs'\<rparr>)
    \<and> class_ok cs' \<and> served_class cs' = i
    \<and> cell_list (cs' ! i) = tl (cell_list (cs ! i))
    \<and> (\<forall>k. 0 < k \<longrightarrow> k \<noteq> i \<longrightarrow> cell_list (cs' ! k) = cell_list (cs ! k))"
proof -
  have pos: "0 < i" "i \<le> 4" "0 < j" "j \<le> 4" using two by auto
  define cs1 where "cs1 = set_served j cs"
  have ch: "rr_choice cs = Some j"
    by (rule two_classes_choice [OF b(3) two served])
  have st: "fn_NetSim_GetBufferStatus b = Some (True, b\<lparr>pstruPacketlist := Lists cs1\<rparr>)"
    using class_status [OF _ b(2,3)] b(1) ch by (simp add: next_served_def cs1_def)
  have ok1: "class_ok cs1"
    unfolding cs1_def using class_ok_set_served [OF b(3) pos(4)] .
  have "two_classes j i cs1"
    using two(1) pos by (auto simp: two_classes_def cs1_def)
  then have ch1: "rr_choice cs1 = Some i"
    using two_classes_choice [OF ok1 _ two(3,2)] two(4) b(3) by (simp add: cs1_def)
  define cs' where "cs' = take_cells False i (set_served i cs1)"
  have get: "fn_NetSim_RoundRobin (b\<lparr>pstruPacketlist := Lists cs1\<rparr>) [] GET True =
      Some (Some (hd (cell_list (cs ! i))), b\<lparr>pstruPacketlist := Lists cs'\<rparr>)"
    using round_robin_get [OF _ ok1, of "b\<lparr>pstruPacketlist := Lists cs1\<rparr>" "[]" True] ch1 pos
    by (simp add: cs'_def cs1_def)
  have len: "length cs = 5"
    by (rule class_ok_length [OF b(3)])
  have "cell_list (set_served i cs1 ! i) \<noteq> []"
    using two(1,2) pos by (auto simp: two_classes_def cs1_def)
  then have "class_ok cs'"
    unfolding cs'_def using two(2) ok1 pos(2) by (intro take_cells_ok(1) class_ok_set_served) auto
  moreover have "served_class cs' = i"
    using served_set_served [OF ok1, of i] pos by (simp add: cs'_def take_cells_def Let_def served_class_def)
  moreover have "cell_list (cs' ! i) = tl (cell_list (cs ! i))"
    using pos len by (simp add: cs'_def cs1_def take_cells_def Let_def set_served_def)
  moreover have "\<forall>k. 0 < k \<longrightarrow> k \<noteq> i \<longrightarrow> cell_list (cs' ! k) = cell_list (cs ! k)"
    by (simp add: cs'_def cs1_def take_cells_def Let_def set_served_def)
  ultimately show ?thesis
    using st get by blast
qed

lemma ask_and_take_run:
  "nSchedulingType b = SCHEDULING_ROUNDROBIN \<Longrightarrow> pstruPacketlist b = Lists cs \<Longrightarrow> class_ok cs \<Longrightarrow>
   two_classes i j cs \<Longrightarrow> i \<in> {1, 2, 3, 4} \<Longrightarrow> j \<in> {1, 2, 3, 4} \<Longrightarrow> i \<noteq> j \<Longrightarrow> served_class cs = i \<Longrightarrow>
   n \<le> length (cell_list (cs ! i)) \<Longrightarrow>
   \<exists>b' cs'. ask_and_take n b = Some (take n (cell_list (cs ! i)), b')
     \<and> pstruPacketlist b' = Lists cs' \<and> cell_list (cs' ! j) = cell_list (cs ! j)"
proof (induction n arbitrary: b cs)
  case 0
  then show ?case by simp
next
  case (Suc n)
  from ask_and_take_step [OF Suc.prems(1-8)] obtain b1 cs' where
    s: "fn_NetSim_GetBufferStatus b = Some (True, b1)"
      "fn_NetSim_RoundRobin b1 [] GET True =
        Some (Some (hd (cell_list (cs ! i))), b\<lparr>pstruPacketlist := Lists cs'\<rparr>)"
      "class_ok cs'" "served_class cs' = i" "cell_list (cs' ! i) = tl (cell_list (cs ! i))"
      "\<forall>k. 0 < k \<longrightarrow> k \<noteq> i \<longrightarrow> cell_list (cs' ! k) = cell_list (cs ! k)"
    by blast
  obtain x rest where x: "cell_list (cs ! i) = x # rest"
    using Suc.prems(9) by (cases "cell_list (cs ! i)") auto
  define b2 where "b2 = b\<lparr>pstruPacketlist := Lists cs'\<rparr>"
  have j: "cell_list (cs' ! j) = cell_list (cs ! j)"
    using s(6) Suc.prems(6,7) by auto
  have "\<exists>b' cs2. ask_and_take n b2 = Some (take n rest, b')
     \<and> pstruPacketlist b' = Lists cs2 \<and> cell_list (cs2 ! j) = cell_list (cs' ! j)"
  proof (cases "n = 0")
    case True
    then show ?thesis by (simp add: b2_def)
  next
    case False
    then have ne: "rest \<noteq> []"
      using Suc.prems(9) x by auto
    have two: "two_classes i j cs'"
      unfolding two_classes_def
    proof
      fix k :: nat assume k: "k \<in> {1, 2, 3, 4}"
      then have "cell_list (cs ! k) \<noteq> [] \<longleftrightarrow> k = i \<or> k = j"
        using Suc.prems(4) unfolding two_classes_def by blast
      then show "cell_list (cs' ! k) \<noteq> [] \<longleftrightarrow> k = i \<or> k = j"
        using s(5,6) x ne k by (cases "k = i") auto
    qed
    have b2: "nSchedulingType b2 = SCHEDULING_ROUNDROBIN" "pstruPacketlist b2 = Lists cs'"
      using Suc.prems(1) by (simp_all add: b2_def)
    have "n \<le> length (cell_list (cs' ! i))"
      using Suc.prems(9) s(5) x by simp
    from Suc.IH [OF b2 s(3) two Suc.prems(5-7) s(4) this] s(5) x show ?thesis
      by simp
  qed
  with s(1,2) x j show ?case
    by (auto simp: b2_def)
qed

text \<open>
  Asking for the status defeats round robin.  \<open>fn_NetSim_GetBufferStatus\<close> moves the turn on as
  \<open>GET\<close> does; with packets in two classes \<open>i\<close> and \<open>j\<close>, the loop that asks before it takes hands
  out packets of class \<open>i\<close> only, as long as there are any: class \<open>j\<close> is not served, whatever
  the priorities of the two.
\<close>

theorem status_query_starves_a_class:
  assumes "nSchedulingType b = SCHEDULING_ROUNDROBIN" "pstruPacketlist b = Lists cs" "class_ok cs"
    and "i \<in> {1, 2, 3, 4}" "j \<in> {1, 2, 3, 4}" "i \<noteq> j"
    and "\<forall>k \<in> {1, 2, 3, 4}. cell_list (cs ! k) \<noteq> [] \<longleftrightarrow> k = i \<or> k = j"
    and "cell_priority (cs ! 0) = 2 * int i" "n \<le> length (cell_list (cs ! i))"
  shows "\<exists>b' cs'. ask_and_take n b = Some (take n (cell_list (cs ! i)), b')
    \<and> pstruPacketlist b' = Lists cs' \<and> cell_list (cs' ! j) = cell_list (cs ! j)"
proof (rule ask_and_take_run [OF assms(1-3) _ assms(4-6) _ assms(9)])
  show "two_classes i j cs"
    unfolding two_classes_def by (rule assms(7))
  show "served_class cs = i"
    using assms(8) by (simp add: served_class_def)
qed

section \<open>Fair queuing\<close>

text \<open>
  C27: Fair queuing hands out the head of a class whose length times its weight (1 for low to 4 for
  high) is the greatest, in every reachable buffer that holds a packet.
\<close>

theorem wfq_serves_heaviest:
  assumes "buffer_reach b" "nSchedulingType b = SCHEDULING_WFQ" "pstruPacketlist b = Lists cs"
    and "held (pstruPacketlist b) \<noteq> {#}"
  shows "\<exists>i x rest b'. fn_NetSim_GetPacketFromBuffer E b True = Some (Some x, b')
    \<and> i \<in> {1, 2, 3, 4} \<and> cell_list (cs ! i) = x # rest
    \<and> (\<forall>j \<in> {1, 2, 3, 4}. j * length (cell_list (cs ! j)) \<le> i * length (cell_list (cs ! i)))"
proof -
  have ok: "wfq_buffer.buf_ok b"
    using buffer_reach_ok [OF assms(1)] assms(2) by (simp add: buffer_ok_def buf_ok_defs)
  then have cs: "class_ok cs" "counts_ok cs"
    using assms(3) by (simp_all add: buf_ok_defs wfq_ok_def)
  have few: "size (held (Lists cs)) < 2 ^ 31"
    using accounted_few [OF wfq_buffer.buf_okD(3) [OF ok]] assms(3) by (simp del: held_simps)
  define i where "i = wfq_choice cs"
  have ne: "cell_list (cs ! i) \<noteq> []"
    unfolding i_def using wfq_choice_served [OF cs few] assms(3,4) by (simp del: held_simps)
  then obtain x rest where x: "cell_list (cs ! i) = x # rest"
    by (cases "cell_list (cs ! i)") auto
  from wfq_buffer.get_takes [OF ok assms(4), of E] obtain p b' where
    g: "fn_NetSim_GetPacketFromBuffer E b True = Some (Some p, b')" by blast
  define b0 where "b0 = b\<lparr>nDequeuedPacket := nDequeuedPacket b + 1\<rparr>"
  have "schedule E b0 [] GET True = Some (Some x, b0\<lparr>pstruPacketlist := Lists (take_cells True i cs)\<rparr>)"
    using wfq_get [OF _ cs(1), of b0 "[]" True] assms(2,3) ne x
    by (simp add: schedule_def b0_def i_def)
  with g assms(3) have "p = x"
    by (auto simp: fn_NetSim_GetPacketFromBuffer_def b0_def elim!: bind_SomeE)
  moreover have "i \<in> {1, 2, 3, 4}"
    unfolding i_def by (rule wfq_choice_max(1) [OF cs few])
  moreover have "\<forall>j \<in> {1, 2, 3, 4}. j * length (cell_list (cs ! j)) \<le> i * length (cell_list (cs ! i))"
    using wfq_choice_max(2) [OF cs few] unfolding i_def wfq_weight_def .
  ultimately show ?thesis
    using g x by blast
qed

section \<open>An example\<close>

text \<open>Two packets of high priority, one of low, high served last.\<close>

definition demo_cells :: "SCHED_CELL list" where
  "demo_cells = [zero_cell\<lparr>cell_priority := 8\<rparr>, zero_cell\<lparr>cell_list := [demo_packet 1 2]\<rparr>, zero_cell,
     zero_cell, zero_cell\<lparr>cell_list := [demo_packet 2 8, demo_packet 3 8]\<rparr>]"

definition demo_rr :: NetSim_BUFFER where
  "demo_rr = (demo_buffer SCHEDULING_ROUNDROBIN)\<lparr>pstruPacketlist := Lists demo_cells\<rparr>"

lemma demo_cells_ok: "class_ok demo_cells"
  by (auto simp: class_ok_def demo_cells_def zero_cell_def intro: exI [of _ 4])

theorem round_robin_serves_within_four_witness:
  "\<exists>ps b'. rr_run [None, Some (demo_packet 4 8), None, None, None] demo_rr = Some (ps, b')
    \<and> demo_packet 1 2 \<in> set ps"
  using round_robin_serves_within_four [of demo_rr demo_cells 1 "demo_packet 1 2" "[]"
      "[None, Some (demo_packet 4 8), None, None, None]"] demo_packet_ok [of 8 4] demo_cells_ok
  by (simp add: demo_rr_def demo_cells_def)

theorem status_query_starves_a_class_witness:
  "\<exists>b' cs'. ask_and_take 2 demo_rr = Some ([demo_packet 2 8, demo_packet 3 8], b')
    \<and> pstruPacketlist b' = Lists cs' \<and> cell_list (cs' ! 1) = [demo_packet 1 2]"
  using status_query_starves_a_class [of demo_rr demo_cells 4 1 2] demo_cells_ok
  by (simp add: demo_rr_def demo_cells_def demo_buffer_def zero_cell_def)

definition demo_wfq :: NetSim_BUFFER where
  "demo_wfq = (demo_buffer SCHEDULING_WFQ)\<lparr>dCurrentBufferSize := 1500, nQueuedPacket := 1,
     pstruPacketlist := Lists [zero_cell, zero_cell, zero_cell\<lparr>cell_count := 1, cell_list := [demo_packet 7 4]\<rparr>,
       zero_cell, zero_cell]\<rparr>"

lemma demo_wfq_reach: "buffer_reach demo_wfq"
proof (rule buffer_reach.add)
  show "buffer_reach (demo_buffer SCHEDULING_WFQ)"
    by (rule buffer_reach.initial [OF demo_buffer_initial]) (simp add: demo_buffer_def)
  show "packet_ok (demo_packet 7 4)"
    by (rule demo_packet_ok) simp
  show "fresh_packet (pstruPacketlist (demo_buffer SCHEDULING_WFQ)) (demo_packet 7 4)"
    by (simp add: fresh_packet_def demo_buffer_def)
  show "fn_NetSim_Packet_AddPacketToBuffer (demo_buf_env 0) (demo_buffer SCHEDULING_WFQ) [demo_packet 7 4] =
      Some demo_wfq"
    by (simp add: fn_NetSim_Packet_AddPacketToBuffer_def fn_NetSim_Queuing_def fn_NetSim_DropTail_def
        fn_NetSim_CheckBuffer_def demo_buffer_defs demo_wfq_def packet_size_def double_to_int_def
        c_int_def schedule_def fn_NetSim_WFQ_def add_to_class_def sched_cells_def fnGetList_class zero_cell_def
        eval_nat_numeral Let_def)
qed

theorem wfq_serves_heaviest_witness:
  "\<exists>b'. fn_NetSim_GetPacketFromBuffer (demo_buf_env 0) demo_wfq True = Some (Some (demo_packet 7 4), b')"
  using wfq_serves_heaviest [OF demo_wfq_reach, of _ "demo_buf_env 0"]
  by (auto simp: demo_wfq_def demo_buffer_def zero_cell_def)

end
