(* ===== verification/Netsim_Edf.thy ===== *)
theory Netsim_Edf
  imports Netsim_Buffer_Reach
begin

text \<open>
  Earliest deadline first: \<open>GET\<close> drops the expired packets and hands out the packet with the least
  time left.  The packets dropped stay in the byte count, and the status that said there is a
  packet did not know that it was expired.
\<close>

section \<open>The deadline\<close>

text \<open>The time a packet has left, in microseconds, and the packets whose class has a latency.\<close>

definition time_left :: "BUFFER_ENV \<Rightarrow> real list \<Rightarrow> BUF_PACKET \<Rightarrow> real" where
  "time_left E lat x = lat ! nat (bp_nQOS x - 1) * 1000 - (be_dEventTime E - bp_dEventTime x)"

definition edf_class_ok :: "real list \<Rightarrow> BUF_PACKET \<Rightarrow> bool" where
  "edf_class_ok lat x \<longleftrightarrow> 1 \<le> bp_nQOS x \<and> bp_nQOS x \<le> int (length lat)"

lemma edf_deadline_ok:
  "edf_class_ok lat x \<Longrightarrow> edf_deadline E lat x = Some (time_left E lat x)"
  by (simp add: edf_class_ok_def edf_deadline_def time_left_def Let_def nat_less_iff)

lemma edf_class_index: "edf_class_ok lat x \<Longrightarrow> bp_nQOS x - 1 \<noteq> - 1"
  by (simp add: edf_class_ok_def)

lemma edf_expire_filter:
  "\<forall>x \<in> set xs. edf_class_ok lat x \<Longrightarrow>
   edf_expire E lat xs = Some (filter (\<lambda>x. 0 \<le> time_left E lat x) xs,
     length (filter (\<lambda>x. time_left E lat x < 0) xs))"
proof (induction xs)
  case (Cons x xs)
  then have "edf_class_ok lat x" by simp
  from edf_deadline_ok [OF this] edf_class_index [OF this] Cons show ?case
    by (auto simp: not_less)
qed simp

text \<open>The search keeps the earliest so far.\<close>

lemma edf_search_some:
  "\<forall>x \<in> set xs. edf_class_ok lat x \<Longrightarrow>
   \<exists>y. edf_search E lat (time_left E lat z) (Some z) xs = Some (Some y)
     \<and> y \<in> insert z (set xs) \<and> (\<forall>x \<in> insert z (set xs). time_left E lat y \<le> time_left E lat x)"
proof (induction xs arbitrary: z)
  case (Cons x xs)
  then have ok: "edf_class_ok lat x" by simp
  note step = edf_deadline_ok [OF ok] edf_class_index [OF ok]
  show ?case
  proof (cases "time_left E lat x < time_left E lat z")
    case True
    from Cons.IH [of x] Cons.prems obtain y where
      "edf_search E lat (time_left E lat x) (Some x) xs = Some (Some y)"
      "y \<in> insert x (set xs)" "\<forall>u \<in> insert x (set xs). time_left E lat y \<le> time_left E lat u"
      by auto
    with True step show ?thesis by force
  next
    case False
    from Cons.IH [of z] Cons.prems obtain y where
      "edf_search E lat (time_left E lat z) (Some z) xs = Some (Some y)"
      "y \<in> insert z (set xs)" "\<forall>u \<in> insert z (set xs). time_left E lat y \<le> time_left E lat u"
      by auto
    with False step show ?thesis by force
  qed
qed simp

lemma edf_search_first:
  assumes "\<forall>x \<in> set (x # xs). edf_class_ok lat x" "time_left E lat x < e"
  shows "\<exists>y. edf_search E lat e r (x # xs) = Some (Some y)
     \<and> y \<in> set (x # xs) \<and> (\<forall>u \<in> set (x # xs). time_left E lat y \<le> time_left E lat u)"
proof -
  from assms(1) have ok: "edf_class_ok lat x" by simp
  from edf_search_some [of xs lat E x] assms edf_deadline_ok [OF ok] edf_class_index [OF ok] show ?thesis
    by simp
qed

section \<open>\<open>GET\<close>\<close>

lemma drop_expired:
  assumes "\<forall>x \<in> set xs. edf_class_ok (max_latency b) x"
  shows "\<exists>a. edf_algorithm_drop_expired_packets E xs b = Some (b
    \<lparr>pstruPacketlist := Chain (filter (\<lambda>x. 0 \<le> time_left E (max_latency b) x) xs),
     nDroppedPacket := nDroppedPacket b + of_nat (length (filter (\<lambda>x. time_left E (max_latency b) x < 0) xs)),
     buf_last := a\<rparr>)"
proof -
  define live where "live = filter (\<lambda>x. 0 \<le> time_left E (max_latency b) x) xs"
  have "edf_expire E (max_latency b) xs =
      Some (live, length (filter (\<lambda>x. time_left E (max_latency b) x < 0) xs))"
    unfolding live_def by (rule edf_expire_filter [OF assms])
  then show ?thesis
    unfolding live_def [symmetric] edf_algorithm_drop_expired_packets_def Let_def
    by (intro exI [of _ "if xs \<noteq> [] \<and> \<not> (live \<noteq> [] \<and> bp_ptr (last live) = bp_ptr (last xs))
        then chain_last live else buf_last b"]) simp
qed

lemma unlink_member:
  assumes "y \<in> set xs" "distinct (map bp_ptr xs)"
  shows "\<exists>a. unlink_packet (bp_ptr y) xs b = Some (b\<lparr>pstruPacketlist := Chain (remove1 y xs), buf_last := a\<rparr>)"
proof -
  have "\<exists>i. first_idx (\<lambda>x. bp_ptr x = bp_ptr y) xs = Some i \<and> remove_nth i xs = remove1 y xs"
    using assms
  proof (induction xs)
    case (Cons x xs)
    show ?case
    proof (cases "x = y")
      case True
      then show ?thesis by simp
    next
      case False
      with Cons.prems have "bp_ptr x \<noteq> bp_ptr y" "y \<in> set xs" by auto
      with Cons False show ?thesis by auto
    qed
  qed simp
  then show ?thesis
    by (auto simp: unlink_packet_def Let_def)
qed

text \<open>
  Earliest deadline first: \<open>GET\<close> drops exactly the packets whose deadline has passed and counts
  them; of the others it takes out the one that has the least time left, and returns null when
  there is none.
\<close>

theorem edf_serves_earliest:
  assumes "pstruPacketlist b = Chain xs" "distinct (map bp_ptr xs)"
    and "\<forall>x \<in> set xs. 1 \<le> bp_nQOS x \<and> bp_nQOS x \<le> int (length (max_latency b))
      \<and> time_left E (max_latency b) x < 2 ^ 64 - 1"
  shows "\<exists>r b' live. fn_NetSim_EDF E b ps GET True = Some (r, b')
    \<and> live = filter (\<lambda>x. 0 \<le> time_left E (max_latency b) x) xs
    \<and> nDroppedPacket b' = nDroppedPacket b + of_nat (length xs - length live)
    \<and> (case r of
         None \<Rightarrow> live = [] \<and> pstruPacketlist b' = Chain []
       | Some y \<Rightarrow> y \<in> set live \<and> pstruPacketlist b' = Chain (remove1 y live)
           \<and> (\<forall>x \<in> set live. time_left E (max_latency b) y \<le> time_left E (max_latency b) x))"
proof -
  define live where "live = filter (\<lambda>x. 0 \<le> time_left E (max_latency b) x) xs"
  have cls: "\<forall>x \<in> set xs. edf_class_ok (max_latency b) x"
    using assms(3) by (simp add: edf_class_ok_def)
  have n: "length (filter (\<lambda>x. time_left E (max_latency b) x < 0) xs) = length xs - length live"
    using sum_length_filter_compl [of "\<lambda>x. 0 \<le> time_left E (max_latency b) x" xs]
    by (simp add: live_def not_le)
  from drop_expired [OF cls, of E] obtain a where
    d: "edf_algorithm_drop_expired_packets E xs b = Some (b\<lparr>pstruPacketlist := Chain live,
      nDroppedPacket := nDroppedPacket b + of_nat (length xs - length live), buf_last := a\<rparr>)"
    unfolding n live_def [symmetric] by blast
  define b1 where "b1 = b\<lparr>pstruPacketlist := Chain live,
      nDroppedPacket := nDroppedPacket b + of_nat (length xs - length live), buf_last := a\<rparr>"
  show ?thesis
  proof (cases live)
    case Nil
    have "fn_NetSim_EDF E b ps GET True = Some (None, b1)"
      using assms(1) d Nil
      by (simp add: fn_NetSim_EDF_def edf_algorithm_get_earliest_deadline_packet_def b1_def)
    with Nil show ?thesis
      by (intro exI [of _ None] exI [of _ b1] exI [of _ live]) (simp add: b1_def live_def)
  next
    case (Cons x rest)
    have sub: "\<forall>u \<in> set (x # rest). edf_class_ok (max_latency b) u"
      using cls Cons by (metis filter_is_subset live_def subsetD)
    have "x \<in> set xs"
      using Cons by (metis filter_is_subset list.set_intros(1) live_def subsetD)
    then have lt: "time_left E (max_latency b) x < 18446744073709551615"
      using assms(3) by auto
    from edf_search_first [OF sub lt, of None] obtain y where
      y: "edf_search E (max_latency b) 18446744073709551615 None live = Some (Some y)" "y \<in> set live"
        "\<forall>u \<in> set live. time_left E (max_latency b) y \<le> time_left E (max_latency b) u"
      unfolding Cons by blast
    have "distinct (map bp_ptr live)"
      unfolding live_def using assms(2) by (rule distinct_map_filter)
    from unlink_member [OF y(2) this, of b1] obtain c where
      u: "unlink_packet (bp_ptr y) live b1 = Some (b1\<lparr>pstruPacketlist := Chain (remove1 y live), buf_last := c\<rparr>)"
      by blast
    have "fn_NetSim_EDF E b ps GET True =
        Some (Some y, b1\<lparr>pstruPacketlist := Chain (remove1 y live), buf_last := c\<rparr>)"
      using assms(1) d y(1) u
      by (simp add: fn_NetSim_EDF_def edf_algorithm_get_earliest_deadline_packet_def flip: b1_def)
         (simp add: b1_def y(1))
    with y show ?thesis
      by (intro exI [of _ "Some y"] exI exI [of _ live]) (auto simp: b1_def live_def)
  qed
qed

text \<open>
  The expired packets are lost for the byte count.  When every packet of an EDF buffer is
  expired, \<open>fn_NetSim_GetBufferStatus\<close> says that there is a packet, \<open>GET\<close> returns null all the
  same, and leaves an empty buffer whose \<open>dCurrentBufferSize\<close> is unchanged: a packet larger than
  what is left of the limit is refused by drop tail although the buffer is empty.
\<close>

theorem edf_expiry_leaks:
  assumes "nSchedulingType b = SCHEDULING_EDF" "pstruPacketlist b = Chain xs" "xs \<noteq> []"
    and "\<forall>x \<in> set xs. 1 \<le> bp_nQOS x \<and> bp_nQOS x \<le> int (length (max_latency b))
      \<and> time_left E (max_latency b) x < 0"
    and "queuingTechnique b = QUEUING_DROPTAIL" "dMaxBufferSize b \<noteq> 0"
    and "dMaxBufferSize b * 1024 * 1024 < dCurrentBufferSize b + packet_size p"
  shows "fn_NetSim_GetBufferStatus b = Some (True, b)
    \<and> (\<exists>b'. fn_NetSim_GetPacketFromBuffer E b True = Some (None, b')
        \<and> pstruPacketlist b' = Chain [] \<and> dCurrentBufferSize b' = dCurrentBufferSize b
        \<and> fn_NetSim_Packet_AddPacketToBuffer E' b' [p] = Some (b'\<lparr>nDroppedPacket := nDroppedPacket b' + 1\<rparr>))"
proof
  show "fn_NetSim_GetBufferStatus b = Some (True, b)"
    using assms(1-3) by (simp add: fn_NetSim_GetBufferStatus_def)
next
  define b0 where "b0 = b\<lparr>nDequeuedPacket := nDequeuedPacket b + 1\<rparr>"
  have cls: "\<forall>x \<in> set xs. edf_class_ok (max_latency b0) x"
    using assms(4) by (simp add: edf_class_ok_def b0_def)
  have none: "filter (\<lambda>x. 0 \<le> time_left E (max_latency b0) x) xs = []"
    using assms(4) by (auto simp: filter_empty_conv b0_def not_le)
  from drop_expired [OF cls, of E] obtain a where
    d: "edf_algorithm_drop_expired_packets E xs b0 = Some (b0\<lparr>pstruPacketlist := Chain [],
      nDroppedPacket := nDroppedPacket b0 + of_nat (length (filter (\<lambda>x. time_left E (max_latency b0) x < 0) xs)),
      buf_last := a\<rparr>)"
    unfolding none by blast
  define b1 where "b1 = b0\<lparr>pstruPacketlist := Chain [],
      nDroppedPacket := nDroppedPacket b0 + of_nat (length (filter (\<lambda>x. time_left E (max_latency b0) x < 0) xs)),
      buf_last := a\<rparr>"
  have "schedule E b0 [] GET True = Some (None, b1)"
    using assms(1,2) d
    by (simp add: schedule_def fn_NetSim_EDF_def edf_algorithm_get_earliest_deadline_packet_def b0_def b1_def)
  then have "fn_NetSim_GetPacketFromBuffer E b True = Some (None, b1)"
    using assms(2,3) by (simp add: fn_NetSim_GetPacketFromBuffer_def b0_def)
  moreover have "fn_NetSim_Packet_AddPacketToBuffer E' b1 [p] = Some (b1\<lparr>nDroppedPacket := nDroppedPacket b1 + 1\<rparr>)"
    using assms(5-7)
    by (simp add: fn_NetSim_Packet_AddPacketToBuffer_def fn_NetSim_Queuing_def fn_NetSim_DropTail_def
        fn_NetSim_CheckBuffer_def b1_def b0_def)
  ultimately show "\<exists>b'. fn_NetSim_GetPacketFromBuffer E b True = Some (None, b')
        \<and> pstruPacketlist b' = Chain [] \<and> dCurrentBufferSize b' = dCurrentBufferSize b
        \<and> fn_NetSim_Packet_AddPacketToBuffer E' b' [p] = Some (b'\<lparr>nDroppedPacket := nDroppedPacket b' + 1\<rparr>)"
    by (intro exI [of _ b1]) (simp add: b1_def b0_def)
qed

section \<open>An example\<close>

text \<open>Latency 1 ms: at 1500 us the packet of time 0 is expired, that of 1000 has 500 us left.\<close>

definition demo_edf :: NetSim_BUFFER where
  "demo_edf = (demo_buffer SCHEDULING_EDF)\<lparr>dCurrentBufferSize := 4500, buf_last := Some 3,
     pstruPacketlist := Chain [demo_packet 1 2, (demo_packet 2 2)\<lparr>bp_dEventTime := 1200\<rparr>,
       (demo_packet 3 2)\<lparr>bp_dEventTime := 1000\<rparr>]\<rparr>"

lemmas demo_edf_defs = demo_edf_def demo_buffer_defs time_left_def

theorem edf_serves_earliest_witness:
  "\<exists>b'. fn_NetSim_EDF (demo_buf_env 1500) demo_edf [] GET True =
      Some (Some ((demo_packet 3 2)\<lparr>bp_dEventTime := 1000\<rparr>), b') \<and> nDroppedPacket b' = 1"
  using edf_serves_earliest [of demo_edf "[demo_packet 1 2, (demo_packet 2 2)\<lparr>bp_dEventTime := 1200\<rparr>,
       (demo_packet 3 2)\<lparr>bp_dEventTime := 1000\<rparr>]" "demo_buf_env 1500" "[]"]
  by (auto simp: demo_edf_defs split: option.splits)

theorem edf_expiry_leaks_witness:
  "\<exists>b'. fn_NetSim_GetPacketFromBuffer (demo_buf_env 9000) demo_edf True = Some (None, b')
     \<and> pstruPacketlist b' = Chain [] \<and> dCurrentBufferSize b' = 4500"
  using edf_expiry_leaks [of demo_edf "[demo_packet 1 2, (demo_packet 2 2)\<lparr>bp_dEventTime := 1200\<rparr>,
       (demo_packet 3 2)\<lparr>bp_dEventTime := 1000\<rparr>]" "demo_buf_env 9000"
       "(demo_packet 4 2)\<lparr>bp_networkSize := Some 1048576\<rparr>" "demo_buf_env 0"]
  by (auto simp: demo_edf_defs packet_size_def)

end
