(* ===== verification/Arp.thy ===== *)
theory Arp
  imports Netsim_World Netsim_Buffer
begin

text \<open>
  The address resolution protocol (\<open>ARP/\<close>): the table of an interface, the packets that wait for
  an address, requests, replies and the timer of a request.

  Packets are shared: a data packet is in the packet buffer of the protocol and in the event that
  asks for a request.  As for AODV, a packet is a handle into a store.  The access buffer of an
  interface is the buffer of theory \<open>Netsim_Buffer\<close>, whose entries carry the handle.  Functions of
  \<open>Arp.lib\<close> and of the network stack, which have no sources, are fields of \<open>ARP_ENV\<close>.  Messages to
  the console are left out.
\<close>

section \<open>Data\<close>

type_synonym MAC_ADDRESS = nat

definition NW_PROTOCOL_ARP :: nat where "NW_PROTOCOL_ARP = 303"

definition READ_ARP_TABLE :: nat where "READ_ARP_TABLE = NW_PROTOCOL_ARP * 100 + 1"
definition GENERATE_ARP_REQUEST :: nat where "GENERATE_ARP_REQUEST = READ_ARP_TABLE + 1"
definition GENERATE_ARP_REPLY :: nat where "GENERATE_ARP_REPLY = READ_ARP_TABLE + 2"
definition UPDATE_ARP_TABLE_FWD_PKT :: nat where "UPDATE_ARP_TABLE_FWD_PKT = READ_ARP_TABLE + 3"
definition ARP_REQUEST_TIMEOUT :: nat where "ARP_REQUEST_TIMEOUT = READ_ARP_TABLE + 4"

definition REQUEST_PACKET :: nat where "REQUEST_PACKET = NW_PROTOCOL_ARP * 100 + 1"
definition REPLY_PACKET :: nat where "REPLY_PACKET = REQUEST_PACKET + 1"

lemmas arp_numbers = NW_PROTOCOL_ARP_def READ_ARP_TABLE_def GENERATE_ARP_REQUEST_def GENERATE_ARP_REPLY_def
  UPDATE_ARP_TABLE_FWD_PKT_def ARP_REQUEST_TIMEOUT_def REQUEST_PACKET_def REPLY_PACKET_def

datatype OPCODE = ares_opSREQUEST | ares_opSREPLY
datatype HARDWARETYPE = ETHERNET | IEEE802
datatype PROTOCOLTYPE = ARP_TO_RESOLVE_IP
datatype ETHERNET_TYPE = ADDRESS_RESOLUTION
datatype ENTRY_TYPE = STATIC | DYNAMIC

definition HARDWARE_ADDRESS_LENGTH :: nat where "HARDWARE_ADDRESS_LENGTH = 6"
definition IPV4_PROTOCOL_ADDREES_LENGTH :: nat where "IPV4_PROTOCOL_ADDREES_LENGTH = 4"
definition IPV6_PROTOCOL_ADDREES_LENGTH :: nat where "IPV6_PROTOCOL_ADDREES_LENGTH = 16"
definition IPV4_ARP_PACKET_SIZE_WITH_ETH_HEADER :: real where "IPV4_ARP_PACKET_SIZE_WITH_ETH_HEADER = 42"
definition IPV6_ARP_PACKET_SIZE_WITH_ETH_HEADER :: real where "IPV6_ARP_PACKET_SIZE_WITH_ETH_HEADER = 66"
definition IPV4_NETWORK_OVERHEADS :: real where "IPV4_NETWORK_OVERHEADS = 20"
definition IPV6_NETWORK_OVERHEADS :: real where "IPV6_NETWORK_OVERHEADS = 40"

text \<open>A request carries no target address (\<open>None\<close>).\<close>

record ARP_PACKET =
  ar_szDestMac :: MAC_ADDRESS
  ar_szSrcMac :: MAC_ADDRESS
  nEther_type :: ETHERNET_TYPE
  ar_hrd :: HARDWARETYPE
  ar_pro :: PROTOCOLTYPE
  ar_hln :: nat
  ar_pln :: nat
  ar_op :: OPCODE
  ar_sha :: MAC_ADDRESS
  ar_spa :: NETSIM_IPAddress
  ar_tha :: "MAC_ADDRESS option"
  ar_tpa :: NETSIM_IPAddress

record ARP_TABLE =
  at_szIPAddress :: NETSIM_IPAddress
  at_szMACAddress :: MAC_ADDRESS
  at_nType :: ENTRY_TYPE

record ARP_BUFFER =
  bf_szDestAdd :: NETSIM_IPAddress
  bf_nBufferInterfaceID :: NETSIM_ID
  bf_pstruPacket :: pid

record ARP_METRICS =
  nArpRequestSentCount :: int
  nArpReplyReceivedCount :: int
  nArpReplySentCount :: int
  nPacketsInBuffer :: int
  nPacketDropCount :: int

text \<open>The three arrays of an interface, indexed by device, are lists.\<close>

record ARP_VARIABLES =
  nStaticTableFlag :: int
  pstruArpTable :: "ARP_TABLE list"
  nArpRetryLimit :: int
  nArpRetryInterval :: int
  pnArpRequestFlag :: "int list"
  pnArpReplyFlag :: "int list"
  pnArpRetryCount :: "int list"
  pstruPacketBuffer :: "ARP_BUFFER list"
  arpMetrics :: ARP_METRICS

text \<open>The packet with what ARP uses of the link header and of the network header.\<close>

record ARP_NETPKT = NetSim_PACKET +
  szSourceMac :: "MAC_ADDRESS option"
  szDestMac :: "MAC_ADDRESS option"
  nw_dPayload :: real
  nNetworkProtocol :: nat
  arp_payload :: "ARP_PACKET option"

text \<open>
  \<open>ARP_ADD_ENTRY t ip mac ty\<close> stands for \<open>fn_NetSim_Add_IP_MAC_AddressTo_ARP_Table(&head, ...)\<close>: the
  list from the new head, and the list that the old head heads after the call.
  \<open>ARP_BUFFER_ADD\<close> stands for \<open>fn_NetSim_Add_PacketTo_Buffer\<close>, \<open>ARP_BUFFER_DROP\<close> for
  \<open>fn_NetSim_Arp_Drop_Buffered_Packet\<close>: the buffer left, the count and the packets freed.
\<close>

record ARP_ENV = NETSIM_STACK +
  szAddress :: "NETSIM_ID \<Rightarrow> NETSIM_ID \<Rightarrow> NETSIM_IPAddress"
  szMacAddress :: "NETSIM_ID \<Rightarrow> NETSIM_ID \<Rightarrow> MAC_ADDRESS"
  BROADCAST_MAC :: MAC_ADDRESS
  multicastIP_to_Mac :: "NETSIM_IPAddress \<Rightarrow> MAC_ADDRESS option"
  szBroadcastIPaddress :: NETSIM_IPAddress
  GetMacProtocol :: "NETSIM_ID \<Rightarrow> NETSIM_ID \<Rightarrow> nat"
  get_first_dest :: "NETSIM_ID list \<Rightarrow> NETSIM_ID"
  add_dest :: "NETSIM_ID list \<Rightarrow> NETSIM_ID \<Rightarrow> NETSIM_ID list"
  remove_dest :: "NETSIM_ID list \<Rightarrow> NETSIM_ID \<Rightarrow> NETSIM_ID list"
  blankNetworkPacket :: ARP_NETPKT
  CopyPacket :: "ARP_NETPKT \<Rightarrow> ARP_NETPKT"
  AddPacketToList :: "NetSim_BUFFER \<Rightarrow> BUF_PACKET \<Rightarrow> NetSim_BUFFER option"
  ARP_ADD_ENTRY :: "ARP_TABLE list \<Rightarrow> NETSIM_IPAddress \<Rightarrow> MAC_ADDRESS \<Rightarrow> ENTRY_TYPE \<Rightarrow> ARP_TABLE list \<times> ARP_TABLE list"
  ARP_BUFFER_ADD :: "ARP_BUFFER list \<Rightarrow> pid \<Rightarrow> NETSIM_IPAddress \<Rightarrow> NETSIM_ID \<Rightarrow> ARP_BUFFER list"
  ARP_BUFFER_DROP :: "ARP_BUFFER list \<Rightarrow> NETSIM_IPAddress \<Rightarrow> ARP_BUFFER list \<times> nat \<times> pid list"

record ARP_WORLD =
  ipVar :: "NETSIM_ID \<Rightarrow> NETSIM_ID \<Rightarrow> ARP_VARIABLES option"
  accessBuffer :: "NETSIM_ID \<Rightarrow> NETSIM_ID \<Rightarrow> NetSim_BUFFER"
  apkts :: "pid \<Rightarrow> ARP_NETPKT option"
  anext :: pid
  aev :: NetSim_EVENTDETAILS
  aadded :: "NetSim_EVENTDETAILS list"
  aerrors :: nat

section \<open>Access to the state\<close>

definition upd_var ::
  "NETSIM_ID \<Rightarrow> NETSIM_ID \<Rightarrow> (ARP_VARIABLES \<Rightarrow> ARP_VARIABLES) \<Rightarrow> ARP_WORLD \<Rightarrow> ARP_WORLD option" where
  "upd_var d i f w = (case ipVar w d i of
       None \<Rightarrow> None
     | Some v \<Rightarrow> Some (w\<lparr>ipVar := (ipVar w)(d := (ipVar w d)(i \<mapsto> f v))\<rparr>))"

definition upd_apkt :: "pid \<Rightarrow> (ARP_NETPKT \<Rightarrow> ARP_NETPKT) \<Rightarrow> ARP_WORLD \<Rightarrow> ARP_WORLD option" where
  "upd_apkt p f w = (case apkts w p of None \<Rightarrow> None | Some k \<Rightarrow> Some (w\<lparr>apkts := (apkts w)(p \<mapsto> f k)\<rparr>))"

definition free_apkt :: "pid \<Rightarrow> ARP_WORLD \<Rightarrow> ARP_WORLD option" where
  "free_apkt p w = (case apkts w p of None \<Rightarrow> None | Some k \<Rightarrow> Some (w\<lparr>apkts := (apkts w)(p := None)\<rparr>))"

definition new_apkt :: "ARP_NETPKT \<Rightarrow> ARP_WORLD \<Rightarrow> pid \<times> ARP_WORLD" where
  "new_apkt k w = (anext w, w\<lparr>apkts := (apkts w)(anext w \<mapsto> k), anext := Suc (anext w)\<rparr>)"

definition add_arp_event :: "ARP_WORLD \<Rightarrow> ARP_WORLD" where
  "add_arp_event w = w\<lparr>aadded := aadded w @ [aev w]\<rparr>"

definition upd_aev :: "(NetSim_EVENTDETAILS \<Rightarrow> NetSim_EVENTDETAILS) \<Rightarrow> ARP_WORLD \<Rightarrow> ARP_WORLD" where
  "upd_aev f w = w\<lparr>aev := f (aev w)\<rparr>"

definition arp_error :: "ARP_WORLD \<Rightarrow> ARP_WORLD" where
  "arp_error w = w\<lparr>aerrors := Suc (aerrors w)\<rparr>"

text \<open>Storing into an array.\<close>

definition arr_set :: "int list \<Rightarrow> nat \<Rightarrow> int \<Rightarrow> int list option" where
  "arr_set xs n x = (if n < length xs then Some (xs[n := x]) else None)"

definition arr_get :: "int list \<Rightarrow> nat \<Rightarrow> int option" where
  "arr_get xs n = (if n < length xs then Some (xs ! n) else None)"

definition set_request_flag :: "NETSIM_ID \<Rightarrow> NETSIM_ID \<Rightarrow> NETSIM_ID \<Rightarrow> int \<Rightarrow> ARP_WORLD \<Rightarrow> ARP_WORLD option" where
  "set_request_flag d i n x w = do {
     v \<leftarrow> ipVar w d i;
     xs \<leftarrow> arr_set (pnArpRequestFlag v) n x;
     upd_var d i (pnArpRequestFlag_update (\<lambda>_. xs)) w }"

definition set_reply_flag :: "NETSIM_ID \<Rightarrow> NETSIM_ID \<Rightarrow> NETSIM_ID \<Rightarrow> int \<Rightarrow> ARP_WORLD \<Rightarrow> ARP_WORLD option" where
  "set_reply_flag d i n x w = do {
     v \<leftarrow> ipVar w d i;
     xs \<leftarrow> arr_set (pnArpReplyFlag v) n x;
     upd_var d i (pnArpReplyFlag_update (\<lambda>_. xs)) w }"

definition set_retry_count :: "NETSIM_ID \<Rightarrow> NETSIM_ID \<Rightarrow> NETSIM_ID \<Rightarrow> int \<Rightarrow> ARP_WORLD \<Rightarrow> ARP_WORLD option" where
  "set_retry_count d i n x w = do {
     v \<leftarrow> ipVar w d i;
     xs \<leftarrow> arr_set (pnArpRetryCount v) n x;
     upd_var d i (pnArpRetryCount_update (\<lambda>_. xs)) w }"

definition upd_arp_metrics ::
  "NETSIM_ID \<Rightarrow> NETSIM_ID \<Rightarrow> (ARP_METRICS \<Rightarrow> ARP_METRICS) \<Rightarrow> ARP_WORLD \<Rightarrow> ARP_WORLD option" where
  "upd_arp_metrics d i f = upd_var d i (arpMetrics_update f)"

text \<open>What the access buffer sees of a packet.\<close>

definition as_buf_packet :: "pid \<Rightarrow> ARP_NETPKT \<Rightarrow> BUF_PACKET" where
  "as_buf_packet p k = \<lparr>bp_ptr = p, bp_nPacketPriority = priority_value (nPacketPriority k),
     bp_nQOS = qos_value (nQOS k), bp_dEventTime = pk_dEventTime k,
     bp_networkSize = Some (nw_dPacketSize k), bp_macSize = 0\<rparr>"

text \<open>
  Handing a packet to the link: an event for the link when the access buffer is empty, then the
  packet joins the access buffer.  \<open>fill\<close> sets what the callers set differently in the event.
\<close>

definition queue_for_mac ::
  "ARP_ENV \<Rightarrow> NETSIM_ID \<Rightarrow> NETSIM_ID \<Rightarrow> pid \<Rightarrow> (NetSim_EVENTDETAILS \<Rightarrow> NetSim_EVENTDETAILS) \<Rightarrow> ARP_WORLD
    \<Rightarrow> ARP_WORLD option" where
  "queue_for_mac E d i p fill w = do {
     k \<leftarrow> apkts w p;
     (busy, buf) \<leftarrow> fn_NetSim_GetBufferStatus (accessBuffer w d i);
     let w = (if busy then w
              else add_arp_event (upd_aev (\<lambda>e. (fill e)
                \<lparr>nSubEventType := 0, dPacketSize := nw_dPacketSize k, nProtocolId := GetMacProtocol E d i,
                 nEventType := MAC_OUT_EVENT, pPacket := None\<rparr>) w));
     buf \<leftarrow> AddPacketToList E buf (as_buf_packet p k);
     Some (w\<lparr>accessBuffer := (accessBuffer w)(d := (accessBuffer w d)(i := buf))\<rparr>) }"

section \<open>Reading the table\<close>

fun read_table :: "ARP_TABLE list \<Rightarrow> NETSIM_IPAddress \<Rightarrow> MAC_ADDRESS option" where
  "read_table [] ip = None"
| "read_table (t # ts) ip = (if same_ip (at_szIPAddress t) ip then Some (at_szMACAddress t) else read_table ts ip)"

definition buffer_packet ::
  "ARP_ENV \<Rightarrow> NETSIM_ID \<Rightarrow> NETSIM_ID \<Rightarrow> pid \<Rightarrow> NETSIM_IPAddress \<Rightarrow> ARP_WORLD \<Rightarrow> ARP_WORLD option" where
  "buffer_packet E d i p ip w = do {
     w \<leftarrow> upd_var d i (\<lambda>v. v\<lparr>pstruPacketBuffer := ARP_BUFFER_ADD E (pstruPacketBuffer v) p ip i\<rparr>) w;
     upd_arp_metrics d i (nPacketsInBuffer_update (\<lambda>n. n + 1)) w }"

definition fn_NetSim_Read_ARP_Table :: "ARP_ENV \<Rightarrow> ARP_WORLD \<Rightarrow> ARP_WORLD option" where
  "fn_NetSim_Read_ARP_Table E w = do {
     p \<leftarrow> pPacket (aev w);
     k \<leftarrow> apkts w p;
     let i = nInterfaceId (aev w);
     let d = nDeviceId (aev w);
     ip \<leftarrow> szNextHopIp k;
     mac \<leftarrow> (if isBroadcastIP E ip then Some (Some (BROADCAST_MAC E))
            else if isMulticastIP E ip
            then (case multicastIP_to_Mac E ip of Some m \<Rightarrow> Some (Some m) | None \<Rightarrow> None)
            else do { v \<leftarrow> ipVar w d i; Some (read_table (pstruArpTable v) ip) });
     let n = nReceiverId k;
     (case mac of
        Some m \<Rightarrow> do {
          w \<leftarrow> upd_apkt p (\<lambda>k. k\<lparr>szDestMac := Some m, szSourceMac := Some (szMacAddress E d i)\<rparr>) w;
          queue_for_mac E d i p id w }
      | None \<Rightarrow> do {
          v \<leftarrow> ipVar w d i;
          flag \<leftarrow> arr_get (pnArpRequestFlag v) n;
          if flag = 0
          then do {
            w \<leftarrow> buffer_packet E d i p ip w;
            let w = add_arp_event (upd_aev (nSubEventType_update (\<lambda>_. GENERATE_ARP_REQUEST)) w);
            set_request_flag d i n 1 w }
          else buffer_packet E d i p ip w }) }"

section \<open>Requests\<close>

text \<open>The two sizes of a packet and the length of an address.\<close>

definition arp_sizes :: "ARP_ENV \<Rightarrow> NETSIM_ID \<Rightarrow> nat \<times> real \<times> real" where
  "arp_sizes E d = (if GetNWProtocol E d = NW_PROTOCOL_IPV4
     then (IPV4_PROTOCOL_ADDREES_LENGTH, IPV4_ARP_PACKET_SIZE_WITH_ETH_HEADER, IPV4_NETWORK_OVERHEADS)
     else (IPV6_PROTOCOL_ADDREES_LENGTH, IPV6_ARP_PACKET_SIZE_WITH_ETH_HEADER, IPV6_NETWORK_OVERHEADS))"

definition request_payload ::
  "ARP_ENV \<Rightarrow> NETSIM_ID \<Rightarrow> NETSIM_ID \<Rightarrow> NETSIM_IPAddress \<Rightarrow> NETSIM_IPAddress \<Rightarrow> ARP_PACKET" where
  "request_payload E d i src dest = \<lparr>ar_szDestMac = BROADCAST_MAC E, ar_szSrcMac = szMacAddress E d i,
     nEther_type = ADDRESS_RESOLUTION, ar_hrd = IEEE802, ar_pro = ARP_TO_RESOLVE_IP,
     ar_hln = HARDWARE_ADDRESS_LENGTH, ar_pln = fst (arp_sizes E d), ar_op = ares_opSREQUEST,
     ar_sha = szMacAddress E d i, ar_spa = src, ar_tha = None, ar_tpa = dest\<rparr>"

text \<open>The network packet around it.\<close>

definition request_packet ::
  "ARP_ENV \<Rightarrow> NETSIM_ID \<Rightarrow> NETSIM_ID \<Rightarrow> simtime \<Rightarrow> ARP_PACKET \<Rightarrow> ARP_NETPKT" where
  "request_packet E d i t a = (let k = blankNetworkPacket E in k
     \<lparr>pk_dEventTime := t, destInfo := add_dest E (destInfo k) 0, nPacketType := PacketType_Control,
      nControlDataType := REQUEST_PACKET, nTransmitterId := d, nReceiverId := 0, nSourceId := d,
      szSourceIP := DEVICE_NWADDRESS E d i, szDestIP := szBroadcastIPaddress E,
      szSourceMac := Some (szMacAddress E d i), szDestMac := Some (BROADCAST_MAC E),
      dArrivalTime := t, dEndTime := t, dStartTime := t, nPacketPriority := PACKET_PRIORITY.Priority_High,
      nw_dPayload := fst (snd (arp_sizes E d)), nw_dOverhead := snd (snd (arp_sizes E d)),
      nw_dPacketSize := fst (snd (arp_sizes E d)) + snd (snd (arp_sizes E d)),
      nNetworkProtocol := NW_PROTOCOL_ARP, arp_payload := Some a\<rparr>)"

text \<open>
  With the next hop in another network the message to the console follows the null pointer of the
  target address.
\<close>

definition fn_NetSim_Generate_ARP_Request :: "ARP_ENV \<Rightarrow> ARP_WORLD \<Rightarrow> ARP_WORLD option" where
  "fn_NetSim_Generate_ARP_Request E w = do {
     p \<leftarrow> pPacket (aev w);
     k \<leftarrow> apkts w p;
     let i = nInterfaceId (aev w);
     let d = nDeviceId (aev w);
     let t = dEventTime (aev w);
     let src = (if same_ip (szSourceIP k) (szAddress E d i) then szSourceIP k else szAddress E d i);
     let dest = (case szNextHopIp k of Some ip \<Rightarrow> ip | None \<Rightarrow> szDestIP k);
     if IP_IS_IN_SAME_NETWORK E src dest (szSubnetMask E d i) 0
     then do {
       let n = get_first_dest E (destInfo k);
       let (q, w) = new_apkt (request_packet E d i t (request_payload E d i src dest)) w;
       w \<leftarrow> queue_for_mac E d i q (\<lambda>e. e\<lparr>nApplicationId := 0, ev_nPacketId := 0, nSegmentId := 0\<rparr>) w;
       w \<leftarrow> set_request_flag d i n 1 w;
       w \<leftarrow> upd_arp_metrics d i (nArpRequestSentCount_update (\<lambda>c. c + 1)) w;
       k \<leftarrow> apkts w p;
       let c = CopyPacket E k;
       let c = c\<lparr>destInfo := add_dest E (remove_dest E (destInfo c) 0) n\<rparr>;
       let (q, w) = new_apkt c w;
       v \<leftarrow> ipVar w d i;
       us \<leftarrow> c_int (nArpRetryInterval v * 1000000);
       let w = add_arp_event (upd_aev (\<lambda>e. e\<lparr>dEventTime := dEventTime e + of_int us, nEventType := TIMER_EVENT,
         nSubEventType := ARP_REQUEST_TIMEOUT, pPacket := Some q, nProtocolId := NW_PROTOCOL_ARP\<rparr>) w);
       c \<leftarrow> arr_get (pnArpRetryCount v) n;
       w \<leftarrow> set_retry_count d i n (c + 1) w;
       Some (upd_aev (pPacket_update (\<lambda>_. None)) w) }
     else None }"

section \<open>The timer of a request\<close>

text \<open>
  When the limit is reached the first packet of the buffer is read for a message; an empty buffer
  is a null pointer.
\<close>

fun free_all :: "pid list \<Rightarrow> ARP_WORLD \<Rightarrow> ARP_WORLD option" where
  "free_all [] w = Some w"
| "free_all (p # ps) w = do { w \<leftarrow> free_apkt p w; free_all ps w }"

definition fn_NetSim_ARP_Request_Timeout :: "ARP_ENV \<Rightarrow> ARP_WORLD \<Rightarrow> ARP_WORLD option" where
  "fn_NetSim_ARP_Request_Timeout E w = do {
     p \<leftarrow> pPacket (aev w);
     k \<leftarrow> apkts w p;
     let i = nInterfaceId (aev w);
     let d = nDeviceId (aev w);
     ip \<leftarrow> szNextHopIp k;
     v \<leftarrow> ipVar w d i;
     let n = GetDeviceId_asIP E ip;
     if \<not> (\<exists>t \<in> set (pstruArpTable v). same_ip (at_szIPAddress t) ip)
     then do {
       c \<leftarrow> arr_get (pnArpRetryCount v) n;
       if c < nArpRetryLimit v
       then do {
         w \<leftarrow> set_request_flag d i n 0 w;
         Some (add_arp_event (upd_aev (nSubEventType_update (\<lambda>_. GENERATE_ARP_REQUEST)) w)) }
       else do {
         b \<leftarrow> (case pstruPacketBuffer v of [] \<Rightarrow> None | b # _ \<Rightarrow> Some b);
         _ \<leftarrow> apkts w (bf_pstruPacket b);
         let (bs, drops, freed) = ARP_BUFFER_DROP E (pstruPacketBuffer v) ip;
         w \<leftarrow> upd_var d i (pstruPacketBuffer_update (\<lambda>_. bs)) w;
         w \<leftarrow> free_all freed w;
         w \<leftarrow> upd_arp_metrics d i (\<lambda>m. m\<lparr>nPacketDropCount := nPacketDropCount m + int drops,
                nPacketsInBuffer := nPacketsInBuffer m - int drops\<rparr>) w;
         w \<leftarrow> set_retry_count d i n 0 w;
         set_request_flag d i n 0 w } }
     else do {
       w \<leftarrow> set_retry_count d i n 0 w;
       w \<leftarrow> set_request_flag d i n 0 w;
       w \<leftarrow> free_apkt p w;
       Some (upd_aev (pPacket_update (\<lambda>_. None)) w) } }"

section \<open>Replies\<close>

text \<open>A sender that is not in the table enters it.\<close>

definition learn_sender :: "ARP_ENV \<Rightarrow> NETSIM_ID \<Rightarrow> NETSIM_ID \<Rightarrow> ARP_PACKET \<Rightarrow> ARP_WORLD \<Rightarrow> ARP_WORLD option" where
  "learn_sender E d i a w = do {
     v \<leftarrow> ipVar w d i;
     if \<exists>t \<in> set (pstruArpTable v). same_ip (at_szIPAddress t) (ar_spa a) then Some w
     else upd_var d i (pstruArpTable_update (\<lambda>ts. fst (ARP_ADD_ENTRY E ts (ar_spa a) (ar_sha a) DYNAMIC))) w }"

definition fn_Netsim_ARP_CheckDestinationDevice :: "ARP_ENV \<Rightarrow> ARP_WORLD \<Rightarrow> (bool \<times> ARP_WORLD) option" where
  "fn_Netsim_ARP_CheckDestinationDevice E w = do {
     p \<leftarrow> pPacket (aev w);
     k \<leftarrow> apkts w p;
     a \<leftarrow> arp_payload k;
     let i = nInterfaceId (aev w);
     let d = nDeviceId (aev w);
     if same_ip (ar_tpa a) (DEVICE_NWADDRESS E d i) then Some (True, w)
     else do {
       w \<leftarrow> learn_sender E d i a w;
       w \<leftarrow> free_apkt p w;
       Some (False, upd_aev (pPacket_update (\<lambda>_. None)) w) } }"

definition reply_payload :: "ARP_ENV \<Rightarrow> NETSIM_ID \<Rightarrow> NETSIM_ID \<Rightarrow> ARP_PACKET \<Rightarrow> ARP_PACKET" where
  "reply_payload E d i a = \<lparr>ar_szDestMac = ar_sha a, ar_szSrcMac = szMacAddress E d i,
     nEther_type = ADDRESS_RESOLUTION, ar_hrd = IEEE802, ar_pro = ARP_TO_RESOLVE_IP,
     ar_hln = HARDWARE_ADDRESS_LENGTH, ar_pln = fst (arp_sizes E d), ar_op = ares_opSREPLY,
     ar_sha = szMacAddress E d i, ar_spa = ar_tpa a, ar_tha = Some (ar_sha a), ar_tpa = ar_spa a\<rparr>"

definition reply_packet ::
  "ARP_ENV \<Rightarrow> NETSIM_ID \<Rightarrow> NETSIM_ID \<Rightarrow> simtime \<Rightarrow> ARP_NETPKT \<Rightarrow> ARP_PACKET \<Rightarrow> ARP_NETPKT" where
  "reply_packet E d i t req a = (let k = blankNetworkPacket E in k
     \<lparr>pk_dEventTime := t, destInfo := add_dest E (destInfo k) (nSourceId req), nPacketType := PacketType_Control,
      nControlDataType := REPLY_PACKET, nTransmitterId := d, nReceiverId := nTransmitterId req, nSourceId := d,
      szSourceIP := DEVICE_NWADDRESS E d i, szDestIP := ar_spa a,
      szSourceMac := Some (szMacAddress E d i), szDestMac := Some (ar_sha a),
      dArrivalTime := t, dEndTime := t, dStartTime := t, nPacketPriority := PACKET_PRIORITY.Priority_High,
      nw_dPayload := fst (snd (arp_sizes E d)), nw_dOverhead := snd (snd (arp_sizes E d)),
      nw_dPacketSize := fst (snd (arp_sizes E d)) + snd (snd (arp_sizes E d)),
      nNetworkProtocol := NW_PROTOCOL_ARP, arp_payload := Some (reply_payload E d i a)\<rparr>)"

text \<open>The checks of the header report a mismatch and go on.\<close>

definition check_header :: "ARP_ENV \<Rightarrow> NETSIM_ID \<Rightarrow> ARP_PACKET \<Rightarrow> ARP_WORLD \<Rightarrow> ARP_WORLD" where
  "check_header E d a w =
     (let w = (if ar_hrd a \<noteq> IEEE802 then arp_error w else w);
          w = (if ar_hln a \<noteq> HARDWARE_ADDRESS_LENGTH then arp_error w else w);
          w = (if ar_pro a \<noteq> ARP_TO_RESOLVE_IP then arp_error w else w)
      in if ar_pln a \<noteq> fst (arp_sizes E d) then arp_error w else w)"

definition fn_NetSim_Generate_ARP_Reply :: "ARP_ENV \<Rightarrow> ARP_WORLD \<Rightarrow> ARP_WORLD option" where
  "fn_NetSim_Generate_ARP_Reply E w = do {
     p \<leftarrow> pPacket (aev w);
     k \<leftarrow> apkts w p;
     a \<leftarrow> arp_payload k;
     let i = nInterfaceId (aev w);
     let d = nDeviceId (aev w);
     let t = dEventTime (aev w);
     let w = check_header E d a w;
     w \<leftarrow> learn_sender E d i a w;
     w \<leftarrow> (if ar_op a = ares_opSREQUEST
          then do {
            let (q, w) = new_apkt (reply_packet E d i t k a) w;
            w \<leftarrow> queue_for_mac E d i q id w;
            upd_arp_metrics d i (nArpReplySentCount_update (\<lambda>c. c + 1)) w }
          else Some (arp_error w));
     w \<leftarrow> free_apkt p w;
     Some (upd_aev (pPacket_update (\<lambda>_. None)) w) }"

text \<open>
  The loop over the packet buffer: the packets for the address leave it, in order, with the link
  addresses filled in; the others stay.
\<close>

definition forward_fill :: "ARP_NETPKT \<Rightarrow> NETSIM_ID \<Rightarrow> NetSim_EVENTDETAILS \<Rightarrow> NetSim_EVENTDETAILS" where
  "forward_fill k i e = (case pstruAppData k of
       Some (app, seg) \<Rightarrow> e\<lparr>nApplicationId := app, nSegmentId := seg, nInterfaceId := i, ev_nPacketId := nPacketId k\<rparr>
     | None \<Rightarrow> e\<lparr>nApplicationId := 0, nSegmentId := 0, nInterfaceId := i, ev_nPacketId := nPacketId k\<rparr>)"

fun forward_loop ::
  "ARP_ENV \<Rightarrow> NETSIM_ID \<Rightarrow> NETSIM_ID \<Rightarrow> NETSIM_IPAddress \<Rightarrow> MAC_ADDRESS \<Rightarrow> ARP_BUFFER list \<Rightarrow> ARP_WORLD
    \<Rightarrow> (ARP_BUFFER list \<times> ARP_WORLD) option" where
  "forward_loop E d i ip mac [] w = Some ([], w)"
| "forward_loop E d i ip mac (b # bs) w =
     (if same_ip (bf_szDestAdd b) ip
      then do {
        let p = bf_pstruPacket b;
        w \<leftarrow> upd_arp_metrics d i (nPacketsInBuffer_update (\<lambda>n. n - 1)) w;
        w \<leftarrow> upd_apkt p (\<lambda>k. k\<lparr>szDestMac := Some mac, szSourceMac := Some (szMacAddress E d i)\<rparr>) w;
        k \<leftarrow> apkts w p;
        w \<leftarrow> queue_for_mac E d i p (forward_fill k i) w;
        forward_loop E d i ip mac bs w }
      else do {
        (ks, w) \<leftarrow> forward_loop E d i ip mac bs w;
        Some (b # ks, w) })"

text \<open>The new head of the table stays in a local variable.\<close>

definition fn_NetSim_Update_ARP_Table_ForwardPacket :: "ARP_ENV \<Rightarrow> ARP_WORLD \<Rightarrow> ARP_WORLD option" where
  "fn_NetSim_Update_ARP_Table_ForwardPacket E w = do {
     let i = nInterfaceId (aev w);
     let d = nDeviceId (aev w);
     v \<leftarrow> ipVar w d i;
     p \<leftarrow> pPacket (aev w);
     k \<leftarrow> apkts w p;
     a \<leftarrow> arp_payload k;
     let old = (if pstruArpTable v = [] then []
                else snd (ARP_ADD_ENTRY E (pstruArpTable v) (ar_spa a) (ar_sha a) DYNAMIC));
     w \<leftarrow> upd_var d i (pstruArpTable_update (\<lambda>_. old)) w;
     (bs, w) \<leftarrow> forward_loop E d i (ar_spa a) (ar_sha a) (pstruPacketBuffer v) w;
     w \<leftarrow> upd_var d i (pstruPacketBuffer_update (\<lambda>_. bs)) w;
     let n = nSourceId k;
     w \<leftarrow> set_reply_flag d i n 1 w;
     w \<leftarrow> set_request_flag d i n 0 w;
     w \<leftarrow> upd_arp_metrics d i (nArpReplyReceivedCount_update (\<lambda>c. c + 1)) w;
     w \<leftarrow> free_apkt p w;
     Some (upd_aev (pPacket_update (\<lambda>_. None)) w) }"

section \<open>Events\<close>

definition fn_NetSim_ARP_Run :: "ARP_ENV \<Rightarrow> ARP_WORLD \<Rightarrow> ARP_WORLD option" where
  "fn_NetSim_ARP_Run E w = (case nEventType (aev w) of
       NETWORK_OUT_EVENT \<Rightarrow>
         if nSubEventType (aev w) = GENERATE_ARP_REQUEST then fn_NetSim_Generate_ARP_Request E w
         else fn_NetSim_Read_ARP_Table E w
     | TIMER_EVENT \<Rightarrow>
         if nSubEventType (aev w) = ARP_REQUEST_TIMEOUT then fn_NetSim_ARP_Request_Timeout E w else Some w
     | NETWORK_IN_EVENT \<Rightarrow>
         if nSubEventType (aev w) = GENERATE_ARP_REPLY then fn_NetSim_Generate_ARP_Reply E w
         else if nSubEventType (aev w) = UPDATE_ARP_TABLE_FWD_PKT then fn_NetSim_Update_ARP_Table_ForwardPacket E w
         else do {
           p \<leftarrow> pPacket (aev w);
           k \<leftarrow> apkts w p;
           if nControlDataType k = REQUEST_PACKET
           then do {
             (r, w) \<leftarrow> fn_Netsim_ARP_CheckDestinationDevice E w;
             let w = (if r then add_arp_event (upd_aev (nSubEventType_update (\<lambda>_. GENERATE_ARP_REPLY)) w) else w);
             Some (upd_aev (pPacket_update (\<lambda>_. None)) w) }
           else if nControlDataType k = REPLY_PACKET
           then Some (upd_aev (pPacket_update (\<lambda>_. None))
                  (add_arp_event (upd_aev (nSubEventType_update (\<lambda>_. UPDATE_ARP_TABLE_FWD_PKT)) w)))
           else Some w }
     | _ \<Rightarrow> Some (arp_error w))"

end
