(* ===== verification/Arp_Example.thy ===== *)
theory Arp_Example
  imports Arp Aodv_Example
begin

text \<open>
  The network of theory \<open>Aodv_Example\<close> with address resolution: node \<open>d\<close> has the address
  \<open>10.0.0.d\<close> and the link address \<open>d\<close>.  The functions of the libraries are the simplest ones that
  do what their names say.
\<close>

definition demo_mac :: "NETSIM_ID \<Rightarrow> MAC_ADDRESS" where
  "demo_mac d = unat (of_nat d :: u32)"

definition demo_arp_pkt :: ARP_NETPKT where
  "demo_arp_pkt = NetSim_PACKET.extend demo_pkt
     \<lparr>szSourceMac = None, szDestMac = None, nw_dPayload = 1460, nNetworkProtocol = 0, arp_payload = None\<rparr>"

text \<open>The list functions: a new entry and a waiting packet go to the end, what is dropped leaves.\<close>

definition demo_arp :: ARP_ENV where
  "demo_arp = NETSIM_STACK.extend demo_stack
     \<lparr>szAddress = \<lambda>d i. demo_ip d, szMacAddress = \<lambda>d i. demo_mac d, BROADCAST_MAC = 0,
      multicastIP_to_Mac = \<lambda>ip. None, szBroadcastIPaddress = mk_ip4 0xFFFFFFFF,
      GetMacProtocol = \<lambda>d i. 0, get_first_dest = \<lambda>ds. (case ds of [] \<Rightarrow> 0 | x # _ \<Rightarrow> x),
      add_dest = \<lambda>ds x. ds @ [x], remove_dest = \<lambda>ds x. removeAll x ds,
      blankNetworkPacket = demo_arp_pkt\<lparr>destInfo := []\<rparr>, CopyPacket = id,
      AddPacketToList = \<lambda>b p. (case pstruPacketlist b of Chain ps \<Rightarrow> Some (b\<lparr>pstruPacketlist := Chain (ps @ [p])\<rparr>)
                                 | Lists cs \<Rightarrow> Some (b\<lparr>pstruPacketlist := Chain [p]\<rparr>)),
      ARP_ADD_ENTRY = \<lambda>ts ip mac ty. (ts @ [\<lparr>at_szIPAddress = ip, at_szMACAddress = mac, at_nType = ty\<rparr>],
         if ts = [] then [] else ts @ [\<lparr>at_szIPAddress = ip, at_szMACAddress = mac, at_nType = ty\<rparr>]),
      ARP_BUFFER_ADD = \<lambda>bs p ip i. bs @ [\<lparr>bf_szDestAdd = ip, bf_nBufferInterfaceID = i, bf_pstruPacket = p\<rparr>],
      ARP_BUFFER_DROP = \<lambda>bs ip. (filter (\<lambda>b. \<not> same_ip (bf_szDestAdd b) ip) bs,
         length (filter (\<lambda>b. same_ip (bf_szDestAdd b) ip) bs),
         map bf_pstruPacket (filter (\<lambda>b. same_ip (bf_szDestAdd b) ip) bs))\<rparr>"

lemma demo_arp_stack [simp]:
  "nNumOfInterface demo_arp d = 1"
  "DEVICE_NWADDRESS demo_arp d i = demo_ip d"
  "szSubnetMask demo_arp d i = None"
  "IP_IS_IN_SAME_NETWORK demo_arp a b m p = True"
  "isBroadcastIP demo_arp ip = (int_ip0 ip = 0xFFFFFFFF)"
  "isMulticastIP demo_arp ip = False"
  "GetDeviceId_asIP demo_arp ip = unat (int_ip0 ip - 0x0A000000)"
  "GetNWProtocol demo_arp d = NW_PROTOCOL_IPV4"
  by (simp_all add: demo_arp_def demo_stack_def NETSIM_STACK.extend_def)

lemma demo_arp_sel [simp]:
  "szAddress demo_arp d i = demo_ip d"
  "szMacAddress demo_arp d i = demo_mac d"
  "BROADCAST_MAC demo_arp = 0"
  "multicastIP_to_Mac demo_arp ip = None"
  "szBroadcastIPaddress demo_arp = mk_ip4 0xFFFFFFFF"
  "GetMacProtocol demo_arp d i = 0"
  "get_first_dest demo_arp ds = (case ds of [] \<Rightarrow> 0 | x # _ \<Rightarrow> x)"
  "add_dest demo_arp ds x = ds @ [x]"
  "remove_dest demo_arp ds x = removeAll x ds"
  "blankNetworkPacket demo_arp = demo_arp_pkt\<lparr>destInfo := []\<rparr>"
  "CopyPacket demo_arp k = k"
  "AddPacketToList demo_arp b p = (case pstruPacketlist b of
     Chain ps \<Rightarrow> Some (b\<lparr>pstruPacketlist := Chain (ps @ [p])\<rparr>) | Lists cs \<Rightarrow> Some (b\<lparr>pstruPacketlist := Chain [p]\<rparr>))"
  "ARP_ADD_ENTRY demo_arp ts ip mac ty = (ts @ [\<lparr>at_szIPAddress = ip, at_szMACAddress = mac, at_nType = ty\<rparr>],
     if ts = [] then [] else ts @ [\<lparr>at_szIPAddress = ip, at_szMACAddress = mac, at_nType = ty\<rparr>])"
  "ARP_BUFFER_ADD demo_arp bs q ip i = bs @ [\<lparr>bf_szDestAdd = ip, bf_nBufferInterfaceID = i, bf_pstruPacket = q\<rparr>]"
  by (simp_all add: demo_arp_def NETSIM_STACK.extend_def)

lemma demo_arp_drop [simp]:
  "ARP_BUFFER_DROP demo_arp bs ip = (filter (\<lambda>b. \<not> same_ip (bf_szDestAdd b) ip) bs,
     length (filter (\<lambda>b. same_ip (bf_szDestAdd b) ip) bs),
     map bf_pstruPacket (filter (\<lambda>b. same_ip (bf_szDestAdd b) ip) bs))"
  by (simp add: demo_arp_def NETSIM_STACK.extend_def)

text \<open>An interface at the start, with three devices.\<close>

definition demo_arp_var :: ARP_VARIABLES where
  "demo_arp_var = \<lparr>nStaticTableFlag = 0, pstruArpTable = [], nArpRetryLimit = 3, nArpRetryInterval = 10,
     pnArpRequestFlag = [0, 0, 0, 0], pnArpReplyFlag = [0, 0, 0, 0], pnArpRetryCount = [0, 0, 0, 0],
     pstruPacketBuffer = [], arpMetrics = \<lparr>nArpRequestSentCount = 0, nArpReplyReceivedCount = 0,
       nArpReplySentCount = 0, nPacketsInBuffer = 0, nPacketDropCount = 0\<rparr>\<rparr>"

definition demo_access :: NetSim_BUFFER where
  "demo_access = \<lparr>dMaxBufferSize = 8, dCurrentBufferSize = 0, nSchedulingType = SCHEDULING_FIFO,
     queuingTechnique = QUEUING_DROPTAIL, max_latency = [], queuingParam = NoParam, nQueuedPacket = 0,
     nDequeuedPacket = 0, nDroppedPacket = 0, pstruPacketlist = Chain [], buf_last = None, buf_drawn = 0\<rparr>"

definition demo_arp_world :: "ARP_VARIABLES \<Rightarrow> (pid \<rightharpoonup> ARP_NETPKT) \<Rightarrow> NetSim_EVENTDETAILS \<Rightarrow> ARP_WORLD" where
  "demo_arp_world v ks e = \<lparr>ipVar = \<lambda>d i. if d \<in> {1, 2, 3} \<and> i = 1 then Some v else None,
     accessBuffer = \<lambda>d i. demo_access, apkts = ks, anext = 100, aev = e, aadded = [], aerrors = 0\<rparr>"

definition demo_arp_ev :: "EVENT_TYPE \<Rightarrow> nat \<Rightarrow> NETSIM_ID \<Rightarrow> pid option \<Rightarrow> NetSim_EVENTDETAILS" where
  "demo_arp_ev ty s d p = (demo_ev ty d p)\<lparr>nProtocolId := NW_PROTOCOL_ARP, nSubEventType := s\<rparr>"

text \<open>A data packet on its way to node \<open>d\<close>, a request and a reply as they arrive.\<close>

definition demo_data :: "NETSIM_ID \<Rightarrow> ARP_NETPKT" where
  "demo_data d = demo_arp_pkt\<lparr>szNextHopIp := Some (demo_ip d), nReceiverId := d, destInfo := [d]\<rparr>"

definition demo_request :: "NETSIM_ID \<Rightarrow> NETSIM_ID \<Rightarrow> ARP_NETPKT" where
  "demo_request s d = request_packet demo_arp s 1 0 (request_payload demo_arp s 1 (demo_ip s) (demo_ip d))"

definition demo_reply :: "NETSIM_ID \<Rightarrow> NETSIM_ID \<Rightarrow> ARP_NETPKT" where
  "demo_reply s d = reply_packet demo_arp d 1 0 (demo_request s d) (request_payload demo_arp s 1 (demo_ip s) (demo_ip d))"

lemma demo_arp_world_sel [simp]:
  "ipVar (demo_arp_world v ks e) d i = (if d \<in> {1, 2, 3} \<and> i = 1 then Some v else None)"
  "accessBuffer (demo_arp_world v ks e) d i = demo_access"
  "apkts (demo_arp_world v ks e) = ks"
  "anext (demo_arp_world v ks e) = 100"
  "aev (demo_arp_world v ks e) = e"
  "aadded (demo_arp_world v ks e) = []"
  by (simp_all add: demo_arp_world_def)

lemma demo_arp_ev_sel [simp]:
  "nEventType (demo_arp_ev ty s d p) = ty" "nSubEventType (demo_arp_ev ty s d p) = s"
  "nDeviceId (demo_arp_ev ty s d p) = d" "nInterfaceId (demo_arp_ev ty s d p) = 1"
  "pPacket (demo_arp_ev ty s d p) = p" "dEventTime (demo_arp_ev ty s d p) = 1000"
  by (simp_all add: demo_arp_ev_def)

lemma demo_access_sel [simp]:
  "nSchedulingType demo_access = SCHEDULING_FIFO" "pstruPacketlist demo_access = Chain []"
  by (simp_all add: demo_access_def)

lemma demo_payloads [simp]:
  "arp_payload (demo_data d) = None"
  "arp_payload (demo_request s d) = Some (request_payload demo_arp s 1 (demo_ip s) (demo_ip d))"
  "arp_payload (demo_reply s d) = Some (reply_payload demo_arp d 1 (request_payload demo_arp s 1 (demo_ip s) (demo_ip d)))"
  "nControlDataType (demo_request s d) = REQUEST_PACKET"
  "nControlDataType (demo_reply s d) = REPLY_PACKET"
  "nSourceId (demo_reply s d) = d"
  "szNextHopIp (demo_data d) = Some (demo_ip d)"
  "nReceiverId (demo_data d) = d" "destInfo (demo_data d) = [d]" "szSourceIP (demo_data d) = demo_ip 1"
  by (simp_all add: demo_pkt_def demo_data_def demo_request_def demo_reply_def request_packet_def reply_packet_def
      demo_arp_pkt_def NetSim_PACKET.extend_def)

lemma demo_request_payload [simp]:
  "ar_spa (request_payload demo_arp s i a b) = a" "ar_sha (request_payload demo_arp s i a b) = demo_mac s"
  "ar_tpa (request_payload demo_arp s i a b) = b" "ar_op (request_payload demo_arp s i a b) = ares_opSREQUEST"
  by (simp_all add: request_payload_def)

lemma demo_reply_payload [simp]:
  "ar_spa (reply_payload demo_arp d i a) = ar_tpa a" "ar_sha (reply_payload demo_arp d i a) = demo_mac d"
  by (simp_all add: reply_payload_def)

text \<open>The definitions a concrete run unfolds.\<close>

lemmas arp_run_defs = fn_NetSim_ARP_Run_def fn_NetSim_Generate_ARP_Request_def fn_NetSim_Read_ARP_Table_def
  fn_NetSim_ARP_Request_Timeout_def fn_Netsim_ARP_CheckDestinationDevice_def fn_NetSim_Generate_ARP_Reply_def
  fn_NetSim_Update_ARP_Table_ForwardPacket_def learn_sender_def check_header_def buffer_packet_def queue_for_mac_def

lemmas arp_access_defs = new_apkt_def upd_aev_def add_arp_event_def set_request_flag_def set_reply_flag_def
  set_retry_count_def arr_set_def arr_get_def upd_var_def upd_apkt_def free_apkt_def upd_arp_metrics_def
  fn_NetSim_GetBufferStatus_def arp_error_def Let_def

end
