(* ===== verification/Arp_Truth.thy ===== *)
theory Arp_Truth
  imports Arp_Example
begin

text \<open>
  The tables tell the truth: in every run, over all interfaces and whatever the other layers do
  with packets in between, an entry of a table maps an address to the link address of the
  interface that has it.
\<close>

section \<open>The invariant\<close>

text \<open>What is said of an address is true when no interface with this address has another link address.\<close>

definition true_mac :: "ARP_ENV \<Rightarrow> NETSIM_IPAddress \<Rightarrow> MAC_ADDRESS \<Rightarrow> bool" where
  "true_mac E ip mac \<longleftrightarrow> (\<forall>d i. same_ip ip (DEVICE_NWADDRESS E d i) \<longrightarrow> mac = szMacAddress E d i)"

text \<open>
  The network: an address belongs to one link address, the two fields of an address agree, the
  table functions add nothing but the entry given, and a copy of a packet has the same content.
\<close>

definition arp_network :: "ARP_ENV \<Rightarrow> bool" where
  "arp_network E \<longleftrightarrow>
     (\<forall>d i. true_mac E (DEVICE_NWADDRESS E d i) (szMacAddress E d i))
   \<and> (\<forall>d i. same_ip (szAddress E d i) (DEVICE_NWADDRESS E d i))
   \<and> (\<forall>ts ip mac ty. set (fst (ARP_ADD_ENTRY E ts ip mac ty)) \<union> set (snd (ARP_ADD_ENTRY E ts ip mac ty)) \<subseteq>
        insert \<lparr>at_szIPAddress = ip, at_szMACAddress = mac, at_nType = ty\<rparr> (set ts))
   \<and> (\<forall>k. arp_payload (CopyPacket E k) = arp_payload k)"

definition payload_true :: "ARP_ENV \<Rightarrow> ARP_PACKET \<Rightarrow> bool" where
  "payload_true E a \<longleftrightarrow> true_mac E (ar_spa a) (ar_sha a)"

text \<open>An event that orders a reply is for an interface that has the address asked for.\<close>

definition reply_event_ok :: "ARP_ENV \<Rightarrow> (pid \<Rightarrow> ARP_NETPKT option) \<Rightarrow> NetSim_EVENTDETAILS \<Rightarrow> bool" where
  "reply_event_ok E pk e \<longleftrightarrow> (nEventType e = NETWORK_IN_EVENT \<longrightarrow> nSubEventType e = GENERATE_ARP_REPLY \<longrightarrow>
     (\<forall>p k a. pPacket e = Some p \<longrightarrow> pk p = Some k \<longrightarrow> arp_payload k = Some a \<longrightarrow>
       same_ip (ar_tpa a) (DEVICE_NWADDRESS E (nDeviceId e) (nInterfaceId e))))"

definition event_pid_ok :: "pid \<Rightarrow> NetSim_EVENTDETAILS \<Rightarrow> bool" where
  "event_pid_ok n e \<longleftrightarrow> (\<forall>p. pPacket e = Some p \<longrightarrow> p < n)"

definition arp_true :: "ARP_ENV \<Rightarrow> ARP_WORLD \<Rightarrow> bool" where
  "arp_true E w \<longleftrightarrow>
     (\<forall>d i v t. ipVar w d i = Some v \<longrightarrow> t \<in> set (pstruArpTable v) \<longrightarrow> true_mac E (at_szIPAddress t) (at_szMACAddress t))
   \<and> (\<forall>p k. apkts w p = Some k \<longrightarrow> p < anext w \<and> (\<forall>a. arp_payload k = Some a \<longrightarrow> payload_true E a))
   \<and> (\<forall>e \<in> set (aadded w). reply_event_ok E (apkts w) e \<and> event_pid_ok (anext w) e)"

lemma arp_trueD:
  assumes "arp_true E w"
  shows "ipVar w d i = Some v \<Longrightarrow> t \<in> set (pstruArpTable v) \<Longrightarrow> true_mac E (at_szIPAddress t) (at_szMACAddress t)"
    and "apkts w p = Some k \<Longrightarrow> p < anext w"
    and "apkts w p = Some k \<Longrightarrow> arp_payload k = Some a \<Longrightarrow> payload_true E a"
    and "e \<in> set (aadded w) \<Longrightarrow> reply_event_ok E (apkts w) e"
    and "e \<in> set (aadded w) \<Longrightarrow> event_pid_ok (anext w) e"
  using assms unfolding arp_true_def by blast+

section \<open>What the primitives keep\<close>

lemma true_upd_var:
  assumes "arp_true E w" "upd_var d i f w = Some w'"
    and "\<And>v. ipVar w d i = Some v \<Longrightarrow> set (pstruArpTable (f v)) \<subseteq> set (pstruArpTable v) \<union> N"
    and "\<And>t. t \<in> N \<Longrightarrow> true_mac E (at_szIPAddress t) (at_szMACAddress t)"
  shows "arp_true E w' \<and> aev w' = aev w \<and> apkts w' = apkts w"
proof -
  from assms(2) obtain v where v: "ipVar w d i = Some v"
    and w': "w' = w\<lparr>ipVar := (ipVar w)(d := (ipVar w d)(i \<mapsto> f v))\<rparr>"
    by (auto simp: upd_var_def split: option.splits)
  have "true_mac E (at_szIPAddress t) (at_szMACAddress t)" if t: "t \<in> set (pstruArpTable (f v))" for t
    using assms(3) [OF v] assms(4) arp_trueD(1) [OF assms(1) v] t by blast
  with assms(1) show ?thesis
    unfolding w' arp_true_def by auto
qed

lemma true_upd_var_same:
  assumes "arp_true E w" "upd_var d i f w = Some w'" "\<And>v. pstruArpTable (f v) = pstruArpTable v"
  shows "arp_true E w' \<and> aev w' = aev w \<and> apkts w' = apkts w"
  using assms by (intro true_upd_var [OF assms(1,2), of "{}"]) auto

lemma true_upd_apkt:
  assumes "arp_true E w" "upd_apkt p f w = Some w'" "\<And>k. arp_payload (f k) = arp_payload k"
  shows "arp_true E w' \<and> aev w' = aev w"
proof -
  from assms(2) obtain k where k: "apkts w p = Some k" and w': "w' = w\<lparr>apkts := (apkts w)(p \<mapsto> f k)\<rparr>"
    by (auto simp: upd_apkt_def split: option.splits)
  have "reply_event_ok E (apkts w') e" if "e \<in> set (aadded w)" for e
    using arp_trueD(4) [OF assms(1) that] k assms(3) by (auto simp: reply_event_ok_def w')
  with assms(1,3) k show ?thesis
    unfolding arp_true_def by (auto simp: w')
qed

lemma true_free_apkt:
  assumes "arp_true E w" "free_apkt p w = Some w'"
  shows "arp_true E w' \<and> aev w' = aev w"
proof -
  from assms(2) have w': "w' = w\<lparr>apkts := (apkts w)(p := None)\<rparr>"
    by (auto simp: free_apkt_def split: option.splits)
  have "reply_event_ok E (apkts w') e" if "e \<in> set (aadded w)" for e
    using arp_trueD(4) [OF assms(1) that] by (auto simp: reply_event_ok_def w')
  with assms(1) show ?thesis
    unfolding arp_true_def by (auto simp: w')
qed

lemma true_free_all:
  "arp_true E w \<Longrightarrow> free_all ps w = Some w' \<Longrightarrow> arp_true E w' \<and> aev w' = aev w"
proof (induction ps arbitrary: w)
  case (Cons p ps)
  then obtain w1 where "free_apkt p w = Some w1" "free_all ps w1 = Some w'"
    by (auto elim!: bind_SomeE)
  with Cons true_free_apkt show ?case by metis
qed simp

text \<open>A new packet has a new handle, which no event refers to.\<close>

lemma true_new_apkt:
  assumes "arp_true E w" "new_apkt k w = (q, w')" "\<And>a. arp_payload k = Some a \<Longrightarrow> payload_true E a"
  shows "arp_true E w' \<and> aev w' = aev w \<and> q < anext w' \<and> (\<forall>p. p < anext w \<longrightarrow> apkts w' p = apkts w p)
    \<and> anext w \<le> anext w'"
proof -
  from assms(2) have w': "w' = w\<lparr>apkts := (apkts w)(anext w \<mapsto> k), anext := Suc (anext w)\<rparr>" "q = anext w"
    by (auto simp: new_apkt_def)
  have "reply_event_ok E (apkts w') e \<and> event_pid_ok (anext w') e" if "e \<in> set (aadded w)" for e
    using arp_trueD(4,5) [OF assms(1) that] by (auto simp: reply_event_ok_def event_pid_ok_def w' less_Suc_eq)
  with assms(1,3) show ?thesis
    unfolding arp_true_def by (auto simp: w' less_Suc_eq)
qed

lemma true_upd_aev [simp]: "arp_true E (upd_aev f w) = arp_true E w"
  by (simp add: arp_true_def upd_aev_def)

lemma upd_aev_simps [simp]:
  "aev (upd_aev f w) = f (aev w)" "apkts (upd_aev f w) = apkts w" "anext (upd_aev f w) = anext w"
  "ipVar (upd_aev f w) = ipVar w"
  by (simp_all add: upd_aev_def)

lemma add_arp_event_simps [simp]:
  "aev (add_arp_event w) = aev w" "apkts (add_arp_event w) = apkts w" "anext (add_arp_event w) = anext w"
  "ipVar (add_arp_event w) = ipVar w"
  by (simp_all add: add_arp_event_def)

lemma true_add_event:
  assumes "arp_true E w" "reply_event_ok E (apkts w) (aev w)" "event_pid_ok (anext w) (aev w)"
  shows "arp_true E (add_arp_event w)"
  using assms by (auto simp: arp_true_def add_arp_event_def)

lemma true_accessBuffer [simp]: "arp_true E (w\<lparr>accessBuffer := ab\<rparr>) = arp_true E w"
  by (simp add: arp_true_def)

lemma true_queue_for_mac:
  assumes "arp_true E w" "queue_for_mac E d i p fill w = Some w'"
  shows "arp_true E w' \<and> apkts w' = apkts w \<and> anext w' = anext w \<and> ipVar w' = ipVar w"
  using assms unfolding queue_for_mac_def Let_def
  by (auto elim!: bind_SomeE split: if_splits intro!: true_add_event simp: reply_event_ok_def event_pid_ok_def)

lemma true_arp_error [simp]: "arp_true E (arp_error w) = arp_true E w"
  by (simp add: arp_true_def arp_error_def)

lemma arp_error_simps [simp]:
  "aev (arp_error w) = aev w" "apkts (arp_error w) = apkts w" "anext (arp_error w) = anext w"
  "ipVar (arp_error w) = ipVar w"
  by (simp_all add: arp_error_def)

lemma true_set_request_flag:
  assumes "arp_true E w" "set_request_flag d i n x w = Some w'"
  shows "arp_true E w' \<and> aev w' = aev w \<and> apkts w' = apkts w"
  using assms unfolding set_request_flag_def
  by (elim bind_SomeE) (erule (1) true_upd_var_same, simp)

lemma true_set_reply_flag:
  assumes "arp_true E w" "set_reply_flag d i n x w = Some w'"
  shows "arp_true E w' \<and> aev w' = aev w \<and> apkts w' = apkts w"
  using assms unfolding set_reply_flag_def
  by (elim bind_SomeE) (erule (1) true_upd_var_same, simp)

lemma true_set_retry_count:
  assumes "arp_true E w" "set_retry_count d i n x w = Some w'"
  shows "arp_true E w' \<and> aev w' = aev w \<and> apkts w' = apkts w"
  using assms unfolding set_retry_count_def
  by (elim bind_SomeE) (erule (1) true_upd_var_same, simp)

lemma true_metrics:
  assumes "arp_true E w" "upd_arp_metrics d i f w = Some w'"
  shows "arp_true E w' \<and> aev w' = aev w \<and> apkts w' = apkts w"
  using assms unfolding upd_arp_metrics_def
  by (rule true_upd_var_same) simp

text \<open>Learning from a true packet.\<close>

lemma true_learn_sender:
  assumes "arp_network E" "arp_true E w" "payload_true E a" "learn_sender E d i a w = Some w'"
  shows "arp_true E w' \<and> aev w' = aev w \<and> apkts w' = apkts w"
proof -
  from assms(4) have "w' = w \<or>
      upd_var d i (pstruArpTable_update (\<lambda>ts. fst (ARP_ADD_ENTRY E ts (ar_spa a) (ar_sha a) DYNAMIC))) w = Some w'"
    unfolding learn_sender_def by (auto elim!: bind_SomeE split: if_splits)
  then show ?thesis
  proof
    assume "w' = w"
    with assms(2) show ?thesis by simp
  next
    assume u: "upd_var d i (pstruArpTable_update (\<lambda>ts. fst (ARP_ADD_ENTRY E ts (ar_spa a) (ar_sha a) DYNAMIC))) w = Some w'"
    show ?thesis
      using assms(1,3)
      by (intro true_upd_var [OF assms(2) u,
            of "{\<lparr>at_szIPAddress = ar_spa a, at_szMACAddress = ar_sha a, at_nType = DYNAMIC\<rparr>}"])
         (auto simp: arp_network_def payload_true_def)
  qed
qed

section \<open>What the handlers keep\<close>

text \<open>If \<open>m\<close> returns, the result has the property: rules that follow the binds of a handler.\<close>

definition returns_only :: "'a option \<Rightarrow> ('a \<Rightarrow> bool) \<Rightarrow> bool" where
  "returns_only m Q \<longleftrightarrow> (\<forall>x. m = Some x \<longrightarrow> Q x)"

named_theorems arp_wp \<open>rules for the calls of a handler\<close>

lemma ro_bind [arp_wp]: "returns_only m (\<lambda>x. returns_only (f x) Q) \<Longrightarrow> returns_only (Option.bind m f) Q"
  by (auto simp: returns_only_def elim!: bind_SomeE)

lemma ro_Some [arp_wp]: "Q x \<Longrightarrow> returns_only (Some x) Q"
  by (simp add: returns_only_def)

lemma ro_None [arp_wp]: "returns_only None Q"
  by (simp add: returns_only_def)

lemma ro_if [arp_wp]:
  "(b \<Longrightarrow> returns_only m Q) \<Longrightarrow> (\<not> b \<Longrightarrow> returns_only n Q) \<Longrightarrow> returns_only (if b then m else n) Q"
  by simp

lemma ro_case_option [arp_wp]:
  "(m = None \<Longrightarrow> returns_only a Q) \<Longrightarrow> (\<And>x. m = Some x \<Longrightarrow> returns_only (f x) Q) \<Longrightarrow>
   returns_only (case m of None \<Rightarrow> a | Some x \<Rightarrow> f x) Q"
  by (cases m) auto

lemma ro_head [arp_wp]: "(\<And>x. Q x) \<Longrightarrow> returns_only (case xs of [] \<Rightarrow> None | x # _ \<Rightarrow> Some x) Q"
  by (cases xs) (auto simp: returns_only_def)

lemma ro_apkts [arp_wp]: "(\<And>x. apkts w p = Some x \<Longrightarrow> Q x) \<Longrightarrow> returns_only (apkts w p) Q"
  by (simp add: returns_only_def)

lemma ro_ipVar [arp_wp]: "(\<And>x. ipVar w d i = Some x \<Longrightarrow> Q x) \<Longrightarrow> returns_only (ipVar w d i) Q"
  by (simp add: returns_only_def)

lemma ro_pPacket [arp_wp]: "(\<And>x. pPacket e = Some x \<Longrightarrow> Q x) \<Longrightarrow> returns_only (pPacket e) Q"
  by (simp add: returns_only_def)

lemma ro_payload [arp_wp]: "(\<And>x. arp_payload k = Some x \<Longrightarrow> Q x) \<Longrightarrow> returns_only (arp_payload k) Q"
  by (simp add: returns_only_def)

lemma ro_hop [arp_wp]: "(\<And>x. szNextHopIp k = Some x \<Longrightarrow> Q x) \<Longrightarrow> returns_only (szNextHopIp k) Q"
  by (simp add: returns_only_def)

lemma ro_arr_get [arp_wp]: "(\<And>x. Q x) \<Longrightarrow> returns_only (arr_get a n) Q"
  by (simp add: returns_only_def)

lemma ro_c_int [arp_wp]: "(\<And>x. Q x) \<Longrightarrow> returns_only (c_int z) Q"
  by (simp add: returns_only_def)

text \<open>The world a call leaves when it keeps the truth, the event and the packets.\<close>

definition kept_from :: "ARP_ENV \<Rightarrow> ARP_WORLD \<Rightarrow> ARP_WORLD \<Rightarrow> bool" where
  "kept_from E w w' \<longleftrightarrow> arp_true E w' \<and> aev w' = aev w \<and> apkts w' = apkts w"

lemma ro_set_request_flag [arp_wp]:
  "arp_true E w \<Longrightarrow> (\<And>w'. kept_from E w w' \<Longrightarrow> Q w') \<Longrightarrow> returns_only (set_request_flag d i n x w) Q"
  using true_set_request_flag by (auto simp: returns_only_def kept_from_def)

lemma ro_set_reply_flag [arp_wp]:
  "arp_true E w \<Longrightarrow> (\<And>w'. kept_from E w w' \<Longrightarrow> Q w') \<Longrightarrow> returns_only (set_reply_flag d i n x w) Q"
  using true_set_reply_flag by (auto simp: returns_only_def kept_from_def)

lemma ro_set_retry_count [arp_wp]:
  "arp_true E w \<Longrightarrow> (\<And>w'. kept_from E w w' \<Longrightarrow> Q w') \<Longrightarrow> returns_only (set_retry_count d i n x w) Q"
  using true_set_retry_count by (auto simp: returns_only_def kept_from_def)

lemma ro_metrics [arp_wp]:
  "arp_true E w \<Longrightarrow> (\<And>w'. kept_from E w w' \<Longrightarrow> Q w') \<Longrightarrow> returns_only (upd_arp_metrics d i f w) Q"
  using true_metrics by (auto simp: returns_only_def kept_from_def)

lemma ro_buffer_var [arp_wp]:
  "arp_true E w \<Longrightarrow> (\<And>w'. kept_from E w w' \<Longrightarrow> Q w') \<Longrightarrow>
   returns_only (upd_var d i (pstruPacketBuffer_update f) w) Q"
  using true_upd_var_same [of E w d i "pstruPacketBuffer_update f"] by (auto simp: returns_only_def kept_from_def)

lemma ro_buffer_packet [arp_wp]:
  assumes "arp_true E w" "\<And>w'. kept_from E w w' \<Longrightarrow> Q w'"
  shows "returns_only (buffer_packet E d i p ip w) Q"
  unfolding buffer_packet_def
proof (rule ro_bind)
  show "returns_only (upd_var d i (\<lambda>v. v\<lparr>pstruPacketBuffer := ARP_BUFFER_ADD E (pstruPacketBuffer v) p ip i\<rparr>) w)
      (\<lambda>w. returns_only (upd_arp_metrics d i (nPacketsInBuffer_update (\<lambda>n. n + 1)) w) Q)"
    unfolding returns_only_def
  proof (intro allI impI)
    fix w1 w2
    assume u: "upd_var d i (\<lambda>v. v\<lparr>pstruPacketBuffer := ARP_BUFFER_ADD E (pstruPacketBuffer v) p ip i\<rparr>) w = Some w1"
      and m: "upd_arp_metrics d i (nPacketsInBuffer_update (\<lambda>n. n + 1)) w1 = Some w2"
    from true_upd_var_same [OF assms(1) u] true_metrics [OF _ m, of E] have "kept_from E w w2"
      by (simp add: kept_from_def)
    then show "Q w2" by (rule assms(2))
  qed
qed

lemma ro_learn_sender [arp_wp]:
  "arp_network E \<Longrightarrow> arp_true E w \<Longrightarrow> payload_true E a \<Longrightarrow> (\<And>w'. kept_from E w w' \<Longrightarrow> Q w') \<Longrightarrow>
   returns_only (learn_sender E d i a w) Q"
  using true_learn_sender by (auto simp: returns_only_def kept_from_def)

lemma ro_queue [arp_wp]:
  "arp_true E w \<Longrightarrow> (\<And>w'. arp_true E w' \<Longrightarrow> apkts w' = apkts w \<Longrightarrow> anext w' = anext w \<Longrightarrow> Q w') \<Longrightarrow>
   returns_only (queue_for_mac E d i p fill w) Q"
  using true_queue_for_mac by (auto simp: returns_only_def)

lemma ro_free [arp_wp]:
  "arp_true E w \<Longrightarrow> (\<And>w'. arp_true E w' \<Longrightarrow> aev w' = aev w \<Longrightarrow> Q w') \<Longrightarrow> returns_only (free_apkt p w) Q"
  using true_free_apkt by (auto simp: returns_only_def)

lemma ro_free_all [arp_wp]:
  "arp_true E w \<Longrightarrow> (\<And>w'. arp_true E w' \<Longrightarrow> aev w' = aev w \<Longrightarrow> Q w') \<Longrightarrow> returns_only (free_all ps w) Q"
  using true_free_all by (auto simp: returns_only_def)

lemma ro_macs [arp_wp]:
  "arp_true E w \<Longrightarrow> (\<And>w'. arp_true E w' \<Longrightarrow> aev w' = aev w \<Longrightarrow> Q w') \<Longrightarrow>
   returns_only (upd_apkt p (\<lambda>k. k\<lparr>szDestMac := m, szSourceMac := m'\<rparr>) w) Q"
  using true_upd_apkt [of E w p "\<lambda>k. k\<lparr>szDestMac := m, szSourceMac := m'\<rparr>"] by (auto simp: returns_only_def)

text \<open>An event that does not order a reply is no promise.\<close>

lemma no_reply_event:
  "nSubEventType e \<noteq> GENERATE_ARP_REPLY \<or> nEventType e \<noteq> NETWORK_IN_EVENT \<Longrightarrow> reply_event_ok E pk e"
  by (auto simp: reply_event_ok_def)

lemma live_event_pid:
  "arp_true E w \<Longrightarrow> pPacket e = Some p \<Longrightarrow> apkts w p = Some k \<Longrightarrow> event_pid_ok (anext w) e"
  using arp_trueD(2) by (fastforce simp: event_pid_ok_def)

lemma true_request_event:
  assumes "arp_true E w" "pPacket (aev w) = Some p" "apkts w p = Some k"
  shows "arp_true E (add_arp_event (upd_aev (nSubEventType_update (\<lambda>_. GENERATE_ARP_REQUEST)) w))"
proof (rule true_add_event)
  show "event_pid_ok (anext (upd_aev (nSubEventType_update (\<lambda>_. GENERATE_ARP_REQUEST)) w))
      (aev (upd_aev (nSubEventType_update (\<lambda>_. GENERATE_ARP_REQUEST)) w))"
    using live_event_pid [OF assms] by (simp add: event_pid_ok_def)
qed (use assms in \<open>auto intro!: no_reply_event simp: arp_numbers\<close>)

lemma true_read:
  assumes w: "arp_true E w"
  shows "returns_only (fn_NetSim_Read_ARP_Table E w) (arp_true E)"
  unfolding fn_NetSim_Read_ARP_Table_def Let_def
  by (intro arp_wp; (rule w)?; auto simp: kept_from_def intro: true_request_event)

text \<open>A packet made by a handler.\<close>

lemma ro_new [arp_wp]:
  assumes "arp_true E w" "\<And>a. arp_payload k = Some a \<Longrightarrow> payload_true E a"
    and "\<And>q w'. arp_true E w' \<Longrightarrow> aev w' = aev w \<Longrightarrow> q < anext w' \<Longrightarrow> (\<And>p. p < anext w \<Longrightarrow> apkts w' p = apkts w p) \<Longrightarrow>
      returns_only (f q w') Q"
  shows "returns_only (case new_apkt k w of (q, w') \<Rightarrow> f q w') Q"
  using assms by (cases "new_apkt k w") (use true_new_apkt [of E w k] in fastforce)

lemma own_address_true:
  assumes "arp_network E" "same_ip src (szAddress E d i)"
  shows "true_mac E src (szMacAddress E d i)"
proof -
  have "true_mac E (DEVICE_NWADDRESS E d i) (szMacAddress E d i)" "same_ip (szAddress E d i) (DEVICE_NWADDRESS E d i)"
    using assms(1) by (simp_all add: arp_network_def)
  with assms(2) show ?thesis
    unfolding true_mac_def by (metis same_ip_sym same_ip_trans)
qed

lemma request_true: "arp_network E \<Longrightarrow> arp_payload (request_packet E d i t (request_payload E d i
    (if same_ip s (szAddress E d i) then s else szAddress E d i) dest)) = Some a \<Longrightarrow> payload_true E a"
  by (auto simp: request_packet_def request_payload_def Let_def payload_true_def own_address_true)

lemma copy_true:
  "arp_network E \<Longrightarrow> arp_true E w \<Longrightarrow> apkts w p = Some k \<Longrightarrow>
   arp_payload (CopyPacket E k) = Some a \<Longrightarrow> payload_true E a"
  using arp_trueD(3) by (auto simp: arp_network_def)

lemma true_timer_event:
  assumes "arp_true E w" "q < anext w"
  shows "arp_true E (add_arp_event (upd_aev (\<lambda>e. e\<lparr>dEventTime := f e, nEventType := TIMER_EVENT,
         nSubEventType := s, pPacket := Some q, nProtocolId := r\<rparr>) w))"
  using assms by (intro true_add_event) (auto simp: reply_event_ok_def event_pid_ok_def)

lemma true_request:
  assumes E: "arp_network E" and w: "arp_true E w"
  shows "returns_only (fn_NetSim_Generate_ARP_Request E w) (arp_true E)"
  unfolding fn_NetSim_Generate_ARP_Request_def Let_def
  by (intro arp_wp; (rule w)?; (erule request_true [OF E])?;
      auto simp: kept_from_def intro: true_timer_event copy_true [OF E])

lemma true_timeout:
  assumes w: "arp_true E w"
  shows "returns_only (fn_NetSim_ARP_Request_Timeout E w) (arp_true E)"
  unfolding fn_NetSim_ARP_Request_Timeout_def Let_def case_prod_beta
  by (intro arp_wp; (rule w)?; auto simp: kept_from_def intro: true_request_event)

text \<open>A request for an own address leaves the world as it was.\<close>

lemma true_check:
  assumes E: "arp_network E" and w: "arp_true E w" and p: "pPacket (aev w) = Some p" "apkts w p = Some k"
  shows "returns_only (fn_Netsim_ARP_CheckDestinationDevice E w) (\<lambda>(r, w'). arp_true E w' \<and>
    (r \<longrightarrow> w' = w \<and> (\<exists>a. arp_payload k = Some a \<and>
        same_ip (ar_tpa a) (DEVICE_NWADDRESS E (nDeviceId (aev w)) (nInterfaceId (aev w))))))"
  unfolding fn_Netsim_ARP_CheckDestinationDevice_def Let_def
  by (intro arp_wp; (rule w E)?; auto simp: kept_from_def p w intro: arp_trueD(3) [OF w])

lemma true_check_header [simp]: "arp_true E (check_header E d a w) = arp_true E w"
  by (simp add: check_header_def Let_def)

lemma check_header_simps [simp]:
  "aev (check_header E d a w) = aev w" "apkts (check_header E d a w) = apkts w"
  "ipVar (check_header E d a w) = ipVar w"
  by (simp_all add: check_header_def Let_def)

text \<open>A reply speaks for the address asked for.\<close>

lemma reply_true:
  assumes "arp_network E" "same_ip (ar_tpa b) (DEVICE_NWADDRESS E d i)"
    and "arp_payload (reply_packet E d i t k b) = Some a"
  shows "payload_true E a"
proof -
  from assms(1) have "same_ip (szAddress E d i) (DEVICE_NWADDRESS E d i)"
    by (simp add: arp_network_def)
  with assms(2) have "same_ip (ar_tpa b) (szAddress E d i)"
    using same_ip_sym same_ip_trans by blast
  with assms show ?thesis
    by (auto simp: reply_packet_def reply_payload_def Let_def payload_true_def own_address_true)
qed

lemma true_reply:
  assumes E: "arp_network E" and w: "arp_true E w" and ok: "reply_event_ok E (apkts w) (aev w)"
    and reply: "nEventType (aev w) = NETWORK_IN_EVENT" "nSubEventType (aev w) = GENERATE_ARP_REPLY"
  shows "returns_only (fn_NetSim_Generate_ARP_Reply E w) (arp_true E)"
  unfolding fn_NetSim_Generate_ARP_Reply_def Let_def
  using ok reply
  by (intro arp_wp; (rule E)?; auto simp: kept_from_def w E reply_event_ok_def intro: arp_trueD(3) [OF w] reply_true [OF E])

text \<open>The loop changes no table.\<close>

lemma true_forward_loop:
  "arp_true E w \<Longrightarrow> returns_only (forward_loop E d i ip mac bs w) (\<lambda>(ks, w'). arp_true E w')"
proof (induction bs arbitrary: w)
  case (Cons b bs)
  show ?case
  proof (cases "same_ip (bf_szDestAdd b) ip")
    case True
    have "returns_only (do {
        w \<leftarrow> upd_arp_metrics d i (nPacketsInBuffer_update (\<lambda>n. n - 1)) w;
        w \<leftarrow> upd_apkt (bf_pstruPacket b) (\<lambda>k. k\<lparr>szDestMac := Some mac, szSourceMac := Some (szMacAddress E d i)\<rparr>) w;
        k \<leftarrow> apkts w (bf_pstruPacket b);
        w \<leftarrow> queue_for_mac E d i (bf_pstruPacket b) (forward_fill k i) w;
        forward_loop E d i ip mac bs w }) (\<lambda>(ks, w'). arp_true E w')"
      by (intro arp_wp; (rule Cons)?; auto simp: kept_from_def Cons)
    with True show ?thesis by (simp add: Let_def)
  next
    case False
    from Cons show ?thesis
      using False by (fastforce simp: returns_only_def elim!: bind_SomeE)
  qed
qed (simp add: returns_only_def)

text \<open>The table after a reply.\<close>

lemma true_update_table:
  assumes "arp_network E" "arp_true E w" "ipVar w d i = Some v" "payload_true E a"
    and "upd_var d i (pstruArpTable_update (\<lambda>_. if pstruArpTable v = [] then []
        else snd (ARP_ADD_ENTRY E (pstruArpTable v) (ar_spa a) (ar_sha a) DYNAMIC))) w = Some w'"
  shows "kept_from E w w'"
proof -
  have "set (if pstruArpTable v = [] then [] else snd (ARP_ADD_ENTRY E (pstruArpTable v) (ar_spa a) (ar_sha a) DYNAMIC))
      \<subseteq> set (pstruArpTable v) \<union> {\<lparr>at_szIPAddress = ar_spa a, at_szMACAddress = ar_sha a, at_nType = DYNAMIC\<rparr>}"
    using assms(1) by (auto simp: arp_network_def)
  with assms(3,4) true_upd_var [OF assms(2,5), of "{\<lparr>at_szIPAddress = ar_spa a, at_szMACAddress = ar_sha a, at_nType = DYNAMIC\<rparr>}"]
  show ?thesis
    by (simp add: kept_from_def payload_true_def)
qed

lemma ro_table [arp_wp]:
  "arp_network E \<Longrightarrow> arp_true E w \<Longrightarrow> ipVar w d i = Some v \<Longrightarrow> payload_true E a \<Longrightarrow> (\<And>w'. kept_from E w w' \<Longrightarrow> Q w') \<Longrightarrow>
   returns_only (upd_var d i (pstruArpTable_update (\<lambda>_. if pstruArpTable v = [] then []
        else snd (ARP_ADD_ENTRY E (pstruArpTable v) (ar_spa a) (ar_sha a) DYNAMIC))) w) Q"
  using true_update_table [of E w d i v a] by (auto simp: returns_only_def)

lemma ro_forward [arp_wp]:
  "arp_true E w \<Longrightarrow> (\<And>ks w'. arp_true E w' \<Longrightarrow> Q (ks, w')) \<Longrightarrow> returns_only (forward_loop E d i ip mac bs w) Q"
  using true_forward_loop [of E w d i ip mac bs] by (auto simp: returns_only_def)

lemma ro_pair [arp_wp]: "returns_only (f a b) Q \<Longrightarrow> returns_only (case (a, b) of (a, b) \<Rightarrow> f a b) Q"
  by simp

lemma true_update:
  assumes E: "arp_network E" and w: "arp_true E w"
  shows "returns_only (fn_NetSim_Update_ARP_Table_ForwardPacket E w) (arp_true E)"
  unfolding fn_NetSim_Update_ARP_Table_ForwardPacket_def Let_def
  by (intro arp_wp; (rule E)?; auto simp: kept_from_def w E intro: arp_trueD(3) [OF w])

text \<open>Every event that the protocol handles keeps the truth.\<close>

lemma true_in_event:
  assumes w: "arp_true E w" and p: "pPacket (aev w) = Some p" "apkts w p = Some k"
    and s: "s = GENERATE_ARP_REPLY \<Longrightarrow> \<forall>a. arp_payload k = Some a \<longrightarrow>
        same_ip (ar_tpa a) (DEVICE_NWADDRESS E (nDeviceId (aev w)) (nInterfaceId (aev w)))"
  shows "arp_true E (add_arp_event (upd_aev (nSubEventType_update (\<lambda>_. s)) w))"
proof (rule true_add_event)
  show "event_pid_ok (anext (upd_aev (nSubEventType_update (\<lambda>_. s)) w)) (aev (upd_aev (nSubEventType_update (\<lambda>_. s)) w))"
    using live_event_pid [OF w p] by (simp add: event_pid_ok_def)
qed (use assms in \<open>auto simp: reply_event_ok_def\<close>)

lemma true_network_in:
  assumes E: "arp_network E" and w: "arp_true E w"
  shows "returns_only (do {
           p \<leftarrow> pPacket (aev w);
           k \<leftarrow> apkts w p;
           if nControlDataType k = REQUEST_PACKET
           then do {
             (r, w) \<leftarrow> fn_Netsim_ARP_CheckDestinationDevice E w;
             let w = (if r then add_arp_event (upd_aev (nSubEventType_update (\<lambda>_. GENERATE_ARP_REPLY)) w) else w);
             Some (upd_aev (pPacket_update (\<lambda>_. None)) w) }
           else if nControlDataType k = REPLY_PACKET
           then Some (upd_aev (pPacket_update (\<lambda>_. None))
                  (add_arp_event (upd_aev (nSubEventType_update (\<lambda>_. UPDATE_ARP_TABLE_FWD_PKT)) w)))
           else Some w }) (arp_true E)"
proof (intro ro_bind ro_pPacket ro_apkts, goal_cases)
  case p: (1 p k)
  have "returns_only (do {
             (r, w) \<leftarrow> fn_Netsim_ARP_CheckDestinationDevice E w;
             let w = (if r then add_arp_event (upd_aev (nSubEventType_update (\<lambda>_. GENERATE_ARP_REPLY)) w) else w);
             Some (upd_aev (pPacket_update (\<lambda>_. None)) w) }) (arp_true E)"
    using true_check [OF E w p] true_in_event [OF w p, of GENERATE_ARP_REPLY]
    by (fastforce simp: returns_only_def elim!: bind_SomeE split: if_splits)
  moreover have "arp_true E (add_arp_event (upd_aev (nSubEventType_update (\<lambda>_. UPDATE_ARP_TABLE_FWD_PKT)) w))"
    by (rule true_in_event [OF w p]) (simp add: arp_numbers)
  ultimately show ?case
    using w by (simp add: returns_only_def)
qed

lemma true_run:
  assumes E: "arp_network E" and w: "arp_true E w" and ok: "reply_event_ok E (apkts w) (aev w)"
  shows "returns_only (fn_NetSim_ARP_Run E w) (arp_true E)"
  using true_request [OF E w] true_read [OF w] true_timeout [OF w] true_reply [OF E w ok] true_update [OF E w]
    true_network_in [OF E w] w
  unfolding fn_NetSim_ARP_Run_def by (auto simp: ro_Some split: EVENT_TYPE.split)

section \<open>Runs\<close>

text \<open>
  A run starts with true tables, for instance empty ones, and no packet of the protocol.  Then, in
  any order, an event that a handler added is delivered, an event of another layer arrives for some
  interface, which may not order a reply, or the other layers make, copy, change and free
  packets without writing payloads of the protocol.
\<close>

inductive arp_reach :: "ARP_ENV \<Rightarrow> ARP_WORLD \<Rightarrow> bool" for E where
  start: "(\<And>d i v t. ipVar w d i = Some v \<Longrightarrow> t \<in> set (pstruArpTable v) \<Longrightarrow>
             true_mac E (at_szIPAddress t) (at_szMACAddress t)) \<Longrightarrow>
          (\<And>p k. apkts w p = Some k \<Longrightarrow> p < anext w \<and> arp_payload k = None) \<Longrightarrow>
          aadded w = [] \<Longrightarrow> arp_reach E w"
| own_event: "arp_reach E w \<Longrightarrow> e \<in> set (aadded w) \<Longrightarrow> fn_NetSim_ARP_Run E (w\<lparr>aev := e\<rparr>) = Some w' \<Longrightarrow>
          arp_reach E w'"
| arrival: "arp_reach E w \<Longrightarrow> nSubEventType e \<noteq> GENERATE_ARP_REPLY \<Longrightarrow>
          fn_NetSim_ARP_Run E (w\<lparr>aev := e\<rparr>) = Some w' \<Longrightarrow> arp_reach E w'"
| layers: "arp_reach E w \<Longrightarrow> anext w \<le> n \<Longrightarrow>
          (\<And>p k. pk p = Some k \<Longrightarrow> p < anext w \<Longrightarrow> \<exists>k0. apkts w p = Some k0 \<and> arp_payload k = arp_payload k0) \<Longrightarrow>
          (\<And>p k. pk p = Some k \<Longrightarrow> \<not> p < anext w \<Longrightarrow>
             p < n \<and> (arp_payload k = None \<or> (\<exists>q k0. apkts w q = Some k0 \<and> arp_payload k = arp_payload k0))) \<Longrightarrow>
          arp_reach E (w\<lparr>apkts := pk, anext := n, accessBuffer := ab\<rparr>)"

lemma true_other_event: "arp_true E (w\<lparr>aev := e\<rparr>) = arp_true E w"
  by (simp add: arp_true_def)

lemma true_layers:
  assumes w: "arp_true E w" and n: "anext w \<le> n"
    and old: "\<And>p k. pk p = Some k \<Longrightarrow> p < anext w \<Longrightarrow> \<exists>k0. apkts w p = Some k0 \<and> arp_payload k = arp_payload k0"
    and new: "\<And>p k. pk p = Some k \<Longrightarrow> \<not> p < anext w \<Longrightarrow>
             p < n \<and> (arp_payload k = None \<or> (\<exists>q k0. apkts w q = Some k0 \<and> arp_payload k = arp_payload k0))"
  shows "arp_true E (w\<lparr>apkts := pk, anext := n, accessBuffer := ab\<rparr>)"
proof -
  have "p < n \<and> (\<forall>a. arp_payload k = Some a \<longrightarrow> payload_true E a)" if k: "pk p = Some k" for p k
  proof (cases "p < anext w")
    case True
    with old [OF k] n show ?thesis using arp_trueD(3) [OF w] by auto
  next
    case False
    with new [OF k] show ?thesis using arp_trueD(3) [OF w] by auto
  qed
  moreover have "event_pid_ok n e" if e: "e \<in> set (aadded w)" for e
    using arp_trueD(5) [OF w e] n by (auto simp: event_pid_ok_def)
  moreover have "reply_event_ok E pk e" if e: "e \<in> set (aadded w)" for e
    unfolding reply_event_ok_def
  proof (intro impI allI)
    fix p k a
    assume r: "nEventType e = NETWORK_IN_EVENT" "nSubEventType e = GENERATE_ARP_REPLY" "pPacket e = Some p"
      and k: "pk p = Some k" "arp_payload k = Some a"
    have "p < anext w"
      using arp_trueD(5) [OF w e] r(3) by (simp add: event_pid_ok_def)
    with old [OF k(1)] k(2) obtain k0 where "apkts w p = Some k0" "arp_payload k0 = Some a" by auto
    with arp_trueD(4) [OF w e] r show "same_ip (ar_tpa a) (DEVICE_NWADDRESS E (nDeviceId e) (nInterfaceId e))"
      by (simp add: reply_event_ok_def)
  qed
  ultimately show ?thesis
    using w by (simp add: arp_true_def)
qed

lemma arp_reach_true: "arp_network E \<Longrightarrow> arp_reach E w \<Longrightarrow> arp_true E w"
proof (rotate_tac 1, induction rule: arp_reach.induct)
  case (start w)
  then show ?case by (fastforce simp: arp_true_def)
next
  case (own_event w e w')
  then have w: "arp_true E w" by blast
  have "reply_event_ok E (apkts (w\<lparr>aev := e\<rparr>)) (aev (w\<lparr>aev := e\<rparr>))"
    using arp_trueD(4) [OF w own_event.hyps(2)] by simp
  from true_run [OF own_event.prems _ this] w own_event.hyps(3) show ?case
    by (simp add: true_other_event returns_only_def)
next
  case (arrival w e w')
  then have w: "arp_true E w" by blast
  have "reply_event_ok E (apkts (w\<lparr>aev := e\<rparr>)) (aev (w\<lparr>aev := e\<rparr>))"
    using arrival.hyps(2) by (simp add: no_reply_event)
  from true_run [OF arrival.prems _ this] w arrival.hyps(3) show ?case
    by (simp add: true_other_event returns_only_def)
next
  case (layers w n pk ab)
  then show ?case by (intro true_layers) blast+
qed

text \<open>
  C9: In every run, whatever the order of the events of all interfaces and whatever the other
  layers do with packets, the tables tell the truth: an entry for an address carries the link
  address of every interface that has this address.  Requests, replies and the entries learned
  from both never mix up two stations.
\<close>

theorem arp_tables_are_true:
  assumes "arp_network E" "arp_reach E w"
    and "ipVar w d i = Some v" "t \<in> set (pstruArpTable v)"
    and "IP_COMPARE (at_szIPAddress t) (DEVICE_NWADDRESS E d' i') = 0"
  shows "at_szMACAddress t = szMacAddress E d' i'"
  using arp_trueD(1) [OF arp_reach_true [OF assms(1,2)] assms(3,4)] assms(5)
  by (simp add: true_mac_def)

section \<open>An example\<close>

lemma demo_mac_true: "IP_COMPARE (demo_ip a) (demo_ip b) = 0 \<Longrightarrow> demo_mac a = demo_mac b"
  by (simp add: demo_mac_def split: if_splits)

lemma demo_arp_network: "arp_network demo_arp"
  by (auto simp: arp_network_def true_mac_def demo_mac_def split: if_splits)

text \<open>Node 2 hears a request of node 1 for node 3 and enters node 1.\<close>

definition demo_start :: ARP_WORLD where
  "demo_start = demo_arp_world demo_arp_var Map.empty (demo_arp_ev NETWORK_IN_EVENT 0 2 None)"

lemma demo_start_reach: "arp_reach demo_arp demo_start"
  by (rule arp_reach.start) (auto simp: demo_start_def demo_arp_var_def split: if_splits)

text \<open>Node 1 asks for node 3.\<close>

definition demo_asked :: ARP_WORLD where
  "demo_asked = demo_start\<lparr>apkts := [100 \<mapsto> demo_data 3], anext := 101, accessBuffer := \<lambda>d i. demo_access\<rparr>"

lemma demo_asked_reach: "arp_reach demo_arp demo_asked"
  unfolding demo_asked_def
  by (rule arp_reach.layers [OF demo_start_reach]) (auto simp: demo_start_def split: if_splits)

lemma demo_asks:
  "\<exists>w. fn_NetSim_ARP_Run demo_arp (demo_asked\<lparr>aev := demo_arp_ev NETWORK_OUT_EVENT GENERATE_ARP_REQUEST 1 (Some 100)\<rparr>) = Some w
    \<and> apkts w 101 = Some (request_packet demo_arp 1 1 1000 (request_payload demo_arp 1 1 (demo_ip 1) (demo_ip 3)))
    \<and> anext w = 103 \<and> ipVar w 2 1 = Some demo_arp_var"
  by (simp add: demo_asked_def demo_start_def arp_run_defs arp_access_defs demo_arp_var_def c_int_def)

text \<open>Node 2 hears the request: the link has copied it.\<close>

lemma demo_hears:
  assumes "apkts w 103 = Some (request_packet demo_arp 1 1 1000 (request_payload demo_arp 1 1 (demo_ip 1) (demo_ip 3)))"
    and "ipVar w 2 1 = Some demo_arp_var"
  shows "\<exists>w' v. fn_NetSim_ARP_Run demo_arp (w\<lparr>aev := demo_arp_ev NETWORK_IN_EVENT 0 2 (Some 103)\<rparr>) = Some w'
    \<and> ipVar w' 2 1 = Some v \<and> pstruArpTable v = [\<lparr>at_szIPAddress = demo_ip 1, at_szMACAddress = demo_mac 1, at_nType = DYNAMIC\<rparr>]"
proof -
  have "nControlDataType (request_packet demo_arp 1 1 1000 a) = REQUEST_PACKET"
    "arp_payload (request_packet demo_arp 1 1 1000 a) = Some a" for a
    by (simp_all add: request_packet_def Let_def)
  with assms show ?thesis
    by (simp add: arp_run_defs arp_access_defs demo_arp_var_def arp_numbers del: One_nat_def)
qed

lemma demo_learns:
  "\<exists>w v. arp_reach demo_arp w \<and> ipVar w 2 1 = Some v
    \<and> pstruArpTable v = [\<lparr>at_szIPAddress = demo_ip 1, at_szMACAddress = demo_mac 1, at_nType = DYNAMIC\<rparr>]"
proof -
  let ?req = "request_packet demo_arp 1 1 1000 (request_payload demo_arp 1 1 (demo_ip 1) (demo_ip 3))"
  from demo_asks obtain w where w: "fn_NetSim_ARP_Run demo_arp (demo_asked\<lparr>aev :=
        demo_arp_ev NETWORK_OUT_EVENT GENERATE_ARP_REQUEST 1 (Some 100)\<rparr>) = Some w"
      "apkts w 101 = Some ?req" "anext w = 103" "ipVar w 2 1 = Some demo_arp_var"
    by blast
  have r: "arp_reach demo_arp w"
    by (rule arp_reach.arrival [OF demo_asked_reach _ w(1)]) (simp add: arp_numbers)
  let ?w = "w\<lparr>apkts := (apkts w)(103 \<mapsto> ?req), anext := 104, accessBuffer := accessBuffer w\<rparr>"
  have "arp_reach demo_arp ?w"
    by (rule arp_reach.layers [OF r]) (use w in \<open>auto split: if_splits dest: arp_trueD(2) [OF arp_reach_true [OF demo_arp_network r]]\<close>)
  moreover from w have "apkts ?w 103 = Some ?req" "ipVar ?w 2 1 = Some demo_arp_var" by simp_all
  ultimately show ?thesis
    using demo_hears [of ?w] arp_reach.arrival [of demo_arp ?w "demo_arp_ev NETWORK_IN_EVENT 0 2 (Some 103)"]
    by (fastforce simp: arp_numbers)
qed

theorem arp_tables_are_true_witness:
  "\<exists>w v t. arp_reach demo_arp w \<and> ipVar w 2 1 = Some v \<and> t \<in> set (pstruArpTable v)
    \<and> at_szIPAddress t = demo_ip 1 \<and> at_szMACAddress t = szMacAddress demo_arp 1 1"
proof -
  from demo_learns obtain w v where w: "arp_reach demo_arp w" "ipVar w 2 1 = Some v"
    "pstruArpTable v = [\<lparr>at_szIPAddress = demo_ip 1, at_szMACAddress = demo_mac 1, at_nType = DYNAMIC\<rparr>]"
    by blast
  have "at_szMACAddress \<lparr>at_szIPAddress = demo_ip 1, at_szMACAddress = demo_mac 1, at_nType = DYNAMIC\<rparr> =
      szMacAddress demo_arp 1 1"
    by (rule arp_tables_are_true [OF demo_arp_network w(1,2)]) (simp_all add: w(3))
  with w show ?thesis by (intro exI [of _ w] exI [of _ v]) simp
qed

end
