(* ===== verification/Arp_Forward.thy ===== *)
theory Arp_Forward
  imports Arp_Example
begin

text \<open>
  What a reply does: the packets that wait for its sender leave the packet buffer in order, with
  the link addresses filled in.  The entry of the table is lost when the table was empty.
\<close>

section \<open>The access buffer\<close>

text \<open>Adding packets to an access buffer one after the other.\<close>

fun add_list :: "ARP_ENV \<Rightarrow> NetSim_BUFFER \<Rightarrow> BUF_PACKET list \<Rightarrow> NetSim_BUFFER option" where
  "add_list E b [] = Some b"
| "add_list E b (p # ps) = do { b \<leftarrow> AddPacketToList E b p; add_list E b ps }"

text \<open>
  The library function puts every packet into a FIFO buffer: it returns, the buffer stays a FIFO
  buffer and holds a packet.
\<close>

definition fifo_access :: "ARP_ENV \<Rightarrow> bool" where
  "fifo_access E \<longleftrightarrow> (\<forall>b p. nSchedulingType b = SCHEDULING_FIFO \<longrightarrow>
     (\<exists>b'. AddPacketToList E b p = Some b' \<and> nSchedulingType b' = SCHEDULING_FIFO \<and> pstruPacketlist b' \<noteq> Chain []))"

lemma fifo_accessD:
  assumes "fifo_access E" "nSchedulingType b = SCHEDULING_FIFO"
  obtains b' where "AddPacketToList E b p = Some b'" "nSchedulingType b' = SCHEDULING_FIFO"
    "pstruPacketlist b' \<noteq> Chain []"
  using assms unfolding fifo_access_def by blast

lemma fifo_status:
  "nSchedulingType b = SCHEDULING_FIFO \<Longrightarrow>
   fn_NetSim_GetBufferStatus b = Some (pstruPacketlist b \<noteq> Chain [], b)"
  by (simp add: fn_NetSim_GetBufferStatus_def)

text \<open>The event for the link.\<close>

definition mac_event ::
  "ARP_ENV \<Rightarrow> NETSIM_ID \<Rightarrow> NETSIM_ID \<Rightarrow> ARP_NETPKT \<Rightarrow> NetSim_EVENTDETAILS \<Rightarrow> NetSim_EVENTDETAILS" where
  "mac_event E d i k e = e\<lparr>nSubEventType := 0, dPacketSize := nw_dPacketSize k,
     nProtocolId := GetMacProtocol E d i, nEventType := MAC_OUT_EVENT, pPacket := None\<rparr>"

lemma queue_for_mac_fifo:
  assumes "fifo_access E" "nSchedulingType (accessBuffer w d i) = SCHEDULING_FIFO" "apkts w p = Some k"
  shows "\<exists>b. AddPacketToList E (accessBuffer w d i) (as_buf_packet p k) = Some b
    \<and> nSchedulingType b = SCHEDULING_FIFO \<and> pstruPacketlist b \<noteq> Chain []
    \<and> queue_for_mac E d i p fill w = Some
        ((if pstruPacketlist (accessBuffer w d i) = Chain []
          then w\<lparr>aev := mac_event E d i k (fill (aev w)), aadded := aadded w @ [mac_event E d i k (fill (aev w))]\<rparr>
          else w)
         \<lparr>accessBuffer := (accessBuffer w)(d := (accessBuffer w d)(i := b))\<rparr>)"
proof -
  from fifo_accessD [OF assms(1,2), of "as_buf_packet p k"] obtain b where
    "AddPacketToList E (accessBuffer w d i) (as_buf_packet p k) = Some b"
    "nSchedulingType b = SCHEDULING_FIFO" "pstruPacketlist b \<noteq> Chain []" by blast
  with assms show ?thesis
    by (intro exI [of _ b])
       (simp add: queue_for_mac_def fifo_status Let_def add_arp_event_def upd_aev_def mac_event_def)
qed

section \<open>The loop over the buffer\<close>

definition for_ip :: "NETSIM_IPAddress \<Rightarrow> ARP_BUFFER list \<Rightarrow> ARP_BUFFER list" where
  "for_ip ip = filter (\<lambda>b. same_ip (bf_szDestAdd b) ip)"

definition not_for_ip :: "NETSIM_IPAddress \<Rightarrow> ARP_BUFFER list \<Rightarrow> ARP_BUFFER list" where
  "not_for_ip ip = filter (\<lambda>b. \<not> same_ip (bf_szDestAdd b) ip)"

definition with_macs :: "ARP_ENV \<Rightarrow> NETSIM_ID \<Rightarrow> NETSIM_ID \<Rightarrow> MAC_ADDRESS \<Rightarrow> ARP_NETPKT \<Rightarrow> ARP_NETPKT" where
  "with_macs E d i mac k = k\<lparr>szDestMac := Some mac, szSourceMac := Some (szMacAddress E d i)\<rparr>"

lemma as_buf_packet_with_macs [simp]: "as_buf_packet p (with_macs E d i mac k) = as_buf_packet p k"
  by (simp add: as_buf_packet_def with_macs_def)

text \<open>What the loop does to the world.\<close>

definition forwarded ::
  "ARP_ENV \<Rightarrow> NETSIM_ID \<Rightarrow> NETSIM_ID \<Rightarrow> MAC_ADDRESS \<Rightarrow> pid list \<Rightarrow> ARP_VARIABLES \<Rightarrow> ARP_WORLD \<Rightarrow> ARP_WORLD \<Rightarrow> bool" where
  "forwarded E d i mac ps v w w' \<longleftrightarrow>
     ipVar w' = (ipVar w)(d := (ipVar w d)(i \<mapsto>
       arpMetrics_update (nPacketsInBuffer_update (\<lambda>c. c - int (length ps))) v))
   \<and> apkts w' = (\<lambda>p. if p \<in> set ps then map_option (with_macs E d i mac) (apkts w p) else apkts w p)
   \<and> add_list E (accessBuffer w d i) (map (\<lambda>p. as_buf_packet p (the (apkts w p))) ps) = Some (accessBuffer w' d i)
   \<and> (\<exists>es. aadded w' = aadded w @ es \<and> map nEventType es =
        (if ps \<noteq> [] \<and> pstruPacketlist (accessBuffer w d i) = Chain [] then [MAC_OUT_EVENT] else []))"

lemma no_packets_left: "arpMetrics_update (nPacketsInBuffer_update (\<lambda>c. c)) v = v"
  by (cases v; cases "arpMetrics v") simp

lemma forward_loop_spec:
  "fifo_access E \<Longrightarrow> nSchedulingType (accessBuffer w d i) = SCHEDULING_FIFO \<Longrightarrow> ipVar w d i = Some v \<Longrightarrow>
   distinct (map bf_pstruPacket bs) \<Longrightarrow> \<forall>b \<in> set bs. apkts w (bf_pstruPacket b) \<noteq> None \<Longrightarrow>
   \<exists>w'. forward_loop E d i ip mac bs w = Some (not_for_ip ip bs, w')
     \<and> forwarded E d i mac (map bf_pstruPacket (for_ip ip bs)) v w w'"
proof (induction bs arbitrary: w v)
  case Nil
  then show ?case
    by (auto simp: not_for_ip_def for_ip_def forwarded_def fun_upd_idem no_packets_left)
next
  case (Cons b bs)
  show ?case
  proof (cases "same_ip (bf_szDestAdd b) ip")
    case False
    from Cons.IH [OF Cons.prems(1-3)] Cons.prems(4,5) obtain w' where
      "forward_loop E d i ip mac bs w = Some (not_for_ip ip bs, w')"
      "forwarded E d i mac (map bf_pstruPacket (for_ip ip bs)) v w w'"
      by auto
    with False show ?thesis
      by (simp add: not_for_ip_def for_ip_def)
  next
    case True
    define p where "p = bf_pstruPacket b"
    obtain k where k: "apkts w p = Some k"
      using Cons.prems(5) by (auto simp: p_def)
    define v1 where "v1 = arpMetrics_update (nPacketsInBuffer_update (\<lambda>c. c - 1)) v"
    define w1 where "w1 = w\<lparr>ipVar := (ipVar w)(d := (ipVar w d)(i \<mapsto> v1)),
      apkts := (apkts w)(p \<mapsto> with_macs E d i mac k)\<rparr>"
    have w1: "do { w \<leftarrow> upd_arp_metrics d i (nPacketsInBuffer_update (\<lambda>n. n - 1)) w;
         upd_apkt p (\<lambda>k. k\<lparr>szDestMac := Some mac, szSourceMac := Some (szMacAddress E d i)\<rparr>) w } = Some w1"
      using Cons.prems(3) k by (simp add: upd_arp_metrics_def upd_var_def upd_apkt_def w1_def v1_def with_macs_def)
    have fifo1: "nSchedulingType (accessBuffer w1 d i) = SCHEDULING_FIFO"
      using Cons.prems(2) by (simp add: w1_def)
    have k1: "apkts w1 p = Some (with_macs E d i mac k)"
      by (simp add: w1_def)
    from queue_for_mac_fifo [OF Cons.prems(1) fifo1 k1, of "forward_fill (with_macs E d i mac k) i"] obtain buf where
      buf: "AddPacketToList E (accessBuffer w1 d i) (as_buf_packet p (with_macs E d i mac k)) = Some buf"
        "nSchedulingType buf = SCHEDULING_FIFO" "pstruPacketlist buf \<noteq> Chain []" and
      q: "queue_for_mac E d i p (forward_fill (with_macs E d i mac k) i) w1 = Some
        ((if pstruPacketlist (accessBuffer w1 d i) = Chain []
          then w1\<lparr>aev := mac_event E d i (with_macs E d i mac k) (forward_fill (with_macs E d i mac k) i (aev w1)),
                  aadded := aadded w1 @ [mac_event E d i (with_macs E d i mac k) (forward_fill (with_macs E d i mac k) i (aev w1))]\<rparr>
          else w1)
         \<lparr>accessBuffer := (accessBuffer w1)(d := (accessBuffer w1 d)(i := buf))\<rparr>)"
      by blast
    define w2 where "w2 = (if pstruPacketlist (accessBuffer w1 d i) = Chain []
          then w1\<lparr>aev := mac_event E d i (with_macs E d i mac k) (forward_fill (with_macs E d i mac k) i (aev w1)),
                  aadded := aadded w1 @ [mac_event E d i (with_macs E d i mac k) (forward_fill (with_macs E d i mac k) i (aev w1))]\<rparr>
          else w1)
         \<lparr>accessBuffer := (accessBuffer w1)(d := (accessBuffer w1 d)(i := buf))\<rparr>"
    have w2: "ipVar w2 = ipVar w1" "apkts w2 = apkts w1" "accessBuffer w2 d i = buf"
      "\<exists>es. aadded w2 = aadded w @ es \<and> map nEventType es =
         (if pstruPacketlist (accessBuffer w d i) = Chain [] then [MAC_OUT_EVENT] else [])"
      by (auto simp: w2_def w1_def mac_event_def)
    have loop: "forward_loop E d i ip mac (b # bs) w = forward_loop E d i ip mac bs w2"
      using True w1 k1 q Cons.prems(3) k
      by (simp add: w2_def flip: p_def) (simp add: upd_arp_metrics_def upd_var_def upd_apkt_def w1_def v1_def with_macs_def)
    have fifo2: "nSchedulingType (accessBuffer w2 d i) = SCHEDULING_FIFO"
      using buf w2 by simp
    have v2: "ipVar w2 d i = Some v1"
      using w2 by (simp add: w1_def)
    have live: "\<forall>b \<in> set bs. apkts w2 (bf_pstruPacket b) \<noteq> None"
      using Cons.prems(5) w2 by (auto simp: w1_def)
    from Cons.IH [OF Cons.prems(1) fifo2 v2 _ live] Cons.prems(4) obtain w' where
      w': "forward_loop E d i ip mac bs w2 = Some (not_for_ip ip bs, w')"
        "forwarded E d i mac (map bf_pstruPacket (for_ip ip bs)) v1 w2 w'"
      by auto
    have notin: "p \<notin> bf_pstruPacket ` set (for_ip ip bs)"
      using Cons.prems(4) by (auto simp: p_def for_ip_def)
    have "forwarded E d i mac (p # map bf_pstruPacket (for_ip ip bs)) v w w'"
      unfolding forwarded_def
    proof (intro conjI)
      show "ipVar w' = (ipVar w)(d := (ipVar w d)(i \<mapsto>
          arpMetrics_update (nPacketsInBuffer_update (\<lambda>c. c - int (length (p # map bf_pstruPacket (for_ip ip bs))))) v))"
        using w'(2) w2(1) by (simp add: forwarded_def w1_def v1_def o_def algebra_simps)
      show "apkts w' = (\<lambda>q. if q \<in> set (p # map bf_pstruPacket (for_ip ip bs))
          then map_option (with_macs E d i mac) (apkts w q) else apkts w q)"
        using w'(2) w2(2) notin k by (auto simp: forwarded_def w1_def fun_eq_iff)
      have same: "map (\<lambda>q. as_buf_packet q (the (apkts w2 q))) (map bf_pstruPacket (for_ip ip bs)) =
          map (\<lambda>q. as_buf_packet q (the (apkts w q))) (map bf_pstruPacket (for_ip ip bs))"
        using notin w2(2) by (auto simp: w1_def)
      have "add_list E buf (map (\<lambda>q. as_buf_packet q (the (apkts w q))) (map bf_pstruPacket (for_ip ip bs))) =
          Some (accessBuffer w' d i)"
        using w'(2) unfolding forwarded_def w2(3) same by blast
      then show "add_list E (accessBuffer w d i) (map (\<lambda>q. as_buf_packet q (the (apkts w q)))
          (p # map bf_pstruPacket (for_ip ip bs))) = Some (accessBuffer w' d i)"
        using buf(1) k by (simp add: w1_def)
      from w'(2) buf(3) w2(3) have "aadded w' = aadded w2"
        by (auto simp: forwarded_def)
      with w2(4) show "\<exists>es. aadded w' = aadded w @ es \<and> map nEventType es =
          (if p # map bf_pstruPacket (for_ip ip bs) \<noteq> [] \<and> pstruPacketlist (accessBuffer w d i) = Chain []
           then [MAC_OUT_EVENT] else [])"
        by auto
    qed
    with loop w'(1) True show ?thesis
      by (simp add: not_for_ip_def for_ip_def p_def)
  qed
qed

section \<open>A reply\<close>

text \<open>The arrays have a place for the sender, the packets that wait are there, each once.\<close>

definition reply_ready ::
  "ARP_ENV \<Rightarrow> ARP_WORLD \<Rightarrow> ARP_VARIABLES \<Rightarrow> pid \<Rightarrow> ARP_NETPKT \<Rightarrow> ARP_PACKET \<Rightarrow> bool" where
  "reply_ready E w v p k a \<longleftrightarrow>
     ipVar w (nDeviceId (aev w)) (nInterfaceId (aev w)) = Some v
   \<and> pPacket (aev w) = Some p \<and> apkts w p = Some k \<and> arp_payload k = Some a
   \<and> nSourceId k < length (pnArpRequestFlag v) \<and> nSourceId k < length (pnArpReplyFlag v)
   \<and> distinct (p # map bf_pstruPacket (pstruPacketBuffer v))
   \<and> (\<forall>b \<in> set (pstruPacketBuffer v). apkts w (bf_pstruPacket b) \<noteq> None)
   \<and> nSchedulingType (accessBuffer w (nDeviceId (aev w)) (nInterfaceId (aev w))) = SCHEDULING_FIFO
   \<and> fifo_access E"

text \<open>The entry that stays in the table of the interface.\<close>

definition table_after_reply :: "ARP_ENV \<Rightarrow> ARP_TABLE list \<Rightarrow> ARP_PACKET \<Rightarrow> ARP_TABLE list" where
  "table_after_reply E ts a = (if ts = [] then [] else snd (ARP_ADD_ENTRY E ts (ar_spa a) (ar_sha a) DYNAMIC))"

lemma update_forwards:
  assumes ready: "reply_ready E w v p k a"
  defines "d \<equiv> nDeviceId (aev w)" and "i \<equiv> nInterfaceId (aev w)"
    and "ps \<equiv> map bf_pstruPacket (for_ip (ar_spa a) (pstruPacketBuffer v))"
  shows "\<exists>w' v'. fn_NetSim_Update_ARP_Table_ForwardPacket E w = Some w' \<and> ipVar w' d i = Some v'
    \<and> pstruArpTable v' = table_after_reply E (pstruArpTable v) a
    \<and> pstruPacketBuffer v' = not_for_ip (ar_spa a) (pstruPacketBuffer v)
    \<and> nPacketsInBuffer (arpMetrics v') = nPacketsInBuffer (arpMetrics v) - int (length ps)
    \<and> pnArpRequestFlag v' ! nSourceId k = 0
    \<and> pnArpRetryCount v' = pnArpRetryCount v \<and> nArpRetryLimit v' = nArpRetryLimit v
    \<and> length (pnArpRequestFlag v') = length (pnArpRequestFlag v)
    \<and> apkts w' = (\<lambda>q. if q \<in> set ps then map_option (with_macs E d i (ar_sha a)) (apkts w q)
                  else if q = p then None else apkts w q)
    \<and> add_list E (accessBuffer w d i) (map (\<lambda>q. as_buf_packet q (the (apkts w q))) ps) = Some (accessBuffer w' d i)
    \<and> (\<exists>es. aadded w' = aadded w @ es \<and> map nEventType es =
        (if ps \<noteq> [] \<and> pstruPacketlist (accessBuffer w d i) = Chain [] then [MAC_OUT_EVENT] else []))"
proof -
  note r = ready [unfolded reply_ready_def, folded d_def i_def]
  define v1 where "v1 = v\<lparr>pstruArpTable := table_after_reply E (pstruArpTable v) a\<rparr>"
  define w1 where "w1 = w\<lparr>ipVar := (ipVar w)(d := (ipVar w d)(i \<mapsto> v1))\<rparr>"
  have "upd_var d i (pstruArpTable_update (\<lambda>_. table_after_reply E (pstruArpTable v) a)) w = Some w1"
    using r by (simp add: upd_var_def w1_def v1_def)
  moreover from forward_loop_spec [of E w1 d i v1 "pstruPacketBuffer v" "ar_spa a" "ar_sha a"] r obtain w2 where
    l: "forward_loop E d i (ar_spa a) (ar_sha a) (pstruPacketBuffer v) w1 =
        Some (not_for_ip (ar_spa a) (pstruPacketBuffer v), w2)"
      "forwarded E d i (ar_sha a) ps v1 w1 w2"
    by (auto simp: w1_def ps_def)
  have notin: "p \<notin> set ps"
    using r by (auto simp: ps_def for_ip_def)
  define v2 where "v2 = arpMetrics_update (nPacketsInBuffer_update (\<lambda>c. c - int (length ps))) v1"
  have w2: "ipVar w2 d i = Some v2" "apkts w2 p = Some k" "aev w1 = aev w"
    using l(2) r notin by (simp_all add: forwarded_def v2_def w1_def)
  define v3 where "v3 = arpMetrics_update (nArpReplyReceivedCount_update (\<lambda>c. c + 1))
    (v2\<lparr>pstruPacketBuffer := not_for_ip (ar_spa a) (pstruPacketBuffer v),
     pnArpReplyFlag := (pnArpReplyFlag v)[nSourceId k := 1],
     pnArpRequestFlag := (pnArpRequestFlag v)[nSourceId k := 0]\<rparr>)"
  define w3 where "w3 = w2\<lparr>ipVar := (ipVar w2)(d := (ipVar w2 d)(i \<mapsto> v3)), apkts := (apkts w2)(p := None),
     aev := (aev w2)\<lparr>pPacket := None\<rparr>\<rparr>"
  have flags: "pnArpReplyFlag v2 = pnArpReplyFlag v" "pnArpRequestFlag v2 = pnArpRequestFlag v"
    by (simp_all add: v2_def v1_def)
  ultimately have "fn_NetSim_Update_ARP_Table_ForwardPacket E w = Some w3"
    using r l(1) w2 flags
    by (simp add: fn_NetSim_Update_ARP_Table_ForwardPacket_def Let_def table_after_reply_def upd_var_def
        set_reply_flag_def set_request_flag_def arr_set_def upd_arp_metrics_def free_apkt_def upd_aev_def
        flip: d_def i_def)
       (simp add: w3_def v3_def)
  moreover have "ipVar w3 d i = Some v3"
    by (simp add: w3_def)
  moreover have "apkts w3 = (\<lambda>q. if q \<in> set ps then map_option (with_macs E d i (ar_sha a)) (apkts w q)
                  else if q = p then None else apkts w q)"
    using l(2) notin by (auto simp: w3_def forwarded_def w1_def fun_eq_iff)
  moreover have "add_list E (accessBuffer w d i) (map (\<lambda>q. as_buf_packet q (the (apkts w q))) ps) =
      Some (accessBuffer w3 d i)"
    using l(2) by (simp add: w3_def forwarded_def w1_def)
  moreover have "\<exists>es. aadded w3 = aadded w @ es \<and> map nEventType es =
        (if ps \<noteq> [] \<and> pstruPacketlist (accessBuffer w d i) = Chain [] then [MAC_OUT_EVENT] else [])"
    using l(2) by (simp add: w3_def forwarded_def w1_def)
  ultimately show ?thesis
    using r by (intro exI [of _ w3] exI [of _ v3]) (simp add: v3_def v2_def v1_def)
qed

text \<open>
  A reply releases the packets that wait for its sender: exactly they leave the packet buffer
  and join the access buffer of the interface, in the order in which they waited, each with the
  link address of the sender as destination and the own one as source; the others stay, the
  counter of waiting packets is reduced by their number, a new request becomes possible, and the
  link is told once when its buffer was empty.
\<close>

theorem arp_reply_forwards:
  assumes "reply_ready E w v p k a"
    and "d = nDeviceId (aev w)" "i = nInterfaceId (aev w)"
    and "ps = map bf_pstruPacket (filter (\<lambda>b. IP_COMPARE (bf_szDestAdd b) (ar_spa a) = 0) (pstruPacketBuffer v))"
  shows "\<exists>w' v'. fn_NetSim_Update_ARP_Table_ForwardPacket E w = Some w' \<and> ipVar w' d i = Some v'
    \<and> pstruPacketBuffer v' = filter (\<lambda>b. IP_COMPARE (bf_szDestAdd b) (ar_spa a) \<noteq> 0) (pstruPacketBuffer v)
    \<and> nPacketsInBuffer (arpMetrics v') = nPacketsInBuffer (arpMetrics v) - int (length ps)
    \<and> pnArpRequestFlag v' ! nSourceId k = 0
    \<and> add_list E (accessBuffer w d i) (map (\<lambda>q. as_buf_packet q (the (apkts w q))) ps) = Some (accessBuffer w' d i)
    \<and> (\<forall>q \<in> set ps. \<exists>x. apkts w q = Some x \<and> apkts w' q =
         Some (x\<lparr>szDestMac := Some (ar_sha a), szSourceMac := Some (szMacAddress E d i)\<rparr>))
    \<and> (\<exists>es. aadded w' = aadded w @ es \<and> map nEventType es =
        (if ps \<noteq> [] \<and> pstruPacketlist (accessBuffer w d i) = Chain [] then [MAC_OUT_EVENT] else []))"
proof -
  have ps: "ps = map bf_pstruPacket (for_ip (ar_spa a) (pstruPacketBuffer v))"
    using assms(4) by (simp add: for_ip_def)
  from update_forwards [OF assms(1), folded assms(2,3), folded ps] obtain w' v' where
    u: "fn_NetSim_Update_ARP_Table_ForwardPacket E w = Some w'" "ipVar w' d i = Some v'"
      "pstruPacketBuffer v' = not_for_ip (ar_spa a) (pstruPacketBuffer v)"
      "nPacketsInBuffer (arpMetrics v') = nPacketsInBuffer (arpMetrics v) - int (length ps)"
      "pnArpRequestFlag v' ! nSourceId k = 0"
      "apkts w' = (\<lambda>q. if q \<in> set ps then map_option (with_macs E d i (ar_sha a)) (apkts w q)
                  else if q = p then None else apkts w q)"
      "add_list E (accessBuffer w d i) (map (\<lambda>q. as_buf_packet q (the (apkts w q))) ps) = Some (accessBuffer w' d i)"
      "\<exists>es. aadded w' = aadded w @ es \<and> map nEventType es =
        (if ps \<noteq> [] \<and> pstruPacketlist (accessBuffer w d i) = Chain [] then [MAC_OUT_EVENT] else [])"
    by blast
  have "\<forall>q \<in> set ps. \<exists>x. apkts w q = Some x \<and> apkts w' q =
         Some (x\<lparr>szDestMac := Some (ar_sha a), szSourceMac := Some (szMacAddress E d i)\<rparr>)"
  proof
    fix q assume q: "q \<in> set ps"
    then obtain x where "apkts w q = Some x"
      using assms(1) by (auto simp: ps reply_ready_def for_ip_def)
    with u(6) q show "\<exists>x. apkts w q = Some x \<and> apkts w' q =
         Some (x\<lparr>szDestMac := Some (ar_sha a), szSourceMac := Some (szMacAddress E d i)\<rparr>)"
      by (simp add: with_macs_def)
  qed
  with u show ?thesis
    by (intro exI [of _ w'] exI [of _ v']) (simp add: not_for_ip_def)
qed

section \<open>What is lost\<close>

text \<open>Packets that find no entry wait.\<close>

lemma read_without_entry:
  assumes "pPacket (aev w) = Some q" "apkts w q = Some x" "szNextHopIp x = Some ip"
    and "\<not> isBroadcastIP E ip" "\<not> isMulticastIP E ip"
    and "ipVar w (nDeviceId (aev w)) (nInterfaceId (aev w)) = Some v" "pstruArpTable v = []"
    and "nReceiverId x < length (pnArpRequestFlag v)"
  shows "\<exists>w' v'. fn_NetSim_Read_ARP_Table E w = Some w' \<and> accessBuffer w' = accessBuffer w \<and> apkts w' = apkts w
    \<and> ipVar w' (nDeviceId (aev w)) (nInterfaceId (aev w)) = Some v'
    \<and> pstruPacketBuffer v' = ARP_BUFFER_ADD E (pstruPacketBuffer v) q ip (nInterfaceId (aev w))"
  using assms
  by (simp add: fn_NetSim_Read_ARP_Table_def Let_def arr_get_def buffer_packet_def upd_arp_metrics_def upd_var_def
      set_request_flag_def arr_set_def add_arp_event_def upd_aev_def)

text \<open>
  The first reply of an interface is forgotten.  The entry goes into a list whose head is a
  local variable, so a table that was empty is empty after the reply, and the next packet for the
  same address, whose resolution has just been answered, is not sent: it waits in the packet
  buffer again and the access buffer does not change.
\<close>

theorem first_reply_is_forgotten:
  assumes "reply_ready E w v p k a" "pstruArpTable v = []"
    and "d = nDeviceId (aev w)" "i = nInterfaceId (aev w)"
    and "\<not> isBroadcastIP E (ar_spa a)" "\<not> isMulticastIP E (ar_spa a)"
    and "apkts w q = Some x" "q \<noteq> p" "szNextHopIp x = Some (ar_spa a)" "nReceiverId x < length (pnArpRequestFlag v)"
    and "nDeviceId e = d" "nInterfaceId e = i" "pPacket e = Some q"
  shows "\<exists>w1 w2 v1 v2. fn_NetSim_Update_ARP_Table_ForwardPacket E w = Some w1 \<and> ipVar w1 d i = Some v1
    \<and> pstruArpTable v1 = [] \<and> fn_NetSim_Read_ARP_Table E (w1\<lparr>aev := e\<rparr>) = Some w2 \<and> ipVar w2 d i = Some v2
    \<and> pstruPacketBuffer v2 = ARP_BUFFER_ADD E (pstruPacketBuffer v1) q (ar_spa a) i
    \<and> accessBuffer w2 = accessBuffer w1"
proof -
  from update_forwards [OF assms(1), folded assms(3,4)] obtain w1 v1 where
    u: "fn_NetSim_Update_ARP_Table_ForwardPacket E w = Some w1" "ipVar w1 d i = Some v1"
      "pstruArpTable v1 = table_after_reply E (pstruArpTable v) a"
      "length (pnArpRequestFlag v1) = length (pnArpRequestFlag v)"
      "apkts w1 = (\<lambda>q. if q \<in> set (map bf_pstruPacket (for_ip (ar_spa a) (pstruPacketBuffer v)))
                  then map_option (with_macs E d i (ar_sha a)) (apkts w q)
                  else if q = p then None else apkts w q)"
    by blast
  have t: "pstruArpTable v1 = []"
    using u(3) assms(2) by (simp add: table_after_reply_def)
  have "\<exists>y. apkts w1 q = Some y \<and> szNextHopIp y = Some (ar_spa a) \<and> nReceiverId y = nReceiverId x"
    using u(5) assms(7-9) by (cases "q \<in> set (map bf_pstruPacket (for_ip (ar_spa a) (pstruPacketBuffer v)))")
      (simp_all add: with_macs_def)
  then obtain y where y: "apkts w1 q = Some y" "szNextHopIp y = Some (ar_spa a)" "nReceiverId y = nReceiverId x"
    by blast
  have "\<exists>w2 v2. fn_NetSim_Read_ARP_Table E (w1\<lparr>aev := e\<rparr>) = Some w2 \<and> accessBuffer w2 = accessBuffer w1
      \<and> ipVar w2 d i = Some v2 \<and> pstruPacketBuffer v2 = ARP_BUFFER_ADD E (pstruPacketBuffer v1) q (ar_spa a) i"
    using read_without_entry [of "w1\<lparr>aev := e\<rparr>" q y "ar_spa a" E v1] y u(2,4) t assms(5,6,10-13) by auto
  with u t show ?thesis by blast
qed

text \<open>
  C36: A request is never repeated.  When the timer of a request expires without an entry and below
  the retry limit, the handler asks for a new request in an event that keeps the type of the
  timer; the dispatch knows this order only under the network event and drops it: nothing is
  sent, the retry count stays, and the packets that wait are neither sent nor given up.
\<close>

theorem arp_retry_is_lost:
  assumes "nEventType (aev w) = TIMER_EVENT" "nSubEventType (aev w) = ARP_REQUEST_TIMEOUT"
    and "d = nDeviceId (aev w)" "i = nInterfaceId (aev w)"
    and "pPacket (aev w) = Some p" "apkts w p = Some k" "szNextHopIp k = Some ip"
    and "ipVar w d i = Some v" "\<forall>t \<in> set (pstruArpTable v). IP_COMPARE (at_szIPAddress t) ip \<noteq> 0"
    and "n = GetDeviceId_asIP E ip" "n < length (pnArpRetryCount v)" "n < length (pnArpRequestFlag v)"
    and "pnArpRetryCount v ! n < nArpRetryLimit v"
  shows "\<exists>w' e v'. fn_NetSim_ARP_Run E w = Some w' \<and> aadded w' = aadded w @ [e]
    \<and> nSubEventType e = GENERATE_ARP_REQUEST \<and> pPacket e = Some p
    \<and> (\<forall>u. fn_NetSim_ARP_Run E (u\<lparr>aev := e\<rparr>) = Some (u\<lparr>aev := e\<rparr>))
    \<and> ipVar w' d i = Some v' \<and> pnArpRetryCount v' = pnArpRetryCount v \<and> pstruPacketBuffer v' = pstruPacketBuffer v
    \<and> accessBuffer w' = accessBuffer w"
proof -
  have none: "\<not> (\<exists>t \<in> set (pstruArpTable v). same_ip (at_szIPAddress t) ip)"
    using assms(9) by blast
  show ?thesis
    using assms none
    by (simp add: fn_NetSim_ARP_Run_def fn_NetSim_ARP_Request_Timeout_def Let_def arr_get_def arr_set_def
        set_request_flag_def upd_var_def add_arp_event_def upd_aev_def arp_numbers)
qed

section \<open>An example\<close>

text \<open>Node 1 has two packets for node 3 and one for node 2 when the reply of node 3 arrives.\<close>

definition demo_waiting :: "pid \<Rightarrow> NETSIM_ID \<Rightarrow> ARP_BUFFER" where
  "demo_waiting p d = \<lparr>bf_szDestAdd = demo_ip d, bf_nBufferInterfaceID = 1, bf_pstruPacket = p\<rparr>"

definition demo_waits :: ARP_VARIABLES where
  "demo_waits = demo_arp_var\<lparr>pstruPacketBuffer := [demo_waiting 4 3, demo_waiting 5 2, demo_waiting 6 3],
     pnArpRequestFlag := [0, 0, 1, 1], pnArpRetryCount := [0, 0, 1, 1]\<rparr>"

definition demo_answered :: ARP_WORLD where
  "demo_answered = demo_arp_world demo_waits
     [4 \<mapsto> demo_data 3, 5 \<mapsto> demo_data 2, 6 \<mapsto> demo_data 3, 7 \<mapsto> demo_data 3, 8 \<mapsto> demo_reply 1 3]
     (demo_arp_ev NETWORK_IN_EVENT UPDATE_ARP_TABLE_FWD_PKT 1 (Some 8))"

lemma demo_fifo_access: "fifo_access demo_arp"
  by (simp add: fifo_access_def split: PACKETLIST.split)

lemma demo_answered_ready:
  "reply_ready demo_arp demo_answered demo_waits 8 (demo_reply 1 3)
     (reply_payload demo_arp 3 1 (request_payload demo_arp 1 1 (demo_ip 1) (demo_ip 3)))"
  by (simp add: reply_ready_def demo_answered_def demo_fifo_access demo_waits_def demo_arp_var_def demo_waiting_def)

theorem arp_reply_forwards_witness:
  "\<exists>w' v'. fn_NetSim_Update_ARP_Table_ForwardPacket demo_arp demo_answered = Some w' \<and> ipVar w' 1 1 = Some v'
    \<and> pstruPacketBuffer v' = [demo_waiting 5 2] \<and> nPacketsInBuffer (arpMetrics v') = - 2
    \<and> (\<exists>x. apkts w' 6 = Some x \<and> szDestMac x = Some 3)"
proof -
  have m: "demo_mac 3 = 3" by (simp add: demo_mac_def)
  show ?thesis
    using arp_reply_forwards [OF demo_answered_ready refl refl refl]
    by (auto simp: demo_answered_def demo_waits_def demo_arp_var_def demo_waiting_def m)
qed

theorem first_reply_is_forgotten_witness:
  "\<exists>w1 w2 v2. fn_NetSim_Update_ARP_Table_ForwardPacket demo_arp demo_answered = Some w1
    \<and> fn_NetSim_Read_ARP_Table demo_arp (w1\<lparr>aev := demo_arp_ev NETWORK_OUT_EVENT 0 1 (Some 7)\<rparr>) = Some w2
    \<and> ipVar w2 1 1 = Some v2 \<and> demo_waiting 7 3 \<in> set (pstruPacketBuffer v2)"
proof -
  have "nDeviceId (aev demo_answered) = 1" "nInterfaceId (aev demo_answered) = 1"
    by (simp_all add: demo_answered_def)
  then show ?thesis
    using first_reply_is_forgotten [OF demo_answered_ready _ refl refl, of 7 "demo_data 3"
        "demo_arp_ev NETWORK_OUT_EVENT 0 1 (Some 7)"]
    by (fastforce simp: demo_answered_def demo_waits_def demo_arp_var_def demo_waiting_def demo_ip_def mk_ip4_def)
qed

definition demo_expired :: ARP_WORLD where
  "demo_expired = demo_answered\<lparr>aev := demo_arp_ev TIMER_EVENT ARP_REQUEST_TIMEOUT 1 (Some 7)\<rparr>"

theorem arp_retry_is_lost_witness:
  "\<exists>w' e. fn_NetSim_ARP_Run demo_arp demo_expired = Some w' \<and> aadded w' = [e] \<and> nSubEventType e = GENERATE_ARP_REQUEST
    \<and> fn_NetSim_ARP_Run demo_arp (w'\<lparr>aev := e\<rparr>) = Some (w'\<lparr>aev := e\<rparr>)"
  using arp_retry_is_lost [of demo_expired 1 1 7 "demo_data 3" "demo_ip 3" demo_waits 3 demo_arp]
  by (fastforce simp: demo_expired_def demo_answered_def demo_waits_def demo_arp_var_def demo_ip_def mk_ip4_def)

end
