(* ===== verification/Eth_Types.thy ===== *)
theory Eth_Types
  imports Netsim_World Netsim_Buffer Netsim_IP
begin

text \<open>
  Ethernet (\<open>Ethernet/Ethernet.h\<close>): LANs and their interfaces, the spanning tree, the switch
  table, frames and the state of a call.

  A frame has one owner, the event or the buffer that holds it, and is a value; a frame in a
  buffer (theory \<open>Netsim_Buffer\<close>) is addressed by the handle of its entry.  Functions of
  \<open>Ethernet.lib\<close> and of the network stack, which have no sources, are fields of \<open>ETH_ENV\<close>.
\<close>

section \<open>Frames\<close>

type_synonym u16 = "16 word"
type_synonym u64 = "64 word"

record NETSIM_MACADDRESS =
  nmacaddress :: u64
  szmacaddress :: string

record ETH_BPDU =
  protocolIdentifier :: u16
  protocolVersionIdentifier :: u8
  bpduType :: u8
  bpdu_flags :: u8
  bpdu_rootId :: "string option"
  bpdu_rootPathCost :: u32
  bridgeId :: "string option"
  portId :: u16
  msgAge :: u16
  maxAge :: u16
  helloTime :: u16
  forwardDelay :: u16

record IEEE801_1Q_TAG =
  TPId :: u16
  PCP :: nat
  DEI :: nat
  VID :: "12 word"

text \<open>What the header of a frame points to.\<close>

datatype ETH_HDR_VAR = CBPDU ETH_BPDU | VTAG IEEE801_1Q_TAG

definition MAC_PROTOCOL_IEEE802_3 :: nat where "MAC_PROTOCOL_IEEE802_3 = 204"
definition ETH_CONFIGBPDU :: nat where "ETH_CONFIGBPDU = MAC_PROTOCOL_IEEE802_3 * 100 + 1"
definition SEND_CONFIG_BPDU :: nat where "SEND_CONFIG_BPDU = MAC_PROTOCOL_IEEE802_3 * 100"
definition ETH_IF_UP :: nat where "ETH_IF_UP = SEND_CONFIG_BPDU + 2"
definition ETH_BPDU_LEN :: real where "ETH_BPDU_LEN = 60"
definition IEEE801_1Q_TAG_LEN :: real where "IEEE801_1Q_TAG_LEN = 4"
definition VLAN_TPID :: u16 where "VLAN_TPID = 0x8100"
definition ETHERNET_FRAME_HEADER_LEN :: real where "ETHERNET_FRAME_HEADER_LEN = 26"
definition SWITCH :: nat where "SWITCH = 2"

lemmas eth_numbers = MAC_PROTOCOL_IEEE802_3_def ETH_CONFIGBPDU_def SEND_CONFIG_BPDU_def ETH_IF_UP_def

datatype PACKET_STATUS =
  PacketStatus_NoError | PacketStatus_Error | PacketStatus_Collided | PacketStatus_Buffer_Dropped
| PacketStatus_TTL_Expired | PacketStatus_Dropped

datatype PHY_MEDIUM = PHY_MEDIUM_NULL | PHY_MEDIUM_WIRELESS | PHY_MEDIUM_WIRED

text \<open>
  What the network and transport layers add to a packet: the ports, and the headers of ICMP, of which
  the data of an echo is the number of a ping and an unreachable message holds the packet that failed.
\<close>

record TX_HDR =
  tx_dPacketSize :: real
  nSourcePort :: u16
  nDestinationPort :: u16

record ICMP_ECHO =
  echo_Type :: nat
  SequenceNumber :: u16
  echo_Data :: "nat option"

record ICMP_RouterAdvertisement =
  RouterAddress :: "NETSIM_IPAddress list"
  Lifetime :: u16

datatype NW_HDR =
  HdrNW_None | HdrEcho ICMP_ECHO | HdrAdvertisement ICMP_RouterAdvertisement | HdrUnreachable NetSim_PACKET

text \<open>
  The packet with the link and physical headers.  \<open>eth_incoming\<close> is where the library keeps the
  port and the VLAN by which the frame came in; \<open>nw_outer\<close> has the destinations of the network headers
  below the current one, which are equal otherwise.
\<close>

record ETH_PKT = NetSim_PACKET +
  szPacketType :: string
  eth_szSourceMac :: NETSIM_MACADDRESS
  eth_szDestMac :: NETSIM_MACADDRESS
  mac_dArrivalTime :: simtime
  mac_dStartTime :: simtime
  mac_dEndTime :: simtime
  mac_dOverhead :: real
  mac_dPayload :: real
  mac_dPacketSize :: real
  nMACProtocol :: nat
  Packet_MACProtocol :: "ETH_HDR_VAR option"
  eth_incoming :: "(NETSIM_ID \<times> NETSIM_ID \<times> u16) option"
  phy_dArrivalTime :: simtime
  phy_dStartTime :: simtime
  phy_dEndTime :: simtime
  phy_dOverhead :: real
  phy_dPayload :: real
  phy_dPacketSize :: real
  nPhyMedium :: PHY_MEDIUM
  nPacketStatus :: PACKET_STATUS
  pstruTransportData :: "TX_HDR option"
  nw_dPayload :: real
  nNetworkProtocol :: nat
  IPProtocol :: nat
  nPacketFlag :: nat
  nw_outer :: "NETSIM_IPAddress list"
  Packet_NetworkProtocol :: NW_HDR

section \<open>LANs\<close>

datatype SWITCHING_TECHNIQUE =
  SWITCHINGTECHNIQUE_NULL | SWITCHINGTECHNIQUE_STORE_FORWARD | SWITCHINGTECHNIQUE_CUT_THROUGH
| SWITCHINGTECHNIQUE_FRAGMENT_FREE

datatype SWITCH_PORTSTATE =
  PORTSTATE_DISABLED | PORTSTATE_LISTENING | PORTSTATE_LEARNING | PORTSTATE_FORWARDING | PORTSTATE_BLOCKING

datatype SWITCH_PORTTYPE = PORTTYPE_DESIGNATED | PORTTYPE_NONDESIGNATED | PORTTYPE_ROOT

datatype VLANPORT = VLANPORT_NONE | VLANPORT_ACCESS | VLANPORT_TRUNK

record SWITCHTABLE =
  st_mac :: NETSIM_MACADDRESS
  outPort :: NETSIM_ID

record ETH_IF =
  eif_interfaceId :: NETSIM_ID
  macAddress :: NETSIM_MACADDRESS
  portState :: SWITCH_PORTSTATE
  portType :: SWITCH_PORTTYPE
  vlanPortType :: VLANPORT

record ETH_SPT =
  stpCost :: int
  spt_priority :: u32
  switchId :: "string option"
  rootId :: "string option"
  rootPathCost :: u32
  rootPort :: NETSIM_ID

text \<open>The number of interfaces is the length of \<open>lan_interfaceId\<close>; \<open>ethIfVar\<close> has an entry for each of them.\<close>

record ETH_LAN =
  lanId :: NETSIM_ID
  lan_interfaceId :: "NETSIM_ID list"
  lanIP :: "NETSIM_IPAddress option"
  lan_vlanId :: u16
  ethIfVar :: "ETH_IF list"
  spt :: ETH_SPT
  switchingTechnique :: SWITCHING_TECHNIQUE
  STPStatus :: bool
  switchTable :: "SWITCHTABLE list"
  ispromiscuousMode :: bool

record ETH_VAR =
  lanVar :: "ETH_LAN list"
  isSPT :: bool
  isVLAN :: bool
  trunkPortIds :: "NETSIM_ID list"

record ETH_PHY =
  phy_interfaceId :: NETSIM_ID
  phy_speed :: real
  BER :: real
  propagationDelay :: simtime
  connectedDevice :: NETSIM_ID
  connectedInterface :: NETSIM_ID
  IFG :: simtime
  phy_packet :: "NetSim_BUFFER option"
  lastPacketEndTime :: simtime
  isErrorChkReqd :: bool

section \<open>Events and the state of a call\<close>

datatype OTHER_DETAILS = NoDetails | AddressDetails NETSIM_IPAddress | PingDetails nat

record ETH_EVENT =
  ee_dEventTime :: simtime
  ee_nEventType :: EVENT_TYPE
  ee_nProtocolId :: nat
  ee_nDeviceId :: NETSIM_ID
  ee_nDeviceType :: nat
  ee_nInterfaceId :: NETSIM_ID
  ee_nApplicationId :: NETSIM_ID
  ee_dPacketSize :: real
  ee_pPacket :: "ETH_PKT option"
  ee_nPacketId :: int
  ee_nSegmentId :: int
  ee_nSubEventType :: nat
  ee_szOtherDetails :: OTHER_DETAILS

text \<open>\<open>memset\<close> to zero.  No event type has the value zero: the first one stands for it until it is set.\<close>

definition zero_event :: ETH_EVENT where
  "zero_event = \<lparr>ee_dEventTime = 0, ee_nEventType = PHYSICAL_OUT_EVENT, ee_nProtocolId = 0, ee_nDeviceId = 0,
     ee_nDeviceType = 0, ee_nInterfaceId = 0, ee_nApplicationId = 0, ee_dPacketSize = 0, ee_pPacket = None,
     ee_nPacketId = 0, ee_nSegmentId = 0, ee_nSubEventType = 0, ee_szOtherDetails = NoDetails\<rparr>"

text \<open>
  \<open>GetConnectedDevice d i\<close> gives the link, the device and the interface at the other end;
  \<open>GET_ETH_LAN d i v\<close> the position of the LAN in \<open>lanVar\<close> of the device; \<open>GET_ETH_IF d n i\<close> the
  position of the interface in \<open>ethIfVar\<close> of that LAN.  They do not change during a simulation.
\<close>

datatype ACL_TYPE = ACLTYPE_BOTH | ACLTYPE_INBOUND | ACLTYPE_OUTBOUND
datatype ACL_ACTION = ACLACTION_PERMIT | ACLACTION_DENY

record ETH_ENV =
  eth_nDeviceCount :: nat
  eth_deviceType :: "NETSIM_ID \<Rightarrow> nat"
  GetConnectedDevice :: "NETSIM_ID \<Rightarrow> NETSIM_ID \<Rightarrow> nat \<times> NETSIM_ID \<times> NETSIM_ID"
  GET_ETH_LAN :: "NETSIM_ID \<Rightarrow> NETSIM_ID \<Rightarrow> u16 \<Rightarrow> nat option"
  GET_ETH_IF :: "NETSIM_ID \<Rightarrow> nat \<Rightarrow> NETSIM_ID \<Rightarrow> nat option"
  get_interface_id :: "NETSIM_ID \<Rightarrow> NETSIM_ID \<Rightarrow> NETSIM_ID"
  eth_nNumOfInterface :: "NETSIM_ID \<Rightarrow> nat"
  isVirtualInterface :: "NETSIM_ID \<Rightarrow> NETSIM_ID \<Rightarrow> bool"
  nMacProtocolId :: "NETSIM_ID \<Rightarrow> NETSIM_ID \<Rightarrow> nat"
  MAC_COMPARE :: "NETSIM_MACADDRESS \<Rightarrow> NETSIM_MACADDRESS \<Rightarrow> int"
  isBroadcastMAC :: "NETSIM_MACADDRESS \<Rightarrow> bool"
  isMulticastMAC :: "NETSIM_MACADDRESS \<Rightarrow> bool"
  multicastSPTMAC :: NETSIM_MACADDRESS
  blankMacPacket :: ETH_PKT
  eth_CopyPacket :: "ETH_PKT \<Rightarrow> ETH_PKT"
  eth_add_dest :: "NETSIM_ID list \<Rightarrow> NETSIM_ID \<Rightarrow> NETSIM_ID list"
  get_dests :: "NETSIM_ID list \<Rightarrow> NETSIM_ID list"
  set_eth_hdr :: "ETH_PKT \<Rightarrow> ETH_HDR_VAR \<Rightarrow> ETH_PKT"
  free_eth_hdr :: "ETH_PKT \<Rightarrow> ETH_PKT"
  get_eth_hdr_var :: "ETH_PKT \<Rightarrow> ETH_HDR_VAR option"
  store_eth_param_macin :: "ETH_PKT \<Rightarrow> NETSIM_ID \<Rightarrow> NETSIM_ID \<Rightarrow> ETH_LAN \<Rightarrow> ETH_PKT"
  eth_get_incoming_vlanid :: "ETH_PKT \<Rightarrow> NETSIM_ID \<Rightarrow> u16"
  eth_get_incoming_port :: "ETH_PKT \<Rightarrow> NETSIM_ID \<Rightarrow> NETSIM_ID"
  clear_eth_incoming :: "ETH_PKT \<Rightarrow> ETH_PKT"
  fn_NetSim_MAC_Firewall :: "NETSIM_ID \<Rightarrow> NETSIM_ID \<Rightarrow> ETH_PKT \<Rightarrow> ACL_TYPE \<Rightarrow> ACL_ACTION"
  eth_AddPacketToList :: "NetSim_BUFFER \<Rightarrow> BUF_PACKET \<Rightarrow> NetSim_BUFFER option"
  DecideError :: "nat \<Rightarrow> real \<Rightarrow> real \<Rightarrow> PACKET_STATUS"
  eth_buf_env :: BUFFER_ENV

text \<open>\<open>waiting\<close> holds the frames that are in a buffer.\<close>

record ETH_WORLD =
  eth_var :: "NETSIM_ID \<Rightarrow> ETH_VAR option"
  eth_phy :: "NETSIM_ID \<Rightarrow> NETSIM_ID \<Rightarrow> ETH_PHY"
  eth_access :: "NETSIM_ID \<Rightarrow> NETSIM_ID \<Rightarrow> NetSim_BUFFER"
  waiting :: "pid \<Rightarrow> ETH_PKT option"
  wnext :: pid
  eev :: ETH_EVENT
  eadded :: "ETH_EVENT list"
  errors_drawn :: nat
  eerrors :: nat

section \<open>Access to the state\<close>

definition get_lan :: "NETSIM_ID \<Rightarrow> nat \<Rightarrow> ETH_WORLD \<Rightarrow> ETH_LAN option" where
  "get_lan d n w = (case eth_var w d of
       None \<Rightarrow> None
     | Some e \<Rightarrow> (if n < length (lanVar e) then Some (lanVar e ! n) else None))"

definition upd_lan :: "NETSIM_ID \<Rightarrow> nat \<Rightarrow> (ETH_LAN \<Rightarrow> ETH_LAN) \<Rightarrow> ETH_WORLD \<Rightarrow> ETH_WORLD option" where
  "upd_lan d n f w = (case eth_var w d of
       None \<Rightarrow> None
     | Some e \<Rightarrow> (if n < length (lanVar e)
         then Some (w\<lparr>eth_var := (eth_var w)(d \<mapsto> e\<lparr>lanVar := (lanVar e)[n := f (lanVar e ! n)]\<rparr>)\<rparr>) else None))"

definition upd_if :: "nat \<Rightarrow> (ETH_IF \<Rightarrow> ETH_IF) \<Rightarrow> ETH_LAN \<Rightarrow> ETH_LAN option" where
  "upd_if j f lan = (if j < length (ethIfVar lan)
     then Some (lan\<lparr>ethIfVar := (ethIfVar lan)[j := f (ethIfVar lan ! j)]\<rparr>) else None)"

definition set_lan :: "NETSIM_ID \<Rightarrow> nat \<Rightarrow> ETH_LAN \<Rightarrow> ETH_WORLD \<Rightarrow> ETH_WORLD option" where
  "set_lan d n lan = upd_lan d n (\<lambda>_. lan)"

text \<open>The LAN of an interface.\<close>

definition lan_of :: "ETH_ENV \<Rightarrow> NETSIM_ID \<Rightarrow> NETSIM_ID \<Rightarrow> ETH_WORLD \<Rightarrow> (nat \<times> ETH_LAN) option" where
  "lan_of E d i w = do { n \<leftarrow> GET_ETH_LAN E d i 0; lan \<leftarrow> get_lan d n w; Some (n, lan) }"

definition add_eth_event :: "ETH_EVENT \<Rightarrow> ETH_WORLD \<Rightarrow> ETH_WORLD" where
  "add_eth_event e w = w\<lparr>eadded := eadded w @ [e]\<rparr>"

definition eth_error :: "ETH_WORLD \<Rightarrow> ETH_WORLD" where
  "eth_error w = w\<lparr>eerrors := Suc (eerrors w)\<rparr>"

text \<open>A loop over the elements of a list that changes the state.\<close>

fun for_each :: "('a \<Rightarrow> 's \<Rightarrow> 's option) \<Rightarrow> 'a list \<Rightarrow> 's \<Rightarrow> 's option" where
  "for_each f [] s = Some s"
| "for_each f (x # xs) s = do { s \<leftarrow> f x s; for_each f xs s }"

lemma for_each_append: "for_each f (xs @ ys) s = do { s \<leftarrow> for_each f xs s; for_each f ys s }"
  by (induction xs arbitrary: s) (auto split: bind_splits)

text \<open>What a step keeps, the loop keeps.\<close>

lemma for_each_keeps:
  assumes "\<And>x s s'. x \<in> set xs \<Longrightarrow> P s \<Longrightarrow> f x s = Some s' \<Longrightarrow> P s'" "P s" "for_each f xs s = Some s'"
  shows "P s'"
  using assms by (induction xs arbitrary: s) (auto elim!: bind_SomeE)

end
