(* ===== verification/Eth_SpanningTree.thy ===== *)
theory Eth_SpanningTree
  imports Eth_Types
begin

text \<open>
  The spanning tree protocol of the switches (\<open>Ethernet/SpanningTree.c\<close>): the bridge identifier,
  start, configuration messages and what a switch does with one.  The log and the file of the
  tree are left out.
\<close>

section \<open>The identifier of a switch\<close>

text \<open>The first of the lowest addresses.\<close>

fun lowest_mac :: "NETSIM_MACADDRESS option \<Rightarrow> ETH_IF list \<Rightarrow> NETSIM_MACADDRESS option" where
  "lowest_mac ret [] = ret"
| "lowest_mac None (i # is) = lowest_mac (Some (macAddress i)) is"
| "lowest_mac (Some m) (i # is) =
     lowest_mac (Some (if nmacaddress (macAddress i) < nmacaddress m then macAddress i else m)) is"

definition eth_get_lowest_mac :: "ETH_LAN \<Rightarrow> string option" where
  "eth_get_lowest_mac lan = map_option szmacaddress (lowest_mac None (ethIfVar lan))"

text \<open>The buffers of 20 characters hold the text and its end.\<close>

definition configure_switch_id :: "ETH_LAN \<Rightarrow> ETH_LAN option" where
  "configure_switch_id lan = do {
     mac \<leftarrow> eth_get_lowest_mac lan;
     let text = dec_int (sint (spt_priority (spt lan))) @ mac;
     _ \<leftarrow> assert_c (length text < 20);
     Some (lan\<lparr>spt := (spt lan)\<lparr>switchId := Some text\<rparr>\<rparr>) }"

section \<open>Configuration messages\<close>

text \<open>\<open>stpCost\<close> is an \<open>int\<close> that is added to an \<open>unsigned\<close>.\<close>

definition make_bpdu :: "string option \<Rightarrow> u32 \<Rightarrow> string option \<Rightarrow> ETH_BPDU" where
  "make_bpdu rt cost bridge = \<lparr>protocolIdentifier = 0, protocolVersionIdentifier = 0, bpduType = 0,
     bpdu_flags = 0, bpdu_rootId = rt, bpdu_rootPathCost = cost, bridgeId = bridge, portId = 0,
     msgAge = 1, maxAge = 20, helloTime = 2, forwardDelay = 15\<rparr>"

definition create_bpdu :: "ETH_LAN \<Rightarrow> ETH_BPDU" where
  "create_bpdu lan = make_bpdu (rootId (spt lan)) (word_of_int (stpCost (spt lan))) (switchId (spt lan))"

definition copy_bpdu :: "ETH_LAN \<Rightarrow> ETH_BPDU \<Rightarrow> ETH_BPDU" where
  "copy_bpdu lan b = make_bpdu (bpdu_rootId b) (word_of_int (stpCost (spt lan)) + bpdu_rootPathCost b)
     (switchId (spt lan))"

definition bpdu_packet :: "ETH_ENV \<Rightarrow> NETSIM_ID \<Rightarrow> simtime \<Rightarrow> ETH_BPDU \<Rightarrow> ETH_PKT" where
  "bpdu_packet E d t b =
     (let k = (blankMacPacket E)\<lparr>nControlDataType := ETH_CONFIGBPDU, nPacketType := PacketType_Control,
            nSourceId := d, nTransmitterId := d, mac_dArrivalTime := t, mac_dStartTime := t, mac_dEndTime := t,
            mac_dOverhead := ETH_BPDU_LEN, mac_dPacketSize := ETH_BPDU_LEN, nMACProtocol := MAC_PROTOCOL_IEEE802_3\<rparr>;
          k = set_eth_hdr E k (CBPDU b)
      in k\<lparr>eth_szDestMac := multicastSPTMAC E, szPacketType := ''CONFIG_BPDU''\<rparr>)"

definition create_bpdu_packet :: "ETH_ENV \<Rightarrow> NETSIM_ID \<Rightarrow> ETH_LAN \<Rightarrow> simtime \<Rightarrow> ETH_PKT" where
  "create_bpdu_packet E d lan t = bpdu_packet E d t (create_bpdu lan)"

definition copy_bpdu_packet :: "ETH_ENV \<Rightarrow> NETSIM_ID \<Rightarrow> ETH_LAN \<Rightarrow> simtime \<Rightarrow> ETH_BPDU \<Rightarrow> ETH_PKT" where
  "copy_bpdu_packet E d lan t b = bpdu_packet E d t (copy_bpdu lan b)"

text \<open>The neighbours with a spanning tree become receivers of the message.\<close>

definition stp_neighbour :: "ETH_ENV \<Rightarrow> NETSIM_ID \<Rightarrow> NETSIM_ID \<Rightarrow> ETH_WORLD \<Rightarrow> (NETSIM_ID option) option" where
  "stp_neighbour E d i w = (let (l, c, ci) = GetConnectedDevice E d i in
     if l = 0 then Some None
     else case eth_var w c of
            None \<Rightarrow> Some None
          | Some ce \<Rightarrow> (case GET_ETH_LAN E c ci 0 of
              None \<Rightarrow> Some None
            | Some n \<Rightarrow> do { cl \<leftarrow> get_lan c n w; Some (if STPStatus cl then Some c else None) }))"

definition add_receiver :: "ETH_ENV \<Rightarrow> NETSIM_ID \<Rightarrow> ETH_WORLD \<Rightarrow> NETSIM_ID \<Rightarrow> ETH_PKT \<times> bool \<Rightarrow> (ETH_PKT \<times> bool) option" where
  "add_receiver E d w i pf = do {
     n \<leftarrow> stp_neighbour E d i w;
     Some (case n of None \<Rightarrow> pf | Some c \<Rightarrow> ((fst pf)\<lparr>destInfo := eth_add_dest E (destInfo (fst pf)) c\<rparr>, True)) }"

definition bpdu_event :: "ETH_ENV \<Rightarrow> NETSIM_ID \<Rightarrow> simtime \<Rightarrow> ETH_PKT \<Rightarrow> ETH_EVENT" where
  "bpdu_event E d t k = zero_event\<lparr>ee_dEventTime := t, ee_dPacketSize := mac_dPacketSize k, ee_nDeviceId := d,
     ee_nDeviceType := eth_deviceType E d, ee_nEventType := MAC_OUT_EVENT, ee_nProtocolId := MAC_PROTOCOL_IEEE802_3,
     ee_pPacket := Some k, ee_nSubEventType := SEND_CONFIG_BPDU\<rparr>"

definition send_bpdu_packet :: "ETH_ENV \<Rightarrow> NETSIM_ID \<Rightarrow> simtime \<Rightarrow> NETSIM_ID list \<Rightarrow> ETH_PKT \<Rightarrow> ETH_WORLD \<Rightarrow> ETH_WORLD option" where
  "send_bpdu_packet E d t is k w = do {
     (k, flag) \<leftarrow> for_each (add_receiver E d w) is (k, False);
     Some (if flag then add_eth_event (bpdu_event E d t k) w else w) }"

definition send_config_bpdu :: "ETH_ENV \<Rightarrow> NETSIM_ID \<Rightarrow> nat \<Rightarrow> simtime \<Rightarrow> ETH_WORLD \<Rightarrow> ETH_WORLD option" where
  "send_config_bpdu E d n t w = do {
     lan \<leftarrow> get_lan d n w;
     send_bpdu_packet E d t (lan_interfaceId lan) (create_bpdu_packet E d lan t) w }"

definition forward_bpdu :: "ETH_ENV \<Rightarrow> NETSIM_ID \<Rightarrow> NETSIM_ID \<Rightarrow> simtime \<Rightarrow> nat \<Rightarrow> ETH_BPDU \<Rightarrow> ETH_WORLD \<Rightarrow> ETH_WORLD option" where
  "forward_bpdu E d port t n b w = do {
     lan \<leftarrow> get_lan d n w;
     send_bpdu_packet E d t (filter (\<lambda>i. i \<noteq> port) (lan_interfaceId lan)) (copy_bpdu_packet E d lan t b) w }"

text \<open>The first receiver gets the frame, the others a copy.\<close>

definition out_event :: "ETH_ENV \<Rightarrow> ETH_EVENT \<Rightarrow> ETH_PKT \<Rightarrow> NETSIM_ID \<Rightarrow> ETH_EVENT" where
  "out_event E e p des = e\<lparr>ee_nEventType := PHYSICAL_OUT_EVENT,
     ee_nInterfaceId := get_interface_id E (ee_nDeviceId e) des, ee_nSubEventType := 0, ee_pPacket := Some p\<rparr>"

definition multicast_config_bpdu :: "ETH_ENV \<Rightarrow> ETH_WORLD \<Rightarrow> ETH_WORLD option" where
  "multicast_config_bpdu E w = do {
     k \<leftarrow> ee_pPacket (eev w);
     Some (case get_dests E (destInfo k) of
         [] \<Rightarrow> w
       | des # others \<Rightarrow> w\<lparr>eadded := eadded w @ out_event E (eev w) k des # map (out_event E (eev w) (eth_CopyPacket E k)) others\<rparr>) }"

section \<open>Start\<close>

definition init_port :: "ETH_ENV \<Rightarrow> NETSIM_ID \<Rightarrow> nat \<Rightarrow> nat \<Rightarrow> ETH_WORLD \<Rightarrow> ETH_WORLD option" where
  "init_port E d n i w = do {
     lan \<leftarrow> get_lan d n w;
     _ \<leftarrow> assert_c (i < length (lan_interfaceId lan));
     let (l, c, ci) = GetConnectedDevice E d (lan_interfaceId lan ! i);
     lan \<leftarrow> (if l = 0 then upd_if i (portState_update (\<lambda>_. PORTSTATE_BLOCKING)) lan else Some lan);
     w \<leftarrow> set_lan d n lan w;
     plain \<leftarrow> (case eth_var w c of
        None \<Rightarrow> Some True
      | Some e \<Rightarrow> (if \<not> isSPT e then Some True
          else do { m \<leftarrow> GET_ETH_LAN E c ci 0; la \<leftarrow> get_lan c m w; Some (\<not> STPStatus la) }));
     lan \<leftarrow> (if plain then upd_if i (portState_update (\<lambda>_. PORTSTATE_FORWARDING)) lan
            else upd_if i (\<lambda>f. f\<lparr>portState := PORTSTATE_FORWARDING, portType := PORTTYPE_DESIGNATED\<rparr>) lan);
     set_lan d n lan w }"

definition eth_spt_init_port :: "ETH_ENV \<Rightarrow> NETSIM_ID \<Rightarrow> nat \<Rightarrow> ETH_WORLD \<Rightarrow> ETH_WORLD option" where
  "eth_spt_init_port E d n w = do {
     lan \<leftarrow> get_lan d n w;
     for_each (init_port E d n) [0..<length (lan_interfaceId lan)] w }"

definition start_spt_for_lan :: "ETH_ENV \<Rightarrow> NETSIM_ID \<Rightarrow> nat \<Rightarrow> ETH_WORLD \<Rightarrow> ETH_WORLD option" where
  "start_spt_for_lan E d n w = do {
     w \<leftarrow> eth_spt_init_port E d n w;
     lan \<leftarrow> get_lan d n w;
     lan \<leftarrow> (if switchId (spt lan) = None then configure_switch_id lan else Some lan);
     w \<leftarrow> set_lan d n (lan\<lparr>spt := (spt lan)\<lparr>rootId := switchId (spt lan)\<rparr>\<rparr>) w;
     send_config_bpdu E d n 0 w }"

definition start_spanning_tree_protocol :: "ETH_ENV \<Rightarrow> NETSIM_ID \<Rightarrow> ETH_WORLD \<Rightarrow> ETH_WORLD option" where
  "start_spanning_tree_protocol E d w = do {
     e \<leftarrow> eth_var w d;
     if \<not> isSPT e then Some w
     else for_each (\<lambda>n w. do {
         lan \<leftarrow> get_lan d n w;
         if STPStatus lan then start_spt_for_lan E d n w else Some w }) [0..<length (lanVar e)] w }"

text \<open>At most one neighbour of the LAN runs the protocol.\<close>

fun single_interface_loop :: "ETH_ENV \<Rightarrow> NETSIM_ID \<Rightarrow> ETH_WORLD \<Rightarrow> NETSIM_ID list \<Rightarrow> nat \<Rightarrow> bool option" where
  "single_interface_loop E d w [] k = Some True"
| "single_interface_loop E d w (i # is) k = (let (l, c, ci) = GetConnectedDevice E d i in
     if l = 0 then single_interface_loop E d w is k
     else do {
       e \<leftarrow> eth_var w c;
       let k = (if isSPT e then Suc k else k);
       if 1 < k then Some False else single_interface_loop E d w is k })"

definition isSingleInterface :: "ETH_ENV \<Rightarrow> NETSIM_ID \<Rightarrow> ETH_LAN \<Rightarrow> ETH_WORLD \<Rightarrow> bool option" where
  "isSingleInterface E d lan w =
     (if length (lan_interfaceId lan) = 1 then Some True else single_interface_loop E d w (lan_interfaceId lan) 0)"

definition init_lan_status :: "ETH_ENV \<Rightarrow> NETSIM_ID \<Rightarrow> nat \<Rightarrow> ETH_WORLD \<Rightarrow> ETH_WORLD option" where
  "init_lan_status E d n w = do {
     e \<leftarrow> eth_var w d;
     lan \<leftarrow> get_lan d n w;
     off \<leftarrow> (if \<not> isSPT e then Some True
            else do { s \<leftarrow> isSingleInterface E d lan w; Some (s \<and> lanIP lan \<noteq> None) });
     if off
     then do {
       lan \<leftarrow> upd_if 0 (portState_update (\<lambda>_. PORTSTATE_FORWARDING)) (lan\<lparr>STPStatus := False\<rparr>);
       set_lan d n lan w }
     else set_lan d n (lan\<lparr>STPStatus := True\<rparr>) w }"

definition init_spanning_tree_protocol :: "ETH_ENV \<Rightarrow> ETH_WORLD \<Rightarrow> ETH_WORLD option" where
  "init_spanning_tree_protocol E w = do {
     w \<leftarrow> for_each (\<lambda>d w. case eth_var w d of
            None \<Rightarrow> Some w
          | Some e \<Rightarrow> for_each (init_lan_status E d) [0..<length (lanVar e)] w) [1..<Suc (eth_nDeviceCount E)] w;
     for_each (\<lambda>d w. case eth_var w d of
            None \<Rightarrow> Some w
          | Some e \<Rightarrow> (if isSPT e then start_spanning_tree_protocol E d w else Some w)) [1..<Suc (eth_nDeviceCount E)] w }"

section \<open>A message arrives\<close>

datatype COMPARE_BPDU = BLOCK | FORWARD | DONT_FORWARD

definition compare_bpdu :: "ETH_BPDU \<Rightarrow> ETH_SPT \<Rightarrow> NETSIM_ID \<Rightarrow> COMPARE_BPDU option" where
  "compare_bpdu b s port = do {
     br \<leftarrow> bpdu_rootId b;
     sr \<leftarrow> rootId s;
     let cid = stricmp br sr;
     if cid = 0
     then do {
       me \<leftarrow> switchId s;
       if stricmp sr me = 0 then Some DONT_FORWARD
       else if bpdu_rootPathCost b = rootPathCost s
       then Some (if rootPort s = port then DONT_FORWARD else BLOCK)
       else if bpdu_rootPathCost b < rootPathCost s then Some FORWARD
       else Some BLOCK }
     else if cid < 0 then Some FORWARD
     else Some DONT_FORWARD }"

definition block_port :: "ETH_ENV \<Rightarrow> NETSIM_ID \<Rightarrow> nat \<Rightarrow> NETSIM_ID \<Rightarrow> ETH_LAN \<Rightarrow> ETH_LAN option" where
  "block_port E d n i lan = do {
     j \<leftarrow> GET_ETH_IF E d n i;
     upd_if j (\<lambda>f. f\<lparr>portState := PORTSTATE_BLOCKING, portType := PORTTYPE_NONDESIGNATED\<rparr>) lan }"

definition update_spt :: "ETH_BPDU \<Rightarrow> NETSIM_ID \<Rightarrow> ETH_SPT \<Rightarrow> ETH_SPT" where
  "update_spt b port s = s\<lparr>rootId := bpdu_rootId b, rootPathCost := bpdu_rootPathCost b, rootPort := port\<rparr>"

definition mark_port :: "NETSIM_ID \<Rightarrow> ETH_LAN \<Rightarrow> ETH_LAN" where
  "mark_port port lan = lan\<lparr>spt := (spt lan)\<lparr>rootPort := port\<rparr>,
     ethIfVar := map (\<lambda>f. f\<lparr>portType := if eif_interfaceId f = port then PORTTYPE_ROOT else PORTTYPE_DESIGNATED\<rparr>)
       (ethIfVar lan)\<rparr>"

definition bpdu_of :: "ETH_ENV \<Rightarrow> ETH_PKT \<Rightarrow> (ETH_BPDU option) option" where
  "bpdu_of E k = (case get_eth_hdr_var E k of None \<Rightarrow> Some None | Some (CBPDU b) \<Rightarrow> Some (Some b) | Some (VTAG t) \<Rightarrow> None)"

definition process_configbpdu :: "ETH_ENV \<Rightarrow> ETH_WORLD \<Rightarrow> ETH_WORLD option" where
  "process_configbpdu E w = do {
     let d = ee_nDeviceId (eev w);
     let i = ee_nInterfaceId (eev w);
     let t = ee_dEventTime (eev w);
     k \<leftarrow> ee_pPacket (eev w);
     (n, lan) \<leftarrow> lan_of E d i w;
     w \<leftarrow> (if \<not> STPStatus lan then Some (eth_error w)
          else do {
            b \<leftarrow> bpdu_of E k;
            (case b of
               None \<Rightarrow> Some (eth_error w)
             | Some b \<Rightarrow> do {
                 c \<leftarrow> compare_bpdu b (spt lan) i;
                 (case c of
                    BLOCK \<Rightarrow> do { lan \<leftarrow> block_port E d n i lan; set_lan d n lan w }
                  | FORWARD \<Rightarrow> do {
                      let lan = mark_port i lan;
                      w \<leftarrow> set_lan d n (lan\<lparr>spt := update_spt b i (spt lan)\<rparr>) w;
                      forward_bpdu E d i t n b w }
                  | DONT_FORWARD \<Rightarrow> Some w) }) });
     Some (w\<lparr>eev := (eev w)\<lparr>ee_pPacket := None\<rparr>\<rparr>) }"

end
