(* ===== verification/Eth_Mac.thy ===== *)
theory Eth_Mac
  imports Eth_SpanningTree
begin

text \<open>
  Frames at a switch or a station (\<open>Ethernet/SwitchTable.c\<close>, \<open>Ethernet_Mac.c\<close>, \<open>Vlan.c\<close>): the switch
  table, flooding and forwarding, virtual LANs, and the frames of the network layer.
\<close>

section \<open>The switch table\<close>

fun table_search :: "ETH_ENV \<Rightarrow> NETSIM_MACADDRESS \<Rightarrow> SWITCHTABLE list \<Rightarrow> SWITCHTABLE option" where
  "table_search E dest [] = None"
| "table_search E dest (t # ts) = (if MAC_COMPARE E dest (st_mac t) = 0 then Some t else table_search E dest ts)"

definition SWITCHTABLE_FIND :: "ETH_ENV \<Rightarrow> ETH_LAN \<Rightarrow> NETSIM_MACADDRESS \<Rightarrow> SWITCHTABLE option" where
  "SWITCHTABLE_FIND E lan dest = table_search E dest (switchTable lan)"

definition SWITCHTABLE_NEW :: "ETH_ENV \<Rightarrow> NETSIM_MACADDRESS \<Rightarrow> NETSIM_ID \<Rightarrow> ETH_LAN \<Rightarrow> ETH_LAN" where
  "SWITCHTABLE_NEW E dest port lan = (case SWITCHTABLE_FIND E lan dest of
       Some t \<Rightarrow> lan
     | None \<Rightarrow> lan\<lparr>switchTable := switchTable lan @ [\<lparr>st_mac = dest, outPort = port\<rparr>]\<rparr>)"

definition find_forward_interface :: "ETH_ENV \<Rightarrow> ETH_LAN \<Rightarrow> ETH_PKT \<Rightarrow> NETSIM_ID" where
  "find_forward_interface E lan k = (case SWITCHTABLE_FIND E lan (eth_szDestMac k) of
       Some t \<Rightarrow> outPort t
     | None \<Rightarrow> 0)"

section \<open>Sending\<close>

definition app_ids :: "ETH_PKT \<Rightarrow> ETH_EVENT \<Rightarrow> ETH_EVENT" where
  "app_ids k e = (case pstruAppData k of
       Some (app, seg) \<Rightarrow> e\<lparr>ee_nApplicationId := app, ee_nSegmentId := seg\<rparr>
     | None \<Rightarrow> e)"

definition phy_event :: "ETH_ENV \<Rightarrow> NETSIM_ID \<Rightarrow> NETSIM_ID \<Rightarrow> ETH_PKT \<Rightarrow> simtime \<Rightarrow> ETH_EVENT" where
  "phy_event E d i k t = (app_ids k zero_event)\<lparr>ee_dEventTime := t, ee_dPacketSize := mac_dPacketSize k,
     ee_nDeviceId := d, ee_nDeviceType := eth_deviceType E d, ee_nEventType := PHYSICAL_OUT_EVENT,
     ee_nInterfaceId := i, ee_nPacketId := nPacketId k, ee_nProtocolId := MAC_PROTOCOL_IEEE802_3,
     ee_pPacket := Some k\<rparr>"

definition send_to_phy :: "ETH_ENV \<Rightarrow> NETSIM_ID \<Rightarrow> NETSIM_ID \<Rightarrow> ETH_PKT \<Rightarrow> simtime \<Rightarrow> ETH_WORLD \<Rightarrow> ETH_WORLD" where
  "send_to_phy E d i k t = add_eth_event (phy_event E d i k t)"

definition add_mac_header :: "ETH_PKT \<Rightarrow> simtime \<Rightarrow> ETH_PKT" where
  "add_mac_header k t = k\<lparr>mac_dPayload := nw_dPacketSize k, mac_dOverhead := ETHERNET_FRAME_HEADER_LEN,
     mac_dPacketSize := nw_dPacketSize k + ETHERNET_FRAME_HEADER_LEN, mac_dArrivalTime := t, mac_dEndTime := t,
     mac_dStartTime := t, nMACProtocol := MAC_PROTOCOL_IEEE802_3\<rparr>"

text \<open>
  A copy leaves by every port that is not blocked, is not the one the frame came in by, and whose
  access list lets \<open>fk\<close> pass: the frame or its copy, as the caller asks.
\<close>

definition flood_port ::
  "ETH_ENV \<Rightarrow> NETSIM_ID \<Rightarrow> NETSIM_ID \<Rightarrow> ETH_PKT \<Rightarrow> ETH_PKT \<Rightarrow> simtime \<Rightarrow> ETH_LAN \<Rightarrow> nat \<Rightarrow> ETH_WORLD \<Rightarrow> ETH_WORLD option" where
  "flood_port E d incoming fk k t lan j w = do {
     _ \<leftarrow> assert_c (j < length (ethIfVar lan));
     let f = ethIfVar lan ! j;
     Some (if portState f \<noteq> PORTSTATE_BLOCKING \<and> eif_interfaceId f \<noteq> incoming
             \<and> fn_NetSim_MAC_Firewall E d (eif_interfaceId f) fk ACLTYPE_OUTBOUND = ACLACTION_PERMIT
           then send_to_phy E d (eif_interfaceId f) (clear_eth_incoming E (eth_CopyPacket E k)) t w
           else w) }"

definition flood ::
  "ETH_ENV \<Rightarrow> NETSIM_ID \<Rightarrow> NETSIM_ID \<Rightarrow> ETH_PKT \<Rightarrow> ETH_PKT \<Rightarrow> simtime \<Rightarrow> ETH_LAN \<Rightarrow> ETH_WORLD \<Rightarrow> ETH_WORLD option" where
  "flood E d incoming fk k t lan w = for_each (flood_port E d incoming fk k t lan) [0..<length (lan_interfaceId lan)] w"

section \<open>Virtual LANs\<close>

definition get_vlan :: "NETSIM_ID \<Rightarrow> u16 \<Rightarrow> ETH_WORLD \<Rightarrow> (ETH_LAN option) option" where
  "get_vlan d v w = (case eth_var w d of
       None \<Rightarrow> None
     | Some e \<Rightarrow> Some (if isVLAN e then find (\<lambda>lan. lan_vlanId lan = v) (lanVar e) else None))"

text \<open>The header of a configuration message begins with the identifier of its protocol.\<close>

definition isVLANTagPresent :: "ETH_ENV \<Rightarrow> ETH_PKT \<Rightarrow> bool" where
  "isVLANTagPresent E k = (case get_eth_hdr_var E k of
       None \<Rightarrow> False
     | Some (VTAG t) \<Rightarrow> TPId t = VLAN_TPID
     | Some (CBPDU b) \<Rightarrow> protocolIdentifier b = VLAN_TPID)"

definition vlan_port_type_from_str :: "string \<Rightarrow> VLANPORT" where
  "vlan_port_type_from_str val =
     (if stricmp val ''ACCESS_PORT'' = 0 then VLANPORT_ACCESS
      else if stricmp val ''TRUNK_PORT'' = 0 then VLANPORT_TRUNK
      else VLANPORT_NONE)"

definition vlan_add_trunk_port :: "NETSIM_ID \<Rightarrow> ETH_VAR \<Rightarrow> ETH_VAR" where
  "vlan_add_trunk_port i e = e\<lparr>trunkPortIds := trunkPortIds e @ [i]\<rparr>"

definition is_port_present_in_lan :: "ETH_LAN \<Rightarrow> NETSIM_ID \<Rightarrow> bool" where
  "is_port_present_in_lan lan i = (i \<in> set (lan_interfaceId lan))"

definition add_vlan_tag :: "ETH_ENV \<Rightarrow> ETH_PKT \<Rightarrow> u16 \<Rightarrow> ETH_PKT" where
  "add_vlan_tag E k v =
     (let k = set_eth_hdr E k (VTAG \<lparr>TPId = VLAN_TPID, PCP = 0, DEI = 0, VID = ucast v\<rparr>);
          k = k\<lparr>mac_dOverhead := mac_dOverhead k + IEEE801_1Q_TAG_LEN\<rparr>
      in k\<lparr>mac_dPacketSize := mac_dOverhead k + mac_dPayload k\<rparr>)"

definition remove_vlan_tag :: "ETH_ENV \<Rightarrow> ETH_PKT \<Rightarrow> ETH_PKT" where
  "remove_vlan_tag E k =
     (let k = free_eth_hdr E k;
          k = k\<lparr>mac_dOverhead := mac_dOverhead k - IEEE801_1Q_TAG_LEN\<rparr>
      in k\<lparr>mac_dPacketSize := mac_dOverhead k + mac_dPayload k\<rparr>)"

text \<open>A tagged copy leaves by a trunk port.\<close>

definition trunk_port :: "ETH_ENV \<Rightarrow> NETSIM_ID \<Rightarrow> u16 \<Rightarrow> ETH_PKT \<Rightarrow> simtime \<Rightarrow> NETSIM_ID \<Rightarrow> ETH_WORLD \<Rightarrow> ETH_WORLD option" where
  "trunk_port E d v k t i w = do {
     (n, l) \<leftarrow> lan_of E d i w;
     j \<leftarrow> GET_ETH_IF E d n i;
     _ \<leftarrow> assert_c (j < length (ethIfVar l));
     Some (if portState (ethIfVar l ! j) \<noteq> PORTSTATE_BLOCKING
             \<and> fn_NetSim_MAC_Firewall E d i k ACLTYPE_OUTBOUND = ACLACTION_PERMIT
           then send_to_phy E d i (add_vlan_tag E (clear_eth_incoming E (eth_CopyPacket E k)) v) t w
           else w) }"

definition vlan_forward_to_all_trunk :: "ETH_ENV \<Rightarrow> NETSIM_ID \<Rightarrow> ETH_PKT \<Rightarrow> ETH_LAN \<Rightarrow> simtime \<Rightarrow> ETH_WORLD \<Rightarrow> ETH_WORLD option" where
  "vlan_forward_to_all_trunk E d k lan t w = do {
     e \<leftarrow> eth_var w d;
     if \<not> isVLAN e then Some w
     else for_each (trunk_port E d (eth_get_incoming_vlanid E k d) k t)
       (filter (\<lambda>i. \<not> is_port_present_in_lan lan i \<and> i \<noteq> eth_get_incoming_port E k d) (trunkPortIds e)) w }"

definition vlan_forward_to_trunk :: "ETH_ENV \<Rightarrow> NETSIM_ID \<Rightarrow> NETSIM_ID \<Rightarrow> u16 \<Rightarrow> ETH_PKT \<Rightarrow> simtime \<Rightarrow> ETH_WORLD \<Rightarrow> ETH_WORLD option" where
  "vlan_forward_to_trunk E d i v k t w = do {
     e \<leftarrow> eth_var w d;
     if \<not> isVLAN e then Some w
     else for_each (trunk_port E d v k t) (filter (\<lambda>x. x \<noteq> i) (trunkPortIds e)) w }"

definition vlan_macout_forward_packet ::
  "ETH_ENV \<Rightarrow> NETSIM_ID \<Rightarrow> NETSIM_ID \<Rightarrow> u16 \<Rightarrow> NETSIM_ID \<Rightarrow> ETH_PKT \<Rightarrow> simtime \<Rightarrow> ETH_WORLD \<Rightarrow> ETH_WORLD option" where
  "vlan_macout_forward_packet E d i v incoming k t w = do {
     (n, lan) \<leftarrow> lan_of E d i w;
     let port = find_forward_interface E lan k;
     if port \<noteq> 0
     then Some (if fn_NetSim_MAC_Firewall E d port k ACLTYPE_OUTBOUND = ACLACTION_PERMIT \<and> port \<noteq> incoming
                then send_to_phy E d port (clear_eth_incoming E k) t w else w)
     else do {
       w \<leftarrow> vlan_forward_to_trunk E d incoming v k t w;
       flood E d incoming k k t lan w } }"

section \<open>Frames of the network layer\<close>

text \<open>The next frame of the access buffer.\<close>

definition time_env :: "ETH_ENV \<Rightarrow> ETH_WORLD \<Rightarrow> BUFFER_ENV" where
  "time_env E w = (eth_buf_env E)\<lparr>be_dEventTime := ee_dEventTime (eev w)\<rparr>"

definition take_frame :: "ETH_ENV \<Rightarrow> NETSIM_ID \<Rightarrow> NETSIM_ID \<Rightarrow> ETH_WORLD \<Rightarrow> (ETH_PKT option \<times> ETH_WORLD) option" where
  "take_frame E d i w = do {
     (r, b) \<leftarrow> fn_NetSim_GetPacketFromBuffer (time_env E w) (eth_access w d i) True;
     let w = w\<lparr>eth_access := (eth_access w)(d := (eth_access w d)(i := b))\<rparr>;
     (case r of
        None \<Rightarrow> Some (None, w)
      | Some p \<Rightarrow> do {
          k \<leftarrow> waiting w (bp_ptr p);
          Some (Some k, w\<lparr>waiting := (waiting w)(bp_ptr p := None)\<rparr>) }) }"

definition out_frame :: "ETH_ENV \<Rightarrow> NETSIM_ID \<Rightarrow> NETSIM_ID \<Rightarrow> simtime \<Rightarrow> ETH_PKT \<Rightarrow> ETH_WORLD \<Rightarrow> ETH_WORLD option" where
  "out_frame E d i t k w = do {
     let v = eth_get_incoming_vlanid E k d;
     let incoming = eth_get_incoming_port E k d;
     let k = clear_eth_incoming E k;
     if v \<noteq> 0 then vlan_macout_forward_packet E d i v incoming k t w
     else do {
       (n, lan) \<leftarrow> lan_of E d i w;
       let port = (if 1 < length (lan_interfaceId lan) then find_forward_interface E lan k else 0);
       let k = add_mac_header k t;
       if port \<noteq> 0
       then Some (if fn_NetSim_MAC_Firewall E d port k ACLTYPE_OUTBOUND = ACLACTION_PERMIT \<and> port \<noteq> incoming
                  then send_to_phy E d port (clear_eth_incoming E k) t w else w)
       else do {
         w \<leftarrow> flood E d incoming (eth_CopyPacket E k) k t lan w;
         vlan_forward_to_all_trunk E d k lan t w } } }"

partial_function (option) out_loop :: "ETH_ENV \<Rightarrow> NETSIM_ID \<Rightarrow> NETSIM_ID \<Rightarrow> simtime \<Rightarrow> ETH_WORLD \<Rightarrow> ETH_WORLD option" where
  "out_loop E d i t w = do {
     (r, w) \<leftarrow> take_frame E d i w;
     (case r of
        None \<Rightarrow> Some w
      | Some k \<Rightarrow> do { w \<leftarrow> out_frame E d i t k w; out_loop E d i t w }) }"

definition eth_packet_arrive_from_network_layer :: "ETH_ENV \<Rightarrow> ETH_WORLD \<Rightarrow> ETH_WORLD option" where
  "eth_packet_arrive_from_network_layer E w =
     out_loop E (ee_nDeviceId (eev w)) (ee_nInterfaceId (eev w)) (ee_dEventTime (eev w)) w"

definition fn_NetSim_Ethernet_HandleMacOut :: "ETH_ENV \<Rightarrow> ETH_WORLD \<Rightarrow> ETH_WORLD option" where
  "fn_NetSim_Ethernet_HandleMacOut E w =
     (if ee_nSubEventType (eev w) = 0 then eth_packet_arrive_from_network_layer E w
      else if ee_nSubEventType (eev w) = SEND_CONFIG_BPDU then multicast_config_bpdu E w
      else Some (eth_error w))"

section \<open>Frames that arrive\<close>

definition validate_mac_frame :: "ETH_ENV \<Rightarrow> ETH_LAN \<Rightarrow> NETSIM_MACADDRESS \<Rightarrow> bool" where
  "validate_mac_frame E lan mac \<longleftrightarrow> ispromiscuousMode lan \<or> isBroadcastMAC E mac \<or> isMulticastMAC E mac
     \<or> switchingTechnique lan \<noteq> SWITCHINGTECHNIQUE_NULL
     \<or> (\<exists>f \<in> set (take (length (lan_interfaceId lan)) (ethIfVar lan)). MAC_COMPARE E (macAddress f) mac = 0)"

definition check_move_frame_up :: "ETH_ENV \<Rightarrow> NETSIM_ID \<Rightarrow> NETSIM_ID \<Rightarrow> ETH_LAN \<Rightarrow> ETH_PKT \<Rightarrow> simtime \<Rightarrow> ETH_WORLD \<Rightarrow> ETH_WORLD" where
  "check_move_frame_up E d i lan k t w =
     (if validate_mac_frame E lan (eth_szDestMac k)
      then add_eth_event ((app_ids k zero_event)\<lparr>ee_dEventTime := t, ee_dPacketSize := nw_dPacketSize k,
        ee_nDeviceId := d, ee_nDeviceType := eth_deviceType E d, ee_nEventType := NETWORK_IN_EVENT,
        ee_nInterfaceId := i, ee_nPacketId := nPacketId k, ee_nProtocolId := 301, ee_pPacket := Some k\<rparr>) w
      else w\<lparr>eev := (eev w)\<lparr>ee_pPacket := None\<rparr>\<rparr>)"

definition as_buf_frame :: "pid \<Rightarrow> ETH_PKT \<Rightarrow> BUF_PACKET" where
  "as_buf_frame p k = \<lparr>bp_ptr = p, bp_nPacketPriority = priority_value (nPacketPriority k),
     bp_nQOS = qos_value (nQOS k), bp_dEventTime = pk_dEventTime k,
     bp_networkSize = Some (nw_dPacketSize k), bp_macSize = mac_dPacketSize k\<rparr>"

definition forward_packet_to_other_protocol ::
  "ETH_ENV \<Rightarrow> NETSIM_ID \<Rightarrow> ETH_PKT \<Rightarrow> simtime \<Rightarrow> NETSIM_ID \<Rightarrow> ETH_WORLD \<Rightarrow> ETH_WORLD option" where
  "forward_packet_to_other_protocol E d k t i w = do {
     let p = eth_CopyPacket E k;
     (busy, b) \<leftarrow> fn_NetSim_GetBufferStatus (eth_access w d i);
     let w = (if busy then w
              else add_eth_event ((app_ids p zero_event)\<lparr>ee_dEventTime := t, ee_dPacketSize := nw_dPacketSize p,
                ee_nDeviceId := d, ee_nDeviceType := eth_deviceType E d, ee_nEventType := MAC_OUT_EVENT,
                ee_nInterfaceId := i, ee_nPacketId := nPacketId p, ee_nProtocolId := nMacProtocolId E d i\<rparr>) w);
     b \<leftarrow> eth_AddPacketToList E b (as_buf_frame (wnext w) p);
     Some (w\<lparr>eth_access := (eth_access w)(d := (eth_access w d)(i := b)),
       waiting := (waiting w)(wnext w \<mapsto> p), wnext := Suc (wnext w)\<rparr>) }"

definition forward_frame :: "ETH_ENV \<Rightarrow> NETSIM_ID \<Rightarrow> NETSIM_ID \<Rightarrow> ETH_LAN \<Rightarrow> ETH_PKT \<Rightarrow> simtime \<Rightarrow> ETH_WORLD \<Rightarrow> ETH_WORLD option" where
  "forward_frame E d i lan k t w = do {
     let f = find_forward_interface E lan k;
     if f \<noteq> 0
     then Some (if fn_NetSim_MAC_Firewall E d f k ACLTYPE_OUTBOUND = ACLACTION_PERMIT
                then send_to_phy E d f (clear_eth_incoming E k) t w else w)
     else if eth_deviceType E d = SWITCH
     then do {
       w \<leftarrow> flood E d i k k t lan w;
       vlan_forward_to_all_trunk E d k lan t w }
     else if lanIP lan = None
     then for_each (forward_packet_to_other_protocol E d k t)
            (filter (\<lambda>j. j \<noteq> i \<and> \<not> isVirtualInterface E d j) [1..<Suc (eth_nNumOfInterface E d)]) w
     else Some w }"

definition vlan_macin_forward_packet :: "ETH_ENV \<Rightarrow> ETH_PKT \<Rightarrow> ETH_WORLD \<Rightarrow> ETH_WORLD option" where
  "vlan_macin_forward_packet E k w = do {
     let d = ee_nDeviceId (eev w);
     let i = ee_nInterfaceId (eev w);
     let t = ee_dEventTime (eev w);
     let v = eth_get_incoming_vlanid E k d;
     (n, lan) \<leftarrow> lan_of E d i w;
     if lanIP lan \<noteq> None then Some (check_move_frame_up E d i lan k t w)
     else do {
       l \<leftarrow> get_vlan d v w;
       (case l of
          None \<Rightarrow> do {
            w \<leftarrow> vlan_forward_to_trunk E d i v k t w;
            Some (w\<lparr>eev := (eev w)\<lparr>ee_pPacket := None\<rparr>\<rparr>) }
        | Some lan \<Rightarrow> do {
            let f = find_forward_interface E lan k;
            if f \<noteq> 0
            then Some (if fn_NetSim_MAC_Firewall E d f k ACLTYPE_OUTBOUND = ACLACTION_PERMIT \<and> f \<noteq> i
                       then send_to_phy E d f (clear_eth_incoming E k) t w
                       else w\<lparr>eev := (eev w)\<lparr>ee_pPacket := None\<rparr>\<rparr>)
            else do {
              w \<leftarrow> vlan_forward_to_trunk E d i v k t w;
              w \<leftarrow> flood E d i k k t lan w;
              Some (w\<lparr>eev := (eev w)\<lparr>ee_pPacket := None\<rparr>\<rparr>) } }) } }"

definition decide_move_up :: "ETH_LAN \<Rightarrow> bool" where
  "decide_move_up lan = (lanIP lan \<noteq> None)"

definition ethernet_mac_process_frame :: "ETH_ENV \<Rightarrow> ETH_WORLD \<Rightarrow> ETH_WORLD option" where
  "ethernet_mac_process_frame E w = do {
     let d = ee_nDeviceId (eev w);
     let i = ee_nInterfaceId (eev w);
     let t = ee_dEventTime (eev w);
     k \<leftarrow> ee_pPacket (eev w);
     if fn_NetSim_MAC_Firewall E d i k ACLTYPE_INBOUND = ACLACTION_DENY then Some w
     else do {
       (n, lan) \<leftarrow> lan_of E d i w;
       let lan = (if switchingTechnique lan \<noteq> SWITCHINGTECHNIQUE_NULL
                  then SWITCHTABLE_NEW E (eth_szSourceMac k) i lan else lan);
       w \<leftarrow> set_lan d n lan w;
       let tagged = isVLANTagPresent E k;
       let k = store_eth_param_macin E k d i lan;
       if decide_move_up lan then Some (check_move_frame_up E d i lan k t w)
       else if tagged then vlan_macin_forward_packet E k w
       else forward_frame E d i lan k t w } }"

definition fn_NetSim_Ethernet_HandleMacIn :: "ETH_ENV \<Rightarrow> ETH_WORLD \<Rightarrow> ETH_WORLD option" where
  "fn_NetSim_Ethernet_HandleMacIn E w = do {
     k \<leftarrow> ee_pPacket (eev w);
     if nControlDataType k = ETH_CONFIGBPDU then process_configbpdu E w
     else ethernet_mac_process_frame E w }"

end
