(* ===== verification/Eth_Phy.thy ===== *)
theory Eth_Phy
  imports Eth_Mac
begin

text \<open>
  The link of a port (\<open>Ethernet/Ethernet_Phy.c\<close>) and the events of the library
  (\<open>Ethernet/Ethernet.c\<close>): frames wait in the buffer of the port while one is on the wire.
\<close>

section \<open>The buffer of a port\<close>

definition set_phy :: "NETSIM_ID \<Rightarrow> NETSIM_ID \<Rightarrow> ETH_PHY \<Rightarrow> ETH_WORLD \<Rightarrow> ETH_WORLD" where
  "set_phy d i phy w = w\<lparr>eth_phy := (eth_phy w)(d := (eth_phy w d)(i := phy))\<rparr>"

text \<open>The whole access buffer is copied, its counts too; the frames are not.\<close>

definition init_eth_phy_buffer :: "NETSIM_ID \<Rightarrow> ETH_WORLD \<Rightarrow> ETH_PHY \<Rightarrow> ETH_PHY" where
  "init_eth_phy_buffer d w phy =
     phy\<lparr>phy_packet := Some ((eth_access w d (phy_interfaceId phy))\<lparr>pstruPacketlist := Chain []\<rparr>)\<rparr>"

definition eth_phy_packet_add_to_list ::
  "ETH_ENV \<Rightarrow> NETSIM_ID \<Rightarrow> NETSIM_ID \<Rightarrow> ETH_PKT option \<Rightarrow> ETH_WORLD \<Rightarrow> ETH_WORLD option" where
  "eth_phy_packet_add_to_list E d i packet w = (case packet of
       None \<Rightarrow> Some w
     | Some k \<Rightarrow> do {
         let phy = eth_phy w d i;
         let phy = (if phy_packet phy = None then init_eth_phy_buffer d w phy else phy);
         b \<leftarrow> phy_packet phy;
         b \<leftarrow> eth_AddPacketToList E b (as_buf_frame (wnext w) k);
         Some (set_phy d i (phy\<lparr>phy_packet := Some b\<rparr>)
           (w\<lparr>waiting := (waiting w)(wnext w \<mapsto> k), wnext := Suc (wnext w)\<rparr>)) })"

definition get_phy_frame :: "ETH_ENV \<Rightarrow> NETSIM_ID \<Rightarrow> NETSIM_ID \<Rightarrow> bool \<Rightarrow> ETH_WORLD \<Rightarrow> (ETH_PKT option \<times> ETH_WORLD) option" where
  "get_phy_frame E d i flag w = (case phy_packet (eth_phy w d i) of
       None \<Rightarrow> Some (None, w)
     | Some b \<Rightarrow> do {
         (r, b) \<leftarrow> fn_NetSim_GetPacketFromBuffer (time_env E w) b flag;
         let w = set_phy d i ((eth_phy w d i)\<lparr>phy_packet := Some b\<rparr>) w;
         (case r of
            None \<Rightarrow> Some (None, w)
          | Some p \<Rightarrow> do {
              k \<leftarrow> waiting w (bp_ptr p);
              Some (Some k, if flag then w\<lparr>waiting := (waiting w)(bp_ptr p := None)\<rparr> else w) }) })"

definition eth_phy_packet_get_from_list :: "ETH_ENV \<Rightarrow> NETSIM_ID \<Rightarrow> NETSIM_ID \<Rightarrow> ETH_WORLD \<Rightarrow> (ETH_PKT option \<times> ETH_WORLD) option" where
  "eth_phy_packet_get_from_list E d i w = get_phy_frame E d i True w"

definition isPhyHasPacket :: "NETSIM_ID \<Rightarrow> NETSIM_ID \<Rightarrow> ETH_WORLD \<Rightarrow> (bool \<times> ETH_WORLD) option" where
  "isPhyHasPacket d i w = (case phy_packet (eth_phy w d i) of
       None \<Rightarrow> Some (False, w)
     | Some b \<Rightarrow> do {
         (s, b) \<leftarrow> fn_NetSim_GetBufferStatus b;
         Some (s, set_phy d i ((eth_phy w d i)\<lparr>phy_packet := Some b\<rparr>) w) })"

section \<open>Transmission\<close>

definition calculate_txtime :: "ETH_PHY \<Rightarrow> real \<Rightarrow> simtime" where
  "calculate_txtime phy bytes = (bytes * 8) / phy_speed phy"

definition eth_phy_packet_set_param :: "ETH_PKT \<Rightarrow> simtime \<Rightarrow> simtime \<Rightarrow> simtime \<Rightarrow> ETH_PKT" where
  "eth_phy_packet_set_param k start end1 tx = k\<lparr>phy_dArrivalTime := start, phy_dEndTime := end1, phy_dOverhead := 0,
     phy_dPacketSize := mac_dPacketSize k, phy_dPayload := mac_dPacketSize k, phy_dStartTime := start + tx,
     nPhyMedium := PHY_MEDIUM_WIRED\<rparr>"

definition eth_phy_add_phy_in :: "ETH_ENV \<Rightarrow> ETH_PKT \<Rightarrow> NETSIM_ID \<Rightarrow> NETSIM_ID \<Rightarrow> ETH_WORLD \<Rightarrow> ETH_WORLD" where
  "eth_phy_add_phy_in E k c ci w =
     (let k = k\<lparr>nReceiverId := c, nTransmitterId := ee_nDeviceId (eev w)\<rparr> in
      add_eth_event ((app_ids k zero_event)\<lparr>ee_dEventTime := phy_dEndTime k, ee_dPacketSize := phy_dPacketSize k,
        ee_nDeviceId := c, ee_nDeviceType := eth_deviceType E c, ee_nEventType := PHYSICAL_IN_EVENT,
        ee_nInterfaceId := ci, ee_nPacketId := nPacketId k, ee_nProtocolId := MAC_PROTOCOL_IEEE802_3,
        ee_pPacket := Some k\<rparr>) w)"

definition eth_phy_add_phy_out :: "simtime \<Rightarrow> ETH_PKT \<Rightarrow> ETH_WORLD \<Rightarrow> ETH_WORLD" where
  "eth_phy_add_phy_out t k w = add_eth_event ((app_ids k ((eev w)\<lparr>ee_nApplicationId := 0, ee_nSegmentId := 0\<rparr>))
     \<lparr>ee_dEventTime := t, ee_dPacketSize := mac_dPacketSize k, ee_nPacketId := nPacketId k,
      ee_nSubEventType := 0, ee_pPacket := None\<rparr>) w"

text \<open>The label \<open>ADD_NEXT\<close>.\<close>

definition phy_add_next :: "ETH_ENV \<Rightarrow> NETSIM_ID \<Rightarrow> NETSIM_ID \<Rightarrow> ETH_WORLD \<Rightarrow> ETH_WORLD option" where
  "phy_add_next E d i w = do {
     (s, w) \<leftarrow> isPhyHasPacket d i w;
     if s then do {
       (r, w) \<leftarrow> get_phy_frame E d i False w;
       k \<leftarrow> r;
       Some (eth_phy_add_phy_out (lastPacketEndTime (eth_phy w d i)) k w) }
     else Some w }"

definition phy_transmit :: "ETH_ENV \<Rightarrow> NETSIM_ID \<Rightarrow> NETSIM_ID \<Rightarrow> ETH_PKT \<Rightarrow> ETH_WORLD \<Rightarrow> ETH_WORLD" where
  "phy_transmit E d i k w =
     (let phy = eth_phy w d i;
          t = ee_dEventTime (eev w);
          start = (if lastPacketEndTime phy + IFG phy \<le> t then t else lastPacketEndTime phy + IFG phy);
          tx = calculate_txtime phy (mac_dPacketSize k);
          k = eth_phy_packet_set_param k start (start + tx + propagationDelay phy) tx;
          w = eth_phy_add_phy_in E k (connectedDevice phy) (connectedInterface phy) w
      in set_phy d i (phy\<lparr>lastPacketEndTime := start + tx\<rparr>) w)"

definition fn_NetSim_Ethernet_HandlePhyOut :: "ETH_ENV \<Rightarrow> ETH_WORLD \<Rightarrow> ETH_WORLD option" where
  "fn_NetSim_Ethernet_HandlePhyOut E w = do {
     let d = ee_nDeviceId (eev w);
     let i = ee_nInterfaceId (eev w);
     (busy, w) \<leftarrow> isPhyHasPacket d i w;
     w \<leftarrow> eth_phy_packet_add_to_list E d i (ee_pPacket (eev w)) w;
     if lastPacketEndTime (eth_phy w d i) > ee_dEventTime (eev w)
     then (if \<not> busy then phy_add_next E d i w else Some w)
     else do {
       (r, w) \<leftarrow> eth_phy_packet_get_from_list E d i w;
       (case r of
          None \<Rightarrow> Some w
        | Some k \<Rightarrow> phy_add_next E d i (phy_transmit E d i k w)) } }"

text \<open>A dropped frame is not passed on.\<close>

definition fn_NetSim_Ethernet_HandlePhyIn :: "ETH_ENV \<Rightarrow> ETH_WORLD \<Rightarrow> ETH_WORLD option" where
  "fn_NetSim_Ethernet_HandlePhyIn E w = do {
     k \<leftarrow> ee_pPacket (eev w);
     let phy = eth_phy w (ee_nDeviceId (eev w)) (ee_nInterfaceId (eev w));
     let s = DecideError E (errors_drawn w) (BER phy) (phy_dPacketSize k);
     let w = (if isErrorChkReqd phy
              then w\<lparr>errors_drawn := Suc (errors_drawn w), eev := (eev w)\<lparr>ee_pPacket := Some (k\<lparr>nPacketStatus := s\<rparr>)\<rparr>\<rparr>
              else w);
     if isErrorChkReqd phy \<and> s \<noteq> PacketStatus_NoError then Some w
     else do {
       let e = (eev w)\<lparr>ee_nEventType := MAC_IN_EVENT\<rparr>;
       Some (add_eth_event e (w\<lparr>eev := e\<rparr>)) } }"

section \<open>The events of the library\<close>

text \<open>\<open>up\<close> is \<open>notify_interface_up\<close>, whose effect is not in the sources.\<close>

definition fn_NetSim_Ethernet_HandleTimer :: "(NETSIM_ID \<Rightarrow> NETSIM_ID \<Rightarrow> ETH_WORLD \<Rightarrow> ETH_WORLD option) \<Rightarrow> ETH_WORLD \<Rightarrow> ETH_WORLD option" where
  "fn_NetSim_Ethernet_HandleTimer up w =
     (if ee_nSubEventType (eev w) = ETH_IF_UP then up (ee_nDeviceId (eev w)) (ee_nInterfaceId (eev w)) w
      else Some (eth_error w))"

definition fn_NetSim_Ethernet_Run ::
  "ETH_ENV \<Rightarrow> (NETSIM_ID \<Rightarrow> NETSIM_ID \<Rightarrow> ETH_WORLD \<Rightarrow> ETH_WORLD option) \<Rightarrow> ETH_WORLD \<Rightarrow> ETH_WORLD option" where
  "fn_NetSim_Ethernet_Run E up w = (case ee_nEventType (eev w) of
       MAC_OUT_EVENT \<Rightarrow> fn_NetSim_Ethernet_HandleMacOut E w
     | MAC_IN_EVENT \<Rightarrow> fn_NetSim_Ethernet_HandleMacIn E w
     | PHYSICAL_OUT_EVENT \<Rightarrow> fn_NetSim_Ethernet_HandlePhyOut E w
     | PHYSICAL_IN_EVENT \<Rightarrow> fn_NetSim_Ethernet_HandlePhyIn E w
     | TIMER_EVENT \<Rightarrow> fn_NetSim_Ethernet_HandleTimer up w
     | _ \<Rightarrow> Some (eth_error w))"

end
