(* ===== verification/Netsim_Election.thy ===== *)
theory Netsim_Election
  imports Netsim_Prelude "HOL-Library.Multiset"
begin

text \<open>
  Election of a root and of shortest paths to it by messages, the contract of the spanning tree
  protocol: every node starts with its own identifier at distance 0 and tells its neighbours; a
  node that hears of a lower identifier, or of a shorter way to the same one, adopts it and tells
  the other neighbours.  Messages arrive in any order.
\<close>

section \<open>Labels\<close>

definition better :: "'k::linorder \<times> nat \<Rightarrow> 'k \<times> nat \<Rightarrow> bool" where
  "better a b \<longleftrightarrow> fst a < fst b \<or> fst a = fst b \<and> snd a < snd b"

lemma better_trans: "better a b \<Longrightarrow> better b c \<Longrightarrow> better a c"
  by (auto simp: better_def)

lemma better_irrefl [simp]: "\<not> better a a"
  by (simp add: better_def)

lemma not_better_trans: "\<not> better b a \<Longrightarrow> \<not> better c b \<Longrightarrow> \<not> better c a"
  by (auto simp: better_def)

lemma better_asym: "better a b \<Longrightarrow> \<not> better b a"
  by (auto simp: better_def)

type_synonym ('v, 'k) label_message = "'v \<times> 'v \<times> 'k \<times> nat"
type_synonym ('v, 'k) label_state = "('v \<Rightarrow> 'k \<times> nat) \<times> ('v, 'k) label_message multiset"

section \<open>The protocol\<close>

locale label_election =
  fixes V :: "'v set" and nb :: "'v \<Rightarrow> 'v set" and wt :: "'v \<Rightarrow> nat" and ident :: "'v \<Rightarrow> 'k::linorder"
  assumes finite_nodes: "finite V"
    and neighbours: "v \<in> V \<Longrightarrow> nb v \<subseteq> V - {v}"
    and symmetric: "v \<in> V \<Longrightarrow> u \<in> nb v \<Longrightarrow> v \<in> nb u"
begin

lemma finite_nb [simp]: "v \<in> V \<Longrightarrow> finite (nb v)"
  using finite_nodes neighbours [of v] by (auto intro: finite_subset)

lemma nb_node: "v \<in> V \<Longrightarrow> u \<in> nb v \<Longrightarrow> u \<in> V \<and> u \<noteq> v"
  using neighbours by blast

definition tell :: "'v \<Rightarrow> 'k \<Rightarrow> nat \<Rightarrow> 'v set \<Rightarrow> ('v, 'k) label_message multiset" where
  "tell v k c X = image_mset (\<lambda>x. (v, x, k, c + wt v)) (mset_set X)"

definition start_state :: "('v, 'k) label_state" where
  "start_state = (\<lambda>v. (ident v, 0), \<Sum>v \<in> V. tell v (ident v) 0 (nb v))"

inductive deliver :: "('v, 'k) label_state \<Rightarrow> ('v, 'k) label_state \<Rightarrow> bool" where
  adopt: "better (k, c) (l v) \<Longrightarrow>
     deliver (l, add_mset (u, v, k, c) M) (l(v := (k, c)), M + tell v k c (nb v - {u}))"
| ignore: "\<not> better (k, c) (l v) \<Longrightarrow> deliver (l, add_mset (u, v, k, c) M) (l, M)"

abbreviation reached :: "('v, 'k) label_state \<Rightarrow> bool" where
  "reached s \<equiv> deliver\<^sup>*\<^sup>* start_state s"

section \<open>Where a label comes from\<close>

definition weight :: "'v list \<Rightarrow> nat" where
  "weight xs = sum_list (map wt xs)"

definition route :: "'v list \<Rightarrow> bool" where
  "route xs \<longleftrightarrow> xs \<noteq> [] \<and> set xs \<subseteq> V \<and> (\<forall>i. Suc i < length xs \<longrightarrow> xs ! Suc i \<in> nb (xs ! i))"

text \<open>
  The way along which the label \<open>k, c\<close> came to the last node: every node on it has a label that is
  at least as good as the one it passed on.
\<close>

definition trail :: "('v \<Rightarrow> 'k \<times> nat) \<Rightarrow> 'v \<Rightarrow> 'k \<Rightarrow> nat \<Rightarrow> 'v list \<Rightarrow> bool" where
  "trail l v k c xs \<longleftrightarrow> route xs \<and> distinct xs \<and> last xs = v \<and> ident (hd xs) = k \<and> c = weight (butlast xs)
     \<and> (\<forall>i < length xs. \<not> better (k, weight (take i xs)) (l (xs ! i)))"

definition labelled :: "('v \<Rightarrow> 'k \<times> nat) \<Rightarrow> 'v \<Rightarrow> bool" where
  "labelled l v \<longleftrightarrow> (\<exists>xs. trail l v (fst (l v)) (snd (l v)) xs)"

definition told :: "('v \<Rightarrow> 'k \<times> nat) \<Rightarrow> ('v, 'k) label_message \<Rightarrow> bool" where
  "told l m \<longleftrightarrow> (case m of (u, v, k, c) \<Rightarrow>
     u \<in> V \<and> v \<in> nb u \<and> (\<exists>xs. trail l u k (weight (butlast xs)) xs \<and> c = weight xs))"

definition known :: "('v, 'k) label_state \<Rightarrow> bool" where
  "known s \<longleftrightarrow> (\<forall>v \<in> V. labelled (fst s) v) \<and> (\<forall>m \<in># snd s. told (fst s) m)"

lemma weight_simps [simp]: "weight [] = 0" "weight (x # xs) = wt x + weight xs" "weight (xs @ ys) = weight xs + weight ys"
  by (simp_all add: weight_def)

lemma weight_last: "xs \<noteq> [] \<Longrightarrow> weight xs = weight (butlast xs) + wt (last xs)"
  using weight_simps(3) [of "butlast xs" "[last xs]"] by simp

lemma weight_take: "weight (take i xs) \<le> weight xs"
  using weight_simps(3) [of "take i xs" "drop i xs"] by simp

text \<open>Labels only improve.\<close>

lemma trail_mono:
  assumes "trail l v k c xs" "\<And>x. x \<in> V \<Longrightarrow> \<not> better (l x) (l' x)"
  shows "trail l' v k c xs"
proof -
  have "\<not> better (k, weight (take i xs)) (l' (xs ! i))" if i: "i < length xs" for i
  proof -
    have "xs ! i \<in> V"
      using assms(1) i by (auto simp: trail_def route_def)
    then show ?thesis
      using assms i not_better_trans [of "l (xs ! i)" "l' (xs ! i)"] by (auto simp: trail_def)
  qed
  with assms(1) show ?thesis
    by (simp add: trail_def)
qed

lemma trail_at_end: "trail l v k c xs \<Longrightarrow> \<not> better (k, c) (l v)"
proof -
  assume t: "trail l v k c xs"
  then have xs: "xs \<noteq> []" "last xs = v" "c = weight (butlast xs)"
    by (simp_all add: trail_def route_def)
  then have "take (length xs - 1) xs = butlast xs" "xs ! (length xs - 1) = v"
    by (simp_all add: butlast_conv_take last_conv_nth)
  moreover have "length xs - 1 < length xs" using xs by simp
  ultimately show ?thesis
    using t xs unfolding trail_def by metis
qed

text \<open>The label with a node's own identifier has distance 0.\<close>

lemma own_distance:
  assumes "inj_on ident V" "labelled l v" "fst (l v) = ident v" "v \<in> V"
  shows "snd (l v) = 0"
proof -
  from assms(2) obtain xs where xs: "trail l v (fst (l v)) (snd (l v)) xs"
    by (auto simp: labelled_def)
  then have "hd xs \<in> V" "ident (hd xs) = ident v" "distinct xs" "last xs = v" "snd (l v) = weight (butlast xs)"
    using assms(3) by (auto simp: trail_def route_def)
  moreover from this have "hd xs = v"
    using inj_onD [OF assms(1)] assms(4) by blast
  ultimately show ?thesis
    by (cases xs) (auto split: if_splits)
qed

text \<open>A node that adopts a label is not on its way yet.\<close>

lemma trail_new:
  assumes t: "trail l u k (weight (butlast xs)) xs" and v: "v \<in> nb u" and b: "better (k, weight xs) (l v)"
  shows "trail (l(v := (k, weight xs))) v k (weight xs) (xs @ [v])"
proof -
  have xs: "xs \<noteq> []" "last xs = u" "set xs \<subseteq> V" "distinct xs"
    and r: "\<And>i. Suc i < length xs \<Longrightarrow> xs ! Suc i \<in> nb (xs ! i)"
    and up: "\<And>i. i < length xs \<Longrightarrow> \<not> better (k, weight (take i xs)) (l (xs ! i))"
    using t by (auto simp: trail_def route_def)
  have u: "u \<in> V" using xs last_in_set by blast
  have fresh: "v \<notin> set xs"
  proof
    assume "v \<in> set xs"
    then obtain i where i: "i < length xs" "xs ! i = v" by (auto simp: in_set_conv_nth)
    with up [of i] b weight_take [of i xs] show False
      by (auto simp: better_def)
  qed
  have "(xs @ [v]) ! Suc i \<in> nb ((xs @ [v]) ! i)" if "Suc i < length (xs @ [v])" for i
  proof (cases "Suc i < length xs")
    case True
    with r show ?thesis by (simp add: nth_append)
  next
    case False
    with that have "Suc i = length xs" by simp
    moreover from this have "i = length xs - 1" by simp
    ultimately have "xs ! i = u" "(xs @ [v]) ! Suc i = v" "i < length xs"
      using xs by (auto simp: last_conv_nth nth_append)
    with v show ?thesis by (simp add: nth_append)
  qed
  moreover have "\<not> better (k, weight (take i (xs @ [v]))) ((l(v := (k, weight xs))) ((xs @ [v]) ! i))"
    if "i < length (xs @ [v])" for i
  proof (cases "i < length xs")
    case True
    with fresh have "xs ! i \<noteq> v" by auto
    with True up [of i] show ?thesis by (simp add: nth_append)
  next
    case False
    with that show ?thesis by (simp add: nth_append)
  qed
  ultimately show ?thesis
    using xs fresh u v t nb_node [of u v] by (auto simp: trail_def route_def)
qed

lemma trail_start: "v \<in> V \<Longrightarrow> trail (fst start_state) v (ident v) 0 [v]"
  by (simp add: trail_def route_def start_state_def)

lemma in_tell: "finite X \<Longrightarrow> m \<in># tell v k c X \<longleftrightarrow> (\<exists>x \<in> X. m = (v, x, k, c + wt v))"
  by (auto simp: tell_def)

lemma in_start: "m \<in># snd start_state \<longleftrightarrow> (\<exists>v \<in> V. \<exists>x \<in> nb v. m = (v, x, ident v, wt v))"
  using finite_nodes by (auto simp: start_state_def in_tell set_mset_sum)

lemma start_known: "known start_state"
proof -
  have "labelled (fst start_state) v" if "v \<in> V" for v
    using trail_start [OF that] by (auto simp: start_state_def labelled_def)
  moreover have "told (fst start_state) (v, x, ident v, wt v)" if "v \<in> V" "x \<in> nb v" for v x
    using trail_start [OF that(1)] that by (auto simp: told_def intro!: exI [of _ "[v]"])
  ultimately show ?thesis
    unfolding known_def by (auto simp: in_start)
qed

lemma labelled_mono: "labelled l v \<Longrightarrow> l' v = l v \<Longrightarrow> (\<And>x. \<not> better (l x) (l' x)) \<Longrightarrow> labelled l' v"
  using trail_mono unfolding labelled_def by metis

lemma told_mono: "told l m \<Longrightarrow> (\<And>x. \<not> better (l x) (l' x)) \<Longrightarrow> told l' m"
  using trail_mono unfolding told_def by (fastforce split: prod.splits)

lemma told_new:
  assumes "told l (u, v, k, c)" "better (k, c) (l v)"
  shows "labelled (l(v := (k, c))) v" and "x \<in> nb v \<Longrightarrow> told (l(v := (k, c))) (v, x, k, c + wt v)"
proof -
  from assms(1) obtain xs where m: "u \<in> V" "v \<in> nb u" "trail l u k (weight (butlast xs)) xs" "c = weight xs"
    by (auto simp: told_def)
  have new: "trail (l(v := (k, c))) v k c (xs @ [v])"
    using trail_new [OF m(3,2)] assms(2) m(4) by simp
  then show "labelled (l(v := (k, c))) v"
    by (auto simp: labelled_def)
  have "v \<in> V"
    using nb_node m by blast
  with new m(4) show "told (l(v := (k, c))) (v, x, k, c + wt v)" if "x \<in> nb v"
    using that by (auto simp: told_def simp del: fun_upd_apply intro!: exI [of _ "xs @ [v]"])
qed

lemma told_node: "told l (u, v, k, c) \<Longrightarrow> u \<in> V \<and> v \<in> V \<and> v \<in> nb u \<and> u \<in> nb v"
  using nb_node symmetric by (auto simp: told_def)

lemma known_deliver: "deliver s s' \<Longrightarrow> known s \<Longrightarrow> known s'"
proof (induction rule: deliver.induct)
  case (adopt k c l v u M)
  let ?l = "l(v := (k, c))"
  have m: "told l (u, v, k, c)"
    using adopt.prems by (simp add: known_def)
  have imp: "\<not> better (l x) (?l x)" for x
    using better_asym [OF adopt.hyps] by simp
  have "labelled ?l x" if "x \<in> V" for x
    using told_new(1) [OF m adopt.hyps] labelled_mono [of l x ?l] imp adopt.prems that
    by (cases "x = v") (auto simp: known_def)
  moreover have "told ?l y" if y: "y \<in># M + tell v k c (nb v - {u})" for y
  proof (cases "y \<in># M")
    case True
    with adopt.prems show ?thesis
      by (intro told_mono [OF _ imp]) (simp add: known_def)
  next
    case False
    with y told_node [OF m] obtain x where "x \<in> nb v" "y = (v, x, k, c + wt v)"
      by (auto simp: in_tell)
    with told_new(2) [OF m adopt.hyps] show ?thesis by simp
  qed
  ultimately show ?case
    unfolding known_def fst_conv snd_conv by blast
next
  case (ignore k c l v u M)
  then show ?case by (simp add: known_def)
qed

lemma known_reached: "reached s \<Longrightarrow> known s"
  by (induction rule: rtranclp_induct) (use start_known known_deliver in auto)

section \<open>What a quiet state has\<close>

text \<open>A neighbour has heard of the label, or the message is on its way.\<close>

definition spread :: "('v, 'k) label_state \<Rightarrow> bool" where
  "spread s \<longleftrightarrow> (\<forall>u \<in> V. \<forall>x \<in> nb u. let (k, c) = fst s u in
     \<not> better (k, c + wt u) (fst s x) \<or> (u, x, k, c + wt u) \<in># snd s)"

lemma start_spread: "spread start_state"
  unfolding spread_def by (auto simp: in_start) (auto simp: start_state_def)

lemma told_sender: "told l (u, v, k, c) \<Longrightarrow> \<not> better (k, c) (l u)"
proof -
  assume "told l (u, v, k, c)"
  then obtain xs where "trail l u k (weight (butlast xs)) xs" "c = weight xs"
    by (auto simp: told_def)
  then show ?thesis
    using trail_at_end [of l u k "weight (butlast xs)" xs] weight_last [of xs]
    by (auto simp: trail_def route_def better_def)
qed

lemma spread_deliver: "deliver s s' \<Longrightarrow> known s \<Longrightarrow> spread s \<Longrightarrow> spread s'"
proof (induction rule: deliver.induct)
  case (adopt k c l v u M)
  let ?l = "l(v := (k, c))"
  have m: "told l (u, v, k, c)"
    using adopt.prems by (simp add: known_def)
  have imp: "\<not> better (l x) (?l x)" for x
    using better_asym [OF adopt.hyps] by simp
  have "\<not> better (fst (?l w), snd (?l w) + wt w) (?l x) \<or> (w, x, fst (?l w), snd (?l w) + wt w) \<in># M + tell v k c (nb v - {u})"
    if w: "w \<in> V" "x \<in> nb w" for w x
  proof (cases "w = v")
    case True
    show ?thesis
    proof (cases "x = u")
      case True
      with told_sender [OF m] told_node [OF m] nb_node [of u v] \<open>w = v\<close> show ?thesis
        by (auto simp: better_def)
    next
      case False
      with \<open>w = v\<close> w told_node [OF m] show ?thesis by (auto simp: in_tell)
    qed
  next
    case False
    with adopt.prems(2) w have "\<not> better (fst (l w), snd (l w) + wt w) (l x) \<or>
        (w, x, fst (l w), snd (l w) + wt w) \<in># add_mset (u, v, k, c) M"
      by (fastforce simp: spread_def)
    then show ?thesis
    proof
      assume "\<not> better (fst (l w), snd (l w) + wt w) (l x)"
      with False imp [of x] not_better_trans show ?thesis by fastforce
    next
      assume "(w, x, fst (l w), snd (l w) + wt w) \<in># add_mset (u, v, k, c) M"
      with False show ?thesis by auto
    qed
  qed
  then show ?case
    unfolding spread_def by (auto simp: case_prod_beta simp del: fun_upd_apply)
next
  case (ignore k c l v u M)
  then show ?case
    unfolding spread_def by (fastforce simp: case_prod_beta)
qed

lemma spread_reached: "reached s \<Longrightarrow> spread s"
  by (induction rule: rtranclp_induct) (use start_spread spread_deliver known_reached in auto)

lemma quiet_labels:
  assumes "reached (l, {#})" "u \<in> V" "x \<in> nb u"
  shows "\<not> better (fst (l u), snd (l u) + wt u) (l x)"
  using spread_reached [OF assms(1)] assms(2,3) by (fastforce simp: spread_def)

lemma route_simps: "route (x # y # xs) \<longleftrightarrow> x \<in> V \<and> y \<in> nb x \<and> route (y # xs)"
proof
  assume r: "route (x # y # xs)"
  then have "y \<in> nb x" unfolding route_def by (auto dest: spec [of _ 0])
  moreover have "ys ! Suc i \<in> nb (ys ! i)" if "Suc i < length ys" "ys = y # xs" for i ys
    using r that unfolding route_def by (auto dest: spec [of _ "Suc i"])
  ultimately show "x \<in> V \<and> y \<in> nb x \<and> route (y # xs)"
    using r by (auto simp: route_def)
next
  assume r: "x \<in> V \<and> y \<in> nb x \<and> route (y # xs)"
  have "(x # y # xs) ! Suc i \<in> nb ((x # y # xs) ! i)" if "Suc i < length (x # y # xs)" for i
    using r that by (cases i) (auto simp: route_def)
  with r show "route (x # y # xs)"
    by (auto simp: route_def)
qed

lemma quiet_route:
  assumes "reached (l, {#})"
  shows "route xs \<Longrightarrow> \<not> better (fst (l (hd xs)), snd (l (hd xs)) + weight (butlast xs)) (l (last xs))"
proof (induction xs rule: induct_list012)
  case (3 x y zs)
  then have r: "x \<in> V" "y \<in> nb x" "route (y # zs)"
    by (simp_all add: route_simps)
  have "\<not> better (fst (l x), snd (l x) + wt x) (l y)"
    using quiet_labels [OF assms r(1,2)] .
  moreover have "\<not> better (fst (l y), snd (l y) + weight (butlast (y # zs))) (l (last (y # zs)))"
    using "3.IH"(2) [OF r(3)] by simp
  ultimately show ?case
    by (cases "fst (l x) = fst (l y)") (auto simp: better_def)
qed (auto simp: route_def better_def)

lemma own_label: "reached s \<Longrightarrow> \<not> better (ident v, 0) (fst s v)"
proof (induction rule: rtranclp_induct)
  case base
  then show ?case by (simp add: start_state_def)
next
  case (step s s')
  from step.hyps(2) have "\<not> better (fst s v) (fst s' v)"
    by (cases rule: deliver.cases) (auto dest: better_asym)
  with step.IH not_better_trans show ?case by blast
qed

definition joined :: bool where
  "joined \<longleftrightarrow> (\<forall>u \<in> V. \<forall>v \<in> V. \<exists>xs. route xs \<and> hd xs = u \<and> last xs = v)"

text \<open>The nodes agree on the lowest identifier.\<close>

lemma quiet_root:
  assumes q: "reached (l, {#})" and c: joined and v: "v \<in> V"
  shows "fst (l v) = Min (ident ` V)"
proof -
  have fin: "finite (ident ` V)" "ident ` V \<noteq> {}"
    using finite_nodes v by auto
  then obtain r where r: "r \<in> V" "ident r = Min (ident ` V)"
    using Min_in [OF fin] by (metis imageE)
  have "labelled l v"
    using known_reached [OF q] v by (simp add: known_def)
  then obtain ys where "route ys" "ident (hd ys) = fst (l v)"
    by (auto simp: labelled_def trail_def)
  then have "hd ys \<in> V" "ident (hd ys) = fst (l v)"
    by (auto simp: route_def)
  then have "fst (l v) \<in> ident ` V"
    by (metis image_eqI)
  then have ge: "Min (ident ` V) \<le> fst (l v)"
    using fin by simp
  obtain xs where xs: "route xs" "hd xs = r" "last xs = v"
    using c r v by (auto simp: joined_def)
  have "fst (l v) \<le> fst (l r)"
    using quiet_route [OF q xs(1)] xs by (auto simp: better_def)
  also have "\<dots> \<le> ident r"
    using own_label [OF q, of r] by (auto simp: better_def)
  finally show ?thesis
    using ge r by simp
qed

text \<open>The distance is that of a shortest route from the root.\<close>

lemma quiet_distance:
  assumes identifiers: "inj_on ident V" and q: "reached (l, {#})" and c: joined
    and r: "r \<in> V" "ident r = Min (ident ` V)" and v: "v \<in> V"
  shows "(\<exists>xs. route xs \<and> hd xs = r \<and> last xs = v \<and> snd (l v) = weight (butlast xs))"
    and "route xs \<Longrightarrow> hd xs = r \<Longrightarrow> last xs = v \<Longrightarrow> snd (l v) \<le> weight (butlast xs)"
proof -
  have lab: "\<exists>xs. route xs \<and> hd xs = r \<and> last xs = x \<and> distinct xs \<and> snd (l x) = weight (butlast xs)" if x: "x \<in> V" for x
  proof -
    from known_reached [OF q] x obtain xs where xs: "trail l x (fst (l x)) (snd (l x)) xs"
      by (auto simp: known_def labelled_def)
    then have "hd xs \<in> V" by (auto simp: trail_def route_def)
    moreover have "ident (hd xs) = ident r"
      using xs quiet_root [OF q c x] r by (simp add: trail_def)
    ultimately have "hd xs = r"
      using inj_onD [OF identifiers] r by simp
    with xs show ?thesis by (auto simp: trail_def)
  qed
  from lab [OF v] show "\<exists>xs. route xs \<and> hd xs = r \<and> last xs = v \<and> snd (l v) = weight (butlast xs)"
    by blast
  from lab [OF r(1)] obtain ys where ys: "route ys" "hd ys = r" "last ys = r" "distinct ys" "snd (l r) = weight (butlast ys)"
    by blast
  have "snd (l r) = 0"
  proof (cases ys)
    case (Cons y zs)
    with ys show ?thesis by (cases zs) auto
  qed (use ys in \<open>simp add: route_def\<close>)
  then show "snd (l v) \<le> weight (butlast xs)" if xs: "route xs" "hd xs = r" "last xs = v"
    using quiet_route [OF q xs(1)] xs quiet_root [OF q c] v r by (auto simp: better_def)
qed

section \<open>The messages come to an end\<close>

definition rank :: "'k \<Rightarrow> nat" where
  "rank k = card {i \<in> ident ` V. i < k}"

definition height :: "('v \<Rightarrow> 'k \<times> nat) \<Rightarrow> nat" where
  "height l = (\<Sum>v \<in> V. rank (fst (l v)) * Suc (sum wt V) + snd (l v))"

lemma rank_mono: "k < k' \<Longrightarrow> k \<in> ident ` V \<Longrightarrow> rank k < rank k'"
  unfolding rank_def using finite_nodes by (intro psubset_card_mono) auto

lemma weight_distinct: "distinct xs \<Longrightarrow> set xs \<subseteq> V \<Longrightarrow> weight xs \<le> sum wt V"
  unfolding weight_def using finite_nodes by (simp add: sum_list_distinct_conv_sum_set sum_mono2)

lemma told_bounds: "told l (u, v, k, c) \<Longrightarrow> k \<in> ident ` V \<and> c \<le> sum wt V"
  using weight_distinct by (auto simp: told_def trail_def route_def intro!: imageI)

lemma labelled_bounds: "labelled l v \<Longrightarrow> fst (l v) \<in> ident ` V \<and> snd (l v) \<le> sum wt V"
proof -
  assume "labelled l v"
  then obtain xs where xs: "route xs" "distinct xs" "ident (hd xs) = fst (l v)" "snd (l v) = weight (butlast xs)"
    by (auto simp: labelled_def trail_def)
  then have "weight (butlast xs) \<le> weight xs" "weight xs \<le> sum wt V"
    using weight_last [of xs] weight_distinct [of xs] by (auto simp: route_def)
  moreover have "hd xs \<in> V"
    using xs by (auto simp: route_def)
  ultimately show ?thesis
    using xs by (metis image_eqI le_trans)
qed

lemma better_height:
  assumes "better (k, c) (k', c')" "k \<in> ident ` V" "c \<le> B"
  shows "rank k * Suc B + c < rank k' * Suc B + c'"
proof (cases "k < k'")
  case True
  with assms(2) rank_mono have "Suc (rank k) \<le> rank k'" by (simp add: Suc_le_eq)
  then have "Suc (rank k) * Suc B \<le> rank k' * Suc B"
    by (rule mult_le_mono1)
  with assms(3) show ?thesis by simp
qed (use assms in \<open>auto simp: better_def\<close>)

lemma deliver_decreases:
  assumes "known s" "deliver s s'"
  shows "height (fst s') < height (fst s) \<or> height (fst s') = height (fst s) \<and> size (snd s') < size (snd s)"
  using assms(2,1)
proof (induction rule: deliver.induct)
  case (adopt k c l v u M)
  then have m: "told l (u, v, k, c)" by (simp add: known_def)
  have v: "v \<in> V" using told_node [OF m] by simp
  have "rank (fst ((l(v := (k, c))) x)) * Suc (sum wt V) + snd ((l(v := (k, c))) x) \<le>
      rank (fst (l x)) * Suc (sum wt V) + snd (l x)" for x
    using better_height [of k c "fst (l v)" "snd (l v)" "sum wt V"] adopt.hyps told_bounds [OF m]
    by (cases "x = v") auto
  moreover have "rank (fst ((l(v := (k, c))) v)) * Suc (sum wt V) + snd ((l(v := (k, c))) v) <
      rank (fst (l v)) * Suc (sum wt V) + snd (l v)"
    using better_height [of k c "fst (l v)" "snd (l v)" "sum wt V"] adopt.hyps told_bounds [OF m] by simp
  ultimately have "height (l(v := (k, c))) < height l"
    unfolding height_def using finite_nodes v by (intro sum_strict_mono_ex1) auto
  then show ?case by (simp del: fun_upd_apply)
qed simp

end

end
