(* ===== verification/Eth_Net.thy ===== *)
theory Eth_Net
  imports Eth_Phy Netsim_Election
begin

text \<open>
  The switches of a network as the nodes of an election: which of them are neighbours, what a link
  costs, what a message on its way says.
\<close>

section \<open>The graph of the switches\<close>

definition the_lan :: "NETSIM_ID \<Rightarrow> ETH_WORLD \<Rightarrow> ETH_LAN" where
  "the_lan d w = the (get_lan d 0 w)"

definition stp_nodes :: "ETH_ENV \<Rightarrow> ETH_WORLD \<Rightarrow> NETSIM_ID set" where
  "stp_nodes E w = {d \<in> {1..eth_nDeviceCount E}. get_lan d 0 w \<noteq> None \<and> STPStatus (the_lan d w)}"

definition linked :: "ETH_ENV \<Rightarrow> ETH_WORLD \<Rightarrow> NETSIM_ID \<Rightarrow> NETSIM_ID \<Rightarrow> bool" where
  "linked E w d c \<longleftrightarrow> (\<exists>i \<in> set (lan_interfaceId (the_lan d w)). stp_neighbour E d i w = Some (Some c))"

definition stp_nb :: "ETH_ENV \<Rightarrow> ETH_WORLD \<Rightarrow> NETSIM_ID \<Rightarrow> NETSIM_ID set" where
  "stp_nb E w d = {c \<in> stp_nodes E w. c \<noteq> d \<and> linked E w d c \<and> linked E w c d}"

definition stp_cost :: "ETH_WORLD \<Rightarrow> NETSIM_ID \<Rightarrow> nat" where
  "stp_cost w d = unat (word_of_int (stpCost (spt (the_lan d w))) :: u32)"

definition id_key :: "string option \<Rightarrow> nat list" where
  "id_key s = (case s of None \<Rightarrow> [] | Some t \<Rightarrow> text_key t)"

definition stp_ident :: "ETH_WORLD \<Rightarrow> NETSIM_ID \<Rightarrow> nat list" where
  "stp_ident w d = id_key (switchId (spt (the_lan d w)))"

interpretation stp: label_election "stp_nodes E w" "stp_nb E w" "stp_cost w" "stp_ident w" for E w
proof
  show "finite (stp_nodes E w)"
    by (rule finite_subset [of _ "{1..eth_nDeviceCount E}"]) (auto simp: stp_nodes_def)
qed (auto simp: stp_nb_def)

section \<open>What does not change\<close>

text \<open>The protocol writes the root, its cost and port, and the state of the ports.\<close>

definition fixed_if :: "ETH_IF \<Rightarrow> ETH_IF" where
  "fixed_if f = f\<lparr>portState := PORTSTATE_FORWARDING, portType := PORTTYPE_DESIGNATED\<rparr>"

definition fixed_lan :: "ETH_LAN \<Rightarrow> ETH_LAN" where
  "fixed_lan lan = lan\<lparr>spt := (spt lan)\<lparr>rootId := None, rootPathCost := 0, rootPort := 0\<rparr>,
     ethIfVar := map fixed_if (ethIfVar lan)\<rparr>"

definition fixed_var :: "ETH_VAR \<Rightarrow> ETH_VAR" where
  "fixed_var e = e\<lparr>lanVar := map fixed_lan (lanVar e)\<rparr>"

definition same_net :: "ETH_WORLD \<Rightarrow> ETH_WORLD \<Rightarrow> bool" where
  "same_net w w' \<longleftrightarrow> (\<forall>d. map_option fixed_var (eth_var w' d) = map_option fixed_var (eth_var w d))"

lemma same_net_refl [simp]: "same_net w w"
  by (simp add: same_net_def)

lemma same_net_trans: "same_net a b \<Longrightarrow> same_net b c \<Longrightarrow> same_net a c"
  by (simp add: same_net_def)

lemma same_net_sym: "same_net a b \<Longrightarrow> same_net b a"
  by (simp add: same_net_def)

lemma fixed_varD:
  assumes "fixed_var e = fixed_var e'"
  shows "length (lanVar e) = length (lanVar e')" "isSPT e = isSPT e'"
    "n < length (lanVar e') \<Longrightarrow> fixed_lan (lanVar e ! n) = fixed_lan (lanVar e' ! n)"
proof -
  have l: "map fixed_lan (lanVar e) = map fixed_lan (lanVar e')"
    using arg_cong [OF assms, of lanVar] by (simp add: fixed_var_def)
  then show len: "length (lanVar e) = length (lanVar e')"
    by (rule map_eq_imp_length_eq)
  show "isSPT e = isSPT e'"
    using arg_cong [OF assms, of isSPT] by (simp add: fixed_var_def)
  show "fixed_lan (lanVar e ! n) = fixed_lan (lanVar e' ! n)" if "n < length (lanVar e')"
    using arg_cong [OF l, of "\<lambda>l. l ! n"] that len by simp
qed

lemma fixed_lanD:
  assumes "fixed_lan l = fixed_lan l'"
  shows "STPStatus l = STPStatus l'" "lan_interfaceId l = lan_interfaceId l'" "stpCost (spt l) = stpCost (spt l')"
    "switchId (spt l) = switchId (spt l')" "length (ethIfVar l) = length (ethIfVar l')" "lanIP l = lanIP l'"
proof -
  show "STPStatus l = STPStatus l'" using arg_cong [OF assms, of STPStatus] by (simp add: fixed_lan_def)
  show "lan_interfaceId l = lan_interfaceId l'" using arg_cong [OF assms, of lan_interfaceId] by (simp add: fixed_lan_def)
  show "stpCost (spt l) = stpCost (spt l')" using arg_cong [OF assms, of "\<lambda>l. stpCost (spt l)"] by (simp add: fixed_lan_def)
  show "switchId (spt l) = switchId (spt l')" using arg_cong [OF assms, of "\<lambda>l. switchId (spt l)"] by (simp add: fixed_lan_def)
  have "map fixed_if (ethIfVar l) = map fixed_if (ethIfVar l')"
    using arg_cong [OF assms, of ethIfVar] by (simp add: fixed_lan_def)
  then show "length (ethIfVar l) = length (ethIfVar l')" by (rule map_eq_imp_length_eq)
  show "lanIP l = lanIP l'" using arg_cong [OF assms, of lanIP] by (simp add: fixed_lan_def)
qed

lemma same_net_var:
  assumes "same_net w w'"
  shows "eth_var w' d = None \<longleftrightarrow> eth_var w d = None"
  using assms unfolding same_net_def by (metis option.map_disc_iff)

lemma same_net_lan:
  assumes "same_net w w'"
  shows "map_option fixed_lan (get_lan d n w') = map_option fixed_lan (get_lan d n w)"
proof (cases "eth_var w d")
  case None
  with same_net_var [OF assms, of d] show ?thesis by (auto simp: get_lan_def)
next
  case (Some e)
  with same_net_var [OF assms, of d] obtain e' where e': "eth_var w' d = Some e'" by auto
  with assms Some have "fixed_var e' = fixed_var e"
    unfolding same_net_def by (metis option.simps(9) option.inject)
  with Some e' fixed_varD [of e' e] show ?thesis
    by (simp add: get_lan_def)
qed

lemma same_net_the_lan:
  assumes "same_net w w'" "get_lan d 0 w \<noteq> None"
  shows "get_lan d 0 w' \<noteq> None" "fixed_lan (the_lan d w') = fixed_lan (the_lan d w)"
  using same_net_lan [OF assms(1), of d 0] assms(2) by (auto simp: the_lan_def)

lemma same_net_nodes: "same_net w w' \<Longrightarrow> stp_nodes E w' = stp_nodes E w"
proof -
  assume s: "same_net w w'"
  have "get_lan d 0 w' \<noteq> None \<and> STPStatus (the_lan d w') \<longleftrightarrow> get_lan d 0 w \<noteq> None \<and> STPStatus (the_lan d w)" for d
    using same_net_the_lan [OF s, of d] same_net_the_lan [OF same_net_sym [OF s], of d] fixed_lanD(1) by metis
  then show ?thesis by (simp add: stp_nodes_def)
qed

lemma same_net_status:
  assumes "same_net w w'"
  shows "map_option STPStatus (get_lan d n w') = map_option STPStatus (get_lan d n w)"
  using same_net_lan [OF assms, of d n]
  by (cases "get_lan d n w"; cases "get_lan d n w'") (auto dest: fixed_lanD(1))

lemma stp_neighbour_status:
  "stp_neighbour E d i w = (let (l, c, ci) = GetConnectedDevice E d i in
     if l = 0 \<or> eth_var w c = None then Some None
     else case GET_ETH_LAN E c ci 0 of
         None \<Rightarrow> Some None
       | Some n \<Rightarrow> map_option (\<lambda>s. if s then Some c else None) (map_option STPStatus (get_lan c n w)))"
  by (cases "GetConnectedDevice E d i")
     (auto simp: stp_neighbour_def map_conv_bind_option comp_def split: option.splits)

lemma same_net_neighbour: "same_net w w' \<Longrightarrow> stp_neighbour E d i w' = stp_neighbour E d i w"
  using same_net_status [of w w'] same_net_var [of w w'] by (simp only: stp_neighbour_status)

lemma same_net_linked:
  assumes "same_net w w'" "get_lan d 0 w \<noteq> None"
  shows "linked E w' d c = linked E w d c"
  using fixed_lanD(2) [OF same_net_the_lan(2) [OF assms]] same_net_neighbour [OF assms(1)]
  by (simp add: linked_def)

lemma stp_nodesD: "d \<in> stp_nodes E w \<Longrightarrow> get_lan d 0 w \<noteq> None" "d \<in> stp_nodes E w \<Longrightarrow> get_lan d 0 w = Some (the_lan d w)"
  "d \<in> stp_nodes E w \<Longrightarrow> STPStatus (the_lan d w)"
  by (auto simp: stp_nodes_def the_lan_def)

lemma same_net_graph:
  assumes "same_net w w'" "d \<in> stp_nodes E w"
  shows "stp_nb E w' d = stp_nb E w d" "stp_cost w' d = stp_cost w d" "stp_ident w' d = stp_ident w d"
proof -
  show "stp_nb E w' d = stp_nb E w d"
    using same_net_linked [OF assms(1) stp_nodesD(1) [where E = E]] assms(2)
    unfolding stp_nb_def same_net_nodes [OF assms(1)] by blast
  show "stp_cost w' d = stp_cost w d" "stp_ident w' d = stp_ident w d"
    using fixed_lanD(3,4) [OF same_net_the_lan(2) [OF assms(1) stp_nodesD(1) [OF assms(2)]]]
    by (simp_all add: stp_cost_def stp_ident_def)
qed

end
