(* ===== verification/Eth_Stp.thy ===== *)
theory Eth_Stp
  imports Eth_Net
begin

text \<open>
  The messages of the spanning tree on their way through a network, and what a switch does with
  one, told in the terms of the election.
\<close>

section \<open>Writing a LAN\<close>

lemma set_lan_does:
  assumes "get_lan d n w = Some lan"
  obtains w' where "set_lan d n lan' w = Some w'" "get_lan d n w' = Some lan'"
    "\<forall>x y. (x, y) \<noteq> (d, n) \<longrightarrow> get_lan x y w' = get_lan x y w" "eadded w' = eadded w" "eev w' = eev w"
    "fixed_lan lan' = fixed_lan lan \<longrightarrow> same_net w w'"
proof -
  from assms obtain e where e: "eth_var w d = Some e" "n < length (lanVar e)" "lanVar e ! n = lan"
    by (auto simp: get_lan_def split: option.splits if_splits)
  let ?w = "w\<lparr>eth_var := (eth_var w)(d \<mapsto> e\<lparr>lanVar := (lanVar e)[n := lan']\<rparr>)\<rparr>"
  show thesis
  proof (rule that [of ?w])
    show "fixed_lan lan' = fixed_lan lan \<longrightarrow> same_net w ?w"
    proof
      assume f: "fixed_lan lan' = fixed_lan lan"
      have "map fixed_lan ((lanVar e)[n := lan']) = map fixed_lan (lanVar e)"
        using e f by (metis list_update_id map_update nth_map)
      with e show "same_net w ?w" by (simp add: same_net_def fixed_var_def)
    qed
  qed (use e in \<open>auto simp: set_lan_def upd_lan_def get_lan_def split: option.splits\<close>)
qed

section \<open>The frames of the protocol\<close>

text \<open>What the library does with headers, copies and receivers.\<close>

definition bpdu_lib :: "ETH_ENV \<Rightarrow> bool" where
  "bpdu_lib E \<longleftrightarrow> (\<forall>k v. get_eth_hdr_var E (set_eth_hdr E k v) = Some v \<and> destInfo (set_eth_hdr E k v) = destInfo k
        \<and> nControlDataType (set_eth_hdr E k v) = nControlDataType k)
     \<and> (\<forall>k k'. Packet_MACProtocol k = Packet_MACProtocol k' \<longrightarrow> get_eth_hdr_var E k = get_eth_hdr_var E k')
     \<and> (\<forall>k. get_eth_hdr_var E (eth_CopyPacket E k) = get_eth_hdr_var E k
        \<and> nControlDataType (eth_CopyPacket E k) = nControlDataType k)
     \<and> get_dests E (destInfo (blankMacPacket E)) = []
     \<and> (\<forall>D c. set (get_dests E (eth_add_dest E D c)) = insert c (set (get_dests E D)))
     \<and> (\<forall>D. distinct (get_dests E D))"

definition bpdu_frame :: "ETH_ENV \<Rightarrow> ETH_PKT \<Rightarrow> ETH_BPDU \<Rightarrow> bool" where
  "bpdu_frame E k b \<longleftrightarrow> nControlDataType k = ETH_CONFIGBPDU \<and> get_eth_hdr_var E k = Some (CBPDU b)"

definition bpdu_label :: "ETH_BPDU \<Rightarrow> nat list \<times> nat" where
  "bpdu_label b = (id_key (bpdu_rootId b), unat (bpdu_rootPathCost b))"

lemma bpdu_libD:
  assumes "bpdu_lib E"
  shows "get_eth_hdr_var E (set_eth_hdr E k v) = Some v" "destInfo (set_eth_hdr E k v) = destInfo k"
    "nControlDataType (set_eth_hdr E k v) = nControlDataType k"
    "get_eth_hdr_var E (eth_CopyPacket E k) = get_eth_hdr_var E k"
    "nControlDataType (eth_CopyPacket E k) = nControlDataType k"
    "get_dests E (destInfo (blankMacPacket E)) = []"
    "set (get_dests E (eth_add_dest E D c)) = insert c (set (get_dests E D))" "distinct (get_dests E D)"
    "Packet_MACProtocol k = Packet_MACProtocol k' \<Longrightarrow> get_eth_hdr_var E k = get_eth_hdr_var E k'"
  using assms unfolding bpdu_lib_def by blast+

lemma bpdu_frame_same:
  assumes "bpdu_lib E" "Packet_MACProtocol k' = Packet_MACProtocol k" "nControlDataType k' = nControlDataType k"
  shows "bpdu_frame E k' b = bpdu_frame E k b"
  using bpdu_libD(9) [OF assms(1,2)] assms(3) by (simp add: bpdu_frame_def)

lemma bpdu_packet_frame:
  assumes "bpdu_lib E"
  shows "bpdu_frame E (bpdu_packet E d t b) b" "get_dests E (destInfo (bpdu_packet E d t b)) = []"
proof -
  let ?k = "(blankMacPacket E)\<lparr>nControlDataType := ETH_CONFIGBPDU, nPacketType := PacketType_Control,
            nSourceId := d, nTransmitterId := d, mac_dArrivalTime := t, mac_dStartTime := t, mac_dEndTime := t,
            mac_dOverhead := ETH_BPDU_LEN, mac_dPacketSize := ETH_BPDU_LEN, nMACProtocol := MAC_PROTOCOL_IEEE802_3\<rparr>"
  have "bpdu_frame E (set_eth_hdr E ?k (CBPDU b)) b"
    by (simp add: bpdu_libD(1,3) [OF assms] bpdu_frame_def)
  then show "bpdu_frame E (bpdu_packet E d t b) b"
    unfolding bpdu_packet_def Let_def by (subst bpdu_frame_same [OF assms]) simp_all
  show "get_dests E (destInfo (bpdu_packet E d t b)) = []"
    by (simp add: bpdu_libD(2,6) [OF assms] bpdu_packet_def Let_def)
qed

definition neighbours_by :: "ETH_ENV \<Rightarrow> NETSIM_ID \<Rightarrow> ETH_WORLD \<Rightarrow> NETSIM_ID list \<Rightarrow> NETSIM_ID set" where
  "neighbours_by E d w is = {c. \<exists>i \<in> set is. stp_neighbour E d i w = Some (Some c)}"

lemma neighbours_by_simps [simp]: "neighbours_by E d w [] = {}"
  "neighbours_by E d w (i # is) = (case stp_neighbour E d i w of Some (Some c) \<Rightarrow> {c} | _ \<Rightarrow> {}) \<union> neighbours_by E d w is"
  by (auto simp: neighbours_by_def split: option.splits)

lemma add_receiver_simps:
  "stp_neighbour E d i w = Some None \<Longrightarrow> add_receiver E d w i pf = Some pf"
  "stp_neighbour E d i w = Some (Some c) \<Longrightarrow>
     add_receiver E d w i (k, f) = Some (k\<lparr>destInfo := eth_add_dest E (destInfo k) c\<rparr>, True)"
  by (simp_all add: add_receiver_def)

lemma add_receivers:
  assumes "bpdu_lib E" "\<forall>i \<in> set is. stp_neighbour E d i w \<noteq> None" "bpdu_frame E k b"
  obtains k' where "for_each (add_receiver E d w) is (k, f) = Some (k', f \<or> neighbours_by E d w is \<noteq> {})"
    "bpdu_frame E k' b" "set (get_dests E (destInfo k')) = set (get_dests E (destInfo k)) \<union> neighbours_by E d w is"
  using assms(2,3)
proof (induction "is" arbitrary: k f thesis)
  case Nil
  then show ?case by simp
next
  case (Cons i "is")
  from Cons.prems(2) obtain n where n: "stp_neighbour E d i w = Some n" by auto
  show ?case
  proof (cases n)
    case None
    obtain k' where "for_each (add_receiver E d w) is (k, f) = Some (k', f \<or> neighbours_by E d w is \<noteq> {})"
      "bpdu_frame E k' b" "set (get_dests E (destInfo k')) = set (get_dests E (destInfo k)) \<union> neighbours_by E d w is"
      using Cons.IH [of k f] Cons.prems(2,3) by auto
    with None n show ?thesis by (intro Cons.prems(1) [of k']) (simp_all add: add_receiver_simps)
  next
    case (Some c)
    let ?k = "k\<lparr>destInfo := eth_add_dest E (destInfo k) c\<rparr>"
    have "bpdu_frame E ?k b"
      using Cons.prems(3) bpdu_frame_same [OF assms(1), of ?k k] by simp
    then obtain k' where "for_each (add_receiver E d w) is (?k, True) = Some (k', True)"
      "bpdu_frame E k' b" "set (get_dests E (destInfo k')) = set (get_dests E (destInfo ?k)) \<union> neighbours_by E d w is"
      using Cons.IH [of ?k True] Cons.prems(2) by auto
    with Some n show ?thesis
      by (intro Cons.prems(1) [of k']) (simp_all add: add_receiver_simps bpdu_libD(7) [OF assms(1)])
  qed
qed

text \<open>The event is added when there is a neighbour; it has them as receivers.\<close>

lemma send_bpdu_does:
  assumes "bpdu_lib E" "\<forall>i \<in> set is. stp_neighbour E d i w \<noteq> None" "bpdu_frame E k b" "get_dests E (destInfo k) = []"
  obtains k' where "bpdu_frame E k' b" "set (get_dests E (destInfo k')) = neighbours_by E d w is"
    "send_bpdu_packet E d t is k w =
       Some (if neighbours_by E d w is \<noteq> {} then add_eth_event (bpdu_event E d t k') w else w)"
proof -
  from add_receivers [OF assms(1-3), of False] assms(4) obtain k' where
    "for_each (add_receiver E d w) is (k, False) = Some (k', neighbours_by E d w is \<noteq> {})"
    "bpdu_frame E k' b" "set (get_dests E (destInfo k')) = neighbours_by E d w is"
    by auto
  then show ?thesis
    by (intro that [of k']) (simp_all add: send_bpdu_packet_def)
qed

section \<open>The messages under way\<close>

definition neighbour_of :: "ETH_ENV \<Rightarrow> NETSIM_ID \<Rightarrow> NETSIM_ID \<Rightarrow> NETSIM_ID" where
  "neighbour_of E d i = fst (snd (GetConnectedDevice E d i))"

definition event_bpdu :: "ETH_ENV \<Rightarrow> ETH_EVENT \<Rightarrow> ETH_BPDU option" where
  "event_bpdu E e = (case ee_pPacket e of
       Some k \<Rightarrow> (case get_eth_hdr_var E k of Some (CBPDU b) \<Rightarrow> Some b | _ \<Rightarrow> None)
     | None \<Rightarrow> None)"

definition event_msgs :: "ETH_ENV \<Rightarrow> ETH_EVENT \<Rightarrow> (NETSIM_ID, nat list) label_message multiset" where
  "event_msgs E e = (case (ee_pPacket e, event_bpdu E e) of
       (Some k, Some b) \<Rightarrow>
         (let m = (\<lambda>u v. (u, v, bpdu_label b)); d = ee_nDeviceId e in
          if ee_nEventType e = MAC_OUT_EVENT then image_mset (m d) (mset (get_dests E (destInfo k)))
          else if ee_nEventType e = PHYSICAL_OUT_EVENT then {#m d (neighbour_of E d (ee_nInterfaceId e))#}
          else if ee_nEventType e = MAC_IN_EVENT then {#m (neighbour_of E d (ee_nInterfaceId e)) d#}
          else {#})
     | _ \<Rightarrow> {#})"

definition world_msgs :: "ETH_ENV \<Rightarrow> ETH_EVENT list \<Rightarrow> (NETSIM_ID, nat list) label_message multiset" where
  "world_msgs E es = (\<Sum>e \<leftarrow> es. event_msgs E e)"

text \<open>The interfaces of a switch by which it has a neighbour.\<close>

definition stp_port :: "ETH_ENV \<Rightarrow> ETH_WORLD \<Rightarrow> NETSIM_ID \<Rightarrow> NETSIM_ID \<Rightarrow> bool" where
  "stp_port E w d i \<longleftrightarrow> d \<in> stp_nodes E w \<and> i \<in> set (lan_interfaceId (the_lan d w))
     \<and> stp_neighbour E d i w = Some (Some (neighbour_of E d i))"

definition good_event :: "ETH_ENV \<Rightarrow> ETH_WORLD \<Rightarrow> ETH_EVENT \<Rightarrow> bool" where
  "good_event E w e \<longleftrightarrow> (\<exists>k b. ee_pPacket e = Some k \<and> bpdu_frame E k b \<and> bpdu_rootId b \<noteq> None
     \<and> (if ee_nEventType e = MAC_OUT_EVENT
        then ee_nSubEventType e = SEND_CONFIG_BPDU \<and> ee_nDeviceId e \<in> stp_nodes E w
          \<and> set (get_dests E (destInfo k)) \<subseteq> stp_nb E w (ee_nDeviceId e)
        else ee_nEventType e \<in> {PHYSICAL_OUT_EVENT, MAC_IN_EVENT} \<and> stp_port E w (ee_nDeviceId e) (ee_nInterfaceId e)))"

text \<open>
  The network: the ports of a switch are in its first LAN, two switches are joined by one cable at
  most, identifiers differ and the sum of all costs is a value of type \<open>unsigned\<close>.
\<close>

definition stp_net :: "ETH_ENV \<Rightarrow> ETH_WORLD \<Rightarrow> bool" where
  "stp_net E w \<longleftrightarrow> (\<forall>d \<in> stp_nodes E w. \<forall>i \<in> set (lan_interfaceId (the_lan d w)).
        GET_ETH_LAN E d i 0 = Some 0 \<and> stp_neighbour E d i w \<noteq> None
        \<and> (case GET_ETH_IF E d 0 i of None \<Rightarrow> False | Some j \<Rightarrow> j < length (ethIfVar (the_lan d w)))
        \<and> (\<forall>c. stp_neighbour E d i w = Some (Some c) \<longrightarrow> c \<in> stp_nodes E w \<and> c \<noteq> d \<and> get_interface_id E d c = i
           \<and> (case GetConnectedDevice E d i of (l, x, ci) \<Rightarrow> ci \<in> set (lan_interfaceId (the_lan c w))
              \<and> (case GetConnectedDevice E c ci of (m, y, yi) \<Rightarrow> m \<noteq> 0 \<and> y = d \<and> yi = i))))
     \<and> (\<forall>d \<in> stp_nodes E w. switchId (spt (the_lan d w)) \<noteq> None)
     \<and> inj_on (stp_ident w) (stp_nodes E w) \<and> sum (stp_cost w) (stp_nodes E w) < 2 ^ 32"

lemma stp_neighbour_is: "stp_neighbour E d i w = Some (Some c) \<Longrightarrow> c = neighbour_of E d i"
  by (auto simp: stp_neighbour_def neighbour_of_def elim!: bind_SomeE split: prod.splits option.splits if_splits)

end
