(* ===== verification/Eth_Election.thy ===== *)
theory Eth_Election
  imports Eth_Stp
begin

text \<open>
  The spanning tree protocol elects: the handlers of the switches, run on the events of a network
  in any order, are steps of the election of theory \<open>Netsim_Election\<close>.
\<close>

section \<open>Ports and neighbours\<close>

lemma stp_netD:
  assumes "stp_net E w" "d \<in> stp_nodes E w" "i \<in> set (lan_interfaceId (the_lan d w))"
  shows "GET_ETH_LAN E d i 0 = Some 0" "stp_neighbour E d i w \<noteq> None"
    "\<exists>j. GET_ETH_IF E d 0 i = Some j \<and> j < length (ethIfVar (the_lan d w))"
    "stp_neighbour E d i w = Some (Some c) \<Longrightarrow> c \<in> stp_nodes E w \<and> c \<noteq> d \<and> get_interface_id E d c = i"
    "stp_neighbour E d i w = Some (Some c) \<Longrightarrow>
       \<exists>l ci m. GetConnectedDevice E d i = (l, c, ci) \<and> ci \<in> set (lan_interfaceId (the_lan c w))
         \<and> GetConnectedDevice E c ci = (m, d, i) \<and> m \<noteq> 0"
proof -
  have all: "GET_ETH_LAN E d i 0 = Some 0 \<and> stp_neighbour E d i w \<noteq> None
      \<and> (case GET_ETH_IF E d 0 i of None \<Rightarrow> False | Some j \<Rightarrow> j < length (ethIfVar (the_lan d w)))
      \<and> (\<forall>c. stp_neighbour E d i w = Some (Some c) \<longrightarrow> c \<in> stp_nodes E w \<and> c \<noteq> d \<and> get_interface_id E d c = i
         \<and> (case GetConnectedDevice E d i of (l, x, ci) \<Rightarrow> ci \<in> set (lan_interfaceId (the_lan c w))
            \<and> (case GetConnectedDevice E c ci of (m, y, yi) \<Rightarrow> m \<noteq> 0 \<and> y = d \<and> yi = i)))"
    by (rule bspec [OF bspec [OF assms(1) [unfolded stp_net_def, THEN conjunct1] assms(2)] assms(3)])
  note parts = all [THEN conjunct1] all [THEN conjunct2, THEN conjunct1] all [THEN conjunct2, THEN conjunct2, THEN conjunct1]
    all [THEN conjunct2, THEN conjunct2, THEN conjunct2, rule_format]
  show "GET_ETH_LAN E d i 0 = Some 0" "stp_neighbour E d i w \<noteq> None"
    by (rule parts(1), rule parts(2))
  show "\<exists>j. GET_ETH_IF E d 0 i = Some j \<and> j < length (ethIfVar (the_lan d w))"
    using parts(3) by (cases "GET_ETH_IF E d 0 i") (simp_all del: not_None_eq)
  assume c: "stp_neighbour E d i w = Some (Some c)"
  show "c \<in> stp_nodes E w \<and> c \<noteq> d \<and> get_interface_id E d c = i"
    using parts(4) [OF c] by blast
  show "\<exists>l ci m. GetConnectedDevice E d i = (l, c, ci) \<and> ci \<in> set (lan_interfaceId (the_lan c w))
         \<and> GetConnectedDevice E c ci = (m, d, i) \<and> m \<noteq> 0"
  proof -
    obtain l x ci where g: "GetConnectedDevice E d i = (l, x, ci)"
      by (cases "GetConnectedDevice E d i")
    obtain m y yi where h: "GetConnectedDevice E c ci = (m, y, yi)"
      by (cases "GetConnectedDevice E c ci")
    have x: "x = c"
      using stp_neighbour_is [OF c] g by (simp add: neighbour_of_def)
    have "ci \<in> set (lan_interfaceId (the_lan c w)) \<and> m \<noteq> 0 \<and> y = d \<and> yi = i"
      using parts(4) [OF c] unfolding g h prod.case by blast
    with g h x show ?thesis by blast
  qed
qed

text \<open>A port that leads to a switch is the other end of a port of that switch.\<close>

lemma stp_port_back:
  assumes net: "stp_net E w" and p: "stp_port E w d i" and g: "GetConnectedDevice E d i = (l, c, ci)"
  shows "stp_port E w c ci" "neighbour_of E c ci = d" "neighbour_of E d i = c"
proof -
  have d: "d \<in> stp_nodes E w" "i \<in> set (lan_interfaceId (the_lan d w))" "stp_neighbour E d i w = Some (Some c)"
    using p g by (auto simp: stp_port_def neighbour_of_def)
  obtain m where m: "ci \<in> set (lan_interfaceId (the_lan c w))" "GetConnectedDevice E c ci = (m, d, i)" "m \<noteq> 0"
    using stp_netD(5) [OF net d] g by auto
  have "get_lan d 0 w = Some (the_lan d w)" "STPStatus (the_lan d w)" "eth_var w d \<noteq> None"
    using stp_nodesD [OF d(1)] by (auto simp: get_lan_def split: option.splits)
  then have "stp_neighbour E c ci w = Some (Some d)"
    using m stp_netD(1) [OF net d(1,2)] by (auto simp: stp_neighbour_status)
  then show "stp_port E w c ci" "neighbour_of E c ci = d" "neighbour_of E d i = c"
    using m g stp_netD(4) [OF net d] by (auto simp: stp_port_def neighbour_of_def)
qed

lemma stp_port_nb: "stp_net E w \<Longrightarrow> stp_port E w d i \<Longrightarrow> neighbour_of E d i \<in> stp_nb E w d"
proof -
  assume net: "stp_net E w" and p: "stp_port E w d i"
  obtain l c ci where g: "GetConnectedDevice E d i = (l, c, ci)"
    by (cases "GetConnectedDevice E d i")
  note b = stp_port_back [OF net p g]
  have "linked E w d c" "linked E w c d"
    using p b by (auto simp: stp_port_def linked_def)
  then show ?thesis
    using p b(1,3) stp_netD(4) [OF net, of d i c] by (auto simp: stp_nb_def stp_port_def)
qed

lemma stp_nb_port:
  assumes net: "stp_net E w" and d: "d \<in> stp_nodes E w" "c \<in> stp_nb E w d"
  shows "stp_port E w d (get_interface_id E d c)" "neighbour_of E d (get_interface_id E d c) = c"
proof -
  obtain i where i: "i \<in> set (lan_interfaceId (the_lan d w))" "stp_neighbour E d i w = Some (Some c)"
    using d(2) by (auto simp: stp_nb_def linked_def)
  then show "stp_port E w d (get_interface_id E d c)" "neighbour_of E d (get_interface_id E d c) = c"
    using stp_netD(4) [OF net d(1) i] stp_neighbour_is [OF i(2)] d(1) by (auto simp: stp_port_def)
qed

lemma neighbours_all:
  assumes "stp_net E w" "d \<in> stp_nodes E w"
  shows "neighbours_by E d w (lan_interfaceId (the_lan d w)) = stp_nb E w d"
proof
  show "neighbours_by E d w (lan_interfaceId (the_lan d w)) \<subseteq> stp_nb E w d"
  proof
    fix c assume "c \<in> neighbours_by E d w (lan_interfaceId (the_lan d w))"
    then obtain i where i: "i \<in> set (lan_interfaceId (the_lan d w))" "stp_neighbour E d i w = Some (Some c)"
      by (auto simp: neighbours_by_def)
    then show "c \<in> stp_nb E w d"
      using stp_port_nb [OF assms(1), of d i] stp_neighbour_is [OF i(2)] assms(2) by (simp add: stp_port_def)
  qed
qed (auto simp: stp_nb_def linked_def neighbours_by_def)

text \<open>All neighbours but the one that the port leads to.\<close>

lemma neighbours_but:
  assumes "stp_net E w" "stp_port E w d i"
  shows "neighbours_by E d w (filter (\<lambda>j. j \<noteq> i) (lan_interfaceId (the_lan d w))) = stp_nb E w d - {neighbour_of E d i}"
proof -
  have d: "d \<in> stp_nodes E w" "i \<in> set (lan_interfaceId (the_lan d w))" "stp_neighbour E d i w = Some (Some (neighbour_of E d i))"
    using assms(2) by (auto simp: stp_port_def)
  have same: "j = i" if "j \<in> set (lan_interfaceId (the_lan d w))" "stp_neighbour E d j w = Some (Some (neighbour_of E d i))" for j
    using stp_netD(4) [OF assms(1) d(1) that] stp_netD(4) [OF assms(1) d] by simp
  have "neighbours_by E d w (filter (\<lambda>j. j \<noteq> i) (lan_interfaceId (the_lan d w))) =
      neighbours_by E d w (lan_interfaceId (the_lan d w)) - {neighbour_of E d i}"
    using same d(3) by (auto simp: neighbours_by_def)
  then show ?thesis
    using neighbours_all [OF assms(1) d(1)] by simp
qed

section \<open>The handlers\<close>

definition label_of :: "NETSIM_ID \<Rightarrow> ETH_WORLD \<Rightarrow> nat list \<times> nat" where
  "label_of d w = (id_key (rootId (spt (the_lan d w))), unat (rootPathCost (spt (the_lan d w))))"

text \<open>Progress of the events: sending to every receiver, the wire, arrival.\<close>

definition event_stage :: "ETH_ENV \<Rightarrow> ETH_EVENT \<Rightarrow> nat" where
  "event_stage E e = (case ee_nEventType e of
       MAC_OUT_EVENT \<Rightarrow> Suc (case ee_pPacket e of None \<Rightarrow> 0 | Some k \<Rightarrow> length (get_dests E (destInfo k)))
     | PHYSICAL_OUT_EVENT \<Rightarrow> 1
     | _ \<Rightarrow> 0)"

definition world_stage :: "ETH_ENV \<Rightarrow> ETH_EVENT list \<Rightarrow> nat" where
  "world_stage E es = (\<Sum>e \<leftarrow> es. event_stage E e)"

lemma world_sums [simp]: "world_msgs E [] = {#}" "world_msgs E (e # es) = event_msgs E e + world_msgs E es"
  "world_msgs E (xs @ ys) = world_msgs E xs + world_msgs E ys"
  "world_stage E [] = 0" "world_stage E (e # es) = event_stage E e + world_stage E es"
  "world_stage E (xs @ ys) = world_stage E xs + world_stage E ys"
  by (simp_all add: world_msgs_def world_stage_def)

text \<open>The MAC layer sends the message to every receiver.\<close>

lemma multicast_does:
  assumes lib: "bpdu_lib E" and net: "stp_net E w0" and good: "good_event E w0 e" and out: "ee_nEventType e = MAC_OUT_EVENT"
  obtains outs where "fn_NetSim_Ethernet_Run E up (w\<lparr>eev := e, eadded := es\<rparr>) = Some (w\<lparr>eev := e, eadded := es @ outs\<rparr>)"
    "\<forall>x \<in> set outs. good_event E w0 x" "world_msgs E outs = event_msgs E e" "world_stage E outs < event_stage E e"
proof -
  from good out obtain k b where k: "ee_pPacket e = Some k" "bpdu_frame E k b" "bpdu_rootId b \<noteq> None"
    and s: "ee_nSubEventType e = SEND_CONFIG_BPDU" and d: "ee_nDeviceId e \<in> stp_nodes E w0"
    and sub: "set (get_dests E (destInfo k)) \<subseteq> stp_nb E w0 (ee_nDeviceId e)"
    by (auto simp: good_event_def)
  let ?d = "ee_nDeviceId e" and ?ds = "get_dests E (destInfo k)" and ?c = "eth_CopyPacket E k"
  define outs where "outs = (case ?ds of [] \<Rightarrow> [] | x # xs \<Rightarrow> out_event E e k x # map (out_event E e ?c) xs)"
  have c: "bpdu_frame E ?c b"
    using k(2) bpdu_libD(4,5) [OF lib] by (simp add: bpdu_frame_def)
  have ev: "good_event E w0 (out_event E e p x) \<and> event_msgs E (out_event E e p x) = {#(?d, x, bpdu_label b)#}
      \<and> event_stage E (out_event E e p x) = 1" if x: "x \<in> set ?ds" and p: "bpdu_frame E p b" for x p
  proof -
    have "stp_port E w0 ?d (get_interface_id E ?d x)" "neighbour_of E ?d (get_interface_id E ?d x) = x"
      using stp_nb_port [OF net d] sub x by blast+
    with p k(3) show ?thesis
      by (auto simp: good_event_def out_event_def event_msgs_def event_bpdu_def bpdu_frame_def event_stage_def Let_def)
  qed
  have rest: "world_msgs E (map (out_event E e ?c) xs) = image_mset (\<lambda>x. (?d, x, bpdu_label b)) (mset xs)
      \<and> world_stage E (map (out_event E e ?c) xs) = length xs" if "set xs \<subseteq> set ?ds" for xs
    using that ev [OF _ c] by (induction xs) auto
  have "world_msgs E outs = image_mset (\<lambda>x. (?d, x, bpdu_label b)) (mset ?ds) \<and> world_stage E outs = length ?ds"
    using rest ev [OF _ k(2)] by (cases ?ds) (auto simp: outs_def)
  moreover have "event_msgs E e = image_mset (\<lambda>x. (?d, x, bpdu_label b)) (mset ?ds)" "event_stage E e = Suc (length ?ds)"
    using k out by (auto simp: event_msgs_def event_bpdu_def bpdu_frame_def event_stage_def Let_def)
  moreover have "\<forall>x \<in> set outs. good_event E w0 x"
    using ev k(2) c by (cases ?ds) (auto simp: outs_def)
  moreover have "fn_NetSim_Ethernet_Run E up (w\<lparr>eev := e, eadded := es\<rparr>) = Some (w\<lparr>eev := e, eadded := es @ outs\<rparr>)"
    using k(1) s out
    by (cases ?ds) (simp_all add: fn_NetSim_Ethernet_Run_def fn_NetSim_Ethernet_HandleMacOut_def eth_numbers
        multicast_config_bpdu_def outs_def)
  ultimately show ?thesis
    by (intro that [of outs]) auto
qed


text \<open>The comparison of the code forwards a better label, and that alone.\<close>

lemma compare_better:
  assumes "bpdu_rootId b \<noteq> None" "rootId s \<noteq> None" "switchId s \<noteq> None"
    and own: "id_key (rootId s) = id_key (switchId s) \<Longrightarrow> rootPathCost s = 0"
  obtains r where "compare_bpdu b s port = Some r"
    "r = FORWARD \<longleftrightarrow> better (bpdu_label b) (id_key (rootId s), unat (rootPathCost s))"
proof -
  from assms(1-3) obtain br sr me where t: "bpdu_rootId b = Some br" "rootId s = Some sr" "switchId s = Some me"
    by auto
  have zero: "stricmp sr me = 0 \<longleftrightarrow> text_key sr = text_key me" and own': "text_key sr = text_key me \<Longrightarrow> rootPathCost s = 0"
    using stricmp_zero own t by (simp_all add: id_key_def)
  consider "text_key br < text_key sr" | "text_key br = text_key sr" | "text_key sr < text_key br"
    by (rule linorder_cases)
  then show thesis
  proof cases
    case 1
    then have "stricmp br sr < 0" by (simp add: stricmp_less)
    with 1 t show ?thesis
      by (intro that [of FORWARD]) (auto simp: compare_bpdu_def Let_def better_def bpdu_label_def id_key_def)
  next
    case 2
    then have "stricmp br sr = 0" by (simp add: stricmp_zero)
    moreover have "rootPathCost s = 0" if "stricmp sr me = 0"
      using that zero own' by simp
    ultimately show ?thesis
      using 2 t
      by (intro that [of "if stricmp sr me = 0 then DONT_FORWARD
            else if bpdu_rootPathCost b = rootPathCost s then if rootPort s = port then DONT_FORWARD else BLOCK
            else if bpdu_rootPathCost b < rootPathCost s then FORWARD else BLOCK"])
         (auto simp: compare_bpdu_def Let_def better_def bpdu_label_def id_key_def word_less_nat_alt)
  next
    case 3
    then have "0 < stricmp br sr" by (simp add: stricmp_greater)
    with 3 t show ?thesis
      by (intro that [of DONT_FORWARD]) (auto simp: compare_bpdu_def Let_def better_def bpdu_label_def id_key_def)
  qed
qed

lemma same_lan [simp]: "get_lan d n (w\<lparr>eev := e\<rparr>) = get_lan d n w" "get_lan d n (w\<lparr>eadded := es\<rparr>) = get_lan d n w"
  "get_lan d n (w\<lparr>eerrors := m\<rparr>) = get_lan d n w" "get_lan d n (add_eth_event x w) = get_lan d n w"
  by (simp_all add: get_lan_def add_eth_event_def)

lemma same_neighbours [simp]: "stp_neighbour E d i (w\<lparr>eev := e\<rparr>) = stp_neighbour E d i w"
  "stp_neighbour E d i (w\<lparr>eadded := es\<rparr>) = stp_neighbour E d i w"
  by (auto simp: stp_neighbour_status split: prod.split option.split)

lemma same_net_events [simp]: "same_net w0 (w\<lparr>eev := e\<rparr>) = same_net w0 w" "same_net w0 (w\<lparr>eadded := es\<rparr>) = same_net w0 w"
  "same_net w0 (add_eth_event x w) = same_net w0 w"
  by (simp_all add: same_net_def add_eth_event_def)

lemma fixed_ports:
  "fixed_lan (lan\<lparr>spt := (spt lan)\<lparr>rootId := r, rootPathCost := c, rootPort := p\<rparr>\<rparr>) = fixed_lan lan"
  "fixed_lan (mark_port p lan) = fixed_lan lan"
  "block_port E d n i lan = Some lan' \<Longrightarrow> fixed_lan lan' = fixed_lan lan \<and> spt lan' = spt lan"
proof -
  show "fixed_lan (lan\<lparr>spt := (spt lan)\<lparr>rootId := r, rootPathCost := c, rootPort := p\<rparr>\<rparr>) = fixed_lan lan"
    by (simp add: fixed_lan_def)
  show "fixed_lan (mark_port p lan) = fixed_lan lan"
    by (simp add: fixed_lan_def mark_port_def fixed_if_def)
  assume "block_port E d n i lan = Some lan'"
  then obtain j where j: "j < length (ethIfVar lan)"
    "lan' = lan\<lparr>ethIfVar := (ethIfVar lan)[j := (ethIfVar lan ! j)\<lparr>portState := PORTSTATE_BLOCKING, portType := PORTTYPE_NONDESIGNATED\<rparr>]\<rparr>"
    by (auto simp: block_port_def upd_if_def elim!: bind_SomeE split: if_splits)
  have "map fixed_if ((ethIfVar lan)[j := (ethIfVar lan ! j)\<lparr>portState := PORTSTATE_BLOCKING, portType := PORTTYPE_NONDESIGNATED\<rparr>]) =
      map fixed_if (ethIfVar lan)"
  proof -
    have "fixed_if ((ethIfVar lan ! j)\<lparr>portState := PORTSTATE_BLOCKING, portType := PORTTYPE_NONDESIGNATED\<rparr>) = fixed_if (ethIfVar lan ! j)"
      by (simp add: fixed_if_def)
    then show ?thesis
      using j(1) by (metis list_update_id map_update nth_map)
  qed
  with j(2) show "fixed_lan lan' = fixed_lan lan \<and> spt lan' = spt lan"
    by (simp add: fixed_lan_def)
qed

text \<open>What a switch sends: a message to each of some neighbours, of one label.\<close>

lemma bpdu_event_good:
  assumes lib: "bpdu_lib E" and d: "d \<in> stp_nodes E w0" and k: "bpdu_frame E k b" "bpdu_rootId b \<noteq> None"
    and X: "set (get_dests E (destInfo k)) = X" "X \<subseteq> stp_nb E w0 d"
    and c: "bpdu_label b = (r, c + stp_cost w0 d)"
  shows "good_event E w0 (bpdu_event E d t k)" "event_msgs E (bpdu_event E d t k) = label_election.tell (stp_cost w0) d r c X"
proof -
  show "good_event E w0 (bpdu_event E d t k)"
    using d k X by (auto simp: good_event_def bpdu_event_def)
  have "mset (get_dests E (destInfo k)) = mset_set X"
    using bpdu_libD(8) [OF lib] X(1) by (metis mset_set_set)
  then show "event_msgs E (bpdu_event E d t k) = label_election.tell (stp_cost w0) d r c X"
    using k(1) c
    by (simp add: event_msgs_def event_bpdu_def bpdu_event_def bpdu_frame_def Let_def stp.tell_def)
qed


lemma the_lan_events [simp]: "the_lan d (w\<lparr>eev := e\<rparr>) = the_lan d w" "the_lan d (w\<lparr>eadded := es\<rparr>) = the_lan d w"
  "the_lan d (add_eth_event x w) = the_lan d w"
  by (simp_all add: the_lan_def)

text \<open>The switch as the arriving message finds it.\<close>

lemma arrival:
  assumes net: "stp_net E w0" and same: "same_net w0 w" and good: "good_event E w0 e" and type: "ee_nEventType e = MAC_IN_EVENT"
    and b: "event_bpdu E e = Some b"
  obtains k where "ee_pPacket e = Some k" "nControlDataType k = ETH_CONFIGBPDU" "bpdu_of E k = Some (Some b)" "bpdu_rootId b \<noteq> None"
    "stp_port E w0 (ee_nDeviceId e) (ee_nInterfaceId e)"
    "lan_of E (ee_nDeviceId e) (ee_nInterfaceId e) w = Some (0, the_lan (ee_nDeviceId e) w)"
    "get_lan (ee_nDeviceId e) 0 w = Some (the_lan (ee_nDeviceId e) w)" "STPStatus (the_lan (ee_nDeviceId e) w)"
    "switchId (spt (the_lan (ee_nDeviceId e) w)) \<noteq> None"
    "stp_ident w0 (ee_nDeviceId e) = id_key (switchId (spt (the_lan (ee_nDeviceId e) w)))"
proof -
  let ?d = "ee_nDeviceId e" and ?i = "ee_nInterfaceId e"
  from good type obtain k b' where k: "ee_pPacket e = Some k" "bpdu_frame E k b'" "bpdu_rootId b' \<noteq> None"
    and p: "stp_port E w0 ?d ?i"
    by (auto simp: good_event_def)
  then have b': "b' = b"
    using b by (simp add: event_bpdu_def bpdu_frame_def)
  have d: "?d \<in> stp_nodes E w0" "?i \<in> set (lan_interfaceId (the_lan ?d w0))"
    using p by (auto simp: stp_port_def)
  then have dw: "?d \<in> stp_nodes E w"
    using same_net_nodes [OF same] by simp
  note lan = same_net_the_lan [OF same stp_nodesD(1) [OF d(1)]]
  have "switchId (spt (the_lan ?d w0)) \<noteq> None"
    using net d(1) by (simp add: stp_net_def)
  then have "switchId (spt (the_lan ?d w)) \<noteq> None" "stp_ident w0 ?d = id_key (switchId (spt (the_lan ?d w)))"
    using fixed_lanD(4) [OF lan(2)] by (simp_all add: stp_ident_def)
  moreover have "lan_of E ?d ?i w = Some (0, the_lan ?d w)"
    using stp_netD(1) [OF net d] stp_nodesD(2) [OF dw] by (simp add: lan_of_def)
  ultimately show ?thesis
    using k b' p stp_nodesD [OF dw] by (intro that [of k]) (simp_all add: bpdu_frame_def bpdu_of_def)
qed

lemma set_the_lan:
  assumes "get_lan d 0 w = Some lan"
  obtains w' where "set_lan d 0 lan' w = Some w'" "get_lan d 0 w' = Some lan'" "the_lan d w' = lan'"
    "\<forall>x. x \<noteq> d \<longrightarrow> the_lan x w' = the_lan x w" "eadded w' = eadded w" "eev w' = eev w"
    "fixed_lan lan' = fixed_lan lan \<longrightarrow> same_net w w'"
proof -
  obtain w' where w': "set_lan d 0 lan' w = Some w'" "get_lan d 0 w' = Some lan'"
    "\<forall>x y. (x, y) \<noteq> (d, 0) \<longrightarrow> get_lan x y w' = get_lan x y w" "eadded w' = eadded w" "eev w' = eev w"
    "fixed_lan lan' = fixed_lan lan \<longrightarrow> same_net w w'"
    by (rule set_lan_does [OF assms, of lan'])
  have "the_lan x w' = the_lan x w" if "x \<noteq> d" for x
    using w'(3) that by (simp add: the_lan_def)
  with w' show ?thesis
    by (intro that [of w']) (simp_all add: the_lan_def)
qed

lemma copy_label:
  assumes "snd (bpdu_label b) + unat (word_of_int (stpCost (spt lan)) :: u32) < 2 ^ 32"
  shows "bpdu_label (copy_bpdu lan b) =
    (fst (bpdu_label b), snd (bpdu_label b) + unat (word_of_int (stpCost (spt lan)) :: u32))"
proof -
  let ?x = "word_of_int (stpCost (spt lan)) :: u32" and ?y = "bpdu_rootPathCost b"
  have "unat ?x + unat ?y < 2 ^ LENGTH(32)"
    using assms by (simp add: bpdu_label_def)
  then have "unat (?x + ?y) = unat ?x + unat ?y"
    by (rule unat_add_lem [THEN iffD1])
  then show ?thesis
    by (simp only: bpdu_label_def copy_bpdu_def make_bpdu_def ETH_BPDU.select_convs fst_conv snd_conv add.commute)
qed

text \<open>A switch that takes a label sends it on.\<close>

lemma adopt_does:
  assumes lib: "bpdu_lib E" and net: "stp_net E w0" and same: "same_net w0 w" and p: "stp_port E w0 d i"
    and lan: "get_lan d 0 w = Some lan" and b: "bpdu_rootId b \<noteq> None"
    and small: "stp_nb E w0 d - {neighbour_of E d i} \<noteq> {} \<Longrightarrow> snd (bpdu_label b) + stp_cost w0 d < 2 ^ 32"
  obtains w1 w2 outs where "set_lan d 0 (mark_port i lan\<lparr>spt := update_spt b i (spt (mark_port i lan))\<rparr>) w = Some w1"
    "forward_bpdu E d i t 0 b w1 = Some w2" "same_net w0 w2" "eadded w2 = eadded w @ outs" "eev w2 = eev w"
    "label_of d w2 = bpdu_label b" "rootId (spt (the_lan d w2)) \<noteq> None" "\<And>x. x \<noteq> d \<Longrightarrow> the_lan x w2 = the_lan x w"
    "\<forall>x \<in> set outs. good_event E w0 x"
    "world_msgs E outs = label_election.tell (stp_cost w0) d (fst (bpdu_label b)) (snd (bpdu_label b)) (stp_nb E w0 d - {neighbour_of E d i})"
proof -
  let ?lan = "mark_port i lan\<lparr>spt := update_spt b i (spt (mark_port i lan))\<rparr>" and ?X = "stp_nb E w0 d - {neighbour_of E d i}"
  have d: "d \<in> stp_nodes E w0" using p by (simp add: stp_port_def)
  have fixed: "fixed_lan ?lan = fixed_lan lan"
    using fixed_ports(1) [where lan = "mark_port i lan" and r = "bpdu_rootId b" and c = "bpdu_rootPathCost b" and p = i] fixed_ports(2)
    by (simp add: update_spt_def)
  obtain w1 where w1: "set_lan d 0 ?lan w = Some w1" "get_lan d 0 w1 = Some ?lan"
    "the_lan d w1 = ?lan" "\<forall>x. x \<noteq> d \<longrightarrow> the_lan x w1 = the_lan x w" "eadded w1 = eadded w" "eev w1 = eev w"
    "fixed_lan ?lan = fixed_lan lan \<longrightarrow> same_net w w1"
    by (rule set_the_lan [OF lan, of ?lan])
  have same1: "same_net w0 w1"
    using same_net_trans [OF same w1(7) [rule_format, OF fixed]] .
  note lan1 = same_net_the_lan(2) [OF same1 stp_nodesD(1) [OF d]]
  let ?is = "filter (\<lambda>j. j \<noteq> i) (lan_interfaceId ?lan)"
  have ifs: "lan_interfaceId ?lan = lan_interfaceId (the_lan d w0)"
    using fixed_lanD(2) [OF lan1] w1(3) by simp
  have X: "neighbours_by E d w1 ?is = ?X"
    using neighbours_but [OF net p] same_net_neighbour [OF same1] by (simp add: neighbours_by_def ifs)
  have ok: "\<forall>j \<in> set ?is. stp_neighbour E d j w1 \<noteq> None"
    using stp_netD(2) [OF net d] same_net_neighbour [OF same1] ifs by simp
  from send_bpdu_does [OF lib ok bpdu_packet_frame [OF lib, of d t "copy_bpdu ?lan b"], where t = t, unfolded X]
  obtain k where k: "bpdu_frame E k (copy_bpdu ?lan b)" "set (get_dests E (destInfo k)) = ?X"
    and send: "send_bpdu_packet E d t ?is (bpdu_packet E d t (copy_bpdu ?lan b)) w1 =
      Some (if ?X \<noteq> {} then add_eth_event (bpdu_event E d t k) w1 else w1)"
    by blast
  have cost: "stp_cost w0 d = unat (word_of_int (stpCost (spt ?lan)) :: u32)"
    using fixed_lanD(3) [OF lan1] w1(3) by (simp add: stp_cost_def)
  have label: "bpdu_label (copy_bpdu ?lan b) = (fst (bpdu_label b), snd (bpdu_label b) + stp_cost w0 d)" if "?X \<noteq> {}"
    using copy_label [of b "?lan"] small [OF that] unfolding cost by blast
  define outs where "outs = (if ?X \<noteq> {} then [bpdu_event E d t k] else [])"
  have "\<forall>x \<in> set outs. good_event E w0 x"
    using bpdu_event_good(1) [OF lib d k(1) _ k(2) _ label] b by (auto simp: outs_def copy_bpdu_def make_bpdu_def)
  moreover have "world_msgs E outs = label_election.tell (stp_cost w0) d (fst (bpdu_label b)) (snd (bpdu_label b)) ?X"
  proof (cases "?X = {}")
    case True
    show ?thesis by (simp add: outs_def stp.tell_def True del: Diff_eq_empty_iff)
  next
    case False
    with bpdu_event_good(2) [OF lib d k(1) _ k(2) _ label [OF False]] b show ?thesis
      by (simp add: outs_def copy_bpdu_def make_bpdu_def del: Diff_eq_empty_iff)
  qed
  moreover define w2 where "w2 = (if ?X \<noteq> {} then add_eth_event (bpdu_event E d t k) w1 else w1)"
  have "forward_bpdu E d i t 0 b w1 = Some w2"
    using send w1(2) by (simp add: forward_bpdu_def copy_bpdu_packet_def w2_def)
  moreover have "the_lan x w2 = the_lan x w1" for x
    by (simp add: w2_def)
  then have "label_of d w2 = bpdu_label b" "rootId (spt (the_lan d w2)) \<noteq> None" "\<And>x. x \<noteq> d \<Longrightarrow> the_lan x w2 = the_lan x w"
    using w1(3,4) b by (simp_all add: label_of_def bpdu_label_def update_spt_def)
  moreover have "same_net w0 w2" "eadded w2 = eadded w @ outs" "eev w2 = eev w"
    using same1 w1(5,6) by (simp_all add: w2_def outs_def add_eth_event_def)
  ultimately show ?thesis
    using w1(1) by (intro that [of w1 w2 outs])
qed


text \<open>The handler of an arriving message: the label is taken and sent on, or nothing is told.\<close>

lemma process_does:
  assumes lib: "bpdu_lib E" and net: "stp_net E w0" and same: "same_net w0 w"
    and good: "good_event E w0 e" and type: "ee_nEventType e = MAC_IN_EVENT" and b: "event_bpdu E e = Some b"
    and d: "d = ee_nDeviceId e" and i: "i = ee_nInterfaceId e"
    and root: "rootId (spt (the_lan d w)) \<noteq> None"
    and own: "fst (label_of d w) = stp_ident w0 d \<Longrightarrow> snd (label_of d w) = 0"
    and small: "better (bpdu_label b) (label_of d w) \<Longrightarrow> stp_nb E w0 d - {neighbour_of E d i} \<noteq> {} \<Longrightarrow>
      snd (bpdu_label b) + stp_cost w0 d < 2 ^ 32"
  obtains (adopt) w' outs where "better (bpdu_label b) (label_of d w)"
      "fn_NetSim_Ethernet_Run E up (w\<lparr>eev := e, eadded := es\<rparr>) = Some w'" "same_net w0 w'" "eadded w' = es @ outs"
      "label_of d w' = bpdu_label b" "rootId (spt (the_lan d w')) \<noteq> None" "\<forall>x. x \<noteq> d \<longrightarrow> the_lan x w' = the_lan x w"
      "\<forall>x \<in> set outs. good_event E w0 x"
      "world_msgs E outs = label_election.tell (stp_cost w0) d (fst (bpdu_label b)) (snd (bpdu_label b)) (stp_nb E w0 d - {neighbour_of E d i})"
  | (ignore) w' where "\<not> better (bpdu_label b) (label_of d w)"
      "fn_NetSim_Ethernet_Run E up (w\<lparr>eev := e, eadded := es\<rparr>) = Some w'" "same_net w0 w'" "eadded w' = es"
      "\<forall>x. spt (the_lan x w') = spt (the_lan x w)"
proof -
  let ?W = "w\<lparr>eev := e, eadded := es\<rparr>" and ?lan = "the_lan d w"
  obtain k where k: "ee_pPacket e = Some k" "nControlDataType k = ETH_CONFIGBPDU" "bpdu_of E k = Some (Some b)" "bpdu_rootId b \<noteq> None"
    and p: "stp_port E w0 d i" and lan_of: "lan_of E d i w = Some (0, ?lan)" and lan: "get_lan d 0 w = Some ?lan"
    and status: "STPStatus ?lan" "switchId (spt ?lan) \<noteq> None" "stp_ident w0 d = id_key (switchId (spt ?lan))"
    unfolding d i by (rule arrival [OF net same good type b])
  have lan_of': "lan_of E d i ?W = Some (0, ?lan)"
    using lan_of by (simp add: lan_of_def)
  have own': "id_key (rootId (spt ?lan)) = id_key (switchId (spt ?lan)) \<Longrightarrow> rootPathCost (spt ?lan) = 0"
    using own status(3) by (simp add: label_of_def unat_eq_0)
  obtain r where r: "compare_bpdu b (spt ?lan) i = Some r" "r = FORWARD \<longleftrightarrow> better (bpdu_label b) (label_of d w)"
    using compare_better [OF k(4) root status(2) own', of i] unfolding label_of_def by blast
  define after where "after = (case r of
                    BLOCK \<Rightarrow> do { lan \<leftarrow> block_port E d 0 i ?lan; set_lan d 0 lan ?W }
                  | FORWARD \<Rightarrow> do {
                      w \<leftarrow> set_lan d 0 (mark_port i ?lan\<lparr>spt := update_spt b i (spt (mark_port i ?lan))\<rparr>) ?W;
                      forward_bpdu E d i (ee_dEventTime e) 0 b w }
                  | DONT_FORWARD \<Rightarrow> Some ?W)"
  have run: "fn_NetSim_Ethernet_Run E up ?W = map_option (\<lambda>w. w\<lparr>eev := (eev w)\<lparr>ee_pPacket := None\<rparr>\<rparr>) after"
    using k(1-3) lan_of' status(1) r(1) type
    by (simp add: fn_NetSim_Ethernet_Run_def fn_NetSim_Ethernet_HandleMacIn_def process_configbpdu_def d [symmetric] i [symmetric]
        after_def Let_def map_conv_bind_option comp_def)
  have lanW: "get_lan d 0 ?W = Some ?lan" and sameW: "same_net w0 ?W"
    using lan same by simp_all
  show thesis
  proof (cases "r = FORWARD")
    case True
    with r(2) have bt: "better (bpdu_label b) (label_of d w)" by simp
    obtain w1 w2 outs where w2: "set_lan d 0 (mark_port i ?lan\<lparr>spt := update_spt b i (spt (mark_port i ?lan))\<rparr>) ?W = Some w1"
      "forward_bpdu E d i (ee_dEventTime e) 0 b w1 = Some w2" "same_net w0 w2" "eadded w2 = eadded ?W @ outs" "eev w2 = eev ?W"
      "label_of d w2 = bpdu_label b" "rootId (spt (the_lan d w2)) \<noteq> None" "\<And>x. x \<noteq> d \<Longrightarrow> the_lan x w2 = the_lan x ?W"
      "\<forall>x \<in> set outs. good_event E w0 x"
      "world_msgs E outs = label_election.tell (stp_cost w0) d (fst (bpdu_label b)) (snd (bpdu_label b)) (stp_nb E w0 d - {neighbour_of E d i})"
      using adopt_does [OF lib net sameW p lanW k(4) small [OF bt], where t = "ee_dEventTime e"] by blast
    have "after = Some w2"
      using True w2(1,2) by (simp add: after_def)
    with w2 bt run show ?thesis
      by (intro adopt [of "w2\<lparr>eev := (eev w2)\<lparr>ee_pPacket := None\<rparr>\<rparr>" outs]) (simp_all add: label_of_def)
  next
    case False
    have "\<exists>w2. after = Some w2 \<and> same_net w0 w2 \<and> eadded w2 = es \<and> (\<forall>x. spt (the_lan x w2) = spt (the_lan x w))"
    proof (cases "r = BLOCK")
      case True
      have "i \<in> set (lan_interfaceId (the_lan d w0))" "d \<in> stp_nodes E w0"
        using p by (auto simp: stp_port_def)
      then obtain j where j: "GET_ETH_IF E d 0 i = Some j" "j < length (ethIfVar ?lan)"
        using stp_netD(3) [OF net] fixed_lanD(5) [OF same_net_the_lan(2) [OF same stp_nodesD(1)]] by metis
      then obtain lan' where l: "block_port E d 0 i ?lan = Some lan'"
        by (simp add: block_port_def upd_if_def)
      note f = fixed_ports(3) [OF l]
      obtain w2 where w2: "set_lan d 0 lan' ?W = Some w2" "get_lan d 0 w2 = Some lan'" "the_lan d w2 = lan'"
        "\<forall>x. x \<noteq> d \<longrightarrow> the_lan x w2 = the_lan x ?W" "eadded w2 = eadded ?W" "eev w2 = eev ?W"
        "fixed_lan lan' = fixed_lan ?lan \<longrightarrow> same_net ?W w2"
        by (rule set_the_lan [OF lanW, of lan'])
      have "spt (the_lan x w2) = spt (the_lan x w)" for x
        using w2(3,4) f by (cases "x = d") auto
      then show ?thesis
        using True l w2 f same_net_trans [OF sameW, of w2] by (simp add: after_def)
    next
      case F: False
      with False have "after = Some ?W" by (cases r) (simp_all add: after_def)
      then show ?thesis using sameW by simp
    qed
    then obtain w2 where "after = Some w2" "same_net w0 w2" "eadded w2 = es" "\<forall>x. spt (the_lan x w2) = spt (the_lan x w)"
      by blast
    with False r(2) run show ?thesis
      by (intro ignore [of "w2\<lparr>eev := (eev w2)\<lparr>ee_pPacket := None\<rparr>\<rparr>"]) simp_all
  qed
qed

end
