(* ===== verification/Eth_Tree.thy ===== *)
theory Eth_Tree
  imports Eth_Election
begin

text \<open>
  The events of the spanning tree protocol in any order are an election: simulation, progress and
  the end of the run.
\<close>

section \<open>The steps of a network\<close>

text \<open>The wire brings a frame to the other end with the message it has.\<close>

definition carried :: "ETH_ENV \<Rightarrow> ETH_EVENT \<Rightarrow> ETH_EVENT \<Rightarrow> bool" where
  "carried E e e' \<longleftrightarrow> ee_nEventType e' = MAC_IN_EVENT
     \<and> snd (GetConnectedDevice E (ee_nDeviceId e) (ee_nInterfaceId e)) = (ee_nDeviceId e', ee_nInterfaceId e')
     \<and> (\<exists>k k'. ee_pPacket e = Some k \<and> ee_pPacket e' = Some k' \<and> nControlDataType k' = nControlDataType k
          \<and> get_eth_hdr_var E k' = get_eth_hdr_var E k)"

text \<open>Any pending event may be the next.\<close>

inductive stp_step :: "ETH_ENV \<Rightarrow> (NETSIM_ID \<Rightarrow> NETSIM_ID \<Rightarrow> ETH_WORLD \<Rightarrow> ETH_WORLD option) \<Rightarrow> ETH_WORLD \<Rightarrow> ETH_WORLD \<Rightarrow> bool"
  for E up where
  switch: "eadded w = xs @ e # ys \<Longrightarrow> ee_nEventType e \<noteq> PHYSICAL_OUT_EVENT \<Longrightarrow>
     fn_NetSim_Ethernet_Run E up (w\<lparr>eev := e, eadded := xs @ ys\<rparr>) = Some w' \<Longrightarrow> stp_step E up w w'"
| wire: "eadded w = xs @ e # ys \<Longrightarrow> ee_nEventType e = PHYSICAL_OUT_EVENT \<Longrightarrow> carried E e e' \<Longrightarrow>
     stp_step E up w (w\<lparr>eadded := xs @ ys @ [e']\<rparr>)"

section \<open>The simulation\<close>

definition agrees :: "ETH_ENV \<Rightarrow> ETH_WORLD \<Rightarrow> ETH_WORLD \<Rightarrow> (NETSIM_ID, nat list) label_state \<Rightarrow> bool" where
  "agrees E w0 w s \<longleftrightarrow> same_net w0 w \<and> snd s = world_msgs E (eadded w) \<and> (\<forall>e \<in> set (eadded w). good_event E w0 e)
     \<and> (\<forall>d \<in> stp_nodes E w0. rootId (spt (the_lan d w)) \<noteq> None \<and> fst s d = label_of d w)"

lemma good_event_bpdu:
  assumes "good_event E w0 e"
  obtains b where "event_bpdu E e = Some b" "bpdu_rootId b \<noteq> None"
  using assms by (auto simp: good_event_def event_bpdu_def bpdu_frame_def)

lemma good_event_type: "good_event E w0 e \<Longrightarrow> ee_nEventType e = MAC_OUT_EVENT \<or> ee_nEventType e = PHYSICAL_OUT_EVENT \<or> ee_nEventType e = MAC_IN_EVENT"
  by (auto simp: good_event_def split: if_splits)

lemma good_event_port: "good_event E w0 e \<Longrightarrow> ee_nEventType e \<noteq> MAC_OUT_EVENT \<Longrightarrow> stp_port E w0 (ee_nDeviceId e) (ee_nInterfaceId e)"
  by (auto simp: good_event_def)

text \<open>Sending to the receivers and the way over the wire tell nothing new.\<close>

lemma multicast_agrees:
  assumes lib: "bpdu_lib E" and net: "stp_net E w0" and a: "agrees E w0 w s" and w: "eadded w = xs @ e # ys"
    and type: "ee_nEventType e = MAC_OUT_EVENT"
  obtains w' where "fn_NetSim_Ethernet_Run E up (w\<lparr>eev := e, eadded := xs @ ys\<rparr>) = Some w'" "agrees E w0 w' s"
    "world_stage E (eadded w') < world_stage E (eadded w)"
proof -
  have good: "good_event E w0 e"
    using a w by (simp add: agrees_def)
  obtain outs where outs: "fn_NetSim_Ethernet_Run E up (w\<lparr>eev := e, eadded := xs @ ys\<rparr>) = Some (w\<lparr>eev := e, eadded := (xs @ ys) @ outs\<rparr>)"
    "\<forall>x \<in> set outs. good_event E w0 x" "world_msgs E outs = event_msgs E e" "world_stage E outs < event_stage E e"
    by (rule multicast_does [OF lib net good type])
  have "agrees E w0 (w\<lparr>eev := e, eadded := (xs @ ys) @ outs\<rparr>) s"
    using a w outs(2,3) by (auto simp: agrees_def label_of_def)
  moreover have "world_stage E ((xs @ ys) @ outs) < world_stage E (eadded w)"
    using outs(4) w by simp
  ultimately show ?thesis
    by (intro that [OF outs(1)]) simp_all
qed

lemma carried_good:
  assumes net: "stp_net E w0" and good: "good_event E w0 e" and type: "ee_nEventType e = PHYSICAL_OUT_EVENT" and c: "carried E e e'"
  shows "good_event E w0 e'" "event_msgs E e' = event_msgs E e"
proof -
  obtain k b where k: "ee_pPacket e = Some k" "bpdu_frame E k b" "bpdu_rootId b \<noteq> None"
    using good by (auto simp: good_event_def)
  obtain k' where k': "ee_pPacket e' = Some k'" "bpdu_frame E k' b" and type': "ee_nEventType e' = MAC_IN_EVENT"
    using c k by (auto simp: carried_def bpdu_frame_def)
  obtain l where g: "GetConnectedDevice E (ee_nDeviceId e) (ee_nInterfaceId e) = (l, ee_nDeviceId e', ee_nInterfaceId e')"
    using c by (cases "GetConnectedDevice E (ee_nDeviceId e) (ee_nInterfaceId e)") (auto simp: carried_def)
  have p: "stp_port E w0 (ee_nDeviceId e) (ee_nInterfaceId e)"
    using good_event_port [OF good] type by simp
  note rev = stp_port_back [OF net p g]
  show "good_event E w0 e'"
    using k(3) k' type' rev(1) by (auto simp: good_event_def)
  show "event_msgs E e' = event_msgs E e"
    using k k' type type' rev by (simp add: event_msgs_def event_bpdu_def bpdu_frame_def Let_def)
qed

lemma wire_agrees:
  assumes net: "stp_net E w0" and a: "agrees E w0 w s" and w: "eadded w = xs @ e # ys"
    and type: "ee_nEventType e = PHYSICAL_OUT_EVENT" and c: "carried E e e'"
  shows "agrees E w0 (w\<lparr>eadded := xs @ ys @ [e']\<rparr>) s"
    "world_stage E (xs @ ys @ [e']) < world_stage E (eadded w)"
proof -
  have good: "good_event E w0 e"
    using a w by (simp add: agrees_def)
  note e' = carried_good [OF net good type c]
  show "agrees E w0 (w\<lparr>eadded := xs @ ys @ [e']\<rparr>) s"
    using a w e' by (auto simp: agrees_def label_of_def)
  show "world_stage E (xs @ ys @ [e']) < world_stage E (eadded w)"
    using w c type by (simp add: event_stage_def carried_def)
qed

text \<open>An arriving message is delivered.\<close>

lemma arrival_agrees:
  assumes lib: "bpdu_lib E" and net: "stp_net E w0" and a: "agrees E w0 w s" and known: "stp.known E w0 s"
    and w: "eadded w = xs @ e # ys" and type: "ee_nEventType e = MAC_IN_EVENT"
  obtains w' s' where "fn_NetSim_Ethernet_Run E up (w\<lparr>eev := e, eadded := xs @ ys\<rparr>) = Some w'" "agrees E w0 w' s'"
    "stp.deliver E w0 s s'"
proof -
  let ?d = "ee_nDeviceId e" and ?i = "ee_nInterfaceId e"
  let ?u = "neighbour_of E ?d ?i"
  have good: "good_event E w0 e" and same: "same_net w0 w"
    using a w by (simp_all add: agrees_def)
  obtain b where b: "event_bpdu E e = Some b"
    using good_event_bpdu [OF good] by blast
  obtain k c where kc: "bpdu_label b = (k, c)" by (cases "bpdu_label b")
  obtain l M where s: "s = (l, M)" by (cases s)
  have d: "?d \<in> stp_nodes E w0"
    using good_event_port [OF good] type by (simp add: stp_port_def)
  then have label: "l ?d = label_of ?d w" and root: "rootId (spt (the_lan ?d w)) \<noteq> None"
    using a s by (auto simp: agrees_def)
  have "event_msgs E e = {#(?u, ?d, k, c)#}"
    using b type kc by (auto simp: event_msgs_def event_bpdu_def Let_def split: option.splits)
  then have M: "M = add_mset (?u, ?d, k, c) (world_msgs E (xs @ ys))"
    using a w s by (simp add: agrees_def)
  then have told: "stp.told E w0 l (?u, ?d, k, c)"
    using known s by (simp add: stp.known_def)
  have own: "fst (label_of ?d w) = stp_ident w0 ?d \<Longrightarrow> snd (label_of ?d w) = 0"
    using stp.own_distance [of w0 E l ?d] known s d label net by (auto simp: stp.known_def stp_net_def)
  have small: "snd (bpdu_label b) + stp_cost w0 ?d < 2 ^ 32"
    if bt: "better (bpdu_label b) (label_of ?d w)" and ne: "stp_nb E w0 ?d - {?u} \<noteq> {}"
  proof -
    from ne obtain x where "x \<in> stp_nb E w0 ?d" by auto
    then have "stp.told E w0 (l(?d := (k, c))) (?d, x, k, c + stp_cost w0 ?d)"
      using stp.told_new(2) [OF told] bt label kc by simp
    then have "c + stp_cost w0 ?d \<le> sum (stp_cost w0) (stp_nodes E w0)"
      using stp.told_bounds by blast
    then show ?thesis
      using net kc by (simp add: stp_net_def)
  qed
  show thesis
  proof (rule process_does [OF lib net same good type b refl refl root, of up "xs @ ys"], goal_cases)
    case 1
    then show ?case by (rule own)
  next
    case 2
    then show ?case by (rule small)
  next
    case (3 w' outs)
    have "agrees E w0 w' (l(?d := (k, c)), world_msgs E (xs @ ys) + stp.tell w0 ?d k c (stp_nb E w0 ?d - {?u}))"
      using a w 3 kc s by (auto simp: agrees_def label_of_def)
    moreover have "stp.deliver E w0 s (l(?d := (k, c)), world_msgs E (xs @ ys) + stp.tell w0 ?d k c (stp_nb E w0 ?d - {?u}))"
      unfolding s M using 3(1) label kc by (intro stp.adopt) simp
    ultimately show ?case
      using that 3(2) by blast
  next
    case (4 w')
    have "agrees E w0 w' (l, world_msgs E (xs @ ys))"
      using a w 4 s by (auto simp: agrees_def label_of_def)
    moreover have "stp.deliver E w0 s (l, world_msgs E (xs @ ys))"
      unfolding s M using 4(1) label kc by (intro stp.ignore) simp
    ultimately show ?case
      using that 4(2) by blast
  qed
qed

end
