(* ===== verification/Eth_Start.thy ===== *)
theory Eth_Start
  imports Eth_Tree
begin

text \<open>
  The start of the spanning tree protocol: what \<open>init_spanning_tree_protocol\<close> leaves behind is the
  start of the election.
\<close>

section \<open>What a write to a LAN changes\<close>

definition other_lans :: "NETSIM_ID \<Rightarrow> nat \<Rightarrow> ETH_WORLD \<Rightarrow> ETH_WORLD \<Rightarrow> bool" where
  "other_lans d n w w' \<longleftrightarrow> (\<forall>x y. (x, y) \<noteq> (d, n) \<longrightarrow> get_lan x y w' = get_lan x y w) \<and> eadded w' = eadded w
     \<and> (\<forall>x. map_option (\<lambda>e. (isSPT e, length (lanVar e))) (eth_var w' x) = map_option (\<lambda>e. (isSPT e, length (lanVar e))) (eth_var w x))"

lemma other_lans_refl [simp]: "other_lans d n w w"
  by (simp add: other_lans_def)

lemma other_lans_trans: "other_lans d n a b \<Longrightarrow> other_lans d n b c \<Longrightarrow> other_lans d n a c"
  by (simp add: other_lans_def)

lemma set_lan_other:
  assumes "set_lan d n lan w = Some w'"
  shows "get_lan d n w' = Some lan" "other_lans d n w w'"
proof -
  from assms obtain e where e: "eth_var w d = Some e" "n < length (lanVar e)"
    "w' = w\<lparr>eth_var := (eth_var w)(d \<mapsto> e\<lparr>lanVar := (lanVar e)[n := lan]\<rparr>)\<rparr>"
    by (auto simp: set_lan_def upd_lan_def split: option.splits if_splits)
  then show "get_lan d n w' = Some lan" "other_lans d n w w'"
    by (auto simp: get_lan_def other_lans_def split: option.splits)
qed

text \<open>A step on the ports of a LAN.\<close>

definition port_step :: "NETSIM_ID \<Rightarrow> nat \<Rightarrow> ETH_WORLD \<Rightarrow> ETH_WORLD \<Rightarrow> bool" where
  "port_step d n w w' \<longleftrightarrow> other_lans d n w w' \<and> (\<exists>lan lan'. get_lan d n w = Some lan \<and> get_lan d n w' = Some lan'
     \<and> fixed_lan lan' = fixed_lan lan \<and> spt lan' = spt lan)"

lemma port_step_trans: "port_step d n a b \<Longrightarrow> port_step d n b c \<Longrightarrow> port_step d n a c"
  unfolding port_step_def using other_lans_trans by fastforce

lemma upd_if_fixed:
  assumes "upd_if j f lan = Some lan'" "\<And>x. fixed_if (f x) = fixed_if x"
  shows "fixed_lan lan' = fixed_lan lan" "spt lan' = spt lan"
proof -
  from assms(1) have j: "j < length (ethIfVar lan)" "lan' = lan\<lparr>ethIfVar := (ethIfVar lan)[j := f (ethIfVar lan ! j)]\<rparr>"
    by (auto simp: upd_if_def split: if_splits)
  have "map fixed_if ((ethIfVar lan)[j := f (ethIfVar lan ! j)]) = map fixed_if (ethIfVar lan)"
    using assms(2) by (metis list_update_id map_update)
  with j(2) show "fixed_lan lan' = fixed_lan lan" "spt lan' = spt lan"
    by (simp_all add: fixed_lan_def)
qed

lemma set_lan_port:
  assumes "set_lan d n lan' w = Some w'" "get_lan d n w = Some lan" "fixed_lan lan' = fixed_lan lan" "spt lan' = spt lan"
  shows "port_step d n w w'"
  using assms set_lan_other [OF assms(1)] by (auto simp: port_step_def)

lemma init_port_step:
  assumes "init_port E d n i w = Some w'"
  shows "port_step d n w w'"
proof -
  obtain l c ci where g: "GetConnectedDevice E d (lan_interfaceId (the (get_lan d n w)) ! i) = (l, c, ci)"
    by (cases "GetConnectedDevice E d (lan_interfaceId (the (get_lan d n w)) ! i)")
  from assms obtain lan lan1 w1 plain lan2 where lan: "get_lan d n w = Some lan"
    and l1: "(if l = 0 then upd_if i (portState_update (\<lambda>_. PORTSTATE_BLOCKING)) lan else Some lan) = Some lan1"
    and w1: "set_lan d n lan1 w = Some w1"
    and l2: "(if plain then upd_if i (portState_update (\<lambda>_. PORTSTATE_FORWARDING)) lan1
            else upd_if i (\<lambda>f. f\<lparr>portState := PORTSTATE_FORWARDING, portType := PORTTYPE_DESIGNATED\<rparr>) lan1) = Some lan2"
    and w2: "set_lan d n lan2 w1 = Some w'"
    using g by (auto simp: init_port_def Let_def elim!: bind_SomeE)
  have f1: "fixed_lan lan1 = fixed_lan lan" "spt lan1 = spt lan"
    using upd_if_fixed [of i "portState_update (\<lambda>_. PORTSTATE_BLOCKING)" lan lan1] l1
    by (auto simp: fixed_if_def split: if_splits)
  have f2: "fixed_lan lan2 = fixed_lan lan1" "spt lan2 = spt lan1"
    using upd_if_fixed [of i "portState_update (\<lambda>_. PORTSTATE_FORWARDING)" lan1 lan2]
      upd_if_fixed [of i "\<lambda>f. f\<lparr>portState := PORTSTATE_FORWARDING, portType := PORTTYPE_DESIGNATED\<rparr>" lan1 lan2] l2
    by (auto simp: fixed_if_def split: if_splits)
  show ?thesis
    using port_step_trans [OF set_lan_port [OF w1 lan f1] set_lan_port [OF w2 set_lan_other(1) [OF w1] f2]] .
qed

lemma init_ports_step: "eth_spt_init_port E d n w = Some w' \<Longrightarrow> port_step d n w w'"
proof -
  assume "eth_spt_init_port E d n w = Some w'"
  then obtain lan where lan: "get_lan d n w = Some lan"
    and loop: "for_each (init_port E d n) [0..<length (lan_interfaceId lan)] w = Some w'"
    by (auto simp: eth_spt_init_port_def elim!: bind_SomeE)
  have "port_step d n w w"
    using lan by (simp add: port_step_def)
  then show ?thesis
    using for_each_keeps [where P = "port_step d n w", OF _ _ loop] port_step_trans init_port_step by blast
qed

section \<open>The status of the LANs\<close>

text \<open>What the neighbours of a switch depend on.\<close>

definition same_status :: "ETH_WORLD \<Rightarrow> ETH_WORLD \<Rightarrow> bool" where
  "same_status w w' \<longleftrightarrow> (\<forall>d n. map_option (\<lambda>l. (STPStatus l, lan_interfaceId l)) (get_lan d n w') =
       map_option (\<lambda>l. (STPStatus l, lan_interfaceId l)) (get_lan d n w))
     \<and> (\<forall>d. map_option (\<lambda>e. (isSPT e, length (lanVar e))) (eth_var w' d) = map_option (\<lambda>e. (isSPT e, length (lanVar e))) (eth_var w d))"

lemma same_status_refl [simp]: "same_status w w"
  by (simp add: same_status_def)

lemma same_status_trans: "same_status a b \<Longrightarrow> same_status b c \<Longrightarrow> same_status a c"
  by (simp add: same_status_def)

lemma same_status_map:
  assumes "same_status w w'"
  shows "map_option STPStatus (get_lan d n w') = map_option STPStatus (get_lan d n w)"
    "map_option lan_interfaceId (get_lan d n w') = map_option lan_interfaceId (get_lan d n w)"
    "map_option isSPT (eth_var w' d) = map_option isSPT (eth_var w d)"
    "map_option (\<lambda>e. length (lanVar e)) (eth_var w' d) = map_option (\<lambda>e. length (lanVar e)) (eth_var w d)"
proof -
  have m: "map_option (\<lambda>l. (STPStatus l, lan_interfaceId l)) (get_lan d n w') =
       map_option (\<lambda>l. (STPStatus l, lan_interfaceId l)) (get_lan d n w)"
    and v: "map_option (\<lambda>e. (isSPT e, length (lanVar e))) (eth_var w' d) = map_option (\<lambda>e. (isSPT e, length (lanVar e))) (eth_var w d)"
    using assms by (simp_all add: same_status_def)
  show "map_option STPStatus (get_lan d n w') = map_option STPStatus (get_lan d n w)"
    "map_option lan_interfaceId (get_lan d n w') = map_option lan_interfaceId (get_lan d n w)"
    using arg_cong [OF m, of "map_option fst"] arg_cong [OF m, of "map_option snd"] by (simp_all add: option.map_comp comp_def)
  show "map_option isSPT (eth_var w' d) = map_option isSPT (eth_var w d)"
    "map_option (\<lambda>e. length (lanVar e)) (eth_var w' d) = map_option (\<lambda>e. length (lanVar e)) (eth_var w d)"
    using arg_cong [OF v, of "map_option fst"] arg_cong [OF v, of "map_option snd"] by (simp_all add: option.map_comp comp_def)
qed

lemma same_status_neighbour:
  assumes "same_status w w'"
  shows "stp_neighbour E d i w' = stp_neighbour E d i w"
proof -
  have "eth_var w' c = None \<longleftrightarrow> eth_var w c = None" for c
    using same_status_map(3) [OF assms, of c] by (metis option.map_disc_iff)
  then show ?thesis
    by (simp only: stp_neighbour_status same_status_map(1) [OF assms])
qed

lemma in_stp_nodes: "d \<in> stp_nodes E w \<longleftrightarrow> d \<in> {1..eth_nDeviceCount E} \<and> map_option STPStatus (get_lan d 0 w) = Some True"
  by (auto simp: stp_nodes_def the_lan_def)

lemma same_status_nodes: "same_status w w' \<Longrightarrow> stp_nodes E w' = stp_nodes E w"
  using same_status_map(1) [of w w'] by (simp add: set_eq_iff in_stp_nodes)

lemma other_lans_status:
  assumes "other_lans d n w w'" "get_lan d n w = Some l" "get_lan d n w' = Some l'"
    "STPStatus l' = STPStatus l" "lan_interfaceId l' = lan_interfaceId l"
  shows "same_status w w'"
  unfolding same_status_def
proof (intro conjI allI)
  show "map_option (\<lambda>l. (STPStatus l, lan_interfaceId l)) (get_lan x y w') = map_option (\<lambda>l. (STPStatus l, lan_interfaceId l)) (get_lan x y w)" for x y
    using assms by (cases "(x, y) = (d, n)") (auto simp: other_lans_def)
qed (use assms(1) in \<open>simp add: other_lans_def\<close>)


section \<open>A switch starts\<close>

text \<open>A switch starts as its own root and tells its neighbours.\<close>

definition starts :: "ETH_ENV \<Rightarrow> NETSIM_ID \<Rightarrow> ETH_WORLD \<Rightarrow> ETH_WORLD \<Rightarrow> bool" where
  "starts E d w w' \<longleftrightarrow> (\<exists>w1 lan lan' k. other_lans d 0 w w1 \<and> get_lan d 0 w = Some lan \<and> get_lan d 0 w1 = Some lan'
     \<and> STPStatus lan' = STPStatus lan \<and> lan_interfaceId lan' = lan_interfaceId lan \<and> rootPathCost (spt lan') = rootPathCost (spt lan)
     \<and> switchId (spt lan') \<noteq> None \<and> rootId (spt lan') = switchId (spt lan')
     \<and> bpdu_frame E k (create_bpdu lan') \<and> set (get_dests E (destInfo k)) = neighbours_by E d w (lan_interfaceId lan)
     \<and> w' = (if neighbours_by E d w (lan_interfaceId lan) \<noteq> {} then add_eth_event (bpdu_event E d 0 k) w1 else w1))"

lemma start_lan_does:
  assumes lib: "bpdu_lib E" and start: "start_spt_for_lan E d 0 w = Some w'" and lan: "get_lan d 0 w = Some lan"
    and ok: "\<forall>i \<in> set (lan_interfaceId lan). stp_neighbour E d i w \<noteq> None"
  shows "starts E d w w'"
proof -
  from start obtain w1 lan1 lan2 w2 where w1: "eth_spt_init_port E d 0 w = Some w1" and lan1: "get_lan d 0 w1 = Some lan1"
    and lan2: "(if switchId (spt lan1) = None then configure_switch_id lan1 else Some lan1) = Some lan2"
    and w2: "set_lan d 0 (lan2\<lparr>spt := (spt lan2)\<lparr>rootId := switchId (spt lan2)\<rparr>\<rparr>) w1 = Some w2"
    and send: "send_config_bpdu E d 0 0 w2 = Some w'"
    by (auto simp: start_spt_for_lan_def elim!: bind_SomeE)
  let ?lan = "lan2\<lparr>spt := (spt lan2)\<lparr>rootId := switchId (spt lan2)\<rparr>\<rparr>"
  have p: "other_lans d 0 w w1" "fixed_lan lan1 = fixed_lan lan" "spt lan1 = spt lan"
    using init_ports_step [OF w1] lan lan1 by (auto simp: port_step_def)
  have l2: "STPStatus lan2 = STPStatus lan1" "lan_interfaceId lan2 = lan_interfaceId lan1"
    "rootPathCost (spt lan2) = rootPathCost (spt lan1)" "switchId (spt lan2) \<noteq> None"
    using lan2 by (auto simp: configure_switch_id_def Let_def elim!: bind_SomeE split: if_splits)
  note eq = fixed_lanD(1,2) [OF p(2)]
  have o: "other_lans d 0 w w2" and g: "get_lan d 0 w2 = Some ?lan"
    using other_lans_trans [OF p(1) set_lan_other(2) [OF w2]] set_lan_other(1) [OF w2] by auto
  have same: "same_status w w2"
    by (rule other_lans_status [OF o lan g]) (simp_all add: l2 eq)
  have nb: "neighbours_by E d w2 is = neighbours_by E d w is" for "is"
    using same_status_neighbour [OF same] by (simp add: neighbours_by_def)
  have ok2: "\<forall>i \<in> set (lan_interfaceId ?lan). stp_neighbour E d i w2 \<noteq> None"
    using ok same_status_neighbour [OF same] l2 eq by simp
  from send_bpdu_does [OF lib ok2 bpdu_packet_frame [OF lib, of d 0 "create_bpdu ?lan"], where t = 0]
  obtain k where k: "bpdu_frame E k (create_bpdu ?lan)" "set (get_dests E (destInfo k)) = neighbours_by E d w2 (lan_interfaceId ?lan)"
    "send_bpdu_packet E d 0 (lan_interfaceId ?lan) (bpdu_packet E d 0 (create_bpdu ?lan)) w2 =
      Some (if neighbours_by E d w2 (lan_interfaceId ?lan) \<noteq> {} then add_eth_event (bpdu_event E d 0 k) w2 else w2)"
    by blast
  have ifs: "lan_interfaceId ?lan = lan_interfaceId lan"
    by (simp add: l2 eq)
  have w': "w' = (if neighbours_by E d w (lan_interfaceId lan) \<noteq> {} then add_eth_event (bpdu_event E d 0 k) w2 else w2)"
    using send g k(3) unfolding ifs nb by (simp add: send_config_bpdu_def create_bpdu_packet_def ifs)
  have "set (get_dests E (destInfo k)) = neighbours_by E d w (lan_interfaceId lan)"
    using k(2) unfolding ifs nb .
  with o lan g k(1) w' show ?thesis
    unfolding starts_def by (intro exI [of _ w2] exI [of _ lan] exI [of _ ?lan] exI [of _ k]) (simp add: l2 eq p(3))
qed

text \<open>The LANs that run the protocol are first LANs of devices that do.\<close>

definition lone :: "ETH_WORLD \<Rightarrow> bool" where
  "lone w \<longleftrightarrow> (\<forall>d n. map_option STPStatus (get_lan d n w) = Some True \<longrightarrow> n = 0 \<and> map_option isSPT (eth_var w d) = Some True)"

lemma same_status_lone: "same_status w w' \<Longrightarrow> lone w' = lone w"
  using same_status_map(1,3) [of w w'] by (simp add: lone_def)

definition start_device :: "ETH_ENV \<Rightarrow> NETSIM_ID \<Rightarrow> ETH_WORLD \<Rightarrow> ETH_WORLD option" where
  "start_device E d w = (case eth_var w d of
       None \<Rightarrow> Some w
     | Some e \<Rightarrow> (if isSPT e then start_spanning_tree_protocol E d w else Some w))"

lemma for_each_idle: "(\<And>x. x \<in> set xs \<Longrightarrow> f x s = Some s) \<Longrightarrow> for_each f xs s = Some s"
  by (induction xs) auto

lemma starts_status: "starts E d w w' \<Longrightarrow> same_status w w'"
proof -
  assume "starts E d w w'"
  then obtain w1 lan lan' k where w: "other_lans d 0 w w1" "get_lan d 0 w = Some lan" "get_lan d 0 w1 = Some lan'"
    "STPStatus lan' = STPStatus lan" "lan_interfaceId lan' = lan_interfaceId lan"
    "w' = (if neighbours_by E d w (lan_interfaceId lan) \<noteq> {} then add_eth_event (bpdu_event E d 0 k) w1 else w1)"
    unfolding starts_def by blast
  have "same_status w w1"
    by (rule other_lans_status [OF w(1-5)])
  moreover have "same_status w1 (add_eth_event x w1)" for x
    by (simp add: same_status_def) (simp add: add_eth_event_def)
  ultimately show ?thesis
    using w(6) same_status_trans by auto
qed

lemma start_device_does:
  assumes lib: "bpdu_lib E" and lone: "lone w" and start: "start_device E d w = Some w'" and d: "d \<in> {1..eth_nDeviceCount E}"
    and ok: "\<And>i. d \<in> stp_nodes E w \<Longrightarrow> i \<in> set (lan_interfaceId (the_lan d w)) \<Longrightarrow> stp_neighbour E d i w \<noteq> None"
  shows "if d \<in> stp_nodes E w then starts E d w w' else w' = w"
proof (cases "eth_var w d")
  case None
  with start d show ?thesis
    by (simp add: start_device_def in_stp_nodes get_lan_def)
next
  case (Some e)
  let ?f = "\<lambda>n w. do { lan \<leftarrow> get_lan d n w; if STPStatus lan then start_spt_for_lan E d n w else Some w }"
  have idle: "?f n x = Some x" if same: "same_status w x" and n: "n < length (lanVar e)"
    and off: "n \<noteq> 0 \<or> d \<notin> stp_nodes E w" for x n
  proof -
    obtain l where l: "get_lan d n w = Some l"
      using Some n by (simp add: get_lan_def)
    have "\<not> STPStatus l"
      using lone l off d by (auto simp: lone_def in_stp_nodes)
    then have "map_option STPStatus (get_lan d n x) = Some False"
      using same_status_map(1) [OF same, of d n] l by simp
    then show ?thesis by auto
  qed
  show ?thesis
  proof (cases "d \<in> stp_nodes E w")
    case False
    then have "isSPT e \<Longrightarrow> for_each ?f [0..<length (lanVar e)] w = Some w"
      by (intro for_each_idle idle) auto
    with start Some False show ?thesis
      by (auto simp: start_device_def start_spanning_tree_protocol_def split: if_splits)
  next
    case True
    then have lan: "get_lan d 0 w = Some (the_lan d w)" "STPStatus (the_lan d w)"
      by (rule stp_nodesD)+
    have spt: "isSPT e"
      using lone [unfolded lone_def, rule_format, of d 0] lan Some by auto
    have n: "[0..<length (lanVar e)] = 0 # [1..<length (lanVar e)]"
      using lan(1) Some by (auto simp: get_lan_def upt_conv_Cons split: if_splits)
    from start Some spt have "for_each ?f (0 # [1..<length (lanVar e)]) w = Some w'"
      by (simp add: start_device_def start_spanning_tree_protocol_def n)
    then obtain w1 where w1: "start_spt_for_lan E d 0 w = Some w1" "for_each ?f [1..<length (lanVar e)] w1 = Some w'"
      using lan by (auto elim!: bind_SomeE)
    have s: "starts E d w w1"
      by (rule start_lan_does [OF lib w1(1) lan(1)]) (use ok True in auto)
    have "for_each ?f [1..<length (lanVar e)] w1 = Some w1"
      using starts_status [OF s] by (intro for_each_idle idle) auto
    with w1(2) s True show ?thesis by simp
  qed
qed


section \<open>All switches start\<close>

definition all_neighbours :: "ETH_ENV \<Rightarrow> ETH_WORLD \<Rightarrow> NETSIM_ID \<Rightarrow> NETSIM_ID set" where
  "all_neighbours E w d = (case map_option lan_interfaceId (get_lan d 0 w) of None \<Rightarrow> {} | Some is \<Rightarrow> neighbours_by E d w is)"

definition start_events :: "ETH_ENV \<Rightarrow> ETH_WORLD \<Rightarrow> (NETSIM_ID \<Rightarrow> ETH_PKT) \<Rightarrow> NETSIM_ID \<Rightarrow> ETH_EVENT list" where
  "start_events E w k d = (if d \<in> stp_nodes E w \<and> all_neighbours E w d \<noteq> {} then [bpdu_event E d 0 (k d)] else [])"

definition started :: "ETH_ENV \<Rightarrow> ETH_WORLD \<Rightarrow> (NETSIM_ID \<Rightarrow> ETH_PKT) \<Rightarrow> NETSIM_ID \<Rightarrow> bool" where
  "started E w k d \<longleftrightarrow> switchId (spt (the_lan d w)) \<noteq> None \<and> rootId (spt (the_lan d w)) = switchId (spt (the_lan d w))
     \<and> bpdu_frame E (k d) (create_bpdu (the_lan d w)) \<and> set (get_dests E (destInfo (k d))) = all_neighbours E w d"

lemma same_status_neighbours:
  assumes "same_status w w'"
  shows "all_neighbours E w' d = all_neighbours E w d"
proof -
  have "neighbours_by E d w' = neighbours_by E d w"
    using same_status_neighbour [OF assms] by (simp add: neighbours_by_def fun_eq_iff)
  then show ?thesis
    by (simp only: all_neighbours_def same_status_map(2) [OF assms])
qed

lemma same_status_events: "same_status w w' \<Longrightarrow> start_events E w' k d = start_events E w k d"
  by (simp add: start_events_def same_status_nodes same_status_neighbours)

definition answers :: "ETH_ENV \<Rightarrow> ETH_WORLD \<Rightarrow> bool" where
  "answers E w \<longleftrightarrow> (\<forall>d \<in> stp_nodes E w. case map_option lan_interfaceId (get_lan d 0 w) of
     None \<Rightarrow> True | Some is \<Rightarrow> \<forall>i \<in> set is. stp_neighbour E d i w \<noteq> None)"

lemma same_status_answers: "same_status w w' \<Longrightarrow> answers E w' = answers E w"
  by (simp only: answers_def same_status_nodes same_status_map(2) same_status_neighbour)

lemma starts_does:
  assumes "starts E d w w'" "d \<in> stp_nodes E w"
  obtains k where "eadded w' = eadded w @ start_events E w (\<lambda>_. k) d" "started E w' (\<lambda>_. k) d"
    "rootPathCost (spt (the_lan d w')) = rootPathCost (spt (the_lan d w))" "\<forall>x n. x \<noteq> d \<longrightarrow> get_lan x n w' = get_lan x n w"
proof -
  from assms(1) obtain w1 lan lan' k where o: "other_lans d 0 w w1" and lan: "get_lan d 0 w = Some lan" "get_lan d 0 w1 = Some lan'"
    and l: "STPStatus lan' = STPStatus lan" "lan_interfaceId lan' = lan_interfaceId lan" "rootPathCost (spt lan') = rootPathCost (spt lan)"
      "switchId (spt lan') \<noteq> None" "rootId (spt lan') = switchId (spt lan')"
    and k: "bpdu_frame E k (create_bpdu lan')" "set (get_dests E (destInfo k)) = neighbours_by E d w (lan_interfaceId lan)"
    and w': "w' = (if neighbours_by E d w (lan_interfaceId lan) \<noteq> {} then add_eth_event (bpdu_event E d 0 k) w1 else w1)"
    unfolding starts_def by blast
  have nb: "all_neighbours E w d = neighbours_by E d w (lan_interfaceId lan)"
    using lan(1) by (simp add: all_neighbours_def)
  have g: "get_lan x n w' = get_lan x n w1" for x n
    by (simp add: w')
  have the: "the_lan d w' = lan'" "the_lan d w = lan"
    using lan g by (simp_all add: the_lan_def)
  have "eadded w' = eadded w @ start_events E w (\<lambda>_. k) d"
    using o assms(2) by (simp add: w' start_events_def nb other_lans_def add_eth_event_def)
  moreover have "started E w' (\<lambda>_. k) d"
    using l k nb same_status_neighbours [OF starts_status [OF assms(1)]] by (simp add: started_def the)
  ultimately show ?thesis
    using o l(3) g the by (intro that [of k]) (simp_all add: other_lans_def)
qed

lemma start_all:
  assumes lib: "bpdu_lib E" and run: "for_each (start_device E) ds w = Some w1" and ds: "distinct ds" "set ds \<subseteq> {1..eth_nDeviceCount E}"
    and w: "lone w" "answers E w"
  shows "\<exists>k. same_status w w1 \<and> (\<forall>x n. x \<notin> set ds \<longrightarrow> get_lan x n w1 = get_lan x n w)
    \<and> eadded w1 = eadded w @ concat (map (start_events E w k) ds)
    \<and> (\<forall>d \<in> set ds \<inter> stp_nodes E w. started E w1 k d \<and> rootPathCost (spt (the_lan d w1)) = rootPathCost (spt (the_lan d w)))"
  using run ds w
proof (induction ds arbitrary: w)
  case Nil
  then show ?case by simp
next
  case (Cons d ds)
  from Cons.prems(1) obtain w2 where w2: "start_device E d w = Some w2" "for_each (start_device E) ds w2 = Some w1"
    by (auto elim!: bind_SomeE)
  have d: "d \<in> {1..eth_nDeviceCount E}" "d \<notin> set ds" "distinct ds" "set ds \<subseteq> {1..eth_nDeviceCount E}"
    using Cons.prems(2,3) by auto
  have "stp_neighbour E d i w \<noteq> None" if "d \<in> stp_nodes E w" "i \<in> set (lan_interfaceId (the_lan d w))" for i
    using Cons.prems(5) that stp_nodesD(2) [OF that(1)] by (auto simp: answers_def)
  then have dev: "if d \<in> stp_nodes E w then starts E d w w2 else w2 = w"
    using start_device_does [OF lib Cons.prems(4) w2(1) d(1)] by blast
  then have same: "same_status w w2"
    using starts_status by (auto split: if_splits)
  from Cons.IH [OF w2(2) d(3,4)] Cons.prems(4,5) same_status_lone [OF same] same_status_answers [OF same]
  obtain k where k: "same_status w2 w1" "\<forall>x n. x \<notin> set ds \<longrightarrow> get_lan x n w1 = get_lan x n w2"
    "eadded w1 = eadded w2 @ concat (map (start_events E w2 k) ds)"
    "\<forall>d \<in> set ds \<inter> stp_nodes E w2. started E w1 k d \<and> rootPathCost (spt (the_lan d w1)) = rootPathCost (spt (the_lan d w2))"
    by metis
  have k3: "eadded w1 = eadded w2 @ concat (map (start_events E w k) ds)"
    using k(3) same_status_events [OF same] by (metis (no_types, lifting) map_eq_conv)
  have later: "the_lan d w1 = the_lan d w2"
    using k(2) d(2) by (simp add: the_lan_def)
  note same1 = same_status_trans [OF same k(1)]
  show ?case
  proof (cases "d \<in> stp_nodes E w")
    case False
    then have "w2 = w" using dev by simp
    with k False have "same_status w w1 \<and> (\<forall>x n. x \<notin> set (d # ds) \<longrightarrow> get_lan x n w1 = get_lan x n w)
      \<and> eadded w1 = eadded w @ concat (map (start_events E w k) (d # ds))
      \<and> (\<forall>x \<in> set (d # ds) \<inter> stp_nodes E w. started E w1 k x \<and> rootPathCost (spt (the_lan x w1)) = rootPathCost (spt (the_lan x w)))"
      by (auto simp: start_events_def)
    then show ?thesis by blast
  next
    case True
    with dev obtain q where q: "eadded w2 = eadded w @ start_events E w (\<lambda>_. q) d" "started E w2 (\<lambda>_. q) d"
      "rootPathCost (spt (the_lan d w2)) = rootPathCost (spt (the_lan d w))" "\<forall>x n. x \<noteq> d \<longrightarrow> get_lan x n w2 = get_lan x n w"
      using starts_does [of E d w w2] by auto
    let ?k = "k(d := q)"
    have "start_events E w ?k x = start_events E w k x" if "x \<in> set ds" for x
      using that d(2) by (auto simp: start_events_def)
    then have "map (start_events E w ?k) ds = map (start_events E w k) ds"
      by simp
    moreover have "start_events E w ?k d = start_events E w (\<lambda>_. q) d"
      by (simp add: start_events_def)
    ultimately have "eadded w1 = eadded w @ concat (map (start_events E w ?k) (d # ds))"
      using q(1) k3 by (simp del: map_eq_conv)
    moreover have "started E w1 ?k d"
      using q(2) same_status_neighbours [OF k(1)] by (simp add: started_def later)
    moreover have "started E w1 ?k x" if "x \<in> set ds \<inter> stp_nodes E w" for x
      using that k(4) same_status_nodes [OF same] d(2) by (auto simp: started_def)
    moreover have "rootPathCost (spt (the_lan x w1)) = rootPathCost (spt (the_lan x w))" if "x \<in> set (d # ds) \<inter> stp_nodes E w" for x
    proof (cases "x = d")
      case False
      then have "the_lan x w2 = the_lan x w" using q(4) by (simp add: the_lan_def)
      with False that k(4) same_status_nodes [OF same] show ?thesis by auto
    qed (use q(3) later in simp)
    moreover have "\<forall>x n. x \<notin> set (d # ds) \<longrightarrow> get_lan x n w1 = get_lan x n w"
      using k(2) q(4) by simp
    ultimately show ?thesis
      using same1 by (intro exI [of _ ?k]) (auto simp del: fun_upd_apply)
  qed
qed


section \<open>The status of the LANs is set first\<close>

text \<open>A network before the start: no event is pending and no cost is known.\<close>

definition idle_net :: "ETH_WORLD \<Rightarrow> bool" where
  "idle_net w \<longleftrightarrow> eadded w = [] \<and> (\<forall>d n lan. get_lan d n w = Some lan \<longrightarrow> rootPathCost (spt lan) = 0)"

definition set_status :: "ETH_ENV \<Rightarrow> ETH_WORLD \<Rightarrow> ETH_WORLD option" where
  "set_status E w = for_each (\<lambda>d w. case eth_var w d of
            None \<Rightarrow> Some w
          | Some e \<Rightarrow> for_each (init_lan_status E d) [0..<length (lanVar e)] w) [1..<Suc (eth_nDeviceCount E)] w"

lemma init_in_two: "init_spanning_tree_protocol E w = do { w \<leftarrow> set_status E w; for_each (start_device E) [1..<Suc (eth_nDeviceCount E)] w }"
  by (simp add: init_spanning_tree_protocol_def set_status_def start_device_def [abs_def])

lemma set_lan_idle:
  assumes "set_lan d n lan' w = Some w'" "idle_net w" "rootPathCost (spt lan') = 0"
  shows "idle_net w'"
  unfolding idle_net_def
proof (intro conjI allI impI)
  note o = set_lan_other [OF assms(1)]
  show "eadded w' = []"
    using o(2) assms(2) by (simp add: other_lans_def idle_net_def)
  fix x y lan assume "get_lan x y w' = Some lan"
  then show "rootPathCost (spt lan) = 0"
    using o assms(2,3) by (cases "(x, y) = (d, n)") (auto simp: other_lans_def idle_net_def)
qed

lemma init_lan_status_idle:
  assumes "init_lan_status E d n w = Some w'" "idle_net w"
  shows "idle_net w'"
proof -
  from assms(1) obtain lan lan' where lan: "get_lan d n w = Some lan" and w': "set_lan d n lan' w = Some w'" and s: "spt lan' = spt lan"
    by (auto simp: init_lan_status_def upd_if_def elim!: bind_SomeE split: if_splits)
  have "rootPathCost (spt lan') = 0"
    using assms(2) lan s by (simp add: idle_net_def)
  then show ?thesis
    by (rule set_lan_idle [OF w' assms(2)])
qed

lemma set_status_idle:
  assumes "set_status E w = Some w'" "idle_net w"
  shows "idle_net w'"
proof (rule for_each_keeps [where P = idle_net, OF _ assms(2) assms(1) [unfolded set_status_def]])
  fix d s s' assume P: "idle_net s" and step: "(case eth_var s d of None \<Rightarrow> Some s
     | Some e \<Rightarrow> for_each (init_lan_status E d) [0..<length (lanVar e)] s) = Some s'"
  show "idle_net s'"
  proof (cases "eth_var s d")
    case (Some e)
    with step show ?thesis
      using for_each_keeps [where P = idle_net and f = "init_lan_status E d", OF init_lan_status_idle P] by simp
  qed (use P step in simp)
qed

end
