(* ===== verification/Eth_Agree.thy ===== *)
theory Eth_Agree
  imports Eth_Start
begin

text \<open>
  The spanning tree protocol ends, and when it has ended every switch names the switch with the
  lowest identifier as the root, at the cost of a shortest route.
\<close>

section \<open>The start is the start of the election\<close>

lemma stp_net_answers: "stp_net E w \<Longrightarrow> answers E w"
  using stp_netD(2) stp_nodesD(2) by (auto simp: answers_def split: option.split)

lemma started_events:
  assumes lib: "bpdu_lib E" and net: "stp_net E w" and d: "d \<in> stp_nodes E w" and s: "started E w k d"
  shows "world_msgs E (start_events E w k d) = label_election.tell (stp_cost w) d (stp_ident w d) 0 (stp_nb E w d)"
    "\<forall>e \<in> set (start_events E w k d). good_event E w e"
proof -
  let ?b = "create_bpdu (the_lan d w)"
  have nb: "all_neighbours E w d = stp_nb E w d"
    using neighbours_all [OF net d] stp_nodesD(2) [OF d] by (simp add: all_neighbours_def)
  have k: "bpdu_frame E (k d) ?b" "set (get_dests E (destInfo (k d))) = stp_nb E w d"
    using s nb by (simp_all add: started_def)
  have "bpdu_label ?b = (stp_ident w d, 0 + stp_cost w d)" "bpdu_rootId ?b \<noteq> None"
    using s by (simp_all add: started_def bpdu_label_def create_bpdu_def make_bpdu_def stp_ident_def stp_cost_def)
  note ev = bpdu_event_good [OF lib d k(1) this(2) k(2) subset_refl this(1), where t = 0]
  show "world_msgs E (start_events E w k d) = label_election.tell (stp_cost w) d (stp_ident w d) 0 (stp_nb E w d)"
    using ev(2) d by (auto simp: start_events_def nb stp.tell_def)
  show "\<forall>e \<in> set (start_events E w k d). good_event E w e"
    using ev(1) by (simp add: start_events_def)
qed

lemma world_msgs_concat: "world_msgs E (concat ess) = (\<Sum>es \<leftarrow> ess. world_msgs E es)"
  by (induction ess) simp_all

text \<open>Starting a LAN leaves the status of all LANs.\<close>

lemma same_status_event: "same_status w (add_eth_event x w)"
  by (simp add: same_status_def) (simp add: add_eth_event_def)

lemma start_lan_status:
  assumes "start_spt_for_lan E d n w = Some w'"
  shows "same_status w w'"
proof -
  from assms obtain w1 lan1 lan2 w2 where w1: "eth_spt_init_port E d n w = Some w1" and lan1: "get_lan d n w1 = Some lan1"
    and lan2: "(if switchId (spt lan1) = None then configure_switch_id lan1 else Some lan1) = Some lan2"
    and w2: "set_lan d n (lan2\<lparr>spt := (spt lan2)\<lparr>rootId := switchId (spt lan2)\<rparr>\<rparr>) w1 = Some w2"
    and send: "send_config_bpdu E d n 0 w2 = Some w'"
    by (auto simp: start_spt_for_lan_def elim!: bind_SomeE)
  from init_ports_step [OF w1] lan1 obtain lan where lan: "get_lan d n w = Some lan" "other_lans d n w w1" "fixed_lan lan1 = fixed_lan lan"
    by (auto simp: port_step_def)
  have l2: "STPStatus lan2 = STPStatus lan1" "lan_interfaceId lan2 = lan_interfaceId lan1"
    using lan2 by (auto simp: configure_switch_id_def Let_def elim!: bind_SomeE split: if_splits)
  have "same_status w w2"
    by (rule other_lans_status [OF other_lans_trans [OF lan(2) set_lan_other(2) [OF w2]] lan(1) set_lan_other(1) [OF w2]])
       (simp_all add: l2 fixed_lanD(1,2) [OF lan(3)])
  moreover have "w' = w2 \<or> (\<exists>x. w' = add_eth_event x w2)"
    using send by (auto simp: send_config_bpdu_def send_bpdu_packet_def elim!: bind_SomeE split: if_splits)
  ultimately show ?thesis
    using same_status_event same_status_trans by blast
qed

lemma start_device_status: "start_device E d w = Some w' \<Longrightarrow> same_status w w'"
proof (cases "eth_var w d")
  case (Some e)
  let ?f = "\<lambda>n w. do { lan \<leftarrow> get_lan d n w; if STPStatus lan then start_spt_for_lan E d n w else Some w }"
  assume start: "start_device E d w = Some w'"
  show ?thesis
  proof (cases "isSPT e")
    case True
    have step: "same_status w s'" if "same_status w s" "?f n s = Some s'" for n s s'
      using that start_lan_status same_status_trans by (auto elim!: bind_SomeE split: if_splits)
    have loop: "for_each ?f [0..<length (lanVar e)] w = Some w'"
      using start Some True by (simp add: start_device_def start_spanning_tree_protocol_def)
    show ?thesis
      by (rule for_each_keeps [where P = "same_status w", OF _ same_status_refl loop]) (rule step)
  qed (use start Some in \<open>simp add: start_device_def\<close>)
qed (simp add: start_device_def)

lemma start_all_status: "for_each (start_device E) ds w = Some w' \<Longrightarrow> same_status w w'"
  using for_each_keeps [where P = "same_status w" and f = "start_device E", OF _ same_status_refl]
    start_device_status same_status_trans by blast

lemma stp_nodes_list: "(\<Sum>d \<leftarrow> [1..<Suc (eth_nDeviceCount E)]. if d \<in> stp_nodes E w then f d else {#}) = sum f (stp_nodes E w)"
proof -
  have "(\<Sum>d \<leftarrow> [1..<Suc (eth_nDeviceCount E)]. if d \<in> stp_nodes E w then f d else {#}) =
      (\<Sum>d \<in> {1..<Suc (eth_nDeviceCount E)}. if d \<in> stp_nodes E w then f d else {#})"
    by (subst sum_list_distinct_conv_sum_set) (simp_all del: upt_Suc)
  also have "\<dots> = sum f ({1..<Suc (eth_nDeviceCount E)} \<inter> stp_nodes E w)"
    by (simp add: sum.inter_restrict)
  also have "{1..<Suc (eth_nDeviceCount E)} \<inter> stp_nodes E w = stp_nodes E w"
    by (auto simp: stp_nodes_def)
  finally show ?thesis .
qed

lemma start_agrees:
  assumes lib: "bpdu_lib E" and idle: "idle_net w0" and init: "init_spanning_tree_protocol E w0 = Some w1"
    and lone: "lone w1" and net: "stp_net E w1"
  shows "agrees E w1 w1 (stp.start_state E w1)"
proof -
  let ?ds = "[1..<Suc (eth_nDeviceCount E)]"
  from init obtain w where w: "set_status E w0 = Some w" "for_each (start_device E) ?ds w = Some w1"
    by (auto simp: init_in_two simp del: upt_Suc elim!: bind_SomeE)
  have idle1: "idle_net w"
    by (rule set_status_idle [OF w(1) idle])
  have same: "same_status w w1"
    by (rule start_all_status [OF w(2)])
  note nodes = same_status_nodes [OF same, of E]
  have ds: "distinct ?ds" "set ?ds \<subseteq> {1..eth_nDeviceCount E}"
    by auto
  have "lone w" "answers E w"
    using same_status_lone [OF same] same_status_answers [OF same, of E] lone stp_net_answers [OF net] by auto
  from start_all [OF lib w(2) ds this] obtain k where k: "eadded w1 = eadded w @ concat (map (start_events E w k) ?ds)"
    "\<forall>d \<in> set ?ds \<inter> stp_nodes E w. started E w1 k d \<and> rootPathCost (spt (the_lan d w1)) = rootPathCost (spt (the_lan d w))"
    by blast
  have node: "d \<in> set ?ds \<inter> stp_nodes E w" if "d \<in> stp_nodes E w1" for d
    using that nodes by (auto simp: stp_nodes_def)
  have events: "eadded w1 = concat (map (start_events E w1 k) ?ds)"
  proof -
    have "start_events E w1 k = start_events E w k"
      using same_status_events [OF same, of E k] by (rule ext)
    with k(1) idle1 show ?thesis by (simp only: idle_net_def append_Nil)
  qed
  have "world_msgs E (start_events E w1 k d) = (if d \<in> stp_nodes E w1
      then label_election.tell (stp_cost w1) d (stp_ident w1 d) 0 (stp_nb E w1 d) else {#})" for d
    using started_events(1) [OF lib net, of d k] k(2) node by (simp add: start_events_def)
  then have msgs: "world_msgs E (eadded w1) = snd (stp.start_state E w1)"
    unfolding events world_msgs_concat map_map comp_def stp.start_state_def snd_conv by (simp only: stp_nodes_list)
  have "\<forall>e \<in> set (eadded w1). good_event E w1 e"
  proof
    fix e assume "e \<in> set (eadded w1)"
    then obtain d where d: "e \<in> set (start_events E w1 k d)" unfolding events by auto
    then have "d \<in> stp_nodes E w1" by (auto simp: start_events_def split: if_splits)
    with d started_events(2) [OF lib net] k(2) node show "good_event E w1 e" by blast
  qed
  moreover have "rootId (spt (the_lan d w1)) \<noteq> None \<and> fst (stp.start_state E w1) d = label_of d w1" if "d \<in> stp_nodes E w1" for d
  proof -
    have "rootPathCost (spt (the_lan d w)) = 0"
      using idle1 stp_nodesD(2) [of d E w] that nodes by (simp add: idle_net_def)
    then show ?thesis
      using k(2) node [OF that] by (auto simp: started_def label_of_def stp.start_state_def stp_ident_def)
  qed
  ultimately show ?thesis
    using msgs by (simp add: agrees_def)
qed

section \<open>The run\<close>

lemma step_simulates:
  assumes lib: "bpdu_lib E" and net: "stp_net E w0" and a: "agrees E w0 w s" and known: "stp.known E w0 s"
    and step: "stp_step E up w w'"
  shows "(\<exists>s'. agrees E w0 w' s' \<and> stp.deliver E w0 s s') \<or>
    agrees E w0 w' s \<and> world_stage E (eadded w') < world_stage E (eadded w)"
  using step
proof cases
  case (switch xs e ys)
  have good: "good_event E w0 e"
    using a switch(1) by (simp add: agrees_def)
  show ?thesis
  proof (cases "ee_nEventType e = MAC_OUT_EVENT")
    case True
    then show ?thesis
      using multicast_agrees [OF lib net a switch(1) True, of up] switch(3) by (metis option.inject)
  next
    case False
    then have "ee_nEventType e = MAC_IN_EVENT"
      using good_event_type [OF good] switch(2) by blast
    then show ?thesis
      using arrival_agrees [OF lib net a known switch(1), of up] switch(3) by (metis option.inject)
  qed
next
  case (wire xs e ys e')
  then show ?thesis
    using wire_agrees [OF net a wire(2-4)] by simp
qed

lemma run_simulates:
  assumes lib: "bpdu_lib E" and net: "stp_net E w0" and a: "agrees E w0 w0 (stp.start_state E w0)"
    and run: "(stp_step E up)\<^sup>*\<^sup>* w0 w"
  obtains s where "stp.reached E w0 s" "agrees E w0 w s"
proof -
  have "\<exists>s. stp.reached E w0 s \<and> agrees E w0 w s"
    using run
  proof (induction rule: rtranclp_induct)
    case base
    with a show ?case by blast
  next
    case (step x y)
    then obtain s where s: "stp.reached E w0 s" "agrees E w0 x s" by blast
    from step_simulates [OF lib net s(2) stp.known_reached [OF s(1)] step.hyps(2)] s(1) show ?case
      by (meson rtranclp.rtrancl_into_rtrancl)
  qed
  with that show thesis by blast
qed

text \<open>While a message is on its way, a step is possible.\<close>

lemma step_possible:
  assumes lib: "bpdu_lib E" and net: "stp_net E w0" and a: "agrees E w0 w s" and known: "stp.known E w0 s"
    and pending: "eadded w \<noteq> []"
  shows "\<exists>w'. stp_step E up w w'"
proof -
  obtain e ys where w: "eadded w = [] @ e # ys"
    using pending by (cases "eadded w") auto
  have good: "good_event E w0 e"
    using a w by (simp add: agrees_def)
  consider "ee_nEventType e = MAC_OUT_EVENT" | "ee_nEventType e = PHYSICAL_OUT_EVENT" | "ee_nEventType e = MAC_IN_EVENT"
    using good_event_type [OF good] by blast
  then show ?thesis
  proof cases
    case 1
    obtain w' where "fn_NetSim_Ethernet_Run E up (w\<lparr>eev := e, eadded := [] @ ys\<rparr>) = Some w'"
      by (rule multicast_agrees [OF lib net a w 1, of up])
    with stp_step.switch [OF w] 1 show ?thesis by fastforce
  next
    case 2
    let ?g = "GetConnectedDevice E (ee_nDeviceId e) (ee_nInterfaceId e)"
    let ?e = "e\<lparr>ee_nEventType := MAC_IN_EVENT, ee_nDeviceId := fst (snd ?g), ee_nInterfaceId := snd (snd ?g)\<rparr>"
    have "carried E e ?e"
      using good by (auto simp: carried_def good_event_def)
    with stp_step.wire [OF w 2] show ?thesis by blast
  next
    case 3
    obtain w' s' where "fn_NetSim_Ethernet_Run E up (w\<lparr>eev := e, eadded := [] @ ys\<rparr>) = Some w'"
      by (rule arrival_agrees [OF lib net a known w 3, of up])
    with stp_step.switch [OF w] 3 show ?thesis by fastforce
  qed
qed

text \<open>The labels improve, then the messages get fewer, then they come closer.\<close>

lemma no_infinite_run:
  assumes lib: "bpdu_lib E" and net: "stp_net E w0"
  shows "agrees E w0 w s \<Longrightarrow> stp.known E w0 s \<Longrightarrow> \<not> (\<exists>f. f 0 = w \<and> (\<forall>i. stp_step E up (f i) (f (Suc i))))"
proof (induction "(w, s)" arbitrary: w s rule: wf_induct_rule [OF wf_measures
    [of "[\<lambda>(w, s). stp.height E w0 (fst s), \<lambda>(w, s). size (snd s), \<lambda>(w, s). world_stage E (eadded w)]"]])
  case (1 w s)
  show ?case
  proof
    assume "\<exists>f. f 0 = w \<and> (\<forall>i. stp_step E up (f i) (f (Suc i)))"
    then obtain f where f: "f 0 = w" "\<forall>i. stp_step E up (f i) (f (Suc i))" by blast
    then have step: "stp_step E up w (f 1)" by (metis One_nat_def)
    have later: "\<exists>g. g 0 = f 1 \<and> (\<forall>i. stp_step E up (g i) (g (Suc i)))"
      using f(2) by (intro exI [of _ "\<lambda>i. f (Suc i)"]) simp
    from step_simulates [OF lib net 1(2,3) step] show False
    proof
      assume "\<exists>s'. agrees E w0 (f 1) s' \<and> stp.deliver E w0 s s'"
      then obtain s' where s': "agrees E w0 (f 1) s'" "stp.deliver E w0 s s'" by blast
      with 1(1) [of "f 1" s'] later stp.deliver_decreases [OF 1(3) s'(2)] stp.known_deliver [OF s'(2) 1(3)] show False
        by auto
    next
      assume "agrees E w0 (f 1) s \<and> world_stage E (eadded (f 1)) < world_stage E (eadded w)"
      with 1(1) [of "f 1" s] 1(3) later show False by auto
    qed
  qed
qed


section \<open>The tree\<close>

text \<open>There is an end to reach.\<close>

lemma quiet_exists:
  assumes lib: "bpdu_lib E" and net: "stp_net E w0" and a: "agrees E w0 w0 (stp.start_state E w0)"
  obtains w where "(stp_step E up)\<^sup>*\<^sup>* w0 w" "\<nexists>w'. stp_step E up w w'"
proof -
  have "\<exists>w. (stp_step E up)\<^sup>*\<^sup>* w0 w \<and> (\<nexists>w'. stp_step E up w w')"
  proof (rule ccontr)
    assume none: "\<nexists>w. (stp_step E up)\<^sup>*\<^sup>* w0 w \<and> (\<nexists>w'. stp_step E up w w')"
    define nxt where "nxt x = (SOME y. stp_step E up x y)" for x
    have nxt: "stp_step E up x (nxt x)" if "(stp_step E up)\<^sup>*\<^sup>* w0 x" for x
      using none that unfolding nxt_def by (meson someI_ex)
    let ?f = "rec_nat w0 (\<lambda>_. nxt)"
    have run: "(stp_step E up)\<^sup>*\<^sup>* w0 (?f i)" for i
      by (induction i) (auto intro: rtranclp.rtrancl_into_rtrancl nxt)
    have "?f 0 = w0 \<and> (\<forall>i. stp_step E up (?f i) (?f (Suc i)))"
      using nxt [OF run] by simp
    with no_infinite_run [OF lib net a stp.start_known, of up] show False by blast
  qed
  with that show thesis by blast
qed

text \<open>The labels of a quiet network.\<close>

lemma quiet_network:
  assumes lib: "bpdu_lib E" and net: "stp_net E w0" and a: "agrees E w0 w0 (stp.start_state E w0)"
    and run: "(stp_step E up)\<^sup>*\<^sup>* w0 w" and quiet: "\<nexists>w'. stp_step E up w w'"
  obtains l where "stp.reached E w0 (l, {#})" "\<And>d. d \<in> stp_nodes E w0 \<Longrightarrow> l d = label_of d w" "eadded w = []"
proof -
  obtain s where s: "stp.reached E w0 s" "agrees E w0 w s"
    by (rule run_simulates [OF lib net a run])
  have "eadded w = []"
    using step_possible [OF lib net s(2) stp.known_reached [OF s(1)]] quiet by blast
  with s that [of "fst s"] show thesis
    by (cases s) (auto simp: agrees_def)
qed

text \<open>
  C5: The spanning tree protocol started by \<open>init_spanning_tree_protocol\<close> ends: whatever the order in
  which the events of the switches are handled and the frames arrive, there is no run without end.
\<close>

theorem spanning_tree_stops:
  assumes "bpdu_lib E" "idle_net w0" "init_spanning_tree_protocol E w0 = Some w1" "lone w1" "stp_net E w1"
  shows "\<not> (\<exists>run. run 0 = w1 \<and> (\<forall>i. stp_step E up (run i) (run (Suc i))))"
  by (rule no_infinite_run [OF assms(1,5) start_agrees [OF assms] stp.start_known])

text \<open>
  C4: The spanning tree protocol elects.  When no step is possible any more, no message is pending,
  and every switch names the switch \<open>r\<close> with the lowest identifier (as text, without regard to
  case) as the root; its path cost is that of a route from \<open>r\<close>, and no route costs less.
\<close>

theorem spanning_tree_elects:
  assumes "bpdu_lib E" "idle_net w0" "init_spanning_tree_protocol E w0 = Some w1" "lone w1" "stp_net E w1"
    and "stp.joined E w1" "(stp_step E up)\<^sup>*\<^sup>* w1 w" "\<nexists>w'. stp_step E up w w'"
    and "r \<in> stp_nodes E w1" "\<forall>v \<in> stp_nodes E w1. stp_ident w1 r \<le> stp_ident w1 v" "d \<in> stp_nodes E w1"
  shows "eadded w = [] \<and> id_key (rootId (spt (the_lan d w))) = stp_ident w1 r
    \<and> (\<exists>xs. stp.route E w1 xs \<and> hd xs = r \<and> last xs = d \<and> unat (rootPathCost (spt (the_lan d w))) = stp.weight w1 (butlast xs))
    \<and> (\<forall>xs. stp.route E w1 xs \<longrightarrow> hd xs = r \<longrightarrow> last xs = d \<longrightarrow> unat (rootPathCost (spt (the_lan d w))) \<le> stp.weight w1 (butlast xs))"
proof -
  obtain l where l: "stp.reached E w1 (l, {#})" "\<And>d. d \<in> stp_nodes E w1 \<Longrightarrow> l d = label_of d w" "eadded w = []"
    using quiet_network [OF assms(1,5) start_agrees [OF assms(1-5)] assms(7,8)] by blast
  have min: "stp_ident w1 r = Min (stp_ident w1 ` stp_nodes E w1)"
    using assms(9,10) stp.finite_nodes by (intro Min_eqI [symmetric]) auto
  have inj: "inj_on (stp_ident w1) (stp_nodes E w1)"
    using assms(5) by (simp add: stp_net_def)
  note dist = stp.quiet_distance [OF inj l(1) assms(6,9) min assms(11)]
  have "fst (l d) = stp_ident w1 r"
    using stp.quiet_root [OF l(1) assms(6,11)] min by simp
  with dist l(2) [OF assms(11)] l(3) show ?thesis
    by (simp add: label_of_def)
qed

end
