(* ===== verification/Eth_Link.thy ===== *)
theory Eth_Link
  imports Eth_Phy "HOL-Library.Multiset"
begin

text \<open>
  A port sends one frame at a time with the gap between frames, and a frame that waits for the
  port has an event that will send it.
\<close>

section \<open>What the operations of the buffer keep\<close>

text \<open>Only the buffers of the ports and the frames in them differ.\<close>

definition same_link :: "ETH_WORLD \<Rightarrow> ETH_WORLD \<Rightarrow> bool" where
  "same_link w w' \<longleftrightarrow> eadded w' = eadded w \<and> eev w' = eev w
     \<and> (\<forall>d i. (eth_phy w' d i)\<lparr>phy_packet := None\<rparr> = (eth_phy w d i)\<lparr>phy_packet := None\<rparr>)"

lemma same_link_refl [simp]: "same_link w w"
  by (simp add: same_link_def)

lemma same_link_trans: "same_link a b \<Longrightarrow> same_link b c \<Longrightarrow> same_link a c"
  by (simp add: same_link_def)

lemma same_link_set_phy [simp]: "same_link w (set_phy d i ((eth_phy w d i)\<lparr>phy_packet := b\<rparr>) w)"
  by (simp add: same_link_def set_phy_def)

lemma same_link_waiting [simp]: "same_link w (w'\<lparr>waiting := x, wnext := n\<rparr>) = same_link w w'"
  "same_link w (w'\<lparr>waiting := x\<rparr>) = same_link w w'"
  by (simp_all add: same_link_def)

lemma same_linkD:
  assumes "same_link w w'"
  shows "eadded w' = eadded w" "eev w' = eev w"
    "lastPacketEndTime (eth_phy w' d i) = lastPacketEndTime (eth_phy w d i)"
    "IFG (eth_phy w' d i) = IFG (eth_phy w d i)"
    "phy_speed (eth_phy w' d i) = phy_speed (eth_phy w d i)"
    "propagationDelay (eth_phy w' d i) = propagationDelay (eth_phy w d i)"
    "connectedDevice (eth_phy w' d i) = connectedDevice (eth_phy w d i)"
    "connectedInterface (eth_phy w' d i) = connectedInterface (eth_phy w d i)"
proof -
  have e: "(eth_phy w' d i)\<lparr>phy_packet := None\<rparr> = (eth_phy w d i)\<lparr>phy_packet := None\<rparr>"
    using assms by (simp add: same_link_def)
  show "eadded w' = eadded w" "eev w' = eev w"
    using assms by (simp_all add: same_link_def)
  show "lastPacketEndTime (eth_phy w' d i) = lastPacketEndTime (eth_phy w d i)"
    using arg_cong [OF e, of lastPacketEndTime] by simp
  show "IFG (eth_phy w' d i) = IFG (eth_phy w d i)"
    using arg_cong [OF e, of IFG] by simp
  show "phy_speed (eth_phy w' d i) = phy_speed (eth_phy w d i)"
    using arg_cong [OF e, of phy_speed] by simp
  show "propagationDelay (eth_phy w' d i) = propagationDelay (eth_phy w d i)"
    using arg_cong [OF e, of propagationDelay] by simp
  show "connectedDevice (eth_phy w' d i) = connectedDevice (eth_phy w d i)"
    using arg_cong [OF e, of connectedDevice] by simp
  show "connectedInterface (eth_phy w' d i) = connectedInterface (eth_phy w d i)"
    using arg_cong [OF e, of connectedInterface] by simp
qed

lemma isPhyHasPacket_same: "isPhyHasPacket d i w = Some (s, w') \<Longrightarrow> same_link w w'"
  by (auto simp: isPhyHasPacket_def elim!: bind_SomeE split: option.splits)

lemma get_phy_frame_same: "get_phy_frame E d i f w = Some (r, w') \<Longrightarrow> same_link w w'"
  by (auto simp: get_phy_frame_def Let_def elim!: bind_SomeE split: option.splits if_splits)

lemma add_to_list_same: "eth_phy_packet_add_to_list E d i p w = Some w' \<Longrightarrow> same_link w w'"
  by (auto simp: eth_phy_packet_add_to_list_def init_eth_phy_buffer_def Let_def same_link_def set_phy_def
      elim!: bind_SomeE split: option.splits if_splits)

section \<open>What an event does\<close>

text \<open>Nothing is sent; if a frame waits, an event for the end of the transmission is added.\<close>

lemma phy_add_next_does:
  assumes "phy_add_next E d i w = Some w'"
  obtains (idle) "isPhyHasPacket d i w = Some (False, w')" "same_link w w'"
  | (next1) w1 k where "same_link w w1" "w' = eth_phy_add_phy_out (lastPacketEndTime (eth_phy w d i)) k w1"
proof -
  from assms obtain s w1 where s: "isPhyHasPacket d i w = Some (s, w1)" and
    r: "(if s then do { (r, w) \<leftarrow> get_phy_frame E d i False w1; k \<leftarrow> r;
         Some (eth_phy_add_phy_out (lastPacketEndTime (eth_phy w d i)) k w) } else Some w1) = Some w'"
    by (auto simp: phy_add_next_def elim!: bind_SomeE)
  show thesis
  proof (cases s)
    case False
    with s r isPhyHasPacket_same [OF s] show ?thesis by (intro idle) auto
  next
    case True
    with r obtain k w2 where g: "get_phy_frame E d i False w1 = Some (Some k, w2)" and
      w': "w' = eth_phy_add_phy_out (lastPacketEndTime (eth_phy w2 d i)) k w2"
      by (auto elim!: bind_SomeE)
    have "same_link w w2"
      using same_link_trans isPhyHasPacket_same [OF s] get_phy_frame_same [OF g] by blast
    with w' same_linkD(3) [OF this] show ?thesis by (intro next1) auto
  qed
qed

text \<open>
  An event at a port either finds the wire busy and the buffer used, or sends nothing, or sends
  the next frame; then the wake-up of the next frame is seen to.
\<close>

lemma HandlePhyOut_cases:
  assumes "fn_NetSim_Ethernet_HandlePhyOut E w = Some w'"
    and d: "d = ee_nDeviceId (eev w)" and i: "i = ee_nInterfaceId (eev w)"
  obtains
    (wait) w1 where "ee_dEventTime (eev w) < lastPacketEndTime (eth_phy w d i)"
      "isPhyHasPacket d i w = Some (True, w1)" "eth_phy_packet_add_to_list E d i (ee_pPacket (eev w)) w1 = Some w'"
      "same_link w w'"
  | (first) w1 where "same_link w w1" "phy_add_next E d i w1 = Some w'"
  | (none) w1 where "same_link w w'" "eth_phy_packet_get_from_list E d i w1 = Some (None, w')"
  | (send) w1 k where "lastPacketEndTime (eth_phy w d i) \<le> ee_dEventTime (eev w)" "same_link w w1"
      "phy_add_next E d i (phy_transmit E d i k w1) = Some w'"
proof -
  from assms(1) obtain s w1 w2 where s: "isPhyHasPacket d i w = Some (s, w1)"
    and a: "eth_phy_packet_add_to_list E d i (ee_pPacket (eev w1)) w1 = Some w2"
    and r: "(if lastPacketEndTime (eth_phy w2 d i) > ee_dEventTime (eev w2)
       then (if \<not> s then phy_add_next E d i w2 else Some w2)
       else do { (r, w) \<leftarrow> eth_phy_packet_get_from_list E d i w2;
         (case r of None \<Rightarrow> Some w | Some k \<Rightarrow> phy_add_next E d i (phy_transmit E d i k w)) }) = Some w'"
    unfolding fn_NetSim_Ethernet_HandlePhyOut_def Let_def d i by (auto elim!: bind_SomeE)
  have w1: "same_link w w1" and w2: "same_link w w2"
    using isPhyHasPacket_same [OF s] add_to_list_same [OF a] same_link_trans by blast+
  note same = same_linkD [OF w2] same_linkD [OF w1]
  show thesis
  proof (cases "lastPacketEndTime (eth_phy w2 d i) > ee_dEventTime (eev w2)")
    case True
    with r s a w2 same show ?thesis
      by (cases s) (auto intro: wait first)
  next
    case False
    with r obtain q w3 where g: "eth_phy_packet_get_from_list E d i w2 = Some (q, w3)"
      and q: "(case q of None \<Rightarrow> Some w3 | Some k \<Rightarrow> phy_add_next E d i (phy_transmit E d i k w3)) = Some w'"
      by (auto elim!: bind_SomeE)
    have "same_link w w3"
      using g get_phy_frame_same same_link_trans [OF w2] by (auto simp: eth_phy_packet_get_from_list_def)
    with False g q same show ?thesis
      by (cases q) (auto intro: none send)
  qed
qed


section \<open>The frames of a port\<close>

text \<open>The frames that a run sends to an interface, in order.\<close>

definition frames_on :: "NETSIM_ID \<Rightarrow> NETSIM_ID \<Rightarrow> ETH_EVENT list \<Rightarrow> ETH_PKT list" where
  "frames_on c ci es = List.map_filter (\<lambda>e. if ee_nEventType e = PHYSICAL_IN_EVENT \<and> ee_nDeviceId e = c
     \<and> ee_nInterfaceId e = ci then ee_pPacket e else None) es"

definition link_run :: "ETH_ENV \<Rightarrow> ETH_EVENT list \<Rightarrow> ETH_WORLD \<Rightarrow> ETH_WORLD option" where
  "link_run E = for_each (\<lambda>e w. fn_NetSim_Ethernet_HandlePhyOut E (w\<lparr>eev := e\<rparr>))"

definition on_time :: "ETH_PHY \<Rightarrow> ETH_PKT \<Rightarrow> bool" where
  "on_time phy k \<longleftrightarrow> phy_dStartTime k = phy_dArrivalTime k + mac_dPacketSize k * 8 / phy_speed phy
     \<and> phy_dEndTime k = phy_dStartTime k + propagationDelay phy"

definition spaced :: "simtime \<Rightarrow> ETH_PKT list \<Rightarrow> bool" where
  "spaced gap = successively (\<lambda>a b. phy_dStartTime a + gap \<le> phy_dArrivalTime b)"

definition phy_params :: "ETH_PHY \<Rightarrow> ETH_PHY" where
  "phy_params phy = phy\<lparr>phy_packet := None, lastPacketEndTime := 0\<rparr>"

definition link_inv :: "(NETSIM_ID \<Rightarrow> NETSIM_ID \<Rightarrow> ETH_PHY) \<Rightarrow> NETSIM_ID \<Rightarrow> NETSIM_ID \<Rightarrow> ETH_WORLD \<Rightarrow> bool" where
  "link_inv phys d i w \<longleftrightarrow> (\<forall>d i. phy_params (eth_phy w d i) = phy_params (phys d i))
     \<and> (let fs = frames_on (connectedDevice (phys d i)) (connectedInterface (phys d i)) (eadded w) in
        spaced (IFG (phys d i)) fs \<and> (\<forall>k \<in> set fs. on_time (phys d i) k)
        \<and> (fs \<noteq> [] \<longrightarrow> phy_dStartTime (last fs) = lastPacketEndTime (eth_phy w d i)))"

lemma frames_on_append [simp]: "frames_on c ci (xs @ ys) = frames_on c ci xs @ frames_on c ci ys"
  by (simp add: frames_on_def map_filter_def)

lemma frames_on_phy_out [simp]: "frames_on c ci (eadded (eth_phy_add_phy_out t k w)) = frames_on c ci (eadded w)"
  by (simp add: eth_phy_add_phy_out_def add_eth_event_def frames_on_def map_filter_def)

lemma eth_phy_phy_out [simp]: "eth_phy (eth_phy_add_phy_out t k w) = eth_phy w"
  by (simp add: eth_phy_add_phy_out_def add_eth_event_def)

lemma phy_paramsD:
  assumes "phy_params p = phy_params q"
  shows "IFG p = IFG q" "phy_speed p = phy_speed q" "propagationDelay p = propagationDelay q"
    "connectedDevice p = connectedDevice q" "connectedInterface p = connectedInterface q"
  using arg_cong [OF assms, of IFG] arg_cong [OF assms, of phy_speed] arg_cong [OF assms, of propagationDelay]
    arg_cong [OF assms, of connectedDevice] arg_cong [OF assms, of connectedInterface]
  by (simp_all add: phy_params_def)

lemma same_link_params:
  assumes "same_link w w'"
  shows "phy_params (eth_phy w' d i) = phy_params (eth_phy w d i)"
proof -
  have "(eth_phy w' d i)\<lparr>phy_packet := None\<rparr> = (eth_phy w d i)\<lparr>phy_packet := None\<rparr>"
    using assms by (simp add: same_link_def)
  from arg_cong [OF this, of "lastPacketEndTime_update (\<lambda>_. 0)"] show ?thesis
    by (simp add: phy_params_def)
qed

lemma link_inv_same: "same_link w w' \<Longrightarrow> link_inv phys d i w \<Longrightarrow> link_inv phys d i w'"
  using same_linkD(1,3) same_link_params by (simp add: link_inv_def)

lemma link_inv_phy_out: "link_inv phys d i w \<Longrightarrow> link_inv phys d i (eth_phy_add_phy_out t k w)"
  by (simp add: link_inv_def)

lemma link_inv_add_next: "phy_add_next E d' i' w = Some w' \<Longrightarrow> link_inv phys d i w \<Longrightarrow> link_inv phys d i w'"
  by (erule phy_add_next_does) (auto intro: link_inv_same link_inv_phy_out)

lemma app_ids_keeps [simp]: "ee_nEventType (app_ids k e) = ee_nEventType e" "ee_pPacket (app_ids k e) = ee_pPacket e"
  by (simp_all add: app_ids_def split: option.split)

lemma transmit_frames:
  "frames_on c ci (eadded (phy_transmit E d i k w)) = frames_on c ci (eadded w) @
     (let phy = eth_phy w d i;
          start = max (ee_dEventTime (eev w)) (lastPacketEndTime phy + IFG phy);
          tx = calculate_txtime phy (mac_dPacketSize k)
      in if connectedDevice phy = c \<and> connectedInterface phy = ci
         then [(eth_phy_packet_set_param k start (start + tx + propagationDelay phy) tx)
           \<lparr>nReceiverId := c, nTransmitterId := ee_nDeviceId (eev w)\<rparr>]
         else [])"
  by (simp add: phy_transmit_def Let_def eth_phy_add_phy_in_def add_eth_event_def set_phy_def max_def)
     (simp add: frames_on_def map_filter_def)

lemma transmit_phy:
  "eth_phy (phy_transmit E d i k w) = (eth_phy w)(d := (eth_phy w d)(i := (eth_phy w d i)\<lparr>lastPacketEndTime :=
     max (ee_dEventTime (eev w)) (lastPacketEndTime (eth_phy w d i) + IFG (eth_phy w d i))
       + calculate_txtime (eth_phy w d i) (mac_dPacketSize k)\<rparr>))"
  by (simp add: phy_transmit_def Let_def eth_phy_add_phy_in_def add_eth_event_def set_phy_def max_def)

lemma link_inv_transmit_other:
  assumes "link_inv phys d i w" "(d', i') \<noteq> (d, i)"
    "(connectedDevice (phys d' i'), connectedInterface (phys d' i')) \<noteq> (connectedDevice (phys d i), connectedInterface (phys d i))"
  shows "link_inv phys d i (phy_transmit E d' i' k w)"
proof -
  have p: "\<forall>d i. phy_params (eth_phy w d i) = phy_params (phys d i)"
    using assms(1) by (simp add: link_inv_def)
  then have "phy_params (eth_phy (phy_transmit E d' i' k w) x y) = phy_params (phys x y)" for x y
    by (auto simp: transmit_phy phy_params_def)
  moreover have "eth_phy (phy_transmit E d' i' k w) d i = eth_phy w d i"
    using assms(2) by (auto simp: transmit_phy)
  moreover have "frames_on (connectedDevice (phys d i)) (connectedInterface (phys d i)) (eadded (phy_transmit E d' i' k w)) =
      frames_on (connectedDevice (phys d i)) (connectedInterface (phys d i)) (eadded w)"
    using assms(3) phy_paramsD(4,5) [OF p [rule_format, of d' i']] by (auto simp: transmit_frames Let_def)
  ultimately show ?thesis
    using assms(1) by (simp add: link_inv_def)
qed

lemma link_inv_transmit:
  assumes "link_inv phys d i w"
  shows "link_inv phys d i (phy_transmit E d i k w)"
proof -
  let ?p = "phys d i" and ?w' = "phy_transmit E d i k w"
  let ?fs = "frames_on (connectedDevice ?p) (connectedInterface ?p) (eadded w)"
  let ?start = "max (ee_dEventTime (eev w)) (lastPacketEndTime (eth_phy w d i) + IFG ?p)"
  have p: "\<forall>d i. phy_params (eth_phy w d i) = phy_params (phys d i)"
    using assms(1) by (simp add: link_inv_def)
  note q = phy_paramsD [OF p [rule_format, of d i]]
  have params: "phy_params (eth_phy ?w' x y) = phy_params (phys x y)" for x y
    using p by (auto simp: transmit_phy phy_params_def)
  obtain k' where fs: "frames_on (connectedDevice ?p) (connectedInterface ?p) (eadded ?w') = ?fs @ [k']"
    and k': "phy_dArrivalTime k' = ?start" "on_time ?p k'" "phy_dStartTime k' = ?start + mac_dPacketSize k * 8 / phy_speed ?p"
    by (simp add: transmit_frames Let_def q on_time_def eth_phy_packet_set_param_def calculate_txtime_def)
  have "spaced (IFG ?p) (?fs @ [k'])"
    using assms k'(1) by (auto simp: link_inv_def Let_def spaced_def successively_append_iff)
  moreover have "lastPacketEndTime (eth_phy ?w' d i) = phy_dStartTime k'"
    by (simp add: transmit_phy k'(3) q calculate_txtime_def)
  ultimately show ?thesis
    using params fs k'(2) assms by (auto simp: link_inv_def Let_def)
qed

lemma link_inv_step:
  assumes "fn_NetSim_Ethernet_HandlePhyOut E w = Some w'" "link_inv phys d i w"
    and "\<And>d' i'. (d', i') \<noteq> (d, i) \<Longrightarrow> (connectedDevice (phys d' i'), connectedInterface (phys d' i'))
      \<noteq> (connectedDevice (phys d i), connectedInterface (phys d i))"
  shows "link_inv phys d i w'"
  using assms(1)
proof (rule HandlePhyOut_cases [OF _ refl refl], goal_cases)
  case (4 w1 k)
  let ?d = "ee_nDeviceId (eev w)" and ?i = "ee_nInterfaceId (eev w)"
  have "link_inv phys d i w1"
    using link_inv_same 4(2) assms(2) .
  then have "link_inv phys d i (phy_transmit E ?d ?i k w1)"
    using link_inv_transmit link_inv_transmit_other assms(3) by (cases "(?d, ?i) = (d, i)") auto
  with 4(3) show ?case by (rule link_inv_add_next)
qed (use link_inv_same link_inv_add_next assms(2) in blast)+


section \<open>The wake-up of a waiting frame\<close>

text \<open>One event at a port, with the events that it adds.\<close>

definition at_port :: "ETH_ENV \<Rightarrow> ETH_EVENT \<Rightarrow> ETH_WORLD \<Rightarrow> ETH_WORLD option" where
  "at_port E e w = fn_NetSim_Ethernet_HandlePhyOut E (w\<lparr>eev := e, eadded := []\<rparr>)"

definition wakes :: "ETH_WORLD \<Rightarrow> ETH_EVENT multiset" where
  "wakes w = mset (filter (\<lambda>e. ee_nEventType e = PHYSICAL_OUT_EVENT) (eadded w))"

text \<open>Frames come at any time and in any order; the pending events are taken in any order.\<close>

inductive link_reach :: "ETH_ENV \<Rightarrow> ETH_WORLD \<Rightarrow> ETH_EVENT multiset \<Rightarrow> bool" for E where
  start: "\<forall>d i. phy_packet (eth_phy w d i) = None \<Longrightarrow> link_reach E w {#}"
| frame: "link_reach E w P \<Longrightarrow> ee_nEventType e = PHYSICAL_OUT_EVENT \<Longrightarrow> ee_pPacket e = Some k \<Longrightarrow>
     at_port E e w = Some w' \<Longrightarrow> link_reach E w' (P + wakes w')"
| wake: "link_reach E w (add_mset e P) \<Longrightarrow> at_port E e w = Some w' \<Longrightarrow> link_reach E w' (P + wakes w')"

text \<open>A frame waits in a buffer that serves in order or by priority.\<close>

definition has_frame :: "ETH_PHY \<Rightarrow> bool" where
  "has_frame phy \<longleftrightarrow> (\<exists>b. phy_packet phy = Some b \<and> pstruPacketlist b \<noteq> Chain []
     \<and> nSchedulingType b \<in> {SCHEDULING_NONE, SCHEDULING_FIFO, SCHEDULING_PRIORITY})"

definition woken :: "ETH_WORLD \<Rightarrow> ETH_EVENT multiset \<Rightarrow> NETSIM_ID \<Rightarrow> NETSIM_ID \<Rightarrow> bool" where
  "woken w P d i \<longleftrightarrow> (\<exists>e \<in># P. ee_nDeviceId e = d \<and> ee_nInterfaceId e = i \<and> ee_pPacket e = None
     \<and> ee_dEventTime e = lastPacketEndTime (eth_phy w d i))"

definition adds_keep_type :: "ETH_ENV \<Rightarrow> bool" where
  "adds_keep_type E \<longleftrightarrow> (\<forall>b p b'. eth_AddPacketToList E b p = Some b' \<longrightarrow> nSchedulingType b' = nSchedulingType b)"

lemma isPhyHasPacket_frame:
  assumes "isPhyHasPacket d i w = Some (s, w')"
  shows "has_frame (eth_phy w' d i) \<Longrightarrow> s" "has_frame (eth_phy w' d i) \<Longrightarrow> has_frame (eth_phy w d i)"
  using assms
  by (auto simp: isPhyHasPacket_def has_frame_def set_phy_def fn_NetSim_GetBufferStatus_def
      elim!: bind_SomeE split: option.splits if_splits)

lemma isPhyHasPacket_other: "isPhyHasPacket d i w = Some (s, w') \<Longrightarrow> (x, y) \<noteq> (d, i) \<Longrightarrow> eth_phy w' x y = eth_phy w x y"
  by (auto simp: isPhyHasPacket_def set_phy_def elim!: bind_SomeE split: option.splits)

lemma add_to_list_other:
  "eth_phy_packet_add_to_list E d i p w = Some w' \<Longrightarrow> (x, y) \<noteq> (d, i) \<Longrightarrow> eth_phy w' x y = eth_phy w x y"
  by (auto simp: eth_phy_packet_add_to_list_def set_phy_def Let_def elim!: bind_SomeE split: option.splits if_splits)

lemma get_phy_frame_other:
  "get_phy_frame E d i f w = Some (r, w') \<Longrightarrow> (x, y) \<noteq> (d, i) \<Longrightarrow> eth_phy w' x y = eth_phy w x y"
  by (auto simp: get_phy_frame_def set_phy_def Let_def elim!: bind_SomeE split: option.splits if_splits)

lemma phy_add_next_other:
  "phy_add_next E d i w = Some w' \<Longrightarrow> (x, y) \<noteq> (d, i) \<Longrightarrow> eth_phy w' x y = eth_phy w x y"
  by (auto simp: phy_add_next_def isPhyHasPacket_other get_phy_frame_other elim!: bind_SomeE split: if_splits)

lemma HandlePhyOut_other:
  "fn_NetSim_Ethernet_HandlePhyOut E w = Some w' \<Longrightarrow> (x, y) \<noteq> (ee_nDeviceId (eev w), ee_nInterfaceId (eev w)) \<Longrightarrow>
   eth_phy w' x y = eth_phy w x y"
  by (auto simp: fn_NetSim_Ethernet_HandlePhyOut_def Let_def eth_phy_packet_get_from_list_def transmit_phy
      isPhyHasPacket_other add_to_list_other get_phy_frame_other phy_add_next_other
      elim!: bind_SomeE split: if_splits option.splits)

text \<open>A buffer that served nothing holds nothing.\<close>

lemma get_none_empty:
  assumes "fn_NetSim_GetPacketFromBuffer B b f = Some (None, b')"
    "nSchedulingType b' \<in> {SCHEDULING_NONE, SCHEDULING_FIFO, SCHEDULING_PRIORITY}"
  shows "pstruPacketlist b' = Chain []"
  using assms
  by (cases "nSchedulingType b")
     (auto simp: fn_NetSim_GetPacketFromBuffer_def schedule_def fn_NetSim_FIFO_def fn_NetSim_Priority_def
      fn_NetSim_RoundRobin_def fn_NetSim_WFQ_def fn_NetSim_EDF_def edf_algorithm_drop_expired_packets_def Let_def
      elim!: bind_SomeE split: if_splits option.splits PACKETLIST.splits list.splits)

lemma get_none_no_frame: "get_phy_frame E d i f w = Some (None, w') \<Longrightarrow> \<not> has_frame (eth_phy w' d i)"
  using get_none_empty
  by (fastforce simp: get_phy_frame_def has_frame_def set_phy_def Let_def elim!: bind_SomeE split: option.splits)

lemma add_to_list_frame:
  assumes "adds_keep_type E" "eth_phy_packet_add_to_list E d i p w = Some w'" "isPhyHasPacket d i w0 = Some (True, w)"
    "has_frame (eth_phy w' d i)"
  shows "has_frame (eth_phy w0 d i)"
  using assms
  by (auto simp: adds_keep_type_def eth_phy_packet_add_to_list_def isPhyHasPacket_def has_frame_def set_phy_def
      fn_NetSim_GetBufferStatus_def Let_def elim!: bind_SomeE split: option.splits if_splits)

text \<open>After \<open>ADD_NEXT\<close>, a frame that waits has its event.\<close>

lemma phy_add_next_woken:
  assumes "phy_add_next E d i w = Some w'" "has_frame (eth_phy w' d i)" "ee_nEventType (eev w) = PHYSICAL_OUT_EVENT"
    "ee_nDeviceId (eev w) = d" "ee_nInterfaceId (eev w) = i"
  shows "woken w' (wakes w') d i"
  using assms(1)
proof (cases rule: phy_add_next_does)
  case idle
  with isPhyHasPacket_frame(1) assms(2) show ?thesis by blast
next
  case (next1 w1 k)
  note same = same_linkD [OF next1(1)]
  show ?thesis
    unfolding woken_def next1(2) using assms(3-) same(2,3)
    by (simp add: wakes_def eth_phy_add_phy_out_def add_eth_event_def app_ids_def split: option.split)
qed

lemma at_port_woken:
  assumes add: "adds_keep_type E" and step: "at_port E e w = Some w'" and e: "ee_nEventType e = PHYSICAL_OUT_EVENT"
    and pre: "has_frame (eth_phy w d i) \<Longrightarrow> woken w (add_mset e P) d i" and post: "has_frame (eth_phy w' d i)"
  shows "woken w' (P + wakes w') d i"
proof -
  let ?w = "w\<lparr>eev := e, eadded := []\<rparr>" and ?d = "ee_nDeviceId e" and ?i = "ee_nInterfaceId e"
  have h: "fn_NetSim_Ethernet_HandlePhyOut E ?w = Some w'"
    using step by (simp add: at_port_def)
  show ?thesis
  proof (cases "(d, i) = (?d, ?i)")
    case False
    then have same: "eth_phy w' d i = eth_phy w d i"
      using HandlePhyOut_other [OF h, of d i] by simp
    with pre post obtain x where x: "x \<in># add_mset e P" "ee_nDeviceId x = d" "ee_nInterfaceId x = i" "ee_pPacket x = None"
      "ee_dEventTime x = lastPacketEndTime (eth_phy w d i)"
      by (auto simp: woken_def)
    with False have "x \<in># P" by auto
    with x same show ?thesis
      by (auto simp: woken_def)
  next
    case True
    then have di: "d = ee_nDeviceId (eev ?w)" "i = ee_nInterfaceId (eev ?w)"
      by simp_all
    from h di show ?thesis
    proof (cases rule: HandlePhyOut_cases)
      case (wait w1)
      have "has_frame (eth_phy w d i)"
        using add_to_list_frame [OF add wait(3,2) post] by simp
      with pre obtain x where x: "x \<in># add_mset e P" "ee_nDeviceId x = d" "ee_nInterfaceId x = i" "ee_pPacket x = None"
        "ee_dEventTime x = lastPacketEndTime (eth_phy w d i)"
        by (auto simp: woken_def)
      with wait(1) have "x \<in># P" by auto
      with x same_linkD(3) [OF wait(4)] show ?thesis
        by (auto simp: woken_def)
    next
      case (first w1)
      have "woken w' (wakes w') d i"
        using phy_add_next_woken [OF first(2) post] same_linkD(2) [OF first(1)] e di by simp
      then show ?thesis by (auto simp: woken_def)
    next
      case (none w1)
      then show ?thesis
        using get_none_no_frame post by (auto simp: eth_phy_packet_get_from_list_def)
    next
      case (send w1 k)
      have "eev (phy_transmit E d i k w1) = eev w1"
        by (simp add: phy_transmit_def Let_def set_phy_def eth_phy_add_phy_in_def add_eth_event_def)
      then have "woken w' (wakes w') d i"
        using phy_add_next_woken [OF send(3) post] same_linkD(2) [OF send(2)] e di by simp
      then show ?thesis by (auto simp: woken_def)
    qed
  qed
qed


lemma link_reach_type: "link_reach E w P \<Longrightarrow> e \<in># P \<Longrightarrow> ee_nEventType e = PHYSICAL_OUT_EVENT"
  by (induction arbitrary: e rule: link_reach.induct) (auto simp: wakes_def)

lemma link_reach_woken:
  assumes "link_reach E w P" "adds_keep_type E" "has_frame (eth_phy w d i)"
  shows "woken w P d i"
  using assms
proof (induction rule: link_reach.induct)
  case (start w)
  then show ?case by (simp add: has_frame_def)
next
  case (frame w P e k w')
  show ?case
    by (rule at_port_woken [OF frame.prems(1) frame.hyps(4,2)]) (use frame in \<open>auto simp: woken_def\<close>)
next
  case (wake w e P w')
  show ?case
    by (rule at_port_woken [OF wake.prems(1) wake.hyps(2)]) (use wake link_reach_type in auto)
qed


lemma link_run_inv:
  assumes "link_run E es w = Some w'" "link_inv phys d i w"
    and "\<And>d' i'. (d', i') \<noteq> (d, i) \<Longrightarrow> (connectedDevice (phys d' i'), connectedInterface (phys d' i'))
      \<noteq> (connectedDevice (phys d i), connectedInterface (phys d i))"
  shows "link_inv phys d i w'"
proof (rule for_each_keeps [where P = "link_inv phys d i", OF _ assms(2) assms(1) [unfolded link_run_def]])
  fix e s s' assume s: "link_inv phys d i s" "fn_NetSim_Ethernet_HandlePhyOut E (s\<lparr>eev := e\<rparr>) = Some s'"
  show "link_inv phys d i s'"
    by (rule link_inv_step [OF s(2)]) (use s(1) assms(3) in \<open>simp_all add: link_inv_def\<close>)
qed

text \<open>
  C10: A port sends one frame at a time.  Whatever events, with or without a frame, all ports handle in
  whatever order, each frame that a port sends takes its length over the speed, it arrives after the
  propagation delay, and the next one starts no earlier than the gap \<open>IFG\<close> after its end.
\<close>

theorem port_sends_one_frame_at_a_time:
  assumes "link_run E es w = Some w'" "eadded w = []"
    and "\<forall>d' i'. (d', i') \<noteq> (d, i) \<longrightarrow> (connectedDevice (eth_phy w d' i'), connectedInterface (eth_phy w d' i'))
      \<noteq> (connectedDevice (eth_phy w d i), connectedInterface (eth_phy w d i))"
  shows "let phy = eth_phy w d i; fs = frames_on (connectedDevice phy) (connectedInterface phy) (eadded w') in
    spaced (IFG phy) fs \<and> (\<forall>k \<in> set fs. on_time phy k)"
proof -
  have "link_inv (eth_phy w) d i w"
    using assms(2) by (simp add: link_inv_def frames_on_def map_filter_def spaced_def)
  then have "link_inv (eth_phy w) d i w'"
    by (rule link_run_inv [OF assms(1)]) (use assms(3) in blast)
  then show ?thesis
    by (simp add: link_inv_def Let_def)
qed

text \<open>
  C11: No frame is forgotten at a port.  When frames arrive at any time and the events of the ports are
  handled in any order, a frame that waits in the buffer of a port (served in order or by priority)
  has a pending event at the port, for the time at which the wire gets free.
\<close>

theorem waiting_frame_has_an_event:
  assumes "link_reach E w P" "adds_keep_type E" "has_frame (eth_phy w d i)"
  shows "\<exists>e \<in># P. ee_nDeviceId e = d \<and> ee_nInterfaceId e = i \<and> ee_pPacket e = None
    \<and> ee_dEventTime e = lastPacketEndTime (eth_phy w d i)"
  using link_reach_woken [OF assms] by (simp add: woken_def)

end
