(* ===== verification/Eth_Switch.thy ===== *)
theory Eth_Switch
  imports Eth_Phy
begin

text \<open>
  A switch forwards: where a frame leaves, what the switch table learns, and that it never unlearns.
\<close>

section \<open>Flooding\<close>

text \<open>The ports of a flood.\<close>

definition flood_ports :: "ETH_ENV \<Rightarrow> NETSIM_ID \<Rightarrow> NETSIM_ID \<Rightarrow> ETH_PKT \<Rightarrow> ETH_LAN \<Rightarrow> NETSIM_ID list" where
  "flood_ports E d incoming k lan =
     map eif_interfaceId (filter (\<lambda>f. portState f \<noteq> PORTSTATE_BLOCKING \<and> eif_interfaceId f \<noteq> incoming
       \<and> fn_NetSim_MAC_Firewall E d (eif_interfaceId f) k ACLTYPE_OUTBOUND = ACLACTION_PERMIT)
       (take (length (lan_interfaceId lan)) (ethIfVar lan)))"

definition send_all :: "ETH_ENV \<Rightarrow> NETSIM_ID \<Rightarrow> ETH_PKT \<Rightarrow> simtime \<Rightarrow> NETSIM_ID list \<Rightarrow> ETH_WORLD \<Rightarrow> ETH_WORLD" where
  "send_all E d k t ps w = w\<lparr>eadded := eadded w @ map (\<lambda>p. phy_event E d p k t) ps\<rparr>"

lemma send_all_simps [simp]: "send_all E d k t [] w = w" "send_all E d k t (p # ps) w = send_all E d k t ps (send_to_phy E d p k t w)"
  "send_all E d k t ps (send_all E d k t qs w) = send_all E d k t (qs @ ps) w"
  by (simp_all add: send_all_def send_to_phy_def add_eth_event_def)

lemma flood_steps:
  "n \<le> length (ethIfVar lan) \<Longrightarrow> for_each (flood_port E d incoming k k t lan) [0..<n] w =
     Some (send_all E d (clear_eth_incoming E (eth_CopyPacket E k)) t (map eif_interfaceId (filter (\<lambda>f. portState f \<noteq> PORTSTATE_BLOCKING
       \<and> eif_interfaceId f \<noteq> incoming \<and> fn_NetSim_MAC_Firewall E d (eif_interfaceId f) k ACLTYPE_OUTBOUND = ACLACTION_PERMIT)
       (take n (ethIfVar lan)))) w)"
proof (induction n)
  case (Suc n)
  then show ?case
    by (simp add: for_each_append flood_port_def take_Suc_conv_app_nth Let_def send_all_def send_to_phy_def add_eth_event_def)
qed simp

lemma flood_does:
  assumes "length (lan_interfaceId lan) \<le> length (ethIfVar lan)"
  shows "flood E d incoming k k t lan w =
    Some (send_all E d (clear_eth_incoming E (eth_CopyPacket E k)) t (flood_ports E d incoming k lan) w)"
  using flood_steps [OF assms] by (simp add: flood_def flood_ports_def)

section \<open>A frame at a switch\<close>

text \<open>The ports by which a switch sends a frame on.\<close>

definition forward_ports :: "ETH_ENV \<Rightarrow> NETSIM_ID \<Rightarrow> NETSIM_ID \<Rightarrow> ETH_PKT \<Rightarrow> ETH_LAN \<Rightarrow> NETSIM_ID list" where
  "forward_ports E d i k lan =
     (let p = find_forward_interface E lan k in
      if p = 0 then flood_ports E d i k lan
      else if fn_NetSim_MAC_Firewall E d p k ACLTYPE_OUTBOUND = ACLACTION_PERMIT then [p] else [])"

text \<open>
  C12: Forwarding of an untagged frame by a switch without virtual LANs.  The handler never fails; the
  switch learns the port of the sender; the frame leaves by the port the table knows for its
  destination, and if the table knows none, by every port that is not blocked but the one it came in
  by; access lists may close a port.  The state of the port by which the frame came in plays no part.
\<close>

theorem switch_forwards:
  fixes E w k lan
  defines "d \<equiv> ee_nDeviceId (eev w)" and "i \<equiv> ee_nInterfaceId (eev w)"
  defines "lan' \<equiv> SWITCHTABLE_NEW E (eth_szSourceMac k) i lan"
  defines "k' \<equiv> store_eth_param_macin E k d i lan'"
  assumes "ee_pPacket (eev w) = Some k" "nControlDataType k \<noteq> ETH_CONFIGBPDU" "eth_deviceType E d = SWITCH"
    and "lan_of E d i w = Some (n, lan)" "lanIP lan = None" "switchingTechnique lan \<noteq> SWITCHINGTECHNIQUE_NULL"
    and "length (lan_interfaceId lan) \<le> length (ethIfVar lan)" "\<not> isVLANTagPresent E k"
    and "eth_var w d = Some e" "\<not> isVLAN e" "fn_NetSim_MAC_Firewall E d i k ACLTYPE_INBOUND = ACLACTION_PERMIT"
  shows "\<exists>w' q. fn_NetSim_Ethernet_HandleMacIn E w = Some w' \<and> get_lan d n w' = Some lan'
    \<and> q \<in> {clear_eth_incoming E k', clear_eth_incoming E (eth_CopyPacket E k')}
    \<and> eadded w' = eadded w @ map (\<lambda>p. phy_event E d p q (ee_dEventTime (eev w))) (forward_ports E d i k' lan')"
proof -
  have lan: "get_lan d n w = Some lan"
    using assms(8) by (auto simp: lan_of_def elim!: bind_SomeE)
  have n: "n < length (lanVar e)"
    using lan assms(13) by (simp add: get_lan_def split: if_splits)
  define w1 where "w1 = w\<lparr>eth_var := (eth_var w)(d \<mapsto> e\<lparr>lanVar := (lanVar e)[n := lan']\<rparr>)\<rparr>"
  have w1: "set_lan d n lan' w = Some w1" "get_lan d n w1 = Some lan'" "eadded w1 = eadded w"
    "eth_var w1 d = Some (e\<lparr>lanVar := (lanVar e)[n := lan']\<rparr>)"
    using n assms(13) by (simp_all add: set_lan_def upd_lan_def w1_def get_lan_def)
  have lan': "lan_interfaceId lan' = lan_interfaceId lan" "ethIfVar lan' = ethIfVar lan" "lanIP lan' = None"
    using assms(9) by (simp_all add: lan'_def SWITCHTABLE_NEW_def split: option.split)
  have run: "fn_NetSim_Ethernet_HandleMacIn E w = forward_frame E d i lan' k' (ee_dEventTime (eev w)) w1"
    using assms(5-10,12,15) w1(1) lan'(3)
    by (simp add: fn_NetSim_Ethernet_HandleMacIn_def ethernet_mac_process_frame_def Let_def decide_move_up_def
        d_def [symmetric] i_def [symmetric] lan'_def [symmetric] k'_def [symmetric])
  let ?t = "ee_dEventTime (eev w)"
  show ?thesis
  proof (cases "find_forward_interface E lan' k' = 0")
    case True
    have "flood E d i k' k' ?t lan' w1 = Some (send_all E d (clear_eth_incoming E (eth_CopyPacket E k')) ?t (flood_ports E d i k' lan') w1)"
      using assms(11) lan' by (intro flood_does) simp
    then have "fn_NetSim_Ethernet_HandleMacIn E w = Some (send_all E d (clear_eth_incoming E (eth_CopyPacket E k')) ?t (flood_ports E d i k' lan') w1)"
      using True assms(7,14) w1(4) unfolding run
      by (simp add: forward_frame_def Let_def vlan_forward_to_all_trunk_def send_all_def)
    then show ?thesis
      using True w1(2,3) by (auto simp: forward_ports_def send_all_def get_lan_def)
  next
    case False
    then have "fn_NetSim_Ethernet_HandleMacIn E w = Some (send_all E d (clear_eth_incoming E k') ?t (forward_ports E d i k' lan') w1)"
      unfolding run by (simp add: forward_frame_def Let_def forward_ports_def)
    then show ?thesis
      using w1(2,3) by (auto simp: send_all_def get_lan_def)
  qed
qed


section \<open>What the table has learned\<close>

text \<open>Tables only get longer at their end.\<close>

definition grows :: "ETH_WORLD \<Rightarrow> ETH_WORLD \<Rightarrow> bool" where
  "grows w w' \<longleftrightarrow> (\<forall>d n lan. get_lan d n w = Some lan \<longrightarrow>
     (\<exists>lan' new. get_lan d n w' = Some lan' \<and> switchTable lan' = switchTable lan @ new))"

lemma grows_same: "eth_var w' = eth_var w \<Longrightarrow> grows w w'"
  by (simp add: grows_def get_lan_def)

lemma grows_trans: "grows a b \<Longrightarrow> grows b c \<Longrightarrow> grows a c"
  unfolding grows_def by (metis append_assoc)

lemma grows_set_lan:
  assumes "set_lan d n lan' w = Some w'" "get_lan d n w = Some lan" "switchTable lan' = switchTable lan @ new"
  shows "grows w w'"
proof -
  from assms(1) obtain e where e: "eth_var w d = Some e" "n < length (lanVar e)"
    "w' = w\<lparr>eth_var := (eth_var w)(d \<mapsto> e\<lparr>lanVar := (lanVar e)[n := lan']\<rparr>)\<rparr>"
    by (auto simp: set_lan_def upd_lan_def split: option.splits if_splits)
  then have get: "get_lan x y w' = (if x = d \<and> y = n then Some lan' else get_lan x y w)" for x y
    by (auto simp: get_lan_def split: option.splits)
  show ?thesis
    using assms(2,3) by (auto simp: grows_def get)
qed

lemma grows_event [simp]: "grows w (w'\<lparr>eev := e\<rparr>) = grows w w'"
  by (simp add: grows_def get_lan_def)

lemma grows_eq: "eth_var w' = eth_var w2 \<Longrightarrow> grows w w2 \<Longrightarrow> grows w w'"
  using grows_same grows_trans by blast

lemma grows_lan_of:
  "lan_of E d i w = Some (n, lan) \<Longrightarrow> set_lan d n lan' w = Some w' \<Longrightarrow> switchTable lan' = switchTable lan \<Longrightarrow> grows w w'"
  using grows_set_lan [of d n lan' w w' lan "[]"] by (auto simp: lan_of_def elim!: bind_SomeE)

text \<open>Sending changes no device.\<close>

lemma eth_var_events [simp]: "eth_var (add_eth_event e w) = eth_var w" "eth_var (send_to_phy E d p k t w) = eth_var w"
  "eth_var (check_move_frame_up E d i lan k t w) = eth_var w" "eth_var (eth_error w) = eth_var w" "eth_var (set_phy d i phy w) = eth_var w"
  by (simp_all add: add_eth_event_def send_to_phy_def check_move_frame_up_def eth_error_def set_phy_def)

lemma eth_var_loop: "for_each f xs w = Some w' \<Longrightarrow> (\<And>x a b. f x a = Some b \<Longrightarrow> eth_var b = eth_var a) \<Longrightarrow> eth_var w' = eth_var w"
  using for_each_keeps [where P = "\<lambda>s. eth_var s = eth_var w" and f = f] by metis

lemma eth_var_flood: "flood E d incoming fk k t lan w = Some w' \<Longrightarrow> eth_var w' = eth_var w"
  unfolding flood_def by (erule eth_var_loop) (auto simp: flood_port_def Let_def elim!: bind_SomeE split: if_splits)

lemma eth_var_trunk: "trunk_port E d v k t i w = Some w' \<Longrightarrow> eth_var w' = eth_var w"
  by (auto simp: trunk_port_def elim!: bind_SomeE split: if_splits)

lemma eth_var_trunks: "for_each (trunk_port E d v k t) xs w = Some w' \<Longrightarrow> eth_var w' = eth_var w"
  by (erule eth_var_loop) (rule eth_var_trunk)

lemma eth_var_vlan:
  "vlan_forward_to_all_trunk E d k lan t w = Some w' \<Longrightarrow> eth_var w' = eth_var w"
  "vlan_forward_to_trunk E d i v k t w = Some w' \<Longrightarrow> eth_var w' = eth_var w"
  by (auto simp: vlan_forward_to_all_trunk_def vlan_forward_to_trunk_def dest: eth_var_trunks elim!: bind_SomeE split: if_splits)

lemma eth_var_macout: "vlan_macout_forward_packet E d i v incoming k t w = Some w' \<Longrightarrow> eth_var w' = eth_var w"
  by (auto simp: vlan_macout_forward_packet_def Let_def dest!: eth_var_flood eth_var_vlan elim!: bind_SomeE split: if_splits)

lemma eth_var_out_frame: "out_frame E d i t k w = Some w' \<Longrightarrow> eth_var w' = eth_var w"
  by (auto simp: out_frame_def Let_def dest!: eth_var_flood eth_var_vlan eth_var_macout elim!: bind_SomeE split: if_splits)

lemma eth_var_take: "take_frame E d i w = Some (r, w') \<Longrightarrow> eth_var w' = eth_var w"
  by (auto simp: take_frame_def Let_def elim!: bind_SomeE split: option.splits)

lemma eth_var_out_loop:
  assumes "out_loop E d i t w = Some w'"
  shows "eth_var w' = eth_var w"
proof (rule out_loop.raw_induct [where P = "\<lambda>E d i t w w'. eth_var w' = eth_var w", OF _ assms], goal_cases)
  case (1 f E d i t w w')
  from 1(2) show ?case
    by (auto dest!: 1(1) eth_var_take eth_var_out_frame elim!: bind_SomeE split: option.splits)
qed

lemma eth_var_other: "forward_packet_to_other_protocol E d k t i w = Some w' \<Longrightarrow> eth_var w' = eth_var w"
  by (auto simp: forward_packet_to_other_protocol_def Let_def elim!: bind_SomeE split: if_splits)

lemma eth_var_others: "for_each (forward_packet_to_other_protocol E d k t) xs w = Some w' \<Longrightarrow> eth_var w' = eth_var w"
  by (erule eth_var_loop) (rule eth_var_other)

lemma eth_var_forward: "forward_frame E d i lan k t w = Some w' \<Longrightarrow> eth_var w' = eth_var w"
  by (auto simp: forward_frame_def Let_def dest!: eth_var_flood eth_var_vlan eth_var_others
      elim!: bind_SomeE split: if_splits)

lemma eth_var_macin: "vlan_macin_forward_packet E k w = Some w' \<Longrightarrow> eth_var w' = eth_var w"
  by (auto simp: vlan_macin_forward_packet_def Let_def dest!: eth_var_flood eth_var_vlan elim!: bind_SomeE split: if_splits option.splits)

lemma eth_var_multicast: "multicast_config_bpdu E w = Some w' \<Longrightarrow> eth_var w' = eth_var w"
  by (auto simp: multicast_config_bpdu_def elim!: bind_SomeE split: list.splits)

lemma eth_var_send_bpdu: "send_bpdu_packet E d t is k w = Some w' \<Longrightarrow> eth_var w' = eth_var w"
  by (auto simp: send_bpdu_packet_def elim!: bind_SomeE split: if_splits)

section \<open>Every event keeps what the tables know\<close>

lemma grows_learn:
  "set_lan d n (SWITCHTABLE_NEW E a p lan) w = Some w2 \<Longrightarrow> get_lan d n w = Some lan \<Longrightarrow> eth_var w' = eth_var w2 \<Longrightarrow> grows w w'"
  using grows_set_lan [of d n "SWITCHTABLE_NEW E a p lan" w w2 lan] grows_eq
  by (auto simp: SWITCHTABLE_NEW_def split: option.splits)

lemma grows_keep: "set_lan d n lan w = Some w2 \<Longrightarrow> get_lan d n w = Some lan \<Longrightarrow> eth_var w' = eth_var w2 \<Longrightarrow> grows w w'"
  using grows_set_lan [of d n lan w w2 lan "[]"] grows_eq by simp

lemma mac_frame_grows: "ethernet_mac_process_frame E w = Some w' \<Longrightarrow> grows w w'"
  by ((auto simp: ethernet_mac_process_frame_def lan_of_def Let_def grows_same
      dest!: eth_var_macin eth_var_forward elim!: bind_SomeE split: if_splits);
      (erule (1) grows_learn | erule (1) grows_keep); simp)

lemma block_port_table: "block_port E d n i lan = Some lan' \<Longrightarrow> switchTable lan' = switchTable lan"
  by (auto simp: block_port_def upd_if_def elim!: bind_SomeE split: if_splits)

lemma forward_bpdu_var: "forward_bpdu E d p t n b w = Some w' \<Longrightarrow> eth_var w' = eth_var w"
  by (auto simp: forward_bpdu_def dest: eth_var_send_bpdu elim!: bind_SomeE)

lemma grows_bpdu:
  "set_lan d n lan' w = Some w2 \<Longrightarrow> lan_of E d i w = Some (n, lan) \<Longrightarrow> switchTable lan' = switchTable lan
    \<Longrightarrow> eth_var w' = eth_var w2 \<Longrightarrow> grows w w'"
  using grows_lan_of grows_eq by blast

lemma bpdu_grows: "process_configbpdu E w = Some w' \<Longrightarrow> grows w w'"
  by ((auto simp: process_configbpdu_def Let_def mark_port_def grows_same
      elim!: bind_SomeE split: if_splits option.splits COMPARE_BPDU.splits dest!: block_port_table forward_bpdu_var);
      (erule (1) grows_bpdu); simp)

lemma phy_var:
  "isPhyHasPacket d i w = Some (s, w') \<Longrightarrow> eth_var w' = eth_var w"
  "eth_phy_packet_add_to_list E d i p w = Some w' \<Longrightarrow> eth_var w' = eth_var w"
  "get_phy_frame E d i f w = Some (r, w') \<Longrightarrow> eth_var w' = eth_var w"
  by (auto simp: isPhyHasPacket_def eth_phy_packet_add_to_list_def get_phy_frame_def Let_def elim!: bind_SomeE
      split: option.splits if_splits)

lemma phy_next_var: "phy_add_next E d i w = Some w' \<Longrightarrow> eth_var w' = eth_var w"
  by (auto simp: phy_add_next_def eth_phy_add_phy_out_def dest!: phy_var elim!: bind_SomeE split: if_splits)

lemma phy_out_var: "fn_NetSim_Ethernet_HandlePhyOut E w = Some w' \<Longrightarrow> eth_var w' = eth_var w"
  by (auto simp: fn_NetSim_Ethernet_HandlePhyOut_def eth_phy_packet_get_from_list_def phy_transmit_def eth_phy_add_phy_in_def Let_def
      dest!: phy_var phy_next_var elim!: bind_SomeE split: if_splits option.splits)

lemma phy_in_var: "fn_NetSim_Ethernet_HandlePhyIn E w = Some w' \<Longrightarrow> eth_var w' = eth_var w"
  by (auto simp: fn_NetSim_Ethernet_HandlePhyIn_def Let_def elim!: bind_SomeE split: if_splits)

lemma run_grows:
  assumes "fn_NetSim_Ethernet_Run E up w = Some w'" "\<And>d i a b. up d i a = Some b \<Longrightarrow> eth_var b = eth_var a"
  shows "grows w w'"
proof (cases "ee_nEventType (eev w)")
  case MAC_OUT_EVENT
  with assms(1) show ?thesis
    by (intro grows_same) (auto simp: fn_NetSim_Ethernet_Run_def fn_NetSim_Ethernet_HandleMacOut_def
        eth_packet_arrive_from_network_layer_def dest: eth_var_out_loop eth_var_multicast split: if_splits)
next
  case MAC_IN_EVENT
  with assms(1) show ?thesis
    by (auto simp: fn_NetSim_Ethernet_Run_def fn_NetSim_Ethernet_HandleMacIn_def intro: bpdu_grows mac_frame_grows
        elim!: bind_SomeE split: if_splits)
qed (use assms in \<open>auto intro!: grows_same simp: fn_NetSim_Ethernet_Run_def fn_NetSim_Ethernet_HandleTimer_def
    dest: phy_out_var phy_in_var split: if_splits\<close>)

lemma search_append: "table_search E a ts = Some t \<Longrightarrow> table_search E a (ts @ us) = Some t"
  by (induction ts) (auto split: if_splits)

definition eth_run :: "ETH_ENV \<Rightarrow> (NETSIM_ID \<Rightarrow> NETSIM_ID \<Rightarrow> ETH_WORLD \<Rightarrow> ETH_WORLD option) \<Rightarrow> ETH_EVENT list \<Rightarrow> ETH_WORLD \<Rightarrow> ETH_WORLD option" where
  "eth_run E up = for_each (\<lambda>e w. fn_NetSim_Ethernet_Run E up (w\<lparr>eev := e\<rparr>))"

text \<open>
  C19: The table of a switch never forgets and never corrects.  Whatever events the Ethernet library
  handles, at any devices, an address that a table knows is known afterwards by the same entry, with
  the same port: a station that moves to another port is not learned again.
\<close>

theorem switch_table_keeps_first_port:
  assumes "eth_run E up es w = Some w'" "\<forall>d i a b. up d i a = Some b \<longrightarrow> eth_var b = eth_var a"
    and "get_lan d n w = Some lan" "SWITCHTABLE_FIND E lan a = Some t"
  shows "\<exists>lan'. get_lan d n w' = Some lan' \<and> SWITCHTABLE_FIND E lan' a = Some t"
proof -
  have "grows w w'"
  proof (rule for_each_keeps [where P = "grows w", OF _ _ assms(1) [unfolded eth_run_def]])
    fix e s s' assume s: "grows w s" "fn_NetSim_Ethernet_Run E up (s\<lparr>eev := e\<rparr>) = Some s'"
    have "grows s s'"
      using run_grows [OF s(2)] assms(2) by (simp add: grows_def get_lan_def)
    with s(1) show "grows w s'" by (rule grows_trans)
  qed (simp add: grows_same)
  then show ?thesis
    using assms(3,4) search_append by (fastforce simp: grows_def SWITCHTABLE_FIND_def)
qed

end
