(* ===== verification/Eth_Example.thy ===== *)
theory Eth_Example
  imports Eth_Agree Eth_Link Aodv_Example Netsim_Buffer_Reach Eth_Switch
begin

text \<open>
  Three switches, each joined to the other two.  The functions of the library are the simplest ones
  that do what their names say.
\<close>

section \<open>The network\<close>

definition demo_frame :: ETH_PKT where
  "demo_frame = NetSim_PACKET.extend demo_pkt
     \<lparr>szPacketType = [], eth_szSourceMac = \<lparr>nmacaddress = 0, szmacaddress = []\<rparr>,
      eth_szDestMac = \<lparr>nmacaddress = 0, szmacaddress = []\<rparr>,
      mac_dArrivalTime = 0, mac_dStartTime = 0, mac_dEndTime = 0, mac_dOverhead = 0, mac_dPayload = 0, mac_dPacketSize = 60,
      nMACProtocol = MAC_PROTOCOL_IEEE802_3, Packet_MACProtocol = None, eth_incoming = None,
      phy_dArrivalTime = 0, phy_dStartTime = 0, phy_dEndTime = 0, phy_dOverhead = 0, phy_dPayload = 0, phy_dPacketSize = 0, nPhyMedium = PHY_MEDIUM_NULL,
      nPacketStatus = PacketStatus_NoError, pstruTransportData = None, nw_dPayload = 0, nNetworkProtocol = 0, IPProtocol = 0,
      nPacketFlag = 0, nw_outer = [], Packet_NetworkProtocol = HdrNW_None\<rparr>"

definition demo_link :: "NETSIM_ID \<Rightarrow> NETSIM_ID \<Rightarrow> nat \<times> NETSIM_ID \<times> NETSIM_ID" where
  "demo_link d i =
     (if d = 1 \<and> i = 1 then (1, 2, 1) else if d = 2 \<and> i = 1 then (1, 1, 1)
      else if d = 1 \<and> i = 2 then (2, 3, 1) else if d = 3 \<and> i = 1 then (2, 1, 2)
      else if d = 2 \<and> i = 2 then (3, 3, 2) else if d = 3 \<and> i = 2 then (3, 2, 2)
      else (0, 0, 0))"

definition demo_eth :: ETH_ENV where
  "demo_eth = \<lparr>eth_nDeviceCount = 3, eth_deviceType = \<lambda>d. SWITCH, GetConnectedDevice = demo_link,
     GET_ETH_LAN = \<lambda>d i v. if i \<in> {1, 2} then Some 0 else None,
     GET_ETH_IF = \<lambda>d n i. if i \<in> {1, 2} then Some (i - 1) else None,
     get_interface_id = \<lambda>d c. if fst (snd (demo_link d 1)) = c then 1 else 2,
     eth_nNumOfInterface = \<lambda>d. 2, isVirtualInterface = \<lambda>d i. False, nMacProtocolId = \<lambda>d i. MAC_PROTOCOL_IEEE802_3,
     MAC_COMPARE = \<lambda>a b. if nmacaddress a = nmacaddress b then 0 else 1,
     isBroadcastMAC = \<lambda>m. nmacaddress m = 0xFFFFFFFFFFFF, isMulticastMAC = \<lambda>m. False,
     multicastSPTMAC = \<lparr>nmacaddress = 0x0180C2000000, szmacaddress = ''0180C2000000''\<rparr>,
     blankMacPacket = demo_frame\<lparr>destInfo := []\<rparr>, eth_CopyPacket = \<lambda>k. k,
     eth_add_dest = \<lambda>ds c. ds @ [c], get_dests = remdups,
     set_eth_hdr = \<lambda>k v. k\<lparr>Packet_MACProtocol := Some v\<rparr>, free_eth_hdr = \<lambda>k. k\<lparr>Packet_MACProtocol := None\<rparr>,
     get_eth_hdr_var = Packet_MACProtocol,
     store_eth_param_macin = \<lambda>k d i lan. k\<lparr>eth_incoming := Some (d, i, lan_vlanId lan)\<rparr>,
     eth_get_incoming_vlanid = \<lambda>k d. (case eth_incoming k of Some (x, i, v) \<Rightarrow> if x = d then v else 0 | None \<Rightarrow> 0),
     eth_get_incoming_port = \<lambda>k d. (case eth_incoming k of Some (x, i, v) \<Rightarrow> if x = d then i else 0 | None \<Rightarrow> 0),
     clear_eth_incoming = \<lambda>k. k\<lparr>eth_incoming := None\<rparr>,
     fn_NetSim_MAC_Firewall = \<lambda>d i k t. ACLACTION_PERMIT,
     eth_AddPacketToList = \<lambda>b p. map_option snd (fn_NetSim_FIFO b [p] ADD True),
     DecideError = \<lambda>n b s. PacketStatus_NoError, eth_buf_env = demo_buf_env 0\<rparr>"

lemma demo_eth_sel [simp]:
  "eth_nDeviceCount demo_eth = 3" "eth_deviceType demo_eth d = SWITCH" "GetConnectedDevice demo_eth = demo_link"
  "GET_ETH_LAN demo_eth d i v = (if i \<in> {1, 2} then Some 0 else None)"
  "GET_ETH_IF demo_eth d n i = (if i \<in> {1, 2} then Some (i - 1) else None)"
  "get_interface_id demo_eth d c = (if fst (snd (demo_link d 1)) = c then 1 else 2)"
  "MAC_COMPARE demo_eth m1 m2 = (if nmacaddress m1 = nmacaddress m2 then 0 else 1)"
  "blankMacPacket demo_eth = demo_frame\<lparr>destInfo := []\<rparr>" "eth_CopyPacket demo_eth k = k"
  "eth_add_dest demo_eth ds c = ds @ [c]" "get_dests demo_eth = remdups"
  "set_eth_hdr demo_eth k h = k\<lparr>Packet_MACProtocol := Some h\<rparr>" "get_eth_hdr_var demo_eth = Packet_MACProtocol"
  "fn_NetSim_MAC_Firewall demo_eth d i k t = ACLACTION_PERMIT"
  "eth_AddPacketToList demo_eth b p = map_option snd (fn_NetSim_FIFO b [p] ADD True)"
  "clear_eth_incoming demo_eth k = k\<lparr>eth_incoming := None\<rparr>"
  "store_eth_param_macin demo_eth k d i lan = k\<lparr>eth_incoming := Some (d, i, lan_vlanId lan)\<rparr>"
  "eth_buf_env demo_eth = demo_buf_env 0" "isBroadcastMAC demo_eth m = (nmacaddress m = 0xFFFFFFFFFFFF)"
  "eth_get_incoming_vlanid demo_eth k d = (case eth_incoming k of Some (x, i, v) \<Rightarrow> if x = d then v else 0 | None \<Rightarrow> 0)"
  "eth_get_incoming_port demo_eth k d = (case eth_incoming k of Some (x, i, v) \<Rightarrow> if x = d then i else 0 | None \<Rightarrow> 0)"
  "isMulticastMAC demo_eth m = False"
  by (simp_all add: demo_eth_def)

definition demo_eth_if :: "NETSIM_ID \<Rightarrow> NETSIM_ID \<Rightarrow> ETH_IF" where
  "demo_eth_if d i = \<lparr>eif_interfaceId = i, macAddress = \<lparr>nmacaddress = of_nat (16 * d + i), szmacaddress = []\<rparr>,
     portState = PORTSTATE_LISTENING, portType = PORTTYPE_NONDESIGNATED, vlanPortType = VLANPORT_NONE\<rparr>"

definition demo_id :: "NETSIM_ID \<Rightarrow> string" where
  "demo_id d = (if d = 1 then ''32768AABB01'' else if d = 2 then ''32768AABB02'' else ''4096AABB03'')"

definition demo_lan :: "NETSIM_ID \<Rightarrow> ETH_LAN" where
  "demo_lan d = \<lparr>lanId = 1, lan_interfaceId = [1, 2], lanIP = None, lan_vlanId = 0,
     ethIfVar = [demo_eth_if d 1, demo_eth_if d 2],
     spt = \<lparr>stpCost = int (10 * d), spt_priority = 32768, switchId = Some (demo_id d), rootId = None, rootPathCost = 0, rootPort = 0\<rparr>,
     switchingTechnique = SWITCHINGTECHNIQUE_STORE_FORWARD, STPStatus = False, switchTable = [], ispromiscuousMode = False\<rparr>"

definition demo_eth_phy :: "NETSIM_ID \<Rightarrow> NETSIM_ID \<Rightarrow> ETH_PHY" where
  "demo_eth_phy d i = \<lparr>phy_interfaceId = i, phy_speed = 100, BER = 0, propagationDelay = 5,
     connectedDevice = fst (snd (demo_link d i)), connectedInterface = snd (snd (demo_link d i)), IFG = 1, phy_packet = None,
     lastPacketEndTime = 0, isErrorChkReqd = False\<rparr>"

definition demo_eth_world :: "(NETSIM_ID \<Rightarrow> ETH_LAN) \<Rightarrow> ETH_EVENT list \<Rightarrow> ETH_WORLD" where
  "demo_eth_world f es = \<lparr>eth_var = \<lambda>d. if d \<in> {1, 2, 3}
       then Some \<lparr>lanVar = [f d], isSPT = True, isVLAN = False, trunkPortIds = []\<rparr> else None,
     eth_phy = demo_eth_phy, eth_access = \<lambda>d i. (demo_buffer SCHEDULING_FIFO)\<lparr>dMaxBufferSize := 0\<rparr>, waiting = \<lambda>p. None, wnext = 0,
     eev = zero_event, eadded = es, errors_drawn = 0, eerrors = 0\<rparr>"

lemma demo_eth_world_sel [simp]:
  "get_lan d n (demo_eth_world f es) = (if d \<in> {1, 2, 3} \<and> n = 0 then Some (f d) else None)"
  "d \<in> {1, 2, 3} \<Longrightarrow> set_lan d 0 lan (demo_eth_world f es) = Some (demo_eth_world (f(d := lan)) es)"
  "eth_var (demo_eth_world f es) d = (if d \<in> {1, 2, 3}
     then Some \<lparr>lanVar = [f d], isSPT = True, isVLAN = False, trunkPortIds = []\<rparr> else None)"
  "add_eth_event e (demo_eth_world f es) = demo_eth_world f (es @ [e])"
  "eadded (demo_eth_world f es) = es" "eth_phy (demo_eth_world f es) = demo_eth_phy"
  by (auto simp: get_lan_def set_lan_def upd_lan_def demo_eth_world_def add_eth_event_def fun_eq_iff)

lemma demo_lan_sel [simp]:
  "lan_interfaceId (demo_lan d) = [1, 2]" "lanIP (demo_lan d) = None" "length (ethIfVar (demo_lan d)) = 2"
  "switchId (spt (demo_lan d)) = Some (demo_id d)" "stpCost (spt (demo_lan d)) = int (10 * d)"
  "rootPathCost (spt (demo_lan d)) = 0" "rootId (spt (demo_lan d)) = None"
  by (simp_all add: demo_lan_def)

text \<open>The switches as the start leaves them.\<close>

definition demo_started :: "NETSIM_ID \<Rightarrow> ETH_LAN" where
  "demo_started d = (demo_lan d)\<lparr>STPStatus := True,
     ethIfVar := (ethIfVar (demo_lan d))
       [0 := (ethIfVar (demo_lan d) ! 0)\<lparr>portState := PORTSTATE_FORWARDING, portType := PORTTYPE_DESIGNATED\<rparr>,
        1 := (ethIfVar (demo_lan d) ! 1)\<lparr>portState := PORTSTATE_FORWARDING, portType := PORTTYPE_DESIGNATED\<rparr>],
     spt := (spt (demo_lan d))\<lparr>rootId := Some (demo_id d)\<rparr>\<rparr>"

definition demo_lans :: "NETSIM_ID \<Rightarrow> ETH_LAN" where
  "demo_lans = demo_lan(1 := demo_started 1, 2 := demo_started 2, 3 := demo_started 3)"

lemma demo_bpdu_lib: "bpdu_lib demo_eth"
  by (simp add: bpdu_lib_def demo_frame_def)

lemma demo_idle: "idle_net (demo_eth_world demo_lan [])"
  by (auto simp: idle_net_def split: if_splits)


lemma demo_upto: "[1..<4] = [1, 2, 3]" "[1..<Suc 3] = [1, 2, 3]" "[0..<2] = [0, 1]" "[0..<1] = [0]" "[0..<Suc 0] = [0]"
  "[0..<Suc (Suc 0)] = [0, 1]"
  by (simp_all add: upt_rec)

lemma demo_status:
  "set_status demo_eth (demo_eth_world demo_lan []) = Some (demo_eth_world (demo_lan
     (1 := (demo_lan 1)\<lparr>STPStatus := True\<rparr>, 2 := (demo_lan 2)\<lparr>STPStatus := True\<rparr>, 3 := (demo_lan 3)\<lparr>STPStatus := True\<rparr>)) [])"
  by (simp add: set_status_def demo_upto init_lan_status_def isSingleInterface_def demo_link_def Let_def del: upt_Suc One_nat_def)

lemma demo_eth_init: "\<exists>es. init_spanning_tree_protocol demo_eth (demo_eth_world demo_lan []) = Some (demo_eth_world demo_lans es)"
  by (rule exI, simp add: init_in_two demo_status demo_upto start_device_def start_spanning_tree_protocol_def
      start_spt_for_lan_def eth_spt_init_port_def init_port_def demo_link_def Let_def upd_if_def send_config_bpdu_def
      send_bpdu_packet_def add_receiver_def stp_neighbour_def demo_lans_def demo_started_def del: upt_Suc One_nat_def)

section \<open>The started network\<close>

lemma demo_started_sel [simp]:
  "lan_interfaceId (demo_started d) = [1, 2]" "STPStatus (demo_started d)" "length (ethIfVar (demo_started d)) = 2"
  "switchId (spt (demo_started d)) = Some (demo_id d)" "stpCost (spt (demo_started d)) = int (10 * d)"
  "rootPathCost (spt (demo_started d)) = 0" "rootId (spt (demo_started d)) = Some (demo_id d)"
  by (simp_all add: demo_started_def)

lemma demo_lans_started: "d \<in> {1, 2, 3} \<Longrightarrow> demo_lans d = demo_started d"
  by (auto simp: demo_lans_def)

lemma demo_the_lan: "d \<in> {1, 2, 3} \<Longrightarrow> the_lan d (demo_eth_world demo_lans es) = demo_started d"
  by (simp add: the_lan_def demo_lans_started)

lemma demo_nodes: "stp_nodes demo_eth (demo_eth_world demo_lans es) = {1, 2, 3}"
proof -
  have "{1..3} = {1, 2, 3 :: nat}" by auto
  then show ?thesis
    by (auto simp: stp_nodes_def demo_the_lan simp del: One_nat_def)
qed

lemma demo_neighbour:
  "stp_neighbour demo_eth d i (demo_eth_world demo_lans es) =
     (let (l, c, ci) = demo_link d i in Some (if l = 0 then None else Some c))"
  by (auto simp: stp_neighbour_def demo_link_def demo_lans_started Let_def simp del: One_nat_def split: if_splits)

lemma demo_ident: "d \<in> {1, 2, 3} \<Longrightarrow> stp_ident (demo_eth_world demo_lans es) d = text_key (demo_id d)"
  by (simp add: stp_ident_def demo_the_lan id_key_def)

lemma demo_keys: "text_key (demo_id 1) < text_key (demo_id 2)" "text_key (demo_id 2) < text_key (demo_id 3)"
  by (simp_all add: stricmp_less [symmetric] demo_id_def lower_code_def to_lower_def del: One_nat_def)

lemma demo_lone: "lone (demo_eth_world demo_lans es)"
  by (auto simp: lone_def split: if_splits)

lemma demo_stp_net: "stp_net demo_eth (demo_eth_world demo_lans es)"
proof -
  have "inj_on (stp_ident (demo_eth_world demo_lans es)) {1, 2, 3}"
    using demo_keys by (auto simp: inj_on_def demo_ident simp del: One_nat_def)
  moreover have "sum (stp_cost (demo_eth_world demo_lans es)) {1, 2, 3} < 2 ^ 32"
    by (simp add: stp_cost_def demo_the_lan del: One_nat_def)
  ultimately show ?thesis
    unfolding stp_net_def demo_nodes by (simp add: demo_the_lan demo_neighbour demo_link_def del: One_nat_def)
qed

lemma demo_linked: "d \<in> {1, 2, 3} \<Longrightarrow> c \<in> {1, 2, 3} \<Longrightarrow> c \<noteq> d \<Longrightarrow> linked demo_eth (demo_eth_world demo_lans es) d c"
  by (auto simp: linked_def demo_the_lan demo_neighbour demo_link_def simp del: One_nat_def)

lemma demo_joined: "stp.joined demo_eth (demo_eth_world demo_lans es)"
proof -
  have "\<exists>xs. stp.route demo_eth (demo_eth_world demo_lans es) xs \<and> hd xs = u \<and> last xs = v" if "u \<in> {1, 2, 3}" "v \<in> {1, 2, 3}" for u v
  proof (cases "u = v")
    case True
    with that show ?thesis
      unfolding stp.route_def unfolding demo_nodes by (intro exI [of _ "[u]"]) simp
  next
    case False
    with that show ?thesis
      unfolding stp.route_def unfolding stp_nb_def demo_nodes
      by (intro exI [of _ "[u, v]"]) (auto simp: demo_linked less_Suc_eq simp del: One_nat_def)
  qed
  then show ?thesis
    unfolding stp.joined_def unfolding demo_nodes by blast
qed


section \<open>Witnesses of the spanning tree\<close>

text \<open>Switch 1 wins: the identifiers are compared as text, so switch 3 with the priority 4096 loses.\<close>

theorem spanning_tree_stops_witness:
  "\<exists>w1. init_spanning_tree_protocol demo_eth (demo_eth_world demo_lan []) = Some w1
     \<and> \<not> (\<exists>run. run 0 = w1 \<and> (\<forall>i. stp_step demo_eth (\<lambda>d i. Some) (run i) (run (Suc i))))"
proof -
  obtain es where es: "init_spanning_tree_protocol demo_eth (demo_eth_world demo_lan []) = Some (demo_eth_world demo_lans es)"
    using demo_eth_init by blast
  show ?thesis
    using spanning_tree_stops [OF demo_bpdu_lib demo_idle es demo_lone demo_stp_net] es by blast
qed

theorem spanning_tree_elects_witness:
  "\<exists>w1 w. init_spanning_tree_protocol demo_eth (demo_eth_world demo_lan []) = Some w1
     \<and> (stp_step demo_eth (\<lambda>d i. Some))\<^sup>*\<^sup>* w1 w \<and> eadded w = []
     \<and> id_key (rootId (spt (the_lan 3 w))) = text_key (demo_id 1) \<and> unat (rootPathCost (spt (the_lan 3 w))) \<le> 10"
proof -
  obtain es where es: "init_spanning_tree_protocol demo_eth (demo_eth_world demo_lan []) = Some (demo_eth_world demo_lans es)"
    using demo_eth_init by blast
  let ?w = "demo_eth_world demo_lans es"
  obtain w where w: "(stp_step demo_eth (\<lambda>d i. Some))\<^sup>*\<^sup>* ?w w" "\<nexists>w'. stp_step demo_eth (\<lambda>d i. Some) w w'"
    by (rule quiet_exists [OF demo_bpdu_lib demo_stp_net start_agrees [OF demo_bpdu_lib demo_idle es demo_lone demo_stp_net]])
  have r: "1 \<in> stp_nodes demo_eth ?w" "3 \<in> stp_nodes demo_eth ?w"
    "\<forall>v \<in> stp_nodes demo_eth ?w. stp_ident ?w 1 \<le> stp_ident ?w v"
    using demo_keys unfolding demo_nodes by (auto simp: demo_ident simp del: One_nat_def)
  note elects = spanning_tree_elects [OF demo_bpdu_lib demo_idle es demo_lone demo_stp_net demo_joined w r(1,3,2)]
  have "stp.route demo_eth ?w [1, 3]"
    unfolding stp.route_def unfolding stp_nb_def demo_nodes by (auto simp: demo_linked less_Suc_eq simp del: One_nat_def)
  moreover have "stp.weight ?w (butlast [1, 3]) = 10"
    unfolding stp.weight_def by (simp add: stp_cost_def demo_the_lan del: One_nat_def)
  ultimately have "unat (rootPathCost (spt (the_lan 3 w))) \<le> 10"
    using elects by (metis last.simps list.sel(1) list.distinct(1))
  with elects es w(1) show ?thesis
    by (metis demo_ident insertI1)
qed

section \<open>A busy port\<close>

text \<open>Two frames at a port of this network: the second waits for the first.\<close>

definition demo_out :: "simtime \<Rightarrow> ETH_PKT option \<Rightarrow> ETH_EVENT" where
  "demo_out t k = zero_event\<lparr>ee_dEventTime := t, ee_nEventType := PHYSICAL_OUT_EVENT, ee_nDeviceId := 1, ee_nInterfaceId := 1,
     ee_pPacket := k\<rparr>"

lemma demo_frame_sel [simp]: "mac_dPacketSize demo_frame = 60" "pstruAppData demo_frame = Some (1, 0)" "nPacketId demo_frame = 1"
  by (simp_all add: demo_frame_def demo_pkt_def NetSim_PACKET.extend_def)

lemmas demo_run_defs = fn_NetSim_Ethernet_HandlePhyOut_def isPhyHasPacket_def eth_phy_packet_add_to_list_def
  eth_phy_packet_get_from_list_def get_phy_frame_def phy_add_next_def phy_transmit_def eth_phy_add_phy_in_def
  eth_phy_add_phy_out_def eth_phy_packet_set_param_def calculate_txtime_def init_eth_phy_buffer_def set_phy_def
  demo_out_def demo_eth_phy_def demo_buffer_def demo_buf_env_def time_env_def fn_NetSim_GetBufferStatus_def fn_NetSim_FIFO_def append_chain_def
  chain_last_def fn_NetSim_GetPacketFromBuffer_def schedule_def note_idle_def reduce_current_size_buffer_def as_buf_frame_def
  app_ids_def add_eth_event_def zero_event_def demo_link_def

abbreviation demo_link_world :: ETH_WORLD where
  "demo_link_world \<equiv> demo_eth_world demo_lan []"

lemma demo_link_run: "\<exists>w'. link_run demo_eth [demo_out 0 (Some demo_frame), demo_out 1 (Some demo_frame), demo_out 5.8 None] demo_link_world = Some w'
   \<and> length (frames_on 2 1 (eadded w')) = 2"
  by (rule exI, rule conjI, simp add: link_run_def demo_run_defs demo_eth_world_def Let_def del: One_nat_def,
      simp add: frames_on_def map_filter_def)


lemma demo_link_wait: "\<exists>w1 w2. at_port demo_eth (demo_out 0 (Some demo_frame)) demo_link_world = Some w1
    \<and> at_port demo_eth (demo_out 1 (Some demo_frame)) w1 = Some w2 \<and> has_frame (eth_phy w2 1 1)"
  by (rule exI, rule exI, rule conjI, simp add: at_port_def demo_run_defs demo_eth_world_def Let_def del: One_nat_def,
      rule conjI, simp add: at_port_def demo_run_defs Let_def del: One_nat_def, simp add: has_frame_def)

lemma demo_adds_keep_type: "adds_keep_type demo_eth"
  by (auto simp: adds_keep_type_def fn_NetSim_FIFO_def append_chain_def elim!: bind_SomeE split: PACKETLIST.splits if_splits)

section \<open>Witnesses of the physical layer\<close>

theorem port_sends_one_frame_at_a_time_witness:
  "\<exists>w'. link_run demo_eth [demo_out 0 (Some demo_frame), demo_out 1 (Some demo_frame), demo_out 5.8 None] demo_link_world = Some w'
     \<and> length (frames_on 2 1 (eadded w')) = 2 \<and> spaced 1 (frames_on 2 1 (eadded w'))
     \<and> (\<forall>k \<in> set (frames_on 2 1 (eadded w')). on_time (demo_eth_phy 1 1) k)"
proof -
  obtain w' where run: "link_run demo_eth [demo_out 0 (Some demo_frame), demo_out 1 (Some demo_frame), demo_out 5.8 None] demo_link_world = Some w'"
    and two: "length (frames_on 2 1 (eadded w')) = 2"
    using demo_link_run by blast
  have wires: "\<forall>d' i'. (d', i') \<noteq> (1, 1) \<longrightarrow> (connectedDevice (eth_phy demo_link_world d' i'), connectedInterface (eth_phy demo_link_world d' i'))
      \<noteq> (connectedDevice (eth_phy demo_link_world 1 1), connectedInterface (eth_phy demo_link_world 1 1))"
    by (auto simp: demo_eth_phy_def demo_link_def split: if_splits)
  have "connectedDevice (demo_eth_phy 1 1) = 2" "connectedInterface (demo_eth_phy 1 1) = 1" "IFG (demo_eth_phy 1 1) = 1"
    by (simp_all add: demo_eth_phy_def demo_link_def)
  with port_sends_one_frame_at_a_time [OF run _ wires] run two show ?thesis
    by (auto simp: Let_def)
qed

theorem waiting_frame_has_an_event_witness:
  "\<exists>w P. link_reach demo_eth w P \<and> has_frame (eth_phy w 1 1) \<and> (\<exists>e \<in># P. ee_nDeviceId e = 1 \<and> ee_nInterfaceId e = 1
     \<and> ee_pPacket e = None \<and> ee_dEventTime e = lastPacketEndTime (eth_phy w 1 1))"
proof -
  obtain w1 w2 where w: "at_port demo_eth (demo_out 0 (Some demo_frame)) demo_link_world = Some w1"
    "at_port demo_eth (demo_out 1 (Some demo_frame)) w1 = Some w2" "has_frame (eth_phy w2 1 1)"
    using demo_link_wait by blast
  have out: "ee_nEventType (demo_out t k) = PHYSICAL_OUT_EVENT" "ee_pPacket (demo_out t k) = k" for t k
    by (simp_all add: demo_out_def)
  have "link_reach demo_eth demo_link_world {#}"
    by (rule link_reach.start) (simp add: demo_eth_phy_def)
  from link_reach.frame [OF link_reach.frame [OF this out w(1)] out w(2)]
  have "link_reach demo_eth w2 ({#} + wakes w1 + wakes w2)" .
  with waiting_frame_has_an_event [OF this demo_adds_keep_type w(3)] w(3) show ?thesis
    by blast
qed

section \<open>A switch\<close>

text \<open>Frames at the first switch of this network.\<close>

definition demo_in :: "NETSIM_ID \<Rightarrow> ETH_EVENT" where
  "demo_in i = zero_event\<lparr>ee_dEventTime := 9, ee_nEventType := MAC_IN_EVENT, ee_nDeviceId := 1, ee_nInterfaceId := i,
     ee_pPacket := Some demo_frame\<rparr>"

lemma demo_in_sel [simp]: "ee_dEventTime (demo_in i) = 9" "ee_nEventType (demo_in i) = MAC_IN_EVENT" "ee_nDeviceId (demo_in i) = 1"
  "ee_nInterfaceId (demo_in i) = i" "ee_pPacket (demo_in i) = Some demo_frame" "ee_nSubEventType (demo_in i) = 0"
  by (simp_all add: demo_in_def zero_event_def)

lemma demo_frame_mac [simp]: "eth_szSourceMac demo_frame = \<lparr>nmacaddress = 0, szmacaddress = []\<rparr>"
  "eth_szDestMac demo_frame = \<lparr>nmacaddress = 0, szmacaddress = []\<rparr>" "Packet_MACProtocol demo_frame = None"
  "nControlDataType demo_frame \<noteq> ETH_CONFIGBPDU"
  by (simp_all add: demo_frame_def demo_pkt_def NetSim_PACKET.extend_def ETH_CONFIGBPDU_def)

text \<open>The sender of the frame is known, behind port 1.\<close>

definition demo_learned :: "NETSIM_ID \<Rightarrow> ETH_LAN" where
  "demo_learned d = (demo_lan d)\<lparr>switchTable := [\<lparr>st_mac = \<lparr>nmacaddress = 0, szmacaddress = []\<rparr>, outPort = 1\<rparr>]\<rparr>"

section \<open>Witnesses of the switch\<close>

definition demo_far :: ETH_PKT where
  "demo_far = demo_frame\<lparr>eth_szDestMac := \<lparr>nmacaddress = 7, szmacaddress = []\<rparr>\<rparr>"

lemma demo_far_sel [simp]: "eth_szSourceMac demo_far = \<lparr>nmacaddress = 0, szmacaddress = []\<rparr>"
  "eth_szDestMac demo_far = \<lparr>nmacaddress = 7, szmacaddress = []\<rparr>" "Packet_MACProtocol demo_far = None"
  "nControlDataType demo_far \<noteq> ETH_CONFIGBPDU"
  by (simp_all add: demo_far_def)

abbreviation demo_arrival :: ETH_WORLD where
  "demo_arrival \<equiv> (demo_eth_world demo_lan [])\<lparr>eev := (demo_in 1)\<lparr>ee_pPacket := Some demo_far\<rparr>\<rparr>"

theorem switch_forwards_witness:
  "\<exists>w' q. fn_NetSim_Ethernet_HandleMacIn demo_eth demo_arrival = Some w'
     \<and> eadded w' = [phy_event demo_eth 1 2 q 9]
     \<and> get_lan 1 0 w' = Some (demo_learned 1)"
proof -
  have lan: "lan_of demo_eth 1 1 demo_arrival = Some (0, demo_lan 1)" "eadded demo_arrival = []"
    "eth_var demo_arrival 1 = Some \<lparr>lanVar = [demo_lan 1], isSPT = True, isVLAN = False, trunkPortIds = []\<rparr>"
    by (simp_all add: lan_of_def get_lan_def demo_eth_world_def)
  have new: "SWITCHTABLE_NEW demo_eth \<lparr>nmacaddress = 0, szmacaddress = []\<rparr> 1 (demo_lan 1) = demo_learned 1"
    by (simp add: SWITCHTABLE_NEW_def SWITCHTABLE_FIND_def demo_lan_def demo_learned_def)
  have ports: "forward_ports demo_eth 1 1 (demo_far\<lparr>eth_incoming := Some (1, 1, v)\<rparr>) (demo_learned 1) = [2]" for v
    by (simp add: forward_ports_def flood_ports_def find_forward_interface_def SWITCHTABLE_FIND_def demo_learned_def
        demo_lan_def demo_eth_if_def Let_def)
  have known: "switchingTechnique (demo_lan 1) \<noteq> SWITCHINGTECHNIQUE_NULL"
    by (simp add: demo_lan_def)
  show ?thesis
    using switch_forwards [where E = demo_eth and w = demo_arrival and k = demo_far and n = 0 and lan = "demo_lan 1"] lan known
    by (simp add: new ports isVLANTagPresent_def del: One_nat_def) blast
qed

theorem switch_table_keeps_first_port_witness:
  "\<exists>w' lan'. eth_run demo_eth (\<lambda>d i. Some) [demo_in 2] (demo_eth_world demo_learned []) = Some w'
     \<and> get_lan 1 0 w' = Some lan'
     \<and> SWITCHTABLE_FIND demo_eth lan' (eth_szSourceMac demo_frame) = Some \<lparr>st_mac = \<lparr>nmacaddress = 0, szmacaddress = []\<rparr>, outPort = 1\<rparr>"
proof -
  have run: "\<exists>w'. eth_run demo_eth (\<lambda>d i. Some) [demo_in 2] (demo_eth_world demo_learned []) = Some w'"
    by (simp add: eth_run_def fn_NetSim_Ethernet_Run_def fn_NetSim_Ethernet_HandleMacIn_def ethernet_mac_process_frame_def
        lan_of_def get_lan_def set_lan_def upd_lan_def demo_eth_world_def decide_move_up_def Let_def isVLANTagPresent_def
        demo_learned_def SWITCHTABLE_NEW_def SWITCHTABLE_FIND_def forward_frame_def find_forward_interface_def
        demo_lan_def del: One_nat_def)
  show ?thesis
    using run switch_table_keeps_first_port [where E = demo_eth and es = "[demo_in 2]" and w = "demo_eth_world demo_learned []"
      and up = "\<lambda>d i. Some" and d = 1 and n = 0]
    by (auto simp: SWITCHTABLE_FIND_def demo_learned_def)
qed

end
