(* ===== verification/Ip_Types.thy ===== *)
theory Ip_Types
  imports Eth_Types
begin

text \<open>
  The network layer (\<open>IP/IP.h\<close>, \<open>IP/ICMP.h\<close>, \<open>Firewall/firewall.c\<close>): routing tables, access lists, gateways
  and the state of a call, which extends that of the link layer below.  A packet is the frame of
  theory \<open>Eth_Types\<close>.  Functions of the libraries without sources are fields of \<open>IP_ENV\<close>.
\<close>

section \<open>Numbers of protocols\<close>

definition IPPROTOCOL_NULL :: nat where "IPPROTOCOL_NULL = 0"
definition IPPROTOCOL_ICMP :: nat where "IPPROTOCOL_ICMP = 1"
definition IPPROTOCOL_IGMP :: nat where "IPPROTOCOL_IGMP = 2"
definition IPPROTOCOL_TCP :: nat where "IPPROTOCOL_TCP = 6"
definition IPPROTOCOL_UDP :: nat where "IPPROTOCOL_UDP = 0x11"
definition IPPROTOCOL_DSR :: nat where "IPPROTOCOL_DSR = 0x30"
definition IPPROTOCOL_PIM :: nat where "IPPROTOCOL_PIM = 0x67"

lemmas ip_protocols = IPPROTOCOL_NULL_def IPPROTOCOL_ICMP_def IPPROTOCOL_IGMP_def IPPROTOCOL_TCP_def
  IPPROTOCOL_UDP_def IPPROTOCOL_DSR_def IPPROTOCOL_PIM_def

definition IP_PROTOCOL_V4 :: nat where "IP_PROTOCOL_V4 = 301"

definition IPV4_HEADER_SIZE :: real where "IPV4_HEADER_SIZE = 20"
definition PROTOCOL_VPN :: nat where "PROTOCOL_VPN = 1"
definition PACKET_VPN :: nat where "PACKET_VPN = IP_PROTOCOL_V4 * 100 + 20"

definition DEFAULT_METRIC :: u32 where "DEFAULT_METRIC = 999"
definition ONLINK_METRIC :: u32 where "ONLINK_METRIC = 300"
definition MULTICAST_METRIC :: u32 where "MULTICAST_METRIC = 306"

section \<open>Routing tables\<close>

datatype ROUTING_TYPE = RoutingType_string | RoutingType_DEFAULT | RoutingType_STATIC

text \<open>
  The arrays \<open>Interface\<close> and \<open>nInterfaceId\<close> have the same length and are one list of pairs.
\<close>

record IP_ROUTINGTABLE =
  networkDestination :: NETSIM_IPAddress
  netMask :: "NETSIM_IPAddress option"
  ir_gateway :: "NETSIM_IPAddress option"
  ir_interfaces :: "(NETSIM_IPAddress \<times> NETSIM_ID) list"
  ir_prefix_len :: u32
  Metric :: u32
  ir_type :: ROUTING_TYPE
  nGatewayId :: NETSIM_ID

text \<open>What a caller of \<open>iptable_add\<close> gives.\<close>

record NEW_ROUTE =
  nr_dest :: NETSIM_IPAddress
  nr_mask :: "NETSIM_IPAddress option"
  nr_prefix :: u32
  nr_gateway :: "NETSIM_IPAddress option"
  nr_interfaces :: "(NETSIM_IPAddress \<times> NETSIM_ID) list"
  nr_metric :: u32
  nr_szType :: string

text \<open>A match points to an entry of the table: its position.\<close>

record MATCH =
  match_table :: nat
  bitsCount :: u32
  match_metric :: u32

text \<open>The parallel arrays of a route are a list of hops.\<close>

record HOP =
  hop_nextHop :: NETSIM_IPAddress
  hop_gateway :: NETSIM_IPAddress
  hop_interfaceId :: NETSIM_ID
  hop_nextHopId :: NETSIM_ID

section \<open>The variable of a device\<close>

record NETSIM_ACL =
  acl_nInterfaceId :: NETSIM_ID
  acl_type :: ACL_TYPE
  acl_source :: "NETSIM_IPAddress option"
  acl_dest :: "NETSIM_IPAddress option"
  srcSubnet :: "NETSIM_IPAddress option"
  destSubnet :: "NETSIM_IPAddress option"
  srcPort :: u16
  destPort :: u16
  acl_protocol :: nat
  acl_action :: ACL_ACTION
  isMacBlock :: bool

datatype IP_GATEWAYSTATE =
  GATEWAYSTATE_UP | GATEWAYSTATE_DOWN | GATEWAYSTATE_NOTIFICATION_PENDING | GATEWAYSTATE_CLEARANCE_PENDING

datatype VPN_STATE = VPN_DISABLE | VPN_SERVER | VPN_CLIENT

text \<open>The four parallel arrays of gateways are one list.\<close>

record GATEWAY =
  gw_ip :: NETSIM_IPAddress
  gw_id :: NETSIM_ID
  gw_interface :: NETSIM_ID
  gw_state :: IP_GATEWAYSTATE

record IP_DEVVAR =
  ip_ACL :: "NETSIM_ACL list"
  isFirewallConfigured :: bool
  isICMP :: bool
  nRouterAdvertisementFlag :: bool
  nRouterAdverMinInterval :: u32
  nRouterAdverMaxInterval :: u32
  nRouterAdverLifeTime :: u32
  nICMPPollingTime :: u32
  gateways :: "GATEWAY list"
  nVPNStatus :: VPN_STATE

record IP_METRICS =
  nPacketSent :: u32
  nPacketReceived :: u32
  nPacketForwarded :: u32
  nPacketDiscarded :: u32
  nFirewallBlocked :: u32
  nTTLDrop :: u32

datatype IP_PROTOCOL_ACTION = ACTION_DROP | ACTION_MOVEUP | ACTION_REROUTE

text \<open>A ping that waits for its replies.\<close>

record PINGHANDLER =
  ping_src :: NETSIM_ID
  ping_dest :: NETSIM_ID
  srcIP :: NETSIM_IPAddress
  destIP :: NETSIM_IPAddress
  ping_count :: u32
  echoSendTime :: simtime
  currentCount :: u32
  replyRecvCount :: u32
  retryCount :: u32
  ping_seqNumber :: u16

section \<open>The libraries\<close>

text \<open>
  \<open>ip_szAddress d i\<close> is \<open>DEVICE_NWADDRESS(d,i)\<close>, \<open>None\<close> when the interface or its address is null; the
  other fields of an interface follow.  \<open>find_word\<close> returns the next word of a line, if there is one,
  and the rest.  \<open>list_add\<close> inserts an element by a comparison; \<open>iptable_check\<close> gives the position
  of an entry.
\<close>

record IP_ENV =
  ip_eth :: ETH_ENV
  ip_szAddress :: "NETSIM_ID \<Rightarrow> NETSIM_ID \<Rightarrow> NETSIM_IPAddress option"
  ip_szSubnetMask :: "NETSIM_ID \<Rightarrow> NETSIM_ID \<Rightarrow> NETSIM_IPAddress option"
  ip_prefix_len :: "NETSIM_ID \<Rightarrow> NETSIM_ID \<Rightarrow> u32"
  ip_szDefaultGateWay :: "NETSIM_ID \<Rightarrow> NETSIM_ID \<Rightarrow> NETSIM_IPAddress option"
  ip_nProtocolId :: "NETSIM_ID \<Rightarrow> NETSIM_ID \<Rightarrow> nat"
  nLocalNetworkProtocol :: "NETSIM_ID \<Rightarrow> NETSIM_ID \<Rightarrow> nat"
  nInterfaceType :: "NETSIM_ID \<Rightarrow> NETSIM_ID \<Rightarrow> nat"
  nRoutingProtocolId :: "NETSIM_ID \<Rightarrow> nat"
  NETWORK_ADDRESS :: "NETSIM_IPAddress \<Rightarrow> NETSIM_IPAddress option \<Rightarrow> u32 \<Rightarrow> NETSIM_IPAddress"
  IN_SAME_NETWORK :: "NETSIM_IPAddress \<Rightarrow> NETSIM_IPAddress \<Rightarrow> NETSIM_IPAddress option \<Rightarrow> u32 \<Rightarrow> bool"
  ip_isBroadcastIP :: "NETSIM_IPAddress \<Rightarrow> bool"
  ip_isMulticastIP :: "NETSIM_IPAddress \<Rightarrow> bool"
  STR_TO_IP :: "string \<Rightarrow> int \<Rightarrow> NETSIM_IPAddress"
  IP_TO_BINARY :: "NETSIM_IPAddress \<Rightarrow> string"
  bin_ip :: "NETSIM_IPAddress \<Rightarrow> string"
  str_ip :: "NETSIM_IPAddress \<Rightarrow> string"
  binary_to_decimal :: "string \<Rightarrow> nat"
  find_word :: "string \<Rightarrow> string option \<times> string"
  lskip :: "string \<Rightarrow> string"
  GetFirstIPAddressAsId :: "NETSIM_ID \<Rightarrow> nat \<Rightarrow> NETSIM_IPAddress"
  DeviceId_asIP :: "NETSIM_IPAddress \<Rightarrow> NETSIM_ID"
  GetInterfaceIdFromIP :: "NETSIM_ID \<Rightarrow> NETSIM_IPAddress \<Rightarrow> NETSIM_ID"
  GetInterfaceIdByConfigId :: "NETSIM_ID \<Rightarrow> NETSIM_ID \<Rightarrow> NETSIM_ID"
  GetMacAddressFromIP :: "NETSIM_IPAddress \<Rightarrow> NETSIM_MACADDRESS"
  multicastIP_to_Mac :: "NETSIM_IPAddress \<Rightarrow> NETSIM_MACADDRESS"
  BROADCAST_MAC :: NETSIM_MACADDRESS
  GetMacProtocol :: "NETSIM_ID \<Rightarrow> NETSIM_ID \<Rightarrow> nat"
  DEVICE_FIRST_PUBLICIP :: "NETSIM_ID \<Rightarrow> NETSIM_IPAddress option"
  isHost :: "NETSIM_ID \<Rightarrow> bool"
  isRouter :: "NETSIM_ID \<Rightarrow> bool"
  isL3Device :: "NETSIM_ID \<Rightarrow> bool"
  list_add :: "(MATCH \<Rightarrow> MATCH \<Rightarrow> nat) \<Rightarrow> MATCH \<Rightarrow> MATCH list \<Rightarrow> MATCH list"
  iptable_add :: "NEW_ROUTE \<Rightarrow> IP_ROUTINGTABLE list \<Rightarrow> IP_ROUTINGTABLE list"
  iptable_check :: "IP_ROUTINGTABLE list \<Rightarrow> NETSIM_IPAddress \<Rightarrow> NETSIM_IPAddress option \<Rightarrow> nat option"
  iptable_delete :: "NETSIM_IPAddress \<Rightarrow> NETSIM_IPAddress option \<Rightarrow> IP_ROUTINGTABLE list \<Rightarrow> IP_ROUTINGTABLE list"
  blankNwPacket :: ETH_PKT
  ip_GetPacketSize :: "ETH_PKT \<Rightarrow> real"
  isMulticastPacket :: "ETH_PKT \<Rightarrow> bool"
  get_first_dest :: "ETH_PKT \<Rightarrow> NETSIM_ID"
  ip_isDestFound :: "ETH_PKT \<Rightarrow> NETSIM_ID \<Rightarrow> bool"
  ip_random :: "nat \<Rightarrow> real"

section \<open>The state of a call\<close>

record IP_WORLD = ETH_WORLD +
  ip_dev :: "NETSIM_ID \<Rightarrow> IP_DEVVAR option"
  ip_tab :: "NETSIM_ID \<Rightarrow> IP_ROUTINGTABLE list"
  ipMetrics :: "NETSIM_ID \<Rightarrow> IP_METRICS"
  pings :: "nat \<Rightarrow> PINGHANDLER option"
  ping_next :: nat
  echoSeq :: u64
  ip_drawn :: nat

definition add_ip_event :: "ETH_EVENT \<Rightarrow> IP_WORLD \<Rightarrow> IP_WORLD" where
  "add_ip_event e w = w\<lparr>eadded := eadded w @ [e]\<rparr>"

definition ip_error :: "IP_WORLD \<Rightarrow> IP_WORLD" where
  "ip_error w = w\<lparr>eerrors := Suc (eerrors w)\<rparr>"

definition upd_ip_metrics :: "(IP_METRICS \<Rightarrow> IP_METRICS) \<Rightarrow> IP_WORLD \<Rightarrow> IP_WORLD" where
  "upd_ip_metrics f w = w\<lparr>ipMetrics := (ipMetrics w)(ee_nDeviceId (eev w) := f (ipMetrics w (ee_nDeviceId (eev w))))\<rparr>"

definition drop_event_packet :: "IP_WORLD \<Rightarrow> IP_WORLD" where
  "drop_event_packet w = w\<lparr>eev := (eev w)\<lparr>ee_pPacket := None\<rparr>\<rparr>"

definition set_event_packet :: "ETH_PKT \<Rightarrow> IP_WORLD \<Rightarrow> IP_WORLD" where
  "set_event_packet k w = w\<lparr>eev := (eev w)\<lparr>ee_pPacket := Some k\<rparr>\<rparr>"

definition ip_now :: "IP_WORLD \<Rightarrow> simtime" where
  "ip_now w = ee_dEventTime (eev w)"

abbreviation "ip_device w \<equiv> ee_nDeviceId (eev w)"
abbreviation "ip_interface w \<equiv> ee_nInterfaceId (eev w)"

end
