(* ===== verification/Ip_Firewall.thy ===== *)
theory Ip_Firewall
  imports Ip_Types
begin

text \<open>
  Access lists (\<open>Firewall/firewall.c\<close>): a line of the configuration, the list of a device, its verdict
  on a packet.  The lines of a configuration file are an argument.
\<close>

section \<open>Numbers in text\<close>

definition is_c_space :: "char \<Rightarrow> bool" where
  "is_c_space c \<longleftrightarrow> (of_char c :: nat) = 32 \<or> 9 \<le> (of_char c :: nat) \<and> (of_char c :: nat) \<le> 13"

definition is_c_digit :: "char \<Rightarrow> bool" where
  "is_c_digit c \<longleftrightarrow> 48 \<le> (of_char c :: nat) \<and> (of_char c :: nat) \<le> 57"

definition c_digits :: "string \<Rightarrow> int" where
  "c_digits s = foldl (\<lambda>n c. 10 * n + (int (of_char c) - 48)) 0 (takeWhile is_c_digit s)"

text \<open>\<open>atoi\<close> of the C library: white space, a sign, digits; a value out of range is undefined.\<close>

definition atoi :: "string \<Rightarrow> int option" where
  "atoi s = (case dropWhile is_c_space s of
       [] \<Rightarrow> Some 0
     | c # r \<Rightarrow> (if c = CHR ''-'' then c_int (- c_digits r)
                else if c = CHR ''+'' then c_int (c_digits r)
                else c_int (c_digits (c # r))))"

section \<open>A line of the list\<close>

definition action_from_str :: "string \<Rightarrow> IP_WORLD \<Rightarrow> ACL_ACTION \<times> IP_WORLD" where
  "action_from_str s w =
     (if stricmp s ''permit'' = 0 then (ACLACTION_PERMIT, w)
      else if stricmp s ''deny'' = 0 then (ACLACTION_DENY, w)
      else (ACLACTION_PERMIT, ip_error w))"

text \<open>The loop over the octets: \<open>k\<close> of them are left after this one.\<close>

fun subnet_loop :: "IP_ENV \<Rightarrow> nat \<Rightarrow> int \<Rightarrow> string \<Rightarrow> string" where
  "subnet_loop E 0 num strip = strip"
| "subnet_loop E (Suc k) num strip =
     (if num > 8 then subnet_loop E k (num - 8) (strip @ ''255'' @ (if k \<noteq> 0 then ''.'' else ''''))
      else let bin = replicate (nat num) (CHR ''1'') @ replicate (8 - nat num) (CHR ''0'')
           in strip @ dec_nat (binary_to_decimal E bin) @ concat (replicate k ''.0''))"

definition num_to_subnet :: "IP_ENV \<Rightarrow> int \<Rightarrow> NETSIM_IPAddress" where
  "num_to_subnet E num = STR_TO_IP E (subnet_loop E 4 num []) 4"

definition perfix_from_mask :: "IP_ENV \<Rightarrow> NETSIM_IPAddress \<Rightarrow> nat" where
  "perfix_from_mask E m = length (takeWhile (\<lambda>c. c = CHR ''1'') (bin_ip E m))"

text \<open>Without a slash the text of the prefix is a null pointer.\<close>

definition ip_from_str :: "IP_ENV \<Rightarrow> string \<Rightarrow> (NETSIM_IPAddress option \<times> NETSIM_IPAddress option) option" where
  "ip_from_str E s =
     (if stricmp s ''any'' = 0 then Some (None, None)
      else case dropWhile (\<lambda>c. c \<noteq> CHR ''/'') s of
             [] \<Rightarrow> None
           | c # ssub \<Rightarrow> do {
               n \<leftarrow> atoi ssub;
               Some (Some (STR_TO_IP E (takeWhile (\<lambda>c. c \<noteq> CHR ''/'') s) 4), Some (num_to_subnet E n)) })"

definition ipprotocol_from_str :: "string \<Rightarrow> IP_WORLD \<Rightarrow> nat \<times> IP_WORLD" where
  "ipprotocol_from_str pro w =
     (if stricmp pro ''any'' = 0 then (IPPROTOCOL_NULL, w)
      else if stricmp pro ''TCP'' = 0 then (IPPROTOCOL_TCP, w)
      else if stricmp pro ''UDP'' = 0 then (IPPROTOCOL_UDP, w)
      else if stricmp pro ''IGMP'' = 0 then (IPPROTOCOL_IGMP, w)
      else if stricmp pro ''ICMP'' = 0 then (IPPROTOCOL_ICMP, w)
      else (IPPROTOCOL_NULL, ip_error w))"

definition str_from_proto :: "nat \<Rightarrow> string" where
  "str_from_proto num = (if num = IPPROTOCOL_TCP then ''TCP'' else if num = IPPROTOCOL_UDP then ''UDP'' else ''ANY'')"

definition type_from_str :: "string \<Rightarrow> ACL_TYPE" where
  "type_from_str s =
     (if stricmp s ''INBOUND'' = 0 then ACLTYPE_INBOUND
      else if stricmp s ''OUTBOUND'' = 0 then ACLTYPE_OUTBOUND
      else ACLTYPE_BOTH)"

fun mac_block_loop :: "IP_ENV \<Rightarrow> NETSIM_ID \<Rightarrow> NETSIM_ID \<Rightarrow> NETSIM_ID list \<Rightarrow> bool option" where
  "mac_block_loop E d port [] = Some False"
| "mac_block_loop E d port (i # is) =
     (if i = port then mac_block_loop E d port is
      else do {
        a \<leftarrow> ip_szAddress E d i;
        b \<leftarrow> ip_szAddress E d port;
        if IP_COMPARE a b = 0 then Some True else mac_block_loop E d port is })"

definition check_mac_block :: "IP_ENV \<Rightarrow> NETSIM_ID \<Rightarrow> NETSIM_ID \<Rightarrow> bool option" where
  "check_mac_block E d port = mac_block_loop E d port [1..<Suc (eth_nNumOfInterface (ip_eth E) d)]"

definition port_from_str :: "string option \<Rightarrow> u16 option" where
  "port_from_str s = (case s of None \<Rightarrow> Some 0 | Some x \<Rightarrow> map_option word_of_int (atoi x))"

definition upd_ip_dev :: "NETSIM_ID \<Rightarrow> (IP_DEVVAR \<Rightarrow> IP_DEVVAR) \<Rightarrow> IP_WORLD \<Rightarrow> IP_WORLD option" where
  "upd_ip_dev d f w = do { v \<leftarrow> ip_dev w d; Some (w\<lparr>ip_dev := (ip_dev w)(d \<mapsto> f v)\<rparr>) }"

lemma upd_ip_dev_SomeE:
  assumes "upd_ip_dev d f w = Some w'"
  obtains v where "ip_dev w d = Some v" "w' = w\<lparr>ip_dev := (ip_dev w)(d \<mapsto> f v)\<rparr>"
  using assms by (auto simp: upd_ip_dev_def elim!: bind_SomeE)

text \<open>The rule that the words of a line make.\<close>

definition acl_rule ::
  "IP_ENV \<Rightarrow> NETSIM_ID \<Rightarrow> ACL_ACTION \<Rightarrow> nat \<Rightarrow> string option \<Rightarrow> string option \<Rightarrow> string option \<Rightarrow> string option
     \<Rightarrow> string option \<Rightarrow> string option \<Rightarrow> NETSIM_ACL option" where
  "acl_rule E d action proto ty src dest sport dport i = do {
     ty \<leftarrow> ty;
     src \<leftarrow> src;
     (source, ssub) \<leftarrow> ip_from_str E src;
     dest \<leftarrow> dest;
     (target, dsub) \<leftarrow> ip_from_str E dest;
     sp \<leftarrow> port_from_str sport;
     dp \<leftarrow> port_from_str dport;
     (port, block) \<leftarrow> (case i of
          None \<Rightarrow> Some (0, False)
        | Some x \<Rightarrow> do {
            n \<leftarrow> atoi x;
            let n = unat (word_of_int n :: u32);
            b \<leftarrow> (if n \<noteq> 0 then check_mac_block E d n else Some False);
            Some (n, b) });
     Some \<lparr>acl_nInterfaceId = port, acl_type = type_from_str ty, acl_source = source, acl_dest = target, srcSubnet = ssub,
       destSubnet = dsub, srcPort = sp, destPort = dp, acl_protocol = proto, acl_action = action, isMacBlock = block\<rparr> }"

definition acl_add_new_line :: "IP_ENV \<Rightarrow> NETSIM_ID \<Rightarrow> string \<Rightarrow> IP_WORLD \<Rightarrow> IP_WORLD option" where
  "acl_add_new_line E d s w = do {
     let (act, s) = find_word E s;
     let (ty, s) = find_word E s;
     let (pro, s) = find_word E s;
     let (src, s) = find_word E s;
     let (dest, s) = find_word E s;
     let (sport, s) = find_word E s;
     let (dport, s) = find_word E s;
     let (i, s) = find_word E s;
     act \<leftarrow> act;
     let (action, w) = action_from_str act w;
     let (proto, w) = (case pro of None \<Rightarrow> (0, w) | Some p \<Rightarrow> ipprotocol_from_str p w);
     a \<leftarrow> acl_rule E d action proto ty src dest sport dport i;
     upd_ip_dev d (ip_ACL_update (\<lambda>l. l @ [a])) w }"

text \<open>Comments and empty lines are skipped; the return values are the code's.\<close>

fun config_lines :: "IP_ENV \<Rightarrow> NETSIM_ID \<Rightarrow> string list \<Rightarrow> IP_WORLD \<Rightarrow> IP_WORLD option" where
  "config_lines E d [] w = Some w"
| "config_lines E d (l # ls) w = (let s = lskip E l in
     if s = [] \<or> hd s = CHR ''#'' \<or> hd s = CHR 0x0A then config_lines E d ls w
     else do { w \<leftarrow> acl_add_new_line E d s w; config_lines E d ls w })"

definition fn_NetSim_FirewallConfig :: "IP_ENV \<Rightarrow> NETSIM_ID \<Rightarrow> string list option \<Rightarrow> IP_WORLD \<Rightarrow> (int \<times> IP_WORLD) option" where
  "fn_NetSim_FirewallConfig E d file w = do {
     v \<leftarrow> ip_dev w d;
     if \<not> isFirewallConfigured v then Some (-1, w)
     else case file of
            None \<Rightarrow> Some (-2, w)
          | Some ls \<Rightarrow> do { w \<leftarrow> config_lines E d ls w; Some (0, w) } }"

section \<open>The verdict\<close>

definition get_dest_ip :: "IP_ENV \<Rightarrow> ETH_PKT \<Rightarrow> NETSIM_IPAddress option" where
  "get_dest_ip E k =
     (if ip_isMulticastIP E (szDestIP k) \<or> ip_isBroadcastIP E (szDestIP k) then Some (szDestIP k)
      else case get_dests (ip_eth E) (destInfo k) of
             [] \<Rightarrow> None
           | [d] \<Rightarrow> Some (GetFirstIPAddressAsId E d 0)
           | _ \<Rightarrow> Some (szDestIP k))"

text \<open>The tests of an entry in the order of the code.\<close>

definition acl_hit ::
  "IP_ENV \<Rightarrow> NETSIM_IPAddress \<Rightarrow> NETSIM_IPAddress \<Rightarrow> u16 \<Rightarrow> u16 \<Rightarrow> nat \<Rightarrow> NETSIM_ACL \<Rightarrow> bool" where
  "acl_hit E src dest sport dport pro a =
     (let m = True;
          m = (case acl_source a of
                 Some s \<Rightarrow> (if IP_COMPARE s (NETWORK_ADDRESS E src (srcSubnet a) 0) \<noteq> 0 then False else m) | None \<Rightarrow> m);
          m = (case acl_dest a of
                 Some s \<Rightarrow> (if m \<and> IP_COMPARE s (NETWORK_ADDRESS E dest (destSubnet a) 0) \<noteq> 0 then False else m) | None \<Rightarrow> m);
          m = (if m \<and> destPort a \<noteq> 0 \<and> destPort a \<noteq> dport then False else m);
          m = (if m \<and> srcPort a \<noteq> 0 \<and> srcPort a \<noteq> sport then False else m)
      in (if m \<and> acl_protocol a \<noteq> 0 \<and> acl_protocol a \<noteq> pro then False else m))"

fun acl_walk ::
  "IP_ENV \<Rightarrow> NETSIM_ID \<Rightarrow> ACL_TYPE \<Rightarrow> bool \<Rightarrow> NETSIM_IPAddress \<Rightarrow> NETSIM_IPAddress \<Rightarrow> u16 \<Rightarrow> u16 \<Rightarrow> nat
     \<Rightarrow> NETSIM_ACL list \<Rightarrow> ACL_ACTION" where
  "acl_walk E i ty mac src dest sport dport pro [] = ACLACTION_PERMIT"
| "acl_walk E i ty mac src dest sport dport pro (a # as) =
     (if isMacBlock a \<and> \<not> mac then acl_walk E i ty mac src dest sport dport pro as
      else if acl_nInterfaceId a \<noteq> 0 \<and> acl_nInterfaceId a \<noteq> i \<or> acl_type a \<noteq> ACLTYPE_BOTH \<and> acl_type a \<noteq> ty
      then acl_walk E i ty mac src dest sport dport pro as
      else if acl_hit E src dest sport dport pro a then acl_action a
      else acl_walk E i ty mac src dest sport dport pro as)"

definition fn_NetSim_Firewall ::
  "IP_ENV \<Rightarrow> NETSIM_ID \<Rightarrow> NETSIM_ID \<Rightarrow> ETH_PKT \<Rightarrow> ACL_TYPE \<Rightarrow> bool \<Rightarrow> IP_WORLD \<Rightarrow> ACL_ACTION option" where
  "fn_NetSim_Firewall E d i k ty mac w = (case ip_dev w d of
       None \<Rightarrow> Some ACLACTION_PERMIT
     | Some v \<Rightarrow> (if \<not> isFirewallConfigured v then Some ACLACTION_PERMIT
         else do {
           dest \<leftarrow> get_dest_ip E k;
           let sport = (case pstruTransportData k of Some t \<Rightarrow> nSourcePort t | None \<Rightarrow> 0);
           let dport = (case pstruTransportData k of Some t \<Rightarrow> nDestinationPort t | None \<Rightarrow> 0);
           Some (acl_walk E i ty mac (szSourceIP k) dest sport dport (IPProtocol k) (ip_ACL v)) }))"

definition MAC_Firewall :: "IP_ENV \<Rightarrow> NETSIM_ID \<Rightarrow> NETSIM_ID \<Rightarrow> ETH_PKT \<Rightarrow> ACL_TYPE \<Rightarrow> IP_WORLD \<Rightarrow> ACL_ACTION option" where
  "MAC_Firewall E d i k ty w = fn_NetSim_Firewall E d i k ty True w"

definition NETWORK_Firewall :: "IP_ENV \<Rightarrow> NETSIM_ID \<Rightarrow> NETSIM_ID \<Rightarrow> ETH_PKT \<Rightarrow> ACL_TYPE \<Rightarrow> IP_WORLD \<Rightarrow> ACL_ACTION option" where
  "NETWORK_Firewall E d i k ty w = fn_NetSim_Firewall E d i k ty False w"

definition fn_NetSim_Firewall_Free :: "NETSIM_ID \<Rightarrow> IP_WORLD \<Rightarrow> IP_WORLD option" where
  "fn_NetSim_Firewall_Free d w = upd_ip_dev d (ip_ACL_update (\<lambda>_. [])) w"

section \<open>The list as text\<close>

definition acl_line :: "IP_ENV \<Rightarrow> NETSIM_ACL \<Rightarrow> string" where
  "acl_line E a =
     (if acl_action a = ACLACTION_PERMIT then ''PERMIT'' else ''DENY'') @ '' '' @
     (if acl_type a = ACLTYPE_BOTH then ''BOTH'' else if acl_type a = ACLTYPE_INBOUND then ''INBOUND'' else ''OUTBOUND'') @ '' '' @
     str_from_proto (acl_protocol a) @ '' '' @
     (case acl_source a of Some s \<Rightarrow> str_ip E s | None \<Rightarrow> ''ANY'') @ ''/'' @
     dec_nat (case srcSubnet a of Some m \<Rightarrow> perfix_from_mask E m | None \<Rightarrow> 0) @ '' '' @
     (case acl_dest a of Some s \<Rightarrow> str_ip E s | None \<Rightarrow> ''ANY'') @ ''/'' @
     dec_nat (case destSubnet a of Some m \<Rightarrow> perfix_from_mask E m | None \<Rightarrow> 0) @ '' '' @
     dec_nat (unat (srcPort a)) @ '' '' @ dec_nat (unat (destPort a)) @ '' '' @ dec_nat (acl_nInterfaceId a) @ [CHR 0x0A]"

text \<open>An empty list gives a null pointer.\<close>

definition acl_print :: "IP_ENV \<Rightarrow> NETSIM_ID \<Rightarrow> IP_WORLD \<Rightarrow> (string option) option" where
  "acl_print E d w = do {
     v \<leftarrow> ip_dev w d;
     Some (if ip_ACL v = [] then None else Some (concat (map (acl_line E) (ip_ACL v)))) }"

end
