(* ===== verification/Ip_Access.thy ===== *)
theory Ip_Access
  imports Ip_Firewall
begin

text \<open>
  What an access list promises: the first line of the file that applies to a packet decides, the text of a
  mask is read back as its length.
\<close>

section \<open>The first rule decides\<close>

text \<open>When a rule applies to a packet, without the order of the tests.\<close>

definition rule_applies ::
  "IP_ENV \<Rightarrow> NETSIM_ID \<Rightarrow> ACL_TYPE \<Rightarrow> bool \<Rightarrow> ETH_PKT \<Rightarrow> NETSIM_IPAddress \<Rightarrow> NETSIM_ACL \<Rightarrow> bool" where
  "rule_applies E i ty mac k dest a \<longleftrightarrow>
     (isMacBlock a \<longrightarrow> mac) \<and> acl_nInterfaceId a \<in> {0, i} \<and> acl_type a \<in> {ACLTYPE_BOTH, ty}
     \<and> (\<forall>s. acl_source a = Some s \<longrightarrow> same_ip s (NETWORK_ADDRESS E (szSourceIP k) (srcSubnet a) 0))
     \<and> (\<forall>s. acl_dest a = Some s \<longrightarrow> same_ip s (NETWORK_ADDRESS E dest (destSubnet a) 0))
     \<and> srcPort a \<in> {0, case pstruTransportData k of Some t \<Rightarrow> nSourcePort t | None \<Rightarrow> 0}
     \<and> destPort a \<in> {0, case pstruTransportData k of Some t \<Rightarrow> nDestinationPort t | None \<Rightarrow> 0}
     \<and> acl_protocol a \<in> {0, IPProtocol k}"

definition first_verdict ::
  "IP_ENV \<Rightarrow> NETSIM_ID \<Rightarrow> ACL_TYPE \<Rightarrow> bool \<Rightarrow> ETH_PKT \<Rightarrow> NETSIM_IPAddress \<Rightarrow> NETSIM_ACL list \<Rightarrow> ACL_ACTION" where
  "first_verdict E i ty mac k dest as = (case find (rule_applies E i ty mac k dest) as of
       Some a \<Rightarrow> acl_action a
     | None \<Rightarrow> ACLACTION_PERMIT)"

lemma acl_walk_first:
  "acl_walk E i ty mac (szSourceIP k) dest (case pstruTransportData k of Some t \<Rightarrow> nSourcePort t | None \<Rightarrow> 0)
     (case pstruTransportData k of Some t \<Rightarrow> nDestinationPort t | None \<Rightarrow> 0) (IPProtocol k) as = first_verdict E i ty mac k dest as"
proof (induction as)
  case (Cons a as)
  have "rule_applies E i ty mac k dest a \<longleftrightarrow> (isMacBlock a \<longrightarrow> mac) \<and> (acl_nInterfaceId a = 0 \<or> acl_nInterfaceId a = i)
    \<and> (acl_type a = ACLTYPE_BOTH \<or> acl_type a = ty) \<and> acl_hit E (szSourceIP k) dest
       (case pstruTransportData k of Some t \<Rightarrow> nSourcePort t | None \<Rightarrow> 0)
       (case pstruTransportData k of Some t \<Rightarrow> nDestinationPort t | None \<Rightarrow> 0) (IPProtocol k) a"
    by (auto simp: rule_applies_def acl_hit_def Let_def split: option.split)
  with Cons.IH show ?case
    by (auto simp: first_verdict_def)
qed (simp add: first_verdict_def)

lemma firewall_verdict:
  "ip_dev w d = Some v \<Longrightarrow> isFirewallConfigured v \<Longrightarrow> get_dest_ip E k = Some dest
     \<Longrightarrow> fn_NetSim_Firewall E d i k ty mac w = Some (first_verdict E i ty mac k dest (ip_ACL v))"
  by (simp add: fn_NetSim_Firewall_def acl_walk_first Let_def)

lemma firewall_open: "ip_dev w d = None \<or> (\<exists>v. ip_dev w d = Some v \<and> \<not> isFirewallConfigured v)
    \<Longrightarrow> fn_NetSim_Firewall E d i k ty mac w = Some ACLACTION_PERMIT"
  by (auto simp: fn_NetSim_Firewall_def)

section \<open>From the file to the list\<close>

text \<open>Reading the line adds the rule at the end of the list, whatever the state.\<close>

definition adds_rule :: "IP_ENV \<Rightarrow> NETSIM_ID \<Rightarrow> string \<Rightarrow> NETSIM_ACL \<Rightarrow> bool" where
  "adds_rule E d s a \<longleftrightarrow> (\<forall>w w'. acl_add_new_line E d s w = Some w' \<longrightarrow>
     (\<exists>v. ip_dev w d = Some v \<and> ip_dev w' = (ip_dev w)(d \<mapsto> v\<lparr>ip_ACL := ip_ACL v @ [a]\<rparr>)))"

definition effective_lines :: "IP_ENV \<Rightarrow> string list \<Rightarrow> string list" where
  "effective_lines E ls = filter (\<lambda>s. \<not> (s = [] \<or> hd s = CHR ''#'' \<or> hd s = CHR 0x0A)) (map (lskip E) ls)"

lemma action_from_str_dev: "ip_dev (snd (action_from_str s w)) = ip_dev w"
  by (simp add: action_from_str_def ip_error_def)

lemma action_from_str_fst: "fst (action_from_str s w) = fst (action_from_str s w0)"
  by (simp add: action_from_str_def)

lemma ipprotocol_from_str_dev: "ip_dev (snd (ipprotocol_from_str s w)) = ip_dev w"
  by (simp add: ipprotocol_from_str_def ip_error_def)

lemma ipprotocol_from_str_fst: "fst (ipprotocol_from_str s w) = fst (ipprotocol_from_str s w0)"
  by (simp add: ipprotocol_from_str_def)

lemma acl_append: "ip_ACL_update (\<lambda>l. l @ [a]) v = v\<lparr>ip_ACL := ip_ACL v @ [a]\<rparr>"
  by simp

lemma line_rule:
  assumes "acl_add_new_line E d s w0 = Some w0'"
  shows "\<exists>a. adds_rule E d s a"
proof -
  obtain act s1 where 1: "find_word E s = (act, s1)" by fastforce
  obtain ty s2 where 2: "find_word E s1 = (ty, s2)" by fastforce
  obtain pro s3 where 3: "find_word E s2 = (pro, s3)" by fastforce
  obtain src s4 where 4: "find_word E s3 = (src, s4)" by fastforce
  obtain dest s5 where 5: "find_word E s4 = (dest, s5)" by fastforce
  obtain sport s6 where 6: "find_word E s5 = (sport, s6)" by fastforce
  obtain dport s7 where 7: "find_word E s6 = (dport, s7)" by fastforce
  obtain i s8 where 8: "find_word E s7 = (i, s8)" by fastforce
  note words = 1 2 3 4 5 6 7 8
  define p where "p w = (case pro of None \<Rightarrow> (0, w) | Some x \<Rightarrow> ipprotocol_from_str x w)" for w :: IP_WORLD
  define p0 where "p0 = fst (p w0)"
  have p: "fst (p w) = p0" "ip_dev (snd (p w)) = ip_dev w" for w
    using ipprotocol_from_str_fst ipprotocol_from_str_dev by (auto simp: p_def p0_def split: option.split)
  define act_of where "act_of x = fst (action_from_str x w0)" for x
  have act: "fst (action_from_str x w) = act_of x" for x w
    using action_from_str_fst by (simp add: act_of_def)
  have run: "acl_add_new_line E d s w = do { x \<leftarrow> act; a \<leftarrow> acl_rule E d (act_of x) p0 ty src dest sport dport i;
      upd_ip_dev d (ip_ACL_update (\<lambda>l. l @ [a])) (snd (p (snd (action_from_str x w)))) }" for w
    using p(1) by (cases act) (simp_all add: acl_add_new_line_def words Let_def p_def [symmetric] act split_beta)
  from assms obtain x a where xa: "act = Some x" "acl_rule E d (act_of x) p0 ty src dest sport dport i = Some a"
    unfolding run by (auto elim!: bind_SomeE)
  have "adds_rule E d s a"
    unfolding adds_rule_def run using xa p(2) action_from_str_dev by (auto simp: acl_append elim!: upd_ip_dev_SomeE)
  then show ?thesis ..
qed

lemma config_rules:
  assumes "config_lines E d ls w = Some w'" "ip_dev w d = Some v"
  shows "\<exists>as. list_all2 (adds_rule E d) (effective_lines E ls) as \<and> ip_dev w' d = Some (v\<lparr>ip_ACL := ip_ACL v @ as\<rparr>)"
  using assms
proof (induction ls arbitrary: w v)
  case (Cons l ls)
  show ?case
  proof (cases "lskip E l = [] \<or> hd (lskip E l) = CHR ''#'' \<or> hd (lskip E l) = CHR 0x0A")
    case True
    with Cons show ?thesis by (auto simp: effective_lines_def Let_def)
  next
    case False
    with Cons.prems obtain u where u: "acl_add_new_line E d (lskip E l) w = Some u" "config_lines E d ls u = Some w'"
      by (auto simp: Let_def elim!: bind_SomeE)
    obtain a where a: "adds_rule E d (lskip E l) a"
      using line_rule [OF u(1)] by blast
    then have "ip_dev u d = Some (v\<lparr>ip_ACL := ip_ACL v @ [a]\<rparr>)"
      using u(1) Cons.prems(2) by (fastforce simp: adds_rule_def)
    from Cons.IH [OF u(2) this] obtain as where
      "list_all2 (adds_rule E d) (effective_lines E ls) as" "ip_dev w' d = Some (v\<lparr>ip_ACL := ip_ACL v @ a # as\<rparr>)"
      by auto
    with False a show ?thesis
      by (intro exI [of _ "a # as"]) (auto simp: effective_lines_def)
  qed
qed (simp add: effective_lines_def)

text \<open>
  C14: A packet filter is configured by a file.  Every line that is neither empty nor a comment gives one
  rule, the rules stand in the order of the lines, and the verdict on a packet, at any interface and in
  either direction, is the action of the first rule that applies to it; if none applies it is let through.
\<close>

theorem firewall_first_line_decides:
  assumes "fn_NetSim_FirewallConfig E d (Some ls) w = Some (0, w')" "ip_dev w d = Some v" "ip_ACL v = []"
  shows "\<exists>as. list_all2 (adds_rule E d) (effective_lines E ls) as \<and>
    (\<forall>i k ty mac dest. get_dest_ip E k = Some dest \<longrightarrow>
       fn_NetSim_Firewall E d i k ty mac w' = Some (first_verdict E i ty mac k dest as))"
proof -
  have v: "isFirewallConfigured v" "config_lines E d ls w = Some w'"
    using assms(1,2) by (auto simp: fn_NetSim_FirewallConfig_def elim!: bind_SomeE split: if_splits)
  with config_rules [OF v(2) assms(2)] assms(3) show ?thesis
    by (force simp: firewall_verdict)
qed

section \<open>The text of a mask\<close>

definition octet_bits :: "nat \<Rightarrow> string" where
  "octet_bits n = map (\<lambda>j. if bit n j then CHR ''1'' else CHR ''0'') (rev [0..<8])"

definition dotted :: "nat \<Rightarrow> nat \<Rightarrow> nat \<Rightarrow> nat \<Rightarrow> string" where
  "dotted a b c e = dec_nat a @ ''.'' @ dec_nat b @ ''.'' @ dec_nat c @ ''.'' @ dec_nat e"

text \<open>The library reads the four numbers of an address and writes their bits.\<close>

definition reads_dotted :: "IP_ENV \<Rightarrow> bool" where
  "reads_dotted E \<longleftrightarrow> (\<forall>n < 256. binary_to_decimal E (octet_bits n) = n)
     \<and> (\<forall>a < 256. \<forall>b < 256. \<forall>c < 256. \<forall>e < 256.
          bin_ip E (STR_TO_IP E (dotted a b c e) 4) = octet_bits a @ octet_bits b @ octet_bits c @ octet_bits e)"

lemma ones_octet: "m \<le> 8 \<Longrightarrow> replicate m (CHR ''1'') @ replicate (8 - m) (CHR ''0'') = octet_bits (256 - 2 ^ (8 - m))"
proof -
  have "\<forall>m \<in> set [0..<9]. replicate m (CHR ''1'') @ replicate (8 - m) (CHR ''0'') = octet_bits (256 - 2 ^ (8 - m))"
    by code_simp
  then show "m \<le> 8 \<Longrightarrow> ?thesis" by auto
qed

text \<open>A prefix of at most eight ones in the octet that is followed by \<open>k\<close> others.\<close>

lemma mask_text:
  assumes "reads_dotted E" "m \<le> 8"
  shows "subnet_loop E (Suc k) (int m) s = s @ dec_nat (256 - 2 ^ (8 - m)) @ concat (replicate k ''.0'')"
proof -
  have "256 - 2 ^ (8 - m) < (256 :: nat)" by simp
  with assms show ?thesis
    by (simp add: ones_octet reads_dotted_def Let_def)
qed

lemma mask_text_full:
  "0 < m \<Longrightarrow> subnet_loop E (Suc k) (8 + int m) s = subnet_loop E k (int m) (s @ dec_nat 255 @ (if k \<noteq> 0 then ''.'' else ''''))"
proof -
  have "dec_nat 255 = ''255''" by code_simp
  then show "0 < m \<Longrightarrow> ?thesis" by simp
qed

definition ones :: "nat \<Rightarrow> nat" where
  "ones m = 256 - 2 ^ (8 - m)"

lemma ones_ends [simp]: "octet_bits 255 = replicate 8 (CHR ''1'')" "octet_bits 0 = replicate 8 (CHR ''0'')"
  using ones_octet [of 8] ones_octet [of 0] by simp_all

lemma ones_bits: "m \<le> 8 \<Longrightarrow> octet_bits (ones m) = replicate m (CHR ''1'') @ replicate (8 - m) (CHR ''0'')"
  by (simp add: ones_octet ones_def)

lemma ones_less [simp]: "ones m < 256"
  by (simp add: ones_def)

lemma dec_nat_zero: "dec_nat 0 = ''0''"
  by code_simp

lemma num_to_subnet_text:
  assumes "reads_dotted E"
  shows "m \<le> 8 \<Longrightarrow> num_to_subnet E (int m) = STR_TO_IP E (dotted (ones m) 0 0 0) 4"
    and "0 < m \<Longrightarrow> m \<le> 8 \<Longrightarrow> num_to_subnet E (8 + int m) = STR_TO_IP E (dotted 255 (ones m) 0 0) 4"
    and "0 < m \<Longrightarrow> m \<le> 8 \<Longrightarrow> num_to_subnet E (8 + (8 + int m)) = STR_TO_IP E (dotted 255 255 (ones m) 0) 4"
    and "0 < m \<Longrightarrow> m \<le> 8 \<Longrightarrow> num_to_subnet E (8 + (8 + (8 + int m))) = STR_TO_IP E (dotted 255 255 255 (ones m)) 4"
proof -
  note octet_text = mask_text [OF assms, unfolded ones_def [symmetric]]
  have full: "0 < m \<Longrightarrow> subnet_loop E (Suc k) (8 + (8 + int m)) s = subnet_loop E k (8 + int m) (s @ dec_nat 255 @ (if k \<noteq> 0 then ''.'' else ''''))"
    "0 < m \<Longrightarrow> subnet_loop E (Suc k) (8 + (8 + (8 + int m))) s = subnet_loop E k (8 + (8 + int m)) (s @ dec_nat 255 @ (if k \<noteq> 0 then ''.'' else ''''))"
    for k s m
    using mask_text_full [of "8 + m" E k s] mask_text_full [of "16 + m" E k s] by simp_all
  have four: "4 = Suc (Suc (Suc (Suc 0)))" by simp
  show "m \<le> 8 \<Longrightarrow> num_to_subnet E (int m) = STR_TO_IP E (dotted (ones m) 0 0 0) 4"
    by (simp only: num_to_subnet_def four octet_text) (simp add: dotted_def dec_nat_zero)
  show "0 < m \<Longrightarrow> m \<le> 8 \<Longrightarrow> num_to_subnet E (8 + int m) = STR_TO_IP E (dotted 255 (ones m) 0 0) 4"
    by (simp only: num_to_subnet_def four octet_text mask_text_full) (simp add: dotted_def dec_nat_zero)
  show "0 < m \<Longrightarrow> m \<le> 8 \<Longrightarrow> num_to_subnet E (8 + (8 + int m)) = STR_TO_IP E (dotted 255 255 (ones m) 0) 4"
    by (simp only: num_to_subnet_def four octet_text mask_text_full full) (simp add: dotted_def dec_nat_zero)
  show "0 < m \<Longrightarrow> m \<le> 8 \<Longrightarrow> num_to_subnet E (8 + (8 + (8 + int m))) = STR_TO_IP E (dotted 255 255 255 (ones m)) 4"
    by (simp only: num_to_subnet_def four octet_text mask_text_full full) (simp add: dotted_def dec_nat_zero)
qed

lemma bin_dotted:
  "reads_dotted E \<Longrightarrow> a < 256 \<Longrightarrow> b < 256 \<Longrightarrow> c < 256 \<Longrightarrow> e < 256 \<Longrightarrow>
     bin_ip E (STR_TO_IP E (dotted a b c e) 4) = octet_bits a @ octet_bits b @ octet_bits c @ octet_bits e"
  by (simp add: reads_dotted_def)

lemma zeros_add: "(xs @ replicate b y) @ replicate c y = xs @ replicate (b + c) y"
  by (simp add: replicate_add)

lemma mask_bits:
  assumes "reads_dotted E" "n \<le> 32"
  shows "bin_ip E (num_to_subnet E (int n)) = replicate n (CHR ''1'') @ replicate (32 - n) (CHR ''0'')"
proof -
  consider "n \<le> 8" | m where "n = 8 + m" "0 < m" "m \<le> 8" | m where "n = 16 + m" "0 < m" "m \<le> 8"
    | m where "n = 24 + m" "0 < m" "m \<le> 8"
    using assms(2) that(1) that(2) [of "n - 8"] that(3) [of "n - 16"] that(4) [of "n - 24"] by fastforce
  then show ?thesis
  proof cases
    case 1
    then show ?thesis
      by (simp add: num_to_subnet_text(1) [OF assms(1)] bin_dotted [OF assms(1)] ones_bits replicate_add [symmetric])
  next
    case 2
    then show ?thesis
      using num_to_subnet_text(2) [OF assms(1) 2(2,3)]
      by (simp add: bin_dotted [OF assms(1)] ones_bits replicate_add [symmetric] zeros_add flip: append_assoc)
  next
    case 3
    then show ?thesis
      using num_to_subnet_text(3) [OF assms(1) 3(2,3)]
      by (simp add: bin_dotted [OF assms(1)] ones_bits replicate_add [symmetric] zeros_add flip: append_assoc)
  next
    case 4
    then show ?thesis
      using num_to_subnet_text(4) [OF assms(1) 4(2,3)]
      by (simp add: bin_dotted [OF assms(1)] ones_bits replicate_add [symmetric] zeros_add flip: append_assoc)
  qed
qed

text \<open>
  C37: Prefix lengths.  The mask that the filter computes for the length \<open>n\<close> of a prefix has, for every
  \<open>n\<close> up to 32, \<open>n\<close> ones followed by zeros, and the length printed for this mask is \<open>n\<close> again.
\<close>

theorem prefix_mask_roundtrip:
  assumes "reads_dotted E" "n \<le> 32"
  shows "bin_ip E (num_to_subnet E (int n)) = replicate n (CHR ''1'') @ replicate (32 - n) (CHR ''0'')
    \<and> perfix_from_mask E (num_to_subnet E (int n)) = n"
  using assms by (simp add: mask_bits perfix_from_mask_def takeWhile_append takeWhile_replicate)

end
