(* ===== verification/Ip_Port.thy ===== *)
theory Ip_Port
  imports Ip_Access Eth_Switch
begin

text \<open>
  The packet filter and the switch together: a port whose access list denies all that leaves is closed for
  every frame but the messages of the spanning tree.
\<close>

section \<open>Closed ports\<close>

definition closed_port :: "ETH_ENV \<Rightarrow> NETSIM_ID \<Rightarrow> NETSIM_ID \<Rightarrow> bool" where
  "closed_port E d p \<longleftrightarrow> (\<forall>k. fn_NetSim_MAC_Firewall E d p k ACLTYPE_OUTBOUND = ACLACTION_DENY)"

text \<open>The frames that the link layer has given to a port.\<close>

definition port_frames :: "NETSIM_ID \<Rightarrow> NETSIM_ID \<Rightarrow> ETH_WORLD \<Rightarrow> ETH_PKT list" where
  "port_frames d p w = List.map_filter (\<lambda>e. if ee_nEventType e = PHYSICAL_OUT_EVENT \<and> ee_nDeviceId e = d
     \<and> ee_nInterfaceId e = p then ee_pPacket e else None) (eadded w)"

definition closed_frames :: "ETH_ENV \<Rightarrow> ETH_WORLD \<Rightarrow> NETSIM_ID \<Rightarrow> NETSIM_ID \<Rightarrow> ETH_PKT list" where
  "closed_frames E w = (\<lambda>d p. if closed_port E d p then port_frames d p w else [])"

lemma closed_frames_same: "eadded w' = eadded w \<Longrightarrow> closed_frames E w' = closed_frames E w"
  unfolding closed_frames_def port_frames_def by (simp cong: if_cong)

lemma closed_frames_simps [simp]:
  "closed_frames E (w\<lparr>eev := e\<rparr>) = closed_frames E w" "closed_frames E (eth_error w) = closed_frames E w"
  "closed_frames E (w\<lparr>eth_access := x\<rparr>) = closed_frames E w" "closed_frames E (w\<lparr>waiting := y\<rparr>) = closed_frames E w"
  "closed_frames E (w\<lparr>eth_access := x, waiting := y\<rparr>) = closed_frames E w"
  "closed_frames E (w\<lparr>eth_access := x, waiting := y, wnext := z\<rparr>) = closed_frames E w"
  by (rule closed_frames_same, simp add: eth_error_def)+

lemma closed_frames_add: "ee_nEventType e \<noteq> PHYSICAL_OUT_EVENT \<Longrightarrow> closed_frames E (add_eth_event e w) = closed_frames E w"
  by (auto simp: closed_frames_def port_frames_def add_eth_event_def map_filter_def fun_eq_iff)

lemma closed_not_sent:
  "fn_NetSim_MAC_Firewall E d i k ACLTYPE_OUTBOUND = ACLACTION_PERMIT
     \<Longrightarrow> closed_frames E (send_to_phy E d i k' t w) = closed_frames E w"
  by (auto simp: closed_frames_def closed_port_def port_frames_def send_to_phy_def add_eth_event_def map_filter_def
      phy_event_def fun_eq_iff intro!: exI [of _ k])

lemma closed_frames_loop:
  "for_each f xs w = Some w' \<Longrightarrow> (\<And>x a b. f x a = Some b \<Longrightarrow> closed_frames E b = closed_frames E a)
     \<Longrightarrow> closed_frames E w' = closed_frames E w"
  using for_each_keeps [where P = "\<lambda>s. closed_frames E s = closed_frames E w" and f = f] by metis

section \<open>No handler sends by a closed port\<close>

lemma port_flood:
  "flood E d incoming fk k t lan w = Some w' \<Longrightarrow> closed_frames E w' = closed_frames E w"
  unfolding flood_def
  by (erule closed_frames_loop) (auto simp: flood_port_def Let_def closed_not_sent elim!: bind_SomeE split: if_splits)

lemma port_trunks:
  "for_each (trunk_port E d v k t) xs w = Some w' \<Longrightarrow> closed_frames E w' = closed_frames E w"
  by (erule closed_frames_loop) (auto simp: trunk_port_def closed_not_sent elim!: bind_SomeE split: if_splits)

lemma port_vlan:
  "vlan_forward_to_all_trunk E d k lan t w = Some w' \<Longrightarrow> closed_frames E w' = closed_frames E w"
  "vlan_forward_to_trunk E d i v k t w = Some w' \<Longrightarrow> closed_frames E w' = closed_frames E w"
  by (auto simp: vlan_forward_to_all_trunk_def vlan_forward_to_trunk_def dest: port_trunks elim!: bind_SomeE split: if_splits)

lemma port_macout:
  "vlan_macout_forward_packet E d i v incoming k t w = Some w' \<Longrightarrow> closed_frames E w' = closed_frames E w"
  by (auto simp: vlan_macout_forward_packet_def Let_def closed_not_sent dest!: port_flood port_vlan
      elim!: bind_SomeE split: if_splits)

lemma port_out_frame:
  "out_frame E d i t k w = Some w' \<Longrightarrow> closed_frames E w' = closed_frames E w"
  by (auto simp: out_frame_def Let_def closed_not_sent dest!: port_flood port_vlan port_macout
      elim!: bind_SomeE split: if_splits)

lemma port_take: "take_frame E d i w = Some (r, w') \<Longrightarrow> closed_frames E w' = closed_frames E w"
  by (auto simp: take_frame_def Let_def elim!: bind_SomeE split: option.splits)

lemma port_out_loop:
  assumes "out_loop E d i t w = Some w'"
  shows "closed_frames E w' = closed_frames E w"
proof (rule out_loop.raw_induct [where P = "\<lambda>E d i t w w'. closed_frames E w' = closed_frames E w", OF _ assms], goal_cases)
  case (1 f E d i t w w')
  from 1(2) show ?case
    by (auto dest!: 1(1) port_take port_out_frame elim!: bind_SomeE split: option.splits)
qed

lemma port_others:
  "for_each (forward_packet_to_other_protocol E d k t) xs w = Some w' \<Longrightarrow> closed_frames E w' = closed_frames E w"
  by (erule closed_frames_loop) (auto simp: forward_packet_to_other_protocol_def Let_def closed_frames_add
      elim!: bind_SomeE split: if_splits)

lemma port_up [simp]: "closed_frames E (check_move_frame_up E d i lan k t w) = closed_frames E w"
  by (simp add: check_move_frame_up_def closed_frames_add)

lemma port_forward:
  "forward_frame E d i lan k t w = Some w' \<Longrightarrow> closed_frames E w' = closed_frames E w"
  by (auto simp: forward_frame_def Let_def closed_not_sent dest!: port_flood port_vlan port_others
      elim!: bind_SomeE split: if_splits)

lemma port_macin:
  "vlan_macin_forward_packet E k w = Some w' \<Longrightarrow> closed_frames E w' = closed_frames E w"
  by (auto simp: vlan_macin_forward_packet_def Let_def closed_not_sent dest!: port_flood port_vlan
      elim!: bind_SomeE split: if_splits option.splits)

lemma port_set_lan: "set_lan d' n lan w = Some w' \<Longrightarrow> closed_frames E w' = closed_frames E w"
  by (auto simp: set_lan_def upd_lan_def intro!: closed_frames_same split: option.splits if_splits)

lemma port_process:
  "ethernet_mac_process_frame E w = Some w' \<Longrightarrow> closed_frames E w' = closed_frames E w"
  by (auto simp: ethernet_mac_process_frame_def Let_def dest!: port_set_lan port_macin port_forward
      elim!: bind_SomeE split: if_splits)

section \<open>The filter as the firewall of the switch\<close>

text \<open>The link layer asks the filter; without a verdict nothing passes.\<close>

definition filtered :: "IP_ENV \<Rightarrow> IP_WORLD \<Rightarrow> ETH_ENV \<Rightarrow> bool" where
  "filtered I u E \<longleftrightarrow> (\<forall>d i k t. fn_NetSim_MAC_Firewall E d i k t =
     (case MAC_Firewall I d i k t u of Some a \<Rightarrow> a | None \<Rightarrow> ACLACTION_DENY))"

definition denies_all :: "NETSIM_ID \<Rightarrow> NETSIM_ACL \<Rightarrow> bool" where
  "denies_all p a \<longleftrightarrow> acl_nInterfaceId a \<in> {0, p} \<and> acl_type a \<in> {ACLTYPE_BOTH, ACLTYPE_OUTBOUND}
     \<and> acl_source a = None \<and> acl_dest a = None \<and> srcPort a = 0 \<and> destPort a = 0 \<and> acl_protocol a = 0 \<and> acl_action a = ACLACTION_DENY"

lemma denies_all_applies: "denies_all p a \<Longrightarrow> rule_applies E p ACLTYPE_OUTBOUND True k dest a"
  by (auto simp: denies_all_def rule_applies_def)

lemma denied_list:
  assumes "denies_all p a" "\<forall>b \<in> set as. acl_action b = ACLACTION_DENY"
  shows "first_verdict E p ACLTYPE_OUTBOUND True k dest (as @ a # bs) = ACLACTION_DENY"
  using assms(2) by (induction as) (auto simp: first_verdict_def denies_all_applies [OF assms(1)] assms(1) [unfolded denies_all_def])

text \<open>
  C16: A port that is closed by its access list.  The list of the device has a rule that denies whatever
  leaves by the port, and no rule before it permits anything.  Then the switch gives the port no frame:
  neither a frame it forwards, floods or sends on as a trunk, with or without virtual LANs, nor one from its
  own network layer.  (Messages of the spanning tree pass: their sender does not ask the filter.)
\<close>

theorem closed_port_sends_nothing:
  assumes "filtered I u E" "ip_dev u d = Some v" "isFirewallConfigured v" "ip_ACL v = as @ a # bs"
    and "denies_all p a" "\<forall>b \<in> set as. acl_action b = ACLACTION_DENY"
    and "fn_NetSim_Ethernet_Run E up w = Some w'"
    and "ee_nEventType (eev w) = MAC_OUT_EVENT \<and> ee_nSubEventType (eev w) = 0
       \<or> ee_nEventType (eev w) = MAC_IN_EVENT \<and> ee_pPacket (eev w) = Some k \<and> nControlDataType k \<noteq> ETH_CONFIGBPDU"
  shows "port_frames d p w' = port_frames d p w"
proof -
  have "fn_NetSim_MAC_Firewall E d p q ACLTYPE_OUTBOUND = ACLACTION_DENY" for q
    using assms(1-3) denied_list [OF assms(5,6)] assms(4) firewall_verdict [of u d v I q]
    by (cases "get_dest_ip I q") (auto simp: filtered_def MAC_Firewall_def fn_NetSim_Firewall_def split: option.split)
  then have closed: "closed_port E d p"
    by (simp add: closed_port_def)
  from assms(8) have "closed_frames E w' = closed_frames E w"
    using assms(7) by (auto simp: fn_NetSim_Ethernet_Run_def fn_NetSim_Ethernet_HandleMacOut_def fn_NetSim_Ethernet_HandleMacIn_def
        eth_packet_arrive_from_network_layer_def intro: port_out_loop port_process)
  with closed show ?thesis
    unfolding closed_frames_def by meson
qed

end
