(* ===== verification/Ip_Routing.thy ===== *)
theory Ip_Routing
  imports Ip_Firewall
begin

text \<open>
  Routing by the table (\<open>IP/IP_Routing.c\<close>, with the multicast groups of \<open>IP/Multicast.c\<close> and the test of a
  gateway of \<open>IP/ICMP.c\<close>) and the hand-over to the link layer.

  The entries of a table are reached by pointers: a match holds the position of its entry, and what
  the code writes to an entry is written to the table.
\<close>

section \<open>The state of a gateway\<close>

definition ICMP_CHECKSTATE :: "NETSIM_IPAddress option \<Rightarrow> IP_WORLD \<Rightarrow> bool option" where
  "ICMP_CHECKSTATE ip w = do {
     v \<leftarrow> ip_dev w (ip_device w);
     Some (case ip of
         None \<Rightarrow> True
       | Some a \<Rightarrow> (case find (\<lambda>g. IP_COMPARE (gw_ip g) a = 0) (gateways v) of
           Some g \<Rightarrow> gw_state g \<noteq> GATEWAYSTATE_DOWN
         | None \<Rightarrow> True)) }"

section \<open>Entries that match\<close>

definition match_check :: "MATCH \<Rightarrow> MATCH \<Rightarrow> nat" where
  "match_check m1 m2 =
     (if bitsCount m2 > bitsCount m1 then 2
      else if bitsCount m2 = bitsCount m1 \<and> match_metric m2 < match_metric m1 then 2
      else 0)"

definition add_to_match_list :: "IP_ENV \<Rightarrow> MATCH \<Rightarrow> MATCH list \<Rightarrow> MATCH list" where
  "add_to_match_list E c l = list_add E match_check c l"

text \<open>The binary form is written to a buffer of 40 characters.\<close>

definition get_bit_match_count :: "IP_ENV \<Rightarrow> NETSIM_IPAddress \<Rightarrow> u32 option" where
  "get_bit_match_count E ip1 = (let b1 = IP_TO_BINARY E ip1 in do {
     _ \<leftarrow> assert_c (length b1 < 40);
     Some (word_of_nat (length (takeWhile (\<lambda>c. c \<noteq> CHR ''0'') b1))) })"

text \<open>\<open>Some None\<close>: the entry does not match.\<close>

definition match_entry ::
  "IP_ENV \<Rightarrow> NETSIM_IPAddress \<Rightarrow> bool \<Rightarrow> IP_WORLD \<Rightarrow> nat \<Rightarrow> IP_ROUTINGTABLE \<Rightarrow> (MATCH option) option" where
  "match_entry E dest isStatic w n t =
     (if isStatic \<and> ir_type t \<noteq> RoutingType_STATIC then Some None
      else do {
        host \<leftarrow> (if IP_COMPARE dest (networkDestination t) = 0 then ICMP_CHECKSTATE (Some dest) w else Some False);
        if host
        then Some (Some \<lparr>match_table = n, bitsCount = (if ip_type dest = 4 then 32 else 128), match_metric = 999\<rparr>)
        else if ip_type dest = ip_type (networkDestination t)
          \<and> IP_COMPARE (NETWORK_ADDRESS E dest (netMask t) (ir_prefix_len t))
              (NETWORK_ADDRESS E (networkDestination t) (netMask t) (ir_prefix_len t)) = 0
        then do {
          up \<leftarrow> ICMP_CHECKSTATE (ir_gateway t) w;
          if up
          then do {
            bits \<leftarrow> (if ip_type dest = 4 then do { m \<leftarrow> netMask t; get_bit_match_count E m } else Some (ir_prefix_len t));
            Some (Some \<lparr>match_table = n, bitsCount = bits, match_metric = Metric t\<rparr>) }
          else Some None }
        else Some None })"

fun match_loop ::
  "IP_ENV \<Rightarrow> NETSIM_IPAddress \<Rightarrow> bool \<Rightarrow> IP_WORLD \<Rightarrow> nat \<Rightarrow> IP_ROUTINGTABLE list \<Rightarrow> MATCH list \<Rightarrow> (MATCH list) option" where
  "match_loop E dest isStatic w n [] l = Some l"
| "match_loop E dest isStatic w n (t # ts) l = do {
     c \<leftarrow> match_entry E dest isStatic w n t;
     match_loop E dest isStatic w (Suc n) ts (case c of None \<Rightarrow> l | Some c \<Rightarrow> add_to_match_list E c l) }"

definition get_match_table ::
  "IP_ENV \<Rightarrow> IP_ROUTINGTABLE list \<Rightarrow> NETSIM_IPAddress \<Rightarrow> bool \<Rightarrow> IP_WORLD \<Rightarrow> (MATCH list) option" where
  "get_match_table E table dest isStatic w = match_loop E dest isStatic w 0 table []"

section \<open>The route of a packet\<close>

text \<open>The device of a gateway is looked up when the first hop needs it, and kept in the entry.\<close>

definition cache_gateway :: "IP_ENV \<Rightarrow> IP_ROUTINGTABLE \<Rightarrow> IP_ROUTINGTABLE" where
  "cache_gateway E t = (case ir_gateway t of
       Some g \<Rightarrow> (if nGatewayId t = 0 then t\<lparr>nGatewayId := DeviceId_asIP E g\<rparr> else t)
     | None \<Rightarrow> t)"

definition hop_by :: "IP_ROUTINGTABLE \<Rightarrow> NETSIM_IPAddress \<Rightarrow> NETSIM_IPAddress \<times> NETSIM_ID \<Rightarrow> HOP" where
  "hop_by t dest p = \<lparr>hop_nextHop = (case ir_gateway t of Some g \<Rightarrow> g | None \<Rightarrow> dest), hop_gateway = fst p,
     hop_interfaceId = snd p, hop_nextHopId = nGatewayId t\<rparr>"

definition set_entry :: "NETSIM_ID \<Rightarrow> nat \<Rightarrow> IP_ROUTINGTABLE \<Rightarrow> IP_WORLD \<Rightarrow> IP_WORLD" where
  "set_entry d n t w = w\<lparr>ip_tab := (ip_tab w)(d := (ip_tab w d)[n := t])\<rparr>"

definition get_entry :: "NETSIM_ID \<Rightarrow> nat \<Rightarrow> IP_WORLD \<Rightarrow> IP_ROUTINGTABLE option" where
  "get_entry d n w = (if n < length (ip_tab w d) then Some (ip_tab w d ! n) else None)"

definition update_route_entry ::
  "IP_ENV \<Rightarrow> NETSIM_ID \<Rightarrow> MATCH list \<Rightarrow> NETSIM_IPAddress \<Rightarrow> IP_WORLD \<Rightarrow> (HOP list \<times> IP_WORLD) option" where
  "update_route_entry E d l dest w = (case l of
       [] \<Rightarrow> Some ([], w)
     | m # _ \<Rightarrow> do {
         t \<leftarrow> get_entry d (match_table m) w;
         let t = (if ir_interfaces t = [] then t else cache_gateway E t);
         Some (map (hop_by t dest) (ir_interfaces t), set_entry d (match_table m) t w) })"

section \<open>Multicast\<close>

definition is_reserved_multicast_address :: "IP_ENV \<Rightarrow> NETSIM_IPAddress \<Rightarrow> bool" where
  "is_reserved_multicast_address E ip \<longleftrightarrow>
     IP_COMPARE ip (STR_TO_IP E ''224.0.0.1'' 4) = 0
     \<or> IP_COMPARE ip (STR_TO_IP E ''224.0.0.13'' 4) = 0
     \<or> IP_COMPARE ip (STR_TO_IP E ''224.0.0.2'' 4) = 0
     \<or> IP_COMPARE ip (STR_TO_IP E ''224.0.0.5'' 4) = 0
     \<or> IP_COMPARE ip (STR_TO_IP E ''224.0.0.6'' 4) = 0"

text \<open>
  The entry a match ends up with: one of the table, or the static copy \<open>tab\<close>.  The copy shares the
  arrays of the entry: the interfaces that are kept overwrite the first ones of the entry, whose count
  stays.
\<close>

datatype CHOSEN = InTable nat | InTab IP_ROUTINGTABLE

definition isCorrectRouteForSubnet ::
  "IP_ENV \<Rightarrow> NETSIM_ID \<Rightarrow> nat \<Rightarrow> NETSIM_IPAddress \<Rightarrow> NETSIM_IPAddress \<Rightarrow> IP_WORLD \<Rightarrow> (CHOSEN option \<times> IP_WORLD) option" where
  "isCorrectRouteForSubnet E d n dest src w = do {
     t \<leftarrow> get_entry d n w;
     if IP_COMPARE (networkDestination t) dest \<noteq> 0 then Some (None, w)
     else do {
       let kept = filter (\<lambda>p. IN_SAME_NETWORK E src (fst p) (netMask t) 0) (ir_interfaces t);
       if kept = [] then Some (None, w)
       else Some (Some (InTab (t\<lparr>ir_interfaces := kept\<rparr>)),
         set_entry d n (t\<lparr>ir_interfaces := kept @ drop (length kept) (ir_interfaces t)\<rparr>) w) } }"

definition isCorrectRoute ::
  "IP_ENV \<Rightarrow> NETSIM_ID \<Rightarrow> nat \<Rightarrow> NETSIM_IPAddress \<Rightarrow> NETSIM_IPAddress \<Rightarrow> IP_WORLD \<Rightarrow> (CHOSEN option \<times> IP_WORLD) option" where
  "isCorrectRoute E d n dest src w =
     (if IP_COMPARE dest (STR_TO_IP E ''224.0.0.1'' 4) = 0 then isCorrectRouteForSubnet E d n dest src w
      else Some (Some (InTable n), w))"

fun choose_loop ::
  "IP_ENV \<Rightarrow> NETSIM_ID \<Rightarrow> NETSIM_IPAddress \<Rightarrow> NETSIM_IPAddress \<Rightarrow> MATCH list \<Rightarrow> IP_WORLD \<Rightarrow> (CHOSEN option \<times> IP_WORLD) option" where
  "choose_loop E d dest src [] w = Some (None, w)"
| "choose_loop E d dest src (m # ms) w = do {
     (c, w) \<leftarrow> isCorrectRoute E d (match_table m) dest src w;
     (case c of None \<Rightarrow> choose_loop E d dest src ms w | Some t \<Rightarrow> Some (Some t, w)) }"

definition choose_match_for_reserved_address ::
  "IP_ENV \<Rightarrow> NETSIM_ID \<Rightarrow> MATCH list \<Rightarrow> NETSIM_IPAddress \<Rightarrow> NETSIM_IPAddress \<Rightarrow> IP_WORLD \<Rightarrow> (CHOSEN option \<times> IP_WORLD) option" where
  "choose_match_for_reserved_address E d l dest src w =
     (if \<not> is_reserved_multicast_address E dest
      then Some (case l of [] \<Rightarrow> None | m # _ \<Rightarrow> Some (InTable (match_table m)), w)
      else choose_loop E d dest src l w)"

text \<open>No copy goes back out of the interface of the event.\<close>

definition multicast_hops :: "IP_ENV \<Rightarrow> NETSIM_ID \<Rightarrow> NETSIM_IPAddress \<Rightarrow> IP_ROUTINGTABLE \<Rightarrow> IP_ROUTINGTABLE \<times> HOP list" where
  "multicast_hops E in1 dest t =
     (let ps = filter (\<lambda>p. snd p \<noteq> in1) (ir_interfaces t);
          t = (if ps = [] then t else cache_gateway E t)
      in (t, map (hop_by t dest) ps))"

definition multicast_update_route_entry ::
  "IP_ENV \<Rightarrow> NETSIM_ID \<Rightarrow> MATCH list \<Rightarrow> NETSIM_IPAddress \<Rightarrow> NETSIM_IPAddress \<Rightarrow> IP_WORLD \<Rightarrow> (HOP list \<times> IP_WORLD) option" where
  "multicast_update_route_entry E d l dest src w = do {
     (c, w) \<leftarrow> choose_match_for_reserved_address E d l dest src w;
     (case c of
        None \<Rightarrow> Some ([], w)
      | Some (InTab t) \<Rightarrow> Some (snd (multicast_hops E (ip_interface w) dest t), w)
      | Some (InTable n) \<Rightarrow> do {
          t \<leftarrow> get_entry d n w;
          let (t, hops) = multicast_hops E (ip_interface w) dest t;
          Some (hops, set_entry d n t w) }) }"

section \<open>Routing a packet\<close>

text \<open>No hop stands for the null route.\<close>

definition lookup_unicast :: "IP_ENV \<Rightarrow> bool \<Rightarrow> ETH_PKT \<Rightarrow> NETSIM_ID \<Rightarrow> IP_WORLD \<Rightarrow> (HOP list \<times> IP_WORLD) option" where
  "lookup_unicast E isStatic k d w = do {
     l \<leftarrow> get_match_table E (ip_tab w d) (szDestIP k) isStatic w;
     update_route_entry E d l (szDestIP k) w }"

definition lookup_multicast :: "IP_ENV \<Rightarrow> bool \<Rightarrow> ETH_PKT \<Rightarrow> NETSIM_ID \<Rightarrow> IP_WORLD \<Rightarrow> (HOP list \<times> IP_WORLD) option" where
  "lookup_multicast E isStatic k d w = do {
     l \<leftarrow> get_match_table E (ip_tab w d) (szDestIP k) isStatic w;
     multicast_update_route_entry E d l (szDestIP k) (szSourceIP k) w }"

definition fn_NetSim_IP_RoutePacket :: "IP_ENV \<Rightarrow> ETH_PKT \<Rightarrow> NETSIM_ID \<Rightarrow> IP_WORLD \<Rightarrow> (HOP list \<times> IP_WORLD) option" where
  "fn_NetSim_IP_RoutePacket E k d w =
     (if ip_isMulticastIP E (szDestIP k) then lookup_multicast E False k d w else lookup_unicast E False k d w)"

definition fn_NetSim_IP_RoutePacketViaStaticEntry :: "IP_ENV \<Rightarrow> ETH_PKT \<Rightarrow> NETSIM_ID \<Rightarrow> IP_WORLD \<Rightarrow> (HOP list \<times> IP_WORLD) option" where
  "fn_NetSim_IP_RoutePacketViaStaticEntry E k d w =
     (if ip_isMulticastIP E (szDestIP k) then lookup_multicast E True k d w else lookup_unicast E True k d w)"

section \<open>The static routes of a file\<close>

definition change_table ::
  "IP_ENV \<Rightarrow> NETSIM_ID \<Rightarrow> NETSIM_IPAddress \<Rightarrow> NETSIM_ID \<Rightarrow> u32 \<Rightarrow> IP_ROUTINGTABLE \<Rightarrow> IP_ROUTINGTABLE option" where
  "change_table E d gateway i metric t =
     (if i \<in> snd ` set (ir_interfaces t) then Some (t\<lparr>ir_gateway := Some gateway, Metric := metric\<rparr>)
      else do {
        a \<leftarrow> ip_szAddress E d i;
        Some (t\<lparr>ir_interfaces := ir_interfaces t @ [(a, i)], ir_gateway := Some gateway, Metric := metric\<rparr>) })"

definition add_table ::
  "IP_ENV \<Rightarrow> NETSIM_ID \<Rightarrow> NETSIM_IPAddress \<Rightarrow> NETSIM_IPAddress \<Rightarrow> NETSIM_IPAddress \<Rightarrow> NETSIM_ID \<Rightarrow> u32 \<Rightarrow> IP_WORLD \<Rightarrow> IP_WORLD option" where
  "add_table E d dest m gateway i metric w = do {
     a \<leftarrow> ip_szAddress E d i;
     Some (w\<lparr>ip_tab := (ip_tab w)(d := iptable_add E \<lparr>nr_dest = dest, nr_mask = Some m, nr_prefix = 0, nr_gateway = Some gateway,
       nr_interfaces = [(a, i)], nr_metric = metric, nr_szType = ''STATIC''\<rparr> (ip_tab w d))\<rparr>) }"

text \<open>The words of a line; \<open>None\<close> inside is a line with an error, which is skipped.\<close>

definition keyword :: "IP_ENV \<Rightarrow> string \<Rightarrow> string \<Rightarrow> (string option) option" where
  "keyword E word temp = (case find_word E temp of
       (None, _) \<Rightarrow> None
     | (Some f, temp) \<Rightarrow> Some (if stricmp f word = 0 then Some temp else None))"

definition address_word :: "IP_ENV \<Rightarrow> string \<Rightarrow> (NETSIM_IPAddress \<times> string) option" where
  "address_word E temp = (case find_word E temp of (f, temp) \<Rightarrow> do { f \<leftarrow> f; Some (STR_TO_IP E f 4, temp) })"

definition number_word :: "IP_ENV \<Rightarrow> string \<Rightarrow> (u32 \<times> string) option" where
  "number_word E temp = (case find_word E temp of (f, temp) \<Rightarrow> do { f \<leftarrow> f; n \<leftarrow> atoi f; Some (word_of_int n, temp) })"

definition route_line ::
  "IP_ENV \<Rightarrow> string \<Rightarrow> ((NETSIM_IPAddress \<times> NETSIM_IPAddress \<times> NETSIM_IPAddress \<times> u32 \<times> u32) option) option" where
  "route_line E temp = do {
     r \<leftarrow> keyword E ''route'' temp;
     (case r of None \<Rightarrow> Some None | Some temp \<Rightarrow> do {
       r \<leftarrow> keyword E ''add'' temp;
       (case r of None \<Rightarrow> Some None | Some temp \<Rightarrow> do {
         (dest, temp) \<leftarrow> address_word E temp;
         r \<leftarrow> keyword E ''mask'' temp;
         (case r of None \<Rightarrow> Some None | Some temp \<Rightarrow> do {
           (m, temp) \<leftarrow> address_word E temp;
           (gateway, temp) \<leftarrow> address_word E temp;
           r \<leftarrow> keyword E ''metric'' temp;
           (case r of None \<Rightarrow> Some None | Some temp \<Rightarrow> do {
             (metric, temp) \<leftarrow> number_word E temp;
             r \<leftarrow> keyword E ''IF'' temp;
             (case r of None \<Rightarrow> Some None | Some temp \<Rightarrow> do {
               (i, temp) \<leftarrow> number_word E temp;
               Some (Some (dest, m, gateway, metric, i)) }) }) }) }) }) }"

fun configure_static_ip_route :: "IP_ENV \<Rightarrow> NETSIM_ID \<Rightarrow> string list \<Rightarrow> IP_WORLD \<Rightarrow> IP_WORLD option" where
  "configure_static_ip_route E d [] w = Some w"
| "configure_static_ip_route E d (input # ls) w = (let temp = lskip E input in
     if temp = [] \<or> hd temp = CHR ''#'' then configure_static_ip_route E d ls w
     else do {
       r \<leftarrow> route_line E temp;
       w \<leftarrow> (case r of
          None \<Rightarrow> Some (ip_error w)
        | Some (dest, m, gateway, metric, i) \<Rightarrow> (let i = GetInterfaceIdByConfigId E d (unat i) in
            case iptable_check E (ip_tab w d) dest (Some m) of
              Some n \<Rightarrow> do {
                t \<leftarrow> get_entry d n w;
                t \<leftarrow> change_table E d gateway i metric t;
                Some (set_entry d n t w) }
            | None \<Rightarrow> add_table E d dest m gateway i metric w));
       configure_static_ip_route E d ls w })"

end
