(* ===== verification/Ip_Match.thy ===== *)
theory Ip_Match
  imports Ip_Routing
begin

text \<open>
  The choice of a route: the longest prefix and among equal ones the smallest metric; and what a lookup for
  all hosts does to the table.
\<close>

section \<open>The order of matches\<close>

text \<open>No match that follows is better.\<close>

definition best_first :: "MATCH list \<Rightarrow> bool" where
  "best_first = sorted_wrt (\<lambda>a b. match_check a b = 0)"

text \<open>The list functions keep a list in the order of the comparison they are given.\<close>

definition adds_in_order :: "IP_ENV \<Rightarrow> bool" where
  "adds_in_order E \<longleftrightarrow> (\<forall>c l. set (list_add E match_check c l) = insert c (set l)
     \<and> (best_first l \<longrightarrow> best_first (list_add E match_check c l)))"

lemma match_check_zero:
  "match_check a b = 0 \<longleftrightarrow> bitsCount b < bitsCount a \<or> bitsCount b = bitsCount a \<and> match_metric a \<le> match_metric b"
  by (auto simp: match_check_def)

section \<open>The entries that can be used\<close>

definition gateway_up :: "IP_DEVVAR \<Rightarrow> NETSIM_IPAddress option \<Rightarrow> bool" where
  "gateway_up v ip = (case ip of
       None \<Rightarrow> True
     | Some a \<Rightarrow> (case find (\<lambda>g. same_ip (gw_ip g) a) (gateways v) of
           Some g \<Rightarrow> gw_state g \<noteq> GATEWAYSTATE_DOWN
         | None \<Rightarrow> True))"

definition prefix_bits :: "IP_ENV \<Rightarrow> NETSIM_IPAddress \<Rightarrow> nat" where
  "prefix_bits E m = length (takeWhile (\<lambda>c. c \<noteq> CHR ''0'') (IP_TO_BINARY E m))"

text \<open>The length of the prefix and the metric by which an entry matches a destination, if it does.\<close>

definition route_key :: "IP_ENV \<Rightarrow> IP_DEVVAR \<Rightarrow> NETSIM_IPAddress \<Rightarrow> IP_ROUTINGTABLE \<Rightarrow> (u32 \<times> u32) option" where
  "route_key E v dest t =
     (if same_ip dest (networkDestination t) \<and> gateway_up v (Some dest)
      then Some (if ip_type dest = 4 then 32 else 128, 999)
      else if ip_type dest = ip_type (networkDestination t)
        \<and> same_ip (NETWORK_ADDRESS E dest (netMask t) (ir_prefix_len t))
            (NETWORK_ADDRESS E (networkDestination t) (netMask t) (ir_prefix_len t))
        \<and> gateway_up v (ir_gateway t)
      then Some (if ip_type dest = 4 then of_nat (prefix_bits E (the (netMask t))) else ir_prefix_len t, Metric t)
      else None)"

lemma checkstate: "ip_dev w (ip_device w) = Some v \<Longrightarrow> ICMP_CHECKSTATE ip w = Some (gateway_up v ip)"
  by (simp add: ICMP_CHECKSTATE_def gateway_up_def)

definition as_match :: "nat \<Rightarrow> u32 \<times> u32 \<Rightarrow> MATCH" where
  "as_match n k = \<lparr>match_table = n, bitsCount = fst k, match_metric = snd k\<rparr>"

lemma match_entry_key:
  assumes "match_entry E dest False w n t = Some c" "ip_dev w (ip_device w) = Some v"
  shows "c = map_option (as_match n) (route_key E v dest t)"
  using assms(1)
  by (auto simp: match_entry_def checkstate [OF assms(2)] get_bit_match_count_def route_key_def as_match_def prefix_bits_def Let_def
      elim!: bind_SomeE split: if_splits)

definition found :: "IP_ENV \<Rightarrow> IP_DEVVAR \<Rightarrow> NETSIM_IPAddress \<Rightarrow> nat \<Rightarrow> IP_ROUTINGTABLE list \<Rightarrow> MATCH \<Rightarrow> bool" where
  "found E v dest n ts m \<longleftrightarrow> (\<exists>j < length ts. map_option (as_match (n + j)) (route_key E v dest (ts ! j)) = Some m)"

lemma found_Cons:
  "found E v dest n (t # ts) m \<longleftrightarrow> map_option (as_match n) (route_key E v dest t) = Some m \<or> found E v dest (Suc n) ts m"
  by (simp add: found_def Ex_less_Suc2 del: map_option_eq_Some)

lemma match_loop_best:
  assumes "match_loop E dest False w n ts l = Some l'" "adds_in_order E" "best_first l" "ip_dev w (ip_device w) = Some v"
  shows "best_first l' \<and> (\<forall>m. m \<in> set l' \<longleftrightarrow> m \<in> set l \<or> found E v dest n ts m)"
  using assms(1,3)
proof (induction ts arbitrary: n l)
  case (Cons t ts)
  then obtain c where c: "match_entry E dest False w n t = Some c"
    "match_loop E dest False w (Suc n) ts (case c of None \<Rightarrow> l | Some c \<Rightarrow> add_to_match_list E c l) = Some l'"
    by (auto elim!: bind_SomeE)
  let ?l = "case c of None \<Rightarrow> l | Some c \<Rightarrow> add_to_match_list E c l"
  have "best_first ?l \<and> set ?l = set l \<union> set_option c"
    using assms(2) Cons.prems(2) by (auto simp: adds_in_order_def add_to_match_list_def split: option.splits)
  moreover from this have "best_first l' \<and> (\<forall>m. m \<in> set l' \<longleftrightarrow> m \<in> set ?l \<or> found E v dest (Suc n) ts m)"
    using Cons.IH [OF c(2)] by blast
  moreover have "m \<in> set_option c \<longleftrightarrow> map_option (as_match n) (route_key E v dest t) = Some m" for m
    using match_entry_key [OF c(1) assms(4)] by (auto simp del: map_option_eq_Some)
  ultimately show ?case unfolding found_Cons by blast
qed (use assms in \<open>auto simp: found_def\<close>)

section \<open>Longest prefix\<close>

lemma cache_gateway_sel [simp]: "ir_interfaces (cache_gateway E t) = ir_interfaces t" "ir_gateway (cache_gateway E t) = ir_gateway t"
  by (simp_all add: cache_gateway_def split: option.split)

definition worse_key :: "u32 \<times> u32 \<Rightarrow> u32 \<times> u32 \<Rightarrow> bool" where
  "worse_key k best \<longleftrightarrow> fst k < fst best \<or> fst k = fst best \<and> snd best \<le> snd k"


section \<open>All hosts\<close>

definition reaches :: "IP_ENV \<Rightarrow> NETSIM_IPAddress \<Rightarrow> IP_ROUTINGTABLE \<Rightarrow> NETSIM_IPAddress \<times> NETSIM_ID \<Rightarrow> bool" where
  "reaches E src t p = IN_SAME_NETWORK E src (fst p) (netMask t) 0"

text \<open>
  C38: A lookup for all hosts of a subnet destroys the route.  The entry for 224.0.0.1 has two interfaces, in
  different networks.  A packet whose source is in the network of the second one is given that interface, as it should; but the
  second interface is written over the first one in the table itself, and from then on a packet whose source is
  in the network of the first one has no route: before, it had one.
\<close>

theorem all_hosts_route_is_lost:
  fixes E d n w t src1 src2
  defines "dest \<equiv> STR_TO_IP E ''224.0.0.1'' 4"
  assumes "get_entry d n w = Some t" "same_ip (networkDestination t) dest" "ir_interfaces t = [p1, p2]"
    and "reaches E src1 t p1" "\<not> reaches E src1 t p2" "reaches E src2 t p2" "\<not> reaches E src2 t p1"
    and "match_table m = n"
  shows "(\<exists>c w1. choose_match_for_reserved_address E d [m] dest src1 w = Some (Some (InTab c), w1) \<and> ir_interfaces c = [p1])
    \<and> (\<exists>c w2. choose_match_for_reserved_address E d [m] dest src2 w = Some (Some (InTab c), w2) \<and> ir_interfaces c = [p2]
        \<and> choose_match_for_reserved_address E d [m] dest src1 w2 = Some (None, w2))"
proof -
  have n: "n < length (ip_tab w d)" "ip_tab w d ! n = t"
    using assms(2) by (auto simp: get_entry_def split: if_splits)
  have reserved: "is_reserved_multicast_address E dest" "same_ip dest (STR_TO_IP E ''224.0.0.1'' 4)"
    by (simp_all add: is_reserved_multicast_address_def dest_def)
  note run = choose_match_for_reserved_address_def isCorrectRoute_def isCorrectRouteForSubnet_def reserved assms(9) Let_def
  define w2 where "w2 = set_entry d n (t\<lparr>ir_interfaces := [p2, p2]\<rparr>) w"
  have two: "choose_match_for_reserved_address E d [m] dest src2 w = Some (Some (InTab (t\<lparr>ir_interfaces := [p2]\<rparr>)), w2)"
    using assms(2-4,7,8) by (simp add: run w2_def reaches_def)
  have w2: "get_entry d n w2 = Some (t\<lparr>ir_interfaces := [p2, p2]\<rparr>)"
    using n by (simp add: w2_def set_entry_def get_entry_def)
  have "choose_match_for_reserved_address E d [m] dest src1 w = Some (Some (InTab (t\<lparr>ir_interfaces := [p1]\<rparr>)),
      set_entry d n (t\<lparr>ir_interfaces := [p1, p2]\<rparr>) w)"
    using assms(2-6) by (simp add: run reaches_def)
  moreover have "choose_match_for_reserved_address E d [m] dest src1 w2 = Some (None, w2)"
    using assms(3-6) w2 by (simp add: run reaches_def)
  ultimately show ?thesis
    using two by fastforce
qed

end
