(* ===== verification/Ip_Send.thy ===== *)
theory Ip_Send
  imports Ip_Routing Eth_Mac
begin

text \<open>
  A routed packet goes down (\<open>IP/IP_Routing.c\<close>), address translation (\<open>IP/NAT.c\<close>).  What other protocols
  do when they are called is a function of the record \<open>IP_CALLS\<close>.
\<close>

record IP_CALLS =
  fnCallProtocol :: "nat \<Rightarrow> IP_WORLD \<Rightarrow> IP_WORLD option"
  routerFunction :: "NETSIM_ID \<Rightarrow> (IP_WORLD \<Rightarrow> IP_WORLD option) option"
  fn_NetSim_IP_VPN_Run :: "IP_WORLD \<Rightarrow> IP_WORLD option"
  process_igmp_packet :: "IP_WORLD \<Rightarrow> IP_WORLD option"
  process_pim_packet :: "IP_WORLD \<Rightarrow> IP_WORLD option"
  pim_decide_action :: "ETH_PKT \<Rightarrow> NETSIM_ID \<Rightarrow> IP_WORLD \<Rightarrow> (IP_PROTOCOL_ACTION \<times> IP_WORLD) option"
  host_is_ip_present_in_db :: "NETSIM_ID \<Rightarrow> NETSIM_IPAddress \<Rightarrow> ETH_PKT \<Rightarrow> IP_WORLD \<Rightarrow> (IP_PROTOCOL_ACTION \<times> IP_WORLD) option"
  ip_timer :: "IP_WORLD \<Rightarrow> IP_WORLD option"
  CallICMPErrorFun :: "NetSim_PACKET \<Rightarrow> NETSIM_ID \<Rightarrow> IP_WORLD \<Rightarrow> IP_WORLD option"

section \<open>To the lower layer\<close>

text \<open>Where the packet goes: next hop, gateway, device and interface.\<close>

definition lower_target ::
  "IP_ENV \<Rightarrow> ETH_PKT \<Rightarrow> HOP option \<Rightarrow> IP_WORLD \<Rightarrow> (ETH_PKT \<times> NETSIM_ID \<times> NETSIM_ID) option" where
  "lower_target E k hop w = (case hop of
       Some h \<Rightarrow> Some (k\<lparr>szNextHopIp := Some (hop_nextHop h), szGatewayIP := Some (hop_gateway h)\<rparr>, hop_nextHopId h, hop_interfaceId h)
     | None \<Rightarrow> do {
         let d = ip_device w;
         let k = (if szGatewayIP k = None then k\<lparr>szGatewayIP := Some (GetFirstIPAddressAsId E d 4)\<rparr> else k);
         gateway \<leftarrow> szGatewayIP k;
         let i = (if ip_interface w = 0 then GetInterfaceIdFromIP E d gateway else ip_interface w);
         next \<leftarrow> szNextHopIp k;
         Some (k, DeviceId_asIP E next, i) })"

definition lower_header :: "IP_ENV \<Rightarrow> NETSIM_ID \<Rightarrow> NETSIM_ID \<Rightarrow> NETSIM_ID \<Rightarrow> simtime \<Rightarrow> ETH_PKT \<Rightarrow> ETH_PKT" where
  "lower_header E d i n t k =
     (let k = k\<lparr>nw_dOverhead := nw_dOverhead k + IPV4_HEADER_SIZE\<rparr>
      in k\<lparr>nw_dPacketSize := nw_dOverhead k + nw_dPayload k, dEndTime := t, nNetworkProtocol := ip_nProtocolId E d i,
           nTransmitterId := d, nReceiverId := n\<rparr>)"

definition local_event :: "IP_ENV \<Rightarrow> NETSIM_ID \<Rightarrow> NETSIM_ID \<Rightarrow> ETH_PKT \<Rightarrow> ETH_EVENT \<Rightarrow> ETH_EVENT" where
  "local_event E d i k e = (app_ids k e)\<lparr>ee_nDeviceId := d, ee_nDeviceType := eth_deviceType (ip_eth E) d,
     ee_dPacketSize := nw_dPacketSize k, ee_nEventType := NETWORK_OUT_EVENT, ee_nInterfaceId := i, ee_nPacketId := nPacketId k,
     ee_nProtocolId := nLocalNetworkProtocol E d i, ee_nSubEventType := 0, ee_pPacket := Some k, ee_szOtherDetails := NoDetails\<rparr>"

definition mac_addresses :: "IP_ENV \<Rightarrow> ETH_PKT \<Rightarrow> ETH_PKT option" where
  "mac_addresses E k = do {
     gateway \<leftarrow> szGatewayIP k;
     next \<leftarrow> szNextHopIp k;
     Some (k\<lparr>eth_szSourceMac := GetMacAddressFromIP E gateway,
       eth_szDestMac := (if ip_isBroadcastIP E next then BROADCAST_MAC E
         else if ip_isMulticastIP E next then multicastIP_to_Mac E next
         else GetMacAddressFromIP E next)\<rparr>) }"

definition mac_out_event :: "IP_ENV \<Rightarrow> NETSIM_ID \<Rightarrow> NETSIM_ID \<Rightarrow> simtime \<Rightarrow> ETH_PKT \<Rightarrow> ETH_EVENT" where
  "mac_out_event E d i t k = (app_ids k zero_event)\<lparr>ee_dEventTime := t, ee_nDeviceId := d,
     ee_nDeviceType := eth_deviceType (ip_eth E) d, ee_nInterfaceId := i, ee_dPacketSize := nw_dPacketSize k,
     ee_nEventType := MAC_OUT_EVENT, ee_nPacketId := nPacketId k, ee_nProtocolId := GetMacProtocol E d i\<rparr>"

definition to_access_buffer :: "IP_ENV \<Rightarrow> NETSIM_ID \<Rightarrow> NETSIM_ID \<Rightarrow> ETH_PKT \<Rightarrow> IP_WORLD \<Rightarrow> IP_WORLD option" where
  "to_access_buffer E d i k w = do {
     k \<leftarrow> mac_addresses E k;
     (busy, b) \<leftarrow> fn_NetSim_GetBufferStatus (eth_access w d i);
     let w = (if busy then w else add_ip_event (mac_out_event E d i (ip_now w) k) w);
     b \<leftarrow> eth_AddPacketToList (ip_eth E) b (as_buf_frame (wnext w) k);
     Some (w\<lparr>eth_access := (eth_access w)(d := (eth_access w d)(i := b)),
       waiting := (waiting w)(wnext w \<mapsto> k), wnext := Suc (wnext w)\<rparr>) }"

text \<open>
  The virtual private network works on the packet of the event, which is this packet (\<open>own\<close>) or the one
  it was copied from.
\<close>

definition call_vpn :: "IP_CALLS \<Rightarrow> bool \<Rightarrow> ETH_PKT \<Rightarrow> IP_WORLD \<Rightarrow> (ETH_PKT \<times> IP_WORLD) option" where
  "call_vpn C own k w = do {
     let w = (if own \<and> ee_pPacket (eev w) \<noteq> None then set_event_packet k w else w);
     w \<leftarrow> fn_NetSim_IP_VPN_Run C w;
     Some (case ee_pPacket (eev w) of Some p \<Rightarrow> (if own then p else k) | None \<Rightarrow> k, w) }"

definition pass_to_lower_layer ::
  "IP_ENV \<Rightarrow> IP_CALLS \<Rightarrow> bool \<Rightarrow> ETH_PKT \<Rightarrow> HOP option \<Rightarrow> IP_WORLD \<Rightarrow> IP_WORLD option" where
  "pass_to_lower_layer E C own k hop w = do {
     let d = ip_device w;
     (k, n, i) \<leftarrow> lower_target E k hop w;
     verdict \<leftarrow> NETWORK_Firewall E d i k ACLTYPE_OUTBOUND w;
     if verdict = ACLACTION_DENY
     then Some (drop_event_packet (upd_ip_metrics (\<lambda>m. m\<lparr>nFirewallBlocked := nFirewallBlocked m + 1\<rparr>) w))
     else do {
       gateway \<leftarrow> szGatewayIP k;
       next \<leftarrow> szNextHopIp k;
       let w = (if IP_COMPARE gateway next = 0 then ip_error w else w);
       let k = lower_header E d i n (ip_now w) k;
       (k, w) \<leftarrow> (if nLocalNetworkProtocol E d i = PROTOCOL_VPN then call_vpn C own k w else Some (k, w));
       if ee_pPacket (eev w) = None then Some w
       else do {
         let w = upd_ip_metrics (\<lambda>m. m\<lparr>nPacketSent := nPacketSent m + 1\<rparr>) w;
         if nLocalNetworkProtocol E d i \<noteq> 0
         then do {
           let e = eev w;
           w \<leftarrow> fnCallProtocol C (nLocalNetworkProtocol E d i) (w\<lparr>eev := local_event E d i k e\<rparr>);
           Some (w\<lparr>eev := e\<rparr>) }
         else to_access_buffer E d i k w } } }"

section \<open>Address translation\<close>

text \<open>A new destination is put above the old one; both headers are equal otherwise.\<close>

definition add_new_dest :: "NETSIM_IPAddress \<Rightarrow> ETH_PKT \<Rightarrow> ETH_PKT" where
  "add_new_dest ip k = k\<lparr>szDestIP := ip, nw_outer := szDestIP k # nw_outer k\<rparr>"

definition remove_dest :: "ETH_PKT \<Rightarrow> ETH_PKT" where
  "remove_dest k = (case nw_outer k of [] \<Rightarrow> k | ip # is \<Rightarrow> k\<lparr>szDestIP := ip, nw_outer := is\<rparr>)"

definition nat_local :: "IP_ENV \<Rightarrow> NETSIM_ID \<Rightarrow> NETSIM_IPAddress \<Rightarrow> bool" where
  "nat_local E d dest \<longleftrightarrow> (\<exists>i \<in> set [1..<Suc (eth_nNumOfInterface (ip_eth E) d)]. case ip_szAddress E d i of
       None \<Rightarrow> False
     | Some ip \<Rightarrow> ip_type dest = ip_type ip
         \<and> IP_COMPARE (NETWORK_ADDRESS E ip (ip_szSubnetMask E d i) (ip_prefix_len E d i))
             (NETWORK_ADDRESS E dest (ip_szSubnetMask E d i) (ip_prefix_len E d i)) = 0)"

definition has_address :: "IP_ENV \<Rightarrow> NETSIM_ID \<Rightarrow> NETSIM_IPAddress \<Rightarrow> bool" where
  "has_address E d ip \<longleftrightarrow> (\<exists>i \<in> set [1..<Suc (eth_nNumOfInterface (ip_eth E) d)]. case ip_szAddress E d i of
       None \<Rightarrow> False
     | Some a \<Rightarrow> IP_COMPARE a ip = 0)"

fun first_gateway :: "IP_ENV \<Rightarrow> NETSIM_ID \<Rightarrow> NETSIM_ID list \<Rightarrow> NETSIM_IPAddress option" where
  "first_gateway E d [] = None"
| "first_gateway E d (i # is) =
     (if ip_szAddress E d i \<noteq> None \<and> ip_szDefaultGateWay E d i \<noteq> None then ip_szDefaultGateWay E d i
      else first_gateway E d is)"

definition fn_NetSim_NAT_NetworkOut :: "IP_ENV \<Rightarrow> NETSIM_ID \<Rightarrow> ETH_PKT \<Rightarrow> ETH_PKT option" where
  "fn_NetSim_NAT_NetworkOut E d k = (case get_dests (ip_eth E) (destInfo k) of
       [] \<Rightarrow> None
     | _ # _ # _ \<Rightarrow> Some k
     | [target] \<Rightarrow>
         (if target = 0 \<or> ip_isMulticastIP E (szDestIP k) \<or> nat_local E d (szDestIP k) then Some k
          else case first_gateway E d [1..<Suc (eth_nNumOfInterface (ip_eth E) d)] of
                 Some g \<Rightarrow> Some (add_new_dest g k)
               | None \<Rightarrow> (case DEVICE_FIRST_PUBLICIP E target of
                   None \<Rightarrow> Some k
                 | Some pub \<Rightarrow> Some (if IP_COMPARE pub (szDestIP k) = 0 \<or> has_address E d pub then k else add_new_dest pub k))))"

definition fn_NetSim_NAT_NetworkIn :: "IP_ENV \<Rightarrow> NETSIM_ID \<Rightarrow> ETH_PKT \<Rightarrow> ETH_PKT option" where
  "fn_NetSim_NAT_NetworkIn E d k = (case get_dests (ip_eth E) (destInfo k) of
       [] \<Rightarrow> None
     | _ # _ # _ \<Rightarrow> Some k
     | [target] \<Rightarrow> Some
         (if d = target then remove_dest k
          else if ip_isBroadcastIP E (szDestIP k) \<or> ip_isMulticastIP E (szDestIP k) then k
          else if has_address E d (szDestIP k) then remove_dest k else k))"

end
