(* ===== verification/Ip_Icmp.thy ===== *)
theory Ip_Icmp
  imports Ip_Send
begin

text \<open>
  Control messages (\<open>IP/ICMP.c\<close>): the polling of gateways, echoes, router advertisements, unreachable
  destinations, and the ping of the command line.  The texts a ping writes are left out.
\<close>

definition IP_SECOND :: real where "IP_SECOND = 1000000"
definition ICMP_SEND_TIME :: real where "ICMP_SEND_TIME = 1 * IP_SECOND"
definition ICMP_MAX_RETRY :: u32 where "ICMP_MAX_RETRY = 5"
definition MAX_TTL_IP :: u32 where "MAX_TTL_IP = 255"

definition EVENT_ICMP_POLL :: nat where "EVENT_ICMP_POLL = IP_PROTOCOL_V4 * 100 + 1"
definition EVENT_ADVERTISE_ROUTER :: nat where "EVENT_ADVERTISE_ROUTER = EVENT_ICMP_POLL + 1"
definition EVENT_IP_INIT_TABLE :: nat where "EVENT_IP_INIT_TABLE = EVENT_ICMP_POLL + 12"
definition EVENT_ICMP_SEND_ECHO :: nat where "EVENT_ICMP_SEND_ECHO = EVENT_ICMP_POLL + 13"

definition PACKET_ICMP_DstUnreachableMsg :: nat where "PACKET_ICMP_DstUnreachableMsg = IP_PROTOCOL_V4 * 100 + 10"
definition PACKET_ICMP_ECHORequest :: nat where "PACKET_ICMP_ECHORequest = PACKET_ICMP_DstUnreachableMsg + 1"
definition PACKET_ICMP_ECHOReply :: nat where "PACKET_ICMP_ECHOReply = PACKET_ICMP_DstUnreachableMsg + 2"
definition PACKET_ROUTER_ADVERTISEMENT :: nat where "PACKET_ROUTER_ADVERTISEMENT = PACKET_ICMP_DstUnreachableMsg + 3"

definition INTERFACE_WAN_ROUTER :: nat where "INTERFACE_WAN_ROUTER = 5"
definition INTERFACE_VIRTUAL :: nat where "INTERFACE_VIRTUAL = 6"

lemmas icmp_numbers = EVENT_ICMP_POLL_def EVENT_ADVERTISE_ROUTER_def EVENT_IP_INIT_TABLE_def EVENT_ICMP_SEND_ECHO_def
  PACKET_ICMP_DstUnreachableMsg_def PACKET_ICMP_ECHORequest_def PACKET_ICMP_ECHOReply_def PACKET_ROUTER_ADVERTISEMENT_def
  IP_PROTOCOL_V4_def

section \<open>Start\<close>

definition icmp_timer :: "IP_ENV \<Rightarrow> NETSIM_ID \<Rightarrow> simtime \<Rightarrow> nat \<Rightarrow> ETH_EVENT" where
  "icmp_timer E d t sub = zero_event\<lparr>ee_dEventTime := t, ee_nDeviceId := d, ee_nDeviceType := eth_deviceType (ip_eth E) d,
     ee_nEventType := TIMER_EVENT, ee_nProtocolId := IP_PROTOCOL_V4, ee_nSubEventType := sub\<rparr>"

definition icmp_init_device :: "IP_ENV \<Rightarrow> NETSIM_ID \<Rightarrow> IP_WORLD \<Rightarrow> IP_WORLD option" where
  "icmp_init_device E d w = (case ip_dev w d of
       None \<Rightarrow> Some w
     | Some v \<Rightarrow> Some (if \<not> isICMP v then w
         else let w = (if nICMPPollingTime v \<noteq> 0
                       then (let e = icmp_timer E d (of_nat (unat (nICMPPollingTime v)) * IP_SECOND) EVENT_ICMP_POLL
                             in add_ip_event e (w\<lparr>eev := e\<rparr>)) else w)
              in if nRouterAdvertisementFlag v
                 then (let e = icmp_timer E d 0 EVENT_ADVERTISE_ROUTER in add_ip_event e (w\<lparr>eev := e\<rparr>)) else w))"

definition fn_NetSim_IP_ICMP_Init :: "IP_ENV \<Rightarrow> IP_WORLD \<Rightarrow> IP_WORLD option" where
  "fn_NetSim_IP_ICMP_Init E w = for_each (icmp_init_device E) [1..<Suc (eth_nDeviceCount (ip_eth E))] w"

section \<open>Echoes\<close>

definition GenerateEchoRequest ::
  "IP_ENV \<Rightarrow> NETSIM_ID \<Rightarrow> NETSIM_ID \<Rightarrow> NETSIM_IPAddress \<Rightarrow> NETSIM_IPAddress \<Rightarrow> simtime \<Rightarrow> nat option \<Rightarrow> nat \<Rightarrow> u32
     \<Rightarrow> IP_WORLD \<Rightarrow> ETH_PKT \<times> IP_WORLD" where
  "GenerateEchoRequest E source dest src target t payload bytes ttl w =
     (let k = blankNwPacket E in
      (k\<lparr>destInfo := eth_add_dest (ip_eth E) (destInfo k) dest, nControlDataType := PACKET_ICMP_ECHORequest,
         szPacketType := ''ICMP_EchoRequest'', nPacketId := 0, nPacketPriority := PACKET_PRIORITY.Priority_Low,
         nPacketType := PacketType_Control, nSourceId := source, dArrivalTime := t, dStartTime := t, dEndTime := t,
         nw_dOverhead := 8, nw_dPayload := of_nat bytes, nw_dPacketSize := 8 + of_nat bytes, nNetworkProtocol := IP_PROTOCOL_V4,
         nTTL := ucast (ttl + 1), szDestIP := target, szSourceIP := src, IPProtocol := IPPROTOCOL_ICMP,
         Packet_NetworkProtocol := HdrEcho \<lparr>echo_Type = 8, SequenceNumber = ucast (echoSeq w), echo_Data = payload\<rparr>\<rparr>,
       w\<lparr>echoSeq := echoSeq w + 1\<rparr>))"

text \<open>A gateway that has not answered since the last poll is down.\<close>

definition poll_state :: "IP_GATEWAYSTATE \<Rightarrow> IP_GATEWAYSTATE" where
  "poll_state s = (case s of
       GATEWAYSTATE_NOTIFICATION_PENDING \<Rightarrow> GATEWAYSTATE_DOWN
     | GATEWAYSTATE_UP \<Rightarrow> GATEWAYSTATE_NOTIFICATION_PENDING
     | s \<Rightarrow> s)"

definition poll_gateway :: "IP_ENV \<Rightarrow> simtime \<Rightarrow> nat \<Rightarrow> IP_WORLD \<Rightarrow> IP_WORLD option" where
  "poll_gateway E t n w = do {
     let d = ip_device w;
     v \<leftarrow> ip_dev w d;
     _ \<leftarrow> assert_c (n < length (gateways v));
     let g = gateways v ! n;
     w \<leftarrow> upd_ip_dev d (gateways_update (\<lambda>gs. gs[n := (gs ! n)\<lparr>gw_state := poll_state (gw_state (gs ! n))\<rparr>])) w;
     src \<leftarrow> ip_szAddress E d (gw_interface g);
     let (k, w) = GenerateEchoRequest E d (gw_id g) src (gw_ip g) (ip_now w) None 0 1 w;
     let e = (eev w)\<lparr>ee_dEventTime := t, ee_dPacketSize := ip_GetPacketSize E k, ee_nEventType := NETWORK_OUT_EVENT,
        ee_nSubEventType := 0, ee_pPacket := Some k\<rparr>;
     Some (add_ip_event e (w\<lparr>eev := e\<rparr>)) }"

definition fn_NetSim_IP_ICMP_POLL :: "IP_ENV \<Rightarrow> IP_WORLD \<Rightarrow> IP_WORLD option" where
  "fn_NetSim_IP_ICMP_POLL E w = do {
     v \<leftarrow> ip_dev w (ip_device w);
     let t = ip_now w;
     let e = (eev w)\<lparr>ee_dEventTime := t + of_nat (unat (nICMPPollingTime v)) * IP_SECOND\<rparr>;
     for_each (poll_gateway E t) [0..<length (gateways v)] (add_ip_event e (w\<lparr>eev := e\<rparr>)) }"

definition fn_NetSim_IP_ICMP_EchoRequest :: "IP_ENV \<Rightarrow> IP_WORLD \<Rightarrow> IP_WORLD option" where
  "fn_NetSim_IP_ICMP_EchoRequest E w = do {
     k \<leftarrow> ee_pPacket (eev w);
     echo \<leftarrow> (case Packet_NetworkProtocol k of HdrEcho x \<Rightarrow> Some x | _ \<Rightarrow> None);
     let r = blankNwPacket E;
     let r = r\<lparr>nControlDataType := PACKET_ICMP_ECHOReply, szPacketType := ''ICMP_EchoReply'',
        destInfo := eth_add_dest (ip_eth E) (destInfo r) (nSourceId k), nPacketType := PacketType_Control,
        nSourceId := ip_device w, dArrivalTime := ip_now w, dEndTime := ip_now w, nw_dOverhead := 8,
        nw_dPayload := nw_dPayload k, nw_dPacketSize := 8 + nw_dPayload k, dStartTime := ip_now w,
        nNetworkProtocol := IP_PROTOCOL_V4, nTTL := 255, szDestIP := szSourceIP k, szSourceIP := szDestIP k,
        IPProtocol := IPPROTOCOL_ICMP,
        Packet_NetworkProtocol := HdrEcho \<lparr>echo_Type = 0, SequenceNumber = SequenceNumber echo, echo_Data = echo_Data echo\<rparr>\<rparr>;
     let e = (eev w)\<lparr>ee_pPacket := Some r, ee_nEventType := NETWORK_OUT_EVENT\<rparr>;
     Some (add_ip_event e (w\<lparr>eev := e\<rparr>)) }"

definition set_ping :: "nat \<Rightarrow> PINGHANDLER \<Rightarrow> IP_WORLD \<Rightarrow> IP_WORLD" where
  "set_ping n h w = w\<lparr>pings := (pings w)(n \<mapsto> h)\<rparr>"

definition replyRecevied :: "ICMP_ECHO \<Rightarrow> nat \<Rightarrow> IP_WORLD \<Rightarrow> IP_WORLD option" where
  "replyRecevied echo n w = do {
     h \<leftarrow> pings w n;
     Some (if SequenceNumber echo = ping_seqNumber h
           then set_ping n (h\<lparr>replyRecvCount := replyRecvCount h + 1, retryCount := 0\<rparr>) w
           else w) }"

text \<open>The first gateway with the address of the sender is up.\<close>

fun gateway_answers :: "NETSIM_IPAddress \<Rightarrow> GATEWAY list \<Rightarrow> GATEWAY list" where
  "gateway_answers ip [] = []"
| "gateway_answers ip (g # gs) =
     (if IP_COMPARE (gw_ip g) ip = 0 then g\<lparr>gw_state := GATEWAYSTATE_UP\<rparr> # gs else g # gateway_answers ip gs)"

definition fn_NetSim_IP_ICMP_EchoReply :: "IP_ENV \<Rightarrow> IP_WORLD \<Rightarrow> IP_WORLD option" where
  "fn_NetSim_IP_ICMP_EchoReply E w = do {
     k \<leftarrow> ee_pPacket (eev w);
     w \<leftarrow> upd_ip_dev (ip_device w) (gateways_update (gateway_answers (szSourceIP k))) w;
     echo \<leftarrow> (case Packet_NetworkProtocol k of HdrEcho x \<Rightarrow> Some x | _ \<Rightarrow> None);
     w \<leftarrow> (case echo_Data echo of None \<Rightarrow> Some w | Some n \<Rightarrow> replyRecevied echo n w);
     Some (drop_event_packet w) }"

section \<open>Router advertisements\<close>

definition advertises :: "IP_ENV \<Rightarrow> NETSIM_ID \<Rightarrow> NETSIM_ID \<Rightarrow> bool" where
  "advertises E d i \<longleftrightarrow> nInterfaceType E d i \<noteq> 0 \<and> nInterfaceType E d i \<noteq> INTERFACE_WAN_ROUTER \<and> nInterfaceType E d i \<noteq> INTERFACE_VIRTUAL"

definition advertise_on :: "IP_ENV \<Rightarrow> simtime \<Rightarrow> ETH_PKT \<Rightarrow> NETSIM_ID \<Rightarrow> IP_WORLD \<Rightarrow> IP_WORLD option" where
  "advertise_on E t k i w = do {
     a \<leftarrow> ip_szAddress E (ip_device w) i;
     let c = (eth_CopyPacket (ip_eth E) k)\<lparr>szGatewayIP := Some a, szSourceIP := a\<rparr>;
     let c = c\<lparr>szNextHopIp := Some (szDestIP c)\<rparr>;
     let e = (eev w)\<lparr>ee_dEventTime := t, ee_nInterfaceId := i, ee_dPacketSize := 16, ee_nEventType := NETWORK_OUT_EVENT,
        ee_nSubEventType := 0, ee_pPacket := Some c\<rparr>;
     Some (add_ip_event e (w\<lparr>eev := e\<rparr>)) }"

definition fn_NetSim_IP_ICMP_AdvertiseRouter :: "IP_ENV \<Rightarrow> IP_WORLD \<Rightarrow> IP_WORLD option" where
  "fn_NetSim_IP_ICMP_AdvertiseRouter E w = do {
     let t = ip_now w;
     let d = ip_device w;
     v \<leftarrow> ip_dev w d;
     let wait = (ip_random E (ip_drawn w) * of_nat (unat (nRouterAdverMaxInterval v - nRouterAdverMinInterval v))
                 + of_nat (unat (nRouterAdverMinInterval v))) * IP_SECOND;
     let e = (eev w)\<lparr>ee_dEventTime := t + wait\<rparr>;
     let w = add_ip_event e (w\<lparr>eev := e, ip_drawn := Suc (ip_drawn w)\<rparr>);
     let is = filter (advertises E d) [1..<Suc (eth_nNumOfInterface (ip_eth E) d)];
     as \<leftarrow> those (map (ip_szAddress E d) is);
     let k = blankNwPacket E;
     let k = k\<lparr>pk_dEventTime := t, nControlDataType := PACKET_ROUTER_ADVERTISEMENT, szPacketType := ''ICMP_RouterAdvertisement'',
        destInfo := eth_add_dest (ip_eth E) (destInfo k) 0, nPacketType := PacketType_Control, nReceiverId := 0, nSourceId := d,
        nTransmitterId := d, dArrivalTime := t, dEndTime := t, dStartTime := t, nw_dOverhead := 16, nw_dPacketSize := 16,
        nw_dPayload := 0, nNetworkProtocol := IP_PROTOCOL_V4, nTTL := 2, szDestIP := STR_TO_IP E ''255.255.255.255'' 4,
        IPProtocol := IPPROTOCOL_ICMP,
        Packet_NetworkProtocol := HdrAdvertisement \<lparr>RouterAddress = as, Lifetime = ucast (nRouterAdverLifeTime v)\<rparr>\<rparr>;
     for_each (advertise_on E t k) is w }"

text \<open>Whether the table has a default route by the router.\<close>

fun router_search :: "IP_ENV \<Rightarrow> NETSIM_IPAddress \<Rightarrow> NETSIM_IPAddress \<Rightarrow> IP_ROUTINGTABLE list \<Rightarrow> bool option" where
  "router_search E src ip [] = Some False"
| "router_search E src ip (t # ts) = (case ir_gateway t of
       None \<Rightarrow> router_search E src ip ts
     | Some g \<Rightarrow> (if IP_COMPARE src g = 0 \<and> IP_COMPARE (networkDestination t) ip = 0
         then do { m \<leftarrow> netMask t; if IP_COMPARE m ip = 0 then Some True else router_search E src ip ts }
         else router_search E src ip ts))"

definition fn_NetSim_IP_ICMP_ProcessRouterAdvertisement :: "IP_ENV \<Rightarrow> IP_WORLD \<Rightarrow> IP_WORLD option" where
  "fn_NetSim_IP_ICMP_ProcessRouterAdvertisement E w = do {
     let d = ip_device w;
     k \<leftarrow> ee_pPacket (eev w);
     let ip = STR_TO_IP E ''0.0.0.0'' 4;
     found \<leftarrow> router_search E (szSourceIP k) ip (ip_tab w d);
     w \<leftarrow> (if found then Some w
          else do {
            a \<leftarrow> ip_szAddress E d (ip_interface w);
            Some (w\<lparr>ip_tab := (ip_tab w)(d := iptable_add E \<lparr>nr_dest = ip, nr_mask = Some ip, nr_prefix = 0,
              nr_gateway = Some (szSourceIP k), nr_interfaces = [(a, ip_interface w)], nr_metric = DEFAULT_METRIC,
              nr_szType = ''ICMP''\<rparr> (ip_tab w d))\<rparr>) });
     Some (drop_event_packet w) }"

section \<open>Unreachable destinations\<close>

definition fn_NetSim_IP_ICMP_GenerateDstUnreachableMsg :: "IP_ENV \<Rightarrow> IP_WORLD \<Rightarrow> IP_WORLD option" where
  "fn_NetSim_IP_ICMP_GenerateDstUnreachableMsg E w = do {
     k \<leftarrow> ee_pPacket (eev w);
     if isMulticastPacket E k then Some w
     else do {
       let d = ip_device w;
       let t = ip_now w;
       let m = blankNwPacket E;
       let m = m\<lparr>szDestIP := szSourceIP k, nControlDataType := PACKET_ICMP_DstUnreachableMsg,
          szPacketType := ''ICMP_DstUnreachableMsg'', destInfo := eth_add_dest (ip_eth E) (destInfo m) (nSourceId k),
          nPacketType := PacketType_Control, nSourceId := d, nTransmitterId := d, dArrivalTime := t, dEndTime := t,
          dStartTime := t, nw_dOverhead := 24 + IPV4_HEADER_SIZE, nw_dPacketSize := 24 + IPV4_HEADER_SIZE, nw_dPayload := 0,
          nNetworkProtocol := IP_PROTOCOL_V4, nTTL := 255, Packet_NetworkProtocol := HdrUnreachable (NetSim_PACKET.truncate k),
          szSourceIP := GetFirstIPAddressAsId E d 0, IPProtocol := IPPROTOCOL_ICMP\<rparr>;
       let e = (eev w)\<lparr>ee_dPacketSize := 24 + IPV4_HEADER_SIZE, ee_nApplicationId := 0, ee_nEventType := NETWORK_IN_EVENT,
          ee_nInterfaceId := 1, ee_nPacketId := 0, ee_nProtocolId := IP_PROTOCOL_V4, ee_nSegmentId := 0,
          ee_nSubEventType := 0, ee_pPacket := Some m\<rparr>;
       Some (add_ip_event e (w\<lparr>eev := e\<rparr>)) } }"

definition fn_NetSim_IP_ICMP_ProcessDestUnreachableMsg :: "IP_ENV \<Rightarrow> IP_CALLS \<Rightarrow> IP_WORLD \<Rightarrow> IP_WORLD option" where
  "fn_NetSim_IP_ICMP_ProcessDestUnreachableMsg E C w = do {
     k \<leftarrow> ee_pPacket (eev w);
     p \<leftarrow> (case Packet_NetworkProtocol k of HdrUnreachable p \<Rightarrow> Some p | _ \<Rightarrow> None);
     let d = ip_device w;
     let w = w\<lparr>ip_tab := (ip_tab w)(d := iptable_delete E (szDestIP p) (Some (szSourceIP p)) (ip_tab w d))\<rparr>;
     w \<leftarrow> CallICMPErrorFun C p d w;
     k \<leftarrow> ee_pPacket (eev w);
     Some (if get_first_dest E k = ip_device w then drop_event_packet w else w) }"

definition process_icmp_packet :: "IP_ENV \<Rightarrow> IP_CALLS \<Rightarrow> IP_WORLD \<Rightarrow> IP_WORLD option" where
  "process_icmp_packet E C w = do {
     k \<leftarrow> ee_pPacket (eev w);
     v \<leftarrow> ip_dev w (ip_device w);
     if \<not> isICMP v then Some (ip_error w)
     else if nControlDataType k = PACKET_ICMP_ECHORequest then fn_NetSim_IP_ICMP_EchoRequest E w
     else if nControlDataType k = PACKET_ICMP_ECHOReply then fn_NetSim_IP_ICMP_EchoReply E w
     else if nControlDataType k = PACKET_ROUTER_ADVERTISEMENT then fn_NetSim_IP_ICMP_ProcessRouterAdvertisement E w
     else if nControlDataType k = PACKET_ICMP_DstUnreachableMsg then fn_NetSim_IP_ICMP_ProcessDestUnreachableMsg E C w
     else Some (ip_error w) }"

section \<open>Ping\<close>

text \<open>The addresses of two devices: the first pair in one network, else the last WAN interfaces passed.\<close>

fun best_target ::
  "IP_ENV \<Rightarrow> NETSIM_ID \<Rightarrow> NETSIM_ID \<Rightarrow> NETSIM_ID \<Rightarrow> NETSIM_IPAddress \<Rightarrow> NETSIM_ID list \<Rightarrow> NETSIM_IPAddress
     \<Rightarrow> (bool \<times> NETSIM_IPAddress) option" where
  "best_target E s d si sip [] dIP = Some (False, dIP)"
| "best_target E s d si sip (di # ds) dIP = do {
     dip \<leftarrow> ip_szAddress E d di;
     let dIP = (if nInterfaceType E d di = INTERFACE_WAN_ROUTER then dip else dIP);
     if IP_COMPARE4 (NETWORK_ADDRESS E dip (ip_szSubnetMask E d di) 0) (NETWORK_ADDRESS E sip (ip_szSubnetMask E s si) 0) = 0
     then Some (True, dip)
     else best_target E s d si sip ds dIP }"

fun best_source ::
  "IP_ENV \<Rightarrow> NETSIM_ID \<Rightarrow> NETSIM_ID \<Rightarrow> NETSIM_ID list \<Rightarrow> NETSIM_IPAddress \<times> NETSIM_IPAddress
     \<Rightarrow> (NETSIM_IPAddress \<times> NETSIM_IPAddress) option" where
  "best_source E s d [] r = Some r"
| "best_source E s d (si # ss) r = do {
     sip \<leftarrow> ip_szAddress E s si;
     let sIP = (if nInterfaceType E s si = INTERFACE_WAN_ROUTER then sip else fst r);
     (found, dIP) \<leftarrow> best_target E s d si sip [1..<Suc (eth_nNumOfInterface (ip_eth E) d)] (snd r);
     if found then Some (sip, dIP) else best_source E s d ss (sIP, dIP) }"

definition IP_find_best_IP :: "IP_ENV \<Rightarrow> NETSIM_ID \<Rightarrow> NETSIM_ID \<Rightarrow> (NETSIM_IPAddress \<times> NETSIM_IPAddress) option" where
  "IP_find_best_IP E s d = do {
     sIP \<leftarrow> ip_szAddress E s 1;
     dIP \<leftarrow> ip_szAddress E d 1;
     best_source E s d [1..<Suc (eth_nNumOfInterface (ip_eth E) s)] (sIP, dIP) }"

definition ICMP_StartPingRequest :: "IP_ENV \<Rightarrow> NETSIM_ID \<Rightarrow> NETSIM_ID \<Rightarrow> u32 \<Rightarrow> simtime \<Rightarrow> IP_WORLD \<Rightarrow> (nat \<times> IP_WORLD) option" where
  "ICMP_StartPingRequest E src dest count1 ldEventTime w = do {
     (sIP, dIP) \<leftarrow> IP_find_best_IP E src dest;
     let n = ping_next w;
     let w = set_ping n \<lparr>ping_src = src, ping_dest = dest, srcIP = sIP, destIP = dIP, ping_count = count1, echoSendTime = 0,
        currentCount = 0, replyRecvCount = 0, retryCount = 0, ping_seqNumber = 0\<rparr> (w\<lparr>ping_next := Suc n\<rparr>);
     Some (n, add_ip_event ((icmp_timer E src (ldEventTime + 1000) EVENT_ICMP_SEND_ECHO)\<lparr>ee_szOtherDetails := PingDetails n\<rparr>) w) }"

text \<open>The label \<open>ADD_NEXT_SEND_REQUEST\<close>.\<close>

definition ping_again :: "PINGHANDLER \<Rightarrow> IP_WORLD \<Rightarrow> IP_WORLD" where
  "ping_again h w =
     (if currentCount h \<noteq> ping_count h + 2
      then (let e = (eev w)\<lparr>ee_dEventTime := ip_now w + ICMP_SEND_TIME\<rparr> in add_ip_event e (w\<lparr>eev := e\<rparr>))
      else w)"

text \<open>The label \<open>SEND_ECHO_REQUEST\<close>.\<close>

definition ping_send :: "IP_ENV \<Rightarrow> nat \<Rightarrow> PINGHANDLER \<Rightarrow> IP_WORLD \<Rightarrow> IP_WORLD" where
  "ping_send E n h w =
     (if currentCount h \<noteq> ping_count h
      then (let h = h\<lparr>retryCount := 0, currentCount := currentCount h + 1, echoSendTime := ip_now w\<rparr>;
                (k, w) = GenerateEchoRequest E (ping_src h) (ping_dest h) (srcIP h) (destIP h) (ip_now w) (Some n) 32 (MAX_TTL_IP - 1) w;
                h = h\<lparr>ping_seqNumber := (case Packet_NetworkProtocol k of HdrEcho e \<Rightarrow> SequenceNumber e | _ \<Rightarrow> 0)\<rparr>;
                e = zero_event\<lparr>ee_dEventTime := ip_now w, ee_dPacketSize := ip_GetPacketSize E k, ee_nDeviceId := ip_device w,
                      ee_nDeviceType := ee_nDeviceType (eev w), ee_nEventType := NETWORK_OUT_EVENT,
                      ee_nProtocolId := IP_PROTOCOL_V4, ee_pPacket := Some k\<rparr>
            in ping_again h (add_ip_event e (set_ping n h w)))
      else ping_again h w)"

definition icmp_send_echo_request :: "IP_ENV \<Rightarrow> IP_WORLD \<Rightarrow> IP_WORLD option" where
  "icmp_send_echo_request E w = do {
     n \<leftarrow> (case ee_szOtherDetails (eev w) of PingDetails n \<Rightarrow> Some n | _ \<Rightarrow> None);
     h \<leftarrow> pings w n;
     if currentCount h = replyRecvCount h then Some (ping_send E n h w)
     else if retryCount h = ICMP_MAX_RETRY
     then do {
       let h = h\<lparr>ping_seqNumber := 0, replyRecvCount := replyRecvCount h + 1\<rparr>;
       let w = set_ping n h w;
       Some (if currentCount h \<noteq> ping_count h then ping_send E n h w else w) }
     else do {
       let h = h\<lparr>retryCount := retryCount h + 1\<rparr>;
       Some (ping_again h (set_ping n h w)) } }"

end
