(* ===== verification/Ip_Gateway.thy ===== *)
theory Ip_Gateway
  imports Ip_Icmp Ip_Match
begin

text \<open>
  Polls and pings: when a gateway counts as down, and a ping whose timer does not stop.
\<close>

section \<open>One poll, one reply\<close>

definition set_state :: "IP_GATEWAYSTATE \<Rightarrow> GATEWAY \<Rightarrow> GATEWAY" where
  "set_state s g = g\<lparr>gw_state := s\<rparr>"

definition polled :: "GATEWAY \<Rightarrow> GATEWAY" where
  "polled g = set_state (poll_state (gw_state g)) g"

lemma set_state_sel [simp]: "gw_ip (set_state s g) = gw_ip g" "gw_state (set_state s g) = s" "set_state s (set_state r g) = set_state s g"
  by (simp_all add: set_state_def)

lemma GenerateEchoRequest_keeps:
  "GenerateEchoRequest E s t src target tm p b ttl w = (k, w') \<Longrightarrow> ip_dev w' = ip_dev w \<and> eev w' = eev w"
  by (auto simp: GenerateEchoRequest_def Let_def)

lemma gateways_changed:
  "gateways_update (\<lambda>gs. gs[n := h gs]) v = v\<lparr>gateways := (gateways v)[n := h (gateways v)]\<rparr>"
  "gateways_update (gateway_answers ip) v = v\<lparr>gateways := gateway_answers ip (gateways v)\<rparr>"
  by simp_all

lemma poll_gateway_does:
  assumes "poll_gateway E t n w = Some w'" "ip_dev w (ip_device w) = Some v"
  shows "ip_device w' = ip_device w \<and> n < length (gateways v)
    \<and> ip_dev w' = (ip_dev w)(ip_device w \<mapsto> v\<lparr>gateways := (gateways v)[n := polled (gateways v ! n)]\<rparr>)"
  using assms
  by (auto simp: poll_gateway_def Let_def add_ip_event_def polled_def set_state_def gateways_changed elim!: bind_SomeE upd_ip_dev_SomeE
      dest!: GenerateEchoRequest_keeps split: prod.splits)

lemma map_one_more:
  assumes "n < length xs"
  shows "(map f (take n xs) @ drop n xs)[n := f ((map f (take n xs) @ drop n xs) ! n)] = map f (take (Suc n) xs) @ drop (Suc n) xs"
proof -
  have "drop n xs = xs ! n # drop (Suc n) xs"
    using assms by (rule Cons_nth_drop_Suc [symmetric])
  with assms show ?thesis
    by (simp add: nth_append list_update_append take_Suc_conv_app_nth)
qed

lemma poll_loop:
  "for_each (poll_gateway E t) [0..<n] w = Some w' \<Longrightarrow> ip_dev w (ip_device w) = Some v \<Longrightarrow> n \<le> length (gateways v)
     \<Longrightarrow> ip_device w' = ip_device w
       \<and> ip_dev w' = (ip_dev w)(ip_device w \<mapsto> v\<lparr>gateways := map polled (take n (gateways v)) @ drop n (gateways v)\<rparr>)"
proof (induction n arbitrary: w')
  case (Suc n)
  then obtain w1 where w1: "for_each (poll_gateway E t) [0..<n] w = Some w1" "poll_gateway E t n w1 = Some w'"
    by (auto simp: for_each_append elim!: bind_SomeE)
  let ?v = "v\<lparr>gateways := map polled (take n (gateways v)) @ drop n (gateways v)\<rparr>"
  have 1: "ip_device w1 = ip_device w" "ip_dev w1 = (ip_dev w)(ip_device w \<mapsto> ?v)"
    using Suc.IH [OF w1(1)] Suc.prems(2,3) by auto
  then have "ip_dev w1 (ip_device w1) = Some ?v" by simp
  from poll_gateway_does [OF w1(2) this] have 2: "ip_device w' = ip_device w"
    "ip_dev w' = (ip_dev w)(ip_device w \<mapsto> ?v\<lparr>gateways := (gateways ?v)[n := polled (gateways ?v ! n)]\<rparr>)"
    using 1 by simp_all
  have "(gateways ?v)[n := polled (gateways ?v ! n)] = map polled (take (Suc n) (gateways v)) @ drop (Suc n) (gateways v)"
    using map_one_more [of n "gateways v" polled] Suc.prems(3) by simp
  with 2 show ?case by simp
qed auto

lemma poll_does:
  assumes "fn_NetSim_IP_ICMP_POLL E w = Some w'" "ip_dev w (ip_device w) = Some v"
  shows "ip_dev w' = (ip_dev w)(ip_device w \<mapsto> v\<lparr>gateways := map polled (gateways v)\<rparr>)"
proof -
  from assms obtain e where "for_each (poll_gateway E (ip_now w)) [0..<length (gateways v)] (add_ip_event e (w\<lparr>eev := e\<rparr>)) = Some w'"
    "ee_nDeviceId e = ip_device w"
    by (auto simp: fn_NetSim_IP_ICMP_POLL_def Let_def elim!: bind_SomeE)
  from poll_loop [OF this(1), of v] this(2) assms(2) show ?thesis
    by (simp add: add_ip_event_def)
qed

lemma gateway_answers_distinct:
  "distinct (map (ip_canon \<circ> gw_ip) gs) \<Longrightarrow>
     gateway_answers ip gs = map (\<lambda>g. if same_ip (gw_ip g) ip then set_state GATEWAYSTATE_UP g else g) gs"
proof (induction gs)
  case (Cons g gs)
  have "map (\<lambda>g. if same_ip (gw_ip g) ip then set_state GATEWAYSTATE_UP g else g) gs = gs" if "same_ip (gw_ip g) ip"
    using that Cons.prems by (intro map_idI) (force simp: same_ip_canon)
  with Cons show ?case
    by (auto simp: set_state_def)
qed simp

lemma reply_does:
  assumes "fn_NetSim_IP_ICMP_EchoReply E w = Some w'" "ip_dev w (ip_device w) = Some v" "ee_pPacket (eev w) = Some k"
  shows "ip_dev w' = (ip_dev w)(ip_device w \<mapsto> v\<lparr>gateways := gateway_answers (szSourceIP k) (gateways v)\<rparr>)"
  using assms
  by (auto simp: fn_NetSim_IP_ICMP_EchoReply_def drop_event_packet_def replyRecevied_def set_ping_def gateways_changed elim!: bind_SomeE upd_ip_dev_SomeE
      split: option.splits if_splits)


section \<open>When a gateway is down\<close>

text \<open>
  The polls (\<open>None\<close>) that a device makes and the replies (\<open>Some\<close> of the sender) that it gets.  Between them
  anything may happen that leaves the variables of the device alone.
\<close>

inductive gateway_run :: "IP_ENV \<Rightarrow> NETSIM_ID \<Rightarrow> IP_WORLD \<Rightarrow> NETSIM_IPAddress option list \<Rightarrow> IP_WORLD \<Rightarrow> bool" for E d w0 where
  start: "gateway_run E d w0 [] w0"
| poll: "gateway_run E d w0 h w \<Longrightarrow> ip_dev u d = ip_dev w d \<Longrightarrow> ip_device u = d \<Longrightarrow> fn_NetSim_IP_ICMP_POLL E u = Some u'
    \<Longrightarrow> gateway_run E d w0 (h @ [None]) u'"
| reply: "gateway_run E d w0 h w \<Longrightarrow> ip_dev u d = ip_dev w d \<Longrightarrow> ip_device u = d \<Longrightarrow> ee_pPacket (eev u) = Some k
    \<Longrightarrow> fn_NetSim_IP_ICMP_EchoReply E u = Some u' \<Longrightarrow> gateway_run E d w0 (h @ [Some (szSourceIP k)]) u'"

text \<open>The polls since the last reply of a gateway.\<close>

definition unanswered :: "NETSIM_IPAddress \<Rightarrow> NETSIM_IPAddress option list \<Rightarrow> nat" where
  "unanswered ip h = length (filter (\<lambda>s. s = None) (takeWhile (\<lambda>s. \<forall>a. s = Some a \<longrightarrow> \<not> same_ip ip a) (rev h)))"

definition state_after :: "nat \<Rightarrow> IP_GATEWAYSTATE" where
  "state_after n = (if n = 0 then GATEWAYSTATE_UP else if n = 1 then GATEWAYSTATE_NOTIFICATION_PENDING else GATEWAYSTATE_DOWN)"

lemma unanswered_simps [simp]:
  "unanswered ip [] = 0" "unanswered ip (h @ [None]) = Suc (unanswered ip h)"
  "unanswered ip (h @ [Some a]) = (if same_ip ip a then 0 else unanswered ip h)"
  by (simp_all add: unanswered_def)

lemma poll_state_after [simp]: "poll_state (state_after n) = state_after (Suc n)"
  by (simp add: state_after_def poll_state_def)

definition state_by :: "NETSIM_IPAddress option list \<Rightarrow> GATEWAY \<Rightarrow> GATEWAY" where
  "state_by h g = set_state (state_after (unanswered (gw_ip g) h)) g"

lemma canon_state_by [simp]: "ip_canon \<circ> gw_ip \<circ> state_by h = ip_canon \<circ> gw_ip" "gw_ip (state_by h g) = gw_ip g"
  by (simp_all add: state_by_def fun_eq_iff)

lemma find_gateway:
  "distinct (map (ip_canon \<circ> gw_ip) gs) \<Longrightarrow> g \<in> set gs \<Longrightarrow> find (\<lambda>x. same_ip (gw_ip x) (gw_ip g)) gs = Some g"
  by (induction gs) (force simp: same_ip_canon)+

lemma gateway_run_states:
  assumes "gateway_run E d w h w'" "ip_dev w d = Some v" "\<forall>g \<in> set (gateways v). gw_state g = GATEWAYSTATE_UP"
    and distinct: "distinct (map (ip_canon \<circ> gw_ip) (gateways v))"
  shows "ip_dev w' d = Some (v\<lparr>gateways := map (state_by h) (gateways v)\<rparr>)"
  using assms(1)
proof induction
  case start
  have "map (state_by []) (gateways v) = gateways v"
    using assms(3) by (intro map_idI) (simp add: state_by_def set_state_def state_after_def)
  with assms(2) show ?case by simp
next
  case (poll h w1 u u')
  then have "ip_dev u (ip_device u) = Some (v\<lparr>gateways := map (state_by h) (gateways v)\<rparr>)" by simp
  from poll_does [OF poll.hyps(4) this] poll.hyps(3) show ?case
    by (auto simp: polled_def state_by_def)
next
  case (reply h w1 u k u')
  then have "ip_dev u (ip_device u) = Some (v\<lparr>gateways := map (state_by h) (gateways v)\<rparr>)" by simp
  note does = reply_does [OF reply.hyps(5) this reply.hyps(4)]
  have "distinct (map (ip_canon \<circ> gw_ip) (map (state_by h) (gateways v)))"
    using distinct by (simp add: canon_state_by)
  then have "gateway_answers (szSourceIP k) (map (state_by h) (gateways v)) = map (state_by (h @ [Some (szSourceIP k)])) (gateways v)"
    by (simp add: gateway_answers_distinct) (simp add: state_by_def state_after_def)
  with does reply.hyps(3) show ?case by simp
qed


section \<open>A ping that has all its replies\<close>

text \<open>The handler is called again and again with the last event that it has added.\<close>

fun ping_rounds :: "IP_ENV \<Rightarrow> nat \<Rightarrow> IP_WORLD \<Rightarrow> IP_WORLD option" where
  "ping_rounds E 0 w = Some w"
| "ping_rounds E (Suc m) w = do {
     w \<leftarrow> icmp_send_echo_request E w;
     ping_rounds E m (w\<lparr>eev := last (eadded w)\<rparr>) }"

lemma ping_idle:
  assumes "ee_szOtherDetails (eev w) = PingDetails n" "pings w n = Some h"
    and "currentCount h = ping_count h" "replyRecvCount h = ping_count h"
  shows "icmp_send_echo_request E w = Some (let e = (eev w)\<lparr>ee_dEventTime := ip_now w + ICMP_SEND_TIME\<rparr>
    in add_ip_event e (w\<lparr>eev := e\<rparr>))"
  using assms by (simp add: icmp_send_echo_request_def ping_send_def ping_again_def)

text \<open>
  C39: A ping never finishes.  When all requests of a ping have been sent and answered, its timer still asks for
  another event, one second later, each time it runs: the counter that would stop it is compared with two more
  than the number of requests, a value that it does not reach.  However many times the timer runs, nothing is sent and the
  ping stays as it is.
\<close>

theorem ping_timer_never_stops:
  assumes "ee_szOtherDetails (eev w) = PingDetails n" "pings w n = Some h"
    and "currentCount h = ping_count h" "replyRecvCount h = ping_count h"
  shows "\<exists>w'. ping_rounds E m w = Some w' \<and> pings w' = pings w \<and>
    eadded w' = eadded w @ map (\<lambda>j. (eev w)\<lparr>ee_dEventTime := ip_now w + of_nat (Suc j) * ICMP_SEND_TIME\<rparr>) [0..<m]"
  using assms(1,2)
proof (induction m arbitrary: w)
  case (Suc m)
  let ?e = "(eev w)\<lparr>ee_dEventTime := ip_now w + ICMP_SEND_TIME\<rparr>"
  let ?w = "w\<lparr>eadded := eadded w @ [?e], eev := ?e\<rparr>"
  from Suc.IH [of ?w] Suc.prems obtain w' where w': "ping_rounds E m ?w = Some w'" "pings w' = pings w"
    "eadded w' = eadded ?w @ map (\<lambda>j. ?e\<lparr>ee_dEventTime := ip_now ?w + of_nat (Suc j) * ICMP_SEND_TIME\<rparr>) [0..<m]"
    by auto
  have "ping_rounds E (Suc m) w = Some w'"
    using w'(1) by (simp add: ping_idle [OF Suc.prems assms(3,4)] Let_def add_ip_event_def)
  moreover have "eadded w' = eadded w @ map (\<lambda>j. (eev w)\<lparr>ee_dEventTime := ip_now w + of_nat (Suc j) * ICMP_SEND_TIME\<rparr>) [0..<Suc m]"
    unfolding w'(3) upt_conv_Cons [OF zero_less_Suc] map_Suc_upt [symmetric] by (simp add: ip_now_def algebra_simps)
  ultimately show ?case
    using w'(2) by blast
qed simp

end
