(* ===== verification/Ip_Run.thy ===== *)
theory Ip_Run
  imports Ip_Icmp
begin

text \<open>
  The network layer (\<open>IP/IP.c\<close>): packets that leave, packets that arrive, timers; the entries every
  table starts with.
\<close>

definition ARP_PROTOCOL :: nat where "ARP_PROTOCOL = 303"
definition IP_TX_PROTOCOL_TCP :: nat where "IP_TX_PROTOCOL_TCP = 401"
definition TX_PROTOCOL_UDP :: nat where "TX_PROTOCOL_UDP = 402"
definition SUBEVENT_JOIN_MULTICAST_GROUP :: nat where "SUBEVENT_JOIN_MULTICAST_GROUP = 102"

section \<open>Where a packet goes\<close>

definition isOSPFPacket :: "IP_ENV \<Rightarrow> ETH_PKT \<Rightarrow> bool" where
  "isOSPFPacket E k \<longleftrightarrow> IP_COMPARE (szDestIP k) (STR_TO_IP E ''224.0.0.5'' 4) = 0
     \<or> IP_COMPARE (szDestIP k) (STR_TO_IP E ''224.0.0.6'' 4) = 0"

definition isIGMPPacket :: "ETH_PKT \<Rightarrow> bool" where
  "isIGMPPacket k \<longleftrightarrow> nControlDataType k div 100 = IP_PROTOCOL_V4 \<and> 30 \<le> nControlDataType k mod 100 \<and> nControlDataType k mod 100 < 40"

definition isPIMPacket :: "ETH_PKT \<Rightarrow> bool" where
  "isPIMPacket k \<longleftrightarrow> IPProtocol k = IPPROTOCOL_PIM"

definition check_ip_in_multicastgroup ::
  "IP_ENV \<Rightarrow> IP_CALLS \<Rightarrow> NETSIM_IPAddress \<Rightarrow> NETSIM_ID \<Rightarrow> ETH_PKT \<Rightarrow> IP_WORLD \<Rightarrow> (IP_PROTOCOL_ACTION \<times> IP_WORLD) option" where
  "check_ip_in_multicastgroup E C ip d k w =
     (if isRouter E d \<and> isOSPFPacket E k then Some (ACTION_MOVEUP, w)
      else if isIGMPPacket k then Some (ACTION_MOVEUP, w)
      else if isPIMPacket k \<and> isHost E d then Some (ACTION_DROP, w)
      else if isPIMPacket k \<and> isRouter E d then Some (ACTION_MOVEUP, w)
      else if isRouter E d then Some (ACTION_REROUTE, w)
      else if isHost E d then host_is_ip_present_in_db C d ip k w
      else if isL3Device E d then Some (ACTION_REROUTE, w)
      else Some (ACTION_DROP, w))"

definition decide_action_for_packet ::
  "IP_ENV \<Rightarrow> IP_CALLS \<Rightarrow> ETH_PKT \<Rightarrow> NETSIM_ID \<Rightarrow> IP_WORLD \<Rightarrow> (IP_PROTOCOL_ACTION \<times> IP_WORLD) option" where
  "decide_action_for_packet E C k d w =
     (if ip_isBroadcastIP E (szDestIP k) then Some (if isHost E d then ACTION_MOVEUP else ACTION_DROP, w)
      else if ip_isMulticastIP E (szDestIP k) then check_ip_in_multicastgroup E C (szDestIP k) d k w
      else if IPProtocol k = IPPROTOCOL_PIM then pim_decide_action C k d w
      else Some (if ip_isDestFound E k d then ACTION_MOVEUP else ACTION_REROUTE, w))"

definition build_route :: "IP_ENV \<Rightarrow> ETH_PKT \<Rightarrow> IP_WORLD \<Rightarrow> (HOP list) option" where
  "build_route E k w = (case szNextHopIp k of
       None \<Rightarrow> Some []
     | Some next \<Rightarrow> do {
         a \<leftarrow> ip_szAddress E (ip_device w) (ip_interface w);
         Some [\<lparr>hop_nextHop = next, hop_gateway = a, hop_interfaceId = ip_interface w, hop_nextHopId = DeviceId_asIP E next\<rparr>] })"

section \<open>Packets that leave\<close>

text \<open>The last hop takes the packet, the others copies of it.\<close>

fun send_hops :: "IP_ENV \<Rightarrow> IP_CALLS \<Rightarrow> ETH_PKT \<Rightarrow> HOP list \<Rightarrow> IP_WORLD \<Rightarrow> IP_WORLD option" where
  "send_hops E C k [] w = Some w"
| "send_hops E C k (h # hs) w = do {
     let own = (hs = []);
     let p = (if own then k else eth_CopyPacket (ip_eth E) k);
     w \<leftarrow> pass_to_lower_layer E C own (p\<lparr>szNextHopIp := Some (hop_nextHop h)\<rparr>) (Some h) w;
     send_hops E C k hs w }"

definition fnGetLocalNetworkProtocol :: "ETH_EVENT \<Rightarrow> nat option" where
  "fnGetLocalNetworkProtocol e =
     (if ee_nSubEventType e div 100 = ARP_PROTOCOL then Some ARP_PROTOCOL
      else do { k \<leftarrow> ee_pPacket e; Some (if nControlDataType k div 100 = ARP_PROTOCOL then ARP_PROTOCOL else 0) })"

text \<open>The label \<open>PACKET_ROUTED\<close> for a packet that has its next hop.\<close>

definition send_routed :: "IP_ENV \<Rightarrow> IP_CALLS \<Rightarrow> ETH_PKT \<Rightarrow> IP_WORLD \<Rightarrow> IP_WORLD option" where
  "send_routed E C k w = do { hops \<leftarrow> build_route E k w; send_hops E C k hops w }"

text \<open>The last resort: the whole table, else the packet is discarded.\<close>

definition route_by_table :: "IP_ENV \<Rightarrow> IP_CALLS \<Rightarrow> ETH_PKT \<Rightarrow> IP_WORLD \<Rightarrow> IP_WORLD option" where
  "route_by_table E C k w = do {
     (hops, w) \<leftarrow> fn_NetSim_IP_RoutePacket E k (ip_device w) w;
     if hops = []
     then do {
       let w = upd_ip_metrics (\<lambda>m. m\<lparr>nPacketDiscarded := nPacketDiscarded m + 1\<rparr>) w;
       v \<leftarrow> ip_dev w (ip_device w);
       if isICMP v then fn_NetSim_IP_ICMP_GenerateDstUnreachableMsg E w else Some w }
     else send_hops E C k hops w }"

definition route_by_protocol :: "IP_ENV \<Rightarrow> IP_CALLS \<Rightarrow> IP_WORLD \<Rightarrow> IP_WORLD option" where
  "route_by_protocol E C w = do {
     w \<leftarrow> (if nRoutingProtocolId E (ip_device w) \<noteq> 0 then fnCallProtocol C (nRoutingProtocolId E (ip_device w)) w else Some w);
     (case ee_pPacket (eev w) of
        None \<Rightarrow> Some w
      | Some k \<Rightarrow> (if szNextHopIp k \<noteq> None then send_routed E C k w else route_by_table E C k w)) }"

definition route_by_function :: "IP_ENV \<Rightarrow> IP_CALLS \<Rightarrow> IP_WORLD \<Rightarrow> IP_WORLD option" where
  "route_by_function E C w = do {
     w \<leftarrow> (case routerFunction C (ip_device w) of Some f \<Rightarrow> f w | None \<Rightarrow> Some w);
     (case ee_pPacket (eev w) of
        None \<Rightarrow> Some w
      | Some k \<Rightarrow> (if szNextHopIp k \<noteq> None then send_routed E C k w else route_by_protocol E C w)) }"

definition expire_ttl :: "IP_WORLD \<Rightarrow> IP_WORLD" where
  "expire_ttl w = drop_event_packet (upd_ip_metrics (\<lambda>m. m\<lparr>nTTLDrop := nTTLDrop m + 1\<rparr>) w)"

definition stamp_packet :: "simtime \<Rightarrow> ETH_PKT \<Rightarrow> ETH_PKT" where
  "stamp_packet t k = (let k = k\<lparr>dStartTime := t, dArrivalTime := t\<rparr> in
     case pstruTransportData k of Some x \<Rightarrow> k\<lparr>nw_dPayload := tx_dPacketSize x\<rparr> | None \<Rightarrow> k)"

definition network_out :: "IP_ENV \<Rightarrow> IP_CALLS \<Rightarrow> IP_WORLD \<Rightarrow> IP_WORLD option" where
  "network_out E C w = do {
     p \<leftarrow> fnGetLocalNetworkProtocol (eev w);
     if p \<noteq> 0 then fnCallProtocol C p w
     else do {
       k \<leftarrow> ee_pPacket (eev w);
       if nTTL k = 0 then Some (expire_ttl w)
       else do {
         let k = stamp_packet (ip_now w) k;
         let w = set_event_packet k w;
         if szNextHopIp k \<noteq> None then send_routed E C k w
         else do {
           (hops, w) \<leftarrow> fn_NetSim_IP_RoutePacketViaStaticEntry E k (ip_device w) w;
           if hops \<noteq> [] then send_hops E C k hops w
           else do {
             k \<leftarrow> fn_NetSim_NAT_NetworkOut E (ip_device w) k;
             let w = set_event_packet k w;
             (hops, w) \<leftarrow> fn_NetSim_IP_RoutePacketViaStaticEntry E k (ip_device w) w;
             if hops \<noteq> [] then send_hops E C k hops w
             else route_by_function E C w } } } } }"

section \<open>Packets that arrive\<close>

definition transport_in :: "ETH_PKT \<Rightarrow> nat \<Rightarrow> IP_WORLD \<Rightarrow> IP_WORLD" where
  "transport_in k proto w =
     (let e = (eev w)\<lparr>ee_dPacketSize := nw_dPacketSize k, ee_nEventType := TRANSPORT_IN_EVENT, ee_nProtocolId := proto,
            ee_nSubEventType := 0, ee_szOtherDetails := NoDetails\<rparr>
      in upd_ip_metrics (\<lambda>m. m\<lparr>nPacketReceived := nPacketReceived m + 1\<rparr>) (add_ip_event e (w\<lparr>eev := e\<rparr>)))"

definition move_up :: "IP_ENV \<Rightarrow> IP_CALLS \<Rightarrow> ETH_PKT \<Rightarrow> IP_WORLD \<Rightarrow> IP_WORLD option" where
  "move_up E C k w =
     (if IPProtocol k = IPPROTOCOL_ICMP then process_icmp_packet E C w
      else if IPProtocol k = IPPROTOCOL_IGMP then process_igmp_packet C w
      else if IPProtocol k = IPPROTOCOL_PIM then process_pim_packet C w
      else if IPProtocol k = IPPROTOCOL_DSR then Some w
      else Some (transport_in k (if IPProtocol k = IPPROTOCOL_TCP then IP_TX_PROTOCOL_TCP
             else if IPProtocol k = IPPROTOCOL_UDP then TX_PROTOCOL_UDP else 0) w))"

definition reroute :: "ETH_PKT \<Rightarrow> IP_WORLD \<Rightarrow> IP_WORLD" where
  "reroute k w =
     (let k = k\<lparr>szNextHopIp := None, szGatewayIP := None\<rparr>;
          e = (eev w)\<lparr>ee_pPacket := Some k, ee_dPacketSize := nw_dPacketSize k, ee_nEventType := NETWORK_OUT_EVENT,
            ee_nProtocolId := IP_PROTOCOL_V4, ee_nSubEventType := 0, ee_szOtherDetails := NoDetails\<rparr>
      in upd_ip_metrics (\<lambda>m. m\<lparr>nPacketForwarded := nPacketForwarded m + 1\<rparr>) (add_ip_event e (w\<lparr>eev := e\<rparr>)))"

definition take_off_header :: "ETH_PKT \<Rightarrow> ETH_PKT" where
  "take_off_header k = k\<lparr>nTTL := nTTL k - 1, nw_dOverhead := nw_dOverhead k - IPV4_HEADER_SIZE,
     nw_dPacketSize := nw_dPacketSize k - IPV4_HEADER_SIZE\<rparr>"

definition act_on_packet :: "IP_ENV \<Rightarrow> IP_CALLS \<Rightarrow> IP_WORLD \<Rightarrow> IP_WORLD option" where
  "act_on_packet E C w = do {
     k \<leftarrow> ee_pPacket (eev w);
     k \<leftarrow> fn_NetSim_NAT_NetworkIn E (ip_device w) k;
     (action, w) \<leftarrow> decide_action_for_packet E C k (ip_device w) (set_event_packet k w);
     (case action of
        ACTION_DROP \<Rightarrow> Some (drop_event_packet w)
      | ACTION_MOVEUP \<Rightarrow> move_up E C k w
      | ACTION_REROUTE \<Rightarrow> Some (reroute k w)) }"

definition inbound :: "IP_ENV \<Rightarrow> IP_CALLS \<Rightarrow> IP_WORLD \<Rightarrow> IP_WORLD option" where
  "inbound E C w = do {
     k \<leftarrow> ee_pPacket (eev w);
     verdict \<leftarrow> NETWORK_Firewall E (ip_device w) (ip_interface w) k ACLTYPE_INBOUND w;
     if verdict = ACLACTION_DENY
     then Some (drop_event_packet (upd_ip_metrics (\<lambda>m. m\<lparr>nFirewallBlocked := nFirewallBlocked m + 1\<rparr>) w))
     else do {
       w \<leftarrow> (if nRoutingProtocolId E (ip_device w) \<noteq> 0 then fnCallProtocol C (nRoutingProtocolId E (ip_device w)) w else Some w);
       if ee_pPacket (eev w) = None then Some w else act_on_packet E C w } }"

definition network_in :: "IP_ENV \<Rightarrow> IP_CALLS \<Rightarrow> IP_WORLD \<Rightarrow> IP_WORLD option" where
  "network_in E C w = do {
     let d = ip_device w;
     let i = ip_interface w;
     w \<leftarrow> (if i \<noteq> 0 \<and> nLocalNetworkProtocol E d i \<noteq> 0 then fnCallProtocol C (nLocalNetworkProtocol E d i) w else Some w);
     (case ee_pPacket (eev w) of
        None \<Rightarrow> Some w
      | Some k \<Rightarrow> do {
          let d = ip_device w;
          let i = ip_interface w;
          gateway \<leftarrow> szGatewayIP k;
          my \<leftarrow> ip_szAddress E d i;
          if \<not> IN_SAME_NETWORK E gateway my (ip_szSubnetMask E d i) (ip_prefix_len E d i) then Some w
          else do {
            let k = take_off_header k;
            let w = set_event_packet k w;
            v \<leftarrow> ip_dev w d;
            w \<leftarrow> (if nVPNStatus v \<noteq> VPN_DISABLE \<and> nPacketFlag k = PACKET_VPN then fn_NetSim_IP_VPN_Run C w else Some w);
            if ee_pPacket (eev w) = None then Some w else inbound E C w } }) }"

section \<open>The events of the library\<close>

text \<open>\<open>ip_timer\<close> stands for the timers of IGMP and PIM; the table timer only redraws the table.\<close>

definition ip_timer_event :: "IP_ENV \<Rightarrow> IP_CALLS \<Rightarrow> IP_WORLD \<Rightarrow> IP_WORLD option" where
  "ip_timer_event E C w =
     (let sub = ee_nSubEventType (eev w) in
      if sub = EVENT_ICMP_POLL then fn_NetSim_IP_ICMP_POLL E w
      else if sub = EVENT_ADVERTISE_ROUTER then fn_NetSim_IP_ICMP_AdvertiseRouter E w
      else if sub = SUBEVENT_JOIN_MULTICAST_GROUP \<or> EVENT_ADVERTISE_ROUTER < sub \<and> sub < EVENT_IP_INIT_TABLE then ip_timer C w
      else if sub = EVENT_IP_INIT_TABLE then Some w
      else if sub = EVENT_ICMP_SEND_ECHO then icmp_send_echo_request E w
      else Some (ip_error w))"

definition fn_NetSim_IP_Run :: "IP_ENV \<Rightarrow> IP_CALLS \<Rightarrow> IP_WORLD \<Rightarrow> IP_WORLD option" where
  "fn_NetSim_IP_Run E C w = (case ee_nEventType (eev w) of
       NETWORK_OUT_EVENT \<Rightarrow> network_out E C w
     | NETWORK_IN_EVENT \<Rightarrow> network_in E C w
     | TIMER_EVENT \<Rightarrow> ip_timer_event E C w
     | _ \<Rightarrow> Some (ip_error w))"

end
