(* ===== verification/Ip_Tables.thy ===== *)
theory Ip_Tables
  imports Ip_Run Ip_Match
begin

text \<open>
  The entries of the routing tables stay well formed: an interface of a route is an interface of the device,
  with its own address.  Every event that the library handles keeps this.
\<close>

section \<open>Typed tables\<close>

definition typed_interfaces :: "IP_ENV \<Rightarrow> NETSIM_ID \<Rightarrow> (NETSIM_IPAddress \<times> NETSIM_ID) list \<Rightarrow> bool" where
  "typed_interfaces E d ps \<longleftrightarrow> (\<forall>(a, i) \<in> set ps. ip_szAddress E d i = Some a)"

definition typed_table :: "IP_ENV \<Rightarrow> NETSIM_ID \<Rightarrow> IP_ROUTINGTABLE list \<Rightarrow> bool" where
  "typed_table E d ts \<longleftrightarrow> (\<forall>t \<in> set ts. typed_interfaces E d (ir_interfaces t))"

definition typed :: "IP_ENV \<Rightarrow> IP_WORLD \<Rightarrow> bool" where
  "typed E w \<longleftrightarrow> (\<forall>d. typed_table E d (ip_tab w d))"

text \<open>The functions of the library on tables bring in no interface that the caller does not give.\<close>

definition tables_lib :: "IP_ENV \<Rightarrow> bool" where
  "tables_lib E \<longleftrightarrow>
     (\<forall>r ts. \<forall>t \<in> set (iptable_add E r ts). \<forall>p \<in> set (ir_interfaces t).
        p \<in> set (nr_interfaces r) \<or> (\<exists>u \<in> set ts. p \<in> set (ir_interfaces u)))
     \<and> (\<forall>a m ts. set (iptable_delete E a m ts) \<subseteq> set ts)"

definition keeps_typed :: "IP_ENV \<Rightarrow> (IP_WORLD \<Rightarrow> IP_WORLD option) \<Rightarrow> bool" where
  "keeps_typed E f \<longleftrightarrow> (\<forall>w w'. f w = Some w' \<longrightarrow> typed E w \<longrightarrow> typed E w')"

text \<open>What the other protocols must keep.\<close>

definition typed_calls :: "IP_ENV \<Rightarrow> IP_CALLS \<Rightarrow> bool" where
  "typed_calls E C \<longleftrightarrow> (\<forall>p. keeps_typed E (fnCallProtocol C p)) \<and> (\<forall>d f. routerFunction C d = Some f \<longrightarrow> keeps_typed E f)
     \<and> keeps_typed E (fn_NetSim_IP_VPN_Run C) \<and> keeps_typed E (process_igmp_packet C) \<and> keeps_typed E (process_pim_packet C)
     \<and> keeps_typed E (ip_timer C) \<and> (\<forall>p d. keeps_typed E (CallICMPErrorFun C p d))
     \<and> (\<forall>k d. keeps_typed E (\<lambda>w. map_option snd (pim_decide_action C k d w)))
     \<and> (\<forall>d a k. keeps_typed E (\<lambda>w. map_option snd (host_is_ip_present_in_db C d a k w)))"

lemma typed_same: "ip_tab w' = ip_tab w \<Longrightarrow> typed E w \<Longrightarrow> typed E w'"
  by (simp add: typed_def)

lemma typed_simps [simp]:
  "typed E (add_ip_event e w) = typed E w" "typed E (ip_error w) = typed E w" "typed E (upd_ip_metrics f w) = typed E w"
  "typed E (drop_event_packet w) = typed E w" "typed E (set_event_packet k w) = typed E w" "typed E (w\<lparr>eev := e\<rparr>) = typed E w"
  "typed E (set_ping n h w) = typed E w" "typed E (w\<lparr>eev := e, ip_drawn := x\<rparr>) = typed E w"
  "typed E (w\<lparr>eth_access := b, waiting := q, wnext := p\<rparr>) = typed E w" "typed E (w\<lparr>ip_dev := g\<rparr>) = typed E w"
  by (simp_all add: typed_def add_ip_event_def ip_error_def upd_ip_metrics_def drop_event_packet_def set_event_packet_def set_ping_def)

lemma typed_set_tab: "typed E w \<Longrightarrow> typed_table E d ts \<Longrightarrow> typed E (w\<lparr>ip_tab := (ip_tab w)(d := ts)\<rparr>)"
  by (simp add: typed_def)

lemma typed_entry: "typed E w \<Longrightarrow> get_entry d n w = Some t \<Longrightarrow> typed_interfaces E d (ir_interfaces t)"
  by (auto simp: typed_def typed_table_def get_entry_def split: if_splits)

lemma typed_set_entry: "typed E w \<Longrightarrow> typed_interfaces E d (ir_interfaces t) \<Longrightarrow> typed E (set_entry d n t w)"
  unfolding set_entry_def
  by (rule typed_set_tab) (auto simp: typed_def typed_table_def dest!: subsetD [OF set_update_subset_insert])

lemma typed_upd_dev: "upd_ip_dev d f w = Some w' \<Longrightarrow> typed E w' = typed E w"
  by (auto elim!: upd_ip_dev_SomeE)

section \<open>Routing\<close>

lemma typed_update_route: "update_route_entry E d l dest w = Some (hops, w') \<Longrightarrow> typed E w \<longrightarrow> typed E w'"
  by (auto simp: update_route_entry_def Let_def intro!: typed_set_entry dest: typed_entry elim!: bind_SomeE split: list.splits if_splits)

lemma typed_interfaces_sub: "typed_interfaces E d ps \<Longrightarrow> set qs \<subseteq> set ps \<Longrightarrow> typed_interfaces E d qs"
  by (auto simp: typed_interfaces_def)

lemma typed_subnet: "isCorrectRouteForSubnet E d n dest src w = Some (c, w') \<Longrightarrow> typed E w \<longrightarrow> typed E w'"
  by (auto simp: isCorrectRouteForSubnet_def Let_def elim!: bind_SomeE split: if_splits
      intro!: typed_set_entry elim!: typed_interfaces_sub [OF typed_entry] subsetD [OF set_drop_subset])

lemma typed_choose_loop: "choose_loop E d dest src ms w = Some (c, w') \<Longrightarrow> typed E w \<longrightarrow> typed E w'"
  by (induction ms arbitrary: w) (auto simp: isCorrectRoute_def dest!: typed_subnet elim!: bind_SomeE split: option.splits if_splits)

lemma typed_multicast_route: "multicast_update_route_entry E d l dest src w = Some (hops, w') \<Longrightarrow> typed E w \<longrightarrow> typed E w'"
  by (auto simp: multicast_update_route_entry_def choose_match_for_reserved_address_def multicast_hops_def Let_def
      intro!: typed_set_entry elim: typed_entry dest!: typed_choose_loop elim!: bind_SomeE split: option.splits CHOSEN.splits if_splits;
      rule typed_entry [rotated]; assumption)

lemma typed_route:
  "fn_NetSim_IP_RoutePacket E k d w = Some (hops, w') \<Longrightarrow> typed E w \<longrightarrow> typed E w'"
  "fn_NetSim_IP_RoutePacketViaStaticEntry E k d w = Some (hops, w') \<Longrightarrow> typed E w \<longrightarrow> typed E w'"
  by (auto simp: fn_NetSim_IP_RoutePacket_def fn_NetSim_IP_RoutePacketViaStaticEntry_def lookup_unicast_def lookup_multicast_def
      dest!: typed_update_route typed_multicast_route elim!: bind_SomeE split: if_splits)

section \<open>Sending\<close>

lemma typed_access: "to_access_buffer E d i k w = Some w' \<Longrightarrow> typed E w' = typed E w"
  by (auto simp: to_access_buffer_def Let_def elim!: bind_SomeE split: if_splits)

lemma typed_vpn: "call_vpn C own k w = Some (k', w') \<Longrightarrow> typed_calls E C \<Longrightarrow> typed E w \<longrightarrow> typed E w'"
  by (auto simp: call_vpn_def typed_calls_def keeps_typed_def Let_def elim!: bind_SomeE split: if_splits)

lemma typed_protocol: "fnCallProtocol C p w = Some w' \<Longrightarrow> typed_calls E C \<Longrightarrow> typed E w \<longrightarrow> typed E w'"
  by (auto simp: typed_calls_def keeps_typed_def)

lemma typed_pass: "pass_to_lower_layer E C own k hop w = Some w' \<Longrightarrow> typed_calls E C \<Longrightarrow> typed E w \<longrightarrow> typed E w'"
  by (auto simp: pass_to_lower_layer_def Let_def typed_access dest!: typed_protocol [where E = E] typed_vpn [where E = E]  elim!: bind_SomeE split: if_splits)

lemma typed_hops: "send_hops E C k hops w = Some w' \<Longrightarrow> typed_calls E C \<Longrightarrow> typed E w \<longrightarrow> typed E w'"
  by (induction hops arbitrary: w) (auto simp: Let_def dest!: typed_pass [where E = E] elim!: bind_SomeE)

lemma typed_routed: "send_routed E C k w = Some w' \<Longrightarrow> typed_calls E C \<Longrightarrow> typed E w \<longrightarrow> typed E w'"
  by (auto simp: send_routed_def dest!: typed_hops [where E = E] elim!: bind_SomeE)

lemma typed_unreachable: "fn_NetSim_IP_ICMP_GenerateDstUnreachableMsg E w = Some w' \<Longrightarrow> typed E w' = typed E w"
  by (auto simp: fn_NetSim_IP_ICMP_GenerateDstUnreachableMsg_def Let_def elim!: bind_SomeE split: if_splits)

lemma typed_by_table: "route_by_table E C k w = Some w' \<Longrightarrow> typed_calls E C \<Longrightarrow> typed E w \<longrightarrow> typed E w'"
  by (auto simp: route_by_table_def Let_def typed_unreachable dest!: typed_hops [where E = E] typed_route elim!: bind_SomeE split: if_splits)

lemma typed_by_protocol: "route_by_protocol E C w = Some w' \<Longrightarrow> typed_calls E C \<Longrightarrow> typed E w \<longrightarrow> typed E w'"
  by (auto simp: route_by_protocol_def dest!: typed_by_table [where E = E] typed_routed [where E = E] typed_protocol [where E = E] elim!: bind_SomeE split: if_splits option.splits)

lemma typed_by_function: "route_by_function E C w = Some w' \<Longrightarrow> typed_calls E C \<Longrightarrow> typed E w \<longrightarrow> typed E w'"
proof
  assume r: "route_by_function E C w = Some w'" and calls: "typed_calls E C" and t: "typed E w"
  obtain w1 where w1: "(case routerFunction C (ip_device w) of Some f \<Rightarrow> f w | None \<Rightarrow> Some w) = Some w1"
    "(case ee_pPacket (eev w1) of None \<Rightarrow> Some w1
      | Some k \<Rightarrow> (if szNextHopIp k \<noteq> None then send_routed E C k w1 else route_by_protocol E C w1)) = Some w'"
    using r by (auto simp: route_by_function_def elim!: bind_SomeE)
  have "typed E w1"
    using w1(1) calls t by (auto simp: typed_calls_def keeps_typed_def split: option.splits)
  with w1(2) calls show "typed E w'"
    by (auto dest!: typed_by_protocol [where E = E] typed_routed [where E = E] split: option.splits if_splits)
qed

lemma typed_network_out: "network_out E C w = Some w' \<Longrightarrow> typed_calls E C \<Longrightarrow> typed E w \<longrightarrow> typed E w'"
  by (auto simp: network_out_def Let_def expire_ttl_def dest!: typed_by_function [where E = E] typed_hops [where E = E] typed_routed [where E = E] typed_protocol [where E = E] typed_route
      elim!: bind_SomeE split: if_splits)

section \<open>Control messages\<close>

lemma typed_generate: "GenerateEchoRequest E s t src target tm p b ttl w = (k, w') \<Longrightarrow> typed F w' = typed F w"
  by (auto simp: GenerateEchoRequest_def Let_def typed_def)

lemma typed_for_each:
  "for_each f xs w = Some w' \<Longrightarrow> (\<And>x a b. f x a = Some b \<Longrightarrow> typed E b = typed E a) \<Longrightarrow> typed E w' = typed E w"
  using for_each_keeps [where P = "\<lambda>s. typed E s = typed E w" and f = f] by metis

lemma typed_poll: "fn_NetSim_IP_ICMP_POLL E w = Some w' \<Longrightarrow> typed E w' = typed E w"
proof -
  have one: "poll_gateway E t n a = Some b \<Longrightarrow> typed E b = typed E a" for t n a b
    by (auto simp: poll_gateway_def Let_def dest!: typed_upd_dev [where E = E] typed_generate [where F = E] elim!: bind_SomeE split: prod.splits)
  then show "fn_NetSim_IP_ICMP_POLL E w = Some w' \<Longrightarrow> typed E w' = typed E w"
    by (auto simp: fn_NetSim_IP_ICMP_POLL_def Let_def dest!: typed_for_each [OF _ one] elim!: bind_SomeE)
qed

lemma typed_advertise: "fn_NetSim_IP_ICMP_AdvertiseRouter E w = Some w' \<Longrightarrow> typed E w' = typed E w"
proof -
  have one: "advertise_on E t k i a = Some b \<Longrightarrow> typed E b = typed E a" for t k i a b
    by (auto simp: advertise_on_def Let_def elim!: bind_SomeE)
  then show "fn_NetSim_IP_ICMP_AdvertiseRouter E w = Some w' \<Longrightarrow> typed E w' = typed E w"
    by (auto simp: fn_NetSim_IP_ICMP_AdvertiseRouter_def Let_def dest!: typed_for_each [OF _ one] elim!: bind_SomeE)
qed

lemma typed_ping: "icmp_send_echo_request E w = Some w' \<Longrightarrow> typed E w' = typed E w"
  by (auto simp: icmp_send_echo_request_def ping_send_def ping_again_def Let_def dest!: typed_generate [where F = E]
      elim!: bind_SomeE split: if_splits prod.splits)

lemma typed_echo: "fn_NetSim_IP_ICMP_EchoRequest E w = Some w' \<Longrightarrow> typed E w' = typed E w"
  "fn_NetSim_IP_ICMP_EchoReply E w = Some w' \<Longrightarrow> typed E w' = typed E w"
  by (auto simp: fn_NetSim_IP_ICMP_EchoRequest_def fn_NetSim_IP_ICMP_EchoReply_def replyRecevied_def Let_def
      dest!: typed_upd_dev [where E = E] elim!: bind_SomeE split: option.splits if_splits)

lemma typed_add:
  "tables_lib E \<Longrightarrow> typed E w \<Longrightarrow> typed_interfaces E d (nr_interfaces r) \<Longrightarrow> typed E (w\<lparr>ip_tab := (ip_tab w)(d := iptable_add E r (ip_tab w d))\<rparr>)"
  by (rule typed_set_tab) (auto simp: typed_def typed_table_def typed_interfaces_def tables_lib_def, blast)

lemma deleted_sub: "t \<in> set (iptable_delete E a m ts) \<Longrightarrow> tables_lib E \<Longrightarrow> t \<in> set ts"
  unfolding tables_lib_def by blast

lemma typed_delete: "tables_lib E \<Longrightarrow> typed E w \<Longrightarrow> typed E (w\<lparr>ip_tab := (ip_tab w)(d := iptable_delete E a m (ip_tab w d))\<rparr>)"
  by (rule typed_set_tab) (auto simp: typed_def typed_table_def dest: deleted_sub)

lemma typed_advertised:
  "fn_NetSim_IP_ICMP_ProcessRouterAdvertisement E w = Some w' \<Longrightarrow> tables_lib E \<Longrightarrow> typed E w \<longrightarrow> typed E w'"
  by (auto simp: fn_NetSim_IP_ICMP_ProcessRouterAdvertisement_def Let_def typed_interfaces_def intro!: typed_add elim!: bind_SomeE split: if_splits)

lemma typed_error: "CallICMPErrorFun C p d w = Some w' \<Longrightarrow> typed_calls E C \<Longrightarrow> typed E w \<longrightarrow> typed E w'"
  by (auto simp: typed_calls_def keeps_typed_def)

lemma typed_failed:
  "fn_NetSim_IP_ICMP_ProcessDestUnreachableMsg E C w = Some w' \<Longrightarrow> typed_calls E C \<Longrightarrow> tables_lib E \<Longrightarrow> typed E w \<longrightarrow> typed E w'"
  by (auto simp: fn_NetSim_IP_ICMP_ProcessDestUnreachableMsg_def Let_def typed_delete dest!: typed_error [where E = E] elim!: bind_SomeE split: if_splits)

lemma typed_icmp: "process_icmp_packet E C w = Some w' \<Longrightarrow> typed_calls E C \<Longrightarrow> tables_lib E \<Longrightarrow> typed E w \<longrightarrow> typed E w'"
  by (auto simp: process_icmp_packet_def typed_echo dest!: typed_advertised typed_failed [where E = E] elim!: bind_SomeE split: if_splits)

section \<open>Receiving\<close>

lemma typed_pim: "pim_decide_action C k d w = Some (a, w') \<Longrightarrow> typed_calls E C \<Longrightarrow> typed E w \<longrightarrow> typed E w'"
  unfolding typed_calls_def keeps_typed_def by (metis (no_types, lifting) option.simps(9) snd_conv)

lemma typed_host: "host_is_ip_present_in_db C d ip k w = Some (a, w') \<Longrightarrow> typed_calls E C \<Longrightarrow> typed E w \<longrightarrow> typed E w'"
  unfolding typed_calls_def keeps_typed_def by (metis (no_types, lifting) option.simps(9) snd_conv)

lemma typed_decide:
  "decide_action_for_packet E C k d w = Some (a, w') \<Longrightarrow> typed_calls E C \<Longrightarrow> typed E w \<longrightarrow> typed E w'"
  by (auto simp: decide_action_for_packet_def check_ip_in_multicastgroup_def dest!: typed_pim [where E = E] typed_host [where E = E] split: if_splits)

lemma typed_move_up: "move_up E C k w = Some w' \<Longrightarrow> typed_calls E C \<Longrightarrow> tables_lib E \<Longrightarrow> typed E w \<longrightarrow> typed E w'"
  by (auto simp: move_up_def transport_in_def Let_def dest!: typed_icmp split: if_splits) (auto simp: typed_calls_def keeps_typed_def)

lemma typed_act: "act_on_packet E C w = Some w' \<Longrightarrow> typed_calls E C \<Longrightarrow> tables_lib E \<Longrightarrow> typed E w \<longrightarrow> typed E w'"
  by (auto simp: act_on_packet_def reroute_def Let_def dest!: typed_move_up typed_decide [where E = E] elim!: bind_SomeE
      split: IP_PROTOCOL_ACTION.splits)

lemma typed_inbound: "inbound E C w = Some w' \<Longrightarrow> typed_calls E C \<Longrightarrow> tables_lib E \<Longrightarrow> typed E w \<longrightarrow> typed E w'"
  by (auto simp: inbound_def dest!: typed_act typed_protocol [where E = E] elim!: bind_SomeE split: if_splits)

lemma typed_vpn_run: "fn_NetSim_IP_VPN_Run C w = Some w' \<Longrightarrow> typed_calls E C \<Longrightarrow> typed E w \<longrightarrow> typed E w'"
  by (auto simp: typed_calls_def keeps_typed_def)

lemma typed_network_in: "network_in E C w = Some w' \<Longrightarrow> typed_calls E C \<Longrightarrow> tables_lib E \<Longrightarrow> typed E w \<longrightarrow> typed E w'"
  by (auto simp: network_in_def Let_def dest!: typed_inbound typed_protocol [where E = E] typed_vpn_run [where E = E] elim!: bind_SomeE
      split: if_splits option.splits)

lemma typed_timer: "ip_timer_event E C w = Some w' \<Longrightarrow> typed_calls E C \<Longrightarrow> typed E w \<longrightarrow> typed E w'"
  by (auto simp: ip_timer_event_def Let_def typed_poll typed_advertise typed_ping split: if_splits)
    (auto simp: typed_calls_def keeps_typed_def)

lemma typed_run: "fn_NetSim_IP_Run E C w = Some w' \<Longrightarrow> typed_calls E C \<Longrightarrow> tables_lib E \<Longrightarrow> typed E w \<longrightarrow> typed E w'"
  by (auto simp: fn_NetSim_IP_Run_def dest!: typed_network_out typed_network_in typed_timer split: EVENT_TYPE.splits)

section \<open>Every event, every route\<close>

definition ip_run :: "IP_ENV \<Rightarrow> IP_CALLS \<Rightarrow> ETH_EVENT list \<Rightarrow> IP_WORLD \<Rightarrow> IP_WORLD option" where
  "ip_run E C = for_each (\<lambda>e w. fn_NetSim_IP_Run E C (w\<lparr>eev := e\<rparr>))"

definition typed_hop :: "IP_ENV \<Rightarrow> NETSIM_ID \<Rightarrow> HOP \<Rightarrow> bool" where
  "typed_hop E d h \<longleftrightarrow> ip_szAddress E d (hop_interfaceId h) = Some (hop_gateway h)"

lemma typed_hop_by: "typed_interfaces E d ps \<Longrightarrow> p \<in> set ps \<Longrightarrow> typed_hop E d (hop_by t dest p)"
  by (auto simp: typed_interfaces_def typed_hop_def hop_by_def)

lemma hops_unicast: "update_route_entry E d l dest w = Some (hops, w') \<Longrightarrow> typed E w \<Longrightarrow> h \<in> set hops \<Longrightarrow> typed_hop E d h"
  by (auto 4 5 simp: update_route_entry_def Let_def elim!: bind_SomeE intro: typed_hop_by [OF typed_entry] split: list.splits)

lemma chosen_subnet:
  "isCorrectRouteForSubnet E d n dest src w = Some (Some (InTab t), w') \<Longrightarrow> typed E w \<Longrightarrow> typed_interfaces E d (ir_interfaces t)"
  by (auto simp: isCorrectRouteForSubnet_def Let_def elim!: bind_SomeE split: if_splits elim!: typed_interfaces_sub [OF typed_entry])

lemma chosen_loop:
  "choose_loop E d dest src ms w = Some (Some (InTab t), w') \<Longrightarrow> typed E w \<Longrightarrow> typed_interfaces E d (ir_interfaces t)"
  by (induction ms arbitrary: w) (auto 4 5 simp: isCorrectRoute_def dest: chosen_subnet typed_subnet [rule_format] elim!: bind_SomeE split: option.splits if_splits)

lemma hops_multicast:
  assumes "multicast_update_route_entry E d l dest src w = Some (hops, w')" "typed E w" "h \<in> set hops"
  shows "typed_hop E d h"
proof -
  from assms(1) obtain c w1 where c: "choose_match_for_reserved_address E d l dest src w = Some (c, w1)"
    and hops: "(case c of None \<Rightarrow> Some ([], w1)
      | Some (InTab t) \<Rightarrow> Some (snd (multicast_hops E (ip_interface w1) dest t), w1)
      | Some (InTable n) \<Rightarrow> do { t \<leftarrow> get_entry d n w1; let (t, hops) = multicast_hops E (ip_interface w1) dest t;
          Some (hops, set_entry d n t w1) }) = Some (hops, w')"
    by (auto simp: multicast_update_route_entry_def elim!: bind_SomeE)
  have w1: "typed E w1"
    using c assms(2) by (auto simp: choose_match_for_reserved_address_def dest!: typed_choose_loop split: if_splits)
  have "c = Some (InTab t) \<Longrightarrow> typed_interfaces E d (ir_interfaces t)" for t
    using c assms(2) by (auto simp: choose_match_for_reserved_address_def dest: chosen_loop split: if_splits list.splits)
  then have "\<exists>t. typed_interfaces E d (ir_interfaces t) \<and> set hops \<subseteq> set (snd (multicast_hops E (ip_interface w1) dest t))"
    if "c \<noteq> None"
    using that hops typed_entry [OF w1] by (auto split: CHOSEN.splits prod.splits elim!: bind_SomeE) force+
  moreover have "c = None \<Longrightarrow> hops = []"
    using hops by simp
  ultimately show ?thesis
    using assms(3) by (fastforce simp: multicast_hops_def Let_def intro: typed_hop_by)
qed


end
