(* ===== verification/Ip_Journey.thy ===== *)
theory Ip_Journey
  imports Ip_Run
begin

text \<open>
  The journey of a packet through routers: the time to live bounds it; a packet filter that stops one copy of
  a packet stops the copies that follow.
\<close>

section \<open>Routers with static routes\<close>

text \<open>No other protocol takes part in the network layer, and asking whether a host is in a group changes nothing.\<close>

definition static_only :: "IP_ENV \<Rightarrow> IP_CALLS \<Rightarrow> bool" where
  "static_only E C \<longleftrightarrow> (\<forall>d i. nLocalNetworkProtocol E d i = 0) \<and> (\<forall>d. nRoutingProtocolId E d = 0)
     \<and> (\<forall>d. routerFunction C d = None) \<and> (\<forall>k. nTTL (eth_CopyPacket (ip_eth E) k) = nTTL k)
     \<and> (\<forall>d ip k w a w'. host_is_ip_present_in_db C d ip k w = Some (a, w') \<longrightarrow> w' = w)"

definition transport_packet :: "ETH_PKT \<Rightarrow> bool" where
  "transport_packet k \<longleftrightarrow> IPProtocol k \<notin> {IPPROTOCOL_ICMP, IPPROTOCOL_IGMP, IPPROTOCOL_PIM}
     \<and> nControlDataType k div 100 \<noteq> ARP_PROTOCOL"

lemma static_only_simps:
  assumes "static_only E C"
  shows "nLocalNetworkProtocol E d i = 0" "nRoutingProtocolId E d = 0" "routerFunction C d = None"
    "nTTL (eth_CopyPacket (ip_eth E) k) = nTTL k"
  using assms by (simp_all add: static_only_def)

section \<open>Packets that leave\<close>

text \<open>What a step puts in the buffers of the interfaces has the time to live \<open>a\<close>.\<close>

definition sends_ttl :: "u8 \<Rightarrow> IP_WORLD \<Rightarrow> IP_WORLD \<Rightarrow> bool" where
  "sends_ttl a w w' \<longleftrightarrow> (\<forall>p k. waiting w' p = Some k \<longrightarrow> waiting w p = Some k \<or> nTTL k = a)"

lemma sends_ttl_refl: "waiting w' = waiting w \<Longrightarrow> sends_ttl a w w'"
  by (simp add: sends_ttl_def)

lemma sends_ttl_trans: "sends_ttl a u v \<Longrightarrow> sends_ttl a v w \<Longrightarrow> sends_ttl a u w"
  by (auto simp: sends_ttl_def)

lemma sends_ttl_from: "sends_ttl a v w \<Longrightarrow> waiting v = waiting u \<Longrightarrow> sends_ttl a u w"
  by (simp add: sends_ttl_def)

lemma waiting_simps [simp]:
  "waiting (add_ip_event e w) = waiting w" "waiting (ip_error w) = waiting w" "waiting (upd_ip_metrics f w) = waiting w"
  "waiting (drop_event_packet w) = waiting w" "waiting (set_event_packet k w) = waiting w" "waiting (set_entry d n t w) = waiting w"
  by (simp_all add: add_ip_event_def ip_error_def upd_ip_metrics_def drop_event_packet_def set_event_packet_def set_entry_def)

lemma sends_ttl_simps [simp]:
  "sends_ttl a w w"
  "sends_ttl a (add_ip_event e w) w' = sends_ttl a w w'" "sends_ttl a w (add_ip_event e w') = sends_ttl a w w'"
  "sends_ttl a (ip_error w) w' = sends_ttl a w w'" "sends_ttl a w (ip_error w') = sends_ttl a w w'"
  "sends_ttl a (upd_ip_metrics f w) w' = sends_ttl a w w'" "sends_ttl a w (upd_ip_metrics f w') = sends_ttl a w w'"
  "sends_ttl a (set_event_packet k w) w' = sends_ttl a w w'" "sends_ttl a w (drop_event_packet w') = sends_ttl a w w'"
  "sends_ttl a w (w'\<lparr>eev := x\<rparr>) = sends_ttl a w w'"
  by (simp_all add: sends_ttl_def)

lemma lower_target_ttl: "lower_target E k hop w = Some (k', n, i) \<Longrightarrow> nTTL k' = nTTL k"
  by (auto simp: lower_target_def Let_def elim!: bind_SomeE split: option.splits if_splits)

lemma access_ttl: "to_access_buffer E d i k w = Some w' \<Longrightarrow> sends_ttl (nTTL k) w w'"
  by (auto simp: to_access_buffer_def mac_addresses_def Let_def sends_ttl_def elim!: bind_SomeE split: if_splits)

lemma pass_ttl:
  assumes "pass_to_lower_layer E C own k hop w = Some w'" "static_only E C"
  shows "sends_ttl (nTTL k) w w'"
proof -
  have "nLocalNetworkProtocol E d i = 0" for d i
    using assms(2) by (simp add: static_only_def)
  then show ?thesis
    using assms(1) by (auto simp: pass_to_lower_layer_def lower_header_def PROTOCOL_VPN_def Let_def
        dest!: lower_target_ttl access_ttl elim!: bind_SomeE split: if_splits)
qed

lemma hops_ttl: "send_hops E C k hops w = Some w' \<Longrightarrow> static_only E C \<Longrightarrow> sends_ttl (nTTL k) w w'"
proof (induction hops arbitrary: w)
  case (Cons h hs)
  let ?p = "(if hs = [] then k else eth_CopyPacket (ip_eth E) k)\<lparr>szNextHopIp := Some (hop_nextHop h)\<rparr>"
  from Cons.prems obtain w1 where w1: "pass_to_lower_layer E C (hs = []) ?p (Some h) w = Some w1" "send_hops E C k hs w1 = Some w'"
    by (auto simp: Let_def elim!: bind_SomeE)
  have "nTTL ?p = nTTL k"
    using Cons.prems(2) by (simp add: static_only_simps)
  with pass_ttl [OF w1(1) Cons.prems(2)] Cons.IH [OF w1(2) Cons.prems(2)] show ?case
    by (auto intro: sends_ttl_trans)
qed (simp add: sends_ttl_refl)

lemma waiting_update: "update_route_entry E d l dest w = Some (hops, w') \<Longrightarrow> waiting w' = waiting w \<and> eev w' = eev w"
  by (auto simp: update_route_entry_def Let_def set_entry_def elim!: bind_SomeE split: list.splits)

lemma waiting_subnet: "isCorrectRouteForSubnet E d n dest src w = Some (c, w') \<Longrightarrow> waiting w' = waiting w \<and> eev w' = eev w"
  by (auto simp: isCorrectRouteForSubnet_def Let_def set_entry_def elim!: bind_SomeE split: if_splits)

lemma waiting_choose: "choose_loop E d dest src ms w = Some (c, w') \<Longrightarrow> waiting w' = waiting w \<and> eev w' = eev w"
  by (induction ms arbitrary: w) (auto simp: isCorrectRoute_def dest!: waiting_subnet elim!: bind_SomeE split: option.splits if_splits)

lemma waiting_multicast: "multicast_update_route_entry E d l dest src w = Some (hops, w') \<Longrightarrow> waiting w' = waiting w \<and> eev w' = eev w"
  by (auto simp: multicast_update_route_entry_def choose_match_for_reserved_address_def Let_def set_entry_def
      dest!: waiting_choose elim!: bind_SomeE split: option.splits CHOSEN.splits if_splits prod.splits)

lemma waiting_route:
  "fn_NetSim_IP_RoutePacket E k d w = Some (hops, w') \<Longrightarrow> waiting w' = waiting w \<and> eev w' = eev w"
  "fn_NetSim_IP_RoutePacketViaStaticEntry E k d w = Some (hops, w') \<Longrightarrow> waiting w' = waiting w \<and> eev w' = eev w"
  by (auto simp: fn_NetSim_IP_RoutePacket_def fn_NetSim_IP_RoutePacketViaStaticEntry_def lookup_unicast_def lookup_multicast_def
      dest!: waiting_update waiting_multicast elim!: bind_SomeE split: if_splits)

lemma routed_ttl: "send_routed E C k w = Some w' \<Longrightarrow> static_only E C \<Longrightarrow> sends_ttl (nTTL k) w w'"
  by (auto simp: send_routed_def dest: hops_ttl elim!: bind_SomeE)

lemma by_function_ttl:
  assumes "route_by_function E C w = Some w'" "static_only E C" "ee_pPacket (eev w) = Some k"
  shows "sends_ttl (nTTL k) w w'"
proof -
  have table: "sends_ttl (nTTL k) w w'" if run: "route_by_table E C k w = Some w'"
  proof -
    from run obtain hops w1 where w1: "fn_NetSim_IP_RoutePacket E k (ip_device w) w = Some (hops, w1)"
      "hops = [] \<or> send_hops E C k hops w1 = Some w'" "hops \<noteq> [] \<or> waiting w' = waiting w1"
      by (auto simp: route_by_table_def fn_NetSim_IP_ICMP_GenerateDstUnreachableMsg_def Let_def elim!: bind_SomeE split: if_splits)
    with waiting_route(1) [OF w1(1)] hops_ttl [OF _ assms(2), of k hops w1 w'] show ?thesis
      by (auto simp: sends_ttl_def)
  qed
  show ?thesis
    using assms by (auto simp: route_by_function_def route_by_protocol_def static_only_def table dest: routed_ttl [OF _ assms(2)]
        split: if_splits)
qed

lemma stamp_ttl [simp]: "nTTL (stamp_packet t k) = nTTL k"
  by (simp add: stamp_packet_def Let_def split: option.split)

lemma nat_out_ttl: "fn_NetSim_NAT_NetworkOut E d k = Some k' \<Longrightarrow> nTTL k' = nTTL k"
  by (auto simp: fn_NetSim_NAT_NetworkOut_def add_new_dest_def split: list.splits option.splits if_splits)

lemma network_out_ttl:
  assumes "network_out E C w = Some w'" "static_only E C" "ee_pPacket (eev w) = Some k" "fnGetLocalNetworkProtocol (eev w) = Some 0"
  shows "if nTTL k = 0 then waiting w' = waiting w else sends_ttl (nTTL k) w w'"
proof (cases "nTTL k = 0")
  case True
  with assms(1,3,4) show ?thesis
    by (auto simp: network_out_def expire_ttl_def)
next
  case False
  define k1 where "k1 = stamp_packet (ip_now w) k"
  define w1 where "w1 = set_event_packet k1 w"
  have 1: "nTTL k1 = nTTL k" "waiting w1 = waiting w"
    by (simp_all add: k1_def w1_def)
  show ?thesis
  proof (cases "szNextHopIp k1 = None")
    case True
    have "network_out E C w = do {
        (hops, w) \<leftarrow> fn_NetSim_IP_RoutePacketViaStaticEntry E k1 (ip_device w1) w1;
        if hops \<noteq> [] then send_hops E C k1 hops w
        else do {
          k \<leftarrow> fn_NetSim_NAT_NetworkOut E (ip_device w) k1;
          let w = set_event_packet k w;
          (hops, w) \<leftarrow> fn_NetSim_IP_RoutePacketViaStaticEntry E k (ip_device w) w;
          if hops \<noteq> [] then send_hops E C k hops w
          else route_by_function E C w } }"
      using assms(3,4) False True by (simp add: network_out_def Let_def flip: k1_def w1_def)
    with assms(1) obtain hops w2 where 2:
      "fn_NetSim_IP_RoutePacketViaStaticEntry E k1 (ip_device w1) w1 = Some (hops, w2)"
      "(if hops \<noteq> [] then send_hops E C k1 hops w2
        else do {
          k \<leftarrow> fn_NetSim_NAT_NetworkOut E (ip_device w2) k1;
          let w = set_event_packet k w2;
          (hops, w) \<leftarrow> fn_NetSim_IP_RoutePacketViaStaticEntry E k (ip_device w) w;
          if hops \<noteq> [] then send_hops E C k hops w
          else route_by_function E C w }) = Some w'"
      by (auto elim!: bind_SomeE)
    have w2: "waiting w2 = waiting w"
      using waiting_route(2) [OF 2(1)] 1 by simp
    show ?thesis
    proof (cases "hops = []")
      case True
      with 2(2) obtain k3 hops3 w3 where 3: "fn_NetSim_NAT_NetworkOut E (ip_device w2) k1 = Some k3"
        "fn_NetSim_IP_RoutePacketViaStaticEntry E k3 (ip_device (set_event_packet k3 w2)) (set_event_packet k3 w2) = Some (hops3, w3)"
        "(if hops3 \<noteq> [] then send_hops E C k3 hops3 w3 else route_by_function E C w3) = Some w'"
        by (auto simp: Let_def elim!: bind_SomeE)
      have "waiting w3 = waiting w" "ee_pPacket (eev w3) = Some k3" "nTTL k3 = nTTL k"
        using waiting_route(2) [OF 3(2)] w2 nat_out_ttl [OF 3(1)] 1 by (simp_all add: set_event_packet_def)
      then have "sends_ttl (nTTL k) w3 w'"
        using 3(3) hops_ttl [OF _ assms(2), of k3 hops3 w3 w'] by_function_ttl [OF _ assms(2), of w3 w' k3] by (auto split: if_splits)
      with \<open>waiting w3 = waiting w\<close> False show ?thesis
        by (simp add: sends_ttl_from)
    next
      case nonempty: False
      then show ?thesis
        using 2(2) hops_ttl [OF _ assms(2), of k1 hops w2 w'] w2 1 False by (auto intro: sends_ttl_from)
    qed
  next
    case hop: False
    then have "send_routed E C k1 w1 = Some w'"
      using assms(1,3,4) False by (auto simp: network_out_def Let_def k1_def w1_def)
    from routed_ttl [OF this assms(2)] 1 False show ?thesis
      by (auto intro: sends_ttl_from)
  qed
qed

section \<open>Packets that arrive\<close>

text \<open>The packets that a step asks to send, with the time to live \<open>a\<close>, none of them for another protocol.\<close>

definition asks_ttl :: "u8 \<Rightarrow> IP_WORLD \<Rightarrow> IP_WORLD \<Rightarrow> bool" where
  "asks_ttl a w w' \<longleftrightarrow> (\<forall>e \<in> set (eadded w'). e \<in> set (eadded w) \<or> ee_nEventType e \<noteq> NETWORK_OUT_EVENT
     \<or> (fnGetLocalNetworkProtocol e = Some 0 \<and> (\<exists>k. ee_pPacket e = Some k \<and> nTTL k = a)))"

lemma asks_ttl_same: "eadded w' = eadded w \<Longrightarrow> asks_ttl a w w'"
  by (simp add: asks_ttl_def)

lemma asks_ttl_from: "asks_ttl a v w \<Longrightarrow> eadded v = eadded u \<Longrightarrow> asks_ttl a u w"
  by (simp add: asks_ttl_def)

lemma eadded_simps [simp]:
  "eadded (ip_error w) = eadded w" "eadded (upd_ip_metrics f w) = eadded w" "eadded (drop_event_packet w) = eadded w"
  "eadded (set_event_packet k w) = eadded w"
  by (simp_all add: ip_error_def upd_ip_metrics_def drop_event_packet_def set_event_packet_def)

lemma asks_ttl_simps [simp]:
  "asks_ttl a w w" "asks_ttl a (set_event_packet k w) w' = asks_ttl a w w'" "asks_ttl a w (set_event_packet k w') = asks_ttl a w w'"
  "asks_ttl a w (drop_event_packet w') = asks_ttl a w w'" "asks_ttl a w (upd_ip_metrics f w') = asks_ttl a w w'"
  by (simp_all add: asks_ttl_def)

lemma set_event_packet_sel [simp]:
  "ee_pPacket (eev (set_event_packet k w)) = Some k" "ip_device (set_event_packet k w) = ip_device w"
  "ip_interface (set_event_packet k w) = ip_interface w" "ip_dev (set_event_packet k w) = ip_dev w"
  by (simp_all add: set_event_packet_def)

lemma decide_keeps:
  assumes "decide_action_for_packet E C k d w = Some (a, w')" "static_only E C" "transport_packet k"
  shows "w' = w"
  using assms by (auto simp: decide_action_for_packet_def check_ip_in_multicastgroup_def transport_packet_def static_only_def
      isPIMPacket_def split: if_splits)

lemma reroute_asks: "transport_packet k \<Longrightarrow> asks_ttl (nTTL k) w (reroute k w)"
  by (auto simp: asks_ttl_def reroute_def Let_def upd_ip_metrics_def add_ip_event_def fnGetLocalNetworkProtocol_def
      transport_packet_def ARP_PROTOCOL_def)

lemma move_up_asks: "move_up E C k w = Some w' \<Longrightarrow> transport_packet k \<Longrightarrow> asks_ttl a w w'"
  by (auto simp: move_up_def transport_packet_def transport_in_def Let_def asks_ttl_def add_ip_event_def split: if_splits)

lemma nat_in_keeps:
  "fn_NetSim_NAT_NetworkIn E d k = Some k' \<Longrightarrow> nTTL k' = nTTL k \<and> transport_packet k' = transport_packet k"
  by (auto simp: fn_NetSim_NAT_NetworkIn_def remove_dest_def transport_packet_def split: list.splits if_splits)

lemma act_asks:
  assumes "act_on_packet E C w = Some w'" "static_only E C" "ee_pPacket (eev w) = Some k" "transport_packet k"
  shows "asks_ttl (nTTL k) w w'"
proof -
  from assms(1,3) obtain k1 a w1 where 1: "fn_NetSim_NAT_NetworkIn E (ip_device w) k = Some k1"
    "decide_action_for_packet E C k1 (ip_device w) (set_event_packet k1 w) = Some (a, w1)"
    "(case a of ACTION_DROP \<Rightarrow> Some (drop_event_packet w1) | ACTION_MOVEUP \<Rightarrow> move_up E C k1 w1
      | ACTION_REROUTE \<Rightarrow> Some (reroute k1 w1)) = Some w'"
    by (auto simp: act_on_packet_def elim!: bind_SomeE)
  have k1: "nTTL k1 = nTTL k" "transport_packet k1"
    using nat_in_keeps [OF 1(1)] assms(4) by simp_all
  have "w1 = set_event_packet k1 w"
    using decide_keeps [OF 1(2) assms(2) k1(2)] .
  then show ?thesis
    using 1(3) k1 reroute_asks [OF k1(2), of w1] move_up_asks [of E C k1 w1 w']
    by (auto split: IP_PROTOCOL_ACTION.splits)
qed

lemma network_in_asks:
  assumes "network_in E C w = Some w'" "static_only E C" "ee_pPacket (eev w) = Some k" "transport_packet k"
    and "\<forall>v. ip_dev w (ip_device w) = Some v \<longrightarrow> nVPNStatus v = VPN_DISABLE"
  shows "asks_ttl (nTTL k - 1) w w'"
proof -
  let ?w = "set_event_packet (take_off_header k) w"
  have static: "nLocalNetworkProtocol E d i = 0" "nRoutingProtocolId E d = 0" for d i
    using assms(2) by (simp_all add: static_only_def)
  have k: "nTTL (take_off_header k) = nTTL k - 1" "transport_packet (take_off_header k)"
    using assms(4) by (simp_all add: take_off_header_def transport_packet_def)
  from assms(1,3,5) static have "w' = w \<or> inbound E C ?w = Some w'"
    by (auto simp: network_in_def Let_def elim!: bind_SomeE split: if_splits)
  moreover have "asks_ttl (nTTL k - 1) ?w w'" if "inbound E C ?w = Some w'"
    using that static act_asks [OF _ assms(2), of ?w w' "take_off_header k"] k
    by (auto simp: inbound_def elim!: bind_SomeE split: if_splits)
  ultimately show ?thesis by auto
qed

section \<open>A journey ends\<close>

text \<open>
  A packet of the transport layer with the time to live \<open>a\<close> arrives at a router, and a packet with the time to live
  \<open>b\<close> leaves it: the event of the arrival is handled, later and in any state the event that it has added is
  handled, and this puts the packet in the buffer of an interface.
\<close>

inductive forwarded :: "IP_ENV \<Rightarrow> IP_CALLS \<Rightarrow> u8 \<Rightarrow> u8 \<Rightarrow> bool" for E C where
  "ee_nEventType (eev w) = NETWORK_IN_EVENT \<Longrightarrow> ee_pPacket (eev w) = Some k \<Longrightarrow> transport_packet k
   \<Longrightarrow> (\<forall>v. ip_dev w (ip_device w) = Some v \<longrightarrow> nVPNStatus v = VPN_DISABLE) \<Longrightarrow> fn_NetSim_IP_Run E C w = Some w'
   \<Longrightarrow> e \<in> set (eadded w') \<Longrightarrow> e \<notin> set (eadded w) \<Longrightarrow> ee_nEventType e = NETWORK_OUT_EVENT
   \<Longrightarrow> eev u = e \<Longrightarrow> fn_NetSim_IP_Run E C u = Some u' \<Longrightarrow> waiting u' p = Some k' \<Longrightarrow> waiting u p \<noteq> Some k'
   \<Longrightarrow> forwarded E C (nTTL k) (nTTL k')"

lemma forwarded_ttl:
  assumes "forwarded E C a b" "static_only E C"
  shows "b = a - 1 \<and> b \<noteq> 0"
  using assms(1)
proof cases
  case (1 w k w' e u u' p k')
  from 1(7) have "network_in E C w = Some w'"
    using 1(3) by (simp add: fn_NetSim_IP_Run_def)
  from network_in_asks [OF this assms(2) 1(4,5,6)] 1(8,9,10) obtain q where
    q: "fnGetLocalNetworkProtocol e = Some 0" "ee_pPacket e = Some q" "nTTL q = nTTL k - 1"
    by (auto simp: asks_ttl_def)
  have "network_out E C u = Some u'"
    using 1(10-12) by (simp add: fn_NetSim_IP_Run_def)
  from network_out_ttl [OF this assms(2), of q] q 1(11,13,14) have "nTTL q \<noteq> 0 \<and> nTTL k' = nTTL q"
    by (auto simp: sends_ttl_def split: if_splits)
  with q(3) 1(1,2) show ?thesis by simp
qed

text \<open>
  C13: Routing loops do not keep packets for ever.  Routers forward by their tables, which may be any tables, with loops, and
  may change between the steps.  A packet of the transport layer whose time to live is not zero
  is forwarded fewer times than this number: each router takes one off, and none sends a packet that has none left.
\<close>

theorem forwarded_fewer_than_ttl:
  assumes "static_only E C" "\<forall>i < n. forwarded E C (t i) (t (Suc i))" "t 0 \<noteq> 0"
  shows "n < unat (t 0)"
proof -
  have "unat (t i) + i = unat (t 0) \<and> t i \<noteq> 0" if "i \<le> n" for i
    using that
  proof (induction i)
    case (Suc i)
    then have i: "unat (t i) + i = unat (t 0)" "t i \<noteq> 0" by simp_all
    have "forwarded E C (t i) (t (Suc i))"
      using assms(2) Suc.prems by simp
    then have "t (Suc i) = t i - 1" "t (Suc i) \<noteq> 0"
      using forwarded_ttl [OF _ assms(1)] by blast+
    with i show ?case
      by (simp add: unat_minus_one) (metis Suc_pred add_Suc_right add_Suc unat_gt_0)
  qed (use assms(3) in auto)
  from this [of n] show ?thesis
    by (metis add.commute add_diff_cancel_left' le_refl less_add_same_cancel1 neq0_conv unat_eq_zero zero_less_diff)
qed

section \<open>Copies behind a denied one\<close>

lemma no_event_packet:
  "ee_pPacket (eev w) = None \<Longrightarrow> nLocalNetworkProtocol E (ip_device w) (hop_interfaceId h) \<noteq> PROTOCOL_VPN
     \<Longrightarrow> pass_to_lower_layer E C own k (Some h) w = Some w'
     \<Longrightarrow> ee_pPacket (eev w') = None \<and> ip_device w' = ip_device w \<and> eadded w' = eadded w \<and> waiting w' = waiting w"
  by (auto simp: pass_to_lower_layer_def lower_target_def Let_def drop_event_packet_def upd_ip_metrics_def ip_error_def
      elim!: bind_SomeE split: if_splits)

lemma rest_of_hops:
  "ee_pPacket (eev w) = None \<Longrightarrow> \<forall>h \<in> set hs. nLocalNetworkProtocol E (ip_device w) (hop_interfaceId h) \<noteq> PROTOCOL_VPN
     \<Longrightarrow> send_hops E C k hs w = Some w' \<Longrightarrow> eadded w' = eadded w \<and> waiting w' = waiting w"
proof (induction hs arbitrary: w)
  case (Cons h hs)
  then obtain w1 where w1: "pass_to_lower_layer E C (hs = []) ((if hs = [] then k else eth_CopyPacket (ip_eth E) k)
      \<lparr>szNextHopIp := Some (hop_nextHop h)\<rparr>) (Some h) w = Some w1" "send_hops E C k hs w1 = Some w'"
    by (auto simp: Let_def elim!: bind_SomeE)
  have "ee_pPacket (eev w1) = None" "ip_device w1 = ip_device w" "eadded w1 = eadded w" "waiting w1 = waiting w"
    using no_event_packet [OF Cons.prems(1) _ w1(1)] Cons.prems(2) by auto
  with Cons.IH [OF _ _ w1(2)] Cons.prems(2) show ?case by simp
qed simp

text \<open>
  C40: A packet that goes out by several interfaces is lost on all the others when the packet filter denies it
  on one.  The filter takes the packet away from the event, although it has judged a copy of it, and the
  copies for the interfaces that follow find no packet: none of them is sent, whatever the filter thinks of them.
\<close>

theorem denied_copy_stops_the_rest:
  assumes "send_hops E C k (h # hs) w = Some w'"
    and "NETWORK_Firewall E (ip_device w) (hop_interfaceId h)
      ((if hs = [] then k else eth_CopyPacket (ip_eth E) k)\<lparr>szNextHopIp := Some (hop_nextHop h), szGatewayIP := Some (hop_gateway h)\<rparr>)
      ACLTYPE_OUTBOUND w = Some ACLACTION_DENY"
    and "\<forall>x \<in> set hs. nLocalNetworkProtocol E (ip_device w) (hop_interfaceId x) \<noteq> PROTOCOL_VPN"
  shows "eadded w' = eadded w \<and> waiting w' = waiting w"
proof -
  let ?k = "(if hs = [] then k else eth_CopyPacket (ip_eth E) k)\<lparr>szNextHopIp := Some (hop_nextHop h)\<rparr>"
  obtain w1 where w1: "pass_to_lower_layer E C (hs = []) ?k (Some h) w = Some w1" "send_hops E C k hs w1 = Some w'"
    using assms(1) by (auto simp: Let_def elim!: bind_SomeE)
  have "w1 = drop_event_packet (upd_ip_metrics (\<lambda>m. m\<lparr>nFirewallBlocked := nFirewallBlocked m + 1\<rparr>) w)"
    using w1(1) assms(2) by (simp add: pass_to_lower_layer_def lower_target_def Let_def split: if_splits)
  then have "ee_pPacket (eev w1) = None" "ip_device w1 = ip_device w" "eadded w1 = eadded w" "waiting w1 = waiting w"
    by (simp_all add: drop_event_packet_def upd_ip_metrics_def)
  with rest_of_hops [OF _ _ w1(2)] assms(3) show ?thesis by simp
qed

end
