(* ===== verification/Ip_Example.thy ===== *)
theory Ip_Example
  imports Ip_Access Ip_Port Ip_Match Ip_Gateway Ip_Tables Ip_Journey Eth_Example
begin

text \<open>
  A router with two interfaces, in the network 10.0.0.0/8 and in the network 11.0.0.0/8.  The functions of the
  libraries are the simplest ones that do what their names say.
\<close>

section \<open>Addresses\<close>

definition demo_addr :: "string \<Rightarrow> nat" where
  "demo_addr s = (let (v, c) = foldl (\<lambda>(v, c) x. if x = CHR ''.'' then (256 * v + c, 0) else (v, 10 * c + (of_char x - 48))) (0, 0) s
     in 256 * v + c)"

definition demo_bits :: "NETSIM_IPAddress \<Rightarrow> string" where
  "demo_bits a = (let n = unat (int_ip0 a) in
     octet_bits (n div 2 ^ 24) @ octet_bits (n div 2 ^ 16 mod 256) @ octet_bits (n div 2 ^ 8 mod 256) @ octet_bits (n mod 256))"

definition demo_decimal :: "string \<Rightarrow> nat" where
  "demo_decimal s = foldl (\<lambda>n c. 2 * n + (if c = CHR ''1'' then 1 else 0)) 0 s"

definition demo_network :: "NETSIM_IPAddress \<Rightarrow> NETSIM_IPAddress option \<Rightarrow> NETSIM_IPAddress" where
  "demo_network a m = (case m of Some k \<Rightarrow> mk_ip4 (and (int_ip0 a) (int_ip0 k)) | None \<Rightarrow> a)"

definition demo_word :: "string \<Rightarrow> string option \<times> string" where
  "demo_word s = (let s = dropWhile is_c_space s; x = takeWhile (\<lambda>c. \<not> is_c_space c) s
     in (if x = [] then None else Some x, dropWhile (\<lambda>c. \<not> is_c_space c) s))"

definition demo_entry :: "NEW_ROUTE \<Rightarrow> IP_ROUTINGTABLE" where
  "demo_entry r = \<lparr>networkDestination = nr_dest r, netMask = nr_mask r, ir_gateway = nr_gateway r, ir_interfaces = nr_interfaces r,
     ir_prefix_len = nr_prefix r, Metric = nr_metric r, ir_type = RoutingType_DEFAULT, nGatewayId = 0\<rparr>"

definition demo_net :: IP_ENV where
  "demo_net = \<lparr>ip_eth = demo_eth,
     ip_szAddress = \<lambda>d i. if i = 1 then Some (mk_ip4 (0x0A000000 + of_nat d)) else if i = 2 then Some (mk_ip4 (0x0B000000 + of_nat d)) else None,
     ip_szSubnetMask = \<lambda>d i. Some (mk_ip4 0xFF000000), ip_prefix_len = \<lambda>d i. 0, ip_szDefaultGateWay = \<lambda>d i. None,
     ip_nProtocolId = \<lambda>d i. IP_PROTOCOL_V4, nLocalNetworkProtocol = \<lambda>d i. 0, nInterfaceType = \<lambda>d i. 1, nRoutingProtocolId = \<lambda>d. 0,
     NETWORK_ADDRESS = \<lambda>a m p. demo_network a m, IN_SAME_NETWORK = \<lambda>a b m p. same_ip (demo_network a m) (demo_network b m),
     ip_isBroadcastIP = \<lambda>a. int_ip0 a = 0xFFFFFFFF, ip_isMulticastIP = \<lambda>a. 0xE0000000 \<le> int_ip0 a \<and> int_ip0 a < 0xF0000000,
     STR_TO_IP = \<lambda>s n. mk_ip4 (of_nat (demo_addr s)), IP_TO_BINARY = demo_bits, bin_ip = demo_bits, str_ip = \<lambda>a. dec_nat (unat (int_ip0 a)),
     binary_to_decimal = demo_decimal, find_word = demo_word, lskip = dropWhile is_c_space,
     GetFirstIPAddressAsId = \<lambda>d t. mk_ip4 (0x0A000000 + of_nat d), DeviceId_asIP = \<lambda>a. unat (int_ip0 a) mod 256,
     GetInterfaceIdFromIP = \<lambda>d a. if int_ip0 a < 0x0B000000 then 1 else 2, GetInterfaceIdByConfigId = \<lambda>d i. i,
     GetMacAddressFromIP = \<lambda>a. \<lparr>nmacaddress = ucast (int_ip0 a), szmacaddress = []\<rparr>,
     multicastIP_to_Mac = \<lambda>a. \<lparr>nmacaddress = ucast (int_ip0 a), szmacaddress = []\<rparr>,
     BROADCAST_MAC = \<lparr>nmacaddress = 0xFFFFFFFFFFFF, szmacaddress = []\<rparr>, GetMacProtocol = \<lambda>d i. MAC_PROTOCOL_IEEE802_3,
     DEVICE_FIRST_PUBLICIP = \<lambda>d. None, isHost = \<lambda>d. d \<noteq> 1, isRouter = \<lambda>d. d = 1, isL3Device = \<lambda>d. False,
     list_add = \<lambda>chk c l. takeWhile (\<lambda>x. chk x c = 0) l @ c # dropWhile (\<lambda>x. chk x c = 0) l,
     iptable_add = \<lambda>r ts. ts @ [demo_entry r], iptable_check = \<lambda>ts a m. None, iptable_delete = \<lambda>a m ts. filter (\<lambda>t. \<not> same_ip (networkDestination t) a) ts,
     blankNwPacket = demo_frame\<lparr>destInfo := []\<rparr>, ip_GetPacketSize = nw_dPacketSize, isMulticastPacket = \<lambda>k. False,
     get_first_dest = \<lambda>k. hd (destInfo k), ip_isDestFound = \<lambda>k d. d \<in> set (destInfo k), ip_random = \<lambda>n. 0\<rparr>"

lemma demo_net_sel [simp]:
  "ip_eth demo_net = (demo_eth)"
  "ip_szAddress demo_net = (\<lambda>d i. if i = 1 then Some (mk_ip4 (0x0A000000 + of_nat d)) else if i = 2 then Some (mk_ip4 (0x0B000000 + of_nat d)) else None)"
  "ip_szSubnetMask demo_net = (\<lambda>d i. Some (mk_ip4 0xFF000000))"
  "ip_prefix_len demo_net = (\<lambda>d i. 0)"
  "ip_szDefaultGateWay demo_net = (\<lambda>d i. None)"
  "ip_nProtocolId demo_net = (\<lambda>d i. IP_PROTOCOL_V4)"
  "nLocalNetworkProtocol demo_net = (\<lambda>d i. 0)"
  "nInterfaceType demo_net = (\<lambda>d i. 1)"
  "nRoutingProtocolId demo_net = (\<lambda>d. 0)"
  "NETWORK_ADDRESS demo_net = (\<lambda>a m p. demo_network a m)"
  "IN_SAME_NETWORK demo_net = (\<lambda>a b m p. same_ip (demo_network a m) (demo_network b m))"
  "ip_isBroadcastIP demo_net = (\<lambda>a. int_ip0 a = 0xFFFFFFFF)"
  "ip_isMulticastIP demo_net = (\<lambda>a. 0xE0000000 \<le> int_ip0 a \<and> int_ip0 a < 0xF0000000)"
  "STR_TO_IP demo_net = (\<lambda>s n. mk_ip4 (of_nat (demo_addr s)))"
  "IP_TO_BINARY demo_net = (demo_bits)"
  "bin_ip demo_net = (demo_bits)"
  "str_ip demo_net = (\<lambda>a. dec_nat (unat (int_ip0 a)))"
  "binary_to_decimal demo_net = (demo_decimal)"
  "find_word demo_net = (demo_word)"
  "lskip demo_net = (dropWhile is_c_space)"
  "GetFirstIPAddressAsId demo_net = (\<lambda>d t. mk_ip4 (0x0A000000 + of_nat d))"
  "DeviceId_asIP demo_net = (\<lambda>a. unat (int_ip0 a) mod 256)"
  "GetInterfaceIdFromIP demo_net = (\<lambda>d a. if int_ip0 a < 0x0B000000 then 1 else 2)"
  "GetInterfaceIdByConfigId demo_net = (\<lambda>d i. i)"
  "GetMacAddressFromIP demo_net = (\<lambda>a. \<lparr>nmacaddress = ucast (int_ip0 a), szmacaddress = []\<rparr>)"
  "multicastIP_to_Mac demo_net = (\<lambda>a. \<lparr>nmacaddress = ucast (int_ip0 a), szmacaddress = []\<rparr>)"
  "BROADCAST_MAC demo_net = (\<lparr>nmacaddress = 0xFFFFFFFFFFFF, szmacaddress = []\<rparr>)"
  "GetMacProtocol demo_net = (\<lambda>d i. MAC_PROTOCOL_IEEE802_3)"
  "DEVICE_FIRST_PUBLICIP demo_net = (\<lambda>d. None)"
  "isHost demo_net = (\<lambda>d. d \<noteq> 1)"
  "isRouter demo_net = (\<lambda>d. d = 1)"
  "isL3Device demo_net = (\<lambda>d. False)"
  "list_add demo_net = (\<lambda>chk c l. takeWhile (\<lambda>x. chk x c = 0) l @ c # dropWhile (\<lambda>x. chk x c = 0) l)"
  "iptable_add demo_net = (\<lambda>r ts. ts @ [demo_entry r])"
  "iptable_check demo_net = (\<lambda>ts a m. None)"
  "iptable_delete demo_net = (\<lambda>a m ts. filter (\<lambda>t. \<not> same_ip (networkDestination t) a) ts)"
  "blankNwPacket demo_net = (demo_frame\<lparr>destInfo := []\<rparr>)"
  "ip_GetPacketSize demo_net = (nw_dPacketSize)"
  "isMulticastPacket demo_net = (\<lambda>k. False)"
  "get_first_dest demo_net = (\<lambda>k. hd (destInfo k))"
  "ip_isDestFound demo_net = (\<lambda>k d. d \<in> set (destInfo k))"
  "ip_random demo_net = (\<lambda>n. 0)"
  by (simp_all add: demo_net_def)

definition demo_calls :: IP_CALLS where
  "demo_calls = \<lparr>fnCallProtocol = \<lambda>p. Some, routerFunction = \<lambda>d. None, fn_NetSim_IP_VPN_Run = Some, process_igmp_packet = Some,
     process_pim_packet = Some, pim_decide_action = \<lambda>k d w. Some (ACTION_DROP, w), host_is_ip_present_in_db = \<lambda>d a k w. Some (ACTION_MOVEUP, w),
     ip_timer = Some, CallICMPErrorFun = \<lambda>p d. Some\<rparr>"

definition demo_ipvar :: "NETSIM_ACL list \<Rightarrow> GATEWAY list \<Rightarrow> IP_DEVVAR" where
  "demo_ipvar as gs = \<lparr>ip_ACL = as, isFirewallConfigured = True, isICMP = True, nRouterAdvertisementFlag = False,
     nRouterAdverMinInterval = 0, nRouterAdverMaxInterval = 0, nRouterAdverLifeTime = 0, nICMPPollingTime = 10, gateways = gs,
     nVPNStatus = VPN_DISABLE\<rparr>"

lemma demo_ipvar_sel [simp]: "ip_ACL (demo_ipvar as gs) = as" "isFirewallConfigured (demo_ipvar as gs)" "isICMP (demo_ipvar as gs)"
  "gateways (demo_ipvar as gs) = gs" "nVPNStatus (demo_ipvar as gs) = VPN_DISABLE" "nICMPPollingTime (demo_ipvar as gs) = 10"
  "ip_ACL_update f (demo_ipvar as gs) = demo_ipvar (f as) gs" "gateways_update h (demo_ipvar as gs) = demo_ipvar as (h gs)"
  by (simp_all add: demo_ipvar_def)

definition demo_ip_world :: "IP_DEVVAR \<Rightarrow> IP_ROUTINGTABLE list \<Rightarrow> (nat \<Rightarrow> PINGHANDLER option) \<Rightarrow> ETH_EVENT \<Rightarrow> IP_WORLD" where
  "demo_ip_world v ts ps e = ETH_WORLD.extend (demo_eth_world demo_lan [])
     \<lparr>ip_dev = \<lambda>d. Some v, ip_tab = \<lambda>d. if d = 1 then ts else [], ipMetrics = \<lambda>d. \<lparr>nPacketSent = 0, nPacketReceived = 0, nPacketForwarded = 0,
        nPacketDiscarded = 0, nFirewallBlocked = 0, nTTLDrop = 0\<rparr>, pings = ps, ping_next = 0, echoSeq = 0, ip_drawn = 0\<rparr>\<lparr>eev := e\<rparr>"

lemma demo_ip_world_sel [simp]:
  "ip_dev (demo_ip_world v ts ps e) d = Some v" "ip_tab (demo_ip_world v ts ps e) d = (if d = 1 then ts else [])" "pings (demo_ip_world v ts ps e) = ps"
  "eev (demo_ip_world v ts ps e) = e" "eadded (demo_ip_world v ts ps e) = []" "waiting (demo_ip_world v ts ps e) = (\<lambda>p. None)"
  by (simp_all add: demo_ip_world_def ETH_WORLD.extend_def demo_eth_world_def)


lemma demo_net_eth [simp]: "ip_eth demo_net = demo_eth"
  by (simp add: demo_net_def)

section \<open>Masks\<close>

lemma demo_decimal_octet: "n < 256 \<Longrightarrow> demo_decimal (octet_bits n) = n"
proof -
  assume "n < 256"
  have "demo_decimal (octet_bits n) = horner_sum of_bool 2 (map (bit n) [0..<8])"
    by (simp add: demo_decimal_def octet_bits_def upt_rec of_bool_def)
  also have "\<dots> = n"
    using \<open>n < 256\<close> by (simp add: horner_sum_bit_eq_take_bit take_bit_nat_eq_self)
  finally show ?thesis .
qed

definition demo_step :: "nat \<times> nat \<Rightarrow> char \<Rightarrow> nat \<times> nat" where
  "demo_step = (\<lambda>(v, c) x. if x = CHR ''.'' then (256 * v + c, 0) else (v, 10 * c + (of_char x - 48)))"

lemma demo_step_dec: "foldl demo_step (v, 0) (dec_nat n) = (v, n)"
proof (induction n rule: dec_nat.induct)
  case (1 n)
  have digit: "demo_step (v, c) (char_of (48 + m)) = (v, 10 * c + m)" if "m < 10" for c m :: nat
  proof -
    have "(of_char (char_of (48 + m) :: char) :: nat) = 48 + m"
      using that by simp
    moreover have "char_of (48 + m) \<noteq> CHR ''.''"
    proof
      assume "char_of (48 + m) = CHR ''.''"
      then have "(of_char (char_of (48 + m) :: char) :: nat) = 46" by simp
      with calculation show False by simp
    qed
    ultimately show ?thesis
      by (simp add: demo_step_def)
  qed
  show ?case
  proof (cases "n < 10")
    case True
    with digit [of n 0] show ?thesis by (subst dec_nat.simps) simp
  next
    case False
    with 1 digit [of "n mod 10" "n div 10"] show ?thesis
      by (subst dec_nat.simps) simp
  qed
qed

lemma demo_addr_dotted: "demo_addr (dotted a b c e) = ((a * 256 + b) * 256 + c) * 256 + e"
proof -
  have dot: "demo_step (v, c) (CHR ''.'') = (256 * v + c, 0)" for v c
    by (simp add: demo_step_def)
  show ?thesis
    by (simp add: demo_addr_def demo_step_def [symmetric] dotted_def demo_step_dec dot)
qed

lemma demo_reads_dotted: "reads_dotted demo_net"
proof -
  have "demo_bits (mk_ip4 (of_nat (((a * 256 + b) * 256 + c) * 256 + e)))
      = octet_bits a @ octet_bits b @ octet_bits c @ octet_bits e"
    if "a < 256" "b < 256" "c < 256" "e < 256" for a b c e
  proof -
    let ?n = "((a * 256 + b) * 256 + c) * 256 + e"
    have "?n < 2 ^ 32" using that by simp
    then have n: "unat (of_nat ?n :: u32) = ?n"
      by (simp only: unat_of_nat len_num0) (simp add: take_bit_nat_eq_self)
    have o: "(x * 256 + y) div 256 = x" "(x * 256 + y) mod 256 = y" if "y < 256" for x y :: nat
      using that by simp_all
    have p: "2 ^ 8 = (256 :: nat)" "2 ^ 16 = 256 * (256 :: nat)" "2 ^ 24 = 256 * (256 * (256 :: nat))"
      by simp_all
    have "?n div 2 ^ 24 = a" "?n div 2 ^ 16 mod 256 = b" "?n div 2 ^ 8 mod 256 = c" "?n mod 256 = e"
      using that by (simp_all only: p div_mult2_eq o)
    then show ?thesis
      unfolding demo_bits_def mk_ip4_def by (simp only: NETSIM_IPAddress.select_convs n Let_def)
  qed
  then show ?thesis
    by (simp add: reads_dotted_def demo_decimal_octet demo_addr_dotted)
qed

theorem prefix_mask_roundtrip_witness:
  "bin_ip demo_net (num_to_subnet demo_net 20) = replicate 20 (CHR ''1'') @ replicate 12 (CHR ''0'')
     \<and> perfix_from_mask demo_net (num_to_subnet demo_net 20) = 20"
  using prefix_mask_roundtrip [OF demo_reads_dotted, of 20] by simp

section \<open>The packet filter\<close>

definition demo_tcp :: ETH_PKT where
  "demo_tcp = demo_frame\<lparr>szSourceIP := mk_ip4 0x0A000007, szDestIP := mk_ip4 0x0B000009, IPProtocol := IPPROTOCOL_TCP, nTTL := 64\<rparr>"

lemma demo_tcp_sel [simp]: "szSourceIP demo_tcp = mk_ip4 0x0A000007" "szDestIP demo_tcp = mk_ip4 0x0B000009" "IPProtocol demo_tcp = IPPROTOCOL_TCP"
  "nTTL demo_tcp = 64" "destInfo demo_tcp = [3]" "pstruTransportData demo_tcp = None" "szNextHopIp demo_tcp = None" "szGatewayIP demo_tcp = None"
  "nControlDataType demo_tcp = 0" "nPacketFlag demo_tcp = 0" "pstruAppData demo_tcp = Some (1, 0)"
  by (simp_all add: demo_tcp_def demo_frame_def demo_pkt_def NetSim_PACKET.extend_def)

definition demo_deny :: NETSIM_ACL where
  "demo_deny = \<lparr>acl_nInterfaceId = 2, acl_type = ACLTYPE_OUTBOUND, acl_source = None, acl_dest = None, srcSubnet = None, destSubnet = None,
     srcPort = 0, destPort = 0, acl_protocol = 0, acl_action = ACLACTION_DENY, isMacBlock = False\<rparr>"

abbreviation demo_closed :: IP_WORLD where
  "demo_closed \<equiv> demo_ip_world (demo_ipvar [demo_deny] []) [] (\<lambda>n. None) zero_event"

definition demo_rule :: NETSIM_ACL where
  "demo_rule = demo_deny\<lparr>acl_nInterfaceId := 0, acl_protocol := IPPROTOCOL_TCP\<rparr>"

lemma demo_words:
  "demo_word ''DENY OUTBOUND TCP ANY ANY'' = (Some ''DENY'', '' OUTBOUND TCP ANY ANY'')"
  "demo_word '' OUTBOUND TCP ANY ANY'' = (Some ''OUTBOUND'', '' TCP ANY ANY'')" "demo_word '' TCP ANY ANY'' = (Some ''TCP'', '' ANY ANY'')"
  "demo_word '' ANY ANY'' = (Some ''ANY'', '' ANY'')" "demo_word '' ANY'' = (Some ''ANY'', [])" "demo_word [] = (None, [])"
  by code_simp+

lemma demo_keywords:
  "stricmp ''DENY'' ''permit'' \<noteq> 0" "stricmp ''DENY'' ''deny'' = 0" "stricmp ''TCP'' ''any'' \<noteq> 0" "stricmp ''TCP'' ''TCP'' = 0"
  "stricmp ''OUTBOUND'' ''INBOUND'' \<noteq> 0" "stricmp ''OUTBOUND'' ''OUTBOUND'' = 0" "stricmp ''ANY'' ''any'' = 0"
  by code_simp+

lemma demo_skip: "dropWhile is_c_space ''# rules'' = ''# rules''" "dropWhile is_c_space ''DENY OUTBOUND TCP ANY ANY'' = ''DENY OUTBOUND TCP ANY ANY''"
  by code_simp+

abbreviation demo_open :: IP_WORLD where
  "demo_open \<equiv> demo_ip_world (demo_ipvar [] []) [] (\<lambda>n. None) zero_event"

lemma demo_line: "acl_add_new_line demo_net 1 ''DENY OUTBOUND TCP ANY ANY'' demo_open
    = Some (demo_open\<lparr>ip_dev := (ip_dev demo_open)(1 \<mapsto> demo_ipvar [demo_rule] [])\<rparr>)"
  by (simp add: acl_add_new_line_def demo_words action_from_str_def demo_keywords ipprotocol_from_str_def acl_rule_def ip_from_str_def
      port_from_str_def type_from_str_def upd_ip_dev_def demo_rule_def demo_deny_def del: stricmp.simps)

theorem firewall_first_line_decides_witness:
  "\<exists>w' as. fn_NetSim_FirewallConfig demo_net 1 (Some [''# rules'', ''DENY OUTBOUND TCP ANY ANY'']) demo_open = Some (0, w')
     \<and> length as = 1 \<and> fn_NetSim_Firewall demo_net 1 2 demo_tcp ACLTYPE_OUTBOUND False w'
         = Some (first_verdict demo_net 2 ACLTYPE_OUTBOUND False demo_tcp (mk_ip4 0x0A000003) as)"
proof -
  have run: "fn_NetSim_FirewallConfig demo_net 1 (Some [''# rules'', ''DENY OUTBOUND TCP ANY ANY'']) demo_open
      = Some (0, demo_open\<lparr>ip_dev := (ip_dev demo_open)(1 \<mapsto> demo_ipvar [demo_rule] [])\<rparr>)"
    by (simp add: fn_NetSim_FirewallConfig_def Let_def demo_skip demo_line del: dropWhile.simps One_nat_def)
  have lines: "effective_lines demo_net [''# rules'', ''DENY OUTBOUND TCP ANY ANY''] = [''DENY OUTBOUND TCP ANY ANY'']"
    by (simp add: effective_lines_def demo_skip del: dropWhile.simps)
  have dest: "get_dest_ip demo_net demo_tcp = Some (mk_ip4 0x0A000003)"
    by (simp add: get_dest_ip_def mk_ip4_def)
  from firewall_first_line_decides [OF run demo_ip_world_sel(1) demo_ipvar_sel(1)] obtain as where
    as: "list_all2 (adds_rule demo_net 1) [''DENY OUTBOUND TCP ANY ANY''] as" "\<And>i k ty mac dest. get_dest_ip demo_net k = Some dest \<Longrightarrow>
      fn_NetSim_Firewall demo_net 1 i k ty mac (demo_open\<lparr>ip_dev := (ip_dev demo_open)(1 \<mapsto> demo_ipvar [demo_rule] [])\<rparr>)
        = Some (first_verdict demo_net i ty mac k dest as)"
    unfolding lines by blast
  have "length as = 1"
    using as(1) by (auto simp: list_all2_Cons1)
  with as(2) [OF dest] run show ?thesis by blast
qed

text \<open>A frame that would be flooded to port 2 of switch 1, if the list did not close the port.\<close>

definition demo_guarded :: ETH_ENV where
  "demo_guarded = demo_eth\<lparr>fn_NetSim_MAC_Firewall := \<lambda>d i k t. (case MAC_Firewall demo_net d i k t demo_closed of Some a \<Rightarrow> a | None \<Rightarrow> ACLACTION_DENY)\<rparr>"

lemma demo_guarded_sel [simp]:
  "get_eth_hdr_var demo_guarded = Packet_MACProtocol" "GET_ETH_LAN demo_guarded = GET_ETH_LAN demo_eth" "MAC_COMPARE demo_guarded = MAC_COMPARE demo_eth"
  "store_eth_param_macin demo_guarded = store_eth_param_macin demo_eth" "eth_deviceType demo_guarded = eth_deviceType demo_eth"
  "fn_NetSim_MAC_Firewall demo_guarded d i k t = (case MAC_Firewall demo_net d i k t demo_closed of Some a \<Rightarrow> a | None \<Rightarrow> ACLACTION_DENY)"
  by (simp_all add: demo_guarded_def)

lemma demo_far_dest [simp]: "get_dest_ip demo_net demo_far = Some (mk_ip4 0x0A000003)" "pstruTransportData demo_far = None"
  by (simp_all add: get_dest_ip_def demo_far_def demo_frame_def demo_pkt_def NetSim_PACKET.extend_def demo_ip_def mk_ip4_def)

lemma demo_flood: "\<exists>w'. fn_NetSim_Ethernet_Run demo_guarded (\<lambda>d i. Some) demo_arrival = Some w'"
proof -
  have lan: "lan_of demo_guarded 1 1 demo_arrival = Some (0, demo_lan 1)"
    "set_lan 1 0 l demo_arrival = Some (demo_arrival\<lparr>eth_var := (eth_var demo_arrival)(1 \<mapsto> \<lparr>lanVar = [l], isSPT = True, isVLAN = False, trunkPortIds = []\<rparr>)\<rparr>)" for l
    by (simp_all add: lan_of_def get_lan_def set_lan_def upd_lan_def demo_eth_world_def)
  let ?lan = "SWITCHTABLE_NEW demo_guarded \<lparr>nmacaddress = 0, szmacaddress = []\<rparr> 1 (demo_lan 1)"
  let ?w = "demo_arrival\<lparr>eth_var := (eth_var demo_arrival)(1 \<mapsto> \<lparr>lanVar = [?lan], isSPT = True, isVLAN = False, trunkPortIds = []\<rparr>)\<rparr>"
  let ?k = "demo_far\<lparr>eth_incoming := Some (1, 1, lan_vlanId ?lan)\<rparr>"
  have new: "?lan = demo_learned 1"
    by (simp add: SWITCHTABLE_NEW_def SWITCHTABLE_FIND_def demo_lan_def demo_learned_def)
  have known: "switchingTechnique (demo_lan 1) \<noteq> SWITCHINGTECHNIQUE_NULL" "lanIP ?lan = None"
    "length (lan_interfaceId ?lan) \<le> length (ethIfVar ?lan)" "find_forward_interface demo_guarded ?lan ?k = 0"
    unfolding new by (simp_all add: demo_lan_def demo_learned_def find_forward_interface_def SWITCHTABLE_FIND_def)
  have "fn_NetSim_Ethernet_Run demo_guarded (\<lambda>d i. Some) demo_arrival = forward_frame demo_guarded 1 1 ?lan ?k 9 ?w
      \<or> fn_NetSim_Ethernet_Run demo_guarded (\<lambda>d i. Some) demo_arrival = Some demo_arrival"
    using known by (simp add: fn_NetSim_Ethernet_Run_def fn_NetSim_Ethernet_HandleMacIn_def ethernet_mac_process_frame_def lan
        Let_def decide_move_up_def isVLANTagPresent_def del: One_nat_def)
  moreover have "\<exists>w'. forward_frame demo_guarded 1 1 ?lan ?k 9 ?w = Some w'"
    using known by (simp add: forward_frame_def flood_does vlan_forward_to_all_trunk_def send_all_def del: One_nat_def)
  ultimately show ?thesis by auto
qed

theorem closed_port_sends_nothing_witness:
  "\<exists>w'. fn_NetSim_Ethernet_Run demo_guarded (\<lambda>d i. Some) demo_arrival = Some w'
     \<and> port_frames 1 2 w' = port_frames 1 2 demo_arrival"
proof -
  obtain w' where run: "fn_NetSim_Ethernet_Run demo_guarded (\<lambda>d i. Some) demo_arrival = Some w'"
    using demo_flood by blast
  have "filtered demo_net demo_closed demo_guarded"
    by (simp add: filtered_def)
  moreover have "denies_all 2 demo_deny"
    by (simp add: denies_all_def demo_deny_def)
  ultimately have "port_frames 1 2 w' = port_frames 1 2 demo_arrival"
    using run by (intro closed_port_sends_nothing [where I = demo_net and u = demo_closed and E = demo_guarded and as = "[]" and a = demo_deny
          and bs = "[]" and k = demo_far]) auto
  with run show ?thesis by blast
qed

section \<open>Routes\<close>

definition demo_route :: "u32 \<Rightarrow> u32 \<Rightarrow> u32 \<Rightarrow> (NETSIM_IPAddress \<times> NETSIM_ID) list \<Rightarrow> IP_ROUTINGTABLE" where
  "demo_route a m metric is = \<lparr>networkDestination = mk_ip4 a, netMask = Some (mk_ip4 m), ir_gateway = None, ir_interfaces = is,
     ir_prefix_len = 0, Metric = metric, ir_type = RoutingType_DEFAULT, nGatewayId = 0\<rparr>"

abbreviation "demo_if1 \<equiv> (mk_ip4 0x0A000001, 1 :: NETSIM_ID)"
abbreviation "demo_if2 \<equiv> (mk_ip4 0x0B000001, 2 :: NETSIM_ID)"

definition demo_table :: "IP_ROUTINGTABLE list" where
  "demo_table = [demo_route 0 0 1 [demo_if1], demo_route 0x0B000000 0xFF000000 300 [demo_if2]]"

lemma best_first_Cons: "best_first (x # l) \<longleftrightarrow> (\<forall>y \<in> set l. match_check x y = 0) \<and> best_first l"
  by (simp add: best_first_def)

lemma demo_insert_set: "set (takeWhile P l @ c # dropWhile P l) = insert c (set l)"
  by (metis Un_insert_right list.simps(15) set_append takeWhile_dropWhile_id)

lemma demo_insert_order:
  "best_first l \<Longrightarrow> best_first (takeWhile (\<lambda>x. match_check x c = 0) l @ c # dropWhile (\<lambda>x. match_check x c = 0) l)"
proof (induction l)
  case (Cons x l)
  show ?case
  proof (cases "match_check x c = 0")
    case True
    then have "\<forall>y \<in> insert c (set l). match_check x y = 0"
      using Cons.prems by (simp add: best_first_Cons)
    with Cons show ?thesis
      unfolding demo_insert_set [symmetric, of c l "\<lambda>x. match_check x c = 0"] by (simp add: True best_first_Cons)
  next
    case False
    then have "match_check c x = 0"
      by (auto simp: match_check_zero)
    moreover have "match_check c y = 0" if "match_check x y = 0" for y
      using that False by (auto simp: match_check_zero)
    ultimately show ?thesis
      using False Cons.prems by (auto simp: best_first_Cons)
  qed
qed (simp add: best_first_def)

lemma demo_adds_in_order: "adds_in_order demo_net"
  unfolding adds_in_order_def demo_net_sel demo_insert_set using demo_insert_order by blast

definition demo_event :: "EVENT_TYPE \<Rightarrow> ETH_PKT option \<Rightarrow> ETH_EVENT" where
  "demo_event ty k = zero_event\<lparr>ee_dEventTime := 100, ee_nEventType := ty, ee_nDeviceId := 1, ee_nInterfaceId := 1, ee_pPacket := k\<rparr>"

lemma demo_event_sel [simp]: "ee_nDeviceId (demo_event ty k) = 1" "ee_nInterfaceId (demo_event ty k) = 1" "ee_pPacket (demo_event ty k) = k"
  "ee_nEventType (demo_event ty k) = ty" "ee_nSubEventType (demo_event ty k) = 0" "ee_dEventTime (demo_event ty k) = 100"
  by (simp_all add: demo_event_def zero_event_def)

abbreviation demo_router :: "NETSIM_ACL list \<Rightarrow> GATEWAY list \<Rightarrow> ETH_EVENT \<Rightarrow> IP_WORLD" where
  "demo_router as gs e \<equiv> demo_ip_world (demo_ipvar as gs) demo_table (\<lambda>n. None) e"

lemma mk_ip4_word [simp]: "int_ip0 (mk_ip4 n) = n"
  by (simp add: mk_ip4_def)

lemma demo_mask_bits: "demo_bits (mk_ip4 0xFF000000) = replicate 8 (CHR ''1'') @ replicate 24 (CHR ''0'')"
  "demo_bits (mk_ip4 0) = replicate 32 (CHR ''0'')"
  by (simp_all add: demo_bits_def Let_def replicate_add [symmetric] del: append_assoc replicate.simps)

lemma demo_binary: "length (demo_bits (mk_ip4 0xFF000000)) = 32" "length (demo_bits (mk_ip4 0)) = 32"
  "length (takeWhile (\<lambda>c. c \<noteq> CHR ''0'') (demo_bits (mk_ip4 0xFF000000))) = 8"
  "length (takeWhile (\<lambda>c. c \<noteq> CHR ''0'') (demo_bits (mk_ip4 0))) = 0"
  by (simp_all add: demo_mask_bits takeWhile_append takeWhile_replicate)

lemma demo_lookup:
  "ip_device w = 1 \<Longrightarrow> ip_dev w 1 = Some (demo_ipvar as []) \<Longrightarrow> ip_tab w 1 = demo_table \<Longrightarrow> szDestIP k = mk_ip4 0x0B000009 \<Longrightarrow>
     lookup_unicast demo_net False k 1 w = Some ([\<lparr>hop_nextHop = mk_ip4 0x0B000009, hop_gateway = mk_ip4 0x0B000001, hop_interfaceId = 2,
       hop_nextHopId = 0\<rparr>], w\<lparr>ip_tab := (ip_tab w)(1 := demo_table)\<rparr>)"
  by (simp add: lookup_unicast_def get_match_table_def demo_table_def demo_route_def match_entry_def ICMP_CHECKSTATE_def
      demo_network_def get_bit_match_count_def demo_binary add_to_match_list_def match_check_def update_route_entry_def get_entry_def set_entry_def
      cache_gateway_def hop_by_def Let_def del: One_nat_def)


definition demo_all_hosts :: IP_ROUTINGTABLE where
  "demo_all_hosts = demo_route 0xE0000001 0xFF000000 306 [demo_if1, demo_if2]"

theorem all_hosts_route_is_lost_witness:
  "\<exists>c w2. choose_match_for_reserved_address demo_net 1 [\<lparr>match_table = 0, bitsCount = 32, match_metric = 999\<rparr>] (STR_TO_IP demo_net ''224.0.0.1'' 4)
       (mk_ip4 0x0B000005) (demo_ip_world (demo_ipvar [] []) [demo_all_hosts] (\<lambda>n. None) zero_event) = Some (Some (InTab c), w2)
     \<and> ir_interfaces c = [demo_if2]
     \<and> choose_match_for_reserved_address demo_net 1 [\<lparr>match_table = 0, bitsCount = 32, match_metric = 999\<rparr>] (STR_TO_IP demo_net ''224.0.0.1'' 4)
         (mk_ip4 0x0A000005) w2 = Some (None, w2)"
proof -
  have "dotted 224 0 0 1 = ''224.0.0.1''" by code_simp
  then have "demo_addr ''224.0.0.1'' = 0xE0000001"
    using demo_addr_dotted [of 224 0 0 1] by simp
  then have a: "same_ip (networkDestination demo_all_hosts) (STR_TO_IP demo_net ''224.0.0.1'' 4)"
    by (simp add: demo_all_hosts_def demo_route_def)
  have "get_entry 1 0 (demo_ip_world (demo_ipvar [] []) [demo_all_hosts] (\<lambda>n. None) zero_event) = Some demo_all_hosts"
    by (simp add: get_entry_def)
  from all_hosts_route_is_lost [OF this a, of demo_if1 demo_if2 "mk_ip4 0x0A000005" "mk_ip4 0x0B000005"] show ?thesis
    by (simp add: reaches_def demo_all_hosts_def demo_route_def demo_network_def)
qed

section \<open>Gateways and pings\<close>

definition demo_gateway :: GATEWAY where
  "demo_gateway = \<lparr>gw_ip = mk_ip4 0x0A000009, gw_id = 3, gw_interface = 1, gw_state = GATEWAYSTATE_UP\<rparr>"

lemma demo_poll:
  "gs = [demo_gateway\<lparr>gw_state := s\<rparr>] \<Longrightarrow> ee_nDeviceId (eev w) = 1 \<Longrightarrow> ip_dev w 1 = Some (demo_ipvar [] gs) \<Longrightarrow>
     \<exists>w'. fn_NetSim_IP_ICMP_POLL demo_net w = Some w' \<and> ip_device w' = 1"
  by (simp add: fn_NetSim_IP_ICMP_POLL_def poll_gateway_def GenerateEchoRequest_def upd_ip_dev_def demo_gateway_def add_ip_event_def
      Let_def assert_c_def del: One_nat_def)


definition demo_ping :: PINGHANDLER where
  "demo_ping = \<lparr>ping_src = 1, ping_dest = 2, srcIP = mk_ip4 0x0A000001, destIP = mk_ip4 0x0A000002, ping_count = 4, echoSendTime = 50,
     currentCount = 4, replyRecvCount = 4, retryCount = 0, ping_seqNumber = 3\<rparr>"

theorem ping_timer_never_stops_witness:
  "\<exists>w'. ping_rounds demo_net 1000 (demo_ip_world (demo_ipvar [] []) [] [0 \<mapsto> demo_ping] (zero_event\<lparr>ee_szOtherDetails := PingDetails 0\<rparr>)) = Some w'
     \<and> length (eadded w') = 1000"
  using ping_timer_never_stops [of "demo_ip_world (demo_ipvar [] []) [] [0 \<mapsto> demo_ping] (zero_event\<lparr>ee_szOtherDetails := PingDetails 0\<rparr>)" 0 demo_ping
      demo_net 1000]
  by (auto simp: demo_ping_def)

section \<open>Tables and journeys\<close>

lemma demo_typed: "typed demo_net (demo_ip_world v demo_table ps e)"
  by (auto simp: typed_def typed_table_def typed_interfaces_def demo_table_def demo_route_def)

lemma demo_typed_calls: "typed_calls demo_net demo_calls"
  by (simp add: typed_calls_def keeps_typed_def demo_calls_def)

lemma demo_tables_lib: "tables_lib demo_net"
  by (auto simp: tables_lib_def demo_entry_def)


lemma demo_static: "static_only demo_net demo_calls"
  by (simp add: static_only_def demo_calls_def)

lemma demo_interfaces [simp]: "eth_nNumOfInterface demo_eth d = 2"
  by (simp add: demo_eth_def)

definition demo_arrived :: ETH_PKT where
  "demo_arrived = demo_tcp\<lparr>szGatewayIP := Some (mk_ip4 0x0A000007)\<rparr>"

text \<open>The packet on its way out.\<close>

definition demo_onward :: ETH_PKT where
  "demo_onward = (take_off_header demo_arrived)\<lparr>szNextHopIp := None, szGatewayIP := None\<rparr>"

lemma demo_arrival_run:
  "fn_NetSim_IP_Run demo_net demo_calls (demo_router [] [] (demo_event NETWORK_IN_EVENT (Some demo_arrived)))
     = Some (reroute (take_off_header demo_arrived) (set_event_packet (take_off_header demo_arrived)
         (set_event_packet (take_off_header demo_arrived) (demo_router [] [] (demo_event NETWORK_IN_EVENT (Some demo_arrived))))))"
  by (simp add: fn_NetSim_IP_Run_def network_in_def inbound_def act_on_packet_def NETWORK_Firewall_def fn_NetSim_Firewall_def get_dest_ip_def
      fn_NetSim_NAT_NetworkIn_def has_address_def decide_action_for_packet_def demo_arrived_def take_off_header_def demo_network_def Let_def
      demo_upto ip_protocols del: One_nat_def)

definition demo_asked :: ETH_EVENT where
  "demo_asked = (demo_event NETWORK_IN_EVENT (Some demo_arrived))\<lparr>ee_pPacket := Some demo_onward,
     ee_dPacketSize := nw_dPacketSize demo_onward, ee_nEventType := NETWORK_OUT_EVENT, ee_nProtocolId := IP_PROTOCOL_V4, ee_nSubEventType := 0,
     ee_szOtherDetails := NoDetails\<rparr>"

lemma demo_onward_sel [simp]: "nTTL demo_onward = 63" "szDestIP demo_onward = mk_ip4 0x0B000009" "destInfo demo_onward = [3]"
  "pstruTransportData demo_onward = None" "nControlDataType demo_onward = 0" "szSourceIP demo_onward = mk_ip4 0x0A000007"
  "szNextHopIp demo_onward = None" "pstruAppData demo_onward = Some (1, 0)"
  by (simp_all add: demo_onward_def take_off_header_def demo_arrived_def)

lemma demo_asked_sel [simp]: "ee_nDeviceId demo_asked = 1" "ee_nEventType demo_asked = NETWORK_OUT_EVENT" "ee_pPacket demo_asked = Some demo_onward"
  "ee_nSubEventType demo_asked = 0" "ee_dEventTime demo_asked = 100"
  by (simp_all add: demo_asked_def)

lemma demo_static_lookup:
  "ip_device w = 1 \<Longrightarrow> ip_tab w 1 = demo_table \<Longrightarrow> szDestIP k = mk_ip4 0x0B000009
     \<Longrightarrow> fn_NetSim_IP_RoutePacketViaStaticEntry demo_net k 1 w = Some ([], w)"
  by (simp add: fn_NetSim_IP_RoutePacketViaStaticEntry_def lookup_unicast_def get_match_table_def demo_table_def demo_route_def
      match_entry_def update_route_entry_def)

lemma demo_enqueue:
  assumes "szGatewayIP k = Some g" "szNextHopIp k = Some x" "eth_access w = (\<lambda>d i. (demo_buffer SCHEDULING_FIFO)\<lparr>dMaxBufferSize := 0\<rparr>)" "wnext w = 0"
  shows "\<exists>w' k'. to_access_buffer demo_net 1 2 k w = Some w' \<and> waiting w' 0 = Some k'"
  using assms
  by (simp add: to_access_buffer_def mac_addresses_def fn_NetSim_GetBufferStatus_def demo_buffer_def fn_NetSim_FIFO_def append_chain_def
      chain_last_def add_ip_event_def as_buf_frame_def Let_def)

lemma demo_departure:
  "\<exists>u' k'. fn_NetSim_IP_Run demo_net demo_calls (demo_router [] [] demo_asked) = Some u' \<and> waiting u' 0 = Some k'"
proof -
  let ?k = "stamp_packet 100 demo_onward"
  have k: "szNextHopIp ?k = None" "pstruTransportData ?k = None" "szDestIP ?k = mk_ip4 0x0B000009" "destInfo ?k = [3]" "szSourceIP ?k = mk_ip4 0x0A000007"
    by (simp_all add: stamp_packet_def)
  have local: "nat_local demo_net 1 (mk_ip4 0x0B000009)"
    unfolding nat_local_def by (rule bexI [of _ 2]) (simp_all add: demo_network_def)
  have nat: "fn_NetSim_NAT_NetworkOut demo_net 1 q = Some q" if "destInfo q = [3]" "szDestIP q = mk_ip4 0x0B000009" for q
    using that by (simp add: fn_NetSim_NAT_NetworkOut_def local del: One_nat_def)
  let ?w = "set_event_packet ?k (demo_router [] [] demo_asked)"
  have w: "ip_device ?w = 1" "ip_tab ?w 1 = demo_table" "ip_dev ?w 1 = Some (demo_ipvar [] [])" "set_event_packet ?k ?w = ?w"
    "ip_now (demo_router [] [] demo_asked) = 100"
    by (simp_all add: set_event_packet_def ip_now_def)
  have "fn_NetSim_IP_Run demo_net demo_calls (demo_router [] [] demo_asked) = route_by_function demo_net demo_calls ?w"
    by (simp add: fn_NetSim_IP_Run_def network_out_def fnGetLocalNetworkProtocol_def ARP_PROTOCOL_def w k nat demo_static_lookup
        del: One_nat_def)
  moreover have "\<exists>u' k'. route_by_function demo_net demo_calls ?w = Some u' \<and> waiting u' 0 = Some k'"
  proof -
    have no_more: "send_hops demo_net demo_calls q [] = Some" for q
      by (rule ext) simp
    let ?v = "?w\<lparr>ip_tab := (ip_tab ?w)(1 := demo_table)\<rparr>"
    let ?q = "lower_header demo_net 1 2 0 (ip_now ?v) (?k\<lparr>szNextHopIp := Some (mk_ip4 0x0B000009), szGatewayIP := Some (mk_ip4 0x0B000001)\<rparr>)"
    let ?x = "upd_ip_metrics (\<lambda>m. m\<lparr>nPacketSent := nPacketSent m + 1\<rparr>) ?v"
    have "route_by_function demo_net demo_calls ?w = send_hops demo_net demo_calls ?k [\<lparr>hop_nextHop = mk_ip4 0x0B000009,
        hop_gateway = mk_ip4 0x0B000001, hop_interfaceId = 2, hop_nextHopId = 0\<rparr>] ?v"
      by (simp add: route_by_function_def route_by_protocol_def demo_calls_def k route_by_table_def fn_NetSim_IP_RoutePacket_def
          demo_lookup [OF w(1,3,2) k(3)] del: One_nat_def send_hops.simps)
    also have "\<dots> = to_access_buffer demo_net 1 2 ?q ?x"
      by (simp add: no_more k pass_to_lower_layer_def lower_target_def NETWORK_Firewall_def fn_NetSim_Firewall_def get_dest_ip_def PROTOCOL_VPN_def
          Let_def del: One_nat_def)
    finally show ?thesis
      using demo_enqueue [of ?q "mk_ip4 0x0B000001" "mk_ip4 0x0B000009" ?x]
      by (simp add: lower_header_def upd_ip_metrics_def set_event_packet_def demo_ip_world_def demo_eth_world_def ETH_WORLD.extend_def Let_def del: One_nat_def)
  qed
  ultimately show ?thesis by simp
qed

theorem forwarded_fewer_than_ttl_witness:
  "\<exists>a. forwarded demo_net demo_calls 64 a \<and> 1 < unat (64 :: u8)"
proof -
  let ?w = "demo_router [] [] (demo_event NETWORK_IN_EVENT (Some demo_arrived))"
  have k: "nTTL demo_arrived = 64" "transport_packet demo_arrived"
    by (simp_all add: demo_arrived_def transport_packet_def ip_protocols ARP_PROTOCOL_def)
  obtain u' k' where u': "fn_NetSim_IP_Run demo_net demo_calls (demo_router [] [] demo_asked) = Some u'" "waiting u' 0 = Some k'"
    using demo_departure by blast
  have "demo_asked \<in> set (eadded (reroute (take_off_header demo_arrived) (set_event_packet (take_off_header demo_arrived)
      (set_event_packet (take_off_header demo_arrived) ?w))))"
    by (simp add: reroute_def upd_ip_metrics_def add_ip_event_def set_event_packet_def demo_asked_def demo_onward_def Let_def)
  with forwarded.intros [of ?w demo_arrived demo_net demo_calls _ demo_asked "demo_router [] [] demo_asked" u' 0 k'] k u' demo_arrival_run
  have f: "forwarded demo_net demo_calls 64 (nTTL k')" by simp
  have "1 < unat ((\<lambda>i. if i = 0 then 64 else nTTL k') (0 :: nat))"
    by (rule forwarded_fewer_than_ttl [OF demo_static]) (use f in auto)
  with f show ?thesis by auto
qed

definition demo_two_hops :: "HOP list" where
  "demo_two_hops = map (hop_by (demo_route 0xE0000009 0xFF000000 306 []) (mk_ip4 0xE0000009)) [demo_if2, demo_if1]"

theorem denied_copy_stops_the_rest_witness:
  "\<exists>w'. send_hops demo_net demo_calls demo_tcp demo_two_hops (demo_router [demo_deny] [] (demo_event NETWORK_OUT_EVENT (Some demo_tcp))) = Some w'
     \<and> waiting w' = (\<lambda>p. None)
     \<and> NETWORK_Firewall demo_net 1 1 demo_tcp ACLTYPE_OUTBOUND (demo_router [demo_deny] [] (demo_event NETWORK_OUT_EVENT None)) = Some ACLACTION_PERMIT"
proof -
  let ?w = "demo_router [demo_deny] [] (demo_event NETWORK_OUT_EVENT (Some demo_tcp))"
  have deny: "NETWORK_Firewall demo_net 1 2 q ACLTYPE_OUTBOUND v = Some ACLACTION_DENY"
    "NETWORK_Firewall demo_net 1 1 q ACLTYPE_OUTBOUND v = Some ACLACTION_PERMIT"
    if "szDestIP q = mk_ip4 0x0B000009" "destInfo q = [3]" "ip_dev v 1 = Some (demo_ipvar [demo_deny] [])" for q v
    using that by (simp_all add: NETWORK_Firewall_def fn_NetSim_Firewall_def get_dest_ip_def demo_deny_def acl_hit_def Let_def del: One_nat_def)
  have "\<exists>w'. send_hops demo_net demo_calls demo_tcp demo_two_hops ?w = Some w'"
    by (simp add: demo_two_hops_def hop_by_def demo_route_def pass_to_lower_layer_def lower_target_def deny PROTOCOL_VPN_def
        drop_event_packet_def upd_ip_metrics_def Let_def del: One_nat_def)
  then obtain w' where run: "send_hops demo_net demo_calls demo_tcp demo_two_hops ?w = Some w'" by blast
  have two: "demo_two_hops = hop_by (demo_route 0xE0000009 0xFF000000 306 []) (mk_ip4 0xE0000009) demo_if2
      # [hop_by (demo_route 0xE0000009 0xFF000000 306 []) (mk_ip4 0xE0000009) demo_if1]"
    by (simp add: demo_two_hops_def)
  have "waiting w' = waiting ?w"
    using denied_copy_stops_the_rest [OF run [unfolded two]] by (simp add: hop_by_def deny PROTOCOL_VPN_def del: One_nat_def)
  with run deny(2) show ?thesis by simp
qed

end
