(* ===== verification/Spec2Isabelle.thy ===== *)
theory Spec2Isabelle
  imports Aodv_Reach Aodv_Routes Aodv_Answer Tcp_Delivery Tcp_Window Tcp_Recovery Tcp_Header
    Tcp_Cubic_Growth Tcp_States Tcp_World_Queues Netsim_Fairness Netsim_Edf
    Arp_Truth Arp_Forward Eth_Example Ip_Example
begin

text \<open>
  A model of the congestion-aware AODV routing protocol, the TCP protocol, the network layer with its
  packet filter, address resolution, Ethernet and the packet buffer of the NetSim network simulator, and
  what they guarantee.  The
  sources are under
  \<open>src/CC_AODV/src/Simulation/\<close>; file names below are relative to it.

  \<^bold>\<open>The program.\<close>  NetSim is a discrete event simulator.  Its kernel (a binary library)
  calls the protocols of a device with one event at a time; a protocol reads the event, changes
  its tables and the packet, and hands new events to the kernel.  The repository changes one
  protocol, AODV (\<open>AODV/\<close>), which finds routes on demand in an ad hoc network: a route request
  floods the network in rings of growing radius, a reply travels back along the recorded
  reverse routes, a route error announces a broken link; the change adds a counter of recent
  requests to every device, beyond which it drops requests.  TCP (\<open>TCP/\<close>) is the transport
  protocol above it: connections, ordered delivery, retransmission, selective acknowledgement
  and congestion control.  The network layer (\<open>IP/\<close>) chooses the interface and the next hop of a packet by
  routing tables, and the packet filter (\<open>Firewall/\<close>) may deny it there or at a port of a switch.
  Packets that leave the network layer wait in the buffer of an interface
  (\<open>SupportFunction/\<close>) until the link takes them.  Ethernet (\<open>Ethernet/\<close>) carries frames between
  the ports of switches and stations, along a spanning tree that the switches agree on.

  \<^bold>\<open>Conventions.\<close>  Machine integers keep their width (\<^typ>\<open>8 word\<close>, \<^typ>\<open>16 word\<close>,
  \<^typ>\<open>32 word\<close>) and wrap; \<open>double\<close> is \<^typ>\<open>real\<close>.  An operation returns an
  option: \<^const>\<open>None\<close> is undefined behaviour of the C program (a null or freed pointer, an index out of
  range, a division by zero, a shift by the width), a failing \<open>assert\<close>, or a loop that never
  ends; so a theorem that an operation returns \<^const>\<open>Some\<close> also says that it is free of those.  What
  the libraries without sources provide (device addresses, the application interface, packet
  creation) is a field of an environment record (\<open>NETSIM_STACK\<close>, \<open>TCP_ENV\<close>) that the
  operations take as an argument; properties name what they need of it.  Linked lists are
  lists; AODV packets are shared between events and tables and live in a store addressed by
  numbers, TCP packets have one owner and are values.

  \<^bold>\<open>Prelude.\<close>  \<open>Netsim_Prelude\<close> holds the word types, C conversions, lemmas on lists and
  options, and two interfaces: \<open>addressed_table\<close> (a list searched by address behaves as a
  finite map) and \<open>reactive_system\<close> (runs of a step function and their invariants).
  \<open>Netsim_IP\<close> models \<open>Include/IP_Addressing.h\<close>.

  \<^bold>\<open>AODV.\<close>
  \<^item> \<open>Aodv_Types\<close>, \<open>Netsim_World\<close>: the structures of \<open>AODV/AODV.h\<close>, \<open>Include/Packet.h\<close> and
    \<open>Include/Stack.h\<close>; the state a call sees (device variables, packet store, event, events
    handed to the kernel).
  \<^item> \<open>Aodv_RouteTable\<close> (\<open>RouteTable.c\<close>, \<open>AODV_CheckRouteFound.c\<close>), \<open>Aodv_Fifo\<close>
    (\<open>FIFOBuffer.c\<close>), \<open>Aodv_Lib\<close> (\<open>AODVlib.c\<close>), \<open>Aodv_Rreq\<close> (\<open>RREQ.c\<close> up to the retry),
    \<open>Aodv_Rrep\<close> (\<open>RREP.c\<close> and \<open>fn_NetSim_AODV_ProcessRREQ\<close>), \<open>Aodv_Rerr\<close>
    (\<open>AODV_RouteError.c\<close>, \<open>RouteMaint.c\<close>), \<open>Aodv_Run\<close> (\<open>GeneralPacketProcessing.c\<close>,
    \<open>HelloMessage.c\<close>, \<open>AODV.c\<close>): one definition per function, a loop as a recursive function
    of its own.
  \<^item> \<open>Aodv_Tables\<close>, \<open>Aodv_Invariant\<close>: what every operation keeps of the well-formedness of the
    tables, stated once for any property of a device that the writes of the protocol keep (the
    interfaces \<open>device_quiet\<close> and \<open>device_invariant\<close>) and instantiated with the tables, the
    seen requests and the precursors.
  \<^item> \<open>Aodv_Reach\<close>: every run keeps the tables well formed and processes a request once.
    \<open>Aodv_Routes\<close>: the routing table refines a finite map; freshness; expiry; route errors.
    \<open>Aodv_Discovery\<close>: retries, the expanding ring and its end.  \<open>Aodv_Data\<close>: buffering and
    sending of data.  \<open>Aodv_Answer\<close>: who answers, drops or forwards a request.
    \<open>Aodv_Example\<close> has the concrete states of the witnesses.

  \<^bold>\<open>TCP.\<close>
  \<^item> \<open>Tcp_Types\<close> (\<open>TCP.h\<close>, \<open>TCB.h\<close>, \<open>TCP_Header.h\<close>), \<open>Tcp_Queue\<close> (\<open>TCB.c\<close>; the interface
    \<open>ordered_chain\<close> for insertion by sequence number; then \<open>RTO.c\<close>,
    \<open>WindowScale.c\<close>, \<open>DelayedAck.c\<close>), \<open>Tcp_Packet\<close> (\<open>TCP_Packet.c\<close>), \<open>Tcp_Send\<close>
    (\<open>TCP_Outgoing.c\<close>, \<open>TCP_NetworkInterface.c\<close>, \<open>SACK.c\<close>), \<open>Tcp_Congestion\<close>
    (\<open>Congestion.c\<close>), \<open>Tcp_Cubic\<close> (\<open>CUBIC.c\<close>), \<open>Tcp_Connection\<close> (\<open>TCP_Connection.c\<close>, \<open>TCP_Socket.c\<close>, the timers of
    \<open>RTO.c\<close> and \<open>TCP.c\<close>), \<open>Tcp_Incoming\<close> (\<open>TCP_Incoming.c\<close>, \<open>TCP_ApplicationInterface.c\<close>,
    \<open>TCP_NetworkInterface.c\<close>): the calls on one socket.  \<open>Tcp_World\<close> (\<open>TCP_Socket.c\<close>,
    \<open>TCP_ApplicationInterface.c\<close>, \<open>TCP.c\<close>): the sockets of all devices, addressed by numbers
    that stand for pointers, their lists, the dispatch of events.  The loops whose end depends on data (\<open>send_loop\<close>,
    \<open>pipe_loop\<close>, \<open>loss_loop\<close>, \<open>drain_loop\<close>, \<open>close_all_socket\<close>) are partial functions into option.
  \<^item> \<open>Tcp_Delivery\<close>: queues and ordered delivery.  \<open>Tcp_Window\<close>: timeout range, sending within
    the window, window growth.  \<open>Tcp_Recovery\<close>: duplicate acknowledgements, timer expiry,
    pipe, choice of the next segment.  \<open>Tcp_Cubic_Growth\<close>: CUBIC on acknowledgements of new data.
    \<open>Tcp_Header\<close>: header length and options.
    \<open>Tcp_Keeps\<close>: what every call on a socket keeps of its state, its queues and its addresses
    (the interfaces \<open>socket_invariant\<close> and \<open>stateless_invariant\<close>).  \<open>Tcp_States\<close>: the
    connection state over a segment arrival.  \<open>Tcp_Sockets\<close>, \<open>Tcp_Demux\<close>: the socket lists over
    all events, which socket a segment finds, accepting and closing.  \<open>Tcp_World_Queues\<close>: the
    queues of all connections.  \<open>Tcp_Example\<close> has the concrete values of the witnesses.

  \<^bold>\<open>Packet buffer.\<close>
  \<^item> \<open>Netsim_Buffer\<close> (\<open>SupportFunction/Scheduling.c\<close>, \<open>Scheduling.h\<close>): admission by drop tail, RED and
    WRED, the schedulers FIFO, priority, round robin, fair queuing and earliest deadline first, and
    the operations add, take and status.  A chain of packets is a list; the array of class heads is
    a list of five cells.
  \<^item> \<open>Netsim_Schedulers\<close>, \<open>Netsim_Classes\<close>: the interface \<open>packet_scheduler\<close> (a packet added is held
    until it is handed out once) and its four instances.  \<open>Netsim_Accounting\<close>: the byte count.
    \<open>Netsim_Buffer_Spec\<close>: the interface \<open>buffer_scheduler\<close> of a whole buffer.
    \<open>Netsim_Buffer_Reach\<close>: what holds in every reachable buffer, and the order of FIFO and
    priority (\<open>chain_scheduler\<close>).  \<open>Netsim_Fairness\<close>: round robin and fair queuing.  \<open>Netsim_Edf\<close>:
    deadlines.  The properties add one packet at a time and take sizes of at least one byte, a
    limit below \<open>2 ^ 31\<close> bytes and the four priorities of the source.

  \<^bold>\<open>Address resolution.\<close>
  \<^item> \<open>Arp\<close> (\<open>ARP/\<close>): the table, requests and replies, the packets that wait, the timer.
    \<open>Arp_Truth\<close>: in every run of all interfaces the tables map an address to the link address of its
    owner.  \<open>Arp_Forward\<close>: what a reply does, and what it and the timer forget.  \<open>Arp_Example\<close> has
    the concrete network of the witnesses.

  \<^bold>\<open>Ethernet.\<close>
  \<^item> \<open>Eth_Types\<close> (\<open>Ethernet.h\<close>), \<open>Eth_SpanningTree\<close> (\<open>SpanningTree.c\<close>), \<open>Eth_Mac\<close> (\<open>Ethernet_Mac.c\<close>,
    \<open>SwitchTable.c\<close>, \<open>Vlan.c\<close>), \<open>Eth_Phy\<close> (\<open>Ethernet_Phy.c\<close>, \<open>Ethernet.c\<close>): one definition per function
    over the state of all devices.  A frame has one owner and is a value; a frame in a buffer is held
    by the buffer of \<open>Netsim_Buffer\<close>.  Which LAN an interface belongs to, the other end of a link, the
    header of a frame are functions of libraries without sources; the packet filter is an argument, which
    \<open>Ip_Port\<close> instantiates with the model of \<open>Firewall/firewall.c\<close>.
  \<^item> The spanning tree: \<open>Netsim_Election\<close> is the election of a root by costs and identifiers in any
    finite graph (the interface \<open>label_election\<close>), with its termination and its result; \<open>Eth_Net\<close> gives
    the graph of the switches and interprets the interface on it; \<open>Eth_Stp\<close>, \<open>Eth_Election\<close>, \<open>Eth_Tree\<close>
    and \<open>Eth_Start\<close> show that the handlers and the start do the steps of the election; \<open>Eth_Agree\<close>
    carries the result over.  The hypotheses: \<open>bpdu_lib\<close> (the library returns the header it was given
    and lists every receiver once), \<open>stp_net\<close> (links go both ways, the switches have different
    identifiers, the costs do not overflow), \<open>lone\<close> (a switch has one LAN).  Between the physical
    layers frames are carried without loss and in any order (\<open>carried\<close>).
  \<^item> \<open>Eth_Link\<close>: a port sends one frame at a time, and no waiting frame is forgotten.  \<open>Eth_Switch\<close>:
    forwarding, flooding and the switch table.  \<open>Eth_Example\<close>
    has the concrete networks of the witnesses.

  \<^bold>\<open>Network layer and packet filter.\<close>
  \<^item> \<open>Ip_Types\<close> (\<open>IP.h\<close>): tables, gateways, and a state that extends the one of Ethernet.  \<open>Ip_Firewall\<close>
    (\<open>Firewall/firewall.c\<close>), \<open>Ip_Routing\<close> (\<open>IP_Routing.c\<close>, \<open>Multicast.c\<close>, \<open>ICMP_CHECKSTATE\<close>), \<open>Ip_Send\<close>
    (\<open>pass_to_lower_layer\<close>, \<open>NAT.c\<close>), \<open>Ip_Icmp\<close> (\<open>ICMP.c\<close>), \<open>Ip_Run\<close> (\<open>fn_NetSim_IP_Run\<close> of \<open>IP.c\<close>).
    What a call of another protocol does to the state (the local protocol of an interface, the routing protocol of
    a router, IGMP, PIM, VPN, the unreachable callback) is a field of the record \<open>IP_CALLS\<close>; the functions of the
    libraries (address arithmetic, the list of matches, the wrapper of a routing table) are fields of \<open>IP_ENV\<close>.
    An entry of a table that the code reaches by a pointer is a position of the table, so a lookup that
    writes to the entry it found changes the table here as well.
  \<^item> \<open>Ip_Access\<close>: the verdict of an access list and the text of masks.  \<open>Ip_Port\<close>: a closed port of a switch, for the
    filter and the link layer together.  \<open>Ip_Match\<close>: the longest prefix.  \<open>Ip_Gateway\<close>: polls and pings.
    \<open>Ip_Tables\<close>: what all events keep of the routing tables.  \<open>Ip_Journey\<close>: packets through many routers.
    \<open>Ip_Example\<close> has the router of the witnesses.  The hypotheses: \<open>adds_in_order\<close> (the list functions insert by the
    comparison they are given), \<open>reads_dotted\<close> (addresses are parsed and written in binary), \<open>tables_lib\<close> and
    \<open>typed_calls\<close> (the library and other protocols add no foreign interface to a table), \<open>static_only\<close> (no
    other protocol takes part), \<open>filtered\<close> (the link layer asks the packet filter).

  \<^bold>\<open>Not modelled.\<close>  Log and plot files, the exported functions that only call the binary
  library (configuration, metrics, packet trace), the initial entries and the configuration of the network
  layer, and the other protocols of the simulator: those that the network layer calls (IGMP, PIM, VPN, DNS) are
  arguments of the model, the rest is not called by the parts above.
\<close>

end
